(* ===== verification/Prelude.thy ===== *)
theory Prelude
  imports Complex_Main "HOL-Library.AList" "HOL-Library.Multiset" "HOL-Library.Sublist"
begin

text \<open>The library the component theories share.

  \<^item> JavaScript's Map keeps its entries in insertion order and \<open>set\<close> on a key that is
    present overwrites in place: it is an association list, read by \<open>map_of\<close>, written by
    \<open>AList.update\<close>, erased by \<open>AList.delete\<close>; \<open>wf_map\<close> is the fact that every key occurs
    once, which each of these keeps.
  \<^item> JavaScript's Set built from an array and read back as an array is \<open>js_unique\<close>: the
    first occurrence of each element, in order.
  \<^item> \<open>Array.prototype.sort\<close> with a comparator is \<open>js_sort\<close>, the stable insertion sort;
    the locale \<open>comparator\<close> holds the laws a consistent comparator obeys and the facts a
    sort by such a comparator has.
  \<^item> \<open>push_sat\<close> and the list facts at the end are used by several components.\<close>

named_theorems js_map_simps \<open>rewriting of the Map operations\<close>
named_theorems js_list_simps \<open>rewriting of the Set and Array operations\<close>

section \<open>Map\<close>

type_synonym ('k, 'v) js_map = "('k \<times> 'v) list"

abbreviation map_set :: "'k \<Rightarrow> 'v \<Rightarrow> ('k, 'v) js_map \<Rightarrow> ('k, 'v) js_map" where
  "map_set k v m \<equiv> AList.update k v m"

abbreviation map_del :: "'k \<Rightarrow> ('k, 'v) js_map \<Rightarrow> ('k, 'v) js_map" where
  "map_del k m \<equiv> AList.delete k m"

abbreviation map_keys :: "('k, 'v) js_map \<Rightarrow> 'k list" where
  "map_keys m \<equiv> map fst m"

abbreviation map_has :: "('k, 'v) js_map \<Rightarrow> 'k \<Rightarrow> bool" where
  "map_has m k \<equiv> map_of m k \<noteq> None"

definition wf_map :: "('k, 'v) js_map \<Rightarrow> bool" where
  "wf_map m = distinct (map fst m)"

lemma wf_map_Nil [simp, intro]: "wf_map []"
  by (simp add: wf_map_def)

lemma wf_map_set [simp, intro]: "wf_map m \<Longrightarrow> wf_map (map_set k v m)"
  by (simp add: wf_map_def distinct_update)

lemma wf_map_del [simp, intro]: "wf_map m \<Longrightarrow> wf_map (map_del k m)"
  by (simp add: wf_map_def distinct_delete)

lemma wf_map_filter [simp, intro]: "wf_map m \<Longrightarrow> wf_map (filter P m)"
  by (simp add: wf_map_def distinct_map inj_on_filter_key_eq[symmetric] inj_on_def)

lemma map_of_set [simp, js_map_simps]: "map_of (map_set k v m) = (map_of m)(k \<mapsto> v)"
  by (rule update_conv')

lemma map_of_del [simp, js_map_simps]: "map_of (map_del k m) = (map_of m)(k := None)"
  by (rule delete_conv')

lemma map_of_wf_iff: "wf_map m \<Longrightarrow> (map_of m k = Some v) = ((k, v) \<in> set m)"
  by (simp add: wf_map_def)

lemma map_of_filter_key [js_map_simps]:
  "map_of (filter (\<lambda>e. P (fst e)) m) k = (if P k then map_of m k else None)"
  by (induction m) (auto split: if_splits)

lemma map_of_filter_val:
  "wf_map m \<Longrightarrow> map_of (filter (\<lambda>e. P (snd e)) m) k =
    (case map_of m k of None \<Rightarrow> None | Some v \<Rightarrow> if P v then Some v else None)"
  by (induction m) (auto simp: wf_map_def image_iff split: option.splits dest: map_of_SomeD)

lemma set_map_keys: "set (map_keys m) = dom (map_of m)"
  by (simp add: dom_map_of_conv_image_fst)

lemma map_keys_set_present:
  "map_of m k \<noteq> None \<Longrightarrow> map_keys (map_set k v m) = map_keys m"
  by (induction m) auto

lemma map_keys_set_absent:
  "map_of m k = None \<Longrightarrow> map_set k v m = m @ [(k, v)]"
  by (induction m) (auto split: if_splits)

lemma map_keys_del [js_map_simps]: "map_keys (map_del k m) = filter (\<lambda>x. x \<noteq> k) (map_keys m)"
  by (simp add: delete_keys removeAll_filter_not_eq) metis

lemma map_del_absent: "map_of m k = None \<Longrightarrow> map_del k m = m"
  by (simp add: map_of_eq_None_iff delete_idem)

lemma length_map_set:
  "length (map_set k v m) = (if map_of m k = None then Suc (length m) else length m)"
  by (induction m) (auto split: if_splits)

lemma length_map_del_le: "length (map_del k m) \<le> length m"
  by (induction m) (auto simp: le_SucI)

lemma map_of_wf_card: "wf_map m \<Longrightarrow> length m = card (dom (map_of m))"
proof -
  assume "wf_map m"
  then have "card (set (map_keys m)) = length (map_keys m)"
    unfolding wf_map_def by (rule distinct_card)
  then show ?thesis by (simp only: set_map_keys length_map)
qed

section \<open>Set and Array\<close>

fun js_unique :: "'a list \<Rightarrow> 'a list" where
  "js_unique [] = []"
| "js_unique (x # xs) = x # filter (\<lambda>y. y \<noteq> x) (js_unique xs)"

lemma set_js_unique [simp, js_list_simps]: "set (js_unique xs) = set xs"
  by (induction xs) auto

lemma distinct_js_unique [simp, intro]: "distinct (js_unique xs)"
  by (induction xs) auto

lemma js_unique_distinct: "distinct xs \<Longrightarrow> js_unique xs = xs"
  by (induction xs) (auto simp: filter_id_conv)

lemma js_unique_filter: "js_unique (filter P xs) = filter P (js_unique xs)"
  by (induction xs) (auto intro: filter_cong)

lemma js_unique_idem [simp]: "js_unique (js_unique xs) = js_unique xs"
  by (simp add: js_unique_distinct)

lemma js_unique_Nil_iff [simp]: "js_unique xs = [] \<longleftrightarrow> xs = []"
  by (cases xs) auto

lemma js_unique_append:
  "js_unique (xs @ ys) = js_unique xs @ filter (\<lambda>y. y \<notin> set xs) (js_unique ys)"
  by (induction xs) (auto intro: filter_cong)

lemma length_js_unique_le: "length (js_unique xs) \<le> length xs"
  by (induction xs) (auto intro: le_trans[OF length_filter_le])

fun js_insert :: "('a \<Rightarrow> 'a \<Rightarrow> int) \<Rightarrow> 'a \<Rightarrow> 'a list \<Rightarrow> 'a list" where
  "js_insert cmp x [] = [x]"
| "js_insert cmp x (y # ys) = (if cmp x y \<le> 0 then x # y # ys else y # js_insert cmp x ys)"

definition js_sort :: "('a \<Rightarrow> 'a \<Rightarrow> int) \<Rightarrow> 'a list \<Rightarrow> 'a list" where
  "js_sort cmp xs = foldr (js_insert cmp) xs []"

lemma js_sort_simps [simp]:
  "js_sort cmp [] = []"
  "js_sort cmp (x # xs) = js_insert cmp x (js_sort cmp xs)"
  by (simp_all add: js_sort_def)

lemma mset_js_insert [simp]: "mset (js_insert cmp x ys) = add_mset x (mset ys)"
  by (induction ys) auto

lemma mset_js_sort [simp, js_list_simps]: "mset (js_sort cmp xs) = mset xs"
  by (induction xs) auto

lemma set_js_sort [simp, js_list_simps]: "set (js_sort cmp xs) = set xs"
  by (metis mset_js_sort set_mset_mset)

lemma length_js_sort [simp]: "length (js_sort cmp xs) = length xs"
  by (metis mset_js_sort size_mset)

lemma distinct_js_sort [simp]: "distinct (js_sort cmp xs) = distinct xs"
  by (metis mset_js_sort mset_eq_imp_distinct_iff)

lemma js_sort_Nil_iff [simp]: "js_sort cmp xs = [] \<longleftrightarrow> xs = []"
  by (metis length_0_conv length_js_sort)

text \<open>The laws of a consistent comparator, as \<open>Array.prototype.sort\<close> requires them. Equality
  is not required: two different values may compare as 0.\<close>

locale comparator =
  fixes cmp :: "'a \<Rightarrow> 'a \<Rightarrow> int"
  assumes sign: "cmp x y < 0 \<longleftrightarrow> 0 < cmp y x"
    and trans: "cmp x y \<le> 0 \<Longrightarrow> cmp y z \<le> 0 \<Longrightarrow> cmp x z \<le> 0"
begin

lemma refl: "cmp x x = 0"
  using sign[of x x] by linarith

lemma total: "cmp x y \<le> 0 \<or> cmp y x \<le> 0"
  using sign[of x y] sign[of y x] by linarith

lemma zero_sym: "cmp x y = 0 \<longleftrightarrow> cmp y x = 0"
  using sign[of x y] sign[of y x] by linarith

lemma zero_left: "cmp x y = 0 \<Longrightarrow> (cmp x z \<le> 0) = (cmp y z \<le> 0)"
  using trans[of x y z] trans[of y x z] zero_sym[of x y] by auto

lemma insert_sorted:
  "sorted_wrt (\<lambda>a b. cmp a b \<le> 0) ys \<Longrightarrow> sorted_wrt (\<lambda>a b. cmp a b \<le> 0) (js_insert cmp x ys)"
proof (induction ys)
  case (Cons y ys)
  have "set (js_insert cmp x ys) = insert x (set ys)"
    by (metis mset_js_insert set_mset_add_mset_insert set_mset_mset)
  with Cons show ?case using total[of x y] trans[of x y] by auto
qed simp

lemma sort_sorted: "sorted_wrt (\<lambda>a b. cmp a b \<le> 0) (js_sort cmp xs)"
  by (induction xs) (auto intro: insert_sorted)

lemma insert_stable:
  "sorted_wrt (\<lambda>a b. cmp a b \<le> 0) ys \<Longrightarrow>
   filter (\<lambda>y. cmp y z = 0) (js_insert cmp x ys) = filter (\<lambda>y. cmp y z = 0) (x # ys)"
proof (induction ys)
  case (Cons y ys)
  have "\<not> cmp x y \<le> 0 \<Longrightarrow> cmp x z = 0 \<Longrightarrow> cmp y z \<noteq> 0"
    using zero_left[of x z y] zero_sym[of y z] trans[of x z y] by auto
  with Cons show ?case by auto
qed simp

lemma sort_stable: "filter (\<lambda>y. cmp y z = 0) (js_sort cmp xs) = filter (\<lambda>y. cmp y z = 0) xs"
  by (induction xs) (simp_all add: insert_stable sort_sorted)

lemma sort_prefix_le:
  "a \<in> set (take n (js_sort cmp xs)) \<Longrightarrow> b \<in> set (drop n (js_sort cmp xs)) \<Longrightarrow> cmp a b \<le> 0"
  using sort_sorted[of xs]
  by (metis append_take_drop_id sorted_wrt_append)

text \<open>A sort by a comparator that tells all elements of the list apart depends on the multiset
  of the elements only.\<close>

lemma sorted_unique:
  "mset xs = mset ys \<Longrightarrow> sorted_wrt (\<lambda>a b. cmp a b \<le> 0) xs \<Longrightarrow> sorted_wrt (\<lambda>a b. cmp a b \<le> 0) ys \<Longrightarrow>
   (\<And>a b. a \<in> set xs \<Longrightarrow> b \<in> set xs \<Longrightarrow> cmp a b = 0 \<Longrightarrow> a = b) \<Longrightarrow> xs = ys"
proof (induction xs arbitrary: ys)
  case (Cons x xs)
  obtain y ys' where ys: "ys = y # ys'" using Cons.prems(1) by (cases ys) auto
  have sets: "set (x # xs) = set (y # ys')" using Cons.prems(1) ys by (metis set_mset_mset)
  have "cmp x y \<le> 0" "cmp y x \<le> 0" using Cons.prems(2,3) sets refl[of x] ys by fastforce+
  then have "cmp x y = 0" using sign[of x y] sign[of y x] by linarith
  then have xy: "x = y" using Cons.prems(4) sets by auto
  then have "xs = ys'" using Cons ys by auto
  then show ?case using ys xy by simp
qed simp

lemma sort_unique:
  assumes "mset xs = mset ys" "\<And>a b. a \<in> set xs \<Longrightarrow> b \<in> set xs \<Longrightarrow> cmp a b = 0 \<Longrightarrow> a = b"
  shows "js_sort cmp xs = js_sort cmp ys"
  by (rule sorted_unique) (auto simp: assms(1) sort_sorted dest: assms(2))

end

text \<open>A collation to evaluate with: lexicographic comparison of code units. It obeys the comparator
  laws.\<close>

fun codes_compare :: "nat list \<Rightarrow> nat list \<Rightarrow> int" where
  "codes_compare [] [] = 0"
| "codes_compare [] (_ # _) = -1"
| "codes_compare (_ # _) [] = 1"
| "codes_compare (a # as) (b # bs) = (if a < b then -1 else if b < a then 1 else codes_compare as bs)"

definition code_unit_compare :: "string \<Rightarrow> string \<Rightarrow> int" where
  "code_unit_compare a b = codes_compare (map of_char a) (map of_char b)"

lemma codes_compare_zero: "codes_compare a b = 0 \<longleftrightarrow> a = b"
  by (induction a b rule: codes_compare.induct) auto

lemma code_unit_compare_zero: "code_unit_compare a b = 0 \<longleftrightarrow> a = b"
  by (simp add: code_unit_compare_def codes_compare_zero inj_map_eq_map inj_def)

lemma codes_compare_sign: "codes_compare a b < 0 \<longleftrightarrow> 0 < codes_compare b a"
  by (induction a b rule: codes_compare.induct) auto

lemma codes_compare_trans:
  "codes_compare a b \<le> 0 \<Longrightarrow> codes_compare b c \<le> 0 \<Longrightarrow> codes_compare a c \<le> 0"
proof (induction a b arbitrary: c rule: codes_compare.induct)
  case (4 a as b bs)
  show ?case
  proof (cases c)
    case (Cons d ds)
    have "a = b \<Longrightarrow> b = d \<Longrightarrow> codes_compare as ds \<le> 0" using 4 Cons by simp
    then show ?thesis using "4.prems" Cons by (simp split: if_split_asm)
  qed (use "4.prems" in simp)
next
  case (2 b bs)
  then show ?case by (cases c) simp_all
qed simp_all

lemma code_unit_compare_sign: "code_unit_compare a b < 0 \<longleftrightarrow> 0 < code_unit_compare b a"
  unfolding code_unit_compare_def by (rule codes_compare_sign)

lemma code_unit_compare_trans:
  "code_unit_compare a b \<le> 0 \<Longrightarrow> code_unit_compare b c \<le> 0 \<Longrightarrow> code_unit_compare a c \<le> 0"
  unfolding code_unit_compare_def by (rule codes_compare_trans)

interpretation code_unit: comparator code_unit_compare
  by (rule comparator.intro[OF code_unit_compare_sign code_unit_compare_trans])

section \<open>Further list facts\<close>

lemma set_take_filter_subset: "set (take n (filter P xs)) \<subseteq> {x \<in> set xs. P x}"
  using set_take_subset by fastforce

lemma foldl_preserves:
  "I s \<Longrightarrow> (\<And>s x. x \<in> set xs \<Longrightarrow> I s \<Longrightarrow> I (f s x)) \<Longrightarrow> I (foldl f s xs)"
  by (induction xs arbitrary: s) auto

lemma fold_preserves:
  "I s \<Longrightarrow> (\<And>s x. x \<in> set xs \<Longrightarrow> I s \<Longrightarrow> I (f x s)) \<Longrightarrow> I (fold f xs s)"
  by (induction xs arbitrary: s) auto

text \<open>\<open>new Map(entries)\<close>: a later entry for the same key replaces the value of the earlier one.\<close>

definition map_from :: "('k \<times> 'v) list \<Rightarrow> ('k, 'v) js_map" where
  "map_from es = foldl (\<lambda>m (k, v). map_set k v m) [] es"

lemma map_of_map_from: "map_of (map_from es) k = map_of (rev es) k"
proof -
  have "map_of (foldl (\<lambda>m (k, v). map_set k v m) m es) k = (map_of m ++ map_of (rev es)) k" for m
    by (induction es arbitrary: m) (auto simp: map_add_def split: option.split)
  then show ?thesis by (simp add: map_from_def)
qed

lemma wf_map_from [simp, intro]: "wf_map (map_from es)"
proof -
  have "wf_map m \<Longrightarrow> wf_map (foldl (\<lambda>m (k, v). map_set k v m) m es)" for m
    by (induction es arbitrary: m) auto
  then show ?thesis by (simp add: map_from_def)
qed

lemma map_from_index:
  "map_of (map_from (map (\<lambda>x. (f x, x)) xs)) k = Some v \<Longrightarrow> v \<in> set xs \<and> f v = k"
  by (auto simp: map_of_map_from dest!: map_of_SomeD)

text \<open>An optional string that is falsy: absent or empty.\<close>

definition truthy :: "string option \<Rightarrow> bool" where
  "truthy s = (case s of None \<Rightarrow> False | Some x \<Rightarrow> x \<noteq> [])"

lemma truthy_simps [simp]: "\<not> truthy None" "truthy (Some x) \<longleftrightarrow> x \<noteq> []"
  by (simp_all add: truthy_def)

text \<open>\<open>a ?? b\<close>.\<close>

definition or_else :: "'a option \<Rightarrow> 'a option \<Rightarrow> 'a option" where
  "or_else a b = (case a of Some x \<Rightarrow> Some x | None \<Rightarrow> b)"

lemma or_else_simps [simp]: "or_else (Some x) b = Some x" "or_else None b = b"
  by (simp_all add: or_else_def)

text \<open>White space, and \<open>trim\<close> of a text that begins with another character.\<close>

definition js_space :: "char \<Rightarrow> bool" where
  "js_space c = (of_char c \<in> {9, 10, 11, 12, 13, 32, 160 :: nat})"

fun trim_end :: "string \<Rightarrow> string" where
  "trim_end [] = []"
| "trim_end (c # s) = (case trim_end s of [] \<Rightarrow> if js_space c then [] else [c] | t \<Rightarrow> c # t)"

text \<open>The decimal text of a number, as a template literal writes it.\<close>

fun nat_str :: "nat \<Rightarrow> string" where
  "nat_str n = (if n < 10 then [char_of (48 + n)] else nat_str (n div 10) @ [char_of (48 + n mod 10)])"

declare nat_str.simps [simp del]

section \<open>Results\<close>

text \<open>A JavaScript function that may throw returns an error or a value, and in both cases the state
  it has changed so far.\<close>

definition and_then :: "('e + 'a) \<times> 's \<Rightarrow> ('a \<Rightarrow> 's \<Rightarrow> ('e + 'b) \<times> 's) \<Rightarrow> ('e + 'b) \<times> 's" where
  "and_then m f = (case m of (Inl e, s) \<Rightarrow> (Inl e, s) | (Inr a, s) \<Rightarrow> f a s)"

lemma and_then_simps [simp]:
  "and_then (Inl e, s) f = (Inl e, s)" "and_then (Inr a, s) f = f a s"
  by (simp_all add: and_then_def)

lemma and_then_cong [fundef_cong]:
  "m = m' \<Longrightarrow> (\<And>a s. m' = (Inr a, s) \<Longrightarrow> f a s = g a s) \<Longrightarrow> and_then m f = and_then m' g"
  by (auto simp: and_then_def split: sum.split prod.split)

lemma and_then_snd:
  "I (snd m) \<Longrightarrow> (\<And>a s. m = (Inr a, s) \<Longrightarrow> I s \<Longrightarrow> I (snd (f a s))) \<Longrightarrow> I (snd (and_then m f))"
  by (auto simp: and_then_def split: sum.split prod.split)

text \<open>A throw of one error type into another.\<close>

definition map_error :: "('e \<Rightarrow> 'f) \<Rightarrow> ('e + 'a) \<times> 's \<Rightarrow> ('f + 'a) \<times> 's" where
  "map_error h m = (case m of (Inl e, s) \<Rightarrow> (Inl (h e), s) | (Inr a, s) \<Rightarrow> (Inr a, s))"

lemma map_error_simps [simp]: "map_error h (Inl e, s) = (Inl (h e), s)" "map_error h (Inr a, s) = (Inr a, s)"
  by (simp_all add: map_error_def)

lemma snd_map_error [simp]: "snd (map_error h m) = snd m"
  by (auto simp: map_error_def split: sum.split prod.split)

end
