(* ===== verification/Outbound_Queue.thy ===== *)
theory Outbound_Queue
  imports Prelude
begin

text \<open>What the gateway promises of a bounded outbound queue, as a contract: the client socket of
  the ingress (runtime/ingress/websocket.ts) and the channel between two nodes
  (runtime/cluster/network.ts) both implement it. A queue takes messages, is drained by a
  microtask, retries after a timer while the socket pushes back, and is over once it is closed.

  A call of the code answers on the socket in ways the code does not choose; here every operation
  is a function of the state, whose socket answers are fixed in advance.\<close>

datatype 'm queue_op = Enqueue 'm | RunDrain | RunTimer

text \<open>Running a list of operations; the first component collects the messages whose enqueue
  returned without an error.\<close>

fun queue_run :: "('m \<Rightarrow> 'c \<Rightarrow> bool \<times> 'c) \<Rightarrow> ('c \<Rightarrow> 'c) \<Rightarrow> ('c \<Rightarrow> 'c) \<Rightarrow> 'm queue_op list \<Rightarrow> 'c \<Rightarrow> 'm list \<times> 'c" where
  "queue_run enq drain tick [] c = ([], c)"
| "queue_run enq drain tick (Enqueue m # ops) c =
    (let (accepted, c1) = enq m c; (ms, c2) = queue_run enq drain tick ops c1
     in (if accepted then m # ms else ms, c2))"
| "queue_run enq drain tick (RunDrain # ops) c = queue_run enq drain tick ops (drain c)"
| "queue_run enq drain tick (RunTimer # ops) c = queue_run enq drain tick ops (tick c)"

locale outbound_queue =
  fixes ok :: "'c \<Rightarrow> bool"
    and closed :: "'c \<Rightarrow> bool"
    and waiting :: "'c \<Rightarrow> 'm list"
    and sent :: "'c \<Rightarrow> 'm list"
    and armed :: "'c \<Rightarrow> bool"
    and enq :: "'m \<Rightarrow> 'c \<Rightarrow> bool \<times> 'c"
    and drain :: "'c \<Rightarrow> 'c"
    and tick :: "'c \<Rightarrow> 'c"
  assumes enq_ok: "ok c \<Longrightarrow> ok (snd (enq m c))"
    and drain_ok: "ok c \<Longrightarrow> ok (drain c)"
    and tick_ok: "ok c \<Longrightarrow> ok (tick c)"
    and enq_accepts: "ok c \<Longrightarrow> enq m c = (True, c') \<Longrightarrow> \<not> closed c' \<Longrightarrow>
          sent c' @ waiting c' = sent c @ waiting c @ [m]"
    and enq_rejects: "ok c \<Longrightarrow> enq m c = (False, c') \<Longrightarrow> \<not> closed c' \<Longrightarrow>
          sent c' @ waiting c' = sent c @ waiting c"
    and drain_keeps: "ok c \<Longrightarrow> \<not> closed (drain c) \<Longrightarrow> sent (drain c) @ waiting (drain c) = sent c @ waiting c"
    and tick_keeps: "ok c \<Longrightarrow> \<not> closed (tick c) \<Longrightarrow> sent (tick c) @ waiting (tick c) = sent c @ waiting c"
    and closed_stays: "ok c \<Longrightarrow> closed c \<Longrightarrow> closed (snd (enq m c)) \<and> closed (drain c) \<and> closed (tick c)"
    and not_stuck: "ok c \<Longrightarrow> \<not> closed c \<Longrightarrow> waiting c \<noteq> [] \<Longrightarrow> armed c"
begin

lemma run_ok: "ok c \<Longrightarrow> ok (snd (queue_run enq drain tick ops c))"
proof (induction ops arbitrary: c)
  case (Cons op ops)
  show ?case
  proof (cases op)
    case (Enqueue m)
    then show ?thesis using Cons.IH[OF enq_ok[OF Cons.prems, of m]] by (simp add: Let_def case_prod_beta)
  qed (use Cons drain_ok tick_ok in auto)
qed simp

lemma run_closed: "ok c \<Longrightarrow> closed c \<Longrightarrow> closed (snd (queue_run enq drain tick ops c))"
proof (induction ops arbitrary: c)
  case (Cons op ops)
  note st = closed_stays[OF Cons.prems]
  show ?case
  proof (cases op)
    case (Enqueue m)
    then show ?thesis using Cons.IH[OF enq_ok[OF Cons.prems(1), of m]] st by (simp add: Let_def case_prod_beta)
  qed (use Cons st drain_ok tick_ok in auto)
qed simp

text \<open>First in, first out, nothing lost and nothing twice: while the queue is open, what was sent
  followed by what waits is what was there before followed by what was accepted.\<close>

lemma run_fifo:
  "ok c \<Longrightarrow> queue_run enq drain tick ops c = (ms, c') \<Longrightarrow> \<not> closed c' \<Longrightarrow>
   sent c' @ waiting c' = sent c @ waiting c @ ms"
proof (induction ops arbitrary: c ms)
  case (Cons op ops)
  show ?case
  proof (cases op)
    case (Enqueue m)
    obtain a c1 where e: "enq m c = (a, c1)" by fastforce
    obtain ms1 c2 where r: "queue_run enq drain tick ops c1 = (ms1, c2)" by fastforce
    have c': "c2 = c'" "ms = (if a then m # ms1 else ms1)" using Cons.prems(2) Enqueue e r by auto
    have ok1: "ok c1" using enq_ok[OF Cons.prems(1), of m] e by simp
    have open1: "\<not> closed c1" using run_closed[OF ok1, of ops] r c' Cons.prems(3) by auto
    have "sent c1 @ waiting c1 = sent c @ waiting c @ (if a then [m] else [])"
      using enq_rejects[OF Cons.prems(1), of m c1] enq_accepts[OF Cons.prems(1), of m c1] e open1 by (cases a) auto
    then show ?thesis using Cons.IH[OF ok1, of ms1] r c' Cons.prems(3) by simp
  next
    case RunDrain
    have ok1: "ok (drain c)" using drain_ok Cons.prems by blast
    have "\<not> closed (drain c)" using run_closed[OF ok1, of ops] Cons.prems RunDrain by auto
    then show ?thesis using Cons.IH[OF ok1, of ms] Cons.prems RunDrain drain_keeps by simp
  next
    case RunTimer
    have ok1: "ok (tick c)" using tick_ok Cons.prems by blast
    have "\<not> closed (tick c)" using run_closed[OF ok1, of ops] Cons.prems RunTimer by auto
    then show ?thesis using Cons.IH[OF ok1, of ms] Cons.prems RunTimer tick_keeps by simp
  qed
qed simp

lemma run_not_stuck:
  "ok c \<Longrightarrow> queue_run enq drain tick ops c = (ms, c') \<Longrightarrow> \<not> closed c' \<Longrightarrow> waiting c' \<noteq> [] \<Longrightarrow> armed c'"
  using run_ok[of c ops] not_stuck by auto

end

end
