(* ===== verification/Shared_Types.thy ===== *)
theory Shared_Types
  imports Prelude
begin

text \<open>The data every component exchanges (src/src/shared): the error codes and the two error
  classes with their conversions (codes.ts, errors.ts), the wire and routing types (types.ts),
  the hand-written envelope guard (envelope.ts) and the constructors of the gateway's own
  system messages (runtime/protocol/system-handlers.ts).

  Optional properties are \<open>option\<close> fields. A value of type \<open>unknown\<close> is a \<open>json\<close> value; its
  numbers are the finite doubles, taken as rationals, or one of the three other values. The
  text of \<open>JSON.parse\<close> is not modelled: the guard starts from the parsed value.\<close>

section \<open>Unknown values\<close>

datatype js_num = Fin rat | PosInf | NegInf | NaN

datatype json = JNull | JBool bool | JNum js_num | JStr string | JArr "json list"
  | JObj "(string \<times> json) list"

section \<open>Error codes and errors\<close>

datatype error_code =
    AUTH_INVALID_TOKEN | AUTH_EXPIRED_TOKEN | AUTH_REVOKED_TOKEN | ACL_DENIED
  | INGRESS_PROTOCOL_UNAVAILABLE | CONN_QUOTA_EXCEEDED | RATE_LIMIT_EXCEEDED
  | BACKPRESSURE_OVERFLOW | PROTO_REGISTRATION_CONFLICT | PROTO_UNKNOWN_ACTION
  | PROTO_INVALID_PAYLOAD | ROUTE_NO_RECIPIENT | ROUTE_PEER_OFFLINE | ROUTE_DELIVERY_TIMEOUT
  | SERVER_DRAINING | GATEWAY_UPSTREAM_TIMEOUT | GATEWAY_UPSTREAM_UNAVAILABLE | INTERNAL_ERROR

datatype client_error_code =
    CLIENT_NOT_READY | CLIENT_TRANSPORT_CLOSED | CLIENT_DELIVERY_TIMEOUT | CLIENT_PROTOCOL_ERROR

datatype sdk_error_code = RemoteCode error_code | ClientCode client_error_code

fun status_by_code :: "error_code \<Rightarrow> int" where
  "status_by_code AUTH_INVALID_TOKEN = 401"
| "status_by_code AUTH_EXPIRED_TOKEN = 401"
| "status_by_code AUTH_REVOKED_TOKEN = 401"
| "status_by_code ACL_DENIED = 403"
| "status_by_code INGRESS_PROTOCOL_UNAVAILABLE = 503"
| "status_by_code CONN_QUOTA_EXCEEDED = 429"
| "status_by_code RATE_LIMIT_EXCEEDED = 429"
| "status_by_code BACKPRESSURE_OVERFLOW = 503"
| "status_by_code PROTO_REGISTRATION_CONFLICT = 409"
| "status_by_code PROTO_UNKNOWN_ACTION = 404"
| "status_by_code PROTO_INVALID_PAYLOAD = 400"
| "status_by_code ROUTE_NO_RECIPIENT = 404"
| "status_by_code ROUTE_PEER_OFFLINE = 404"
| "status_by_code ROUTE_DELIVERY_TIMEOUT = 504"
| "status_by_code SERVER_DRAINING = 503"
| "status_by_code GATEWAY_UPSTREAM_TIMEOUT = 504"
| "status_by_code GATEWAY_UPSTREAM_UNAVAILABLE = 503"
| "status_by_code INTERNAL_ERROR = 500"

text \<open>A code is its own name; the close reason of a connection is that text.\<close>

fun error_code_str :: "error_code \<Rightarrow> string" where
  "error_code_str AUTH_INVALID_TOKEN = ''AUTH_INVALID_TOKEN''"
| "error_code_str AUTH_EXPIRED_TOKEN = ''AUTH_EXPIRED_TOKEN''"
| "error_code_str AUTH_REVOKED_TOKEN = ''AUTH_REVOKED_TOKEN''"
| "error_code_str ACL_DENIED = ''ACL_DENIED''"
| "error_code_str INGRESS_PROTOCOL_UNAVAILABLE = ''INGRESS_PROTOCOL_UNAVAILABLE''"
| "error_code_str CONN_QUOTA_EXCEEDED = ''CONN_QUOTA_EXCEEDED''"
| "error_code_str RATE_LIMIT_EXCEEDED = ''RATE_LIMIT_EXCEEDED''"
| "error_code_str BACKPRESSURE_OVERFLOW = ''BACKPRESSURE_OVERFLOW''"
| "error_code_str PROTO_REGISTRATION_CONFLICT = ''PROTO_REGISTRATION_CONFLICT''"
| "error_code_str PROTO_UNKNOWN_ACTION = ''PROTO_UNKNOWN_ACTION''"
| "error_code_str PROTO_INVALID_PAYLOAD = ''PROTO_INVALID_PAYLOAD''"
| "error_code_str ROUTE_NO_RECIPIENT = ''ROUTE_NO_RECIPIENT''"
| "error_code_str ROUTE_PEER_OFFLINE = ''ROUTE_PEER_OFFLINE''"
| "error_code_str ROUTE_DELIVERY_TIMEOUT = ''ROUTE_DELIVERY_TIMEOUT''"
| "error_code_str SERVER_DRAINING = ''SERVER_DRAINING''"
| "error_code_str GATEWAY_UPSTREAM_TIMEOUT = ''GATEWAY_UPSTREAM_TIMEOUT''"
| "error_code_str GATEWAY_UPSTREAM_UNAVAILABLE = ''GATEWAY_UPSTREAM_UNAVAILABLE''"
| "error_code_str INTERNAL_ERROR = ''INTERNAL_ERROR''"

record hardess_error =
  he_code :: error_code
  he_message :: string
  he_retryable :: bool
  he_status :: int
  he_detail :: "json option"
  he_refMsgId :: "string option"

record hardess_error_options =
  opt_retryable :: "bool option"
  opt_status :: "int option"
  opt_detail :: "json option"
  opt_refMsgId :: "string option"

definition no_options :: hardess_error_options where
  "no_options = \<lparr>opt_retryable = None, opt_status = None, opt_detail = None, opt_refMsgId = None\<rparr>"

definition new_hardess_error :: "error_code \<Rightarrow> string \<Rightarrow> hardess_error_options \<Rightarrow> hardess_error" where
  "new_hardess_error code message options = \<lparr>
     he_code = code, he_message = message,
     he_retryable = (case opt_retryable options of Some b \<Rightarrow> b | None \<Rightarrow> False),
     he_status = (case opt_status options of Some s \<Rightarrow> s | None \<Rightarrow> status_by_code code),
     he_detail = opt_detail options, he_refMsgId = opt_refMsgId options\<rparr>"

abbreviation plain_error :: "error_code \<Rightarrow> string \<Rightarrow> hardess_error" where
  "plain_error code message \<equiv> new_hardess_error code message no_options"

text \<open>What a handler may throw: a \<open>HardessError\<close> or any other value, of which only the message
  (\<open>error.message\<close> or \<open>String(error)\<close>) is read.\<close>

datatype thrown = ThrownHardess hardess_error | ThrownOther string

fun as_hardess_error :: "thrown \<Rightarrow> hardess_error" where
  "as_hardess_error (ThrownHardess e) = e"
| "as_hardess_error (ThrownOther m) =
     new_hardess_error INTERNAL_ERROR ''Unexpected internal error'' (no_options\<lparr>opt_detail := Some (JStr m)\<rparr>)"

section \<open>Wire and routing types\<close>

record auth_context =
  au_peerId :: string
  au_tokenId :: string
  au_capabilities :: "string list"
  au_expiresAt :: int
  au_revokedAt :: "int option"
  au_groupId :: "string option"

record conn_ref =
  cr_nodeId :: string
  cr_connId :: string
  cr_peerId :: string
  cr_groupId :: "string option"

datatype envelope_kind = System | Biz

record envelope_src =
  src_peerId :: string
  src_connId :: string

record 'p envelope =
  ev_msgId :: string
  ev_kind :: envelope_kind
  ev_src :: envelope_src
  ev_protocol :: string
  ev_version :: string
  ev_action :: string
  ev_streamId :: "string option"
  ev_seq :: "nat option"
  ev_ts :: rat
  ev_traceId :: "string option"
  ev_payload :: 'p

record sys_err_payload =
  se_code :: error_code
  se_message :: string
  se_retryable :: bool
  se_detail :: "json option"
  se_refMsgId :: "string option"
  se_traceId :: "string option"

record sys_auth_payload =
  sa_provider :: string
  sa_payload :: json
  sa_groupId :: "string option"

datatype ack_mode = AckNone | AckRecv | AckHandle

record delivery_plan =
  dp_targets :: "conn_ref list"
  dp_streamId :: "string option"
  dp_ack :: ack_mode

record server_dispatch =
  sd_protocol :: "string option"
  sd_version :: "string option"
  sd_action :: "string option"
  sd_payload :: "json option"
  sd_streamId :: "string option"
  sd_ack :: "ack_mode option"

text \<open>The payloads the gateway writes: one constructor per system message, and the business
  payload it forwards.\<close>

datatype out_payload =
    PAuthOk string "string list" int
  | PPong "string option"
  | PPing "string option"
  | PRecvAck string int
  | PHandleAck string int
  | PRoute "string list" "conn_ref list"
  | PErr sys_err_payload
  | PBiz json

type_synonym out_msg = "out_payload envelope"

definition to_sys_err_payload :: "hardess_error \<Rightarrow> string option \<Rightarrow> sys_err_payload" where
  "to_sys_err_payload e traceId = \<lparr>
     se_code = he_code e, se_message = he_message e, se_retryable = he_retryable e,
     se_detail = he_detail e, se_refMsgId = he_refMsgId e, se_traceId = traceId\<rparr>"

record platform_error_body =
  pe_code :: error_code
  pe_message :: string
  pe_retryable :: bool
  pe_traceId :: "string option"
  pe_refMsgId :: "string option"
  pe_detail :: "json option"

definition to_platform_error_body :: "hardess_error \<Rightarrow> string option \<Rightarrow> platform_error_body" where
  "to_platform_error_body e traceId = \<lparr>
     pe_code = he_code e, pe_message = he_message e, pe_retryable = he_retryable e,
     pe_traceId = traceId, pe_refMsgId = he_refMsgId e, pe_detail = he_detail e\<rparr>"

definition create_http_error_response :: "hardess_error \<Rightarrow> string option \<Rightarrow> int \<times> platform_error_body" where
  "create_http_error_response e traceId = (he_status e, to_platform_error_body e traceId)"

section \<open>The envelope guard\<close>

text \<open>Property access on an unknown value. Arrays and primitives have none of the properties
  the guard reads.\<close>

fun is_record :: "json \<Rightarrow> bool" where
  "is_record (JObj _) = True"
| "is_record (JArr _) = True"
| "is_record _ = False"

fun js_prop :: "json \<Rightarrow> string \<Rightarrow> json option" where
  "js_prop (JObj fs) k = map_of fs k"
| "js_prop _ k = None"

fun non_empty_str :: "json option \<Rightarrow> bool" where
  "non_empty_str (Some (JStr s)) = (s \<noteq> [])"
| "non_empty_str _ = False"

fun str_of :: "json option \<Rightarrow> string" where
  "str_of (Some (JStr s)) = s"
| "str_of _ = []"

fun opt_str_of :: "json option \<Rightarrow> string option" where
  "opt_str_of (Some (JStr s)) = Some s"
| "opt_str_of _ = None"

fun finite_non_negative :: "json option \<Rightarrow> bool" where
  "finite_non_negative (Some (JNum (Fin q))) = (q \<ge> 0)"
| "finite_non_negative _ = False"

fun rat_of :: "json option \<Rightarrow> rat" where
  "rat_of (Some (JNum (Fin q))) = q"
| "rat_of _ = 0"

fun seq_ok :: "json option \<Rightarrow> bool" where
  "seq_ok None = True"
| "seq_ok (Some (JNum (Fin q))) = (q \<ge> 0 \<and> of_int \<lfloor>q\<rfloor> = q)"
| "seq_ok _ = False"

fun seq_of :: "json option \<Rightarrow> nat option" where
  "seq_of (Some (JNum (Fin q))) = Some (nat \<lfloor>q\<rfloor>)"
| "seq_of _ = None"

definition envelope_guard :: "json \<Rightarrow> json \<Rightarrow> bool" where
  "envelope_guard value src =
    (if \<not> non_empty_str (js_prop value ''msgId'')
         \<or> (js_prop value ''kind'' \<noteq> Some (JStr ''system'') \<and> js_prop value ''kind'' \<noteq> Some (JStr ''biz''))
         \<or> \<not> non_empty_str (js_prop src ''peerId'')
         \<or> \<not> non_empty_str (js_prop src ''connId'')
         \<or> \<not> non_empty_str (js_prop value ''protocol'')
         \<or> \<not> non_empty_str (js_prop value ''version'')
         \<or> \<not> non_empty_str (js_prop value ''action'')
         \<or> \<not> finite_non_negative (js_prop value ''ts'') then False
     else if js_prop value ''streamId'' \<noteq> None \<and> \<not> non_empty_str (js_prop value ''streamId'') then False
     else if \<not> seq_ok (js_prop value ''seq'') then False
     else if js_prop value ''traceId'' \<noteq> None \<and> \<not> non_empty_str (js_prop value ''traceId'') then False
     else True)"

text \<open>The guarded value, cast to an envelope.\<close>

definition envelope_of :: "json \<Rightarrow> json \<Rightarrow> json \<Rightarrow> json envelope" where
  "envelope_of value src payload = \<lparr>
     ev_msgId = str_of (js_prop value ''msgId''),
     ev_kind = (if js_prop value ''kind'' = Some (JStr ''system'') then System else Biz),
     ev_src = \<lparr>src_peerId = str_of (js_prop src ''peerId''), src_connId = str_of (js_prop src ''connId'')\<rparr>,
     ev_protocol = str_of (js_prop value ''protocol''),
     ev_version = str_of (js_prop value ''version''),
     ev_action = str_of (js_prop value ''action''),
     ev_streamId = opt_str_of (js_prop value ''streamId''),
     ev_seq = seq_of (js_prop value ''seq''),
     ev_ts = rat_of (js_prop value ''ts''),
     ev_traceId = opt_str_of (js_prop value ''traceId''),
     ev_payload = payload\<rparr>"

definition parse_envelope_value_fast :: "json \<Rightarrow> json envelope option" where
  "parse_envelope_value_fast value =
    (if \<not> is_record value then None else
     case js_prop value ''src'' of
       None \<Rightarrow> None
     | Some src \<Rightarrow>
       if \<not> is_record src then None
       else if \<not> envelope_guard value src then None
       else (case js_prop value ''payload'' of
               None \<Rightarrow> None
             | Some payload \<Rightarrow> Some (envelope_of value src payload)))"

text \<open>What a value is after \<open>JSON.stringify\<close>: an infinite number, which \<open>JSON.parse\<close> makes of a text like
  1e999, is written as null.\<close>

fun stringified :: "json \<Rightarrow> json" where
  "stringified (JNum (Fin q)) = JNum (Fin q)"
| "stringified (JNum _) = JNull"
| "stringified (JArr vs) = JArr (map stringified vs)"
| "stringified (JObj ps) = JObj (map (\<lambda>(k, v). (k, stringified v)) ps)"
| "stringified v = v"

fun finite_json :: "json \<Rightarrow> bool" where
  "finite_json (JNum (Fin q)) = True"
| "finite_json (JNum _) = False"
| "finite_json (JArr vs) = list_all finite_json vs"
| "finite_json (JObj ps) = list_all (\<lambda>(k, v). finite_json v) ps"
| "finite_json v = True"

lemma map_same_iff: "map f xs = xs \<longleftrightarrow> (\<forall>x\<in>set xs. f x = x)"
  by (induction xs) auto

lemma stringified_id: "stringified v = v \<longleftrightarrow> finite_json v"
proof (induction v rule: stringified.induct)
  case (3 vs)
  then show ?case by (simp add: map_same_iff list_all_iff)
next
  case (4 ps)
  then show ?case by (fastforce simp: map_same_iff list_all_iff)
qed simp_all

text \<open>\<open>JSON.stringify\<close> of an envelope drops the properties that are undefined; this is the object it writes.\<close>

definition opt_field :: "string \<Rightarrow> json option \<Rightarrow> (string \<times> json) list" where
  "opt_field k v = (case v of None \<Rightarrow> [] | Some j \<Rightarrow> [(k, j)])"

fun kind_str :: "envelope_kind \<Rightarrow> string" where
  "kind_str System = ''system''"
| "kind_str Biz = ''biz''"

definition envelope_object :: "json envelope \<Rightarrow> json \<Rightarrow> json" where
  "envelope_object e payload = JObj (
     [(''msgId'', JStr (ev_msgId e)), (''kind'', JStr (kind_str (ev_kind e))),
      (''src'', JObj [(''peerId'', JStr (src_peerId (ev_src e))), (''connId'', JStr (src_connId (ev_src e)))]),
      (''protocol'', JStr (ev_protocol e)), (''version'', JStr (ev_version e)), (''action'', JStr (ev_action e))]
     @ opt_field ''streamId'' (map_option JStr (ev_streamId e))
     @ opt_field ''seq'' (map_option (\<lambda>n. JNum (Fin (of_nat n))) (ev_seq e))
     @ [(''ts'', JNum (Fin (ev_ts e)))]
     @ opt_field ''traceId'' (map_option JStr (ev_traceId e))
     @ [(''payload'', payload)])"

definition serialize_envelope_value :: "json envelope \<Rightarrow> json" where
  "serialize_envelope_value e = envelope_object e (stringified (ev_payload e))"

definition valid_envelope :: "json envelope \<Rightarrow> bool" where
  "valid_envelope e \<longleftrightarrow> ev_msgId e \<noteq> [] \<and> src_peerId (ev_src e) \<noteq> [] \<and> src_connId (ev_src e) \<noteq> []
     \<and> ev_protocol e \<noteq> [] \<and> ev_version e \<noteq> [] \<and> ev_action e \<noteq> [] \<and> ev_ts e \<ge> 0
     \<and> ev_streamId e \<noteq> Some [] \<and> ev_traceId e \<noteq> Some []"

section \<open>System messages\<close>

definition system_src :: "string \<Rightarrow> envelope_src" where
  "system_src connId = \<lparr>src_peerId = ''hardess.system'', src_connId = connId\<rparr>"

text \<open>\<open>createEnvelope\<close> takes its message id from \<open>crypto.randomUUID\<close> and its time stamp from the
  clock: both are arguments.\<close>

definition create_system_envelope ::
  "string \<Rightarrow> int \<Rightarrow> string \<Rightarrow> string \<Rightarrow> string option \<Rightarrow> out_payload \<Rightarrow> out_msg" where
  "create_system_envelope uuid now connId action traceId payload = \<lparr>
     ev_msgId = uuid, ev_kind = System, ev_src = system_src connId, ev_protocol = ''sys'',
     ev_version = ''1.0'', ev_action = action, ev_streamId = None, ev_seq = None,
     ev_ts = of_int now, ev_traceId = traceId, ev_payload = payload\<rparr>"

definition create_auth_ok_envelope :: "string \<Rightarrow> int \<Rightarrow> auth_context \<Rightarrow> string \<Rightarrow> string option \<Rightarrow> out_msg" where
  "create_auth_ok_envelope uuid now auth connId traceId =
     create_system_envelope uuid now connId ''auth.ok'' traceId
       (PAuthOk (au_peerId auth) (au_capabilities auth) (au_expiresAt auth))"

definition create_pong_envelope :: "string \<Rightarrow> int \<Rightarrow> string \<Rightarrow> string option \<Rightarrow> string option \<Rightarrow> out_msg" where
  "create_pong_envelope uuid now connId nonce traceId =
     create_system_envelope uuid now connId ''pong'' traceId (PPong nonce)"

definition create_ping_envelope :: "string \<Rightarrow> int \<Rightarrow> string \<Rightarrow> string option \<Rightarrow> string option \<Rightarrow> out_msg" where
  "create_ping_envelope uuid now connId nonce traceId =
     create_system_envelope uuid now connId ''ping'' traceId (PPing nonce)"

definition create_recv_ack_envelope :: "string \<Rightarrow> int \<Rightarrow> string \<Rightarrow> string \<Rightarrow> string option \<Rightarrow> out_msg" where
  "create_recv_ack_envelope uuid now connId ackFor traceId =
     create_system_envelope uuid now connId ''recvAck'' traceId (PRecvAck ackFor now)"

definition create_handle_ack_envelope :: "string \<Rightarrow> int \<Rightarrow> string \<Rightarrow> string \<Rightarrow> string option \<Rightarrow> out_msg" where
  "create_handle_ack_envelope uuid now connId ackFor traceId =
     create_system_envelope uuid now connId ''handleAck'' traceId (PHandleAck ackFor now)"

definition create_route_envelope ::
  "string \<Rightarrow> int \<Rightarrow> string \<Rightarrow> string list \<Rightarrow> conn_ref list \<Rightarrow> string option \<Rightarrow> out_msg" where
  "create_route_envelope uuid now connId resolvedPeers deliveredConns traceId =
     create_system_envelope uuid now connId ''route'' traceId (PRoute resolvedPeers deliveredConns)"

definition create_sys_err_envelope ::
  "string \<Rightarrow> int \<Rightarrow> thrown \<Rightarrow> string \<Rightarrow> string option \<Rightarrow> string option \<Rightarrow> out_msg" where
  "create_sys_err_envelope uuid now error connId traceId refMsgId =
     (let normalized = as_hardess_error error;
          payload = to_sys_err_payload
            (new_hardess_error (he_code normalized) (he_message normalized)
               (no_options\<lparr>opt_retryable := Some (he_retryable normalized),
                           opt_detail := he_detail normalized,
                           opt_refMsgId := (case refMsgId of Some r \<Rightarrow> Some r | None \<Rightarrow> he_refMsgId normalized)\<rparr>))
            traceId
      in create_system_envelope uuid now connId ''err'' traceId (PErr payload))"

definition ensure_authenticated :: "auth_context option \<Rightarrow> hardess_error + auth_context" where
  "ensure_authenticated auth = (case auth of
     None \<Rightarrow> Inl (plain_error AUTH_INVALID_TOKEN ''WebSocket is not authenticated'')
   | Some a \<Rightarrow> Inr a)"

definition parse_protocol_payload :: "(json \<Rightarrow> string + 'a) \<Rightarrow> json \<Rightarrow> string \<Rightarrow> hardess_error + 'a" where
  "parse_protocol_payload safe_parse payload message = (case safe_parse payload of
     Inl formatted \<Rightarrow> Inl (new_hardess_error PROTO_INVALID_PAYLOAD message
                              (no_options\<lparr>opt_detail := Some (JStr formatted)\<rparr>))
   | Inr data \<Rightarrow> Inr data)"

definition require_capabilities ::
  "string \<Rightarrow> string list \<Rightarrow> string list \<Rightarrow> string \<Rightarrow> hardess_error + unit" where
  "require_capabilities peerId capabilities required label =
     (let missing = filter (\<lambda>c. c \<notin> set capabilities) required
      in if missing = [] then Inr ()
         else Inl (new_hardess_error ACL_DENIED (''ACL denied for '' @ label)
                (no_options\<lparr>opt_detail := Some (JObj [
                   (''peerId'', JStr peerId),
                   (''requiredCapabilities'', JArr (map JStr required)),
                   (''missingCapabilities'', JArr (map JStr missing))])\<rparr>)))"

section \<open>Lemmas\<close>

lemma seq_ok_of_nat [simp]: "seq_ok (Some (JNum (Fin (of_nat n))))"
  by simp

lemma valid_opt_str:
  "opt \<noteq> Some [] \<Longrightarrow> map_option JStr opt = None \<or> non_empty_str (map_option JStr opt)"
  by (cases opt) auto

lemma opt_str_of_map [simp]: "opt_str_of (map_option JStr opt) = opt"
  by (cases opt) auto

lemma seq_of_map [simp]: "seq_of (map_option (\<lambda>n. JNum (Fin (of_nat n))) opt) = opt"
  by (cases opt) auto

lemma seq_ok_map [simp]: "seq_ok (map_option (\<lambda>n. JNum (Fin (of_nat n))) opt)"
  by (cases opt) auto

lemma map_of_opt_field: "map_of (opt_field k v) k' = (if k = k' then v else None)"
  by (cases v) (auto simp: opt_field_def)

lemma serialize_props:
  "js_prop (envelope_object e p) ''src'' =
     Some (JObj [(''peerId'', JStr (src_peerId (ev_src e))), (''connId'', JStr (src_connId (ev_src e)))])"
  "js_prop (envelope_object e p) ''msgId'' = Some (JStr (ev_msgId e))"
  "js_prop (envelope_object e p) ''kind'' = Some (JStr (kind_str (ev_kind e)))"
  "js_prop (envelope_object e p) ''protocol'' = Some (JStr (ev_protocol e))"
  "js_prop (envelope_object e p) ''version'' = Some (JStr (ev_version e))"
  "js_prop (envelope_object e p) ''action'' = Some (JStr (ev_action e))"
  "js_prop (envelope_object e p) ''streamId'' = map_option JStr (ev_streamId e)"
  "js_prop (envelope_object e p) ''seq'' = map_option (\<lambda>n. JNum (Fin (of_nat n))) (ev_seq e)"
  "js_prop (envelope_object e p) ''ts'' = Some (JNum (Fin (ev_ts e)))"
  "js_prop (envelope_object e p) ''traceId'' = map_option JStr (ev_traceId e)"
  "js_prop (envelope_object e p) ''payload'' = Some p"
  by (simp_all add: envelope_object_def map_add_def map_of_opt_field option.case_eq_if)

lemma non_empty_str_of: "non_empty_str v \<Longrightarrow> str_of v \<noteq> []"
  by (cases v rule: non_empty_str.cases) auto

lemma opt_str_of_non_empty: "v = None \<or> non_empty_str v \<Longrightarrow> opt_str_of v \<noteq> Some []"
  by (cases v rule: non_empty_str.cases) auto

lemma finite_non_negative_rat: "finite_non_negative v \<Longrightarrow> rat_of v \<ge> 0"
  by (cases v rule: finite_non_negative.cases) auto

lemma guard_valid: "envelope_guard value src \<Longrightarrow> valid_envelope (envelope_of value src payload)"
  by (simp add: envelope_guard_def valid_envelope_def envelope_of_def non_empty_str_of
      opt_str_of_non_empty finite_non_negative_rat split: if_split_asm)

lemma parse_valid: "parse_envelope_value_fast v = Some e \<Longrightarrow> valid_envelope e"
  by (auto simp: parse_envelope_value_fast_def guard_valid split: if_split_asm option.split_asm)

lemma kind_str_iff [simp]: "kind_str k = ''system'' \<longleftrightarrow> k = System" "kind_str k = ''biz'' \<longleftrightarrow> k = Biz"
  by (cases k; simp)+

lemma parse_object:
  assumes "valid_envelope e"
  shows "parse_envelope_value_fast (envelope_object e p) = Some (e\<lparr>ev_payload := p\<rparr>)"
proof -
  let ?src = "JObj [(''peerId'', JStr (src_peerId (ev_src e))), (''connId'', JStr (src_connId (ev_src e)))]"
  have k: "ev_kind e \<noteq> System \<longleftrightarrow> ev_kind e = Biz" by (cases "ev_kind e") auto
  have "is_record (envelope_object e p)" by (simp add: envelope_object_def)
  moreover have "envelope_guard (envelope_object e p) ?src"
    using assms valid_opt_str[of "ev_streamId e"] valid_opt_str[of "ev_traceId e"] k
    by (simp add: envelope_guard_def serialize_props valid_envelope_def)
  moreover have "envelope_of (envelope_object e p) ?src p = e\<lparr>ev_payload := p\<rparr>"
    using k by (simp add: envelope_of_def serialize_props)
  ultimately show ?thesis by (simp add: parse_envelope_value_fast_def serialize_props)
qed

lemma parse_object_invalid:
  assumes "\<not> valid_envelope e"
  shows "parse_envelope_value_fast (envelope_object e p) = None"
proof (cases "parse_envelope_value_fast (envelope_object e p)")
  case (Some e')
  then have "envelope_guard (envelope_object e p)
      (JObj [(''peerId'', JStr (src_peerId (ev_src e))), (''connId'', JStr (src_connId (ev_src e)))])"
    by (auto simp: parse_envelope_value_fast_def serialize_props split: if_splits)
  then have "valid_envelope e"
    by (auto simp: envelope_guard_def valid_envelope_def serialize_props split: if_splits)
  with assms show ?thesis by simp
qed simp

section \<open>Properties\<close>

text \<open>C17: What parsing makes of a serialized envelope: the envelope itself, with its payload as JSON writes it (an
  infinite number, which JSON reads from a text like 1e999, as null), when the identifying strings are not empty and the
  time stamp is not negative, and nothing otherwise. So an envelope comes back unchanged exactly when it is of that kind
  and every number in its payload is finite; and the guard returns exactly the envelopes of that kind.\<close>

theorem envelope_roundtrip:
  "parse_envelope_value_fast (serialize_envelope_value e)
     = (if valid_envelope e then Some (e\<lparr>ev_payload := stringified (ev_payload e)\<rparr>) else None)
   \<and> (parse_envelope_value_fast (serialize_envelope_value e) = Some e \<longleftrightarrow> valid_envelope e \<and> finite_json (ev_payload e))
   \<and> ((\<exists>v. parse_envelope_value_fast v = Some e) \<longleftrightarrow> valid_envelope e)"
proof -
  have payload: "e\<lparr>ev_payload := p\<rparr> = e \<longleftrightarrow> p = ev_payload e" for p by (cases e) auto
  have "parse_envelope_value_fast (envelope_object e (ev_payload e)) = Some e" if "valid_envelope e"
    using parse_object[OF that, of "ev_payload e"] by simp
  then have "(\<exists>v. parse_envelope_value_fast v = Some e) \<longleftrightarrow> valid_envelope e" using parse_valid by blast
  then show ?thesis
    using parse_object[of e] parse_object_invalid[of e]
    by (simp add: serialize_envelope_value_def payload stringified_id)
qed

end
