(* ===== verification/Ws_Outbound.thy ===== *)
theory Ws_Outbound
  imports Outbound_Queue Shared_Types
begin

text \<open>One client connection of the WebSocket ingress and its outbound side
  (src/src/runtime/ingress/websocket.ts: ConnectionState, closeConnection, trySendNow,
  scheduleDrainRetry, drainOutboundQueue, scheduleDrain, enqueueOutbound).

  The socket is a log of the calls made on it; what it answers to the n-th call is fixed in
  advance by a \<open>socket_env\<close>. The length in bytes of a serialized message is a field of the
  configuration, since JSON text is not modelled. The microtask that drains and the retry timer
  are the flags \<open>wc_drainScheduled\<close> and \<open>wc_drainTimer\<close>; \<open>drain_outbound_queue\<close> is the
  microtask and \<open>drain_timer_fires\<close> the timer callback. Metrics and logging are left out.\<close>

section \<open>Data\<close>

text \<open>\<open>socket.send\<close> returns a number or nothing, or throws.\<close>

datatype send_result = Returned "int option" | SendThrew string

datatype socket_event = SocketSend out_msg send_result | SocketClose "int option" "string option"

record socket_env =
  se_send :: "nat \<Rightarrow> send_result"
  se_buffered :: "nat \<Rightarrow> nat"

record ws_config =
  cf_nodeId :: string
  cf_hostGroupId :: "string option"
  cf_heartbeatIntervalMs :: int
  cf_staleAfterMs :: int
  cf_maxConnections :: "int option"
  cf_maxConnectionsPerPeer :: "int option"
  cf_rateLimitWindowMs :: int
  cf_rateLimitMaxMessages :: int
  cf_outboundMaxQueueMessages :: int
  cf_outboundMaxQueueBytes :: int
  cf_outboundMaxSocketBufferBytes :: int
  cf_shutdownGraceMs :: int
  cf_pendingHandleAckTtlMs :: int
  cf_pendingHandleAckMaxEntries :: int
  cf_recentClusterDeliveryTtlMs :: int
  cf_bytes :: "out_msg \<Rightarrow> nat"

record ws_options =
  wo_heartbeatIntervalMs :: "int option"
  wo_staleAfterMs :: "int option"
  wo_maxConnections :: "int option"
  wo_maxConnectionsPerPeer :: "int option"
  wo_rateLimit :: "(int \<times> int) option"
  wo_outbound :: "(int \<times> int \<times> int option) option"
  wo_shutdownGraceMs :: "int option"
  wo_pendingHandleAckTtlMs :: "int option"
  wo_pendingHandleAckMaxEntries :: "int option"

definition opt_default :: "'a option \<Rightarrow> 'a \<Rightarrow> 'a" where
  "opt_default v d = (case v of Some x \<Rightarrow> x | None \<Rightarrow> d)"

text \<open>The defaults of \<open>createWebSocketHandlers\<close>. A rate limit is its window and its number of
  messages; the outbound limits are messages, bytes and optional socket buffer.\<close>

definition ws_config_of :: "string \<Rightarrow> string option \<Rightarrow> (out_msg \<Rightarrow> nat) \<Rightarrow> ws_options \<Rightarrow> ws_config" where
  "ws_config_of nodeId groupId bytes w =
    (let staleAfterMs = opt_default (wo_staleAfterMs w) 60000 in
     \<lparr>cf_nodeId = nodeId, cf_hostGroupId = groupId,
      cf_heartbeatIntervalMs = opt_default (wo_heartbeatIntervalMs w) 25000,
      cf_staleAfterMs = staleAfterMs,
      cf_maxConnections = wo_maxConnections w, cf_maxConnectionsPerPeer = wo_maxConnectionsPerPeer w,
      cf_rateLimitWindowMs = opt_default (map_option fst (wo_rateLimit w)) 1000,
      cf_rateLimitMaxMessages = opt_default (map_option snd (wo_rateLimit w)) 100,
      cf_outboundMaxQueueMessages = opt_default (map_option fst (wo_outbound w)) 256,
      cf_outboundMaxQueueBytes = opt_default (map_option (fst \<circ> snd) (wo_outbound w)) (512 * 1024),
      cf_outboundMaxSocketBufferBytes =
        opt_default (case wo_outbound w of None \<Rightarrow> None | Some (_, _, b) \<Rightarrow> b) (512 * 1024),
      cf_shutdownGraceMs = opt_default (wo_shutdownGraceMs w) 3000,
      cf_pendingHandleAckTtlMs = max (opt_default (wo_pendingHandleAckTtlMs w) (staleAfterMs * 2)) 1,
      cf_pendingHandleAckMaxEntries = max (opt_default (wo_pendingHandleAckMaxEntries w) 10000) 1,
      cf_recentClusterDeliveryTtlMs = max staleAfterMs 60000, cf_bytes = bytes\<rparr>)"

record ws_conn =
  wc_connId :: string
  wc_auth :: "auth_context option"
  wc_lastSeenAt :: int
  wc_lastPingAt :: "int option"
  wc_messageTimestamps :: "int list"
  wc_outboundQueue :: "(out_msg \<times> nat) list"
  wc_outboundQueuedBytes :: int
  wc_drainScheduled :: bool
  wc_drainTimer :: bool
  wc_closed :: bool
  wc_log :: "socket_event list"

definition new_ws_conn :: "string \<Rightarrow> int \<Rightarrow> ws_conn" where
  "new_ws_conn connId now = \<lparr>wc_connId = connId, wc_auth = None, wc_lastSeenAt = now,
     wc_lastPingAt = None, wc_messageTimestamps = [], wc_outboundQueue = [],
     wc_outboundQueuedBytes = 0, wc_drainScheduled = False, wc_drainTimer = False,
     wc_closed = False, wc_log = []\<rparr>"

section \<open>Operations\<close>

fun close_code_for_error :: "error_code \<Rightarrow> int option" where
  "close_code_for_error AUTH_INVALID_TOKEN = Some 4401"
| "close_code_for_error AUTH_EXPIRED_TOKEN = Some 4401"
| "close_code_for_error AUTH_REVOKED_TOKEN = Some 4401"
| "close_code_for_error ACL_DENIED = Some 4403"
| "close_code_for_error CONN_QUOTA_EXCEEDED = Some 4429"
| "close_code_for_error RATE_LIMIT_EXCEEDED = Some 4429"
| "close_code_for_error BACKPRESSURE_OVERFLOW = Some 4508"
| "close_code_for_error PROTO_INVALID_PAYLOAD = Some 4400"
| "close_code_for_error _ = None"

definition close_connection :: "int option \<Rightarrow> string option \<Rightarrow> ws_conn \<Rightarrow> ws_conn" where
  "close_connection code reason c =
    (if wc_closed c then c
     else c\<lparr>wc_closed := True, wc_drainTimer := False, wc_log := wc_log c @ [SocketClose code reason]\<rparr>)"

definition close_for_error :: "hardess_error \<Rightarrow> ws_conn \<Rightarrow> ws_conn" where
  "close_for_error e = close_connection (close_code_for_error (he_code e)) (Some (error_code_str (he_code e)))"

definition create_backpressure_error :: "string \<Rightarrow> json option \<Rightarrow> hardess_error" where
  "create_backpressure_error message detail =
     new_hardess_error BACKPRESSURE_OVERFLOW message (no_options\<lparr>opt_detail := detail\<rparr>)"

definition buffered_amount :: "socket_env \<Rightarrow> ws_conn \<Rightarrow> nat" where
  "buffered_amount env c = se_buffered env (length (wc_log c))"

text \<open>The buffer check, which closes the connection and throws above the limit.\<close>

definition ensure_socket_buffer_within_limit ::
  "ws_config \<Rightarrow> socket_env \<Rightarrow> ws_conn \<Rightarrow> (hardess_error + unit) \<times> ws_conn" where
  "ensure_socket_buffer_within_limit cfg env c =
    (if int (buffered_amount env c) \<le> cf_outboundMaxSocketBufferBytes cfg then (Inr (), c)
     else (let e = create_backpressure_error ''WebSocket socket buffer overflow''
                     (Some (JStr (''buffered_amount='' @ nat_str (buffered_amount env c))))
           in (Inl e, close_for_error e c)))"

text \<open>A call of \<open>send\<close> on the socket.\<close>

definition socket_send :: "socket_env \<Rightarrow> out_msg \<Rightarrow> ws_conn \<Rightarrow> send_result \<times> ws_conn" where
  "socket_send env m c = (let r = se_send env (length (wc_log c)) in (r, c\<lparr>wc_log := wc_log c @ [SocketSend m r]\<rparr>))"

definition try_send_now :: "ws_config \<Rightarrow> socket_env \<Rightarrow> out_msg \<Rightarrow> ws_conn \<Rightarrow> (hardess_error + bool) \<times> ws_conn" where
  "try_send_now cfg env m c0 =
    (case ensure_socket_buffer_within_limit cfg env c0 of
       (Inl e, c1) \<Rightarrow> (Inl e, c1)
     | (Inr _, c1) \<Rightarrow>
        (case socket_send env m c1 of
           (SendThrew msg, c2) \<Rightarrow>
             (let e = create_backpressure_error ''WebSocket outbound send failed'' (Some (JStr msg))
              in (Inl e, close_for_error e c2))
         | (Returned status, c2) \<Rightarrow>
             if status = Some (-1) then (Inr False, c2)
             else if status = Some 0 then
               (let e = create_backpressure_error ''WebSocket outbound send dropped by runtime'' None
                in (Inl e, close_for_error e c2))
             else (case ensure_socket_buffer_within_limit cfg env c2 of
                 (Inl e, c3) \<Rightarrow> (Inl e, c3)
               | (Inr _, c3) \<Rightarrow> (Inr True, c3))))"

definition schedule_drain_retry :: "ws_conn \<Rightarrow> ws_conn" where
  "schedule_drain_retry c = (if wc_closed c \<or> wc_drainTimer c then c else c\<lparr>wc_drainTimer := True\<rparr>)"

definition schedule_drain :: "ws_conn \<Rightarrow> ws_conn" where
  "schedule_drain c = (if wc_drainScheduled c \<or> wc_closed c then c else c\<lparr>wc_drainScheduled := True\<rparr>)"

definition drain_timer_fires :: "ws_conn \<Rightarrow> ws_conn" where
  "drain_timer_fires c = (if \<not> wc_drainTimer c then c
     else (let c1 = c\<lparr>wc_drainTimer := False\<rparr> in
           if wc_outboundQueue c1 \<noteq> [] then schedule_drain c1 else c1))"

lemma ensure_socket_buffer_queue [simp]:
  "wc_outboundQueue (snd (ensure_socket_buffer_within_limit cfg env c)) = wc_outboundQueue c"
  by (simp add: ensure_socket_buffer_within_limit_def close_for_error_def close_connection_def Let_def)

lemma try_send_now_queue [simp]: "wc_outboundQueue (snd (try_send_now cfg env m c)) = wc_outboundQueue c"
  by (auto simp: try_send_now_def ensure_socket_buffer_within_limit_def socket_send_def Let_def
      close_for_error_def close_connection_def split: send_result.split if_split_asm)

function drain_loop :: "ws_config \<Rightarrow> socket_env \<Rightarrow> ws_conn \<Rightarrow> ws_conn" where
  "drain_loop cfg env c =
    (if wc_closed c then c
     else case wc_outboundQueue c of
       [] \<Rightarrow> c
     | (m, bytes) # rest \<Rightarrow>
        (let c1 = c\<lparr>wc_outboundQueue := rest, wc_outboundQueuedBytes := wc_outboundQueuedBytes c - int bytes\<rparr>
         in case try_send_now cfg env m c1 of
              (Inl _, c2) \<Rightarrow> c2
            | (Inr sent, c2) \<Rightarrow>
                if \<not> sent then
                  schedule_drain_retry (c2\<lparr>wc_outboundQueue := (m, bytes) # wc_outboundQueue c2,
                     wc_outboundQueuedBytes := wc_outboundQueuedBytes c2 + int bytes\<rparr>)
                else drain_loop cfg env c2))"
  by pat_completeness auto
termination
proof (relation "measure (\<lambda>(_, _, c). length (wc_outboundQueue c))", goal_cases)
  case (2 cfg env c p rest m bytes c1 r c2 sent)
  then show ?case
    using try_send_now_queue[of cfg env m c1] by (auto dest!: arg_cong[where f = snd])
qed simp

declare drain_loop.simps [simp del]

definition drain_outbound_queue :: "ws_config \<Rightarrow> socket_env \<Rightarrow> ws_conn \<Rightarrow> ws_conn" where
  "drain_outbound_queue cfg env c = drain_loop cfg env (c\<lparr>wc_drainScheduled := False\<rparr>)"

definition enqueue_outbound :: "ws_config \<Rightarrow> socket_env \<Rightarrow> out_msg \<Rightarrow> ws_conn \<Rightarrow> (hardess_error + unit) \<times> ws_conn" where
  "enqueue_outbound cfg env m c =
    (if wc_closed c then (Inr (), c)
     else
      (let bytes = cf_bytes cfg m;
           direct = (wc_outboundQueue c = [] \<and> \<not> wc_drainScheduled c \<and> \<not> wc_drainTimer c)
       in case (if direct then try_send_now cfg env m c else (Inr False, c)) of
            (Inl e, c1) \<Rightarrow> (Inl e, c1)
          | (Inr sent, c1) \<Rightarrow>
             if sent then (Inr (), c1)
             else if int (length (wc_outboundQueue c1)) + 1 > cf_outboundMaxQueueMessages cfg
                 \<or> wc_outboundQueuedBytes c1 + int bytes > cf_outboundMaxQueueBytes cfg then
               (let e = plain_error BACKPRESSURE_OVERFLOW ''WebSocket outbound queue overflow''
                in (Inl e, close_for_error e c1))
             else
               (let c2 = c1\<lparr>wc_outboundQueue := wc_outboundQueue c1 @ [(m, bytes)],
                            wc_outboundQueuedBytes := wc_outboundQueuedBytes c1 + int bytes\<rparr>
                in (Inr (), if direct then schedule_drain_retry c2
                            else if wc_drainTimer c2 then c2 else schedule_drain c2))))"

section \<open>What a send does\<close>

named_theorems ws_close \<open>closing a connection\<close>

lemmas [ws_close] = close_for_error_def close_connection_def

lemma close_frame [simp]:
  "wc_outboundQueue (close_for_error e c) = wc_outboundQueue c"
  "wc_outboundQueuedBytes (close_for_error e c) = wc_outboundQueuedBytes c"
  "wc_closed (close_for_error e c)" "wc_connId (close_for_error e c) = wc_connId c"
  "wc_auth (close_for_error e c) = wc_auth c"
  "\<not> wc_closed c \<Longrightarrow> \<not> wc_drainTimer (close_for_error e c)"
  by (simp_all add: ws_close)

text \<open>Whether the socket took a message, and the messages it took, in order.\<close>

fun took :: "send_result \<Rightarrow> bool" where
  "took (Returned st) = (st \<noteq> Some (-1) \<and> st \<noteq> Some 0)"
| "took (SendThrew _) = False"

fun sent_of :: "socket_event \<Rightarrow> out_msg list" where
  "sent_of (SocketSend m r) = (if took r then [m] else [])"
| "sent_of (SocketClose _ _) = []"

definition ws_sent :: "ws_conn \<Rightarrow> out_msg list" where
  "ws_sent c = concat (map sent_of (wc_log c))"

definition ws_waiting :: "ws_conn \<Rightarrow> out_msg list" where
  "ws_waiting c = map fst (wc_outboundQueue c)"

lemma try_send_now_cases:
  assumes "try_send_now cfg env m c = (r, c')" "\<not> wc_closed c"
  obtains st where "r = Inr True" "took (Returned st)" "c' = c\<lparr>wc_log := wc_log c @ [SocketSend m (Returned st)]\<rparr>"
  | "r = Inr False" "c' = c\<lparr>wc_log := wc_log c @ [SocketSend m (Returned (Some (-1)))]\<rparr>"
  | e where "r = Inl e" "wc_closed c'" "\<not> wc_drainTimer c'" "wc_outboundQueue c' = wc_outboundQueue c"
      "wc_outboundQueuedBytes c' = wc_outboundQueuedBytes c" "he_code e = BACKPRESSURE_OVERFLOW"
      "wc_connId c' = wc_connId c" "wc_auth c' = wc_auth c"
  using assms
  by (auto simp: try_send_now_def ensure_socket_buffer_within_limit_def socket_send_def Let_def
      create_backpressure_error_def new_hardess_error_def
      split: send_result.split_asm if_split_asm)

lemma drain_retry_cases: "\<not> wc_closed c \<Longrightarrow> schedule_drain_retry c = c\<lparr>wc_drainTimer := True\<rparr>"
  by (cases c) (auto simp: schedule_drain_retry_def)

lemma schedule_drain_cases: "\<not> wc_closed c \<Longrightarrow> schedule_drain c = c\<lparr>wc_drainScheduled := True\<rparr>"
  by (cases c) (auto simp: schedule_drain_def)

section \<open>The invariant\<close>

text \<open>The accounted bytes are the bytes of what waits, the limits hold, and no retry timer
  outlives the connection; \<open>conn_ok\<close> adds that an open connection with something waiting has a
  drain coming.\<close>

definition accounted :: "ws_config \<Rightarrow> ws_conn \<Rightarrow> bool" where
  "accounted cfg c \<longleftrightarrow>
     wc_outboundQueuedBytes c = int (sum_list (map snd (wc_outboundQueue c)))
     \<and> (\<forall>(m, b)\<in>set (wc_outboundQueue c). b = cf_bytes cfg m)
     \<and> (wc_outboundQueue c = [] \<or> int (length (wc_outboundQueue c)) \<le> cf_outboundMaxQueueMessages cfg
          \<and> int (sum_list (map snd (wc_outboundQueue c))) \<le> cf_outboundMaxQueueBytes cfg)
     \<and> (wc_closed c \<longrightarrow> \<not> wc_drainTimer c)"

definition conn_ok :: "ws_config \<Rightarrow> ws_conn \<Rightarrow> bool" where
  "conn_ok cfg c \<longleftrightarrow> accounted cfg c
     \<and> (\<not> wc_closed c \<and> wc_outboundQueue c \<noteq> [] \<longrightarrow> wc_drainScheduled c \<or> wc_drainTimer c)"

lemma accounted_log [simp]: "accounted cfg (c\<lparr>wc_log := l\<rparr>) = accounted cfg c"
  by (simp add: accounted_def)

lemma accounted_close: "accounted cfg c \<Longrightarrow> conn_ok cfg (close_for_error e c)"
  by (simp add: accounted_def conn_ok_def ws_close)

lemma accounted_pop:
  "accounted cfg c \<Longrightarrow> wc_outboundQueue c = (m, b) # rest \<Longrightarrow>
   accounted cfg (c\<lparr>wc_outboundQueue := rest, wc_outboundQueuedBytes := wc_outboundQueuedBytes c - int b\<rparr>)"
  by (auto simp: accounted_def)

lemma drain_loop_ok:
  "accounted cfg c \<Longrightarrow> conn_ok cfg (drain_loop cfg env c)
     \<and> (\<not> wc_closed (drain_loop cfg env c) \<longrightarrow>
          ws_sent (drain_loop cfg env c) @ ws_waiting (drain_loop cfg env c) = ws_sent c @ ws_waiting c)
     \<and> (wc_closed c \<longrightarrow> drain_loop cfg env c = c)"
proof (induction cfg env c rule: drain_loop.induct)
  case (1 cfg env c)
  show ?case
  proof (cases "wc_closed c \<or> wc_outboundQueue c = []")
    case True
    then show ?thesis using "1.prems" by (auto simp: drain_loop.simps[of cfg env c] conn_ok_def)
  next
    case False
    then obtain m b rest where q: "wc_outboundQueue c = (m, b) # rest" and op: "\<not> wc_closed c"
      by (cases "wc_outboundQueue c") auto
    let ?c1 = "c\<lparr>wc_outboundQueue := rest, wc_outboundQueuedBytes := wc_outboundQueuedBytes c - int b\<rparr>"
    obtain r c2 where t: "try_send_now cfg env m ?c1 = (r, c2)" by fastforce
    have eq: "drain_loop cfg env c = (case r of Inl _ \<Rightarrow> c2 | Inr sent \<Rightarrow> if \<not> sent then
                  schedule_drain_retry (c2\<lparr>wc_outboundQueue := (m, b) # wc_outboundQueue c2,
                     wc_outboundQueuedBytes := wc_outboundQueuedBytes c2 + int b\<rparr>)
                else drain_loop cfg env c2)"
      using op q t by (simp add: drain_loop.simps[of cfg env c] Let_def split: sum.split)
    have a1: "accounted cfg ?c1" by (rule accounted_pop[OF "1.prems" q])
    have "\<not> wc_closed ?c1" using op by simp
    from t this show ?thesis
    proof (cases rule: try_send_now_cases)
      case (1 st)
      have "accounted cfg c2" using a1 1 by simp
      moreover have "ws_sent c2 @ ws_waiting c2 = ws_sent c @ ws_waiting c"
        using 1 q by (simp add: ws_sent_def ws_waiting_def)
      moreover have "\<not> wc_closed c2" using 1 op by simp
      ultimately show ?thesis
        using "1.IH"[OF op q _ refl t[symmetric], of True] 1 eq op by simp
    next
      case 2
      then have e: "drain_loop cfg env c = c\<lparr>wc_log := wc_log c @ [SocketSend m (Returned (Some (-1)))], wc_drainTimer := True\<rparr>"
        using eq op q by (simp add: drain_retry_cases)
      show ?thesis unfolding e using "1.prems" op
        by (simp add: conn_ok_def accounted_def ws_sent_def ws_waiting_def)
    next
      case (3 e)
      then show ?thesis using a1 eq op by (simp add: conn_ok_def accounted_def)
    qed
  qed
qed

lemma drain_ok: "conn_ok cfg c \<Longrightarrow> conn_ok cfg (drain_outbound_queue cfg env c)"
  using drain_loop_ok[of cfg "c\<lparr>wc_drainScheduled := False\<rparr>" env]
  by (simp add: drain_outbound_queue_def conn_ok_def accounted_def)

lemma drain_timer_ok: "conn_ok cfg c \<Longrightarrow> conn_ok cfg (drain_timer_fires c)"
  by (auto simp: drain_timer_fires_def schedule_drain_def conn_ok_def accounted_def Let_def)

lemma enqueue_spec:
  assumes "conn_ok cfg c" "enqueue_outbound cfg env m c = (r, c')"
  shows "conn_ok cfg c'" "wc_closed c \<Longrightarrow> c' = c \<and> r = Inr ()"
    "\<And>e. r = Inl e \<Longrightarrow> wc_closed c' \<and> he_code e = BACKPRESSURE_OVERFLOW"
    "\<not> wc_closed c' \<Longrightarrow> ws_sent c' @ ws_waiting c' = ws_sent c @ ws_waiting c @ [m]"
    "wc_connId c' = wc_connId c" "wc_auth c' = wc_auth c"
proof -
  have "conn_ok cfg c' \<and> (wc_closed c \<longrightarrow> c' = c \<and> r = Inr ()) \<and>
    (\<forall>e. r = Inl e \<longrightarrow> wc_closed c' \<and> he_code e = BACKPRESSURE_OVERFLOW) \<and>
    (\<not> wc_closed c' \<longrightarrow> ws_sent c' @ ws_waiting c' = ws_sent c @ ws_waiting c @ [m]) \<and>
    wc_connId c' = wc_connId c \<and> wc_auth c' = wc_auth c"
  proof (cases "wc_closed c")
    case True
    then show ?thesis using assms by (auto simp: enqueue_outbound_def)
  next
    case op: False
    let ?direct = "wc_outboundQueue c = [] \<and> \<not> wc_drainScheduled c \<and> \<not> wc_drainTimer c"
    let ?b = "cf_bytes cfg m"
    define rest where "rest = (\<lambda>c1. if int (length (wc_outboundQueue c1)) + 1 > cf_outboundMaxQueueMessages cfg
                 \<or> wc_outboundQueuedBytes c1 + int ?b > cf_outboundMaxQueueBytes cfg then
               (let e = plain_error BACKPRESSURE_OVERFLOW ''WebSocket outbound queue overflow''
                in (Inl e :: hardess_error + unit, close_for_error e c1))
             else
               (let c2 = c1\<lparr>wc_outboundQueue := wc_outboundQueue c1 @ [(m, ?b)],
                            wc_outboundQueuedBytes := wc_outboundQueuedBytes c1 + int ?b\<rparr>
                in (Inr (), if ?direct then schedule_drain_retry c2
                            else if wc_drainTimer c2 then c2 else schedule_drain c2)))"
    have eq: "(r, c') = (case (if ?direct then try_send_now cfg env m c else (Inr False, c)) of
            (Inl e, c1) \<Rightarrow> (Inl e, c1) | (Inr sent, c1) \<Rightarrow> if sent then (Inr (), c1) else rest c1)"
      unfolding assms(2)[symmetric] enqueue_outbound_def rest_def Let_def if_not_P[OF op] ..
    have acc: "accounted cfg c" using assms(1) by (simp add: conn_ok_def)
    have push: ?thesis if "(r, c') = rest c1" "c1 = c\<lparr>wc_log := l\<rparr>" "ws_sent c1 = ws_sent c" for c1 l
    proof (cases "int (length (wc_outboundQueue c)) + 1 > cf_outboundMaxQueueMessages cfg
                 \<or> wc_outboundQueuedBytes c + int ?b > cf_outboundMaxQueueBytes cfg")
      case True
      then have "r = Inl (plain_error BACKPRESSURE_OVERFLOW ''WebSocket outbound queue overflow'')"
        "c' = close_for_error (plain_error BACKPRESSURE_OVERFLOW ''WebSocket outbound queue overflow'') c1"
        using that by (auto simp: rest_def Let_def)
      then show ?thesis using accounted_close[of cfg c1] acc op that by (simp add: new_hardess_error_def)
    next
      case False
      let ?c2 = "c1\<lparr>wc_outboundQueue := wc_outboundQueue c1 @ [(m, ?b)],
                     wc_outboundQueuedBytes := wc_outboundQueuedBytes c1 + int ?b\<rparr>"
      have a2: "accounted cfg ?c2" using acc False that by (auto simp: accounted_def)
      have r: "r = Inr ()" "c' = (if ?direct then schedule_drain_retry ?c2
          else if wc_drainTimer ?c2 then ?c2 else schedule_drain ?c2)"
        using that False by (auto simp: rest_def Let_def)
      have o2: "\<not> wc_closed ?c2" using op that by simp
      have w: "ws_sent ?c2 @ ws_waiting ?c2 = ws_sent c @ ws_waiting c @ [m]"
        using that by (simp add: ws_sent_def ws_waiting_def)
      show ?thesis using r a2 o2 w that(2) op
        by (auto simp: drain_retry_cases schedule_drain_cases conn_ok_def accounted_def ws_sent_def ws_waiting_def)
    qed
    show ?thesis
    proof (cases ?direct)
      case False
      have "(r, c') = rest c" using eq unfolding if_not_P[OF False] by simp
      then show ?thesis using push[of c "wc_log c"] by simp
    next
      case True
      obtain x c1 where t: "try_send_now cfg env m c = (x, c1)" by fastforce
      note eq = eq[unfolded if_P[OF True] t]
      from t op show ?thesis
      proof (cases rule: try_send_now_cases)
        case (1 st)
        then show ?thesis using eq acc op True
          by (simp add: conn_ok_def accounted_def ws_sent_def ws_waiting_def)
      next
        case 2
        then show ?thesis using eq push[OF _ 2(2)] by (simp add: ws_sent_def)
      next
        case (3 e)
        then show ?thesis using eq acc op by (simp add: conn_ok_def accounted_def)
      qed
    qed
  qed
  then show "conn_ok cfg c'" "wc_closed c \<Longrightarrow> c' = c \<and> r = Inr ()"
    "\<And>e. r = Inl e \<Longrightarrow> wc_closed c' \<and> he_code e = BACKPRESSURE_OVERFLOW"
    "\<not> wc_closed c' \<Longrightarrow> ws_sent c' @ ws_waiting c' = ws_sent c @ ws_waiting c @ [m]"
    "wc_connId c' = wc_connId c" "wc_auth c' = wc_auth c" by blast+
qed

lemma new_conn_ok: "conn_ok cfg (new_ws_conn i now)"
  by (simp add: new_ws_conn_def conn_ok_def accounted_def)

text \<open>The connection meets the contract of an outbound queue.\<close>

definition ws_enq :: "ws_config \<Rightarrow> socket_env \<Rightarrow> out_msg \<Rightarrow> ws_conn \<Rightarrow> bool \<times> ws_conn" where
  "ws_enq cfg env m c = (case enqueue_outbound cfg env m c of (Inl _, c1) \<Rightarrow> (False, c1) | (Inr _, c1) \<Rightarrow> (True, c1))"

lemma ws_enq_cases:
  assumes "ws_enq cfg env m c = (b, c')"
  obtains e where "b = False" "enqueue_outbound cfg env m c = (Inl e, c')"
  | "b = True" "enqueue_outbound cfg env m c = (Inr (), c')"
  using assms by (auto simp: ws_enq_def split: prod.splits sum.splits)

interpretation ws: outbound_queue "conn_ok cfg" wc_closed ws_waiting ws_sent
  "\<lambda>c. wc_drainScheduled c \<or> wc_drainTimer c" "ws_enq cfg env" "drain_outbound_queue cfg env" drain_timer_fires
  for cfg env
proof (unfold_locales, goal_cases)
  case (1 c m)
  obtain b c' where e: "ws_enq cfg env m c = (b, c')" by fastforce
  then show ?case by (cases rule: ws_enq_cases) (use 1 e enqueue_spec(1) in auto)
next
  case (2 c) then show ?case by (rule drain_ok)
next
  case (3 c) then show ?case by (rule drain_timer_ok)
next
  case (4 c m c')
  from 4(2) show ?case by (cases rule: ws_enq_cases) (use 4 enqueue_spec(4) in auto)
next
  case (5 c m c')
  from 5(2) show ?case by (cases rule: ws_enq_cases) (use 5 enqueue_spec(3) in auto)
next
  case (6 c)
  then show ?case using drain_loop_ok[of cfg "c\<lparr>wc_drainScheduled := False\<rparr>" env]
    by (simp add: drain_outbound_queue_def conn_ok_def accounted_def ws_sent_def ws_waiting_def)
next
  case (7 c)
  then show ?case
    by (auto simp: drain_timer_fires_def schedule_drain_def ws_sent_def ws_waiting_def Let_def split: if_split_asm)
next
  case (8 c m)
  obtain b c' where e: "ws_enq cfg env m c = (b, c')" by fastforce
  have "c' = c" using e by (cases rule: ws_enq_cases) (use 8 enqueue_spec(2) in auto)
  then show ?case using 8 e drain_loop_ok[of cfg "c\<lparr>wc_drainScheduled := False\<rparr>" env]
    by (simp add: drain_outbound_queue_def drain_timer_fires_def conn_ok_def accounted_def)
next
  case (9 c)
  then show ?case by (auto simp: conn_ok_def ws_waiting_def)
qed

section \<open>Properties\<close>

text \<open>C16: The outbound side of a connection is first in, first out and bounded. Whatever the socket
  answers and in whatever order enqueues, drains and retry timers come, as long as the connection is
  open the messages the socket took, followed by the ones that wait, are exactly the messages that
  were enqueued, in that order; the accounted bytes are the bytes that wait; and neither limit is
  exceeded.\<close>

theorem ws_outbound_fifo_bounded:
  "queue_run (ws_enq cfg env) (drain_outbound_queue cfg env) drain_timer_fires ops (new_ws_conn i now) = (accepted, c) \<Longrightarrow>
   (\<not> wc_closed c \<longrightarrow> ws_sent c @ ws_waiting c = accepted)
   \<and> wc_outboundQueuedBytes c = int (sum_list (map (cf_bytes cfg) (ws_waiting c)))
   \<and> (ws_waiting c = [] \<or> int (length (ws_waiting c)) \<le> cf_outboundMaxQueueMessages cfg
        \<and> wc_outboundQueuedBytes c \<le> cf_outboundMaxQueueBytes cfg)"
proof -
  assume r: "queue_run (ws_enq cfg env) (drain_outbound_queue cfg env) drain_timer_fires ops (new_ws_conn i now) = (accepted, c)"
  have "conn_ok cfg (snd (queue_run (ws_enq cfg env) (drain_outbound_queue cfg env) drain_timer_fires ops (new_ws_conn i now)))"
    by (rule ws.run_ok[OF new_conn_ok])
  then have ok: "conn_ok cfg c" using r by simp
  have b: "map (cf_bytes cfg) (ws_waiting c) = map snd (wc_outboundQueue c)"
    using ok by (auto simp: conn_ok_def accounted_def ws_waiting_def)
  have "\<not> wc_closed c \<Longrightarrow> ws_sent c @ ws_waiting c = accepted"
    using ws.run_fifo[OF new_conn_ok r] by (simp add: ws_waiting_def ws_sent_def new_ws_conn_def)
  then show ?thesis
    using ok unfolding b by (simp add: conn_ok_def accounted_def ws_waiting_def)
qed

definition example_config :: ws_config where
  "example_config = (ws_config_of ''n1'' None (\<lambda>_. 10) \<lparr>wo_heartbeatIntervalMs = None, wo_staleAfterMs = None,
     wo_maxConnections = None, wo_maxConnectionsPerPeer = None, wo_rateLimit = None,
     wo_outbound = Some (2, 100, None), wo_shutdownGraceMs = None, wo_pendingHandleAckTtlMs = None,
     wo_pendingHandleAckMaxEntries = None\<rparr>)"

definition example_ping :: "string \<Rightarrow> out_msg" where
  "example_ping u = create_ping_envelope u 0 ''c'' None None"

text \<open>A socket that pushes back once.\<close>

definition pushback_env :: socket_env where
  "pushback_env = \<lparr>se_send = (\<lambda>k. if k = 0 then Returned (Some (-1)) else Returned (Some 1)), se_buffered = (\<lambda>_. 0)\<rparr>"

theorem ws_outbound_fifo_bounded_witness:
  "\<exists>c. queue_run (ws_enq example_config pushback_env) (drain_outbound_queue example_config pushback_env) drain_timer_fires
      [Enqueue (example_ping ''a''), Enqueue (example_ping ''b''), RunTimer, RunDrain] (new_ws_conn ''c'' 0)
      = ([example_ping ''a'', example_ping ''b''], c)
    \<and> \<not> wc_closed c \<and> ws_sent c @ ws_waiting c = [example_ping ''a'', example_ping ''b'']"
proof -
  let ?r = "queue_run (ws_enq example_config pushback_env) (drain_outbound_queue example_config pushback_env) drain_timer_fires
      [Enqueue (example_ping ''a''), Enqueue (example_ping ''b''), RunTimer, RunDrain] (new_ws_conn ''c'' 0)"
  have "fst ?r = [example_ping ''a'', example_ping ''b''] \<and> \<not> wc_closed (snd ?r)" by code_simp
  then show ?thesis
    using ws_outbound_fifo_bounded[where cfg = example_config and env = pushback_env
        and ops = "[Enqueue (example_ping ''a''), Enqueue (example_ping ''b''), RunTimer, RunDrain]"
        and i = "''c''" and now = 0 and accepted = "fst ?r" and c = "snd ?r"]
    by (intro exI[of _ "snd ?r"]) (simp add: prod_eq_iff)
qed

text \<open>Nothing waits for ever on an open connection: after any run of enqueues, drains and
  timers, a connection that is open with messages waiting has a drain or a retry timer pending.\<close>

theorem ws_outbound_not_stuck:
  "queue_run (ws_enq cfg env) (drain_outbound_queue cfg env) drain_timer_fires ops (new_ws_conn i now) = (accepted, c) \<Longrightarrow>
   \<not> wc_closed c \<Longrightarrow> ws_waiting c \<noteq> [] \<Longrightarrow> wc_drainScheduled c \<or> wc_drainTimer c"
  by (rule ws.run_not_stuck[OF new_conn_ok])

theorem ws_outbound_not_stuck_witness:
  "\<exists>c. queue_run (ws_enq example_config pushback_env) (drain_outbound_queue example_config pushback_env) drain_timer_fires
      [Enqueue (example_ping ''a'')] (new_ws_conn ''c'' 0) = ([example_ping ''a''], c)
    \<and> ws_waiting c \<noteq> [] \<and> (wc_drainScheduled c \<or> wc_drainTimer c)"
proof -
  let ?r = "queue_run (ws_enq example_config pushback_env) (drain_outbound_queue example_config pushback_env) drain_timer_fires
      [Enqueue (example_ping ''a'')] (new_ws_conn ''c'' 0)"
  have v: "fst ?r = [example_ping ''a''] \<and> \<not> wc_closed (snd ?r) \<and> ws_waiting (snd ?r) \<noteq> []" by code_simp
  then show ?thesis
    using ws_outbound_not_stuck[where cfg = example_config and env = pushback_env
        and ops = "[Enqueue (example_ping ''a'')]" and i = "''c''" and now = 0 and accepted = "fst ?r" and c = "snd ?r"]
    by (intro exI[of _ "snd ?r"]) (simp add: prod_eq_iff)
qed

text \<open>A message the socket answers with -1 is handed to the socket again. With a runtime whose
  -1 means that the message was taken with backpressure, the client gets it twice.\<close>

theorem backpressured_message_sent_again:
  "let c = snd (queue_run (ws_enq example_config pushback_env) (drain_outbound_queue example_config pushback_env)
                  drain_timer_fires [Enqueue m, RunTimer, RunDrain] (new_ws_conn i now))
   in wc_log c = [SocketSend m (Returned (Some (-1))), SocketSend m (Returned (Some 1))] \<and> \<not> wc_closed c"
  by (simp add: ws_enq_def enqueue_outbound_def new_ws_conn_def try_send_now_def socket_send_def
      ensure_socket_buffer_within_limit_def buffered_amount_def pushback_env_def example_config_def ws_config_of_def
      opt_default_def schedule_drain_retry_def drain_timer_fires_def schedule_drain_def drain_outbound_queue_def
      drain_loop.simps Let_def)

end
