(* ===== verification/Peer_Locator.thy ===== *)
theory Peer_Locator
  imports Shared_Types
begin

text \<open>Where a peer is connected: the in-memory locator of one node
  (src/src/runtime/routing/peer-locator.ts, class InMemoryPeerLocator) and the dispatcher that
  turns a list of peers into a delivery plan (src/src/runtime/routing/dispatcher.ts).

  The locator keeps two Maps, one from connection id to connection and one from peer id to the
  peer's own Map of connections. The locale \<open>conn_directory\<close> is the contract its clients rely
  on: a finite map from connection id to connection, and lookups that agree with it.

  The optional argument \<open>options?: { groupId?: string }\<close> is a \<open>scope\<close>: \<open>None\<close> when it is absent,
  \<open>Some g\<close> when it is present with the group \<open>g\<close>, itself optional.\<close>

type_synonym scope = "string option option"

record locator =
  pl_byPeer :: "(string, (string, conn_ref) js_map) js_map"
  pl_byId :: "(string, conn_ref) js_map"

definition new_locator :: locator where
  "new_locator = \<lparr>pl_byPeer = [], pl_byId = []\<rparr>"

section \<open>Operations\<close>

definition drop_conn :: "string \<Rightarrow> string \<Rightarrow> (string, (string, conn_ref) js_map) js_map \<Rightarrow>
    (string, (string, conn_ref) js_map) js_map" where
  "drop_conn peerId connId m = (case map_of m peerId of
     None \<Rightarrow> m
   | Some conns \<Rightarrow>
       (let conns1 = map_del connId conns in
        if conns1 = [] then map_del peerId m else map_set peerId conns1 m))"

definition loc_register :: "conn_ref \<Rightarrow> locator \<Rightarrow> locator" where
  "loc_register ref s =
    (let byPeer1 = (case map_of (pl_byId s) (cr_connId ref) of
           None \<Rightarrow> pl_byPeer s
         | Some existing \<Rightarrow>
             if cr_peerId existing \<noteq> cr_peerId ref
             then drop_conn (cr_peerId existing) (cr_connId existing) (pl_byPeer s)
             else pl_byPeer s);
         byId1 = map_set (cr_connId ref) ref (pl_byId s);
         peerConns = (case map_of byPeer1 (cr_peerId ref) of None \<Rightarrow> [] | Some conns \<Rightarrow> conns)
     in \<lparr>pl_byPeer = map_set (cr_peerId ref) (map_set (cr_connId ref) ref peerConns) byPeer1,
         pl_byId = byId1\<rparr>)"

definition loc_unregister :: "string \<Rightarrow> locator \<Rightarrow> locator" where
  "loc_unregister connId s = (case map_of (pl_byId s) connId of
     None \<Rightarrow> s
   | Some ref \<Rightarrow> \<lparr>pl_byPeer = drop_conn (cr_peerId ref) connId (pl_byPeer s),
                  pl_byId = map_del connId (pl_byId s)\<rparr>)"

definition get_by_conn_id :: "locator \<Rightarrow> string \<Rightarrow> conn_ref option" where
  "get_by_conn_id s connId = map_of (pl_byId s) connId"

definition count_connections :: "locator \<Rightarrow> nat" where
  "count_connections s = length (pl_byId s)"

definition count_connections_for_peer :: "locator \<Rightarrow> string \<Rightarrow> nat" where
  "count_connections_for_peer s peerId =
     (case map_of (pl_byPeer s) peerId of None \<Rightarrow> 0 | Some conns \<Rightarrow> length conns)"

definition loc_find :: "locator \<Rightarrow> string \<Rightarrow> scope \<Rightarrow> conn_ref list" where
  "loc_find s peerId options =
    (let conns = map snd (case map_of (pl_byPeer s) peerId of None \<Rightarrow> [] | Some m \<Rightarrow> m)
     in case options of None \<Rightarrow> conns | Some groupId \<Rightarrow> filter (\<lambda>conn. cr_groupId conn = groupId) conns)"

definition find_many :: "(string \<Rightarrow> 'o \<Rightarrow> 'v) \<Rightarrow> string list \<Rightarrow> 'o \<Rightarrow> (string, 'v) js_map" where
  "find_many find1 peerIds options = foldl (\<lambda>result peerId. map_set peerId (find1 peerId options) result) [] peerIds"

definition loc_find_many :: "locator \<Rightarrow> string list \<Rightarrow> scope \<Rightarrow> (string, conn_ref list) js_map" where
  "loc_find_many s = find_many (loc_find s)"

section \<open>The dispatcher\<close>

record plan_options =
  po_streamId :: "string option"
  po_ack :: "ack_mode option"
  po_groupId :: "string option"

definition build_plan ::
  "(string list \<Rightarrow> scope \<Rightarrow> (string, conn_ref list) js_map) \<Rightarrow> string list \<Rightarrow> plan_options \<Rightarrow> delivery_plan" where
  "build_plan findMany peerIds options =
    (let uniquePeerIds = js_unique peerIds;
         located = findMany uniquePeerIds (Some (po_groupId options));
         targets = concat (map (\<lambda>p. case map_of located p of None \<Rightarrow> [] | Some cs \<Rightarrow> cs) uniquePeerIds)
     in \<lparr>dp_targets = targets, dp_streamId = po_streamId options,
         dp_ack = (case po_ack options of Some a \<Rightarrow> a | None \<Rightarrow> AckRecv)\<rparr>)"

definition invalidate_peers :: "(string \<Rightarrow> 'c \<Rightarrow> 'c) \<Rightarrow> string list \<Rightarrow> 'c \<Rightarrow> 'c" where
  "invalidate_peers invalidate1 peerIds c = foldl (\<lambda>st p. invalidate1 p st) c (js_unique peerIds)"

section \<open>The contract\<close>

definition in_scope :: "scope \<Rightarrow> conn_ref \<Rightarrow> bool" where
  "in_scope options ref = (case options of None \<Rightarrow> True | Some g \<Rightarrow> cr_groupId ref = g)"

lemma in_scope_simps [simp]: "in_scope None r" "in_scope (Some g) r \<longleftrightarrow> cr_groupId r = g"
  by (simp_all add: in_scope_def)

lemma find_many_lookup:
  "map_of (find_many f ps opts) p = (if p \<in> set ps then Some (f p opts) else None)"
proof -
  have "map_of (foldl (\<lambda>r p. map_set p (f p opts) r) m ps) p =
      (if p \<in> set ps then Some (f p opts) else map_of m p)" for m
    by (induction ps arbitrary: m) auto
  then show ?thesis by (simp add: find_many_def)
qed

locale conn_directory =
  fixes inv :: "'s \<Rightarrow> bool"
    and register :: "conn_ref \<Rightarrow> 's \<Rightarrow> 's"
    and unregister :: "string \<Rightarrow> 's \<Rightarrow> 's"
    and lookup :: "'s \<Rightarrow> string \<Rightarrow> conn_ref option"
    and find :: "'s \<Rightarrow> string \<Rightarrow> scope \<Rightarrow> conn_ref list"
    and count :: "'s \<Rightarrow> nat"
    and count_for :: "'s \<Rightarrow> string \<Rightarrow> nat"
  assumes inv_register: "inv s \<Longrightarrow> inv (register r s)"
    and inv_unregister: "inv s \<Longrightarrow> inv (unregister c s)"
    and lookup_register: "inv s \<Longrightarrow> lookup (register r s) = (lookup s)(cr_connId r \<mapsto> r)"
    and lookup_unregister: "inv s \<Longrightarrow> lookup (unregister c s) = (lookup s)(c := None)"
    and find_iff: "inv s \<Longrightarrow> r \<in> set (find s p sc) \<longleftrightarrow>
          lookup s (cr_connId r) = Some r \<and> cr_peerId r = p \<and> in_scope sc r"
    and find_distinct: "inv s \<Longrightarrow> distinct (map cr_connId (find s p sc))"
    and finite_dom: "inv s \<Longrightarrow> finite (dom (lookup s))"
    and count_card: "inv s \<Longrightarrow> count s = card (dom (lookup s))"
    and count_for_find: "inv s \<Longrightarrow> count_for s p = length (find s p None)"
    and conn_id: "inv s \<Longrightarrow> lookup s c = Some r \<Longrightarrow> cr_connId r = c"
begin

lemma count_register:
  "inv s \<Longrightarrow> count (register r s) = (if lookup s (cr_connId r) = None then Suc (count s) else count s)"
proof -
  assume i: "inv s"
  have "dom (lookup (register r s)) = insert (cr_connId r) (dom (lookup s))" by (simp add: lookup_register[OF i])
  then show ?thesis using i inv_register[OF i, of r] finite_dom[OF i] by (simp add: count_card card_insert_if domIff)
qed

lemma count_unregister:
  "inv s \<Longrightarrow> count (unregister c s) = (if lookup s c = None then count s else count s - 1)"
proof -
  assume i: "inv s"
  have "dom (lookup (unregister c s)) = dom (lookup s) - {c}" using lookup_unregister[OF i, of c] by auto
  then show ?thesis using i inv_unregister[OF i, of c] finite_dom[OF i]
    by (auto simp: count_card domIff card_Diff_singleton)
qed

definition conns_of :: "'s \<Rightarrow> string \<Rightarrow> string set" where
  "conns_of s p = {c. \<exists>r. lookup s c = Some r \<and> cr_connId r = c \<and> cr_peerId r = p}"

lemma count_for_card: "inv s \<Longrightarrow> count_for s p = card (conns_of s p)"
proof -
  assume i: "inv s"
  have "set (map cr_connId (find s p None)) = conns_of s p" by (auto simp: conns_of_def find_iff[OF i] image_iff)
  then show ?thesis using distinct_card[OF find_distinct[OF i, of p None]] by (simp add: count_for_find[OF i])
qed

lemma count_for_register_le:
  assumes i: "inv s"
  shows "count_for (register r s) p \<le> count_for s p
    + (if p = cr_peerId r \<and> map_option cr_peerId (lookup s (cr_connId r)) \<noteq> Some p then 1 else 0)"
proof -
  have fin: "finite (conns_of s p)"
    by (rule finite_subset[OF _ finite_dom[OF i]]) (auto simp: conns_of_def)
  have sub: "conns_of (register r s) p \<subseteq> (if p = cr_peerId r then insert (cr_connId r) (conns_of s p) else conns_of s p)"
    by (auto simp: conns_of_def lookup_register[OF i] split: if_split_asm)
  have "card (conns_of (register r s) p)
      \<le> card (if p = cr_peerId r then insert (cr_connId r) (conns_of s p) else conns_of s p)"
    by (rule card_mono[OF _ sub]) (use fin in auto)
  moreover have "cr_connId r \<in> conns_of s p" if "map_option cr_peerId (lookup s (cr_connId r)) = Some p"
    using that conn_id[OF i] by (auto simp: conns_of_def)
  ultimately show ?thesis using fin
    by (auto simp: count_for_card i inv_register card_insert_if split: if_split_asm)
qed

lemma count_for_unregister_le: "inv s \<Longrightarrow> count_for (unregister c s) p \<le> count_for s p"
proof -
  assume i: "inv s"
  have "conns_of (unregister c s) p \<subseteq> conns_of s p" by (auto simp: conns_of_def lookup_unregister[OF i] split: if_split_asm)
  moreover have "finite (conns_of s p)"
    by (rule finite_subset[OF _ finite_dom[OF i]]) (auto simp: conns_of_def)
  ultimately show ?thesis by (simp add: count_for_card i inv_unregister card_mono)
qed

lemma register_unregister_find:
  "inv s \<Longrightarrow> lookup s (cr_connId r) = None \<Longrightarrow>
   set (find (unregister (cr_connId r) (register r s)) p sc) = set (find s p sc)"
  by (auto simp: find_iff inv_register inv_unregister lookup_register lookup_unregister split: if_split_asm)

lemma unregistered_nowhere:
  "inv s \<Longrightarrow> r \<in> set (find (unregister c s) p sc) \<Longrightarrow> cr_connId r \<noteq> c"
  by (auto simp: find_iff inv_unregister lookup_unregister)

lemma plan_iff:
  "inv s \<Longrightarrow> r \<in> set (dp_targets (build_plan (find_many (find s)) ps opts)) \<longleftrightarrow>
     lookup s (cr_connId r) = Some r \<and> cr_peerId r \<in> set ps \<and> cr_groupId r = po_groupId opts"
  by (auto simp: build_plan_def Let_def find_many_lookup find_iff)

lemma plan_distinct: "inv s \<Longrightarrow> distinct (map cr_connId (dp_targets (build_plan (find_many (find s)) ps opts)))"
proof -
  assume i: "inv s"
  have "distinct ps' \<Longrightarrow> distinct (map cr_connId (concat (map (\<lambda>p. find s p sc) ps')))" for ps' sc
  proof (induction ps')
    case (Cons p ps')
    have "cr_connId a \<noteq> cr_connId b" if "a \<in> set (find s p sc)" "b \<in> set (find s q sc)" "q \<in> set ps'" for a b q
      using that Cons.prems by (metis distinct.simps(2) find_iff i option.inject)
    with Cons show ?case by (force simp: find_distinct[OF i])
  qed simp
  from this[OF distinct_js_unique, of "Some (po_groupId opts)" ps]
  show ?thesis by (simp add: build_plan_def Let_def find_many_lookup cong: map_cong)
qed

end

section \<open>The in-memory locator meets the contract\<close>

text \<open>The lookup in the nested Maps, and the invariant: no peer has an empty Map, and the nested
  Maps hold exactly the connections of the flat one.\<close>

definition peer_conn :: "locator \<Rightarrow> string \<Rightarrow> string \<Rightarrow> conn_ref option" where
  "peer_conn s p c = (case map_of (pl_byPeer s) p of None \<Rightarrow> None | Some conns \<Rightarrow> map_of conns c)"

definition locator_ok :: "locator \<Rightarrow> bool" where
  "locator_ok s \<longleftrightarrow> wf_map (pl_byPeer s) \<and> wf_map (pl_byId s)
     \<and> (\<forall>p conns. map_of (pl_byPeer s) p = Some conns \<longrightarrow> wf_map conns \<and> conns \<noteq> [])
     \<and> (\<forall>c r. map_of (pl_byId s) c = Some r \<longrightarrow> cr_connId r = c)
     \<and> (\<forall>p c r. peer_conn s p c = Some r \<longleftrightarrow> map_of (pl_byId s) c = Some r \<and> cr_peerId r = p)"

lemma locator_okD:
  assumes "locator_ok s"
  shows "wf_map (pl_byPeer s)" "wf_map (pl_byId s)"
    "map_of (pl_byPeer s) p = Some conns \<Longrightarrow> wf_map conns"
    "map_of (pl_byPeer s) p = Some conns \<Longrightarrow> conns \<noteq> []"
    "map_of (pl_byId s) c = Some r \<Longrightarrow> cr_connId r = c"
    "peer_conn s p c = Some r \<longleftrightarrow> map_of (pl_byId s) c = Some r \<and> cr_peerId r = p"
  using assms unfolding locator_ok_def by blast+

definition maps_ok :: "(string, (string, conn_ref) js_map) js_map \<Rightarrow> bool" where
  "maps_ok m \<longleftrightarrow> wf_map m \<and> (\<forall>p conns. map_of m p = Some conns \<longrightarrow> wf_map conns \<and> conns \<noteq> [])"

definition nested :: "(string, (string, conn_ref) js_map) js_map \<Rightarrow> string \<Rightarrow> string \<Rightarrow> conn_ref option" where
  "nested m p c = (case map_of m p of None \<Rightarrow> None | Some conns \<Rightarrow> map_of conns c)"

lemma peer_conn_nested: "peer_conn s = nested (pl_byPeer s)"
  by (auto simp: peer_conn_def nested_def fun_eq_iff)

lemma drop_conn_ok: "maps_ok m \<Longrightarrow> maps_ok (drop_conn p c m)"
  by (auto simp: maps_ok_def drop_conn_def Let_def split: option.split if_split_asm)

lemma nested_drop: "nested (drop_conn p c m) q d = (if q = p \<and> d = c then None else nested m q d)"
proof (cases "map_of m p")
  case (Some conns)
  have "map_del c conns = [] \<Longrightarrow> d \<noteq> c \<Longrightarrow> map_of conns d = None"
    by (metis fun_upd_other map_of.simps(1) map_of_del)
  then show ?thesis by (auto simp: nested_def drop_conn_def Some Let_def split: option.split)
qed (auto simp: nested_def drop_conn_def)

lemma nested_add:
  "nested (map_set p (map_set c r (case map_of m p of None \<Rightarrow> [] | Some conns \<Rightarrow> conns)) m) q d =
     (if q = p \<and> d = c then Some r else nested m q d)"
  by (auto simp: nested_def split: option.split)

lemma add_conn_ok:
  "maps_ok m \<Longrightarrow> maps_ok (map_set p (map_set c r (case map_of m p of None \<Rightarrow> [] | Some conns \<Rightarrow> conns)) m)"
proof -
  have "map_set c r xs \<noteq> []" for xs :: "(string, conn_ref) js_map" by (cases xs) auto
  then show "maps_ok m \<Longrightarrow> ?thesis" by (auto simp: maps_ok_def split: option.split if_split_asm)
qed

lemma locator_ok_iff:
  "locator_ok s \<longleftrightarrow> maps_ok (pl_byPeer s) \<and> wf_map (pl_byId s)
     \<and> (\<forall>c r. map_of (pl_byId s) c = Some r \<longrightarrow> cr_connId r = c)
     \<and> (\<forall>p c r. nested (pl_byPeer s) p c = Some r \<longleftrightarrow> map_of (pl_byId s) c = Some r \<and> cr_peerId r = p)"
  by (auto simp: locator_ok_def maps_ok_def peer_conn_nested)

lemma loc_register_ok: "locator_ok s \<Longrightarrow> locator_ok (loc_register r s)"
  unfolding locator_ok_iff loc_register_def Let_def
  by (cases "map_of (pl_byId s) (cr_connId r)")
     (simp_all add: add_conn_ok drop_conn_ok nested_add nested_drop, auto)

lemma loc_unregister_ok: "locator_ok s \<Longrightarrow> locator_ok (loc_unregister c s)"
proof (cases "map_of (pl_byId s) c")
  case (Some r)
  assume "locator_ok s"
  then show ?thesis using Some unfolding locator_ok_iff
    by (simp add: loc_unregister_def drop_conn_ok nested_drop)
qed (simp add: loc_unregister_def)

lemma new_locator_ok: "locator_ok new_locator"
  by (simp add: locator_ok_def new_locator_def peer_conn_def)

lemma conn_entry_key:
  assumes "locator_ok s" "map_of (pl_byPeer s) p = Some conns" "(c, r) \<in> set conns"
  shows "c = cr_connId r"
proof -
  have "peer_conn s p c = Some r"
    using locator_okD(3)[OF assms(1,2)] assms by (simp add: peer_conn_def map_of_wf_iff)
  then show ?thesis using locator_okD(5,6)[OF assms(1)] by blast
qed

lemma loc_find_iff:
  assumes "locator_ok s"
  shows "r \<in> set (loc_find s p sc) \<longleftrightarrow> get_by_conn_id s (cr_connId r) = Some r \<and> cr_peerId r = p \<and> in_scope sc r"
proof -
  have "r \<in> snd ` set conns \<longleftrightarrow> map_of conns (cr_connId r) = Some r" if "map_of (pl_byPeer s) p = Some conns" for conns
    using locator_okD(3)[OF assms that] conn_entry_key[OF assms that]
    by (force simp: map_of_wf_iff)
  then show ?thesis using locator_okD(6)[OF assms, of p "cr_connId r" r]
    by (auto simp: loc_find_def get_by_conn_id_def peer_conn_def in_scope_def Let_def split: option.splits)
qed

lemma loc_find_keys:
  assumes "locator_ok s" "map_of (pl_byPeer s) p = Some conns"
  shows "map cr_connId (map snd conns) = map fst conns"
  using conn_entry_key[OF assms] by (auto simp: comp_def)

lemma loc_find_distinct:
  assumes "locator_ok s"
  shows "distinct (map cr_connId (loc_find s p sc))"
proof (cases "map_of (pl_byPeer s) p")
  case (Some conns)
  have "distinct (map cr_connId (map snd conns))"
    using locator_okD(3)[OF assms Some] loc_find_keys[OF assms Some] by (simp only: wf_map_def)
  then show ?thesis using distinct_map_filter
    by (auto simp: loc_find_def Some Let_def simp del: map_map split: option.split)
qed (simp add: loc_find_def split: option.split)

lemma get_by_conn_id_eq: "get_by_conn_id s = map_of (pl_byId s)"
  by (simp add: fun_eq_iff get_by_conn_id_def)

interpretation mem: conn_directory locator_ok loc_register loc_unregister get_by_conn_id loc_find
  count_connections count_connections_for_peer
proof (unfold_locales, goal_cases)
  case (1 s r) then show ?case by (rule loc_register_ok)
next
  case (2 s c) then show ?case by (rule loc_unregister_ok)
next
  case (3 s r) show ?case by (auto simp: get_by_conn_id_def loc_register_def Let_def)
next
  case (4 s c) show ?case by (auto simp: get_by_conn_id_def loc_unregister_def split: option.split)
next
  case (5 s r p sc) then show ?case by (rule loc_find_iff)
next
  case (6 s p sc) then show ?case by (rule loc_find_distinct)
next
  case (7 s) show ?case by (simp add: get_by_conn_id_eq finite_dom_map_of)
next
  case (8 s) then show ?case
    by (simp add: get_by_conn_id_eq count_connections_def locator_ok_def map_of_wf_card[symmetric])
next
  case (9 s p) show ?case by (simp add: count_connections_for_peer_def loc_find_def split: option.split)
next
  case (10 s c r) then show ?case by (auto simp: get_by_conn_id_def dest: locator_okD(5))
qed

section \<open>Properties\<close>

text \<open>The operations on a locator, and the map from connection id to connection they stand for.\<close>

datatype locator_op = Register conn_ref | Unregister string

fun locator_step :: "locator_op \<Rightarrow> locator \<Rightarrow> locator" where
  "locator_step (Register r) s = loc_register r s"
| "locator_step (Unregister c) s = loc_unregister c s"

fun conn_map_step :: "locator_op \<Rightarrow> (string \<rightharpoonup> conn_ref) \<Rightarrow> (string \<rightharpoonup> conn_ref)" where
  "conn_map_step (Register r) m = m(cr_connId r \<mapsto> r)"
| "conn_map_step (Unregister c) m = m(c := None)"

lemma locator_run:
  "locator_ok s \<Longrightarrow> locator_ok (fold locator_step ops s)
     \<and> get_by_conn_id (fold locator_step ops s) = fold conn_map_step ops (get_by_conn_id s)"
proof (induction ops arbitrary: s)
  case (Cons op ops)
  have "locator_ok (locator_step op s)" "get_by_conn_id (locator_step op s) = conn_map_step op (get_by_conn_id s)"
    using Cons.prems by (cases op; simp add: mem.inv_register mem.inv_unregister mem.lookup_register mem.lookup_unregister)+
  with Cons.IH show ?case by simp
qed simp

text \<open>C9: The two indexes of the locator never disagree. After any sequence of registrations and
  unregistrations, including a connection id registered again for another peer, the locator stands
  for the finite map those operations build, and find, the two counters and the lookup by id
  answer from that map: find returns exactly the connections of the peer in scope, each once.\<close>

theorem locator_refines_map:
  "let s = fold locator_step ops new_locator; m = fold conn_map_step ops (\<lambda>_. None) in
     get_by_conn_id s = m \<and> count_connections s = card (dom m)
     \<and> set (loc_find s p sc) = {r \<in> ran m. cr_peerId r = p \<and> in_scope sc r}
     \<and> distinct (map cr_connId (loc_find s p sc))
     \<and> count_connections_for_peer s p = card {r \<in> ran m. cr_peerId r = p}"
proof -
  let ?s = "fold locator_step ops new_locator" and ?m = "fold conn_map_step ops (\<lambda>_. None)"
  have ok: "locator_ok ?s" and m: "get_by_conn_id ?s = ?m"
    using locator_run[OF new_locator_ok, of ops] by (simp_all add: get_by_conn_id_eq new_locator_def)
  have key: "?m c = Some r \<Longrightarrow> cr_connId r = c" for c r
    using locator_okD(5)[OF ok] by (simp add: m[symmetric] get_by_conn_id_eq)
  have f: "set (loc_find ?s p sc) = {r \<in> ran ?m. cr_peerId r = p \<and> in_scope sc r}" for sc
    using mem.find_iff[OF ok] key by (auto simp: m ran_def)
  have "count_connections_for_peer ?s p = card (set (loc_find ?s p None))"
    using mem.count_for_find[OF ok] mem.find_distinct[OF ok, of p None] by (simp add: distinct_card distinct_map)
  then show ?thesis
    using f[of None] f[of sc] mem.count_card[OF ok] mem.find_distinct[OF ok] m by (simp add: Let_def)
qed

text \<open>The delivery plan over the in-memory locator reaches every registered connection of the
  requested peers in the requested group, and no other, and no connection twice, even when a peer
  is requested twice.\<close>

theorem plan_exact:
  "locator_ok s \<Longrightarrow>
   set (dp_targets (build_plan (loc_find_many s) peerIds options)) =
     {r. get_by_conn_id s (cr_connId r) = Some r \<and> cr_peerId r \<in> set peerIds \<and> cr_groupId r = po_groupId options}
   \<and> distinct (map cr_connId (dp_targets (build_plan (loc_find_many s) peerIds options)))"
  using mem.plan_iff[of s _ peerIds options] mem.plan_distinct[of s peerIds options]
  by (auto simp: loc_find_many_def)

definition locator_example :: locator where
  "locator_example = loc_register \<lparr>cr_nodeId = ''n'', cr_connId = ''c2'', cr_peerId = ''bob'', cr_groupId = None\<rparr>
     (loc_register \<lparr>cr_nodeId = ''n'', cr_connId = ''c1'', cr_peerId = ''bob'', cr_groupId = None\<rparr> new_locator)"

theorem plan_exact_witness:
  "let plan = build_plan (loc_find_many locator_example) [''bob'', ''bob''] \<lparr>po_streamId = None, po_ack = None, po_groupId = None\<rparr>
   in distinct (map cr_connId (dp_targets plan)) \<and> length (dp_targets plan) = 2"
proof -
  have "locator_ok locator_example"
    unfolding locator_example_def by (intro loc_register_ok new_locator_ok)
  moreover have "length (dp_targets (build_plan (loc_find_many locator_example) [''bob'', ''bob'']
      \<lparr>po_streamId = None, po_ack = None, po_groupId = None\<rparr>)) = 2" by code_simp
  ultimately show ?thesis
    using plan_exact[of locator_example "[''bob'', ''bob'']" "\<lparr>po_streamId = None, po_ack = None, po_groupId = None\<rparr>"]
    by (simp only: Let_def)
qed

end
