(* ===== verification/Admin_Types.thy ===== *)
theory Admin_Types
  imports Shared_Types
begin

text \<open>The data the control plane and the gateways exchange (src/src/shared/admin-types.ts):
  registrations, desired and observed host states, memberships and placements. Records of
  strings are Maps; numbers that are only compared are integers.\<close>

datatype deployment_kind = HttpWorkerKind | ServiceModuleKind | ServeKind

record protocol_package_ref =
  pp_packageId :: string
  pp_digest :: string
  pp_assignmentId :: "string option"
  pp_deploymentId :: "string option"
  pp_declaredVersion :: "string option"

record protocol_package =
  pk_packageId :: string
  pk_protocol :: string
  pk_version :: string
  pk_actions :: "string list"
  pk_digest :: string

record host_capacity =
  hc_maxHttpWorkerAssignments :: "int option"
  hc_maxServiceModuleAssignments :: "int option"
  hc_maxConnections :: "int option"
  hc_maxInflightRequests :: "int option"

datatype host_state = HostReady | HostDraining | HostOffline

record membership_host =
  mh_hostId :: string
  mh_groupId :: "string option"
  mh_nodeId :: "string option"
  mh_publicBaseUrl :: "string option"
  mh_internalBaseUrl :: "string option"
  mh_publicListenerEnabled :: bool
  mh_internalListenerEnabled :: bool
  mh_state :: host_state
  mh_staticLabels :: "(string, string) js_map"
  mh_staticCapabilities :: "string list"
  mh_staticCapacity :: host_capacity
  mh_lastSeenAt :: "int option"

record membership_snapshot =
  ms_revision :: string
  ms_generatedAt :: int
  ms_hosts :: "membership_host list"

record placement_route =
  pr_routeId :: string
  pr_pathPrefix :: string
  pr_ownerHostIds :: "string list"

record placement_deployment =
  pd_deploymentId :: string
  pd_deploymentKind :: deployment_kind
  pd_groupId :: "string option"
  pd_ownerHostIds :: "string list"
  pd_routes :: "placement_route list"

record ingress_requirement =
  ir_groupId :: "string option"
  ir_requiredProtocolPackages :: "protocol_package_ref list"

record placement_snapshot =
  ps_revision :: string
  ps_generatedAt :: int
  ps_deployments :: "placement_deployment list"
  ps_ingressGroupRequirements :: "ingress_requirement list option"

record desired_topology =
  dt_membership :: membership_snapshot
  dt_placement :: placement_snapshot

section \<open>Registrations and assignments\<close>

record host_network =
  hn_publicBaseUrl :: "string option"
  hn_internalBaseUrl :: "string option"
  hn_publicListenerEnabled :: bool
  hn_internalListenerEnabled :: bool

record host_registration =
  hr_hostId :: string
  hr_groupId :: "string option"
  hr_nodeId :: "string option"
  hr_startedAt :: int
  hr_runtimeVersion :: string
  hr_runtimePid :: "int option"
  hr_network :: host_network
  hr_staticLabels :: "(string, string) js_map"
  hr_staticCapabilities :: "string list"
  hr_staticCapacity :: host_capacity
  hr_dynamicFields :: "(string, json) js_map option"

text \<open>The deployment values handed to a worker or a serve application.\<close>

record instance_values =
  iv_config :: "(string, json) js_map option"
  iv_bindings :: "(string, json) js_map option"
  iv_secrets :: "(string, string) js_map option"

record artifact_ref =
  af_manifestId :: string
  af_sourceUri :: string
  af_digest :: "string option"

record executable =
  ex_name :: string
  ex_entry :: string
  ex_routeRefs :: "string list option"
  ex_deployment :: "instance_values option"

record service_module =
  sm_name :: string
  sm_entry :: string
  sm_protocolPackage :: protocol_package

record assignment =
  as_assignmentId :: string
  as_hostId :: string
  as_deploymentId :: string
  as_deploymentKind :: deployment_kind
  as_groupId :: "string option"
  as_declaredVersion :: string
  as_declaredArtifactId :: "string option"
  as_artifact :: artifact_ref
  as_httpWorker :: "executable option"
  as_serviceModule :: "service_module option"
  as_serveApp :: "executable option"
  as_authPolicyRef :: "string option"
  as_secretRefs :: "string list option"

record forward_route =
  fr_routeId :: string
  fr_pathPrefix :: string
  fr_baseUrl :: string
  fr_websocketEnabled :: "bool option"

datatype key_alg = RS256 | ES256

record trust_public_key =
  tk_kid :: string
  tk_alg :: key_alg
  tk_pem :: string

record issuer_trust =
  it_issuer :: string
  it_audiences :: "string list"
  it_jwksUrl :: "string option"
  it_publicKeys :: "trust_public_key list option"
  it_algorithms :: "key_alg list option"
  it_requiredClaims :: "string list option"
  it_clockSkewSec :: "int option"
  it_maxTokenTtlSec :: "int option"

record desired_host_state =
  dh_hostId :: string
  dh_revision :: string
  dh_generatedAt :: int
  dh_assignments :: "assignment list"
  dh_topology :: "desired_topology option"
  dh_runtimeAuthTrust :: "issuer_trust list option"
  dh_routes :: "forward_route list option"

section \<open>Observed host states\<close>

datatype assignment_state =
  StPending | StPreparing | StReady | StActive | StDraining | StFailed

record status_error =
  er_code :: string
  er_message :: string
  er_retryable :: "bool option"

record assignment_status =
  at_assignmentId :: string
  at_deploymentId :: string
  at_declaredVersion :: string
  at_generationId :: "string option"
  at_state :: assignment_state
  at_preparedAt :: "int option"
  at_activatedAt :: "int option"
  at_failedAt :: "int option"
  at_lastError :: "status_error option"

text \<open>The runtime summary is read as a value of unknown shape, like the free dynamic fields.\<close>

record dynamic_state =
  ds_currentAssignmentCount :: int
  ds_currentConnectionCount :: "int option"
  ds_currentInflightRequests :: "int option"
  ds_schedulable :: "bool option"
  ds_appliedTopology :: "(string option \<times> string option) option"
  ds_resourceHints :: "(string, js_num) js_map option"
  ds_runtimeSummary :: "json option"
  ds_dynamicFields :: "(string, json) js_map option"

record observed_host_state =
  oh_hostId :: string
  oh_observedAt :: int
  oh_ready :: bool
  oh_draining :: bool
  oh_staticLabels :: "(string, string) js_map"
  oh_staticCapabilities :: "string list"
  oh_staticCapacity :: host_capacity
  oh_dynamicState :: dynamic_state
  oh_assignmentStatuses :: "assignment_status list"

section \<open>Runtime summary read model\<close>

datatype summary_status = Match | Drift | NotReported

record summary_check =
  ck_hostId :: string
  ck_status :: summary_status
  ck_reported :: bool
  ck_matches :: bool
  ck_expectedPipelineIds :: "string list"
  ck_observedPipelineIds :: "string list"
  ck_missingPipelineIds :: "string list"
  ck_unexpectedPipelineIds :: "string list"
  ck_expectedProtocolPackageIds :: "string list"
  ck_observedProtocolPackageIds :: "string list"
  ck_missingProtocolPackageIds :: "string list"
  ck_unexpectedProtocolPackageIds :: "string list"

record summary_rollup =
  sr_totalHosts :: nat
  sr_reportedHosts :: nat
  sr_matchingHosts :: nat
  sr_driftedHosts :: nat
  sr_notReportedHosts :: nat

record summary_query =
  sq_hostId :: "string option"
  sq_deploymentId :: "string option"

section \<open>Artifact manifests\<close>

datatype package_manager =
    BunPackages "string option" "string option" "string option" "bool option"
  | DenoPackages "string option" "string option" "bool option"

record artifact_manifest =
  am_manifestId :: string
  am_artifactKind :: deployment_kind
  am_declaredArtifactId :: "string option"
  am_declaredVersion :: string
  am_sourceUri :: string
  am_sourceDigest :: "string option"
  am_entry :: string
  am_packageManager :: package_manager
  am_annotations :: "(string, string) js_map option"

end
