(* ===== verification/Ws_Ingress.thy ===== *)
theory Ws_Ingress
  imports Ws_Outbound Peer_Locator Admin_Types
begin

text \<open>The WebSocket ingress of one gateway (src/src/runtime/ingress/websocket.ts,
  createWebSocketHandlers): the connections, the messages whose handle acknowledgement is still to
  come, the cluster deliveries recently taken, the locator of the node, and the handlers.

  A handler that throws keeps the state it has changed: its result is an error or a value together
  with the gateway. The collaborators outside this file (authentication, dispatcher, cluster
  network, protocol registry and hooks, the zod schemas) are fields of \<open>ws_deps\<close>; so are the
  socket answers and the random ids. \<open>JSON.parse\<close> of the raw text is the argument of
  \<open>ws_message\<close>. A handler that awaits is modelled as running to its end without another event in
  between; the authentication handler is also given in its two parts, before and after the
  \<open>await\<close>, so that other events can come in between. A connection object that is no longer in
  the Map is closed: writing to it does nothing.\<close>

section \<open>Data\<close>

record pending_ack =
  pa_senderRef :: conn_ref
  pa_expiresAt :: int

record gateway =
  gw_connections :: "(string, ws_conn) js_map"
  gw_pending :: "(string, pending_ack) js_map"
  gw_recent :: "(string, int) js_map"
  gw_locator :: locator
  gw_shuttingDown :: bool
  gw_disposed :: bool
  gw_shutdownTimer :: bool
  gw_refused :: "(string \<times> socket_event) list"
  gw_fresh :: nat

record hook_ctx =
  hx_protocol :: string
  hx_version :: string
  hx_action :: string
  hx_payload :: json
  hx_auth :: auth_context
  hx_traceId :: "string option"
  hx_ts :: rat

text \<open>The hooks of an action: each optional, each may throw. \<open>handleLocally\<close> returns the optional
  \<open>ack\<close> of its result, \<open>buildDispatch\<close> an optional dispatch.\<close>

record action_hooks =
  hk_validate :: "(hook_ctx \<Rightarrow> thrown option) option"
  hk_authorize :: "(hook_ctx \<Rightarrow> thrown option) option"
  hk_handleLocally :: "(hook_ctx \<Rightarrow> thrown + ack_mode option) option"
  hk_resolveRecipients :: "(hook_ctx \<Rightarrow> thrown + string list) option"
  hk_buildDispatch :: "(hook_ctx \<Rightarrow> thrown + server_dispatch option) option"

record deliver_payload =
  dl_sender :: conn_ref
  dl_envelope :: "json envelope"
  dl_ack :: ack_mode
  dl_targets :: "conn_ref list"

text \<open>\<open>wd_buildPlan\<close> and \<open>wd_clusterDeliver\<close> are told which attempt of the message they serve,
  since the dispatcher is invalidated between the two.\<close>

record ws_deps =
  wd_env :: "string \<Rightarrow> socket_env"
  wd_uuid :: "nat \<Rightarrow> string"
  wd_validateSystemAuth :: "sys_auth_payload \<Rightarrow> thrown + auth_context"
  wd_isAuthContextValid :: "auth_context \<Rightarrow> bool"
  wd_buildPlan :: "locator \<Rightarrow> nat \<Rightarrow> string list \<Rightarrow> plan_options \<Rightarrow> delivery_plan"
  wd_hasCluster :: bool
  wd_clusterDeliver :: "nat \<Rightarrow> string \<Rightarrow> deliver_payload \<Rightarrow> thrown + conn_ref list"
  wd_forwardHandleAck :: "conn_ref \<Rightarrow> string \<Rightarrow> string option \<Rightarrow> thrown option"
  wd_requiredPackages :: "protocol_package_ref list"
  wd_activePackages :: "protocol_package_ref list"
  wd_registryGet :: "string \<Rightarrow> string \<Rightarrow> string \<Rightarrow> hardess_error + action_hooks"
  wd_sysAuthSchema :: "json \<Rightarrow> string + sys_auth_payload"
  wd_sysPingSchema :: "json \<Rightarrow> string + string option"
  wd_sysPongSchema :: "json \<Rightarrow> string + string option"
  wd_sysHandleAckSchema :: "json \<Rightarrow> string + string"

type_synonym 'a handled = "(thrown + 'a) \<times> gateway"

definition new_gateway :: "locator \<Rightarrow> gateway" where
  "new_gateway loc = \<lparr>gw_connections = [], gw_pending = [], gw_recent = [], gw_locator = loc,
     gw_shuttingDown = False, gw_disposed = False, gw_shutdownTimer = False, gw_refused = [], gw_fresh = 0\<rparr>"

abbreviation throw_error :: "hardess_error \<Rightarrow> gateway \<Rightarrow> 'a handled" where
  "throw_error e g \<equiv> (Inl (ThrownHardess e), g)"

section \<open>Connections\<close>

definition update_conn :: "string \<Rightarrow> (ws_conn \<Rightarrow> ws_conn) \<Rightarrow> gateway \<Rightarrow> gateway" where
  "update_conn i f g = (case map_of (gw_connections g) i of
     None \<Rightarrow> g | Some c \<Rightarrow> g\<lparr>gw_connections := map_set i (f c) (gw_connections g)\<rparr>)"

definition gw_enqueue :: "ws_config \<Rightarrow> ws_deps \<Rightarrow> string \<Rightarrow> out_msg \<Rightarrow> gateway \<Rightarrow> unit handled" where
  "gw_enqueue cfg d i m g = (case map_of (gw_connections g) i of
     None \<Rightarrow> (Inr (), g)
   | Some c \<Rightarrow> (case enqueue_outbound cfg (wd_env d i) m c of
        (Inl e, c1) \<Rightarrow> throw_error e (g\<lparr>gw_connections := map_set i c1 (gw_connections g)\<rparr>)
      | (Inr _, c1) \<Rightarrow> (Inr (), g\<lparr>gw_connections := map_set i c1 (gw_connections g)\<rparr>)))"

text \<open>Write a new system message, with a fresh id.\<close>

definition gw_enqueue_new ::
  "ws_config \<Rightarrow> ws_deps \<Rightarrow> string \<Rightarrow> (string \<Rightarrow> out_msg) \<Rightarrow> gateway \<Rightarrow> unit handled" where
  "gw_enqueue_new cfg d i mk g = gw_enqueue cfg d i (mk (wd_uuid d (gw_fresh g))) (g\<lparr>gw_fresh := Suc (gw_fresh g)\<rparr>)"

text \<open>\<open>socket.send\<close> called directly, past the queue.\<close>

definition gw_socket_send :: "ws_deps \<Rightarrow> string \<Rightarrow> (string \<Rightarrow> out_msg) \<Rightarrow> gateway \<Rightarrow> unit handled" where
  "gw_socket_send d i mk g =
    (let m = mk (wd_uuid d (gw_fresh g)); g1 = g\<lparr>gw_fresh := Suc (gw_fresh g)\<rparr> in
     case map_of (gw_connections g1) i of
       None \<Rightarrow> (Inr (), g1)
     | Some c \<Rightarrow> (case socket_send (wd_env d i) m c of
          (SendThrew msg, c1) \<Rightarrow> (Inl (ThrownOther msg), g1\<lparr>gw_connections := map_set i c1 (gw_connections g1)\<rparr>)
        | (Returned _, c1) \<Rightarrow> (Inr (), g1\<lparr>gw_connections := map_set i c1 (gw_connections g1)\<rparr>)))"

definition create_draining_error :: "string option \<Rightarrow> hardess_error" where
  "create_draining_error refMsgId =
     new_hardess_error SERVER_DRAINING ''Runtime websocket ingress is draining''
       (no_options\<lparr>opt_retryable := Some True, opt_detail := Some (JStr ''retry_on_another_healthy_node''),
                   opt_refMsgId := refMsgId\<rparr>)"

definition ensure_ingress_protocol_package_available ::
  "ws_config \<Rightarrow> ws_deps \<Rightarrow> json envelope \<Rightarrow> hardess_error option" where
  "ensure_ingress_protocol_package_available cfg d e =
    (let required = wd_requiredPackages d in
     if required = [] then None
     else (case find (\<lambda>p. pp_packageId p = ev_protocol e @ ''@'' @ ev_version e) required of
         None \<Rightarrow> None
       | Some p \<Rightarrow>
           if \<exists>a\<in>set (wd_activePackages d). pp_packageId a = pp_packageId p \<and> pp_digest a = pp_digest p then None
           else Some (new_hardess_error INGRESS_PROTOCOL_UNAVAILABLE
              (''Ingress host is not ready for required protocol package '' @ pp_packageId p)
              (no_options\<lparr>opt_retryable := Some True,
                 opt_detail := Some (JObj (opt_field ''groupId'' (map_option JStr (cf_hostGroupId cfg)) @
                   [(''packageId'', JStr (pp_packageId p)), (''digest'', JStr (pp_digest p)),
                    (''retryHint'', JStr ''retry_on_another_healthy_node'')])),
                 opt_refMsgId := Some (ev_msgId e)\<rparr>))))"

section \<open>Pending acknowledgements and recent deliveries\<close>

definition prune_pending_handle_acks :: "int \<Rightarrow> gateway \<Rightarrow> gateway" where
  "prune_pending_handle_acks now g = g\<lparr>gw_pending := filter (\<lambda>e. \<not> pa_expiresAt (snd e) \<le> now) (gw_pending g)\<rparr>"

definition prune_recent_cluster_deliveries :: "int \<Rightarrow> gateway \<Rightarrow> gateway" where
  "prune_recent_cluster_deliveries now g = g\<lparr>gw_recent := filter (\<lambda>e. \<not> snd e \<le> now) (gw_recent g)\<rparr>"

definition set_pending_handle_ack :: "ws_config \<Rightarrow> string \<Rightarrow> conn_ref \<Rightarrow> int \<Rightarrow> gateway \<Rightarrow> gateway" where
  "set_pending_handle_ack cfg msgId senderRef expiresAt g =
    (let evicted = (if \<not> map_has (gw_pending g) msgId
                       \<and> int (length (gw_pending g)) \<ge> cf_pendingHandleAckMaxEntries cfg
                    then (case gw_pending g of [] \<Rightarrow> [] | (oldest, _) # _ \<Rightarrow> map_del oldest (gw_pending g))
                    else gw_pending g)
     in g\<lparr>gw_pending := map_set msgId \<lparr>pa_senderRef = senderRef, pa_expiresAt = expiresAt\<rparr> evicted\<rparr>)"

definition delete_pending :: "string \<Rightarrow> gateway \<Rightarrow> gateway" where
  "delete_pending msgId g = g\<lparr>gw_pending := map_del msgId (gw_pending g)\<rparr>"

section \<open>Heartbeat\<close>

definition heartbeat_conn :: "ws_config \<Rightarrow> ws_deps \<Rightarrow> int \<Rightarrow> string \<Rightarrow> gateway \<Rightarrow> gateway" where
  "heartbeat_conn cfg d now i g = (case map_of (gw_connections g) i of
     None \<Rightarrow> g
   | Some c \<Rightarrow>
      if now - wc_lastSeenAt c > cf_staleAfterMs cfg then
        update_conn i (close_connection (Some 4408) (Some ''heartbeat timeout'')) g
      else if wc_auth c \<noteq> None \<and> now - wc_lastSeenAt c \<ge> cf_heartbeatIntervalMs cfg
          \<and> (case wc_lastPingAt c of None \<Rightarrow> True | Some t \<Rightarrow> t = 0 \<or> now - t \<ge> cf_heartbeatIntervalMs cfg) then
        (let g1 = update_conn i (\<lambda>c. c\<lparr>wc_lastPingAt := Some now\<rparr>) g;
             nonce = wd_uuid d (gw_fresh g1);
             g2 = g1\<lparr>gw_fresh := Suc (gw_fresh g1)\<rparr>
         in snd (gw_enqueue_new cfg d i (\<lambda>u. create_ping_envelope u now i (Some nonce) None) g2))
      else g)"

definition tick_heartbeat :: "ws_config \<Rightarrow> ws_deps \<Rightarrow> int \<Rightarrow> gateway \<Rightarrow> gateway" where
  "tick_heartbeat cfg d now g =
    (let g1 = prune_pending_handle_acks now g
     in foldl (\<lambda>g i. heartbeat_conn cfg d now i g) g1 (map_keys (gw_connections g1)))"

section \<open>Sending to peers\<close>

definition business_msg :: "json envelope \<Rightarrow> envelope_src \<Rightarrow> out_msg" where
  "business_msg e src = \<lparr>ev_msgId = ev_msgId e, ev_kind = ev_kind e, ev_src = src,
     ev_protocol = ev_protocol e, ev_version = ev_version e, ev_action = ev_action e,
     ev_streamId = ev_streamId e, ev_seq = ev_seq e, ev_ts = ev_ts e, ev_traceId = ev_traceId e,
     ev_payload = PBiz (ev_payload e)\<rparr>"

text \<open>The local half of an attempt: the delivered targets, the targets of other nodes by node, and
  the number of failures.\<close>

record attempt =
  at_delivered :: "conn_ref list"
  at_remote :: "(string, conn_ref list) js_map"
  at_failures :: nat

definition attempt_target ::
  "ws_config \<Rightarrow> ws_deps \<Rightarrow> out_msg \<Rightarrow> attempt \<times> gateway \<Rightarrow> conn_ref \<Rightarrow> attempt \<times> gateway" where
  "attempt_target cfg d m = (\<lambda>(st, g) target.
     if cr_nodeId target \<noteq> cf_nodeId cfg then
       (st\<lparr>at_remote := map_set (cr_nodeId target)
             ((case map_of (at_remote st) (cr_nodeId target) of None \<Rightarrow> [] | Some ts \<Rightarrow> ts) @ [target]) (at_remote st)\<rparr>, g)
     else (case map_of (gw_connections g) (cr_connId target) of
         None \<Rightarrow> (st, g)
       | Some c \<Rightarrow> (case wc_auth c of
            None \<Rightarrow> (st, g)
          | Some auth \<Rightarrow>
              if \<not> wd_isAuthContextValid d auth then (st, g)
              else (case gw_enqueue cfg d (cr_connId target) m g of
                  (Inr _, g1) \<Rightarrow> (st\<lparr>at_delivered := at_delivered st @ [target]\<rparr>, g1)
                | (Inl _, g1) \<Rightarrow> (st\<lparr>at_failures := Suc (at_failures st)\<rparr>, g1)))))"

definition attempt_remote ::
  "ws_deps \<Rightarrow> nat \<Rightarrow> conn_ref \<Rightarrow> json envelope \<Rightarrow> ack_mode \<Rightarrow> attempt \<Rightarrow> string \<times> conn_ref list \<Rightarrow> attempt" where
  "attempt_remote d k senderRef e ack st = (\<lambda>(nodeId, targets).
     if \<not> wd_hasCluster d then st
     else (case wd_clusterDeliver d k nodeId
             \<lparr>dl_sender = senderRef,
              dl_envelope = e\<lparr>ev_src := \<lparr>src_peerId = cr_peerId senderRef, src_connId = cr_connId senderRef\<rparr>\<rparr>,
              dl_ack = ack, dl_targets = targets\<rparr> of
         Inr delivered \<Rightarrow> st\<lparr>at_delivered := at_delivered st @ delivered\<rparr>
       | Inl _ \<Rightarrow> st\<lparr>at_failures := at_failures st + length targets\<rparr>))"

definition sender_ref :: "ws_config \<Rightarrow> ws_conn \<Rightarrow> json envelope \<Rightarrow> conn_ref" where
  "sender_ref cfg c e = \<lparr>cr_nodeId = cf_nodeId cfg, cr_connId = wc_connId c,
     cr_peerId = (case wc_auth c of Some a \<Rightarrow> au_peerId a | None \<Rightarrow> src_peerId (ev_src e)),
     cr_groupId = (case wc_auth c of Some a \<Rightarrow> au_groupId a | None \<Rightarrow> None)\<rparr>"

definition attempt_delivery ::
  "ws_config \<Rightarrow> ws_deps \<Rightarrow> nat \<Rightarrow> ws_conn \<Rightarrow> json envelope \<Rightarrow> string list \<Rightarrow> ack_mode \<Rightarrow> gateway \<Rightarrow>
   conn_ref list \<times> gateway" where
  "attempt_delivery cfg d k sender e peerIds ack g =
    (let plan = wd_buildPlan d (gw_locator g) k peerIds
           \<lparr>po_streamId = ev_streamId e, po_ack = Some ack,
            po_groupId = (case wc_auth sender of Some a \<Rightarrow> au_groupId a | None \<Rightarrow> None)\<rparr>
     in if dp_targets plan = [] then ([], g)
        else
         (let m = business_msg e \<lparr>src_peerId = (case wc_auth sender of Some a \<Rightarrow> au_peerId a
                                                 | None \<Rightarrow> src_peerId (ev_src e)),
                                  src_connId = wc_connId sender\<rparr>;
              (st, g1) = foldl (attempt_target cfg d m)
                (\<lparr>at_delivered = [], at_remote = [], at_failures = 0\<rparr>, g) (dp_targets plan);
              st1 = foldl (attempt_remote d k (sender_ref cfg sender e) e ack) st (at_remote st)
          in (at_delivered st1, g1)))"

definition send_to_peer_ids ::
  "ws_config \<Rightarrow> ws_deps \<Rightarrow> int \<Rightarrow> ws_conn \<Rightarrow> json envelope \<Rightarrow> string list \<Rightarrow> ack_mode \<Rightarrow> gateway \<Rightarrow> unit handled" where
  "send_to_peer_ids cfg d now sender e peerIds ack g =
    (let senderRef = sender_ref cfg sender e;
         (delivered1, g1) = attempt_delivery cfg d 0 sender e peerIds ack g;
         (delivered, g2) = (if delivered1 = [] then attempt_delivery cfg d 1 sender e peerIds ack g1 else (delivered1, g1))
     in if delivered = [] then throw_error (plain_error ROUTE_PEER_OFFLINE ''No valid target connections'') g2
        else
         (let g3 = (if ack \<noteq> AckNone
                    then set_pending_handle_ack cfg (ev_msgId e) senderRef (now + cf_pendingHandleAckTtlMs cfg) g2 else g2)
          in and_then (gw_enqueue_new cfg d (wc_connId sender)
                (\<lambda>u. create_route_envelope u now (wc_connId sender) peerIds delivered (ev_traceId e)) g3)
              (\<lambda>_ g4. if ack \<noteq> AckNone \<and> wc_auth sender \<noteq> None
                 then gw_enqueue_new cfg d (wc_connId sender)
                   (\<lambda>u. create_recv_ack_envelope u now (wc_connId sender) (ev_msgId e) (ev_traceId e)) g4
                 else (Inr (), g4))))"

section \<open>System messages\<close>

text \<open>The authentication message up to its \<open>await\<close>: the parsed payload, or the error thrown.\<close>

definition handle_auth_before :: "ws_deps \<Rightarrow> json envelope \<Rightarrow> gateway \<Rightarrow> thrown + sys_auth_payload" where
  "handle_auth_before d e g =
    (if gw_shuttingDown g then Inl (ThrownHardess (create_draining_error (Some (ev_msgId e))))
     else (case parse_protocol_payload (wd_sysAuthSchema d) (ev_payload e) ''Invalid sys.auth payload'' of
         Inl err \<Rightarrow> Inl (ThrownHardess err) | Inr p \<Rightarrow> Inr p))"

text \<open>The part after the \<open>await\<close>, with the authenticated context.\<close>

definition handle_auth_after ::
  "ws_config \<Rightarrow> ws_deps \<Rightarrow> int \<Rightarrow> string \<Rightarrow> json envelope \<Rightarrow> auth_context \<Rightarrow> gateway \<Rightarrow> unit handled" where
  "handle_auth_after cfg d now i e auth g =
    (let current = get_by_conn_id (gw_locator g) i;
         existing = count_connections_for_peer (gw_locator g) (au_peerId auth);
         increase = (map_option cr_peerId current \<noteq> Some (au_peerId auth))
     in if (case cf_maxConnectionsPerPeer cfg of None \<Rightarrow> False
            | Some limit \<Rightarrow> int existing + (if increase then 1 else 0) > limit)
        then throw_error (plain_error CONN_QUOTA_EXCEEDED (''Peer connection quota exceeded for '' @ au_peerId auth)) g
        else
         (let g1 = update_conn i (\<lambda>c. c\<lparr>wc_auth := Some (auth\<lparr>au_groupId := cf_hostGroupId cfg\<rparr>)\<rparr>) g;
              g2 = g1\<lparr>gw_locator := loc_register \<lparr>cr_nodeId = cf_nodeId cfg, cr_connId = i,
                     cr_peerId = au_peerId auth, cr_groupId = cf_hostGroupId cfg\<rparr> (gw_locator g1)\<rparr>
          in gw_enqueue_new cfg d i (\<lambda>u. create_auth_ok_envelope u now auth i (ev_traceId e)) g2))"

definition handle_auth :: "ws_config \<Rightarrow> ws_deps \<Rightarrow> int \<Rightarrow> string \<Rightarrow> json envelope \<Rightarrow> gateway \<Rightarrow> unit handled" where
  "handle_auth cfg d now i e g = (case handle_auth_before d e g of
     Inl t \<Rightarrow> (Inl t, g)
   | Inr p \<Rightarrow> (case wd_validateSystemAuth d p of
        Inl t \<Rightarrow> (Inl t, g)
      | Inr auth \<Rightarrow> handle_auth_after cfg d now i e auth g))"

definition handle_ping :: "ws_config \<Rightarrow> ws_deps \<Rightarrow> int \<Rightarrow> string \<Rightarrow> json envelope \<Rightarrow> gateway \<Rightarrow> unit handled" where
  "handle_ping cfg d now i e g =
    (case parse_protocol_payload (wd_sysPingSchema d) (ev_payload e) ''Invalid sys.ping payload'' of
       Inl err \<Rightarrow> throw_error err g
     | Inr nonce \<Rightarrow> gw_enqueue_new cfg d i (\<lambda>u. create_pong_envelope u now i nonce (ev_traceId e))
         (update_conn i (\<lambda>c. c\<lparr>wc_lastSeenAt := now\<rparr>) g))"

definition handle_pong :: "ws_deps \<Rightarrow> int \<Rightarrow> string \<Rightarrow> json envelope \<Rightarrow> gateway \<Rightarrow> unit handled" where
  "handle_pong d now i e g =
    (case parse_protocol_payload (wd_sysPongSchema d) (ev_payload e) ''Invalid sys.pong payload'' of
       Inl err \<Rightarrow> throw_error err g
     | Inr _ \<Rightarrow> (Inr (), update_conn i (\<lambda>c. c\<lparr>wc_lastSeenAt := now, wc_lastPingAt := None\<rparr>) g))"

abbreviation ref_error :: "error_code \<Rightarrow> string \<Rightarrow> string \<Rightarrow> hardess_error" where
  "ref_error code message ref \<equiv> new_hardess_error code message (no_options\<lparr>opt_refMsgId := Some ref\<rparr>)"

definition conn_valid :: "ws_deps \<Rightarrow> gateway \<Rightarrow> string \<Rightarrow> bool" where
  "conn_valid d g i = (case map_of (gw_connections g) i of
     None \<Rightarrow> False
   | Some c \<Rightarrow> (case wc_auth c of None \<Rightarrow> False | Some a \<Rightarrow> wd_isAuthContextValid d a))"

definition handle_handle_ack :: "ws_config \<Rightarrow> ws_deps \<Rightarrow> int \<Rightarrow> ws_conn \<Rightarrow> json envelope \<Rightarrow> gateway \<Rightarrow> unit handled" where
  "handle_handle_ack cfg d now c e g = (case ensure_authenticated (wc_auth c) of
     Inl err \<Rightarrow> throw_error err g
   | Inr _ \<Rightarrow>
     (case parse_protocol_payload (wd_sysHandleAckSchema d) (ev_payload e) ''Invalid sys.handleAck payload'' of
        Inl err \<Rightarrow> throw_error err g
      | Inr ackFor \<Rightarrow>
        (let g1 = delete_pending ackFor g in
         case map_of (gw_pending g) ackFor of
           None \<Rightarrow> throw_error (ref_error ROUTE_NO_RECIPIENT ''No sender found for handleAck'' ackFor) g1
         | Some entry \<Rightarrow>
            if pa_expiresAt entry \<le> now then
              throw_error (ref_error ROUTE_NO_RECIPIENT ''No sender found for handleAck'' ackFor) g1
            else
             (let ref = pa_senderRef entry in
              if cr_nodeId ref \<noteq> cf_nodeId cfg then
                (if \<not> wd_hasCluster d then
                   throw_error (ref_error ROUTE_PEER_OFFLINE ''Sender node is unavailable'' ackFor) g1
                 else (case wd_forwardHandleAck d ref ackFor (ev_traceId e) of
                     Some t \<Rightarrow> (Inl t, g1) | None \<Rightarrow> (Inr (), g1)))
              else if \<not> conn_valid d g1 (cr_connId ref) then
                throw_error (ref_error ROUTE_PEER_OFFLINE ''Sender is offline'' ackFor) g1
              else gw_enqueue_new cfg d (cr_connId ref)
                (\<lambda>u. create_handle_ack_envelope u now (wc_connId c) ackFor (ev_traceId e)) g1))))"

definition handle_system_message ::
  "ws_config \<Rightarrow> ws_deps \<Rightarrow> int \<Rightarrow> ws_conn \<Rightarrow> json envelope \<Rightarrow> gateway \<Rightarrow> unit handled" where
  "handle_system_message cfg d now c e g =
    (if ev_action e = ''auth'' then handle_auth cfg d now (wc_connId c) e g
     else if ev_action e = ''ping'' then handle_ping cfg d now (wc_connId c) e g
     else if ev_action e = ''pong'' then handle_pong d now (wc_connId c) e g
     else if ev_action e = ''handleAck'' then handle_handle_ack cfg d now c e g
     else throw_error (ref_error PROTO_UNKNOWN_ACTION (''Unknown system action: '' @ ev_action e) (ev_msgId e)) g)"

section \<open>Business messages\<close>

definition run_check :: "(hook_ctx \<Rightarrow> thrown option) option \<Rightarrow> hook_ctx \<Rightarrow> thrown option" where
  "run_check hook ctx = (case hook of None \<Rightarrow> None | Some f \<Rightarrow> f ctx)"

definition dispatch_envelope :: "json envelope \<Rightarrow> server_dispatch option \<Rightarrow> json envelope" where
  "dispatch_envelope e dispatch = (case dispatch of
     None \<Rightarrow> e
   | Some d \<Rightarrow> e\<lparr>ev_protocol := (case sd_protocol d of Some x \<Rightarrow> x | None \<Rightarrow> ev_protocol e),
        ev_version := (case sd_version d of Some x \<Rightarrow> x | None \<Rightarrow> ev_version e),
        ev_action := (case sd_action d of Some x \<Rightarrow> x | None \<Rightarrow> ev_action e),
        ev_streamId := or_else (sd_streamId d) (ev_streamId e),
        ev_payload := (case sd_payload d of Some JNull \<Rightarrow> ev_payload e | Some x \<Rightarrow> x | None \<Rightarrow> ev_payload e)\<rparr>)"

text \<open>A message whose recipients are resolved is sent to them; otherwise it was handled locally and
  is acknowledged from here.\<close>

definition route_business ::
  "ws_config \<Rightarrow> ws_deps \<Rightarrow> int \<Rightarrow> ws_conn \<Rightarrow> json envelope \<Rightarrow> action_hooks \<Rightarrow> hook_ctx \<Rightarrow>
   ack_mode option \<Rightarrow> string list \<Rightarrow> gateway \<Rightarrow> unit handled" where
  "route_business cfg d now c e hooks ctx localAck peerIds g =
    (if peerIds \<noteq> [] then
       (case (case hk_buildDispatch hooks of None \<Rightarrow> Inr None | Some f \<Rightarrow> f ctx) of
          Inl t \<Rightarrow> (Inl t, g)
        | Inr dispatch \<Rightarrow> send_to_peer_ids cfg d now c (dispatch_envelope e dispatch) peerIds
            (case (case dispatch of None \<Rightarrow> None | Some x \<Rightarrow> sd_ack x) of Some a \<Rightarrow> a | None \<Rightarrow> AckRecv) g)
     else
      (let ack = (case localAck of Some a \<Rightarrow> a | None \<Rightarrow> AckHandle) in
       and_then (if ack = AckRecv \<or> ack = AckHandle
                 then gw_enqueue_new cfg d (wc_connId c)
                   (\<lambda>u. create_recv_ack_envelope u now (wc_connId c) (ev_msgId e) (ev_traceId e)) g
                 else (Inr (), g))
         (\<lambda>_ g1. if ack = AckHandle
            then gw_enqueue_new cfg d (wc_connId c)
              (\<lambda>u. create_handle_ack_envelope u now ''system'' (ev_msgId e) (ev_traceId e)) g1
            else (Inr (), g1))))"

text \<open>Everything before the routing: the checks, the hooks that may refuse, the local handling and
  the recipients, in the order of the code. Nothing of it changes the gateway.\<close>

definition run_hooks ::
  "action_hooks \<Rightarrow> hook_ctx \<Rightarrow> thrown + (ack_mode option \<times> string list)" where
  "run_hooks hooks ctx = (case or_else (run_check (hk_validate hooks) ctx) (run_check (hk_authorize hooks) ctx) of
     Some t \<Rightarrow> Inl t
   | None \<Rightarrow>
     (case (case hk_handleLocally hooks of None \<Rightarrow> Inr None | Some f \<Rightarrow> f ctx) of
        Inl t \<Rightarrow> Inl t
      | Inr localAck \<Rightarrow>
        (case (case hk_resolveRecipients hooks of None \<Rightarrow> Inr [] | Some f \<Rightarrow> f ctx) of
           Inl t \<Rightarrow> Inl t
         | Inr peerIds \<Rightarrow>
           if hk_handleLocally hooks = None \<and> peerIds = []
           then Inl (ThrownHardess (plain_error ROUTE_NO_RECIPIENT ''No recipients resolved''))
           else Inr (localAck, peerIds))))"

definition hook_context :: "json envelope \<Rightarrow> auth_context \<Rightarrow> hook_ctx" where
  "hook_context e auth = \<lparr>hx_protocol = ev_protocol e, hx_version = ev_version e, hx_action = ev_action e,
     hx_payload = ev_payload e, hx_auth = auth, hx_traceId = ev_traceId e, hx_ts = ev_ts e\<rparr>"

definition admit_business ::
  "ws_config \<Rightarrow> ws_deps \<Rightarrow> ws_conn \<Rightarrow> json envelope \<Rightarrow> gateway \<Rightarrow> hardess_error + (action_hooks \<times> auth_context)" where
  "admit_business cfg d c e g =
    (if gw_shuttingDown g then Inl (create_draining_error (Some (ev_msgId e)))
     else (case ensure_authenticated (wc_auth c) of
       Inl err \<Rightarrow> Inl err
     | Inr auth \<Rightarrow>
       if \<not> wd_isAuthContextValid d auth
       then Inl (plain_error AUTH_REVOKED_TOKEN ''Authentication is no longer valid'')
       else (case ensure_ingress_protocol_package_available cfg d e of
         Some err \<Rightarrow> Inl err
       | None \<Rightarrow> (case wd_registryGet d (ev_protocol e) (ev_version e) (ev_action e) of
           Inl err \<Rightarrow> Inl err
         | Inr hooks \<Rightarrow> Inr (hooks, auth)))))"

definition handle_business_message ::
  "ws_config \<Rightarrow> ws_deps \<Rightarrow> int \<Rightarrow> ws_conn \<Rightarrow> json envelope \<Rightarrow> gateway \<Rightarrow> unit handled" where
  "handle_business_message cfg d now c e g = (case admit_business cfg d c e g of
     Inl err \<Rightarrow> throw_error err g
   | Inr (hooks, auth) \<Rightarrow> (case run_hooks hooks (hook_context e auth) of
        Inl t \<Rightarrow> (Inl t, g)
      | Inr (localAck, peerIds) \<Rightarrow>
          route_business cfg d now c e hooks (hook_context e auth) localAck peerIds g))"

section \<open>The socket handlers\<close>

text \<open>A refused socket never becomes a connection: what is called on it is kept apart, as are the
  last calls on the sockets the Map forgets when the ingress is disposed.\<close>

definition refuse :: "string \<Rightarrow> socket_event list \<Rightarrow> gateway \<Rightarrow> gateway" where
  "refuse i evs g = g\<lparr>gw_refused := gw_refused g @ map (\<lambda>ev. (i, ev)) evs\<rparr>"

definition ws_open :: "ws_config \<Rightarrow> ws_deps \<Rightarrow> int \<Rightarrow> string \<Rightarrow> gateway \<Rightarrow> unit handled" where
  "ws_open cfg d now i g =
    (if gw_disposed g then (Inr (), refuse i [SocketClose (Some 1001) (Some ''server disposed'')] g)
     else if gw_shuttingDown g then (Inr (), refuse i [SocketClose (Some 1001) (Some ''server shutting down'')] g)
     else if (case cf_maxConnections cfg of None \<Rightarrow> False | Some limit \<Rightarrow> int (length (gw_connections g)) \<ge> limit) then
       (let e = plain_error CONN_QUOTA_EXCEEDED ''Connection quota exceeded'';
            m = create_sys_err_envelope (wd_uuid d (gw_fresh g)) now (ThrownHardess e) i None None;
            r = se_send (wd_env d i) 0;
            g1 = refuse i [SocketSend m r] (g\<lparr>gw_fresh := Suc (gw_fresh g)\<rparr>)
        in case r of
             SendThrew msg \<Rightarrow> (Inl (ThrownOther msg), g1)
           | Returned _ \<Rightarrow> (Inr (), refuse i [SocketClose (close_code_for_error (he_code e))
                                          (Some (error_code_str (he_code e)))] g1))
     else (Inr (), g\<lparr>gw_connections := map_set i (new_ws_conn i now) (gw_connections g)\<rparr>))"

text \<open>Report an error to the client on the socket itself, then close the connection with the
  code of the error if it has one. When the socket throws, nothing is closed.\<close>

definition report_and_close ::
  "ws_deps \<Rightarrow> int \<Rightarrow> string \<Rightarrow> thrown \<Rightarrow> string option \<Rightarrow> string option \<Rightarrow> gateway \<Rightarrow> unit handled" where
  "report_and_close d now i t traceId refMsgId g =
     and_then (gw_socket_send d i (\<lambda>u. create_sys_err_envelope u now t i traceId refMsgId) g)
       (\<lambda>_ g1. (Inr (), if close_code_for_error (he_code (as_hardess_error t)) \<noteq> None
                        then update_conn i (close_for_error (as_hardess_error t)) g1 else g1))"

text \<open>The catch clause: an error that is not a \<open>HardessError\<close> becomes an internal error.\<close>

fun normalize_thrown :: "thrown \<Rightarrow> hardess_error" where
  "normalize_thrown (ThrownHardess e) = e"
| "normalize_thrown (ThrownOther msg) =
     new_hardess_error INTERNAL_ERROR ''Unhandled websocket error'' (no_options\<lparr>opt_detail := Some (JStr msg)\<rparr>)"

definition note_message :: "ws_config \<Rightarrow> int \<Rightarrow> ws_conn \<Rightarrow> ws_conn" where
  "note_message cfg now c = c\<lparr>wc_lastSeenAt := now,
     wc_messageTimestamps := filter (\<lambda>t. now - t < cf_rateLimitWindowMs cfg) (wc_messageTimestamps c)\<rparr>"

definition ws_message :: "ws_config \<Rightarrow> ws_deps \<Rightarrow> int \<Rightarrow> string \<Rightarrow> json option \<Rightarrow> gateway \<Rightarrow> unit handled" where
  "ws_message cfg d now i raw g = (case map_of (gw_connections g) i of
     None \<Rightarrow> (Inr (), g)
   | Some c0 \<Rightarrow>
      (let envelope = Option.bind raw parse_envelope_value_fast;
           c1 = note_message cfg now c0;
           g1 = update_conn i (\<lambda>_. c1) g
       in if int (length (wc_messageTimestamps c1)) \<ge> cf_rateLimitMaxMessages cfg then
            report_and_close d now i
              (ThrownHardess (plain_error RATE_LIMIT_EXCEEDED ''WebSocket message rate limit exceeded''))
              (Option.bind envelope ev_traceId) (map_option ev_msgId envelope) g1
          else
           (let c2 = c1\<lparr>wc_messageTimestamps := wc_messageTimestamps c1 @ [now]\<rparr>;
                g2 = update_conn i (\<lambda>_. c2) g1
            in case envelope of
                 None \<Rightarrow> report_and_close d now i
                   (ThrownHardess (plain_error PROTO_INVALID_PAYLOAD ''Invalid websocket envelope'')) None None g2
               | Some e \<Rightarrow>
                  (case (if ev_kind e = System then handle_system_message cfg d now c2 e g2
                         else handle_business_message cfg d now c2 e g2) of
                     (Inr _, g3) \<Rightarrow> (Inr (), g3)
                   | (Inl t, g3) \<Rightarrow> report_and_close d now i (ThrownHardess (normalize_thrown t))
                       (ev_traceId e) (Some (ev_msgId e)) g3))))"

definition ws_close :: "ws_config \<Rightarrow> string \<Rightarrow> gateway \<Rightarrow> gateway" where
  "ws_close cfg i g = g\<lparr>
     gw_locator := loc_unregister i (gw_locator g),
     gw_connections := map_del i (gw_connections g),
     gw_pending := filter (\<lambda>e. \<not> (cr_nodeId (pa_senderRef (snd e)) = cf_nodeId cfg
                                  \<and> cr_connId (pa_senderRef (snd e)) = i)) (gw_pending g)\<rparr>"

section \<open>Requests of the cluster\<close>

definition deliver_target ::
  "ws_config \<Rightarrow> ws_deps \<Rightarrow> int \<Rightarrow> deliver_payload \<Rightarrow> conn_ref \<Rightarrow> conn_ref list \<Rightarrow> gateway \<Rightarrow> conn_ref list handled" where
  "deliver_target cfg d now p target delivered g =
    (if cr_nodeId target \<noteq> cf_nodeId cfg \<or> \<not> conn_valid d g (cr_connId target) then (Inr delivered, g)
     else
      (let g1 = (if dl_ack p \<noteq> AckNone
                 then set_pending_handle_ack cfg (ev_msgId (dl_envelope p)) (dl_sender p)
                        (now + cf_pendingHandleAckTtlMs cfg) g else g)
       in and_then (gw_enqueue cfg d (cr_connId target) (business_msg (dl_envelope p) (ev_src (dl_envelope p))) g1)
            (\<lambda>_ g2. (Inr (delivered @ [target]), g2))))"

fun deliver_targets ::
  "ws_config \<Rightarrow> ws_deps \<Rightarrow> int \<Rightarrow> deliver_payload \<Rightarrow> conn_ref list \<Rightarrow> conn_ref list \<Rightarrow> gateway \<Rightarrow> conn_ref list handled" where
  "deliver_targets cfg d now p [] delivered g = (Inr delivered, g)"
| "deliver_targets cfg d now p (t # ts) delivered g =
     and_then (deliver_target cfg d now p t delivered g) (\<lambda>ds g1. deliver_targets cfg d now p ts ds g1)"

definition deliver_cluster :: "ws_config \<Rightarrow> ws_deps \<Rightarrow> int \<Rightarrow> deliver_payload \<Rightarrow> gateway \<Rightarrow> conn_ref list handled" where
  "deliver_cluster cfg d now p g =
    (if gw_disposed g then (Inr [], g)
     else if gw_shuttingDown g \<and> ev_kind (dl_envelope p) = Biz then (Inr [], g)
     else
      (let g1 = prune_recent_cluster_deliveries now (prune_pending_handle_acks now g) in
       if (case map_of (gw_recent g1) (ev_msgId (dl_envelope p)) of None \<Rightarrow> False | Some t \<Rightarrow> t \<noteq> 0 \<and> t > now)
       then (Inr (filter (\<lambda>t. cr_nodeId t = cf_nodeId cfg) (dl_targets p)), g1)
       else and_then (deliver_targets cfg d now p (dl_targets p) [] g1)
         (\<lambda>delivered g2. (Inr delivered, if delivered \<noteq> []
             then g2\<lparr>gw_recent := map_set (ev_msgId (dl_envelope p)) (now + cf_recentClusterDeliveryTtlMs cfg) (gw_recent g2)\<rparr>
             else g2))))"

definition forward_cluster_handle_ack ::
  "ws_config \<Rightarrow> ws_deps \<Rightarrow> int \<Rightarrow> conn_ref \<Rightarrow> string \<Rightarrow> string option \<Rightarrow> gateway \<Rightarrow> bool handled" where
  "forward_cluster_handle_ack cfg d now sender ackFor traceId g =
    (let g1 = delete_pending ackFor g in
     if \<not> conn_valid d g1 (cr_connId sender) then (Inr False, g1)
     else and_then (gw_enqueue_new cfg d (cr_connId sender)
            (\<lambda>u. create_handle_ack_envelope u now ''cluster'' ackFor traceId) g1) (\<lambda>_ g2. (Inr True, g2)))"

section \<open>Shutdown\<close>

definition close_all :: "int option \<Rightarrow> string option \<Rightarrow> (string, ws_conn) js_map \<Rightarrow> (string, ws_conn) js_map" where
  "close_all code reason cs = map (\<lambda>(i, c). (i, close_connection code reason c)) cs"

definition force_close_draining_connections :: "gateway \<Rightarrow> gateway" where
  "force_close_draining_connections g =
     g\<lparr>gw_connections := close_all (Some 1001) (Some ''server shutting down'') (gw_connections g)\<rparr>"

definition unregister_all :: "(string, ws_conn) js_map \<Rightarrow> locator \<Rightarrow> locator" where
  "unregister_all cs loc = foldl (\<lambda>l (i, c). loc_unregister (wc_connId c) l) loc cs"

definition begin_shutdown :: "ws_config \<Rightarrow> gateway \<Rightarrow> gateway" where
  "begin_shutdown cfg g =
    (if gw_shuttingDown g \<or> gw_disposed g then g
     else
      (let g1 = g\<lparr>gw_shuttingDown := True, gw_locator := unregister_all (gw_connections g) (gw_locator g)\<rparr> in
       if cf_shutdownGraceMs cfg \<le> 0 then force_close_draining_connections g1
       else g1\<lparr>gw_shutdownTimer := True\<rparr>))"

definition shutdown_timer_fires :: "gateway \<Rightarrow> gateway" where
  "shutdown_timer_fires g = (if \<not> gw_shutdownTimer g then g
     else force_close_draining_connections (g\<lparr>gw_shutdownTimer := False\<rparr>))"

definition ws_dispose :: "gateway \<Rightarrow> gateway" where
  "ws_dispose g = (if gw_disposed g then g
     else g\<lparr>gw_disposed := True, gw_shutdownTimer := False,
            gw_refused := gw_refused g @ map (\<lambda>(i, c). (i, SocketClose (Some 1001) (Some ''runtime disposed'')))
                            (filter (\<lambda>(i, c). \<not> wc_closed c) (gw_connections g)),
            gw_locator := unregister_all (gw_connections g) (gw_locator g),
            gw_connections := [], gw_pending := [], gw_recent := []\<rparr>)"

text \<open>The microtask and the retry timer of a connection.\<close>

definition run_drain :: "ws_config \<Rightarrow> ws_deps \<Rightarrow> string \<Rightarrow> gateway \<Rightarrow> gateway" where
  "run_drain cfg d i g = (case map_of (gw_connections g) i of
     None \<Rightarrow> g
   | Some c \<Rightarrow> if wc_drainScheduled c then update_conn i (drain_outbound_queue cfg (wd_env d i)) g else g)"

definition run_drain_timer :: "string \<Rightarrow> gateway \<Rightarrow> gateway" where
  "run_drain_timer i g = update_conn i drain_timer_fires g"

end
