(* ===== verification/Ws_Ingress_Frame.thy ===== *)
theory Ws_Ingress_Frame
  imports Ws_Ingress
begin

text \<open>What the handlers of the ingress leave alone. \<open>frame cfg P g g'\<close>: from \<open>g\<close> to \<open>g'\<close> no
  connection came, went or changed its identity, every connection stayed well formed, the locator
  and the shutdown state are the same, the bounded Maps stayed bounded, and every message newly
  queued or written on a connection satisfies \<open>P\<close>. Every handler but opening, closing,
  authentication and shutdown is such a step; the lemmas of this theory say so one operation at a
  time.\<close>

definition msgs :: "ws_conn \<Rightarrow> out_msg set" where
  "msgs c = fst ` set (wc_outboundQueue c) \<union> {m. \<exists>r. SocketSend m r \<in> set (wc_log c)}"

definition stamps_ok :: "ws_config \<Rightarrow> ws_conn \<Rightarrow> bool" where
  "stamps_ok cfg c \<longleftrightarrow> int (length (wc_messageTimestamps c)) \<le> max 0 (cf_rateLimitMaxMessages cfg)"

definition conn_like :: "ws_config \<Rightarrow> (out_msg \<Rightarrow> bool) \<Rightarrow> ws_conn \<Rightarrow> ws_conn \<Rightarrow> bool" where
  "conn_like cfg P c c' \<longleftrightarrow> wc_auth c' = wc_auth c \<and> wc_connId c' = wc_connId c
     \<and> (stamps_ok cfg c \<longrightarrow> stamps_ok cfg c') \<and> (\<forall>m\<in>msgs c'. m \<in> msgs c \<or> P m)"

definition conn_keeps :: "ws_config \<Rightarrow> (out_msg \<Rightarrow> bool) \<Rightarrow> ws_conn \<Rightarrow> ws_conn \<Rightarrow> bool" where
  "conn_keeps cfg P c c' \<longleftrightarrow> conn_like cfg P c c' \<and> (conn_ok cfg c \<longrightarrow> conn_ok cfg c')"

definition pend_ok :: "ws_config \<Rightarrow> gateway \<Rightarrow> bool" where
  "pend_ok cfg g \<longleftrightarrow> wf_map (gw_pending g) \<and> int (length (gw_pending g)) \<le> max 1 (cf_pendingHandleAckMaxEntries cfg)"

definition frame :: "ws_config \<Rightarrow> (out_msg \<Rightarrow> bool) \<Rightarrow> gateway \<Rightarrow> gateway \<Rightarrow> bool" where
  "frame cfg P g g' \<longleftrightarrow> map_keys (gw_connections g') = map_keys (gw_connections g)
     \<and> (\<forall>i c'. map_of (gw_connections g') i = Some c' \<longrightarrow>
          (\<exists>c. map_of (gw_connections g) i = Some c \<and> conn_keeps cfg P c c'))
     \<and> gw_locator g' = gw_locator g \<and> gw_shuttingDown g' = gw_shuttingDown g \<and> gw_disposed g' = gw_disposed g
     \<and> (pend_ok cfg g \<longrightarrow> pend_ok cfg g') \<and> (wf_map (gw_recent g) \<longrightarrow> wf_map (gw_recent g'))"

named_theorems frames \<open>operations of the ingress that are frame steps\<close>

lemma conn_like_refl [simp]: "conn_like cfg P c c"
  by (simp add: conn_like_def)

lemma conn_like_trans: "conn_like cfg P c c1 \<Longrightarrow> conn_like cfg P c1 c2 \<Longrightarrow> conn_like cfg P c c2"
  unfolding conn_like_def by metis

lemma conn_keeps_refl [simp]: "conn_keeps cfg P c c"
  by (simp add: conn_keeps_def)

lemma conn_keeps_trans: "conn_keeps cfg P c c1 \<Longrightarrow> conn_keeps cfg P c1 c2 \<Longrightarrow> conn_keeps cfg P c c2"
  unfolding conn_keeps_def using conn_like_trans by blast

lemma frame_refl [simp]: "frame cfg P g g"
  by (simp add: frame_def)

lemma frame_trans: "frame cfg P g g1 \<Longrightarrow> frame cfg P g1 g2 \<Longrightarrow> frame cfg P g g2"
proof -
  assume a: "frame cfg P g g1" and b: "frame cfg P g1 g2"
  have "\<exists>c. map_of (gw_connections g) i = Some c \<and> conn_keeps cfg P c c'"
    if i: "map_of (gw_connections g2) i = Some c'" for i c'
  proof -
    obtain c1 where "map_of (gw_connections g1) i = Some c1" "conn_keeps cfg P c1 c'"
      using b i unfolding frame_def by blast
    moreover from this obtain c where "map_of (gw_connections g) i = Some c" "conn_keeps cfg P c c1"
      using a unfolding frame_def by blast
    ultimately show ?thesis using conn_keeps_trans by blast
  qed
  then show ?thesis using a b by (simp add: frame_def)
qed

lemma frame_and_then:
  "frame cfg P g (snd m) \<Longrightarrow> (\<And>a s. m = (Inr a, s) \<Longrightarrow> frame cfg P s (snd (f a s))) \<Longrightarrow>
   frame cfg P g (snd (and_then m f))"
  by (auto simp: and_then_def split: sum.split prod.split intro: frame_trans)

lemma frame_foldl:
  "(\<And>g x. x \<in> set xs \<Longrightarrow> frame cfg P g (f g x)) \<Longrightarrow> frame cfg P g (foldl f g xs)"
  by (induction xs arbitrary: g) (auto intro: frame_trans)

section \<open>Connections\<close>

lemma frame_set_conn:
  "map_of (gw_connections g) i = Some c \<Longrightarrow> conn_keeps cfg P c c' \<Longrightarrow>
   frame cfg P g (g\<lparr>gw_connections := map_set i c' (gw_connections g)\<rparr>)"
  by (auto simp: frame_def map_keys_set_present pend_ok_def)

lemma frame_update_conn:
  "(\<And>c. map_of (gw_connections g) i = Some c \<Longrightarrow> conn_keeps cfg P c (f c)) \<Longrightarrow> frame cfg P g (update_conn i f g)"
  by (auto simp: update_conn_def intro: frame_set_conn split: option.split)

lemma frame_fresh [simp]: "frame cfg P (g\<lparr>gw_fresh := n\<rparr>) g' = frame cfg P g g'"
  "frame cfg P g (g'\<lparr>gw_fresh := n\<rparr>) = frame cfg P g g'"
  by (simp_all add: frame_def pend_ok_def)

lemma socket_send_like: "P m \<Longrightarrow> socket_send env m c = (r, c') \<Longrightarrow> conn_like cfg P c c'"
  by (auto simp: socket_send_def Let_def conn_like_def msgs_def stamps_ok_def)

lemma socket_send_keeps: "P m \<Longrightarrow> socket_send env m c = (r, c') \<Longrightarrow> conn_keeps cfg P c c'"
  using socket_send_like[of P m env c r c' cfg]
  by (auto simp: socket_send_def Let_def conn_keeps_def conn_ok_def)

lemma close_like [simp]: "conn_like cfg P c (close_connection code reason c)"
  by (auto simp: close_connection_def conn_like_def msgs_def stamps_ok_def)

lemma close_keeps [simp]: "conn_keeps cfg P c (close_connection code reason c)"
  using close_like[of cfg P c code reason]
  by (simp add: conn_keeps_def) (simp add: close_connection_def conn_ok_def accounted_def)

lemma close_error_like [simp]: "conn_like cfg P c (close_for_error e c)"
  by (simp add: close_for_error_def)

lemma close_error_keeps [simp]: "conn_keeps cfg P c (close_for_error e c)"
  by (simp add: close_for_error_def)

lemma ensure_like: "ensure_socket_buffer_within_limit cfg' env c = (r, c') \<Longrightarrow> conn_like cfg P c c'"
  by (auto simp: ensure_socket_buffer_within_limit_def Let_def split: if_split_asm)

lemma try_send_like:
  assumes "P m" "try_send_now cfg' env m c = (r, c')"
  shows "conn_like cfg P c c'"
proof -
  obtain r1 c1 where e: "ensure_socket_buffer_within_limit cfg' env c = (r1, c1)" by fastforce
  obtain r2 c2 where s: "socket_send env m c1 = (r2, c2)" by fastforce
  obtain r3 c3 where e2: "ensure_socket_buffer_within_limit cfg' env c2 = (r3, c3)" by fastforce
  have k1: "conn_like cfg P c c1" by (rule ensure_like[OF e])
  have k2: "conn_like cfg P c c2" by (rule conn_like_trans[OF k1 socket_send_like[where P = P, OF assms(1) s]])
  have k3: "conn_like cfg P c c3" by (rule conn_like_trans[OF k2 ensure_like[OF e2]])
  have "c' = c1 \<or> c' = c2 \<or> c' = c3 \<or> (\<exists>e. c' = close_for_error e c2)"
    using assms(2) e s e2 by (auto simp: try_send_now_def Let_def split: sum.split_asm send_result.split_asm if_split_asm)
  then show ?thesis using k1 k2 k3 conn_like_trans[OF k2 close_error_like] by blast
qed

lemma like_simps [simp]:
  "conn_like cfg P c (c1\<lparr>wc_drainTimer := b\<rparr>) = conn_like cfg P c c1"
  "conn_like cfg P c (c1\<lparr>wc_drainScheduled := b\<rparr>) = conn_like cfg P c c1"
  "conn_like cfg P (c\<lparr>wc_drainScheduled := b\<rparr>) c1 = conn_like cfg P c c1"
  by (simp_all add: conn_like_def msgs_def stamps_ok_def)

lemma schedule_like [simp]:
  "conn_like cfg P c (schedule_drain c1) = conn_like cfg P c c1"
  "conn_like cfg P c (schedule_drain_retry c1) = conn_like cfg P c c1"
  by (simp_all add: schedule_drain_def schedule_drain_retry_def)

lemma push_like:
  "P m \<Longrightarrow> conn_like cfg P c c1 \<Longrightarrow>
   conn_like cfg P c (c1\<lparr>wc_outboundQueue := wc_outboundQueue c1 @ [(m, b)], wc_outboundQueuedBytes := n\<rparr>)"
  by (auto simp: conn_like_def msgs_def stamps_ok_def)

lemma enqueue_like:
  assumes "P m" "enqueue_outbound cfg' env m c = (r, c')"
  shows "conn_like cfg P c c'"
proof (cases "wc_closed c")
  case True
  then show ?thesis using assms(2) by (simp add: enqueue_outbound_def)
next
  case False
  let ?direct = "wc_outboundQueue c = [] \<and> \<not> wc_drainScheduled c \<and> \<not> wc_drainTimer c"
  obtain x c1 where t: "(if ?direct then try_send_now cfg' env m c else (Inr False, c)) = (x, c1)" by fastforce
  have k: "conn_like cfg P c c1" using t try_send_like[of P m cfg' env c x c1 cfg] assms(1) by (auto split: if_split_asm)
  define c2 where "c2 = c1\<lparr>wc_outboundQueue := wc_outboundQueue c1 @ [(m, cf_bytes cfg' m)],
                            wc_outboundQueuedBytes := wc_outboundQueuedBytes c1 + int (cf_bytes cfg' m)\<rparr>"
  have k2: "conn_like cfg P c c2" unfolding c2_def by (rule push_like[where P = P, OF assms(1) k])
  have "c' = c1 \<or> (\<exists>e. c' = close_for_error e c1) \<or> c' = c2 \<or> c' = schedule_drain c2 \<or> c' = schedule_drain_retry c2"
    using assms(2) unfolding enqueue_outbound_def Let_def if_not_P[OF False] t c2_def
    by (auto split: sum.split_asm if_split_asm)
  then show ?thesis using k k2 conn_like_trans[OF k close_error_like] by auto
qed

lemma enqueue_keeps: "P m \<Longrightarrow> enqueue_outbound cfg env m c = (r, c') \<Longrightarrow> conn_keeps cfg P c c'"
  using enqueue_like[of P m cfg env c r c' cfg] enqueue_spec(1)[of cfg c env m r c'] by (auto simp: conn_keeps_def)

lemma drain_loop_like: "conn_like cfg' P c (drain_loop cfg env c)"
proof (induction cfg env c rule: drain_loop.induct)
  case (1 cfg env c)
  show ?case
  proof (cases "wc_closed c \<or> wc_outboundQueue c = []")
    case True
    then show ?thesis by (auto simp: drain_loop.simps[of cfg env c])
  next
    case False
    then obtain m b rest where q: "wc_outboundQueue c = (m, b) # rest" and op: "\<not> wc_closed c"
      by (cases "wc_outboundQueue c") auto
    let ?c1 = "c\<lparr>wc_outboundQueue := rest, wc_outboundQueuedBytes := wc_outboundQueuedBytes c - int b\<rparr>"
    obtain r c2 where t: "try_send_now cfg env m ?c1 = (r, c2)" by fastforce
    have "conn_like cfg' (\<lambda>x. x = m \<or> P x) ?c1 c2" by (rule try_send_like[OF _ t]) simp
    then have k: "conn_like cfg' P c c2" using q by (auto simp: conn_like_def msgs_def stamps_ok_def)
    have "conn_like cfg' P c (c2\<lparr>wc_outboundQueue := (m, b) # wc_outboundQueue c2, wc_outboundQueuedBytes := n\<rparr>)" for n
      using k q by (auto simp: conn_like_def msgs_def stamps_ok_def)
    then show ?thesis
      using op q t k conn_like_trans[OF k "1.IH"[OF op q _ refl t[symmetric], of True]]
      by (auto simp: drain_loop.simps[of cfg env c] Let_def split: sum.split)
  qed
qed

lemma drain_keeps: "conn_keeps cfg P c (drain_outbound_queue cfg env c)"
  using drain_ok[of cfg c env] drain_loop_like[of cfg P "c\<lparr>wc_drainScheduled := False\<rparr>" cfg env]
  by (simp add: conn_keeps_def drain_outbound_queue_def)

lemma drain_timer_keeps: "conn_keeps cfg P c (drain_timer_fires c)"
  using drain_timer_ok[of cfg c] by (simp add: conn_keeps_def drain_timer_fires_def Let_def)

section \<open>Writing\<close>

lemma frame_gw_enqueue [frames]: "P m \<Longrightarrow> frame cfg P g (snd (gw_enqueue cfg d i m g))"
  by (auto simp: gw_enqueue_def split: option.split sum.split prod.split
      intro!: frame_set_conn elim: enqueue_keeps[where P = P])

lemma frame_gw_enqueue_new [frames]:
  "(\<And>u. P (mk u)) \<Longrightarrow> frame cfg P g (snd (gw_enqueue_new cfg d i mk g))"
proof -
  assume P: "\<And>u. P (mk u)"
  have "frame cfg P (g\<lparr>gw_fresh := Suc (gw_fresh g)\<rparr>) (snd (gw_enqueue_new cfg d i mk g))"
    unfolding gw_enqueue_new_def by (rule frame_gw_enqueue[where P = P, OF P])
  then show ?thesis by simp
qed

lemma frame_gw_socket_send [frames]:
  assumes "\<And>u. P (mk u)"
  shows "frame cfg P g (snd (gw_socket_send d i mk g))"
proof -
  let ?g = "g\<lparr>gw_fresh := Suc (gw_fresh g)\<rparr>"
  have "frame cfg P ?g (snd (gw_socket_send d i mk g))"
    using assms
    by (auto simp: gw_socket_send_def Let_def simp del: frame_fresh split: option.split send_result.split prod.split
        intro!: frame_set_conn[of ?g, simplified] elim: socket_send_keeps[where P = P, rotated])
  then show ?thesis by simp
qed

section \<open>Bounded Maps\<close>

lemma frame_same_conns:
  "gw_connections g' = gw_connections g \<Longrightarrow> gw_locator g' = gw_locator g \<Longrightarrow> gw_shuttingDown g' = gw_shuttingDown g \<Longrightarrow>
   gw_disposed g' = gw_disposed g \<Longrightarrow> (pend_ok cfg g \<Longrightarrow> pend_ok cfg g') \<Longrightarrow>
   (wf_map (gw_recent g) \<Longrightarrow> wf_map (gw_recent g')) \<Longrightarrow> frame cfg P g g'"
  by (simp add: frame_def)

lemma pend_ok_filter: "pend_ok cfg g \<Longrightarrow> pend_ok cfg (g\<lparr>gw_pending := filter Q (gw_pending g)\<rparr>)"
  using length_filter_le[of Q "gw_pending g"] by (simp add: pend_ok_def wf_map_filter del: length_filter_le)

lemma frame_prune_pending [frames]: "frame cfg P g (prune_pending_handle_acks now g)"
  unfolding prune_pending_handle_acks_def by (rule frame_same_conns) (simp_all add: pend_ok_filter)

lemma frame_prune_recent [frames]: "frame cfg P g (prune_recent_cluster_deliveries now g)"
  unfolding prune_recent_cluster_deliveries_def by (rule frame_same_conns) (simp_all add: pend_ok_def)

lemma frame_delete_pending [frames]: "frame cfg P g (delete_pending m g)"
  unfolding delete_pending_def
proof (rule frame_same_conns)
  assume "pend_ok cfg g"
  then show "pend_ok cfg (g\<lparr>gw_pending := map_del m (gw_pending g)\<rparr>)"
    using length_map_del_le[of m "gw_pending g"] by (simp add: pend_ok_def wf_map_del)
qed simp_all

lemma frame_recent: "frame cfg P g (g\<lparr>gw_recent := map_set k v (gw_recent g)\<rparr>)"
  by (rule frame_same_conns) (simp_all add: pend_ok_def)

lemma set_pending_bounded:
  assumes "pend_ok cfg g"
  shows "pend_ok cfg (set_pending_handle_ack cfg m ref t g)"
proof -
  let ?p = "gw_pending g" and ?e = "\<lparr>pa_senderRef = ref, pa_expiresAt = t\<rparr>"
  show ?thesis
  proof (cases "map_has ?p m \<or> int (length ?p) < cf_pendingHandleAckMaxEntries cfg")
    case True
    then show ?thesis using assms
      by (auto simp: pend_ok_def set_pending_handle_ack_def Let_def length_map_set)
  next
    case full: False
    show ?thesis
    proof (cases ?p)
      case Nil
      then show ?thesis using assms full by (auto simp: pend_ok_def set_pending_handle_ack_def Let_def wf_map_def)
    next
      case (Cons e es)
      obtain k v where e: "e = (k, v)" by fastforce
      have "k \<notin> fst ` set es" using assms Cons e by (simp add: pend_ok_def wf_map_def)
      then have "map_del k ?p = es" using Cons e by (simp add: delete_idem)
      moreover have "map_of es m = None" using full Cons e by (auto split: if_split_asm)
      moreover have "wf_map es" using assms Cons by (simp add: pend_ok_def wf_map_def)
      ultimately show ?thesis using assms full Cons e
        by (auto simp: pend_ok_def set_pending_handle_ack_def Let_def length_map_set)
    qed
  qed
qed

lemma frame_set_pending [frames]: "frame cfg P g (set_pending_handle_ack cfg m ref t g)"
  by (rule frame_same_conns) (simp_all add: set_pending_bounded, simp_all add: set_pending_handle_ack_def Let_def)

section \<open>The handlers\<close>

text \<open>Messages the gateway makes itself carry no business payload; \<open>admits P\<close>: \<open>P\<close> holds for all of
  them.\<close>

definition own_message :: "out_msg \<Rightarrow> bool" where
  "own_message m \<longleftrightarrow> (\<forall>j. ev_payload m \<noteq> PBiz j)"

definition admits :: "(out_msg \<Rightarrow> bool) \<Rightarrow> bool" where
  "admits P \<longleftrightarrow> (\<forall>m. own_message m \<longrightarrow> P m)"

lemma own_messages [simp]:
  "own_message (create_auth_ok_envelope u now a i t)" "own_message (create_pong_envelope u now i nonce t)"
  "own_message (create_ping_envelope u now i nonce t)" "own_message (create_recv_ack_envelope u now i r t)"
  "own_message (create_handle_ack_envelope u now i r t)" "own_message (create_route_envelope u now i ps cs t)"
  "own_message (create_sys_err_envelope u now e i t rf)"
  by (simp_all add: own_message_def create_auth_ok_envelope_def create_pong_envelope_def create_ping_envelope_def
      create_recv_ack_envelope_def create_handle_ack_envelope_def create_route_envelope_def
      create_sys_err_envelope_def create_system_envelope_def Let_def)

lemma admitsD: "admits P \<Longrightarrow> own_message m \<Longrightarrow> P m"
  by (simp add: admits_def)

lemma admits_True [simp]: "admits (\<lambda>_. True)"
  by (simp add: admits_def)

lemma keeps_seen [simp]:
  "conn_keeps cfg P c (c\<lparr>wc_lastSeenAt := t\<rparr>)" "conn_keeps cfg P c (c\<lparr>wc_lastPingAt := p\<rparr>)"
  "conn_keeps cfg P c (c\<lparr>wc_lastSeenAt := t, wc_lastPingAt := p\<rparr>)"
  by (simp_all add: conn_keeps_def conn_like_def msgs_def stamps_ok_def conn_ok_def accounted_def)

lemma frame_own_new [frames]:
  "admits P \<Longrightarrow> (\<And>u. own_message (mk u)) \<Longrightarrow> frame cfg P g (snd (gw_enqueue_new cfg d i mk g))"
  by (rule frame_gw_enqueue_new) (simp add: admits_def)

lemma frame_heartbeat_conn: "admits P \<Longrightarrow> frame cfg P g (heartbeat_conn cfg d now i g)"
proof (cases "map_of (gw_connections g) i")
  case (Some c)
  assume P: "admits P"
  have 1: "frame cfg P g (update_conn i (close_connection (Some 4408) (Some ''heartbeat timeout'')) g)"
    by (rule frame_update_conn) simp
  let ?g1 = "update_conn i (\<lambda>c. c\<lparr>wc_lastPingAt := Some now\<rparr>) g"
  have "frame cfg P g ?g1" by (rule frame_update_conn) simp
  then have "frame cfg P g (snd (gw_enqueue_new cfg d i mk (?g1\<lparr>gw_fresh := k\<rparr>)))" if "\<And>u. own_message (mk u)" for mk k
    by (rule frame_trans) (use frame_own_new[OF P that, of cfg "?g1\<lparr>gw_fresh := k\<rparr>" d i] in simp)
  then show ?thesis using 1 by (simp add: heartbeat_conn_def Some Let_def)
qed (simp add: heartbeat_conn_def)

lemma frame_tick_heartbeat: "admits P \<Longrightarrow> frame cfg P g (tick_heartbeat cfg d now g)"
  unfolding tick_heartbeat_def Let_def
  by (rule frame_trans[OF frame_prune_pending frame_foldl]) (rule frame_heartbeat_conn)

lemma frame_attempt_target: "P m \<Longrightarrow> frame cfg P (snd sg) (snd (attempt_target cfg d m sg t))"
  using frame_gw_enqueue[of P m cfg "snd sg" d "cr_connId t"]
  by (cases sg) (auto simp: attempt_target_def split: option.split sum.split prod.split)

lemma frame_attempt_targets: "P m \<Longrightarrow> frame cfg P (snd sg) (snd (foldl (attempt_target cfg d m) sg ts))"
proof (induction ts arbitrary: sg)
  case (Cons t ts)
  show ?case
    using frame_trans[OF frame_attempt_target[of P m cfg sg d t] Cons.IH[of "attempt_target cfg d m sg t"]] Cons.prems
    by simp
qed simp

lemma frame_attempt_delivery:
  "P (business_msg e \<lparr>src_peerId = (case wc_auth c of Some a \<Rightarrow> au_peerId a | None \<Rightarrow> src_peerId (ev_src e)),
                       src_connId = wc_connId c\<rparr>) \<Longrightarrow>
   frame cfg P g (snd (attempt_delivery cfg d k c e ps ack g))"
  using frame_attempt_targets[of P _ cfg "(\<lparr>at_delivered = [], at_remote = [], at_failures = 0\<rparr>, g)" d]
  by (auto simp: attempt_delivery_def Let_def split: prod.split) (metis snd_conv)

lemma frame_send_to_peer_ids:
  assumes P: "admits P"
    "P (business_msg e \<lparr>src_peerId = (case wc_auth c of Some a \<Rightarrow> au_peerId a | None \<Rightarrow> src_peerId (ev_src e)),
                        src_connId = wc_connId c\<rparr>)"
  shows "frame cfg P g (snd (send_to_peer_ids cfg d now c e ps ack g))"
proof -
  obtain d1 g1 where a1: "attempt_delivery cfg d 0 c e ps ack g = (d1, g1)" by fastforce
  obtain d2 g2 where a2: "(if d1 = [] then attempt_delivery cfg d 1 c e ps ack g1 else (d1, g1)) = (d2, g2)" by fastforce
  have "frame cfg P g g1" using frame_attempt_delivery[where P = P, OF P(2), of cfg g d 0 ps ack] a1 by simp
  moreover have "frame cfg P g1 g2"
    using frame_attempt_delivery[where P = P, OF P(2), of cfg g1 d 1 ps ack] a2 by (auto split: if_split_asm)
  ultimately have 2: "frame cfg P g g2" by (rule frame_trans)
  have 3: "frame cfg P g2 (if b then set_pending_handle_ack cfg m r t g2 else g2)" for b m r t
    by (simp add: frame_set_pending)
  have 4: "frame cfg P h (snd (and_then (gw_enqueue_new cfg d i mk h)
      (\<lambda>_ h4. if b then gw_enqueue_new cfg d i mk2 h4 else (Inr (), h4))))"
    if "\<And>u. own_message (mk u)" "\<And>u. own_message (mk2 u)" for i mk mk2 h b
    by (rule frame_and_then[OF frame_own_new[OF P(1) that(1)]]) (simp add: frame_own_new[OF P(1) that(2)])
  show ?thesis
    unfolding send_to_peer_ids_def Let_def a1 a2 case_prod_conv
    using 2 frame_trans[OF frame_trans[OF 2 3] 4] by simp
qed

lemma frame_ping: "admits P \<Longrightarrow> frame cfg P g (snd (handle_ping cfg d now i e g))"
  unfolding handle_ping_def
  by (auto split: sum.split intro!: frame_trans[OF frame_update_conn frame_own_new])

lemma frame_pong: "frame cfg P g (snd (handle_pong d now i e g))"
  unfolding handle_pong_def by (auto split: sum.split intro!: frame_update_conn)

lemma frame_handle_ack: "admits P \<Longrightarrow> frame cfg P g (snd (handle_handle_ack cfg d now c e g))"
  unfolding handle_handle_ack_def Let_def
  by (auto split: sum.split option.split intro!: frame_trans[OF frame_delete_pending frame_own_new] frame_delete_pending)

lemma frame_route_business:
  assumes "admits P" "\<And>e'. ev_kind e' = ev_kind e \<Longrightarrow> ev_src e' = ev_src e \<Longrightarrow>
     P (business_msg e' \<lparr>src_peerId = (case wc_auth c of Some a \<Rightarrow> au_peerId a | None \<Rightarrow> src_peerId (ev_src e)),
                        src_connId = wc_connId c\<rparr>)"
  shows "frame cfg P g (snd (route_business cfg d now c e hooks ctx la ps g))"
proof -
  have "ev_src (dispatch_envelope e x) = ev_src e" "ev_kind (dispatch_envelope e x) = ev_kind e" for x
    by (simp_all add: dispatch_envelope_def split: option.split)
  note de = this
  have "frame cfg P g (snd (send_to_peer_ids cfg d now c (dispatch_envelope e x) ps ack g))" for x ack
    using assms(2)[OF de(2) de(1)] by (intro frame_send_to_peer_ids assms(1)) (simp only: de)
  moreover have "frame cfg P g (snd (and_then (if b then gw_enqueue_new cfg d i mk g else (Inr (), g))
      (\<lambda>_ h. if b2 then gw_enqueue_new cfg d i mk2 h else (Inr (), h))))"
    if "\<And>u. own_message (mk u)" "\<And>u. own_message (mk2 u)" for i mk mk2 b b2
    by (rule frame_and_then) (simp_all add: frame_own_new[OF assms(1) that(1)] frame_own_new[OF assms(1) that(2)])
  ultimately show ?thesis by (auto simp: route_business_def Let_def split: sum.split option.split)
qed

lemma admit_auth: "admit_business cfg d c e g = Inr (hooks, a) \<Longrightarrow> wc_auth c = Some a"
  by (cases "wc_auth c")
     (auto simp: admit_business_def ensure_authenticated_def split: if_split_asm sum.split_asm option.split_asm)

lemma frame_business:
  assumes "admits P" "\<And>e' a. wc_auth c = Some a \<Longrightarrow> ev_kind e' = ev_kind e \<Longrightarrow>
     P (business_msg e' \<lparr>src_peerId = au_peerId a, src_connId = wc_connId c\<rparr>)"
  shows "frame cfg P g (snd (handle_business_message cfg d now c e g))"
proof (cases "admit_business cfg d c e g")
  case (Inr ha)
  obtain hooks a where ha: "ha = (hooks, a)" by fastforce
  have a: "wc_auth c = Some a" using admit_auth Inr ha by blast
  have "frame cfg P g (snd (route_business cfg d now c e hooks ctx la ps g))" for hooks ctx la ps
    by (rule frame_route_business[OF assms(1)]) (use assms(2)[OF a] a in simp)
  then show ?thesis by (simp add: handle_business_message_def Inr ha split: sum.split prod.split)
qed (simp add: handle_business_message_def)

lemma frame_report: "admits P \<Longrightarrow> frame cfg P g (snd (report_and_close d now i t tr rf g))"
  unfolding report_and_close_def
  by (rule frame_and_then[OF frame_gw_socket_send]) (auto simp: admits_def intro!: frame_update_conn)

lemma frame_deliver_target:
  assumes "P (business_msg (dl_envelope p) (ev_src (dl_envelope p)))"
  shows "frame cfg P g (snd (deliver_target cfg d now p t ds g))"
proof -
  let ?m = "business_msg (dl_envelope p) (ev_src (dl_envelope p))"
  have 1: "frame cfg P h (snd (and_then (gw_enqueue cfg d i ?m h) (\<lambda>_ g2. (Inr ds', g2))))" for h i ds'
    by (rule frame_and_then[OF frame_gw_enqueue[where P = P, OF assms]]) simp
  have 2: "frame cfg P g (if b then set_pending_handle_ack cfg k r e g else g)" for b k r e
    by (simp add: frame_set_pending)
  show ?thesis
  proof (cases "cr_nodeId t \<noteq> cf_nodeId cfg \<or> \<not> conn_valid d g (cr_connId t)")
    case False
    show ?thesis unfolding deliver_target_def Let_def if_not_P[OF False] by (rule frame_trans[OF 2 1])
  qed (simp add: deliver_target_def)
qed

lemma frame_deliver_targets:
  assumes P: "P (business_msg (dl_envelope p) (ev_src (dl_envelope p)))"
  shows "frame cfg P g (snd (deliver_targets cfg d now p ts ds g))"
proof (induction ts arbitrary: ds g)
  case (Cons t ts)
  show ?case unfolding deliver_targets.simps
    by (rule frame_and_then[OF frame_deliver_target[where P = P, OF P]]) (rule Cons.IH)
qed simp

lemma frame_deliver_cluster:
  assumes "P (business_msg (dl_envelope p) (ev_src (dl_envelope p)))"
  shows "frame cfg P g (snd (deliver_cluster cfg d now p g))"
proof -
  let ?g1 = "prune_recent_cluster_deliveries now (prune_pending_handle_acks now g)"
  have 1: "frame cfg P g ?g1" by (rule frame_trans[OF frame_prune_pending frame_prune_recent])
  have "frame cfg P ?g1 (snd (and_then (deliver_targets cfg d now p (dl_targets p) [] ?g1)
         (\<lambda>delivered g2. (Inr delivered, if delivered \<noteq> []
             then g2\<lparr>gw_recent := map_set (ev_msgId (dl_envelope p)) (now + cf_recentClusterDeliveryTtlMs cfg) (gw_recent g2)\<rparr>
             else g2))))"
    by (rule frame_and_then[OF frame_deliver_targets[where P = P, OF assms]]) (simp add: frame_recent)
  from frame_trans[OF 1 this] 1 show ?thesis by (simp add: deliver_cluster_def Let_def)
qed

lemma frame_forward:
  assumes "admits P"
  shows "frame cfg P g (snd (forward_cluster_handle_ack cfg d now r a t g))"
proof -
  have 1: "frame cfg P h (snd (and_then (gw_enqueue_new cfg d i mk h) (\<lambda>_ g2. (Inr True, g2))))"
    if "\<And>u. own_message (mk u)" for h i mk
    by (rule frame_and_then[OF frame_own_new[OF assms that]]) simp_all
  show ?thesis unfolding forward_cluster_handle_ack_def Let_def
    using frame_trans[OF frame_delete_pending 1] by (simp add: frame_delete_pending)
qed

lemma frame_run_drain: "frame cfg P g (run_drain cfg d i g)" "frame cfg P g (run_drain_timer i g)"
  by (auto simp: run_drain_def run_drain_timer_def drain_keeps drain_timer_keeps
      split: option.split intro!: frame_update_conn)

end
