(* ===== verification/Ws_Ingress_Props.thy ===== *)
theory Ws_Ingress_Props
  imports Ws_Ingress_Frame
begin

text \<open>The ingress as a state machine: every call that reaches createWebSocketHandlers
  (src/src/runtime/ingress/websocket.ts) is an event, and the gateways are those some sequence of
  events produces from an empty one. The theory proves what every reachable gateway satisfies, and
  the properties of the single handlers.\<close>

section \<open>The handlers that change identities\<close>

definition authenticated_ref :: "ws_config \<Rightarrow> string \<Rightarrow> auth_context \<Rightarrow> conn_ref" where
  "authenticated_ref cfg i a = \<lparr>cr_nodeId = cf_nodeId cfg, cr_connId = i, cr_peerId = au_peerId a,
     cr_groupId = cf_hostGroupId cfg\<rparr>"

text \<open>The effect of a successful authentication, before the answer is written.\<close>

definition authenticate :: "ws_config \<Rightarrow> string \<Rightarrow> auth_context \<Rightarrow> gateway \<Rightarrow> gateway" where
  "authenticate cfg i a g =
    (let g1 = update_conn i (\<lambda>c. c\<lparr>wc_auth := Some (a\<lparr>au_groupId := cf_hostGroupId cfg\<rparr>)\<rparr>) g
     in g1\<lparr>gw_locator := loc_register (authenticated_ref cfg i a) (gw_locator g1)\<rparr>)"

definition within_peer_quota :: "ws_config \<Rightarrow> string \<Rightarrow> auth_context \<Rightarrow> gateway \<Rightarrow> bool" where
  "within_peer_quota cfg i a g \<longleftrightarrow> (case cf_maxConnectionsPerPeer cfg of None \<Rightarrow> True
     | Some limit \<Rightarrow> int (count_connections_for_peer (gw_locator g) (au_peerId a))
         + (if map_option cr_peerId (get_by_conn_id (gw_locator g) i) \<noteq> Some (au_peerId a) then 1 else 0) \<le> limit)"

lemma handle_auth_after_eq:
  "handle_auth_after cfg d now i e a g =
    (if within_peer_quota cfg i a g
     then gw_enqueue_new cfg d i (\<lambda>u. create_auth_ok_envelope u now a i (ev_traceId e)) (authenticate cfg i a g)
     else throw_error (plain_error CONN_QUOTA_EXCEEDED (''Peer connection quota exceeded for '' @ au_peerId a)) g)"
  by (auto simp: handle_auth_after_def within_peer_quota_def authenticate_def authenticated_ref_def Let_def
      split: option.split)

lemma auth_after_cases:
  assumes "admits P"
  obtains "snd (handle_auth_after cfg d now i e a g) = g"
  | "within_peer_quota cfg i a g" "frame cfg P (authenticate cfg i a g) (snd (handle_auth_after cfg d now i e a g))"
  by (cases "within_peer_quota cfg i a g")
     (auto simp: handle_auth_after_eq intro: that intro!: that(2) frame_own_new assms)

lemma auth_cases:
  assumes "admits P"
  obtains "snd (handle_auth cfg d now i e g) = g"
  | a where "\<not> gw_shuttingDown g" "within_peer_quota cfg i a g"
      "frame cfg P (authenticate cfg i a g) (snd (handle_auth cfg d now i e g))"
proof (cases "handle_auth_before d e g")
  case (Inr p)
  have n: "\<not> gw_shuttingDown g" using Inr by (auto simp: handle_auth_before_def split: if_split_asm)
  show ?thesis
  proof (cases "wd_validateSystemAuth d p")
    case (Inr a)
    have e: "handle_auth cfg d now i e g = handle_auth_after cfg d now i e a g"
      using \<open>handle_auth_before d e g = Inr p\<close> Inr by (simp add: handle_auth_def)
    show ?thesis
      by (rule auth_after_cases[OF assms, of cfg d now i e a g]) (auto simp: e n intro: that)
  qed (use Inr that(1) in \<open>simp add: handle_auth_def\<close>)
qed (use that(1) in \<open>simp add: handle_auth_def\<close>)

section \<open>Receiving a message\<close>

lemma frame_system:
  "ev_action e \<noteq> ''auth'' \<Longrightarrow> admits P \<Longrightarrow> frame cfg P g (snd (handle_system_message cfg d now c e g))"
  by (simp add: handle_system_message_def frame_ping frame_pong frame_handle_ack)

definition admitted :: "ws_config \<Rightarrow> int \<Rightarrow> ws_conn \<Rightarrow> bool" where
  "admitted cfg now c \<longleftrightarrow> int (length (wc_messageTimestamps (note_message cfg now c))) < cf_rateLimitMaxMessages cfg"

definition stamped :: "ws_config \<Rightarrow> int \<Rightarrow> ws_conn \<Rightarrow> ws_conn" where
  "stamped cfg now c = (note_message cfg now c)
     \<lparr>wc_messageTimestamps := wc_messageTimestamps (note_message cfg now c) @ [now]\<rparr>"

lemma note_keeps: "conn_keeps cfg P c (note_message cfg now c)"
proof -
  have "stamps_ok cfg (note_message cfg now c)" if "stamps_ok cfg c"
    using that length_filter_le[of "\<lambda>t. now - t < cf_rateLimitWindowMs cfg" "wc_messageTimestamps c"]
    by (simp add: stamps_ok_def note_message_def del: length_filter_le)
  then show ?thesis
    by (auto simp: conn_keeps_def conn_like_def) (auto simp: note_message_def msgs_def conn_ok_def accounted_def)
qed

lemma stamped_keeps: "admitted cfg now c \<Longrightarrow> conn_keeps cfg P c (stamped cfg now c)"
  by (auto simp: stamped_def admitted_def note_message_def conn_keeps_def conn_like_def msgs_def stamps_ok_def
      conn_ok_def accounted_def)

lemma stamped_identity [simp]:
  "wc_auth (stamped cfg now c) = wc_auth c" "wc_connId (stamped cfg now c) = wc_connId c"
  "wc_closed (stamped cfg now c) = wc_closed c"
  by (simp_all add: stamped_def note_message_def)

lemma update_conn_twice: "map_of (gw_connections g) i = Some c \<Longrightarrow>
   update_conn i (\<lambda>_. y) (update_conn i (\<lambda>_. x) g) = update_conn i (\<lambda>_. y) g"
  by (simp add: update_conn_def)

definition handle_envelope :: "ws_config \<Rightarrow> ws_deps \<Rightarrow> int \<Rightarrow> ws_conn \<Rightarrow> json envelope \<Rightarrow> gateway \<Rightarrow> unit handled" where
  "handle_envelope cfg d now c e g =
     (if ev_kind e = System then handle_system_message cfg d now c e g else handle_business_message cfg d now c e g)"

lemma ws_message_eq:
  "ws_message cfg d now i raw g = (case map_of (gw_connections g) i of
     None \<Rightarrow> (Inr (), g)
   | Some c \<Rightarrow>
      (let envelope = Option.bind raw parse_envelope_value_fast in
       if \<not> admitted cfg now c then
         report_and_close d now i
           (ThrownHardess (plain_error RATE_LIMIT_EXCEEDED ''WebSocket message rate limit exceeded''))
           (Option.bind envelope ev_traceId) (map_option ev_msgId envelope) (update_conn i (\<lambda>_. note_message cfg now c) g)
       else (let g2 = update_conn i (\<lambda>_. stamped cfg now c) g in
         case envelope of
           None \<Rightarrow> report_and_close d now i
             (ThrownHardess (plain_error PROTO_INVALID_PAYLOAD ''Invalid websocket envelope'')) None None g2
         | Some e \<Rightarrow> (case handle_envelope cfg d now (stamped cfg now c) e g2 of
             (Inr _, g3) \<Rightarrow> (Inr (), g3)
           | (Inl t, g3) \<Rightarrow> report_and_close d now i (ThrownHardess (normalize_thrown t))
               (ev_traceId e) (Some (ev_msgId e)) g3))))"
proof (cases "map_of (gw_connections g) i")
  case (Some c)
  have limit: "(int (length (wc_messageTimestamps (note_message cfg now c))) \<ge> cf_rateLimitMaxMessages cfg)
      = (\<not> admitted cfg now c)" by (simp add: admitted_def not_less)
  show ?thesis
    unfolding ws_message_def Some option.case Let_def update_conn_twice[OF Some] limit
      stamped_def[symmetric] handle_envelope_def by simp
qed (simp add: ws_message_def)

text \<open>Reporting is a frame step, so what \<open>ws_message\<close> does is a frame step before the handler, the
  handler, and a frame step after it.\<close>

lemma message_steps:
  assumes "admits P"
  obtains "frame cfg P g (snd (ws_message cfg d now i raw g))"
  | c e where "map_of (gw_connections g) i = Some c" "admitted cfg now c"
      "Option.bind raw parse_envelope_value_fast = Some e"
      "frame cfg P g (update_conn i (\<lambda>_. stamped cfg now c) g)"
      "frame cfg P (snd (handle_envelope cfg d now (stamped cfg now c) e (update_conn i (\<lambda>_. stamped cfg now c) g)))
         (snd (ws_message cfg d now i raw g))"
proof (cases "map_of (gw_connections g) i")
  case None
  then show ?thesis using that(1) by (simp add: ws_message_def)
next
  case (Some c)
  have n: "frame cfg P g (update_conn i (\<lambda>_. note_message cfg now c) g)"
    using Some by (intro frame_update_conn) (auto simp: note_keeps)
  show ?thesis
  proof (cases "admitted cfg now c")
    case False
    show ?thesis
      by (rule that(1)) (simp add: ws_message_eq Some False frame_trans[OF n frame_report[OF assms]])
  next
    case True
    have s: "frame cfg P g (update_conn i (\<lambda>_. stamped cfg now c) g)"
      using Some by (intro frame_update_conn) (auto simp: stamped_keeps[OF True])
    show ?thesis
    proof (cases "Option.bind raw parse_envelope_value_fast")
      case None
      show ?thesis
        by (rule that(1)) (simp add: ws_message_eq Some True None frame_trans[OF s frame_report[OF assms]])
    next
      case e: (Some e)
      show ?thesis
        by (rule that(2)[OF Some True e s])
           (auto simp: ws_message_eq Some True e Let_def intro!: frame_report assms split: prod.split sum.split)
    qed
  qed
qed

section \<open>Events and reachable gateways\<close>

text \<open>An event is one uninterrupted run of a handler. \<open>AuthResumed\<close> is the part of an
  authentication after its \<open>await\<close> coming in later, when other events have happened in between; a
  \<open>Message\<close> that authenticates runs both parts at once.\<close>

datatype ws_event = Opened int string | Message int string "json option" | AuthResumed int string "json envelope" auth_context
  | ClosedBy string | Heartbeat int | DeliverRequest int deliver_payload | HandleAckRequest int conn_ref string "string option"
  | BeginShutdown | ShutdownTimer | DrainTask string | DrainTimer string | Dispose

definition resume_auth :: "ws_config \<Rightarrow> ws_deps \<Rightarrow> int \<Rightarrow> string \<Rightarrow> json envelope \<Rightarrow> auth_context \<Rightarrow> gateway \<Rightarrow> gateway" where
  "resume_auth cfg d now i e a g = (case handle_auth_after cfg d now i e a g of
     (Inr _, g1) \<Rightarrow> g1
   | (Inl t, g1) \<Rightarrow> snd (report_and_close d now i (ThrownHardess (normalize_thrown t)) (ev_traceId e) (Some (ev_msgId e)) g1))"

fun ws_step :: "ws_config \<Rightarrow> ws_deps \<Rightarrow> ws_event \<Rightarrow> gateway \<Rightarrow> gateway" where
  "ws_step cfg d (Opened now i) g = snd (ws_open cfg d now i g)"
| "ws_step cfg d (Message now i raw) g = snd (ws_message cfg d now i raw g)"
| "ws_step cfg d (AuthResumed now i e a) g = resume_auth cfg d now i e a g"
| "ws_step cfg d (ClosedBy i) g = ws_close cfg i g"
| "ws_step cfg d (Heartbeat now) g = tick_heartbeat cfg d now g"
| "ws_step cfg d (DeliverRequest now p) g = snd (deliver_cluster cfg d now p g)"
| "ws_step cfg d (HandleAckRequest now r ackFor t) g = snd (forward_cluster_handle_ack cfg d now r ackFor t g)"
| "ws_step cfg d BeginShutdown g = begin_shutdown cfg g"
| "ws_step cfg d ShutdownTimer g = shutdown_timer_fires g"
| "ws_step cfg d (DrainTask i) g = run_drain cfg d i g"
| "ws_step cfg d (DrainTimer i) g = run_drain_timer i g"
| "ws_step cfg d Dispose g = ws_dispose g"

text \<open>Connection ids are fresh (\<open>crypto.randomUUID\<close>). With \<open>raced = False\<close> no authentication is
  interrupted. The collaborators may answer differently at every step.\<close>

fun event_ok :: "bool \<Rightarrow> gateway \<Rightarrow> ws_event \<Rightarrow> bool" where
  "event_ok raced g (Opened now i) = (map_of (gw_connections g) i = None \<and> get_by_conn_id (gw_locator g) i = None)"
| "event_ok raced g (AuthResumed now i e a) = raced"
| "event_ok raced g _ = True"

inductive ws_reachable :: "ws_config \<Rightarrow> bool \<Rightarrow> gateway \<Rightarrow> bool" for cfg raced where
  initial: "ws_reachable cfg raced (new_gateway new_locator)"
| step: "ws_reachable cfg raced g \<Longrightarrow> event_ok raced g ev \<Longrightarrow> ws_reachable cfg raced (ws_step cfg d ev g)"

section \<open>The invariant\<close>

definition at_most :: "nat \<Rightarrow> int option \<Rightarrow> bool" where
  "at_most n limit \<longleftrightarrow> (case limit of None \<Rightarrow> True | Some l \<Rightarrow> int n \<le> max 0 l)"

definition conns_ok :: "ws_config \<Rightarrow> gateway \<Rightarrow> bool" where
  "conns_ok cfg g \<longleftrightarrow> wf_map (gw_connections g)
     \<and> (\<forall>i c. map_of (gw_connections g) i = Some c \<longrightarrow> wc_connId c = i \<and> conn_ok cfg c \<and> stamps_ok cfg c)"

definition gw_ok :: "ws_config \<Rightarrow> gateway \<Rightarrow> bool" where
  "gw_ok cfg g \<longleftrightarrow> conns_ok cfg g \<and> pend_ok cfg g \<and> wf_map (gw_recent g) \<and> locator_ok (gw_locator g)
     \<and> at_most (length (gw_connections g)) (cf_maxConnections cfg)
     \<and> (\<forall>p. at_most (count_connections_for_peer (gw_locator g) p) (cf_maxConnectionsPerPeer cfg))
     \<and> (gw_disposed g \<longrightarrow> gw_connections g = [])"

lemma gw_ok_frame:
  assumes "gw_ok cfg g" "frame cfg P g g'"
  shows "gw_ok cfg g'"
proof -
  have k: "map_keys (gw_connections g') = map_keys (gw_connections g)" using assms(2) by (simp add: frame_def)
  have "conns_ok cfg g'"
    using assms unfolding conns_ok_def gw_ok_def frame_def wf_map_def
    by (metis (no_types, lifting) conn_keeps_def conn_like_def)
  moreover have "length (gw_connections g') = length (gw_connections g)" using k by (metis length_map)
  moreover have "gw_connections g = [] \<Longrightarrow> gw_connections g' = []" using k by simp
  ultimately show ?thesis using assms by (simp add: gw_ok_def frame_def)
qed

lemma conns_ok_update:
  "conns_ok cfg g \<Longrightarrow> (\<And>c. map_of (gw_connections g) i = Some c \<Longrightarrow> conn_ok cfg c \<Longrightarrow> stamps_ok cfg c \<Longrightarrow>
     wc_connId (f c) = wc_connId c \<and> conn_ok cfg (f c) \<and> stamps_ok cfg (f c)) \<Longrightarrow> conns_ok cfg (update_conn i f g)"
  by (auto simp: conns_ok_def update_conn_def split: option.split)

lemma update_conn_simps [simp]:
  "gw_locator (update_conn i f g) = gw_locator g" "gw_pending (update_conn i f g) = gw_pending g"
  "gw_recent (update_conn i f g) = gw_recent g" "gw_disposed (update_conn i f g) = gw_disposed g"
  "gw_shuttingDown (update_conn i f g) = gw_shuttingDown g"
  "length (gw_connections (update_conn i f g)) = length (gw_connections g)"
  "gw_connections (update_conn i f g) = [] \<longleftrightarrow> gw_connections g = []"
  "map_of (gw_connections (update_conn i f g)) = (map_of (gw_connections g))(i := map_option f (map_of (gw_connections g) i))"
  by (auto simp: update_conn_def length_map_set fun_eq_iff split: option.split)

lemma authenticate_ok:
  assumes "gw_ok cfg g" "within_peer_quota cfg i a g"
  shows "gw_ok cfg (authenticate cfg i a g)"
proof -
  let ?r = "authenticated_ref cfg i a"
  have l: "locator_ok (gw_locator g)" using assms(1) by (simp add: gw_ok_def)
  have "conns_ok cfg (authenticate cfg i a g)"
  proof -
    have "conns_ok cfg (update_conn i (\<lambda>c. c\<lparr>wc_auth := Some b\<rparr>) g)" for b
      using assms(1) by (intro conns_ok_update) (auto simp: gw_ok_def conn_ok_def accounted_def stamps_ok_def)
    then show ?thesis by (simp add: authenticate_def Let_def conns_ok_def)
  qed
  moreover have "at_most (count_connections_for_peer (loc_register ?r (gw_locator g)) p) (cf_maxConnectionsPerPeer cfg)" for p
  proof (cases "cf_maxConnectionsPerPeer cfg")
    case (Some limit)
    have "int (count_connections_for_peer (gw_locator g) p) \<le> max 0 limit"
      using assms(1) Some by (simp add: gw_ok_def at_most_def)
    then show ?thesis
      using mem.count_for_register_le[OF l, of ?r p] assms(2) Some
      by (auto simp: at_most_def within_peer_quota_def authenticated_ref_def split: if_split_asm)
  qed (simp add: at_most_def)
  ultimately show ?thesis
    using assms(1) mem.inv_register[OF l, of ?r]
    by (simp add: gw_ok_def authenticate_def Let_def pend_ok_def)
qed

lemma unregister_all_ok: "locator_ok loc \<Longrightarrow> locator_ok (unregister_all cs loc)"
  unfolding unregister_all_def by (rule foldl_preserves) (auto intro: loc_unregister_ok)

lemma unregister_all_count:
  "locator_ok loc \<Longrightarrow> count_connections_for_peer (unregister_all cs loc) p \<le> count_connections_for_peer loc p"
proof (induction cs arbitrary: loc)
  case (Cons x cs)
  obtain i c where x: "x = (i, c)" by fastforce
  show ?case using Cons.IH[OF mem.inv_unregister[OF Cons.prems]] mem.count_for_unregister_le[OF Cons.prems]
    by (simp add: unregister_all_def x) (meson order_trans)
qed (simp add: unregister_all_def)

lemma unregister_all_lookup:
  "locator_ok loc \<Longrightarrow> get_by_conn_id (unregister_all cs loc) i
     = (if i \<in> (wc_connId \<circ> snd) ` set cs then None else get_by_conn_id loc i)"
proof (induction cs arbitrary: loc)
  case (Cons x cs)
  obtain j c where x: "x = (j, c)" by fastforce
  show ?case using Cons.IH[OF mem.inv_unregister[OF Cons.prems], of "wc_connId c"]
    by (simp add: unregister_all_def x mem.lookup_unregister[OF Cons.prems])
qed (simp add: unregister_all_def)

lemma at_most_mono: "at_most n l \<Longrightarrow> m \<le> n \<Longrightarrow> at_most m l"
  by (auto simp: at_most_def split: option.splits)

lemma unregister_quota:
  assumes "gw_ok cfg g"
  shows "locator_ok (unregister_all cs (gw_locator g))"
    "at_most (count_connections_for_peer (unregister_all cs (gw_locator g)) p) (cf_maxConnectionsPerPeer cfg)"
  using assms unregister_all_count[of "gw_locator g" cs p]
  by (auto simp: gw_ok_def unregister_all_ok intro: at_most_mono)

lemma close_all_of: "map_of (close_all code reason cs) i = map_option (close_connection code reason) (map_of cs i)"
  by (induction cs) (auto simp: close_all_def)

lemma close_all_wf: "wf_map (close_all code reason cs) = wf_map cs" "length (close_all code reason cs) = length cs"
  "close_all code reason cs = [] \<longleftrightarrow> cs = []" "map_keys (close_all code reason cs) = map_keys cs"
  by (auto simp: close_all_def wf_map_def comp_def case_prod_unfold)

lemma frame_force_close: "frame cfg P g (force_close_draining_connections g)"
  by (auto simp: frame_def force_close_draining_connections_def close_all_of close_all_wf pend_ok_def)

lemma frame_auth_resumed:
  assumes "admits P"
  obtains "frame cfg P g (resume_auth cfg d now i e a g)"
  | "within_peer_quota cfg i a g" "frame cfg P (authenticate cfg i a g) (resume_auth cfg d now i e a g)"
proof -
  have "frame cfg P (snd (handle_auth_after cfg d now i e a g)) (resume_auth cfg d now i e a g)"
    by (auto simp: resume_auth_def intro!: frame_report assms split: prod.split sum.split)
  then show ?thesis
    by (rule_tac auth_after_cases[OF assms, of cfg d now i e a g]) (auto intro: that frame_trans)
qed

text \<open>A message is a frame step, or it authenticates: a frame step before, the registration, and a
  frame step after.\<close>

definition own_business :: "gateway \<Rightarrow> string \<Rightarrow> out_msg \<Rightarrow> bool" where
  "own_business g i m \<longleftrightarrow> (\<exists>c a. map_of (gw_connections g) i = Some c \<and> wc_auth c = Some a
     \<and> ev_src m = \<lparr>src_peerId = au_peerId a, src_connId = wc_connId c\<rparr>)"

lemma message_cases:
  assumes P: "admits P" and own: "\<And>m. own_business g i m \<Longrightarrow> P m"
  obtains "frame cfg P g (snd (ws_message cfg d now i raw g))"
  | h c a where "map_of (gw_connections g) i = Some c" "frame cfg P g h" "\<not> gw_shuttingDown g"
      "within_peer_quota cfg (wc_connId c) a h"
      "frame cfg P (authenticate cfg (wc_connId c) a h) (snd (ws_message cfg d now i raw g))"
proof (rule message_steps[OF P, of cfg g d now i raw])
  fix c e
  let ?c = "stamped cfg now c"
  let ?g = "update_conn i (\<lambda>_. ?c) g"
  assume c: "map_of (gw_connections g) i = Some c" and f: "frame cfg P g ?g"
    and r: "frame cfg P (snd (handle_envelope cfg d now ?c e ?g)) (snd (ws_message cfg d now i raw g))"
  show thesis
  proof (cases "ev_kind e = System \<and> ev_action e = ''auth''")
    case True
    then have h: "handle_envelope cfg d now ?c e ?g = handle_auth cfg d now (wc_connId c) e ?g"
      by (simp add: handle_envelope_def handle_system_message_def)
    show ?thesis
    proof (rule auth_cases[OF P, of cfg d now "wc_connId c" e ?g])
      assume "snd (handle_auth cfg d now (wc_connId c) e ?g) = ?g"
      then show ?thesis using that(1) frame_trans[OF f] r h by simp
    next
      fix a
      assume "\<not> gw_shuttingDown ?g" "within_peer_quota cfg (wc_connId c) a ?g"
        "frame cfg P (authenticate cfg (wc_connId c) a ?g) (snd (handle_auth cfg d now (wc_connId c) e ?g))"
      then show ?thesis using that(2)[OF c f] frame_trans r h by simp
    qed
  next
    case False
    have "P (business_msg e' \<lparr>src_peerId = au_peerId a, src_connId = wc_connId ?c\<rparr>)"
      if "wc_auth ?c = Some a" for e' a
      by (rule own) (use c that in \<open>auto simp: own_business_def business_msg_def\<close>)
    then have b: "frame cfg P ?g (snd (handle_business_message cfg d now ?c e ?g))"
      by (intro frame_business[OF P])
    have "frame cfg P ?g (snd (handle_envelope cfg d now ?c e ?g))"
      using False frame_system[OF _ P] b by (simp add: handle_envelope_def)
    then show ?thesis using that(1) frame_trans[OF f] frame_trans r by blast
  qed
qed (rule that(1))

lemma gw_ok_open: "gw_ok cfg g \<Longrightarrow> map_of (gw_connections g) i = None \<Longrightarrow> gw_ok cfg (snd (ws_open cfg d now i g))"
proof -
  assume g: "gw_ok cfg g" and i: "map_of (gw_connections g) i = None"
  have r: "gw_ok cfg (refuse i evs (g\<lparr>gw_fresh := n\<rparr>))" "gw_ok cfg (refuse i evs g)"
    "gw_ok cfg (refuse i evs2 (refuse i evs (g\<lparr>gw_fresh := n\<rparr>)))" for evs evs2 n
    using g by (simp_all add: gw_ok_def conns_ok_def pend_ok_def refuse_def)
  let ?full = "case cf_maxConnections cfg of None \<Rightarrow> False | Some limit \<Rightarrow> int (length (gw_connections g)) \<ge> limit"
  have "gw_ok cfg (g\<lparr>gw_connections := map_set i (new_ws_conn i now) (gw_connections g)\<rparr>)"
    if "\<not> gw_disposed g" "\<not> ?full"
    using g that i new_conn_ok[of cfg i now]
    by (auto simp: gw_ok_def conns_ok_def pend_ok_def at_most_def length_map_set stamps_ok_def new_ws_conn_def
        split: option.splits)
  then show ?thesis using r by (auto simp: ws_open_def Let_def split: send_result.split)
qed

lemma gw_ok_close: "gw_ok cfg g \<Longrightarrow> gw_ok cfg (ws_close cfg i g)"
proof -
  assume g: "gw_ok cfg g"
  then have l: "locator_ok (gw_locator g)" by (simp add: gw_ok_def)
  have "at_most (count_connections_for_peer (loc_unregister i (gw_locator g)) p) (cf_maxConnectionsPerPeer cfg)" for p
    using g mem.count_for_unregister_le[OF l, of i p] by (auto simp: gw_ok_def intro: at_most_mono)
  moreover have "at_most (length (map_del i (gw_connections g))) (cf_maxConnections cfg)"
    using g length_map_del_le[of i "gw_connections g"] by (auto simp: gw_ok_def intro: at_most_mono)
  moreover have "int (length (filter Q (gw_pending g))) \<le> max 1 (cf_pendingHandleAckMaxEntries cfg)" for Q
    using g length_filter_le[of Q "gw_pending g"] by (simp add: gw_ok_def pend_ok_def del: length_filter_le)
  ultimately show ?thesis using g mem.inv_unregister[OF l, of i]
    by (auto simp: ws_close_def gw_ok_def conns_ok_def pend_ok_def split: if_split_asm)
qed

lemma gw_ok_force_close: "gw_ok cfg g \<Longrightarrow> gw_ok cfg (force_close_draining_connections g)"
  by (rule gw_ok_frame[OF _ frame_force_close[where P = "\<lambda>_. True"]])

lemma gw_ok_shutdown:
  assumes "gw_ok cfg g"
  shows "gw_ok cfg (begin_shutdown cfg g)" "gw_ok cfg (shutdown_timer_fires g)" "gw_ok cfg (ws_dispose g)"
proof -
  let ?g1 = "g\<lparr>gw_shuttingDown := True, gw_locator := unregister_all (gw_connections g) (gw_locator g)\<rparr>"
  have 1: "gw_ok cfg ?g1" using assms unregister_quota[OF assms] by (simp add: gw_ok_def conns_ok_def pend_ok_def)
  moreover have "gw_ok cfg (?g1\<lparr>gw_shutdownTimer := True\<rparr>)" using 1 by (simp add: gw_ok_def conns_ok_def pend_ok_def)
  ultimately show "gw_ok cfg (begin_shutdown cfg g)"
    using assms gw_ok_force_close[OF 1] by (simp add: begin_shutdown_def Let_def)
  have "gw_ok cfg (g\<lparr>gw_shutdownTimer := False\<rparr>)" using assms by (simp add: gw_ok_def conns_ok_def pend_ok_def)
  then show "gw_ok cfg (shutdown_timer_fires g)" using assms gw_ok_force_close by (simp add: shutdown_timer_fires_def)
  have "gw_ok cfg (ws_dispose g)" if "\<not> gw_disposed g"
    using assms unregister_quota[OF assms] that
    by (auto simp: ws_dispose_def gw_ok_def conns_ok_def pend_ok_def at_most_def split: option.split)
  then show "gw_ok cfg (ws_dispose g)" using assms by (cases "gw_disposed g") (auto simp: ws_dispose_def)
qed

lemma gw_ok_message: "gw_ok cfg g \<Longrightarrow> gw_ok cfg (snd (ws_message cfg d now i raw g))"
  by (rule message_cases[of "\<lambda>_. True" g i cfg d now raw]) (auto intro: gw_ok_frame authenticate_ok)

lemma gw_ok_resume: "gw_ok cfg g \<Longrightarrow> gw_ok cfg (resume_auth cfg d now i e a g)"
  by (rule frame_auth_resumed[of "\<lambda>_. True" cfg g d now i e a]) (auto intro: gw_ok_frame authenticate_ok)

lemma frame_True: "frame cfg (\<lambda>_. True) g g' \<Longrightarrow> gw_ok cfg g \<Longrightarrow> gw_ok cfg g'"
  by (rule gw_ok_frame)

lemma gw_ok_step: "gw_ok cfg g \<Longrightarrow> event_ok raced g ev \<Longrightarrow> gw_ok cfg (ws_step cfg d ev g)"
  by (cases ev)
     (auto simp: gw_ok_open gw_ok_message gw_ok_resume gw_ok_close gw_ok_shutdown
       elim: frame_True[OF frame_tick_heartbeat, rotated] frame_True[OF frame_deliver_cluster, rotated]
         frame_True[OF frame_forward, rotated] frame_True[OF frame_run_drain(1)] frame_True[OF frame_run_drain(2)])

lemma gw_ok_initial: "gw_ok cfg (new_gateway new_locator)"
  using new_locator_ok
  by (auto simp: gw_ok_def conns_ok_def pend_ok_def new_gateway_def at_most_def
      count_connections_for_peer_def new_locator_def split: option.split)

lemma reachable_gw_ok: "ws_reachable cfg raced g \<Longrightarrow> gw_ok cfg g"
  by (induction rule: ws_reachable.induct) (auto intro: gw_ok_initial gw_ok_step)

section \<open>The locator and the connections\<close>

text \<open>The locator lists exactly the authenticated connections, with the identity they authenticated
  with and the group of the host; once the node shuts down it lists none.\<close>

definition locator_agrees :: "ws_config \<Rightarrow> gateway \<Rightarrow> bool" where
  "locator_agrees cfg g \<longleftrightarrow> (\<forall>i. get_by_conn_id (gw_locator g) i =
     (if gw_shuttingDown g \<or> gw_disposed g then None
      else (case map_of (gw_connections g) i of
          None \<Rightarrow> None | Some c \<Rightarrow> map_option (authenticated_ref cfg i) (wc_auth c))))"

lemma frame_auth_same: "frame cfg P g g' \<Longrightarrow>
  map_option wc_auth (map_of (gw_connections g') i) = map_option wc_auth (map_of (gw_connections g) i)"
proof -
  assume f: "frame cfg P g g'"
  have "map_of (gw_connections g') i = None \<longleftrightarrow> map_of (gw_connections g) i = None"
    using f unfolding frame_def by (metis dom_map_of_conv_image_fst domIff set_map)
  moreover have "\<exists>c. map_of (gw_connections g) i = Some c \<and> wc_auth c = wc_auth c'"
    if "map_of (gw_connections g') i = Some c'" for c'
    using f that unfolding frame_def conn_keeps_def conn_like_def by metis
  ultimately show ?thesis by (cases "map_of (gw_connections g') i") auto
qed

lemma agrees_via:
  "locator_agrees cfg g \<longleftrightarrow> (\<forall>i. get_by_conn_id (gw_locator g) i =
     (if gw_shuttingDown g \<or> gw_disposed g then None
      else (case map_option wc_auth (map_of (gw_connections g) i) of
          None \<Rightarrow> None | Some au \<Rightarrow> map_option (authenticated_ref cfg i) au)))"
  by (simp add: locator_agrees_def option.case_eq_if option.map_sel)

lemma agrees_frame: "locator_agrees cfg g \<Longrightarrow> frame cfg P g g' \<Longrightarrow> locator_agrees cfg g'"
  unfolding agrees_via by (simp add: frame_auth_same) (simp add: frame_def)

lemma authenticated_ref_group [simp]: "authenticated_ref cfg i (a\<lparr>au_groupId := x\<rparr>) = authenticated_ref cfg i a"
  "cr_connId (authenticated_ref cfg i a) = i" "cr_peerId (authenticated_ref cfg i a) = au_peerId a"
  by (simp_all add: authenticated_ref_def)

lemma agrees_authenticate:
  assumes "gw_ok cfg g" "locator_agrees cfg g" "\<not> gw_shuttingDown g" "map_of (gw_connections g) i = Some c"
  shows "locator_agrees cfg (authenticate cfg i a g)"
proof -
  have l: "locator_ok (gw_locator g)" and d: "\<not> gw_disposed g" using assms by (auto simp: gw_ok_def)
  show ?thesis using assms(2-4) d
    by (auto simp: locator_agrees_def authenticate_def Let_def mem.lookup_register[OF l])
qed

lemma agrees_message:
  assumes "gw_ok cfg g" "locator_agrees cfg g"
  shows "locator_agrees cfg (snd (ws_message cfg d now i raw g))"
proof (rule message_cases[of "\<lambda>_. True" g i cfg d now raw])
  fix h c a
  assume c: "map_of (gw_connections g) i = Some c" and f: "frame cfg (\<lambda>_. True) g h" and n: "\<not> gw_shuttingDown g"
    and r: "frame cfg (\<lambda>_. True) (authenticate cfg (wc_connId c) a h) (snd (ws_message cfg d now i raw g))"
  have "wc_connId c = i" using assms(1) c by (simp add: gw_ok_def conns_ok_def)
  moreover obtain c' where "map_of (gw_connections h) i = Some c'" using frame_auth_same[OF f, of i] c by auto
  moreover have "\<not> gw_shuttingDown h" using f n by (simp add: frame_def)
  ultimately have "locator_agrees cfg (authenticate cfg (wc_connId c) a h)"
    using agrees_authenticate[OF gw_ok_frame[OF assms(1) f] agrees_frame[OF assms(2) f]] by simp
  then show ?thesis by (rule agrees_frame[OF _ r])
qed (auto intro: agrees_frame[OF assms(2)])

lemma agrees_open: "gw_ok cfg g \<Longrightarrow> locator_agrees cfg g \<Longrightarrow> event_ok raced g (Opened now i) \<Longrightarrow>
    locator_agrees cfg (snd (ws_open cfg d now i g))"
  by (auto simp: ws_open_def Let_def locator_agrees_def refuse_def new_ws_conn_def split: send_result.split option.split)

lemma agrees_close: "gw_ok cfg g \<Longrightarrow> locator_agrees cfg g \<Longrightarrow> locator_agrees cfg (ws_close cfg i g)"
  using mem.lookup_unregister[of "gw_locator g" i]
  by (auto simp: gw_ok_def locator_agrees_def ws_close_def)

lemma unregister_everything:
  assumes "gw_ok cfg g" "locator_agrees cfg g"
  shows "get_by_conn_id (unregister_all (gw_connections g) (gw_locator g)) i = None"
proof (cases "get_by_conn_id (gw_locator g) i")
  case (Some r)
  then obtain c where c: "map_of (gw_connections g) i = Some c"
    using assms(2) by (auto simp: locator_agrees_def split: if_split_asm option.split_asm)
  then have "wc_connId c = i" using assms(1) by (simp add: gw_ok_def conns_ok_def)
  moreover have "(i, c) \<in> set (gw_connections g)" using c by (rule map_of_SomeD)
  ultimately show ?thesis using assms(1) by (force simp: unregister_all_lookup gw_ok_def image_iff)
qed (use assms(1) in \<open>simp add: unregister_all_lookup gw_ok_def\<close>)

lemma agrees_shutdown:
  assumes "gw_ok cfg g" "locator_agrees cfg g"
  shows "locator_agrees cfg (begin_shutdown cfg g)" "locator_agrees cfg (shutdown_timer_fires g)"
    "locator_agrees cfg (ws_dispose g)"
proof -
  note none = unregister_everything[OF assms]
  have "gw_locator (force_close_draining_connections h) = gw_locator h"
    "gw_shuttingDown (force_close_draining_connections h) = gw_shuttingDown h" for h
    by (simp_all add: force_close_draining_connections_def)
  then show "locator_agrees cfg (begin_shutdown cfg g)" using assms(2) none
    by (auto simp: begin_shutdown_def Let_def locator_agrees_def)
  have "locator_agrees cfg (g\<lparr>gw_shutdownTimer := False\<rparr>)" using assms(2) by (simp add: locator_agrees_def)
  then show "locator_agrees cfg (shutdown_timer_fires g)"
    using assms(2) agrees_frame[OF _ frame_force_close[where P = "\<lambda>_. True"]] by (simp add: shutdown_timer_fires_def)
  show "locator_agrees cfg (ws_dispose g)" using assms(2) none by (auto simp: ws_dispose_def locator_agrees_def)
qed

lemma agrees_step:
  assumes "gw_ok cfg g" "locator_agrees cfg g" "event_ok False g ev"
  shows "locator_agrees cfg (ws_step cfg d ev g)"
proof (cases ev)
  case (Opened now i)
  then show ?thesis using agrees_open[OF assms(1,2)] assms(3) by simp
qed (use assms in \<open>auto simp: agrees_message agrees_close agrees_shutdown
    intro: agrees_frame[OF assms(2) frame_tick_heartbeat[of "\<lambda>_. True"]]
      agrees_frame[OF assms(2) frame_deliver_cluster[of "\<lambda>_. True"]]
      agrees_frame[OF assms(2) frame_forward[of "\<lambda>_. True"]]
      agrees_frame[OF assms(2) frame_run_drain(1)[of _ "\<lambda>_. True"]]
      agrees_frame[OF assms(2) frame_run_drain(2)[of _ "\<lambda>_. True"]]\<close>)

text \<open>C1: Whatever events come in, in any order, with any collaborators and also when authentications are
  interrupted: ids and connections match, every connection is within its queue limits and its
  rate limit, the acknowledgement table and the number of connections stay within their
  configured bounds, and so does the number of registered connections of each peer.\<close>

theorem ws_reachable_invariant:
  "ws_reachable cfg raced g \<Longrightarrow> gw_ok cfg g"
  by (rule reachable_gw_ok)

text \<open>C14: While no authentication is interrupted by other events, the locator of the node lists exactly
  the connections that are authenticated, with the peer they authenticated as, and nothing at all
  once the ingress is shutting down.\<close>

theorem ws_locator_agrees:
  "ws_reachable cfg False g \<Longrightarrow> locator_agrees cfg g"
proof (induction rule: ws_reachable.induct)
  case initial
  show ?case by (simp add: locator_agrees_def new_gateway_def new_locator_def get_by_conn_id_def)
next
  case (step g ev d)
  show ?case by (rule agrees_step[OF reachable_gw_ok[OF step(1)] step(3,2)])
qed

section \<open>Who a business message comes from\<close>

lemma frame_msgs: "frame cfg P g g' \<Longrightarrow> map_of (gw_connections g') j = Some c' \<Longrightarrow> m \<in> msgs c' \<Longrightarrow>
   (\<exists>c. map_of (gw_connections g) j = Some c \<and> m \<in> msgs c) \<or> P m"
  unfolding frame_def conn_keeps_def conn_like_def by metis

lemma authenticate_msgs:
  "map_of (gw_connections (authenticate cfg i a g)) j = Some c' \<Longrightarrow> m \<in> msgs c' \<Longrightarrow>
   \<exists>c. map_of (gw_connections g) j = Some c \<and> m \<in> msgs c"
  by (force simp: authenticate_def Let_def msgs_def split: if_split_asm)

text \<open>C2: A client cannot send in another's name. Whatever text arrives on connection \<open>i\<close>, every business
  message it puts on any connection, queued or written, names as its source the peer that
  connection \<open>i\<close> had authenticated as, and connection \<open>i\<close> itself.\<close>

theorem ws_no_spoofing:
  assumes "map_of (gw_connections (snd (ws_message cfg d now i raw g))) j = Some c'"
    and "m \<in> msgs c'" "ev_payload m = PBiz x"
  shows "(\<exists>c. map_of (gw_connections g) j = Some c \<and> m \<in> msgs c)
    \<or> (\<exists>c a. map_of (gw_connections g) i = Some c \<and> wc_auth c = Some a
          \<and> ev_src m = \<lparr>src_peerId = au_peerId a, src_connId = wc_connId c\<rparr>)"
proof -
  let ?P = "\<lambda>m. own_message m \<or> own_business g i m"
  have "admits ?P" by (simp add: admits_def)
  then have "(\<exists>c. map_of (gw_connections g) j = Some c \<and> m \<in> msgs c) \<or> ?P m"
  proof (rule message_cases[of ?P g i cfg d now raw])
    assume "frame cfg ?P g (snd (ws_message cfg d now i raw g))"
    from frame_msgs[OF this assms(1,2)] show ?thesis .
  next
    fix h c a
    assume h: "frame cfg ?P g h"
      and f: "frame cfg ?P (authenticate cfg (wc_connId c) a h) (snd (ws_message cfg d now i raw g))"
    from frame_msgs[OF f assms(1,2)] show ?thesis
      using frame_msgs[OF h] by (auto dest!: authenticate_msgs)
  qed simp
  then show ?thesis using assms(3) by (auto simp: own_message_def own_business_def)
qed

section \<open>The rate limit\<close>

text \<open>The messages of one connection arriving at the given times: the times of those that are
  handled. The connection is stamped as \<open>ws_message\<close> does.\<close>

fun rate_run :: "ws_config \<Rightarrow> ws_conn \<Rightarrow> int list \<Rightarrow> int list" where
  "rate_run cfg c [] = []"
| "rate_run cfg c (t # ts) =
     (if admitted cfg t c then t # rate_run cfg (stamped cfg t c) ts else rate_run cfg (note_message cfg t c) ts)"

definition window_ok :: "ws_config \<Rightarrow> int list \<Rightarrow> bool" where
  "window_ok cfg ts \<longleftrightarrow> (\<forall>a. int (length (filter (\<lambda>s. a \<le> s \<and> s < a + cf_rateLimitWindowMs cfg) ts))
     \<le> max 0 (cf_rateLimitMaxMessages cfg))"

lemma window_ok_snoc:
  assumes "window_ok cfg acc" "int (length (filter (\<lambda>s. t - s < cf_rateLimitWindowMs cfg) acc)) < cf_rateLimitMaxMessages cfg"
  shows "window_ok cfg (acc @ [t])"
  unfolding window_ok_def
proof (intro allI)
  fix a
  let ?in = "\<lambda>s. a \<le> s \<and> s < a + cf_rateLimitWindowMs cfg"
  have "length (filter ?in acc) \<le> length (filter (\<lambda>s. t - s < cf_rateLimitWindowMs cfg) acc)" if "?in t"
    using that by (induction acc) auto
  then show "int (length (filter ?in (acc @ [t]))) \<le> max 0 (cf_rateLimitMaxMessages cfg)"
    using assms by (cases "?in t") (auto simp: window_ok_def)
qed

lemma rate_run_window:
  assumes "sorted ts" "window_ok cfg acc"
    and "\<And>t. t \<in> set ts \<Longrightarrow> filter (\<lambda>s. t - s < cf_rateLimitWindowMs cfg) (wc_messageTimestamps c)
            = filter (\<lambda>s. t - s < cf_rateLimitWindowMs cfg) acc"
  shows "window_ok cfg (acc @ rate_run cfg c ts)"
  using assms
proof (induction ts arbitrary: c acc)
  case (Cons t ts)
  let ?W = "cf_rateLimitWindowMs cfg"
  have later: "filter (\<lambda>s. t - s < ?W \<and> u - s < ?W) xs = filter (\<lambda>s. u - s < ?W) xs" if "u \<in> set ts" for u xs
    using that Cons.prems(1) by (induction xs) auto
  have stamps: "wc_messageTimestamps (note_message cfg t c) = filter (\<lambda>s. t - s < ?W) acc"
    using Cons.prems(3)[of t] by (simp add: note_message_def)
  show ?case
  proof (cases "admitted cfg t c")
    case True
    have "window_ok cfg (acc @ [t])"
      by (rule window_ok_snoc[OF Cons.prems(2)]) (use True in \<open>simp add: admitted_def stamps\<close>)
    then have "window_ok cfg ((acc @ [t]) @ rate_run cfg (stamped cfg t c) ts)"
      using Cons.prems(1) by (intro Cons.IH) (auto simp: stamped_def stamps later)
    then show ?thesis using True by simp
  next
    case False
    then show ?thesis using Cons.prems(1,2) Cons.IH[of acc "note_message cfg t c"] by (simp add: stamps later)
  qed
qed simp

text \<open>The rate limit is a sliding window: of the messages of one connection, at most
  \<open>rateLimit.maxMessages\<close> are handled in any interval of \<open>rateLimit.windowMs\<close>, wherever it starts.\<close>

theorem ws_rate_limit_window:
  assumes "sorted ts"
  shows "int (length (filter (\<lambda>t. a \<le> t \<and> t < a + cf_rateLimitWindowMs cfg)
      (rate_run cfg (new_ws_conn i now) ts))) \<le> max 0 (cf_rateLimitMaxMessages cfg)"
proof -
  have "window_ok cfg ([] @ rate_run cfg (new_ws_conn i now) ts)"
    by (rule rate_run_window[OF assms]) (simp_all add: window_ok_def new_ws_conn_def)
  then show ?thesis by (simp add: window_ok_def)
qed

theorem ws_rate_limit_window_witness:
  "sorted [0, 0, 400 :: int] \<and>
   int (length (filter (\<lambda>t. 0 \<le> t \<and> t < 0 + cf_rateLimitWindowMs (example_config\<lparr>cf_rateLimitMaxMessages := 2\<rparr>))
      (rate_run (example_config\<lparr>cf_rateLimitMaxMessages := 2\<rparr>) (new_ws_conn ''c'' 0) [0, 0, 400])))
     \<le> max 0 (cf_rateLimitMaxMessages (example_config\<lparr>cf_rateLimitMaxMessages := 2\<rparr>))
   \<and> rate_run (example_config\<lparr>cf_rateLimitMaxMessages := 2\<rparr>) (new_ws_conn ''c'' 0) [0, 0, 400] = [0, 0]"
proof -
  have v: "rate_run (example_config\<lparr>cf_rateLimitMaxMessages := 2\<rparr>) (new_ws_conn ''c'' 0) [0, 0, 400] = [0, 0]"
    by code_simp
  have o: "sorted [0, 0, 400 :: int]" by simp
  show ?thesis
    using v o ws_rate_limit_window[OF o, of 0 "example_config\<lparr>cf_rateLimitMaxMessages := 2\<rparr>" "''c''" 0] by blast
qed

section \<open>An example gateway\<close>

text \<open>A node on which alice and bob authenticate over two connections; every business message goes
  to bob.\<close>

definition example_deps :: ws_deps where
  "example_deps = \<lparr>wd_env = (\<lambda>_. \<lparr>se_send = (\<lambda>_. Returned (Some 1)), se_buffered = (\<lambda>_. 0)\<rparr>),
     wd_uuid = (\<lambda>n. ''u'' @ nat_str n),
     wd_validateSystemAuth = (\<lambda>p. Inr \<lparr>au_peerId = sa_provider p, au_tokenId = ''t'', au_capabilities = [],
        au_expiresAt = 100, au_revokedAt = None, au_groupId = None\<rparr>),
     wd_isAuthContextValid = (\<lambda>_. True),
     wd_buildPlan = (\<lambda>loc _ ps opts. build_plan (loc_find_many loc) ps opts),
     wd_hasCluster = False, wd_clusterDeliver = (\<lambda>_ _ _. Inr []), wd_forwardHandleAck = (\<lambda>_ _ _. None),
     wd_requiredPackages = [], wd_activePackages = [],
     wd_registryGet = (\<lambda>_ _ _. Inr \<lparr>hk_validate = None, hk_authorize = None, hk_handleLocally = None,
        hk_resolveRecipients = Some (\<lambda>_. Inr [''bob'']), hk_buildDispatch = None\<rparr>),
     wd_sysAuthSchema = (\<lambda>j. case js_prop j ''provider'' of
        Some (JStr s) \<Rightarrow> Inr \<lparr>sa_provider = s, sa_payload = JNull, sa_groupId = None\<rparr> | _ \<Rightarrow> Inl ''no provider''),
     wd_sysPingSchema = (\<lambda>_. Inr None), wd_sysPongSchema = (\<lambda>_. Inr None),
     wd_sysHandleAckSchema = (\<lambda>j. case js_prop j ''ackFor'' of Some (JStr s) \<Rightarrow> Inr s | _ \<Rightarrow> Inl ''no ackFor'')\<rparr>"

definition example_envelope :: "envelope_kind \<Rightarrow> string \<Rightarrow> json \<Rightarrow> json" where
  "example_envelope k action payload = serialize_envelope_value \<lparr>ev_msgId = ''m'', ev_kind = k,
     ev_src = \<lparr>src_peerId = ''mallory'', src_connId = ''x''\<rparr>, ev_protocol = ''chat'', ev_version = ''1.0'',
     ev_action = action, ev_streamId = None, ev_seq = None, ev_ts = 1, ev_traceId = None, ev_payload = payload\<rparr>"

definition example_auth :: "string \<Rightarrow> json" where
  "example_auth p = example_envelope System ''auth'' (JObj [(''provider'', JStr p)])"

definition example_events :: "ws_event list" where
  "example_events = [Opened 0 ''a'', Opened 0 ''b'', Message 1 ''a'' (Some (example_auth ''alice'')),
     Message 2 ''b'' (Some (example_auth ''bob''))]"

fun run_events :: "bool \<Rightarrow> ws_config \<Rightarrow> ws_deps \<Rightarrow> ws_event list \<Rightarrow> gateway \<Rightarrow> gateway option" where
  "run_events raced cfg d [] g = Some g"
| "run_events raced cfg d (ev # evs) g =
     (if event_ok raced g ev then run_events raced cfg d evs (ws_step cfg d ev g) else None)"

lemma run_reachable: "run_events raced cfg d evs g = Some g' \<Longrightarrow> ws_reachable cfg raced g \<Longrightarrow> ws_reachable cfg raced g'"
  by (induction evs arbitrary: g) (auto split: if_split_asm intro: ws_reachable.step)

definition example_gateway :: gateway where
  "example_gateway = the (run_events False example_config example_deps example_events (new_gateway new_locator))"

lemma example_reachable: "ws_reachable example_config False example_gateway"
proof -
  have "run_events False example_config example_deps example_events (new_gateway new_locator) \<noteq> None" by code_simp
  then obtain g where "run_events False example_config example_deps example_events (new_gateway new_locator) = Some g"
    by blast
  then show ?thesis using run_reachable[OF _ ws_reachable.initial] by (simp add: example_gateway_def)
qed

theorem ws_reachable_invariant_witness:
  "gw_ok example_config example_gateway \<and> map_keys (gw_connections example_gateway) = [''a'', ''b'']"
proof -
  have "map_keys (gw_connections example_gateway) = [''a'', ''b'']" by code_simp
  then show ?thesis using ws_reachable_invariant[OF example_reachable] by blast
qed

theorem ws_locator_agrees_witness:
  "locator_agrees example_config example_gateway
   \<and> map_option cr_peerId (get_by_conn_id (gw_locator example_gateway) ''b'') = Some ''bob''"
proof -
  have "map_option cr_peerId (get_by_conn_id (gw_locator example_gateway) ''b'') = Some ''bob''" by code_simp
  then show ?thesis using ws_locator_agrees[OF example_reachable] by blast
qed

definition example_sent :: gateway where
  "example_sent = snd (ws_message example_config example_deps 3 ''a'' (Some (example_envelope Biz ''send'' JNull)) example_gateway)"

definition example_received :: "ws_conn \<Rightarrow> out_msg list" where
  "example_received c = filter (\<lambda>m. case ev_payload m of PBiz _ \<Rightarrow> True | _ \<Rightarrow> False) (ws_sent c)"

lemma example_received_msgs: "m \<in> set (example_received c) \<Longrightarrow> m \<in> msgs c"
proof -
  have "m \<in> set (sent_of ev) \<Longrightarrow> \<exists>r. ev = SocketSend m r" for ev
    by (cases ev) (auto split: if_split_asm)
  then show "m \<in> set (example_received c) \<Longrightarrow> ?thesis"
    by (fastforce simp: example_received_def ws_sent_def msgs_def)
qed

theorem ws_no_spoofing_witness:
  "\<exists>c' m. map_of (gw_connections example_sent) ''b'' = Some c' \<and> m \<in> msgs c' \<and> ev_payload m = PBiz JNull
    \<and> ((\<exists>c. map_of (gw_connections example_gateway) ''b'' = Some c \<and> m \<in> msgs c)
      \<or> (\<exists>c a. map_of (gw_connections example_gateway) ''a'' = Some c \<and> wc_auth c = Some a
            \<and> ev_src m = \<lparr>src_peerId = au_peerId a, src_connId = wc_connId c\<rparr>))"
proof -
  have v: "case map_of (gw_connections example_sent) ''b'' of None \<Rightarrow> False
     | Some c \<Rightarrow> (case example_received c of [] \<Rightarrow> False | m # _ \<Rightarrow> ev_payload m = PBiz JNull)" by code_simp
  then obtain c' where c: "map_of (gw_connections example_sent) ''b'' = Some c'"
    and r: "case example_received c' of [] \<Rightarrow> False | m # _ \<Rightarrow> ev_payload m = PBiz JNull"
    by (cases "map_of (gw_connections example_sent) ''b''") simp_all
  have "\<exists>m\<in>set (example_received c'). ev_payload m = PBiz JNull" using r by (cases "example_received c'") auto
  then obtain m where m: "m \<in> set (example_received c')" "ev_payload m = PBiz JNull" by blast
  note m' = example_received_msgs[OF m(1)]
  show ?thesis using ws_no_spoofing[OF c[unfolded example_sent_def] m' m(2)] c m' m(2) by blast
qed

end
