(* ===== verification/Ws_Ingress_Requests.thy ===== *)
theory Ws_Ingress_Requests
  imports Ws_Ingress_Props
begin

text \<open>The single requests of the ingress (src/src/runtime/ingress/websocket.ts): what a delivery
  request of another node, a handle acknowledgement, a message without authentication, a shutdown
  and an interrupted authentication do, in full.\<close>

section \<open>Requests of other nodes\<close>

lemma deliver_cluster_fresh:
  assumes "\<not> gw_disposed g" "\<not> gw_shuttingDown g" "map_of (gw_recent g) (ev_msgId (dl_envelope p)) = None"
  shows "deliver_cluster cfg d now p g =
    (let g1 = prune_recent_cluster_deliveries now (prune_pending_handle_acks now g)
     in and_then (deliver_targets cfg d now p (dl_targets p) [] g1)
         (\<lambda>delivered g2. (Inr delivered, if delivered \<noteq> []
             then g2\<lparr>gw_recent := map_set (ev_msgId (dl_envelope p)) (now + cf_recentClusterDeliveryTtlMs cfg) (gw_recent g2)\<rparr>
             else g2)))"
proof -
  have "map_of (filter Q (gw_recent g)) (ev_msgId (dl_envelope p)) = None" for Q
    using assms(3) by (auto simp: map_of_eq_None_iff)
  then show ?thesis using assms
    by (simp add: deliver_cluster_def Let_def prune_recent_cluster_deliveries_def prune_pending_handle_acks_def)
qed

text \<open>Delivering is idempotent for as long as the message id is remembered: when a request of another
  node delivered something, a second request with the same message id within the retention
  time answers with its own targets of this node and changes nothing but the two bounded tables,
  from which expired entries go.\<close>

theorem cluster_delivery_deduplicated:
  assumes g: "wf_map (gw_recent g)" "\<not> gw_disposed g" "\<not> gw_shuttingDown g"
    and new: "map_of (gw_recent g) (ev_msgId (dl_envelope p)) = None"
    and first: "deliver_cluster cfg d now p g = (Inr ts, g1)" "ts \<noteq> []"
    and later: "0 \<le> later" "later < now + cf_recentClusterDeliveryTtlMs cfg"
    and same: "ev_msgId (dl_envelope p') = ev_msgId (dl_envelope p)"
  shows "deliver_cluster cfg d' later p' g1 =
    (Inr (filter (\<lambda>t. cr_nodeId t = cf_nodeId cfg) (dl_targets p')),
     prune_recent_cluster_deliveries later (prune_pending_handle_acks later g1))"
proof -
  let ?k = "ev_msgId (dl_envelope p)" and ?v = "now + cf_recentClusterDeliveryTtlMs cfg"
  have f: "frame cfg (\<lambda>_. True) g g1" using frame_deliver_cluster[of "\<lambda>_. True" p cfg g d now] first(1) by simp
  have "\<exists>r. gw_recent g1 = map_set ?k ?v r"
    using first deliver_cluster_fresh[OF g(2,3) new, of cfg d now]
    by (auto simp: Let_def and_then_def split: sum.split_asm prod.split_asm if_split_asm)
  then have "map_of (gw_recent g1) ?k = Some ?v" by auto
  moreover have "wf_map (gw_recent g1)" using f g(1) by (simp add: frame_def)
  ultimately have "map_of (filter (\<lambda>e. \<not> snd e \<le> later) (gw_recent g1)) ?k = Some ?v"
    using later by (simp add: map_of_wf_iff)
  then show ?thesis using f g later same
    by (simp add: deliver_cluster_def Let_def frame_def prune_recent_cluster_deliveries_def prune_pending_handle_acks_def)
qed

definition example_delivery :: "string list \<Rightarrow> deliver_payload" where
  "example_delivery ids = \<lparr>dl_sender = \<lparr>cr_nodeId = ''n2'', cr_connId = ''x'', cr_peerId = ''carol'', cr_groupId = None\<rparr>,
     dl_envelope = \<lparr>ev_msgId = ''m'', ev_kind = Biz, ev_src = \<lparr>src_peerId = ''carol'', src_connId = ''x''\<rparr>,
       ev_protocol = ''chat'', ev_version = ''1.0'', ev_action = ''send'', ev_streamId = None, ev_seq = None,
       ev_ts = 1, ev_traceId = None, ev_payload = JNull\<rparr>,
     dl_ack = AckRecv,
     dl_targets = map (\<lambda>i. \<lparr>cr_nodeId = ''n1'', cr_connId = i, cr_peerId = ''p'', cr_groupId = None\<rparr>) ids\<rparr>"

theorem cluster_delivery_deduplicated_witness:
  "let g1 = snd (deliver_cluster example_config example_deps 10 (example_delivery [''a'', ''b'']) example_gateway)
   in deliver_cluster example_config example_deps 20 (example_delivery [''b'']) g1
     = (Inr (filter (\<lambda>t. cr_nodeId t = cf_nodeId example_config) (dl_targets (example_delivery [''b'']))),
        prune_recent_cluster_deliveries 20 (prune_pending_handle_acks 20 g1))"
proof -
  let ?p = "example_delivery [''a'', ''b'']"
  let ?r = "deliver_cluster example_config example_deps 10 ?p example_gateway"
  have v: "(case fst ?r of Inl _ \<Rightarrow> False | Inr ts \<Rightarrow> ts \<noteq> [])"
    "wf_map (gw_recent example_gateway) \<and> \<not> gw_disposed example_gateway \<and> \<not> gw_shuttingDown example_gateway
     \<and> map_of (gw_recent example_gateway) ''m'' = None
     \<and> ev_msgId (dl_envelope ?p) = ''m'' \<and> ev_msgId (dl_envelope (example_delivery [''b''])) = ''m''
     \<and> 20 < 10 + cf_recentClusterDeliveryTtlMs example_config"
    by code_simp+
  obtain ts g1 where r: "?r = (Inr ts, g1)" "ts \<noteq> []" using v(1) by (cases ?r) (auto split: sum.split_asm)
  show ?thesis
    using v(2) r cluster_delivery_deduplicated[of example_gateway ?p example_config example_deps 10 ts g1 20
        "example_delivery [''b'']" example_deps]
    by (simp add: Let_def)
qed

text \<open>A node that tolerates no bytes in a socket buffer, and a bob who has some in his.\<close>

definition full_config :: ws_config where
  "full_config = example_config\<lparr>cf_outboundMaxSocketBufferBytes := 0\<rparr>"

definition full_deps :: ws_deps where
  "full_deps = example_deps\<lparr>wd_env := (\<lambda>i. \<lparr>se_send = (\<lambda>_. Returned (Some 1)),
     se_buffered = (\<lambda>_. if i = ''b'' then 1 else 0)\<rparr>)\<rparr>"

text \<open>Idempotence ends where a target overflows: when one target refuses the message the request
  fails as a whole and its id is not remembered, although earlier targets already have the
  message. Here two targets answer a request, the second with a full queue; the sender's retry
  writes the message to the first target again.\<close>

theorem failed_delivery_repeated:
  "let r1 = deliver_cluster full_config full_deps 10 (example_delivery [''a'', ''b'']) example_gateway;
       r2 = deliver_cluster full_config full_deps 20 (example_delivery [''a'', ''b'']) (snd r1)
   in (case fst r1 of Inl (ThrownHardess e) \<Rightarrow> he_code e = BACKPRESSURE_OVERFLOW | _ \<Rightarrow> False)
    \<and> map_option (length \<circ> example_received) (map_of (gw_connections (snd r1)) ''a'') = Some 1
    \<and> map_option (length \<circ> example_received) (map_of (gw_connections (snd r2)) ''a'') = Some 2"
  by code_simp

section \<open>Errors reported to the client\<close>

text \<open>Reporting on an open socket that takes the message: one error message, then the close code of
  the error if it has one; no other part of the gateway changes.\<close>

lemma report_effect:
  assumes "map_of (gw_connections g) i = Some c" "\<not> wc_closed c"
    "se_send (wd_env d i) (length (wc_log c)) = Returned r"
    "close_code_for_error (he_code (as_hardess_error t)) = Some code"
  shows "report_and_close d now i t tr rf g = (Inr (), g\<lparr>gw_fresh := Suc (gw_fresh g),
     gw_connections := map_set i
       (c\<lparr>wc_closed := True, wc_drainTimer := False, wc_log := wc_log c @
          [SocketSend (create_sys_err_envelope (wd_uuid d (gw_fresh g)) now t i tr rf) (Returned r),
           SocketClose (Some code) (Some (error_code_str (he_code (as_hardess_error t))))]\<rparr>) (gw_connections g)\<rparr>)"
  using assms
  by (simp add: report_and_close_def gw_socket_send_def socket_send_def Let_def update_conn_def
      close_for_error_def close_connection_def)

text \<open>A business message on a connection that is not authenticated reaches no handler and no peer: the
  client gets one error message \<open>AUTH_INVALID_TOKEN\<close> that names its message, the connection is
  closed with code 4401, and nothing but that connection (and the supply of ids) changes.\<close>

theorem unauthenticated_business_refused:
  assumes c: "map_of (gw_connections g) i = Some c" "\<not> wc_closed c" "wc_auth c = None"
    and up: "\<not> gw_shuttingDown g" "admitted cfg now c"
    and e: "raw = Some j" "parse_envelope_value_fast j = Some e" "ev_kind e = Biz"
    and sock: "se_send (wd_env d i) (length (wc_log c)) = Returned r"
  shows "\<exists>m p c'. ws_message cfg d now i raw g
      = (Inr (), g\<lparr>gw_fresh := Suc (gw_fresh g), gw_connections := map_set i c' (gw_connections g)\<rparr>)
    \<and> wc_closed c' \<and> wc_auth c' = None
    \<and> wc_log c' = wc_log c @ [SocketSend m (Returned r), SocketClose (Some 4401) (Some ''AUTH_INVALID_TOKEN'')]
    \<and> ev_payload m = PErr p \<and> se_code p = AUTH_INVALID_TOKEN \<and> se_refMsgId p = Some (ev_msgId e)"
proof -
  let ?s = "stamped cfg now c"
  let ?g = "update_conn i (\<lambda>_. ?s) g"
  let ?err = "plain_error AUTH_INVALID_TOKEN ''WebSocket is not authenticated''"
  let ?m = "create_sys_err_envelope (wd_uuid d (gw_fresh g)) now (ThrownHardess ?err) i (ev_traceId e) (Some (ev_msgId e))"
  have s: "wc_log ?s = wc_log c" by (simp add: stamped_def note_message_def)
  have f: "gw_fresh ?g = gw_fresh g" by (simp add: update_conn_def split: option.split)
  have u: "?g\<lparr>gw_fresh := n, gw_connections := map_set i x (gw_connections ?g)\<rparr>
      = g\<lparr>gw_fresh := n, gw_connections := map_set i x (gw_connections g)\<rparr>" for n x
    using c(1) by (simp add: update_conn_def)
  have "handle_envelope cfg d now ?s e ?g = throw_error ?err ?g"
    using e(3) c(3) up(1) by (simp add: handle_envelope_def handle_business_message_def admit_business_def ensure_authenticated_def)
  then have "ws_message cfg d now i raw g
      = report_and_close d now i (ThrownHardess ?err) (ev_traceId e) (Some (ev_msgId e)) ?g"
    using c up(2) e(1,2) by (simp add: ws_message_eq)
  moreover have "close_code_for_error (he_code (as_hardess_error (ThrownHardess ?err))) = Some 4401"
    by (simp add: new_hardess_error_def)
  ultimately have "ws_message cfg d now i raw g = (Inr (), g\<lparr>gw_fresh := Suc (gw_fresh g),
     gw_connections := map_set i
       (?s\<lparr>wc_closed := True, wc_drainTimer := False, wc_log := wc_log c @
          [SocketSend ?m (Returned r), SocketClose (Some 4401) (Some ''AUTH_INVALID_TOKEN'')]\<rparr>) (gw_connections g)\<rparr>)"
    using report_effect[of ?g i ?s d r "ThrownHardess ?err" 4401 now "ev_traceId e" "Some (ev_msgId e)"] c sock
    by (simp add: s f u new_hardess_error_def)
  moreover have "\<exists>p. ev_payload ?m = PErr p \<and> se_code p = AUTH_INVALID_TOKEN \<and> se_refMsgId p = Some (ev_msgId e)"
    by (simp add: create_sys_err_envelope_def Let_def create_system_envelope_def to_sys_err_payload_def
        new_hardess_error_def no_options_def)
  ultimately show ?thesis using c(3) by fastforce
qed

definition example_stranger :: gateway where
  "example_stranger = snd (ws_open example_config example_deps 0 ''s'' (new_gateway new_locator))"

theorem unauthenticated_business_refused_witness:
  "\<exists>c'. ws_message example_config example_deps 3 ''s'' (Some (example_envelope Biz ''send'' JNull)) example_stranger
      = (Inr (), example_stranger\<lparr>gw_fresh := Suc (gw_fresh example_stranger),
           gw_connections := map_set ''s'' c' (gw_connections example_stranger)\<rparr>)
    \<and> wc_closed c'"
proof -
  have o: "example_stranger = (new_gateway new_locator)\<lparr>gw_connections := [(''s'', new_ws_conn ''s'' 0)]\<rparr>"
    by (simp add: example_stranger_def ws_open_def new_gateway_def example_config_def ws_config_of_def Let_def)
  have v: "parse_envelope_value_fast (example_envelope Biz ''send'' JNull) \<noteq> None
    \<and> map_option ev_kind (parse_envelope_value_fast (example_envelope Biz ''send'' JNull)) = Some Biz
    \<and> admitted example_config 3 (new_ws_conn ''s'' 0)" by code_simp
  then obtain e where e: "parse_envelope_value_fast (example_envelope Biz ''send'' JNull) = Some e" "ev_kind e = Biz"
    by auto
  have "map_of (gw_connections example_stranger) ''s'' = Some (new_ws_conn ''s'' 0)" "\<not> gw_shuttingDown example_stranger"
    "\<not> wc_closed (new_ws_conn ''s'' 0)" "wc_auth (new_ws_conn ''s'' 0) = None"
    "se_send (wd_env example_deps ''s'') (length (wc_log (new_ws_conn ''s'' 0))) = Returned (Some 1)"
    by (simp_all add: o new_gateway_def new_ws_conn_def example_deps_def)
  with unauthenticated_business_refused[of example_stranger "''s''" "new_ws_conn ''s'' 0" example_config 3
      "Some (example_envelope Biz ''send'' JNull)" "example_envelope Biz ''send'' JNull" e example_deps "Some 1"] v e
  show ?thesis by blast
qed

section \<open>Handle acknowledgements\<close>

lemma gw_enqueue_frame_maps [simp]:
  "gw_pending (snd (gw_enqueue cfg d i m g)) = gw_pending g" "gw_recent (snd (gw_enqueue cfg d i m g)) = gw_recent g"
  "gw_pending (snd (gw_enqueue_new cfg d i mk g)) = gw_pending g"
  by (simp_all add: gw_enqueue_def gw_enqueue_new_def split: option.split sum.split prod.split)

lemma handle_ack_pending:
  assumes "wc_auth c = Some a" "wd_sysHandleAckSchema d (ev_payload e) = Inr ackFor"
  shows "gw_pending (snd (handle_handle_ack cfg d now c e g)) = map_del ackFor (gw_pending g)"
  using assms
  by (simp add: handle_handle_ack_def ensure_authenticated_def parse_protocol_payload_def Let_def delete_pending_def
      split: option.split)

text \<open>A message is acknowledged as handled at most once: whatever becomes of a \<open>handleAck\<close>, the pending
  entry it names is gone afterwards and no other entry is touched, and any later \<open>handleAck\<close> for
  the same message, from any connection, is refused with \<open>ROUTE_NO_RECIPIENT\<close>, unless the
  message was sent again in between.\<close>

theorem handle_ack_consumed_once:
  assumes "wc_auth c = Some a" "wd_sysHandleAckSchema d (ev_payload e) = Inr ackFor"
    and "gw_pending g2 = gw_pending (snd (handle_handle_ack cfg d now c e g))"
    and "wc_auth c2 = Some a2" "wd_sysHandleAckSchema d2 (ev_payload e2) = Inr ackFor"
  shows "map_of (gw_pending g2) = (map_of (gw_pending g))(ackFor := None)
    \<and> (\<exists>err g3. handle_handle_ack cfg d2 later c2 e2 g2 = (Inl (ThrownHardess err), g3)
          \<and> he_code err = ROUTE_NO_RECIPIENT \<and> he_refMsgId err = Some ackFor)"
proof -
  have p: "gw_pending g2 = map_del ackFor (gw_pending g)" using handle_ack_pending[OF assms(1,2)] assms(3) by simp
  then have "map_of (gw_pending g2) ackFor = None" by simp
  then have "handle_handle_ack cfg d2 later c2 e2 g2
      = throw_error (ref_error ROUTE_NO_RECIPIENT ''No sender found for handleAck'' ackFor) (delete_pending ackFor g2)"
    using assms(4,5) by (simp add: handle_handle_ack_def ensure_authenticated_def parse_protocol_payload_def Let_def)
  then show ?thesis using p by (simp add: new_hardess_error_def)
qed

definition example_conn :: "string \<Rightarrow> ws_conn" where
  "example_conn i = the (map_of (gw_connections example_gateway) i)"

definition example_ack :: "json envelope" where
  "example_ack = the (parse_envelope_value_fast (example_envelope System ''handleAck'' (JObj [(''ackFor'', JStr ''m'')])))"

theorem handle_ack_consumed_once_witness:
  "let g1 = snd (handle_handle_ack example_config example_deps 4 (example_conn ''b'') example_ack example_sent)
   in map_has (gw_pending example_sent) ''m'' \<and> map_of (gw_pending g1) = (map_of (gw_pending example_sent))(''m'' := None)
    \<and> (\<exists>err g3. handle_handle_ack example_config example_deps 5 (example_conn ''b'') example_ack g1
          = (Inl (ThrownHardess err), g3) \<and> he_code err = ROUTE_NO_RECIPIENT \<and> he_refMsgId err = Some ''m'')"
proof -
  have v: "wc_auth (example_conn ''b'') \<noteq> None \<and> wd_sysHandleAckSchema example_deps (ev_payload example_ack) = Inr ''m''
    \<and> map_has (gw_pending example_sent) ''m''" by code_simp
  then obtain a where a: "wc_auth (example_conn ''b'') = Some a" by blast
  show ?thesis
    using handle_ack_consumed_once[OF a, of example_deps example_ack "''m''" _ example_config 4 example_sent
        "example_conn ''b''" a example_deps example_ack 5, OF _ refl a] v
    by (simp add: Let_def)
qed

section \<open>Shutdown\<close>

text \<open>A draining ingress takes nothing new: sockets are closed at once, authentication and business
  messages are refused with a retryable \<open>SERVER_DRAINING\<close>, and business deliveries of other nodes
  reach nobody.\<close>

lemma draining_refuses:
  assumes "gw_shuttingDown g" "\<not> gw_disposed g"
  shows "ws_open cfg d now i g = (Inr (), refuse i [SocketClose (Some 1001) (Some ''server shutting down'')] g)"
    "handle_auth cfg d now i e g = throw_error (create_draining_error (Some (ev_msgId e))) g"
    "handle_business_message cfg d now c e g = throw_error (create_draining_error (Some (ev_msgId e))) g"
    "ev_kind (dl_envelope p) = Biz \<Longrightarrow> deliver_cluster cfg d now p g = (Inr [], g)"
  using assms
  by (simp_all add: ws_open_def handle_auth_def handle_auth_before_def handle_business_message_def
      admit_business_def deliver_cluster_def)

section \<open>Interrupted authentication\<close>

text \<open>An authentication that resumes after its socket has closed registers the dead connection: the
  locator lists a connection the gateway does not have, business messages keep being planned to
  it, and only an explicit unregistration of that id (which the close handler has already done)
  would remove it. The same happens when the ingress began to shut down in between.\<close>

theorem interrupted_auth_leaves_stale_entry:
  assumes ok: "gw_ok cfg g"
    and gone: "g1 = ws_close cfg i g \<or> g1 = begin_shutdown cfg (ws_close cfg i g)"
    and quota: "within_peer_quota cfg i a g1"
  shows "let g2 = resume_auth cfg d now i e a g1
    in map_of (gw_connections g2) i = None
     \<and> get_by_conn_id (gw_locator g2) i = Some (authenticated_ref cfg i a)
     \<and> authenticated_ref cfg i a \<in> set (loc_find (gw_locator g2) (au_peerId a) None)"
proof -
  let ?g2 = "resume_auth cfg d now i e a g1"
  have ok1: "gw_ok cfg g1" using gone gw_ok_close[OF ok] gw_ok_shutdown(1) by auto
  have none: "map_of (gw_connections g1) i = None"
    using gone by (auto simp: ws_close_def begin_shutdown_def Let_def force_close_draining_connections_def close_all_of)
  have eq: "?g2 = authenticate cfg i a g1\<lparr>gw_fresh := Suc (gw_fresh g1)\<rparr>"
    using none quota
    by (simp add: resume_auth_def handle_auth_after_eq gw_enqueue_new_def gw_enqueue_def authenticate_def Let_def update_conn_def)
  have n: "map_of (gw_connections ?g2) i = None" using none by (simp add: eq authenticate_def Let_def)
  have l: "locator_ok (gw_locator g1)" using ok1 by (simp add: gw_ok_def)
  have g: "get_by_conn_id (gw_locator ?g2) i = Some (authenticated_ref cfg i a)"
    by (simp add: eq authenticate_def Let_def mem.lookup_register[OF l])
  have "locator_ok (gw_locator ?g2)" by (simp add: eq authenticate_def Let_def mem.inv_register[OF l])
  then show ?thesis using n g by (simp add: mem.find_iff Let_def)
qed

theorem interrupted_auth_leaves_stale_entry_witness:
  "let a = \<lparr>au_peerId = ''dave'', au_tokenId = ''t'', au_capabilities = [], au_expiresAt = 100, au_revokedAt = None,
             au_groupId = None\<rparr>;
       g = resume_auth example_config example_deps 5 ''s'' example_ack a (ws_close example_config ''s'' example_stranger)
   in map_of (gw_connections g) ''s'' = None
    \<and> get_by_conn_id (gw_locator g) ''s'' = Some (authenticated_ref example_config ''s'' a)"
proof -
  have ok: "gw_ok example_config example_stranger"
    unfolding example_stranger_def by (rule gw_ok_open[OF gw_ok_initial]) (simp add: new_gateway_def)
  have q: "within_peer_quota example_config ''s'' a g" for a g
    by (simp add: within_peer_quota_def example_config_def ws_config_of_def Let_def)
  show ?thesis using interrupted_auth_leaves_stale_entry[OF ok disjI1[OF refl] q, where d = example_deps]
    by (simp add: Let_def)
qed

section \<open>Connections closed by the server\<close>

text \<open>A connection that the server has closed but whose close event is still to come counts as a
  delivery: nothing is written to it, and the sender is told that the message was routed to it.\<close>

theorem closed_connection_counts_as_delivered:
  assumes "map_of (gw_connections g) (cr_connId t) = Some c" "wc_closed c" "wc_auth c = Some a"
    and "wd_isAuthContextValid d a" "cr_nodeId t = cf_nodeId cfg"
  shows "attempt_target cfg d m (st, g) t = (st\<lparr>at_delivered := at_delivered st @ [t]\<rparr>, g)"
proof -
  have "map_set k v xs = xs" if "map_of xs k = Some v" for k v and xs :: "(string, ws_conn) js_map"
    using that by (induction xs) (auto split: if_split_asm)
  from this[OF assms(1)] show ?thesis using assms
    by (simp add: attempt_target_def gw_enqueue_def enqueue_outbound_def)
qed

theorem closed_connection_counts_as_delivered_witness:
  "let t = \<lparr>cr_nodeId = ''n1'', cr_connId = ''b'', cr_peerId = ''bob'', cr_groupId = None\<rparr>;
       g = update_conn ''b'' (close_connection (Some 4408) (Some ''heartbeat timeout'')) example_gateway
   in attempt_target example_config example_deps m (st, g) t = (st\<lparr>at_delivered := at_delivered st @ [t]\<rparr>, g)"
proof -
  let ?c = "close_connection (Some 4408) (Some ''heartbeat timeout'')"
  let ?t = "\<lparr>cr_nodeId = ''n1'', cr_connId = ''b'', cr_peerId = ''bob'', cr_groupId = None\<rparr>"
  have v: "map_of (gw_connections example_gateway) ''b'' \<noteq> None \<and> wc_auth (example_conn ''b'') \<noteq> None
    \<and> cf_nodeId example_config = ''n1''" by code_simp
  then obtain a where a: "wc_auth (example_conn ''b'') = Some a" by blast
  have c: "map_of (gw_connections (update_conn ''b'' ?c example_gateway)) (cr_connId ?t) = Some (?c (example_conn ''b''))"
    using v by (auto simp: example_conn_def)
  have "wc_closed (?c (example_conn ''b''))" "wc_auth (?c (example_conn ''b'')) = Some a"
    using a by (simp_all add: close_connection_def)
  moreover have "wd_isAuthContextValid example_deps a" "cr_nodeId ?t = cf_nodeId example_config"
    using v by (simp_all add: example_deps_def)
  ultimately show ?thesis
    using closed_connection_counts_as_delivered[OF c, of a example_deps example_config m st] by (simp add: Let_def)
qed

end
