(* ===== verification/Cluster_Health.thy ===== *)
theory Cluster_Health
  imports Shared_Types "HOL-Library.Product_Lexorder"
begin

text \<open>The peer health store (src/src/runtime/cluster/health.ts, class
  ClusterPeerHealthStore): what a node believes about every other node of the cluster.

  A store is a Map of entries, the set of known peers, the armed timers and the snapshots
  handed to listeners so far. The closure of an armed suspicion timer captured a node and a
  detail text; timers have ids, \<open>clearTimeout\<close> removes the id, and \<open>fire_timer\<close> is the timer
  callback. Every operation takes the reading of the clock. Emitting appends to \<open>hs_emitted\<close>
  one pair per listener.\<close>

section \<open>Data\<close>

datatype health_status = Unknown | Alive | Suspect | Dead

fun status_rank :: "health_status \<Rightarrow> int" where
  "status_rank Dead = 3"
| "status_rank Suspect = 2"
| "status_rank Alive = 1"
| "status_rank Unknown = 0"

lemma status_rank_inj: "status_rank a = status_rank b \<Longrightarrow> a = b"
  by (cases a; cases b) auto

text \<open>The order of the statuses is the one of their ranks.\<close>

instantiation health_status :: linorder
begin

definition less_eq_health_status :: "health_status \<Rightarrow> health_status \<Rightarrow> bool" where
  "less_eq_health_status a b \<longleftrightarrow> status_rank a \<le> status_rank b"

definition less_health_status :: "health_status \<Rightarrow> health_status \<Rightarrow> bool" where
  "less_health_status a b \<longleftrightarrow> status_rank a < status_rank b"

instance
  by standard (auto simp: less_eq_health_status_def less_health_status_def intro: status_rank_inj)

end

datatype health_source = LocalSource | RemoteSource

record health_entry =
  hl_nodeId :: string
  hl_status :: health_status
  hl_incarnation :: int
  hl_updatedAt :: int
  hl_lastAliveAt :: "int option"
  hl_detail :: "string option"
  hl_source :: health_source
  hl_reportedBy :: "string option"
  hl_deadTimer :: "nat option"

record health_snapshot =
  sn_nodeId :: string
  sn_status :: health_status
  sn_incarnation :: int
  sn_updatedAt :: int
  sn_lastAliveAt :: "int option"
  sn_detail :: "string option"
  sn_source :: health_source
  sn_reportedBy :: "string option"

record health_rumor =
  ru_nodeId :: string
  ru_status :: health_status
  ru_incarnation :: int
  ru_lastAliveAt :: "int option"

record health_store =
  hs_entries :: "(string, health_entry) js_map"
  hs_known :: "string list option"
  hs_timers :: "(nat, string \<times> string option) js_map"
  hs_nextTimer :: nat
  hs_listeners :: "nat list"
  hs_emitted :: "(nat \<times> health_snapshot) list"

definition new_health_store :: health_store where
  "new_health_store = \<lparr>hs_entries = [], hs_known = None, hs_timers = [], hs_nextTimer = 0,
     hs_listeners = [], hs_emitted = []\<rparr>"

section \<open>Operations\<close>

definition to_snapshot :: "health_entry \<Rightarrow> health_snapshot" where
  "to_snapshot e = \<lparr>sn_nodeId = hl_nodeId e, sn_status = hl_status e,
     sn_incarnation = hl_incarnation e, sn_updatedAt = hl_updatedAt e,
     sn_lastAliveAt = hl_lastAliveAt e, sn_detail = hl_detail e, sn_source = hl_source e,
     sn_reportedBy = hl_reportedBy e\<rparr>"

definition get_status :: "health_store \<Rightarrow> string \<Rightarrow> health_status" where
  "get_status s n = (case map_of (hs_entries s) n of None \<Rightarrow> Unknown | Some e \<Rightarrow> hl_status e)"

definition health_snapshot_of :: "health_store \<Rightarrow> string \<Rightarrow> health_snapshot option" where
  "health_snapshot_of s n = map_option to_snapshot (map_of (hs_entries s) n)"

definition health_list :: "health_store \<Rightarrow> health_snapshot list" where
  "health_list s = map (\<lambda>(_, e). to_snapshot e) (hs_entries s)"

definition is_unknown_peer :: "health_store \<Rightarrow> string \<Rightarrow> bool" where
  "is_unknown_peer s n = (case hs_known s of None \<Rightarrow> False | Some ks \<Rightarrow> n \<notin> set ks)"

definition put_entry :: "health_entry \<Rightarrow> health_store \<Rightarrow> health_store" where
  "put_entry e s = s\<lparr>hs_entries := map_set (hl_nodeId e) e (hs_entries s)\<rparr>"

definition get_or_create_entry :: "int \<Rightarrow> string \<Rightarrow> health_store \<Rightarrow> health_entry \<times> health_store" where
  "get_or_create_entry now n s = (case map_of (hs_entries s) n of
     Some e \<Rightarrow> (e, s)
   | None \<Rightarrow> (let created = \<lparr>hl_nodeId = n, hl_status = Unknown, hl_incarnation = 0,
         hl_updatedAt = now, hl_lastAliveAt = None, hl_detail = None, hl_source = LocalSource,
         hl_reportedBy = None, hl_deadTimer = None\<rparr> in (created, put_entry created s)))"

definition health_emit :: "health_entry \<Rightarrow> health_store \<Rightarrow> health_store" where
  "health_emit e s = s\<lparr>hs_emitted := hs_emitted s @ map (\<lambda>l. (l, to_snapshot e)) (hs_listeners s)\<rparr>"

definition clear_timeout :: "nat option \<Rightarrow> health_store \<Rightarrow> health_store" where
  "clear_timeout t s = (case t of None \<Rightarrow> s | Some i \<Rightarrow> s\<lparr>hs_timers := map_del i (hs_timers s)\<rparr>)"

definition clear_dead_timer :: "health_entry \<Rightarrow> health_store \<Rightarrow> health_entry \<times> health_store" where
  "clear_dead_timer e s = (case hl_deadTimer e of
     None \<Rightarrow> (e, s)
   | Some t \<Rightarrow> (e\<lparr>hl_deadTimer := None\<rparr>, clear_timeout (Some t) s))"

definition apply_local_status ::
  "health_entry \<Rightarrow> health_status \<Rightarrow> int \<Rightarrow> string option \<Rightarrow> health_store \<Rightarrow> health_store" where
  "apply_local_status e0 status now detail s0 =
    (let (e1, s1) = clear_dead_timer e0 s0;
         e2 = e1\<lparr>hl_status := status, hl_incarnation := hl_incarnation e1 + 1, hl_updatedAt := now,
                 hl_detail := detail, hl_source := LocalSource, hl_reportedBy := None\<rparr>;
         e3 = (if status = Alive then e2\<lparr>hl_lastAliveAt := Some now\<rparr> else e2)
     in health_emit e3 (put_entry e3 s1))"

definition ensure_suspect_timer :: "string \<Rightarrow> string option \<Rightarrow> health_store \<Rightarrow> health_store" where
  "ensure_suspect_timer n detail s = (case map_of (hs_entries s) n of
     None \<Rightarrow> s
   | Some e \<Rightarrow>
       if hl_deadTimer e \<noteq> None then s
       else put_entry (e\<lparr>hl_deadTimer := Some (hs_nextTimer s)\<rparr>)
              (s\<lparr>hs_timers := map_set (hs_nextTimer s) (n, detail) (hs_timers s),
                 hs_nextTimer := Suc (hs_nextTimer s)\<rparr>))"

definition mark_alive :: "int \<Rightarrow> string \<Rightarrow> string option \<Rightarrow> health_store \<Rightarrow> health_store" where
  "mark_alive now n detail s =
    (if is_unknown_peer s n then s
     else let (e, s1) = get_or_create_entry now n s in
       if hl_status e = Alive \<and> hl_source e = LocalSource
       then put_entry (e\<lparr>hl_lastAliveAt := Some now, hl_updatedAt := now, hl_detail := detail,
                         hl_reportedBy := None\<rparr>) s1
       else apply_local_status e Alive now detail s1)"

definition mark_suspect :: "int \<Rightarrow> string \<Rightarrow> string option \<Rightarrow> health_store \<Rightarrow> health_store" where
  "mark_suspect now n detail s =
    (if is_unknown_peer s n then s
     else let (e, s1) = get_or_create_entry now n s;
              s2 = (if hl_status e = Suspect \<and> hl_source e = LocalSource
                    then put_entry (e\<lparr>hl_updatedAt := now, hl_detail := detail, hl_reportedBy := None\<rparr>) s1
                    else apply_local_status e Suspect now detail s1)
          in ensure_suspect_timer n detail s2)"

definition mark_dead :: "int \<Rightarrow> string \<Rightarrow> string option \<Rightarrow> health_store \<Rightarrow> health_store" where
  "mark_dead now n detail s =
    (if is_unknown_peer s n then s
     else let (e, s1) = get_or_create_entry now n s in
       if hl_status e = Dead \<and> hl_source e = LocalSource \<and> hl_detail e = detail
       then put_entry (e\<lparr>hl_updatedAt := now\<rparr>) s1
       else apply_local_status e Dead now detail s1)"

definition should_apply_rumor :: "health_entry \<Rightarrow> health_rumor \<Rightarrow> bool" where
  "should_apply_rumor e r =
    (if hl_status e = Unknown then True
     else if ru_incarnation r > hl_incarnation e then True
     else if ru_incarnation r < hl_incarnation e then False
     else if hl_source e = LocalSource then False
     else status_rank (ru_status r) > status_rank (hl_status e))"

definition apply_rumor :: "int \<Rightarrow> health_rumor \<Rightarrow> string \<Rightarrow> health_store \<Rightarrow> bool \<times> health_store" where
  "apply_rumor now r reporter s =
    (if is_unknown_peer s (ru_nodeId r) then (False, s)
     else let (e, s1) = get_or_create_entry now (ru_nodeId r) s in
       if \<not> should_apply_rumor e r then
         (False,
          case ru_lastAliveAt r of
            Some t \<Rightarrow>
              if hl_status e = ru_status r \<and> t > (case hl_lastAliveAt e of Some l \<Rightarrow> l | None \<Rightarrow> 0)
              then put_entry (e\<lparr>hl_lastAliveAt := Some t, hl_updatedAt := now, hl_source := RemoteSource,
                     hl_reportedBy := Some reporter, hl_detail := Some (''gossip:'' @ reporter)\<rparr>) s1
              else s1
          | None \<Rightarrow> s1)
       else
         (let (e1, s2) = clear_dead_timer e s1;
              e2 = e1\<lparr>hl_status := ru_status r, hl_incarnation := ru_incarnation r, hl_updatedAt := now,
                     hl_lastAliveAt := (if ru_status r = Alive
                        then (case ru_lastAliveAt r of Some t \<Rightarrow> Some t
                              | None \<Rightarrow> (case hl_lastAliveAt e1 of Some l \<Rightarrow> Some l | None \<Rightarrow> Some now))
                        else hl_lastAliveAt e1),
                     hl_detail := Some (''gossip:'' @ reporter), hl_source := RemoteSource,
                     hl_reportedBy := Some reporter\<rparr>;
              s3 = put_entry e2 s2;
              s4 = (if ru_status r = Suspect
                    then ensure_suspect_timer (ru_nodeId r) (Some (''gossip:'' @ reporter)) s3 else s3)
          in (True, health_emit e2 s4)))"

definition fire_timer :: "int \<Rightarrow> nat \<Rightarrow> health_store \<Rightarrow> health_store" where
  "fire_timer now t s = (case map_of (hs_timers s) t of
     None \<Rightarrow> s
   | Some (n, detail) \<Rightarrow>
       (let s1 = s\<lparr>hs_timers := map_del t (hs_timers s)\<rparr> in
        case map_of (hs_entries s1) n of
          None \<Rightarrow> s1
        | Some latest \<Rightarrow>
            if hl_status latest \<noteq> Suspect then s1
            else mark_dead now n (Some (case detail of Some d \<Rightarrow> d | None \<Rightarrow> ''suspect_timeout''))
                   (put_entry (latest\<lparr>hl_deadTimer := None\<rparr>) s1)))"

definition drop_peer :: "string \<Rightarrow> health_store \<Rightarrow> health_store" where
  "drop_peer n s =
    (let s1 = (case map_of (hs_entries s) n of None \<Rightarrow> s | Some e \<Rightarrow> clear_timeout (hl_deadTimer e) s)
     in s1\<lparr>hs_entries := map_del n (hs_entries s1)\<rparr>)"

definition note_known_peers :: "string list \<Rightarrow> health_store \<Rightarrow> health_store" where
  "note_known_peers ids s =
    (let s1 = s\<lparr>hs_known := Some (js_unique ids)\<rparr> in
     foldl (\<lambda>st n. if n \<in> set ids then st else drop_peer n st) s1 (map_keys (hs_entries s1)))"

definition health_subscribe :: "nat \<Rightarrow> health_store \<Rightarrow> health_store" where
  "health_subscribe l s = (if l \<in> set (hs_listeners s) then s else s\<lparr>hs_listeners := hs_listeners s @ [l]\<rparr>)"

definition health_unsubscribe :: "nat \<Rightarrow> health_store \<Rightarrow> health_store" where
  "health_unsubscribe l s = s\<lparr>hs_listeners := removeAll l (hs_listeners s)\<rparr>"

definition health_dispose :: "health_store \<Rightarrow> health_store" where
  "health_dispose s =
    (foldl (\<lambda>st (_, e). clear_timeout (hl_deadTimer e) st) s (hs_entries s))\<lparr>hs_entries := []\<rparr>"

section \<open>The operations as steps\<close>

text \<open>The status of a rumor excludes \<open>unknown\<close> by its type; that is the guard of the rumor step.\<close>

datatype health_op =
    NoteKnownPeers "string list"
  | MarkAlive int string "string option"
  | MarkSuspect int string "string option"
  | MarkDead int string "string option"
  | ApplyRumor int health_rumor string
  | FireTimer int nat
  | Subscribe nat
  | Unsubscribe nat
  | DisposeHealth

fun health_op_ok :: "health_op \<Rightarrow> bool" where
  "health_op_ok (ApplyRumor _ r _) = (ru_status r \<noteq> Unknown)"
| "health_op_ok _ = True"

fun health_step :: "health_op \<Rightarrow> health_store \<Rightarrow> health_store" where
  "health_step (NoteKnownPeers ids) s = note_known_peers ids s"
| "health_step (MarkAlive now n d) s = mark_alive now n d s"
| "health_step (MarkSuspect now n d) s = mark_suspect now n d s"
| "health_step (MarkDead now n d) s = mark_dead now n d s"
| "health_step (ApplyRumor now r by) s = snd (apply_rumor now r by s)"
| "health_step (FireTimer now t) s = fire_timer now t s"
| "health_step (Subscribe l) s = health_subscribe l s"
| "health_step (Unsubscribe l) s = health_unsubscribe l s"
| "health_step DisposeHealth s = health_dispose s"

inductive health_reachable :: "health_store \<Rightarrow> bool" where
  init: "health_reachable new_health_store"
| step: "health_reachable s \<Longrightarrow> health_op_ok op \<Longrightarrow> health_reachable (health_step op s)"

section \<open>The invariant\<close>

text \<open>\<open>timers_linked\<close>: armed timers and the timer fields of the entries refer to each other;
  entries are filed under their own node id and only for known peers.
  \<open>entry_settled\<close>: a timer is armed for the suspects and only for them.\<close>

definition timers_linked :: "health_store \<Rightarrow> bool" where
  "timers_linked s \<longleftrightarrow> wf_map (hs_entries s) \<and> wf_map (hs_timers s)
     \<and> (\<forall>n e. map_of (hs_entries s) n = Some e \<longrightarrow> hl_nodeId e = n \<and> \<not> is_unknown_peer s n
          \<and> (\<forall>t. hl_deadTimer e = Some t \<longrightarrow> (\<exists>d. map_of (hs_timers s) t = Some (n, d))))
     \<and> (\<forall>t n d. map_of (hs_timers s) t = Some (n, d) \<longrightarrow> t < hs_nextTimer s
          \<and> (\<exists>e. map_of (hs_entries s) n = Some e \<and> hl_deadTimer e = Some t))"

definition entry_settled :: "health_entry \<Rightarrow> bool" where
  "entry_settled e \<longleftrightarrow> hl_status e \<noteq> Unknown \<and> (hl_status e = Suspect \<longleftrightarrow> hl_deadTimer e \<noteq> None)"

definition health_ok :: "health_store \<Rightarrow> bool" where
  "health_ok s \<longleftrightarrow> timers_linked s \<and> (\<forall>n e. map_of (hs_entries s) n = Some e \<longrightarrow> entry_settled e)"

named_theorems health_defs \<open>definitions of the building blocks of the health operations\<close>

lemmas [health_defs] = put_entry_def clear_dead_timer_def clear_timeout_def health_emit_def
  is_unknown_peer_def

lemma health_frame [simp]:
  "hs_known (put_entry e s) = hs_known s" "hs_timers (put_entry e s) = hs_timers s"
  "hs_nextTimer (put_entry e s) = hs_nextTimer s" "hs_listeners (put_entry e s) = hs_listeners s"
  "hs_emitted (put_entry e s) = hs_emitted s"
  "hs_entries (put_entry e s) = map_set (hl_nodeId e) e (hs_entries s)"
  "hs_known (health_emit e s) = hs_known s" "hs_timers (health_emit e s) = hs_timers s"
  "hs_nextTimer (health_emit e s) = hs_nextTimer s" "hs_listeners (health_emit e s) = hs_listeners s"
  "hs_entries (health_emit e s) = hs_entries s"
  "hs_known (clear_timeout t s) = hs_known s" "hs_listeners (clear_timeout t s) = hs_listeners s"
  "hs_nextTimer (clear_timeout t s) = hs_nextTimer s" "hs_emitted (clear_timeout t s) = hs_emitted s"
  "hs_entries (clear_timeout t s) = hs_entries s"
  by (simp_all add: health_defs split: option.split)

lemma health_emit_emitted [simp]:
  "hs_emitted (health_emit e s) = hs_emitted s @ map (\<lambda>l. (l, to_snapshot e)) (hs_listeners s)"
  by (simp add: health_emit_def)

lemma clear_timeout_simps [simp]:
  "hs_timers (clear_timeout None s) = hs_timers s"
  "hs_timers (clear_timeout (Some t) s) = map_del t (hs_timers s)"
  by (simp_all add: clear_timeout_def)

lemma is_unknown_peer_cong [simp]:
  "is_unknown_peer (put_entry e s) n = is_unknown_peer s n"
  "is_unknown_peer (health_emit e s) n = is_unknown_peer s n"
  "is_unknown_peer (clear_timeout t s) n = is_unknown_peer s n"
  "is_unknown_peer (s\<lparr>hs_timers := ts\<rparr>) n = is_unknown_peer s n"
  "is_unknown_peer (s\<lparr>hs_timers := ts, hs_nextTimer := k\<rparr>) n = is_unknown_peer s n"
  by (simp_all add: is_unknown_peer_def)

lemma timers_linkedD:
  assumes "timers_linked s" "map_of (hs_entries s) n = Some e"
  shows "hl_nodeId e = n" "\<not> is_unknown_peer s n"
    "hl_deadTimer e = Some t \<Longrightarrow> \<exists>d. map_of (hs_timers s) t = Some (n, d)"
  using assms by (auto simp: timers_linked_def)

lemma timers_linked_timerD:
  assumes "timers_linked s" "map_of (hs_timers s) t = Some (n, d)"
  shows "t < hs_nextTimer s" "\<exists>e. map_of (hs_entries s) n = Some e \<and> hl_deadTimer e = Some t"
  using assms unfolding timers_linked_def by blast+

lemma timers_linked_emit [simp]: "timers_linked (health_emit e s) = timers_linked s"
  by (simp add: timers_linked_def)

lemma timers_linked_put_same:
  assumes "timers_linked s" "map_of (hs_entries s) (hl_nodeId e') = Some e"
    "hl_deadTimer e' = hl_deadTimer e"
  shows "timers_linked (put_entry e' s)"
  using assms unfolding timers_linked_def by (simp, metis option.inject)

lemma timers_linked_put_new:
  assumes "timers_linked s" "map_of (hs_entries s) (hl_nodeId e) = None"
    "hl_deadTimer e = None" "\<not> is_unknown_peer s (hl_nodeId e)"
  shows "timers_linked (put_entry e s)"
  using assms unfolding timers_linked_def by (simp, metis option.distinct(1))

lemma timers_linked_cleared:
  assumes "timers_linked s" "map_of (hs_entries s) n = Some e" "hl_nodeId e' = n"
    "hl_deadTimer e' = None"
  shows "timers_linked (put_entry e' (clear_timeout (hl_deadTimer e) s))"
proof (cases "hl_deadTimer e")
  case None
  then show ?thesis using assms timers_linked_put_same[of s e' e] by (simp add: clear_timeout_def)
next
  case (Some t)
  have only: "map_of (hs_timers s) t' = Some (n, d) \<Longrightarrow> t' = t" for t' d
    using timers_linked_timerD(2)[OF assms(1), of t' n d] assms(2) Some by auto
  obtain d where d: "map_of (hs_timers s) t = Some (n, d)"
    using timers_linkedD(3)[OF assms(1,2) Some] by blast
  then have "map_of (hs_entries s) m = Some f \<Longrightarrow> m \<noteq> n \<Longrightarrow> hl_deadTimer f \<noteq> Some t" for m f
    using assms(1) unfolding timers_linked_def by fastforce
  then show ?thesis
    using assms Some only unfolding timers_linked_def by (simp split: if_splits) metis
qed

lemma timers_linked_ensure:
  assumes "timers_linked s"
  shows "timers_linked (ensure_suspect_timer n d s)"
proof (cases "map_of (hs_entries s) n")
  case (Some e)
  show ?thesis
  proof (cases "hl_deadTimer e")
    case None
    have fresh: "map_of (hs_timers s) t = Some p \<Longrightarrow> t \<noteq> hs_nextTimer s" for t p
      using timers_linked_timerD(1)[OF assms, of t] by (cases p) auto
    have "hl_nodeId e = n" using timers_linkedD[OF assms Some] by simp
    moreover have "map_of (hs_timers s) t = Some (n, d) \<Longrightarrow> False" for t d
      using timers_linked_timerD(2)[OF assms, of t n d] Some None by auto
    ultimately show ?thesis
      using assms Some None fresh unfolding timers_linked_def ensure_suspect_timer_def
      by (simp split: if_splits) (metis less_SucI lessI)
  qed (simp add: assms ensure_suspect_timer_def Some)
qed (simp add: assms ensure_suspect_timer_def)

section \<open>What the building blocks do\<close>

lemma get_or_create:
  assumes "timers_linked s" "\<not> is_unknown_peer s n" "get_or_create_entry now n s = (e, s1)"
  shows "timers_linked s1" "map_of (hs_entries s1) = (map_of (hs_entries s))(n \<mapsto> e)"
    "hl_nodeId e = n" "hs_known s1 = hs_known s" "hs_timers s1 = hs_timers s"
    "hs_emitted s1 = hs_emitted s" "hs_listeners s1 = hs_listeners s" "hs_nextTimer s1 = hs_nextTimer s"
    "map_of (hs_entries s) n = Some e \<or> map_of (hs_entries s) n = None \<and> hl_status e = Unknown
       \<and> hl_incarnation e = 0 \<and> hl_lastAliveAt e = None \<and> hl_deadTimer e = None"
  using assms timers_linkedD(1)[OF assms(1)]
  by (auto simp: get_or_create_entry_def fun_upd_idem Let_def intro!: timers_linked_put_new split: option.splits)

definition local_entry :: "health_entry \<Rightarrow> health_status \<Rightarrow> int \<Rightarrow> string option \<Rightarrow> health_entry" where
  "local_entry e status now detail = e\<lparr>hl_status := status, hl_incarnation := hl_incarnation e + 1,
     hl_updatedAt := now, hl_lastAliveAt := (if status = Alive then Some now else hl_lastAliveAt e),
     hl_detail := detail, hl_source := LocalSource, hl_reportedBy := None, hl_deadTimer := None\<rparr>"

lemma local_entry_simps [simp]:
  "hl_nodeId (local_entry e st now d) = hl_nodeId e" "hl_status (local_entry e st now d) = st"
  "hl_incarnation (local_entry e st now d) = hl_incarnation e + 1"
  "hl_source (local_entry e st now d) = LocalSource" "hl_deadTimer (local_entry e st now d) = None"
  by (simp_all add: local_entry_def)

lemma apply_local_status_eq:
  "apply_local_status e st now d s =
     (let e' = local_entry e st now d in health_emit e' (put_entry e' (clear_timeout (hl_deadTimer e) s)))"
  by (cases e) (auto simp: apply_local_status_def local_entry_def clear_dead_timer_def clear_timeout_def
      Let_def split: option.split)

definition rumor_entry :: "health_entry \<Rightarrow> health_rumor \<Rightarrow> int \<Rightarrow> string \<Rightarrow> health_entry" where
  "rumor_entry e r now by = e\<lparr>hl_status := ru_status r, hl_incarnation := ru_incarnation r,
     hl_updatedAt := now,
     hl_lastAliveAt := (if ru_status r = Alive
        then (case ru_lastAliveAt r of Some t \<Rightarrow> Some t
              | None \<Rightarrow> (case hl_lastAliveAt e of Some l \<Rightarrow> Some l | None \<Rightarrow> Some now))
        else hl_lastAliveAt e),
     hl_detail := Some (''gossip:'' @ by), hl_source := RemoteSource, hl_reportedBy := Some by,
     hl_deadTimer := None\<rparr>"

lemma rumor_entry_simps [simp]:
  "hl_nodeId (rumor_entry e r now by) = hl_nodeId e" "hl_status (rumor_entry e r now by) = ru_status r"
  "hl_incarnation (rumor_entry e r now by) = ru_incarnation r"
  "hl_source (rumor_entry e r now by) = RemoteSource" "hl_deadTimer (rumor_entry e r now by) = None"
  by (simp_all add: rumor_entry_def)

lemma rumor_entry_timer [simp]: "(rumor_entry e r now by)\<lparr>hl_deadTimer := None\<rparr> = rumor_entry e r now by"
  by (simp add: rumor_entry_def)

text \<open>The same list of entries with one field of one entry changed: what a refresh and an armed
  timer leave behind.\<close>

lemma ensure_entries:
  assumes "timers_linked s" "map_of (hs_entries s) n = Some e"
  shows "map_of (hs_entries (ensure_suspect_timer n d s)) = (map_of (hs_entries s))
     (n \<mapsto> (if hl_deadTimer e \<noteq> None then e else e\<lparr>hl_deadTimer := Some (hs_nextTimer s)\<rparr>))"
  using assms timers_linkedD(1)[OF assms]
  by (auto simp: ensure_suspect_timer_def fun_upd_idem)

lemma ensure_frame [simp]:
  "hs_known (ensure_suspect_timer n d s) = hs_known s"
  "hs_listeners (ensure_suspect_timer n d s) = hs_listeners s"
  "hs_emitted (ensure_suspect_timer n d s) = hs_emitted s"
  by (simp_all add: ensure_suspect_timer_def split: option.split)

lemma apply_rumor_eq:
  "\<not> is_unknown_peer s (ru_nodeId r) \<Longrightarrow> get_or_create_entry now (ru_nodeId r) s = (e, s1) \<Longrightarrow>
   should_apply_rumor e r \<Longrightarrow> apply_rumor now r by s =
     (True, let e' = rumor_entry e r now by; s2 = put_entry e' (clear_timeout (hl_deadTimer e) s1)
        in health_emit e' (if ru_status r = Suspect
              then ensure_suspect_timer (ru_nodeId r) (Some (''gossip:'' @ by)) s2 else s2))"
  by (cases e) (auto simp: apply_rumor_def rumor_entry_def clear_dead_timer_def clear_timeout_def
      Let_def split: option.split)

section \<open>One operation changes one entry\<close>

text \<open>\<open>touched n s s'\<close>: from \<open>s\<close> to \<open>s'\<close> nothing changed but the entry of \<open>n\<close>, which is settled.
  The old entry, if any, is \<open>e0\<close>, the new one \<open>e1\<close>, and \<open>snaps\<close> are the snapshots emitted.\<close>

definition touched ::
  "string \<Rightarrow> health_store \<Rightarrow> health_entry option \<Rightarrow> health_entry \<Rightarrow> health_snapshot list \<Rightarrow> health_store \<Rightarrow> bool" where
  "touched n s e0 e1 snaps s' \<longleftrightarrow>
     timers_linked s' \<and> map_of (hs_entries s') = (map_of (hs_entries s))(n \<mapsto> e1)
     \<and> map_of (hs_entries s) n = e0 \<and> entry_settled e1 \<and> hs_known s' = hs_known s
     \<and> hs_listeners s' = hs_listeners s
     \<and> hs_emitted s' = hs_emitted s @ concat (map (\<lambda>sn. map (\<lambda>l. (l, sn)) (hs_listeners s)) snaps)"

lemma touched_ok: "health_ok s \<Longrightarrow> touched n s e0 e1 snaps s' \<Longrightarrow> health_ok s'"
  by (auto simp: health_ok_def touched_def)

text \<open>The four ways an operation leaves an entry: unchanged key and refreshed fields, a local
  status, a rumor taken over, and nothing.\<close>

lemma touched_refresh:
  assumes "health_ok s" "map_of (hs_entries s) n = Some e" "hl_nodeId e' = n"
    "hl_status e' = hl_status e" "hl_deadTimer e' = hl_deadTimer e"
  shows "touched n s (Some e) e' [] (put_entry e' s)"
  using assms timers_linked_put_same[of s e' e]
  by (auto simp: touched_def health_ok_def entry_settled_def)

lemma touched_local:
  assumes "timers_linked s" "\<not> is_unknown_peer s n" "get_or_create_entry now n s = (e, s1)"
    "st = Alive \<or> st = Dead"
  shows "touched n s (map_of (hs_entries s) n) (local_entry e st now d)
           [to_snapshot (local_entry e st now d)] (apply_local_status e st now d s1)"
proof -
  note g = get_or_create[OF _ assms(2,3)]
  note l = assms(1)
  have "timers_linked (put_entry (local_entry e st now d) (clear_timeout (hl_deadTimer e) s1))"
    using timers_linked_cleared[OF g(1)[OF l], of n e "local_entry e st now d"] g[OF l] by simp
  then show ?thesis
    using assms(4) g[OF l] by (auto simp: touched_def apply_local_status_eq Let_def entry_settled_def)
qed

lemma touched_local_suspect:
  assumes "health_ok s" "\<not> is_unknown_peer s n" "get_or_create_entry now n s = (e, s1)"
  shows "\<exists>t. touched n s (map_of (hs_entries s) n) ((local_entry e Suspect now d)\<lparr>hl_deadTimer := Some t\<rparr>)
           [to_snapshot (local_entry e Suspect now d)]
           (ensure_suspect_timer n d (apply_local_status e Suspect now d s1))"
proof -
  note g = get_or_create[OF _ assms(2,3)]
  have l: "timers_linked s" using assms(1) by (simp add: health_ok_def)
  let ?e = "local_entry e Suspect now d" and ?s = "apply_local_status e Suspect now d s1"
  have "timers_linked (put_entry ?e (clear_timeout (hl_deadTimer e) s1))"
    using timers_linked_cleared[OF g(1)[OF l], of n e ?e] g[OF l] by simp
  then have s: "timers_linked ?s" by (simp add: apply_local_status_eq Let_def)
  have "map_of (hs_entries ?s) = (map_of (hs_entries s))(n \<mapsto> ?e)"
    using g[OF l] by (auto simp: apply_local_status_eq Let_def)
  then show ?thesis
    using timers_linked_ensure[OF s, of n d] ensure_entries[OF s, of n ?e d] g[OF l]
    by (auto simp: touched_def entry_settled_def apply_local_status_eq Let_def)
qed

lemma touched_rumor:
  assumes "health_ok s" "\<not> is_unknown_peer s (ru_nodeId r)"
    "get_or_create_entry now (ru_nodeId r) s = (e, s1)" "should_apply_rumor e r" "ru_status r \<noteq> Unknown"
  shows "\<exists>t. touched (ru_nodeId r) s (map_of (hs_entries s) (ru_nodeId r))
           ((rumor_entry e r now by)\<lparr>hl_deadTimer := t\<rparr>)
           [to_snapshot (rumor_entry e r now by)] (snd (apply_rumor now r by s))"
proof -
  let ?n = "ru_nodeId r" and ?e = "rumor_entry e r now by"
  note g = get_or_create[OF _ assms(2,3)]
  have l: "timers_linked s" using assms(1) by (simp add: health_ok_def)
  define s2 where "s2 = put_entry ?e (clear_timeout (hl_deadTimer e) s1)"
  have s: "timers_linked s2"
    using timers_linked_cleared[OF g(1)[OF l], of ?n e ?e] g[OF l] by (simp add: s2_def)
  have m: "map_of (hs_entries s2) = (map_of (hs_entries s))(?n \<mapsto> ?e)"
    using g[OF l] by (auto simp: s2_def)
  have f: "hs_known s2 = hs_known s" "hs_listeners s2 = hs_listeners s" "hs_emitted s2 = hs_emitted s"
    using g[OF l] by (simp_all add: s2_def)
  have eq: "snd (apply_rumor now r by s) = health_emit ?e (if ru_status r = Suspect
              then ensure_suspect_timer ?n (Some (''gossip:'' @ by)) s2 else s2)"
    by (simp add: apply_rumor_eq[OF assms(2-4)] s2_def Let_def)
  show ?thesis
  proof (cases "ru_status r = Suspect")
    case True
    then show ?thesis
      using timers_linked_ensure[OF s] ensure_entries[OF s, of ?n ?e] m f
      by (intro exI[of _ "Some (hs_nextTimer s2)"])
         (simp add: eq touched_def entry_settled_def)
  next
    case False
    then show ?thesis using s m f assms(5)
      by (intro exI[of _ None])
         (simp add: eq touched_def entry_settled_def)
  qed
qed

section \<open>Every operation keeps the invariant and never goes back\<close>

text \<open>The key of an entry orders what is known about a node: the incarnation first, then the
  rank of the status. \<open>advances\<close>: the operation refreshed the entry without a snapshot, or
  raised its key and emitted one snapshot of it.\<close>

definition entry_key :: "health_entry \<Rightarrow> int \<times> health_status" where
  "entry_key e = (hl_incarnation e, hl_status e)"

definition advances :: "health_entry option \<Rightarrow> health_entry \<Rightarrow> health_snapshot list \<Rightarrow> bool" where
  "advances e0 e1 snaps \<longleftrightarrow>
     (\<exists>e. e0 = Some e \<and> entry_key e1 = entry_key e \<and> snaps = [])
   \<or> (\<forall>e. e0 = Some e \<longrightarrow> entry_key e < entry_key e1)
     \<and> (\<exists>sn. snaps = [sn] \<and> sn_nodeId sn = hl_nodeId e1 \<and> (sn_incarnation sn, sn_status sn) = entry_key e1)"

lemma advances_local:
  "(\<forall>e'. e0 = Some e' \<longrightarrow> entry_key e' = entry_key e) \<Longrightarrow> advances e0 (local_entry e st now d) [to_snapshot (local_entry e st now d)]"
  "(\<forall>e'. e0 = Some e' \<longrightarrow> entry_key e' = entry_key e) \<Longrightarrow>
   advances e0 ((local_entry e st now d)\<lparr>hl_deadTimer := t\<rparr>) [to_snapshot (local_entry e st now d)]"
  by (auto simp: advances_def entry_key_def to_snapshot_def)

lemma advances_rumor:
  "e0 = None \<or> e0 = Some e \<and> hl_status e \<noteq> Unknown \<Longrightarrow> should_apply_rumor e r \<Longrightarrow>
   advances e0 ((rumor_entry e r now by)\<lparr>hl_deadTimer := t\<rparr>) [to_snapshot (rumor_entry e r now by)]"
  by (auto simp: advances_def entry_key_def to_snapshot_def should_apply_rumor_def less_health_status_def
      split: if_split_asm)

definition good_step :: "string \<Rightarrow> health_store \<Rightarrow> health_store \<Rightarrow> bool" where
  "good_step n s s' \<longleftrightarrow> s' = s \<or> (\<exists>e0 e1 snaps. touched n s e0 e1 snaps s' \<and> advances e0 e1 snaps)"

lemma good_stepI: "touched n s e0 e1 snaps s' \<Longrightarrow> advances e0 e1 snaps \<Longrightarrow> good_step n s s'"
  by (auto simp: good_step_def)

lemma get_or_create_cases:
  assumes "health_ok s" "\<not> is_unknown_peer s n" "get_or_create_entry now n s = (e, s1)"
  obtains "map_of (hs_entries s) n = Some e" "s1 = s" "hl_status e \<noteq> Unknown" "entry_settled e"
  | "map_of (hs_entries s) n = None" "hl_status e = Unknown"
  using assms by (auto simp: get_or_create_entry_def Let_def health_ok_def entry_settled_def split: option.splits)

lemma health_ok_linked [intro]: "health_ok s \<Longrightarrow> timers_linked s"
  by (simp add: health_ok_def)

lemma mark_alive_good: "health_ok s \<Longrightarrow> good_step n s (mark_alive now n d s)"
proof (cases "is_unknown_peer s n")
  case False
  assume ok: "health_ok s"
  obtain e s1 where g: "get_or_create_entry now n s = (e, s1)" by fastforce
  note l = touched_local[OF health_ok_linked[OF ok] False g]
  note node = get_or_create(3)[OF health_ok_linked[OF ok] False g]
  show ?thesis
    using get_or_create_cases[OF ok False g]
  proof cases
    case 1
    let ?e = "e\<lparr>hl_lastAliveAt := Some now, hl_updatedAt := now, hl_detail := d, hl_reportedBy := None\<rparr>"
    have "good_step n s (put_entry ?e s)"
      by (rule good_stepI[OF touched_refresh[OF ok 1(1)]]) (auto simp: node advances_def entry_key_def)
    moreover have "good_step n s (apply_local_status e Alive now d s1)"
      by (rule good_stepI[OF l]) (simp_all add: 1 advances_local)
    ultimately show ?thesis using False 1 g by (simp add: mark_alive_def)
  next
    case 2
    then show ?thesis using False g good_stepI[OF l, of Alive] by (simp add: mark_alive_def advances_local)
  qed
qed (simp add: mark_alive_def good_step_def)

lemma mark_dead_good: "health_ok s \<Longrightarrow> good_step n s (mark_dead now n d s)"
proof (cases "is_unknown_peer s n")
  case False
  assume ok: "health_ok s"
  obtain e s1 where g: "get_or_create_entry now n s = (e, s1)" by fastforce
  note l = touched_local[OF health_ok_linked[OF ok] False g]
  note node = get_or_create(3)[OF health_ok_linked[OF ok] False g]
  show ?thesis
    using get_or_create_cases[OF ok False g]
  proof cases
    case 1
    have "good_step n s (put_entry (e\<lparr>hl_updatedAt := now\<rparr>) s)"
      by (rule good_stepI[OF touched_refresh[OF ok 1(1)]]) (auto simp: node advances_def entry_key_def)
    moreover have "good_step n s (apply_local_status e Dead now d s1)"
      by (rule good_stepI[OF l]) (simp_all add: 1 advances_local)
    ultimately show ?thesis using False 1 g by (simp add: mark_dead_def)
  next
    case 2
    then show ?thesis using False g good_stepI[OF l, of Dead] by (simp add: mark_dead_def advances_local)
  qed
qed (simp add: mark_dead_def good_step_def)

lemma mark_suspect_good: "health_ok s \<Longrightarrow> good_step n s (mark_suspect now n d s)"
proof (cases "is_unknown_peer s n")
  case False
  assume ok: "health_ok s"
  obtain e s1 where g: "get_or_create_entry now n s = (e, s1)" by fastforce
  note node = get_or_create(3)[OF health_ok_linked[OF ok] False g]
  from touched_local_suspect[OF ok False g, of d] obtain t where
    l: "touched n s (map_of (hs_entries s) n) ((local_entry e Suspect now d)\<lparr>hl_deadTimer := Some t\<rparr>)
        [to_snapshot (local_entry e Suspect now d)]
        (ensure_suspect_timer n d (apply_local_status e Suspect now d s1))" by blast
  show ?thesis
    using get_or_create_cases[OF ok False g]
  proof cases
    case 1
    let ?e = "e\<lparr>hl_updatedAt := now, hl_detail := d, hl_reportedBy := None\<rparr>"
    have "good_step n s (ensure_suspect_timer n d (put_entry ?e s))" if "hl_status e = Suspect"
      using that 1(4) good_stepI[OF touched_refresh[OF ok 1(1), of ?e]]
      by (simp add: node advances_def entry_key_def entry_settled_def ensure_suspect_timer_def)
    moreover have "good_step n s (ensure_suspect_timer n d (apply_local_status e Suspect now d s1))"
      by (rule good_stepI[OF l]) (simp add: 1 advances_local)
    ultimately show ?thesis using False 1 g by (simp add: mark_suspect_def)
  next
    case 2
    then show ?thesis using False g good_stepI[OF l] by (simp add: mark_suspect_def advances_local)
  qed
qed (simp add: mark_suspect_def good_step_def)

lemma apply_rumor_good:
  assumes ok: "health_ok s" and st: "ru_status r \<noteq> Unknown"
  shows "good_step (ru_nodeId r) s (snd (apply_rumor now r by s))"
proof (cases "is_unknown_peer s (ru_nodeId r)")
  case False
  obtain e s1 where g: "get_or_create_entry now (ru_nodeId r) s = (e, s1)" by fastforce
  note node = get_or_create(3)[OF health_ok_linked[OF ok] False g]
  show ?thesis
  proof (cases "should_apply_rumor e r")
    case True
    from touched_rumor[OF ok False g True st] obtain t where
      t: "touched (ru_nodeId r) s (map_of (hs_entries s) (ru_nodeId r))
        ((rumor_entry e r now by)\<lparr>hl_deadTimer := t\<rparr>) [to_snapshot (rumor_entry e r now by)]
        (snd (apply_rumor now r by s))" by blast
    have "map_of (hs_entries s) (ru_nodeId r) = None
        \<or> map_of (hs_entries s) (ru_nodeId r) = Some e \<and> hl_status e \<noteq> Unknown"
      by (rule get_or_create_cases[OF ok False g]) auto
    from good_stepI[OF t advances_rumor[OF this True]] show ?thesis .
  next
    case na: False
    have "hl_status e \<noteq> Unknown" using na by (auto simp: should_apply_rumor_def)
    then have "map_of (hs_entries s) (ru_nodeId r) = Some e \<and> s1 = s"
      by (rule_tac get_or_create_cases[OF ok False g]) auto
    then have e: "map_of (hs_entries s) (ru_nodeId r) = Some e" "s1 = s" by auto
    let ?e = "\<lambda>t. e\<lparr>hl_lastAliveAt := Some t, hl_updatedAt := now, hl_source := RemoteSource,
        hl_reportedBy := Some by, hl_detail := Some (''gossip:'' @ by)\<rparr>"
    have "good_step (ru_nodeId r) s (put_entry (?e t) s)" for t
      by (rule good_stepI[OF touched_refresh[OF ok e(1)]]) (auto simp: node advances_def entry_key_def)
    moreover have "snd (apply_rumor now r by s) = s \<or> (\<exists>t. snd (apply_rumor now r by s) = put_entry (?e t) s)"
      unfolding apply_rumor_def g e(2) case_prod_conv Let_def if_not_P[OF False] if_P[OF na] snd_conv
      by (auto split: option.split)
    ultimately show ?thesis by (metis good_step_def)
  qed
qed (simp add: apply_rumor_def good_step_def)

text \<open>The timer of a suspect fires: the entry is dead, one incarnation later.\<close>

lemma fire_timer_armed:
  assumes ok: "health_ok s" and t: "map_of (hs_timers s) t = Some (n, d)"
  obtains e where "map_of (hs_entries s) n = Some e" "hl_deadTimer e = Some t" "hl_status e = Suspect"
    "touched n s (Some e)
       (local_entry (e\<lparr>hl_deadTimer := None\<rparr>) Dead now (Some (case d of Some x \<Rightarrow> x | None \<Rightarrow> ''suspect_timeout'')))
       [to_snapshot (local_entry (e\<lparr>hl_deadTimer := None\<rparr>) Dead now
          (Some (case d of Some x \<Rightarrow> x | None \<Rightarrow> ''suspect_timeout'')))] (fire_timer now t s)"
proof -
  note l = health_ok_linked[OF ok]
  obtain e where e: "map_of (hs_entries s) n = Some e" "hl_deadTimer e = Some t"
    using timers_linked_timerD(2)[OF l t] by blast
  have st: "hl_status e = Suspect" using ok e by (auto simp: health_ok_def entry_settled_def)
  let ?e = "e\<lparr>hl_deadTimer := None\<rparr>" and ?d = "Some (case d of Some x \<Rightarrow> x | None \<Rightarrow> ''suspect_timeout'')"
  define s2 where "s2 = put_entry ?e (clear_timeout (hl_deadTimer e) s)"
  have node: "hl_nodeId e = n" "\<not> is_unknown_peer s n" using timers_linkedD[OF l e(1)] by auto
  have l2: "timers_linked s2" unfolding s2_def by (rule timers_linked_cleared[OF l e(1)]) (simp_all add: node)
  have g: "get_or_create_entry now n s2 = (?e, s2)" by (simp add: get_or_create_entry_def s2_def node)
  have u: "\<not> is_unknown_peer s2 n" using node by (simp add: s2_def)
  have eq: "fire_timer now t s = apply_local_status ?e Dead now ?d s2"
    using st e u g t by (simp add: fire_timer_def mark_dead_def s2_def clear_timeout_def)
  from touched_local[OF l2 u g, of Dead ?d]
  have "touched n s (Some e) (local_entry ?e Dead now ?d) [to_snapshot (local_entry ?e Dead now ?d)] (fire_timer now t s)"
    by (simp add: touched_def eq e node) (simp add: s2_def node)
  with e st show ?thesis by (rule that)
qed

lemma fire_timer_good:
  assumes "health_ok s"
  shows "fire_timer now t s = s \<or> (\<exists>n. good_step n s (fire_timer now t s))"
proof (cases "map_of (hs_timers s) t")
  case (Some p)
  then obtain n d where "map_of (hs_timers s) t = Some (n, d)" by (cases p) auto
  then show ?thesis
    by (rule fire_timer_armed[OF assms, where now = now])
       (intro disjI2 exI[of _ n], erule good_stepI, rule advances_local, simp add: entry_key_def)
qed (simp add: fire_timer_def)

section \<open>Dropping peers\<close>

lemma drop_peer_frame [simp]:
  "hs_known (drop_peer n s) = hs_known s" "hs_emitted (drop_peer n s) = hs_emitted s"
  "hs_listeners (drop_peer n s) = hs_listeners s" "hs_nextTimer (drop_peer n s) = hs_nextTimer s"
  "hs_entries (drop_peer n s) = map_del n (hs_entries s)"
  by (simp_all add: drop_peer_def Let_def clear_timeout_def split: option.split)

lemma drop_peer_known: "drop_peer n (s\<lparr>hs_known := k\<rparr>) = (drop_peer n s)\<lparr>hs_known := k\<rparr>"
  by (simp add: drop_peer_def Let_def clear_timeout_def split: option.split)

lemma linked_timer_inj:
  assumes "timers_linked s" "map_of (hs_entries s) n = Some e" "map_of (hs_entries s) m = Some f"
    "hl_deadTimer e = Some t" "hl_deadTimer f = Some t"
  shows "m = n"
  using timers_linkedD(3)[OF assms(1,2,4)] timers_linkedD(3)[OF assms(1,3,5)] by auto

lemma drop_peer_ok:
  assumes "health_ok s"
  shows "health_ok (drop_peer n s)"
proof (cases "map_of (hs_entries s) n")
  case None
  then show ?thesis using assms by (simp add: drop_peer_def map_del_absent)
next
  case (Some e)
  note l = health_ok_linked[OF assms]
  have t: "hs_timers (drop_peer n s) = hs_timers (clear_timeout (hl_deadTimer e) s)"
    by (simp add: drop_peer_def Some Let_def)
  have timer: "map_of (hs_timers (drop_peer n s)) i = Some (m, d) \<longleftrightarrow>
      map_of (hs_timers s) i = Some (m, d) \<and> m \<noteq> n" for i m d
    using timers_linked_timerD(2)[OF l, of i m d] timers_linkedD(3)[OF l Some] Some
    by (cases "hl_deadTimer e") (auto simp: t)
  have "wf_map (hs_timers (drop_peer n s))"
    using l by (cases "hl_deadTimer e") (simp_all add: t timers_linked_def)
  moreover have "is_unknown_peer (drop_peer n s) m = is_unknown_peer s m" for m
    by (simp add: is_unknown_peer_def)
  ultimately show ?thesis
    using assms unfolding health_ok_def timers_linked_def timer by simp
qed

lemma drop_peers_ok:
  "health_ok (s\<lparr>hs_known := k\<rparr>) \<Longrightarrow>
   health_ok ((foldl (\<lambda>st n. if P n then st else drop_peer n st) s ns)\<lparr>hs_known := k\<rparr>)"
proof (induction ns arbitrary: s)
  case (Cons n ns)
  have "health_ok ((drop_peer n s)\<lparr>hs_known := k\<rparr>)"
    using drop_peer_ok[OF Cons.prems, of n] by (simp add: drop_peer_known)
  then show ?case using Cons by simp
qed simp

lemma drop_peers_frame:
  "let s' = foldl (\<lambda>st n. if P n then st else drop_peer n st) s ns in
     hs_known s' = hs_known s \<and> hs_emitted s' = hs_emitted s \<and> hs_listeners s' = hs_listeners s
     \<and> map_of (hs_entries s') = (\<lambda>n. if n \<in> set ns \<and> \<not> P n then None else map_of (hs_entries s) n)"
proof (induction ns arbitrary: s)
  case (Cons n ns)
  show ?case using Cons[of s] Cons[of "drop_peer n s"] by (auto simp: Let_def)
qed simp

lemma note_known_entries:
  "map_of (hs_entries (note_known_peers ids s)) n = (if n \<in> set ids then map_of (hs_entries s) n else None)"
  using drop_peers_frame[of "\<lambda>n. n \<in> set ids" "s\<lparr>hs_known := Some (js_unique ids)\<rparr>" "map_keys (hs_entries s)"]
  by (auto simp: note_known_peers_def Let_def map_of_eq_None_iff)

lemma note_known_frame:
  "hs_known (note_known_peers ids s) = Some (js_unique ids)"
  "hs_emitted (note_known_peers ids s) = hs_emitted s"
  "hs_listeners (note_known_peers ids s) = hs_listeners s"
  using drop_peers_frame[of "\<lambda>n. n \<in> set ids" "s\<lparr>hs_known := Some (js_unique ids)\<rparr>" "map_keys (hs_entries s)"]
  by (auto simp: note_known_peers_def Let_def)

lemma health_ok_weaken: "health_ok s \<Longrightarrow> health_ok (s\<lparr>hs_known := None\<rparr>)"
  by (simp add: health_ok_def timers_linked_def is_unknown_peer_def)

lemma health_ok_known:
  "health_ok (s\<lparr>hs_known := None\<rparr>) \<Longrightarrow> (\<And>n. map_of (hs_entries s) n \<noteq> None \<Longrightarrow> \<not> is_unknown_peer s n) \<Longrightarrow> health_ok s"
  by (auto simp: health_ok_def timers_linked_def)

lemma note_known_ok:
  assumes "health_ok s"
  shows "health_ok (note_known_peers ids s)"
proof (rule health_ok_known)
  show "health_ok ((note_known_peers ids s)\<lparr>hs_known := None\<rparr>)"
    unfolding note_known_peers_def Let_def
    by (rule drop_peers_ok) (simp add: health_ok_weaken[OF assms])
  show "map_of (hs_entries (note_known_peers ids s)) n \<noteq> None \<Longrightarrow> \<not> is_unknown_peer (note_known_peers ids s) n" for n
    by (simp add: note_known_entries is_unknown_peer_def note_known_frame split: if_split_asm)
qed

lemma clear_all_timers:
  "map_of (hs_timers (foldl (\<lambda>st (_, e). clear_timeout (hl_deadTimer e) st) s es)) t =
     (if Some t \<in> (\<lambda>(_, e). hl_deadTimer e) ` set es then None else map_of (hs_timers s) t)"
proof (induction es arbitrary: s)
  case (Cons p es)
  obtain k e where p: "p = (k, e)" by fastforce
  show ?case
    using Cons[of "clear_timeout (hl_deadTimer e) s"]
    by (cases "hl_deadTimer e") (auto simp: p image_iff split: if_split_asm)
qed simp

lemma dispose_ok:
  assumes "health_ok s"
  shows "health_ok (health_dispose s)"
proof -
  note l = health_ok_linked[OF assms]
  let ?s = "foldl (\<lambda>st (_, e). clear_timeout (hl_deadTimer e) st) s (hs_entries s)"
  have "map_of (hs_timers ?s) t = None" for t
  proof (cases "map_of (hs_timers s) t")
    case (Some p)
    then obtain n d where "map_of (hs_timers s) t = Some (n, d)" by (cases p) auto
    from timers_linked_timerD(2)[OF l this] obtain e where
      "map_of (hs_entries s) n = Some e" "hl_deadTimer e = Some t" by blast
    then have "Some t \<in> (\<lambda>(_, e). hl_deadTimer e) ` set (hs_entries s)"
      by (force dest: map_of_SomeD)
    then show ?thesis by (simp add: clear_all_timers)
  qed (simp add: clear_all_timers)
  then have "hs_timers ?s = []" by (cases "hs_timers ?s") (auto, metis option.distinct(1) prod.exhaust)
  then show ?thesis by (simp add: health_dispose_def health_ok_def timers_linked_def)
qed

lemma subscribe_ok: "health_ok s \<Longrightarrow> health_ok (health_subscribe l s)"
  "health_ok s \<Longrightarrow> health_ok (health_unsubscribe l s)"
  by (simp_all add: health_ok_def timers_linked_def health_subscribe_def health_unsubscribe_def
      is_unknown_peer_def)

lemma good_step_ok: "health_ok s \<Longrightarrow> good_step n s s' \<Longrightarrow> health_ok s'"
  by (auto simp: good_step_def intro: touched_ok)

lemma health_step_ok: "health_ok s \<Longrightarrow> health_op_ok op \<Longrightarrow> health_ok (health_step op s)"
  using fire_timer_good[of s]
  by (cases op) (auto intro: note_known_ok dispose_ok subscribe_ok good_step_ok[OF _ mark_alive_good]
      good_step_ok[OF _ mark_dead_good] good_step_ok[OF _ mark_suspect_good]
      good_step_ok[OF _ apply_rumor_good], metis good_step_ok)

lemma health_init_ok: "health_ok new_health_store"
  by (simp add: new_health_store_def health_ok_def timers_linked_def)

lemma reachable_ok: "health_reachable s \<Longrightarrow> health_ok s"
  by (induction rule: health_reachable.induct) (simp_all add: health_init_ok health_step_ok)

lemma good_step_key:
  assumes "good_step n' s s'" "map_of (hs_entries s) n = Some e" "map_of (hs_entries s') n = Some e'"
    "timers_linked s'"
  shows "entry_key e \<le> entry_key e'"
    "entry_key e < entry_key e' \<Longrightarrow> \<exists>sn. hs_emitted s' = hs_emitted s @ map (\<lambda>l. (l, sn)) (hs_listeners s)
       \<and> sn_nodeId sn = n \<and> (sn_incarnation sn, sn_status sn) = entry_key e'"
  using assms timers_linkedD(1)[OF assms(4,3)]
  by (auto simp: good_step_def touched_def advances_def split: if_split_asm)

lemma health_step_cases:
  assumes "health_ok s" "health_op_ok op"
  obtains m where "good_step m s (health_step op s)"
  | "\<And>n e. map_of (hs_entries (health_step op s)) n = Some e \<Longrightarrow> map_of (hs_entries s) n = Some e"
proof (cases op)
  case (NoteKnownPeers ids)
  show ?thesis by (rule that(2)) (simp add: NoteKnownPeers note_known_entries split: if_split_asm)
next
  case (FireTimer now t)
  show ?thesis using fire_timer_good[OF assms(1), of now t] that(1) FireTimer by (auto simp: good_step_def)
next
  case (ApplyRumor now r "by")
  then show ?thesis using assms that(1) apply_rumor_good[OF assms(1), of r now "by"] by simp
next
  case (MarkAlive now n d)
  then show ?thesis using that(1)[of n] mark_alive_good[OF assms(1), of n now d] by simp
next
  case (MarkSuspect now n d)
  then show ?thesis using that(1)[of n] mark_suspect_good[OF assms(1), of n now d] by simp
next
  case (MarkDead now n d)
  then show ?thesis using that(1)[of n] mark_dead_good[OF assms(1), of n now d] by simp
qed (rule that(2), simp add: health_subscribe_def health_unsubscribe_def health_dispose_def split: if_split_asm)+

section \<open>Gossip\<close>

text \<open>A list of rumors, each with the clock reading and the reporter, taken in that order.\<close>

definition apply_rumors :: "(int \<times> health_rumor \<times> string) list \<Rightarrow> health_store \<Rightarrow> health_store" where
  "apply_rumors rs s = foldl (\<lambda>st (now, r, by). snd (apply_rumor now r by st)) s rs"

definition rumor_keys :: "string \<Rightarrow> (int \<times> health_rumor \<times> string) list \<Rightarrow> (int \<times> health_status) set" where
  "rumor_keys n rs = set (map (\<lambda>(_, r, _). (ru_incarnation r, ru_status r))
     (filter (\<lambda>(_, r, _). ru_nodeId r = n) rs))"

lemma rumor_keys_snoc:
  "rumor_keys n (rs @ [(now, r, by)]) =
     (if ru_nodeId r = n then insert (ru_incarnation r, ru_status r) (rumor_keys n rs) else rumor_keys n rs)"
  by (simp add: rumor_keys_def)

lemma finite_rumor_keys [simp]: "finite (rumor_keys n rs)"
  by (simp add: rumor_keys_def)

lemma rumor_fresh:
  assumes "health_ok s" "\<not> is_unknown_peer s (ru_nodeId r)" "ru_status r \<noteq> Unknown"
    "map_of (hs_entries s) (ru_nodeId r) = None"
  shows "\<exists>e. map_of (hs_entries (snd (apply_rumor now r by s))) (ru_nodeId r) = Some e
           \<and> hl_source e = RemoteSource \<and> entry_key e = (ru_incarnation r, ru_status r)"
proof -
  obtain e s1 where g: "get_or_create_entry now (ru_nodeId r) s = (e, s1)" by fastforce
  have "should_apply_rumor e r"
    using get_or_create(9)[OF health_ok_linked[OF assms(1)] assms(2) g] assms(4) by (simp add: should_apply_rumor_def)
  from touched_rumor[OF assms(1,2) g this assms(3), of "by"] show ?thesis
    by (auto simp: touched_def entry_key_def)
qed

lemma rumor_remote:
  assumes "health_ok s" "ru_status r \<noteq> Unknown"
    "map_of (hs_entries s) (ru_nodeId r) = Some e" "hl_source e = RemoteSource"
  shows "\<exists>e'. map_of (hs_entries (snd (apply_rumor now r by s))) (ru_nodeId r) = Some e'
           \<and> hl_source e' = RemoteSource \<and> entry_key e' = max (entry_key e) (ru_incarnation r, ru_status r)"
proof -
  note l = health_ok_linked[OF assms(1)]
  have k: "\<not> is_unknown_peer s (ru_nodeId r)" "hl_nodeId e = ru_nodeId r"
    using timers_linkedD[OF l assms(3)] by auto
  have g: "get_or_create_entry now (ru_nodeId r) s = (e, s)" by (simp add: get_or_create_entry_def assms)
  have st: "hl_status e \<noteq> Unknown" using assms(1,3) by (auto simp: health_ok_def entry_settled_def)
  have app: "should_apply_rumor e r \<longleftrightarrow> entry_key e < (ru_incarnation r, ru_status r)"
    using st assms(4) by (auto simp: should_apply_rumor_def entry_key_def less_health_status_def)
  show ?thesis
  proof (cases "should_apply_rumor e r")
    case True
    from touched_rumor[OF assms(1) k(1) g True assms(2), of "by"] show ?thesis
      using app True by (auto simp: touched_def entry_key_def max_def dest: less_imp_le)
  next
    case False
    then have "max (entry_key e) (ru_incarnation r, ru_status r) = entry_key e" using app by (simp add: max_def)
    then show ?thesis using False g k assms(3,4)
      by (auto simp: apply_rumor_def entry_key_def split: option.split)
  qed
qed

lemma rumor_other:
  "health_ok s \<Longrightarrow> ru_status r \<noteq> Unknown \<Longrightarrow> n \<noteq> ru_nodeId r \<Longrightarrow>
   map_of (hs_entries (snd (apply_rumor now r by s))) n = map_of (hs_entries s) n"
  using apply_rumor_good[of s r now "by"] by (auto simp: good_step_def touched_def)

lemma rumor_known: "is_unknown_peer (snd (apply_rumor now r by s)) n = is_unknown_peer s n"
  if "health_ok s" "ru_status r \<noteq> Unknown"
  using apply_rumor_good[OF that, of now "by"] by (auto simp: good_step_def touched_def is_unknown_peer_def)

lemma apply_rumors_max:
  assumes "health_ok s" "\<not> is_unknown_peer s n" "map_of (hs_entries s) n = None"
    "\<forall>x\<in>set rs. ru_status (fst (snd x)) \<noteq> Unknown"
  shows "health_ok (apply_rumors rs s) \<and> \<not> is_unknown_peer (apply_rumors rs s) n \<and>
    (case map_of (hs_entries (apply_rumors rs s)) n of
       None \<Rightarrow> rumor_keys n rs = {}
     | Some e \<Rightarrow> hl_source e = RemoteSource \<and> rumor_keys n rs \<noteq> {} \<and> entry_key e = Max (rumor_keys n rs))"
  using assms(4)
proof (induction rs rule: rev_induct)
  case Nil
  show ?case using assms by (simp add: apply_rumors_def rumor_keys_def)
next
  case (snoc x rs)
  obtain now r "by" where x: "x = (now, r, by)" by (cases x)
  let ?s = "apply_rumors rs s"
  have ih: "health_ok ?s" "\<not> is_unknown_peer ?s n" and st: "ru_status r \<noteq> Unknown"
    and c: "case map_of (hs_entries ?s) n of None \<Rightarrow> rumor_keys n rs = {}
     | Some e \<Rightarrow> hl_source e = RemoteSource \<and> rumor_keys n rs \<noteq> {} \<and> entry_key e = Max (rumor_keys n rs)"
    using snoc by (auto simp: x)
  have eq: "apply_rumors (rs @ [x]) s = snd (apply_rumor now r by ?s)" by (simp add: apply_rumors_def x)
  have ok: "health_ok (apply_rumors (rs @ [x]) s)"
    unfolding eq by (rule good_step_ok[OF ih(1) apply_rumor_good[OF ih(1) st]])
  have keys: "rumor_keys n (rs @ [x]) =
      (if ru_nodeId r = n then insert (ru_incarnation r, ru_status r) (rumor_keys n rs) else rumor_keys n rs)"
    unfolding x by (rule rumor_keys_snoc)
  have unk: "\<not> is_unknown_peer (apply_rumors (rs @ [x]) s) n" using ih st by (simp add: eq rumor_known)
  show ?case
  proof (cases "ru_nodeId r = n")
    case False
    then show ?thesis using ok unk ih c st by (simp add: eq keys rumor_other split: option.splits)
  next
    case True
    show ?thesis
    proof (cases "map_of (hs_entries ?s) n")
      case None
      then show ?thesis using ok unk ih c st rumor_fresh[of ?s r now "by"] keys True
        by (auto simp: eq)
    next
      case (Some e)
      with c have ne: "rumor_keys n rs \<noteq> {}" and c': "hl_source e = RemoteSource" "entry_key e = Max (rumor_keys n rs)"
        by auto
      have "Max (rumor_keys n (rs @ [x])) = max (Max (rumor_keys n rs)) (ru_incarnation r, ru_status r)"
        using ne True by (simp add: keys max.commute)
      with rumor_remote[OF ih(1) st, of e now "by"] Some c' True obtain e' where
        "map_of (hs_entries (apply_rumors (rs @ [x]) s)) n = Some e'" "hl_source e' = RemoteSource"
        "entry_key e' = Max (rumor_keys n (rs @ [x]))" by (auto simp: eq)
      then show ?thesis using ok unk keys True by simp
    qed
  qed
qed

section \<open>Properties\<close>

text \<open>C7: In every store reached from a fresh one the invariant holds: entries are filed once
  per known peer under their own id, and a peer is suspect exactly when one, and only one,
  suspicion timer is armed for it.\<close>

theorem health_reachable_invariant:
  "health_reachable s \<Longrightarrow> health_ok s \<and>
     (get_status s n = Suspect \<longleftrightarrow> (\<exists>!t. \<exists>d. map_of (hs_timers s) t = Some (n, d)))"
proof -
  assume r: "health_reachable s"
  note ok = reachable_ok[OF r] and l = health_ok_linked[OF reachable_ok[OF r]]
  have "get_status s n = Suspect \<longleftrightarrow> (\<exists>e t. map_of (hs_entries s) n = Some e \<and> hl_deadTimer e = Some t)"
    using ok by (auto simp: get_status_def health_ok_def entry_settled_def split: option.splits)
  also have "\<dots> \<longleftrightarrow> (\<exists>!t. \<exists>d. map_of (hs_timers s) t = Some (n, d))" (is "?E \<longleftrightarrow> ?U")
  proof
    assume ?E
    then obtain e t where e: "map_of (hs_entries s) n = Some e" "hl_deadTimer e = Some t" by blast
    show ?U
      using timers_linkedD(3)[OF l e] timers_linked_timerD(2)[OF l] e
      by (intro ex1I[of _ t]) fastforce+
  next
    assume ?U
    then obtain t d where "map_of (hs_timers s) t = Some (n, d)" by blast
    from timers_linked_timerD(2)[OF l this] show ?E by blast
  qed
  finally show ?thesis using ok by simp
qed

definition health_example :: health_store where
  "health_example = health_step (MarkSuspect 10 ''b'' None) (health_step (NoteKnownPeers [''b'', ''c'']) new_health_store)"

lemma health_example_reachable: "health_reachable health_example"
  unfolding health_example_def by (intro health_reachable.intros) simp_all

theorem health_reachable_invariant_witness:
  "health_ok health_example \<and>
     (get_status health_example ''b'' = Suspect \<longleftrightarrow> (\<exists>!t. \<exists>d. map_of (hs_timers health_example) t = Some (''b'', d)))"
  by (rule health_reachable_invariant[OF health_example_reachable])

text \<open>C11: What is known about a peer never goes back. Across any operation of a reachable store after which the peer
  still has its entry (a probe or a suspicion of the node itself, a rumor whose status is not unknown, a timer, another
  set of known peers), the pair of incarnation and status, in lexicographic order, does not decrease, and when it
  grows every listener is handed exactly one snapshot of that peer, with the new pair.\<close>

theorem health_never_goes_back:
  "health_reachable s \<Longrightarrow> health_op_ok op \<Longrightarrow> map_of (hs_entries s) n = Some e \<Longrightarrow>
   map_of (hs_entries (health_step op s)) n = Some e' \<Longrightarrow>
   entry_key e \<le> entry_key e' \<and>
   (entry_key e < entry_key e' \<longrightarrow>
     (\<exists>sn. hs_emitted (health_step op s) = hs_emitted s @ map (\<lambda>l. (l, sn)) (hs_listeners s)
        \<and> sn_nodeId sn = n \<and> (sn_incarnation sn, sn_status sn) = entry_key e'))"
proof -
  assume r: "health_reachable s" and op: "health_op_ok op" and e: "map_of (hs_entries s) n = Some e"
    and e': "map_of (hs_entries (health_step op s)) n = Some e'"
  note ok = reachable_ok[OF r] and l = health_ok_linked[OF health_step_ok[OF reachable_ok[OF r] op]]
  from health_step_cases[OF ok op] show ?thesis
    using good_step_key[OF _ e e' l] e e' by fastforce
qed

theorem health_never_goes_back_witness:
  "let e = the (map_of (hs_entries health_example) ''b'');
       e' = the (map_of (hs_entries (health_step (FireTimer 20 0) health_example)) ''b'')
   in entry_key e \<le> entry_key e' \<and> hl_status e' = Dead"
proof -
  let ?e = "the (map_of (hs_entries health_example) ''b'')"
  let ?e' = "the (map_of (hs_entries (health_step (FireTimer 20 0) health_example)) ''b'')"
  have "map_of (hs_entries health_example) ''b'' = Some ?e" by code_simp
  moreover have "map_of (hs_entries (health_step (FireTimer 20 0) health_example)) ''b'' = Some ?e'" by code_simp
  moreover have "hl_status ?e' = Dead" by code_simp
  ultimately show ?thesis
    using health_never_goes_back[OF health_example_reachable, of "FireTimer 20 0" "''b''" ?e ?e'] by simp
qed

text \<open>A suspicion ends. In a reachable store a suspect peer has an armed timer whose
  callback makes the peer dead, one incarnation later, disarms the timer, tells every listener
  and leaves every other peer as it was.\<close>

theorem suspect_times_out:
  "health_reachable s \<Longrightarrow> map_of (hs_entries s) n = Some e \<Longrightarrow> hl_status e = Suspect \<Longrightarrow>
   \<exists>t d e' sn. map_of (hs_timers s) t = Some (n, d) \<and>
     map_of (hs_entries (fire_timer now t s)) = (map_of (hs_entries s))(n \<mapsto> e') \<and>
     hl_status e' = Dead \<and> hl_incarnation e' = hl_incarnation e + 1 \<and> hl_deadTimer e' = None \<and>
     sn_status sn = Dead \<and> sn_nodeId sn = n \<and>
     hs_emitted (fire_timer now t s) = hs_emitted s @ map (\<lambda>l. (l, sn)) (hs_listeners s)"
proof -
  assume r: "health_reachable s" and e: "map_of (hs_entries s) n = Some e" and st: "hl_status e = Suspect"
  note ok = reachable_ok[OF r] and l = health_ok_linked[OF reachable_ok[OF r]]
  obtain t where t: "hl_deadTimer e = Some t" using ok e st by (auto simp: health_ok_def entry_settled_def)
  obtain d where d: "map_of (hs_timers s) t = Some (n, d)" using timers_linkedD(3)[OF l e t] by blast
  note n = timers_linkedD(1)[OF l e]
  let ?d = "Some (case d of Some x \<Rightarrow> x | None \<Rightarrow> ''suspect_timeout'')"
  let ?e = "local_entry (e\<lparr>hl_deadTimer := None\<rparr>) Dead now ?d"
  have "touched n s (Some e) ?e [to_snapshot ?e] (fire_timer now t s)"
    by (rule fire_timer_armed[OF ok d, where now = now]) (use e in auto)
  then show ?thesis using d n
    by (intro exI[of _ t] exI[of _ d] exI[of _ ?e] exI[of _ "to_snapshot ?e"])
       (simp add: touched_def to_snapshot_def)
qed

theorem suspect_times_out_witness:
  "\<exists>t d e' sn. map_of (hs_timers health_example) t = Some (''b'', d) \<and>
     map_of (hs_entries (fire_timer 99 t health_example)) = (map_of (hs_entries health_example))(''b'' \<mapsto> e') \<and>
     hl_status e' = Dead \<and>
     hl_incarnation e' = hl_incarnation (the (map_of (hs_entries health_example) ''b'')) + 1 \<and>
     hl_deadTimer e' = None \<and> sn_status sn = Dead \<and> sn_nodeId sn = ''b'' \<and>
     hs_emitted (fire_timer 99 t health_example) = hs_emitted health_example @ map (\<lambda>l. (l, sn)) (hs_listeners health_example)"
proof (rule suspect_times_out[OF health_example_reachable])
  show "map_of (hs_entries health_example) ''b'' = Some (the (map_of (hs_entries health_example) ''b''))" by code_simp
  show "hl_status (the (map_of (hs_entries health_example) ''b'')) = Suspect" by code_simp
qed

text \<open>C8: Gossip converges. A node that knows a peer may exist but has no entry for it yet, and that from then on hears of
  that peer only by rumors of a status other than unknown (no probe of its own, no timer and no change of the known
  peers in between), in any order, duplicated or interleaved with rumors of other peers, ends with the
  lexicographically largest incarnation and status among the rumors of that peer; so two such nodes that heard the same
  set of rumors about it agree.\<close>

theorem gossip_converges:
  "health_reachable s \<Longrightarrow> \<not> is_unknown_peer s n \<Longrightarrow> map_of (hs_entries s) n = None \<Longrightarrow>
   health_reachable s' \<Longrightarrow> \<not> is_unknown_peer s' n \<Longrightarrow> map_of (hs_entries s') n = None \<Longrightarrow>
   \<forall>x\<in>set rs \<union> set rs'. ru_status (fst (snd x)) \<noteq> Unknown \<Longrightarrow>
   rumor_keys n rs = rumor_keys n rs' \<Longrightarrow>
   map_option entry_key (map_of (hs_entries (apply_rumors rs s)) n) =
     (if rumor_keys n rs = {} then None else Some (Max (rumor_keys n rs)))
   \<and> map_option entry_key (map_of (hs_entries (apply_rumors rs s)) n) =
     map_option entry_key (map_of (hs_entries (apply_rumors rs' s')) n)"
  using apply_rumors_max[OF reachable_ok, of s n rs] apply_rumors_max[OF reachable_ok, of s' n rs']
  by (auto split: option.splits)

definition gossip_example :: "(int \<times> health_rumor \<times> string) list" where
  "gossip_example =
    [(5, \<lparr>ru_nodeId = ''b'', ru_status = Suspect, ru_incarnation = 2, ru_lastAliveAt = None\<rparr>, ''c''),
     (6, \<lparr>ru_nodeId = ''b'', ru_status = Alive, ru_incarnation = 1, ru_lastAliveAt = None\<rparr>, ''d'')]"

theorem gossip_converges_witness:
  "map_option entry_key (map_of (hs_entries (apply_rumors gossip_example new_health_store)) ''b'') = Some (2, Suspect)
   \<and> map_option entry_key (map_of (hs_entries (apply_rumors (rev gossip_example) new_health_store)) ''b'') = Some (2, Suspect)"
proof -
  have r: "map_of (hs_entries new_health_store) ''b'' = None" "\<not> is_unknown_peer new_health_store ''b''"
    by (simp_all add: new_health_store_def is_unknown_peer_def)
  have "(1, Alive) < (2::int, Suspect)" by simp
  then have k: "rumor_keys ''b'' gossip_example = {(2, Suspect), (1, Alive)}" "Max {(2::int, Suspect), (1, Alive)} = (2, Suspect)"
    "rumor_keys ''b'' (rev gossip_example) = rumor_keys ''b'' gossip_example"
    by (auto simp: rumor_keys_def gossip_example_def max_def)
  have st: "\<forall>x\<in>set gossip_example \<union> set (rev gossip_example). ru_status (fst (snd x)) \<noteq> Unknown"
    by (simp add: gossip_example_def)
  note g = gossip_converges[OF health_reachable.init r(2,1) health_reachable.init r(2,1) st k(3)[symmetric]]
  have "map_option entry_key (map_of (hs_entries (apply_rumors gossip_example new_health_store)) ''b'') = Some (2, Suspect)"
    using conjunct1[OF g] unfolding k by simp
  then show ?thesis using conjunct2[OF g] by (simp only: simp_thms)
qed

text \<open>A local suspicion overrides the death of a peer: marking a dead peer suspect makes it
  suspect again, with a higher incarnation that every other node then takes over, and arms a new
  timer. (Nothing in the store makes death hold until a fresh sign of life.)\<close>

theorem mark_suspect_revives_dead:
  "health_reachable s \<Longrightarrow> map_of (hs_entries s) n = Some e \<Longrightarrow> hl_status e = Dead \<Longrightarrow>
   \<exists>e' t. map_of (hs_entries (mark_suspect now n d s)) n = Some e' \<and> hl_status e' = Suspect \<and>
      hl_incarnation e' = hl_incarnation e + 1 \<and> hl_deadTimer e' = Some t"
proof -
  assume r: "health_reachable s" and e: "map_of (hs_entries s) n = Some e" and st: "hl_status e = Dead"
  note ok = reachable_ok[OF r]
  have k: "\<not> is_unknown_peer s n" using timers_linkedD(2)[OF health_ok_linked[OF ok] e] .
  have g: "get_or_create_entry now n s = (e, s)" by (simp add: get_or_create_entry_def e)
  from touched_local_suspect[OF ok k g, of d] show ?thesis
    using k g st by (auto simp: mark_suspect_def touched_def)
qed

theorem mark_suspect_revives_dead_witness:
  "let s = health_step (FireTimer 20 0) health_example in
   get_status s ''b'' = Dead \<and> get_status (mark_suspect 30 ''b'' None s) ''b'' = Suspect"
proof -
  let ?s = "health_step (FireTimer 20 0) health_example"
  have r: "health_reachable ?s" by (rule health_reachable.step[OF health_example_reachable]) simp
  have "map_of (hs_entries ?s) ''b'' = Some (the (map_of (hs_entries ?s) ''b''))" by code_simp
  moreover have "hl_status (the (map_of (hs_entries ?s) ''b'')) = Dead" by code_simp
  moreover have "get_status ?s ''b'' = Dead" by code_simp
  ultimately show ?thesis
    using mark_suspect_revives_dead[OF r, of "''b''" "the (map_of (hs_entries ?s) ''b'')" 30 None]
    by (auto simp: get_status_def Let_def)
qed

end
