(* ===== verification/Cluster_Outbound.thy ===== *)
theory Cluster_Outbound
  imports Cluster_Health Ws_Ingress
begin

text \<open>One socket between two nodes (src/src/runtime/cluster/network.ts, class
  StaticClusterNetwork, from getOutboundQueue to sendMessage), and the messages that go over it
  (src/src/runtime/cluster/schema.ts).

  The WeakMaps keyed by socket are the fields of a \<open>csock\<close>; a message waits together with a tag \<open>'k\<close>
  that says whose promise it settles. The socket answers in ways the code does not choose: a
  \<open>csock_env\<close> answers by the number of questions asked so far. \<open>sendMessage\<close> may sleep until there
  is room; every turn of it is one call of \<open>c_send_message\<close>, which says how to go on.\<close>

section \<open>Messages and configuration\<close>

datatype cluster_msg =
    Hello string "string option"
  | HelloAck string
  | CPing int
  | CPong int
  | PeerHealthRumor health_rumor
  | PeerHealthDigest "health_rumor list"
  | PeerHealthRepairRequest "string list"
  | PeerHealthSync "health_rumor list"
  | Deliver string deliver_payload
  | DeliverResult string "conn_ref list" "string option"
  | HandleAckMsg string conn_ref string "string option"
  | HandleAckResult string bool "string option"

record cluster_config =
  cc_nodeId :: string
  cc_sharedSecret :: "string option"
  cc_requestTimeoutMs :: int
  cc_outboundMaxQueueMessages :: int
  cc_outboundMaxQueueBytes :: int
  cc_outboundBackpressureRetryMs :: int
  cc_peerProbeIntervalMs :: int
  cc_peerPingTimeoutMs :: int
  cc_peerAntiEntropyIntervalMs :: int
  cc_ws :: bool
  cc_bytes :: "cluster_msg \<Rightarrow> nat"

record cluster_options =
  co_nodeId :: string
  co_sharedSecret :: "string option"
  co_requestTimeoutMs :: "int option"
  co_outboundMaxQueueMessages :: "int option"
  co_outboundMaxQueueBytes :: "int option"
  co_outboundBackpressureRetryMs :: "int option"
  co_peerProbeIntervalMs :: "int option"
  co_peerPingTimeoutMs :: "int option"
  co_peerAntiEntropyIntervalMs :: "int option"
  co_ws :: "bool option"

definition cluster_config_of :: "(cluster_msg \<Rightarrow> nat) \<Rightarrow> cluster_options \<Rightarrow> cluster_config" where
  "cluster_config_of bytes opts = \<lparr>cc_nodeId = co_nodeId opts, cc_sharedSecret = co_sharedSecret opts,
     cc_requestTimeoutMs = opt_default (co_requestTimeoutMs opts) 10000,
     cc_outboundMaxQueueMessages = opt_default (co_outboundMaxQueueMessages opts) 16384,
     cc_outboundMaxQueueBytes = opt_default (co_outboundMaxQueueBytes opts) (8 * 1024 * 1024),
     cc_outboundBackpressureRetryMs = opt_default (co_outboundBackpressureRetryMs opts) 10,
     cc_peerProbeIntervalMs = opt_default (co_peerProbeIntervalMs opts) 2000,
     cc_peerPingTimeoutMs = opt_default (co_peerPingTimeoutMs opts) 1000,
     cc_peerAntiEntropyIntervalMs = opt_default (co_peerAntiEntropyIntervalMs opts) 15000,
     cc_ws = opt_default (co_ws opts) False, cc_bytes = bytes\<rparr>"

section \<open>A socket\<close>

datatype cluster_event = CSent cluster_msg send_result | CClosed int string

record 'k csock =
  cs_queue :: "('k \<times> cluster_msg \<times> nat) list"
  cs_queuedBytes :: int
  cs_drainTimer :: bool
  cs_drainScheduled :: bool
  cs_settled :: "('k \<times> cluster_msg \<times> string option) list"
  cs_log :: "cluster_event list"
  cs_clock :: nat

definition new_csock :: "'k csock" where
  "new_csock = \<lparr>cs_queue = [], cs_queuedBytes = 0, cs_drainTimer = False, cs_drainScheduled = False,
     cs_settled = [], cs_log = [], cs_clock = 0\<rparr>"

record csock_env =
  ce_closed :: "nat \<Rightarrow> bool"
  ce_send :: "nat \<Rightarrow> send_result"

definition c_close :: "int \<Rightarrow> string \<Rightarrow> 'k csock \<Rightarrow> 'k csock" where
  "c_close code reason s = s\<lparr>cs_log := cs_log s @ [CClosed code reason]\<rparr>"

text \<open>Settle the promise of a message: resolved (\<open>None\<close>) or rejected with an error text.\<close>

definition c_settle :: "'k \<Rightarrow> cluster_msg \<Rightarrow> string option \<Rightarrow> 'k csock \<Rightarrow> 'k csock" where
  "c_settle k m err s = s\<lparr>cs_settled := cs_settled s @ [(k, m, err)]\<rparr>"

definition c_try_send_now :: "csock_env \<Rightarrow> cluster_msg \<Rightarrow> 'k csock \<Rightarrow> (string + bool) \<times> 'k csock" where
  "c_try_send_now env m s =
    (if ce_closed env (cs_clock s) then (Inl ''Cluster socket is closed'', s\<lparr>cs_clock := cs_clock s + 1\<rparr>)
     else (let r = ce_send env (cs_clock s + 1);
               s1 = s\<lparr>cs_clock := cs_clock s + 2, cs_log := cs_log s @ [CSent m r]\<rparr>
           in case r of
                SendThrew msg \<Rightarrow> (Inl msg, s1)
              | Returned status \<Rightarrow>
                  if status = Some (-1) then (Inr False, s1)
                  else if status = Some 0 then (Inl ''Cluster socket send dropped by runtime'', s1)
                  else (Inr True, s1)))"

definition c_schedule_drain :: "'k csock \<Rightarrow> 'k csock" where
  "c_schedule_drain s = s\<lparr>cs_drainScheduled := True\<rparr>"

definition c_schedule_drain_retry :: "'k csock \<Rightarrow> 'k csock" where
  "c_schedule_drain_retry s = s\<lparr>cs_drainTimer := True\<rparr>"

definition c_drain_timer_fires :: "'k csock \<Rightarrow> 'k csock" where
  "c_drain_timer_fires s = (if cs_drainTimer s then c_schedule_drain (s\<lparr>cs_drainTimer := False\<rparr>) else s)"

definition c_shift :: "'k csock \<Rightarrow> 'k csock" where
  "c_shift s = (case cs_queue s of [] \<Rightarrow> s
     | (_, _, b) # rest \<Rightarrow> s\<lparr>cs_queue := rest, cs_queuedBytes := cs_queuedBytes s - int b\<rparr>)"

lemma c_try_send_queue [simp]: "cs_queue (snd (c_try_send_now env m s)) = cs_queue s"
  by (simp add: c_try_send_now_def Let_def split: send_result.split)

lemma c_shift_queue [simp]: "cs_queue (c_shift s) = tl (cs_queue s)" "cs_queue (c_settle k m r s) = cs_queue s"
  by (simp_all add: c_shift_def c_settle_def split: list.split)

function c_drain_loop :: "csock_env \<Rightarrow> 'k csock \<Rightarrow> 'k csock" where
  "c_drain_loop env s = (case cs_queue s of
     [] \<Rightarrow> s
   | (k, m, _) # _ \<Rightarrow>
      (case c_try_send_now env m s of
         (Inr sent, s1) \<Rightarrow>
           if \<not> sent then c_schedule_drain_retry s1
           else c_drain_loop env (c_settle k m None (c_shift s1))
       | (Inl e, s1) \<Rightarrow> c_close 1011 ''cluster outbound send failed'' (c_settle k m (Some e) (c_shift s1))))"
  by pat_completeness auto
termination
proof (relation "measure (\<lambda>(env, s). length (cs_queue s))", goal_cases)
  case (2 env s a list k y m b x s1 sent)
  then have "cs_queue s1 = cs_queue s" using c_try_send_queue[of env m s] by (metis snd_conv)
  then show ?case using 2 by simp
qed simp

declare c_drain_loop.simps [simp del]

definition c_drain_outbound_queue :: "csock_env \<Rightarrow> 'k csock \<Rightarrow> 'k csock" where
  "c_drain_outbound_queue env s = c_drain_loop env (s\<lparr>cs_drainScheduled := False\<rparr>)"

section \<open>Sending\<close>

datatype capacity = HasCapacity | CapacityFailed string | WaitMore

definition c_wait_for_queue_capacity ::
  "cluster_config \<Rightarrow> csock_env \<Rightarrow> int \<Rightarrow> int \<Rightarrow> 'k csock \<Rightarrow> capacity \<times> 'k csock" where
  "c_wait_for_queue_capacity cfg env now startedAt s =
    ((if ce_closed env (cs_clock s) then CapacityFailed ''Cluster socket is closed''
      else if int (length (cs_queue s)) < cc_outboundMaxQueueMessages cfg then HasCapacity
      else if now - startedAt \<ge> cc_requestTimeoutMs cfg then CapacityFailed ''Cluster outbound queue overflow''
      else WaitMore),
     s\<lparr>cs_clock := cs_clock s + 1\<rparr>)"

text \<open>Where a call of \<open>sendMessage\<close> stands, and what becomes of it: sent at once, queued, rejected, or
  asleep.\<close>

datatype send_phase = Checking | Polling int
datatype send_outcome = SDone | SQueued | SFailed string | SBlocked send_phase

definition c_push :: "cluster_config \<Rightarrow> 'k \<Rightarrow> cluster_msg \<Rightarrow> 'k csock \<Rightarrow> 'k csock" where
  "c_push cfg k m s =
    (let s1 = s\<lparr>cs_queue := cs_queue s @ [(k, m, cc_bytes cfg m)],
                cs_queuedBytes := cs_queuedBytes s + int (cc_bytes cfg m)\<rparr>
     in if cs_drainTimer s1 then s1 else c_schedule_drain s1)"

definition c_send_commit ::
  "cluster_config \<Rightarrow> csock_env \<Rightarrow> 'k \<Rightarrow> cluster_msg \<Rightarrow> 'k csock \<Rightarrow> send_outcome \<times> 'k csock" where
  "c_send_commit cfg env k m s =
    (if \<not> cs_queuedBytes s + int (cc_bytes cfg m) \<le> cc_outboundMaxQueueBytes cfg
     then (SFailed ''Cluster outbound queue overflow'', c_settle k m (Some ''Cluster outbound queue overflow'') s)
     else if cs_queue s = [] \<and> \<not> cs_drainScheduled s \<and> \<not> cs_drainTimer s then
       (case c_try_send_now env m s of
          (Inl e, s1) \<Rightarrow> (SFailed e, c_settle k m (Some e) s1)
        | (Inr sent, s1) \<Rightarrow> if sent then (SDone, c_settle k m None s1) else (SQueued, c_push cfg k m s1))
     else (SQueued, c_push cfg k m s))"

definition c_send_message ::
  "cluster_config \<Rightarrow> csock_env \<Rightarrow> int \<Rightarrow> send_phase \<Rightarrow> 'k \<Rightarrow> cluster_msg \<Rightarrow> 'k csock \<Rightarrow> send_outcome \<times> 'k csock" where
  "c_send_message cfg env now phase k m s =
    (let poll = (\<lambda>startedAt. case c_wait_for_queue_capacity cfg env now startedAt s of
           (HasCapacity, s1) \<Rightarrow> (SBlocked Checking, s1)
         | (CapacityFailed e, s1) \<Rightarrow> (SFailed e, c_settle k m (Some e) s1)
         | (WaitMore, s1) \<Rightarrow> (SBlocked (Polling startedAt), s1))
     in case phase of
          Checking \<Rightarrow> if int (length (cs_queue s)) + 1 > cc_outboundMaxQueueMessages cfg then poll now
                      else c_send_commit cfg env k m s
        | Polling startedAt \<Rightarrow> poll startedAt)"

section \<open>Invariant\<close>

text \<open>The messages whose promise was resolved, the ones that wait, and the ones the socket took.\<close>

definition cs_sent :: "'k csock \<Rightarrow> ('k \<times> cluster_msg) list" where
  "cs_sent s = map (\<lambda>(k, m, _). (k, m)) (filter (\<lambda>(_, _, err). err = None) (cs_settled s))"

definition cs_waiting :: "'k csock \<Rightarrow> ('k \<times> cluster_msg) list" where
  "cs_waiting s = map (\<lambda>(k, m, _). (k, m)) (cs_queue s)"

fun c_taken :: "cluster_event \<Rightarrow> cluster_msg list" where
  "c_taken (CSent m r) = (if took r then [m] else [])"
| "c_taken (CClosed _ _) = []"

definition cs_closed :: "'k csock \<Rightarrow> bool" where
  "cs_closed s \<longleftrightarrow> (\<exists>code reason. CClosed code reason \<in> set (cs_log s))"

definition cs_bounded :: "cluster_config \<Rightarrow> 'k csock \<Rightarrow> bool" where
  "cs_bounded cfg s \<longleftrightarrow> cs_queuedBytes s = sum_list (map (\<lambda>(_, _, b). int b) (cs_queue s))
     \<and> (\<forall>(k, m, b)\<in>set (cs_queue s). b = cc_bytes cfg m)
     \<and> int (length (cs_queue s)) \<le> max 0 (cc_outboundMaxQueueMessages cfg)
     \<and> cs_queuedBytes s \<le> max 0 (cc_outboundMaxQueueBytes cfg)
     \<and> map snd (cs_sent s) = concat (map c_taken (cs_log s))"

definition cs_armed :: "'k csock \<Rightarrow> bool" where
  "cs_armed s \<longleftrightarrow> cs_drainScheduled s \<or> cs_drainTimer s"

definition csock_ok :: "cluster_config \<Rightarrow> 'k csock \<Rightarrow> bool" where
  "csock_ok cfg s \<longleftrightarrow> cs_bounded cfg s \<and> (cs_queue s \<noteq> [] \<and> \<not> cs_closed s \<longrightarrow> cs_armed s)"

named_theorems csock_defs

lemmas [csock_defs] = cs_sent_def cs_waiting_def cs_closed_def cs_bounded_def cs_armed_def c_close_def c_settle_def
  c_schedule_drain_def c_schedule_drain_retry_def

lemma try_send_cases:
  assumes "c_try_send_now env m s = (r, s1)"
  obtains e evs n where "r = Inl e" "s1 = s\<lparr>cs_clock := n, cs_log := cs_log s @ evs\<rparr>" "concat (map c_taken evs) = []"
      "\<forall>ev\<in>set evs. \<forall>c t. ev \<noteq> CClosed c t"
  | evs n where "r = Inr False" "s1 = s\<lparr>cs_clock := n, cs_log := cs_log s @ evs\<rparr>" "concat (map c_taken evs) = []"
      "\<forall>ev\<in>set evs. \<forall>c t. ev \<noteq> CClosed c t"
  | evs n where "r = Inr True" "s1 = s\<lparr>cs_clock := n, cs_log := cs_log s @ evs\<rparr>" "concat (map c_taken evs) = [m]"
      "\<forall>ev\<in>set evs. \<forall>c t. ev \<noteq> CClosed c t"
proof -
  have "s1 = s\<lparr>cs_clock := cs_clock s1, cs_log := cs_log s @ drop (length (cs_log s)) (cs_log s1)\<rparr>
    \<and> concat (map c_taken (drop (length (cs_log s)) (cs_log s1))) = (if r = Inr True then [m] else [])
    \<and> (\<forall>ev\<in>set (drop (length (cs_log s)) (cs_log s1)). \<forall>c t. ev \<noteq> CClosed c t)"
    using assms by (auto simp: c_try_send_now_def Let_def split: if_split_asm send_result.split_asm)
  then show thesis using that by (cases r) (metis sum.inject(2), metis (full_types))
qed

lemma bounded_shift:
  assumes "cs_bounded cfg s" "cs_queue s = (k, m, b) # rest"
  shows "cs_queuedBytes (c_shift s) = sum_list (map (\<lambda>(_, _, b). int b) rest)" "cs_queuedBytes (c_shift s) \<le> cs_queuedBytes s"
  using assms by (auto simp: cs_bounded_def c_shift_def)

lemma c_shift_fields [simp]:
  "cs_settled (c_shift s) = cs_settled s" "cs_log (c_shift s) = cs_log s" "cs_drainTimer (c_shift s) = cs_drainTimer s"
  "cs_drainScheduled (c_shift s) = cs_drainScheduled s"
  by (simp_all add: c_shift_def split: list.split)

lemma shift_taken:
  assumes "cs_bounded cfg s" "cs_queue s = (k, m, b) # rest"
    and "concat (map c_taken evs) = (if err = None then [m] else [])" "\<forall>ev\<in>set evs. \<forall>c t. ev \<noteq> CClosed c t"
  shows "cs_bounded cfg (c_settle k m err (c_shift (s\<lparr>cs_clock := n, cs_log := cs_log s @ evs\<rparr>)))"
    "cs_closed (c_settle k m err (c_shift (s\<lparr>cs_clock := n, cs_log := cs_log s @ evs\<rparr>))) = cs_closed s"
  using assms by (auto simp: csock_defs c_shift_def)

text \<open>One drain: the invariants hold, and unless it closed the socket nothing was lost.\<close>

lemma c_drain_loop_spec:
  "cs_bounded cfg s \<Longrightarrow> cs_bounded cfg (c_drain_loop env s)
    \<and> (cs_closed s \<longrightarrow> cs_closed (c_drain_loop env s))
    \<and> (\<not> cs_closed (c_drain_loop env s) \<longrightarrow>
         cs_sent (c_drain_loop env s) @ cs_waiting (c_drain_loop env s) = cs_sent s @ cs_waiting s
       \<and> (cs_queue (c_drain_loop env s) \<noteq> [] \<longrightarrow> cs_armed (c_drain_loop env s)))"
proof (induction env s rule: c_drain_loop.induct)
  case (1 env s)
  show ?case
  proof (cases "cs_queue s")
    case Nil
    then show ?thesis using 1(2) by (simp add: c_drain_loop.simps[of env s])
  next
    case (Cons x rest)
    obtain k m b where x: "x = (k, m, b)" using prod_cases3 by blast
    note q = Cons[unfolded x]
    obtain r s1 where t: "c_try_send_now env m s = (r, s1)" by fastforce
    from t show ?thesis
    proof (cases rule: try_send_cases)
      case (1 e evs n)
      have l: "c_drain_loop env s = c_close 1011 ''cluster outbound send failed'' (c_settle k m (Some e) (c_shift s1))"
        using q t 1 by (simp add: c_drain_loop.simps[of env s])
      have "cs_bounded cfg (c_settle k m (Some e) (c_shift s1))"
        using shift_taken(1)[OF \<open>cs_bounded cfg s\<close> q, of evs "Some e" n] 1 by simp
      then show ?thesis unfolding l by (auto simp: csock_defs)
    next
      case (2 evs n)
      have l: "c_drain_loop env s = c_schedule_drain_retry s1" using q t 2 by (simp add: c_drain_loop.simps[of env s])
      show ?thesis unfolding l using 2 \<open>cs_bounded cfg s\<close> by (auto simp: csock_defs)
    next
      case (3 evs n)
      let ?s2 = "c_settle k m None (c_shift s1)"
      have l: "c_drain_loop env s = c_drain_loop env ?s2" using q t 3 by (simp add: c_drain_loop.simps[of env s])
      have b: "cs_bounded cfg ?s2" "cs_closed ?s2 = cs_closed s"
        using shift_taken[OF \<open>cs_bounded cfg s\<close> q, of evs None n] 3 by simp_all
      have k: "cs_sent ?s2 @ cs_waiting ?s2 = cs_sent s @ cs_waiting s"
        using q 3(2) by (auto simp: csock_defs c_shift_def)
      show ?thesis unfolding l using "1.IH"[OF q refl refl t[symmetric] 3(1)] b k by simp
    qed
  qed
qed

lemma bounded_settle_failed: "cs_bounded cfg (c_settle k m (Some e) s) = cs_bounded cfg s"
  "csock_ok cfg (c_settle k m (Some e) s) = csock_ok cfg s"
  by (simp_all add: csock_defs csock_ok_def)

lemma bounded_clock [simp]: "cs_bounded cfg (s\<lparr>cs_clock := n\<rparr>) = cs_bounded cfg s"
  "csock_ok cfg (s\<lparr>cs_clock := n\<rparr>) = csock_ok cfg s" "cs_closed (s\<lparr>cs_clock := n\<rparr>) = cs_closed s"
  "cs_sent (s\<lparr>cs_clock := n\<rparr>) = cs_sent s" "cs_waiting (s\<lparr>cs_clock := n\<rparr>) = cs_waiting s"
  by (simp_all add: csock_defs csock_ok_def)

lemma push_spec:
  assumes "cs_bounded cfg s" "int (length (cs_queue s)) + 1 \<le> cc_outboundMaxQueueMessages cfg"
    "cs_queuedBytes s + int (cc_bytes cfg m) \<le> cc_outboundMaxQueueBytes cfg"
  shows "csock_ok cfg (c_push cfg k m s)" "cs_closed (c_push cfg k m s) = cs_closed s"
    "cs_sent (c_push cfg k m s) @ cs_waiting (c_push cfg k m s) = cs_sent s @ cs_waiting s @ [(k, m)]"
  using assms by (auto simp: c_push_def Let_def csock_defs csock_ok_def)

text \<open>One turn of \<open>sendMessage\<close>: what it does to the socket in each outcome.\<close>

lemma commit_spec:
  assumes ok: "csock_ok cfg s" and room: "int (length (cs_queue s)) + 1 \<le> cc_outboundMaxQueueMessages cfg"
    and r: "c_send_commit cfg env k m s = (out, s')"
  shows "csock_ok cfg s' \<and> cs_closed s' = cs_closed s
    \<and> (case out of SFailed e \<Rightarrow> cs_sent s' @ cs_waiting s' = cs_sent s @ cs_waiting s
        | SBlocked _ \<Rightarrow> False
        | _ \<Rightarrow> cs_sent s' @ cs_waiting s' = cs_sent s @ cs_waiting s @ [(k, m)])"
proof (cases "cs_queuedBytes s + int (cc_bytes cfg m) \<le> cc_outboundMaxQueueBytes cfg")
  case False
  then show ?thesis using r ok by (auto simp: c_send_commit_def bounded_settle_failed) (auto simp: csock_defs)
next
  case bytes: True
  have b: "cs_bounded cfg s" using ok by (simp add: csock_ok_def)
  show ?thesis
  proof (cases "cs_queue s = [] \<and> \<not> cs_drainScheduled s \<and> \<not> cs_drainTimer s")
    case False
    then have "out = SQueued" "s' = c_push cfg k m s" using r bytes by (auto simp: c_send_commit_def)
    then show ?thesis using push_spec[OF b room bytes] by simp
  next
    case direct: True
    obtain t s1 where t: "c_try_send_now env m s = (t, s1)" by fastforce
    have q: "cs_queue s = []" using direct by simp
    from t show ?thesis
    proof (cases rule: try_send_cases)
      case (1 e evs n)
      then have "out = SFailed e" "s' = c_settle k m (Some e) s1" using r bytes direct t by (simp_all add: c_send_commit_def)
      then show ?thesis using 1 b q by (auto simp: csock_defs csock_ok_def)
    next
      case (2 evs n)
      then have e: "out = SQueued" "s' = c_push cfg k m s1" using r bytes direct t by (simp_all add: c_send_commit_def)
      have "cs_bounded cfg s1" "cs_closed s1 = cs_closed s" "cs_sent s1 = cs_sent s" "cs_waiting s1 = cs_waiting s"
        "cs_queue s1 = cs_queue s" "cs_queuedBytes s1 = cs_queuedBytes s"
        using 2 b by (auto simp: csock_defs)
      then show ?thesis using push_spec[of cfg s1 m k] room bytes e by simp
    next
      case (3 evs n)
      then have "out = SDone" "s' = c_settle k m None s1" using r bytes direct t by (simp_all add: c_send_commit_def)
      then show ?thesis using 3 b q by (auto simp: csock_defs csock_ok_def)
    qed
  qed
qed

lemma send_spec:
  assumes ok: "csock_ok cfg s" and r: "c_send_message cfg env now phase k m s = (out, s')"
  shows "csock_ok cfg s' \<and> cs_closed s' = cs_closed s
    \<and> (if out = SDone \<or> out = SQueued then cs_sent s' @ cs_waiting s' = cs_sent s @ cs_waiting s @ [(k, m)]
       else cs_sent s' @ cs_waiting s' = cs_sent s @ cs_waiting s)"
proof -
  have poll: "csock_ok cfg (c_settle k m (Some e) (s\<lparr>cs_clock := n\<rparr>)) \<and> cs_closed (c_settle k m (Some e) (s\<lparr>cs_clock := n\<rparr>)) = cs_closed s
    \<and> cs_sent (c_settle k m (Some e) (s\<lparr>cs_clock := n\<rparr>)) = cs_sent s
    \<and> cs_waiting (c_settle k m (Some e) (s\<lparr>cs_clock := n\<rparr>)) = cs_waiting s" for e n
    using ok by (simp add: bounded_settle_failed) (simp add: csock_defs)
  show ?thesis
  proof (cases "phase = Checking \<and> int (length (cs_queue s)) + 1 \<le> cc_outboundMaxQueueMessages cfg")
    case True
    then have "c_send_commit cfg env k m s = (out, s')" using r by (simp add: c_send_message_def Let_def)
    from commit_spec[OF ok _ this] True show ?thesis by (cases out) auto
  next
    case False
    then show ?thesis using r ok poll
      by (auto simp: c_send_message_def c_wait_for_queue_capacity_def Let_def split: send_phase.split_asm if_split_asm)
  qed
qed

section \<open>The contract of a queue\<close>

definition cs_enq :: "cluster_config \<Rightarrow> csock_env \<Rightarrow> int \<Rightarrow> 'k \<times> cluster_msg \<Rightarrow> 'k csock \<Rightarrow> bool \<times> 'k csock" where
  "cs_enq cfg env now km s = (case c_send_message cfg env now Checking (fst km) (snd km) s of
     (out, s1) \<Rightarrow> (out = SDone \<or> out = SQueued, s1))"

lemma timer_spec:
  "csock_ok cfg s \<Longrightarrow> csock_ok cfg (c_drain_timer_fires s)" "cs_closed (c_drain_timer_fires s) = cs_closed s"
  "cs_sent (c_drain_timer_fires s) = cs_sent s" "cs_waiting (c_drain_timer_fires s) = cs_waiting s"
  by (auto simp: c_drain_timer_fires_def csock_defs csock_ok_def)

lemma drain_spec:
  assumes "csock_ok cfg s"
  shows "csock_ok cfg (c_drain_outbound_queue env s)" "cs_closed s \<Longrightarrow> cs_closed (c_drain_outbound_queue env s)"
    "\<not> cs_closed (c_drain_outbound_queue env s) \<Longrightarrow>
       cs_sent (c_drain_outbound_queue env s) @ cs_waiting (c_drain_outbound_queue env s) = cs_sent s @ cs_waiting s"
proof -
  have b: "cs_bounded cfg (s\<lparr>cs_drainScheduled := False\<rparr>)" using assms by (simp add: csock_ok_def cs_bounded_def cs_sent_def)
  have e: "cs_closed (s\<lparr>cs_drainScheduled := False\<rparr>) = cs_closed s" "cs_sent (s\<lparr>cs_drainScheduled := False\<rparr>) = cs_sent s"
    "cs_waiting (s\<lparr>cs_drainScheduled := False\<rparr>) = cs_waiting s" by (simp_all add: csock_defs)
  note d = c_drain_loop_spec[OF b, of env]
  show "csock_ok cfg (c_drain_outbound_queue env s)" "cs_closed s \<Longrightarrow> cs_closed (c_drain_outbound_queue env s)"
    "\<not> cs_closed (c_drain_outbound_queue env s) \<Longrightarrow>
       cs_sent (c_drain_outbound_queue env s) @ cs_waiting (c_drain_outbound_queue env s) = cs_sent s @ cs_waiting s"
    using d by (auto simp: c_drain_outbound_queue_def csock_ok_def e)
qed

interpretation cluster: outbound_queue "csock_ok cfg" cs_closed cs_waiting cs_sent cs_armed "cs_enq cfg env now"
  "c_drain_outbound_queue env" c_drain_timer_fires
  for cfg env now
proof (unfold_locales, goal_cases)
  case (1 c m)
  then show ?case using send_spec[of cfg c env now Checking "fst m" "snd m"] by (auto simp: cs_enq_def split: prod.split)
next
  case (2 c) then show ?case by (rule drain_spec(1))
next
  case (3 c) then show ?case by (rule timer_spec(1))
next
  case (4 c m c')
  then show ?case using send_spec[of cfg c env now Checking "fst m" "snd m"]
    by (auto simp: cs_enq_def split: prod.split_asm)
next
  case (5 c m c')
  then show ?case using send_spec[of cfg c env now Checking "fst m" "snd m"]
    by (auto simp: cs_enq_def split: prod.split_asm)
next
  case (6 c) then show ?case by (intro drain_spec(3))
next
  case (7 c) then show ?case by (simp add: timer_spec)
next
  case (8 c m)
  then show ?case using send_spec[of cfg c env now Checking "fst m" "snd m"] drain_spec(2)[of cfg c env] timer_spec(2)[of c]
    by (auto simp: cs_enq_def split: prod.split)
next
  case (9 c) then show ?case by (auto simp: csock_ok_def cs_waiting_def)
qed

lemma new_csock_ok: "csock_ok cfg new_csock"
  by (simp add: csock_ok_def cs_bounded_def new_csock_def cs_sent_def)

text \<open>The channel between two nodes is first in, first out and bounded: whatever the socket answers
  and whenever drains and timers run, while no send of a waiting message has failed the messages
  handed to the socket (whose promises were resolved), followed by the ones that wait, are exactly
  the messages accepted, in order; the socket took each of them once; neither limit is exceeded;
  and when messages wait a drain or a retry is pending.\<close>

theorem cluster_channel_fifo_bounded:
  assumes r: "queue_run (cs_enq cfg env now) (c_drain_outbound_queue env) c_drain_timer_fires ops new_csock = (accepted, s)"
    and "\<not> cs_closed s"
  shows "cs_sent s @ cs_waiting s = accepted
    \<and> map snd (cs_sent s) = concat (map c_taken (cs_log s))
    \<and> int (length (cs_waiting s)) \<le> max 0 (cc_outboundMaxQueueMessages cfg)
    \<and> sum_list (map (\<lambda>(_, m). int (cc_bytes cfg m)) (cs_waiting s)) \<le> max 0 (cc_outboundMaxQueueBytes cfg)
    \<and> (cs_waiting s \<noteq> [] \<longrightarrow> cs_drainScheduled s \<or> cs_drainTimer s)"
proof -
  have ok: "csock_ok cfg s" using cluster.run_ok[OF new_csock_ok, of cfg env now ops] r by simp
  have f: "cs_sent s @ cs_waiting s = accepted"
    using cluster.run_fifo[OF new_csock_ok r assms(2)] by (simp add: cs_sent_def cs_waiting_def new_csock_def)
  have "map (\<lambda>(_, m). int (cc_bytes cfg m)) (cs_waiting s) = map (\<lambda>(_, _, b). int b) (cs_queue s)"
    using ok by (auto simp: csock_ok_def cs_bounded_def cs_waiting_def)
  then show ?thesis using ok f cluster.run_not_stuck[OF new_csock_ok r assms(2)]
    by (simp add: csock_ok_def cs_bounded_def cs_armed_def) (simp add: cs_waiting_def)
qed

definition example_cluster :: cluster_config where
  "example_cluster = cluster_config_of (\<lambda>_. 10) \<lparr>co_nodeId = ''n1'', co_sharedSecret = Some ''s3cret'',
     co_requestTimeoutMs = Some 20, co_outboundMaxQueueMessages = Some 2, co_outboundMaxQueueBytes = Some 100,
     co_outboundBackpressureRetryMs = None, co_peerProbeIntervalMs = None, co_peerPingTimeoutMs = None,
     co_peerAntiEntropyIntervalMs = None, co_ws = Some True\<rparr>"

text \<open>A socket that pushes back at its first call.\<close>

definition slow_socket :: csock_env where
  "slow_socket = \<lparr>ce_closed = (\<lambda>_. False), ce_send = (\<lambda>n. Returned (Some (if n = 1 then -1 else 1)))\<rparr>"

theorem cluster_channel_fifo_bounded_witness:
  "let r = queue_run (cs_enq example_cluster slow_socket 0) (c_drain_outbound_queue slow_socket) c_drain_timer_fires
      [Enqueue (1 :: nat, CPing 5), Enqueue (2, CPing 6), RunDrain, Enqueue (3, CPing 7)] new_csock
   in cs_sent (snd r) @ cs_waiting (snd r) = [(1, CPing 5), (2, CPing 6), (3, CPing 7)]
    \<and> map snd (cs_sent (snd r)) = concat (map c_taken (cs_log (snd r)))"
proof -
  let ?ops = "[Enqueue (1 :: nat, CPing 5), Enqueue (2, CPing 6), RunDrain, Enqueue (3, CPing 7)]"
  let ?r = "queue_run (cs_enq example_cluster slow_socket 0) (c_drain_outbound_queue slow_socket) c_drain_timer_fires ?ops new_csock"
  have "fst ?r = [(1, CPing 5), (2, CPing 6), (3, CPing 7)]
    \<and> list_all (\<lambda>ev. case ev of CClosed _ _ \<Rightarrow> False | _ \<Rightarrow> True) (cs_log (snd ?r))" by code_simp
  then have v: "fst ?r = [(1, CPing 5), (2, CPing 6), (3, CPing 7)]" "\<not> cs_closed (snd ?r)"
    unfolding cs_closed_def list_all_iff by (auto split: cluster_event.split_asm)
  have "?r = (fst ?r, snd ?r)" by (rule prod.collapse[symmetric])
  note t = cluster_channel_fifo_bounded[OF this v(2), unfolded v(1)]
  show ?thesis unfolding Let_def using t by blast
qed

end
