(* ===== verification/Cluster_Network.thy ===== *)
theory Cluster_Network
  imports Cluster_Outbound "HOL-Library.Sublist"
begin

text \<open>The network of one node (src/src/runtime/cluster/network.ts, class StaticClusterNetwork): its
  peers, the channels to them, the connection attempts, the requests that await an answer, the
  probes, and what it does with every message.

  Sockets are numbers. A call that awaits a channel is a \<open>job\<close> kept with the node it waits for; a
  message that awaits its turn carries a \<open>send_tag\<close>, the continuation of its promise. What a
  promise of \<open>sendRequest\<close> came to is recorded once in \<open>lg_outcomes\<close>. The calls of the health
  observer are recorded in order in \<open>nw_observed\<close>. The code's collaborators are fields of
  \<open>nw_deps\<close>: socket answers, random ids, the snapshots of the health store (a function of what it
  was told), the server handlers, the socket factory and \<open>fetch\<close>. The handlers of requests run to
  their end without another event in between.\<close>

section \<open>Data\<close>

datatype request_payload = RqDeliver deliver_payload | RqHandleAck conn_ref string "string option"

datatype request_outcome = Delivered "conn_ref list" | Acked | Rejected string

datatype job = JobRequest nat request_payload | JobProbe | JobSend cluster_msg | JobWarm

datatype send_tag = TRequest string | THello string nat | TProbe string | TReply nat
  | TDeliverResult nat string | TAckResult nat string | TQuiet

text \<open>A connection attempt on a socket; or the promise that was rejected because the socket could
  not even be created, which stays in \<open>connectingByNodeId\<close>.\<close>

datatype connecting = Attempt nat | Broken string

datatype observed = MarkAlive string string | MarkSuspect string string | ApplyRumor health_rumor string

record pending_request =
  pr_nodeId :: string
  pr_kind :: string

text \<open>The requests: the pending ones by their reference, the request each reference was made for (the
  promise its closures settle), the outcomes, the number of requests and of ids made so far.\<close>

record ledger =
  lg_pending :: "(string, pending_request) js_map"
  lg_refs :: "(string, nat) js_map"
  lg_outcomes :: "(nat \<times> request_outcome) list"
  lg_next :: nat
  lg_fresh :: nat

record network =
  nw_peers :: "(string, string) js_map"
  nw_channels :: "(string, nat) js_map"
  nw_connecting :: "(string, connecting) js_map"
  nw_jobs :: "(string \<times> job) list"
  nw_ledger :: ledger
  nw_probes :: "(string, int) js_map"
  nw_probing :: nat
  nw_probeTimer :: bool
  nw_antiEntropyTimer :: bool
  nw_nodeOf :: "(nat, string) js_map"
  nw_dialed :: "(nat, string) js_map"
  nw_serverSockets :: "nat list"
  nw_sockets :: "(nat, send_tag csock) js_map"
  nw_blocked :: "(nat \<times> send_phase \<times> send_tag \<times> cluster_msg) list"
  nw_observed :: "observed list"
  nw_nextSocket :: nat

text \<open>The answer of \<open>fetch\<close>: it throws, it answers with an error status, or the body parses or not.\<close>

datatype 'a fetched = FetchThrew string | FetchStatus int | FetchBody "string + 'a"

record nw_deps =
  nd_env :: "nat \<Rightarrow> csock_env"
  nd_uuid :: "nat \<Rightarrow> string"
  nd_closed :: "nat \<Rightarrow> bool"
  nd_snapshots :: "observed list \<Rightarrow> health_snapshot list"
  nd_hasHandlers :: bool
  nd_deliver :: "deliver_payload \<Rightarrow> string + conn_ref list"
  nd_handleAck :: "conn_ref \<Rightarrow> string \<Rightarrow> string option \<Rightarrow> string + bool"
  nd_socketError :: "string \<Rightarrow> string option"
  nd_fetchDeliver :: "string \<Rightarrow> deliver_payload \<Rightarrow> conn_ref list fetched"
  nd_fetchHandleAck :: "string \<Rightarrow> conn_ref \<Rightarrow> string \<Rightarrow> string option \<Rightarrow> unit fetched"

definition peer_index :: "(string \<times> string) list \<Rightarrow> (string, string) js_map" where
  "peer_index peers = map_from peers"

definition new_network :: "(string \<times> string) list \<Rightarrow> network" where
  "new_network peers = \<lparr>nw_peers = peer_index peers, nw_channels = [], nw_connecting = [], nw_jobs = [],
     nw_ledger = \<lparr>lg_pending = [], lg_refs = [], lg_outcomes = [], lg_next = 0, lg_fresh = 0\<rparr>,
     nw_probes = [], nw_probing = 0, nw_probeTimer = False, nw_antiEntropyTimer = False, nw_nodeOf = [],
     nw_dialed = [], nw_serverSockets = [], nw_sockets = [], nw_blocked = [], nw_observed = [], nw_nextSocket = 0\<rparr>"

section \<open>Sockets, probes and health\<close>

definition sock_of :: "network \<Rightarrow> nat \<Rightarrow> send_tag csock" where
  "sock_of n s = (case map_of (nw_sockets n) s of Some c \<Rightarrow> c | None \<Rightarrow> new_csock)"

definition put_sock :: "nat \<Rightarrow> send_tag csock \<Rightarrow> network \<Rightarrow> network" where
  "put_sock s c n = n\<lparr>nw_sockets := map_set s c (nw_sockets n)\<rparr>"

definition close_sock :: "nat \<Rightarrow> int \<Rightarrow> string \<Rightarrow> network \<Rightarrow> network" where
  "close_sock s code reason n = put_sock s (c_close code reason (sock_of n s)) n"

definition clear_pending_probe :: "string \<Rightarrow> network \<Rightarrow> network" where
  "clear_pending_probe nodeId n = n\<lparr>nw_probes := map_del nodeId (nw_probes n)\<rparr>"

definition note_peer_alive :: "string \<Rightarrow> string \<Rightarrow> network \<Rightarrow> network" where
  "note_peer_alive nodeId detail n =
     (clear_pending_probe nodeId n)\<lparr>nw_observed := nw_observed n @ [MarkAlive nodeId detail]\<rparr>"

definition note_peer_suspect :: "string \<Rightarrow> string \<Rightarrow> network \<Rightarrow> network" where
  "note_peer_suspect nodeId detail n =
     (clear_pending_probe nodeId n)\<lparr>nw_observed := nw_observed n @ [MarkSuspect nodeId detail]\<rparr>"

definition observe_rumor :: "health_rumor \<Rightarrow> string \<Rightarrow> network \<Rightarrow> network" where
  "observe_rumor r from n = n\<lparr>nw_observed := nw_observed n @ [ApplyRumor r from]\<rparr>"

section \<open>Requests\<close>

text \<open>A promise is settled by its first settlement.\<close>

definition settle_request :: "nat \<Rightarrow> request_outcome \<Rightarrow> ledger \<Rightarrow> ledger" where
  "settle_request r o1 l = (if r \<in> fst ` set (lg_outcomes l) then l
     else l\<lparr>lg_outcomes := lg_outcomes l @ [(r, o1)]\<rparr>)"

text \<open>Take a reference out of the pending requests and settle the promise it was made for.\<close>

definition settle_ref :: "string \<Rightarrow> request_outcome \<Rightarrow> ledger \<Rightarrow> ledger" where
  "settle_ref ref o1 l =
    (let l1 = l\<lparr>lg_pending := map_del ref (lg_pending l)\<rparr>
     in case map_of (lg_refs l) ref of None \<Rightarrow> l1 | Some r \<Rightarrow> settle_request r o1 l1)"

definition new_ref :: "string \<Rightarrow> string \<Rightarrow> string \<Rightarrow> nat \<Rightarrow> ledger \<Rightarrow> ledger" where
  "new_ref ref nodeId kind r l = l\<lparr>lg_pending := map_set ref \<lparr>pr_nodeId = nodeId, pr_kind = kind\<rparr> (lg_pending l),
     lg_refs := map_set ref r (lg_refs l), lg_fresh := Suc (lg_fresh l)\<rparr>"

definition with_ledger :: "(ledger \<Rightarrow> ledger) \<Rightarrow> network \<Rightarrow> network" where
  "with_ledger f n = n\<lparr>nw_ledger := f (nw_ledger n)\<rparr>"

definition request_kind :: "request_payload \<Rightarrow> string" where
  "request_kind p = (case p of RqDeliver _ \<Rightarrow> ''deliver'' | RqHandleAck _ _ _ \<Rightarrow> ''handleAck'')"

definition request_message :: "request_payload \<Rightarrow> string \<Rightarrow> cluster_msg" where
  "request_message p ref = (case p of RqDeliver d \<Rightarrow> Deliver ref d | RqHandleAck s a t \<Rightarrow> HandleAckMsg ref s a t)"

text \<open>A call of \<open>ensureChannel\<close> that fails: a request is rejected, a probe reports its peer, the
  others are swallowed.\<close>

definition fail_job :: "string \<Rightarrow> string \<Rightarrow> job \<Rightarrow> network \<Rightarrow> network" where
  "fail_job nodeId err j n = (case j of
     JobRequest r _ \<Rightarrow> with_ledger (settle_request r (Rejected err)) n
   | JobProbe \<Rightarrow> note_peer_suspect nodeId err (n\<lparr>nw_probing := nw_probing n - 1\<rparr>)
   | JobSend _ \<Rightarrow> n
   | JobWarm \<Rightarrow> n)"

definition jobs_of :: "string \<Rightarrow> network \<Rightarrow> job list" where
  "jobs_of nodeId n = map snd (filter (\<lambda>e. fst e = nodeId) (nw_jobs n))"

definition take_jobs :: "string \<Rightarrow> network \<Rightarrow> network" where
  "take_jobs nodeId n = n\<lparr>nw_jobs := filter (\<lambda>e. fst e \<noteq> nodeId) (nw_jobs n),
     nw_connecting := map_del nodeId (nw_connecting n)\<rparr>"

text \<open>\<open>finishReject\<close> of the attempt of socket \<open>s\<close>: it acts while that attempt is the current one.\<close>

definition finish_reject :: "string \<Rightarrow> nat \<Rightarrow> string \<Rightarrow> network \<Rightarrow> network" where
  "finish_reject nodeId s message n =
    (if map_of (nw_connecting n) nodeId \<noteq> Some (Attempt s) then n
     else foldl (\<lambda>n j. fail_job nodeId message j n)
            (note_peer_suspect nodeId message (close_sock s 1013 message (take_jobs nodeId n)))
            (jobs_of nodeId n))"

text \<open>\<open>handleIncomingMessage\<close> threw: a server socket is closed, on a dialed one the attempt fails.\<close>

definition incoming_failed :: "nat \<Rightarrow> string \<Rightarrow> network \<Rightarrow> network" where
  "incoming_failed s err n = (case map_of (nw_dialed n) s of
     None \<Rightarrow> close_sock s 1011 ''cluster websocket message handling failed'' n
   | Some nodeId \<Rightarrow> finish_reject nodeId s err n)"

section \<open>Sending\<close>

definition send_done :: "send_tag \<Rightarrow> network \<Rightarrow> network" where
  "send_done tag n = (case tag of TProbe _ \<Rightarrow> n\<lparr>nw_probing := nw_probing n - 1\<rparr> | _ \<Rightarrow> n)"

text \<open>A message could not be sent, and the failure makes no other message.\<close>

definition send_failed_last :: "send_tag \<Rightarrow> string \<Rightarrow> network \<Rightarrow> network" where
  "send_failed_last tag err n = (case tag of
     TRequest ref \<Rightarrow> with_ledger (settle_ref ref (Rejected err)) n
   | THello nodeId s \<Rightarrow> finish_reject nodeId s err n
   | TProbe nodeId \<Rightarrow> note_peer_suspect nodeId err (n\<lparr>nw_probing := nw_probing n - 1\<rparr>)
   | TReply s \<Rightarrow> incoming_failed s err n
   | _ \<Rightarrow> n)"

definition after_send :: "(string \<Rightarrow> network \<Rightarrow> network) \<Rightarrow> nat \<Rightarrow> send_tag \<Rightarrow> cluster_msg \<Rightarrow> send_outcome \<Rightarrow> network \<Rightarrow> network" where
  "after_send failed s tag m out n = (case out of
     SDone \<Rightarrow> send_done tag n
   | SQueued \<Rightarrow> n
   | SFailed e \<Rightarrow> failed e n
   | SBlocked phase \<Rightarrow> n\<lparr>nw_blocked := nw_blocked n @ [(s, phase, tag, m)]\<rparr>)"

definition turn ::
  "(send_tag \<Rightarrow> string \<Rightarrow> network \<Rightarrow> network) \<Rightarrow> cluster_config \<Rightarrow> nw_deps \<Rightarrow> int \<Rightarrow> send_phase \<Rightarrow> nat \<Rightarrow> send_tag \<Rightarrow>
   cluster_msg \<Rightarrow> network \<Rightarrow> network" where
  "turn failed cfg d now phase s tag m n =
    (let (out, c) = c_send_message cfg (nd_env d s) now phase tag m (sock_of n s)
     in after_send (failed tag) s tag m out (put_sock s c n))"

text \<open>When the result of a handler cannot be sent, the catch clause sends the error instead.\<close>

definition send_failed :: "cluster_config \<Rightarrow> nw_deps \<Rightarrow> int \<Rightarrow> send_tag \<Rightarrow> string \<Rightarrow> network \<Rightarrow> network" where
  "send_failed cfg d now tag err n = (case tag of
     TDeliverResult s ref \<Rightarrow>
       turn send_failed_last cfg d now Checking s (TReply s) (DeliverResult ref [] (Some err)) n
   | TAckResult s ref \<Rightarrow>
       turn send_failed_last cfg d now Checking s (TReply s) (HandleAckResult ref False (Some err)) n
   | _ \<Rightarrow> send_failed_last tag err n)"

definition send_message :: "cluster_config \<Rightarrow> nw_deps \<Rightarrow> int \<Rightarrow> nat \<Rightarrow> send_tag \<Rightarrow> cluster_msg \<Rightarrow> network \<Rightarrow> network" where
  "send_message cfg d now s tag m n = turn (send_failed cfg d now) cfg d now Checking s tag m n"

text \<open>A sleeping send wakes up; \<open>k\<close> is its place in the list.\<close>

definition wake_blocked :: "cluster_config \<Rightarrow> nw_deps \<Rightarrow> int \<Rightarrow> nat \<Rightarrow> network \<Rightarrow> network" where
  "wake_blocked cfg d now k n =
    (if k < length (nw_blocked n) then
       (case nw_blocked n ! k of (s, phase, tag, m) \<Rightarrow>
          turn (send_failed cfg d now) cfg d now phase s tag m
            (n\<lparr>nw_blocked := take k (nw_blocked n) @ drop (Suc k) (nw_blocked n)\<rparr>))
     else n)"

definition settle_sends ::
  "cluster_config \<Rightarrow> nw_deps \<Rightarrow> int \<Rightarrow> (send_tag \<times> cluster_msg \<times> string option) list \<Rightarrow> network \<Rightarrow> network" where
  "settle_sends cfg d now es n = foldl (\<lambda>n (tag, _, err). case err of
     None \<Rightarrow> send_done tag n | Some e \<Rightarrow> send_failed cfg d now tag e n) n es"

definition drain_socket :: "cluster_config \<Rightarrow> nw_deps \<Rightarrow> int \<Rightarrow> nat \<Rightarrow> network \<Rightarrow> network" where
  "drain_socket cfg d now s n =
    (let c = sock_of n s; c1 = c_drain_outbound_queue (nd_env d s) c
     in settle_sends cfg d now (drop (length (cs_settled c)) (cs_settled c1)) (put_sock s c1 n))"

definition drain_timer :: "nat \<Rightarrow> network \<Rightarrow> network" where
  "drain_timer s n = put_sock s (c_drain_timer_fires (sock_of n s)) n"

section \<open>Channels\<close>

definition register_channel :: "string \<Rightarrow> nat \<Rightarrow> network \<Rightarrow> network" where
  "register_channel nodeId s n =
    (let n1 = (case map_of (nw_channels n) nodeId of
           None \<Rightarrow> n
         | Some old \<Rightarrow> if old \<noteq> s then close_sock old 1000 ''cluster channel replaced'' n else n)
     in n1\<lparr>nw_channels := map_set nodeId s (nw_channels n1), nw_nodeOf := map_set s nodeId (nw_nodeOf n1)\<rparr>)"

text \<open>A job whose channel is there.\<close>

definition run_job :: "cluster_config \<Rightarrow> nw_deps \<Rightarrow> int \<Rightarrow> string \<Rightarrow> nat \<Rightarrow> job \<Rightarrow> network \<Rightarrow> network" where
  "run_job cfg d now nodeId s j n = (case j of
     JobRequest r p \<Rightarrow>
       (let ref = nd_uuid d (lg_fresh (nw_ledger n))
        in send_message cfg d now s (TRequest ref) (request_message p ref)
             (with_ledger (new_ref ref nodeId (request_kind p) r) n))
   | JobProbe \<Rightarrow> send_message cfg d now s (TProbe nodeId) (CPing now)
       (n\<lparr>nw_probes := map_set nodeId now (nw_probes n)\<rparr>)
   | JobSend m \<Rightarrow> send_message cfg d now s TQuiet m n
   | JobWarm \<Rightarrow> n)"

definition open_channel_socket :: "string \<Rightarrow> job \<Rightarrow> network \<Rightarrow> network" where
  "open_channel_socket nodeId j n =
    (let s = nw_nextSocket n
     in n\<lparr>nw_nextSocket := Suc s, nw_connecting := map_set nodeId (Attempt s) (nw_connecting n),
          nw_dialed := map_set s nodeId (nw_dialed n), nw_jobs := nw_jobs n @ [(nodeId, j)]\<rparr>)"

definition usable_channel :: "nw_deps \<Rightarrow> string \<Rightarrow> network \<Rightarrow> nat option" where
  "usable_channel d nodeId n = (case map_of (nw_channels n) nodeId of
     None \<Rightarrow> None | Some s \<Rightarrow> if nd_closed d s then None else Some s)"

definition ensure_channel :: "cluster_config \<Rightarrow> nw_deps \<Rightarrow> int \<Rightarrow> string \<Rightarrow> job \<Rightarrow> network \<Rightarrow> network" where
  "ensure_channel cfg d now nodeId j n = (case usable_channel d nodeId n of
     Some s \<Rightarrow> run_job cfg d now nodeId s j n
   | None \<Rightarrow> (case map_of (nw_connecting n) nodeId of
       Some (Attempt _) \<Rightarrow> n\<lparr>nw_jobs := nw_jobs n @ [(nodeId, j)]\<rparr>
     | Some (Broken e) \<Rightarrow> fail_job nodeId e j n
     | None \<Rightarrow> (case map_of (nw_peers n) nodeId of
         None \<Rightarrow> fail_job nodeId (''Unknown cluster peer: '' @ nodeId) j n
       | Some baseUrl \<Rightarrow> (case nd_socketError d baseUrl of
           Some e \<Rightarrow> fail_job nodeId e j (n\<lparr>nw_connecting := map_set nodeId (Broken e) (nw_connecting n)\<rparr>)
         | None \<Rightarrow> open_channel_socket nodeId j n))))"

text \<open>The events of a dialed socket.\<close>

definition dialed_open :: "cluster_config \<Rightarrow> nw_deps \<Rightarrow> int \<Rightarrow> nat \<Rightarrow> network \<Rightarrow> network" where
  "dialed_open cfg d now s n = (case map_of (nw_dialed n) s of
     None \<Rightarrow> n
   | Some nodeId \<Rightarrow> send_message cfg d now s (THello nodeId s) (Hello (cc_nodeId cfg) (cc_sharedSecret cfg)) n)"

definition connect_timeout :: "nat \<Rightarrow> network \<Rightarrow> network" where
  "connect_timeout s n = (case map_of (nw_dialed n) s of
     None \<Rightarrow> n | Some nodeId \<Rightarrow> finish_reject nodeId s (''Cluster socket connect timed out: '' @ nodeId) n)"

definition dialed_error :: "nat \<Rightarrow> network \<Rightarrow> network" where
  "dialed_error s n = (case map_of (nw_dialed n) s of
     None \<Rightarrow> n | Some nodeId \<Rightarrow> finish_reject nodeId s (''Cluster socket error during connect: '' @ nodeId) n)"

definition finish_resolve :: "cluster_config \<Rightarrow> nw_deps \<Rightarrow> int \<Rightarrow> string \<Rightarrow> nat \<Rightarrow> network \<Rightarrow> network" where
  "finish_resolve cfg d now nodeId s n =
    (if map_of (nw_connecting n) nodeId \<noteq> Some (Attempt s) then n
     else foldl (\<lambda>n j. run_job cfg d now nodeId s j n) (take_jobs nodeId n) (jobs_of nodeId n))"

definition on_hello_ack :: "cluster_config \<Rightarrow> nw_deps \<Rightarrow> int \<Rightarrow> string \<Rightarrow> nat \<Rightarrow> string \<Rightarrow> network \<Rightarrow> network" where
  "on_hello_ack cfg d now nodeId s remoteNodeId n =
    (if remoteNodeId \<noteq> nodeId
     then finish_reject nodeId s (''Cluster helloAck mismatch: expected='' @ nodeId @ '' actual='' @ remoteNodeId) n
     else finish_resolve cfg d now nodeId s (note_peer_alive nodeId ''hello_ack'' (register_channel nodeId s n)))"

text \<open>A socket is gone. The promises of the messages still queued on it are rejected; their
  continuations run after the rest.\<close>

definition drop_queue :: "send_tag csock \<Rightarrow> send_tag csock" where
  "drop_queue c = c\<lparr>cs_queue := [], cs_queuedBytes := 0, cs_drainTimer := False, cs_drainScheduled := False,
     cs_settled := cs_settled c @ map (\<lambda>(k, m, _). (k, m, Some ''Cluster socket closed'')) (cs_queue c)\<rparr>"

definition reject_pending_of :: "string \<Rightarrow> ledger \<Rightarrow> ledger" where
  "reject_pending_of nodeId l = foldl (\<lambda>l (ref, p). if pr_nodeId p = nodeId
       then settle_ref ref (Rejected (''Cluster channel closed: '' @ nodeId)) l else l) l (lg_pending l)"

definition unregister_socket :: "cluster_config \<Rightarrow> nw_deps \<Rightarrow> int \<Rightarrow> nat \<Rightarrow> network \<Rightarrow> network" where
  "unregister_socket cfg d now s n =
    (let c = sock_of n s;
         n1 = put_sock s (drop_queue c) n;
         n2 = (case map_of (nw_nodeOf n1) s of
             None \<Rightarrow> n1
           | Some nodeId \<Rightarrow>
              (let n3 = note_peer_suspect nodeId ''channel_closed'' n1;
                   n4 = (if map_of (nw_channels n3) nodeId = Some s
                         then n3\<lparr>nw_channels := map_del nodeId (nw_channels n3)\<rparr> else n3)
               in with_ledger (reject_pending_of nodeId) (n4\<lparr>nw_nodeOf := map_del s (nw_nodeOf n4)\<rparr>)))
     in settle_sends cfg d now (drop (length (cs_settled c)) (cs_settled (drop_queue c))) n2)"

definition dialed_close :: "cluster_config \<Rightarrow> nw_deps \<Rightarrow> int \<Rightarrow> nat \<Rightarrow> network \<Rightarrow> network" where
  "dialed_close cfg d now s n =
    (let n1 = unregister_socket cfg d now s n in
     case map_of (nw_dialed n1) s of
       None \<Rightarrow> n1
     | Some nodeId \<Rightarrow> finish_reject nodeId s (''Cluster socket closed during connect: '' @ nodeId) n1)"

definition open_server_socket :: "network \<Rightarrow> network" where
  "open_server_socket n = n\<lparr>nw_nextSocket := Suc (nw_nextSocket n), nw_serverSockets := nw_serverSockets n @ [nw_nextSocket n]\<rparr>"

definition close_server_socket :: "cluster_config \<Rightarrow> nw_deps \<Rightarrow> int \<Rightarrow> nat \<Rightarrow> network \<Rightarrow> network" where
  "close_server_socket cfg d now s n =
     unregister_socket cfg d now s (n\<lparr>nw_serverSockets := filter (\<lambda>x. x \<noteq> s) (nw_serverSockets n)\<rparr>)"

section \<open>Incoming messages\<close>

definition repair_wanted :: "health_snapshot option \<Rightarrow> health_rumor \<Rightarrow> bool" where
  "repair_wanted local digest = (case local of
     None \<Rightarrow> True
   | Some l \<Rightarrow>
      if sn_status l = Unknown then True
      else if ru_incarnation digest > sn_incarnation l then True
      else if ru_incarnation digest < sn_incarnation l then False
      else if status_rank (ru_status digest) > status_rank (sn_status l) then True
      else ru_status digest = sn_status l
        \<and> (case ru_lastAliveAt digest of Some t \<Rightarrow> t | None \<Rightarrow> 0) > (case sn_lastAliveAt l of Some t \<Rightarrow> t | None \<Rightarrow> 0)
        \<and> sn_source l \<noteq> LocalSource)"

definition collect_repair_targets :: "health_snapshot list \<Rightarrow> health_rumor list \<Rightarrow> string list" where
  "collect_repair_targets localSnapshots digests =
    (let byNodeId = map_from (map (\<lambda>s. (sn_nodeId s, s)) localSnapshots)
     in map ru_nodeId (filter (\<lambda>g. repair_wanted (map_of byNodeId (ru_nodeId g)) g) digests))"

definition to_rumor :: "health_snapshot \<Rightarrow> health_rumor" where
  "to_rumor s = \<lparr>ru_nodeId = sn_nodeId s, ru_status = sn_status s, ru_incarnation = sn_incarnation s,
     ru_lastAliveAt = sn_lastAliveAt s\<rparr>"

definition known_rumors :: "health_snapshot list \<Rightarrow> health_rumor list" where
  "known_rumors snapshots = map to_rumor (filter (\<lambda>s. sn_status s \<noteq> Unknown) snapshots)"

definition send_sync_to_peer ::
  "cluster_config \<Rightarrow> nw_deps \<Rightarrow> int \<Rightarrow> string \<Rightarrow> health_snapshot list \<Rightarrow> network \<Rightarrow> network" where
  "send_sync_to_peer cfg d now nodeId snapshots n =
    (if known_rumors snapshots = [] then n
     else ensure_channel cfg d now nodeId (JobSend (PeerHealthSync (known_rumors snapshots))) n)"

definition handle_hello ::
  "cluster_config \<Rightarrow> nw_deps \<Rightarrow> int \<Rightarrow> nat \<Rightarrow> string \<Rightarrow> string option \<Rightarrow> network \<Rightarrow> network" where
  "handle_hello cfg d now s nodeId secret n =
    (if truthy (cc_sharedSecret cfg) \<and> secret \<noteq> cc_sharedSecret cfg
     then close_sock s 4401 ''cluster shared secret mismatch'' n
     else send_message cfg d now s (TReply s) (HelloAck (cc_nodeId cfg))
            (note_peer_alive nodeId ''hello'' (register_channel nodeId s n)))"

definition handle_hello_ack :: "cluster_config \<Rightarrow> nw_deps \<Rightarrow> int \<Rightarrow> nat \<Rightarrow> string \<Rightarrow> network \<Rightarrow> network" where
  "handle_hello_ack cfg d now s nodeId n =
    (let n1 = note_peer_alive nodeId ''hello_ack'' (n\<lparr>nw_nodeOf := map_set s nodeId (nw_nodeOf n)\<rparr>)
     in case map_of (nw_dialed n1) s of None \<Rightarrow> n1 | Some expected \<Rightarrow> on_hello_ack cfg d now expected s nodeId n1)"

definition handle_deliver :: "cluster_config \<Rightarrow> nw_deps \<Rightarrow> int \<Rightarrow> nat \<Rightarrow> string \<Rightarrow> deliver_payload \<Rightarrow> network \<Rightarrow> network" where
  "handle_deliver cfg d now s ref p n =
    (if \<not> nd_hasHandlers d then
       send_message cfg d now s (TReply s) (DeliverResult ref [] (Some ''Cluster server handlers are not configured'')) n
     else (case nd_deliver d p of
         Inr conns \<Rightarrow> send_message cfg d now s (TDeliverResult s ref) (DeliverResult ref conns None) n
       | Inl e \<Rightarrow> send_message cfg d now s (TReply s) (DeliverResult ref [] (Some e)) n))"

definition handle_deliver_result :: "string \<Rightarrow> conn_ref list \<Rightarrow> string option \<Rightarrow> network \<Rightarrow> network" where
  "handle_deliver_result ref conns err n = (case map_of (lg_pending (nw_ledger n)) ref of
     None \<Rightarrow> n
   | Some p \<Rightarrow>
      if truthy err then
        with_ledger (settle_ref ref (Rejected (the err))) (note_peer_suspect (pr_nodeId p) (''deliver_error:'' @ the err) n)
      else with_ledger (settle_ref ref (Delivered conns)) (note_peer_alive (pr_nodeId p) ''deliver_result'' n))"

definition handle_ack_request ::
  "cluster_config \<Rightarrow> nw_deps \<Rightarrow> int \<Rightarrow> nat \<Rightarrow> string \<Rightarrow> conn_ref \<Rightarrow> string \<Rightarrow> string option \<Rightarrow> network \<Rightarrow> network" where
  "handle_ack_request cfg d now s ref sender ackFor traceId n =
    (if \<not> nd_hasHandlers d then
       send_message cfg d now s (TReply s) (HandleAckResult ref False (Some ''Cluster server handlers are not configured'')) n
     else (case nd_handleAck d sender ackFor traceId of
         Inr ok \<Rightarrow> send_message cfg d now s (TAckResult s ref) (HandleAckResult ref ok None) n
       | Inl e \<Rightarrow> send_message cfg d now s (TReply s) (HandleAckResult ref False (Some e)) n))"

definition handle_ack_result :: "string \<Rightarrow> bool \<Rightarrow> string option \<Rightarrow> network \<Rightarrow> network" where
  "handle_ack_result ref ok err n = (case map_of (lg_pending (nw_ledger n)) ref of
     None \<Rightarrow> n
   | Some p \<Rightarrow>
      if \<not> ok then
        with_ledger (settle_ref ref (Rejected (case err of Some e \<Rightarrow> e | None \<Rightarrow> ''Cluster handleAck failed'')))
          (note_peer_suspect (pr_nodeId p) (''handle_ack_error:'' @ (case err of Some e \<Rightarrow> e | None \<Rightarrow> ''unknown'')) n)
      else with_ledger (settle_ref ref Acked) (note_peer_alive (pr_nodeId p) ''handle_ack_result'' n))"

text \<open>The messages of a socket whose node is known.\<close>

definition handle_known ::
  "cluster_config \<Rightarrow> nw_deps \<Rightarrow> int \<Rightarrow> nat \<Rightarrow> string \<Rightarrow> cluster_msg \<Rightarrow> network \<Rightarrow> network" where
  "handle_known cfg d now s remote m n = (case m of
     Hello nodeId secret \<Rightarrow> handle_hello cfg d now s nodeId secret n
   | HelloAck nodeId \<Rightarrow> handle_hello_ack cfg d now s nodeId n
   | CPing ts \<Rightarrow> send_message cfg d now s (TReply s) (CPong ts) (note_peer_alive remote ''ping'' n)
   | CPong _ \<Rightarrow> note_peer_alive remote ''pong'' n
   | PeerHealthRumor r \<Rightarrow> observe_rumor r remote (note_peer_alive remote ''peer_health_rumor'' n)
   | PeerHealthDigest digests \<Rightarrow>
      (let n1 = note_peer_alive remote ''peer_health_digest'' n;
           targets = collect_repair_targets (nd_snapshots d (nw_observed n1)) digests
       in if targets = [] then n1 else ensure_channel cfg d now remote (JobSend (PeerHealthRepairRequest targets)) n1)
   | PeerHealthRepairRequest peerNodeIds \<Rightarrow>
      (let n1 = note_peer_alive remote ''peer_health_repair_request'' n
       in send_sync_to_peer cfg d now remote
            (filter (\<lambda>sn. sn_nodeId sn \<in> set peerNodeIds) (nd_snapshots d (nw_observed n1))) n1)
   | PeerHealthSync rumors \<Rightarrow>
       foldl (\<lambda>n r. observe_rumor r remote n) (note_peer_alive remote ''peer_health_sync'' n) rumors
   | Deliver ref p \<Rightarrow> handle_deliver cfg d now s ref p n
   | DeliverResult ref conns err \<Rightarrow> handle_deliver_result ref conns err n
   | HandleAckMsg ref sender ackFor traceId \<Rightarrow> handle_ack_request cfg d now s ref sender ackFor traceId n
   | HandleAckResult ref ok err \<Rightarrow> handle_ack_result ref ok err n)"

definition handle_incoming :: "cluster_config \<Rightarrow> nw_deps \<Rightarrow> int \<Rightarrow> nat \<Rightarrow> cluster_msg option \<Rightarrow> network \<Rightarrow> network" where
  "handle_incoming cfg d now s raw n = (case raw of
     None \<Rightarrow> close_sock s 4400 ''invalid cluster message'' n
   | Some m \<Rightarrow> (case map_of (nw_nodeOf n) s of
        Some remote \<Rightarrow> handle_known cfg d now s remote m n
      | None \<Rightarrow> (case m of
           Hello nodeId secret \<Rightarrow> handle_hello cfg d now s nodeId secret n
         | HelloAck nodeId \<Rightarrow> handle_hello_ack cfg d now s nodeId n
         | _ \<Rightarrow> close_sock s 4401 ''cluster channel not authenticated'' n)))"

section \<open>Calls from the gateway\<close>

text \<open>A request over the channel; its outcome comes to be in \<open>lg_outcomes\<close>.\<close>

definition send_request ::
  "cluster_config \<Rightarrow> nw_deps \<Rightarrow> int \<Rightarrow> string \<Rightarrow> request_payload \<Rightarrow> network \<Rightarrow> nat \<times> network" where
  "send_request cfg d now nodeId p n =
    (let r = lg_next (nw_ledger n)
     in (r, ensure_channel cfg d now nodeId (JobRequest r p) (with_ledger (\<lambda>l. l\<lparr>lg_next := Suc r\<rparr>) n)))"

definition request_timeout :: "string \<Rightarrow> network \<Rightarrow> network" where
  "request_timeout ref n = (case map_of (lg_pending (nw_ledger n)) ref of
     None \<Rightarrow> n
   | Some p \<Rightarrow> with_ledger (settle_ref ref
        (Rejected (''Cluster request timed out: '' @ pr_kind p @ '' -> '' @ pr_nodeId p)))
        (note_peer_suspect (pr_nodeId p) (''request_timeout:'' @ pr_kind p) n))"

text \<open>\<open>fetch\<close> with an answer that is not ok reports the peer twice, once with the status and once in the
  catch clause.\<close>

definition http_request :: "string \<Rightarrow> string \<Rightarrow> 'a fetched \<Rightarrow> network \<Rightarrow> (string + 'a) \<times> network" where
  "http_request nodeId path answer n = (case answer of
     FetchThrew e \<Rightarrow> (Inl e, note_peer_suspect nodeId e n)
   | FetchStatus status \<Rightarrow>
      (let e = ''Cluster request failed: '' @ nodeId @ '' '' @ path @ '' '' @ nat_str (nat status)
       in (Inl e, note_peer_suspect nodeId e (note_peer_suspect nodeId (''http_'' @ nat_str (nat status)) n)))
   | FetchBody r \<Rightarrow> (r, note_peer_alive nodeId (''http_'' @ path) n))"

definition text_includes :: "string \<Rightarrow> string \<Rightarrow> bool" where
  "text_includes text part = sublist part text"

definition should_fallback_to_http :: "string \<Rightarrow> bool" where
  "should_fallback_to_http message \<longleftrightarrow>
     text_includes message ''Cluster outbound queue overflow'' \<or> text_includes message ''Cluster socket is closed''
     \<or> text_includes message ''Cluster socket connect timed out'' \<or> text_includes message ''Cluster channel closed:''"

definition http_deliver :: "nw_deps \<Rightarrow> string \<Rightarrow> deliver_payload \<Rightarrow> network \<Rightarrow> (string + conn_ref list) \<times> network" where
  "http_deliver d nodeId p n = (case map_of (nw_peers n) nodeId of
     None \<Rightarrow> (Inl (''Unknown cluster peer: '' @ nodeId), n)
   | Some _ \<Rightarrow> http_request nodeId ''/__cluster/deliver'' (nd_fetchDeliver d nodeId p) n)"

definition http_handle_ack ::
  "nw_deps \<Rightarrow> conn_ref \<Rightarrow> string \<Rightarrow> string option \<Rightarrow> network \<Rightarrow> (string + unit) \<times> network" where
  "http_handle_ack d sender ackFor traceId n = (case map_of (nw_peers n) (cr_nodeId sender) of
     None \<Rightarrow> (Inl (''Unknown cluster peer: '' @ cr_nodeId sender), n)
   | Some _ \<Rightarrow> http_request (cr_nodeId sender) ''/__cluster/handle-ack''
       (nd_fetchHandleAck d (cr_nodeId sender) sender ackFor traceId) n)"

text \<open>What \<open>deliver\<close> and \<open>forwardHandleAck\<close> make of the outcome of their request over the channel. An
  acknowledgement in answer to a delivery resolves it with \<open>undefined\<close>, whose property read throws.\<close>

definition deliver_result ::
  "nw_deps \<Rightarrow> string \<Rightarrow> deliver_payload \<Rightarrow> request_outcome \<Rightarrow> network \<Rightarrow> (string + conn_ref list) \<times> network" where
  "deliver_result d nodeId p o1 n = (case o1 of
     Delivered conns \<Rightarrow> (Inr conns, n)
   | Acked \<Rightarrow> (Inl ''TypeError'', n)
   | Rejected e \<Rightarrow> if \<not> should_fallback_to_http e then (Inl e, n) else http_deliver d nodeId p n)"

definition forward_handle_ack_result ::
  "nw_deps \<Rightarrow> conn_ref \<Rightarrow> string \<Rightarrow> string option \<Rightarrow> request_outcome \<Rightarrow> network \<Rightarrow> (string + unit) \<times> network" where
  "forward_handle_ack_result d sender ackFor traceId o1 n = (case o1 of
     Rejected e \<Rightarrow> if \<not> should_fallback_to_http e then (Inl e, n) else http_handle_ack d sender ackFor traceId n
   | _ \<Rightarrow> (Inr (), n))"

text \<open>Locating peers: the nodes asked, and the merge of their answers in the order they come in; an
  answer that fails is skipped.\<close>

definition locate_targets :: "string list option \<Rightarrow> network \<Rightarrow> string list" where
  "locate_targets nodeIds n = filter (\<lambda>p. case nodeIds of None \<Rightarrow> True | Some ids \<Rightarrow> p \<in> set ids) (map_keys (nw_peers n))"

definition merge_located ::
  "string list \<Rightarrow> (string, conn_ref list) js_map option list \<Rightarrow> (string, conn_ref list) js_map" where
  "merge_located peerIds answers =
    (let conns = (\<lambda>m p. case map_of m p of None \<Rightarrow> [] | Some cs \<Rightarrow> cs)
     in foldl (\<lambda>merged answer. case answer of
            None \<Rightarrow> merged
          | Some peers \<Rightarrow> foldl (\<lambda>m p. map_set p (conns m p @ conns peers p) m) merged peerIds)
          (foldl (\<lambda>m p. map_set p [] m) [] peerIds) answers)"

definition set_peers :: "(string \<times> string) list \<Rightarrow> network \<Rightarrow> network" where
  "set_peers peers n =
    (let next = peer_index peers;
         gone = filter (\<lambda>e. \<not> map_has next (fst e)) (nw_channels n);
         n1 = foldl (\<lambda>n (nodeId, s). close_sock s 1012 ''cluster peer removed'' (clear_pending_probe nodeId n)) n gone
     in n1\<lparr>nw_channels := filter (\<lambda>e. map_has next (fst e)) (nw_channels n1),
           nw_probes := filter (\<lambda>e. map_has next (fst e)) (nw_probes n1), nw_peers := next\<rparr>)"

definition disconnect_peer :: "string \<Rightarrow> string \<Rightarrow> network \<Rightarrow> network" where
  "disconnect_peer nodeId reason n =
    (let n1 = clear_pending_probe nodeId n in
     case map_of (nw_channels n1) nodeId of
       None \<Rightarrow> n1
     | Some s \<Rightarrow> note_peer_suspect nodeId reason
         ((close_sock s 1012 reason n1)\<lparr>nw_channels := map_del nodeId (nw_channels n1)\<rparr>))"

definition for_peers :: "(string \<Rightarrow> network \<Rightarrow> network) \<Rightarrow> string list \<Rightarrow> network \<Rightarrow> network" where
  "for_peers f excluded n = foldl (\<lambda>n p. f p n) n (filter (\<lambda>p. p \<notin> set excluded) (map_keys (nw_peers n)))"

definition warm_connections :: "cluster_config \<Rightarrow> nw_deps \<Rightarrow> int \<Rightarrow> network \<Rightarrow> network" where
  "warm_connections cfg d now n = (if \<not> cc_ws cfg then n
     else for_peers (\<lambda>p. ensure_channel cfg d now p JobWarm) [] n)"

definition broadcast_rumor ::
  "cluster_config \<Rightarrow> nw_deps \<Rightarrow> int \<Rightarrow> health_snapshot \<Rightarrow> string list \<Rightarrow> network \<Rightarrow> network" where
  "broadcast_rumor cfg d now snapshot excluded n =
    (if \<not> cc_ws cfg \<or> sn_status snapshot = Unknown then n
     else for_peers (\<lambda>p. ensure_channel cfg d now p (JobSend (PeerHealthRumor (to_rumor snapshot)))) excluded n)"

definition broadcast_digest ::
  "cluster_config \<Rightarrow> nw_deps \<Rightarrow> int \<Rightarrow> health_snapshot list \<Rightarrow> string list \<Rightarrow> network \<Rightarrow> network" where
  "broadcast_digest cfg d now snapshots excluded n =
    (if \<not> cc_ws cfg \<or> known_rumors snapshots = [] then n
     else for_peers (\<lambda>p. ensure_channel cfg d now p (JobSend (PeerHealthDigest (known_rumors snapshots)))) excluded n)"

definition broadcast_sync ::
  "cluster_config \<Rightarrow> nw_deps \<Rightarrow> int \<Rightarrow> health_snapshot list \<Rightarrow> string list \<Rightarrow> network \<Rightarrow> network" where
  "broadcast_sync cfg d now snapshots excluded n =
    (if \<not> cc_ws cfg then n
     else for_peers (\<lambda>p. send_sync_to_peer cfg d now p (filter (\<lambda>s. sn_status s \<noteq> Unknown) snapshots)) excluded n)"

definition probe_peer :: "cluster_config \<Rightarrow> nw_deps \<Rightarrow> int \<Rightarrow> string \<Rightarrow> network \<Rightarrow> network" where
  "probe_peer cfg d now nodeId n = (if map_has (nw_probes n) nodeId then n
     else ensure_channel cfg d now nodeId JobProbe (n\<lparr>nw_probing := Suc (nw_probing n)\<rparr>))"

text \<open>A round of probes is in flight while a probe of it is unfinished.\<close>

definition run_peer_probes :: "cluster_config \<Rightarrow> nw_deps \<Rightarrow> int \<Rightarrow> network \<Rightarrow> network" where
  "run_peer_probes cfg d now n = (if nw_probing n \<noteq> 0 then n else for_peers (probe_peer cfg d now) [] n)"

definition probe_timeout :: "string \<Rightarrow> network \<Rightarrow> network" where
  "probe_timeout nodeId n = (if map_has (nw_probes n) nodeId then note_peer_suspect nodeId ''probe_timeout'' n else n)"

definition run_anti_entropy :: "cluster_config \<Rightarrow> nw_deps \<Rightarrow> int \<Rightarrow> network \<Rightarrow> network" where
  "run_anti_entropy cfg d now n = broadcast_digest cfg d now (nd_snapshots d (nw_observed n)) [] n"

definition start_peer_probes :: "cluster_config \<Rightarrow> nw_deps \<Rightarrow> int \<Rightarrow> network \<Rightarrow> network" where
  "start_peer_probes cfg d now n =
    (if \<not> cc_ws cfg \<or> nw_probeTimer n then n
     else (let n1 = run_peer_probes cfg d now (n\<lparr>nw_probeTimer := True\<rparr>) in
       if cc_peerAntiEntropyIntervalMs cfg > 0 \<and> \<not> nw_antiEntropyTimer n1
       then run_anti_entropy cfg d now (n1\<lparr>nw_antiEntropyTimer := True\<rparr>) else n1))"

definition stop_peer_probes :: "network \<Rightarrow> network" where
  "stop_peer_probes n = n\<lparr>nw_probeTimer := False, nw_antiEntropyTimer := False, nw_probes := []\<rparr>"

definition nw_dispose :: "network \<Rightarrow> network" where
  "nw_dispose n =
    (let n1 = stop_peer_probes n;
         n2 = with_ledger (\<lambda>l. foldl (\<lambda>l (ref, _). settle_ref ref (Rejected ''Cluster network disposed'') l) l (lg_pending l)) n1;
         n3 = foldl (\<lambda>n (_, s). close_sock s 1012 ''cluster network disposed'' n) n2 (nw_channels n2)
     in n3\<lparr>nw_channels := []\<rparr>)"

end
