(* ===== verification/Cluster_Network_Props.thy ===== *)
theory Cluster_Network_Props
  imports Cluster_Network "HOL-Library.Multiset"
begin

text \<open>What the network of a node (src/src/runtime/cluster/network.ts) keeps in every sequence of
  events: no request is lost and none is settled twice. The theory also proves the properties of
  the handshake, of the channels and of the repair of health information.\<close>

section \<open>The ledger of requests\<close>

text \<open>The requests that hold a pending reference, and the settled ones.\<close>

definition pending_requests :: "ledger \<Rightarrow> nat set" where
  "pending_requests l = {r. \<exists>ref. map_has (lg_pending l) ref \<and> map_of (lg_refs l) ref = Some r}"

definition settled_requests :: "ledger \<Rightarrow> nat set" where
  "settled_requests l = fst ` set (lg_outcomes l)"

text \<open>The ledger is in order when the requests that wait for a channel are \<open>J\<close>.\<close>

definition ledger_ok :: "(nat \<Rightarrow> string) \<Rightarrow> nat multiset \<Rightarrow> ledger \<Rightarrow> bool" where
  "ledger_ok uuid J l \<longleftrightarrow> distinct (map fst (lg_outcomes l)) \<and> (\<forall>r. count J r \<le> 1)
     \<and> inj_on (map_of (lg_refs l)) (dom (map_of (lg_refs l)))
     \<and> set_mset J \<inter> (ran (map_of (lg_refs l)) \<union> settled_requests l) = {}
     \<and> dom (map_of (lg_pending l)) \<subseteq> dom (map_of (lg_refs l))
     \<and> pending_requests l \<inter> settled_requests l = {}
     \<and> set_mset J \<union> ran (map_of (lg_refs l)) \<union> settled_requests l \<subseteq> {..<lg_next l}
     \<and> {..<lg_next l} \<subseteq> set_mset J \<union> pending_requests l \<union> settled_requests l
     \<and> dom (map_of (lg_refs l)) \<subseteq> uuid ` {..<lg_fresh l}"

lemma settled_settle: "settled_requests (settle_request r o1 l) = insert r (settled_requests l)"
  by (auto simp: settle_request_def settled_requests_def)

lemma settle_request_same [simp]:
  "lg_pending (settle_request r o1 l) = lg_pending l" "lg_refs (settle_request r o1 l) = lg_refs l"
  "lg_next (settle_request r o1 l) = lg_next l" "lg_fresh (settle_request r o1 l) = lg_fresh l"
  "pending_requests (settle_request r o1 l) = pending_requests l"
  by (simp_all add: settle_request_def pending_requests_def)

lemma ledger_okD:
  assumes "ledger_ok uuid J l"
  shows "distinct (map fst (lg_outcomes l))" "count J r \<le> 1"
    "inj_on (map_of (lg_refs l)) (dom (map_of (lg_refs l)))"
    "r \<in># J \<Longrightarrow> map_of (lg_refs l) ref \<noteq> Some r" "r \<in># J \<Longrightarrow> r \<notin> settled_requests l"
    "map_has (lg_pending l) ref \<Longrightarrow> \<exists>r. map_of (lg_refs l) ref = Some r"
    "r \<in> pending_requests l \<Longrightarrow> r \<notin> settled_requests l"
    "r \<in># J \<Longrightarrow> r < lg_next l" "map_of (lg_refs l) ref = Some r \<Longrightarrow> r < lg_next l" "r \<in> settled_requests l \<Longrightarrow> r < lg_next l"
    "r < lg_next l \<Longrightarrow> r \<in># J \<or> r \<in> pending_requests l \<or> r \<in> settled_requests l"
    "map_of (lg_refs l) ref = Some r \<Longrightarrow> ref \<in> uuid ` {..<lg_fresh l}"
  using assms unfolding ledger_ok_def by (blast intro: ranI)+

lemma ledger_okI:
  assumes "distinct (map fst (lg_outcomes l))" "\<And>r. count J r \<le> 1"
    "inj_on (map_of (lg_refs l)) (dom (map_of (lg_refs l)))"
    "\<And>r ref. r \<in># J \<Longrightarrow> map_of (lg_refs l) ref \<noteq> Some r" "\<And>r. r \<in># J \<Longrightarrow> r \<notin> settled_requests l"
    "\<And>ref. map_has (lg_pending l) ref \<Longrightarrow> \<exists>r. map_of (lg_refs l) ref = Some r"
    "\<And>r. r \<in> pending_requests l \<Longrightarrow> r \<notin> settled_requests l"
    "\<And>r. r \<in># J \<Longrightarrow> r < lg_next l" "\<And>ref r. map_of (lg_refs l) ref = Some r \<Longrightarrow> r < lg_next l"
    "\<And>r. r \<in> settled_requests l \<Longrightarrow> r < lg_next l"
    "\<And>r. r < lg_next l \<Longrightarrow> r \<in># J \<or> r \<in> pending_requests l \<or> r \<in> settled_requests l"
    "\<And>ref r. map_of (lg_refs l) ref = Some r \<Longrightarrow> ref \<in> uuid ` {..<lg_fresh l}"
  shows "ledger_ok uuid J l"
proof -
  have "set_mset J \<inter> (ran (map_of (lg_refs l)) \<union> settled_requests l) = {}" using assms(4,5) by (auto simp: ran_def)
  moreover have "dom (map_of (lg_pending l)) \<subseteq> dom (map_of (lg_refs l))" using assms(6) by blast
  moreover have "pending_requests l \<inter> settled_requests l = {}" using assms(7) by blast
  moreover have "set_mset J \<union> ran (map_of (lg_refs l)) \<union> settled_requests l \<subseteq> {..<lg_next l}"
    using assms(8-10) by (auto simp: ran_def)
  moreover have "{..<lg_next l} \<subseteq> set_mset J \<union> pending_requests l \<union> settled_requests l" using assms(11) by blast
  moreover have "dom (map_of (lg_refs l)) \<subseteq> uuid ` {..<lg_fresh l}" using assms(12) by blast
  ultimately show ?thesis using assms(1-3) by (simp add: ledger_ok_def)
qed

lemma in_hand:
  assumes "ledger_ok uuid (add_mset r J) l"
  shows "r \<notin># J" "count J x \<le> 1" "r \<notin> settled_requests l" "r < lg_next l" "r \<notin> pending_requests l"
    "map_of (lg_refs l) ref \<noteq> Some r"
proof -
  have c: "count (add_mset r J) x \<le> 1" for x by (rule ledger_okD(2)[OF assms])
  show "r \<notin># J" using c[of r] by (simp add: count_eq_zero_iff)
  show "count J x \<le> 1" using c[of x] by (simp split: if_split_asm)
  show "r \<notin> settled_requests l" "r < lg_next l" using ledger_okD(5,8)[OF assms, of r] by auto
  show "map_of (lg_refs l) ref \<noteq> Some r" using ledger_okD(4)[OF assms, of r ref] by simp
  show "r \<notin> pending_requests l" using ledger_okD(4)[OF assms, of r] by (auto simp: pending_requests_def)
qed

lemma ledger_settle:
  assumes "ledger_ok uuid (add_mset r J) l"
  shows "ledger_ok uuid J (settle_request r o1 l)"
proof (rule ledger_okI)
  note h = in_hand[OF assms]
  show "distinct (map fst (lg_outcomes (settle_request r o1 l)))"
    using ledger_okD(1)[OF assms] h(3) by (simp add: settle_request_def settled_requests_def)
  show "x < lg_next (settle_request r o1 l) \<Longrightarrow> x \<in># J \<or> x \<in> pending_requests (settle_request r o1 l)
      \<or> x \<in> settled_requests (settle_request r o1 l)" for x
    using ledger_okD(11)[OF assms, of x] by (auto simp: settled_settle)
  show "x \<in># J \<Longrightarrow> x \<notin> settled_requests (settle_request r o1 l)" for x
    using ledger_okD(5)[OF assms, of x] h(1) by (auto simp: settled_settle)
  show "x \<in> pending_requests (settle_request r o1 l) \<Longrightarrow> x \<notin> settled_requests (settle_request r o1 l)" for x
    using ledger_okD(7)[OF assms, of x] h(5) by (auto simp: settled_settle)
  show "x \<in> settled_requests (settle_request r o1 l) \<Longrightarrow> x < lg_next (settle_request r o1 l)" for x
    using ledger_okD(10)[OF assms, of x] h(4) by (auto simp: settled_settle)
  show "count J x \<le> 1" for x by (rule h(2))
  show "inj_on (map_of (lg_refs (settle_request r o1 l))) (dom (map_of (lg_refs (settle_request r o1 l))))"
    using ledger_okD(3)[OF assms] by simp
  show "x \<in># J \<Longrightarrow> map_of (lg_refs (settle_request r o1 l)) ref \<noteq> Some x" for x ref
    using ledger_okD(4)[OF assms, of x ref] by simp
  show "map_has (lg_pending (settle_request r o1 l)) ref \<Longrightarrow> \<exists>x. map_of (lg_refs (settle_request r o1 l)) ref = Some x" for ref
    using ledger_okD(6)[OF assms, of ref] by simp
  show "x \<in># J \<Longrightarrow> x < lg_next (settle_request r o1 l)" for x using ledger_okD(8)[OF assms, of x] by simp
  show "map_of (lg_refs (settle_request r o1 l)) ref = Some x \<Longrightarrow> x < lg_next (settle_request r o1 l)" for x ref
    using ledger_okD(9)[OF assms, of ref x] by simp
  show "map_of (lg_refs (settle_request r o1 l)) ref = Some x \<Longrightarrow> ref \<in> uuid ` {..<lg_fresh (settle_request r o1 l)}" for x ref
    using ledger_okD(12)[OF assms, of ref x] by simp
qed

lemma refs_unique:
  assumes "ledger_ok uuid J l" "map_of (lg_refs l) ref = Some r" "map_of (lg_refs l) x = Some r"
  shows "x = ref"
  using ledger_okD(3)[OF assms(1)] assms(2,3) by (simp add: inj_on_def dom_def)

lemma ledger_settle_ref:
  assumes "ledger_ok uuid J l" "map_has (lg_pending l) ref"
  shows "ledger_ok uuid J (settle_ref ref o1 l)"
proof -
  obtain r where r: "map_of (lg_refs l) ref = Some r" using ledger_okD(6)[OF assms] by blast
  have "r \<in> pending_requests l" using assms(2) r by (auto simp: pending_requests_def)
  then have new: "r \<notin> fst ` set (lg_outcomes l)" using ledger_okD(7)[OF assms(1)] by (simp add: settled_requests_def)
  let ?l = "l\<lparr>lg_pending := map_del ref (lg_pending l), lg_outcomes := lg_outcomes l @ [(r, o1)]\<rparr>"
  have e: "settle_ref ref o1 l = ?l" using new by (simp add: settle_ref_def r settle_request_def)
  have key: "map_of (lg_refs l) k = Some x \<Longrightarrow> (k = ref) = (x = r)" for k x
    using r refs_unique[OF assms(1) r, of k] by auto
  have has: "map_has (lg_pending ?l) k \<longleftrightarrow> k \<noteq> ref \<and> map_has (lg_pending l) k" and refs: "lg_refs ?l = lg_refs l" for k
    by simp_all
  have p: "pending_requests ?l = pending_requests l - {r}"
    unfolding pending_requests_def has refs using key by blast
  have s: "settled_requests ?l = insert r (settled_requests l)" by (auto simp: settled_requests_def)
  have n: "r < lg_next l" "r \<notin># J" using ledger_okD(9)[OF assms(1) r] ledger_okD(4)[OF assms(1), of r ref] r by auto
  show ?thesis unfolding e
  proof (rule ledger_okI)
    show "distinct (map fst (lg_outcomes ?l))" using ledger_okD(1)[OF assms(1)] new by simp
    show "x < lg_next ?l \<Longrightarrow> x \<in># J \<or> x \<in> pending_requests ?l \<or> x \<in> settled_requests ?l" for x
      using ledger_okD(11)[OF assms(1), of x] by (auto simp: p s)
    show "x \<in># J \<Longrightarrow> x \<notin> settled_requests ?l" for x using ledger_okD(5)[OF assms(1), of x] n(2) by (auto simp: s)
    show "x \<in> pending_requests ?l \<Longrightarrow> x \<notin> settled_requests ?l" for x
      using ledger_okD(7)[OF assms(1), of x] by (auto simp: p s)
    show "x \<in> settled_requests ?l \<Longrightarrow> x < lg_next ?l" for x using ledger_okD(10)[OF assms(1), of x] n(1) by (auto simp: s)
    show "map_has (lg_pending ?l) x \<Longrightarrow> \<exists>y. map_of (lg_refs ?l) x = Some y" for x
      using ledger_okD(6)[OF assms(1), of x] by (auto split: if_split_asm)
    show "count J x \<le> 1" for x by (rule ledger_okD(2)[OF assms(1)])
  qed (simp_all add: ledger_okD(3)[OF assms(1)] ledger_okD(4,8,9,12)[OF assms(1)])
qed

text \<open>A reference that is no longer pending was settled: settling it again changes nothing.\<close>

lemma ledger_del_ref:
  assumes "ledger_ok uuid J l"
  shows "ledger_ok uuid J (settle_ref ref o1 l)"
proof (cases "map_has (lg_pending l) ref")
  case True
  then show ?thesis by (rule ledger_settle_ref[OF assms])
next
  case False
  have l: "l\<lparr>lg_pending := map_del ref (lg_pending l)\<rparr> = l" using False by (simp add: map_del_absent)
  show ?thesis
  proof (cases "map_of (lg_refs l) ref")
    case (Some r)
    have "r \<notin> pending_requests l" using False refs_unique[OF assms Some] by (auto simp: pending_requests_def)
    moreover have "r < lg_next l" "r \<notin># J" using ledger_okD(9)[OF assms Some] ledger_okD(4)[OF assms, of r ref] Some by auto
    ultimately have "r \<in> settled_requests l" using ledger_okD(11)[OF assms, of r] by blast
    then show ?thesis using assms by (simp add: settle_ref_def l Some settle_request_def settled_requests_def)
  qed (use assms in \<open>simp add: settle_ref_def l\<close>)
qed

lemma ledger_new_ref:
  assumes "ledger_ok uuid (add_mset r J) l" "inj uuid"
  shows "ledger_ok uuid J (new_ref (uuid (lg_fresh l)) node kind r l)"
proof -
  let ?ref = "uuid (lg_fresh l)"
  let ?l = "new_ref ?ref node kind r l"
  have new: "map_of (lg_refs l) ?ref = None"
    using ledger_okD(12)[OF assms(1), of ?ref] assms(2) by (cases "map_of (lg_refs l) ?ref") (auto simp: inj_def)
  note h = in_hand[OF assms(1)]
  have np: "map_of (lg_pending l) ?ref = None"
    using ledger_okD(6)[OF assms(1), of ?ref] new by (cases "map_of (lg_pending l) ?ref") auto
  have refs: "map_of (lg_refs ?l) = (map_of (lg_refs l))(?ref \<mapsto> r)" by (simp add: new_ref_def)
  have pend: "map_has (lg_pending ?l) x \<longleftrightarrow> x = ?ref \<or> map_has (lg_pending l) x" for x by (simp add: new_ref_def)
  have "pending_requests ?l = insert r {x. \<exists>k. k \<noteq> ?ref \<and> map_has (lg_pending l) k \<and> map_of (lg_refs l) k = Some x}"
    unfolding pending_requests_def pend refs fun_upd_apply by (rule set_eqI) (simp, metis)
  moreover have "pending_requests l = {x. \<exists>k. k \<noteq> ?ref \<and> map_has (lg_pending l) k \<and> map_of (lg_refs l) k = Some x}"
    unfolding pending_requests_def using new by (metis option.simps(3))
  ultimately have p: "pending_requests ?l = insert r (pending_requests l)" by simp
  have s: "settled_requests ?l = settled_requests l" "lg_next ?l = lg_next l" "lg_fresh ?l = Suc (lg_fresh l)"
    "lg_outcomes ?l = lg_outcomes l" by (simp_all add: new_ref_def settled_requests_def)
  show ?thesis
  proof (rule ledger_okI)
    show "inj_on (map_of (lg_refs ?l)) (dom (map_of (lg_refs ?l)))"
      unfolding refs using ledger_okD(3)[OF assms(1)] h(6) new by (fastforce simp: inj_on_def)
    show "x < lg_next ?l \<Longrightarrow> x \<in># J \<or> x \<in> pending_requests ?l \<or> x \<in> settled_requests ?l" for x
      using ledger_okD(11)[OF assms(1), of x] by (auto simp: p s)
    show "x \<in># J \<Longrightarrow> map_of (lg_refs ?l) ref \<noteq> Some x" for x ref
      using ledger_okD(4)[OF assms(1), of x ref] h(1) by (auto simp: refs)
    show "x \<in> pending_requests ?l \<Longrightarrow> x \<notin> settled_requests ?l" for x
      using ledger_okD(7)[OF assms(1), of x] h(3) by (auto simp: p s)
    show "map_has (lg_pending ?l) x \<Longrightarrow> \<exists>y. map_of (lg_refs ?l) x = Some y" for x
      using ledger_okD(6)[OF assms(1), of x] unfolding pend refs by (cases "x = ?ref") auto
    show "map_of (lg_refs ?l) x = Some y \<Longrightarrow> y < lg_next ?l" for x y
      using ledger_okD(9)[OF assms(1), of x y] h(4) by (auto simp: refs s split: if_split_asm)
    show "map_of (lg_refs ?l) x = Some y \<Longrightarrow> x \<in> uuid ` {..<lg_fresh ?l}" for x y
      using ledger_okD(12)[OF assms(1), of x y] by (auto simp: refs s split: if_split_asm)
    show "distinct (map fst (lg_outcomes ?l))" using ledger_okD(1)[OF assms(1)] by (simp add: s)
    show "count J x \<le> 1" for x by (rule h(2))
    show "x \<in># J \<Longrightarrow> x \<notin> settled_requests ?l" "x \<in># J \<Longrightarrow> x < lg_next ?l" for x
      using ledger_okD(5,8)[OF assms(1), of x] by (auto simp: s)
    show "x \<in> settled_requests ?l \<Longrightarrow> x < lg_next ?l" for x using ledger_okD(10)[OF assms(1), of x] by (simp add: s)
  qed
qed

section \<open>The network\<close>

text \<open>The requests a job carries, and those of a list of jobs.\<close>

definition job_request :: "job \<Rightarrow> nat multiset" where
  "job_request j = (case j of JobRequest r _ \<Rightarrow> {#r#} | _ \<Rightarrow> {#})"

definition jobs_requests :: "job list \<Rightarrow> nat multiset" where
  "jobs_requests js = sum_list (map job_request js)"

lemma jobs_requests_simps [simp]:
  "jobs_requests [] = {#}" "jobs_requests (j # js) = job_request j + jobs_requests js"
  "jobs_requests (js @ ks) = jobs_requests js + jobs_requests ks"
  by (simp_all add: jobs_requests_def)

text \<open>The requests are in order while those of \<open>H\<close> are in the hands of the running handler.\<close>

definition accounts :: "(nat \<Rightarrow> string) \<Rightarrow> nat multiset \<Rightarrow> network \<Rightarrow> bool" where
  "accounts uuid H n \<longleftrightarrow> ledger_ok uuid (jobs_requests (map snd (nw_jobs n)) + H) (nw_ledger n)"

lemma accounts_cong: "nw_ledger n' = nw_ledger n \<Longrightarrow> nw_jobs n' = nw_jobs n \<Longrightarrow> accounts uuid H n' = accounts uuid H n"
  by (simp add: accounts_def)

lemma put_sock_fields [simp]:
  "nw_ledger (put_sock s c n) = nw_ledger n" "nw_jobs (put_sock s c n) = nw_jobs n"
  "nw_ledger (close_sock s code t n) = nw_ledger n" "nw_jobs (close_sock s code t n) = nw_jobs n"
  "nw_ledger (clear_pending_probe p n) = nw_ledger n" "nw_jobs (clear_pending_probe p n) = nw_jobs n"
  "nw_ledger (note_peer_alive p t n) = nw_ledger n" "nw_jobs (note_peer_alive p t n) = nw_jobs n"
  "nw_ledger (note_peer_suspect p t n) = nw_ledger n" "nw_jobs (note_peer_suspect p t n) = nw_jobs n"
  "nw_ledger (observe_rumor r p n) = nw_ledger n" "nw_jobs (observe_rumor r p n) = nw_jobs n"
  "nw_ledger (with_ledger f n) = f (nw_ledger n)" "nw_jobs (with_ledger f n) = nw_jobs n"
  "nw_ledger (send_done tag n) = nw_ledger n" "nw_jobs (send_done tag n) = nw_jobs n"
  "nw_ledger (register_channel p s n) = nw_ledger n" "nw_jobs (register_channel p s n) = nw_jobs n"
  "nw_ledger (drain_timer s n) = nw_ledger n" "nw_jobs (drain_timer s n) = nw_jobs n"
  by (simp_all add: put_sock_def close_sock_def clear_pending_probe_def note_peer_alive_def note_peer_suspect_def
      observe_rumor_def with_ledger_def send_done_def register_channel_def drain_timer_def Let_def
      split: send_tag.split option.split)

lemma accounts_fields [simp]:
  "accounts uuid H (put_sock s c n) = accounts uuid H n" "accounts uuid H (close_sock s code t n) = accounts uuid H n"
  "accounts uuid H (note_peer_alive p t n) = accounts uuid H n" "accounts uuid H (note_peer_suspect p t n) = accounts uuid H n"
  "accounts uuid H (clear_pending_probe p n) = accounts uuid H n" "accounts uuid H (observe_rumor r p n) = accounts uuid H n"
  "accounts uuid H (send_done tag n) = accounts uuid H n" "accounts uuid H (register_channel p s n) = accounts uuid H n"
  "accounts uuid H (drain_timer s n) = accounts uuid H n"
  by (simp_all add: accounts_def)

lemma accounts_settle_ref: "accounts uuid H n \<Longrightarrow> accounts uuid H (with_ledger (settle_ref ref o1) n)"
  by (simp add: accounts_def ledger_del_ref)

lemma accounts_fail_job: "accounts uuid (job_request j + H) n \<Longrightarrow> accounts uuid H (fail_job nodeId err j n)"
  by (cases j) (auto simp: accounts_def fail_job_def job_request_def intro: ledger_settle)

lemma accounts_fail_jobs:
  "accounts uuid (jobs_requests js + H) n \<Longrightarrow> accounts uuid H (foldl (\<lambda>n j. fail_job nodeId err j n) n js)"
  by (induction js arbitrary: n) (auto simp: add.assoc intro!: accounts_fail_job)

lemma jobs_partition:
  "jobs_requests (map snd (filter P xs)) + jobs_requests (map snd (filter (\<lambda>x. \<not> P x) xs)) = jobs_requests (map snd xs)"
  by (induction xs) (auto simp: ac_simps)

lemma accounts_take_jobs: "accounts uuid H n \<Longrightarrow> accounts uuid (jobs_requests (jobs_of nodeId n) + H) (take_jobs nodeId n)"
  using jobs_partition[of "\<lambda>e. fst e = nodeId" "nw_jobs n"]
  by (simp add: accounts_def take_jobs_def jobs_of_def ac_simps)

lemma accounts_finish_reject: "accounts uuid H n \<Longrightarrow> accounts uuid H (finish_reject nodeId s t n)"
  by (auto simp: finish_reject_def intro!: accounts_fail_jobs accounts_take_jobs)

lemma accounts_incoming_failed: "accounts uuid H n \<Longrightarrow> accounts uuid H (incoming_failed s e n)"
  by (auto simp: incoming_failed_def accounts_finish_reject split: option.split)

lemma accounts_send_failed_last: "accounts uuid H n \<Longrightarrow> accounts uuid H (send_failed_last tag e n)"
  by (auto simp: send_failed_last_def accounts_settle_ref accounts_finish_reject accounts_incoming_failed
      accounts_cong[of "n\<lparr>nw_probing := k\<rparr>" n for k] split: send_tag.split)

lemma accounts_turn:
  assumes "accounts uuid H n" "\<And>tag e n. accounts uuid H n \<Longrightarrow> accounts uuid H (failed tag e n)"
  shows "accounts uuid H (turn failed cfg d now phase s tag m n)"
proof -
  have "accounts uuid H (n1\<lparr>nw_blocked := b\<rparr>) = accounts uuid H n1" for n1 b by (simp add: accounts_def)
  then show ?thesis using assms by (auto simp: turn_def after_send_def split: prod.split send_outcome.split)
qed

lemma accounts_send_failed: "accounts uuid H n \<Longrightarrow> accounts uuid H (send_failed cfg d now tag e n)"
  by (auto simp: send_failed_def split: send_tag.split intro!: accounts_turn accounts_send_failed_last)

lemma accounts_send_message: "accounts uuid H n \<Longrightarrow> accounts uuid H (send_message cfg d now s tag m n)"
  unfolding send_message_def by (rule accounts_turn) (simp_all add: accounts_send_failed)

lemma accounts_settle_sends: "accounts uuid H n \<Longrightarrow> accounts uuid H (settle_sends cfg d now es n)"
  unfolding settle_sends_def
  by (rule foldl_preserves) (auto simp: accounts_send_failed split: option.split)

lemma accounts_run_job:
  assumes "inj (nd_uuid d)" "accounts (nd_uuid d) (job_request j + H) n"
  shows "accounts (nd_uuid d) H (run_job cfg d now nodeId s j n)"
proof (cases j)
  case (JobRequest r p)
  have "accounts (nd_uuid d) H (with_ledger (new_ref (nd_uuid d (lg_fresh (nw_ledger n))) nodeId (request_kind p) r) n)"
    using assms JobRequest by (simp add: accounts_def job_request_def ledger_new_ref)
  then show ?thesis by (simp add: run_job_def JobRequest Let_def accounts_send_message)
next
  case JobProbe
  have "accounts (nd_uuid d) H (n\<lparr>nw_probes := x\<rparr>)" for x using assms(2) JobProbe by (simp add: accounts_def job_request_def)
  then show ?thesis by (simp add: run_job_def JobProbe accounts_send_message)
qed (use assms in \<open>simp_all add: run_job_def job_request_def accounts_send_message\<close>)

lemma accounts_run_jobs:
  "inj (nd_uuid d) \<Longrightarrow> accounts (nd_uuid d) (jobs_requests js + H) n \<Longrightarrow>
   accounts (nd_uuid d) H (foldl (\<lambda>n j. run_job cfg d now nodeId s j n) n js)"
  by (induction js arbitrary: n) (auto simp: add.assoc intro!: accounts_run_job)

lemma accounts_ensure_channel:
  assumes "inj (nd_uuid d)" "accounts (nd_uuid d) (job_request j + H) n"
  shows "accounts (nd_uuid d) H (ensure_channel cfg d now nodeId j n)"
proof -
  have wait: "accounts (nd_uuid d) H (n\<lparr>nw_jobs := nw_jobs n @ [(nodeId, j)]\<rparr>)"
    using assms(2) by (simp add: accounts_def ac_simps)
  have conn: "accounts (nd_uuid d) (job_request j + H) (n\<lparr>nw_connecting := c\<rparr>)" for c
    using assms(2) by (simp add: accounts_def)
  have fresh: "accounts (nd_uuid d) H (open_channel_socket nodeId j n)"
    using assms(2) by (simp add: accounts_def open_channel_socket_def Let_def ac_simps)
  show ?thesis
    using wait conn fresh accounts_run_job[OF assms] accounts_fail_job[OF assms(2)] accounts_fail_job[OF conn]
    by (auto simp: ensure_channel_def split: option.split connecting.split)
qed

lemma accounts_send_job:
  "inj (nd_uuid d) \<Longrightarrow> job_request j = {#} \<Longrightarrow> accounts (nd_uuid d) H n \<Longrightarrow> accounts (nd_uuid d) H (ensure_channel cfg d now nodeId j n)"
  by (rule accounts_ensure_channel) simp_all

lemma accounts_sync:
  "inj (nd_uuid d) \<Longrightarrow> accounts (nd_uuid d) H n \<Longrightarrow> accounts (nd_uuid d) H (send_sync_to_peer cfg d now nodeId sns n)"
  by (simp add: send_sync_to_peer_def accounts_send_job job_request_def)

lemma accounts_other [simp]:
  "accounts uuid H (n\<lparr>nw_nodeOf := a\<rparr>) = accounts uuid H n" "accounts uuid H (n\<lparr>nw_channels := b\<rparr>) = accounts uuid H n"
  "accounts uuid H (n\<lparr>nw_probing := k\<rparr>) = accounts uuid H n" "accounts uuid H (n\<lparr>nw_blocked := bl\<rparr>) = accounts uuid H n"
  "accounts uuid H (n\<lparr>nw_probeTimer := f\<rparr>) = accounts uuid H n" "accounts uuid H (n\<lparr>nw_antiEntropyTimer := g\<rparr>) = accounts uuid H n"
  "accounts uuid H (n\<lparr>nw_serverSockets := ss\<rparr>) = accounts uuid H n"
  by (simp_all add: accounts_def)

lemma accounts_on_hello_ack:
  assumes "inj (nd_uuid d)" "accounts (nd_uuid d) H n"
  shows "accounts (nd_uuid d) H (on_hello_ack cfg d now nodeId s remote n)"
proof -
  have "accounts (nd_uuid d) H (finish_resolve cfg d now nodeId s m)" if "accounts (nd_uuid d) H m" for m
    using that by (auto simp: finish_resolve_def intro!: accounts_run_jobs assms(1) accounts_take_jobs)
  then show ?thesis using assms by (simp add: on_hello_ack_def accounts_finish_reject)
qed

lemma accounts_hello:
  assumes "inj (nd_uuid d)" "accounts (nd_uuid d) H n"
  shows "accounts (nd_uuid d) H (handle_hello cfg d now s nodeId secret n)"
    "accounts (nd_uuid d) H (handle_hello_ack cfg d now s nodeId n)"
  using assms
  by (simp_all add: handle_hello_def handle_hello_ack_def Let_def accounts_send_message accounts_on_hello_ack split: option.split)

lemma accounts_results:
  assumes "accounts uuid H n"
  shows "accounts uuid H (handle_deliver_result ref conns err n)" "accounts uuid H (handle_ack_result ref ok err n)"
    "accounts uuid H (request_timeout ref n)"
  using assms
  by (simp_all add: handle_deliver_result_def handle_ack_result_def request_timeout_def accounts_settle_ref split: option.split)

lemma accounts_handle_known:
  assumes u: "inj (nd_uuid d)" and a: "accounts (nd_uuid d) H n"
  shows "accounts (nd_uuid d) H (handle_known cfg d now s remote m n)"
proof (cases m)
  case (PeerHealthSync rs)
  have "accounts (nd_uuid d) H (foldl (\<lambda>n r. observe_rumor r remote n) n1 rs)" if "accounts (nd_uuid d) H n1" for n1
    using that by (rule foldl_preserves) simp
  then show ?thesis using a PeerHealthSync by (simp add: handle_known_def)
qed (use assms in \<open>auto simp: handle_known_def Let_def accounts_send_message accounts_hello accounts_results accounts_sync
      accounts_send_job job_request_def handle_deliver_def handle_ack_request_def split: sum.split\<close>)

lemma accounts_incoming:
  "inj (nd_uuid d) \<Longrightarrow> accounts (nd_uuid d) H n \<Longrightarrow> accounts (nd_uuid d) H (handle_incoming cfg d now s raw n)"
  by (auto simp: handle_incoming_def accounts_handle_known accounts_hello split: option.split cluster_msg.split)

lemma ledger_reject_pending:
  assumes "ledger_ok uuid J l"
  shows "ledger_ok uuid J (reject_pending_of nodeId l)"
  unfolding reject_pending_of_def
  by (rule foldl_preserves[where I = "ledger_ok uuid J"]) (auto intro: assms ledger_del_ref)

lemma accounts_unregister:
  assumes "accounts uuid H n"
  shows "accounts uuid H (unregister_socket cfg d now s n)"
proof -
  have "accounts uuid H (with_ledger (reject_pending_of nodeId) m)" if "accounts uuid H m" for nodeId m
    using that by (simp add: accounts_def ledger_reject_pending)
  then show ?thesis using assms
    by (auto simp: unregister_socket_def Let_def intro!: accounts_settle_sends split: option.split)
qed

lemma accounts_for_peers:
  "(\<And>p n. accounts uuid H n \<Longrightarrow> accounts uuid H (f p n)) \<Longrightarrow> accounts uuid H n \<Longrightarrow> accounts uuid H (for_peers f ex n)"
  unfolding for_peers_def by (rule foldl_preserves) auto

lemma accounts_probe:
  "inj (nd_uuid d) \<Longrightarrow> accounts (nd_uuid d) H n \<Longrightarrow> accounts (nd_uuid d) H (run_peer_probes cfg d now n)"
  by (auto simp: run_peer_probes_def probe_peer_def intro!: accounts_for_peers accounts_send_job) (simp_all add: job_request_def)

lemma accounts_broadcasts:
  assumes "inj (nd_uuid d)" "accounts (nd_uuid d) H n"
  shows "accounts (nd_uuid d) H (broadcast_rumor cfg d now sn ex n)" "accounts (nd_uuid d) H (broadcast_digest cfg d now sns ex n)"
    "accounts (nd_uuid d) H (broadcast_sync cfg d now sns ex n)" "accounts (nd_uuid d) H (warm_connections cfg d now n)"
  using assms
  by (auto simp: broadcast_rumor_def broadcast_digest_def broadcast_sync_def warm_connections_def job_request_def
      intro!: accounts_for_peers accounts_sync accounts_send_job)

section \<open>Events\<close>

text \<open>An event is one uninterrupted run: a call of the gateway, an event of a socket, or a timer.\<close>

datatype nw_event = Request string request_payload | RequestTimer string
  | Incoming nat "cluster_msg option" | DialedOpen nat | DialedClose nat | DialedError nat | ConnectTimer nat
  | ServerOpen | ServerClose nat | Wake nat | DrainTask nat | DrainTimer nat
  | SetPeers "(string \<times> string) list" | Disconnect string string | Warm
  | Rumor health_snapshot "string list" | Digest "health_snapshot list" "string list" | Sync "health_snapshot list" "string list"
  | ProbeRound | ProbeTimer string | AntiEntropy | StartProbes | StopProbes | DisposeNetwork
  | HttpDeliver string deliver_payload | HttpHandleAck conn_ref string "string option"

fun nw_step :: "cluster_config \<Rightarrow> nw_deps \<Rightarrow> int \<Rightarrow> nw_event \<Rightarrow> network \<Rightarrow> network" where
  "nw_step cfg d now (Request nodeId p) n = snd (send_request cfg d now nodeId p n)"
| "nw_step cfg d now (RequestTimer ref) n = request_timeout ref n"
| "nw_step cfg d now (Incoming s raw) n = handle_incoming cfg d now s raw n"
| "nw_step cfg d now (DialedOpen s) n = dialed_open cfg d now s n"
| "nw_step cfg d now (DialedClose s) n = dialed_close cfg d now s n"
| "nw_step cfg d now (DialedError s) n = dialed_error s n"
| "nw_step cfg d now (ConnectTimer s) n = connect_timeout s n"
| "nw_step cfg d now ServerOpen n = open_server_socket n"
| "nw_step cfg d now (ServerClose s) n = close_server_socket cfg d now s n"
| "nw_step cfg d now (Wake k) n = wake_blocked cfg d now k n"
| "nw_step cfg d now (DrainTask s) n = drain_socket cfg d now s n"
| "nw_step cfg d now (DrainTimer s) n = drain_timer s n"
| "nw_step cfg d now (SetPeers ps) n = set_peers ps n"
| "nw_step cfg d now (Disconnect nodeId t) n = disconnect_peer nodeId t n"
| "nw_step cfg d now Warm n = warm_connections cfg d now n"
| "nw_step cfg d now (Rumor sn ex) n = broadcast_rumor cfg d now sn ex n"
| "nw_step cfg d now (Digest sns ex) n = broadcast_digest cfg d now sns ex n"
| "nw_step cfg d now (Sync sns ex) n = broadcast_sync cfg d now sns ex n"
| "nw_step cfg d now ProbeRound n = run_peer_probes cfg d now n"
| "nw_step cfg d now (ProbeTimer nodeId) n = probe_timeout nodeId n"
| "nw_step cfg d now AntiEntropy n = run_anti_entropy cfg d now n"
| "nw_step cfg d now StartProbes n = start_peer_probes cfg d now n"
| "nw_step cfg d now StopProbes n = stop_peer_probes n"
| "nw_step cfg d now DisposeNetwork n = nw_dispose n"
| "nw_step cfg d now (HttpDeliver nodeId p) n = snd (http_deliver d nodeId p n)"
| "nw_step cfg d now (HttpHandleAck sender ackFor t) n = snd (http_handle_ack d sender ackFor t n)"

text \<open>The networks that can come about: any events in any order, at any times, with collaborators that
  answer differently every time; only the supply \<open>uuid\<close> of random ids is one and the same.\<close>

inductive nw_reachable :: "cluster_config \<Rightarrow> (nat \<Rightarrow> string) \<Rightarrow> network \<Rightarrow> bool" for cfg uuid where
  initial: "nw_reachable cfg uuid (new_network peers)"
| step: "nw_reachable cfg uuid n \<Longrightarrow> nd_uuid d = uuid \<Longrightarrow> nw_reachable cfg uuid (nw_step cfg d now ev n)"

lemma accounts_request:
  assumes "inj (nd_uuid d)" "accounts (nd_uuid d) {#} n"
  shows "accounts (nd_uuid d) {#} (snd (send_request cfg d now nodeId p n))"
proof -
  let ?J = "jobs_requests (map snd (nw_jobs n))" and ?l = "nw_ledger n"
  let ?n = "with_ledger (\<lambda>l. l\<lparr>lg_next := Suc (lg_next (nw_ledger n))\<rparr>) n"
  have l: "ledger_ok (nd_uuid d) ?J ?l" using assms(2) by (simp add: accounts_def)
  have "lg_next ?l \<notin># ?J" using ledger_okD(8)[OF l, of "lg_next ?l"] by auto
  then have c: "count (add_mset (lg_next ?l) ?J) r \<le> 1" for r
    using ledger_okD(2)[OF l, of r] by (auto simp: not_in_iff)
  have same: "pending_requests (?l\<lparr>lg_next := k\<rparr>) = pending_requests ?l" "settled_requests (?l\<lparr>lg_next := k\<rparr>) = settled_requests ?l" for k
    by (simp_all add: pending_requests_def settled_requests_def)
  have "ledger_ok (nd_uuid d) (add_mset (lg_next ?l) ?J) (?l\<lparr>lg_next := Suc (lg_next ?l)\<rparr>)"
    (is "ledger_ok _ ?K ?m")
  proof (rule ledger_okI)
    show "x \<in># ?K \<Longrightarrow> map_of (lg_refs ?m) ref \<noteq> Some x" for x ref
      using ledger_okD(4)[OF l, of x ref] ledger_okD(9)[OF l, of ref x] by auto
    show "x \<in># ?K \<Longrightarrow> x \<notin> settled_requests ?m" for x
      using ledger_okD(5)[OF l, of x] ledger_okD(10)[OF l, of x] by (auto simp: same)
    show "x \<in># ?K \<Longrightarrow> x < lg_next ?m" for x using ledger_okD(8)[OF l, of x] by auto
    show "map_of (lg_refs ?m) ref = Some x \<Longrightarrow> x < lg_next ?m" for ref x using ledger_okD(9)[OF l, of ref x] by simp
    show "x \<in> settled_requests ?m \<Longrightarrow> x < lg_next ?m" for x using ledger_okD(10)[OF l, of x] by (simp add: same)
    show "x < lg_next ?m \<Longrightarrow> x \<in># ?K \<or> x \<in> pending_requests ?m \<or> x \<in> settled_requests ?m" for x
      using ledger_okD(11)[OF l, of x] by (cases "x = lg_next ?l") (auto simp: same)
    show "count ?K x \<le> 1" for x by (rule c)
    show "map_has (lg_pending ?m) ref \<Longrightarrow> \<exists>x. map_of (lg_refs ?m) ref = Some x" for ref
      using ledger_okD(6)[OF l, of ref] by simp
    show "map_of (lg_refs ?m) ref = Some x \<Longrightarrow> ref \<in> nd_uuid d ` {..<lg_fresh ?m}" for ref x
      using ledger_okD(12)[OF l, of ref x] by simp
    show "x \<in> pending_requests ?m \<Longrightarrow> x \<notin> settled_requests ?m" for x using ledger_okD(7)[OF l, of x] by (simp add: same)
  qed (simp_all add: ledger_okD(1,3)[OF l])
  then have "accounts (nd_uuid d) (job_request (JobRequest (lg_next ?l) p) + {#}) ?n"
    by (simp add: accounts_def job_request_def)
  then show ?thesis unfolding send_request_def Let_def snd_conv by (rule accounts_ensure_channel[OF assms(1)])
qed

lemma accounts_set_peers: "accounts uuid H n \<Longrightarrow> accounts uuid H (set_peers ps n)"
proof -
  assume a: "accounts uuid H n"
  have "accounts uuid H (foldl (\<lambda>n (nodeId, s). close_sock s 1012 t (clear_pending_probe nodeId n)) n xs)" for t xs
    by (rule foldl_preserves[where I = "accounts uuid H"]) (use a in auto)
  then show ?thesis by (simp add: set_peers_def Let_def accounts_def)
qed

lemma accounts_dispose: "accounts uuid H n \<Longrightarrow> accounts uuid H (nw_dispose n)"
proof -
  assume a: "accounts uuid H n"
  have "ledger_ok uuid J (foldl (\<lambda>l (ref, _). settle_ref ref o1 l) l xs)" if "ledger_ok uuid J l"
    for J o1 l and xs :: "(string, pending_request) js_map"
    by (rule foldl_preserves[where I = "ledger_ok uuid J"]) (auto intro: that ledger_del_ref)
  then have "accounts uuid H (with_ledger (\<lambda>l. foldl (\<lambda>l (ref, _). settle_ref ref o1 l) l (lg_pending l)) (stop_peer_probes n))" for o1
    using a by (simp add: accounts_def stop_peer_probes_def)
  then have "accounts uuid H (foldl (\<lambda>n (_, s). close_sock s code t n)
      (with_ledger (\<lambda>l. foldl (\<lambda>l (ref, _). settle_ref ref o1 l) l (lg_pending l)) (stop_peer_probes n)) xs)"
    for o1 code t and xs :: "(string, nat) js_map"
    by (rule foldl_preserves[where I = "accounts uuid H"]) auto
  then show ?thesis by (simp add: nw_dispose_def Let_def)
qed

lemma accounts_http: "accounts uuid H n \<Longrightarrow> accounts uuid H (snd (http_request nodeId path a n))"
  by (simp add: http_request_def Let_def split: fetched.split)

lemma accounts_start:
  assumes "inj (nd_uuid d)" "accounts (nd_uuid d) H n"
  shows "accounts (nd_uuid d) H (start_peer_probes cfg d now n)"
  using accounts_probe[OF assms(1), of H "n\<lparr>nw_probeTimer := True\<rparr>" cfg now] assms
  by (simp add: start_peer_probes_def Let_def run_anti_entropy_def accounts_broadcasts)

lemma accounts_step:
  assumes u: "inj (nd_uuid d)" and a: "accounts (nd_uuid d) {#} n"
  shows "accounts (nd_uuid d) {#} (nw_step cfg d now ev n)"
proof (cases ev)
  case (Wake k)
  then show ?thesis using a by (auto simp: wake_blocked_def intro!: accounts_turn accounts_send_failed split: prod.split)
next
  case (DialedClose s)
  then show ?thesis using accounts_unregister[OF a]
    by (simp add: dialed_close_def Let_def accounts_finish_reject split: option.split)
next
  case ServerOpen
  then show ?thesis using a by (simp add: open_server_socket_def accounts_def)
next
  case StopProbes
  then show ?thesis using a by (simp add: stop_peer_probes_def accounts_def)
next
  case (DrainTask s)
  then show ?thesis using a by (simp add: drain_socket_def Let_def accounts_settle_sends)
qed (use assms in \<open>auto simp: accounts_request accounts_results accounts_incoming accounts_set_peers accounts_broadcasts
      accounts_probe accounts_start accounts_dispose accounts_unregister dialed_open_def connect_timeout_def dialed_error_def
      close_server_socket_def disconnect_peer_def probe_timeout_def run_anti_entropy_def accounts_send_message
      accounts_finish_reject http_deliver_def http_handle_ack_def accounts_http Let_def split: option.split\<close>)

lemma accounts_reachable:
  assumes "nw_reachable cfg uuid n" "inj uuid"
  shows "accounts uuid {#} n"
  using assms
proof (induction rule: nw_reachable.induct)
  case (initial peers)
  show ?case
    by (simp add: accounts_def new_network_def ledger_ok_def pending_requests_def settled_requests_def)
next
  case (step n d now ev)
  then show ?case using accounts_step[of d n cfg now ev] by simp
qed

lemma distinct_key_count:
  "distinct (map fst xs) \<Longrightarrow> length (filter (\<lambda>x. fst x = k) xs) = (if k \<in> fst ` set xs then 1 else 0)"
proof (induction xs)
  case (Cons x xs)
  show ?case
  proof (cases "fst x = k")
    case True
    then have "filter (\<lambda>x. fst x = k) xs = []" using Cons.prems unfolding filter_empty_conv by (metis distinct.simps(2) image_eqI list.set_map list.simps(9))
    then show ?thesis using True by auto
  qed (use Cons in auto)
qed simp

text \<open>C6: No request between nodes is lost and none is settled twice: whatever happens on the sockets, with
  the timers and with the peers, every request ever made is at exactly one place, waiting for a
  channel, pending under one reference, or settled once.\<close>

theorem requests_accounted_for:
  assumes "nw_reachable cfg uuid n" "inj uuid" "r < lg_next (nw_ledger n)"
  shows "count (jobs_requests (map snd (nw_jobs n))) r
    + card {ref. map_has (lg_pending (nw_ledger n)) ref \<and> map_of (lg_refs (nw_ledger n)) ref = Some r}
    + length (filter (\<lambda>x. fst x = r) (lg_outcomes (nw_ledger n))) = 1"
proof -
  let ?l = "nw_ledger n" and ?J = "jobs_requests (map snd (nw_jobs n))"
  have l: "ledger_ok uuid ?J ?l" using accounts_reachable[OF assms(1,2)] by (simp add: accounts_def)
  have waiting: "count ?J r = (if r \<in># ?J then 1 else 0)"
  proof (cases "r \<in># ?J")
    case True
    then have "0 < count ?J r" by simp
    then have "count ?J r = 1" using ledger_okD(2)[OF l, of r] by linarith
    then show ?thesis using True by simp
  qed (simp add: not_in_iff)
  have pending: "card {ref. map_has (lg_pending ?l) ref \<and> map_of (lg_refs ?l) ref = Some r}
      = (if r \<in> pending_requests ?l then 1 else 0)"
  proof (cases "r \<in> pending_requests ?l")
    case True
    then obtain ref where ref: "map_has (lg_pending ?l) ref" "map_of (lg_refs ?l) ref = Some r"
      by (auto simp: pending_requests_def)
    then have "{ref. map_has (lg_pending ?l) ref \<and> map_of (lg_refs ?l) ref = Some r} = {ref}"
      using refs_unique[OF l ref(2)] by blast
    then show ?thesis using True by simp
  next
    case False
    then have none: "{ref. map_has (lg_pending ?l) ref \<and> map_of (lg_refs ?l) ref = Some r} = {}"
      unfolding pending_requests_def by blast
    show ?thesis unfolding none using False by simp
  qed
  have settled: "length (filter (\<lambda>x. fst x = r) (lg_outcomes ?l)) = (if r \<in> settled_requests ?l then 1 else 0)"
    using distinct_key_count[OF ledger_okD(1)[OF l]] by (simp add: settled_requests_def)
  have "r \<in># ?J \<Longrightarrow> r \<notin> pending_requests ?l" using ledger_okD(4)[OF l, of r] by (auto simp: pending_requests_def)
  then show ?thesis
    using ledger_okD(11)[OF l assms(3)] ledger_okD(5,7)[OF l, of r] unfolding waiting pending settled by auto
qed

section \<open>An example\<close>

definition example_nw_deps :: nw_deps where
  "example_nw_deps = \<lparr>nd_env = (\<lambda>_. \<lparr>ce_closed = (\<lambda>_. False), ce_send = (\<lambda>_. Returned (Some 1))\<rparr>),
     nd_uuid = (\<lambda>n. replicate n (CHR ''r'')), nd_closed = (\<lambda>_. False), nd_snapshots = (\<lambda>_. []), nd_hasHandlers = True,
     nd_deliver = (\<lambda>p. Inr (dl_targets p)), nd_handleAck = (\<lambda>_ _ _. Inr True), nd_socketError = (\<lambda>_. None),
     nd_fetchDeliver = (\<lambda>_ _. FetchStatus 503), nd_fetchHandleAck = (\<lambda>_ _ _ _. FetchStatus 503)\<rparr>"

fun nw_run :: "cluster_config \<Rightarrow> nw_deps \<Rightarrow> (int \<times> nw_event) list \<Rightarrow> network \<Rightarrow> network" where
  "nw_run cfg d [] n = n"
| "nw_run cfg d ((now, ev) # evs) n = nw_run cfg d evs (nw_step cfg d now ev n)"

lemma nw_run_reachable:
  "nw_reachable cfg (nd_uuid d) n \<Longrightarrow> nw_reachable cfg (nd_uuid d) (nw_run cfg d evs n)"
  by (induction cfg d evs n rule: nw_run.induct) (auto intro: nw_reachable.step)

lemma example_uuid_inj: "inj (nd_uuid example_nw_deps)"
  by (rule injI) (simp add: example_nw_deps_def)

text \<open>Two requests to node n2: the first connects, is sent and answered, the second is waiting.\<close>

definition example_network :: network where
  "example_network = nw_run example_cluster example_nw_deps
     [(0, Request ''n2'' (RqHandleAck \<lparr>cr_nodeId = ''n2'', cr_connId = ''c'', cr_peerId = ''p'', cr_groupId = None\<rparr> ''m'' None)),
      (1, DialedOpen 0), (2, Incoming 0 (Some (HelloAck ''n2''))), (3, Incoming 0 (Some (HandleAckResult [] True None))),
      (4, Request ''n2'' (RqHandleAck \<lparr>cr_nodeId = ''n2'', cr_connId = ''c'', cr_peerId = ''p'', cr_groupId = None\<rparr> ''k'' None))]
     (new_network [(''n2'', ''http://n2'')])"

lemma example_network_reachable: "nw_reachable example_cluster (nd_uuid example_nw_deps) example_network"
  unfolding example_network_def by (rule nw_run_reachable[OF nw_reachable.initial])

lemma example_network_value:
  "lg_next (nw_ledger example_network) = 2 \<and> lg_outcomes (nw_ledger example_network) = [(0, Acked)]
   \<and> map_keys (lg_pending (nw_ledger example_network)) = [''r''] \<and> map_of (nw_channels example_network) ''n2'' = Some 0
   \<and> map_of (nw_nodeOf example_network) 0 = Some ''n2''"
  by code_simp

theorem requests_accounted_for_witness:
  "count (jobs_requests (map snd (nw_jobs example_network))) 1
    + card {ref. map_has (lg_pending (nw_ledger example_network)) ref \<and> map_of (lg_refs (nw_ledger example_network)) ref = Some 1}
    + length (filter (\<lambda>x. fst x = 1) (lg_outcomes (nw_ledger example_network))) = 1"
  by (rule requests_accounted_for[OF example_network_reachable example_uuid_inj]) (simp add: example_network_value)

end
