(* ===== verification/Cluster_Channels.thy ===== *)
theory Cluster_Channels
  imports Cluster_Network_Props
begin

text \<open>The handshake, the life of a channel and the repair of health information
  (src/src/runtime/cluster/network.ts): what a message from an unknown socket may do, what the end
  of a replaced socket does to the requests of its successor, what a connection attempt that fails
  leaves behind, and which health entries a node asks its peers for.\<close>

section \<open>The handshake\<close>

text \<open>Without a handshake nothing but a handshake is heard.\<close>

lemma unknown_socket_refused:
  assumes "map_of (nw_nodeOf n) s = None" "\<And>p x. m \<noteq> Hello p x" "\<And>p. m \<noteq> HelloAck p"
  shows "handle_incoming cfg d now s (Some m) n = close_sock s 4401 ''cluster channel not authenticated'' n"
  using assms(1) assms(2,3) by (cases m) (auto simp: handle_incoming_def)

lemma wrong_secret_refused:
  "truthy (cc_sharedSecret cfg) \<Longrightarrow> secret \<noteq> cc_sharedSecret cfg \<Longrightarrow>
   handle_hello cfg d now s nodeId secret n = close_sock s 4401 ''cluster shared secret mismatch'' n"
  by (simp add: handle_hello_def)

text \<open>The shared secret does not protect a node: on a socket the node accepted, an unsolicited
  \<open>helloAck\<close> under any name is taken as proof of identity, whatever the secret is. The next message
  is handled as coming from that node, so its deliveries reach the server handlers, and the node
  it named is reported alive; the same delivery without the \<open>helloAck\<close> is refused.\<close>

theorem hello_ack_bypasses_secret:
  assumes "map_of (nw_nodeOf n) s = None" "map_of (nw_dialed n) s = None"
  shows "let n1 = handle_incoming cfg d now s (Some (HelloAck x)) n
    in map_of (nw_nodeOf n1) s = Some x \<and> nw_observed n1 = nw_observed n @ [MarkAlive x ''hello_ack'']
     \<and> handle_incoming cfg d now s (Some (Deliver ref p)) n1 = handle_deliver cfg d now s ref p n1
     \<and> handle_incoming cfg d now s (Some (Deliver ref p)) n
         = close_sock s 4401 ''cluster channel not authenticated'' n"
proof -
  let ?n1 = "handle_incoming cfg d now s (Some (HelloAck x)) n"
  have e: "?n1 = note_peer_alive x ''hello_ack'' (n\<lparr>nw_nodeOf := map_set s x (nw_nodeOf n)\<rparr>)"
    using assms by (simp add: handle_incoming_def handle_hello_ack_def Let_def note_peer_alive_def clear_pending_probe_def)
  then have k: "map_of (nw_nodeOf ?n1) s = Some x" "nw_observed ?n1 = nw_observed n @ [MarkAlive x ''hello_ack'']"
    by (simp_all add: note_peer_alive_def clear_pending_probe_def)
  then show ?thesis
    using assms(1) by (simp add: Let_def) (simp add: handle_incoming_def handle_known_def)
qed

definition server_network :: network where
  "server_network = nw_run example_cluster example_nw_deps [(0, ServerOpen)] (new_network [(''n2'', ''http://n2'')])"

theorem hello_ack_bypasses_secret_witness:
  "let n1 = handle_incoming example_cluster example_nw_deps 1 0 (Some (HelloAck ''n2'')) server_network
   in map_of (nw_nodeOf n1) 0 = Some ''n2'' \<and> cc_sharedSecret example_cluster = Some ''s3cret''
    \<and> (\<forall>ref p. handle_incoming example_cluster example_nw_deps 1 0 (Some (Deliver ref p)) n1
        = handle_deliver example_cluster example_nw_deps 1 0 ref p n1)"
proof -
  have "map_of (nw_nodeOf server_network) 0 = None" "map_of (nw_dialed server_network) 0 = None"
    by (simp_all add: server_network_def open_server_socket_def new_network_def)
  note t = hello_ack_bypasses_secret[OF this, of example_cluster example_nw_deps 1 "''n2''"]
  have "cc_sharedSecret example_cluster = Some ''s3cret''" by (simp add: example_cluster_def cluster_config_of_def)
  then show ?thesis using t by (simp add: Let_def)
qed

section \<open>The end of a replaced socket\<close>

lemma settle_ref_pending [simp]: "lg_pending (settle_ref ref o1 l) = map_del ref (lg_pending l)"
  by (simp add: settle_ref_def settle_request_def Let_def split: option.split)

lemma reject_fold_pending:
  "map_of (lg_pending (foldl (\<lambda>l (ref, p). if pr_nodeId p = nodeId then settle_ref ref o1 l else l) l xs)) ref
   = (if \<exists>p. (ref, p) \<in> set xs \<and> pr_nodeId p = nodeId then None else map_of (lg_pending l) ref)"
  by (induction xs arbitrary: l) (auto split: if_splits)

lemma reject_pending_lookup:
  "wf_map (lg_pending l) \<Longrightarrow> map_of (lg_pending (reject_pending_of nodeId l)) ref
    = (case map_of (lg_pending l) ref of None \<Rightarrow> None | Some p \<Rightarrow> if pr_nodeId p = nodeId then None else Some p)"
  unfolding reject_pending_of_def by (auto simp: reject_fold_pending map_of_wf_iff[symmetric] split: option.split)

lemma settle_ref_refs [simp]: "lg_refs (settle_ref ref o1 l) = lg_refs l"
  by (simp add: settle_ref_def Let_def split: option.split)

lemma settle_ref_outcomes:
  "set (lg_outcomes (settle_ref ref o1 l)) = set (lg_outcomes l)
     \<union> (case map_of (lg_refs l) ref of None \<Rightarrow> {} | Some r \<Rightarrow> if r \<in> settled_requests l then {} else {(r, o1)})"
  by (auto simp: settle_ref_def settle_request_def settled_requests_def Let_def split: option.split)

lemma reject_fold_outcome:
  "map_of (lg_refs l) ref = Some r \<Longrightarrow>
   (\<exists>p. (ref, p) \<in> set xs \<and> pr_nodeId p = nodeId) \<and> r \<notin> settled_requests l \<or> (r, o1) \<in> set (lg_outcomes l) \<Longrightarrow>
   (r, o1) \<in> set (lg_outcomes (foldl (\<lambda>l (ref, p). if pr_nodeId p = nodeId then settle_ref ref o1 l else l) l xs))"
proof (induction xs arbitrary: l)
  case (Cons x xs)
  obtain k p where x: "x = (k, p)" by fastforce
  let ?l = "if pr_nodeId p = nodeId then settle_ref k o1 l else l"
  have "(\<exists>p. (ref, p) \<in> set xs \<and> pr_nodeId p = nodeId) \<and> r \<notin> settled_requests ?l \<or> (r, o1) \<in> set (lg_outcomes ?l)"
    using Cons.prems by (auto simp: x settle_ref_outcomes settled_requests_def split: option.split; force)
  then show ?case using Cons.IH[of ?l] Cons.prems(1) by (simp add: x)
qed auto

text \<open>When a node connects a second time its first socket is replaced and closed. The close event of
  that old socket then rejects every pending request of the node, also those that travel on the
  new channel, and reports the node suspect, although the new channel stays registered and open.\<close>

theorem replaced_channel_rejects_live_requests:
  assumes old: "map_of (nw_nodeOf n) s1 = Some node" "cs_queue (sock_of n s1) = []"
    and new: "map_of (nw_channels n) node = Some s2" "s2 \<noteq> s1"
    and pending: "wf_map (lg_pending (nw_ledger n))" "map_of (lg_pending (nw_ledger n)) ref = Some p" "pr_nodeId p = node"
      "map_of (lg_refs (nw_ledger n)) ref = Some r" "r \<notin> settled_requests (nw_ledger n)"
  shows "let n1 = unregister_socket cfg d now s1 n
    in map_of (nw_channels n1) node = Some s2
     \<and> (r, Rejected (''Cluster channel closed: '' @ node)) \<in> set (lg_outcomes (nw_ledger n1))
     \<and> map_of (lg_pending (nw_ledger n1)) ref = None
     \<and> nw_observed n1 = nw_observed n @ [MarkSuspect node ''channel_closed'']"
proof -
  let ?l = "nw_ledger n" and ?o = "Rejected (''Cluster channel closed: '' @ node)"
  have e: "unregister_socket cfg d now s1 n = with_ledger (reject_pending_of node)
      ((note_peer_suspect node ''channel_closed'' (put_sock s1 (drop_queue (sock_of n s1)) n))\<lparr>nw_nodeOf := map_del s1 (nw_nodeOf n)\<rparr>)"
    using old new
    by (simp add: unregister_socket_def Let_def put_sock_def note_peer_suspect_def clear_pending_probe_def drop_queue_def settle_sends_def)
  have "(ref, p) \<in> set (lg_pending ?l)" using pending(2) by (rule map_of_SomeD)
  then have "(r, ?o) \<in> set (lg_outcomes (reject_pending_of node ?l))"
    unfolding reject_pending_of_def using pending(3,5) by (intro reject_fold_outcome[OF pending(4)]) auto
  moreover have "map_of (lg_pending (reject_pending_of node ?l)) ref = None"
    using pending(2,3) by (simp add: reject_pending_lookup[OF pending(1)])
  ultimately show ?thesis using new(1)
    by (simp add: e Let_def with_ledger_def note_peer_suspect_def clear_pending_probe_def put_sock_def)
qed

text \<open>Node n2 connects to us while we are connected to it, and a request is on its way.\<close>

definition crossed_network :: network where
  "crossed_network = nw_run example_cluster example_nw_deps
     [(5, ServerOpen), (6, Incoming 1 (Some (Hello ''n2'' (Some ''s3cret''))))] example_network"

theorem replaced_channel_rejects_live_requests_witness:
  "let n1 = unregister_socket example_cluster example_nw_deps 7 0 crossed_network
   in map_of (nw_channels n1) ''n2'' = Some 1 \<and> (1, Rejected ''Cluster channel closed: n2'') \<in> set (lg_outcomes (nw_ledger n1))"
proof -
  have v: "map_of (nw_nodeOf crossed_network) 0 = Some ''n2''" "cs_queue (sock_of crossed_network 0) = []"
    "map_of (nw_channels crossed_network) ''n2'' = Some 1" "wf_map (lg_pending (nw_ledger crossed_network))"
    "map_of (lg_pending (nw_ledger crossed_network)) ''r'' = Some \<lparr>pr_nodeId = ''n2'', pr_kind = ''handleAck''\<rparr>"
    "map_of (lg_refs (nw_ledger crossed_network)) ''r'' = Some 1" "1 \<notin> set (map fst (lg_outcomes (nw_ledger crossed_network)))"
    by code_simp+
  show ?thesis
    using replaced_channel_rejects_live_requests[OF v(1-3) _ v(4,5) _ v(6), of example_cluster example_nw_deps 7] v(7)
    by (simp add: settled_requests_def Let_def)
qed

end
