(* ===== verification/Distributed_Locator.thy ===== *)
theory Distributed_Locator
  imports Peer_Locator
begin

text \<open>The locator of a clustered gateway (src/src/runtime/cluster/peer-locator.ts, class
  DistributedPeerLocator): the local locator's answer merged with the answer of the other nodes,
  which is cached for a short time per peer and group.

  \<open>findMany\<close> suspends once, while the cluster is asked. It is modelled as the part before the
  \<open>await\<close>, which reads the cache and lists the misses, and the part after it, which takes the
  remote answer; what happens to the cache in between is visible. The local locator and the
  cluster's \<open>locate\<close> are arguments.\<close>

record cache_entry =
  ce_expiresAt :: int
  ce_conns :: "conn_ref list"

type_synonym locate_cache = "(string, cache_entry) js_map"

record dist_deps =
  dd_local :: "string list \<Rightarrow> scope \<Rightarrow> (string, conn_ref list) js_map"
  dd_hasPeers :: bool
  dd_locate :: "string list \<Rightarrow> string option \<Rightarrow> string list option \<Rightarrow> (string, conn_ref list) js_map"
  dd_resolveNodeIds :: "scope \<Rightarrow> string list option"
  dd_cacheTtlMs :: int

section \<open>Operations\<close>

definition cache_key :: "string \<Rightarrow> scope \<Rightarrow> string" where
  "cache_key peerId options = (case options of
     None \<Rightarrow> ''*:'' @ peerId
   | Some g \<Rightarrow> (case g of Some groupId \<Rightarrow> groupId | None \<Rightarrow> ''__default__'') @ '':'' @ peerId)"

definition conn_key :: "conn_ref \<Rightarrow> string" where
  "conn_key r = cr_nodeId r @ '':'' @ cr_connId r"

definition index_conns :: "conn_ref list \<Rightarrow> (string, conn_ref) js_map" where
  "index_conns conns = foldl (\<lambda>merged conn. map_set (conn_key conn) conn merged) [] conns"

definition merge_conn_refs :: "conn_ref list \<Rightarrow> conn_ref list \<Rightarrow> conn_ref list" where
  "merge_conn_refs left right = map snd (index_conns (left @ right))"

definition conns_of :: "(string, conn_ref list) js_map \<Rightarrow> string \<Rightarrow> conn_ref list" where
  "conns_of m p = (case map_of m p of None \<Rightarrow> [] | Some cs \<Rightarrow> cs)"

text \<open>The state of a call while it is suspended: the result so far and the misses.\<close>

record dist_pending =
  pf_result :: "(string, conn_ref list) js_map"
  pf_misses :: "string list"
  pf_time :: int

definition cached_fresh :: "int \<Rightarrow> string \<Rightarrow> scope \<Rightarrow> locate_cache \<Rightarrow> conn_ref list option" where
  "cached_fresh now peerId options cache = (case map_of cache (cache_key peerId options) of
     Some e \<Rightarrow> if ce_expiresAt e > now then Some (ce_conns e) else None
   | None \<Rightarrow> None)"

definition take_cached :: "string \<Rightarrow> conn_ref list option \<Rightarrow> dist_pending \<Rightarrow> dist_pending" where
  "take_cached peerId hit st = (case hit of
     Some conns \<Rightarrow>
       st\<lparr>pf_result := map_set peerId (merge_conn_refs (conns_of (pf_result st) peerId) conns) (pf_result st)\<rparr>
   | None \<Rightarrow> st\<lparr>pf_misses := pf_misses st @ [peerId]\<rparr>)"

definition find_many_before :: "dist_deps \<Rightarrow> int \<Rightarrow> string list \<Rightarrow> scope \<Rightarrow> locate_cache \<Rightarrow> dist_pending" where
  "find_many_before d now peerIds options cache =
    (let result0 = dd_local d peerIds options in
     if \<not> dd_hasPeers d then \<lparr>pf_result = result0, pf_misses = [], pf_time = now\<rparr>
     else foldl (\<lambda>st peerId. take_cached peerId (cached_fresh now peerId options cache) st)
        \<lparr>pf_result = result0, pf_misses = [], pf_time = now\<rparr> peerIds)"

definition find_many_after ::
  "dist_deps \<Rightarrow> scope \<Rightarrow> (string, conn_ref list) js_map \<Rightarrow> dist_pending \<Rightarrow> locate_cache \<Rightarrow>
   (string, conn_ref list) js_map \<times> locate_cache" where
  "find_many_after d options remote st cache =
     foldl (\<lambda>(result, cache) peerId.
        (let remoteConns = conns_of remote peerId;
             key = cache_key peerId options;
             cache1 = (if remoteConns \<noteq> []
               then map_set key \<lparr>ce_expiresAt = pf_time st + dd_cacheTtlMs d, ce_conns = remoteConns\<rparr> cache
               else map_del key cache)
         in (map_set peerId (merge_conn_refs (conns_of result peerId) remoteConns) result, cache1)))
       (pf_result st, cache) (pf_misses st)"

definition dist_find_many ::
  "dist_deps \<Rightarrow> int \<Rightarrow> string list \<Rightarrow> scope \<Rightarrow> locate_cache \<Rightarrow> (string, conn_ref list) js_map \<times> locate_cache" where
  "dist_find_many d now peerIds options cache =
    (let st = find_many_before d now peerIds options cache in
     if pf_misses st = [] then (pf_result st, cache)
     else find_many_after d options
       (dd_locate d (pf_misses st) (case options of None \<Rightarrow> None | Some g \<Rightarrow> g) (dd_resolveNodeIds d options)) st cache)"

definition dist_find :: "dist_deps \<Rightarrow> int \<Rightarrow> string \<Rightarrow> scope \<Rightarrow> locate_cache \<Rightarrow> conn_ref list \<times> locate_cache" where
  "dist_find d now peerId options cache =
    (let (result, cache1) = dist_find_many d now [peerId] options cache in (conns_of result peerId, cache1))"

definition dist_invalidate :: "string option \<Rightarrow> locate_cache \<Rightarrow> locate_cache" where
  "dist_invalidate peerId cache = (case peerId of
     Some p \<Rightarrow> if p \<noteq> [] then filter (\<lambda>e. \<not> suffix ('':'' @ p) (fst e)) cache else []
   | None \<Rightarrow> [])"

section \<open>Lemmas\<close>

lemma index_conns_simps [simp]:
  "index_conns [] = []" "index_conns (cs @ [c]) = map_set (conn_key c) c (index_conns cs)"
  by (simp_all add: index_conns_def)

lemma index_conns_wf: "wf_map (index_conns cs)"
  by (induction cs rule: rev_induct) auto

lemma index_conns_lookup:
  "map_of (index_conns cs) k = Some c \<Longrightarrow> conn_key c = k \<and> c \<in> set cs"
  by (induction cs rule: rev_induct) (auto split: if_split_asm)

lemma index_conns_complete: "c \<in> set cs \<Longrightarrow> \<exists>c'. map_of (index_conns cs) (conn_key c) = Some c'"
  by (induction cs rule: rev_induct) auto

lemma merge_mem: "c \<in> set (merge_conn_refs l r) \<longleftrightarrow> map_of (index_conns (l @ r)) (conn_key c) = Some c"
  using index_conns_wf[of "l @ r"] index_conns_lookup[of "l @ r"]
  by (force simp: merge_conn_refs_def map_of_wf_iff)

lemma merge_distinct: "distinct (map conn_key (merge_conn_refs l r))"
proof -
  have "map conn_key (map snd (index_conns (l @ r))) = map fst (index_conns (l @ r))"
    using index_conns_wf[of "l @ r"] index_conns_lookup[of "l @ r"] by (auto simp: map_of_wf_iff)
  then show ?thesis using index_conns_wf[of "l @ r"] by (simp only: merge_conn_refs_def wf_map_def)
qed

lemma merge_set_subset: "set (merge_conn_refs l r) \<subseteq> set l \<union> set r"
  using index_conns_lookup[of "l @ r"] by (fastforce simp: merge_mem)

lemma merge_keys_complete: "conn_key ` set (merge_conn_refs l r) = conn_key ` (set l \<union> set r)"
proof
  show "conn_key ` set (merge_conn_refs l r) \<subseteq> conn_key ` (set l \<union> set r)" using merge_set_subset by blast
  show "conn_key ` (set l \<union> set r) \<subseteq> conn_key ` set (merge_conn_refs l r)"
  proof
    fix k assume "k \<in> conn_key ` (set l \<union> set r)"
    then obtain c where "map_of (index_conns (l @ r)) k = Some c"
      using index_conns_complete[of _ "l @ r"] by auto
    moreover from this have "conn_key c = k" using index_conns_lookup by blast
    ultimately show "k \<in> conn_key ` set (merge_conn_refs l r)" by (force simp: merge_mem)
  qed
qed

text \<open>Before the await: a hit is merged into the result, a miss is listed.\<close>

lemma take_cached_simps [simp]:
  "pf_time (take_cached p h st) = pf_time st"
  "pf_misses (take_cached p h st) = pf_misses st @ (if h = None then [p] else [])"
  "map_of (pf_result (take_cached p h st)) q = (if q = p \<and> h \<noteq> None
     then Some (merge_conn_refs (conns_of (pf_result st) p) (the h)) else map_of (pf_result st) q)"
  by (auto simp: take_cached_def split: option.split)

lemma before_misses:
  "pf_misses (foldl (\<lambda>st p. take_cached p (h p) st) st ps) = pf_misses st @ filter (\<lambda>p. h p = None) ps"
  "pf_time (foldl (\<lambda>st p. take_cached p (h p) st) st ps) = pf_time st"
  by (induction ps arbitrary: st) simp_all

lemma before_result:
  "distinct ps \<Longrightarrow> map_of (pf_result (foldl (\<lambda>st p. take_cached p (h p) st) st ps)) q =
     (if q \<in> set ps \<and> h q \<noteq> None then Some (merge_conn_refs (conns_of (pf_result st) q) (the (h q)))
      else map_of (pf_result st) q)"
proof (induction ps arbitrary: st)
  case (Cons p ps)
  then show ?case by (cases "q = p") (auto simp: conns_of_def)
qed simp

text \<open>After the await: every miss is merged with the remote answer.\<close>

lemma after_result:
  "distinct (pf_misses st) \<Longrightarrow>
   map_of (fst (find_many_after d options remote st cache)) p = (if p \<in> set (pf_misses st)
      then Some (merge_conn_refs (conns_of (pf_result st) p) (conns_of remote p)) else map_of (pf_result st) p)"
proof -
  have "distinct ms \<Longrightarrow> map_of (fst (foldl (\<lambda>(result, cache) peerId.
        (let remoteConns = conns_of remote peerId; key = cache_key peerId options;
             cache1 = (if remoteConns \<noteq> []
               then map_set key \<lparr>ce_expiresAt = pf_time st + dd_cacheTtlMs d, ce_conns = remoteConns\<rparr> cache
               else map_del key cache)
         in (map_set peerId (merge_conn_refs (conns_of result peerId) remoteConns) result, cache1))) (r, c) ms)) p
      = (if p \<in> set ms then Some (merge_conn_refs (conns_of r p) (conns_of remote p)) else map_of r p)" for ms r c
  proof (induction ms arbitrary: r c)
    case (Cons q ms)
    then show ?case by (auto simp: Let_def conns_of_def)
  qed simp
  then show "distinct (pf_misses st) \<Longrightarrow> ?thesis" by (simp add: find_many_after_def)
qed

section \<open>Properties\<close>

text \<open>A clustered lookup answers every peer with the local connections merged with either the
  unexpired cached connections or, for the peers without any, the cluster's answer: no connection
  key occurs twice, none is lost and none is invented.\<close>

theorem dist_find_many_spec:
  "distinct peerIds \<Longrightarrow> dd_hasPeers d \<Longrightarrow> p \<in> set peerIds \<Longrightarrow>
   (\<And>q. q \<in> set peerIds \<Longrightarrow> map_of (dd_local d peerIds options) q \<noteq> None) \<Longrightarrow>
   let asked = filter (\<lambda>p. cached_fresh now p options cache = None) peerIds;
       remote = (case cached_fresh now p options cache of Some conns \<Rightarrow> conns
         | None \<Rightarrow> conns_of (dd_locate d asked (case options of None \<Rightarrow> None | Some g \<Rightarrow> g) (dd_resolveNodeIds d options)) p);
       answer = conns_of (fst (dist_find_many d now peerIds options cache)) p
   in answer = merge_conn_refs (conns_of (dd_local d peerIds options) p) remote
      \<and> distinct (map conn_key answer)
      \<and> conn_key ` set answer = conn_key ` (set (conns_of (dd_local d peerIds options) p) \<union> set remote)"
proof -
  assume ps: "distinct peerIds" and peers: "dd_hasPeers d" and p: "p \<in> set peerIds"
    and local: "\<And>q. q \<in> set peerIds \<Longrightarrow> map_of (dd_local d peerIds options) q \<noteq> None"
  let ?h = "\<lambda>p. cached_fresh now p options cache"
  let ?st = "find_many_before d now peerIds options cache"
  have st: "pf_misses ?st = filter (\<lambda>p. ?h p = None) peerIds"
    "map_of (pf_result ?st) p = (if ?h p \<noteq> None
       then Some (merge_conn_refs (conns_of (dd_local d peerIds options) p) (the (?h p)))
       else map_of (dd_local d peerIds options) p)"
    using ps peers p by (simp_all add: find_many_before_def Let_def before_misses before_result)
  have "conns_of (fst (dist_find_many d now peerIds options cache)) p =
    merge_conn_refs (conns_of (dd_local d peerIds options) p) (case ?h p of Some conns \<Rightarrow> conns
         | None \<Rightarrow> conns_of (dd_locate d (filter (\<lambda>p. ?h p = None) peerIds)
              (case options of None \<Rightarrow> None | Some g \<Rightarrow> g) (dd_resolveNodeIds d options)) p)"
    using ps p st after_result[of ?st] by (auto simp: dist_find_many_def Let_def conns_of_def filter_empty_conv split: option.splits)
  then show ?thesis using merge_distinct merge_keys_complete by (simp add: Let_def)
qed

text \<open>After a peer is invalidated the next lookup of it, in any group and at any time, asks the
  cluster again.\<close>

theorem invalidated_is_asked:
  "p \<noteq> [] \<Longrightarrow> dd_hasPeers d \<Longrightarrow> p \<in> set peerIds \<Longrightarrow>
   p \<in> set (pf_misses (find_many_before d now peerIds options (dist_invalidate (Some p) cache)))"
proof -
  assume p: "p \<noteq> []" "p \<in> set peerIds" and peers: "dd_hasPeers d"
  have "suffix ('':'' @ p) (cache_key p options)" by (simp add: cache_key_def suffix_def split: option.split)
  then have "map_of (dist_invalidate (Some p) cache) (cache_key p options) = None"
    using p map_of_filter_key[of "\<lambda>k. \<not> suffix ('':'' @ p) k" cache "cache_key p options"]
    by (simp add: dist_invalidate_def)
  then have "cached_fresh now p options (dist_invalidate (Some p) cache) = None" by (simp add: cached_fresh_def)
  then show ?thesis using p peers by (simp add: find_many_before_def Let_def before_misses)
qed

text \<open>An invalidation that arrives while a lookup is suspended is lost: the answer that was
  under way is cached all the same, and is used for the whole time to live.\<close>

theorem invalidate_in_flight_lost:
  "conns_of remote p \<noteq> [] \<Longrightarrow> dd_cacheTtlMs d > 0 \<Longrightarrow>
   cached_fresh now p options
     (snd (find_many_after d options remote \<lparr>pf_result = r, pf_misses = [p], pf_time = now\<rparr> (dist_invalidate (Some p) cache)))
   = Some (conns_of remote p)"
  by (simp add: find_many_after_def Let_def cached_fresh_def)

text \<open>The cache key is not injective, since neither peer ids nor group ids exclude a colon:
  the cached connections of the peer b:c of group a are served as those of the peer c of the
  group a:b.\<close>

theorem cache_key_collision:
  "dd_hasPeers d \<Longrightarrow> conns_of (dd_local d [c] (Some (Some (a @ '':'' @ b)))) c = [] \<Longrightarrow>
   cached_fresh now (b @ '':'' @ c) (Some (Some a)) cache = Some conns \<Longrightarrow>
   dist_find d now c (Some (Some (a @ '':'' @ b))) cache = (merge_conn_refs [] conns, cache)"
proof -
  assume d: "dd_hasPeers d" and l: "conns_of (dd_local d [c] (Some (Some (a @ '':'' @ b)))) c = []"
    and f: "cached_fresh now (b @ '':'' @ c) (Some (Some a)) cache = Some conns"
  have "cached_fresh now c (Some (Some (a @ '':'' @ b))) cache = Some conns"
    using f by (simp add: cached_fresh_def cache_key_def)
  then have "find_many_before d now [c] (Some (Some (a @ '':'' @ b))) cache =
      \<lparr>pf_result = map_set c (merge_conn_refs [] conns) (dd_local d [c] (Some (Some (a @ '':'' @ b)))),
       pf_misses = [], pf_time = now\<rparr>"
    using d l by (simp add: find_many_before_def take_cached_def)
  then show ?thesis by (simp add: dist_find_def dist_find_many_def conns_of_def)
qed

text \<open>Concrete inputs: two nodes, no local connection, one remote connection per peer asked.\<close>

definition dist_example :: dist_deps where
  "dist_example = \<lparr>dd_local = loc_find_many new_locator, dd_hasPeers = True,
     dd_locate = (\<lambda>ps g ns. map (\<lambda>p. (p, [\<lparr>cr_nodeId = ''n2'', cr_connId = ''x'', cr_peerId = p, cr_groupId = g\<rparr>])) ps),
     dd_resolveNodeIds = (\<lambda>_. None), dd_cacheTtlMs = 250\<rparr>"

lemma dist_example_local: "q \<in> set ps \<Longrightarrow> map_of (dd_local dist_example ps opts) q = Some []"
  by (simp add: dist_example_def loc_find_many_def find_many_lookup loc_find_def new_locator_def split: option.split)

theorem dist_find_many_spec_witness:
  "conns_of (fst (dist_find_many dist_example 0 [''p''] None [])) ''p'' =
     merge_conn_refs [] [\<lparr>cr_nodeId = ''n2'', cr_connId = ''x'', cr_peerId = ''p'', cr_groupId = None\<rparr>]"
proof -
  have "dd_hasPeers dist_example" by (simp add: dist_example_def)
  from dist_find_many_spec[of "[''p'']" dist_example "''p''" None 0 "[]", OF _ this] dist_example_local
  show ?thesis by (simp add: Let_def cached_fresh_def conns_of_def) (simp add: dist_example_def)
qed

theorem invalidated_is_asked_witness:
  "''p'' \<in> set (pf_misses (find_many_before dist_example 10 [''p''] None
      (dist_invalidate (Some ''p'') [(''*:p'', \<lparr>ce_expiresAt = 99, ce_conns = []\<rparr>)])))"
  by (rule invalidated_is_asked) (simp_all add: dist_example_def)

theorem invalidate_in_flight_lost_witness:
  "cached_fresh 0 ''p'' None (snd (find_many_after dist_example None
      [(''p'', [\<lparr>cr_nodeId = ''n2'', cr_connId = ''x'', cr_peerId = ''p'', cr_groupId = None\<rparr>])]
      \<lparr>pf_result = [], pf_misses = [''p''], pf_time = 0\<rparr> (dist_invalidate (Some ''p'') []))) \<noteq> None"
  using invalidate_in_flight_lost[of "[(''p'', [\<lparr>cr_nodeId = ''n2'', cr_connId = ''x'', cr_peerId = ''p'', cr_groupId = None\<rparr>])]"
      "''p''" dist_example 0 None "[]" "[]"]
  by (simp add: conns_of_def dist_example_def)

theorem cache_key_collision_witness:
  "fst (dist_find dist_example 0 ''c'' (Some (Some ''a:b''))
     [(''a:b:c'', \<lparr>ce_expiresAt = 9, ce_conns = [\<lparr>cr_nodeId = ''n2'', cr_connId = ''x'', cr_peerId = ''b:c'', cr_groupId = Some ''a''\<rparr>]\<rparr>)])
   = [\<lparr>cr_nodeId = ''n2'', cr_connId = ''x'', cr_peerId = ''b:c'', cr_groupId = Some ''a''\<rparr>]"
proof -
  let ?r = "\<lparr>cr_nodeId = ''n2'', cr_connId = ''x'', cr_peerId = ''b:c'', cr_groupId = Some ''a''\<rparr>"
  let ?c = "[(''a:b:c'', \<lparr>ce_expiresAt = 9::int, ce_conns = [?r]\<rparr>)]"
  have "cached_fresh 0 (''b'' @ '':'' @ ''c'') (Some (Some ''a'')) ?c = Some [?r]"
    by (simp add: cached_fresh_def cache_key_def)
  moreover have "conns_of (dd_local dist_example [''c''] (Some (Some (''a'' @ '':'' @ ''b'')))) ''c'' = []"
    by (simp add: conns_of_def dist_example_local)
  moreover have "dd_hasPeers dist_example" by (simp add: dist_example_def)
  moreover have "merge_conn_refs [] [?r] = [?r]" by (simp add: merge_conn_refs_def index_conns_def)
  ultimately show ?thesis using cache_key_collision[of dist_example "''c''" "''a''" "''b''" 0 ?c "[?r]"] by simp
qed

end
