(* ===== verification/Planning.thy ===== *)
theory Planning
  imports Admin_Types
begin

text \<open>The placement planner of the control plane (src/src/sdk/admin/planning.ts): which hosts own a
  deployment, how ownership moves in steps, and the desired state a host is given.

  \<open>localeCompare\<close> is the argument \<open>lc\<close>. Optional properties are \<open>option\<close> fields; numbers that the
  code tests with \<open>Number.isFinite\<close> are \<open>js_num\<close>, the others integers. Characters are code units
  below 256.\<close>

section \<open>Plans and candidates\<close>

datatype assignment_mode = SelectFirstN | AllHosts
datatype route_scope = SharedRoute | PerHost
datatype manager_kind = BunManager | DenoManager

record candidate_host =
  cd_hostId :: string
  cd_groupId :: "string option"
  cd_staticLabels :: "(string, string) js_map option"
  cd_staticCapabilities :: "string list option"
  cd_maxHttpWorkerAssignments :: "int option"
  cd_ready :: "bool option"
  cd_draining :: "bool option"
  cd_schedulable :: "bool option"
  cd_currentAssignmentCount :: "int option"

record scheduling =
  sg_requiredLabels :: "(string, string) js_map option"
  sg_preferredLabels :: "(string, string) js_map option"
  sg_requiredCapabilities :: "string list option"

record rollout =
  ro_gradual :: bool
  ro_maxUnavailable :: "js_num option"
  ro_batchSize :: "js_num option"

record deployment_plan =
  dp_deploymentId :: string
  dp_deploymentKind :: "deployment_kind option"
  dp_groupId :: "string option"
  dp_declaredArtifactId :: "string option"
  dp_declaredVersion :: string
  dp_manifestId :: string
  dp_replicas :: "js_num option"
  dp_assignmentMode :: "assignment_mode option"
  dp_sourceUri :: string
  dp_sourceDigest :: "string option"
  dp_upstreamBaseUrl :: "string option"
  dp_workerName :: string
  dp_workerEntry :: string
  dp_routeId :: string
  dp_routePathPrefix :: string
  dp_routeScope :: "route_scope option"
  dp_packageManagerKind :: "manager_kind option"
  dp_packageJson :: "string option"
  dp_bunfigToml :: "string option"
  dp_bunLock :: "string option"
  dp_denoJson :: "string option"
  dp_denoLock :: "string option"
  dp_frozenLock :: "bool option"
  dp_metadataAnnotations :: "(string, string) js_map option"
  dp_deployment :: "instance_values option"
  dp_stickyHostIds :: "string list option"
  dp_ownerHostIds :: "string list option"
  dp_scheduling :: "scheduling option"
  dp_rollout :: "rollout option"

section \<open>Counts\<close>

text \<open>\<open>Math.trunc\<close> of a finite number.\<close>

definition trunc :: "rat \<Rightarrow> int" where
  "trunc q = (if q < 0 then - floor (- q) else floor q)"

definition normalize_replica_count :: "js_num \<Rightarrow> int" where
  "normalize_replica_count value = (case value of
     Fin q \<Rightarrow> if q \<le> 0 then 1 else max 1 (trunc q)
   | _ \<Rightarrow> 1)"

definition normalize_positive_count :: "js_num option \<Rightarrow> int \<Rightarrow> int" where
  "normalize_positive_count value fallback = (case value of
     Some (Fin q) \<Rightarrow> if q \<le> 0 then fallback else max 1 (trunc q)
   | _ \<Rightarrow> fallback)"

definition normalize_non_negative_count :: "js_num option \<Rightarrow> int \<Rightarrow> int" where
  "normalize_non_negative_count value fallback = (case value of
     Some (Fin q) \<Rightarrow> if q < 0 then fallback else max 0 (trunc q)
   | _ \<Rightarrow> fallback)"

definition opt_else :: "'a option \<Rightarrow> 'a \<Rightarrow> 'a" where
  "opt_else v d = (case v of Some x \<Rightarrow> x | None \<Rightarrow> d)"

lemma opt_else_simps [simp]: "opt_else (Some x) d = x" "opt_else None d = d"
  by (simp_all add: opt_else_def)

definition replica_count :: "deployment_plan \<Rightarrow> nat" where
  "replica_count dep = nat (normalize_replica_count (opt_else (dp_replicas dep) (Fin 1)))"

section \<open>Eligibility\<close>

definition matches_required_labels :: "candidate_host \<Rightarrow> (string, string) js_map option \<Rightarrow> bool" where
  "matches_required_labels c required = (case required of
     None \<Rightarrow> True
   | Some rs \<Rightarrow> (let labels = opt_else (cd_staticLabels c) []
       in list_all (\<lambda>(key, value). map_of labels key = Some value) rs))"

definition matches_required_capabilities :: "candidate_host \<Rightarrow> string list option \<Rightarrow> bool" where
  "matches_required_capabilities c required = (case required of
     None \<Rightarrow> True
   | Some rs \<Rightarrow> list_all (\<lambda>r. r \<in> set (opt_else (cd_staticCapabilities c) [])) rs)"

definition scheduling_field :: "(scheduling \<Rightarrow> 'a option) \<Rightarrow> deployment_plan \<Rightarrow> 'a option" where
  "scheduling_field f dep = (case dp_scheduling dep of None \<Rightarrow> None | Some s \<Rightarrow> f s)"

definition is_candidate_eligible :: "deployment_plan \<Rightarrow> candidate_host \<Rightarrow> bool" where
  "is_candidate_eligible dep c =
    (if dp_groupId dep \<noteq> cd_groupId c then False
     else if cd_ready c = Some False \<or> cd_draining c = Some True \<or> cd_schedulable c = Some False then False
     else if \<not> matches_required_labels c (scheduling_field sg_requiredLabels dep) then False
     else if \<not> matches_required_capabilities c (scheduling_field sg_requiredCapabilities dep) then False
     else (case cd_maxHttpWorkerAssignments c of
         None \<Rightarrow> True
       | Some m \<Rightarrow> \<not> opt_else (cd_currentAssignmentCount c) 0 \<ge> m))"

section \<open>Ranking\<close>

definition preferred_label_score :: "candidate_host \<Rightarrow> (string, string) js_map option \<Rightarrow> int" where
  "preferred_label_score c preferred = (case preferred of
     None \<Rightarrow> 0
   | Some ps \<Rightarrow> (let labels = opt_else (cd_staticLabels c) []
       in foldl (\<lambda>score (key, value). score + (if map_of labels key = Some value then 1 else 0)) 0 ps))"

definition is_sticky :: "deployment_plan \<Rightarrow> candidate_host \<Rightarrow> bool" where
  "is_sticky dep c \<longleftrightarrow> cd_hostId c \<in> set (opt_else (dp_stickyHostIds dep) [])"

definition compare_candidate_hosts ::
  "(string \<Rightarrow> string \<Rightarrow> int) \<Rightarrow> deployment_plan \<Rightarrow> candidate_host \<Rightarrow> candidate_host \<Rightarrow> int" where
  "compare_candidate_hosts lc dep left right =
    (if is_sticky dep left \<noteq> is_sticky dep right then (if is_sticky dep left then - 1 else 1)
     else (let preferred = scheduling_field sg_preferredLabels dep;
               diff = preferred_label_score right preferred - preferred_label_score left preferred
       in if diff \<noteq> 0 then diff
          else (let leftAssignments = opt_else (cd_currentAssignmentCount left) 0;
                    rightAssignments = opt_else (cd_currentAssignmentCount right) 0
            in if leftAssignments \<noteq> rightAssignments then leftAssignments - rightAssignments
               else lc (cd_hostId left) (cd_hostId right))))"

definition rank_candidate_hosts ::
  "(string \<Rightarrow> string \<Rightarrow> int) \<Rightarrow> deployment_plan \<Rightarrow> candidate_host list \<Rightarrow> candidate_host list" where
  "rank_candidate_hosts lc dep candidates =
     js_sort (compare_candidate_hosts lc dep) (filter (is_candidate_eligible dep) candidates)"

definition select_target_owner_host_ids ::
  "(string \<Rightarrow> string \<Rightarrow> int) \<Rightarrow> deployment_plan \<Rightarrow> candidate_host list \<Rightarrow> string list" where
  "select_target_owner_host_ids lc dep candidates =
    (let eligible = map cd_hostId (rank_candidate_hosts lc dep candidates)
     in if opt_else (dp_assignmentMode dep) SelectFirstN = AllHosts then eligible
        else take (replica_count dep) eligible)"

definition default_candidate :: "string \<Rightarrow> candidate_host" where
  "default_candidate hostId = \<lparr>cd_hostId = hostId, cd_groupId = None, cd_staticLabels = None,
     cd_staticCapabilities = None, cd_maxHttpWorkerAssignments = None, cd_ready = None, cd_draining = None,
     cd_schedulable = None, cd_currentAssignmentCount = None\<rparr>"

definition should_assign_deployment_to_host ::
  "(string \<Rightarrow> string \<Rightarrow> int) \<Rightarrow> deployment_plan \<Rightarrow> string \<Rightarrow> string list \<Rightarrow> candidate_host list option \<Rightarrow> bool" where
  "should_assign_deployment_to_host lc dep hostId registeredHostIds candidateHosts =
    (case dp_ownerHostIds dep of
       Some owners \<Rightarrow> hostId \<in> set owners
     | None \<Rightarrow>
        (let candidates = opt_else candidateHosts (map default_candidate registeredHostIds);
             eligible = rank_candidate_hosts lc dep candidates
         in if opt_else (dp_assignmentMode dep) SelectFirstN = AllHosts
            then list_ex (\<lambda>c. cd_hostId c = hostId) eligible
            else hostId \<in> set (take (replica_count dep) (map cd_hostId eligible))))"

section \<open>Gradual rollout\<close>

definition unique_host_ids :: "string list \<Rightarrow> string list" where
  "unique_host_ids hostIds =
     fst (foldl (\<lambda>(kept, seen) h. if h \<in> set seen then (kept, seen) else (kept @ [h], seen @ [h])) ([], []) hostIds)"

definition index_observed :: "observed_host_state list \<Rightarrow> (string, observed_host_state) js_map" where
  "index_observed os = map_from (map (\<lambda>h. (oh_hostId h, h)) os)"

definition owner_available ::
  "string \<Rightarrow> string \<Rightarrow> observed_host_state list \<Rightarrow> string \<Rightarrow> bool" where
  "owner_available deploymentId declaredVersion os hostId =
    (case map_of (index_observed os) hostId of
       None \<Rightarrow> False
     | Some h \<Rightarrow> (case find (\<lambda>s. at_deploymentId s = deploymentId \<and> at_declaredVersion s = declaredVersion)
                         (oh_assignmentStatuses h) of
          None \<Rightarrow> False
        | Some s \<Rightarrow> at_state s = StReady \<or> at_state s = StActive))"

definition count_available_owner_hosts ::
  "string \<Rightarrow> string \<Rightarrow> string list \<Rightarrow> observed_host_state list \<Rightarrow> nat" where
  "count_available_owner_hosts deploymentId declaredVersion ownerHostIds os =
     length (filter (owner_available deploymentId declaredVersion os) ownerHostIds)"

text \<open>The loop that adds owners: the list grows and the set of its elements with it.\<close>

fun add_owners :: "nat \<Rightarrow> string list \<Rightarrow> string list \<Rightarrow> string list" where
  "add_owners limit [] owners = owners"
| "add_owners limit (h # hs) owners =
    (if length (js_unique owners) \<ge> limit then owners
     else if h \<in> set owners then add_owners limit hs owners
     else add_owners limit hs (owners @ [h]))"

text \<open>The loop that removes owners, over the owners before this round. \<open>gone\<close> is what was deleted from
  the set.\<close>

fun remove_owners ::
  "(string list \<Rightarrow> nat) \<Rightarrow> nat \<Rightarrow> nat \<Rightarrow> string list \<Rightarrow> string list \<Rightarrow> string list \<Rightarrow> nat \<Rightarrow> string list \<Rightarrow> string list" where
  "remove_owners available minAvailable batchSize target owners gone removed [] = gone"
| "remove_owners available minAvailable batchSize target owners gone removed (h # hs) =
    (if removed \<ge> batchSize then gone
     else if h \<in> set target then remove_owners available minAvailable batchSize target owners gone removed hs
     else if available (filter (\<lambda>c. c \<noteq> h \<and> c \<notin> set gone) owners) < minAvailable
       then remove_owners available minAvailable batchSize target owners gone removed hs
     else remove_owners available minAvailable batchSize target owners (gone @ [h]) (Suc removed) hs)"

definition gradual_rollout_enabled :: "deployment_plan \<Rightarrow> bool" where
  "gradual_rollout_enabled dep = (case dp_rollout dep of None \<Rightarrow> False
     | Some r \<Rightarrow> ro_gradual r \<or> ro_batchSize r \<noteq> None \<or> ro_maxUnavailable r \<noteq> None)"

definition rollout_batch_size :: "deployment_plan \<Rightarrow> nat" where
  "rollout_batch_size dep =
     nat (normalize_positive_count (case dp_rollout dep of None \<Rightarrow> None | Some r \<Rightarrow> ro_batchSize r) 1)"

definition rollout_min_available :: "deployment_plan \<Rightarrow> nat" where
  "rollout_min_available dep = nat (max 0 (int (replica_count dep)
     - normalize_non_negative_count (case dp_rollout dep of None \<Rightarrow> None | Some r \<Rightarrow> ro_maxUnavailable r) 0))"

definition plan_http_worker_deployment_owners ::
  "(string \<Rightarrow> string \<Rightarrow> int) \<Rightarrow> deployment_plan \<Rightarrow> candidate_host list \<Rightarrow> string list option \<Rightarrow>
   observed_host_state list option \<Rightarrow> string list" where
  "plan_http_worker_deployment_owners lc dep candidates currentOwners observed =
    (let target = select_target_owner_host_ids lc dep candidates in
     if \<not> gradual_rollout_enabled dep \<or> opt_else (dp_assignmentMode dep) SelectFirstN = AllHosts then target
     else (let current = unique_host_ids (opt_else currentOwners []) in
       if current = [] then target
       else (let batchSize = rollout_batch_size dep;
                 owners = add_owners (length current + batchSize) target current;
                 gone = remove_owners
                   (\<lambda>hs. count_available_owner_hosts (dp_deploymentId dep) (dp_declaredVersion dep) hs (opt_else observed []))
                   (rollout_min_available dep) batchSize target owners [] 0 current
         in filter (\<lambda>h. h \<notin> set gone) owners)))"

definition build_placement_candidate_hosts ::
  "(string \<Rightarrow> string \<Rightarrow> int) \<Rightarrow> host_registration list \<Rightarrow> observed_host_state list option \<Rightarrow> candidate_host list" where
  "build_placement_candidate_hosts lc registrations observed =
    (let byId = index_observed (opt_else observed [])
     in js_sort (\<lambda>l r. lc (cd_hostId l) (cd_hostId r)) (map (\<lambda>reg.
          (let o1 = map_of byId (hr_hostId reg)
           in \<lparr>cd_hostId = hr_hostId reg, cd_groupId = hr_groupId reg,
                cd_staticLabels = Some (hr_staticLabels reg),
                cd_staticCapabilities = Some (hr_staticCapabilities reg),
                cd_maxHttpWorkerAssignments = hc_maxHttpWorkerAssignments (hr_staticCapacity reg),
                cd_ready = map_option oh_ready o1, cd_draining = map_option oh_draining o1,
                cd_schedulable = Option.bind o1 (\<lambda>h. ds_schedulable (oh_dynamicState h)),
                cd_currentAssignmentCount = map_option (\<lambda>h. ds_currentAssignmentCount (oh_dynamicState h)) o1\<rparr>))
          registrations))"

section \<open>Desired state of a host\<close>

definition plan_kind :: "deployment_plan \<Rightarrow> deployment_kind" where
  "plan_kind dep = opt_else (dp_deploymentKind dep) HttpWorkerKind"

definition build_http_worker_artifact_manifest :: "deployment_plan \<Rightarrow> artifact_manifest" where
  "build_http_worker_artifact_manifest plan =
    \<lparr>am_manifestId = dp_manifestId plan, am_artifactKind = plan_kind plan,
     am_declaredArtifactId = dp_declaredArtifactId plan, am_declaredVersion = dp_declaredVersion plan,
     am_sourceUri = dp_sourceUri plan, am_sourceDigest = dp_sourceDigest plan, am_entry = dp_workerEntry plan,
     am_packageManager =
       (if dp_packageManagerKind plan = Some DenoManager \<or> dp_denoJson plan \<noteq> None \<or> dp_denoLock plan \<noteq> None
        then DenoPackages (dp_denoJson plan) (dp_denoLock plan) (dp_frozenLock plan)
        else BunPackages (dp_packageJson plan) (dp_bunfigToml plan) (dp_bunLock plan) (dp_frozenLock plan)),
     am_annotations = dp_metadataAnnotations plan\<rparr>"

text \<open>\<open>encodeURIComponent\<close>: letters, digits and nine marks stay, the UTF-8 bytes of every other character
  are written in hexadecimal.\<close>

definition hex_digit :: "nat \<Rightarrow> char" where
  "hex_digit n = (if n < 10 then char_of (48 + n) else char_of (55 + n))"

definition percent_byte :: "nat \<Rightarrow> string" where
  "percent_byte b = [char_of (37::nat), hex_digit (b div 16), hex_digit (b mod 16)]"

definition encode_char :: "char \<Rightarrow> string" where
  "encode_char c = (let n = of_char c :: nat in
     if 48 \<le> n \<and> n \<le> 57 \<or> 65 \<le> n \<and> n \<le> 90 \<or> 97 \<le> n \<and> n \<le> 122
        \<or> n \<in> {45, 95, 46, 33, 126, 42, 39, 40, 41} then [c]
     else if n < 128 then percent_byte n
     else percent_byte (192 + n div 64) @ percent_byte (128 + n mod 64))"

definition encode_uri_component :: "string \<Rightarrow> string" where
  "encode_uri_component s = concat (map encode_char s)"

definition build_route_id_for_host :: "string \<Rightarrow> deployment_plan \<Rightarrow> string" where
  "build_route_id_for_host hostId dep =
    (if opt_else (dp_routeScope dep) SharedRoute = PerHost then dp_routeId dep @ '':'' @ hostId else dp_routeId dep)"

definition build_route_path_prefix_for_host :: "string \<Rightarrow> deployment_plan \<Rightarrow> string" where
  "build_route_path_prefix_for_host hostId dep =
    (if opt_else (dp_routeScope dep) SharedRoute = PerHost
     then dp_routePathPrefix dep @ ''/'' @ encode_uri_component hostId else dp_routePathPrefix dep)"

definition build_route_for_host :: "string \<Rightarrow> deployment_plan \<Rightarrow> string \<Rightarrow> forward_route" where
  "build_route_for_host hostId dep upstreamBaseUrl =
    \<lparr>fr_routeId = build_route_id_for_host hostId dep, fr_pathPrefix = build_route_path_prefix_for_host hostId dep,
     fr_baseUrl = opt_else (dp_upstreamBaseUrl dep) upstreamBaseUrl, fr_websocketEnabled = None\<rparr>"

definition build_assignment_for_host :: "string \<Rightarrow> deployment_plan \<Rightarrow> assignment" where
  "build_assignment_for_host hostId dep =
    (let manifest = build_http_worker_artifact_manifest dep;
         program = \<lparr>ex_name = dp_workerName dep, ex_entry = dp_workerEntry dep,
           ex_routeRefs = Some [build_route_id_for_host hostId dep], ex_deployment = dp_deployment dep\<rparr>
     in \<lparr>as_assignmentId = ''assign:'' @ hostId @ '':'' @ dp_deploymentId dep, as_hostId = hostId,
         as_deploymentId = dp_deploymentId dep, as_deploymentKind = plan_kind dep, as_groupId = dp_groupId dep,
         as_declaredVersion = dp_declaredVersion dep, as_declaredArtifactId = dp_declaredArtifactId dep,
         as_artifact = \<lparr>af_manifestId = dp_manifestId dep, af_sourceUri = am_sourceUri manifest,
           af_digest = am_sourceDigest manifest\<rparr>,
         as_httpWorker = (if plan_kind dep = HttpWorkerKind then Some program else None),
         as_serviceModule = None,
         as_serveApp = (if plan_kind dep = ServeKind then Some program else None),
         as_authPolicyRef = None, as_secretRefs = None\<rparr>)"

text \<open>\<open>parts.join(sep)\<close>.\<close>

fun join_str :: "string \<Rightarrow> string list \<Rightarrow> string" where
  "join_str sep [] = []"
| "join_str sep [p] = p"
| "join_str sep (p # ps) = p @ sep @ join_str sep ps"

definition build_desired_revision ::
  "(string \<Rightarrow> string \<Rightarrow> int) \<Rightarrow> string \<Rightarrow> nat \<Rightarrow> assignment list \<Rightarrow> string" where
  "build_desired_revision lc hostId revisionToken assignments =
    (let key = join_str ''|'' (js_sort lc (map (\<lambda>a. as_deploymentId a @ '':'' @ as_assignmentId a) assignments))
     in ''demo-rev:'' @ nat_str revisionToken @ '':'' @ hostId @ '':'' @ (if key = [] then ''empty'' else key))"

record projection_input =
  pi_hostId :: string
  pi_upstreamBaseUrl :: string
  pi_deployments :: "deployment_plan list"
  pi_revisionToken :: nat
  pi_registeredHostIds :: "string list"
  pi_candidateHosts :: "candidate_host list option"

definition project_http_worker_desired_state ::
  "(string \<Rightarrow> string \<Rightarrow> int) \<Rightarrow> int \<Rightarrow> projection_input \<Rightarrow> desired_host_state" where
  "project_http_worker_desired_state lc now input =
    (let assigned = filter (\<lambda>dep. should_assign_deployment_to_host lc dep (pi_hostId input)
           (pi_registeredHostIds input) (pi_candidateHosts input)) (pi_deployments input);
         assignments = map (build_assignment_for_host (pi_hostId input)) assigned
     in \<lparr>dh_hostId = pi_hostId input,
         dh_revision = build_desired_revision lc (pi_hostId input) (pi_revisionToken input) assignments,
         dh_generatedAt = now, dh_assignments = assignments, dh_topology = None, dh_runtimeAuthTrust = None,
         dh_routes = Some (map (\<lambda>dep. build_route_for_host (pi_hostId input) dep (pi_upstreamBaseUrl input)) assigned)\<rparr>)"

end
