(* ===== verification/Planning_Views.thy ===== *)
theory Planning_Views
  imports Planning "HOL-Library.Sublist"
begin

text \<open>The read models of the control plane (src/src/sdk/admin/planning.ts): the membership and placement
  snapshots handed to the gateways, the rollout summary of the deployments, and the comparison of
  what the hosts should run with the runtime summaries they report.

  A runtime summary is a value of unknown shape; every read of it tests the shape first.\<close>

section \<open>Membership\<close>

definition membership_state :: "observed_host_state option \<Rightarrow> host_state" where
  "membership_state observed = (case observed of
     None \<Rightarrow> HostReady
   | Some h \<Rightarrow> if oh_draining h then HostDraining else if oh_ready h then HostReady else HostOffline)"

definition build_membership_snapshot ::
  "(string \<Rightarrow> string \<Rightarrow> int) \<Rightarrow> int \<Rightarrow> string \<Rightarrow> int option \<Rightarrow> host_registration list \<Rightarrow>
   observed_host_state list option \<Rightarrow> membership_snapshot" where
  "build_membership_snapshot lc now revision generatedAt registrations observed =
    (let byId = index_observed (opt_else observed [])
     in \<lparr>ms_revision = revision, ms_generatedAt = opt_else generatedAt now,
         ms_hosts = js_sort (\<lambda>l r. lc (mh_hostId l) (mh_hostId r)) (map (\<lambda>reg.
           (let o1 = map_of byId (hr_hostId reg)
            in \<lparr>mh_hostId = hr_hostId reg, mh_groupId = hr_groupId reg, mh_nodeId = hr_nodeId reg,
                 mh_publicBaseUrl = hn_publicBaseUrl (hr_network reg),
                 mh_internalBaseUrl = hn_internalBaseUrl (hr_network reg),
                 mh_publicListenerEnabled = hn_publicListenerEnabled (hr_network reg),
                 mh_internalListenerEnabled = hn_internalListenerEnabled (hr_network reg),
                 mh_state = membership_state o1, mh_staticLabels = hr_staticLabels reg,
                 mh_staticCapabilities = hr_staticCapabilities reg, mh_staticCapacity = hr_staticCapacity reg,
                 mh_lastSeenAt = map_option oh_observedAt o1\<rparr>)) registrations)\<rparr>)"

section \<open>Placement\<close>

definition set_add :: "'a \<Rightarrow> 'a list \<Rightarrow> 'a list" where
  "set_add x xs = (if x \<in> set xs then xs else xs @ [x])"

record deployment_entry =
  de_deploymentId :: string
  de_deploymentKind :: deployment_kind
  de_groupId :: "string option"
  de_ownerHostIds :: "string list"
  de_routesById :: "(string, placement_route) js_map"

definition add_route ::
  "string \<Rightarrow> (string, forward_route) js_map \<Rightarrow> deployment_entry \<Rightarrow> string \<Rightarrow> deployment_entry" where
  "add_route hostId routesById entry routeId = (case map_of routesById routeId of
     None \<Rightarrow> entry
   | Some route \<Rightarrow>
      (let routeEntry = opt_else (map_of (de_routesById entry) routeId)
             \<lparr>pr_routeId = routeId, pr_pathPrefix = fr_pathPrefix route, pr_ownerHostIds = []\<rparr>
       in entry\<lparr>de_routesById := map_set routeId
            (routeEntry\<lparr>pr_ownerHostIds := set_add hostId (pr_ownerHostIds routeEntry)\<rparr>) (de_routesById entry)\<rparr>))"

definition placement_route_refs :: "assignment \<Rightarrow> string list" where
  "placement_route_refs a = opt_else (or_else (Option.bind (as_httpWorker a) ex_routeRefs)
     (Option.bind (as_serveApp a) ex_routeRefs)) []"

definition place_assignment ::
  "string \<Rightarrow> (string, forward_route) js_map \<Rightarrow> (string, deployment_entry) js_map \<Rightarrow> assignment \<Rightarrow>
   (string, deployment_entry) js_map" where
  "place_assignment hostId routesById deployments a =
    (let entry = opt_else (map_of deployments (as_deploymentId a))
           \<lparr>de_deploymentId = as_deploymentId a, de_deploymentKind = as_deploymentKind a,
            de_groupId = as_groupId a, de_ownerHostIds = [], de_routesById = []\<rparr>;
         owned = entry\<lparr>de_ownerHostIds := set_add hostId (de_ownerHostIds entry)\<rparr>
     in map_set (as_deploymentId a) (foldl (add_route hostId routesById) owned (placement_route_refs a)) deployments)"

definition index_routes :: "desired_host_state \<Rightarrow> (string, forward_route) js_map" where
  "index_routes desired = map_from (map (\<lambda>r. (fr_routeId r, r)) (opt_else (dh_routes desired) []))"

definition place_host ::
  "(string, deployment_entry) js_map \<Rightarrow> desired_host_state \<Rightarrow> (string, deployment_entry) js_map" where
  "place_host deployments desired =
     foldl (place_assignment (dh_hostId desired) (index_routes desired)) deployments (dh_assignments desired)"

definition to_service_module_protocol_package_ref :: "protocol_package \<Rightarrow> protocol_package_ref" where
  "to_service_module_protocol_package_ref p = \<lparr>pp_packageId = pk_packageId p, pp_digest = pk_digest p,
     pp_assignmentId = None, pp_deploymentId = None, pp_declaredVersion = None\<rparr>"

record requirement_entry =
  re_groupId :: "string option"
  re_packages :: "(string, protocol_package_ref) js_map"

definition require_package ::
  "(string, requirement_entry) js_map \<Rightarrow> assignment \<Rightarrow> (string, requirement_entry) js_map" where
  "require_package groups a = (case as_serviceModule a of
     None \<Rightarrow> groups
   | Some m \<Rightarrow>
      (let p = sm_protocolPackage m;
           groupKey = opt_else (as_groupId a) ''__default__'';
           entry = opt_else (map_of groups groupKey) \<lparr>re_groupId = as_groupId a, re_packages = []\<rparr>
       in map_set groupKey (entry\<lparr>re_packages :=
            map_set (pk_packageId p) (to_service_module_protocol_package_ref p) (re_packages entry)\<rparr>) groups))"

definition build_ingress_group_requirements ::
  "(string \<Rightarrow> string \<Rightarrow> int) \<Rightarrow> desired_host_state list \<Rightarrow> ingress_requirement list" where
  "build_ingress_group_requirements lc desiredHostStates =
    (let groups = foldl (\<lambda>g desired. foldl require_package g (dh_assignments desired)) [] desiredHostStates;
         entries = filter (\<lambda>e. length (re_packages e) > 0) (map snd groups)
     in js_sort (\<lambda>l r. lc (opt_else (ir_groupId l) []) (opt_else (ir_groupId r) []))
          (map (\<lambda>e. \<lparr>ir_groupId = re_groupId e,
             ir_requiredProtocolPackages = js_sort (\<lambda>l r. lc (pp_packageId l) (pp_packageId r))
               (map snd (re_packages e))\<rparr>) entries))"

definition placement_of_entry :: "(string \<Rightarrow> string \<Rightarrow> int) \<Rightarrow> deployment_entry \<Rightarrow> placement_deployment" where
  "placement_of_entry lc e =
    \<lparr>pd_deploymentId = de_deploymentId e, pd_deploymentKind = de_deploymentKind e, pd_groupId = de_groupId e,
     pd_ownerHostIds = js_sort lc (de_ownerHostIds e),
     pd_routes = js_sort (\<lambda>l r. lc (pr_routeId l) (pr_routeId r))
       (map (\<lambda>r. r\<lparr>pr_ownerHostIds := js_sort lc (pr_ownerHostIds r)\<rparr>) (map snd (de_routesById e)))\<rparr>"

definition build_placement_snapshot ::
  "(string \<Rightarrow> string \<Rightarrow> int) \<Rightarrow> int \<Rightarrow> string \<Rightarrow> int option \<Rightarrow> desired_host_state list \<Rightarrow> placement_snapshot" where
  "build_placement_snapshot lc now revision generatedAt desiredHostStates =
    \<lparr>ps_revision = revision, ps_generatedAt = opt_else generatedAt now,
     ps_deployments = js_sort (\<lambda>l r. lc (pd_deploymentId l) (pd_deploymentId r))
       (map (placement_of_entry lc) (map snd (foldl place_host [] desiredHostStates))),
     ps_ingressGroupRequirements = Some (build_ingress_group_requirements lc desiredHostStates)\<rparr>"

section \<open>Rollout summary\<close>

datatype rollout_state = StateMissing | StateOf assignment_state

record rollout_host =
  rh_hostId :: string
  rh_desiredAssignmentId :: "string option"
  rh_desiredVersion :: "string option"
  rh_observedState :: "rollout_state option"
  rh_observedGenerationId :: "string option"
  rh_runtimeSummaryReported :: "bool option"
  rh_runtimeSummaryStatus :: "summary_status option"
  rh_runtimeSummaryMissingIds :: "string list option"
  rh_runtimeSummaryUnexpectedIds :: "string list option"
  rh_lastError :: "status_error option"

record rollout_summary =
  rs_deploymentId :: string
  rs_desiredHosts :: nat
  rs_activeHosts :: nat
  rs_readyHosts :: nat
  rs_preparingHosts :: nat
  rs_drainingHosts :: nat
  rs_failedHosts :: nat
  rs_pendingHosts :: nat
  rs_hosts :: "rollout_host list"

definition rollout_host_of ::
  "string \<Rightarrow> (string, observed_host_state) js_map \<Rightarrow> desired_host_state \<Rightarrow> rollout_host option" where
  "rollout_host_of deploymentId byId desired =
    (let assignment = find (\<lambda>a. as_deploymentId a = deploymentId) (dh_assignments desired);
         status = Option.bind (map_of byId (dh_hostId desired))
           (\<lambda>h. find (\<lambda>s. at_deploymentId s = deploymentId) (oh_assignmentStatuses h))
     in if assignment = None \<and> status = None then None
        else Some \<lparr>rh_hostId = dh_hostId desired,
          rh_desiredAssignmentId = map_option as_assignmentId assignment,
          rh_desiredVersion = map_option as_declaredVersion assignment,
          rh_observedState = (case status of Some s \<Rightarrow> Some (StateOf (at_state s))
            | None \<Rightarrow> if assignment \<noteq> None then Some StateMissing else None),
          rh_observedGenerationId = Option.bind status at_generationId,
          rh_runtimeSummaryReported = None, rh_runtimeSummaryStatus = None,
          rh_runtimeSummaryMissingIds = None, rh_runtimeSummaryUnexpectedIds = None,
          rh_lastError = Option.bind status at_lastError\<rparr>)"

definition count_hosts :: "(rollout_host \<Rightarrow> bool) \<Rightarrow> rollout_host list \<Rightarrow> nat" where
  "count_hosts P hosts = length (filter P hosts)"

definition in_state :: "assignment_state \<Rightarrow> rollout_host \<Rightarrow> bool" where
  "in_state s h \<longleftrightarrow> rh_observedState h = Some (StateOf s)"

definition summarize_deployment ::
  "(string \<Rightarrow> string \<Rightarrow> int) \<Rightarrow> desired_host_state list \<Rightarrow> (string, observed_host_state) js_map \<Rightarrow> string \<Rightarrow> rollout_summary" where
  "summarize_deployment lc desiredHostStates byId deploymentId =
    (let hosts = js_sort (\<lambda>l r. lc (rh_hostId l) (rh_hostId r))
           (map the (filter (\<lambda>v. v \<noteq> None) (map (rollout_host_of deploymentId byId) desiredHostStates)))
     in \<lparr>rs_deploymentId = deploymentId,
         rs_desiredHosts = count_hosts (\<lambda>h. rh_desiredAssignmentId h \<noteq> None) hosts,
         rs_activeHosts = count_hosts (in_state StActive) hosts,
         rs_readyHosts = count_hosts (in_state StReady) hosts,
         rs_preparingHosts = count_hosts (in_state StPreparing) hosts,
         rs_drainingHosts = count_hosts (in_state StDraining) hosts,
         rs_failedHosts = count_hosts (in_state StFailed) hosts,
         rs_pendingHosts = count_hosts (\<lambda>h. in_state StPending h \<or> rh_observedState h = Some StateMissing) hosts,
         rs_hosts = hosts\<rparr>)"

definition build_deployment_rollout_summary ::
  "(string \<Rightarrow> string \<Rightarrow> int) \<Rightarrow> desired_host_state list \<Rightarrow> observed_host_state list \<Rightarrow> rollout_summary list" where
  "build_deployment_rollout_summary lc desiredHostStates observedHostStates =
    (let desiredIds = js_unique (concat (map (\<lambda>d. map as_deploymentId (dh_assignments d)) desiredHostStates));
         observedOnly = js_unique (concat (map (\<lambda>h. filter (\<lambda>i. i \<notin> set desiredIds)
           (map at_deploymentId (oh_assignmentStatuses h))) observedHostStates));
         ids = js_sort lc (js_unique (desiredIds @ observedOnly))
     in map (summarize_deployment lc desiredHostStates (index_observed observedHostStates)) ids)"

section \<open>Ids in a runtime summary\<close>

text \<open>\<open>a ?? b\<close> where \<open>a\<close> may be null.\<close>

definition nullish_else :: "json option \<Rightarrow> json option \<Rightarrow> json option" where
  "nullish_else a b = (case a of None \<Rightarrow> b | Some v \<Rightarrow> if v = JNull then b else Some v)"

definition runtime_summary_of :: "observed_host_state option \<Rightarrow> json option" where
  "runtime_summary_of observed = (case observed of
     None \<Rightarrow> None
   | Some h \<Rightarrow> nullish_else (ds_runtimeSummary (oh_dynamicState h))
       (Option.bind (ds_dynamicFields (oh_dynamicState h)) (\<lambda>f. map_of f ''runtimeSummary'')))"

definition array_prop :: "json option \<Rightarrow> string \<Rightarrow> json list option" where
  "array_prop v k = (case v of None \<Rightarrow> None
   | Some j \<Rightarrow> if \<not> is_record j then None
       else (case js_prop j k of Some (JArr xs) \<Rightarrow> Some xs | _ \<Rightarrow> None))"

definition string_prop :: "string \<Rightarrow> json \<Rightarrow> string list" where
  "string_prop k entry = (if \<not> is_record entry then []
     else (case js_prop entry k of Some (JStr s) \<Rightarrow> [s] | _ \<Rightarrow> []))"

definition list_observed_pipeline_ids :: "(string \<Rightarrow> string \<Rightarrow> int) \<Rightarrow> json option \<Rightarrow> string list" where
  "list_observed_pipeline_ids lc summary = (case array_prop summary ''pipelines'' of
     None \<Rightarrow> [] | Some ps \<Rightarrow> js_sort lc (concat (map (string_prop ''pipelineId'') ps)))"

definition list_observed_protocol_package_ids :: "(string \<Rightarrow> string \<Rightarrow> int) \<Rightarrow> json option \<Rightarrow> string list" where
  "list_observed_protocol_package_ids lc summary = (case array_prop summary ''activeProtocolPackages'' of
     None \<Rightarrow> [] | Some es \<Rightarrow> js_sort lc (concat (map (string_prop ''packageId'') es)))"

text \<open>The packages a summary ascribes to a deployment, and whether any entry names a deployment.\<close>

definition package_of_deployment :: "string \<Rightarrow> json \<Rightarrow> string list" where
  "package_of_deployment deploymentId entry =
     (if string_prop ''deploymentId'' entry = [deploymentId] then string_prop ''packageId'' entry else [])"

definition list_observed_protocol_package_ids_for_deployment ::
  "(string \<Rightarrow> string \<Rightarrow> int) \<Rightarrow> json option \<Rightarrow> string \<Rightarrow> string list \<times> bool" where
  "list_observed_protocol_package_ids_for_deployment lc summary deploymentId =
    (case array_prop summary ''activeProtocolPackages'' of
       None \<Rightarrow> ([], False)
     | Some es \<Rightarrow> (js_sort lc (js_unique (concat (map (package_of_deployment deploymentId) es))),
                   list_ex (\<lambda>e. string_prop ''deploymentId'' e \<noteq> []) es))"

definition is_runtime_pipeline_id_for_deployment :: "string \<Rightarrow> string \<Rightarrow> bool" where
  "is_runtime_pipeline_id_for_deployment pipelineId deploymentId = sublist ('':'' @ deploymentId @ '':'') pipelineId"

definition list_observed_pipeline_ids_for_read_model ::
  "(string \<Rightarrow> string \<Rightarrow> int) \<Rightarrow> json option \<Rightarrow> string option \<Rightarrow> string list" where
  "list_observed_pipeline_ids_for_read_model lc summary deploymentId =
    (let ids = list_observed_pipeline_ids lc summary in case deploymentId of
       None \<Rightarrow> ids
     | Some dep \<Rightarrow> filter (\<lambda>i. is_runtime_pipeline_id_for_deployment i dep) ids)"

definition list_observed_protocol_package_ids_for_read_model ::
  "(string \<Rightarrow> string \<Rightarrow> int) \<Rightarrow> json option \<Rightarrow> string list \<Rightarrow> string option \<Rightarrow> string list" where
  "list_observed_protocol_package_ids_for_read_model lc summary expectedIds deploymentId =
    (let ids = list_observed_protocol_package_ids lc summary in case deploymentId of
       None \<Rightarrow> ids
     | Some dep \<Rightarrow> (let (scoped, meta) = list_observed_protocol_package_ids_for_deployment lc summary dep
         in if meta then scoped else filter (\<lambda>i. i \<in> set expectedIds) ids))"

section \<open>Expected ids\<close>

definition assignment_program :: "assignment \<Rightarrow> executable option" where
  "assignment_program a = or_else (as_httpWorker a) (as_serveApp a)"

definition routed_ids :: "desired_host_state \<Rightarrow> assignment \<Rightarrow> string list" where
  "routed_ids desired a =
    (let routeIds = map fr_routeId (opt_else (dh_routes desired) [])
     in map (\<lambda>routeId. as_assignmentId a @ '':'' @ routeId)
          (filter (\<lambda>routeId. routeId \<in> set routeIds) (opt_else (Option.bind (assignment_program a) ex_routeRefs) [])))"

definition module_package_ids :: "assignment \<Rightarrow> string list" where
  "module_package_ids a = (if as_deploymentKind a = ServiceModuleKind
     then (case as_serviceModule a of None \<Rightarrow> [] | Some m \<Rightarrow> [pk_packageId (sm_protocolPackage m)]) else [])"

definition list_expected_pipeline_ids :: "(string \<Rightarrow> string \<Rightarrow> int) \<Rightarrow> desired_host_state option \<Rightarrow> string list" where
  "list_expected_pipeline_ids lc desired = (case desired of None \<Rightarrow> []
   | Some d \<Rightarrow> js_sort lc (js_unique (concat (map (\<lambda>a. if as_deploymentKind a = ServiceModuleKind then []
       else routed_ids d a) (dh_assignments d)))))"

definition list_expected_protocol_package_ids :: "(string \<Rightarrow> string \<Rightarrow> int) \<Rightarrow> desired_host_state option \<Rightarrow> string list" where
  "list_expected_protocol_package_ids lc desired = (case desired of None \<Rightarrow> []
   | Some d \<Rightarrow> js_sort lc (concat (map module_package_ids (dh_assignments d))))"

definition list_expected_deployment_runtime_ids ::
  "(string \<Rightarrow> string \<Rightarrow> int) \<Rightarrow> desired_host_state option \<Rightarrow> string \<Rightarrow> string list" where
  "list_expected_deployment_runtime_ids lc desired deploymentId = (case desired of None \<Rightarrow> []
   | Some d \<Rightarrow>
      (let httpIds = concat (map (routed_ids d) (filter (\<lambda>a. as_deploymentId a = deploymentId
             \<and> as_deploymentKind a \<noteq> ServiceModuleKind) (dh_assignments d)))
       in if length httpIds > 0 then js_sort lc httpIds
          else js_sort lc (concat (map (\<lambda>a. if as_deploymentId a = deploymentId then module_package_ids a else [])
                 (dh_assignments d)))))"

definition list_observed_deployment_runtime_ids ::
  "(string \<Rightarrow> string \<Rightarrow> int) \<Rightarrow> json \<Rightarrow> string \<Rightarrow> string list \<Rightarrow> string list" where
  "list_observed_deployment_runtime_ids lc summary deploymentId expectedIds =
    (if \<not> is_record summary then []
     else if list_ex (\<lambda>v. prefix ''assign:'' v) expectedIds then
       (case array_prop (Some summary) ''pipelines'' of None \<Rightarrow> []
        | Some ps \<Rightarrow> js_sort lc (concat (map (\<lambda>p.
            filter (\<lambda>i. is_runtime_pipeline_id_for_deployment i deploymentId) (string_prop ''pipelineId'' p)) ps)))
     else (case array_prop (Some summary) ''activeProtocolPackages'' of None \<Rightarrow> []
        | Some _ \<Rightarrow> (let (scoped, meta) = list_observed_protocol_package_ids_for_deployment lc (Some summary) deploymentId
            in if meta then scoped else if expectedIds = [] then []
               else list_observed_protocol_package_ids lc (Some summary))))"

section \<open>Comparison\<close>

definition compute_missing_values :: "string list \<Rightarrow> string list \<Rightarrow> string list" where
  "compute_missing_values expected observed = filter (\<lambda>v. v \<notin> set observed) expected"

definition resolve_runtime_summary_status :: "bool \<Rightarrow> nat \<Rightarrow> nat \<Rightarrow> summary_status" where
  "resolve_runtime_summary_status reported missingCount unexpectedCount =
    (if \<not> reported then (if missingCount = 0 \<and> unexpectedCount = 0 then Match else NotReported)
     else if missingCount = 0 \<and> unexpectedCount = 0 then Match else Drift)"

definition index_desired :: "desired_host_state list \<Rightarrow> (string, desired_host_state) js_map" where
  "index_desired ds = map_from (map (\<lambda>d. (dh_hostId d, d)) ds)"

definition check_host ::
  "(string \<Rightarrow> string \<Rightarrow> int) \<Rightarrow> string option \<Rightarrow> desired_host_state option \<Rightarrow> observed_host_state option \<Rightarrow> string \<Rightarrow> summary_check" where
  "check_host lc deploymentId desired observed hostId =
    (let summary = runtime_summary_of observed;
         expectedPipelines = list_expected_pipeline_ids lc desired;
         observedPipelines = list_observed_pipeline_ids_for_read_model lc summary deploymentId;
         expectedPackages = list_expected_protocol_package_ids lc desired;
         observedPackages = list_observed_protocol_package_ids_for_read_model lc summary expectedPackages deploymentId;
         missingPipelines = compute_missing_values expectedPipelines observedPipelines;
         unexpectedPipelines = compute_missing_values observedPipelines expectedPipelines;
         missingPackages = compute_missing_values expectedPackages observedPackages;
         unexpectedPackages = compute_missing_values observedPackages expectedPackages;
         status = resolve_runtime_summary_status (summary \<noteq> None)
           (length missingPipelines + length missingPackages) (length unexpectedPipelines + length unexpectedPackages)
     in \<lparr>ck_hostId = hostId, ck_status = status, ck_reported = (summary \<noteq> None), ck_matches = (status = Match),
         ck_expectedPipelineIds = expectedPipelines, ck_observedPipelineIds = observedPipelines,
         ck_missingPipelineIds = missingPipelines, ck_unexpectedPipelineIds = unexpectedPipelines,
         ck_expectedProtocolPackageIds = expectedPackages, ck_observedProtocolPackageIds = observedPackages,
         ck_missingProtocolPackageIds = missingPackages, ck_unexpectedProtocolPackageIds = unexpectedPackages\<rparr>)"

definition build_runtime_summary_checks ::
  "(string \<Rightarrow> string \<Rightarrow> int) \<Rightarrow> desired_host_state list \<Rightarrow> observed_host_state list \<Rightarrow> string option \<Rightarrow> summary_check list" where
  "build_runtime_summary_checks lc ds os deploymentId =
    (let hostIds = js_sort lc (js_unique (map dh_hostId ds @ map oh_hostId os))
     in map (\<lambda>hostId. check_host lc deploymentId (map_of (index_desired ds) hostId)
          (map_of (index_observed os) hostId) hostId) hostIds)"

definition build_runtime_summary_rollup :: "summary_check list \<Rightarrow> summary_rollup" where
  "build_runtime_summary_rollup checks =
    \<lparr>sr_totalHosts = length checks, sr_reportedHosts = length (filter ck_reported checks),
     sr_matchingHosts = length (filter ck_matches checks),
     sr_driftedHosts = length (filter (\<lambda>c. ck_status c = Drift) checks),
     sr_notReportedHosts = length (filter (\<lambda>c. ck_status c = NotReported) checks)\<rparr>"

definition attach_runtime_summary_to_rollout_host ::
  "(string \<Rightarrow> string \<Rightarrow> int) \<Rightarrow> rollout_host \<Rightarrow> string \<Rightarrow> desired_host_state option \<Rightarrow> observed_host_state option \<Rightarrow> rollout_host" where
  "attach_runtime_summary_to_rollout_host lc host deploymentId desired observed =
    (let expectedIds = list_expected_deployment_runtime_ids lc desired deploymentId in
     case runtime_summary_of observed of
       None \<Rightarrow> if length expectedIds > 0
         then host\<lparr>rh_runtimeSummaryReported := Some False, rh_runtimeSummaryStatus := Some NotReported,
                   rh_runtimeSummaryMissingIds := Some expectedIds\<rparr>
         else host
     | Some summary \<Rightarrow>
        (let observedIds = list_observed_deployment_runtime_ids lc summary deploymentId expectedIds;
             missing = compute_missing_values expectedIds observedIds;
             unexpected = compute_missing_values observedIds expectedIds;
             h1 = host\<lparr>rh_runtimeSummaryReported := Some True,
               rh_runtimeSummaryStatus := Some (resolve_runtime_summary_status True (length missing) (length unexpected))\<rparr>;
             h2 = (if length missing > 0 then h1\<lparr>rh_runtimeSummaryMissingIds := Some missing\<rparr> else h1)
         in if length unexpected > 0 then h2\<lparr>rh_runtimeSummaryUnexpectedIds := Some unexpected\<rparr> else h2))"

definition attach_runtime_summary_to_deployment_rollout_summary ::
  "(string \<Rightarrow> string \<Rightarrow> int) \<Rightarrow> rollout_summary list \<Rightarrow> desired_host_state list \<Rightarrow> observed_host_state list \<Rightarrow> rollout_summary list" where
  "attach_runtime_summary_to_deployment_rollout_summary lc summaries ds os =
     map (\<lambda>s. s\<lparr>rs_hosts := map (\<lambda>h. attach_runtime_summary_to_rollout_host lc h (rs_deploymentId s)
        (map_of (index_desired ds) (rh_hostId h)) (map_of (index_observed os) (rh_hostId h))) (rs_hosts s)\<rparr>) summaries"

section \<open>The read model of a query\<close>

definition list_assignment_route_refs :: "assignment \<Rightarrow> string list" where
  "list_assignment_route_refs a = opt_else (Option.bind (as_httpWorker a) ex_routeRefs) []
     @ opt_else (Option.bind (as_serveApp a) ex_routeRefs) []"

definition scope_desired :: "summary_query \<Rightarrow> desired_host_state \<Rightarrow> desired_host_state list" where
  "scope_desired query desired =
    (if sq_hostId query \<noteq> None \<and> sq_hostId query \<noteq> Some (dh_hostId desired) then []
     else (case sq_deploymentId query of
        None \<Rightarrow> [desired]
      | Some dep \<Rightarrow>
         (let assignments = filter (\<lambda>a. as_deploymentId a = dep) (dh_assignments desired)
          in if assignments = [] \<and> sq_hostId query = None then []
             else (let routeRefs = concat (map list_assignment_route_refs assignments)
                in [desired\<lparr>dh_assignments := assignments,
                      dh_routes := map_option (filter (\<lambda>r. fr_routeId r \<in> set routeRefs)) (dh_routes desired)\<rparr>]))))"

definition filter_desired_host_states_for_runtime_summary_query ::
  "desired_host_state list \<Rightarrow> summary_query \<Rightarrow> desired_host_state list" where
  "filter_desired_host_states_for_runtime_summary_query ds query = concat (map (scope_desired query) ds)"

definition scope_observed ::
  "(string \<Rightarrow> string \<Rightarrow> int) \<Rightarrow> summary_query \<Rightarrow> observed_host_state \<Rightarrow> observed_host_state list" where
  "scope_observed lc query observed =
    (if sq_hostId query \<noteq> None \<and> sq_hostId query \<noteq> Some (oh_hostId observed) then []
     else (case sq_deploymentId query of
        None \<Rightarrow> [observed]
      | Some dep \<Rightarrow>
         (let statuses = filter (\<lambda>s. at_deploymentId s = dep) (oh_assignmentStatuses observed);
              summary = runtime_summary_of (Some observed);
              hasPipeline = list_ex (\<lambda>i. is_runtime_pipeline_id_for_deployment i dep) (list_observed_pipeline_ids lc summary);
              hasPackage = length (fst (list_observed_protocol_package_ids_for_deployment lc summary dep)) > 0
          in if statuses = [] \<and> \<not> hasPipeline \<and> \<not> hasPackage \<and> sq_hostId query = None then []
             else [observed\<lparr>oh_assignmentStatuses := statuses\<rparr>])))"

definition filter_observed_host_states_for_runtime_summary_query ::
  "(string \<Rightarrow> string \<Rightarrow> int) \<Rightarrow> observed_host_state list \<Rightarrow> summary_query \<Rightarrow> observed_host_state list" where
  "filter_observed_host_states_for_runtime_summary_query lc os query = concat (map (scope_observed lc query) os)"

record summary_read_model =
  rm_checks :: "summary_check list"
  rm_rollup :: summary_rollup
  rm_rolloutSummary :: "rollout_summary list"

definition build_runtime_summary_read_model ::
  "(string \<Rightarrow> string \<Rightarrow> int) \<Rightarrow> desired_host_state list \<Rightarrow> observed_host_state list \<Rightarrow> summary_query \<Rightarrow> summary_read_model" where
  "build_runtime_summary_read_model lc ds os query =
    (let scopedDesired = filter_desired_host_states_for_runtime_summary_query ds query;
         scopedObserved = filter_observed_host_states_for_runtime_summary_query lc os query;
         checks = build_runtime_summary_checks lc scopedDesired scopedObserved (sq_deploymentId query)
     in \<lparr>rm_checks = checks, rm_rollup = build_runtime_summary_rollup checks,
         rm_rolloutSummary = attach_runtime_summary_to_deployment_rollout_summary lc
           (build_deployment_rollout_summary lc scopedDesired scopedObserved) scopedDesired scopedObserved\<rparr>)"

end
