(* ===== verification/Planning_Props.thy ===== *)
theory Planning_Props
  imports Planning_Views
begin

text \<open>Placement: the hosts chosen are the best ranked eligible ones, ownership moves in bounded steps
  that keep enough hosts available and end at the target.\<close>

section \<open>Target owners\<close>

lemma replica_count_pos: "replica_count dep \<ge> 1"
  by (auto simp: replica_count_def normalize_replica_count_def split: js_num.split)

lemma unique_host_ids_eq: "unique_host_ids xs = js_unique xs"
proof -
  have "fst (foldl (\<lambda>(kept, seen) h. if h \<in> set seen then (kept, seen) else (kept @ [h], seen @ [h])) (ks, ss) xs)
    = ks @ filter (\<lambda>h. h \<notin> set ss) (js_unique xs)" for ks ss
    by (induction xs arbitrary: ks ss) (auto intro: filter_cong)
  then show ?thesis by (simp add: unique_host_ids_def)
qed

lemma compare_candidates_comparator:
  assumes "comparator lc"
  shows "comparator (compare_candidate_hosts lc dep)"
proof
    fix x y z
    show "compare_candidate_hosts lc dep x y < 0 \<longleftrightarrow> 0 < compare_candidate_hosts lc dep y x"
      by (auto simp: compare_candidate_hosts_def Let_def comparator.sign[OF assms])
    show "compare_candidate_hosts lc dep x y \<le> 0 \<Longrightarrow> compare_candidate_hosts lc dep y z \<le> 0 \<Longrightarrow>
      compare_candidate_hosts lc dep x z \<le> 0"
      by (auto simp: compare_candidate_hosts_def Let_def dest: comparator.trans[OF assms] split: if_splits)
qed


lemma compare_sticky_first:
  "compare_candidate_hosts lc dep a b \<le> 0 \<Longrightarrow> is_sticky dep b \<Longrightarrow> is_sticky dep a"
  by (auto simp: compare_candidate_hosts_def split: if_splits)

definition chosen_count :: "deployment_plan \<Rightarrow> nat \<Rightarrow> nat" where
  "chosen_count dep n = (if opt_else (dp_assignmentMode dep) SelectFirstN = AllHosts then n else replica_count dep)"

lemma target_as_take:
  "select_target_owner_host_ids lc dep cs =
     map cd_hostId (take (chosen_count dep (length (rank_candidate_hosts lc dep cs))) (rank_candidate_hosts lc dep cs))"
  by (simp add: select_target_owner_host_ids_def chosen_count_def Let_def take_map)

text \<open>The owners the planner aims at are best: the eligible candidates split into the chosen ones and
  the rest, the chosen ones are as many as the replicas ask for (all of them in the mode all-hosts),
  none of the rest ranks before a chosen one, and a host that already owns the deployment (sticky)
  is never passed over for one that does not.\<close>

theorem target_owners_best:
  assumes "comparator lc"
  shows "\<exists>chosen rest.
    mset chosen + mset rest = mset (filter (is_candidate_eligible dep) cs)
    \<and> select_target_owner_host_ids lc dep cs = map cd_hostId chosen
    \<and> length chosen = (if opt_else (dp_assignmentMode dep) SelectFirstN = AllHosts
        then length (filter (is_candidate_eligible dep) cs)
        else min (replica_count dep) (length (filter (is_candidate_eligible dep) cs)))
    \<and> sorted_wrt (\<lambda>a b. compare_candidate_hosts lc dep a b \<le> 0) (chosen @ rest)
    \<and> (\<forall>a\<in>set chosen. \<forall>b\<in>set rest. is_sticky dep b \<longrightarrow> is_sticky dep a)"
proof (intro exI conjI ballI impI)
  let ?r = "rank_candidate_hosts lc dep cs"
  let ?n = "chosen_count dep (length ?r)"
  have len: "length ?r = length (filter (is_candidate_eligible dep) cs)"
    by (simp add: rank_candidate_hosts_def)
  show "mset (take ?n ?r) + mset (drop ?n ?r) = mset (filter (is_candidate_eligible dep) cs)"
    by (simp add: rank_candidate_hosts_def mset_append[symmetric] del: mset_append)
  show "select_target_owner_host_ids lc dep cs = map cd_hostId (take ?n ?r)" by (rule target_as_take)
  show "length (take ?n ?r) = (if opt_else (dp_assignmentMode dep) SelectFirstN = AllHosts
        then length (filter (is_candidate_eligible dep) cs)
        else min (replica_count dep) (length (filter (is_candidate_eligible dep) cs)))"
    by (simp add: chosen_count_def len min.commute)
  show sorted: "sorted_wrt (\<lambda>a b. compare_candidate_hosts lc dep a b \<le> 0) (take ?n ?r @ drop ?n ?r)"
    by (simp add: rank_candidate_hosts_def comparator.sort_sorted[OF compare_candidates_comparator[OF assms]])
  fix a b assume "a \<in> set (take ?n ?r)" "b \<in> set (drop ?n ?r)" and sticky: "is_sticky dep b"
  then have "compare_candidate_hosts lc dep a b \<le> 0"
    using sorted unfolding sorted_wrt_append by blast
  then show "is_sticky dep a" using sticky by (rule compare_sticky_first)
qed

section \<open>Gradual rollout\<close>

lemma add_owners_spec:
  "distinct owners \<Longrightarrow> \<exists>new. add_owners limit ts owners = owners @ new \<and> distinct (owners @ new)
     \<and> set new \<subseteq> set ts - set owners \<and> length new \<le> limit - length owners
     \<and> (length new < limit - length owners \<longrightarrow> set ts \<subseteq> set (owners @ new))
     \<and> (length owners < limit \<longrightarrow> \<not> set ts \<subseteq> set owners \<longrightarrow> new \<noteq> [])"
proof (induction limit ts owners rule: add_owners.induct)
  case (2 limit h hs owners)
  have len: "length (js_unique owners) = length owners" using "2.prems" by (simp add: js_unique_distinct)
  show ?case
  proof (cases "limit \<le> length owners")
    case True
    then show ?thesis using "2.prems" by (auto simp: len)
  next
    case False
    show ?thesis
    proof (cases "h \<in> set owners")
      case True
      then show ?thesis using "2.IH"(1)[OF _ True] "2.prems" False by (fastforce simp: len)
    next
      case out: False
      then obtain new where new: "add_owners limit hs (owners @ [h]) = (owners @ [h]) @ new" "distinct ((owners @ [h]) @ new)"
        "set new \<subseteq> set hs - set (owners @ [h])" "length new \<le> limit - length (owners @ [h])"
        "length new < limit - length (owners @ [h]) \<longrightarrow> set hs \<subseteq> set ((owners @ [h]) @ new)"
        using "2.IH"(2) "2.prems" False by (auto simp: len)
      then show ?thesis using False out by (intro exI[of _ "h # new"]) (auto simp: len)
    qed
  qed
qed simp

text \<open>What the removing loop adds to \<open>gone\<close>: hosts of its list outside the target, and after the last of
  them enough hosts are available. A first stale host is removed when that leaves enough.\<close>

lemma remove_owners_spec:
  "\<exists>more. remove_owners av k batch target owners gone removed hs = gone @ more
     \<and> set more \<subseteq> set hs - set target \<and> length more \<le> batch - removed
     \<and> (more \<noteq> [] \<longrightarrow> k \<le> av (filter (\<lambda>h. h \<notin> set (gone @ more)) owners))
     \<and> (removed < batch \<longrightarrow> (\<exists>h\<in>set hs. h \<notin> set target) \<longrightarrow> (\<forall>h. h \<in> set hs - set target \<longrightarrow>
          k \<le> av (filter (\<lambda>c. c \<noteq> h \<and> c \<notin> set gone) owners)) \<longrightarrow> more \<noteq> [])"
proof (induction av k batch target owners gone removed hs rule: remove_owners.induct)
  case (2 av k batch target owners gone removed h hs)
  consider "removed \<ge> batch" | "removed < batch" "h \<in> set target"
    | "removed < batch" "h \<notin> set target" "av (filter (\<lambda>c. c \<noteq> h \<and> c \<notin> set gone) owners) < k"
    | "removed < batch" "h \<notin> set target" "k \<le> av (filter (\<lambda>c. c \<noteq> h \<and> c \<notin> set gone) owners)"
    by linarith
  then show ?case
  proof cases
    case 1 then show ?thesis by simp
  next
    case 2 then show ?thesis using "2.IH"(1) by fastforce
  next
    case 3 then show ?thesis using "2.IH"(2) by fastforce
  next
    case 4
    obtain more where more: "remove_owners av k batch target owners (gone @ [h]) (Suc removed) hs = (gone @ [h]) @ more"
      "set more \<subseteq> set hs - set target" "length more \<le> batch - Suc removed"
      "more \<noteq> [] \<longrightarrow> k \<le> av (filter (\<lambda>c. c \<notin> set ((gone @ [h]) @ more)) owners)"
      using "2.IH"(3) 4 by (auto simp: not_le not_less)
    have "filter (\<lambda>c. c \<notin> set (gone @ [h])) owners = filter (\<lambda>c. c \<noteq> h \<and> c \<notin> set gone) owners"
      by (rule filter_cong) auto
    then show ?thesis using 4 more by (intro exI[of _ "h # more"]) (cases more; auto)
  qed
qed simp


lemma rollout_batch_pos: "rollout_batch_size dep \<ge> 1"
  by (auto simp: rollout_batch_size_def normalize_positive_count_def split: option.split js_num.split)

text \<open>A round of a gradual rollout: the owners it adds and the owners it takes away.\<close>

lemma plan_round:
  fixes lc :: "string \<Rightarrow> string \<Rightarrow> int" and cs :: "candidate_host list" and os :: "observed_host_state list"
  assumes gradual: "gradual_rollout_enabled dep" "opt_else (dp_assignmentMode dep) SelectFirstN \<noteq> AllHosts"
    and current: "distinct current" "current \<noteq> []"
  defines "target \<equiv> select_target_owner_host_ids lc dep cs"
    and "av \<equiv> \<lambda>hs. count_available_owner_hosts (dp_deploymentId dep) (dp_declaredVersion dep) hs os"
  shows "\<exists>new gone. plan_http_worker_deployment_owners lc dep cs (Some current) (Some os)
      = filter (\<lambda>h. h \<notin> set gone) (current @ new)
    \<and> distinct (current @ new) \<and> set new \<subseteq> set target - set current \<and> length new \<le> rollout_batch_size dep
    \<and> set gone \<subseteq> set current - set target \<and> length gone \<le> rollout_batch_size dep
    \<and> (gone \<noteq> [] \<longrightarrow> rollout_min_available dep \<le> av (filter (\<lambda>h. h \<notin> set gone) (current @ new)))
    \<and> (\<not> set target \<subseteq> set current \<longrightarrow> new \<noteq> [])
    \<and> ((\<exists>h\<in>set current. h \<notin> set target) \<longrightarrow> (\<forall>h. h \<in> set current - set target \<longrightarrow>
        rollout_min_available dep \<le> av (filter (\<lambda>c. c \<noteq> h) (current @ new))) \<longrightarrow> gone \<noteq> [])"
proof -
  let ?b = "rollout_batch_size dep" and ?k = "rollout_min_available dep"
  obtain new where new: "add_owners (length current + ?b) target current = current @ new" "distinct (current @ new)"
    "set new \<subseteq> set target - set current" "length new \<le> ?b" "\<not> set target \<subseteq> set current \<longrightarrow> new \<noteq> []"
    using add_owners_spec[OF current(1), of "length current + ?b" target] rollout_batch_pos[of dep] by auto
  obtain gone where gone: "remove_owners av ?k ?b target (current @ new) [] 0 current = gone"
    "set gone \<subseteq> set current - set target" "length gone \<le> ?b"
    "gone \<noteq> [] \<longrightarrow> ?k \<le> av (filter (\<lambda>h. h \<notin> set gone) (current @ new))"
    "(\<exists>h\<in>set current. h \<notin> set target) \<longrightarrow> (\<forall>h. h \<in> set current - set target \<longrightarrow>
        ?k \<le> av (filter (\<lambda>c. c \<noteq> h) (current @ new))) \<longrightarrow> gone \<noteq> []"
    using remove_owners_spec[of av ?k ?b target "current @ new" "[]" 0 current] rollout_batch_pos[of dep] by auto
  have "plan_http_worker_deployment_owners lc dep cs (Some current) (Some os) = filter (\<lambda>h. h \<notin> set gone) (current @ new)"
    using gradual current new(1) gone(1)
    unfolding plan_http_worker_deployment_owners_def Let_def target_def[symmetric]
    by (simp add: unique_host_ids_eq js_unique_distinct av_def)
  with new gone show ?thesis by blast
qed

text \<open>C4: A round of a gradual rollout is safe: it keeps every owner that is also a target, adds only
  targets, adds and removes at most one batch each, names no host twice, and when it removes any
  owner then the owners that remain still have the required number of available hosts.\<close>

theorem rollout_round_safe:
  assumes "gradual_rollout_enabled dep" "opt_else (dp_assignmentMode dep) SelectFirstN \<noteq> AllHosts"
    and "distinct current" "current \<noteq> []"
  shows "let next = plan_http_worker_deployment_owners lc dep cs (Some current) (Some os);
             target = set (select_target_owner_host_ids lc dep cs)
    in distinct next \<and> set next \<subseteq> set current \<union> target \<and> set current \<inter> target \<subseteq> set next
     \<and> card (set next - set current) \<le> rollout_batch_size dep
     \<and> card (set current - set next) \<le> rollout_batch_size dep
     \<and> (\<not> set current \<subseteq> set next \<longrightarrow> rollout_min_available dep \<le>
          count_available_owner_hosts (dp_deploymentId dep) (dp_declaredVersion dep) next os)"
proof -
  obtain new gone where r: "plan_http_worker_deployment_owners lc dep cs (Some current) (Some os)
      = filter (\<lambda>h. h \<notin> set gone) (current @ new)"
    "distinct (current @ new)" "set new \<subseteq> set (select_target_owner_host_ids lc dep cs) - set current"
    "length new \<le> rollout_batch_size dep"
    "set gone \<subseteq> set current - set (select_target_owner_host_ids lc dep cs)" "length gone \<le> rollout_batch_size dep"
    "gone \<noteq> [] \<longrightarrow> rollout_min_available dep \<le> count_available_owner_hosts (dp_deploymentId dep) (dp_declaredVersion dep)
        (filter (\<lambda>h. h \<notin> set gone) (current @ new)) os"
    using plan_round[OF assms, where lc = lc and cs = cs and os = os] by auto
  let ?next = "filter (\<lambda>h. h \<notin> set gone) (current @ new)"
  have "card (set ?next - set current) \<le> card (set new)" by (rule card_mono) auto
  also have "\<dots> \<le> rollout_batch_size dep" using card_length r(4) by (rule le_trans)
  finally have added: "card (set ?next - set current) \<le> rollout_batch_size dep" .
  have "card (set current - set ?next) \<le> card (set gone)" by (rule card_mono) auto
  also have "\<dots> \<le> rollout_batch_size dep" using card_length r(6) by (rule le_trans)
  finally have removed: "card (set current - set ?next) \<le> rollout_batch_size dep" .
  have "set current \<inter> set (select_target_owner_host_ids lc dep cs) \<subseteq> set ?next" using r(5) by auto
  moreover have "set ?next \<subseteq> set current \<union> set (select_target_owner_host_ids lc dep cs)" using r(3) by auto
  moreover have "\<not> set current \<subseteq> set ?next \<longrightarrow> gone \<noteq> []" by auto
  moreover have "distinct ?next" using r(2) by (rule distinct_filter)
  ultimately show ?thesis using r(7) added removed unfolding r(1) Let_def by blast
qed


definition owner_distance :: "string list \<Rightarrow> string list \<Rightarrow> nat" where
  "owner_distance target current = card (set target - set current) + card (set current - set target)"

lemma owner_distance_less:
  assumes "set target - set next \<subseteq> set target - set current" "set next - set target \<subseteq> set current - set target"
    and "set target - set next \<noteq> set target - set current \<or> set next - set target \<noteq> set current - set target"
  shows "owner_distance target next < owner_distance target current"
proof -
  have le: "card (set target - set next) \<le> card (set target - set current)"
    "card (set next - set target) \<le> card (set current - set target)"
    using assms(1,2) by (auto intro: card_mono)
  consider "set target - set next \<subset> set target - set current" | "set next - set target \<subset> set current - set target"
    using assms by blast
  then show ?thesis
  proof cases
    case 1
    then have "card (set target - set next) < card (set target - set current)" by (rule psubset_card_mono[rotated]) simp
    with le show ?thesis by (simp add: owner_distance_def)
  next
    case 2
    then have "card (set next - set target) < card (set current - set target)" by (rule psubset_card_mono[rotated]) simp
    with le show ?thesis by (simp add: owner_distance_def)
  qed
qed

lemma count_available_ge:
  assumes "set good \<subseteq> set hs" "distinct good" "\<And>h. h \<in> set good \<Longrightarrow> owner_available i v os h"
  shows "length good \<le> count_available_owner_hosts i v hs os"
proof -
  have "length good = card (set good)" using assms(2) by (simp add: distinct_card)
  also have "\<dots> \<le> card (set (filter (owner_available i v os) hs))" using assms by (intro card_mono) auto
  also have "\<dots> \<le> length (filter (owner_available i v os) hs)" by (rule card_length)
  finally show ?thesis by (simp add: count_available_owner_hosts_def)
qed

lemma rollout_progress:
  fixes lc :: "string \<Rightarrow> string \<Rightarrow> int" and cs :: "candidate_host list" and os :: "observed_host_state list"
  assumes gradual: "gradual_rollout_enabled dep" "opt_else (dp_assignmentMode dep) SelectFirstN \<noteq> AllHosts"
    and target: "distinct (select_target_owner_host_ids lc dep cs)"
      "rollout_min_available dep \<le> length (select_target_owner_host_ids lc dep cs)"
    and avail: "\<And>h. h \<in> set current \<Longrightarrow> h \<in> set (select_target_owner_host_ids lc dep cs) \<Longrightarrow>
      owner_available (dp_deploymentId dep) (dp_declaredVersion dep) os h"
    and current: "distinct current"
  defines "T \<equiv> select_target_owner_host_ids lc dep cs"
    and "next \<equiv> plan_http_worker_deployment_owners lc dep cs (Some current) (Some os)"
  shows "distinct next \<and> (set current = set T \<and> set next = set T \<or> owner_distance T next < owner_distance T current)"
proof (cases "current = []")
  case True
  then have "next = T" using gradual
    by (simp add: next_def T_def plan_http_worker_deployment_owners_def Let_def unique_host_ids_eq)
  with target(1) True show ?thesis
    by (cases "set T = {}") (auto simp: T_def owner_distance_def card_gt_0_iff)
next
  case False
  obtain new gone where r: "next = filter (\<lambda>h. h \<notin> set gone) (current @ new)"
    "distinct (current @ new)" "set new \<subseteq> set T - set current" "set gone \<subseteq> set current - set T"
    "\<not> set T \<subseteq> set current \<longrightarrow> new \<noteq> []"
    "(\<exists>h\<in>set current. h \<notin> set T) \<longrightarrow> (\<forall>h. h \<in> set current - set T \<longrightarrow>
        rollout_min_available dep \<le> count_available_owner_hosts (dp_deploymentId dep) (dp_declaredVersion dep)
          (filter (\<lambda>c. c \<noteq> h) (current @ new)) os) \<longrightarrow> gone \<noteq> []"
    unfolding next_def T_def
    using plan_round[OF gradual current False, where lc = lc and cs = cs and os = os] by blast
  have "distinct next" unfolding r(1) using r(2) by (rule distinct_filter)
  moreover have "set current = set T \<and> set next = set T \<or> owner_distance T next < owner_distance T current"
  proof (cases "set T \<subseteq> set current")
    case out: False
    then have "new \<noteq> []" using r(5) by simp
    then have "owner_distance T next < owner_distance T current"
      using r(1,3,4) by (intro owner_distance_less) (auto simp: neq_Nil_conv)
    then show ?thesis ..
  next
    case sub: True
    show ?thesis
    proof (cases "set current \<subseteq> set T")
      case True
      with sub r(1,3,4) show ?thesis by auto
    next
      case stale: False
      have "rollout_min_available dep \<le> count_available_owner_hosts (dp_deploymentId dep) (dp_declaredVersion dep)
          (filter (\<lambda>c. c \<noteq> h) (current @ new)) os" if "h \<in> set current - set T" for h
        using that sub target avail unfolding T_def
        by (intro le_trans[OF target(2) count_available_ge]) auto
      then have "gone \<noteq> []" using r(6) stale by blast
      then have "owner_distance T next < owner_distance T current"
        using r(1,3,4) sub by (intro owner_distance_less) (auto simp: neq_Nil_conv)
      then show ?thesis ..
    qed
  qed
  ultimately show ?thesis ..
qed

text \<open>C10: A gradual rollout that is not for all hosts comes to its end, while nothing else changes: the deployment and
  the candidates stay the same, the target names no host twice and is at least as large as the number of owners that
  must stay available, and after every round the owners that belong to the target are observed as available. Then
  planning round after round, from any owners without repetition, reaches exactly the target, in at most as many rounds
  as there are owners to add and to remove.\<close>

theorem rollout_reaches_target:
  assumes gradual: "gradual_rollout_enabled dep" "opt_else (dp_assignmentMode dep) SelectFirstN \<noteq> AllHosts"
    and target: "distinct (select_target_owner_host_ids lc dep cs)"
      "rollout_min_available dep \<le> length (select_target_owner_host_ids lc dep cs)"
    and avail: "\<And>owners h. h \<in> set owners \<Longrightarrow> h \<in> set (select_target_owner_host_ids lc dep cs) \<Longrightarrow>
      owner_available (dp_deploymentId dep) (dp_declaredVersion dep) (observe owners) h"
    and start: "distinct current"
    and rounds: "card (set (select_target_owner_host_ids lc dep cs) - set current)
      + card (set current - set (select_target_owner_host_ids lc dep cs)) \<le> n"
  shows "set (((\<lambda>owners. plan_http_worker_deployment_owners lc dep cs (Some owners) (Some (observe owners))) ^^ n) current)
    = set (select_target_owner_host_ids lc dep cs)"
proof -
  let ?T = "select_target_owner_host_ids lc dep cs"
  let ?step = "\<lambda>owners. plan_http_worker_deployment_owners lc dep cs (Some owners) (Some (observe owners))"
  have "owner_distance ?T current \<le> n" using rounds by (simp add: owner_distance_def)
  then show ?thesis using start
  proof (induction n arbitrary: current)
    case 0
    then show ?case by (auto simp: owner_distance_def)
  next
    case (Suc n)
    have p: "distinct (?step current) \<and> (set current = set ?T \<and> set (?step current) = set ?T
        \<or> owner_distance ?T (?step current) < owner_distance ?T current)"
      using Suc.prems(2) by (intro rollout_progress[OF gradual target] avail)
    then have "owner_distance ?T (?step current) \<le> n"
      using Suc.prems(1) by (auto simp: owner_distance_def)
    with p show ?case using Suc.IH[of "?step current"] by (simp add: funpow_Suc_right del: funpow.simps)
  qed
qed


section \<open>Full hosts\<close>

text \<open>A host that is at its assignment limit is never an owner, also when the assignment it counts is
  this very deployment: reporting one assignment of one takes the deployment away from it.\<close>

theorem full_host_loses_deployment:
  assumes "\<And>c. c \<in> set cs \<Longrightarrow> cd_hostId c = hostId \<Longrightarrow>
      \<exists>m n. cd_maxHttpWorkerAssignments c = Some m \<and> cd_currentAssignmentCount c = Some n \<and> m \<le> n"
  shows "hostId \<notin> set (select_target_owner_host_ids lc dep cs)"
proof
  assume "hostId \<in> set (select_target_owner_host_ids lc dep cs)"
  then have "hostId \<in> cd_hostId ` set (rank_candidate_hosts lc dep cs)"
    unfolding target_as_take by (auto dest: in_set_takeD)
  then obtain c where "c \<in> set cs" "is_candidate_eligible dep c" "cd_hostId c = hostId"
    by (auto simp: rank_candidate_hosts_def)
  with assms[of c] show False by (auto simp: is_candidate_eligible_def split: if_splits)
qed

section \<open>An example\<close>

definition example_plan :: deployment_plan where
  "example_plan = \<lparr>dp_deploymentId = ''web'', dp_deploymentKind = None, dp_groupId = None, dp_declaredArtifactId = None,
     dp_declaredVersion = ''v2'', dp_manifestId = ''m'', dp_replicas = Some (Fin 2), dp_assignmentMode = None,
     dp_sourceUri = ''file'', dp_sourceDigest = None, dp_upstreamBaseUrl = None, dp_workerName = ''w'',
     dp_workerEntry = ''w.ts'', dp_routeId = ''r'', dp_routePathPrefix = ''/p'', dp_routeScope = Some PerHost,
     dp_packageManagerKind = None, dp_packageJson = None, dp_bunfigToml = None, dp_bunLock = None, dp_denoJson = None,
     dp_denoLock = None, dp_frozenLock = None, dp_metadataAnnotations = None, dp_deployment = None,
     dp_stickyHostIds = Some [''c''], dp_ownerHostIds = None, dp_scheduling = None,
     dp_rollout = Some \<lparr>ro_gradual = True, ro_maxUnavailable = None, ro_batchSize = None\<rparr>\<rparr>"

definition example_observed :: "string \<Rightarrow> observed_host_state" where
  "example_observed h = \<lparr>oh_hostId = h, oh_observedAt = 0, oh_ready = True, oh_draining = False, oh_staticLabels = [],
     oh_staticCapabilities = [], oh_staticCapacity = \<lparr>hc_maxHttpWorkerAssignments = None,
       hc_maxServiceModuleAssignments = None, hc_maxConnections = None, hc_maxInflightRequests = None\<rparr>,
     oh_dynamicState = \<lparr>ds_currentAssignmentCount = 0, ds_currentConnectionCount = None,
       ds_currentInflightRequests = None, ds_schedulable = None, ds_appliedTopology = None, ds_resourceHints = None, ds_runtimeSummary = None, ds_dynamicFields = None\<rparr>,
     oh_assignmentStatuses = [\<lparr>at_assignmentId = ''assign:'' @ h @ '':web'', at_deploymentId = ''web'',
       at_declaredVersion = ''v2'', at_generationId = None, at_state = StActive, at_preparedAt = None,
       at_activatedAt = None, at_failedAt = None, at_lastError = None\<rparr>]\<rparr>"


definition example_candidate :: "string \<Rightarrow> int \<Rightarrow> candidate_host" where
  "example_candidate h n = (default_candidate h)\<lparr>cd_maxHttpWorkerAssignments := Some 1, cd_currentAssignmentCount := Some n\<rparr>"

definition example_candidates :: "candidate_host list" where
  "example_candidates = [example_candidate ''d'' 0, example_candidate ''c'' 0, example_candidate ''b'' 1, example_candidate ''a'' 0]"

lemma example_target: "select_target_owner_host_ids code_unit_compare example_plan example_candidates = [''c'', ''a'']"
  by code_simp

lemma example_gradual:
  "gradual_rollout_enabled example_plan" "opt_else (dp_assignmentMode example_plan) SelectFirstN \<noteq> AllHosts"
  "rollout_min_available example_plan = 2" "rollout_batch_size example_plan = 1"
  by code_simp+

text \<open>A report by every owner that it runs the deployment.\<close>

lemma example_available:
  "h \<in> set owners \<Longrightarrow> owner_available ''web'' ''v2'' (map example_observed owners) h"
proof -
  assume h: "h \<in> set owners"
  have o: "oh_hostId (example_observed x) = x" for x by (simp add: example_observed_def)
  have "h \<in> fst ` set (rev (map (\<lambda>x. (oh_hostId x, x)) (map example_observed owners)))"
    using h by (simp add: image_image o)
  then have "map_of (index_observed (map example_observed owners)) h \<noteq> None"
    unfolding index_observed_def map_of_map_from map_of_eq_None_iff by blast
  then obtain v where v: "map_of (index_observed (map example_observed owners)) h = Some v" by blast
  then have "v \<in> set (map example_observed owners)"
    unfolding index_observed_def by (rule conjunct1[OF map_from_index])
  with v show ?thesis by (auto simp: owner_available_def example_observed_def)
qed

theorem target_owners_best_witness:
  "\<exists>chosen rest. mset chosen + mset rest = mset (filter (is_candidate_eligible example_plan) example_candidates)
     \<and> [''c'', ''a''] = map cd_hostId chosen"
  using target_owners_best[OF code_unit.comparator_axioms, of example_plan example_candidates]
  by (auto simp: example_target)

theorem rollout_round_safe_witness:
  "let next = plan_http_worker_deployment_owners code_unit_compare example_plan example_candidates
         (Some [''x'', ''y'']) (Some [example_observed ''y''])
   in distinct next \<and> card (set next - set [''x'', ''y'']) \<le> 1"
  using rollout_round_safe[OF example_gradual(1,2), of "[''x'', ''y'']" code_unit_compare example_candidates "[example_observed ''y'']"]
  by (simp add: Let_def example_gradual)

theorem rollout_reaches_target_witness:
  "set (((\<lambda>owners. plan_http_worker_deployment_owners code_unit_compare example_plan example_candidates
       (Some owners) (Some (map example_observed owners))) ^^ 4) [''x'', ''y'']) = {''c'', ''a''}"
proof -
  have ids: "dp_deploymentId example_plan = ''web''" "dp_declaredVersion example_plan = ''v2''"
    by (simp_all add: example_plan_def)
  show ?thesis
    using rollout_reaches_target[OF example_gradual(1,2), of code_unit_compare example_candidates "map example_observed" "[''x'', ''y'']" 4]
    by (simp add: example_target example_gradual ids example_available)
qed

theorem full_host_loses_deployment_witness:
  "''b'' \<notin> set (select_target_owner_host_ids code_unit_compare example_plan example_candidates)"
  by (rule full_host_loses_deployment) (auto simp: example_candidates_def example_candidate_def default_candidate_def)

end
