(* ===== verification/Placement_Props.thy ===== *)
theory Placement_Props
  imports Planning_Props
begin

text \<open>The placement snapshot lists exactly the owners the desired states name, per deployment and per
  route; and the desired states the planner projects name exactly its owners.\<close>

section \<open>What the desired states name\<close>

definition owners_of :: "string \<Rightarrow> desired_host_state list \<Rightarrow> string set" where
  "owners_of i ds = {dh_hostId d | d. d \<in> set ds \<and> (\<exists>a\<in>set (dh_assignments d). as_deploymentId a = i)}"

definition route_owners :: "string \<Rightarrow> string \<Rightarrow> desired_host_state list \<Rightarrow> string set" where
  "route_owners i r ds = {dh_hostId d | d. d \<in> set ds \<and> map_has (index_routes d) r
     \<and> (\<exists>a\<in>set (dh_assignments d). as_deploymentId a = i \<and> r \<in> set (placement_route_refs a))}"

lemma owners_of_Nil [simp]: "owners_of i [] = {}"
  by (simp add: owners_of_def)

lemma owners_of_snoc [simp]: "owners_of i (ds @ [d]) = owners_of i ds
    \<union> (if \<exists>a\<in>set (dh_assignments d). as_deploymentId a = i then {dh_hostId d} else {})"
  by (auto simp: owners_of_def)

lemma route_owners_Nil [simp]: "route_owners i r [] = {}"
  by (simp add: route_owners_def)

lemma route_owners_snoc [simp]: "route_owners i r (ds @ [d]) = route_owners i r ds
    \<union> (if map_has (index_routes d) r \<and> (\<exists>a\<in>set (dh_assignments d). as_deploymentId a = i \<and> r \<in> set (placement_route_refs a))
       then {dh_hostId d} else {})"
  by (auto simp: route_owners_def)

section \<open>What an entry holds\<close>

lemma set_add_set [simp]: "set (set_add x xs) = insert x (set xs)"
  by (auto simp: set_add_def)

lemma distinct_set_add [simp]: "distinct (set_add x xs) = distinct xs"
  by (auto simp: set_add_def)

definition entry_routes :: "deployment_entry \<Rightarrow> string \<Rightarrow> string set" where
  "entry_routes e r = (case map_of (de_routesById e) r of None \<Rightarrow> {} | Some v \<Rightarrow> set (pr_ownerHostIds v))"

definition routes_ok :: "deployment_entry \<Rightarrow> bool" where
  "routes_ok e \<longleftrightarrow> wf_map (de_routesById e) \<and> (\<forall>r v. map_of (de_routesById e) r = Some v \<longrightarrow>
     pr_routeId v = r \<and> distinct (pr_ownerHostIds v) \<and> pr_ownerHostIds v \<noteq> [])"

definition entry_ok :: "string \<Rightarrow> deployment_entry \<Rightarrow> bool" where
  "entry_ok i e \<longleftrightarrow> de_deploymentId e = i \<and> distinct (de_ownerHostIds e) \<and> de_ownerHostIds e \<noteq> [] \<and> routes_ok e"

definition owners_in :: "(string, deployment_entry) js_map \<Rightarrow> string \<Rightarrow> string set" where
  "owners_in m i = (case map_of m i of None \<Rightarrow> {} | Some e \<Rightarrow> set (de_ownerHostIds e))"

definition routes_in :: "(string, deployment_entry) js_map \<Rightarrow> string \<Rightarrow> string \<Rightarrow> string set" where
  "routes_in m i r = (case map_of m i of None \<Rightarrow> {} | Some e \<Rightarrow> entry_routes e r)"

definition deployments_ok :: "(string, deployment_entry) js_map \<Rightarrow> bool" where
  "deployments_ok m \<longleftrightarrow> wf_map m \<and> (\<forall>i e. map_of m i = Some e \<longrightarrow> entry_ok i e)"

section \<open>A route, an assignment, a host\<close>

lemma add_route_keeps [simp]:
  "de_deploymentId (add_route h R e r) = de_deploymentId e" "de_ownerHostIds (add_route h R e r) = de_ownerHostIds e"
  by (simp_all add: add_route_def Let_def split: option.split)

lemma set_add_not_Nil [simp]: "set_add x xs \<noteq> []"
  by (auto simp: set_add_def)

lemma add_route_ok: "routes_ok e \<Longrightarrow> routes_ok (add_route h R e r)"
  by (auto simp: routes_ok_def add_route_def Let_def opt_else_def split: option.split if_splits)

lemma add_route_routes:
  "entry_routes (add_route h R e r') r = entry_routes e r \<union> (if r = r' \<and> map_has R r then {h} else {})"
  by (auto simp: entry_routes_def add_route_def Let_def opt_else_def split: option.split)

lemma add_routes:
  "de_deploymentId (foldl (add_route h R) e rs) = de_deploymentId e"
  "de_ownerHostIds (foldl (add_route h R) e rs) = de_ownerHostIds e"
  "routes_ok e \<Longrightarrow> routes_ok (foldl (add_route h R) e rs)"
  "entry_routes (foldl (add_route h R) e rs) r = entry_routes e r \<union> (if r \<in> set rs \<and> map_has R r then {h} else {})"
  by (induction rs arbitrary: e) (auto simp: add_route_ok add_route_routes)

definition entry_for :: "(string, deployment_entry) js_map \<Rightarrow> assignment \<Rightarrow> deployment_entry" where
  "entry_for m a = opt_else (map_of m (as_deploymentId a))
     \<lparr>de_deploymentId = as_deploymentId a, de_deploymentKind = as_deploymentKind a,
      de_groupId = as_groupId a, de_ownerHostIds = [], de_routesById = []\<rparr>"

lemma place_assignment_alt:
  "place_assignment h R m a = map_set (as_deploymentId a) (foldl (add_route h R)
     ((entry_for m a)\<lparr>de_ownerHostIds := set_add h (de_ownerHostIds (entry_for m a))\<rparr>) (placement_route_refs a)) m"
  by (simp add: place_assignment_def entry_for_def Let_def)

lemma entry_for_facts:
  assumes "deployments_ok m"
  shows "de_deploymentId (entry_for m a) = as_deploymentId a" "distinct (de_ownerHostIds (entry_for m a))"
    "routes_ok (entry_for m a)" "set (de_ownerHostIds (entry_for m a)) = owners_in m (as_deploymentId a)"
    "entry_routes (entry_for m a) r = routes_in m (as_deploymentId a) r"
  using assms
  by (auto simp: deployments_ok_def entry_ok_def entry_for_def owners_in_def routes_in_def routes_ok_def entry_routes_def
      opt_else_def split: option.split)

lemma routes_ok_owners [simp]: "routes_ok (e\<lparr>de_ownerHostIds := os\<rparr>) = routes_ok e"
  and entry_routes_owners [simp]: "entry_routes (e\<lparr>de_ownerHostIds := os\<rparr>) r = entry_routes e r"
  by (simp_all add: routes_ok_def entry_routes_def)

lemma place_assignment_step:
  assumes ok: "deployments_ok m"
  shows "deployments_ok (place_assignment h R m a)"
    "owners_in (place_assignment h R m a) i = owners_in m i \<union> (if i = as_deploymentId a then {h} else {})"
    "routes_in (place_assignment h R m a) i r = routes_in m i r
       \<union> (if i = as_deploymentId a \<and> r \<in> set (placement_route_refs a) \<and> map_has R r then {h} else {})"
proof -
  note f = entry_for_facts[OF ok, of a]
  show "deployments_ok (place_assignment h R m a)"
    using ok f by (auto simp: place_assignment_alt deployments_ok_def entry_ok_def add_routes split: if_splits)
  show "owners_in (place_assignment h R m a) i = owners_in m i \<union> (if i = as_deploymentId a then {h} else {})"
    by (auto simp: place_assignment_alt owners_in_def add_routes f(4)[unfolded owners_in_def])
  show "routes_in (place_assignment h R m a) i r = routes_in m i r
       \<union> (if i = as_deploymentId a \<and> r \<in> set (placement_route_refs a) \<and> map_has R r then {h} else {})"
    by (auto simp: place_assignment_alt routes_in_def add_routes f(5)[unfolded routes_in_def])
qed

lemma place_assignments_step:
  assumes "deployments_ok m"
  shows "deployments_ok (foldl (place_assignment h R) m as)
    \<and> owners_in (foldl (place_assignment h R) m as) i = owners_in m i \<union> (if \<exists>a\<in>set as. as_deploymentId a = i then {h} else {})
    \<and> routes_in (foldl (place_assignment h R) m as) i r = routes_in m i r
       \<union> (if map_has R r \<and> (\<exists>a\<in>set as. as_deploymentId a = i \<and> r \<in> set (placement_route_refs a)) then {h} else {})"
  using assms
proof (induction as arbitrary: m)
  case (Cons a as)
  show ?case
    using Cons.IH[OF place_assignment_step(1)[OF Cons.prems, of h R a]] place_assignment_step(2,3)[OF Cons.prems, of h R a]
    by auto
qed simp

lemma place_host_step:
  assumes "deployments_ok m"
  shows "deployments_ok (place_host m d)
    \<and> owners_in (place_host m d) i = owners_in m i
        \<union> (if \<exists>a\<in>set (dh_assignments d). as_deploymentId a = i then {dh_hostId d} else {})
    \<and> routes_in (place_host m d) i r = routes_in m i r
        \<union> (if map_has (index_routes d) r \<and> (\<exists>a\<in>set (dh_assignments d). as_deploymentId a = i \<and> r \<in> set (placement_route_refs a))
           then {dh_hostId d} else {})"
  unfolding place_host_def by (rule place_assignments_step[OF assms])

lemma place_hosts:
  "deployments_ok (foldl place_host [] ds) \<and> (\<forall>i r. owners_in (foldl place_host [] ds) i = owners_of i ds
   \<and> routes_in (foldl place_host [] ds) i r = route_owners i r ds)"
proof (induction ds rule: rev_induct)
  case (snoc d ds)
  then have ok: "deployments_ok (foldl place_host [] ds)" by blast
  show ?case
    using snoc place_host_step[OF ok, of d] by simp
qed (simp add: deployments_ok_def owners_in_def routes_in_def)

section \<open>The snapshot\<close>

lemma placement_entries:
  "p \<in> set (ps_deployments (build_placement_snapshot lc now rv g ds)) \<longleftrightarrow>
     (\<exists>i e. map_of (foldl place_host [] ds) i = Some e \<and> p = placement_of_entry lc e)"
proof -
  have "wf_map (foldl place_host [] ds)" using place_hosts[of ds] by (simp add: deployments_ok_def)
  then have "(\<exists>i e. map_of (foldl place_host [] ds) i = Some e \<and> p = placement_of_entry lc e)
    \<longleftrightarrow> p \<in> placement_of_entry lc ` snd ` set (foldl place_host [] ds)"
    by (force simp: map_of_wf_iff)
  then show ?thesis by (simp add: build_placement_snapshot_def image_image)
qed

lemma placement_distinct: "distinct (map pd_deploymentId (ps_deployments (build_placement_snapshot lc now rv g ds)))"
proof -
  let ?m = "foldl place_host [] ds"
  have ok: "deployments_ok ?m" using place_hosts[of ds] by blast
  have eq: "map (\<lambda>x. pd_deploymentId (placement_of_entry lc (snd x))) ?m = map fst ?m"
    using ok by (auto simp: deployments_ok_def entry_ok_def placement_of_entry_def map_of_wf_iff)
  then have "distinct (map pd_deploymentId (map (placement_of_entry lc) (map snd ?m)))"
    unfolding map_map comp_def eq using ok by (simp add: deployments_ok_def wf_map_def)
  moreover have "mset (ps_deployments (build_placement_snapshot lc now rv g ds)) = mset (map (placement_of_entry lc) (map snd ?m))"
    by (simp add: build_placement_snapshot_def)
  ultimately show ?thesis by (metis mset_map mset_eq_imp_distinct_iff)
qed

definition route_of_entry :: "(string \<Rightarrow> string \<Rightarrow> int) \<Rightarrow> placement_route \<Rightarrow> placement_route" where
  "route_of_entry lc r = r\<lparr>pr_ownerHostIds := js_sort lc (pr_ownerHostIds r)\<rparr>"

lemma placement_of_entry_simps [simp]:
  "pd_deploymentId (placement_of_entry lc e) = de_deploymentId e"
  "pd_ownerHostIds (placement_of_entry lc e) = js_sort lc (de_ownerHostIds e)"
  "set (pd_routes (placement_of_entry lc e)) = route_of_entry lc ` snd ` set (de_routesById e)"
  by (simp_all add: placement_of_entry_def route_of_entry_def image_image)

text \<open>The snapshot, one deployment at a time.\<close>

lemma placement_deployment:
  assumes "p \<in> set (ps_deployments (build_placement_snapshot lc now rv g ds))"
  shows "distinct (pd_ownerHostIds p) \<and> set (pd_ownerHostIds p) = owners_of (pd_deploymentId p) ds \<and> pd_ownerHostIds p \<noteq> []"
    "r \<in> set (pd_routes p) \<Longrightarrow> distinct (pr_ownerHostIds r) \<and> pr_ownerHostIds r \<noteq> []
      \<and> set (pr_ownerHostIds r) = route_owners (pd_deploymentId p) (pr_routeId r) ds"
    "route_owners (pd_deploymentId p) i ds \<noteq> {} \<Longrightarrow> \<exists>r\<in>set (pd_routes p). pr_routeId r = i"
proof -
  let ?m = "foldl place_host [] ds"
  obtain i e where e: "map_of ?m i = Some e" "p = placement_of_entry lc e"
    using assms by (auto simp: placement_entries)
  have ok: "entry_ok i e" and own: "owners_in ?m i = owners_of i ds" and rt: "\<And>r. routes_in ?m i r = route_owners i r ds"
    using place_hosts[of ds] e(1) by (auto simp: deployments_ok_def)
  then have i: "pd_deploymentId p = i" by (simp add: e(2) entry_ok_def)
  show "distinct (pd_ownerHostIds p) \<and> set (pd_ownerHostIds p) = owners_of (pd_deploymentId p) ds \<and> pd_ownerHostIds p \<noteq> []"
    using ok own e(1) unfolding i by (auto simp: e(2) entry_ok_def owners_in_def)
  have wf: "wf_map (de_routesById e)" using ok by (simp add: entry_ok_def routes_ok_def)
  show "distinct (pr_ownerHostIds r) \<and> pr_ownerHostIds r \<noteq> []
      \<and> set (pr_ownerHostIds r) = route_owners (pd_deploymentId p) (pr_routeId r) ds" if r: "r \<in> set (pd_routes p)"
  proof -
    obtain k v where v: "map_of (de_routesById e) k = Some v" "r = route_of_entry lc v"
      using r wf by (auto simp: e(2) map_of_wf_iff)
    have "pr_routeId v = k" "distinct (pr_ownerHostIds v)" "pr_ownerHostIds v \<noteq> []"
      using ok v(1) by (auto simp: entry_ok_def routes_ok_def)
    moreover have "set (pr_ownerHostIds v) = route_owners i k ds"
      using rt[of k] e(1) v(1) by (simp add: routes_in_def entry_routes_def)
    ultimately show ?thesis unfolding i by (simp add: v(2) route_of_entry_def)
  qed
  show "\<exists>r\<in>set (pd_routes p). pr_routeId r = k" if "route_owners (pd_deploymentId p) k ds \<noteq> {}" for k
  proof -
    have "routes_in ?m i k \<noteq> {}" using that rt[of k] unfolding i by simp
    then obtain v where v: "map_of (de_routesById e) k = Some v"
      using e(1) by (auto simp: routes_in_def entry_routes_def split: option.splits)
    then have "(k, v) \<in> set (de_routesById e)" "pr_routeId v = k"
      using ok wf by (auto simp: entry_ok_def routes_ok_def map_of_SomeD)
    then show ?thesis by (force simp: e(2) route_of_entry_def)
  qed
qed

lemma placement_listed:
  "(\<exists>p\<in>set (ps_deployments (build_placement_snapshot lc now rv g ds)). pd_deploymentId p = i) \<longleftrightarrow> owners_of i ds \<noteq> {}"
proof
  assume "owners_of i ds \<noteq> {}"
  then have "owners_in (foldl place_host [] ds) i \<noteq> {}" using place_hosts[of ds] by simp
  then obtain e where "map_of (foldl place_host [] ds) i = Some e"
    by (auto simp: owners_in_def split: option.splits)
  moreover from this have "de_deploymentId e = i" using place_hosts[of ds] by (auto simp: deployments_ok_def entry_ok_def)
  ultimately show "\<exists>p\<in>set (ps_deployments (build_placement_snapshot lc now rv g ds)). pd_deploymentId p = i"
    unfolding placement_entries Bex_def by (metis placement_of_entry_simps(1))
next
  assume "\<exists>p\<in>set (ps_deployments (build_placement_snapshot lc now rv g ds)). pd_deploymentId p = i"
  then obtain p where p: "p \<in> set (ps_deployments (build_placement_snapshot lc now rv g ds))" "pd_deploymentId p = i" by blast
  show "owners_of i ds \<noteq> {}" using placement_deployment(1)[OF p(1)] p(2) by auto
qed

text \<open>C15: The placement snapshot is exact: it lists a deployment once, and exactly when some desired state
  assigns it; its owners are exactly the hosts whose desired state assigns it, each once; and each of
  its routes is owned by exactly the hosts whose desired state both assigns the deployment with
  that route and configures the route.\<close>

theorem placement_snapshot_exact:
  "let ps = ps_deployments (build_placement_snapshot lc now revision generatedAt ds)
   in distinct (map pd_deploymentId ps)
    \<and> (\<forall>i. (\<exists>p\<in>set ps. pd_deploymentId p = i) \<longleftrightarrow> owners_of i ds \<noteq> {})
    \<and> (\<forall>p\<in>set ps. distinct (pd_ownerHostIds p) \<and> set (pd_ownerHostIds p) = owners_of (pd_deploymentId p) ds
        \<and> (\<forall>r\<in>set (pd_routes p). distinct (pr_ownerHostIds r)
             \<and> set (pr_ownerHostIds r) = route_owners (pd_deploymentId p) (pr_routeId r) ds)
        \<and> (\<forall>i. route_owners (pd_deploymentId p) i ds \<noteq> {} \<longrightarrow> (\<exists>r\<in>set (pd_routes p). pr_routeId r = i)))"
  unfolding Let_def using placement_distinct placement_listed placement_deployment by simp

end
