(* ===== verification/Topology.thy ===== *)
theory Topology
  imports Admin_Types Cluster_Health "HOL-Library.Word"
begin

text \<open>The topology store of a gateway (src/src/runtime/control/topology-store.ts, class
  RuntimeTopologyStore): the desired topology it was last given, the health of its peers, the
  peers it should connect to, and the host an HTTP request for a path is routed to.

  \<open>localeCompare\<close> depends on the host's collation: it is the argument \<open>lc\<close>, of which the
  lemmas assume the comparator laws where they need them. Characters are code units below 256.\<close>

record cluster_peer =
  cp_nodeId :: string
  cp_baseUrl :: string

record route_target =
  rt_hostId :: string
  rt_nodeId :: "string option"
  rt_baseUrl :: string
  rt_pathPrefix :: string
  rt_routeId :: string

record topology_store =
  ts_topology :: "desired_topology option"
  ts_listeners :: "nat list"
  ts_peerHealth :: "(string, health_status) js_map"
  ts_notified :: "(nat \<times> desired_topology option) list"

section \<open>State\<close>

definition set_topology :: "desired_topology option \<Rightarrow> topology_store \<Rightarrow> topology_store" where
  "set_topology t s = s\<lparr>ts_topology := t, ts_notified := ts_notified s @ map (\<lambda>l. (l, t)) (ts_listeners s)\<rparr>"

definition subscribe_topology :: "nat \<Rightarrow> topology_store \<Rightarrow> topology_store" where
  "subscribe_topology l s = (if l \<in> set (ts_listeners s) then s else s\<lparr>ts_listeners := ts_listeners s @ [l]\<rparr>)"

definition unsubscribe_topology :: "nat \<Rightarrow> topology_store \<Rightarrow> topology_store" where
  "unsubscribe_topology l s = s\<lparr>ts_listeners := removeAll l (ts_listeners s)\<rparr>"

definition set_runtime_peer_health :: "string \<Rightarrow> health_status \<Rightarrow> topology_store \<Rightarrow> topology_store" where
  "set_runtime_peer_health n st s = s\<lparr>ts_peerHealth := map_set n st (ts_peerHealth s)\<rparr>"

definition clear_runtime_peer_health :: "string list \<Rightarrow> topology_store \<Rightarrow> topology_store" where
  "clear_runtime_peer_health ids s = s\<lparr>ts_peerHealth := filter (\<lambda>e. fst e \<in> set ids) (ts_peerHealth s)\<rparr>"

definition topology_hosts :: "topology_store \<Rightarrow> membership_host list" where
  "topology_hosts s = (case ts_topology s of None \<Rightarrow> [] | Some t \<Rightarrow> ms_hosts (dt_membership t))"

definition topology_deployments :: "topology_store \<Rightarrow> placement_deployment list" where
  "topology_deployments s = (case ts_topology s of None \<Rightarrow> [] | Some t \<Rightarrow> ps_deployments (dt_placement t))"

definition peer_status :: "topology_store \<Rightarrow> string option \<Rightarrow> health_status" where
  "peer_status s nodeId = (if \<not> truthy nodeId then Unknown else
     case map_of (ts_peerHealth s) (the nodeId) of None \<Rightarrow> Unknown | Some st \<Rightarrow> st)"

section \<open>Cluster peers\<close>

definition host_base_url :: "membership_host \<Rightarrow> string option" where
  "host_base_url h = or_else (mh_internalBaseUrl h) (mh_publicBaseUrl h)"

definition build_cluster_peers ::
  "(string \<Rightarrow> string \<Rightarrow> int) \<Rightarrow> topology_store \<Rightarrow> string option \<Rightarrow> string list option \<Rightarrow> cluster_peer list" where
  "build_cluster_peers lc s selfNodeId allowedHostIds =
    (let peers = foldl (\<lambda>m h.
        if \<not> truthy (mh_nodeId h) \<or> mh_state h = HostOffline \<or> mh_nodeId h = selfNodeId then m
        else if (case allowedHostIds of None \<Rightarrow> False | Some ids \<Rightarrow> mh_hostId h \<notin> set ids) then m
        else if \<not> truthy (host_base_url h) then m
        else map_set (the (mh_nodeId h))
               \<lparr>cp_nodeId = the (mh_nodeId h), cp_baseUrl = the (host_base_url h)\<rparr> m) [] (topology_hosts s)
     in js_sort (\<lambda>l r. lc (cp_nodeId l) (cp_nodeId r)) (map snd peers))"

definition resolve_allowed_host_ids_for_group :: "topology_store \<Rightarrow> string option \<Rightarrow> string list option" where
  "resolve_allowed_host_ids_for_group s groupId =
    (let hosts = topology_hosts s in
     if hosts = [] then None
     else Some (js_unique (map mh_hostId (filter (\<lambda>h. mh_groupId h = groupId) hosts))))"

definition list_cluster_peers :: "(string \<Rightarrow> string \<Rightarrow> int) \<Rightarrow> topology_store \<Rightarrow> string option \<Rightarrow> cluster_peer list" where
  "list_cluster_peers lc s selfNodeId = build_cluster_peers lc s selfNodeId None"

definition list_cluster_peer_node_ids ::
  "(string \<Rightarrow> string \<Rightarrow> int) \<Rightarrow> topology_store \<Rightarrow> string option \<Rightarrow> string option option \<Rightarrow> string list option" where
  "list_cluster_peer_node_ids lc s selfNodeId scope =
    (let allowed = (case scope of None \<Rightarrow> None | Some g \<Rightarrow> resolve_allowed_host_ids_for_group s g);
         peers = build_cluster_peers lc s selfNodeId allowed;
         effective = filter (\<lambda>p. peer_status s (Some (cp_nodeId p)) \<noteq> Dead) peers
     in if peers \<noteq> [] then Some (map cp_nodeId effective)
        else (case allowed of None \<Rightarrow> None | Some _ \<Rightarrow> Some []))"

definition list_ingress_group_required_protocol_packages ::
  "(string \<Rightarrow> string \<Rightarrow> int) \<Rightarrow> topology_store \<Rightarrow> string option \<Rightarrow> protocol_package_ref list" where
  "list_ingress_group_required_protocol_packages lc s groupId =
    (let reqs = (case ts_topology s of None \<Rightarrow> []
           | Some t \<Rightarrow> (case ps_ingressGroupRequirements (dt_placement t) of None \<Rightarrow> [] | Some rs \<Rightarrow> rs));
         requirement = find (\<lambda>e. ir_groupId e = groupId) reqs
     in js_sort (\<lambda>l r. lc (pp_packageId l) (pp_packageId r))
          (case requirement of None \<Rightarrow> [] | Some r \<Rightarrow> ir_requiredProtocolPackages r))"

section \<open>HTTP routing\<close>

definition find_best_route :: "topology_store \<Rightarrow> string \<Rightarrow> placement_route option" where
  "find_best_route s pathname =
     foldl (\<lambda>best deployment.
       foldl (\<lambda>best route.
         if \<not> prefix (pr_pathPrefix route) pathname then best
         else (case best of
             None \<Rightarrow> Some route
           | Some b \<Rightarrow> if length (pr_pathPrefix route) > length (pr_pathPrefix b) then Some route else best))
         best (pd_routes deployment))
       None (topology_deployments s)"

text \<open>A candidate: the target and its host.\<close>

definition build_route_targets ::
  "string list \<Rightarrow> string \<Rightarrow> string \<Rightarrow> (string, membership_host) js_map \<Rightarrow> (route_target \<times> membership_host) list" where
  "build_route_targets ownerHostIds pathPrefix routeId hostsById =
     concat (map (\<lambda>hostId. case map_of hostsById hostId of
         None \<Rightarrow> []
       | Some h \<Rightarrow> if \<not> truthy (host_base_url h) then []
           else [(\<lparr>rt_hostId = hostId, rt_nodeId = mh_nodeId h, rt_baseUrl = the (host_base_url h),
                   rt_pathPrefix = pathPrefix, rt_routeId = routeId\<rparr>, h)]) ownerHostIds)"

definition stable_hash :: "string \<Rightarrow> nat" where
  "stable_hash value = foldl (\<lambda>hash c. (hash * 31 + of_char c) mod 2 ^ 32) 0 value"

definition pick_target ::
  "(string \<Rightarrow> string \<Rightarrow> int) \<Rightarrow> (route_target \<times> membership_host) list \<Rightarrow> string option \<Rightarrow> route_target" where
  "pick_target lc targets traceKey =
    (let sorted = js_sort (\<lambda>l r. lc (rt_hostId (fst l)) (rt_hostId (fst r))) targets;
         index = (if length sorted = 1 then 0
           else stable_hash (case traceKey of Some k \<Rightarrow> k
                  | None \<Rightarrow> rt_routeId (fst (sorted ! 0)) @ '':'' @ nat_str (length sorted)) mod length sorted)
     in fst (if index < length sorted then sorted ! index else sorted ! 0))"

definition resolve_http_route_target ::
  "(string \<Rightarrow> string \<Rightarrow> int) \<Rightarrow> topology_store \<Rightarrow> string \<Rightarrow> string option \<Rightarrow> string option \<Rightarrow> route_target option" where
  "resolve_http_route_target lc s pathname selfNodeId traceKey =
    (case find_best_route s pathname of
       None \<Rightarrow> None
     | Some route \<Rightarrow>
        (let hostsById = map_from (map (\<lambda>h. (mh_hostId h, h)) (topology_hosts s));
             routeTargets = filter (\<lambda>t. peer_status s (rt_nodeId (fst t)) \<noteq> Dead)
               (filter (\<lambda>t. rt_nodeId (fst t) \<noteq> selfNodeId)
                 (build_route_targets (pr_ownerHostIds route) (pr_pathPrefix route) (pr_routeId route) hostsById));
             readyTargets = filter (\<lambda>t. peer_status s (rt_nodeId (fst t)) \<noteq> Suspect)
               (filter (\<lambda>t. mh_state (snd t) = HostReady) routeTargets);
             suspectReadyTargets = filter (\<lambda>t. peer_status s (rt_nodeId (fst t)) = Suspect)
               (filter (\<lambda>t. mh_state (snd t) = HostReady) routeTargets);
             drainingTargets = filter (\<lambda>t. peer_status s (rt_nodeId (fst t)) \<noteq> Suspect)
               (filter (\<lambda>t. mh_state (snd t) = HostDraining)
                 (filter (\<lambda>t. rt_nodeId (fst t) \<noteq> selfNodeId) routeTargets));
             suspectDrainingTargets = filter (\<lambda>t. peer_status s (rt_nodeId (fst t)) = Suspect)
               (filter (\<lambda>t. mh_state (snd t) = HostDraining) routeTargets)
         in if readyTargets \<noteq> [] then Some (pick_target lc readyTargets traceKey)
            else if suspectReadyTargets \<noteq> [] then Some (pick_target lc suspectReadyTargets traceKey)
            else if drainingTargets \<noteq> [] then Some (pick_target lc drainingTargets traceKey)
            else if suspectDrainingTargets \<noteq> [] then Some (pick_target lc suspectDrainingTargets traceKey)
            else None))"

section \<open>Lemmas on routes\<close>

definition better_route :: "string \<Rightarrow> placement_route option \<Rightarrow> placement_route \<Rightarrow> placement_route option" where
  "better_route pathname best route =
    (if \<not> prefix (pr_pathPrefix route) pathname then best
     else (case best of
         None \<Rightarrow> Some route
       | Some b \<Rightarrow> if length (pr_pathPrefix route) > length (pr_pathPrefix b) then Some route else best))"

lemma foldl_nested: "foldl (\<lambda>b d. foldl f b (g d)) b ds = foldl f b (concat (map g ds))"
  by (induction ds arbitrary: b) simp_all

lemma find_best_route_flat:
  "find_best_route s p = foldl (better_route p) None (concat (map pd_routes (topology_deployments s)))"
  by (simp add: find_best_route_def foldl_nested better_route_def[abs_def])

text \<open>\<open>b\<close> is the first of the longest routes of \<open>rs\<close> that match \<open>p\<close>.\<close>

definition first_longest :: "string \<Rightarrow> placement_route list \<Rightarrow> placement_route \<Rightarrow> bool" where
  "first_longest p rs b \<longleftrightarrow> (\<exists>pre post. rs = pre @ b # post \<and> prefix (pr_pathPrefix b) p
       \<and> (\<forall>r\<in>set pre. prefix (pr_pathPrefix r) p \<longrightarrow> length (pr_pathPrefix r) < length (pr_pathPrefix b))
       \<and> (\<forall>r\<in>set post. prefix (pr_pathPrefix r) p \<longrightarrow> length (pr_pathPrefix r) \<le> length (pr_pathPrefix b)))"

lemma first_longest_new:
  "prefix (pr_pathPrefix r) p \<Longrightarrow>
   (\<And>x. x \<in> set rs \<Longrightarrow> prefix (pr_pathPrefix x) p \<Longrightarrow> length (pr_pathPrefix x) < length (pr_pathPrefix r)) \<Longrightarrow>
   first_longest p (rs @ [r]) r"
  unfolding first_longest_def by (rule exI[of _ rs], rule exI[of _ "[]"]) auto

lemma first_longest_keep:
  assumes "first_longest p rs b" "prefix (pr_pathPrefix r) p \<Longrightarrow> length (pr_pathPrefix r) \<le> length (pr_pathPrefix b)"
  shows "first_longest p (rs @ [r]) b"
proof -
  obtain pre post where "rs = pre @ b # post" "prefix (pr_pathPrefix b) p"
    "\<forall>r\<in>set pre. prefix (pr_pathPrefix r) p \<longrightarrow> length (pr_pathPrefix r) < length (pr_pathPrefix b)"
    "\<forall>r\<in>set post. prefix (pr_pathPrefix r) p \<longrightarrow> length (pr_pathPrefix r) \<le> length (pr_pathPrefix b)"
    using assms(1) unfolding first_longest_def by blast
  then have "rs @ [r] = pre @ b # (post @ [r]) \<and> prefix (pr_pathPrefix b) p
       \<and> (\<forall>x\<in>set pre. prefix (pr_pathPrefix x) p \<longrightarrow> length (pr_pathPrefix x) < length (pr_pathPrefix b))
       \<and> (\<forall>x\<in>set (post @ [r]). prefix (pr_pathPrefix x) p \<longrightarrow> length (pr_pathPrefix x) \<le> length (pr_pathPrefix b))"
    using assms(2) by simp
  then show ?thesis unfolding first_longest_def by blast
qed

lemma first_longest_bound:
  "first_longest p rs b \<Longrightarrow> x \<in> set rs \<Longrightarrow> prefix (pr_pathPrefix x) p \<Longrightarrow> length (pr_pathPrefix x) \<le> length (pr_pathPrefix b)"
  by (force simp: first_longest_def)

lemma better_route_spec:
  "case foldl (better_route p) None rs of
     None \<Rightarrow> \<forall>r\<in>set rs. \<not> prefix (pr_pathPrefix r) p
   | Some b \<Rightarrow> first_longest p rs b"
proof (induction rs rule: rev_induct)
  case (snoc r rs)
  have step: "foldl (better_route p) None (rs @ [r]) = better_route p (foldl (better_route p) None rs) r" by simp
  show ?case
  proof (cases "foldl (better_route p) None rs")
    case None
    then show ?thesis using snoc first_longest_new[of r p rs] unfolding step None
      by (simp add: better_route_def)
  next
    case (Some b)
    then have b: "first_longest p rs b" using snoc by simp
    show ?thesis
    proof (cases "prefix (pr_pathPrefix r) p \<and> length (pr_pathPrefix b) < length (pr_pathPrefix r)")
      case True
      then have "first_longest p (rs @ [r]) r"
        using first_longest_bound[OF b] by (intro first_longest_new) fastforce+
      then show ?thesis unfolding step Some using True by (simp add: better_route_def)
    next
      case False
      then have "first_longest p (rs @ [r]) b" by (intro first_longest_keep[OF b]) auto
      then show ?thesis unfolding step Some using False by (auto simp: better_route_def)
    qed
  qed
qed simp

section \<open>Lemmas on the hash and the pick\<close>

lemma stable_hash_word:
  "stable_hash v = unat (foldl (\<lambda>h c. h * 31 + of_nat (of_char c)) (0 :: 32 word) v)"
proof (induction v rule: rev_induct)
  case (snoc c v)
  have "stable_hash (v @ [c]) = (stable_hash v * 31 + of_char c) mod 2 ^ 32" by (simp add: stable_hash_def)
  also have "\<dots> = unat (of_nat (stable_hash v * 31 + of_char c) :: 32 word)"
    by (subst unat_of_nat) simp
  also have "(of_nat (stable_hash v * 31 + of_char c) :: 32 word) = of_nat (stable_hash v) * 31 + of_nat (of_char c)"
    by simp
  also have "of_nat (stable_hash v) = (foldl (\<lambda>h c. h * 31 + of_nat (of_char c)) 0 v :: 32 word)"
    unfolding snoc.IH by simp
  finally show ?case by simp
qed (simp add: stable_hash_def)

lemma stable_hash_bound: "stable_hash v < 2 ^ 32"
  by (cases v rule: rev_cases) (simp_all add: stable_hash_def)

lemma pick_target_in:
  assumes "targets \<noteq> []"
  obtains h where "(pick_target lc targets traceKey, h) \<in> set targets"
proof -
  let ?sorted = "js_sort (\<lambda>l r. lc (rt_hostId (fst l)) (rt_hostId (fst r))) targets"
  have "\<exists>i < length ?sorted. pick_target lc targets traceKey = fst (?sorted ! i)"
    using assms unfolding pick_target_def Let_def
    by (cases "length ?sorted") (auto intro: exI[of _ 0] exI[of _ "x mod length ?sorted" for x])
  then obtain i where i: "i < length ?sorted" "pick_target lc targets traceKey = fst (?sorted ! i)" by blast
  have "?sorted ! i \<in> set targets" using nth_mem[OF i(1)] by simp
  then show ?thesis using that[of "snd (?sorted ! i)"] i(2) by simp
qed

text \<open>The order in which hosts are preferred: ready before draining, and within each the ones not
  suspected first.\<close>

definition target_tier :: "topology_store \<Rightarrow> route_target \<times> membership_host \<Rightarrow> nat" where
  "target_tier s t = (let suspect = (peer_status s (rt_nodeId (fst t)) = Suspect) in
     case mh_state (snd t) of
       HostReady \<Rightarrow> if suspect then 1 else 0
     | HostDraining \<Rightarrow> if suspect then 3 else 2
     | HostOffline \<Rightarrow> 4)"

definition route_candidates :: "topology_store \<Rightarrow> placement_route \<Rightarrow> string option \<Rightarrow> (route_target \<times> membership_host) list" where
  "route_candidates s route selfNodeId =
     filter (\<lambda>t. rt_nodeId (fst t) \<noteq> selfNodeId \<and> peer_status s (rt_nodeId (fst t)) \<noteq> Dead)
       (build_route_targets (pr_ownerHostIds route) (pr_pathPrefix route) (pr_routeId route)
         (map_from (map (\<lambda>h. (mh_hostId h, h)) (topology_hosts s))))"

definition tier_targets :: "topology_store \<Rightarrow> nat \<Rightarrow> (route_target \<times> membership_host) list \<Rightarrow> (route_target \<times> membership_host) list" where
  "tier_targets s k ts = filter (\<lambda>t. target_tier s t = k) ts"

lemma resolve_tiers:
  "resolve_http_route_target lc s pathname selfNodeId traceKey =
    (case find_best_route s pathname of None \<Rightarrow> None
     | Some route \<Rightarrow> (let cs = route_candidates s route selfNodeId in
         if tier_targets s 0 cs \<noteq> [] then Some (pick_target lc (tier_targets s 0 cs) traceKey)
         else if tier_targets s 1 cs \<noteq> [] then Some (pick_target lc (tier_targets s 1 cs) traceKey)
         else if tier_targets s 2 cs \<noteq> [] then Some (pick_target lc (tier_targets s 2 cs) traceKey)
         else if tier_targets s 3 cs \<noteq> [] then Some (pick_target lc (tier_targets s 3 cs) traceKey)
         else None))"
proof -
  have t: "(target_tier s t = 0) = (mh_state (snd t) = HostReady \<and> peer_status s (rt_nodeId (fst t)) \<noteq> Suspect)"
    "(target_tier s t = 1) = (mh_state (snd t) = HostReady \<and> peer_status s (rt_nodeId (fst t)) = Suspect)"
    "(target_tier s t = 2) = (mh_state (snd t) = HostDraining \<and> peer_status s (rt_nodeId (fst t)) \<noteq> Suspect)"
    "(target_tier s t = 3) = (mh_state (snd t) = HostDraining \<and> peer_status s (rt_nodeId (fst t)) = Suspect)" for t
    by (auto simp: target_tier_def Let_def split: host_state.splits if_splits)
  show ?thesis
    unfolding resolve_http_route_target_def tier_targets_def t route_candidates_def Let_def filter_filter
    by (intro option.case_cong refl if_cong arg_cong2[where f = "pick_target lc"] arg_cong[where f = Some]
        arg_cong[where f = "\<lambda>xs. xs \<noteq> []"] filter_cong) (auto simp: conj_ac)
qed

lemma tier_min:
  "t \<in> set (tier_targets s k cs) \<Longrightarrow> (\<And>j. j < k \<Longrightarrow> tier_targets s j cs = []) \<Longrightarrow> c \<in> set cs \<Longrightarrow>
   target_tier s t \<le> target_tier s c"
  by (auto simp: tier_targets_def filter_empty_conv not_le[symmetric])

section \<open>Lemmas on cluster peers\<close>

definition peer_host_ok :: "string option \<Rightarrow> string list option \<Rightarrow> membership_host \<Rightarrow> bool" where
  "peer_host_ok selfNodeId allowed h \<longleftrightarrow> truthy (mh_nodeId h)
     \<and> mh_state h \<noteq> HostOffline \<and> mh_nodeId h \<noteq> selfNodeId
     \<and> (case allowed of None \<Rightarrow> True | Some ids \<Rightarrow> mh_hostId h \<in> set ids) \<and> truthy (host_base_url h)"

definition peer_map :: "string option \<Rightarrow> string list option \<Rightarrow> membership_host list \<Rightarrow> (string, cluster_peer) js_map" where
  "peer_map selfNodeId allowed hosts = foldl (\<lambda>m h. if peer_host_ok selfNodeId allowed h
     then map_set (the (mh_nodeId h)) \<lparr>cp_nodeId = the (mh_nodeId h), cp_baseUrl = the (host_base_url h)\<rparr> m else m) [] hosts"

lemma peer_map_snoc [simp]:
  "peer_map self allowed [] = []"
  "peer_map self allowed (hosts @ [h]) = (if peer_host_ok self allowed h
     then map_set (the (mh_nodeId h)) \<lparr>cp_nodeId = the (mh_nodeId h), cp_baseUrl = the (host_base_url h)\<rparr>
            (peer_map self allowed hosts) else peer_map self allowed hosts)"
  by (simp_all add: peer_map_def)

lemma build_cluster_peers_map:
  "build_cluster_peers lc s self allowed =
     js_sort (\<lambda>l r. lc (cp_nodeId l) (cp_nodeId r)) (map snd (peer_map self allowed (topology_hosts s)))"
  unfolding build_cluster_peers_def peer_map_def Let_def
  by (intro arg_cong2[where f = js_sort] arg_cong[where f = "map snd"] foldl_cong refl)
     (auto simp: peer_host_ok_def split: option.split)

lemma peer_map_wf: "wf_map (peer_map self allowed hosts)"
  by (induction hosts rule: rev_induct) (simp_all add: wf_map_set)

lemma peer_map_key: "map_of (peer_map self allowed hosts) k = Some p \<Longrightarrow> cp_nodeId p = k"
  by (induction hosts arbitrary: p rule: rev_induct) (auto split: if_split_asm)

lemma peer_map_has:
  "map_of (peer_map self allowed hosts) k \<noteq> None \<longleftrightarrow> (\<exists>h\<in>set hosts. peer_host_ok self allowed h \<and> the (mh_nodeId h) = k)"
  by (induction hosts rule: rev_induct) auto

lemma peer_map_dom:
  "dom (map_of (peer_map self allowed hosts)) =
     (\<lambda>h. the (mh_nodeId h)) ` {h \<in> set hosts. peer_host_ok self allowed h}"
proof (rule set_eqI)
  fix k
  show "k \<in> dom (map_of (peer_map self allowed hosts)) \<longleftrightarrow>
      k \<in> (\<lambda>h. the (mh_nodeId h)) ` {h \<in> set hosts. peer_host_ok self allowed h}"
    unfolding domIff peer_map_has by blast
qed

lemma cluster_peers_ids:
  "set (map cp_nodeId (build_cluster_peers lc s self allowed)) = (\<lambda>h. the (mh_nodeId h)) ` {h \<in> set (topology_hosts s). peer_host_ok self allowed h}"
  "distinct (map cp_nodeId (build_cluster_peers lc s self allowed))"
proof -
  let ?m = "peer_map self allowed (topology_hosts s)"
  have b: "build_cluster_peers lc s self allowed = js_sort (\<lambda>l r. lc (cp_nodeId l) (cp_nodeId r)) (map snd ?m)"
    by (rule build_cluster_peers_map)
  have "cp_nodeId p = k" if "(k, p) \<in> set ?m" for k p
    using that peer_map_key map_of_wf_iff[OF peer_map_wf] by metis
  then have ids: "map cp_nodeId (map snd ?m) = map fst ?m" by auto
  have "set (map cp_nodeId (build_cluster_peers lc s self allowed)) = set (map fst ?m)"
    using ids by (metis b list.set_map set_js_sort)
  also have "\<dots> = dom (map_of ?m)" by (simp only: set_map_keys)
  finally show "set (map cp_nodeId (build_cluster_peers lc s self allowed)) = (\<lambda>h. the (mh_nodeId h)) ` {h \<in> set (topology_hosts s). peer_host_ok self allowed h}"
    by (simp add: peer_map_dom)
  have "mset (map cp_nodeId (build_cluster_peers lc s self allowed)) = mset (map fst ?m)"
    unfolding b ids[symmetric] by (simp only: mset_map mset_js_sort)
  then show "distinct (map cp_nodeId (build_cluster_peers lc s self allowed))"
    using peer_map_wf[of self allowed "topology_hosts s"] unfolding wf_map_def by (metis mset_eq_imp_distinct_iff)
qed

section \<open>Properties\<close>

text \<open>The route chosen for a path is the first, in the order of the placement, among the routes
  with the longest path prefix of it, and none is chosen exactly when no prefix matches.\<close>

theorem best_route_first_longest:
  "(find_best_route s pathname = None \<longleftrightarrow>
      (\<forall>d\<in>set (topology_deployments s). \<forall>r\<in>set (pd_routes d). \<not> prefix (pr_pathPrefix r) pathname))
   \<and> (\<forall>b. find_best_route s pathname = Some b \<longrightarrow>
        (\<exists>pre post. concat (map pd_routes (topology_deployments s)) = pre @ b # post \<and> prefix (pr_pathPrefix b) pathname
          \<and> (\<forall>r\<in>set pre. prefix (pr_pathPrefix r) pathname \<longrightarrow> length (pr_pathPrefix r) < length (pr_pathPrefix b))
          \<and> (\<forall>r\<in>set post. prefix (pr_pathPrefix r) pathname \<longrightarrow> length (pr_pathPrefix r) \<le> length (pr_pathPrefix b))))"
proof -
  let ?rs = "concat (map pd_routes (topology_deployments s))"
  have "first_longest pathname ?rs b \<Longrightarrow> b \<in> set ?rs \<and> prefix (pr_pathPrefix b) pathname" for b
    unfolding first_longest_def by (elim exE) simp
  moreover have "(\<forall>d\<in>set (topology_deployments s). \<forall>r\<in>set (pd_routes d). \<not> prefix (pr_pathPrefix r) pathname)
      \<longleftrightarrow> (\<forall>r\<in>set ?rs. \<not> prefix (pr_pathPrefix r) pathname)" by auto
  ultimately show ?thesis
    using better_route_spec[where p = pathname and rs = ?rs]
    unfolding find_best_route_flat first_longest_def[symmetric]
    by (cases "foldl (better_route pathname) None ?rs") (simp_all, blast)
qed

definition example_host :: "string \<Rightarrow> host_state \<Rightarrow> membership_host" where
  "example_host n st = \<lparr>mh_hostId = n, mh_groupId = None, mh_nodeId = Some n, mh_publicBaseUrl = Some ''u'',
     mh_internalBaseUrl = None, mh_publicListenerEnabled = True, mh_internalListenerEnabled = True,
     mh_state = st, mh_staticLabels = [], mh_staticCapabilities = [],
     mh_staticCapacity = \<lparr>hc_maxHttpWorkerAssignments = None, hc_maxServiceModuleAssignments = None,
       hc_maxConnections = None, hc_maxInflightRequests = None\<rparr>, mh_lastSeenAt = None\<rparr>"

definition topology_example :: topology_store where
  "topology_example = \<lparr>ts_topology = Some \<lparr>
      dt_membership = \<lparr>ms_revision = ''m'', ms_generatedAt = 0,
        ms_hosts = [example_host ''a'' HostReady, example_host ''b'' HostDraining, example_host ''c'' HostReady]\<rparr>,
      dt_placement = \<lparr>ps_revision = ''p'', ps_generatedAt = 0,
        ps_deployments = [\<lparr>pd_deploymentId = ''d'', pd_deploymentKind = HttpWorkerKind, pd_groupId = None,
          pd_ownerHostIds = [''a'', ''b'', ''c''],
          pd_routes = [\<lparr>pr_routeId = ''r'', pr_pathPrefix = ''/x'', pr_ownerHostIds = [''a'', ''b'', ''c'']\<rparr>]\<rparr>],
        ps_ingressGroupRequirements = None\<rparr>\<rparr>,
    ts_listeners = [], ts_peerHealth = [(''c'', Suspect)], ts_notified = []\<rparr>"

theorem best_route_first_longest_witness:
  "\<exists>pre post. concat (map pd_routes (topology_deployments topology_example))
     = pre @ the (find_best_route topology_example ''/x/y'') # post"
proof -
  have "find_best_route topology_example ''/x/y'' = Some (the (find_best_route topology_example ''/x/y''))" by code_simp
  then show ?thesis
    using conjunct2[OF best_route_first_longest[of topology_example "''/x/y''"]] by blast
qed

text \<open>C12: A routed request goes to an owner of the best route that is a member of the topology with
  a base URL, is not this node, is not known to be dead and is not offline; no other such owner
  stands in a better tier, where ready is better than draining and unsuspected better than
  suspected; and a target is found whenever there is such an owner.\<close>

theorem resolve_target_safe_and_best:
  "(\<forall>t. resolve_http_route_target lc s pathname selfNodeId traceKey = Some t \<longrightarrow>
     (\<exists>route h. find_best_route s pathname = Some route \<and> (t, h) \<in> set (route_candidates s route selfNodeId)
        \<and> rt_hostId t \<in> set (pr_ownerHostIds route) \<and> h \<in> set (topology_hosts s) \<and> mh_hostId h = rt_hostId t
        \<and> rt_nodeId t = mh_nodeId h \<and> rt_nodeId t \<noteq> selfNodeId \<and> peer_status s (rt_nodeId t) \<noteq> Dead
        \<and> mh_state h \<noteq> HostOffline
        \<and> (\<forall>c\<in>set (route_candidates s route selfNodeId). target_tier s (t, h) \<le> target_tier s c)))
   \<and> (resolve_http_route_target lc s pathname selfNodeId traceKey = None \<longleftrightarrow>
       (\<forall>route. find_best_route s pathname = Some route \<longrightarrow>
          (\<forall>c\<in>set (route_candidates s route selfNodeId). mh_state (snd c) = HostOffline)))"
proof (cases "find_best_route s pathname")
  case None
  then show ?thesis by (simp add: resolve_tiers)
next
  case (Some route)
  let ?cs = "route_candidates s route selfNodeId" and ?T = "\<lambda>k. tier_targets s k (route_candidates s route selfNodeId)"
  let ?r = "resolve_http_route_target lc s pathname selfNodeId traceKey"
  have off: "target_tier s c < 4 \<longleftrightarrow> mh_state (snd c) \<noteq> HostOffline" for c
    by (simp add: target_tier_def Let_def split: host_state.split)
  have cand: "rt_hostId (fst c) \<in> set (pr_ownerHostIds route) \<and> snd c \<in> set (topology_hosts s)
      \<and> mh_hostId (snd c) = rt_hostId (fst c) \<and> rt_nodeId (fst c) = mh_nodeId (snd c)
      \<and> rt_nodeId (fst c) \<noteq> selfNodeId \<and> peer_status s (rt_nodeId (fst c)) \<noteq> Dead" if "c \<in> set ?cs" for c
    using that map_from_index[of mh_hostId "topology_hosts s" "rt_hostId (fst c)" "snd c"]
    by (auto simp: route_candidates_def build_route_targets_def split: option.splits if_splits)
  have four: "k < 4 \<longleftrightarrow> k = 0 \<or> k = 1 \<or> k = 2 \<or> k = 3" for k :: nat by presburger
  have all4: "(\<forall>k<4. P k) \<longleftrightarrow> P 0 \<and> P 1 \<and> P 2 \<and> P 3" for P :: "nat \<Rightarrow> bool" by (auto simp: four)
  have "?r = None \<longleftrightarrow> (\<forall>k<4. ?T k = [])"
    unfolding all4[of "\<lambda>k. ?T k = []"] by (simp add: resolve_tiers Some Let_def)
  then have all: "?r = None \<longleftrightarrow> (\<forall>c\<in>set ?cs. \<not> target_tier s c < 4)" by (auto simp: tier_targets_def filter_empty_conv)
  have found: "\<exists>k<4. (\<forall>j<k. ?T j = []) \<and> ?T k \<noteq> [] \<and> t = pick_target lc (?T k) traceKey" if r: "?r = Some t" for t
  proof -
    have j: "j < 1 \<longleftrightarrow> j = 0" "j < 2 \<longleftrightarrow> j = 0 \<or> j = 1" "j < 3 \<longleftrightarrow> j = 0 \<or> j = 1 \<or> j = 2" for j :: nat
      by presburger+
    consider "?T 0 \<noteq> []" | "?T 0 = []" "?T 1 \<noteq> []" | "?T 0 = []" "?T 1 = []" "?T 2 \<noteq> []"
      | "?T 0 = []" "?T 1 = []" "?T 2 = []" "?T 3 \<noteq> []"
      using r unfolding resolve_tiers Some Let_def option.case by (auto split: if_split_asm)
    then show ?thesis
    proof cases
      case 1 then show ?thesis using r by (intro exI[of _ 0]) (simp add: resolve_tiers Some Let_def)
    next
      case 2 then show ?thesis using r by (intro exI[of _ 1]) (simp add: resolve_tiers Some Let_def j)
    next
      case 3 then show ?thesis using r by (intro exI[of _ 2]) (auto simp: resolve_tiers Some Let_def j)
    next
      case 4 then show ?thesis using r by (intro exI[of _ 3]) (auto simp: resolve_tiers Some Let_def j)
    qed
  qed
  have pick: "\<exists>h. (t, h) \<in> set ?cs \<and> target_tier s (t, h) < 4 \<and> (\<forall>c\<in>set ?cs. target_tier s (t, h) \<le> target_tier s c)"
    if r: "?r = Some t" for t
  proof -
    from found[OF r] obtain k where k: "k < 4" "\<forall>j<k. ?T j = []" "?T k \<noteq> []"
      "t = pick_target lc (?T k) traceKey" by blast
    obtain h where "(t, h) \<in> set (?T k)" using pick_target_in[OF k(3)] k(4) by blast
    then show ?thesis using tier_min[of "(t, h)" s k ?cs] k by (auto simp: tier_targets_def)
  qed
  show ?thesis
    using all pick cand by (auto simp: Some off) (metis cand fst_conv snd_conv off)
qed

theorem resolve_target_safe_and_best_witness:
  "resolve_http_route_target code_unit_compare topology_example ''/x/y'' (Some ''a'') (Some ''t'') \<noteq> None
   \<and> rt_nodeId (the (resolve_http_route_target code_unit_compare topology_example ''/x/y'' (Some ''a'') (Some ''t''))) \<noteq> Some ''a''"
proof -
  let ?r = "resolve_http_route_target code_unit_compare topology_example ''/x/y'' (Some ''a'') (Some ''t'')"
  have "?r \<noteq> None" by code_simp
  then obtain t where "?r = Some t" by blast
  moreover from this have "rt_nodeId t \<noteq> Some ''a''"
    using conjunct1[OF resolve_target_safe_and_best[of code_unit_compare topology_example "''/x/y''" "Some ''a''" "Some ''t''"]]
    by blast
  ultimately show ?thesis by simp
qed

text \<open>The hash that spreads requests is the unsigned 32-bit polynomial hash of the key: it
  stays below 2^32, agrees with arithmetic on 32-bit words, and no intermediate value reaches 2^53,
  so that the double arithmetic of the code is exact.\<close>

theorem stable_hash_32_bit:
  "stable_hash v < 2 ^ 32
   \<and> stable_hash v = unat (foldl (\<lambda>h c. h * 31 + of_nat (of_char c)) (0 :: 32 word) v)
   \<and> stable_hash v * 31 + of_char c < 2 ^ 53"
proof -
  have "x < 2 ^ 32 \<Longrightarrow> k < 256 \<Longrightarrow> x * 31 + k < 2 ^ 53" for x k :: nat by simp
  from this[OF stable_hash_bound, of "of_char c" v] have "stable_hash v * 31 + of_char c < 2 ^ 53" by simp
  then show ?thesis using stable_hash_bound[of v] stable_hash_word[of v] by blast
qed

text \<open>Routing is sticky: the target picked for a trace key does not depend on the order in which
  the owners are listed, as long as the collation tells their host ids apart.\<close>

theorem pick_order_independent:
  "comparator lc \<Longrightarrow> mset targets = mset targets' \<Longrightarrow>
   (\<And>a b. a \<in> set targets \<Longrightarrow> b \<in> set targets \<Longrightarrow> lc (rt_hostId (fst a)) (rt_hostId (fst b)) = 0 \<Longrightarrow> a = b) \<Longrightarrow>
   pick_target lc targets traceKey = pick_target lc targets' traceKey"
proof -
  assume c: "comparator lc" and m: "mset targets = mset targets'"
    and d: "\<And>a b. a \<in> set targets \<Longrightarrow> b \<in> set targets \<Longrightarrow> lc (rt_hostId (fst a)) (rt_hostId (fst b)) = 0 \<Longrightarrow> a = b"
  have "comparator (\<lambda>l r :: route_target \<times> membership_host. lc (rt_hostId (fst l)) (rt_hostId (fst r)))"
    by (rule comparator.intro) (rule comparator.sign[OF c], erule (1) comparator.trans[OF c])
  then have "js_sort (\<lambda>l r. lc (rt_hostId (fst l)) (rt_hostId (fst r))) targets =
      js_sort (\<lambda>l r. lc (rt_hostId (fst l)) (rt_hostId (fst r))) targets'"
    by (rule comparator.sort_unique) (use m d in blast)+
  then show ?thesis by (simp only: pick_target_def)
qed

theorem pick_order_independent_witness:
  "let cs = route_candidates topology_example (the (find_best_route topology_example ''/x'')) (Some ''z'') in
   length cs = 3 \<and> pick_target code_unit_compare cs (Some ''k'') = pick_target code_unit_compare (rev cs) (Some ''k'')"
proof -
  let ?cs = "route_candidates topology_example (the (find_best_route topology_example ''/x'')) (Some ''z'')"
  have ids: "map (rt_hostId \<circ> fst) ?cs = [''a'', ''b'', ''c'']" by code_simp
  then have "distinct (map (rt_hostId \<circ> fst) ?cs)" by simp
  then have "a \<in> set ?cs \<Longrightarrow> b \<in> set ?cs \<Longrightarrow> rt_hostId (fst a) = rt_hostId (fst b) \<Longrightarrow> a = b" for a b
    by (auto simp: distinct_map inj_on_def)
  then have "pick_target code_unit_compare ?cs (Some ''k'') = pick_target code_unit_compare (rev ?cs) (Some ''k'')"
    by (intro pick_order_independent) (simp_all add: code_unit.comparator_axioms code_unit_compare_zero)
  moreover have "length ?cs = 3" using arg_cong[OF ids, of length] by simp
  ultimately show ?thesis by (simp only: Let_def)
qed

text \<open>The peers a gateway talks to are exactly the hosts of the topology with a node id and a
  base URL that are not offline, not this node, in the requested group and not known to be dead,
  each once; no restriction is given only when the topology has no peer at all for the scope.\<close>

theorem cluster_peer_ids_exact:
  "(\<forall>ids. list_cluster_peer_node_ids lc s selfNodeId scope = Some ids \<longrightarrow>
      distinct ids \<and>
      set ids = {n. peer_status s (Some n) \<noteq> Dead \<and> n \<noteq> [] \<and> Some n \<noteq> selfNodeId \<and>
        (\<exists>h\<in>set (topology_hosts s). mh_nodeId h = Some n \<and> mh_state h \<noteq> HostOffline \<and> truthy (host_base_url h) \<and>
           (case scope of None \<Rightarrow> True
            | Some g \<Rightarrow> \<exists>h'\<in>set (topology_hosts s). mh_hostId h' = mh_hostId h \<and> mh_groupId h' = g))})
   \<and> (list_cluster_peer_node_ids lc s selfNodeId scope = None \<longrightarrow> scope = None \<or> topology_hosts s = [])"
proof -
  let ?allowed = "case scope of None \<Rightarrow> None | Some g \<Rightarrow> resolve_allowed_host_ids_for_group s g"
  let ?peers = "build_cluster_peers lc s selfNodeId ?allowed"
  let ?ids = "map cp_nodeId (filter (\<lambda>p. peer_status s (Some (cp_nodeId p)) \<noteq> Dead) ?peers)"
  have eq: "list_cluster_peer_node_ids lc s selfNodeId scope =
      (if ?peers \<noteq> [] \<or> ?allowed \<noteq> None then Some ?ids else None)"
    by (auto simp: list_cluster_peer_node_ids_def Let_def split: option.split)
  have allowed: "?allowed = None \<longleftrightarrow> scope = None \<or> topology_hosts s = []"
    by (simp add: resolve_allowed_host_ids_for_group_def Let_def split: option.split)
  have ok: "h \<in> set (topology_hosts s) \<Longrightarrow> peer_host_ok selfNodeId ?allowed h \<longleftrightarrow>
      truthy (mh_nodeId h) \<and> mh_state h \<noteq> HostOffline \<and> mh_nodeId h \<noteq> selfNodeId \<and> truthy (host_base_url h) \<and>
      (case scope of None \<Rightarrow> True
       | Some g \<Rightarrow> \<exists>h'\<in>set (topology_hosts s). mh_hostId h' = mh_hostId h \<and> mh_groupId h' = g)" for h
    by (cases scope; cases "topology_hosts s")
       (auto simp: peer_host_ok_def resolve_allowed_host_ids_for_group_def image_iff)
  have mem: "n \<in> set ?ids \<longleftrightarrow> peer_status s (Some n) \<noteq> Dead \<and> n \<in> set (map cp_nodeId ?peers)" for n by auto
  have "distinct ?ids" by (rule distinct_map_filter[OF cluster_peers_ids(2)])
  moreover have "set ?ids = {n. peer_status s (Some n) \<noteq> Dead \<and> n \<noteq> [] \<and> Some n \<noteq> selfNodeId \<and>
        (\<exists>h\<in>set (topology_hosts s). mh_nodeId h = Some n \<and> mh_state h \<noteq> HostOffline \<and> truthy (host_base_url h) \<and>
           (case scope of None \<Rightarrow> True
            | Some g \<Rightarrow> \<exists>h'\<in>set (topology_hosts s). mh_hostId h' = mh_hostId h \<and> mh_groupId h' = g))}"
    (is "_ = {n. _ n \<and> _ n \<and> _ n \<and> (\<exists>h\<in>_. mh_nodeId h = Some n \<and> ?c h)}")
  proof (rule set_eqI)
    fix n
    have "n \<in> set (map cp_nodeId ?peers) \<longleftrightarrow>
        (\<exists>h\<in>set (topology_hosts s). peer_host_ok selfNodeId ?allowed h \<and> the (mh_nodeId h) = n)"
      unfolding cluster_peers_ids(1) by blast
    also have "\<dots> \<longleftrightarrow> (\<exists>h\<in>set (topology_hosts s). truthy (mh_nodeId h) \<and> mh_nodeId h \<noteq> selfNodeId \<and> ?c h \<and> the (mh_nodeId h) = n)"
      using ok by blast
    also have "\<dots> \<longleftrightarrow> n \<noteq> [] \<and> Some n \<noteq> selfNodeId \<and> (\<exists>h\<in>set (topology_hosts s). mh_nodeId h = Some n \<and> ?c h)"
    proof -
      have "truthy (mh_nodeId h) \<and> mh_nodeId h \<noteq> selfNodeId \<and> C h \<and> the (mh_nodeId h) = n \<longleftrightarrow>
          n \<noteq> [] \<and> Some n \<noteq> selfNodeId \<and> (mh_nodeId h = Some n \<and> C h)" for h C
        by (cases "mh_nodeId h") auto
      from this[of _ ?c] show ?thesis by blast
    qed
    finally show "n \<in> set ?ids \<longleftrightarrow> n \<in> {n. peer_status s (Some n) \<noteq> Dead \<and> n \<noteq> [] \<and> Some n \<noteq> selfNodeId \<and>
        (\<exists>h\<in>set (topology_hosts s). mh_nodeId h = Some n \<and> ?c h)}" unfolding mem by simp
  qed
  ultimately show ?thesis using allowed unfolding eq by simp
qed

theorem cluster_peer_ids_exact_witness:
  "distinct (the (list_cluster_peer_node_ids code_unit_compare topology_example (Some ''a'') (Some None)))"
proof -
  have "list_cluster_peer_node_ids code_unit_compare topology_example (Some ''a'') (Some None) = Some [''b'', ''c'']"
    by code_simp
  then show ?thesis
    using conjunct1[OF cluster_peer_ids_exact[of code_unit_compare topology_example "Some ''a''" "Some None"]] by simp
qed

end
