(* ===== verification/Control_Routing.thy ===== *)
theory Control_Routing
  imports Placement_Props Topology
begin

text \<open>The control plane and the gateway together: the desired states the planner projects become the
  placement snapshot, the registrations the membership snapshot, and the topology store of a gateway
  routes by both.\<close>

section \<open>Routing, once more\<close>

lemma best_route_listed:
  assumes "find_best_route s pathname = Some route"
  shows "prefix (pr_pathPrefix route) pathname \<and> (\<exists>p\<in>set (topology_deployments s). route \<in> set (pd_routes p))"
proof -
  have "first_longest pathname (concat (map pd_routes (topology_deployments s))) route"
    using better_route_spec[where p = pathname and rs = "concat (map pd_routes (topology_deployments s))"] assms
    by (simp add: find_best_route_flat)
  then obtain pre post where l: "concat (map pd_routes (topology_deployments s)) = pre @ route # post"
    "prefix (pr_pathPrefix route) pathname" unfolding first_longest_def by blast
  from l(1) have "route \<in> set (concat (map pd_routes (topology_deployments s)))" by simp
  then have "\<exists>p\<in>set (topology_deployments s). route \<in> set (pd_routes p)" by auto
  with l(2) show ?thesis by blast
qed

lemma resolved_candidate:
  assumes "resolve_http_route_target lc s pathname selfNodeId traceKey = Some t"
  shows "\<exists>route h. find_best_route s pathname = Some route \<and> (t, h) \<in> set (route_candidates s route selfNodeId)
    \<and> target_tier s (t, h) < 4"
proof -
  obtain route where route: "find_best_route s pathname = Some route"
    using assms by (auto simp: resolve_tiers split: option.splits)
  define P where "P k \<longleftrightarrow> tier_targets s k (route_candidates s route selfNodeId) \<noteq> []
    \<and> t = pick_target lc (tier_targets s k (route_candidates s route selfNodeId)) traceKey" for k
  have "P 0 \<or> P 1 \<or> P 2 \<or> P 3"
    using assms by (auto simp: P_def route resolve_tiers Let_def split: if_splits)
  then have "\<exists>k<4. P k" by (auto intro: exI[of _ 0] exI[of _ 1] exI[of _ 2] exI[of _ 3])
  then obtain k where k: "find_best_route s pathname = Some route" "k < 4" "tier_targets s k (route_candidates s route selfNodeId) \<noteq> []"
    "t = pick_target lc (tier_targets s k (route_candidates s route selfNodeId)) traceKey"
    using route by (auto simp: P_def)
  obtain h where "(t, h) \<in> set (tier_targets s k (route_candidates s route selfNodeId))"
    using pick_target_in[OF k(3)] k(4) by blast
  then show ?thesis using k(1,2) by (auto simp: tier_targets_def)
qed

lemma candidate_facts:
  assumes "(t, h) \<in> set (route_candidates s route selfNodeId)"
  shows "rt_hostId t \<in> set (pr_ownerHostIds route)" "h \<in> set (topology_hosts s)" "mh_hostId h = rt_hostId t"
    "rt_nodeId t = mh_nodeId h" "rt_nodeId t \<noteq> selfNodeId" "peer_status s (rt_nodeId t) \<noteq> Dead"
    "rt_routeId t = pr_routeId route" "rt_pathPrefix t = pr_pathPrefix route"
  using assms map_from_index[of mh_hostId "topology_hosts s" "rt_hostId t" h]
  by (auto simp: route_candidates_def build_route_targets_def split: option.splits if_splits)

section \<open>Desired states that are projected\<close>

definition projected ::
  "(string \<Rightarrow> string \<Rightarrow> int) \<Rightarrow> int \<Rightarrow> projection_input \<Rightarrow> string list \<Rightarrow> desired_host_state list" where
  "projected lc now input hosts = map (\<lambda>h. project_http_worker_desired_state lc now (input\<lparr>pi_hostId := h\<rparr>)) hosts"

definition assigned_to :: "(string \<Rightarrow> string \<Rightarrow> int) \<Rightarrow> projection_input \<Rightarrow> string \<Rightarrow> deployment_plan \<Rightarrow> bool" where
  "assigned_to lc input h dep \<longleftrightarrow> dep \<in> set (pi_deployments input)
     \<and> should_assign_deployment_to_host lc dep h (pi_registeredHostIds input) (pi_candidateHosts input)"

lemma projected_assignments:
  "set (dh_assignments (project_http_worker_desired_state lc now (input\<lparr>pi_hostId := h\<rparr>)))
     = build_assignment_for_host h ` {dep. assigned_to lc input h dep}"
  by (auto simp: project_http_worker_desired_state_def Let_def assigned_to_def)

lemma projected_host [simp]: "dh_hostId (project_http_worker_desired_state lc now input) = pi_hostId input"
  by (simp add: project_http_worker_desired_state_def Let_def)

lemma assignment_simps [simp]:
  "as_deploymentId (build_assignment_for_host h dep) = dp_deploymentId dep"
  "as_assignmentId (build_assignment_for_host h dep) = ''assign:'' @ h @ '':'' @ dp_deploymentId dep"
  "as_deploymentKind (build_assignment_for_host h dep) = plan_kind dep"
  "as_serviceModule (build_assignment_for_host h dep) = None"
  by (simp_all add: build_assignment_for_host_def Let_def)

lemma assignment_refs:
  "set (placement_route_refs (build_assignment_for_host h dep)) \<subseteq> {build_route_id_for_host h dep}"
  "plan_kind dep \<noteq> ServiceModuleKind \<Longrightarrow>
     placement_route_refs (build_assignment_for_host h dep) = [build_route_id_for_host h dep]"
  by (cases "plan_kind dep"; simp add: build_assignment_for_host_def Let_def placement_route_refs_def)+

lemma projected_owners:
  "owners_of i (projected lc now input hosts) = {h \<in> set hosts. \<exists>dep. assigned_to lc input h dep \<and> dp_deploymentId dep = i}"
proof -
  have "owners_of i (projected lc now input hosts) = {h \<in> set hosts. \<exists>a\<in>set (dh_assignments
      (project_http_worker_desired_state lc now (input\<lparr>pi_hostId := h\<rparr>))). as_deploymentId a = i}"
    unfolding owners_of_def projected_def by force
  then show ?thesis unfolding projected_assignments by (simp add: conj_commute)
qed

lemma projected_route_owner:
  assumes "h \<in> route_owners i r (projected lc now input hosts)"
  shows "h \<in> set hosts \<and> (\<exists>dep. assigned_to lc input h dep \<and> dp_deploymentId dep = i \<and> build_route_id_for_host h dep = r)"
  using assms assignment_refs(1)
  unfolding route_owners_def projected_def by (fastforce simp: projected_assignments)

text \<open>The placement of projected states is the planner's decision: a host is listed as owner of a
  deployment exactly when it is asked for and the deployment is assigned to it.\<close>

theorem projected_placement_owners:
  assumes "p \<in> set (ps_deployments (build_placement_snapshot lc now revision generatedAt (projected lc now input hosts)))"
  shows "set (pd_ownerHostIds p) = {h \<in> set hosts. \<exists>dep\<in>set (pi_deployments input). dp_deploymentId dep = pd_deploymentId p
     \<and> should_assign_deployment_to_host lc dep h (pi_registeredHostIds input) (pi_candidateHosts input)}"
  using placement_deployment(1)[OF assms] by (auto simp: projected_owners assigned_to_def)

text \<open>C3: A request goes where the control plane wants it: a gateway whose topology holds the membership of
  the registrations and the placement of the projected states forwards a request only to a registered
  host that is not offline, not itself and not known dead, to which the planner assigned a
  deployment with this very route, and whose prefix the path has.\<close>

theorem request_reaches_assigned_host:
  assumes topology: "ts_topology s = Some \<lparr>
      dt_membership = build_membership_snapshot lc now revision generatedAt registrations observed,
      dt_placement = build_placement_snapshot lc now revision' generatedAt' (projected lc now input hosts)\<rparr>"
    and routed: "resolve_http_route_target lc s pathname selfNodeId traceKey = Some target"
  shows "(\<exists>dep\<in>set (pi_deployments input).
        should_assign_deployment_to_host lc dep (rt_hostId target) (pi_registeredHostIds input) (pi_candidateHosts input)
        \<and> build_route_id_for_host (rt_hostId target) dep = rt_routeId target)
     \<and> (\<exists>reg\<in>set registrations. hr_hostId reg = rt_hostId target \<and> hr_nodeId reg = rt_nodeId target)
     \<and> membership_state (map_of (index_observed (opt_else observed [])) (rt_hostId target)) \<noteq> HostOffline
     \<and> rt_nodeId target \<noteq> selfNodeId \<and> peer_status s (rt_nodeId target) \<noteq> Dead
     \<and> prefix (rt_pathPrefix target) pathname"
proof -
  obtain route h where r: "find_best_route s pathname = Some route" "(target, h) \<in> set (route_candidates s route selfNodeId)"
    "target_tier s (target, h) < 4" using resolved_candidate[OF routed] by blast
  note c = candidate_facts[OF r(2)]
  obtain p where p: "p \<in> set (ps_deployments (build_placement_snapshot lc now revision' generatedAt' (projected lc now input hosts)))"
    "route \<in> set (pd_routes p)" and pre: "prefix (pr_pathPrefix route) pathname"
    using best_route_listed[OF r(1)] by (auto simp: topology_deployments_def topology)
  have "rt_hostId target \<in> route_owners (pd_deploymentId p) (pr_routeId route) (projected lc now input hosts)"
    using c(1) placement_deployment(2)[OF p] by simp
  from projected_route_owner[OF this] obtain dep where dep: "assigned_to lc input (rt_hostId target) dep"
    "build_route_id_for_host (rt_hostId target) dep = rt_routeId target" using c(7) by auto
  obtain reg where reg: "reg \<in> set registrations" "hr_hostId reg = rt_hostId target" "hr_nodeId reg = rt_nodeId target"
    "mh_state h = membership_state (map_of (index_observed (opt_else observed [])) (hr_hostId reg))"
    using c(2,3,4) by (auto simp: topology_hosts_def topology build_membership_snapshot_def Let_def)
  have "mh_state h \<noteq> HostOffline" using r(3) by (auto simp: target_tier_def Let_def)
  with dep reg c(5,6,8) pre show ?thesis unfolding assigned_to_def by auto
qed


section \<open>Two hosts\<close>

definition example_registration :: "string \<Rightarrow> host_registration" where
  "example_registration h = \<lparr>hr_hostId = h, hr_groupId = None, hr_nodeId = Some (''n'' @ h), hr_startedAt = 0, hr_runtimeVersion = ''1'', hr_runtimePid = None,
     hr_network = \<lparr>hn_publicBaseUrl = None, hn_internalBaseUrl = Some (''http://'' @ h),
       hn_publicListenerEnabled = False, hn_internalListenerEnabled = True\<rparr>,
     hr_staticLabels = [], hr_staticCapabilities = [], hr_staticCapacity = oh_staticCapacity (example_observed h), hr_dynamicFields = None\<rparr>"

definition example_projection :: projection_input where
  "example_projection = \<lparr>pi_hostId = [], pi_upstreamBaseUrl = ''up'', pi_deployments = [example_plan],
     pi_revisionToken = 7, pi_registeredHostIds = [''a'', ''b''], pi_candidateHosts = None\<rparr>"

definition example_store :: topology_store where
  "example_store = \<lparr>ts_topology = Some \<lparr>
      dt_membership = build_membership_snapshot code_unit_compare 0 ''m'' None
        [example_registration ''a'', example_registration ''b''] None,
      dt_placement = build_placement_snapshot code_unit_compare 0 ''p'' None
        (projected code_unit_compare 0 example_projection [''a'', ''b''])\<rparr>,
    ts_listeners = [], ts_peerHealth = [], ts_notified = []\<rparr>"

lemma example_routed:
  "map_option rt_hostId (resolve_http_route_target code_unit_compare example_store ''/p/b/x'' (Some ''na'') None) = Some ''b''"
  by code_simp

theorem request_reaches_assigned_host_witness:
  "\<exists>target. resolve_http_route_target code_unit_compare example_store ''/p/b/x'' (Some ''na'') None = Some target
     \<and> should_assign_deployment_to_host code_unit_compare example_plan (rt_hostId target) [''a'', ''b''] None
     \<and> rt_nodeId target \<noteq> Some ''na''"
proof -
  obtain target where t: "resolve_http_route_target code_unit_compare example_store ''/p/b/x'' (Some ''na'') None = Some target"
    using example_routed by auto
  have top: "ts_topology example_store = Some \<lparr>
      dt_membership = build_membership_snapshot code_unit_compare 0 ''m'' None
        [example_registration ''a'', example_registration ''b''] None,
      dt_placement = build_placement_snapshot code_unit_compare 0 ''p'' None
        (projected code_unit_compare 0 example_projection [''a'', ''b''])\<rparr>" by (simp add: example_store_def)
  have "pi_deployments example_projection = [example_plan]" "pi_registeredHostIds example_projection = [''a'', ''b'']"
    "pi_candidateHosts example_projection = None" by (simp_all add: example_projection_def)
  with request_reaches_assigned_host[OF top t] show ?thesis using t by simp
qed

lemma example_owned: "owners_of ''web'' (projected code_unit_compare 0 example_projection [''a'', ''b'']) \<noteq> {}"
proof -
  have "should_assign_deployment_to_host code_unit_compare example_plan ''a'' [''a'', ''b''] None" by code_simp
  moreover have "dp_deploymentId example_plan = ''web''" by (simp add: example_plan_def)
  ultimately have "''a'' \<in> owners_of ''web'' (projected code_unit_compare 0 example_projection [''a'', ''b''])"
    unfolding projected_owners by (auto simp: assigned_to_def example_projection_def)
  then show ?thesis by blast
qed

theorem projected_placement_owners_witness:
  "\<exists>p :: placement_deployment. pd_deploymentId p = ''web'' \<and> ''a'' \<in> set (pd_ownerHostIds p)"
proof -
  obtain p where p: "p \<in> set (ps_deployments (build_placement_snapshot code_unit_compare 0 ''p'' None
      (projected code_unit_compare 0 example_projection [''a'', ''b''])))" "pd_deploymentId p = ''web''"
    using iffD2[OF placement_listed example_owned] by blast
  have "should_assign_deployment_to_host code_unit_compare example_plan ''a'' [''a'', ''b''] None" by code_simp
  then have "''a'' \<in> set (pd_ownerHostIds p)"
    unfolding projected_placement_owners[OF p(1)] p(2) by (auto simp: example_projection_def example_plan_def)
  with p(2) show ?thesis by blast
qed

text \<open>The snapshot of the example lists the deployment with both owners.\<close>

theorem placement_snapshot_exact_witness:
  "\<exists>p\<in>set (ps_deployments (build_placement_snapshot code_unit_compare 0 ''p'' None
      (projected code_unit_compare 0 example_projection [''a'', ''b'']))). pd_deploymentId p = ''web'' \<and> distinct (pd_ownerHostIds p)"
  using placement_snapshot_exact[of code_unit_compare 0 "''p''" None "projected code_unit_compare 0 example_projection [''a'', ''b'']"]
    example_owned unfolding Let_def by blast

end
