(* ===== verification/Summary_Props.thy ===== *)
theory Summary_Props
  imports Control_Routing
begin

text \<open>The comparison of desired states and reported runtime summaries: what a match means, that a host
  which runs what the planner projected matches, and how the counts of the read model add up.\<close>

section \<open>Counts\<close>

lemma count_filter: "length (filter P xs) = (\<Sum>x\<leftarrow>xs. of_bool (P x))"
  by (induction xs) auto

lemma check_host_simps:
  "ck_reported (check_host lc dep desired observed h) \<longleftrightarrow> runtime_summary_of observed \<noteq> None"
  "ck_matches (check_host lc dep desired observed h) \<longleftrightarrow> ck_status (check_host lc dep desired observed h) = Match"
  "ck_hostId (check_host lc dep desired observed h) = h"
  by (simp_all add: check_host_def Let_def)

text \<open>The roll-up of the read model is a partition: every host of the desired and the observed states
  is checked once, and matches, has drifted or has not reported; the last two never overlap with the
  contrary report.\<close>

theorem rollup_partitions:
  "let checks = build_runtime_summary_checks lc ds os deploymentId; r = build_runtime_summary_rollup checks
   in sr_matchingHosts r + sr_driftedHosts r + sr_notReportedHosts r = sr_totalHosts r
    \<and> sr_totalHosts r = card (dh_hostId ` set ds \<union> oh_hostId ` set os)
    \<and> sr_driftedHosts r \<le> sr_reportedHosts r \<and> sr_reportedHosts r + sr_notReportedHosts r \<le> sr_totalHosts r"
proof -
  define ids where "ids = js_sort lc (js_unique (map dh_hostId ds @ map oh_hostId os))"
  define c where "c = (\<lambda>h. check_host lc deploymentId (map_of (index_desired ds) h) (map_of (index_observed os) h) h)"
  have checks: "build_runtime_summary_checks lc ds os deploymentId = map c ids"
    by (simp add: build_runtime_summary_checks_def ids_def c_def)
  have m: "ck_matches (c h) \<longleftrightarrow> ck_status (c h) = Match" for h by (simp add: c_def check_host_simps)
  have drift: "ck_status (c h) = Drift \<Longrightarrow> ck_reported (c h)" and missing: "ck_status (c h) = NotReported \<Longrightarrow> \<not> ck_reported (c h)" for h
    by (auto simp: c_def check_host_def Let_def resolve_runtime_summary_status_def split: if_splits)
  have part: "length (filter (\<lambda>h. ck_status (c h) = Match) hs) + length (filter (\<lambda>h. ck_status (c h) = Drift) hs)
      + length (filter (\<lambda>h. ck_status (c h) = NotReported) hs) = length hs" for hs
    by (induction hs) (auto, metis summary_status.exhaust)
  have le: "length (filter (\<lambda>h. ck_status (c h) = Drift) hs) \<le> length (filter (\<lambda>h. ck_reported (c h)) hs)" for hs
    by (induction hs) (auto dest: drift)
  have le': "length (filter (\<lambda>h. ck_reported (c h)) hs) + length (filter (\<lambda>h. ck_status (c h) = NotReported) hs) \<le> length hs" for hs
    by (induction hs) (auto dest: missing)
  have "distinct ids" by (simp add: ids_def)
  then have "length ids = card (set ids)" by (simp add: distinct_card)
  moreover have "set ids = dh_hostId ` set ds \<union> oh_hostId ` set os" by (simp add: ids_def)
  ultimately show ?thesis
    using part[of ids] le[of ids] le'[of ids]
    by (simp add: checks build_runtime_summary_rollup_def filter_map comp_def m)
qed

section \<open>Matches\<close>

lemma compute_missing_empty: "compute_missing_values xs ys = [] \<longleftrightarrow> set xs \<subseteq> set ys"
  by (auto simp: compute_missing_values_def filter_empty_conv)

lemma status_match: "resolve_runtime_summary_status rep m u = Match \<longleftrightarrow> m = 0 \<and> u = 0"
  by (simp add: resolve_runtime_summary_status_def)

lemma host_matches_iff:
  "ck_status (check_host lc dep desired observed h) = Match \<longleftrightarrow>
     set (ck_expectedPipelineIds (check_host lc dep desired observed h)) = set (ck_observedPipelineIds (check_host lc dep desired observed h))
   \<and> set (ck_expectedProtocolPackageIds (check_host lc dep desired observed h))
       = set (ck_observedProtocolPackageIds (check_host lc dep desired observed h))"
  by (auto simp: check_host_def Let_def status_match compute_missing_empty)

text \<open>A report of pipelines.\<close>

definition pipeline_report :: "string list \<Rightarrow> json" where
  "pipeline_report ids = JObj [(''pipelines'', JArr (map (\<lambda>i. JObj [(''pipelineId'', JStr i)]) ids))]"

lemma report_ids:
  "set (list_observed_pipeline_ids lc (Some (pipeline_report ids))) = set ids"
  "list_observed_protocol_package_ids lc (Some (pipeline_report ids)) = []"
  by (simp_all add: list_observed_pipeline_ids_def list_observed_protocol_package_ids_def array_prop_def pipeline_report_def
      string_prop_def comp_def)

text \<open>The pipelines a host runs when it runs its assignments.\<close>

definition running_pipelines :: "desired_host_state \<Rightarrow> string list" where
  "running_pipelines d = concat (map (\<lambda>a. map (\<lambda>r. as_assignmentId a @ '':'' @ r) (placement_route_refs a)) (dh_assignments d))"

lemma projected_expected:
  assumes "\<And>dep. dep \<in> set (pi_deployments input) \<Longrightarrow> plan_kind dep \<noteq> ServiceModuleKind"
  shows "set (list_expected_pipeline_ids lc' (Some (project_http_worker_desired_state lc now input)))
      = set (running_pipelines (project_http_worker_desired_state lc now input))"
    "list_expected_protocol_package_ids lc' (Some (project_http_worker_desired_state lc now input)) = []"
proof -
  let ?d = "project_http_worker_desired_state lc now input"
  define deps where "deps = filter (\<lambda>dep. should_assign_deployment_to_host lc dep (pi_hostId input)
      (pi_registeredHostIds input) (pi_candidateHosts input)) (pi_deployments input)"
  have as: "dh_assignments ?d = map (build_assignment_for_host (pi_hostId input)) deps"
    and rs: "dh_routes ?d = Some (map (\<lambda>dep. build_route_for_host (pi_hostId input) dep (pi_upstreamBaseUrl input)) deps)"
    by (simp_all add: project_http_worker_desired_state_def Let_def deps_def)
  have kind: "plan_kind dep \<noteq> ServiceModuleKind" if "dep \<in> set deps" for dep using that assms by (auto simp: deps_def)
  have "routed_ids ?d (build_assignment_for_host (pi_hostId input) dep)
      = [(''assign:'' @ pi_hostId input @ '':'' @ dp_deploymentId dep) @ '':'' @ build_route_id_for_host (pi_hostId input) dep]"
    if "dep \<in> set deps" for dep
  proof -
    have "Option.bind (assignment_program (build_assignment_for_host (pi_hostId input) dep)) ex_routeRefs
        = Some [build_route_id_for_host (pi_hostId input) dep]"
      using kind[OF that] by (cases "plan_kind dep") (auto simp: build_assignment_for_host_def Let_def assignment_program_def)
    moreover have "build_route_id_for_host (pi_hostId input) dep \<in> fr_routeId ` set (opt_else (dh_routes ?d) [])"
      using that by (force simp: rs build_route_for_host_def)
    ultimately show ?thesis by (simp add: routed_ids_def)
  qed
  then show "set (list_expected_pipeline_ids lc' (Some ?d)) = set (running_pipelines ?d)"
    using kind by (auto simp: list_expected_pipeline_ids_def running_pipelines_def as assignment_refs(2))
  show "list_expected_protocol_package_ids lc' (Some ?d) = []"
    using kind by (auto simp: list_expected_protocol_package_ids_def as module_package_ids_def)
qed

text \<open>A host that runs what the planner projected for it, one pipeline per route of each assignment, and
  reports exactly those, in any order, is checked as a match, whether it reports them directly or
  in its dynamic fields.\<close>

theorem projected_host_matches:
  assumes "\<And>dep. dep \<in> set (pi_deployments input) \<Longrightarrow> plan_kind dep \<noteq> ServiceModuleKind"
    and "runtime_summary_of (Some observed) = Some (pipeline_report ids)"
    and "set ids = set (running_pipelines (project_http_worker_desired_state lc now input))"
  shows "ck_status (check_host lc None (Some (project_http_worker_desired_state lc now input)) (Some observed) (pi_hostId input)) = Match"
  unfolding host_matches_iff
  using projected_expected[OF assms(1), of input lc lc now] assms(2,3)
  by (simp add: check_host_def Let_def list_observed_pipeline_ids_for_read_model_def
      list_observed_protocol_package_ids_for_read_model_def report_ids)

section \<open>Rollout counts\<close>

text \<open>Of the hosts a rollout summary lists for a deployment each is counted in exactly one of the six
  states (missing counts as pending), and only hosts with a desired state are listed: a host that
  still reports a deployment but has no desired state appears in no summary.\<close>

theorem rollout_counts_partition:
  "s \<in> set (build_deployment_rollout_summary lc ds os) \<Longrightarrow>
     rs_activeHosts s + rs_readyHosts s + rs_preparingHosts s + rs_drainingHosts s + rs_failedHosts s + rs_pendingHosts s
       = length (rs_hosts s)
   \<and> rs_desiredHosts s \<le> length (rs_hosts s) \<and> rh_hostId ` set (rs_hosts s) \<subseteq> dh_hostId ` set ds"
proof -
  assume "s \<in> set (build_deployment_rollout_summary lc ds os)"
  then obtain i where s: "s = summarize_deployment lc ds (index_observed os) i"
    by (auto simp: build_deployment_rollout_summary_def Let_def)
  define hosts where "hosts = js_sort (\<lambda>l r. lc (rh_hostId l) (rh_hostId r))
           (map the (filter (\<lambda>v. v \<noteq> None) (map (rollout_host_of i (index_observed os)) ds)))"
  have known: "rh_observedState h \<noteq> None \<and> rh_hostId h \<in> dh_hostId ` set ds" if "h \<in> set hosts" for h
    using that by (auto simp: hosts_def rollout_host_of_def Let_def split: option.splits if_splits)
  have part: "(\<And>h. h \<in> set hs \<Longrightarrow> rh_observedState h \<noteq> None) \<Longrightarrow>
      count_hosts (in_state StActive) hs + count_hosts (in_state StReady) hs + count_hosts (in_state StPreparing) hs
      + count_hosts (in_state StDraining) hs + count_hosts (in_state StFailed) hs
      + count_hosts (\<lambda>h. in_state StPending h \<or> rh_observedState h = Some StateMissing) hs = length hs" for hs
  proof (induction hs)
    case (Cons h hs)
    have "rh_observedState h \<noteq> None" using Cons.prems by simp
    then consider "rh_observedState h = Some StateMissing" | t where "rh_observedState h = Some (StateOf t)"
      by (metis not_None_eq rollout_state.exhaust)
    then show ?case
    proof cases
      case 1 then show ?thesis using Cons by (simp add: count_hosts_def in_state_def)
    next
      case 2 then show ?thesis using Cons by (cases t) (simp_all add: count_hosts_def in_state_def)
    qed
  qed (simp add: count_hosts_def)
  show ?thesis
    using part[of hosts] known unfolding s summarize_deployment_def hosts_def[symmetric] Let_def
    by (auto simp: count_hosts_def)
qed

section \<open>Attribution by substring\<close>

text \<open>A pipeline is attributed to a deployment when its id contains the deployment's id between colons.
  A deployment named like a host is therefore charged with every pipeline of that host.\<close>

theorem pipeline_attributed_by_host_name:
  "is_runtime_pipeline_id_for_deployment
     (as_assignmentId (build_assignment_for_host hostId dep) @ '':'' @ build_route_id_for_host hostId dep) hostId
   \<and> is_runtime_pipeline_id_for_deployment
     (as_assignmentId (build_assignment_for_host hostId dep) @ '':'' @ build_route_id_for_host hostId dep) (dp_deploymentId dep)"
proof -
  have s: "sublist m (p @ m @ q)" for m p q :: string by (rule sublist_appendI)
  show ?thesis
    using s[of "'':'' @ hostId @ '':''" "''assign''" "dp_deploymentId dep @ '':'' @ build_route_id_for_host hostId dep"]
      s[of "'':'' @ dp_deploymentId dep @ '':''" "''assign:'' @ hostId" "build_route_id_for_host hostId dep"]
    by (simp add: is_runtime_pipeline_id_for_deployment_def)
qed


section \<open>An example\<close>

definition example_running :: projection_input where
  "example_running = example_projection\<lparr>pi_hostId := ''a''\<rparr>"

definition example_report :: observed_host_state where
  "example_report = (example_observed ''a'')\<lparr>oh_dynamicState := (oh_dynamicState (example_observed ''a''))\<lparr>
     ds_dynamicFields := Some [(''runtimeSummary'', pipeline_report [''assign:a:web:r:a''])]\<rparr>\<rparr>"

theorem projected_host_matches_witness:
  "ck_status (check_host code_unit_compare None (Some (project_http_worker_desired_state code_unit_compare 0 example_running))
     (Some example_report) ''a'') = Match"
proof -
  have "runtime_summary_of (Some example_report) = Some (pipeline_report [''assign:a:web:r:a''])" by code_simp
  moreover have "set [''assign:a:web:r:a''] = set (running_pipelines (project_http_worker_desired_state code_unit_compare 0 example_running))"
    by code_simp
  ultimately show ?thesis
    using projected_host_matches[of example_running example_report "[''assign:a:web:r:a'']" code_unit_compare 0]
    by (simp add: example_running_def example_projection_def example_plan_def plan_kind_def)
qed

definition example_rollout :: "rollout_summary list" where
  "example_rollout = build_deployment_rollout_summary code_unit_compare
     [project_http_worker_desired_state code_unit_compare 0 example_running] [example_observed ''b'']"

theorem rollout_counts_partition_witness:
  "\<exists>s\<in>set example_rollout. length (rs_hosts s) = 1 \<and> rs_activeHosts s + rs_readyHosts s + rs_preparingHosts s
     + rs_drainingHosts s + rs_failedHosts s + rs_pendingHosts s = 1"
proof -
  have e: "length example_rollout = 1" "length (rs_hosts (hd example_rollout)) = 1" by code_simp+
  have "hd example_rollout \<in> set example_rollout" by (rule hd_in_set) (use e(1) in force)
  with rollout_counts_partition[of "hd example_rollout" code_unit_compare] e(2) show ?thesis
    unfolding example_rollout_def by fastforce
qed

end
