(* ===== verification/Sdk_Transport.thy ===== *)
theory Sdk_Transport
  imports Shared_Types
begin

text \<open>The WebSocket transport of the client library (src/src/sdk/transport/ws.ts, class
  WebSocketTransport): one current socket, its events, and reconnection with a growing delay.

  Sockets are numbered in the order the factory makes them. The hooks of the user run on the whole
  state, of which the transport is a part: the operations are polymorphic in the extension of the
  record, and the client library extends it with its own fields. The factory and \<open>send\<close> return;
  what was written to and closed on which socket is recorded.\<close>

section \<open>State\<close>

record close_info =
  ci_code :: "nat option"
  ci_reason :: "string option"
  ci_wasClean :: "bool option"

record transport_options =
  to_reconnectEnabled :: "bool option"
  to_initialDelayMs :: "int option"
  to_maxDelayMs :: "int option"
  to_shouldReconnectOnClose :: "(close_info \<Rightarrow> bool) option"

record transport_config =
  tc_reconnectEnabled :: bool
  tc_initialDelayMs :: int
  tc_maxDelayMs :: int
  tc_shouldReconnectOnClose :: "close_info \<Rightarrow> bool"

definition terminal_code :: "nat option \<Rightarrow> bool" where
  "terminal_code code \<longleftrightarrow> code \<in> {Some 4400, Some 4401, Some 4403, Some 4429, Some 4508}"

definition default_should_reconnect_on_close :: "close_info \<Rightarrow> bool" where
  "default_should_reconnect_on_close info = (if terminal_code (ci_code info) then False else True)"

definition transport_config_of :: "transport_options \<Rightarrow> transport_config" where
  "transport_config_of o1 = \<lparr>
     tc_reconnectEnabled = (case to_reconnectEnabled o1 of Some b \<Rightarrow> b | None \<Rightarrow> True),
     tc_initialDelayMs = (case to_initialDelayMs o1 of Some d \<Rightarrow> d | None \<Rightarrow> 500),
     tc_maxDelayMs = (case to_maxDelayMs o1 of Some d \<Rightarrow> d | None \<Rightarrow> 10000),
     tc_shouldReconnectOnClose = (case to_shouldReconnectOnClose o1 of Some f \<Rightarrow> f | None \<Rightarrow> default_should_reconnect_on_close)\<rparr>"

text \<open>\<open>tr_timer\<close>: the delay with which the reconnect timer was armed.\<close>

record 'm ws_transport =
  tr_socket :: "nat option"
  tr_url :: "string option"
  tr_reconnectDelayMs :: int
  tr_timer :: "int option"
  tr_manuallyClosed :: bool
  tr_next :: nat
  tr_sent :: "(nat \<times> 'm) list"
  tr_closed :: "nat list"

definition new_transport :: "transport_config \<Rightarrow> 'm ws_transport" where
  "new_transport cfg = \<lparr>tr_socket = None, tr_url = None, tr_reconnectDelayMs = tc_initialDelayMs cfg, tr_timer = None,
     tr_manuallyClosed = False, tr_next = 0, tr_sent = [], tr_closed = []\<rparr>"

section \<open>Calls\<close>

definition clear_reconnect_timer :: "('m, 'z) ws_transport_scheme \<Rightarrow> ('m, 'z) ws_transport_scheme" where
  "clear_reconnect_timer t = t\<lparr>tr_timer := None\<rparr>"

definition open_socket :: "('m, 'z) ws_transport_scheme \<Rightarrow> ('m, 'z) ws_transport_scheme" where
  "open_socket t = (if \<not> truthy (tr_url t) then t else t\<lparr>tr_socket := Some (tr_next t), tr_next := Suc (tr_next t)\<rparr>)"

definition close_current :: "('m, 'z) ws_transport_scheme \<Rightarrow> ('m, 'z) ws_transport_scheme" where
  "close_current t = (case tr_socket t of None \<Rightarrow> t | Some s \<Rightarrow> t\<lparr>tr_closed := tr_closed t @ [s], tr_socket := None\<rparr>)"

definition tr_connect :: "string \<Rightarrow> ('m, 'z) ws_transport_scheme \<Rightarrow> ('m, 'z) ws_transport_scheme" where
  "tr_connect url t = open_socket (clear_reconnect_timer ((close_current t)\<lparr>tr_url := Some url, tr_manuallyClosed := False\<rparr>))"

definition tr_send :: "'m \<Rightarrow> ('m, 'z) ws_transport_scheme \<Rightarrow> ('m, 'z) ws_transport_scheme" where
  "tr_send m t = (case tr_socket t of None \<Rightarrow> t | Some s \<Rightarrow> t\<lparr>tr_sent := tr_sent t @ [(s, m)]\<rparr>)"

definition tr_close :: "('m, 'z) ws_transport_scheme \<Rightarrow> ('m, 'z) ws_transport_scheme" where
  "tr_close t = close_current (clear_reconnect_timer (t\<lparr>tr_manuallyClosed := True\<rparr>))"

definition schedule_reconnect :: "('m, 'z) ws_transport_scheme \<Rightarrow> ('m, 'z) ws_transport_scheme" where
  "schedule_reconnect t = (clear_reconnect_timer t)\<lparr>tr_timer := Some (tr_reconnectDelayMs t)\<rparr>"

section \<open>Events\<close>

text \<open>Events of a socket that is no longer the current one are ignored.\<close>

definition tr_on_open ::
  "transport_config \<Rightarrow> (('m, 'z) ws_transport_scheme \<Rightarrow> ('m, 'z) ws_transport_scheme) \<Rightarrow> nat \<Rightarrow>
   ('m, 'z) ws_transport_scheme \<Rightarrow> ('m, 'z) ws_transport_scheme" where
  "tr_on_open cfg hook s t = (if tr_socket t \<noteq> Some s then t else hook (t\<lparr>tr_reconnectDelayMs := tc_initialDelayMs cfg\<rparr>))"

definition tr_on_close ::
  "transport_config \<Rightarrow> (close_info \<Rightarrow> ('m, 'z) ws_transport_scheme \<Rightarrow> ('m, 'z) ws_transport_scheme) \<Rightarrow> nat \<Rightarrow> close_info \<Rightarrow>
   ('m, 'z) ws_transport_scheme \<Rightarrow> ('m, 'z) ws_transport_scheme" where
  "tr_on_close cfg hook s info t = (if tr_socket t \<noteq> Some s then t
     else (let t1 = hook info (t\<lparr>tr_socket := None\<rparr>)
       in if \<not> tr_manuallyClosed t1 \<and> tc_reconnectEnabled cfg \<and> tc_shouldReconnectOnClose cfg info
          then schedule_reconnect t1 else t1))"

definition tr_on_message ::
  "('r \<Rightarrow> ('m, 'z) ws_transport_scheme \<Rightarrow> ('m, 'z) ws_transport_scheme) \<Rightarrow> nat \<Rightarrow> 'r \<Rightarrow>
   ('m, 'z) ws_transport_scheme \<Rightarrow> ('m, 'z) ws_transport_scheme" where
  "tr_on_message hook s raw t = (if tr_socket t \<noteq> Some s then t else hook raw t)"

definition tr_on_error ::
  "('r \<Rightarrow> ('m, 'z) ws_transport_scheme \<Rightarrow> ('m, 'z) ws_transport_scheme) \<Rightarrow> nat \<Rightarrow> 'r \<Rightarrow>
   ('m, 'z) ws_transport_scheme \<Rightarrow> ('m, 'z) ws_transport_scheme" where
  "tr_on_error hook s info t = (if tr_socket t \<noteq> Some s then t else hook info t)"

definition tr_timer_fires :: "transport_config \<Rightarrow> ('m, 'z) ws_transport_scheme \<Rightarrow> ('m, 'z) ws_transport_scheme" where
  "tr_timer_fires cfg t = (case tr_timer t of None \<Rightarrow> t
   | Some _ \<Rightarrow>
      (let t1 = t\<lparr>tr_timer := None\<rparr>
       in if tr_manuallyClosed t1 \<or> tr_socket t1 \<noteq> None \<or> \<not> truthy (tr_url t1) then t1
          else (let t2 = open_socket t1
            in t2\<lparr>tr_reconnectDelayMs := min (tr_reconnectDelayMs t2 * 2) (tc_maxDelayMs cfg)\<rparr>)))"

section \<open>Runs\<close>

text \<open>A user of the transport calls it from outside or from its hooks.\<close>

datatype 'm api_call = ApiConnect string | ApiSend 'm | ApiClose

fun run_api :: "'m api_call \<Rightarrow> ('m, 'z) ws_transport_scheme \<Rightarrow> ('m, 'z) ws_transport_scheme" where
  "run_api (ApiConnect url) t = tr_connect url t"
| "run_api (ApiSend m) t = tr_send m t"
| "run_api ApiClose t = tr_close t"

definition run_apis :: "'m api_call list \<Rightarrow> ('m, 'z) ws_transport_scheme \<Rightarrow> ('m, 'z) ws_transport_scheme" where
  "run_apis cs t = foldl (\<lambda>t c. run_api c t) t cs"

datatype 'm tr_event =
    Calls "'m api_call list"
  | SocketOpen nat "'m api_call list"
  | SocketClose nat close_info "'m api_call list"
  | SocketMessage nat "'m api_call list"
  | SocketError nat "'m api_call list"
  | ReconnectTimer

fun tr_step :: "transport_config \<Rightarrow> 'm tr_event \<Rightarrow> ('m, 'z) ws_transport_scheme \<Rightarrow> ('m, 'z) ws_transport_scheme" where
  "tr_step cfg (Calls cs) t = run_apis cs t"
| "tr_step cfg (SocketOpen s cs) t = tr_on_open cfg (run_apis cs) s t"
| "tr_step cfg (SocketClose s info cs) t = tr_on_close cfg (\<lambda>_. run_apis cs) s info t"
| "tr_step cfg (SocketMessage s cs) t = tr_on_message (\<lambda>_. run_apis cs) s () t"
| "tr_step cfg (SocketError s cs) t = tr_on_error (\<lambda>_. run_apis cs) s () t"
| "tr_step cfg ReconnectTimer t = tr_timer_fires cfg t"

definition tr_run :: "transport_config \<Rightarrow> 'm tr_event list \<Rightarrow> ('m, 'z) ws_transport_scheme \<Rightarrow> ('m, 'z) ws_transport_scheme" where
  "tr_run cfg es t = foldl (\<lambda>t e. tr_step cfg e t) t es"

fun calls_of :: "'m tr_event \<Rightarrow> 'm api_call list" where
  "calls_of (Calls cs) = cs"
| "calls_of (SocketOpen s cs) = cs"
| "calls_of (SocketClose s info cs) = cs"
| "calls_of (SocketMessage s cs) = cs"
| "calls_of (SocketError s cs) = cs"
| "calls_of ReconnectTimer = []"

definition connects :: "'m tr_event \<Rightarrow> bool" where
  "connects e \<longleftrightarrow> (\<exists>url. ApiConnect url \<in> set (calls_of e))"

lemma run_apis_simps [simp]: "run_apis [] t = t" "run_apis (c # cs) t = run_apis cs (run_api c t)"
  by (simp_all add: run_apis_def)

lemma tr_run_simps [simp]: "tr_run cfg [] t = t" "tr_run cfg (e # es) t = tr_run cfg es (tr_step cfg e t)"
  by (simp_all add: tr_run_def)

lemmas transport_defs = clear_reconnect_timer_def open_socket_def close_current_def tr_connect_def tr_send_def tr_close_def
  schedule_reconnect_def tr_on_open_def tr_on_close_def tr_on_message_def tr_on_error_def tr_timer_fires_def

section \<open>Invariant\<close>

definition delay_ok :: "transport_config \<Rightarrow> int \<Rightarrow> bool" where
  "delay_ok cfg d \<longleftrightarrow> min (tc_initialDelayMs cfg) (tc_maxDelayMs cfg) \<le> d \<and> d \<le> max (tc_initialDelayMs cfg) (tc_maxDelayMs cfg)"

text \<open>A transport at rest after \<open>close()\<close> has no socket and no timer, delays are within their bounds, a
  socket that was closed or is current was made by the factory, and sent messages went to such.\<close>

definition tr_ok :: "transport_config \<Rightarrow> ('m, 'z) ws_transport_scheme \<Rightarrow> bool" where
  "tr_ok cfg t \<longleftrightarrow> (tr_manuallyClosed t \<longrightarrow> tr_socket t = None \<and> tr_timer t = None)
     \<and> (\<forall>s. tr_socket t = Some s \<longrightarrow> s < tr_next t \<and> s \<notin> set (tr_closed t)) \<and> (\<forall>s\<in>set (tr_closed t). s < tr_next t)
     \<and> delay_ok cfg (tr_reconnectDelayMs t) \<and> (\<forall>d. tr_timer t = Some d \<longrightarrow> delay_ok cfg d)
     \<and> (tr_timer t \<noteq> None \<longrightarrow> tc_reconnectEnabled cfg)"

definition config_ok :: "transport_config \<Rightarrow> bool" where
  "config_ok cfg \<longleftrightarrow> 0 \<le> tc_initialDelayMs cfg \<and> 0 \<le> tc_maxDelayMs cfg"

lemma delay_ok_initial [simp]: "delay_ok cfg (tc_initialDelayMs cfg)"
  by (simp add: delay_ok_def)

lemma delay_ok_double: "config_ok cfg \<Longrightarrow> delay_ok cfg d \<Longrightarrow> delay_ok cfg (min (d * 2) (tc_maxDelayMs cfg))"
  by (auto simp: delay_ok_def config_ok_def)

lemma tr_ok_api: "tr_ok cfg t \<Longrightarrow> tr_ok cfg (run_api c t)"
  by (cases c) (auto simp: tr_ok_def transport_defs split: option.splits)

lemma tr_ok_apis: "tr_ok cfg t \<Longrightarrow> tr_ok cfg (run_apis cs t)"
  by (induction cs arbitrary: t) (auto simp: tr_ok_api)

lemma tr_ok_schedule:
  "tr_ok cfg t \<Longrightarrow> \<not> tr_manuallyClosed t \<Longrightarrow> tc_reconnectEnabled cfg \<Longrightarrow> tr_ok cfg (schedule_reconnect t)"
  by (simp add: tr_ok_def transport_defs)

lemma tr_ok_step:
  assumes "config_ok cfg" "tr_ok cfg t"
  shows "tr_ok cfg (tr_step cfg e t)"
proof (cases e)
  case (SocketClose s info cs)
  have "tr_ok cfg (run_apis cs (t\<lparr>tr_socket := None\<rparr>))"
    using assms(2) by (intro tr_ok_apis) (simp add: tr_ok_def)
  then show ?thesis using assms(2) by (simp add: SocketClose tr_on_close_def Let_def tr_ok_schedule)
next
  case (SocketOpen s cs)
  have "tr_ok cfg (run_apis cs (t\<lparr>tr_reconnectDelayMs := tc_initialDelayMs cfg\<rparr>))"
    using assms(2) by (intro tr_ok_apis) (simp add: tr_ok_def)
  then show ?thesis using assms(2) by (simp add: SocketOpen tr_on_open_def)
next
  case ReconnectTimer
  then show ?thesis using assms delay_ok_double[OF assms(1), of "tr_reconnectDelayMs t"]
    by (auto simp: tr_ok_def transport_defs Let_def split: option.split)
qed (use assms in \<open>simp_all add: tr_on_message_def tr_on_error_def tr_ok_apis\<close>)

lemma tr_ok_new: "tr_ok cfg (new_transport cfg)"
  by (simp add: tr_ok_def new_transport_def)

lemma tr_ok_run: "config_ok cfg \<Longrightarrow> tr_ok cfg t \<Longrightarrow> tr_ok cfg (tr_run cfg es t)"
  by (induction es arbitrary: t) (auto simp: tr_ok_step)

text \<open>C20: However the transport is used, its reconnect delay stays between the smaller and the larger of
  the two configured bounds, a timer is armed only while reconnection is enabled and the transport
  was not closed, and a socket it closed is never current again.\<close>

theorem transport_invariant:
  assumes "0 \<le> tc_initialDelayMs cfg" "0 \<le> tc_maxDelayMs cfg"
  shows "let t = tr_run cfg es (new_transport cfg) :: 'm ws_transport in
      min (tc_initialDelayMs cfg) (tc_maxDelayMs cfg) \<le> tr_reconnectDelayMs t
    \<and> tr_reconnectDelayMs t \<le> max (tc_initialDelayMs cfg) (tc_maxDelayMs cfg)
    \<and> (\<forall>d. tr_timer t = Some d \<longrightarrow> tc_reconnectEnabled cfg \<and> \<not> tr_manuallyClosed t
          \<and> min (tc_initialDelayMs cfg) (tc_maxDelayMs cfg) \<le> d \<and> d \<le> max (tc_initialDelayMs cfg) (tc_maxDelayMs cfg))
    \<and> (\<forall>s. tr_socket t = Some s \<longrightarrow> s \<notin> set (tr_closed t) \<and> \<not> tr_manuallyClosed t)"
proof -
  let ?t = "tr_run cfg es (new_transport cfg) :: 'm ws_transport"
  have "tr_ok cfg ?t" using assms by (intro tr_ok_run tr_ok_new) (simp add: config_ok_def)
  then show ?thesis by (auto simp: Let_def tr_ok_def delay_ok_def)
qed

section \<open>Reconnection\<close>

definition at_rest :: "('m, 'z) ws_transport_scheme \<Rightarrow> bool" where
  "at_rest t \<longleftrightarrow> tr_socket t = None \<and> tr_timer t = None"

lemma at_rest_api: "at_rest t \<Longrightarrow> (\<And>url. c \<noteq> ApiConnect url) \<Longrightarrow> at_rest (run_api c t) \<and> tr_next (run_api c t) = tr_next t"
  by (cases c) (auto simp: at_rest_def transport_defs)

lemma at_rest_apis:
  "at_rest t \<Longrightarrow> (\<And>url. ApiConnect url \<notin> set cs) \<Longrightarrow> at_rest (run_apis cs t) \<and> tr_next (run_apis cs t) = tr_next t"
proof (induction cs arbitrary: t)
  case (Cons c cs)
  have "at_rest (run_api c t) \<and> tr_next (run_api c t) = tr_next t" using Cons.prems by (intro at_rest_api) auto
  then show ?case using Cons.IH[of "run_api c t"] Cons.prems(2) by auto
qed simp

lemma at_rest_step: "at_rest t \<Longrightarrow> \<not> connects e \<Longrightarrow> at_rest (tr_step cfg e t) \<and> tr_next (tr_step cfg e t) = tr_next t"
proof (cases e)
  case (Calls cs)
  then show "at_rest t \<Longrightarrow> \<not> connects e \<Longrightarrow> at_rest (tr_step cfg e t) \<and> tr_next (tr_step cfg e t) = tr_next t"
    using at_rest_apis[of t cs] by (auto simp: connects_def)
qed (auto simp: at_rest_def transport_defs)

lemma at_rest_run: "at_rest t \<Longrightarrow> (\<And>e. e \<in> set es \<Longrightarrow> \<not> connects e) \<Longrightarrow>
   at_rest (tr_run cfg es t) \<and> tr_next (tr_run cfg es t) = tr_next t"
proof (induction es arbitrary: t)
  case (Cons e es)
  have "at_rest (tr_step cfg e t) \<and> tr_next (tr_step cfg e t) = tr_next t" using Cons.prems by (intro at_rest_step) auto
  then show ?case using Cons.IH[of "tr_step cfg e t"] Cons.prems(2) by auto
qed simp

text \<open>A close with one of the codes the gateway uses for refusals (4400, 4401, 4403, 4429, 4508) is
  final under the default policy, and so is \<open>close()\<close>: whatever happens later, no socket is opened
  and no timer armed until the user calls \<open>connect\<close>.\<close>

theorem refused_connection_stays_closed:
  assumes policy: "tc_shouldReconnectOnClose cfg = default_should_reconnect_on_close" "terminal_code (ci_code info)"
    and open1: "tr_socket t = Some s" "tr_timer t = None"
    and later: "\<And>e. e \<in> set es \<Longrightarrow> \<not> connects e"
  shows "let t1 = tr_run cfg (SocketClose s info [] # es) t; t2 = tr_run cfg es (tr_close t) in
      tr_socket t1 = None \<and> tr_timer t1 = None \<and> tr_next t1 = tr_next t
    \<and> tr_socket t2 = None \<and> tr_timer t2 = None \<and> tr_next t2 = tr_next t"
proof -
  have "at_rest (tr_step cfg (SocketClose s info []) t) \<and> tr_next (tr_step cfg (SocketClose s info []) t) = tr_next t"
    using policy open1 by (simp add: at_rest_def tr_on_close_def Let_def default_should_reconnect_on_close_def)
  moreover have "at_rest (tr_close t) \<and> tr_next (tr_close t) = tr_next t"
    using open1 by (simp add: at_rest_def transport_defs)
  ultimately show ?thesis
    using at_rest_run[of "tr_step cfg (SocketClose s info []) t" es cfg] at_rest_run[of "tr_close t" es cfg] later
    by (simp add: at_rest_def Let_def)
qed

text \<open>Any other close of the current socket arms the timer with the current delay, and the timer opens
  a new socket and doubles the delay up to its limit.\<close>

theorem lost_connection_is_reopened:
  assumes "tr_socket t = Some s" "\<not> tr_manuallyClosed t" "truthy (tr_url t)"
    and "tc_reconnectEnabled cfg" "tc_shouldReconnectOnClose cfg info"
  shows "let t1 = tr_step cfg (SocketClose s info []) t; t2 = tr_step cfg ReconnectTimer t1 in
      tr_socket t1 = None \<and> tr_timer t1 = Some (tr_reconnectDelayMs t)
    \<and> tr_socket t2 = Some (tr_next t) \<and> tr_timer t2 = None
    \<and> tr_reconnectDelayMs t2 = min (tr_reconnectDelayMs t * 2) (tc_maxDelayMs cfg)"
  using assms by (simp add: transport_defs Let_def)

section \<open>An example\<close>

definition example_transport :: transport_config where
  "example_transport = transport_config_of \<lparr>to_reconnectEnabled = None, to_initialDelayMs = None, to_maxDelayMs = None,
     to_shouldReconnectOnClose = None\<rparr>"

definition close_code :: "nat \<Rightarrow> close_info" where
  "close_code n = \<lparr>ci_code = Some n, ci_reason = None, ci_wasClean = None\<rparr>"

definition dialed :: "string ws_transport" where
  "dialed = tr_run example_transport [Calls [ApiConnect ''ws://h'']] (new_transport example_transport)"

lemma dialed_facts:
  "tr_socket dialed = Some 0" "tr_timer dialed = None" "\<not> tr_manuallyClosed dialed" "truthy (tr_url dialed)"
  "tr_next dialed = 1" "tr_reconnectDelayMs dialed = 500"
  by (simp_all add: dialed_def transport_defs new_transport_def example_transport_def transport_config_of_def)

theorem transport_invariant_witness:
  "tr_reconnectDelayMs (tr_run example_transport [Calls [ApiConnect ''ws://h''], SocketClose 0 (close_code 1006) [], ReconnectTimer]
     (new_transport example_transport) :: string ws_transport) \<le> 10000"
proof -
  have c: "tc_initialDelayMs example_transport = 500" "tc_maxDelayMs example_transport = 10000"
    by (simp_all add: example_transport_def transport_config_of_def)
  show ?thesis
    using transport_invariant[of example_transport "[Calls [ApiConnect ''ws://h''], SocketClose 0 (close_code 1006) [], ReconnectTimer] :: string tr_event list"]
    unfolding Let_def c by (simp del: tr_run_simps)
qed

lemma example_policy:
  "tc_shouldReconnectOnClose example_transport = default_should_reconnect_on_close" "tc_reconnectEnabled example_transport"
  "terminal_code (ci_code (close_code 4401))" "tc_shouldReconnectOnClose example_transport (close_code 1006)"
  by (simp_all add: example_transport_def transport_config_of_def terminal_code_def close_code_def default_should_reconnect_on_close_def)

theorem refused_connection_stays_closed_witness:
  "tr_socket (tr_run example_transport [SocketClose 0 (close_code 4401) [], ReconnectTimer, Calls [ApiSend ''x'']] dialed) = None"
proof -
  have later: "\<And>e. e \<in> set [ReconnectTimer, Calls [ApiSend ''x'']] \<Longrightarrow> \<not> connects e" by (auto simp: connects_def)
  show ?thesis
    using refused_connection_stays_closed[OF example_policy(1,3) dialed_facts(1,2) later] unfolding Let_def by blast
qed

theorem lost_connection_is_reopened_witness:
  "tr_socket (tr_step example_transport ReconnectTimer (tr_step example_transport (SocketClose 0 (close_code 1006) []) dialed)) = Some 1"
  using lost_connection_is_reopened[OF dialed_facts(1,3,4) example_policy(2,4)] unfolding Let_def dialed_facts(5) by blast

end
