(* ===== verification/Sdk_Pending.thy ===== *)
theory Sdk_Pending
  imports Sdk_Transport
begin

text \<open>A delivery the client library is waiting for (src/src/sdk/runtime/client.ts, PendingDelivery): its
  listeners, its waiters, the outcome of its two stages and its two timers, and what each delivery
  event does to it.

  Promises are numbers. What happens to a delivery is described by its new value and by what the
  step settles: a list of promises with their results, in the order of the code, and the calls of
  the user's listeners.\<close>

section \<open>Errors\<close>

datatype client_state = CIdle | CConnecting | CAuthenticating | CReady | CClosed

datatype await_stage = RecvAck | HandleAck

datatype delivery_stage = StageRoute | StageRecvAck | StageHandleAck | StageRecvAckTimeout | StageHandleAckTimeout
  | StageTransportClosed | StageError | StageProtocolError

datatype error_layer = LayerEnvelope | LayerSystem | LayerBusiness

record protocol_error_info =
  px_layer :: error_layer
  px_message :: string
  px_protocol :: "string option"
  px_version :: "string option"
  px_action :: "string option"
  px_msgId :: "string option"
  px_traceId :: "string option"

record timeout_info =
  ti_stage :: await_stage
  ti_timeoutMs :: int
  ti_startedAt :: int
  ti_timedOutAt :: int

datatype error_detail = DetailTimeout timeout_info | DetailErr sys_err_payload
  | DetailProtocol protocol_error_info | DetailState client_state | DetailStage delivery_stage
  | DetailTimeoutMs int | DetailJson json

record sdk_error =
  sx_code :: sdk_error_code
  sx_remote :: bool
  sx_retryable :: bool
  sx_message :: string
  sx_traceId :: "string option"
  sx_refMsgId :: "string option"
  sx_detail :: "error_detail option"
  sx_close :: "close_info option"

record sdk_error_options =
  xo_retryable :: "bool option"
  xo_traceId :: "string option"
  xo_refMsgId :: "string option"
  xo_detail :: "error_detail option"
  xo_close :: "close_info option"

definition no_sdk_options :: sdk_error_options where
  "no_sdk_options = \<lparr>xo_retryable = None, xo_traceId = None, xo_refMsgId = None, xo_detail = None, xo_close = None\<rparr>"

definition create_client_sdk_error :: "client_error_code \<Rightarrow> string \<Rightarrow> sdk_error_options \<Rightarrow> sdk_error" where
  "create_client_sdk_error code message o1 = \<lparr>sx_code = ClientCode code, sx_remote = False,
     sx_retryable = (case xo_retryable o1 of Some b \<Rightarrow> b | None \<Rightarrow> False), sx_message = message,
     sx_traceId = xo_traceId o1, sx_refMsgId = xo_refMsgId o1, sx_detail = xo_detail o1, sx_close = xo_close o1\<rparr>"

definition create_remote_sdk_error :: "sys_err_payload \<Rightarrow> sdk_error" where
  "create_remote_sdk_error p = \<lparr>sx_code = RemoteCode (se_code p), sx_remote = True, sx_retryable = se_retryable p,
     sx_message = se_message p, sx_traceId = se_traceId p, sx_refMsgId = se_refMsgId p,
     sx_detail = map_option DetailJson (se_detail p), sx_close = None\<rparr>"

section \<open>Delivery events\<close>

record route_payload =
  rp_resolvedPeers :: "string list"
  rp_deliveredConns :: "conn_ref list"

record ack_payload =
  ap_ackFor :: string
  ap_at :: int

record delivery_event =
  ce_stage :: delivery_stage
  ce_msgId :: string
  ce_traceId :: "string option"
  ce_protocol :: "string option"
  ce_version :: "string option"
  ce_action :: "string option"
  ce_close :: "close_info option"
  ce_sdkError :: "sdk_error option"
  ce_route :: "route_payload option"
  ce_recvAck :: "ack_payload option"
  ce_handleAck :: "ack_payload option"
  ce_error :: "sys_err_payload option"
  ce_protocolError :: "protocol_error_info option"
  ce_timeout :: "timeout_info option"

definition delivery_event_of :: "delivery_stage \<Rightarrow> string \<Rightarrow> string option \<Rightarrow> delivery_event" where
  "delivery_event_of stage msgId traceId = \<lparr>ce_stage = stage, ce_msgId = msgId, ce_traceId = traceId,
     ce_protocol = None, ce_version = None, ce_action = None, ce_close = None, ce_sdkError = None, ce_route = None,
     ce_recvAck = None, ce_handleAck = None, ce_error = None, ce_protocolError = None, ce_timeout = None\<rparr>"

definition format_close_suffix :: "close_info option \<Rightarrow> string" where
  "format_close_suffix info =
    (let code = Option.bind info ci_code; reason = Option.bind info ci_reason
     in (case code of Some c \<Rightarrow> '' (code '' @ nat_str c | None \<Rightarrow> [])
        @ (if truthy reason then (if code \<noteq> None then '', '' else '' ('') @ ''reason '' @ the reason else [])
        @ (if code \<noteq> None \<or> truthy reason then '')'' else []))"

fun stage_str :: "await_stage \<Rightarrow> string" where
  "stage_str RecvAck = ''recvAck''"
| "stage_str HandleAck = ''handleAck''"

fun delivery_stage_str :: "delivery_stage \<Rightarrow> string" where
  "delivery_stage_str StageRoute = ''route''"
| "delivery_stage_str StageRecvAck = ''recvAck''"
| "delivery_stage_str StageHandleAck = ''handleAck''"
| "delivery_stage_str StageRecvAckTimeout = ''recvAckTimeout''"
| "delivery_stage_str StageHandleAckTimeout = ''handleAckTimeout''"
| "delivery_stage_str StageTransportClosed = ''transportClosed''"
| "delivery_stage_str StageError = ''error''"
| "delivery_stage_str StageProtocolError = ''protocolError''"

definition int_str :: "int \<Rightarrow> string" where
  "int_str n = (if n < 0 then ''-'' @ nat_str (nat (- n)) else nat_str (nat n))"

definition event_options :: "delivery_event \<Rightarrow> sdk_error_options" where
  "event_options ev = no_sdk_options\<lparr>xo_traceId := ce_traceId ev, xo_refMsgId := Some (ce_msgId ev)\<rparr>"

definition delivery_failure_error :: "delivery_event \<Rightarrow> sdk_error" where
  "delivery_failure_error ev = (case ce_stage ev of
     StageTransportClosed \<Rightarrow> (case ce_sdkError ev of Some e \<Rightarrow> e
       | None \<Rightarrow> create_client_sdk_error CLIENT_TRANSPORT_CLOSED
           (''Transport closed before delivery completed'' @ format_close_suffix (ce_close ev))
           ((event_options ev)\<lparr>xo_retryable := Some True, xo_close := ce_close ev\<rparr>))
   | StageError \<Rightarrow> (case ce_sdkError ev of Some e \<Rightarrow> e
       | None \<Rightarrow> create_client_sdk_error CLIENT_PROTOCOL_ERROR
           (case ce_error ev of Some p \<Rightarrow> se_message p | None \<Rightarrow> ''Delivery failed'')
           ((event_options ev)\<lparr>xo_detail := map_option DetailErr (ce_error ev)\<rparr>))
   | StageProtocolError \<Rightarrow> create_client_sdk_error CLIENT_PROTOCOL_ERROR
       (case ce_protocolError ev of Some i \<Rightarrow> px_message i | None \<Rightarrow> ''Protocol error'')
       ((event_options ev)\<lparr>xo_detail := map_option DetailProtocol (ce_protocolError ev)\<rparr>)
   | stage \<Rightarrow> if stage = StageRecvAckTimeout \<or> stage = StageHandleAckTimeout
       then create_client_sdk_error CLIENT_DELIVERY_TIMEOUT
         (''Timed out waiting for '' @ (case ce_timeout ev of Some t \<Rightarrow> stage_str (ti_stage t) | None \<Rightarrow> ''delivery'')
           @ '' after '' @ int_str (case ce_timeout ev of Some t \<Rightarrow> ti_timeoutMs t | None \<Rightarrow> 0) @ ''ms'')
         ((event_options ev)\<lparr>xo_retryable := Some True, xo_detail := map_option DetailTimeout (ce_timeout ev)\<rparr>)
       else create_client_sdk_error CLIENT_PROTOCOL_ERROR (''Unexpected delivery failure stage: '' @ delivery_stage_str stage)
         ((event_options ev)\<lparr>xo_detail := Some (DetailStage stage)\<rparr>))"

definition is_result_success_event :: "delivery_event \<Rightarrow> await_stage \<Rightarrow> bool" where
  "is_result_success_event ev until \<longleftrightarrow>
     ce_stage ev = (case until of RecvAck \<Rightarrow> StageRecvAck | HandleAck \<Rightarrow> StageHandleAck)"

definition is_result_failure_event :: "delivery_event \<Rightarrow> await_stage \<Rightarrow> bool" where
  "is_result_failure_event ev until = (case ce_stage ev of
     StageError \<Rightarrow> True | StageProtocolError \<Rightarrow> True | StageTransportClosed \<Rightarrow> True | StageHandleAckTimeout \<Rightarrow> True
   | StageRecvAckTimeout \<Rightarrow> until = RecvAck \<or> until = HandleAck
   | _ \<Rightarrow> False)"

section \<open>A pending delivery\<close>

datatype outcome = OutEvent delivery_event | OutError sdk_error

datatype listener = UserListener nat | ResultListener nat await_stage

datatype promise_result = Resolved delivery_event | ResolvedVoid | RejectedWith sdk_error

record pending_delivery =
  pv_msgId :: string
  pv_traceId :: string
  pv_protocol :: string
  pv_version :: string
  pv_action :: string
  pv_createdAt :: int
  pv_listeners :: "listener list"
  pv_recvAckWaiters :: "nat list"
  pv_handleAckWaiters :: "nat list"
  pv_recvAckOutcome :: "outcome option"
  pv_handleAckOutcome :: "outcome option"
  pv_recvAckTimeoutMs :: int
  pv_handleAckTimeoutMs :: int
  pv_recvAckTimer :: bool
  pv_handleAckTimer :: bool
  pv_completed :: bool

type_synonym settlement = "nat \<times> promise_result"

definition outcome_of :: "await_stage \<Rightarrow> pending_delivery \<Rightarrow> outcome option" where
  "outcome_of stage p = (case stage of RecvAck \<Rightarrow> pv_recvAckOutcome p | HandleAck \<Rightarrow> pv_handleAckOutcome p)"

definition timer_of :: "await_stage \<Rightarrow> pending_delivery \<Rightarrow> bool" where
  "timer_of stage p = (case stage of RecvAck \<Rightarrow> pv_recvAckTimer p | HandleAck \<Rightarrow> pv_handleAckTimer p)"

definition timeout_of :: "await_stage \<Rightarrow> pending_delivery \<Rightarrow> int" where
  "timeout_of stage p = (case stage of RecvAck \<Rightarrow> pv_recvAckTimeoutMs p | HandleAck \<Rightarrow> pv_handleAckTimeoutMs p)"

definition clear_pending_timers :: "pending_delivery \<Rightarrow> pending_delivery" where
  "clear_pending_timers p = p\<lparr>pv_recvAckTimer := False, pv_handleAckTimer := False\<rparr>"

definition mark_pending_stage_failure :: "await_stage \<Rightarrow> sdk_error \<Rightarrow> pending_delivery \<Rightarrow> pending_delivery" where
  "mark_pending_stage_failure stage err p = (if outcome_of stage p \<noteq> None then p
     else (case stage of RecvAck \<Rightarrow> p\<lparr>pv_recvAckOutcome := Some (OutError err)\<rparr>
        | HandleAck \<Rightarrow> p\<lparr>pv_handleAckOutcome := Some (OutError err)\<rparr>))"

text \<open>All waiters are rejected, those for the first stage first.\<close>

definition reject_pending_waiters :: "sdk_error \<Rightarrow> pending_delivery \<Rightarrow> pending_delivery \<times> settlement list" where
  "reject_pending_waiters err p = (p\<lparr>pv_recvAckWaiters := [], pv_handleAckWaiters := []\<rparr>,
     map (\<lambda>q. (q, RejectedWith err)) (pv_recvAckWaiters p @ pv_handleAckWaiters p))"

text \<open>The listeners hear the event; one that waits for a result and gets it goes away.\<close>

definition hears_result :: "delivery_event \<Rightarrow> listener \<Rightarrow> settlement option" where
  "hears_result ev l = (case l of UserListener _ \<Rightarrow> None
   | ResultListener q until \<Rightarrow>
      if is_result_success_event ev until then Some (q, Resolved ev)
      else if is_result_failure_event ev until then Some (q, RejectedWith (delivery_failure_error ev)) else None)"

definition notify_listeners :: "delivery_event \<Rightarrow> pending_delivery \<Rightarrow> pending_delivery \<times> settlement list" where
  "notify_listeners ev p = (p\<lparr>pv_listeners := filter (\<lambda>l. hears_result ev l = None) (pv_listeners p)\<rparr>,
     map the (filter (\<lambda>r. r \<noteq> None) (map (hears_result ev) (pv_listeners p))))"

definition decorate_delivery_event :: "delivery_event \<Rightarrow> pending_delivery \<Rightarrow> delivery_event" where
  "decorate_delivery_event ev p = ev\<lparr>ce_traceId := Some (case ce_traceId ev of Some t \<Rightarrow> t | None \<Rightarrow> pv_traceId p),
     ce_protocol := Some (pv_protocol p), ce_version := Some (pv_version p), ce_action := Some (pv_action p)\<rparr>"

text \<open>Whether an event ends the delivery.\<close>

definition ends_delivery :: "delivery_stage \<Rightarrow> bool" where
  "ends_delivery stage \<longleftrightarrow> stage \<in> {StageHandleAck, StageHandleAckTimeout, StageTransportClosed, StageError, StageProtocolError}"

text \<open>The stage switch, after the listeners.\<close>

definition apply_stage :: "delivery_event \<Rightarrow> pending_delivery \<Rightarrow> pending_delivery \<times> settlement list" where
  "apply_stage ev p = (case ce_stage ev of
     StageRecvAck \<Rightarrow> (p\<lparr>pv_recvAckTimer := False, pv_recvAckOutcome := Some (OutEvent ev), pv_recvAckWaiters := []\<rparr>,
       map (\<lambda>q. (q, Resolved ev)) (pv_recvAckWaiters p))
   | StageRecvAckTimeout \<Rightarrow>
      (let err = delivery_failure_error ev
       in (p\<lparr>pv_recvAckOutcome := Some (OutError err), pv_recvAckTimer := False, pv_recvAckWaiters := []\<rparr>,
           map (\<lambda>q. (q, RejectedWith err)) (pv_recvAckWaiters p)))
   | StageHandleAck \<Rightarrow> ((clear_pending_timers p)\<lparr>pv_handleAckOutcome := Some (OutEvent ev), pv_handleAckWaiters := [],
         pv_completed := True\<rparr>,
       map (\<lambda>q. (q, Resolved ev)) (pv_handleAckWaiters p))
   | StageRoute \<Rightarrow> (p, [])
   | _ \<Rightarrow>
      (let err = delivery_failure_error ev;
           (p1, settled) = reject_pending_waiters err (mark_pending_stage_failure HandleAck err
             (mark_pending_stage_failure RecvAck err (clear_pending_timers p)))
       in (p1\<lparr>pv_completed := True\<rparr>, settled)))"

definition pending_event :: "delivery_event \<Rightarrow> pending_delivery \<Rightarrow> pending_delivery \<times> settlement list" where
  "pending_event ev p =
    (let (p1, s1) = notify_listeners ev p; (p2, s2) = apply_stage ev p1 in (p2, s1 @ s2))"

text \<open>\<open>close()\<close> of the client, for one delivery: the listeners are not told.\<close>

definition client_closed_error :: sdk_error where
  "client_closed_error = create_client_sdk_error CLIENT_TRANSPORT_CLOSED ''Client closed before delivery completed''
     (no_sdk_options\<lparr>xo_close := Some \<lparr>ci_code = None, ci_reason = Some ''client closed'', ci_wasClean = None\<rparr>\<rparr>)"

definition pending_closed :: "pending_delivery \<Rightarrow> pending_delivery \<times> settlement list" where
  "pending_closed p = reject_pending_waiters client_closed_error
     (mark_pending_stage_failure HandleAck client_closed_error
       (mark_pending_stage_failure RecvAck client_closed_error (clear_pending_timers p)))"

section \<open>Waiting\<close>

text \<open>A wait adds the promise \<open>q\<close>, or settles it at once.\<close>

definition settlement_of :: "outcome \<Rightarrow> promise_result" where
  "settlement_of out = (case out of OutEvent ev \<Rightarrow> Resolved ev | OutError e \<Rightarrow> RejectedWith e)"

definition wait_for_pending_stage :: "nat \<Rightarrow> await_stage \<Rightarrow> pending_delivery \<Rightarrow> pending_delivery \<times> settlement list" where
  "wait_for_pending_stage q stage p = (case outcome_of stage p of
     Some out \<Rightarrow> (p, [(q, settlement_of out)])
   | None \<Rightarrow> ((case stage of RecvAck \<Rightarrow> p\<lparr>pv_recvAckWaiters := pv_recvAckWaiters p @ [q]\<rparr>
        | HandleAck \<Rightarrow> p\<lparr>pv_handleAckWaiters := pv_handleAckWaiters p @ [q]\<rparr>), []))"

definition pending_result_settlement :: "await_stage \<Rightarrow> pending_delivery \<Rightarrow> outcome option" where
  "pending_result_settlement until p = (if until = RecvAck then pv_recvAckOutcome p
     else (case pv_recvAckOutcome p of Some (OutError e) \<Rightarrow> Some (OutError e) | _ \<Rightarrow> pv_handleAckOutcome p))"

definition wait_for_pending_result :: "nat \<Rightarrow> await_stage \<Rightarrow> pending_delivery \<Rightarrow> pending_delivery \<times> settlement list" where
  "wait_for_pending_result q until p = (case pending_result_settlement until p of
     Some out \<Rightarrow> (p, [(q, settlement_of out)])
   | None \<Rightarrow> (p\<lparr>pv_listeners := pv_listeners p @ [ResultListener q until]\<rparr>, []))"

section \<open>What waits on a delivery\<close>

definition result_promises :: "listener list \<Rightarrow> nat list" where
  "result_promises ls = concat (map (\<lambda>l. case l of ResultListener q _ \<Rightarrow> [q] | _ \<Rightarrow> []) ls)"

definition pend_promises :: "pending_delivery \<Rightarrow> nat list" where
  "pend_promises p = pv_recvAckWaiters p @ pv_handleAckWaiters p @ result_promises (pv_listeners p)"

lemma result_promises_simps [simp]:
  "result_promises [] = []" "result_promises (UserListener u # ls) = result_promises ls"
  "result_promises (ResultListener q w # ls) = q # result_promises ls"
  "result_promises (ls @ ls') = result_promises ls @ result_promises ls'"
  by (simp_all add: result_promises_def)

lemma notify_promises:
  "mset (result_promises (filter (\<lambda>l. hears_result ev l = None) ls))
     + mset (map fst (map the (filter (\<lambda>r. r \<noteq> None) (map (hears_result ev) ls)))) = mset (result_promises ls)"
proof (induction ls)
  case (Cons l ls)
  then show ?case by (cases l) (auto simp: hears_result_def)
qed simp

text \<open>No step drops a promise, and none makes up one: what waited still waits or is settled.\<close>

lemma mark_failure_promises [simp]: "pend_promises (mark_pending_stage_failure stage err p) = pend_promises p"
  by (cases stage) (simp_all add: mark_pending_stage_failure_def pend_promises_def)

lemma clear_timers_promises [simp]: "pend_promises (clear_pending_timers p) = pend_promises p"
  by (simp add: clear_pending_timers_def pend_promises_def)

lemma reject_waiters_promises:
  "mset (pend_promises (fst (reject_pending_waiters err p))) + mset (map fst (snd (reject_pending_waiters err p)))
     = mset (pend_promises p)"
  by (simp add: reject_pending_waiters_def pend_promises_def comp_def)

lemma completed_promises [simp]: "pend_promises (p\<lparr>pv_completed := b\<rparr>) = pend_promises p"
  by (simp add: pend_promises_def)

lemma apply_stage_promises:
  "mset (pend_promises (fst (apply_stage ev p))) + mset (map fst (snd (apply_stage ev p))) = mset (pend_promises p)"
proof (cases "ce_stage ev")
  case StageHandleAckTimeout
  then show ?thesis using reject_waiters_promises[of "delivery_failure_error ev"]
    by (simp add: apply_stage_def Let_def case_prod_beta)
next
  case StageTransportClosed
  then show ?thesis using reject_waiters_promises[of "delivery_failure_error ev"]
    by (simp add: apply_stage_def Let_def case_prod_beta)
next
  case StageError
  then show ?thesis using reject_waiters_promises[of "delivery_failure_error ev"]
    by (simp add: apply_stage_def Let_def case_prod_beta)
next
  case StageProtocolError
  then show ?thesis using reject_waiters_promises[of "delivery_failure_error ev"]
    by (simp add: apply_stage_def Let_def case_prod_beta)
qed (simp_all add: apply_stage_def Let_def pend_promises_def comp_def clear_pending_timers_def)

lemma pending_event_promises:
  "mset (pend_promises (fst (pending_event ev p))) + mset (map fst (snd (pending_event ev p))) = mset (pend_promises p)"
proof -
  define p1 s1 where "p1 = fst (notify_listeners ev p)" and "s1 = snd (notify_listeners ev p)"
  define p2 s2 where "p2 = fst (apply_stage ev p1)" and "s2 = snd (apply_stage ev p1)"
  have "mset (pend_promises p) = mset (pend_promises p1) + mset (map fst s1)"
    using notify_promises[of ev "pv_listeners p"] by (simp add: p1_def s1_def notify_listeners_def pend_promises_def)
  moreover have "mset (pend_promises p1) = mset (pend_promises p2) + mset (map fst s2)"
    unfolding p2_def s2_def by (rule apply_stage_promises[symmetric])
  moreover have "pending_event ev p = (p2, s1 @ s2)"
    by (simp add: pending_event_def case_prod_beta Let_def p1_def s1_def p2_def s2_def)
  ultimately show ?thesis by (simp add: ac_simps)
qed

lemma pending_closed_promises:
  "mset (pend_promises (fst (pending_closed p))) + mset (map fst (snd (pending_closed p))) = mset (pend_promises p)"
  unfolding pending_closed_def using reject_waiters_promises by simp

lemma wait_stage_promises:
  "mset (pend_promises (fst (wait_for_pending_stage q stage p))) + mset (map fst (snd (wait_for_pending_stage q stage p)))
     = add_mset q (mset (pend_promises p))"
  by (cases stage) (auto simp: wait_for_pending_stage_def pend_promises_def split: option.split)

lemma wait_result_promises:
  "mset (pend_promises (fst (wait_for_pending_result q stage p))) + mset (map fst (snd (wait_for_pending_result q stage p)))
     = add_mset q (mset (pend_promises p))"
  by (auto simp: wait_for_pending_result_def pend_promises_def split: option.split)

section \<open>Ends\<close>

text \<open>The events that end a delivery in failure leave nobody waiting on it.\<close>

definition fails_delivery :: "delivery_stage \<Rightarrow> bool" where
  "fails_delivery stage \<longleftrightarrow> ends_delivery stage \<and> stage \<noteq> StageHandleAck"

lemma failed_nobody_waits:
  assumes "fails_delivery (ce_stage ev)"
  shows "pend_promises (fst (pending_event ev p)) = []"
proof -
  have "hears_result ev (ResultListener q w) \<noteq> None" for q w
    using assms by (cases "ce_stage ev"; cases w) (simp_all add: hears_result_def fails_delivery_def ends_delivery_def
        is_result_success_event_def is_result_failure_event_def)
  then have n: "result_promises (filter (\<lambda>l. hears_result ev l = None) ls) = []" for ls
  proof (induction ls)
    case (Cons l ls) then show ?case by (cases l) auto
  qed simp
  show ?thesis
    using assms by (cases "ce_stage ev") (simp_all add: fails_delivery_def ends_delivery_def pending_event_def notify_listeners_def
        apply_stage_def Let_def reject_pending_waiters_def pend_promises_def mark_pending_stage_failure_def outcome_of_def
        clear_pending_timers_def n)
qed

lemma ended_completed: "ends_delivery (ce_stage ev) \<Longrightarrow> pv_completed (fst (pending_event ev p))"
  by (cases "ce_stage ev") (simp_all add: ends_delivery_def pending_event_def notify_listeners_def
        apply_stage_def Let_def reject_pending_waiters_def)

lemma pending_event_keeps:
  "pv_msgId (fst (pending_event ev p)) = pv_msgId p"
  "pv_recvAckTimeoutMs (fst (pending_event ev p)) = pv_recvAckTimeoutMs p"
  "pv_handleAckTimeoutMs (fst (pending_event ev p)) = pv_handleAckTimeoutMs p"
  by (cases "ce_stage ev"; simp add: pending_event_def notify_listeners_def apply_stage_def Let_def reject_pending_waiters_def
        mark_pending_stage_failure_def outcome_of_def clear_pending_timers_def)+

text \<open>An event that does not end the delivery keeps the second stage open.\<close>

lemma continuing_event:
  "\<not> ends_delivery (ce_stage ev) \<Longrightarrow> pv_completed (fst (pending_event ev p)) = pv_completed p
     \<and> pv_handleAckOutcome (fst (pending_event ev p)) = pv_handleAckOutcome p
     \<and> pv_handleAckTimer (fst (pending_event ev p)) = pv_handleAckTimer p
     \<and> (pv_recvAckOutcome (fst (pending_event ev p)) = None \<longrightarrow>
          pv_recvAckOutcome p = None \<and> pv_recvAckTimer (fst (pending_event ev p)) = pv_recvAckTimer p)"
  by (cases "ce_stage ev") (simp_all add: ends_delivery_def pending_event_def notify_listeners_def apply_stage_def Let_def)

end
