(* ===== verification/Protocol_Registry.thy ===== *)
theory Protocol_Registry
  imports Shared_Types
begin

text \<open>The protocol registries: of the gateway, one entry per action
  (src/src/runtime/protocol/registry.ts), and of the client library, one entry per protocol version
  (src/src/sdk/protocol/registry.ts). Both offer the same operations; the locale states what a user
  of either may rely on. What a module registers (hooks, handlers) is opaque.\<close>

section \<open>The contract\<close>

locale module_registry =
  fixes find_entry :: "'s \<Rightarrow> 'k \<Rightarrow> 'v option"
    and put_module :: "('k \<times> 'v) list \<Rightarrow> 's \<Rightarrow> (hardess_error + unit) \<times> 's"
    and keys_ok :: "('k \<times> 'v) list \<Rightarrow> bool"
  assumes put_ok: "keys_ok es \<Longrightarrow> (\<And>k. k \<in> fst ` set es \<Longrightarrow> find_entry s k = None) \<Longrightarrow> fst (put_module es s) = Inr ()"
    and put_conflict: "keys_ok es \<Longrightarrow> k \<in> fst ` set es \<Longrightarrow> find_entry s k \<noteq> None \<Longrightarrow> \<exists>e. fst (put_module es s) = Inl e
       \<and> he_code e = PROTO_REGISTRATION_CONFLICT"
    and put_found: "keys_ok es \<Longrightarrow> fst (put_module es s) = Inr () \<Longrightarrow>
       find_entry (snd (put_module es s)) k = (case map_of es k of Some v \<Rightarrow> Some v | None \<Rightarrow> find_entry s k)"
    and put_keeps: "find_entry s k = Some v \<Longrightarrow> find_entry (snd (put_module es s)) k = Some v"
begin

lemma registered_found:
  "keys_ok es \<Longrightarrow> fst (put_module es s) = Inr () \<Longrightarrow> map_of es k = Some v \<Longrightarrow> find_entry (snd (put_module es s)) k = Some v"
  by (simp add: put_found)

lemma registered_exactly:
  "keys_ok es \<Longrightarrow> fst (put_module es s) = Inr () \<longleftrightarrow> (\<forall>k\<in>fst ` set es. find_entry s k = None)"
  using put_ok[of es s] put_conflict[of es _ s] by (metis Inl_Inr_False)

text \<open>Registering twice always conflicts, unless the module has no entries.\<close>

lemma registered_twice:
  assumes ok: "keys_ok es" and first: "fst (put_module es s) = Inr ()" and some: "es \<noteq> []"
  shows "\<exists>e. fst (put_module es (snd (put_module es s))) = Inl e \<and> he_code e = PROTO_REGISTRATION_CONFLICT"
proof -
  obtain k v es' where "es = (k, v) # es'" using some by (cases es) auto
  then have kv: "map_of es k = Some v" by simp
  then have "k \<in> fst ` set es" by (force dest: map_of_SomeD)
  then show ?thesis using put_conflict[OF ok] registered_found[OF ok first kv] by simp
qed

end

section \<open>The gateway's registry\<close>

record 'h server_module =
  sv_protocol :: string
  sv_version :: string
  sv_actions :: "(string \<times> 'h) list"

definition key_of :: "string \<Rightarrow> string \<Rightarrow> string \<Rightarrow> string" where
  "key_of protocol version action = protocol @ '':'' @ version @ '':'' @ action"

definition conflict_error :: "string \<Rightarrow> hardess_error" where
  "conflict_error message = plain_error PROTO_REGISTRATION_CONFLICT message"

text \<open>The loop of \<open>register\<close>: it throws at the first key that is taken.\<close>

fun put_entries :: "(string \<Rightarrow> string) \<Rightarrow> (string \<times> 'h) list \<Rightarrow> (string, 'h) js_map \<Rightarrow> (hardess_error + unit) \<times> (string, 'h) js_map" where
  "put_entries describe [] m = (Inr (), m)"
| "put_entries describe ((key, hooks) # es) m =
    (if map_has m key then (Inl (conflict_error (describe key)), m)
     else put_entries describe es (map_set key hooks m))"

definition module_entries :: "'h server_module \<Rightarrow> (string \<times> 'h) list" where
  "module_entries md = map (\<lambda>(action, hooks). (key_of (sv_protocol md) (sv_version md) action, hooks)) (sv_actions md)"

definition server_register :: "'h server_module \<Rightarrow> (string, 'h) js_map \<Rightarrow> (hardess_error + unit) \<times> (string, 'h) js_map" where
  "server_register md m = put_entries
     (\<lambda>key. ''Server protocol action already registered: '' @ sv_protocol md @ ''@'' @ sv_version md @ ''/''
        @ drop (length (key_of (sv_protocol md) (sv_version md) [])) key) (module_entries md) m"

definition server_unregister :: "string \<Rightarrow> string \<Rightarrow> (string, 'h) js_map \<Rightarrow> (string, 'h) js_map" where
  "server_unregister protocol version m =
     filter (\<lambda>e. \<not> prefix (protocol @ '':'' @ version @ '':'') (fst e)) m"

definition server_replace :: "'h server_module \<Rightarrow> (string, 'h) js_map \<Rightarrow> (string, 'h) js_map" where
  "server_replace md m = foldl (\<lambda>m (key, hooks). map_set key hooks m)
     (server_unregister (sv_protocol md) (sv_version md) m) (module_entries md)"

definition server_get :: "string \<Rightarrow> string \<Rightarrow> string \<Rightarrow> (string, 'h) js_map \<Rightarrow> hardess_error + 'h" where
  "server_get protocol version action m = (case map_of m (key_of protocol version action) of
     None \<Rightarrow> Inl (plain_error PROTO_UNKNOWN_ACTION (''Unknown protocol action: '' @ protocol @ ''@'' @ version @ ''/'' @ action))
   | Some hooks \<Rightarrow> Inr hooks)"

section \<open>The client's registry\<close>

definition client_key :: "string \<Rightarrow> string \<Rightarrow> string" where
  "client_key protocol version = protocol @ '':'' @ version"

record 'f client_module =
  cm_protocol :: string
  cm_version :: string
  cm_functions :: 'f

definition client_register ::
  "'f client_module \<Rightarrow> (string, 'f client_module) js_map \<Rightarrow> (hardess_error + unit) \<times> (string, 'f client_module) js_map" where
  "client_register md m =
    (let key = client_key (cm_protocol md) (cm_version md) in
     if map_has m key
     then (Inl (conflict_error (''Client protocol already registered: '' @ cm_protocol md @ ''@'' @ cm_version md)), m)
     else (Inr (), map_set key md m))"

definition client_replace :: "'f client_module \<Rightarrow> (string, 'f client_module) js_map \<Rightarrow> (string, 'f client_module) js_map" where
  "client_replace md m = map_set (client_key (cm_protocol md) (cm_version md)) md m"

definition client_unregister :: "string \<Rightarrow> string \<Rightarrow> (string, 'f client_module) js_map \<Rightarrow> (string, 'f client_module) js_map" where
  "client_unregister protocol version m = map_del (client_key protocol version) m"

definition client_get :: "string \<Rightarrow> string \<Rightarrow> (string, 'f client_module) js_map \<Rightarrow> 'f client_module option" where
  "client_get protocol version m = map_of m (client_key protocol version)"

section \<open>Both obey the contract\<close>

lemma put_entries_ok:
  "distinct (map fst es) \<Longrightarrow> (\<And>k. k \<in> fst ` set es \<Longrightarrow> map_of m k = None) \<Longrightarrow> fst (put_entries d es m) = Inr ()"
proof (induction d es m rule: put_entries.induct)
  case (2 d key hooks es m)
  have "map_of m key = None" using "2.prems"(2) by simp
  moreover have "fst (put_entries d es (map_set key hooks m)) = Inr ()"
    using "2.prems" calculation by (intro "2.IH") auto
  ultimately show ?case by simp
qed simp

lemma put_entries_conflict:
  "k \<in> fst ` set es \<Longrightarrow> map_of m k \<noteq> None \<Longrightarrow> \<exists>e. fst (put_entries d es m) = Inl e \<and> he_code e = PROTO_REGISTRATION_CONFLICT"
proof (induction d es m rule: put_entries.induct)
  case (2 d key hooks es m)
  show ?case
  proof (cases "map_has m key")
    case True
    then show ?thesis by (auto simp: conflict_error_def new_hardess_error_def)
  next
    case False
    then have "k \<noteq> key" using "2.prems"(2) by auto
    then show ?thesis using "2.IH" False "2.prems" by auto
  qed
qed simp

lemma put_entries_keeps: "map_of m k = Some v \<Longrightarrow> map_of (snd (put_entries d es m)) k = Some v"
proof (induction d es m rule: put_entries.induct)
  case (2 d key hooks es m)
  then show ?case by (cases "k = key") auto
qed simp

lemma put_entries_found:
  "distinct (map fst es) \<Longrightarrow> fst (put_entries d es m) = Inr () \<Longrightarrow>
   map_of (snd (put_entries d es m)) k = (case map_of es k of Some v \<Rightarrow> Some v | None \<Rightarrow> map_of m k)"
proof (induction d es m rule: put_entries.induct)
  case (2 d key hooks es m)
  have free: "\<not> map_has m key" using "2.prems"(2) by (auto split: if_splits)
  have "key \<notin> fst ` set es" using "2.prems"(1) by auto
  then have "map_of es key = None" by (simp add: map_of_eq_None_iff)
  then show ?case using "2.IH"[OF free] "2.prems" free by (auto split: option.split)
qed simp

interpretation server_registry: module_registry "map_of" "put_entries describe" "\<lambda>es. distinct (map fst es)"
  by unfold_locales (auto simp: put_entries_ok put_entries_conflict put_entries_found put_entries_keeps)

text \<open>A module of the client is the single entry of its key.\<close>

definition client_put ::
  "(string \<times> 'f client_module) list \<Rightarrow> (string, 'f client_module) js_map \<Rightarrow> (hardess_error + unit) \<times> (string, 'f client_module) js_map" where
  "client_put es m = (case es of [(_, md)] \<Rightarrow> client_register md m | _ \<Rightarrow> (Inr (), m))"

definition client_entry :: "'f client_module \<Rightarrow> string \<times> 'f client_module" where
  "client_entry md = (client_key (cm_protocol md) (cm_version md), md)"

lemma client_put_keeps: "map_of m k = Some v \<Longrightarrow> map_of (snd (client_put es m)) k = Some v"
  by (auto simp: client_put_def client_register_def Let_def split: list.split)

interpretation client_registry: module_registry "map_of" client_put "\<lambda>es. \<exists>md. es = [client_entry md]"
proof (unfold_locales, goal_cases)
  case (4 s k v es)
  then show ?case by (rule client_put_keeps)
qed (auto simp: client_put_def client_entry_def client_register_def Let_def conflict_error_def
      new_hardess_error_def split: if_splits)

section \<open>Properties\<close>

lemma key_of_inj [simp]: "key_of p v a = key_of p v b \<longleftrightarrow> a = b"
  by (simp add: key_of_def)

lemma module_entries_keys: "map fst (module_entries md) = map (key_of (sv_protocol md) (sv_version md)) (map fst (sv_actions md))"
  by (simp add: module_entries_def case_prod_beta)

lemma module_entries_distinct: "distinct (map fst (sv_actions md)) \<Longrightarrow> distinct (map fst (module_entries md))"
  by (simp add: module_entries_keys distinct_map inj_on_def)

lemma module_entries_lookup:
  "map_of (module_entries md) (key_of (sv_protocol md) (sv_version md) action) = map_of (sv_actions md) action"
proof -
  have "map_of (map (\<lambda>(a, h). (key_of p v a, h)) as) (key_of p v action) = map_of as action" for p v and as :: "(string \<times> 'a) list"
    by (induction as) auto
  then show ?thesis by (simp add: module_entries_def)
qed

text \<open>Registration of a gateway protocol succeeds exactly when none of its actions is taken; then every
  action is found with its hooks and every other entry is as before; registering it again is
  refused. A refused registration takes nothing away.\<close>

theorem server_register_spec:
  assumes "distinct (map fst (sv_actions md))"
  shows "(fst (server_register md m) = Inr () \<longleftrightarrow>
      (\<forall>action\<in>fst ` set (sv_actions md). map_of m (key_of (sv_protocol md) (sv_version md) action) = None))
    \<and> (fst (server_register md m) = Inr () \<longrightarrow>
        (\<forall>action hooks. map_of (sv_actions md) action = Some hooks \<longrightarrow>
           server_get (sv_protocol md) (sv_version md) action (snd (server_register md m)) = Inr hooks)
      \<and> (sv_actions md \<noteq> [] \<longrightarrow> fst (server_register md (snd (server_register md m))) \<noteq> Inr ()))
    \<and> (\<forall>key hooks. map_of m key = Some hooks \<longrightarrow> map_of (snd (server_register md m)) key = Some hooks)"
proof (intro conjI impI allI)
  let ?d = "\<lambda>key. ''Server protocol action already registered: '' @ sv_protocol md @ ''@'' @ sv_version md @ ''/''
        @ drop (length (key_of (sv_protocol md) (sv_version md) [])) key"
  note ok = module_entries_distinct[OF assms]
  have keys: "fst ` set (module_entries md) = key_of (sv_protocol md) (sv_version md) ` fst ` set (sv_actions md)"
    using module_entries_keys[of md] by (metis image_set)
  show "fst (server_register md m) = Inr () \<longleftrightarrow>
      (\<forall>action\<in>fst ` set (sv_actions md). map_of m (key_of (sv_protocol md) (sv_version md) action) = None)"
    unfolding server_register_def server_registry.registered_exactly[OF ok] keys by simp
  fix action hooks
  show "map_of m action = Some hooks \<Longrightarrow> map_of (snd (server_register md m)) action = Some hooks"
    unfolding server_register_def by (rule server_registry.put_keeps)
  assume done1: "fst (server_register md m) = Inr ()"
  show "map_of (sv_actions md) action = Some hooks \<Longrightarrow>
      server_get (sv_protocol md) (sv_version md) action (snd (server_register md m)) = Inr hooks"
    using server_registry.registered_found[OF ok done1[unfolded server_register_def]] module_entries_lookup[of md action]
    by (simp add: server_get_def server_register_def)
  assume "sv_actions md \<noteq> []"
  then have "module_entries md \<noteq> []" by (simp add: module_entries_def)
  then show "fst (server_register md (snd (server_register md m))) \<noteq> Inr ()"
    using server_registry.registered_twice[OF ok done1[unfolded server_register_def]] unfolding server_register_def by force
qed

lemma server_register_lookup:
  "distinct (map fst (sv_actions md)) \<Longrightarrow> fst (server_register md m) = Inr () \<Longrightarrow>
   map_of (snd (server_register md m)) k = (case map_of (module_entries md) k of Some v \<Rightarrow> Some v | None \<Rightarrow> map_of m k)"
  unfolding server_register_def by (rule server_registry.put_found[OF module_entries_distinct])

lemma server_register_free:
  "distinct (map fst (sv_actions md)) \<Longrightarrow> (\<And>k. k \<in> fst ` set (module_entries md) \<Longrightarrow> map_of m k = None) \<Longrightarrow>
   fst (server_register md m) = Inr ()"
  unfolding server_register_def by (rule server_registry.put_ok[OF module_entries_distinct])

lemma server_replace_lookup:
  assumes "distinct (map fst (sv_actions md))"
  shows "map_of (server_replace md m) k = (case map_of (module_entries md) k of Some v \<Rightarrow> Some v
      | None \<Rightarrow> if prefix (sv_protocol md @ '':'' @ sv_version md @ '':'') k then None else map_of m k)"
proof -
  let ?p = "sv_protocol md @ '':'' @ sv_version md @ '':''"
  have fold: "map_of (foldl (\<lambda>m (key, hooks). map_set key hooks m) m0 es) k
      = (case map_of es k of Some v \<Rightarrow> Some v | None \<Rightarrow> map_of m0 k)"
    if "distinct (map fst es)" for m0 k and es :: "(string \<times> 'a) list"
    using that
  proof (induction es arbitrary: m0)
    case (Cons e es)
    then have "map_of es (fst e) = None" by (simp add: map_of_eq_None_iff)
    with Cons show ?case by (cases e) (auto split: option.split)
  qed simp
  show ?thesis
    unfolding server_replace_def fold[OF module_entries_distinct[OF assms]] server_unregister_def
      map_of_filter_key[where P = "\<lambda>k. \<not> prefix ?p k"] by (simp split: option.split)
qed

text \<open>Replacing a protocol leaves exactly its new actions: those are found with their hooks, any other
  action of that protocol version is unknown, and keys of other protocols are untouched.\<close>

theorem server_replace_spec:
  assumes "distinct (map fst (sv_actions md))"
  shows "server_get (sv_protocol md) (sv_version md) action (server_replace md m)
      = (case map_of (sv_actions md) action of Some hooks \<Rightarrow> Inr hooks
         | None \<Rightarrow> Inl (plain_error PROTO_UNKNOWN_ACTION
             (''Unknown protocol action: '' @ sv_protocol md @ ''@'' @ sv_version md @ ''/'' @ action)))
    \<and> (\<not> prefix (sv_protocol md @ '':'' @ sv_version md @ '':'') key \<longrightarrow> map_of (server_replace md m) key = map_of m key)"
proof -
  let ?p = "sv_protocol md @ '':'' @ sv_version md @ '':''"
  have none: "map_of (module_entries md) key = None" if "\<not> prefix ?p key"
    using that by (auto simp: map_of_eq_None_iff module_entries_def key_of_def)
  have pre: "prefix ?p (key_of (sv_protocol md) (sv_version md) action)" by (simp add: key_of_def)
  show ?thesis using none pre
    by (auto simp: server_get_def server_replace_lookup[OF assms] module_entries_lookup split: option.split)
qed

text \<open>The client library finds a protocol version after registering it, refuses to register it twice, and
  finds the new one after replacing it and none after \<open>unuse\<close>.\<close>

theorem client_registry_spec:
  "(fst (client_register md m) = Inr () \<longleftrightarrow> client_get (cm_protocol md) (cm_version md) m = None)
   \<and> (fst (client_register md m) = Inr () \<longrightarrow> client_get (cm_protocol md) (cm_version md) (snd (client_register md m)) = Some md
        \<and> fst (client_register md (snd (client_register md m))) \<noteq> Inr ())
   \<and> client_get (cm_protocol md) (cm_version md) (client_replace md m) = Some md
   \<and> client_get (cm_protocol md) (cm_version md) (client_unregister (cm_protocol md) (cm_version md) m) = None"
proof -
  have put: "client_register md m = client_put [client_entry md] m" for m
    by (simp add: client_put_def client_entry_def)
  have ok: "\<exists>d. [client_entry md] = [client_entry d]" by blast
  have key: "map_of [client_entry md] (client_key (cm_protocol md) (cm_version md)) = Some md"
    by (simp add: client_entry_def)
  show ?thesis
    unfolding put client_get_def
    using client_registry.registered_exactly[OF ok, of m] client_registry.registered_found[OF ok _ key, of m]
      client_registry.registered_twice[OF ok, of m]
    by (auto simp: client_entry_def client_replace_def client_unregister_def)
qed

text \<open>A refused registration is not undone: the actions before the conflicting one stay registered.\<close>

theorem refused_registration_leaves_earlier_actions:
  assumes "map_of m (key_of p v a) = None" "map_of m (key_of p v b) \<noteq> None" "a \<noteq> b"
  shows "let r = server_register \<lparr>sv_protocol = p, sv_version = v, sv_actions = [(a, h), (b, h')]\<rparr> m
    in fst r \<noteq> Inr () \<and> server_get p v a (snd r) = Inr h"
  using assms by (auto simp: server_register_def module_entries_def server_get_def)

section \<open>An example\<close>

text \<open>A module of two actions.\<close>

definition example_module :: "nat server_module" where
  "example_module = \<lparr>sv_protocol = ''chat'', sv_version = ''1'', sv_actions = [(''send'', 1), (''join'', 2)]\<rparr>"

lemma example_module_distinct: "distinct (map fst (sv_actions example_module))"
  by (simp add: example_module_def)

theorem server_register_spec_witness:
  "fst (server_register example_module []) = Inr ()
   \<and> server_get ''chat'' ''1'' ''join'' (snd (server_register example_module [])) = Inr 2"
proof -
  note spec = server_register_spec[OF example_module_distinct, of "[]"]
  have ok: "fst (server_register example_module []) = Inr ()" using spec by simp
  moreover have "map_of (sv_actions example_module) ''join'' = Some 2" by (simp add: example_module_def)
  ultimately have "server_get (sv_protocol example_module) (sv_version example_module) ''join''
      (snd (server_register example_module [])) = Inr 2" using spec by blast
  with ok show ?thesis by (simp add: example_module_def)
qed

theorem server_replace_spec_witness:
  "server_get ''chat'' ''1'' ''leave'' (server_replace example_module [(''chat:1:leave'', 7)])
     = Inl (plain_error PROTO_UNKNOWN_ACTION ''Unknown protocol action: chat@1/leave'')"
  using server_replace_spec[OF example_module_distinct, of "''leave''" "[(''chat:1:leave'', 7)]" "[]"]
  by (simp add: example_module_def)

theorem refused_registration_leaves_earlier_actions_witness:
  "server_get ''chat'' ''1'' ''send'' (snd (server_register \<lparr>sv_protocol = ''chat'', sv_version = ''1'',
     sv_actions = [(''send'', 1), (''join'', 2)]\<rparr> [(''chat:1:join'', 5 :: nat)])) = Inr 1"
  using refused_registration_leaves_earlier_actions[of "[(''chat:1:join'', 5 :: nat)]" "''chat''" "''1''" "''send''" "''join''" 1 2]
  by (simp add: key_of_def Let_def)


theorem client_registry_spec_witness:
  "client_get ''chat'' ''1'' (snd (client_register \<lparr>cm_protocol = ''chat'', cm_version = ''1'', cm_functions = (3 :: nat)\<rparr> []))
     = Some \<lparr>cm_protocol = ''chat'', cm_version = ''1'', cm_functions = 3\<rparr>"
  using client_registry_spec[of "\<lparr>cm_protocol = ''chat'', cm_version = ''1'', cm_functions = (3 :: nat)\<rparr>" "[]"]
  by (simp add: client_get_def)

end
