(* ===== verification/Sdk_Client.thy ===== *)
theory Sdk_Client
  imports Sdk_Pending Protocol_Registry
begin

text \<open>The client library (src/src/sdk/runtime/client.ts, class HardessClient): connection and
  authentication, sending with delivery tracking, and what it does with every message.

  The client extends the transport it owns, so that the transport's hooks run on the whole client.
  The code's collaborators are fields of \<open>client_deps\<close>: random ids and the payload parsers. The
  functions of the user's protocol modules return or throw; the user's callbacks are recorded in
  order in \<open>cl_calls\<close>, return, and do not call the client back. Delivery objects live in
  \<open>cl_objects\<close>, since a tracker keeps its object after the delivery is over; \<open>cl_pending\<close> maps the
  message id to the place of the object.\<close>

section \<open>Data\<close>

datatype client_payload = CAuth string | CPingMsg string | CPongMsg "string option" | CHandleAck string | CBusiness json

type_synonym client_msg = "client_payload envelope"

text \<open>What a protocol module of the user brings: the outbound action returns a payload, or none, and may
  set the stream.\<close>

record module_functions =
  mf_encode :: "(string \<Rightarrow> json \<Rightarrow> string + json) option"
  mf_outboundActions :: "(string, json \<Rightarrow> string + (json option \<times> string option)) js_map"
  mf_hasInbound :: bool
  mf_decode :: "(string \<Rightarrow> json \<Rightarrow> string + json) option"
  mf_validate :: "(string \<Rightarrow> json \<Rightarrow> string + unit) option"

record emit_input =
  ei_protocol :: string
  ei_version :: string
  ei_action :: string
  ei_payload :: json
  ei_streamId :: "string option"
  ei_traceId :: "string option"
  ei_recvAckMs :: "int option"
  ei_handleAckMs :: "int option"

record auth_ok_payload =
  ao_peerId :: string
  ao_capabilities :: "string list"
  ao_expiresAt :: int

datatype handler_call = OnAuthOk auth_ok_payload | OnPong "string option" | OnRecvAck ack_payload | OnHandleAck ack_payload
  | OnRoute route_payload | OnError sys_err_payload | OnDeliveryEvent delivery_event | OnProtocolError protocol_error_info
  | OnClose close_info | OnTransportError "string option" | ToListener nat delivery_event

record ready_waiter =
  rw_promise :: nat
  rw_timeoutMs :: "int option"

record client_config =
  kc_url :: string
  kc_transport :: transport_config
  kc_autoHandleAck :: bool
  kc_heartbeatIntervalMs :: int
  kc_recvAckMs :: int
  kc_handleAckMs :: int

record client_options =
  ko_autoHandleAck :: "bool option"
  ko_heartbeatIntervalMs :: "int option"
  ko_recvAckMs :: "int option"
  ko_handleAckMs :: "int option"
  ko_transport :: transport_options

definition client_config_of :: "string \<Rightarrow> client_options \<Rightarrow> client_config" where
  "client_config_of url o1 = \<lparr>kc_url = url, kc_transport = transport_config_of (ko_transport o1),
     kc_autoHandleAck = (case ko_autoHandleAck o1 of Some b \<Rightarrow> b | None \<Rightarrow> True),
     kc_heartbeatIntervalMs = (case ko_heartbeatIntervalMs o1 of Some n \<Rightarrow> n | None \<Rightarrow> 25000),
     kc_recvAckMs = (case ko_recvAckMs o1 of Some n \<Rightarrow> n | None \<Rightarrow> 5000),
     kc_handleAckMs = (case ko_handleAckMs o1 of Some n \<Rightarrow> n | None \<Rightarrow> 15000)\<rparr>"

record client_deps =
  kd_uuid :: "nat \<Rightarrow> string"
  kd_parseAuthOk :: "json \<Rightarrow> string + auth_ok_payload"
  kd_parsePong :: "json \<Rightarrow> string + string option"
  kd_parsePing :: "json \<Rightarrow> string + string option"
  kd_parseRecvAck :: "json \<Rightarrow> string + ack_payload"
  kd_parseHandleAck :: "json \<Rightarrow> string + ack_payload"
  kd_parseRoute :: "json \<Rightarrow> string + route_payload"
  kd_parseErr :: "json \<Rightarrow> string + sys_err_payload"

text \<open>\<open>cl_inbound\<close>: the business messages whose handler has been called and not yet settled. \<open>cl_hookToken\<close>:
  the token the hooks of the current connection were made with.\<close>

record sdk_client = "client_msg ws_transport" +
  cl_readyState :: client_state
  cl_token :: "string option"
  cl_hookToken :: string
  cl_heartbeat :: bool
  cl_objects :: "pending_delivery list"
  cl_pending :: "(string, nat) js_map"
  cl_readyWaiters :: "ready_waiter list"
  cl_modules :: "(string, module_functions client_module) js_map"
  cl_inbound :: "json envelope list"
  cl_settled :: "settlement list"
  cl_promises :: nat
  cl_fresh :: nat
  cl_calls :: "handler_call list"

definition new_client :: "client_config \<Rightarrow> sdk_client" where
  "new_client cfg = ws_transport.extend (new_transport (kc_transport cfg))
    \<lparr>cl_readyState = CIdle, cl_token = None, cl_hookToken = [], cl_heartbeat = False, cl_objects = [], cl_pending = [],
     cl_readyWaiters = [], cl_modules = [], cl_inbound = [], cl_settled = [], cl_promises = 0, cl_fresh = 0, cl_calls = []\<rparr>"

section \<open>Helpers\<close>

definition settle_all :: "settlement list \<Rightarrow> sdk_client \<Rightarrow> sdk_client" where
  "settle_all ss c = c\<lparr>cl_settled := cl_settled c @ ss\<rparr>"

definition log_call :: "handler_call \<Rightarrow> sdk_client \<Rightarrow> sdk_client" where
  "log_call h c = c\<lparr>cl_calls := cl_calls c @ [h]\<rparr>"

text \<open>Change the object at place \<open>k\<close> by a step that settles promises.\<close>

definition with_object :: "nat \<Rightarrow> (pending_delivery \<Rightarrow> pending_delivery \<times> settlement list) \<Rightarrow> sdk_client \<Rightarrow> sdk_client" where
  "with_object k f c = (case f (cl_objects c ! k) of (p, ss) \<Rightarrow>
     settle_all ss (c\<lparr>cl_objects := (cl_objects c)[k := p]\<rparr>))"

definition make_envelope ::
  "string \<Rightarrow> int \<Rightarrow> envelope_kind \<Rightarrow> string \<Rightarrow> string \<Rightarrow> string \<Rightarrow> string \<Rightarrow> string \<Rightarrow> string option \<Rightarrow> string option \<Rightarrow>
   client_payload \<Rightarrow> client_msg" where
  "make_envelope msgId now kind peerId connId protocol version action streamId traceId payload =
     \<lparr>ev_msgId = msgId, ev_kind = kind, ev_src = \<lparr>src_peerId = peerId, src_connId = connId\<rparr>, ev_protocol = protocol,
      ev_version = version, ev_action = action, ev_streamId = streamId, ev_seq = None, ev_ts = of_int now,
      ev_traceId = traceId, ev_payload = payload\<rparr>"

definition take_uuid :: "client_deps \<Rightarrow> sdk_client \<Rightarrow> string \<times> sdk_client" where
  "take_uuid d c = (kd_uuid d (cl_fresh c), c\<lparr>cl_fresh := Suc (cl_fresh c)\<rparr>)"

definition send_system ::
  "client_deps \<Rightarrow> int \<Rightarrow> string \<Rightarrow> string \<Rightarrow> string \<Rightarrow> string option \<Rightarrow> client_payload \<Rightarrow> sdk_client \<Rightarrow> sdk_client" where
  "send_system d now peerId connId action traceId payload c =
    (let (u, c1) = take_uuid d c
     in tr_send (make_envelope u now System peerId connId ''sys'' ''1.0'' action None traceId payload) c1)"

definition ack_handled :: "client_deps \<Rightarrow> int \<Rightarrow> string \<Rightarrow> string option \<Rightarrow> sdk_client \<Rightarrow> sdk_client" where
  "ack_handled d now msgId traceId c = send_system d now ''local'' ''local'' ''handleAck'' traceId (CHandleAck msgId) c"

definition send_auth :: "client_deps \<Rightarrow> int \<Rightarrow> string \<Rightarrow> sdk_client \<Rightarrow> sdk_client" where
  "send_auth d now token c = send_system d now ''anonymous'' ''pending'' ''auth'' None (CAuth token) c"

definition stop_heartbeat :: "sdk_client \<Rightarrow> sdk_client" where
  "stop_heartbeat c = c\<lparr>cl_heartbeat := False\<rparr>"

definition start_heartbeat :: "sdk_client \<Rightarrow> sdk_client" where
  "start_heartbeat c = (stop_heartbeat c)\<lparr>cl_heartbeat := True\<rparr>"

definition heartbeat_fires :: "client_deps \<Rightarrow> int \<Rightarrow> sdk_client \<Rightarrow> sdk_client" where
  "heartbeat_fires d now c = (if \<not> cl_heartbeat c then c
     else (let (nonce, c1) = take_uuid d c in send_system d now ''local'' ''local'' ''ping'' None (CPingMsg nonce) c1))"

section \<open>Delivery events\<close>

text \<open>The object is changed first and the calls of the listeners are recorded with it; both see the same
  decorated event.\<close>

definition user_calls :: "delivery_event \<Rightarrow> pending_delivery \<Rightarrow> handler_call list" where
  "user_calls ev p = concat (map (\<lambda>l. case l of UserListener u \<Rightarrow> [ToListener u ev] | _ \<Rightarrow> []) (pv_listeners p))"

definition emit_delivery_event :: "delivery_event \<Rightarrow> sdk_client \<Rightarrow> sdk_client" where
  "emit_delivery_event ev c = (case map_of (cl_pending c) (ce_msgId ev) of
     None \<Rightarrow> log_call (OnDeliveryEvent ev) c
   | Some k \<Rightarrow>
      (let ev1 = decorate_delivery_event ev (cl_objects c ! k);
           c1 = log_call (OnDeliveryEvent ev1) c;
           c2 = c1\<lparr>cl_calls := cl_calls c1 @ user_calls ev1 (cl_objects c ! k)\<rparr>;
           c3 = with_object k (pending_event ev1) c2
       in if ends_delivery (ce_stage ev1) then c3\<lparr>cl_pending := map_del (ce_msgId ev1) (cl_pending c3)\<rparr> else c3))"

definition transport_closed_event :: "close_info \<Rightarrow> pending_delivery \<Rightarrow> delivery_event" where
  "transport_closed_event info p = (delivery_event_of StageTransportClosed (pv_msgId p) (Some (pv_traceId p)))\<lparr>
     ce_close := Some info,
     ce_sdkError := Some (create_client_sdk_error CLIENT_TRANSPORT_CLOSED
       (''Transport closed before delivery completed'' @ format_close_suffix (Some info))
       (no_sdk_options\<lparr>xo_retryable := Some True, xo_traceId := Some (pv_traceId p), xo_refMsgId := Some (pv_msgId p),
          xo_close := Some info\<rparr>))\<rparr>"

definition fail_pending_deliveries_on_close :: "close_info \<Rightarrow> sdk_client \<Rightarrow> sdk_client" where
  "fail_pending_deliveries_on_close info c =
     foldl (\<lambda>c (_, k). emit_delivery_event (transport_closed_event info (cl_objects c ! k)) c) c (cl_pending c)"

definition timeout_event :: "int \<Rightarrow> await_stage \<Rightarrow> pending_delivery \<Rightarrow> delivery_event" where
  "timeout_event now stage p = (delivery_event_of (case stage of RecvAck \<Rightarrow> StageRecvAckTimeout | HandleAck \<Rightarrow> StageHandleAckTimeout)
     (pv_msgId p) (Some (pv_traceId p)))\<lparr>ce_timeout := Some \<lparr>ti_stage = stage, ti_timeoutMs = timeout_of stage p,
       ti_startedAt = pv_createdAt p, ti_timedOutAt = now\<rparr>\<rparr>"

text \<open>The timer of a stage fires; it is then no longer armed.\<close>

definition disarm :: "await_stage \<Rightarrow> pending_delivery \<Rightarrow> pending_delivery" where
  "disarm stage p = (case stage of RecvAck \<Rightarrow> p\<lparr>pv_recvAckTimer := False\<rparr> | HandleAck \<Rightarrow> p\<lparr>pv_handleAckTimer := False\<rparr>)"

definition handle_pending_timeout :: "int \<Rightarrow> nat \<Rightarrow> await_stage \<Rightarrow> sdk_client \<Rightarrow> sdk_client" where
  "handle_pending_timeout now k stage c =
    (if \<not> (k < length (cl_objects c) \<and> timer_of stage (cl_objects c ! k)) then c
     else (let p = cl_objects c ! k; c1 = with_object k (\<lambda>p. (disarm stage p, [])) c
       in if outcome_of stage p \<noteq> None \<or> pv_completed p then c1
          else emit_delivery_event (timeout_event now stage p) c1))"

section \<open>Protocol errors\<close>

definition report_protocol_error :: "protocol_error_info \<Rightarrow> sdk_client \<Rightarrow> sdk_client" where
  "report_protocol_error info c = log_call (OnProtocolError info) c"

definition associate_delivery_msg_id :: "json envelope \<Rightarrow> protocol_error_info \<Rightarrow> sdk_client \<Rightarrow> string option" where
  "associate_delivery_msg_id env info c =
    (if map_has (cl_pending c) (ev_msgId env) then Some (ev_msgId env)
     else if truthy (ev_traceId env) \<and> map_has (cl_pending c) (the (ev_traceId env)) then ev_traceId env
     else if truthy (px_msgId info) \<and> map_has (cl_pending c) (the (px_msgId info)) then px_msgId info
     else None)"

definition report_protocol_error_from_envelope :: "error_layer \<Rightarrow> json envelope \<Rightarrow> string \<Rightarrow> sdk_client \<Rightarrow> sdk_client" where
  "report_protocol_error_from_envelope layer env message c =
    (let info = \<lparr>px_layer = layer, px_message = message, px_protocol = Some (ev_protocol env),
           px_version = Some (ev_version env), px_action = Some (ev_action env), px_msgId = Some (ev_msgId env),
           px_traceId = ev_traceId env\<rparr>;
         c1 = report_protocol_error info c
     in case associate_delivery_msg_id env info c1 of
          None \<Rightarrow> c1
        | Some msgId \<Rightarrow> if msgId = [] then c1 else emit_delivery_event
            ((delivery_event_of StageProtocolError msgId (ev_traceId env))\<lparr>ce_protocol := Some (ev_protocol env),
               ce_version := Some (ev_version env), ce_action := Some (ev_action env), ce_protocolError := Some info\<rparr>) c1)"

section \<open>Readiness\<close>

definition not_ready_error :: "client_state \<Rightarrow> string \<Rightarrow> sdk_error" where
  "not_ready_error state name = create_client_sdk_error CLIENT_NOT_READY
     (''Client is not ready; wait for auth.ok before sending (state: '' @ name @ '')'')
     (no_sdk_options\<lparr>xo_retryable := Some True, xo_detail := Some (DetailState state)\<rparr>)"

fun client_state_str :: "client_state \<Rightarrow> string" where
  "client_state_str CIdle = ''idle''"
| "client_state_str CConnecting = ''connecting''"
| "client_state_str CAuthenticating = ''authenticating''"
| "client_state_str CReady = ''ready''"
| "client_state_str CClosed = ''closed''"

definition ensure_ready :: "sdk_client \<Rightarrow> sdk_error option" where
  "ensure_ready c = (if cl_readyState c = CReady then None
     else Some (not_ready_error (cl_readyState c) (client_state_str (cl_readyState c))))"

definition resolve_ready_waiters :: "sdk_client \<Rightarrow> sdk_client" where
  "resolve_ready_waiters c = settle_all (map (\<lambda>w. (rw_promise w, ResolvedVoid)) (cl_readyWaiters c)) (c\<lparr>cl_readyWaiters := []\<rparr>)"

definition reject_ready_waiters :: "sdk_error \<Rightarrow> sdk_client \<Rightarrow> sdk_client" where
  "reject_ready_waiters err c = settle_all (map (\<lambda>w. (rw_promise w, RejectedWith err)) (cl_readyWaiters c)) (c\<lparr>cl_readyWaiters := []\<rparr>)"

definition wait_until_ready :: "int option \<Rightarrow> sdk_client \<Rightarrow> nat \<times> sdk_client" where
  "wait_until_ready timeoutMs c =
    (let q = cl_promises c; c1 = c\<lparr>cl_promises := Suc q\<rparr>
     in if cl_readyState c = CReady then (q, settle_all [(q, ResolvedVoid)] c1)
        else (q, c1\<lparr>cl_readyWaiters := cl_readyWaiters c1 @ [\<lparr>rw_promise = q,
          rw_timeoutMs = (case timeoutMs of Some t \<Rightarrow> if t > 0 then Some t else None | None \<Rightarrow> None)\<rparr>]\<rparr>))"

definition ready_timeout :: "nat \<Rightarrow> sdk_client \<Rightarrow> sdk_client" where
  "ready_timeout q c = (case find (\<lambda>w. rw_promise w = q) (cl_readyWaiters c) of
     None \<Rightarrow> c
   | Some w \<Rightarrow> (case rw_timeoutMs w of
        None \<Rightarrow> c
      | Some t \<Rightarrow> settle_all [(q, RejectedWith (create_client_sdk_error CLIENT_NOT_READY
            (''Timed out waiting for client readiness after '' @ int_str t @ ''ms'')
            (no_sdk_options\<lparr>xo_retryable := Some True, xo_detail := Some (DetailTimeoutMs t)\<rparr>)))]
          (c\<lparr>cl_readyWaiters := filter (\<lambda>w. rw_promise w \<noteq> q) (cl_readyWaiters c)\<rparr>)))"

section \<open>Sending\<close>

datatype emit_error = ClientError sdk_error | ModuleThrew string

definition encode_payload :: "module_functions client_module option \<Rightarrow> emit_input \<Rightarrow> string + json" where
  "encode_payload md input = (case Option.bind md (\<lambda>m. mf_encode (cm_functions m)) of
     None \<Rightarrow> Inr (ei_payload input) | Some f \<Rightarrow> f (ei_action input) (ei_payload input))"

definition action_payload :: "module_functions client_module option \<Rightarrow> emit_input \<Rightarrow> json \<Rightarrow> string + (json option \<times> string option)" where
  "action_payload md input encoded = (case Option.bind md (\<lambda>m. map_of (mf_outboundActions (cm_functions m)) (ei_action input)) of
     None \<Rightarrow> Inr (None, None) | Some f \<Rightarrow> f encoded)"

definition create_business_envelope ::
  "client_deps \<Rightarrow> int \<Rightarrow> emit_input \<Rightarrow> sdk_client \<Rightarrow> (string + client_msg \<times> string \<times> string) \<times> sdk_client" where
  "create_business_envelope d now input c =
    (let md = client_get (ei_protocol input) (ei_version input) (cl_modules c) in
     case encode_payload md input of
       Inl e \<Rightarrow> (Inl e, c)
     | Inr encoded \<Rightarrow> (case action_payload md input encoded of
         Inl e \<Rightarrow> (Inl e, c)
       | Inr (actionPayload, stream) \<Rightarrow>
          (let (msgId, c1) = take_uuid d c;
               traceId = (case ei_traceId input of Some t \<Rightarrow> t | None \<Rightarrow> msgId);
               payload = (case actionPayload of Some v \<Rightarrow> if v = JNull then encoded else v | None \<Rightarrow> encoded)
           in (Inr (make_envelope msgId now Biz ''local'' ''local'' (ei_protocol input) (ei_version input) (ei_action input)
                  (or_else stream (ei_streamId input)) (Some traceId) (CBusiness payload), msgId, traceId), c1))))"

definition create_pending_delivery ::
  "client_config \<Rightarrow> int \<Rightarrow> string \<Rightarrow> string \<Rightarrow> emit_input \<Rightarrow> sdk_client \<Rightarrow> nat \<times> sdk_client" where
  "create_pending_delivery cfg now msgId traceId input c =
    (let recvMs = (case ei_recvAckMs input of Some t \<Rightarrow> t | None \<Rightarrow> kc_recvAckMs cfg);
         handleMs = (case ei_handleAckMs input of Some t \<Rightarrow> t | None \<Rightarrow> kc_handleAckMs cfg);
         k = length (cl_objects c);
         p = \<lparr>pv_msgId = msgId, pv_traceId = traceId, pv_protocol = ei_protocol input, pv_version = ei_version input,
              pv_action = ei_action input, pv_createdAt = now, pv_listeners = [], pv_recvAckWaiters = [],
              pv_handleAckWaiters = [], pv_recvAckOutcome = None, pv_handleAckOutcome = None,
              pv_recvAckTimeoutMs = recvMs, pv_handleAckTimeoutMs = handleMs,
              pv_recvAckTimer = (recvMs \<noteq> 0), pv_handleAckTimer = (handleMs \<noteq> 0), pv_completed = False\<rparr>
     in (k, c\<lparr>cl_objects := cl_objects c @ [p], cl_pending := map_set msgId k (cl_pending c)\<rparr>))"

definition emit_tracked ::
  "client_config \<Rightarrow> client_deps \<Rightarrow> int \<Rightarrow> emit_input \<Rightarrow> sdk_client \<Rightarrow> (emit_error + nat) \<times> sdk_client" where
  "emit_tracked cfg d now input c = (case ensure_ready c of
     Some e \<Rightarrow> (Inl (ClientError e), c)
   | None \<Rightarrow> (case create_business_envelope d now input c of
        (Inl e, c1) \<Rightarrow> (Inl (ModuleThrew e), c1)
      | (Inr (env, msgId, traceId), c1) \<Rightarrow>
         (let (k, c2) = create_pending_delivery cfg now msgId traceId input c1 in (Inr k, tr_send env c2))))"

definition emit :: "client_config \<Rightarrow> client_deps \<Rightarrow> int \<Rightarrow> emit_input \<Rightarrow> sdk_client \<Rightarrow> emit_error option \<times> sdk_client" where
  "emit cfg d now input c = (case emit_tracked cfg d now input c of (Inl e, c1) \<Rightarrow> (Some e, c1) | (Inr _, c1) \<Rightarrow> (None, c1))"

text \<open>The waits of a tracker: a new promise on its object.\<close>

definition wait_on ::
  "(nat \<Rightarrow> pending_delivery \<Rightarrow> pending_delivery \<times> settlement list) \<Rightarrow> nat \<Rightarrow> sdk_client \<Rightarrow> nat \<times> sdk_client" where
  "wait_on f k c = (let q = cl_promises c in (q, with_object k (f q) (c\<lparr>cl_promises := Suc q\<rparr>)))"

definition wait_for_stage :: "await_stage \<Rightarrow> nat \<Rightarrow> sdk_client \<Rightarrow> nat \<times> sdk_client" where
  "wait_for_stage stage k c = wait_on (\<lambda>q. wait_for_pending_stage q stage) k c"

definition wait_for_result :: "await_stage option \<Rightarrow> nat \<Rightarrow> sdk_client \<Rightarrow> nat \<times> sdk_client" where
  "wait_for_result until k c = wait_on (\<lambda>q. wait_for_pending_result q (case until of Some s \<Rightarrow> s | None \<Rightarrow> HandleAck)) k c"

definition add_listener :: "nat \<Rightarrow> nat \<Rightarrow> sdk_client \<Rightarrow> sdk_client" where
  "add_listener u k c = with_object k (\<lambda>p. (if UserListener u \<in> set (pv_listeners p) then p
     else p\<lparr>pv_listeners := pv_listeners p @ [UserListener u]\<rparr>, [])) c"

definition remove_listener :: "nat \<Rightarrow> nat \<Rightarrow> sdk_client \<Rightarrow> sdk_client" where
  "remove_listener u k c = with_object k (\<lambda>p. (p\<lparr>pv_listeners := removeAll (UserListener u) (pv_listeners p)\<rparr>, [])) c"

text \<open>\<open>send\<close>: a promise that is rejected at once when the message cannot be sent.\<close>

datatype send_result1 = Waiting nat | SendRejected emit_error

definition client_send ::
  "client_config \<Rightarrow> client_deps \<Rightarrow> int \<Rightarrow> emit_input \<Rightarrow> await_stage option \<Rightarrow> sdk_client \<Rightarrow> send_result1 \<times> sdk_client" where
  "client_send cfg d now input until c = (case emit_tracked cfg d now input c of
     (Inl e, c1) \<Rightarrow> (SendRejected e, c1)
   | (Inr k, c1) \<Rightarrow> (let (q, c2) = wait_for_result until k c1 in (Waiting q, c2)))"

section \<open>Messages\<close>

definition handle_system :: "client_deps \<Rightarrow> int \<Rightarrow> json envelope \<Rightarrow> sdk_client \<Rightarrow> (string + unit) \<times> sdk_client" where
  "handle_system d now env c =
    (if ev_action env = ''auth.ok'' then (case kd_parseAuthOk d (ev_payload env) of
       Inl e \<Rightarrow> (Inl e, c)
     | Inr p \<Rightarrow> (Inr (), log_call (OnAuthOk p) (resolve_ready_waiters (c\<lparr>cl_readyState := CReady\<rparr>))))
     else if ev_action env = ''pong'' then (case kd_parsePong d (ev_payload env) of
       Inl e \<Rightarrow> (Inl e, c) | Inr p \<Rightarrow> (Inr (), log_call (OnPong p) c))
     else if ev_action env = ''ping'' then (case kd_parsePing d (ev_payload env) of
       Inl e \<Rightarrow> (Inl e, c)
     | Inr p \<Rightarrow> (Inr (), send_system d now ''local'' ''local'' ''pong'' (ev_traceId env) (CPongMsg p) c))
     else if ev_action env = ''recvAck'' then (case kd_parseRecvAck d (ev_payload env) of
       Inl e \<Rightarrow> (Inl e, c)
     | Inr p \<Rightarrow> (Inr (), emit_delivery_event ((delivery_event_of StageRecvAck (ap_ackFor p) (ev_traceId env))\<lparr>ce_recvAck := Some p\<rparr>)
           (log_call (OnRecvAck p) c)))
     else if ev_action env = ''handleAck'' then (case kd_parseHandleAck d (ev_payload env) of
       Inl e \<Rightarrow> (Inl e, c)
     | Inr p \<Rightarrow> (Inr (), emit_delivery_event ((delivery_event_of StageHandleAck (ap_ackFor p) (ev_traceId env))\<lparr>ce_handleAck := Some p\<rparr>)
           (log_call (OnHandleAck p) c)))
     else if ev_action env = ''route'' then (case kd_parseRoute d (ev_payload env) of
       Inl e \<Rightarrow> (Inl e, c)
     | Inr p \<Rightarrow> (let c1 = log_call (OnRoute p) c in
         (Inr (), if truthy (ev_traceId env)
            then emit_delivery_event ((delivery_event_of StageRoute (the (ev_traceId env)) (ev_traceId env))\<lparr>ce_route := Some p\<rparr>) c1
            else c1)))
     else if ev_action env = ''err'' then (case kd_parseErr d (ev_payload env) of
       Inl e \<Rightarrow> (Inl e, c)
     | Inr p \<Rightarrow> (let c1 = log_call (OnError p) c; msgId = or_else (se_refMsgId p) (ev_traceId env) in
         (Inr (), if truthy msgId
            then emit_delivery_event ((delivery_event_of StageError (the msgId) (ev_traceId env))\<lparr>ce_error := Some p,
                   ce_sdkError := Some (create_remote_sdk_error p)\<rparr>) c1
            else c1)))
     else (Inl (''Unknown system action: '' @ ev_action env), c))"

text \<open>A business message up to the call of its handler; the acknowledgement follows when the handler is done.\<close>

definition handle_inbound :: "json envelope \<Rightarrow> sdk_client \<Rightarrow> sdk_client" where
  "handle_inbound env c = (case client_get (ev_protocol env) (ev_version env) (cl_modules c) of
     None \<Rightarrow> c
   | Some md \<Rightarrow> if \<not> mf_hasInbound (cm_functions md) then c
       else (case (case mf_decode (cm_functions md) of None \<Rightarrow> Inr (ev_payload env) | Some f \<Rightarrow> f (ev_action env) (ev_payload env)) of
          Inl e \<Rightarrow> report_protocol_error_from_envelope LayerBusiness env e c
        | Inr decoded \<Rightarrow> (case (case mf_validate (cm_functions md) of None \<Rightarrow> Inr () | Some f \<Rightarrow> f (ev_action env) decoded) of
             Inl e \<Rightarrow> report_protocol_error_from_envelope LayerBusiness env e c
           | Inr () \<Rightarrow> c\<lparr>cl_inbound := cl_inbound c @ [env]\<rparr>)))"

definition inbound_done ::
  "client_config \<Rightarrow> client_deps \<Rightarrow> int \<Rightarrow> nat \<Rightarrow> string + unit \<Rightarrow> sdk_client \<Rightarrow> sdk_client" where
  "inbound_done cfg d now i result c =
    (if i < length (cl_inbound c) then
       (let env = cl_inbound c ! i; c1 = c\<lparr>cl_inbound := take i (cl_inbound c) @ drop (Suc i) (cl_inbound c)\<rparr>
        in case result of
             Inl e \<Rightarrow> report_protocol_error_from_envelope LayerBusiness env e c1
           | Inr () \<Rightarrow> if kc_autoHandleAck cfg then ack_handled d now (ev_msgId env) (ev_traceId env) c1 else c1)
     else c)"

section \<open>The hooks of the transport\<close>

definition on_open :: "client_deps \<Rightarrow> int \<Rightarrow> sdk_client \<Rightarrow> sdk_client" where
  "on_open d now c = start_heartbeat (send_auth d now (cl_hookToken c) (c\<lparr>cl_readyState := CAuthenticating\<rparr>))"

definition failed_ready_error :: "close_info \<Rightarrow> sdk_error" where
  "failed_ready_error info = create_client_sdk_error CLIENT_TRANSPORT_CLOSED
     (''Client failed to become ready'' @ format_close_suffix (Some info)) (no_sdk_options\<lparr>xo_close := Some info\<rparr>)"

definition is_terminal_client_close :: "close_info \<Rightarrow> bool" where
  "is_terminal_client_close info \<longleftrightarrow> terminal_code (ci_code info)"

definition on_close :: "close_info \<Rightarrow> sdk_client \<Rightarrow> sdk_client" where
  "on_close info c =
    (let c1 = (stop_heartbeat c)\<lparr>cl_readyState := (if truthy (cl_token c) then CConnecting else CClosed)\<rparr>;
         c2 = fail_pending_deliveries_on_close info c1;
         c3 = (if is_terminal_client_close info then reject_ready_waiters (failed_ready_error info) c2 else c2)
     in log_call (OnClose info) c3)"

definition envelope_error :: protocol_error_info where
  "envelope_error = \<lparr>px_layer = LayerEnvelope, px_message = ''Invalid websocket envelope'', px_protocol = None,
     px_version = None, px_action = None, px_msgId = None, px_traceId = None\<rparr>"

definition on_message :: "client_deps \<Rightarrow> int \<Rightarrow> json envelope option \<Rightarrow> sdk_client \<Rightarrow> sdk_client" where
  "on_message d now raw c = (case raw of
     None \<Rightarrow> report_protocol_error envelope_error c
   | Some env \<Rightarrow> if ev_kind env = System
       then (case handle_system d now env c of
           (Inl e, c1) \<Rightarrow> report_protocol_error_from_envelope LayerSystem env e c1 | (Inr _, c1) \<Rightarrow> c1)
       else handle_inbound env c)"

section \<open>Connecting and closing\<close>

definition client_connect :: "client_config \<Rightarrow> string \<Rightarrow> sdk_client \<Rightarrow> sdk_client" where
  "client_connect cfg token c =
     tr_connect (kc_url cfg) (c\<lparr>cl_token := Some token, cl_readyState := CConnecting, cl_hookToken := token\<rparr>)"

definition client_close :: "sdk_client \<Rightarrow> sdk_client" where
  "client_close c =
    (let c1 = (stop_heartbeat c)\<lparr>cl_readyState := CClosed, cl_token := None\<rparr>;
         c2 = reject_ready_waiters (create_client_sdk_error CLIENT_TRANSPORT_CLOSED ''Client closed before becoming ready''
                (no_sdk_options\<lparr>xo_close := Some \<lparr>ci_code = None, ci_reason = Some ''client closed'', ci_wasClean = None\<rparr>\<rparr>)) c1;
         c3 = foldl (\<lambda>c (_, k). with_object k pending_closed c) c2 (cl_pending c2)
     in tr_close (c3\<lparr>cl_pending := []\<rparr>))"

section \<open>Steps\<close>

datatype client_event =
    EUse "module_functions client_module" | EReplace "module_functions client_module" | EUnuse string string
  | EConnect string | EClose | EEmit emit_input | ESend emit_input "await_stage option"
  | EWaitStage await_stage nat | EWaitResult "await_stage option" nat | EAddListener nat nat | ERemoveListener nat nat
  | EWaitReady "int option" | EReadyTimeout nat | EAckHandled string "string option"
  | EOpen nat | ETransportClose nat close_info | EMessage nat "json envelope option" | ETransportError nat "string option"
  | EHeartbeat | EReconnect | ETimeout nat await_stage | EInboundDone nat "string + unit"

text \<open>A tracker only exists for an object that was made.\<close>

definition tracked :: "nat \<Rightarrow> (sdk_client \<Rightarrow> sdk_client) \<Rightarrow> sdk_client \<Rightarrow> sdk_client" where
  "tracked k f c = (if k < length (cl_objects c) then f c else c)"

fun client_step :: "client_config \<Rightarrow> client_deps \<Rightarrow> int \<Rightarrow> client_event \<Rightarrow> sdk_client \<Rightarrow> sdk_client" where
  "client_step cfg d now (EUse md) c = c\<lparr>cl_modules := snd (client_register md (cl_modules c))\<rparr>"
| "client_step cfg d now (EReplace md) c = c\<lparr>cl_modules := client_replace md (cl_modules c)\<rparr>"
| "client_step cfg d now (EUnuse protocol version) c = c\<lparr>cl_modules := client_unregister protocol version (cl_modules c)\<rparr>"
| "client_step cfg d now (EConnect token) c = client_connect cfg token c"
| "client_step cfg d now EClose c = client_close c"
| "client_step cfg d now (EEmit input) c = snd (emit cfg d now input c)"
| "client_step cfg d now (ESend input until) c = snd (client_send cfg d now input until c)"
| "client_step cfg d now (EWaitStage stage k) c = tracked k (\<lambda>c. snd (wait_for_stage stage k c)) c"
| "client_step cfg d now (EWaitResult until k) c = tracked k (\<lambda>c. snd (wait_for_result until k c)) c"
| "client_step cfg d now (EAddListener u k) c = tracked k (add_listener u k) c"
| "client_step cfg d now (ERemoveListener u k) c = tracked k (remove_listener u k) c"
| "client_step cfg d now (EWaitReady timeoutMs) c = snd (wait_until_ready timeoutMs c)"
| "client_step cfg d now (EReadyTimeout q) c = ready_timeout q c"
| "client_step cfg d now (EAckHandled msgId traceId) c = ack_handled d now msgId traceId c"
| "client_step cfg d now (EOpen s) c = tr_on_open (kc_transport cfg) (on_open d now) s c"
| "client_step cfg d now (ETransportClose s info) c = tr_on_close (kc_transport cfg) on_close s info c"
| "client_step cfg d now (EMessage s raw) c = tr_on_message (on_message d now) s raw c"
| "client_step cfg d now (ETransportError s m) c = tr_on_error (\<lambda>m. log_call (OnTransportError m)) s m c"
| "client_step cfg d now EHeartbeat c = heartbeat_fires d now c"
| "client_step cfg d now EReconnect c = tr_timer_fires (kc_transport cfg) c"
| "client_step cfg d now (ETimeout k stage) c = handle_pending_timeout now k stage c"
| "client_step cfg d now (EInboundDone i result) c = inbound_done cfg d now i result c"

inductive client_reachable :: "client_config \<Rightarrow> client_deps \<Rightarrow> sdk_client \<Rightarrow> bool" for cfg d where
  start: "client_reachable cfg d (new_client cfg)"
| step: "client_reachable cfg d c \<Longrightarrow> client_reachable cfg d (client_step cfg d now e c)"

definition client_run :: "client_config \<Rightarrow> client_deps \<Rightarrow> (int \<times> client_event) list \<Rightarrow> sdk_client \<Rightarrow> sdk_client" where
  "client_run cfg d es c = foldl (\<lambda>c (now, e). client_step cfg d now e c) c es"

lemma client_run_reachable: "client_reachable cfg d c \<Longrightarrow> client_reachable cfg d (client_run cfg d es c)"
proof (induction es arbitrary: c)
  case (Cons e es)
  then show ?case by (cases e) (auto simp: client_run_def intro: client_reachable.step)
qed (simp add: client_run_def)

end
