(* ===== verification/Sdk_Client_Props.thy ===== *)
theory Sdk_Client_Props
  imports Sdk_Client
begin

text \<open>What the client library guarantees to its user: it sends business messages only when it is
  authenticated on an open socket, every promise it hands out is settled at most once and never
  forgotten, and a delivery in flight ends by an answer, a timeout or the loss of the connection.\<close>

section \<open>What the helpers leave alone\<close>

lemma settle_all_simps [simp]:
  "tr_socket (settle_all ss c) = tr_socket c" "tr_sent (settle_all ss c) = tr_sent c"
  "cl_readyState (settle_all ss c) = cl_readyState c" "cl_pending (settle_all ss c) = cl_pending c"
  "cl_objects (settle_all ss c) = cl_objects c" "cl_readyWaiters (settle_all ss c) = cl_readyWaiters c"
  "cl_settled (settle_all ss c) = cl_settled c @ ss" "cl_promises (settle_all ss c) = cl_promises c"
  by (simp_all add: settle_all_def)

lemma log_call_simps [simp]:
  "tr_socket (log_call h c) = tr_socket c" "tr_sent (log_call h c) = tr_sent c"
  "cl_readyState (log_call h c) = cl_readyState c" "cl_pending (log_call h c) = cl_pending c"
  "cl_objects (log_call h c) = cl_objects c" "cl_readyWaiters (log_call h c) = cl_readyWaiters c"
  "cl_settled (log_call h c) = cl_settled c" "cl_promises (log_call h c) = cl_promises c"
  by (simp_all add: log_call_def)

lemma with_object_simps [simp]:
  "tr_socket (with_object k f c) = tr_socket c" "tr_sent (with_object k f c) = tr_sent c"
  "cl_readyState (with_object k f c) = cl_readyState c" "cl_pending (with_object k f c) = cl_pending c"
  "cl_objects (with_object k f c) = (cl_objects c)[k := fst (f (cl_objects c ! k))]"
  "cl_readyWaiters (with_object k f c) = cl_readyWaiters c"
  "cl_settled (with_object k f c) = cl_settled c @ snd (f (cl_objects c ! k))" "cl_promises (with_object k f c) = cl_promises c"
  by (simp_all add: with_object_def case_prod_beta)

lemma tr_send_simps [simp]:
  "tr_socket (tr_send m c) = tr_socket c" "cl_readyState (tr_send m (c :: sdk_client)) = cl_readyState c"
  "cl_pending (tr_send m c) = cl_pending c" "cl_objects (tr_send m c) = cl_objects c"
  "cl_readyWaiters (tr_send m c) = cl_readyWaiters c" "cl_settled (tr_send m c) = cl_settled c"
  "cl_promises (tr_send m c) = cl_promises c"
  by (simp_all add: tr_send_def split: option.split)

lemma tr_sent_send: "tr_sent (tr_send m c) = tr_sent c @ (case tr_socket c of None \<Rightarrow> [] | Some s \<Rightarrow> [(s, m)])"
  by (simp add: tr_send_def split: option.split)

definition is_business :: "client_msg \<Rightarrow> bool" where
  "is_business m \<longleftrightarrow> (case ev_payload m of CBusiness _ \<Rightarrow> True | _ \<Rightarrow> False)"

definition business :: "sdk_client \<Rightarrow> (nat \<times> client_msg) list" where
  "business c = filter (\<lambda>e. is_business (snd e)) (tr_sent c)"

lemma send_system_simps [simp]:
  "tr_socket (send_system d now p i a t m c) = tr_socket c" "cl_readyState (send_system d now p i a t m c) = cl_readyState c"
  "cl_pending (send_system d now p i a t m c) = cl_pending c" "cl_objects (send_system d now p i a t m c) = cl_objects c"
  "cl_readyWaiters (send_system d now p i a t m c) = cl_readyWaiters c" "cl_settled (send_system d now p i a t m c) = cl_settled c"
  "cl_promises (send_system d now p i a t m c) = cl_promises c"
  by (simp_all add: send_system_def take_uuid_def)

lemma send_system_business:
  "\<not> (\<exists>v. m = CBusiness v) \<Longrightarrow> business (send_system d now p i a t m c) = business c"
  by (cases m) (auto simp: send_system_def take_uuid_def business_def tr_sent_send make_envelope_def is_business_def split: option.split)

text \<open>A predicate on clients that only looks at the fields a delivery event does not touch.\<close>

lemma emit_delivery_simps [simp]:
  "tr_socket (emit_delivery_event ev c) = tr_socket c" "tr_sent (emit_delivery_event ev c) = tr_sent c"
  "cl_readyState (emit_delivery_event ev c) = cl_readyState c" "cl_readyWaiters (emit_delivery_event ev c) = cl_readyWaiters c"
  "cl_promises (emit_delivery_event ev c) = cl_promises c" "length (cl_objects (emit_delivery_event ev c)) = length (cl_objects c)"
  by (simp_all add: emit_delivery_event_def Let_def split: option.split)

lemma fail_all_simps [simp]:
  "tr_socket (fail_pending_deliveries_on_close info c) = tr_socket c"
  "tr_sent (fail_pending_deliveries_on_close info c) = tr_sent c"
  "cl_readyState (fail_pending_deliveries_on_close info c) = cl_readyState c"
  "cl_readyWaiters (fail_pending_deliveries_on_close info c) = cl_readyWaiters c"
  "cl_promises (fail_pending_deliveries_on_close info c) = cl_promises c"
proof -
  have "tr_socket (foldl (\<lambda>c (_, k). emit_delivery_event (transport_closed_event info (cl_objects c ! k)) c) c es) = tr_socket c
    \<and> tr_sent (foldl (\<lambda>c (_, k). emit_delivery_event (transport_closed_event info (cl_objects c ! k)) c) c es) = tr_sent c
    \<and> cl_readyState (foldl (\<lambda>c (_, k). emit_delivery_event (transport_closed_event info (cl_objects c ! k)) c) c es) = cl_readyState c
    \<and> cl_readyWaiters (foldl (\<lambda>c (_, k). emit_delivery_event (transport_closed_event info (cl_objects c ! k)) c) c es) = cl_readyWaiters c
    \<and> cl_promises (foldl (\<lambda>c (_, k). emit_delivery_event (transport_closed_event info (cl_objects c ! k)) c) c es) = cl_promises c"
    for es :: "(string \<times> nat) list"
    by (induction es arbitrary: c) auto
  then show "tr_socket (fail_pending_deliveries_on_close info c) = tr_socket c"
    "tr_sent (fail_pending_deliveries_on_close info c) = tr_sent c"
    "cl_readyState (fail_pending_deliveries_on_close info c) = cl_readyState c"
    "cl_readyWaiters (fail_pending_deliveries_on_close info c) = cl_readyWaiters c"
    "cl_promises (fail_pending_deliveries_on_close info c) = cl_promises c"
    unfolding fail_pending_deliveries_on_close_def by blast+
qed

lemma report_simps [simp]:
  "tr_socket (report_protocol_error_from_envelope l env e c) = tr_socket c"
  "tr_sent (report_protocol_error_from_envelope l env e c) = tr_sent c"
  "cl_readyState (report_protocol_error_from_envelope l env e c) = cl_readyState c"
  "cl_readyWaiters (report_protocol_error_from_envelope l env e c) = cl_readyWaiters c"
  "cl_promises (report_protocol_error_from_envelope l env e c) = cl_promises c"
  by (simp_all add: report_protocol_error_from_envelope_def report_protocol_error_def Let_def split: option.split)

section \<open>Promises\<close>

definition waiting :: "sdk_client \<Rightarrow> nat multiset" where
  "waiting c = mset (map rw_promise (cl_readyWaiters c)) + mset (concat (map pend_promises (cl_objects c)))"

definition promises :: "sdk_client \<Rightarrow> nat multiset" where
  "promises c = waiting c + mset (map fst (cl_settled c))"

lemma mset_concat_update:
  "k < length xs \<Longrightarrow> mset (concat (map f (xs[k := x]))) + mset (f (xs ! k)) = mset (concat (map f xs)) + mset (f x)"
  by (induction xs arbitrary: k) (auto simp: nth_Cons ac_simps split: nat.split)

lemma exchange_parts:
  fixes A :: "'a multiset"
  assumes "A + P = B + Q" "Q + S = N + P"
  shows "A + S = B + N"
proof -
  have "(A + S) + P = (A + P) + S" by (simp add: ac_simps)
  also have "\<dots> = B + (Q + S)" by (simp only: assms(1) add.assoc)
  also have "\<dots> = (B + N) + P" by (simp only: assms(2) add.assoc)
  finally show ?thesis by (rule add_right_imp_eq)
qed

lemma with_object_promises:
  assumes "k < length (cl_objects c)"
    and "mset (pend_promises (fst (f (cl_objects c ! k)))) + mset (map fst (snd (f (cl_objects c ! k))))
      = mset new + mset (pend_promises (cl_objects c ! k))"
  shows "promises (with_object k f c) = promises c + mset new"
proof -
  let ?o = "cl_objects c" and ?p = "fst (f (cl_objects c ! k))" and ?s = "mset (map fst (snd (f (cl_objects c ! k))))"
  have "mset (concat (map pend_promises (?o[k := ?p]))) + mset (pend_promises (?o ! k))
      = mset (concat (map pend_promises ?o)) + mset (pend_promises ?p)"
    using assms(1) by (rule mset_concat_update)
  from exchange_parts[OF this assms(2)]
  have "mset (concat (map pend_promises (?o[k := ?p]))) + ?s = mset (concat (map pend_promises ?o)) + mset new" .
  then show ?thesis by (simp add: promises_def waiting_def ac_simps)
qed

lemma with_object_keeps_promises:
  "k < length (cl_objects c) \<Longrightarrow>
   mset (pend_promises (fst (f (cl_objects c ! k)))) + mset (map fst (snd (f (cl_objects c ! k))))
     = mset (pend_promises (cl_objects c ! k)) \<Longrightarrow>
   promises (with_object k f c) = promises c"
  using with_object_promises[where new = "[]"] by simp

lemma promises_cong:
  "cl_readyWaiters c = cl_readyWaiters c' \<Longrightarrow> cl_objects c = cl_objects c' \<Longrightarrow> cl_settled c = cl_settled c' \<Longrightarrow> promises c = promises c'"
  by (simp add: promises_def waiting_def)


section \<open>Active deliveries\<close>

definition active_object :: "string \<Rightarrow> pending_delivery \<Rightarrow> bool" where
  "active_object i p \<longleftrightarrow> pv_msgId p = i \<and> \<not> pv_completed p \<and> pv_handleAckOutcome p = None
     \<and> (pv_handleAckTimeoutMs p \<noteq> 0 \<longrightarrow> pv_handleAckTimer p)
     \<and> (pv_recvAckOutcome p = None \<and> pv_recvAckTimeoutMs p \<noteq> 0 \<longrightarrow> pv_recvAckTimer p)"

definition active_ok :: "sdk_client \<Rightarrow> bool" where
  "active_ok c \<longleftrightarrow> wf_map (cl_pending c) \<and> (\<forall>i k. map_of (cl_pending c) i = Some k \<longrightarrow>
     k < length (cl_objects c) \<and> active_object i (cl_objects c ! k))"

lemma active_okD:
  "active_ok c \<Longrightarrow> map_of (cl_pending c) i = Some k \<Longrightarrow> k < length (cl_objects c) \<and> active_object i (cl_objects c ! k)"
  by (simp add: active_ok_def)

lemma active_cong: "cl_pending c = cl_pending c' \<Longrightarrow> cl_objects c = cl_objects c' \<Longrightarrow> active_ok c = active_ok c'"
  by (simp add: active_ok_def)

lemma decorate_stage [simp]: "ce_stage (decorate_delivery_event ev p) = ce_stage ev"
  and decorate_msgId [simp]: "ce_msgId (decorate_delivery_event ev p) = ce_msgId ev"
  by (simp_all add: decorate_delivery_event_def)

lemma emit_known:
  "map_of (cl_pending c) (ce_msgId ev) = Some k \<Longrightarrow>
   cl_objects (emit_delivery_event ev c) = (cl_objects c)[k := fst (pending_event (decorate_delivery_event ev (cl_objects c ! k)) (cl_objects c ! k))]
 \<and> cl_pending (emit_delivery_event ev c) = (if ends_delivery (ce_stage ev) then map_del (ce_msgId ev) (cl_pending c) else cl_pending c)
 \<and> cl_settled (emit_delivery_event ev c) = cl_settled c @ snd (pending_event (decorate_delivery_event ev (cl_objects c ! k)) (cl_objects c ! k))"
  by (simp add: emit_delivery_event_def Let_def)

lemma emit_unknown:
  "map_of (cl_pending c) (ce_msgId ev) = None \<Longrightarrow> cl_objects (emit_delivery_event ev c) = cl_objects c
   \<and> cl_pending (emit_delivery_event ev c) = cl_pending c \<and> cl_settled (emit_delivery_event ev c) = cl_settled c"
  by (simp add: emit_delivery_event_def)

lemma emit_promises:
  assumes "\<And>k. map_of (cl_pending c) (ce_msgId ev) = Some k \<Longrightarrow> k < length (cl_objects c)"
  shows "promises (emit_delivery_event ev c) = promises c"
proof (cases "map_of (cl_pending c) (ce_msgId ev)")
  case None
  then show ?thesis using emit_unknown[OF None] by (intro promises_cong) simp_all
next
  case (Some k)
  let ?f = "pending_event (decorate_delivery_event ev (cl_objects c ! k))"
  have "promises (emit_delivery_event ev c) = promises (with_object k ?f c)"
    using emit_known[OF Some] by (intro promises_cong) simp_all
  also have "\<dots> = promises c"
    using assms[OF Some] by (rule with_object_keeps_promises) (rule pending_event_promises)
  finally show ?thesis .
qed

text \<open>An event keeps the active deliveries in order when the one it is for may be in any state that the event
  leads back to an active one, or ends.\<close>

lemma emit_active_from:
  assumes wf: "wf_map (cl_pending c)"
    and others: "\<And>i k. map_of (cl_pending c) i = Some k \<Longrightarrow> k < length (cl_objects c) \<and> pv_msgId (cl_objects c ! k) = i
        \<and> (i \<noteq> ce_msgId ev \<longrightarrow> active_object i (cl_objects c ! k))"
    and this1: "\<And>k. map_of (cl_pending c) (ce_msgId ev) = Some k \<Longrightarrow> \<not> ends_delivery (ce_stage ev) \<Longrightarrow>
        active_object (ce_msgId ev) (fst (pending_event (decorate_delivery_event ev (cl_objects c ! k)) (cl_objects c ! k)))"
  shows "active_ok (emit_delivery_event ev c)"
proof (cases "map_of (cl_pending c) (ce_msgId ev)")
  case None
  then show ?thesis unfolding active_ok_def using emit_unknown[OF None] wf others by fastforce
next
  case (Some k)
  have len: "k < length (cl_objects c)" using others[OF Some] by blast
  show ?thesis
    unfolding active_ok_def
  proof (intro conjI allI impI)
    show "wf_map (cl_pending (emit_delivery_event ev c))" using emit_known[OF Some] wf by simp
    fix i j assume a: "map_of (cl_pending (emit_delivery_event ev c)) i = Some j"
    then have j: "map_of (cl_pending c) i = Some j" and end1: "i = ce_msgId ev \<Longrightarrow> \<not> ends_delivery (ce_stage ev)"
      using emit_known[OF Some] by (auto split: if_splits)
    show "j < length (cl_objects (emit_delivery_event ev c))" using others[OF j] by simp
    show "active_object i (cl_objects (emit_delivery_event ev c) ! j)"
    proof (cases "i = ce_msgId ev")
      case True
      then have "j = k" using j Some by simp
      then show ?thesis using this1[OF Some end1[OF True]] emit_known[OF Some] len True by simp
    next
      case False
      have "j \<noteq> k" using others[OF j] others[OF Some] False by auto
      then show ?thesis using others[OF j] emit_known[OF Some] False by simp
    qed
  qed
qed

lemma continuing_active:
  "active_object i p \<Longrightarrow> \<not> ends_delivery (ce_stage ev) \<Longrightarrow> active_object i (fst (pending_event ev p))"
  using continuing_event[of ev p] pending_event_keeps[of ev p] by (simp add: active_object_def)

lemma active_object_id: "active_object i p \<Longrightarrow> pv_msgId p = i"
  by (simp add: active_object_def)

lemma emit_active:
  assumes "active_ok c" shows "active_ok (emit_delivery_event ev c)"
proof (rule emit_active_from)
  show "wf_map (cl_pending c)" using assms by (simp add: active_ok_def)
  show "k < length (cl_objects c) \<and> pv_msgId (cl_objects c ! k) = i \<and> (i \<noteq> ce_msgId ev \<longrightarrow> active_object i (cl_objects c ! k))"
    if "map_of (cl_pending c) i = Some k" for i k
    using active_okD[OF assms that] active_object_id by blast
  show "active_object (ce_msgId ev) (fst (pending_event (decorate_delivery_event ev (cl_objects c ! k)) (cl_objects c ! k)))"
    if "map_of (cl_pending c) (ce_msgId ev) = Some k" "\<not> ends_delivery (ce_stage ev)" for k
    using active_okD[OF assms that(1)] that(2) by (intro continuing_active) simp_all
qed

lemma emit_active_promises: "active_ok c \<Longrightarrow> promises (emit_delivery_event ev c) = promises c"
  by (rule emit_promises) (rule conjunct1[OF active_okD])


section \<open>Every promise is kept\<close>

text \<open>The promises handed out so far, each exactly once, are those still waiting and those settled; a
  delivery in the table is open and its timers are armed.\<close>

declare mset_upt [simp del]

definition client_inv :: "sdk_client \<Rightarrow> bool" where
  "client_inv c \<longleftrightarrow> active_ok c \<and> promises c = mset [0..<cl_promises c]"

lemma client_inv_cong:
  "client_inv c \<Longrightarrow> cl_pending c' = cl_pending c \<Longrightarrow> cl_objects c' = cl_objects c \<Longrightarrow> cl_readyWaiters c' = cl_readyWaiters c \<Longrightarrow>
   cl_settled c' = cl_settled c \<Longrightarrow> cl_promises c' = cl_promises c \<Longrightarrow> client_inv c'"
  by (simp add: client_inv_def active_ok_def promises_def waiting_def)

lemma client_inv_update [simp]:
  "client_inv (c\<lparr>cl_readyState := r\<rparr>) = client_inv c" "client_inv (c\<lparr>cl_token := t\<rparr>) = client_inv c"
  "client_inv (c\<lparr>cl_hookToken := h\<rparr>) = client_inv c" "client_inv (c\<lparr>cl_heartbeat := b\<rparr>) = client_inv c"
  "client_inv (c\<lparr>cl_modules := m\<rparr>) = client_inv c" "client_inv (c\<lparr>cl_inbound := is\<rparr>) = client_inv c"
  "client_inv (c\<lparr>cl_fresh := n\<rparr>) = client_inv c" "client_inv (c\<lparr>cl_calls := hs\<rparr>) = client_inv c"
  "client_inv (c\<lparr>tr_socket := so\<rparr>) = client_inv c" "client_inv (c\<lparr>tr_timer := ti\<rparr>) = client_inv c"
  "client_inv (c\<lparr>tr_url := u\<rparr>) = client_inv c" "client_inv (c\<lparr>tr_reconnectDelayMs := de\<rparr>) = client_inv c"
  "client_inv (c\<lparr>tr_manuallyClosed := b\<rparr>) = client_inv c" "client_inv (c\<lparr>tr_next := n\<rparr>) = client_inv c"
  "client_inv (c\<lparr>tr_sent := ms\<rparr>) = client_inv c" "client_inv (c\<lparr>tr_closed := cs\<rparr>) = client_inv c"
  by (simp_all add: client_inv_def active_ok_def promises_def waiting_def)

lemma client_inv_transport [simp]:
  "client_inv (tr_send m c) = client_inv c" "client_inv (tr_connect url c) = client_inv c"
  "client_inv (tr_close c) = client_inv c" "client_inv (tr_timer_fires k c) = client_inv c"
  "client_inv (schedule_reconnect c) = client_inv c"
  by (simp_all add: transport_defs Let_def split: option.split)

lemma client_inv_simple [simp]:
  "client_inv (log_call h c) = client_inv c" "client_inv (send_system d now p i a t m c) = client_inv c"
  "client_inv (stop_heartbeat c) = client_inv c" "client_inv (start_heartbeat c) = client_inv c"
  "client_inv (report_protocol_error info c) = client_inv c"
  by (simp_all add: log_call_def send_system_def take_uuid_def stop_heartbeat_def start_heartbeat_def report_protocol_error_def)

lemma client_inv_emit_event: "client_inv c \<Longrightarrow> client_inv (emit_delivery_event ev c)"
  by (simp add: client_inv_def emit_active emit_active_promises)

lemma client_inv_report: "client_inv c \<Longrightarrow> client_inv (report_protocol_error_from_envelope l env e c)"
  by (simp add: report_protocol_error_from_envelope_def Let_def client_inv_emit_event split: option.split)

lemma client_inv_fail_all: "client_inv c \<Longrightarrow> client_inv (fail_pending_deliveries_on_close info c)"
proof -
  have "client_inv c \<Longrightarrow> client_inv (foldl (\<lambda>c (_, k). emit_delivery_event (transport_closed_event info (cl_objects c ! k)) c) c es)"
    for es :: "(string \<times> nat) list"
    by (induction es arbitrary: c) (auto simp: client_inv_emit_event)
  then show "client_inv c \<Longrightarrow> ?thesis" by (simp add: fail_pending_deliveries_on_close_def)
qed

lemma client_inv_ready:
  assumes "client_inv c" "mset (map rw_promise (cl_readyWaiters c)) = mset (map rw_promise ws) + mset (map fst ss)"
  shows "client_inv (settle_all ss (c\<lparr>cl_readyWaiters := ws\<rparr>))"
  using assms by (simp add: client_inv_def settle_all_def active_ok_def promises_def waiting_def ac_simps)

lemma client_inv_reject_ready: "client_inv c \<Longrightarrow> client_inv (reject_ready_waiters err c)"
  and client_inv_resolve_ready: "client_inv c \<Longrightarrow> client_inv (resolve_ready_waiters c)"
  unfolding reject_ready_waiters_def resolve_ready_waiters_def by (rule client_inv_ready; simp add: comp_def)+

lemma client_inv_wait_ready: "client_inv c \<Longrightarrow> client_inv (snd (wait_until_ready timeoutMs c))"
  by (simp add: wait_until_ready_def Let_def client_inv_def active_ok_def promises_def waiting_def settle_all_def)

text \<open>A step on one object that adds the promise \<open>q\<close> or settles it at once.\<close>

lemma client_inv_wait_on:
  assumes inv: "client_inv c" and k: "k < length (cl_objects c)"
    and f: "\<And>q p. mset (pend_promises (fst (f q p))) + mset (map fst (snd (f q p))) = add_mset q (mset (pend_promises p))"
    and same: "\<And>q i p. active_object i p \<Longrightarrow> active_object i (fst (f q p))"
  shows "client_inv (snd (wait_on f k c))"
proof -
  let ?q = "cl_promises c"
  let ?c = "with_object k (f ?q) (c\<lparr>cl_promises := Suc ?q\<rparr>)"
  have "promises ?c = promises (c\<lparr>cl_promises := Suc ?q\<rparr>) + mset [?q]"
    using k f by (intro with_object_promises) simp_all
  also have "\<dots> = mset [0..<Suc ?q]" using inv by (simp add: client_inv_def promises_def waiting_def)
  finally have p: "promises ?c = mset [0..<Suc ?q]" .
  have "active_ok ?c"
    using inv same k by (auto simp: client_inv_def active_ok_def nth_list_update)
  then show ?thesis using p by (simp add: client_inv_def wait_on_def Let_def)
qed

lemma wait_stage_active: "active_object i p \<Longrightarrow> active_object i (fst (wait_for_pending_stage q stage p))"
  by (cases stage) (auto simp: wait_for_pending_stage_def active_object_def split: option.split)

lemma wait_result_active: "active_object i p \<Longrightarrow> active_object i (fst (wait_for_pending_result q stage p))"
  by (auto simp: wait_for_pending_result_def active_object_def split: option.split)

lemma client_inv_wait_stage: "client_inv c \<Longrightarrow> k < length (cl_objects c) \<Longrightarrow> client_inv (snd (wait_for_stage stage k c))"
  unfolding wait_for_stage_def by (rule client_inv_wait_on, assumption, assumption, rule wait_stage_promises, erule wait_stage_active)

lemma client_inv_wait_result: "client_inv c \<Longrightarrow> k < length (cl_objects c) \<Longrightarrow> client_inv (snd (wait_for_result until k c))"
  unfolding wait_for_result_def by (rule client_inv_wait_on, assumption, assumption, rule wait_result_promises, erule wait_result_active)

lemma client_inv_with_object:
  assumes "client_inv c" "k < length (cl_objects c)"
    and "mset (pend_promises (fst (f (cl_objects c ! k)))) + mset (map fst (snd (f (cl_objects c ! k)))) = mset (pend_promises (cl_objects c ! k))"
    and "\<And>i. map_of (cl_pending c) i = Some k \<Longrightarrow> active_object i (cl_objects c ! k) \<Longrightarrow> active_object i (fst (f (cl_objects c ! k)))"
  shows "client_inv (with_object k f c)"
proof -
  have "promises (with_object k f c) = promises c" using assms(2,3) by (rule with_object_keeps_promises)
  then show ?thesis using assms(1,2,4) by (auto simp: client_inv_def active_ok_def nth_list_update)
qed

lemma removed_listener_promises: "result_promises (removeAll (UserListener u) ls) = result_promises ls"
proof (induction ls)
  case (Cons l ls) then show ?case by (cases l) auto
qed simp

lemma client_inv_add_listener: "client_inv c \<Longrightarrow> k < length (cl_objects c) \<Longrightarrow> client_inv (add_listener u k c)"
  unfolding add_listener_def by (rule client_inv_with_object) (auto simp: pend_promises_def active_object_def)

lemma client_inv_remove_listener: "client_inv c \<Longrightarrow> k < length (cl_objects c) \<Longrightarrow> client_inv (remove_listener u k c)"
  unfolding remove_listener_def by (rule client_inv_with_object) (auto simp: pend_promises_def active_object_def removed_listener_promises)


text \<open>The timer of a stage fires.\<close>

lemma disarm_keeps [simp]:
  "pend_promises (disarm stage p) = pend_promises p" "pv_msgId (disarm stage p) = pv_msgId p"
  "pv_completed (disarm stage p) = pv_completed p" "pv_handleAckOutcome (disarm stage p) = pv_handleAckOutcome p"
  "pv_recvAckOutcome (disarm stage p) = pv_recvAckOutcome p"
  "pv_handleAckTimer (disarm RecvAck p) = pv_handleAckTimer p"
  "pv_handleAckTimeoutMs (disarm stage p) = pv_handleAckTimeoutMs p"
  "pv_recvAckTimeoutMs (disarm stage p) = pv_recvAckTimeoutMs p"
  by (cases stage; simp add: disarm_def pend_promises_def)+

lemma recv_timeout_active:
  "ce_stage ev = StageRecvAckTimeout \<Longrightarrow> active_object i p \<Longrightarrow> active_object i (fst (pending_event ev p))"
  "ce_stage ev = StageRecvAckTimeout \<Longrightarrow> active_object i p \<Longrightarrow> active_object i (fst (pending_event ev (disarm RecvAck p)))"
  by (simp_all add: pending_event_def notify_listeners_def apply_stage_def Let_def active_object_def disarm_def)

lemma client_inv_timeout:
  assumes inv: "client_inv c"
  shows "client_inv (handle_pending_timeout now k stage c)"
proof (cases "k < length (cl_objects c) \<and> timer_of stage (cl_objects c ! k)")
  case False
  then show ?thesis using inv by (simp add: handle_pending_timeout_def)
next
  case True
  let ?p = "cl_objects c ! k" and ?c = "with_object k (\<lambda>p. (disarm stage p, [])) c"
  have act: "active_ok c" using inv by (simp add: client_inv_def)
  have pr: "promises ?c = promises c" by (rule with_object_keeps_promises) (use True in simp_all)
  show ?thesis
  proof (cases "outcome_of stage ?p \<noteq> None \<or> pv_completed ?p")
    case True1: True
    have "client_inv ?c"
    proof (rule client_inv_with_object[OF inv])
      show "active_object i (fst (disarm stage ?p, []))" if "map_of (cl_pending c) i = Some k" "active_object i ?p" for i
        using True1 that(2) by (cases stage) (auto simp: active_object_def outcome_of_def)
    qed (use True in simp_all)
    then show ?thesis using True True1 by (simp add: handle_pending_timeout_def)
  next
    case open1: False
    let ?ev = "timeout_event now stage ?p"
    have id1: "ce_msgId ?ev = pv_msgId ?p" and st: "ce_stage ?ev = (case stage of RecvAck \<Rightarrow> StageRecvAckTimeout | HandleAck \<Rightarrow> StageHandleAckTimeout)"
      by (simp_all add: timeout_event_def delivery_event_of_def)
    have other: "cl_objects ?c ! j = cl_objects c ! j" if "j \<noteq> k" for j using that by simp
    have "active_ok (emit_delivery_event ?ev ?c)"
    proof (rule emit_active_from)
      show "wf_map (cl_pending ?c)" using act by (simp add: active_ok_def)
      show "j < length (cl_objects ?c) \<and> pv_msgId (cl_objects ?c ! j) = i \<and> (i \<noteq> ce_msgId ?ev \<longrightarrow> active_object i (cl_objects ?c ! j))"
        if "map_of (cl_pending ?c) i = Some j" for i j
      proof -
        have m: "map_of (cl_pending c) i = Some j" using that by simp
        show ?thesis using active_okD[OF act m] active_object_id[of i] id1 by (cases "j = k") auto
      qed
      show "active_object (ce_msgId ?ev) (fst (pending_event (decorate_delivery_event ?ev (cl_objects ?c ! j)) (cl_objects ?c ! j)))"
        if "map_of (cl_pending ?c) (ce_msgId ?ev) = Some j" "\<not> ends_delivery (ce_stage ?ev)" for j
      proof -
        have stage: "stage = RecvAck" using that(2) st by (cases stage) (simp_all add: ends_delivery_def)
        have m: "map_of (cl_pending c) (ce_msgId ?ev) = Some j" using that(1) by simp
        let ?d = "decorate_delivery_event ?ev (cl_objects ?c ! j)"
        have "active_object (ce_msgId ?ev) (cl_objects c ! j)" using active_okD[OF act m] by blast
        moreover have "ce_stage ?d = StageRecvAckTimeout" using st stage by simp
        ultimately show ?thesis using recv_timeout_active True stage by (cases "j = k") simp_all
      qed
    qed
    moreover have "promises (emit_delivery_event ?ev ?c) = promises ?c"
      by (rule emit_promises) (use act in \<open>auto dest: active_okD\<close>)
    ultimately show ?thesis
      using inv True open1 pr by (simp add: handle_pending_timeout_def client_inv_def)
  qed
qed


lemma wf_map_entry: "wf_map m \<Longrightarrow> (i, v) \<in> set m \<Longrightarrow> map_of m i = Some v"
  by (simp add: wf_map_def)

lemma closing_keeps:
  assumes "\<And>i k. (i, k) \<in> set es \<Longrightarrow> k < length (cl_objects c)"
  shows "promises (foldl (\<lambda>c (_, k). with_object k pending_closed c) c es) = promises c
    \<and> cl_promises (foldl (\<lambda>c (_, k). with_object k pending_closed c) c es) = cl_promises c
    \<and> tr_socket (foldl (\<lambda>c (_, k). with_object k pending_closed c) c es) = tr_socket c
    \<and> cl_readyState (foldl (\<lambda>c (_, k). with_object k pending_closed c) c es) = cl_readyState c"
  using assms
proof (induction es arbitrary: c)
  case (Cons e es)
  obtain i k where e: "e = (i, k)" by (cases e)
  let ?c = "with_object k pending_closed c"
  have "promises ?c = promises c"
    using Cons.prems[of i k] by (intro with_object_keeps_promises pending_closed_promises) (simp add: e)
  moreover have "j < length (cl_objects ?c)" if "(h, j) \<in> set es" for h j
    using Cons.prems[of h j] that by simp
  ultimately show ?case using Cons.IH[of ?c] by (simp add: e)
qed simp

lemma client_inv_close: "client_inv c \<Longrightarrow> client_inv (client_close c)"
proof -
  assume inv: "client_inv c"
  define c2 where "c2 = reject_ready_waiters (create_client_sdk_error CLIENT_TRANSPORT_CLOSED ''Client closed before becoming ready''
      (no_sdk_options\<lparr>xo_close := Some \<lparr>ci_code = None, ci_reason = Some ''client closed'', ci_wasClean = None\<rparr>\<rparr>))
      ((stop_heartbeat c)\<lparr>cl_readyState := CClosed, cl_token := None\<rparr>)"
  let ?c3 = "foldl (\<lambda>c (_, k). with_object k pending_closed c) c2 (cl_pending c2)"
  have "client_inv c2" using inv unfolding c2_def by (intro client_inv_reject_ready) simp
  then have a: "active_ok c2" and p: "promises c2 = mset [0..<cl_promises c2]" by (simp_all add: client_inv_def)
  have "k < length (cl_objects c2)" if "(i, k) \<in> set (cl_pending c2)" for i k
    using a wf_map_entry[OF _ that] by (auto simp: active_ok_def)
  from closing_keeps[of "cl_pending c2" c2, OF this] p
  have "client_inv (?c3\<lparr>cl_pending := []\<rparr>)"
    by (simp add: client_inv_def active_ok_def promises_def waiting_def)
  then show ?thesis by (simp add: client_close_def Let_def c2_def)
qed

lemma client_inv_create: "client_inv c \<Longrightarrow> client_inv (snd (create_pending_delivery cfg now msgId traceId input c))"
  by (auto simp: client_inv_def active_ok_def promises_def waiting_def create_pending_delivery_def Let_def pend_promises_def
      active_object_def nth_append less_Suc_eq split: if_splits)

lemma create_envelope_client:
  "client_inv c \<Longrightarrow> client_inv (snd (create_business_envelope d now input c))"
  "tr_socket (snd (create_business_envelope d now input c)) = tr_socket c"
  "cl_readyState (snd (create_business_envelope d now input c)) = cl_readyState c"
  "cl_objects (snd (create_business_envelope d now input c)) = cl_objects c"
  "cl_pending (snd (create_business_envelope d now input c)) = cl_pending c"
  by (simp_all add: create_business_envelope_def Let_def take_uuid_def split: sum.split)

lemma create_delivery_client [simp]:
  "tr_socket (snd (create_pending_delivery cfg now msgId traceId input c)) = tr_socket c"
  "cl_readyState (snd (create_pending_delivery cfg now msgId traceId input c)) = cl_readyState c"
  "fst (create_pending_delivery cfg now msgId traceId input c) = length (cl_objects c)"
  "length (cl_objects (snd (create_pending_delivery cfg now msgId traceId input c))) = Suc (length (cl_objects c))"
  by (simp_all add: create_pending_delivery_def Let_def)

lemma client_inv_emit_tracked:
  assumes "client_inv c"
  shows "client_inv (snd (emit_tracked cfg d now input c))
    \<and> (\<forall>k. fst (emit_tracked cfg d now input c) = Inr k \<longrightarrow> k < length (cl_objects (snd (emit_tracked cfg d now input c))))"
proof (cases "ensure_ready c")
  case None
  obtain r c1 where e: "create_business_envelope d now input c = (r, c1)" by (cases "create_business_envelope d now input c")
  have c1: "client_inv c1" using create_envelope_client(1)[OF assms, of d now input] by (simp add: e)
  show ?thesis
    using client_inv_create[OF c1] c1 None by (cases r) (auto simp: emit_tracked_def e Let_def case_prod_beta)
qed (use assms in \<open>simp add: emit_tracked_def\<close>)

lemma client_inv_send: "client_inv c \<Longrightarrow> client_inv (snd (client_send cfg d now input until c))"
  using client_inv_emit_tracked[of c cfg d now input] client_inv_wait_result
  by (auto simp: client_send_def Let_def case_prod_beta split: prod.split sum.split)

lemma client_inv_emit: "client_inv c \<Longrightarrow> client_inv (snd (emit cfg d now input c))"
  using client_inv_emit_tracked[of c cfg d now input] by (auto simp: emit_def split: prod.split sum.split)

lemma client_inv_system: "client_inv c \<Longrightarrow> client_inv (snd (handle_system d now env c))"
  by (simp add: handle_system_def Let_def client_inv_emit_event client_inv_resolve_ready split: sum.split)

lemma client_inv_inbound: "client_inv c \<Longrightarrow> client_inv (handle_inbound env c)"
  by (simp add: handle_inbound_def client_inv_report split: option.split sum.split unit.split)

lemma client_inv_message:
  assumes "client_inv c" shows "client_inv (on_message d now raw c)"
proof (cases raw)
  case (Some env)
  obtain r c1 where h: "handle_system d now env c = (r, c1)" by (cases "handle_system d now env c")
  have "client_inv c1" using client_inv_system[OF assms, of d now env] by (simp add: h)
  then show ?thesis using assms
    by (cases r) (simp_all add: on_message_def Some h client_inv_report client_inv_inbound)
qed (use assms in \<open>simp add: on_message_def\<close>)

lemma client_inv_on_close: "client_inv c \<Longrightarrow> client_inv (on_close info c)"
  by (simp add: on_close_def Let_def client_inv_fail_all client_inv_reject_ready)

lemma client_inv_done: "client_inv c \<Longrightarrow> client_inv (inbound_done cfg d now i result c)"
  by (simp add: inbound_done_def Let_def client_inv_report ack_handled_def split: sum.split unit.split)

lemma ready_timeout_waiters:
  "distinct (map rw_promise ws) \<Longrightarrow> w \<in> set ws \<Longrightarrow> rw_promise w = q \<Longrightarrow>
   mset (map rw_promise ws) = add_mset q (mset (map rw_promise (filter (\<lambda>w. rw_promise w \<noteq> q) ws)))"
proof (induction ws)
  case (Cons v ws)
  show ?case
  proof (cases "rw_promise v = q")
    case True
    then have "q \<notin> rw_promise ` set ws" using Cons.prems(1) by auto
    then have "filter (\<lambda>w. rw_promise w \<noteq> q) ws = ws" by (auto simp: filter_id_conv)
    then show ?thesis using True by simp
  next
    case False
    then show ?thesis using Cons by auto
  qed
qed simp

lemma client_inv_distinct:
  assumes "client_inv c"
  shows "distinct (map rw_promise (cl_readyWaiters c) @ concat (map pend_promises (cl_objects c)) @ map fst (cl_settled c))"
proof -
  have "mset (map rw_promise (cl_readyWaiters c) @ concat (map pend_promises (cl_objects c)) @ map fst (cl_settled c)) = mset [0..<cl_promises c]"
    using assms by (simp add: client_inv_def promises_def waiting_def ac_simps)
  from mset_eq_imp_distinct_iff[OF this] show ?thesis by simp
qed

lemma client_inv_ready_timeout:
  assumes "client_inv c" shows "client_inv (ready_timeout q c)"
proof (cases "find (\<lambda>w. rw_promise w = q) (cl_readyWaiters c)")
  case (Some w)
  then have w: "w \<in> set (cl_readyWaiters c)" "rw_promise w = q" by (auto simp: find_Some_iff)
  have "distinct (map rw_promise (cl_readyWaiters c))" using client_inv_distinct[OF assms] by simp
  from ready_timeout_waiters[OF this w]
  show ?thesis using assms by (auto simp: ready_timeout_def Some intro!: client_inv_ready split: option.split)
qed (use assms in \<open>simp add: ready_timeout_def\<close>)

lemma client_inv_step:
  assumes "client_inv c" shows "client_inv (client_step cfg d now e c)"
proof (cases e)
  case (EOpen s) then show ?thesis using assms by (simp add: tr_on_open_def on_open_def send_auth_def)
next
  case (ETransportClose s info)
  have "client_inv (on_close info (c\<lparr>tr_socket := None\<rparr>))" using assms by (intro client_inv_on_close) simp
  then show ?thesis using assms by (simp add: ETransportClose tr_on_close_def Let_def)
next
  case (EMessage s raw) then show ?thesis using assms by (simp add: tr_on_message_def client_inv_message)
next
  case (ETransportError s m) then show ?thesis using assms by (simp add: tr_on_error_def)
qed (use assms in \<open>simp_all add: client_connect_def client_inv_close client_inv_emit client_inv_send tracked_def
      client_inv_wait_stage client_inv_wait_result client_inv_add_listener client_inv_remove_listener client_inv_wait_ready
      client_inv_ready_timeout ack_handled_def heartbeat_fires_def take_uuid_def client_inv_timeout client_inv_done Let_def\<close>)

lemma client_inv_new: "client_inv (new_client cfg)"
  by (simp add: client_inv_def active_ok_def promises_def waiting_def new_client_def new_transport_def ws_transport.defs)

lemma client_inv_reachable: "client_reachable cfg d c \<Longrightarrow> client_inv c"
  by (induction rule: client_reachable.induct) (auto simp: client_inv_new client_inv_step)


section \<open>Ready means connected\<close>

definition ready_ok :: "sdk_client \<Rightarrow> bool" where
  "ready_ok c \<longleftrightarrow> (cl_readyState c = CReady \<longrightarrow> tr_socket c \<noteq> None)"

lemma ready_ok_cong: "cl_readyState c' = cl_readyState c \<Longrightarrow> tr_socket c' = tr_socket c \<Longrightarrow> ready_ok c \<Longrightarrow> ready_ok c'"
  by (simp add: ready_ok_def)

lemma not_ready_ok: "cl_readyState c \<noteq> CReady \<Longrightarrow> ready_ok c"
  by (simp add: ready_ok_def)

lemma system_socket: "tr_socket (snd (handle_system d now env c)) = tr_socket c"
  by (simp add: handle_system_def Let_def resolve_ready_waiters_def split: sum.split)

lemma inbound_same:
  "tr_socket (handle_inbound env c) = tr_socket c" "cl_readyState (handle_inbound env c) = cl_readyState c"
  "tr_sent (handle_inbound env c) = tr_sent c"
  by (simp_all add: handle_inbound_def split: option.split sum.split unit.split)

lemma message_socket: "tr_socket (on_message d now raw c) = tr_socket c"
proof (cases raw)
  case (Some env)
  then show ?thesis using system_socket[of d now env c]
    by (cases "handle_system d now env c"; cases "fst (handle_system d now env c)")
      (simp_all add: on_message_def inbound_same)
qed (simp add: on_message_def report_protocol_error_def)

lemma emit_tracked_same:
  "tr_socket (snd (emit_tracked cfg d now input c)) = tr_socket c"
  "cl_readyState (snd (emit_tracked cfg d now input c)) = cl_readyState c"
  using create_envelope_client(2,3)[of d now input c]
  by (cases "create_business_envelope d now input c"; cases "fst (create_business_envelope d now input c)";
      simp add: emit_tracked_def Let_def case_prod_beta split: option.split)+

lemma emit_snd: "snd (emit cfg d now input c) = snd (emit_tracked cfg d now input c)"
  by (auto simp: emit_def split: prod.split sum.split)

lemma wait_same [simp]:
  "tr_socket (snd (wait_on f k c)) = tr_socket c" "cl_readyState (snd (wait_on f k c)) = cl_readyState c"
  "tr_sent (snd (wait_on f k c)) = tr_sent c"
  by (simp_all add: wait_on_def Let_def)

lemma ready_waiters_same [simp]:
  "tr_socket (reject_ready_waiters e c) = tr_socket c" "cl_readyState (reject_ready_waiters e c) = cl_readyState c"
  "tr_sent (reject_ready_waiters e c) = tr_sent c" "cl_pending (reject_ready_waiters e c) = cl_pending c"
  "cl_objects (reject_ready_waiters e c) = cl_objects c" "cl_readyWaiters (reject_ready_waiters e c) = []"
  "tr_socket (resolve_ready_waiters c) = tr_socket c" "tr_sent (resolve_ready_waiters c) = tr_sent c"
  "cl_pending (resolve_ready_waiters c) = cl_pending c" "cl_objects (resolve_ready_waiters c) = cl_objects c"
  by (simp_all add: reject_ready_waiters_def resolve_ready_waiters_def)

lemma on_close_ready: "cl_readyState (on_close info c) \<noteq> CReady"
  by (simp add: on_close_def Let_def stop_heartbeat_def)

lemma schedule_same [simp]:
  "cl_readyState (schedule_reconnect c) = cl_readyState c" "tr_socket (schedule_reconnect c) = tr_socket c"
  "cl_pending (schedule_reconnect c) = cl_pending c" "cl_objects (schedule_reconnect c) = cl_objects c"
  "cl_readyWaiters (schedule_reconnect c) = cl_readyWaiters c" "tr_sent (schedule_reconnect c) = tr_sent c"
  by (simp_all add: transport_defs)

lemma timer_fires_ready: "ready_ok c \<Longrightarrow> ready_ok (tr_timer_fires k c)"
  by (auto simp: ready_ok_def transport_defs Let_def split: option.split)

lemma timeout_same:
  "tr_socket (handle_pending_timeout now k stage c) = tr_socket c"
  "cl_readyState (handle_pending_timeout now k stage c) = cl_readyState c"
  "tr_sent (handle_pending_timeout now k stage c) = tr_sent c"
  by (simp_all add: handle_pending_timeout_def Let_def)

lemma close_not_ready: "cl_readyState (client_close c) \<noteq> CReady"
proof -
  have "cl_readyState (foldl (\<lambda>c (_, k). with_object k pending_closed c) c es) = cl_readyState c" for c :: sdk_client and es :: "(string \<times> nat) list"
    by (induction es arbitrary: c) auto
  then show ?thesis by (simp add: client_close_def Let_def transport_defs split: option.split)
qed

lemma connect_not_ready: "cl_readyState (client_connect cfg token c) = CConnecting"
  by (simp add: client_connect_def transport_defs split: option.split)

lemma ready_ok_step:
  assumes "ready_ok c" shows "ready_ok (client_step cfg d now e c)"
proof (cases e)
  case (EConnect token) then show ?thesis by (intro not_ready_ok) (simp add: connect_not_ready)
next
  case EClose then show ?thesis by (intro not_ready_ok) (simp add: close_not_ready)
next
  case (ETransportClose s info)
  then show ?thesis using assms on_close_ready
    by (cases "tr_socket c = Some s") (simp_all add: tr_on_close_def Let_def not_ready_ok)
next
  case (EOpen s) then show ?thesis using assms
    by (simp add: tr_on_open_def on_open_def send_auth_def start_heartbeat_def stop_heartbeat_def ready_ok_def)
next
  case (EMessage s raw) then show ?thesis using assms message_socket[of d now raw c] by (auto simp: tr_on_message_def ready_ok_def)
next
  case (ETransportError s m) then show ?thesis using assms by (simp add: tr_on_error_def ready_ok_def)
next
  case (EEmit input) then show ?thesis using assms emit_tracked_same[of cfg d now input c]
    by (intro ready_ok_cong[OF _ _ assms]) (simp_all add: emit_snd)
next
  case (ESend input until) then show ?thesis using assms emit_tracked_same[of cfg d now input c]
    by (intro ready_ok_cong[OF _ _ assms]) (auto simp: client_send_def wait_for_result_def Let_def case_prod_beta split: prod.split sum.split)
next
  case (ETimeout k stage) then show ?thesis using assms by (simp add: ready_ok_def timeout_same)
next
  case EReconnect then show ?thesis using assms by (simp add: timer_fires_ready)
qed (use assms in \<open>simp_all add: ready_ok_def tracked_def wait_for_stage_def wait_for_result_def add_listener_def remove_listener_def
    wait_until_ready_def ready_timeout_def ack_handled_def heartbeat_fires_def take_uuid_def inbound_done_def Let_def
    split: option.split sum.split unit.split\<close>)

lemma ready_ok_reachable: "client_reachable cfg d c \<Longrightarrow> ready_ok c"
proof (induction rule: client_reachable.induct)
  case start
  show ?case by (simp add: ready_ok_def new_client_def ws_transport.defs)
qed (rule ready_ok_step)


section \<open>When business messages leave\<close>

lemma business_cong: "tr_sent c' = tr_sent c \<Longrightarrow> business c' = business c"
  by (simp add: business_def)

lemma business_same [simp]:
  "business (c\<lparr>cl_readyState := r\<rparr>) = business c" "business (c\<lparr>cl_token := t\<rparr>) = business c"
  "business (c\<lparr>cl_hookToken := h\<rparr>) = business c" "business (c\<lparr>cl_heartbeat := b\<rparr>) = business c"
  "business (c\<lparr>cl_modules := m\<rparr>) = business c" "business (c\<lparr>cl_inbound := is\<rparr>) = business c"
  "business (c\<lparr>cl_fresh := n\<rparr>) = business c" "business (c\<lparr>cl_calls := hs\<rparr>) = business c"
  "business (c\<lparr>cl_readyWaiters := ws\<rparr>) = business c" "business (c\<lparr>cl_promises := n\<rparr>) = business c"
  "business (c\<lparr>cl_objects := ps\<rparr>) = business c" "business (c\<lparr>cl_pending := es\<rparr>) = business c"
  "business (c\<lparr>tr_socket := so\<rparr>) = business c" "business (c\<lparr>tr_timer := ti\<rparr>) = business c"
  "business (c\<lparr>tr_url := u\<rparr>) = business c" "business (c\<lparr>tr_reconnectDelayMs := de\<rparr>) = business c"
  "business (c\<lparr>tr_manuallyClosed := b\<rparr>) = business c" "business (c\<lparr>tr_next := n\<rparr>) = business c"
  "business (c\<lparr>tr_closed := cs\<rparr>) = business c" "business (log_call k c) = business c" "business (settle_all ss c) = business c"
  "business (emit_delivery_event ev c) = business c" "business (report_protocol_error_from_envelope l env e c) = business c"
  "business (with_object i f c) = business c" "business (snd (wait_on g i c)) = business c"
  by (simp_all add: business_def)

lemmas inbound_business = business_cong[OF inbound_same(3)]

lemma open_business: "business (on_open d now c) = business c"
  by (simp add: on_open_def send_auth_def start_heartbeat_def stop_heartbeat_def send_system_business)

lemma system_business: "business (snd (handle_system d now env c)) = business c"
  by (simp add: handle_system_def Let_def send_system_business resolve_ready_waiters_def
      split: sum.split)

lemma message_business: "business (on_message d now raw c) = business c"
proof (cases raw)
  case (Some env)
  then show ?thesis using system_business[of d now env c]
    by (cases "handle_system d now env c"; cases "fst (handle_system d now env c)")
      (simp_all add: on_message_def inbound_business)
qed (simp add: on_message_def report_protocol_error_def)

lemma close_sent: "tr_sent (client_close c) = tr_sent c"
proof -
  have "tr_sent (foldl (\<lambda>c (_, k). with_object k pending_closed c) c es) = tr_sent c" for c :: sdk_client and es :: "(string \<times> nat) list"
    by (induction es arbitrary: c) auto
  then show ?thesis by (simp add: client_close_def Let_def stop_heartbeat_def transport_defs split: option.split)
qed

lemmas close_business = business_cong[OF close_sent]

lemmas timeout_business = business_cong[OF timeout_same(3)]

lemma done_business: "business (inbound_done cfg d now i result c) = business c"
  by (auto simp: inbound_done_def Let_def ack_handled_def send_system_business split: sum.split unit.split)

lemma on_close_sent: "tr_sent (on_close info c) = tr_sent c"
  by (simp add: on_close_def Let_def stop_heartbeat_def)

lemma heartbeat_business: "business (heartbeat_fires d now c) = business c"
  by (simp add: heartbeat_fires_def take_uuid_def send_system_business)

lemma other_step_business:
  assumes "\<And>input. e \<noteq> EEmit input" "\<And>input until. e \<noteq> ESend input until"
  shows "business (client_step cfg d now e c) = business c"
proof (cases e)
  case (EOpen s) then show ?thesis by (simp add: tr_on_open_def open_business)
next
  case (EMessage s raw) then show ?thesis by (simp add: tr_on_message_def message_business)
next
  case (EInboundDone i result) then show ?thesis by (simp add: done_business)
next
  case EHeartbeat then show ?thesis by (simp add: heartbeat_business)
next
  case (EAckHandled msgId traceId) then show ?thesis by (simp add: ack_handled_def send_system_business)
next
  case EReconnect then show ?thesis by (simp add: transport_defs Let_def split: option.split)
next
  case (EConnect token) then show ?thesis by (simp add: client_connect_def transport_defs split: option.split)
next
  case (ETransportClose s info) then show ?thesis
    by (intro business_cong) (simp add: tr_on_close_def Let_def on_close_sent)
qed (use assms in \<open>simp_all add: close_business timeout_business tr_on_error_def tracked_def wait_for_stage_def
    wait_for_result_def add_listener_def remove_listener_def wait_until_ready_def ready_timeout_def Let_def split: option.split\<close>)

lemma envelope_is_business:
  "create_business_envelope d now input c = (Inr (env, msgId, traceId), c1) \<Longrightarrow> is_business env \<and> business c1 = business c"
  by (auto simp: create_business_envelope_def Let_def take_uuid_def make_envelope_def is_business_def business_def split: sum.splits)

lemma create_delivery_sent: "tr_sent (snd (create_pending_delivery cfg now msgId traceId input c)) = tr_sent c"
  by (simp add: create_pending_delivery_def Let_def)

lemma failed_envelope_business:
  "create_business_envelope d now input c = (Inl e, c1) \<Longrightarrow> business c1 = business c"
  by (auto simp: create_business_envelope_def Let_def take_uuid_def split: sum.splits)

lemma emit_tracked_business:
  assumes "ready_ok c"
  shows "business (snd (emit_tracked cfg d now input c)) = business c \<or>
    cl_readyState c = CReady \<and> (\<exists>s env. tr_socket c = Some s \<and> is_business env
       \<and> business (snd (emit_tracked cfg d now input c)) = business c @ [(s, env)])"
proof (cases "cl_readyState c = CReady")
  case ready: True
  then obtain s where s: "tr_socket c = Some s" using assms by (auto simp: ready_ok_def)
  obtain r c1 where e: "create_business_envelope d now input c = (r, c1)" by (cases "create_business_envelope d now input c")
  show ?thesis
  proof (cases r)
    case (Inl x)
    then show ?thesis using ready failed_envelope_business[of d now input c x c1] e by (simp add: emit_tracked_def ensure_ready_def)
  next
    case (Inr x)
    obtain env msgId traceId where x: "x = (env, msgId, traceId)" by (cases x)
    have b: "is_business env \<and> business c1 = business c" using envelope_is_business e unfolding Inr x by blast
    have so: "tr_socket c1 = Some s" using create_envelope_client(2)[of d now input c] s by (simp add: e)
    have "business (snd (emit_tracked cfg d now input c)) = business c @ [(s, env)]"
      using ready b so by (simp add: emit_tracked_def ensure_ready_def e Inr x Let_def case_prod_beta business_def tr_sent_send
          create_delivery_sent)
    then show ?thesis using ready s b by blast
  qed
qed (simp add: emit_tracked_def ensure_ready_def)

lemma send_sent: "tr_sent (snd (client_send cfg d now input until c)) = tr_sent (snd (emit_tracked cfg d now input c))"
  by (auto simp: client_send_def wait_for_result_def Let_def case_prod_beta split: prod.split sum.split)

text \<open>C13: In every reachable state of the client, a business message reaches the socket only by a call of
  \<open>emit\<close> or \<open>send\<close> made while the client is ready, it goes to the current socket, and one call
  sends at most one: nothing is sent before the server confirmed the authentication, after a lost
  connection, or after \<open>close()\<close>.\<close>

theorem business_only_when_ready:
  assumes "client_reachable cfg d c"
    and "business (client_step cfg d now e c) \<noteq> business c"
  shows "(\<exists>input until. e = EEmit input \<or> e = ESend input until) \<and> cl_readyState c = CReady
    \<and> (\<exists>s env. tr_socket c = Some s \<and> is_business env \<and> business (client_step cfg d now e c) = business c @ [(s, env)])"
proof -
  have r: "ready_ok c" using assms(1) by (rule ready_ok_reachable)
  from assms(2) other_step_business[of e cfg d now c]
  consider (emit) input where "e = EEmit input" | (send) input until where "e = ESend input until" by blast
  then show ?thesis
  proof cases
    case emit
    then have "business (client_step cfg d now e c) = business (snd (emit_tracked cfg d now input c))" by (simp add: emit_snd)
    then show ?thesis using emit_tracked_business[OF r, of cfg d now input] assms(2) emit by auto
  next
    case send
    then have "business (client_step cfg d now e c) = business (snd (emit_tracked cfg d now input c))"
      by (intro business_cong) (simp add: send_sent)
    then show ?thesis using emit_tracked_business[OF r, of cfg d now input] assms(2) send by auto
  qed
qed


section \<open>Promises and the end of a delivery\<close>

text \<open>C5: In every reachable state each promise the client has handed out is, exactly once, either still
  waiting (in a ready waiter or on a delivery object) or settled with one result: none is settled
  twice and none is lost. A delivery in the table is not over, and its time limit, if it has one, is
  running.\<close>

theorem promises_settle_once:
  assumes "client_reachable cfg d c"
  shows "mset (map rw_promise (cl_readyWaiters c)) + mset (concat (map pend_promises (cl_objects c)))
      + mset (map fst (cl_settled c)) = mset [0..<cl_promises c]
    \<and> distinct (map fst (cl_settled c))
    \<and> (\<forall>i k. map_of (cl_pending c) i = Some k \<longrightarrow> pv_msgId (cl_objects c ! k) = i
        \<and> \<not> pv_completed (cl_objects c ! k) \<and> pv_handleAckOutcome (cl_objects c ! k) = None
        \<and> (pv_handleAckTimeoutMs (cl_objects c ! k) \<noteq> 0 \<longrightarrow> pv_handleAckTimer (cl_objects c ! k)))"
proof -
  have inv: "client_inv c" using assms by (rule client_inv_reachable)
  then have "active_ok c" by (simp add: client_inv_def)
  then show ?thesis
    using inv client_inv_distinct[OF inv] by (simp add: client_inv_def promises_def waiting_def active_ok_def active_object_def)
qed

text \<open>What the loss of the connection does to the table: every delivery in it ends and leaves it.\<close>

lemma fail_event_id: "ce_msgId (transport_closed_event info p) = pv_msgId p"
  and fail_event_stage: "ce_stage (transport_closed_event info p) = StageTransportClosed"
  by (simp_all add: transport_closed_event_def delivery_event_of_def)

lemma fail_one:
  assumes "active_ok c" "map_of (cl_pending c) i = Some k"
  shows "let c' = emit_delivery_event (transport_closed_event info (cl_objects c ! k)) c in
    cl_pending c' = map_del i (cl_pending c) \<and> pend_promises (cl_objects c' ! k) = []
    \<and> (\<forall>j. j \<noteq> k \<longrightarrow> cl_objects c' ! j = cl_objects c ! j)"
proof -
  have k: "k < length (cl_objects c)" "pv_msgId (cl_objects c ! k) = i"
    using active_okD[OF assms] active_object_id by auto
  let ?ev = "transport_closed_event info (cl_objects c ! k)"
  have m: "map_of (cl_pending c) (ce_msgId ?ev) = Some k" using assms(2) k(2) by (simp add: fail_event_id)
  have "pend_promises (fst (pending_event (decorate_delivery_event ?ev (cl_objects c ! k)) (cl_objects c ! k))) = []"
    by (rule failed_nobody_waits) (simp add: fail_event_stage fails_delivery_def ends_delivery_def)
  then show ?thesis
    using emit_known[OF m] k by (simp add: Let_def fail_event_id fail_event_stage ends_delivery_def)
qed

lemma fail_all_entries:
  assumes "active_ok c" "distinct (map fst es)" "\<And>i k. (i, k) \<in> set es \<Longrightarrow> map_of (cl_pending c) i = Some k"
    "\<And>i. i \<notin> fst ` set es \<Longrightarrow> map_of (cl_pending c) i = None"
  shows "let c' = foldl (\<lambda>c (_, k). emit_delivery_event (transport_closed_event info (cl_objects c ! k)) c) c es in
    cl_pending c' = [] \<and> (\<forall>(i, k)\<in>set es. pend_promises (cl_objects c' ! k) = [])
    \<and> (\<forall>j. j \<notin> snd ` set es \<longrightarrow> cl_objects c' ! j = cl_objects c ! j)"
  using assms
proof (induction es arbitrary: c)
  case Nil
  have "cl_pending c = []"
  proof (cases "cl_pending c")
    case (Cons e m) then show ?thesis using Nil.prems(4)[of "fst e"] by simp
  qed
  then show ?case by simp
next
  case (Cons e es)
  obtain i k where e: "e = (i, k)" by (cases e)
  let ?c = "emit_delivery_event (transport_closed_event info (cl_objects c ! k)) c"
  have m: "map_of (cl_pending c) i = Some k" using Cons.prems(3) e by simp
  from fail_one[OF Cons.prems(1) m, of info]
  have one: "cl_pending ?c = map_del i (cl_pending c)" "pend_promises (cl_objects ?c ! k) = []"
    "\<And>j. j \<noteq> k \<Longrightarrow> cl_objects ?c ! j = cl_objects c ! j" by (simp_all add: Let_def)
  have i: "i \<notin> fst ` set es" using Cons.prems(2) e by simp
  have other: "k' \<noteq> k" if "(j, k') \<in> set es" for j k'
  proof
    assume "k' = k"
    moreover have j: "map_of (cl_pending c) j = Some k'" using Cons.prems(3) that by simp
    ultimately have "j = i" using active_okD[OF Cons.prems(1) m] active_okD[OF Cons.prems(1) j] active_object_id by blast
    then show False using i that by force
  qed
  have "let c' = foldl (\<lambda>c (_, k). emit_delivery_event (transport_closed_event info (cl_objects c ! k)) c) ?c es in
    cl_pending c' = [] \<and> (\<forall>(i, k)\<in>set es. pend_promises (cl_objects c' ! k) = [])
    \<and> (\<forall>j. j \<notin> snd ` set es \<longrightarrow> cl_objects c' ! j = cl_objects ?c ! j)"
  proof (rule Cons.IH)
    show "active_ok ?c" using Cons.prems(1) by (rule emit_active)
    show "distinct (map fst es)" using Cons.prems(2) by simp
    show "map_of (cl_pending ?c) j = Some k'" if "(j, k') \<in> set es" for j k'
      using Cons.prems(3)[of j k'] that i by (force simp: one)
    show "map_of (cl_pending ?c) j = None" if "j \<notin> fst ` set es" for j
      using Cons.prems(4)[of j] that by (cases "j = i") (auto simp: one e)
  qed
  moreover have "k \<notin> snd ` set es" using other by force
  ultimately show ?case using one by (auto simp: Let_def e)
qed

lemma fail_all_empties:
  assumes "active_ok c"
  shows "cl_pending (fail_pending_deliveries_on_close info c) = []
    \<and> (\<forall>i k. map_of (cl_pending c) i = Some k \<longrightarrow> pend_promises (cl_objects (fail_pending_deliveries_on_close info c) ! k) = [])"
proof -
  have wf: "wf_map (cl_pending c)" using assms by (simp add: active_ok_def)
  have "let c' = foldl (\<lambda>c (_, k). emit_delivery_event (transport_closed_event info (cl_objects c ! k)) c) c (cl_pending c) in
    cl_pending c' = [] \<and> (\<forall>(i, k)\<in>set (cl_pending c). pend_promises (cl_objects c' ! k) = [])
    \<and> (\<forall>j. j \<notin> snd ` set (cl_pending c) \<longrightarrow> cl_objects c' ! j = cl_objects c ! j)"
    using wf by (intro fail_all_entries assms) (auto simp: wf_map_def map_of_eq_None_iff)
  then show ?thesis unfolding fail_pending_deliveries_on_close_def Let_def using map_of_SomeD by fastforce
qed

text \<open>When the current connection closes, the client is not ready any more, no delivery stays in the
  table, and nobody waits on one that was in it: every waiter was rejected or answered. If the server
  closed for good (a terminal close code), nobody waits for readiness either; otherwise those who
  wait for readiness go on waiting. A reconnect timer is armed only if the policy accepts the close.\<close>

theorem lost_connection_settles_deliveries:
  assumes "client_reachable cfg d c" "tr_socket c = Some s"
    and "c' = client_step cfg d now (ETransportClose s info) c"
  shows "cl_readyState c' \<noteq> CReady \<and> tr_socket c' = None \<and> cl_pending c' = []
    \<and> (\<forall>i k. map_of (cl_pending c) i = Some k \<longrightarrow> pend_promises (cl_objects c' ! k) = [])
    \<and> (if terminal_code (ci_code info) then cl_readyWaiters c' = [] else cl_readyWaiters c' = cl_readyWaiters c)
    \<and> (tr_timer c' \<noteq> None \<longrightarrow> tc_shouldReconnectOnClose (kc_transport cfg) info \<or> tr_timer c' = tr_timer c)"
proof -
  let ?c = "(stop_heartbeat (c\<lparr>tr_socket := None\<rparr>))\<lparr>cl_readyState := (if truthy (cl_token c) then CConnecting else CClosed)\<rparr>"
  let ?h = "on_close info (c\<lparr>tr_socket := None\<rparr>)"
  have "active_ok c" using client_inv_reachable[OF assms(1)] by (simp add: client_inv_def)
  then have a: "active_ok ?c" by (simp add: active_ok_def stop_heartbeat_def)
  have p: "cl_pending ?c = cl_pending c" by (simp add: stop_heartbeat_def)
  have h: "cl_pending ?h = cl_pending (fail_pending_deliveries_on_close info ?c)"
      "cl_objects ?h = cl_objects (fail_pending_deliveries_on_close info ?c)"
      "cl_readyWaiters ?h = (if terminal_code (ci_code info) then [] else cl_readyWaiters c)" "tr_socket ?h = None"
    by (simp_all add: on_close_def Let_def stop_heartbeat_def is_terminal_client_close_def)
  have timer: "tr_timer ?h = tr_timer c"
  proof -
    have e: "tr_timer (emit_delivery_event ev c) = tr_timer c" for ev c
      by (simp add: emit_delivery_event_def Let_def with_object_def case_prod_beta settle_all_def log_call_def split: option.split)
    have "tr_timer (foldl (\<lambda>c (_, k). emit_delivery_event (transport_closed_event info (cl_objects c ! k)) c) c es) = tr_timer c"
      for es :: "(string \<times> nat) list" and c by (induction es arbitrary: c) (auto simp: e)
    then show ?thesis
      by (simp add: on_close_def Let_def stop_heartbeat_def fail_pending_deliveries_on_close_def reject_ready_waiters_def
          settle_all_def log_call_def)
  qed
  have c': "c' = (if \<not> tr_manuallyClosed ?h \<and> tc_reconnectEnabled (kc_transport cfg)
      \<and> tc_shouldReconnectOnClose (kc_transport cfg) info then schedule_reconnect ?h else ?h)"
    using assms(2,3) by (simp add: tr_on_close_def Let_def)
  have "cl_readyState c' \<noteq> CReady" using on_close_ready by (simp add: c')
  moreover have "tr_socket c' = None" using h(4) by (simp add: c')
  moreover have "cl_pending c' = []" "cl_objects c' = cl_objects ?h" "cl_readyWaiters c' = cl_readyWaiters ?h"
    using h(1) fail_all_empties[OF a, of info] by (simp_all add: c')
  moreover have "tr_timer c' \<noteq> None \<longrightarrow> tc_shouldReconnectOnClose (kc_transport cfg) info \<or> tr_timer c' = tr_timer c"
    using timer by (simp add: c')
  moreover have "\<forall>i k. map_of (cl_pending c) i = Some k \<longrightarrow> pend_promises (cl_objects ?h ! k) = []"
    using fail_all_empties[OF a, of info] unfolding h(2) p by blast
  ultimately show ?thesis using h(3) by simp
qed


text \<open>A delivery in the table with a limit for the second acknowledgement cannot wait for ever: its timer
  is armed in every reachable state, and when it fires the delivery leaves the table and exactly the
  promises that waited on it are settled.\<close>

theorem handle_ack_timeout_ends_delivery:
  assumes "client_reachable cfg d c" "map_of (cl_pending c) i = Some k" "pv_handleAckTimeoutMs (cl_objects c ! k) \<noteq> 0"
    and "c' = client_step cfg d now (ETimeout k HandleAck) c"
  shows "pv_handleAckTimer (cl_objects c ! k) \<and> map_of (cl_pending c') i = None \<and> pend_promises (cl_objects c' ! k) = []
    \<and> mset (map fst (cl_settled c')) = mset (map fst (cl_settled c)) + mset (pend_promises (cl_objects c ! k))"
proof -
  let ?p = "cl_objects c ! k"
  let ?c = "with_object k (\<lambda>p. (disarm HandleAck p, [])) c" and ?ev = "timeout_event now HandleAck ?p"
  let ?e = "pending_event (decorate_delivery_event ?ev (disarm HandleAck ?p)) (disarm HandleAck ?p)"
  have "active_ok c" using client_inv_reachable[OF assms(1)] by (simp add: client_inv_def)
  from active_okD[OF this assms(2)] have k: "k < length (cl_objects c)" and a: "active_object i ?p" by auto
  have t: "pv_handleAckTimer ?p" and o1: "\<not> (outcome_of HandleAck ?p \<noteq> None \<or> pv_completed ?p)" and id1: "pv_msgId ?p = i"
    using a assms(3) by (auto simp: active_object_def outcome_of_def)
  have ev: "ce_msgId ?ev = i" "ce_stage ?ev = StageHandleAckTimeout" by (simp_all add: timeout_event_def delivery_event_of_def id1)
  have m: "map_of (cl_pending ?c) (ce_msgId ?ev) = Some k" using assms(2) by (simp add: ev)
  have c': "c' = emit_delivery_event ?ev ?c"
    using assms(4) k t o1 by (simp add: handle_pending_timeout_def timer_of_def Let_def)
  have e: "pend_promises (fst ?e) = []"
    by (rule failed_nobody_waits) (simp add: ev fails_delivery_def ends_delivery_def)
  have "mset (map fst (snd ?e)) = mset (pend_promises ?p)"
    using pending_event_promises[of "decorate_delivery_event ?ev (disarm HandleAck ?p)" "disarm HandleAck ?p"] e by simp
  then show ?thesis
    using emit_known[OF m] k t e by (simp add: c' ev ends_delivery_def)
qed

section \<open>Promises that nobody can settle\<close>

text \<open>A delivery object that has left the table and has no timer.\<close>

definition orphan :: "nat \<Rightarrow> sdk_client \<Rightarrow> bool" where
  "orphan k c \<longleftrightarrow> k < length (cl_objects c) \<and> k \<notin> snd ` set (cl_pending c)
     \<and> \<not> pv_recvAckTimer (cl_objects c ! k) \<and> \<not> pv_handleAckTimer (cl_objects c ! k)"

definition waits_on :: "nat \<Rightarrow> nat \<Rightarrow> sdk_client \<Rightarrow> bool" where
  "waits_on q k c \<longleftrightarrow> orphan k c \<and> q \<in> set (pend_promises (cl_objects c ! k))"

lemma waits_on_cong:
  "waits_on q k c \<Longrightarrow> cl_objects c' = cl_objects c \<Longrightarrow> cl_pending c' = cl_pending c \<Longrightarrow> waits_on q k c'"
  by (simp add: waits_on_def orphan_def)

lemma waits_on_same [simp]:
  "waits_on q k (c\<lparr>cl_readyState := r\<rparr>) = waits_on q k c" "waits_on q k (c\<lparr>cl_token := t\<rparr>) = waits_on q k c"
  "waits_on q k (c\<lparr>cl_hookToken := h\<rparr>) = waits_on q k c" "waits_on q k (c\<lparr>cl_heartbeat := b\<rparr>) = waits_on q k c"
  "waits_on q k (c\<lparr>cl_modules := m\<rparr>) = waits_on q k c" "waits_on q k (c\<lparr>cl_inbound := is\<rparr>) = waits_on q k c"
  "waits_on q k (c\<lparr>cl_fresh := n\<rparr>) = waits_on q k c" "waits_on q k (c\<lparr>cl_calls := hs\<rparr>) = waits_on q k c"
  "waits_on q k (c\<lparr>cl_readyWaiters := ws\<rparr>) = waits_on q k c" "waits_on q k (c\<lparr>cl_promises := n\<rparr>) = waits_on q k c"
  "waits_on q k (c\<lparr>tr_socket := so\<rparr>) = waits_on q k c" "waits_on q k (c\<lparr>tr_timer := ti\<rparr>) = waits_on q k c"
  "waits_on q k (c\<lparr>tr_url := u\<rparr>) = waits_on q k c" "waits_on q k (c\<lparr>tr_reconnectDelayMs := de\<rparr>) = waits_on q k c"
  "waits_on q k (c\<lparr>tr_manuallyClosed := b\<rparr>) = waits_on q k c" "waits_on q k (c\<lparr>tr_next := n\<rparr>) = waits_on q k c"
  "waits_on q k (c\<lparr>tr_sent := ms\<rparr>) = waits_on q k c" "waits_on q k (c\<lparr>tr_closed := cs\<rparr>) = waits_on q k c"
  "waits_on q k (log_call hc c) = waits_on q k c" "waits_on q k (settle_all ss c) = waits_on q k c"
  by (simp_all add: waits_on_def orphan_def)

lemma waits_on_transport [simp]:
  "waits_on q k (tr_send m c) = waits_on q k c" "waits_on q k (tr_connect url c) = waits_on q k c"
  "waits_on q k (tr_close c) = waits_on q k c" "waits_on q k (tr_timer_fires cf c) = waits_on q k c"
  "waits_on q k (schedule_reconnect c) = waits_on q k c" "waits_on q k (send_system d now p i a t pl c) = waits_on q k c"
  "waits_on q k (stop_heartbeat c) = waits_on q k c" "waits_on q k (start_heartbeat c) = waits_on q k c"
  "waits_on q k (reject_ready_waiters e c) = waits_on q k c" "waits_on q k (resolve_ready_waiters c) = waits_on q k c"
  "waits_on q k (report_protocol_error info c) = waits_on q k c"
  by (simp_all add: transport_defs send_system_def take_uuid_def Let_def stop_heartbeat_def start_heartbeat_def
      reject_ready_waiters_def resolve_ready_waiters_def report_protocol_error_def split: option.split)

lemma waits_on_other: "waits_on q k c \<Longrightarrow> j \<noteq> k \<Longrightarrow> waits_on q k (with_object j f c)"
  by (simp add: waits_on_def orphan_def)

lemma waits_on_this:
  assumes "waits_on q k c"
    and "\<And>p. \<not> pv_recvAckTimer p \<Longrightarrow> \<not> pv_handleAckTimer p \<Longrightarrow> q \<in> set (pend_promises p) \<Longrightarrow>
      q \<in> set (pend_promises (fst (f p))) \<and> \<not> pv_recvAckTimer (fst (f p)) \<and> \<not> pv_handleAckTimer (fst (f p))"
  shows "waits_on q k (with_object j f c)"
  using assms by (cases "j = k") (auto simp: waits_on_def orphan_def)

lemma entries_del: "snd ` set (map_del i m) \<subseteq> snd ` set m"
  by (auto simp: AList.delete_eq)

lemma entries_set: "snd ` set (map_set i v m) \<subseteq> insert v (snd ` set m)"
  by (induction m) auto

lemma waits_on_emit:
  assumes "waits_on q k c" shows "waits_on q k (emit_delivery_event ev c)"
proof (cases "map_of (cl_pending c) (ce_msgId ev)")
  case (Some j)
  then have "j \<noteq> k" using assms map_of_SomeD[OF Some] by (force simp: waits_on_def orphan_def)
  then show ?thesis
    using assms emit_known[OF Some] entries_del[of "ce_msgId ev" "cl_pending c"] by (auto simp: waits_on_def orphan_def)
qed (use assms in \<open>simp add: emit_delivery_event_def\<close>)


lemma waits_on_report: "waits_on q k c \<Longrightarrow> waits_on q k (report_protocol_error_from_envelope l env e c)"
  by (simp add: report_protocol_error_from_envelope_def Let_def waits_on_emit split: option.split)

lemma waits_on_fail_all: "waits_on q k c \<Longrightarrow> waits_on q k (fail_pending_deliveries_on_close info c)"
proof -
  have "waits_on q k c \<Longrightarrow> waits_on q k (foldl (\<lambda>c (_, k). emit_delivery_event (transport_closed_event info (cl_objects c ! k)) c) c es)"
    for es :: "(string \<times> nat) list"
    by (induction es arbitrary: c) (auto simp: waits_on_emit)
  then show "waits_on q k c \<Longrightarrow> ?thesis" by (simp add: fail_pending_deliveries_on_close_def)
qed

lemma waits_on_closing:
  "waits_on q k c \<Longrightarrow> k \<notin> snd ` set es \<Longrightarrow> waits_on q k (foldl (\<lambda>c (_, k). with_object k pending_closed c) c es)"
  by (induction es arbitrary: c) (auto simp: waits_on_other)

lemma waits_on_no_pending: "waits_on q k c \<Longrightarrow> waits_on q k (c\<lparr>cl_pending := []\<rparr>)"
  by (simp add: waits_on_def orphan_def)

lemma waits_on_close: "waits_on q k c \<Longrightarrow> waits_on q k (client_close c)"
proof -
  assume w: "waits_on q k c"
  then have "k \<notin> snd ` set (cl_pending c)" by (simp add: waits_on_def orphan_def)
  then show ?thesis using w
    by (simp add: client_close_def Let_def waits_on_no_pending waits_on_closing stop_heartbeat_def)
qed

lemma waits_on_wait:
  assumes "waits_on q k c"
    and "\<And>r p. mset (pend_promises (fst (f r p))) + mset (map fst (snd (f r p))) = add_mset r (mset (pend_promises p))"
    and "\<And>r p. set (pend_promises p) \<subseteq> set (pend_promises (fst (f r p)))
      \<and> pv_recvAckTimer (fst (f r p)) = pv_recvAckTimer p \<and> pv_handleAckTimer (fst (f r p)) = pv_handleAckTimer p"
  shows "waits_on q k (snd (wait_on f j c))"
proof -
  have "waits_on q k (with_object j (f (cl_promises c)) (c\<lparr>cl_promises := Suc (cl_promises c)\<rparr>))"
    using assms(1,3) by (intro waits_on_this) auto
  then show ?thesis by (simp add: wait_on_def Let_def)
qed

lemma wait_stage_keeps:
  "set (pend_promises p) \<subseteq> set (pend_promises (fst (wait_for_pending_stage r stage p)))
   \<and> pv_recvAckTimer (fst (wait_for_pending_stage r stage p)) = pv_recvAckTimer p
   \<and> pv_handleAckTimer (fst (wait_for_pending_stage r stage p)) = pv_handleAckTimer p"
  by (cases stage) (auto simp: wait_for_pending_stage_def pend_promises_def split: option.split)

lemma wait_result_keeps:
  "set (pend_promises p) \<subseteq> set (pend_promises (fst (wait_for_pending_result r stage p)))
   \<and> pv_recvAckTimer (fst (wait_for_pending_result r stage p)) = pv_recvAckTimer p
   \<and> pv_handleAckTimer (fst (wait_for_pending_result r stage p)) = pv_handleAckTimer p"
  by (auto simp: wait_for_pending_result_def pend_promises_def split: option.split)

lemma waits_on_wait_stage: "waits_on q k c \<Longrightarrow> waits_on q k (snd (wait_for_stage stage j c))"
  unfolding wait_for_stage_def by (rule waits_on_wait, assumption, rule wait_stage_promises, rule wait_stage_keeps)

lemma waits_on_wait_result: "waits_on q k c \<Longrightarrow> waits_on q k (snd (wait_for_result until j c))"
  unfolding wait_for_result_def by (rule waits_on_wait, assumption, rule wait_result_promises, rule wait_result_keeps)

lemma waits_on_add_listener: "waits_on q k c \<Longrightarrow> waits_on q k (add_listener u j c)"
  unfolding add_listener_def by (rule waits_on_this) (auto simp: pend_promises_def)

lemma waits_on_remove_listener: "waits_on q k c \<Longrightarrow> waits_on q k (remove_listener u j c)"
  unfolding remove_listener_def by (rule waits_on_this) (auto simp: pend_promises_def removed_listener_promises)

lemma waits_on_create: "waits_on q k c \<Longrightarrow> waits_on q k (snd (create_pending_delivery cfg now msgId traceId input c))"
  using entries_set[of msgId "length (cl_objects c)" "cl_pending c"]
  by (auto simp: waits_on_def orphan_def create_pending_delivery_def Let_def nth_append)

lemma waits_on_emit_tracked: "waits_on q k c \<Longrightarrow> waits_on q k (snd (emit_tracked cfg d now input c))"
proof -
  assume w: "waits_on q k c"
  obtain r c1 where e: "create_business_envelope d now input c = (r, c1)" by (cases "create_business_envelope d now input c")
  have "waits_on q k c1" using create_envelope_client(4,5)[of d now input c] by (intro waits_on_cong[OF w]) (simp_all add: e)
  then show ?thesis using w
    by (cases r) (auto simp: emit_tracked_def e Let_def case_prod_beta waits_on_create split: option.split)
qed

lemma waits_on_send: "waits_on q k c \<Longrightarrow> waits_on q k (snd (client_send cfg d now input until c))"
  using waits_on_emit_tracked[of q k c cfg d now input]
  by (auto simp: client_send_def Let_def case_prod_beta waits_on_wait_result split: prod.split sum.split)

lemma waits_on_timeout:
  assumes w: "waits_on q k c" shows "waits_on q k (handle_pending_timeout now j stage c)"
proof (cases "j = k")
  case True
  then show ?thesis using w by (cases stage) (simp_all add: handle_pending_timeout_def timer_of_def waits_on_def orphan_def)
next
  case False
  then have "waits_on q k (with_object j (\<lambda>p. (disarm stage p, [])) c)" using w by (rule waits_on_other[rotated])
  then show ?thesis using w by (simp add: handle_pending_timeout_def Let_def waits_on_emit)
qed

lemma waits_on_system: "waits_on q k c \<Longrightarrow> waits_on q k (snd (handle_system d now env c))"
  by (simp add: handle_system_def Let_def waits_on_emit split: sum.split)

lemma waits_on_inbound: "waits_on q k c \<Longrightarrow> waits_on q k (handle_inbound env c)"
  by (simp add: handle_inbound_def waits_on_report split: option.split sum.split unit.split)

lemma waits_on_message:
  assumes "waits_on q k c" shows "waits_on q k (on_message d now raw c)"
proof (cases raw)
  case (Some env)
  obtain r c1 where h: "handle_system d now env c = (r, c1)" by (cases "handle_system d now env c")
  have "waits_on q k c1" using waits_on_system[OF assms, of d now env] by (simp add: h)
  then show ?thesis using assms
    by (cases r) (simp_all add: on_message_def Some h waits_on_report waits_on_inbound)
qed (use assms in \<open>simp add: on_message_def\<close>)

lemma waits_on_step:
  assumes "waits_on q k c" shows "waits_on q k (client_step cfg d now e c)"
proof (cases e)
  case (EOpen s) then show ?thesis using assms by (simp add: tr_on_open_def on_open_def send_auth_def)
next
  case (ETransportClose s info)
  have "waits_on q k (on_close info (c\<lparr>tr_socket := None\<rparr>))"
    using assms by (simp add: on_close_def Let_def waits_on_fail_all)
  then show ?thesis using assms by (simp add: ETransportClose tr_on_close_def Let_def)
next
  case (EMessage s raw) then show ?thesis using assms by (simp add: tr_on_message_def waits_on_message)
next
  case (ETransportError s m) then show ?thesis using assms by (simp add: tr_on_error_def)
qed (use assms in \<open>simp_all add: client_connect_def waits_on_close emit_snd waits_on_emit_tracked waits_on_send tracked_def
      waits_on_wait_stage waits_on_wait_result waits_on_add_listener waits_on_remove_listener wait_until_ready_def
      ready_timeout_def ack_handled_def heartbeat_fires_def take_uuid_def waits_on_timeout inbound_done_def waits_on_report Let_def
      split: option.split sum.split unit.split\<close>)

lemma waits_on_run: "waits_on q k c \<Longrightarrow> waits_on q k (client_run cfg d es c)"
proof (induction es arbitrary: c)
  case (Cons e es)
  then show ?case by (cases e) (simp add: client_run_def waits_on_step)
qed (simp add: client_run_def)

text \<open>So such a promise is never settled.\<close>

lemma orphaned_promise_unsettled:
  assumes "client_reachable cfg d c" "waits_on q k c"
  shows "q \<notin> fst ` set (cl_settled (client_run cfg d es c))"
proof -
  let ?c = "client_run cfg d es c"
  have "waits_on q k ?c" using assms(2) by (rule waits_on_run)
  then have "q \<in> set (concat (map pend_promises (cl_objects ?c)))" by (auto simp: waits_on_def orphan_def)
  moreover have "client_inv ?c" using client_inv_reachable client_run_reachable assms(1) by blast
  ultimately show ?thesis using client_inv_distinct[of ?c] by (auto simp: disjoint_iff)
qed


lemma pending_closed_object:
  "pv_listeners (fst (pending_closed p)) = pv_listeners p" "\<not> pv_recvAckTimer (fst (pending_closed p))"
  "\<not> pv_handleAckTimer (fst (pending_closed p))"
  by (simp_all add: pending_closed_def reject_pending_waiters_def mark_pending_stage_failure_def clear_pending_timers_def outcome_of_def)

lemma closing_object:
  assumes "k < length (cl_objects c)" "k \<in> snd ` set es \<or> \<not> pv_recvAckTimer (cl_objects c ! k) \<and> \<not> pv_handleAckTimer (cl_objects c ! k)"
    "c' = foldl (\<lambda>c (_, k). with_object k pending_closed c) c es"
  shows "length (cl_objects c') = length (cl_objects c) \<and> pv_listeners (cl_objects c' ! k) = pv_listeners (cl_objects c ! k)
    \<and> \<not> pv_recvAckTimer (cl_objects c' ! k) \<and> \<not> pv_handleAckTimer (cl_objects c' ! k)"
  using assms
proof (induction es arbitrary: c)
  case (Cons e es)
  obtain i j where e: "e = (i, j)" by (cases e)
  let ?c = "with_object j pending_closed c"
  have "pv_listeners (cl_objects ?c ! k) = pv_listeners (cl_objects c ! k)"
    using Cons.prems(1) by (cases "j = k") (simp_all add: pending_closed_object)
  moreover have "k \<in> snd ` set es \<or> \<not> pv_recvAckTimer (cl_objects ?c ! k) \<and> \<not> pv_handleAckTimer (cl_objects ?c ! k)"
    using Cons.prems(1,2) by (cases "j = k") (auto simp: e pending_closed_object)
  ultimately show ?case using Cons.IH[of ?c] Cons.prems(1,3) by (simp add: e)
qed simp

lemma closed_result_waits:
  assumes "client_reachable cfg d c" "map_of (cl_pending c) i = Some k" "ResultListener q until \<in> set (pv_listeners (cl_objects c ! k))"
  shows "waits_on q k (client_close c)"
proof -
  have "active_ok c" using client_inv_reachable[OF assms(1)] by (simp add: client_inv_def)
  then have k: "k < length (cl_objects c)" using active_okD assms(2) by blast
  let ?c2 = "reject_ready_waiters (create_client_sdk_error CLIENT_TRANSPORT_CLOSED ''Client closed before becoming ready''
      (no_sdk_options\<lparr>xo_close := Some \<lparr>ci_code = None, ci_reason = Some ''client closed'', ci_wasClean = None\<rparr>\<rparr>))
      ((stop_heartbeat c)\<lparr>cl_readyState := CClosed, cl_token := None\<rparr>)"
  let ?c3 = "foldl (\<lambda>c (_, k). with_object k pending_closed c) ?c2 (cl_pending ?c2)"
  have o2: "cl_objects ?c2 = cl_objects c" "cl_pending ?c2 = cl_pending c" by (simp_all add: stop_heartbeat_def)
  have "k \<in> snd ` set (cl_pending ?c2)" using map_of_SomeD[OF assms(2)] unfolding o2 by force
  from closing_object[OF _ disjI1[OF this] refl] k o2
  have o3: "k < length (cl_objects ?c3)" "pv_listeners (cl_objects ?c3 ! k) = pv_listeners (cl_objects c ! k)"
    "\<not> pv_recvAckTimer (cl_objects ?c3 ! k)" "\<not> pv_handleAckTimer (cl_objects ?c3 ! k)" by simp_all
  have "q \<in> set (result_promises (pv_listeners (cl_objects c ! k)))"
    using assms(3) by (force simp: result_promises_def)
  then have "waits_on q k (?c3\<lparr>cl_pending := []\<rparr>)" using o3 by (simp add: waits_on_def orphan_def pend_promises_def)
  then show ?thesis by (simp add: client_close_def Let_def)
qed

text \<open>\<open>close()\<close> forgets the promises of \<open>send\<close> and \<open>waitForResult\<close>: one that waits on a delivery when
  the client is closed is never settled, whatever happens afterwards, although the waiters for a
  single stage are rejected.\<close>

theorem close_forgets_result_waits:
  assumes "client_reachable cfg d c" "map_of (cl_pending c) i = Some k"
    and "ResultListener q until \<in> set (pv_listeners (cl_objects c ! k))"
  shows "q \<notin> fst ` set (cl_settled (client_run cfg d es (client_close c)))"
proof -
  have "client_reachable cfg d (client_step cfg d 0 EClose c)" using assms(1) by (rule client_reachable.step)
  then show ?thesis using closed_result_waits[OF assms] by (intro orphaned_promise_unsettled) simp_all
qed

lemma handled_object:
  "ce_stage ev = StageHandleAck \<Longrightarrow> pv_recvAckWaiters (fst (pending_event ev p)) = pv_recvAckWaiters p
   \<and> \<not> pv_recvAckTimer (fst (pending_event ev p)) \<and> \<not> pv_handleAckTimer (fst (pending_event ev p))"
  by (simp add: pending_event_def notify_listeners_def apply_stage_def Let_def clear_pending_timers_def)

lemma handled_recv_waits:
  assumes "active_ok c" "map_of (cl_pending c) (ce_msgId ev) = Some k" "q \<in> set (pv_recvAckWaiters (cl_objects c ! k))"
    and "ce_stage ev = StageHandleAck"
  shows "waits_on q k (emit_delivery_event ev c)"
proof -
  have k: "k < length (cl_objects c)" "pv_msgId (cl_objects c ! k) = ce_msgId ev"
    using active_okD[OF assms(1,2)] active_object_id by auto
  have "k \<notin> snd ` set (map_del (ce_msgId ev) (cl_pending c))"
  proof
    assume "k \<in> snd ` set (map_del (ce_msgId ev) (cl_pending c))"
    then obtain j where j: "(j, k) \<in> set (cl_pending c)" "j \<noteq> ce_msgId ev" by (auto simp: AList.delete_eq)
    have "map_of (cl_pending c) j = Some k" using assms(1) wf_map_entry[OF _ j(1)] by (simp add: active_ok_def)
    then show False using active_okD[OF assms(1)] active_object_id k(2) j(2) by blast
  qed
  then show ?thesis
    using emit_known[OF assms(2)] assms(3,4) k(1) handled_object[of "decorate_delivery_event ev (cl_objects c ! k)" "cl_objects c ! k"]
    by (simp add: waits_on_def orphan_def ends_delivery_def pend_promises_def)
qed

text \<open>A handleAck that arrives before the recvAck ends the delivery and forgets whoever waits for the
  recvAck: that promise is never settled, even when the recvAck follows.\<close>

theorem early_handle_ack_forgets_recv_waits:
  assumes "client_reachable cfg d c" "tr_socket c = Some s" "ev_kind env = System" "ev_action env = ''handleAck''"
    and "kd_parseHandleAck d (ev_payload env) = Inr p" "map_of (cl_pending c) (ap_ackFor p) = Some k"
    and "q \<in> set (pv_recvAckWaiters (cl_objects c ! k))"
  shows "q \<notin> fst ` set (cl_settled (client_run cfg d es (client_step cfg d now (EMessage s (Some env)) c)))"
proof -
  let ?ev = "(delivery_event_of StageHandleAck (ap_ackFor p) (ev_traceId env))\<lparr>ce_handleAck := Some p\<rparr>"
  let ?c = "log_call (OnHandleAck p) c"
  have step: "client_step cfg d now (EMessage s (Some env)) c = emit_delivery_event ?ev ?c"
    using assms(2-5) by (simp add: tr_on_message_def on_message_def handle_system_def)
  have "active_ok c" using client_inv_reachable[OF assms(1)] by (simp add: client_inv_def)
  then have a: "active_ok ?c" by (simp add: active_ok_def)
  have "waits_on q k (emit_delivery_event ?ev ?c)"
    by (rule handled_recv_waits[OF a]) (simp_all add: delivery_event_of_def assms(6,7))
  moreover have "client_reachable cfg d (client_step cfg d now (EMessage s (Some env)) c)"
    using assms(1) by (rule client_reachable.step)
  ultimately show ?thesis unfolding step by (intro orphaned_promise_unsettled)
qed


section \<open>Concrete runs\<close>

definition demo_client_deps :: client_deps where
  "demo_client_deps = \<lparr>kd_uuid = (\<lambda>n. replicate (Suc n) CHR ''m''),
     kd_parseAuthOk = (\<lambda>_. Inr \<lparr>ao_peerId = ''p'', ao_capabilities = [], ao_expiresAt = 0\<rparr>),
     kd_parsePong = (\<lambda>_. Inr None), kd_parsePing = (\<lambda>_. Inr None),
     kd_parseRecvAck = (\<lambda>v. case v of JStr i \<Rightarrow> Inr \<lparr>ap_ackFor = i, ap_at = 0\<rparr> | _ \<Rightarrow> Inl ''bad''),
     kd_parseHandleAck = (\<lambda>v. case v of JStr i \<Rightarrow> Inr \<lparr>ap_ackFor = i, ap_at = 0\<rparr> | _ \<Rightarrow> Inl ''bad''),
     kd_parseRoute = (\<lambda>_. Inl ''bad''), kd_parseErr = (\<lambda>_. Inl ''bad'')\<rparr>"

definition demo_client_config :: client_config where
  "demo_client_config = client_config_of ''ws'' \<lparr>ko_autoHandleAck = None, ko_heartbeatIntervalMs = None, ko_recvAckMs = None,
     ko_handleAckMs = None, ko_transport = \<lparr>to_reconnectEnabled = None, to_initialDelayMs = None, to_maxDelayMs = None,
       to_shouldReconnectOnClose = None\<rparr>\<rparr>"

definition demo_client_system :: "string \<Rightarrow> json \<Rightarrow> json envelope" where
  "demo_client_system action payload = \<lparr>ev_msgId = ''s'', ev_kind = System, ev_src = \<lparr>src_peerId = ''server'', src_connId = ''c''\<rparr>,
     ev_protocol = ''sys'', ev_version = ''1.0'', ev_action = action, ev_streamId = None, ev_seq = None, ev_ts = 0,
     ev_traceId = None, ev_payload = payload\<rparr>"

definition demo_client_input :: emit_input where
  "demo_client_input = \<lparr>ei_protocol = ''chat'', ei_version = ''1'', ei_action = ''say'', ei_payload = JNull, ei_streamId = None,
     ei_traceId = None, ei_recvAckMs = None, ei_handleAckMs = None\<rparr>"

definition demo_client_ready :: "(int \<times> client_event) list" where
  "demo_client_ready = [(0, EConnect ''t''), (1, EOpen 0), (2, EMessage 0 (Some (demo_client_system ''auth.ok'' JNull)))]"

abbreviation demo_client :: "(int \<times> client_event) list \<Rightarrow> sdk_client" where
  "demo_client es \<equiv> client_run demo_client_config demo_client_deps (demo_client_ready @ es) (new_client demo_client_config)"

lemma demo_client_reachable: "client_reachable demo_client_config demo_client_deps (demo_client es)"
  by (intro client_run_reachable client_reachable.start)

lemma demo_client_emits:
  "business (client_step demo_client_config demo_client_deps 3 (EEmit demo_client_input) (demo_client [])) \<noteq> business (demo_client [])"
  by code_simp

lemma demo_client_in_flight:
  "map_of (cl_pending (demo_client [(3, ESend demo_client_input None), (4, EWaitStage RecvAck 0)])) ''mm'' = Some 0"
  "tr_socket (demo_client [(3, ESend demo_client_input None), (4, EWaitStage RecvAck 0)]) = Some 0"
  "pv_handleAckTimeoutMs (cl_objects (demo_client [(3, ESend demo_client_input None), (4, EWaitStage RecvAck 0)]) ! 0) = 15000"
  "pv_listeners (cl_objects (demo_client [(3, ESend demo_client_input None), (4, EWaitStage RecvAck 0)]) ! 0) = [ResultListener 0 HandleAck]"
  "pv_recvAckWaiters (cl_objects (demo_client [(3, ESend demo_client_input None), (4, EWaitStage RecvAck 0)]) ! 0) = [1]"
  by code_simp+


abbreviation demo_client_flight :: sdk_client where
  "demo_client_flight \<equiv> demo_client [(3, ESend demo_client_input None), (4, EWaitStage RecvAck 0)]"

theorem business_only_when_ready_witness:
  "\<exists>s env. is_business env \<and> business (client_step demo_client_config demo_client_deps 3 (EEmit demo_client_input) (demo_client []))
     = business (demo_client []) @ [(s, env)]"
  using business_only_when_ready[OF demo_client_reachable demo_client_emits] by blast

theorem promises_settle_once_witness:
  "distinct (map fst (cl_settled demo_client_flight))
   \<and> mset (map rw_promise (cl_readyWaiters demo_client_flight)) + mset (concat (map pend_promises (cl_objects demo_client_flight)))
      + mset (map fst (cl_settled demo_client_flight)) = mset [0..<cl_promises demo_client_flight]"
  using promises_settle_once[OF demo_client_reachable] by blast

theorem lost_connection_settles_deliveries_witness:
  "cl_pending (client_step demo_client_config demo_client_deps 5
     (ETransportClose 0 \<lparr>ci_code = Some 1006, ci_reason = None, ci_wasClean = None\<rparr>) demo_client_flight) = []"
  using lost_connection_settles_deliveries[OF demo_client_reachable demo_client_in_flight(2) refl] by blast

theorem handle_ack_timeout_ends_delivery_witness:
  "map_of (cl_pending (client_step demo_client_config demo_client_deps 15003 (ETimeout 0 HandleAck) demo_client_flight)) ''mm'' = None"
proof -
  have "pv_handleAckTimeoutMs (cl_objects demo_client_flight ! 0) \<noteq> 0" unfolding demo_client_in_flight(3) by simp
  from handle_ack_timeout_ends_delivery[OF demo_client_reachable demo_client_in_flight(1) this refl] show ?thesis by blast
qed

theorem close_forgets_result_waits_witness:
  "0 \<notin> fst ` set (cl_settled (client_run demo_client_config demo_client_deps [] (client_close demo_client_flight)))"
proof -
  have "ResultListener 0 HandleAck \<in> set (pv_listeners (cl_objects demo_client_flight ! 0))" unfolding demo_client_in_flight(4) by simp
  from close_forgets_result_waits[OF demo_client_reachable demo_client_in_flight(1) this] show ?thesis .
qed

theorem early_handle_ack_forgets_recv_waits_witness:
  "1 \<notin> fst ` set (cl_settled (client_run demo_client_config demo_client_deps []
     (client_step demo_client_config demo_client_deps 5 (EMessage 0 (Some (demo_client_system ''handleAck'' (JStr ''mm'')))) demo_client_flight)))"
proof -
  have p: "kd_parseHandleAck demo_client_deps (ev_payload (demo_client_system ''handleAck'' (JStr ''mm''))) = Inr \<lparr>ap_ackFor = ''mm'', ap_at = 0\<rparr>"
    by (simp add: demo_client_deps_def demo_client_system_def)
  have k: "map_of (cl_pending demo_client_flight) (ap_ackFor \<lparr>ap_ackFor = ''mm'', ap_at = 0\<rparr>) = Some 0"
    using demo_client_in_flight(1) by simp
  have q: "1 \<in> set (pv_recvAckWaiters (cl_objects demo_client_flight ! 0))" unfolding demo_client_in_flight(5) by simp
  show ?thesis
    by (rule early_handle_ack_forgets_recv_waits[OF demo_client_reachable demo_client_in_flight(2) _ _ p k q]) (simp_all add: demo_client_system_def)
qed

end
