(* ===== verification/Runtime_Config.thy ===== *)
theory Runtime_Config
  imports Shared_Types
begin

text \<open>The configuration a gateway runs (src/src/shared/types.ts, PipelineConfig and HardessConfig) and
  the environment a worker is called with.\<close>

record worker_deployment =
  wp_instanceKey :: "string option"
  wp_config :: "(string, json) js_map option"
  wp_bindings :: "(string, json) js_map option"
  wp_secrets :: "(string, string) js_map option"

record pipeline_worker =
  wk_entry :: string
  wk_timeoutMs :: int
  wk_deployment :: "worker_deployment option"

record pipeline_downstream =
  dn_origin :: string
  dn_connectTimeoutMs :: int
  dn_responseTimeoutMs :: int
  dn_websocket :: "bool option"
  dn_forwardAuthContext :: "bool option"
  dn_injectedHeaders :: "(string, string) js_map option"

record pipeline_config =
  pc_id :: string
  pc_matchPrefix :: string
  pc_groupId :: "string option"
  pc_authRequired :: "bool option"
  pc_downstream :: pipeline_downstream
  pc_worker :: "pipeline_worker option"

type_synonym hardess_config = "pipeline_config list"

record worker_env =
  we_auth :: auth_context
  we_pipelineId :: string
  we_matchPrefix :: string
  we_downstreamOrigin :: string
  we_groupId :: "string option"
  we_deployment :: "worker_deployment option"
  we_traceId :: "string option"

end
