(* ===== verification/Serve_App.thy ===== *)
theory Serve_App
  imports Runtime_Config "HOL-Library.Sublist"
begin

text \<open>Serve applications (src/src/sdk/serve/index.ts, src/src/runtime/serve/worker.ts): how routes and
  middleware are collected and mounted, and how a request finds its handler.

  Handlers and middleware are user code: a handler is a function from the request, the environment
  and the context to a step of the state \<open>'s\<close> with a result, or an exception with its message; a
  middleware also gets the continuation \<open>next\<close>, which it may call any number of times. A compiled
  regular expression is the list of its items, and \<open>regex_exec\<close> is the backtracking match of an
  expression of that shape between \<open>^\<close> and \<open>$\<close>. \<open>decodeURIComponent\<close> is the argument \<open>decode\<close>, which
  fails on malformed input. Request methods are ASCII.\<close>

section \<open>Paths\<close>

definition normalize_path :: "string \<Rightarrow> string + string" where
  "normalize_path path =
    (if \<not> prefix ''/'' path then Inl (''Serve path must start with '' @ [CHR 0x27] @ ''/'' @ [CHR 0x27] @ '': '' @ path)
     else if length path > 1 \<and> suffix ''/'' path then Inr (butlast path)
     else Inr path)"

definition join_paths :: "string option \<Rightarrow> string \<Rightarrow> string + string" where
  "join_paths basePath childPath =
    (if \<not> truthy basePath then normalize_path childPath
     else (case normalize_path (the basePath) of
         Inl e \<Rightarrow> Inl e
       | Inr normalizedBase \<Rightarrow> (case normalize_path childPath of
           Inl e \<Rightarrow> Inl e
         | Inr normalizedChild \<Rightarrow>
             if normalizedBase = ''/'' then Inr normalizedChild
             else if normalizedChild = ''/'' then Inr normalizedBase
             else Inr (normalizedBase @ normalizedChild))))"

definition normalize_path_prefix :: "string option \<Rightarrow> string + string option" where
  "normalize_path_prefix pathPrefix = (if \<not> truthy pathPrefix then Inr None
     else (case normalize_path (the pathPrefix) of Inl e \<Rightarrow> Inl e | Inr p \<Rightarrow> Inr (Some p)))"

definition path_starts_with_prefix :: "string \<Rightarrow> string option \<Rightarrow> bool" where
  "path_starts_with_prefix pathname pathPrefix =
    (if \<not> truthy pathPrefix \<or> pathPrefix = Some ''/'' then True
     else pathname = the pathPrefix \<or> prefix (the pathPrefix @ ''/'') pathname)"

definition strip_match_prefix :: "string \<Rightarrow> string \<Rightarrow> string + string" where
  "strip_match_prefix pathname matchPrefix = (case normalize_path matchPrefix of
     Inl e \<Rightarrow> Inl e
   | Inr normalizedPrefix \<Rightarrow>
      if normalizedPrefix = ''/'' \<or> \<not> prefix normalizedPrefix pathname then Inr pathname
      else (let stripped = drop (length normalizedPrefix) pathname
        in if stripped = [] then Inr ''/'' else Inr (if prefix ''/'' stripped then stripped else ''/'' @ stripped)))"

section \<open>Applications\<close>

datatype serve_method = MGet | MPost | MPut | MPatch | MDelete | MHead | MOptions | MAll

fun method_str :: "serve_method \<Rightarrow> string" where
  "method_str MGet = ''GET''"
| "method_str MPost = ''POST''"
| "method_str MPut = ''PUT''"
| "method_str MPatch = ''PATCH''"
| "method_str MDelete = ''DELETE''"
| "method_str MHead = ''HEAD''"
| "method_str MOptions = ''OPTIONS''"
| "method_str MAll = ''ALL''"

text \<open>A route's handler is a function or the name of a method of the deployment.\<close>

datatype 'h handler_target = HandlerFunction 'h | MethodName string

record 'h serve_route =
  vr_method :: serve_method
  vr_path :: string
  vr_handler :: "'h handler_target"

record 'm serve_middleware =
  vm_pathPrefix :: "string option"
  vm_handler :: 'm

record ('h, 'm) serve_app =
  va_routes :: "'h serve_route list"
  va_middleware :: "'m serve_middleware list"

definition create_app :: "('h, 'm) serve_app" where
  "create_app = \<lparr>va_routes = [], va_middleware = []\<rparr>"

definition add_route :: "serve_method \<Rightarrow> string \<Rightarrow> 'h handler_target \<Rightarrow> ('h, 'm) serve_app \<Rightarrow> string + ('h, 'm) serve_app" where
  "add_route m path handler app = (case normalize_path path of
     Inl e \<Rightarrow> Inl e
   | Inr p \<Rightarrow> Inr (app\<lparr>va_routes := va_routes app @ [\<lparr>vr_method = m, vr_path = p, vr_handler = handler\<rparr>]\<rparr>))"

fun mount_routes :: "string option \<Rightarrow> 'h serve_route list \<Rightarrow> string + 'h serve_route list" where
  "mount_routes pathPrefix [] = Inr []"
| "mount_routes pathPrefix (r # rs) = (case join_paths pathPrefix (vr_path r) of
     Inl e \<Rightarrow> Inl e
   | Inr p \<Rightarrow> (case mount_routes pathPrefix rs of Inl e \<Rightarrow> Inl e | Inr rs' \<Rightarrow> Inr (r\<lparr>vr_path := p\<rparr> # rs')))"

fun mount_middleware :: "string option \<Rightarrow> 'm serve_middleware list \<Rightarrow> string + 'm serve_middleware list" where
  "mount_middleware pathPrefix [] = Inr []"
| "mount_middleware pathPrefix (m # ms) =
    (case (if truthy (vm_pathPrefix m) then map_sum id Some (join_paths pathPrefix (the (vm_pathPrefix m))) else Inr pathPrefix) of
       Inl e \<Rightarrow> Inl e
     | Inr p \<Rightarrow> (case mount_middleware pathPrefix ms of Inl e \<Rightarrow> Inl e | Inr ms' \<Rightarrow> Inr (m\<lparr>vm_pathPrefix := p\<rparr> # ms')))"

datatype ('h, 'm) use_target = UseMiddleware 'm | UseApp "('h, 'm) serve_app"

text \<open>\<open>app.use\<close>: what a mount that throws has pushed before is not seen by anyone.\<close>

definition app_use :: "string option \<Rightarrow> ('h, 'm) use_target \<Rightarrow> ('h, 'm) serve_app \<Rightarrow> string + ('h, 'm) serve_app" where
  "app_use path target app =
    (case (case path of None \<Rightarrow> Inr None | Some p \<Rightarrow> map_sum id Some (normalize_path p)) of
       Inl e \<Rightarrow> Inl e
     | Inr pathPrefix \<Rightarrow> (case target of
         UseMiddleware m \<Rightarrow> Inr (app\<lparr>va_middleware := va_middleware app @ [\<lparr>vm_pathPrefix = pathPrefix, vm_handler = m\<rparr>]\<rparr>)
       | UseApp child \<Rightarrow> (case mount_routes pathPrefix (va_routes child) of
           Inl e \<Rightarrow> Inl e
         | Inr rs \<Rightarrow> (case mount_middleware pathPrefix (va_middleware child) of
             Inl e \<Rightarrow> Inl e
           | Inr ms \<Rightarrow> Inr (app\<lparr>va_routes := va_routes app @ rs, va_middleware := va_middleware app @ ms\<rparr>)))))"

section \<open>Compiled routes\<close>

text \<open>\<open>String.split\<close> by a slash.\<close>

fun split_slash :: "string \<Rightarrow> string list" where
  "split_slash [] = [[]]"
| "split_slash (c # cs) = (if c = CHR 0x2F then [] # split_slash cs
     else (case split_slash cs of s # ss \<Rightarrow> (c # s) # ss | [] \<Rightarrow> [[c]]))"

text \<open>\<open>RGroup\<close> is the group \<open>([^/]+)\<close>; a literal segment is escaped, so each of its characters stands for
  itself.\<close>

datatype regex_item = RChar char | RGroup

fun try_group :: "(string \<Rightarrow> string list option) \<Rightarrow> nat \<Rightarrow> string \<Rightarrow> string list option" where
  "try_group rest 0 s = None"
| "try_group rest (Suc k) s = (case rest (drop (Suc k) s) of
     Some caps \<Rightarrow> Some (take (Suc k) s # caps)
   | None \<Rightarrow> try_group rest k s)"

primrec regex_exec :: "regex_item list \<Rightarrow> string \<Rightarrow> string list option" where
  "regex_exec [] = (\<lambda>s. if s = [] then Some [] else None)"
| "regex_exec (i # is) = (\<lambda>s. case i of
     RChar c \<Rightarrow> (case s of [] \<Rightarrow> None | d # ds \<Rightarrow> if c = d then regex_exec is ds else None)
   | RGroup \<Rightarrow> try_group (regex_exec is) (length (takeWhile (\<lambda>c. c \<noteq> CHR 0x2F) s)) s)"

definition segment_items :: "string \<Rightarrow> regex_item list" where
  "segment_items segment = (if prefix '':'' segment then [RGroup] else map RChar segment)"

fun join_items :: "regex_item list list \<Rightarrow> regex_item list" where
  "join_items [] = []"
| "join_items [is] = is"
| "join_items (is # iss) = is @ [RChar (CHR 0x2F)] @ join_items iss"

definition path_segments :: "string \<Rightarrow> string list" where
  "path_segments p = (if p = ''/'' then [] else split_slash (drop 1 p))"

definition route_pattern :: "string list \<Rightarrow> regex_item list" where
  "route_pattern segments = (if segments = [] then [RChar (CHR 0x2F)]
     else [RChar (CHR 0x2F)] @ join_items (map segment_items segments))"

definition param_names :: "string list \<Rightarrow> string list" where
  "param_names segments = map (drop 1) (filter (prefix '':'') segments)"

record 'h compiled_route =
  kr_method :: serve_method
  kr_path :: string
  kr_pattern :: "regex_item list"
  kr_paramNames :: "string list"
  kr_handler :: "'h handler_target"

definition compile_route :: "'h serve_route \<Rightarrow> string + 'h compiled_route" where
  "compile_route r = (case normalize_path (vr_path r) of
     Inl e \<Rightarrow> Inl e
   | Inr p \<Rightarrow> (let segments = path_segments p in
       Inr \<lparr>kr_method = vr_method r, kr_path = p, kr_pattern = route_pattern segments,
            kr_paramNames = param_names segments, kr_handler = vr_handler r\<rparr>))"

section \<open>Finding the route\<close>

definition to_upper :: "char \<Rightarrow> char" where
  "to_upper c = (let n = of_char c :: nat in if 97 \<le> n \<and> n \<le> 122 then char_of (n - 32) else c)"

definition uri_error :: string where
  "uri_error = ''URI malformed''"

fun decode_all :: "(string \<Rightarrow> string option) \<Rightarrow> (string \<times> string) list \<Rightarrow> string + (string \<times> string) list" where
  "decode_all decode [] = Inr []"
| "decode_all decode ((name, raw) # rest) = (case decode raw of
     None \<Rightarrow> Inl uri_error
   | Some v \<Rightarrow> (case decode_all decode rest of Inl e \<Rightarrow> Inl e | Inr ps \<Rightarrow> Inr ((name, v) # ps)))"

definition method_matches :: "serve_method \<Rightarrow> string \<Rightarrow> bool" where
  "method_matches m requested \<longleftrightarrow> m = MAll \<or> method_str m = map to_upper requested"

fun find_route ::
  "(string \<Rightarrow> string option) \<Rightarrow> 'h compiled_route list \<Rightarrow> string \<Rightarrow> string \<Rightarrow>
   string + ('h compiled_route \<times> (string, string) js_map) option" where
  "find_route decode [] pathname requested = Inr None"
| "find_route decode (r # rs) pathname requested =
    (if \<not> method_matches (kr_method r) requested then find_route decode rs pathname requested
     else (case regex_exec (kr_pattern r) pathname of
         None \<Rightarrow> find_route decode rs pathname requested
       | Some caps \<Rightarrow> (case decode_all decode (zip (kr_paramNames r) caps) of
           Inl e \<Rightarrow> Inl e | Inr ps \<Rightarrow> Inr (Some (r, map_from ps)))))"


section \<open>Running\<close>

record serve_request =
  vq_path :: string
  vq_method :: string

record serve_context =
  vc_params :: "(string, string) js_map"
  vc_path :: string
  vc_originalPath :: string

text \<open>What a handler returns: nothing (a falsy value), a response, an object with exactly the optional
  properties \<open>request\<close> and \<open>response\<close>, or anything else.\<close>

datatype ('q, 'r) handler_value = ReturnsNothing | ReturnsResponse 'r | ReturnsResult "'q option" "'r option" | ReturnsOther string

record ('q, 'r) worker_result =
  wr_request :: "'q option"
  wr_response :: "'r option"

datatype serve_failure = Thrown string | InvalidResult string

definition normalize_worker_result :: "('q, 'r) handler_value \<Rightarrow> serve_failure + ('q, 'r) worker_result" where
  "normalize_worker_result v = (case v of
     ReturnsNothing \<Rightarrow> Inr \<lparr>wr_request = None, wr_response = None\<rparr>
   | ReturnsResponse r \<Rightarrow> Inr \<lparr>wr_request = None, wr_response = Some r\<rparr>
   | ReturnsResult q r \<Rightarrow> Inr \<lparr>wr_request = q, wr_response = r\<rparr>
   | ReturnsOther why \<Rightarrow> Inl (InvalidResult why))"

type_synonym ('s, 'v) action = "'s \<Rightarrow> (string + 'v) \<times> 's"

type_synonym ('s, 'v) serve_handler = "serve_request \<Rightarrow> worker_env \<Rightarrow> serve_context \<Rightarrow> ('s, 'v) action"

type_synonym ('s, 'v) serve_step = "serve_request \<Rightarrow> worker_env \<Rightarrow> serve_context \<Rightarrow> ('s, 'v) action \<Rightarrow> ('s, 'v) action"

text \<open>The state of a worker: its deployment instances, and what the user code keeps. User code does not
  reach the instances Map.\<close>

record 'i serve_state =
  vs_instances :: "(string, 'i) js_map"

text \<open>The deployment class: its constructor, and the methods of an instance that are functions.\<close>

record ('i, 's, 'v) deployment_class =
  dc_new :: "worker_deployment \<Rightarrow> worker_env \<Rightarrow> ('s, 'i) action"
  dc_method :: "'i \<Rightarrow> string \<Rightarrow> ('s, 'v) serve_handler option"

definition instance_key :: "worker_env \<Rightarrow> string" where
  "instance_key env = (case Option.bind (we_deployment env) wp_instanceKey of Some k \<Rightarrow> k | None \<Rightarrow> we_pipelineId env)"

definition instance_arguments :: "worker_env \<Rightarrow> worker_deployment" where
  "instance_arguments env =
    (let given = (\<lambda>f. case Option.bind (we_deployment env) f of Some m \<Rightarrow> m | None \<Rightarrow> [])
     in \<lparr>wp_instanceKey = None, wp_config = Some (given wp_config), wp_bindings = Some (given wp_bindings),
         wp_secrets = Some (case Option.bind (we_deployment env) wp_secrets of Some m \<Rightarrow> m | None \<Rightarrow> [])\<rparr>)"

definition get_deployment_instance ::
  "('i, ('i, 'z) serve_state_scheme, 'v) deployment_class option \<Rightarrow> worker_env \<Rightarrow> (('i, 'z) serve_state_scheme, 'i) action" where
  "get_deployment_instance cls env s = (case cls of
     None \<Rightarrow> (Inl ''Serve route uses a deployment method but no deployment class is configured'', s)
   | Some c \<Rightarrow> (case map_of (vs_instances s) (instance_key env) of
       Some i \<Rightarrow> (Inr i, s)
     | None \<Rightarrow> (case dc_new c (instance_arguments env) env s of
         (Inl e, s1) \<Rightarrow> (Inl e, s1)
       | (Inr i, s1) \<Rightarrow> (Inr i, s1\<lparr>vs_instances := map_set (instance_key env) i (vs_instances s1)\<rparr>))))"

definition run_route_handler ::
  "('i, ('i, 'z) serve_state_scheme, 'v) deployment_class option \<Rightarrow>
   (('i, 'z) serve_state_scheme, 'v) serve_handler handler_target \<Rightarrow> (('i, 'z) serve_state_scheme, 'v) serve_handler" where
  "run_route_handler cls target req env ctx s = (case target of
     HandlerFunction h \<Rightarrow> h req env ctx s
   | MethodName name \<Rightarrow> (case get_deployment_instance cls env s of
       (Inl e, s1) \<Rightarrow> (Inl e, s1)
     | (Inr i, s1) \<Rightarrow> (case dc_method (the cls) i name of
         None \<Rightarrow> (Inl (''Serve deployment method is not a function: '' @ name), s1)
       | Some h \<Rightarrow> h req env ctx s1)))"

text \<open>\<open>runMiddlewareChain\<close>: \<open>dispatch\<close> of the index.\<close>

function dispatch ::
  "('s, 'v) serve_step list \<Rightarrow> serve_request \<Rightarrow> worker_env \<Rightarrow> serve_context \<Rightarrow> ('s, 'v) action \<Rightarrow> nat \<Rightarrow> ('s, 'v) action" where
  "dispatch chain req env ctx terminal index =
    (if index < length chain then (chain ! index) req env ctx (dispatch chain req env ctx terminal (Suc index))
     else terminal)"
  by pat_completeness auto
termination
  by (relation "measure (\<lambda>(chain, req, env, ctx, terminal, index). length chain - index)") auto

declare dispatch.simps [simp del]

definition run_middleware_chain ::
  "('s, 'v) serve_step list \<Rightarrow> serve_request \<Rightarrow> worker_env \<Rightarrow> serve_context \<Rightarrow> ('s, 'v) action \<Rightarrow> ('s, 'v) action" where
  "run_middleware_chain chain req env ctx terminal = dispatch chain req env ctx terminal 0"

section \<open>The worker\<close>

record ('i, 's, 'v) serve_worker =
  vw_routes :: "('s, 'v) serve_handler compiled_route list"
  vw_middleware :: "('s, 'v) serve_step serve_middleware list"
  vw_class :: "('i, 's, 'v) deployment_class option"

fun map_results :: "('a \<Rightarrow> 'e + 'b) \<Rightarrow> 'a list \<Rightarrow> 'e + 'b list" where
  "map_results f [] = Inr []"
| "map_results f (x # xs) = (case f x of Inl e \<Rightarrow> Inl e
     | Inr y \<Rightarrow> (case map_results f xs of Inl e \<Rightarrow> Inl e | Inr ys \<Rightarrow> Inr (y # ys)))"

definition create_worker_from_serve_module ::
  "(('s, 'v) serve_handler, ('s, 'v) serve_step) serve_app \<Rightarrow> ('i, 's, 'v) deployment_class option \<Rightarrow>
   string + ('i, 's, 'v) serve_worker" where
  "create_worker_from_serve_module app cls = (case map_results compile_route (va_routes app) of
     Inl e \<Rightarrow> Inl e
   | Inr routes \<Rightarrow>
      (case map_results (\<lambda>m. map_sum id (\<lambda>p. m\<lparr>vm_pathPrefix := p\<rparr>) (normalize_path_prefix (vm_pathPrefix m))) (va_middleware app) of
         Inl e \<Rightarrow> Inl e
       | Inr middleware \<Rightarrow> Inr \<lparr>vw_routes = routes, vw_middleware = middleware, vw_class = cls\<rparr>))"

datatype 'w fetched_result = NotFound | Answered 'w

definition worker_fetch ::
  "(string \<Rightarrow> string option) \<Rightarrow> ('i, ('i, 'z) serve_state_scheme, ('q, 'r) handler_value) serve_worker \<Rightarrow> serve_request \<Rightarrow> worker_env \<Rightarrow>
   ('i, 'z) serve_state_scheme \<Rightarrow> (serve_failure + ('q, 'r) worker_result fetched_result) \<times> ('i, 'z) serve_state_scheme" where
  "worker_fetch decode w request env s = (case strip_match_prefix (vq_path request) (we_matchPrefix env) of
     Inl e \<Rightarrow> (Inl (Thrown e), s)
   | Inr routedPath \<Rightarrow>
      (let routedRequest = request\<lparr>vq_path := routedPath\<rparr> in
       case find_route decode (vw_routes w) routedPath (vq_method request) of
         Inl e \<Rightarrow> (Inl (Thrown e), s)
       | Inr None \<Rightarrow> (Inr NotFound, s)
       | Inr (Some (route, params)) \<Rightarrow>
          (let ctx = \<lparr>vc_params = params, vc_path = routedPath, vc_originalPath = vq_path request\<rparr>;
               chain = map vm_handler (filter (\<lambda>m. path_starts_with_prefix routedPath (vm_pathPrefix m)) (vw_middleware w));
               (response, s1) = run_middleware_chain chain routedRequest env ctx
                  (run_route_handler (vw_class w) (kr_handler route) routedRequest env ctx) s
           in case response of
                Inl e \<Rightarrow> (Inl (Thrown e), s1)
              | Inr v \<Rightarrow> (case normalize_worker_result v of Inl f \<Rightarrow> (Inl f, s1) | Inr res \<Rightarrow> (Inr (Answered res), s1)))))"

end
