(* ===== verification/Serve_Props.thy ===== *)
theory Serve_Props
  imports Serve_App
begin

text \<open>What a serve application does with a path: the compiled expressions match segment by segment,
  the first route in order wins, mounting an application moves it below its prefix and changes
  nothing else, and a middleware that answers keeps the request from what comes after it.\<close>

section \<open>Segments\<close>

abbreviation slash :: char where
  "slash \<equiv> CHR 0x2F"

fun match_segments :: "string list \<Rightarrow> string list \<Rightarrow> string list option" where
  "match_segments [] [] = Some []"
| "match_segments (s # ss) (t # ts) =
    (if prefix '':'' s then (if t = [] then None else map_option ((#) t) (match_segments ss ts))
     else if s = t then match_segments ss ts else None)"
| "match_segments _ _ = None"

lemma split_slash_not_Nil [simp]: "split_slash s \<noteq> []"
  by (induction s) (auto split: list.split)

lemma split_slash_step:
  "split_slash s = takeWhile (\<lambda>c. c \<noteq> slash) s #
     (case dropWhile (\<lambda>c. c \<noteq> slash) s of [] \<Rightarrow> [] | _ # rest \<Rightarrow> split_slash rest)"
  by (induction s) auto

lemma split_slash_free: "slash \<notin> set s \<Longrightarrow> split_slash s = [s]"
  by (induction s) auto

lemma split_slash_append: "slash \<notin> set a \<Longrightarrow> split_slash (a @ slash # s) = a # split_slash s"
  by (induction a) auto

lemma split_slash_parts: "t \<in> set (split_slash s) \<Longrightarrow> slash \<notin> set t"
  by (induction s arbitrary: t) (auto split: list.splits if_splits)

lemma split_slash_concat: "split_slash (a @ slash # b) = split_slash a @ split_slash b"
  by (induction a) (auto split: list.split)

lemma regex_exec_literal:
  "regex_exec (map RChar a @ is) s = (if prefix a s then regex_exec is (drop (length a) s) else None)"
  by (induction a arbitrary: s) (auto split: list.split)

text \<open>The greedy group takes the whole segment or fails: what follows it is a slash or the end.\<close>

definition ends_segment :: "(string \<Rightarrow> string list option) \<Rightarrow> bool" where
  "ends_segment rest \<longleftrightarrow> (\<forall>c s. c \<noteq> slash \<longrightarrow> rest (c # s) = None)"

lemma try_group_fails:
  assumes "ends_segment rest" "k < length (takeWhile (\<lambda>c. c \<noteq> slash) s)"
  shows "try_group rest k s = None"
  using assms(2)
proof (induction k)
  case (Suc k)
  let ?t = "takeWhile (\<lambda>c. c \<noteq> slash) s"
  have "Suc k < length s" using Suc.prems length_takeWhile_le[of "\<lambda>c. c \<noteq> slash" s] by linarith
  then obtain r where d: "drop (Suc k) s = s ! Suc k # r" by (metis Cons_nth_drop_Suc)
  have "s ! Suc k = ?t ! Suc k" using Suc.prems by (simp add: takeWhile_nth)
  then have "s ! Suc k \<noteq> slash" using nth_mem[OF Suc.prems] set_takeWhileD by metis
  then have "rest (drop (Suc k) s) = None" using assms(1) unfolding d by (simp add: ends_segment_def)
  then show ?case using Suc by simp
qed simp

lemma try_group_whole:
  assumes "ends_segment rest"
  shows "try_group rest (length (takeWhile (\<lambda>c. c \<noteq> slash) s)) s = (if takeWhile (\<lambda>c. c \<noteq> slash) s = [] then None
    else map_option ((#) (takeWhile (\<lambda>c. c \<noteq> slash) s)) (rest (dropWhile (\<lambda>c. c \<noteq> slash) s)))"
proof (cases "length (takeWhile (\<lambda>c. c \<noteq> slash) s)")
  case (Suc k)
  have "try_group rest k s = None" by (rule try_group_fails[OF assms]) (simp add: Suc)
  moreover have "take (Suc k) s = takeWhile (\<lambda>c. c \<noteq> slash) s" "drop (Suc k) s = dropWhile (\<lambda>c. c \<noteq> slash) s"
    unfolding Suc[symmetric] by (simp_all add: takeWhile_eq_take[symmetric] dropWhile_eq_drop[symmetric])
  moreover have "takeWhile (\<lambda>c. c \<noteq> slash) s \<noteq> []" using Suc by auto
  ultimately show ?thesis unfolding Suc try_group.simps by (simp split: option.split)
qed simp

lemma ends_segment_end: "ends_segment (regex_exec [])"
  by (simp add: ends_segment_def)

lemma ends_segment_slash: "ends_segment (regex_exec (RChar slash # is))"
  by (simp add: ends_segment_def)

text \<open>One segment and what follows.\<close>

lemma segment_exec:
  assumes "slash \<notin> set seg" "ends_segment (regex_exec is)"
  shows "regex_exec (segment_items seg @ is) s =
    (if prefix '':'' seg then (if takeWhile (\<lambda>c. c \<noteq> slash) s = [] then None
        else map_option ((#) (takeWhile (\<lambda>c. c \<noteq> slash) s)) (regex_exec is (dropWhile (\<lambda>c. c \<noteq> slash) s)))
     else if seg = takeWhile (\<lambda>c. c \<noteq> slash) s then regex_exec is (dropWhile (\<lambda>c. c \<noteq> slash) s) else None)"
proof (cases "prefix '':'' seg")
  case True
  then show ?thesis using try_group_whole[OF assms(2), of s] by (simp add: segment_items_def)
next
  case False
  let ?t = "takeWhile (\<lambda>c. c \<noteq> slash) s" and ?d = "dropWhile (\<lambda>c. c \<noteq> slash) s"
  show ?thesis
  proof (cases "prefix seg s")
    case True
    then obtain r where s: "s = seg @ r" by (auto simp: prefix_def)
    have t: "?t = seg @ takeWhile (\<lambda>c. c \<noteq> slash) r" unfolding s by (rule takeWhile_append2) (use assms(1) in auto)
    have d: "?d = dropWhile (\<lambda>c. c \<noteq> slash) r" unfolding s by (rule dropWhile_append2) (use assms(1) in auto)
    have exec: "regex_exec (segment_items seg @ is) s = regex_exec is r"
      using False by (simp add: segment_items_def regex_exec_literal s)
    show ?thesis
    proof (cases r)
      case Nil
      have "?t = seg" "?d = []" using t d by (simp_all only: Nil takeWhile.simps dropWhile.simps append_Nil2)
      then show ?thesis using False exec by (simp only: Nil if_False simp_thms if_True)
    next
      case (Cons c cs)
      show ?thesis
      proof (cases "c = slash")
        case True
        then show ?thesis using False exec t d Cons by simp
      next
        case c: False
        then have "regex_exec is r = None" using assms(2) Cons by (simp add: ends_segment_def)
        then show ?thesis using False exec t Cons c by simp
      qed
    qed
  next
    case no: False
    have "seg \<noteq> ?t" using no takeWhile_dropWhile_id[of "\<lambda>c. c \<noteq> slash" s] prefixI by metis
    then show ?thesis using False no by (simp add: segment_items_def regex_exec_literal)
  qed
qed

lemma join_items_Cons: "iss \<noteq> [] \<Longrightarrow> join_items (is # iss) = is @ RChar slash # join_items iss"
  by (cases iss) simp_all

lemma match_segments_short: "match_segments (a # b # ss) [t] = None"
  by simp

lemma join_exec:
  "segs \<noteq> [] \<Longrightarrow> \<forall>s\<in>set segs. slash \<notin> set s \<Longrightarrow>
   regex_exec (join_items (map segment_items segs)) s = match_segments segs (split_slash s)"
proof (induction segs arbitrary: s)
  case (Cons seg segs)
  let ?t = "takeWhile (\<lambda>c. c \<noteq> slash) s" and ?d = "dropWhile (\<lambda>c. c \<noteq> slash) s"
  have seg: "slash \<notin> set seg" using Cons.prems(2) by simp
  have dcase: "?d = [] \<or> (\<exists>r. ?d = slash # r)" by (cases ?d) (auto dest: dropWhile_eq_Cons_conv[THEN iffD1])
  show ?case
  proof (cases segs)
    case Nil
    have "regex_exec (segment_items seg @ []) s = match_segments [seg] (split_slash s)"
      using dcase
    proof
      assume d: "?d = []"
      show ?thesis
        unfolding segment_exec[OF seg ends_segment_end] split_slash_step[of s] d list.case match_segments.simps by simp
    next
      assume "\<exists>r. ?d = slash # r"
      then obtain r where d: "?d = slash # r" by blast
      have "match_segments [] (split_slash r) = None" by (cases "split_slash r") simp_all
      then show ?thesis
        unfolding segment_exec[OF seg ends_segment_end] split_slash_step[of s] d list.case match_segments.simps by simp
    qed
    then show ?thesis by (simp add: Nil)
  next
    case (Cons x xs)
    then have ne: "map segment_items segs \<noteq> []" and ne': "segs \<noteq> []" by simp_all
    have IH: "regex_exec (join_items (map segment_items segs)) r = match_segments segs (split_slash r)" for r
      using Cons.IH[OF ne'] Cons.prems(2) by simp
    have e: "regex_exec (join_items (map segment_items (seg # segs))) s =
      regex_exec (segment_items seg @ RChar slash # join_items (map segment_items segs)) s"
      unfolding list.map join_items_Cons[OF ne] ..
    from dcase show ?thesis
    proof
      assume d: "?d = []"
      have m: "match_segments (seg # segs) [?t] = None" unfolding Cons by (rule match_segments_short)
      show ?thesis
        unfolding e segment_exec[OF seg ends_segment_slash] split_slash_step[of s] d list.case m by simp
    next
      assume "\<exists>r. ?d = slash # r"
      then obtain r where d: "?d = slash # r" by blast
      show ?thesis
        unfolding e segment_exec[OF seg ends_segment_slash] split_slash_step[of s] d list.case match_segments.simps
        by (simp add: IH)
    qed
  qed
qed simp


text \<open>The reference: a path is matched segment by segment.\<close>

fun match_path :: "string list \<Rightarrow> string \<Rightarrow> string list option" where
  "match_path segs [] = None"
| "match_path segs (c # rest) = (if c \<noteq> slash then None
     else if segs = [] then (if rest = [] then Some [] else None) else match_segments segs (split_slash rest))"

lemma path_segments_free: "s \<in> set (path_segments p) \<Longrightarrow> slash \<notin> set s"
  by (auto simp: path_segments_def split_slash_parts split: if_splits)

lemma route_pattern_segments:
  "regex_exec (route_pattern (path_segments p)) q = match_path (path_segments p) q"
proof (cases q)
  case (Cons c rest)
  have "\<forall>s\<in>set (path_segments p). slash \<notin> set s" using path_segments_free by blast
  then show ?thesis
    using join_exec[of "path_segments p" rest] by (simp add: route_pattern_def Cons)
qed (simp add: route_pattern_def)

text \<open>C22: The expression a route is compiled to, run by the backtracking matcher, is a comparison segment by
  segment: a path matches exactly when it has as many segments as the route, equal where the route's
  segment is literal and not empty where it is a parameter, and the captures are those segments.\<close>

theorem route_pattern_matches_segments:
  "regex_exec (route_pattern (path_segments p)) q = match_path (path_segments p) q"
  by (rule route_pattern_segments)

section \<open>The first route wins\<close>

definition accepts :: "'h compiled_route \<Rightarrow> string \<Rightarrow> string \<Rightarrow> bool" where
  "accepts r pathname requested \<longleftrightarrow> method_matches (kr_method r) requested \<and> regex_exec (kr_pattern r) pathname \<noteq> None"

lemma find_route_skip:
  "\<not> accepts r pathname requested \<Longrightarrow> find_route decode (r # rs) pathname requested = find_route decode rs pathname requested"
  by (auto simp: accepts_def split: option.split)

lemma find_route_skips:
  "\<forall>r\<in>set pre. \<not> accepts r pathname requested \<Longrightarrow>
   find_route decode (pre @ rs) pathname requested = find_route decode rs pathname requested"
  by (induction pre) (auto simp: find_route_skip simp del: find_route.simps)

lemma find_route_none: "find_route decode rs pathname requested = Inr None \<longleftrightarrow> (\<forall>r\<in>set rs. \<not> accepts r pathname requested)"
proof (induction rs)
  case (Cons r rs)
  show ?case
  proof (cases "accepts r pathname requested")
    case True
    then obtain caps where "regex_exec (kr_pattern r) pathname = Some caps" "method_matches (kr_method r) requested"
      by (auto simp: accepts_def)
    then show ?thesis using True by (simp split: sum.split)
  next
    case False
    then show ?thesis using Cons find_route_skip[OF False] by simp
  qed
qed simp

lemma find_route_found:
  assumes "find_route decode rs pathname requested = Inr (Some (r, params))"
  shows "\<exists>pre post caps ps. rs = pre @ r # post \<and> (\<forall>x\<in>set pre. \<not> accepts x pathname requested)
    \<and> method_matches (kr_method r) requested \<and> regex_exec (kr_pattern r) pathname = Some caps
    \<and> decode_all decode (zip (kr_paramNames r) caps) = Inr ps \<and> params = map_from ps"
  using assms
proof (induction rs)
  case (Cons x rs)
  show ?case
  proof (cases "accepts x pathname requested")
    case True
    then obtain caps where c: "regex_exec (kr_pattern x) pathname = Some caps" "method_matches (kr_method x) requested"
      by (auto simp: accepts_def)
    then obtain ps where "x = r" "decode_all decode (zip (kr_paramNames r) caps) = Inr ps" "params = map_from ps"
      using Cons.prems by (auto split: sum.splits)
    then show ?thesis using c by - (rule exI[of _ "[]"], rule exI[of _ rs], rule exI[of _ caps], rule exI[of _ ps], auto)
  next
    case False
    then obtain pre post caps ps where "rs = pre @ r # post" "\<forall>x\<in>set pre. \<not> accepts x pathname requested"
      "method_matches (kr_method r) requested" "regex_exec (kr_pattern r) pathname = Some caps"
      "decode_all decode (zip (kr_paramNames r) caps) = Inr ps" "params = map_from ps"
      using Cons.IH Cons.prems find_route_skip[OF False] by auto
    then show ?thesis using False by - (rule exI[of _ "x # pre"], rule exI[of _ post], rule exI[of _ caps], rule exI[of _ ps], auto)
  qed
qed simp

section \<open>Mounting\<close>

lemma normalize_ok: "normalize_path p = Inr q \<Longrightarrow> prefix ''/'' q \<and> (q = ''/'' \<or> \<not> suffix ''/'' q \<or> suffix ''//'' p)"
proof -
  assume n: "normalize_path p = Inr q"
  then obtain r where p: "p = slash # r" by (auto simp: normalize_path_def prefix_def split: if_splits)
  show ?thesis
  proof (cases "length p > 1 \<and> suffix ''/'' p")
    case True
    then obtain t where t: "p = t @ ''/''" by (auto simp: suffix_def)
    then have q: "q = t" using n True by (auto simp: normalize_path_def split: if_splits)
    have "t \<noteq> []" using True t by auto
    then have "prefix ''/'' t" using t p by (cases t) auto
    moreover have "suffix ''/'' t \<Longrightarrow> suffix ''//'' p" using t by (auto simp: suffix_def)
    ultimately show ?thesis using q by blast
  next
    case False
    then have "q = p" using n by (auto simp: normalize_path_def split: if_splits)
    then show ?thesis using False p by (cases r) auto
  qed
qed

text \<open>A clean path is one that normalization leaves alone.\<close>

definition clean_path :: "string \<Rightarrow> bool" where
  "clean_path p \<longleftrightarrow> normalize_path p = Inr p"

lemma clean_path_iff: "clean_path p \<longleftrightarrow> prefix ''/'' p \<and> (p = ''/'' \<or> \<not> suffix ''/'' p)"
proof (cases "length p > 1 \<and> suffix ''/'' p")
  case True
  then have "butlast p \<noteq> p" by (metis length_butlast length_greater_0_conv less_imp_diff_less nat_neq_iff diff_less zero_less_one less_trans)
  then show ?thesis using True by (auto simp: clean_path_def normalize_path_def)
next
  case False
  then have "length p \<le> 1 \<or> \<not> suffix ''/'' p" by linarith
  then show ?thesis using False by (cases p) (auto simp: clean_path_def normalize_path_def)
qed

definition below :: "string \<Rightarrow> string \<Rightarrow> string" where
  "below base p = (if p = ''/'' then base else base @ p)"

lemma join_clean:
  "clean_path base \<Longrightarrow> clean_path p \<Longrightarrow> base \<noteq> ''/'' \<Longrightarrow> join_paths (Some base) p = Inr (below base p)"
  by (cases base) (auto simp: join_paths_def clean_path_def below_def normalize_path_def)

lemma below_clean: "clean_path base \<Longrightarrow> clean_path p \<Longrightarrow> base \<noteq> ''/'' \<Longrightarrow> clean_path (below base p)"
proof -
  assume c: "clean_path base" "clean_path p" "base \<noteq> ''/''"
  have "\<not> suffix ''/'' (base @ p)" if "p \<noteq> ''/''"
  proof -
    have "p \<noteq> []" "\<not> suffix ''/'' p" using c(2) that by (auto simp: clean_path_iff)
    then show ?thesis by (cases p rule: rev_cases) (auto simp: suffix_def)
  qed
  then show ?thesis using c by (auto simp: clean_path_iff below_def prefix_def)
qed

lemma below_segments:
  assumes "clean_path base" "clean_path p" "base \<noteq> ''/''"
  shows "path_segments (below base p) = path_segments base @ path_segments p"
proof -
  obtain b where b: "base = slash # b" using assms(1) by (auto simp: clean_path_iff prefix_def)
  obtain q where q: "p = slash # q" using assms(2) by (auto simp: clean_path_iff prefix_def)
  have "b \<noteq> []" using assms(3) b by auto
  show ?thesis
  proof (cases "p = ''/''")
    case False
    then show ?thesis using assms(3) \<open>b \<noteq> []\<close> by (simp add: below_def path_segments_def b q split_slash_concat)
  qed (simp add: below_def path_segments_def)
qed

lemma match_segments_literal:
  "\<forall>s\<in>set ls. \<not> prefix '':'' s \<Longrightarrow> match_segments (ls @ ss) (ls @ ts) = match_segments ss ts"
  by (induction ls) auto

lemma match_segments_literal_iff:
  "\<forall>s\<in>set ls. \<not> prefix '':'' s \<Longrightarrow> match_segments (ls @ ss) ts \<noteq> None \<Longrightarrow> \<exists>us. ts = ls @ us"
proof (induction ls arbitrary: ts)
  case (Cons l ls)
  then show ?case by (cases ts) (auto split: if_splits)
qed simp

lemma split_slash_empty: "split_slash s = [[]] \<longleftrightarrow> s = []"
  by (cases s) (auto split: list.split)

lemma path_segments_not_empty: "clean_path p \<Longrightarrow> path_segments p \<noteq> [[]]"
  by (auto simp: path_segments_def split_slash_empty clean_path_iff prefix_def split: if_splits)

lemma match_path_below:
  assumes "clean_path base" "base \<noteq> ''/''" "clean_path p" "prefix ''/'' q"
    and "\<forall>s\<in>set (path_segments base). \<not> prefix '':'' s"
  shows "match_path (path_segments (below base p)) (below base q) = match_path (path_segments p) q"
proof -
  obtain b where b: "base = slash # b" using assms(1) by (auto simp: clean_path_iff prefix_def)
  have bne: "b \<noteq> []" using assms(2) b by auto
  have bs: "path_segments base = split_slash b" using assms(2) by (simp add: path_segments_def b)
  obtain r where r: "q = slash # r" using assms(4) by (auto simp: prefix_def)
  have segs: "path_segments (below base p) = split_slash b @ path_segments p"
    using below_segments assms(1-3) bs by simp
  have lit: "\<forall>s\<in>set (split_slash b). \<not> prefix '':'' s" using assms(5) bs by simp
  show ?thesis
  proof (cases "q = ''/''")
    case True
    have "match_segments (split_slash b @ path_segments p) (split_slash b @ []) = match_segments (path_segments p) []"
      by (rule match_segments_literal[OF lit])
    moreover have "match_segments (path_segments p) [] = match_path (path_segments p) q"
    proof (cases "path_segments p")
      case (Cons s ss)
      have "match_segments (s # ss) [[]] = None"
        using path_segments_not_empty[OF assms(3)] Cons by (cases ss) (auto split: if_splits)
      then show ?thesis using Cons True by simp
    qed (simp add: True)
    ultimately show ?thesis using True bne b segs by (simp add: below_def)
  next
    case False
    have "match_segments (split_slash b @ path_segments p) (split_slash b @ split_slash r) = match_segments (path_segments p) (split_slash r)"
      by (rule match_segments_literal[OF lit])
    then show ?thesis
      using False bne b r segs by (cases "path_segments p"; cases "split_slash r") (simp_all add: below_def split_slash_concat)
  qed
qed


definition compiled :: "'h serve_route \<Rightarrow> 'h compiled_route" where
  "compiled r = \<lparr>kr_method = vr_method r, kr_path = vr_path r, kr_pattern = route_pattern (path_segments (vr_path r)),
     kr_paramNames = param_names (path_segments (vr_path r)), kr_handler = vr_handler r\<rparr>"

definition moved :: "string \<Rightarrow> 'h serve_route \<Rightarrow> 'h serve_route" where
  "moved base r = r\<lparr>vr_path := below base (vr_path r)\<rparr>"

definition clean_routes :: "'h serve_route list \<Rightarrow> bool" where
  "clean_routes rs \<longleftrightarrow> (\<forall>r\<in>set rs. clean_path (vr_path r))"

lemma compile_clean: "clean_routes rs \<Longrightarrow> map_results compile_route rs = Inr (map compiled rs)"
  by (induction rs) (auto simp: clean_routes_def clean_path_def compile_route_def compiled_def Let_def)

lemma mount_clean:
  "clean_path base \<Longrightarrow> base \<noteq> ''/'' \<Longrightarrow> clean_routes rs \<Longrightarrow> mount_routes (Some base) rs = Inr (map (moved base) rs)"
  by (induction rs) (auto simp: clean_routes_def join_clean moved_def)

lemma moved_clean: "clean_path base \<Longrightarrow> base \<noteq> ''/'' \<Longrightarrow> clean_routes rs \<Longrightarrow> clean_routes (map (moved base) rs)"
  by (auto simp: clean_routes_def moved_def below_clean)

definition literal_path :: "string \<Rightarrow> bool" where
  "literal_path p \<longleftrightarrow> (\<forall>s\<in>set (path_segments p). \<not> prefix '':'' s)"

lemma moved_params:
  "clean_path base \<Longrightarrow> base \<noteq> ''/'' \<Longrightarrow> literal_path base \<Longrightarrow> clean_path (vr_path r) \<Longrightarrow>
   kr_paramNames (compiled (moved base r)) = kr_paramNames (compiled r)"
  by (simp add: compiled_def moved_def below_segments param_names_def literal_path_def)

lemma moved_match:
  assumes "clean_path base" "base \<noteq> ''/''" "literal_path base" "clean_path (vr_path r)" "prefix ''/'' q"
  shows "regex_exec (kr_pattern (compiled (moved base r))) (below base q) = regex_exec (kr_pattern (compiled r)) q"
  using match_path_below[OF assms(1,2,4,5)] assms(3)
  by (simp add: compiled_def moved_def route_pattern_segments literal_path_def)

lemma match_path_prefix:
  assumes base: "clean_path base" "base \<noteq> ''/''" "literal_path base"
    and m: "match_path (path_segments base @ segs) q \<noteq> None"
  shows "path_starts_with_prefix q (Some base)"
proof -
  obtain b where b: "base = slash # b" "b \<noteq> []" using base(1,2) by (cases base) (auto simp: clean_path_iff)
  have bs: "path_segments base = split_slash b" using base(2) by (simp add: path_segments_def b)
  obtain r where q: "q = slash # r" and r: "match_segments (split_slash b @ segs) (split_slash r) \<noteq> None"
    using m by (cases q) (auto simp: bs split: if_splits)
  from match_segments_literal_iff[OF _ r] obtain us where us: "split_slash r = split_slash b @ us"
    using base(3) bs by (auto simp: literal_path_def)
  have "r = b \<or> prefix (b @ ''/'') r" using us
  proof (induction b arbitrary: r)
    case Nil
    show ?case
    proof (cases r)
      case (Cons c cs)
      then show ?thesis using Nil by (cases "c = slash") (auto split: list.splits)
    qed simp
  next
    case (Cons c b)
    then show ?case
      by (cases r; cases "c = slash") (auto split: list.splits if_splits)
  qed
  then show ?thesis by (auto simp: path_starts_with_prefix_def q b)
qed


lemma moved_find:
  assumes base: "clean_path base" "base \<noteq> ''/''" "literal_path base" and q: "prefix ''/'' q" and rs: "clean_routes rs"
  shows "map_sum id (map_option (\<lambda>(r, ps). (kr_handler r, ps))) (find_route decode (map compiled (map (moved base) rs)) (below base q) m)
    = map_sum id (map_option (\<lambda>(r, ps). (kr_handler r, ps))) (find_route decode (map compiled rs) q m)"
  using rs
proof (induction rs)
  case (Cons r rs)
  have c: "clean_path (vr_path r)" and IH: "clean_routes rs" using Cons.prems by (simp_all add: clean_routes_def)
  have h: "kr_method (compiled (moved base r)) = kr_method (compiled r)" "kr_handler (compiled (moved base r)) = kr_handler (compiled r)"
    by (simp_all add: compiled_def moved_def)
  show ?case
    using Cons.IH[OF IH] by (simp add: h moved_match[OF base c q] moved_params[OF base c] split: option.split sum.split)
qed simp

text \<open>C23: Mounting is transparent. An application mounted below a literal path answers a path below it with
  the handler and the parameters with which it would have answered the rest of the path on its own,
  and it answers no path outside: whatever it accepts is the mount path or continues it after a
  slash.\<close>

theorem mounted_app_serves_below:
  assumes "clean_path base" "base \<noteq> ''/''" "literal_path base" "clean_routes rs"
    and "mount_routes (Some base) rs = Inr mounted"
    and "map_results compile_route mounted = Inr outer" "map_results compile_route rs = Inr inner"
  shows "(prefix ''/'' q \<longrightarrow>
      map_sum id (map_option (\<lambda>(r, ps). (kr_handler r, ps))) (find_route decode outer (below base q) requested)
      = map_sum id (map_option (\<lambda>(r, ps). (kr_handler r, ps))) (find_route decode inner q requested))
    \<and> (find_route decode outer pathname requested \<noteq> Inr None \<longrightarrow> path_starts_with_prefix pathname (Some base))"
proof -
  have m: "mounted = map (moved base) rs" using mount_clean[OF assms(1,2,4)] assms(5) by simp
  have outer: "outer = map compiled (map (moved base) rs)"
    using compile_clean[OF moved_clean[OF assms(1,2,4)]] assms(6) m by simp
  have inner: "inner = map compiled rs" using compile_clean[OF assms(4)] assms(7) by simp
  have "path_starts_with_prefix pathname (Some base)" if f: "find_route decode outer pathname requested \<noteq> Inr None"
  proof -
    obtain r where r: "r \<in> set rs" and a: "regex_exec (kr_pattern (compiled (moved base r))) pathname \<noteq> None"
      using f unfolding find_route_none outer by (auto simp: accepts_def)
    have "clean_path (vr_path r)" using r assms(4) by (simp add: clean_routes_def)
    moreover have "match_path (path_segments (below base (vr_path r))) pathname \<noteq> None"
      using a by (simp add: compiled_def moved_def route_pattern_segments)
    ultimately have "match_path (path_segments base @ path_segments (vr_path r)) pathname \<noteq> None"
      using assms(1,2) by (simp add: below_segments)
    then show ?thesis by (rule match_path_prefix[OF assms(1-3)])
  qed
  then show ?thesis using moved_find[OF assms(1-3) _ assms(4)] outer inner by blast
qed

section \<open>Guards\<close>

lemma dispatch_run: "index < length chain \<Longrightarrow>
    dispatch chain req env ctx terminal index = (chain ! index) req env ctx (dispatch chain req env ctx terminal (Suc index))"
  and dispatch_end: "index \<ge> length chain \<Longrightarrow> dispatch chain req env ctx terminal index = terminal"
  by (subst dispatch.simps; simp)+

lemma dispatch_guarded:
  assumes "j < length chain" "\<And>req env ctx n n'. (chain ! j) req env ctx n = (chain ! j) req env ctx n'" "i \<le> j"
  shows "dispatch chain req env ctx t i = dispatch chain req env ctx t' i"
  using assms(3)
proof (induction "j - i" arbitrary: i)
  case 0
  then have "i = j" by simp
  then show ?case using assms(1) assms(2) by (simp add: dispatch_run)
next
  case (Suc n)
  then have "dispatch chain req env ctx t (Suc i) = dispatch chain req env ctx t' (Suc i)" by simp
  then show ?case using Suc assms(1) by (simp add: dispatch_run)
qed

definition rehandled :: "('a handler_target \<Rightarrow> 'b handler_target) \<Rightarrow> 'a compiled_route \<Rightarrow> 'b compiled_route" where
  "rehandled g r = \<lparr>kr_method = kr_method r, kr_path = kr_path r, kr_pattern = kr_pattern r, kr_paramNames = kr_paramNames r,
     kr_handler = g (kr_handler r)\<rparr>"

lemma find_rehandled:
  "find_route decode (map (rehandled g) rs) pathname requested
     = map_sum id (map_option (\<lambda>(r, ps). (rehandled g r, ps))) (find_route decode rs pathname requested)"
  by (induction rs) (auto simp: rehandled_def split: option.split sum.split)

text \<open>C24: A middleware that answers by itself, without calling \<open>next\<close>, shields everything behind it: for a path
  under its prefix the answer and the final state are the same whatever handlers the routes have and
  whatever the deployment class is. No handler runs and no instance is made.\<close>

theorem guard_shields_handlers:
  assumes "mw \<in> set (vw_middleware w)" "strip_match_prefix (vq_path request) (we_matchPrefix env) = Inr routedPath"
    and "path_starts_with_prefix routedPath (vm_pathPrefix mw)"
    and "\<And>req env ctx n n'. vm_handler mw req env ctx n = vm_handler mw req env ctx n'"
  shows "worker_fetch decode (w\<lparr>vw_routes := map (rehandled g) (vw_routes w), vw_class := cls\<rparr>) request env s
    = worker_fetch decode w request env s"
proof -
  let ?chain = "map vm_handler (filter (\<lambda>m. path_starts_with_prefix routedPath (vm_pathPrefix m)) (vw_middleware w))"
  have "vm_handler mw \<in> set ?chain" using assms(1,3) by auto
  then obtain j where j: "j < length ?chain" "?chain ! j = vm_handler mw" by (meson in_set_conv_nth)
  have guarded: "run_middleware_chain ?chain req env ctx t = run_middleware_chain ?chain req env ctx t'" for req env ctx t t'
    unfolding run_middleware_chain_def using assms(4) j by (intro dispatch_guarded[of j]) auto
  show ?thesis
  proof (cases "find_route decode (vw_routes w) routedPath (vq_method request)")
    case (Inl e)
    then show ?thesis by (simp add: worker_fetch_def assms(2) find_rehandled)
  next
    case (Inr found)
    show ?thesis
    proof (cases found)
      case None
      then show ?thesis using Inr by (simp add: worker_fetch_def assms(2) find_rehandled)
    next
      case (Some rp)
      obtain r ps where "rp = (r, ps)" by (cases rp)
      then show ?thesis
        using Inr Some guarded[of "request\<lparr>vq_path := routedPath\<rparr>" env "\<lparr>vc_params = ps, vc_path = routedPath, vc_originalPath = vq_path request\<rparr>"
            "run_route_handler cls (g (kr_handler r)) (request\<lparr>vq_path := routedPath\<rparr>) env \<lparr>vc_params = ps, vc_path = routedPath, vc_originalPath = vq_path request\<rparr>"
            "run_route_handler (vw_class w) (kr_handler r) (request\<lparr>vq_path := routedPath\<rparr>) env \<lparr>vc_params = ps, vc_path = routedPath, vc_originalPath = vq_path request\<rparr>"]
        by (simp add: worker_fetch_def assms(2) find_rehandled rehandled_def Let_def)
    qed
  qed
qed

section \<open>The match prefix of a pipeline\<close>

lemma strip_below:
  "clean_path p \<Longrightarrow> p \<noteq> ''/'' \<Longrightarrow> prefix ''/'' q \<Longrightarrow> strip_match_prefix (below p q) p = Inr q"
  by (auto simp: strip_match_prefix_def clean_path_def below_def Let_def prefix_def)

text \<open>The prefix is cut off without looking for the end of a segment: \<open>/apiary\<close> under the prefix \<open>/api\<close> is
  routed like \<open>/api/ary\<close>, unlike the prefix of a middleware, which ends at a slash.\<close>

theorem strip_ignores_segments:
  assumes "clean_path p" "p \<noteq> ''/''" "c \<noteq> slash"
  shows "strip_match_prefix (p @ c # rest) p = strip_match_prefix (p @ slash # c # rest) p
    \<and> \<not> path_starts_with_prefix (p @ c # rest) (Some p)"
proof -
  have "p \<noteq> []" using assms(1) by (auto simp: clean_path_iff)
  then show ?thesis
    using assms by (auto simp: strip_match_prefix_def clean_path_def Let_def path_starts_with_prefix_def)
qed

section \<open>Examples\<close>

definition example_routes :: "nat serve_route list" where
  "example_routes = [\<lparr>vr_method = MGet, vr_path = ''/users/:id'', vr_handler = HandlerFunction 1\<rparr>,
     \<lparr>vr_method = MAll, vr_path = ''/'', vr_handler = HandlerFunction 2\<rparr>]"

lemma example_mounted:
  "clean_path ''/api''" "''/api'' \<noteq> ''/''" "literal_path ''/api''" "clean_routes example_routes"
  "mount_routes (Some ''/api'') example_routes = Inr (map (moved ''/api'') example_routes)"
  "map_results compile_route (map (moved ''/api'') example_routes) = Inr (map compiled (map (moved ''/api'') example_routes))"
  "map_results compile_route example_routes = Inr (map compiled example_routes)"
proof -
  show c: "clean_path ''/api''" "''/api'' \<noteq> ''/''" "literal_path ''/api''" "clean_routes example_routes"
    by code_simp+
  show "mount_routes (Some ''/api'') example_routes = Inr (map (moved ''/api'') example_routes)" using c(1,2,4) by (rule mount_clean)
  show "map_results compile_route (map (moved ''/api'') example_routes) = Inr (map compiled (map (moved ''/api'') example_routes))"
    by (rule compile_clean[OF moved_clean[OF c(1,2,4)]])
  show "map_results compile_route example_routes = Inr (map compiled example_routes)" by (rule compile_clean[OF c(4)])
qed

theorem mounted_app_serves_below_witness:
  "map_sum id (map_option (\<lambda>(r, ps). (kr_handler r, ps)))
     (find_route Some (map compiled (map (moved ''/api'') example_routes)) (below ''/api'' ''/users/7'') ''get'')
   = map_sum id (map_option (\<lambda>(r, ps). (kr_handler r, ps))) (find_route Some (map compiled example_routes) ''/users/7'' ''get'')"
proof -
  have "prefix ''/'' ''/users/7''" by simp
  then show ?thesis using mounted_app_serves_below[OF example_mounted] by blast
qed

definition example_guard :: "(unit serve_state, (nat, nat) handler_value) serve_step" where
  "example_guard req env ctx next1 s = (Inr (ReturnsResponse 403), s)"

definition example_worker :: "(unit, unit serve_state, (nat, nat) handler_value) serve_worker" where
  "example_worker = \<lparr>vw_routes = [compiled \<lparr>vr_method = MGet, vr_path = ''/admin'', vr_handler = MethodName ''show''\<rparr>],
     vw_middleware = [\<lparr>vm_pathPrefix = Some ''/admin'', vm_handler = example_guard\<rparr>], vw_class = None\<rparr>"

definition example_env :: worker_env where
  "example_env = \<lparr>we_auth = \<lparr>au_peerId = ''p'', au_tokenId = ''t'', au_capabilities = [], au_expiresAt = 0, au_revokedAt = None,
     au_groupId = None\<rparr>, we_pipelineId = ''x'', we_matchPrefix = ''/api'', we_downstreamOrigin = [], we_groupId = None,
     we_deployment = None, we_traceId = None\<rparr>"

theorem guard_shields_handlers_witness:
  "worker_fetch Some (example_worker\<lparr>vw_routes := map (rehandled (\<lambda>_. HandlerFunction (\<lambda>_ _ _ s. (Inr ReturnsNothing, s))))
       (vw_routes example_worker), vw_class := None\<rparr>) \<lparr>vq_path = ''/api/admin'', vq_method = ''GET''\<rparr> example_env \<lparr>vs_instances = []\<rparr>
   = worker_fetch Some example_worker \<lparr>vq_path = ''/api/admin'', vq_method = ''GET''\<rparr> example_env \<lparr>vs_instances = []\<rparr>"
proof (rule guard_shields_handlers)
  show "\<lparr>vm_pathPrefix = Some ''/admin'', vm_handler = example_guard\<rparr> \<in> set (vw_middleware example_worker)"
    by (simp add: example_worker_def)
  show "strip_match_prefix (vq_path \<lparr>vq_path = ''/api/admin'', vq_method = ''GET''\<rparr>) (we_matchPrefix example_env) = Inr ''/admin''"
    by code_simp
  show "path_starts_with_prefix ''/admin'' (vm_pathPrefix \<lparr>vm_pathPrefix = Some ''/admin'', vm_handler = example_guard\<rparr>)"
    by (simp add: path_starts_with_prefix_def)
  show "vm_handler \<lparr>vm_pathPrefix = Some ''/admin'', vm_handler = example_guard\<rparr> req env ctx n
      = vm_handler \<lparr>vm_pathPrefix = Some ''/admin'', vm_handler = example_guard\<rparr> req env ctx n'" for req env ctx n n'
    by (simp add: example_guard_def fun_eq_iff)
qed

end
