(* ===== verification/Config_Store.thy ===== *)
theory Config_Store
  imports Runtime_Config
begin

text \<open>The store of the gateway's configuration (src/src/runtime/config/store.ts): it is read from a module
  file that is watched, or applied by the host adapter, and published to listeners.

  Reading and importing the file take time: a reload is in flight until its file was read (the text is
  known then) and until the shadow copy was imported. \<open>imports\<close> stands for the module loader and
  the parser of the configuration: the text of the file to a configuration or an error. Listeners are
  numbers; \<open>listener_error\<close> says which of them reject a configuration. Publishing awaits its
  listeners one after the other and is one step here. Shadow copies are numbered by the reload counter;
  \<open>cg_files\<close> lists the ones on disk.\<close>

section \<open>State\<close>

datatype reload_phase = NoReload | ReadingFile | ImportingCopy string nat

record config_store =
  cg_current :: "hardess_config option"
  cg_watching :: bool
  cg_watcher :: bool
  cg_disposed :: bool
  cg_listeners :: "nat list"
  cg_shadow :: "nat option"
  cg_counter :: nat
  cg_files :: "nat list"
  cg_reload :: reload_phase
  cg_queued :: bool
  cg_timer :: "nat option"
  cg_nextTimer :: nat
  cg_published :: "(nat \<times> hardess_config) list"

record config_deps =
  cd_imports :: "string \<Rightarrow> string + hardess_config"
  cd_parses :: "hardess_config \<Rightarrow> string + hardess_config"
  cd_listener_error :: "nat \<Rightarrow> hardess_config \<Rightarrow> string option"

definition new_config_store :: config_store where
  "new_config_store = \<lparr>cg_current = None, cg_watching = False, cg_watcher = False, cg_disposed = False, cg_listeners = [],
     cg_shadow = None, cg_counter = 0, cg_files = [], cg_reload = NoReload, cg_queued = False, cg_timer = None,
     cg_nextTimer = 0, cg_published = []\<rparr>"

definition get_config :: "config_store \<Rightarrow> string + hardess_config" where
  "get_config s = (case cg_current s of None \<Rightarrow> Inl ''Config has not been loaded yet'' | Some c \<Rightarrow> Inr c)"

section \<open>Publishing\<close>

fun notify_listeners :: "config_deps \<Rightarrow> hardess_config \<Rightarrow> nat list \<Rightarrow> (nat \<times> hardess_config) list \<times> string option" where
  "notify_listeners d c [] = ([], None)"
| "notify_listeners d c (l # ls) = (case cd_listener_error d l c of
     Some e \<Rightarrow> ([(l, c)], Some e)
   | None \<Rightarrow> (let (sent, r) = notify_listeners d c ls in ((l, c) # sent, r)))"

definition publish_config :: "config_deps \<Rightarrow> hardess_config \<Rightarrow> config_store \<Rightarrow> string option \<times> config_store" where
  "publish_config d c s =
    (let (sent, r) = notify_listeners d c (cg_listeners s)
     in (r, s\<lparr>cg_current := Some c, cg_published := cg_published s @ sent\<rparr>))"

definition apply_config :: "config_deps \<Rightarrow> hardess_config \<Rightarrow> config_store \<Rightarrow> (string + hardess_config) \<times> config_store" where
  "apply_config d c s = (case cd_parses d c of
     Inl e \<Rightarrow> (Inl e, s)
   | Inr parsed \<Rightarrow> (case publish_config d parsed s of
       (Some e, s1) \<Rightarrow> (Inl e, s1)
     | (None, s1) \<Rightarrow> (Inr parsed, s1)))"

section \<open>Reloading\<close>

text \<open>A call of \<open>reload\<close>: it starts a reload or marks the running one to be repeated.\<close>

definition reload :: "config_store \<Rightarrow> config_store" where
  "reload s = (if cg_reload s \<noteq> NoReload then s\<lparr>cg_queued := True\<rparr> else s\<lparr>cg_reload := ReadingFile\<rparr>)"

text \<open>What follows a finished \<open>performReload\<close> in the loop of the first caller: repeat when marked.\<close>

definition after_reload :: "config_store \<Rightarrow> config_store" where
  "after_reload s = (if cg_queued s \<and> \<not> cg_disposed s then s\<lparr>cg_queued := False, cg_reload := ReadingFile\<rparr>
     else s\<lparr>cg_reload := NoReload\<rparr>)"

definition reload_failed :: "config_store \<Rightarrow> config_store" where
  "reload_failed s = s\<lparr>cg_reload := NoReload\<rparr>"

text \<open>The file was read (or could not be), and its shadow copy is written.\<close>

definition reload_read :: "string option \<Rightarrow> config_store \<Rightarrow> config_store" where
  "reload_read source s = (case cg_reload s of
     ReadingFile \<Rightarrow> (case source of
        None \<Rightarrow> reload_failed s
      | Some text \<Rightarrow> s\<lparr>cg_counter := Suc (cg_counter s), cg_files := cg_files s @ [Suc (cg_counter s)],
          cg_reload := ImportingCopy text (Suc (cg_counter s))\<rparr>)
   | _ \<Rightarrow> s)"

definition remove_copy :: "nat option \<Rightarrow> config_store \<Rightarrow> config_store" where
  "remove_copy copy s = (case copy of None \<Rightarrow> s | Some n \<Rightarrow> s\<lparr>cg_files := removeAll n (cg_files s)\<rparr>)"

text \<open>The copy was imported: publish it, or give up and remove the copy.\<close>

definition reload_imported :: "config_deps \<Rightarrow> config_store \<Rightarrow> config_store" where
  "reload_imported d s = (case cg_reload s of
     ImportingCopy text n \<Rightarrow> (case cd_imports d text of
        Inl e \<Rightarrow> reload_failed (remove_copy (Some n) s)
      | Inr config \<Rightarrow>
         (let s1 = (remove_copy (cg_shadow s) s)\<lparr>cg_shadow := Some n\<rparr> in case publish_config d config s1 of
            (Some e, s2) \<Rightarrow> reload_failed (remove_copy (Some n) s2)
          | (None, s2) \<Rightarrow> after_reload s2))
   | _ \<Rightarrow> s)"

section \<open>Watching\<close>

definition schedule_reload :: "config_store \<Rightarrow> config_store" where
  "schedule_reload s = (if cg_disposed s then s
     else s\<lparr>cg_timer := Some (cg_nextTimer s), cg_nextTimer := Suc (cg_nextTimer s)\<rparr>)"

definition watch_timer_fires :: "nat \<Rightarrow> config_store \<Rightarrow> config_store" where
  "watch_timer_fires t s = (if cg_timer s = Some t then reload (s\<lparr>cg_timer := None\<rparr>) else s)"

definition watch_config :: "config_store \<Rightarrow> config_store" where
  "watch_config s = (if cg_watching s \<or> cg_watcher s then s else s\<lparr>cg_watching := True, cg_watcher := True\<rparr>)"

text \<open>The watcher reports a change in the directory, with the name of the file or without one.\<close>

definition watch_event :: "string \<Rightarrow> string option \<Rightarrow> config_store \<Rightarrow> config_store" where
  "watch_event targetFile changed s =
    (if \<not> cg_watcher s then s
     else if truthy changed \<and> changed \<noteq> Some targetFile then s
     else schedule_reload s)"

definition dispose_store :: "config_store \<Rightarrow> config_store" where
  "dispose_store s = (remove_copy (cg_shadow s) s)\<lparr>cg_watching := False, cg_disposed := True, cg_watcher := False,
     cg_timer := None, cg_shadow := None\<rparr>"

definition subscribe_config :: "nat \<Rightarrow> config_store \<Rightarrow> config_store" where
  "subscribe_config l s = (if l \<in> set (cg_listeners s) then s else s\<lparr>cg_listeners := cg_listeners s @ [l]\<rparr>)"

definition unsubscribe_config :: "nat \<Rightarrow> config_store \<Rightarrow> config_store" where
  "unsubscribe_config l s = s\<lparr>cg_listeners := removeAll l (cg_listeners s)\<rparr>"

section \<open>Runs\<close>

text \<open>The store together with the text of its file: an edit is reported by the watcher at once.\<close>

datatype config_event =
    FileEdited string | WatchTimerFires nat | ReloadCalled | FileRead bool | CopyImported | ConfigApplied hardess_config
  | ListenerAdded nat | ListenerRemoved nat | StoreWatched | StoreDisposed

fun config_event_step :: "config_deps \<Rightarrow> config_event \<Rightarrow> config_store \<times> string \<Rightarrow> config_store \<times> string" where
  "config_event_step d (FileEdited text) (s, _) = (watch_event ''config'' (Some ''config'') s, text)"
| "config_event_step d (WatchTimerFires t) (s, f) = (watch_timer_fires t s, f)"
| "config_event_step d ReloadCalled (s, f) = (reload s, f)"
| "config_event_step d (FileRead ok) (s, f) = (reload_read (if ok then Some f else None) s, f)"
| "config_event_step d CopyImported (s, f) = (reload_imported d s, f)"
| "config_event_step d (ConfigApplied c) (s, f) = (snd (apply_config d c s), f)"
| "config_event_step d (ListenerAdded l) (s, f) = (subscribe_config l s, f)"
| "config_event_step d (ListenerRemoved l) (s, f) = (unsubscribe_config l s, f)"
| "config_event_step d StoreWatched (s, f) = (watch_config s, f)"
| "config_event_step d StoreDisposed (s, f) = (dispose_store s, f)"

definition config_run :: "config_deps \<Rightarrow> config_event list \<Rightarrow> config_store \<times> string \<Rightarrow> config_store \<times> string" where
  "config_run d es = fold (config_event_step d) es"

section \<open>A watched file is followed\<close>

text \<open>The store is idle and holds the configuration of the file's text, or something is under way that will read the file again:
  an armed timer, a queued repetition, a reload that has not read the file yet or one that imports
  exactly this text.\<close>

definition current_text :: "config_deps \<Rightarrow> config_store \<times> string \<Rightarrow> bool" where
  "current_text d = (\<lambda>(s, f). cg_reload s = NoReload \<and> (\<exists>c. cd_imports d f = Inr c \<and> cg_current s = Some c))"

definition underway :: "config_store \<times> string \<Rightarrow> bool" where
  "underway = (\<lambda>(s, f). cg_timer s \<noteq> None \<or> cg_queued s \<and> cg_reload s \<noteq> NoReload \<or> cg_reload s = ReadingFile
     \<or> (\<exists>n. cg_reload s = ImportingCopy f n))"

text \<open>Nothing is running or about to run.\<close>

definition settled :: "config_store \<Rightarrow> bool" where
  "settled s \<longleftrightarrow> cg_timer s = None \<and> cg_reload s = NoReload"

definition watched_store :: "config_deps \<Rightarrow> config_store \<times> string \<Rightarrow> bool" where
  "watched_store d = (\<lambda>(s, f). cg_watcher s \<and> \<not> cg_disposed s \<and> (\<exists>c. cd_imports d f = Inr c)
     \<and> (\<forall>text n. cg_reload s = ImportingCopy text n \<longrightarrow> (\<exists>c. cd_imports d text = Inr c)))"

text \<open>The events of a healthy run: files that can be read and imported, listeners that accept, and no
  other writer of the configuration.\<close>

fun healthy_event :: "config_deps \<Rightarrow> config_event \<Rightarrow> bool" where
  "healthy_event d (FileEdited text) \<longleftrightarrow> (\<exists>c. cd_imports d text = Inr c)"
| "healthy_event d (FileRead ok) \<longleftrightarrow> ok"
| "healthy_event d (ConfigApplied c) \<longleftrightarrow> False"
| "healthy_event d StoreDisposed \<longleftrightarrow> False"
| "healthy_event d _ \<longleftrightarrow> True"

lemma publish_accepts:
  assumes "\<And>l c. cd_listener_error d l c = None"
  shows "publish_config d c s = (None, s\<lparr>cg_current := Some c, cg_published := cg_published s @ map (\<lambda>l. (l, c)) (cg_listeners s)\<rparr>)"
proof -
  have "notify_listeners d c ls = (map (\<lambda>l. (l, c)) ls, None)" for ls
    by (induction ls) (simp_all add: assms)
  then show ?thesis by (simp add: publish_config_def)
qed

lemma healthy_step:
  assumes accept: "\<And>l c. cd_listener_error d l c = None" and ev: "healthy_event d e"
    and w: "watched_store d (s, f)" and cur: "current_text d (s, f) \<or> underway (s, f)"
  shows "watched_store d (config_event_step d e (s, f)) \<and> (current_text d (config_event_step d e (s, f)) \<or> underway (config_event_step d e (s, f)))"
proof (cases e)
  case (FileEdited body)
  then show ?thesis using ev w
    by (auto simp: watched_store_def watch_event_def schedule_reload_def underway_def)
next
  case (WatchTimerFires t)
  then show ?thesis using w cur
    by (cases "cg_reload s") (auto simp: watched_store_def watch_timer_fires_def reload_def underway_def current_text_def)
next
  case ReloadCalled
  then show ?thesis using w cur
    by (cases "cg_reload s") (auto simp: watched_store_def reload_def underway_def current_text_def)
next
  case (FileRead ok)
  then show ?thesis using ev w cur
    by (cases "cg_reload s") (auto simp: watched_store_def reload_read_def underway_def current_text_def)
next
  case CopyImported
  show ?thesis
  proof (cases "cg_reload s")
    case (ImportingCopy body n)
    then obtain c where c: "cd_imports d body = Inr c" using w by (auto simp: watched_store_def)
    define s1 where "s1 = (remove_copy (cg_shadow s) s)\<lparr>cg_shadow := Some n\<rparr>"
    define s2 where "s2 = s1\<lparr>cg_current := Some c, cg_published := cg_published s1 @ map (\<lambda>l. (l, c)) (cg_listeners s1)\<rparr>"
    have "reload_imported d s = after_reload s2"
      using ImportingCopy c publish_accepts[OF accept, where c = c and s = s1] by (simp add: reload_imported_def s1_def s2_def Let_def)
    moreover have "cg_timer s2 = cg_timer s" "cg_queued s2 = cg_queued s" "cg_reload s2 = cg_reload s" "cg_current s2 = Some c"
      "cg_watcher s2 = cg_watcher s" "cg_disposed s2 = cg_disposed s"
      by (auto simp: s2_def s1_def remove_copy_def split: option.splits)
    ultimately show ?thesis using CopyImported ImportingCopy c w cur
      by (auto simp: after_reload_def watched_store_def underway_def current_text_def)
  qed (use CopyImported w cur in \<open>auto simp: reload_imported_def\<close>)
qed (use ev w cur in \<open>auto simp: watched_store_def underway_def current_text_def subscribe_config_def unsubscribe_config_def watch_config_def\<close>)

lemma healthy_run:
  assumes accept: "\<And>l c. cd_listener_error d l c = None"
  shows "(\<And>e. e \<in> set es \<Longrightarrow> healthy_event d e) \<Longrightarrow> watched_store d w \<Longrightarrow> current_text d w \<or> underway w \<Longrightarrow>
     watched_store d (config_run d es w) \<and> (current_text d (config_run d es w) \<or> underway (config_run d es w))"
proof (induction es arbitrary: w)
  case Nil
  then show ?case by (simp add: config_run_def)
next
  case (Cons e es)
  obtain s f where w: "w = (s, f)" by (cases w)
  have "watched_store d (config_event_step d e w) \<and> (current_text d (config_event_step d e w) \<or> underway (config_event_step d e w))"
    using healthy_step[OF accept, where e = e and s = s and f = f] Cons.prems by (simp add: w)
  then show ?case using Cons.IH[of "config_event_step d e w"] Cons.prems(1) by (simp add: config_run_def)
qed

text \<open>C25: A watched configuration file is followed in every healthy run: one in which every text the file is given can be
  read and imported, every listener accepts, and nobody applies a configuration or disposes the store. From a watching
  store that is up to date or about to reload, whatever the interleaving of edits, timers and reloads, once the store
  has settled (no timer armed, no reload under way) it holds the configuration of the file's last text. In a run with a
  failing import it may not: lemma \<open>queued_reload_lost_on_failure\<close>.\<close>

theorem watched_file_is_followed:
  assumes "\<And>l c. cd_listener_error d l c = None" and "\<And>e. e \<in> set es \<Longrightarrow> healthy_event d e"
    and "watched_store d w" "current_text d w \<or> underway w"
    and "config_run d es w = (s, text)" "settled s"
  shows "\<exists>c. cd_imports d text = Inr c \<and> get_config s = Inr c"
proof -
  have "current_text d (s, text) \<or> underway (s, text)" using healthy_run[of d es w] assms(1-5) by simp
  moreover have "\<not> underway (s, text)" using assms(6) by (auto simp: settled_def underway_def)
  ultimately show ?thesis by (auto simp: current_text_def get_config_def)
qed

definition broken_then_fixed :: "config_event list" where
  "broken_then_fixed = [FileEdited ''broken'', WatchTimerFires 0, FileRead True, FileEdited ''fixed'', WatchTimerFires 1, CopyImported]"

text \<open>A reload that is queued behind a failing one is lost. The file is saved with an error and read; while
  the copy is imported the corrected file is saved and its reload is queued; the import fails, and the
  store settles with the old configuration although the file has been right since before the failure.\<close>

theorem queued_reload_lost_on_failure:
  assumes "cd_imports d ''broken'' = Inl err" "cd_imports d ''fixed'' = Inr new" "cd_imports d ''old'' = Inr old" "old \<noteq> new"
    and "cg_watcher s" "\<not> cg_disposed s" "cg_current s = Some old" "settled s" "cg_nextTimer s = 0"
  shows "\<exists>s'. config_run d broken_then_fixed (s, ''old'') = (s', ''fixed'') \<and> settled s' \<and> get_config s' = Inr old
    \<and> cd_imports d ''fixed'' = Inr new \<and> old \<noteq> new"
  using assms
  by (simp add: config_run_def broken_then_fixed_def watch_event_def schedule_reload_def watch_timer_fires_def reload_def settled_def
      reload_read_def reload_imported_def reload_failed_def remove_copy_def get_config_def)

section \<open>An example\<close>

definition example_pipeline :: "string \<Rightarrow> string \<Rightarrow> pipeline_config" where
  "example_pipeline i path = \<lparr>pc_id = i, pc_matchPrefix = path, pc_groupId = None, pc_authRequired = Some True,
     pc_downstream = \<lparr>dn_origin = ''http://up'', dn_connectTimeoutMs = 1000, dn_responseTimeoutMs = 5000, dn_websocket = None,
       dn_forwardAuthContext = None, dn_injectedHeaders = None\<rparr>, pc_worker = None\<rparr>"

text \<open>A file's text names the path of its only pipeline.\<close>

definition example_deps :: config_deps where
  "example_deps = \<lparr>cd_imports = \<lambda>src. if src = ''broken'' then Inl ''syntax error'' else Inr [example_pipeline ''p'' src],
     cd_parses = Inr, cd_listener_error = \<lambda>_ _. None\<rparr>"

definition example_config_store :: config_store where
  "example_config_store = new_config_store\<lparr>cg_current := Some [example_pipeline ''p'' ''old''], cg_watching := True, cg_watcher := True\<rparr>"

theorem watched_file_is_followed_witness:
  "\<exists>s. config_run example_deps [FileEdited ''a'', WatchTimerFires 0, FileRead True, FileEdited ''b'', WatchTimerFires 1,
       CopyImported, FileRead True, CopyImported] (example_config_store, ''old'') = (s, ''b'')
     \<and> settled s \<and> get_config s = Inr [example_pipeline ''p'' ''b'']"
proof -
  let ?es = "[FileEdited ''a'', WatchTimerFires 0, FileRead True, FileEdited ''b'', WatchTimerFires 1,
       CopyImported, FileRead True, CopyImported]"
  let ?w = "(example_config_store, ''old'')"
  obtain s where run: "config_run example_deps ?es ?w = (s, ''b'')"
  proof -
    have "snd (config_run example_deps ?es ?w) = ''b''" by code_simp
    then show ?thesis by (intro that[of "fst (config_run example_deps ?es ?w)"]) (simp add: prod_eq_iff)
  qed
  have "cg_timer (fst (config_run example_deps ?es ?w)) = None" "cg_reload (fst (config_run example_deps ?es ?w)) = NoReload"
    by code_simp+
  then have settled: "settled s" unfolding run fst_conv settled_def by blast
  have accept: "\<And>l c. cd_listener_error example_deps l c = None" by (simp add: example_deps_def)
  have healthy: "\<And>e. e \<in> set ?es \<Longrightarrow> healthy_event example_deps e" by (auto simp: example_deps_def)
  have start: "watched_store example_deps ?w" "current_text example_deps ?w \<or> underway ?w"
    by (simp_all add: watched_store_def current_text_def example_config_store_def new_config_store_def example_deps_def)
  have "\<exists>c. cd_imports example_deps ''b'' = Inr c \<and> get_config s = Inr c"
    using watched_file_is_followed[OF accept healthy start run settled] .
  then have "get_config s = Inr [example_pipeline ''p'' ''b'']" by (simp add: example_deps_def)
  with run settled show ?thesis by blast
qed

theorem queued_reload_lost_on_failure_witness:
  "\<exists>s'. config_run example_deps broken_then_fixed (example_config_store, ''old'') = (s', ''fixed'') \<and> settled s'
    \<and> get_config s' = Inr [example_pipeline ''p'' ''old''] \<and> cd_imports example_deps ''fixed'' = Inr [example_pipeline ''p'' ''fixed'']"
proof -
  have "[example_pipeline ''p'' ''old''] \<noteq> [example_pipeline ''p'' ''fixed'']" by code_simp
  then show ?thesis
    using queued_reload_lost_on_failure[of example_deps "''syntax error''" "[example_pipeline ''p'' ''fixed'']"
        "[example_pipeline ''p'' ''old'']" example_config_store]
    by (auto simp: example_deps_def example_config_store_def new_config_store_def settled_def)
qed

end
