(* ===== verification/Service_Modules.thy ===== *)
theory Service_Modules
  imports Admin_Types Protocol_Registry
begin

text \<open>The service modules of a host (src/src/runtime/control/service-module-manager.ts, and the package
  check of src/src/shared/service-module-protocol-package.ts): modules are prepared, the ones no
  longer assigned drain for a while, and the registry of the gateway is changed to the new set.

  Staging an artifact, importing its module and hashing are fields of \<open>module_deps\<close>; staging and
  importing fail with a message. Preparation awaits but does not touch the manager; what follows it
  runs without interruption. Timers are numbers; \<open>mm_timers\<close> lists the armed ones with the assignment
  they are for.\<close>

section \<open>Data\<close>

record state_recorder =
  rc_deploymentId :: string
  rc_declaredVersion :: string
  rc_state :: assignment_state
  rc_generationId :: "string option"
  rc_preparedAt :: "int option"
  rc_activatedAt :: "int option"
  rc_failedAt :: "int option"
  rc_lastError :: "status_error option"

type_synonym assignment_states = "(string, state_recorder) js_map"

record active_module =
  ac_assignmentId :: string
  ac_deploymentId :: string
  ac_declaredVersion :: string
  ac_packageId :: string
  ac_digest :: string
  ac_protocol :: string
  ac_version :: string
  ac_localEntry :: string
  ac_generationId :: "string option"
  ac_preparedAt :: "int option"
  ac_activatedAt :: "int option"

record draining_module =
  dr_module :: active_module
  dr_timer :: nat

record 'h next_module =
  nx_assignmentId :: string
  nx_packageId :: string
  nx_digest :: string
  nx_protocol :: string
  nx_version :: string
  nx_localEntry :: string
  nx_module :: "'h server_module"
  nx_assignment :: assignment

record 'h module_manager =
  mm_registry :: "(string, 'h) js_map"
  mm_active :: "(string, active_module) js_map"
  mm_draining :: "(string, draining_module) js_map"
  mm_timers :: "(nat, string) js_map"
  mm_next :: nat

record 'h module_deps =
  md_stage :: "assignment \<Rightarrow> artifact_manifest option \<Rightarrow> string + string"
  md_load :: "string \<Rightarrow> string + 'h server_module"
  md_digest :: "string \<Rightarrow> string \<Rightarrow> string \<Rightarrow> string list \<Rightarrow> string"

definition new_manager :: "(string, 'h) js_map \<Rightarrow> 'h module_manager" where
  "new_manager registry = \<lparr>mm_registry = registry, mm_active = [], mm_draining = [], mm_timers = [], mm_next = 0\<rparr>"

section \<open>Protocol packages\<close>

definition sort_strings :: "string list \<Rightarrow> string list" where
  "sort_strings xs = js_sort code_unit_compare xs"

definition build_package_id :: "string \<Rightarrow> string \<Rightarrow> string" where
  "build_package_id protocol version = protocol @ ''@'' @ version"

definition verify_package_digest :: "'h module_deps \<Rightarrow> protocol_package \<Rightarrow> string + unit" where
  "verify_package_digest d p =
    (let expectedPackageId = build_package_id (pk_protocol p) (pk_version p) in
     if pk_packageId p \<noteq> expectedPackageId
     then Inl (''Service module protocol package id mismatch: expected '' @ expectedPackageId @ '', got '' @ pk_packageId p)
     else (let expected = md_digest d (pk_packageId p) (pk_protocol p) (pk_version p) (sort_strings (pk_actions p)) in
       if pk_digest p \<noteq> expected
       then Inl (''Service module protocol package digest mismatch: expected '' @ expected @ '', got '' @ pk_digest p)
       else Inr ()))"

fun join_with :: "string \<Rightarrow> string list \<Rightarrow> string" where
  "join_with sep [] = []"
| "join_with sep [x] = x"
| "join_with sep (x # xs) = x @ sep @ join_with sep xs"

definition validate_bound_package :: "'h module_deps \<Rightarrow> assignment \<Rightarrow> 'h server_module \<Rightarrow> string + protocol_package" where
  "validate_bound_package d a md = (case as_serviceModule a of
     None \<Rightarrow> Inl (''Missing serviceModule.protocolPackage for assignment '' @ as_assignmentId a)
   | Some s \<Rightarrow> (let p = sm_protocolPackage s in case verify_package_digest d p of
       Inl e \<Rightarrow> Inl e
     | Inr () \<Rightarrow>
        if sv_protocol md \<noteq> pk_protocol p \<or> sv_version md \<noteq> pk_version p
        then Inl (''Service module protocol package mismatch for assignment '' @ as_assignmentId a @ '': expected ''
               @ pk_protocol p @ ''@'' @ pk_version p @ '', got '' @ sv_protocol md @ ''@'' @ sv_version md)
        else (let declaredActions = sort_strings (pk_actions p); implementedActions = sort_strings (map fst (sv_actions md)) in
          if declaredActions \<noteq> implementedActions
          then Inl (''Service module action set mismatch for assignment '' @ as_assignmentId a @ '': expected [''
                 @ join_with '', '' declaredActions @ ''], got ['' @ join_with '', '' implementedActions @ '']'')
          else Inr p)))"

section \<open>Preparation\<close>

definition mark_failed :: "int \<Rightarrow> string \<Rightarrow> status_error \<Rightarrow> assignment_states \<Rightarrow> assignment_states" where
  "mark_failed now assignmentId err sts = (case map_of sts assignmentId of
     None \<Rightarrow> sts
   | Some r \<Rightarrow> map_set assignmentId (r\<lparr>rc_state := StFailed, rc_failedAt := Some now, rc_lastError := Some err\<rparr>) sts)"

definition module_error :: "string \<Rightarrow> string \<Rightarrow> bool \<Rightarrow> status_error" where
  "module_error code message retryable = \<lparr>er_code = code, er_message = message, er_retryable = Some retryable\<rparr>"

text \<open>The body of the \<open>try\<close>: stage, import, check, and claim the package.\<close>

definition prepare_one ::
  "'h module_deps \<Rightarrow> int \<Rightarrow> (string, artifact_manifest) js_map \<Rightarrow> assignment \<Rightarrow> (string, string) js_map \<Rightarrow> assignment_states \<Rightarrow>
   (string + 'h next_module) \<times> assignment_states" where
  "prepare_one d now artifacts a owners sts =
    (case md_stage d a (map_of artifacts (af_manifestId (as_artifact a))) of
       Inl e \<Rightarrow> (Inl e, sts)
     | Inr localEntry \<Rightarrow> (case md_load d localEntry of
         Inl e \<Rightarrow> (Inl e, sts)
       | Inr md \<Rightarrow> (case validate_bound_package d a md of
           Inl e \<Rightarrow> (Inl e, sts)
         | Inr p \<Rightarrow>
            if truthy (map_of owners (pk_packageId p)) \<and> map_of owners (pk_packageId p) \<noteq> Some (as_assignmentId a)
            then (Inl (''Duplicate service module protocol package '' @ pk_packageId p @ '' for assignments ''
                    @ the (map_of owners (pk_packageId p)) @ '' and '' @ as_assignmentId a),
                  mark_failed now (as_assignmentId a) (module_error ''SERVICE_MODULE_CONFLICT''
                    (''Duplicate service module protocol package '' @ pk_packageId p @ '' on one host'') False) sts)
            else (Inr \<lparr>nx_assignmentId = as_assignmentId a, nx_packageId = pk_packageId p, nx_digest = pk_digest p,
                    nx_protocol = pk_protocol p, nx_version = pk_version p, nx_localEntry = localEntry, nx_module = md,
                    nx_assignment = a\<rparr>, sts))))"

fun prepare_assignments ::
  "'h module_deps \<Rightarrow> int \<Rightarrow> (string, artifact_manifest) js_map \<Rightarrow> assignment list \<Rightarrow> (string, string) js_map \<Rightarrow> assignment_states \<Rightarrow>
   (string + 'h next_module list) \<times> assignment_states" where
  "prepare_assignments d now artifacts [] owners sts = (Inr [], sts)"
| "prepare_assignments d now artifacts (a # as) owners sts =
    (if as_deploymentKind a \<noteq> ServiceModuleKind then prepare_assignments d now artifacts as owners sts
     else if as_serviceModule a = None
     then (Inl (''Missing serviceModule payload for assignment '' @ as_assignmentId a),
           mark_failed now (as_assignmentId a) (module_error ''SERVICE_MODULE_PAYLOAD_MISSING''
             ''Assignment is missing serviceModule payload'' False) sts)
     else (case prepare_one d now artifacts a owners sts of
         (Inl e, sts1) \<Rightarrow> (Inl e, mark_failed now (as_assignmentId a) (module_error ''SERVICE_MODULE_PREPARE_FAILED'' e True) sts1)
       | (Inr nm, sts1) \<Rightarrow>
          (case prepare_assignments d now artifacts as (map_set (nx_packageId nm) (as_assignmentId a) owners) sts1 of
             (Inl e, sts2) \<Rightarrow> (Inl e, sts2)
           | (Inr nms, sts2) \<Rightarrow> (Inr (nm # nms), sts2))))"

section \<open>Draining\<close>

definition unregister_pv :: "string \<Rightarrow> string \<Rightarrow> 'h module_manager \<Rightarrow> 'h module_manager" where
  "unregister_pv protocol version m = m\<lparr>mm_registry := server_unregister protocol version (mm_registry m)\<rparr>"

definition begin_draining :: "int \<Rightarrow> active_module \<Rightarrow> state_recorder option \<Rightarrow> 'h module_manager \<Rightarrow> 'h module_manager" where
  "begin_draining drainGraceMs active previousState m =
    (let m1 = m\<lparr>mm_active := map_del (ac_assignmentId active) (mm_active m)\<rparr>;
         or_previous = (\<lambda>f own. case Option.bind previousState f of Some v \<Rightarrow> Some v | None \<Rightarrow> own) in
     if drainGraceMs \<le> 0 then unregister_pv (ac_protocol active) (ac_version active) m1
     else m1\<lparr>mm_timers := map_set (mm_next m1) (ac_assignmentId active) (mm_timers m1), mm_next := Suc (mm_next m1),
             mm_draining := map_set (ac_assignmentId active) \<lparr>dr_module = active\<lparr>
                 ac_generationId := (case Option.bind previousState rc_generationId of Some v \<Rightarrow> Some v | None \<Rightarrow> ac_generationId active),
                 ac_preparedAt := or_previous rc_preparedAt (ac_preparedAt active),
                 ac_activatedAt := or_previous rc_activatedAt (ac_activatedAt active)\<rparr>, dr_timer = mm_next m1\<rparr> (mm_draining m1)\<rparr>)"

definition drain_timer_fires :: "nat \<Rightarrow> 'h module_manager \<Rightarrow> 'h module_manager" where
  "drain_timer_fires t m = (case map_of (mm_timers m) t of
     None \<Rightarrow> m
   | Some assignmentId \<Rightarrow>
      (let m1 = m\<lparr>mm_timers := map_del t (mm_timers m)\<rparr> in case map_of (mm_draining m1) assignmentId of
         None \<Rightarrow> m1
       | Some dr \<Rightarrow> if dr_timer dr \<noteq> t then m1
           else (unregister_pv (ac_protocol (dr_module dr)) (ac_version (dr_module dr)) m1)\<lparr>
             mm_draining := map_del assignmentId (mm_draining m1)\<rparr>))"

definition cancel_draining :: "string \<Rightarrow> 'h module_manager \<Rightarrow> draining_module option \<times> 'h module_manager" where
  "cancel_draining assignmentId m = (case map_of (mm_draining m) assignmentId of
     None \<Rightarrow> (None, m)
   | Some dr \<Rightarrow> (Some dr, m\<lparr>mm_timers := map_del (dr_timer dr) (mm_timers m), mm_draining := map_del assignmentId (mm_draining m)\<rparr>))"

definition force_unregister_draining :: "string \<Rightarrow> 'h module_manager \<Rightarrow> 'h module_manager" where
  "force_unregister_draining assignmentId m = (case cancel_draining assignmentId m of
     (None, m1) \<Rightarrow> m1
   | (Some dr, m1) \<Rightarrow> unregister_pv (ac_protocol (dr_module dr)) (ac_version (dr_module dr)) m1)"

definition same_pv :: "string \<Rightarrow> string \<Rightarrow> active_module \<Rightarrow> bool" where
  "same_pv protocol version a \<longleftrightarrow> ac_protocol a = protocol \<and> ac_version a = version"

definition find_draining :: "string \<Rightarrow> string \<Rightarrow> 'h module_manager \<Rightarrow> draining_module option" where
  "find_draining protocol version m = find (\<lambda>dr. same_pv protocol version (dr_module dr)) (map snd (mm_draining m))"

section \<open>Applying assignments\<close>

definition drain_unassigned :: "int \<Rightarrow> string list \<Rightarrow> assignment_states \<Rightarrow> 'h module_manager \<Rightarrow> 'h module_manager" where
  "drain_unassigned drainGraceMs nextIds previous m =
     foldl (\<lambda>m (assignmentId, active). if assignmentId \<in> set nextIds then m
        else begin_draining drainGraceMs active (map_of previous assignmentId) m) m (mm_active m)"

definition drop_conflict :: "'h next_module \<Rightarrow> 'h module_manager \<Rightarrow> 'h module_manager" where
  "drop_conflict nx m = (case find_draining (nx_protocol nx) (nx_version nx) m of
     None \<Rightarrow> m
   | Some dr \<Rightarrow> if ac_assignmentId (dr_module dr) \<noteq> nx_assignmentId nx
       then force_unregister_draining (ac_assignmentId (dr_module dr)) m else m)"

text \<open>The registry step for one module: replace in place, or unregister what the assignment had and register.\<close>

definition bind_module ::
  "'h next_module \<Rightarrow> active_module option \<Rightarrow> draining_module option \<Rightarrow> 'h module_manager \<Rightarrow> (hardess_error + unit) \<times> 'h module_manager" where
  "bind_module nx current draining m =
    (let same = (\<lambda>a. same_pv (nx_protocol nx) (nx_version nx) a) in
     if (case current of None \<Rightarrow> False | Some a \<Rightarrow> same a) \<or> (case draining of None \<Rightarrow> False | Some dr \<Rightarrow> same (dr_module dr))
     then (Inr (), m\<lparr>mm_registry := server_replace (nx_module nx) (mm_registry m)\<rparr>)
     else (let m1 = (case current of None \<Rightarrow> m | Some a \<Rightarrow> unregister_pv (ac_protocol a) (ac_version a) m);
               m2 = (case draining of None \<Rightarrow> m1
                     | Some dr \<Rightarrow> unregister_pv (ac_protocol (dr_module dr)) (ac_version (dr_module dr)) m1);
               (r, registry) = server_register (nx_module nx) (mm_registry m2)
       in (r, m2\<lparr>mm_registry := registry\<rparr>)))"

definition activate_one ::
  "int \<Rightarrow> string \<Rightarrow> assignment_states \<Rightarrow> 'h next_module \<Rightarrow> 'h module_manager \<times> assignment_states \<Rightarrow>
   (hardess_error + unit) \<times> 'h module_manager \<times> assignment_states" where
  "activate_one now generationId previous nx = (\<lambda>(m, sts).
    (let current = map_of (mm_active m) (nx_assignmentId nx);
         (draining, m1) = cancel_draining (nx_assignmentId nx) m;
         (r, m2) = bind_module nx current draining m1
     in case r of Inl e \<Rightarrow> (Inl e, m2, sts)
      | Inr () \<Rightarrow>
         (let active = \<lparr>ac_assignmentId = nx_assignmentId nx, ac_deploymentId = as_deploymentId (nx_assignment nx),
                ac_declaredVersion = as_declaredVersion (nx_assignment nx), ac_packageId = nx_packageId nx, ac_digest = nx_digest nx,
                ac_protocol = nx_protocol nx, ac_version = nx_version nx, ac_localEntry = nx_localEntry nx,
                ac_generationId = Some generationId, ac_preparedAt = Some now,
                ac_activatedAt = Option.bind (map_of previous (nx_assignmentId nx)) rc_activatedAt\<rparr>;
              sts1 = (case map_of sts (nx_assignmentId nx) of None \<Rightarrow> sts
                | Some st \<Rightarrow> map_set (nx_assignmentId nx) (st\<lparr>rc_state := StReady, rc_generationId := Some generationId,
                    rc_preparedAt := Some now\<rparr>) sts)
          in (Inr (), m2\<lparr>mm_active := map_set (nx_assignmentId nx) active (mm_active m2)\<rparr>, sts1))))"

fun activate_all ::
  "int \<Rightarrow> string \<Rightarrow> assignment_states \<Rightarrow> 'h next_module list \<Rightarrow> 'h module_manager \<times> assignment_states \<Rightarrow>
   (hardess_error + unit) \<times> 'h module_manager \<times> assignment_states" where
  "activate_all now generationId previous [] ms = (Inr (), ms)"
| "activate_all now generationId previous (nx # nxs) ms = (case activate_one now generationId previous nx ms of
     (Inl e, ms1) \<Rightarrow> (Inl e, ms1)
   | (Inr (), ms1) \<Rightarrow> activate_all now generationId previous nxs ms1)"

definition commit_modules ::
  "int \<Rightarrow> int \<Rightarrow> string \<Rightarrow> assignment_states \<Rightarrow> 'h next_module list \<Rightarrow> 'h module_manager \<times> assignment_states \<Rightarrow>
   (hardess_error + unit) \<times> 'h module_manager \<times> assignment_states" where
  "commit_modules now drainGraceMs generationId previous nxs = (\<lambda>(m, sts).
    (let m1 = drain_unassigned drainGraceMs (map nx_assignmentId nxs) previous m;
         m2 = foldl (\<lambda>m nx. drop_conflict nx m) m1 nxs
     in activate_all now generationId previous nxs (m2, sts)))"

datatype apply_error = PrepareFailed string | RegisterFailed hardess_error

definition apply_assignments ::
  "'h module_deps \<Rightarrow> int \<Rightarrow> int \<Rightarrow> string \<Rightarrow> assignment_states \<Rightarrow> (string, artifact_manifest) js_map \<Rightarrow> assignment list \<Rightarrow>
   'h module_manager \<times> assignment_states \<Rightarrow> (apply_error + unit) \<times> 'h module_manager \<times> assignment_states" where
  "apply_assignments d now drainGraceMs generationId previous artifacts assignments = (\<lambda>(m, sts).
    (case prepare_assignments d now artifacts assignments [] sts of
       (Inl e, sts1) \<Rightarrow> (Inl (PrepareFailed e), m, sts1)
     | (Inr nxs, sts1) \<Rightarrow> (case commit_modules now drainGraceMs generationId previous nxs (m, sts1) of
         (Inl e, ms) \<Rightarrow> (Inl (RegisterFailed e), ms)
       | (Inr (), ms) \<Rightarrow> (Inr (), ms))))"

section \<open>What it reports\<close>

definition list_draining_assignments :: "(string \<Rightarrow> string \<Rightarrow> int) \<Rightarrow> 'h module_manager \<Rightarrow> assignment_status list" where
  "list_draining_assignments lc m =
     map (\<lambda>a. \<lparr>at_assignmentId = ac_assignmentId a, at_deploymentId = ac_deploymentId a, at_declaredVersion = ac_declaredVersion a,
        at_generationId = ac_generationId a, at_state = StDraining, at_preparedAt = ac_preparedAt a, at_activatedAt = ac_activatedAt a,
        at_failedAt = None, at_lastError = None\<rparr>)
       (js_sort (\<lambda>a b. lc (ac_assignmentId a) (ac_assignmentId b)) (map (\<lambda>(_, dr). dr_module dr) (mm_draining m)))"

definition list_active_packages :: "(string \<Rightarrow> string \<Rightarrow> int) \<Rightarrow> 'h module_manager \<Rightarrow> protocol_package_ref list" where
  "list_active_packages lc m =
     js_sort (\<lambda>a b. if lc (pp_packageId a) (pp_packageId b) \<noteq> 0 then lc (pp_packageId a) (pp_packageId b)
         else lc (the (pp_assignmentId a)) (the (pp_assignmentId b)))
       (map (\<lambda>(_, a). \<lparr>pp_packageId = ac_packageId a, pp_digest = ac_digest a, pp_assignmentId = Some (ac_assignmentId a),
          pp_deploymentId = Some (ac_deploymentId a), pp_declaredVersion = Some (ac_declaredVersion a)\<rparr>) (mm_active m))"

end
