(* ===== verification/Host_Runtime.thy ===== *)
theory Host_Runtime
  imports Config_Store Service_Modules Topology
begin

text \<open>The adapter between the control plane and a running gateway
  (src/src/runtime/control/runtime-host-adapter.ts, src/src/runtime/runtime-summary.ts): how the host
  registers, how a desired host state becomes the configuration, the service modules, the trusted
  issuers and the topology of the gateway, and what the host reports back.

  Staging an artifact is a field of \<open>host_deps\<close>; the configuration store, the service modules and the
  topology store are those of their own theories. The adapter is called once at a time; \<open>now\<close> is
  the clock during the call. Log calls are left out.\<close>

section \<open>State\<close>

record host_options =
  ho_hostId :: string
  ho_groupId :: "string option"
  ho_nodeId :: "string option"
  ho_runtimeVersion :: string
  ho_publicBaseUrl :: "string option"
  ho_internalBaseUrl :: "string option"
  ho_publicListenerEnabled :: "bool option"
  ho_internalListenerEnabled :: "bool option"
  ho_staticLabels :: "(string, string) js_map option"
  ho_staticCapabilities :: "string list option"
  ho_staticCapacity :: "host_capacity option"
  ho_defaultConnectTimeoutMs :: "int option"
  ho_defaultResponseTimeoutMs :: "int option"
  ho_defaultWorkerTimeoutMs :: "int option"
  ho_registrationDynamicFields :: "(string, json) js_map option"
  ho_observedDynamicFields :: "(string, json) js_map option"

record runtime_state =
  ru_startedAt :: int
  ru_uptimeMs :: int
  ru_shuttingDown :: bool
  ru_disposed :: bool
  ru_ready :: bool
  ru_inFlightHttpRequests :: int

record metrics_summary =
  mt_counters :: "(string, int) js_map"
  mt_timingCounts :: "(string, int) js_map"

record 'h host_deps =
  hd_stage :: "assignment \<Rightarrow> artifact_manifest option \<Rightarrow> string + string"
  hd_modules :: "'h module_deps"
  hd_drainGraceMs :: int
  hd_config :: config_deps

text \<open>\<open>ha_trust\<close> is what the trust applier, if there is one, was given last.\<close>

record 'h host_adapter =
  ha_lastDesired :: "desired_host_state option"
  ha_warned :: bool
  ha_states :: assignment_states
  ha_manager :: "'h module_manager option"
  ha_config :: config_store
  ha_topology :: "topology_store option"
  ha_trust :: "issuer_trust list option option"

section \<open>Registration\<close>

definition no_capacity :: host_capacity where
  "no_capacity = \<lparr>hc_maxHttpWorkerAssignments = None, hc_maxServiceModuleAssignments = None, hc_maxConnections = None,
     hc_maxInflightRequests = None\<rparr>"

definition value_else :: "'a option \<Rightarrow> 'a \<Rightarrow> 'a" where
  "value_else v d = (case v of Some x \<Rightarrow> x | None \<Rightarrow> d)"

lemma value_else_simps [simp]: "value_else (Some x) d = x" "value_else None d = d"
  by (simp_all add: value_else_def)

definition get_host_registration :: "host_options \<Rightarrow> runtime_state \<Rightarrow> host_registration" where
  "get_host_registration opts state =
    \<lparr>hr_hostId = ho_hostId opts, hr_groupId = ho_groupId opts, hr_nodeId = ho_nodeId opts, hr_startedAt = ru_startedAt state,
     hr_runtimeVersion = ho_runtimeVersion opts, hr_runtimePid = None,
     hr_network = \<lparr>hn_publicBaseUrl = ho_publicBaseUrl opts, hn_internalBaseUrl = ho_internalBaseUrl opts,
       hn_publicListenerEnabled = value_else (ho_publicListenerEnabled opts) (truthy (ho_publicBaseUrl opts)),
       hn_internalListenerEnabled = value_else (ho_internalListenerEnabled opts) (truthy (ho_internalBaseUrl opts))\<rparr>,
     hr_staticLabels = value_else (ho_staticLabels opts) [], hr_staticCapabilities = value_else (ho_staticCapabilities opts) [],
     hr_staticCapacity = value_else (ho_staticCapacity opts) no_capacity,
     hr_dynamicFields = ho_registrationDynamicFields opts\<rparr>"

section \<open>From assignments to pipelines\<close>

text \<open>A staging error does not replace an error that is already recorded.\<close>

definition mark_unless_failed :: "int \<Rightarrow> string \<Rightarrow> status_error \<Rightarrow> assignment_states \<Rightarrow> assignment_states" where
  "mark_unless_failed now i err sts = (case map_of sts i of
     None \<Rightarrow> sts
   | Some st \<Rightarrow> if rc_state st \<noteq> StFailed then mark_failed now i err sts else sts)"

definition ready_state :: "int \<Rightarrow> string \<Rightarrow> string \<Rightarrow> assignment_states \<Rightarrow> assignment_states" where
  "ready_state now gen i sts = (case map_of sts i of None \<Rightarrow> sts
     | Some st \<Rightarrow> map_set i (st\<lparr>rc_state := StReady, rc_generationId := Some gen, rc_preparedAt := Some now\<rparr>) sts)"

definition deployment_values :: "string option \<Rightarrow> instance_values option \<Rightarrow> worker_deployment" where
  "deployment_values instanceKey v = \<lparr>wp_instanceKey = instanceKey, wp_config = Option.bind v iv_config,
     wp_bindings = Option.bind v iv_bindings, wp_secrets = Option.bind v iv_secrets\<rparr>"

definition deployment_config :: "assignment \<Rightarrow> executable \<Rightarrow> worker_deployment option" where
  "deployment_config a ex = (if as_deploymentKind a = ServeKind
     then Some (deployment_values (Some (as_assignmentId a)) (ex_deployment ex))
     else map_option (\<lambda>v. deployment_values None (Some v)) (ex_deployment ex))"

definition is_external_serve :: "assignment \<Rightarrow> worker_deployment option \<Rightarrow> bool" where
  "is_external_serve a cfg \<longleftrightarrow> as_deploymentKind a = ServeKind
     \<and> (case Option.bind (Option.bind cfg wp_config) (\<lambda>c. map_of c ''curator'') of
          None \<Rightarrow> False
        | Some curator \<Rightarrow> js_prop curator ''externalServe'' = Some (JBool True))"

definition pipeline_for :: "host_options \<Rightarrow> assignment \<Rightarrow> string option \<Rightarrow> worker_deployment option \<Rightarrow> forward_route \<Rightarrow> pipeline_config" where
  "pipeline_for opts a localEntry cfg route =
    \<lparr>pc_id = as_assignmentId a @ '':'' @ fr_routeId route, pc_matchPrefix = fr_pathPrefix route, pc_groupId = as_groupId a,
     pc_authRequired = Some True,
     pc_downstream = \<lparr>dn_origin = fr_baseUrl route, dn_connectTimeoutMs = value_else (ho_defaultConnectTimeoutMs opts) 1000,
       dn_responseTimeoutMs = value_else (ho_defaultResponseTimeoutMs opts) 5000, dn_websocket = fr_websocketEnabled route,
       dn_forwardAuthContext = None, dn_injectedHeaders = None\<rparr>,
     pc_worker = map_option (\<lambda>entry. \<lparr>wk_entry = entry, wk_timeoutMs = value_else (ho_defaultWorkerTimeoutMs opts) 1000,
       wk_deployment = cfg\<rparr>) localEntry\<rparr>"

definition routes_by_id :: "desired_host_state \<Rightarrow> (string, forward_route) js_map" where
  "routes_by_id desired = map_from (map (\<lambda>r. (fr_routeId r, r)) (value_else (dh_routes desired) []))"

text \<open>The routes an executable refers to, or the first reference that is missing.\<close>

fun resolve_routes :: "(string, forward_route) js_map \<Rightarrow> string list \<Rightarrow> string + forward_route list" where
  "resolve_routes routes [] = Inr []"
| "resolve_routes routes (ref # refs) = (case map_of routes ref of
     None \<Rightarrow> Inl ref
   | Some r \<Rightarrow> (case resolve_routes routes refs of Inl e \<Rightarrow> Inl e | Inr rs \<Rightarrow> Inr (r # rs)))"

text \<open>One assignment with an HTTP executable: the body of the \<open>try\<close> and its handler.\<close>

definition build_http ::
  "'h host_deps \<Rightarrow> host_options \<Rightarrow> int \<Rightarrow> string \<Rightarrow> (string, artifact_manifest) js_map \<Rightarrow> (string, forward_route) js_map \<Rightarrow>
   assignment \<Rightarrow> executable \<Rightarrow> assignment_states \<Rightarrow> (string + pipeline_config list) \<times> assignment_states" where
  "build_http d opts now gen artifacts routes a ex sts =
    (let cfg = deployment_config a ex;
         i = as_assignmentId a;
         prepared = (if is_external_serve a cfg then Inr None
           else map_sum id Some (hd_stage d a (map_of artifacts (af_manifestId (as_artifact a)))))
     in case prepared of
          Inl e \<Rightarrow> (Inl e, mark_unless_failed now i (module_error ''ARTIFACT_PREPARE_FAILED'' e True) sts)
        | Inr localEntry \<Rightarrow> (case resolve_routes routes (value_else (ex_routeRefs ex) []) of
            Inl ref \<Rightarrow> (Inl (''Missing route ref '' @ ref @ '' for assignment '' @ i),
                        mark_failed now i (module_error ''ROUTE_REF_MISSING'' (''Missing route ref '' @ ref) False) sts)
          | Inr rs \<Rightarrow> (Inr (map (pipeline_for opts a localEntry cfg) rs), ready_state now gen i sts)))"

fun build_config ::
  "'h host_deps \<Rightarrow> host_options \<Rightarrow> bool \<Rightarrow> int \<Rightarrow> string \<Rightarrow> (string, artifact_manifest) js_map \<Rightarrow> (string, forward_route) js_map \<Rightarrow>
   assignment list \<Rightarrow> assignment_states \<Rightarrow> (string + hardess_config) \<times> assignment_states" where
  "build_config d opts hasManager now gen artifacts routes [] sts = (Inr [], sts)"
| "build_config d opts hasManager now gen artifacts routes (a # as) sts =
    (if as_deploymentKind a = ServiceModuleKind then
       build_config d opts hasManager now gen artifacts routes as
         (if hasManager then sts else mark_failed now (as_assignmentId a) (module_error ''SERVICE_MODULE_NOT_SUPPORTED''
            ''Current runtime does not yet apply service_module assignments'' False) sts)
     else (case or_else (as_httpWorker a) (as_serveApp a) of
         None \<Rightarrow> build_config d opts hasManager now gen artifacts routes as
           (mark_failed now (as_assignmentId a) (module_error ''HTTP_EXECUTABLE_PAYLOAD_MISSING''
              ''Assignment is missing httpWorker or serveApp payload'' False) sts)
       | Some ex \<Rightarrow> (case build_http d opts now gen artifacts routes a ex sts of
           (Inl e, sts1) \<Rightarrow> (Inl e, sts1)
         | (Inr ps, sts1) \<Rightarrow> (case build_config d opts hasManager now gen artifacts routes as sts1 of
             (Inl e, sts2) \<Rightarrow> (Inl e, sts2)
           | (Inr rest, sts2) \<Rightarrow> (Inr (ps @ rest), sts2)))))"

section \<open>Applying a desired state\<close>

datatype host_failure = BuildFailed string | ModulesFailed apply_error | ConfigFailed string

definition initial_record :: "string \<Rightarrow> assignment \<Rightarrow> state_recorder" where
  "initial_record gen a = \<lparr>rc_deploymentId = as_deploymentId a, rc_declaredVersion = as_declaredVersion a, rc_state = StPreparing,
     rc_generationId = Some gen, rc_preparedAt = None, rc_activatedAt = None, rc_failedAt = None, rc_lastError = None\<rparr>"

definition initial_states :: "string \<Rightarrow> assignment list \<Rightarrow> assignment_states" where
  "initial_states gen as = map_from (map (\<lambda>a. (as_assignmentId a, initial_record gen a)) as)"

definition activate_ready :: "int \<Rightarrow> assignment_states \<Rightarrow> assignment_states" where
  "activate_ready now sts = map (\<lambda>(i, st). (i, if rc_state st = StReady
     then st\<lparr>rc_state := StActive, rc_activatedAt := Some now\<rparr> else st)) sts"

definition apply_modules ::
  "'h host_deps \<Rightarrow> int \<Rightarrow> string \<Rightarrow> (string, artifact_manifest) js_map \<Rightarrow> assignment list \<Rightarrow> 'h host_adapter \<Rightarrow> assignment_states \<Rightarrow>
   (apply_error + unit) \<times> 'h module_manager option \<times> assignment_states" where
  "apply_modules d now gen artifacts as s sts = (case ha_manager s of
     None \<Rightarrow> (Inr (), None, sts)
   | Some m \<Rightarrow> (let (r, m1, sts1) = apply_assignments (hd_modules d) now (hd_drainGraceMs d) gen (ha_states s) artifacts as (m, sts)
       in (r, Some m1, sts1)))"

definition apply_desired ::
  "'h host_deps \<Rightarrow> host_options \<Rightarrow> int \<Rightarrow> desired_host_state \<Rightarrow> (string, artifact_manifest) js_map \<Rightarrow> 'h host_adapter \<Rightarrow>
   (host_failure + unit) \<times> 'h host_adapter" where
  "apply_desired d opts now desired artifacts s =
    (let gen = ''admin:'' @ dh_revision desired;
         as = dh_assignments desired in
     case build_config d opts (ha_manager s \<noteq> None) now gen artifacts (routes_by_id desired) as (initial_states gen as) of
       (Inl e, _) \<Rightarrow> (Inl (BuildFailed e), s)
     | (Inr config, sts1) \<Rightarrow> (case apply_modules d now gen artifacts as s sts1 of
         (Inl e, m, _) \<Rightarrow> (Inl (ModulesFailed e), s\<lparr>ha_manager := m\<rparr>)
       | (Inr (), m, sts2) \<Rightarrow>
          (let s1 = s\<lparr>ha_manager := m, ha_trust := map_option (\<lambda>_. dh_runtimeAuthTrust desired) (ha_trust s)\<rparr>;
               (r, store) = apply_config (hd_config d) config (ha_config s1);
               s2 = s1\<lparr>ha_config := store\<rparr>
           in case r of
                Inl e \<Rightarrow> (Inl (ConfigFailed e), s2)
              | Inr _ \<Rightarrow> (Inr (), s2\<lparr>ha_topology := map_option (set_topology (dh_topology desired)) (ha_topology s2),
                  ha_lastDesired := Some desired, ha_states := activate_ready now sts2,
                  ha_warned := ha_warned s2 \<or> (list_ex (\<lambda>a. as_deploymentKind a = ServiceModuleKind) as \<and> ha_manager s2 = None)\<rparr>))))"

section \<open>The runtime summary\<close>

definition json_int :: "int \<Rightarrow> json" where
  "json_int n = JNum (Fin (of_int n))"

definition sorted_keys :: "(string \<Rightarrow> string \<Rightarrow> int) \<Rightarrow> (string, 'v) js_map option \<Rightarrow> string list option" where
  "sorted_keys lc m = (let keys = js_sort lc (map fst (value_else m [])) in if keys \<noteq> [] then Some keys else None)"

definition count_keys :: "(string, 'v) js_map option \<Rightarrow> nat" where
  "count_keys m = length (value_else m [])"

definition opt_field :: "string \<Rightarrow> json option \<Rightarrow> (string \<times> json) list" where
  "opt_field k v = (case v of None \<Rightarrow> [] | Some j \<Rightarrow> [(k, j)])"

definition json_strings :: "string list \<Rightarrow> json" where
  "json_strings xs = JArr (map JStr xs)"

definition worker_view :: "(string \<Rightarrow> string \<Rightarrow> int) \<Rightarrow> pipeline_worker \<Rightarrow> (string \<times> json) list" where
  "worker_view lc w =
    (let dep = wk_deployment w; secrets = count_keys (Option.bind dep wp_secrets) in
     [(''workerEntry'', JStr (wk_entry w)), (''workerTimeoutMs'', json_int (wk_timeoutMs w))]
     @ opt_field ''deploymentInstanceKey'' (map_option JStr (Option.bind dep wp_instanceKey))
     @ opt_field ''deploymentConfigKeys'' (map_option json_strings (sorted_keys lc (Option.bind dep wp_config)))
     @ opt_field ''deploymentBindingKeys'' (map_option json_strings (sorted_keys lc (Option.bind dep wp_bindings)))
     @ (if secrets > 0 then [(''deploymentSecretCount'', json_int (int secrets))] else []))"

definition build_pipeline_view :: "(string \<Rightarrow> string \<Rightarrow> int) \<Rightarrow> pipeline_config \<Rightarrow> json" where
  "build_pipeline_view lc p = JObj
    ([(''pipelineId'', JStr (pc_id p)), (''matchPrefix'', JStr (pc_matchPrefix p))]
     @ opt_field ''groupId'' (map_option JStr (pc_groupId p))
     @ [(''authRequired'', JBool (value_else (pc_authRequired p) False)),
        (''downstreamOrigin'', JStr (dn_origin (pc_downstream p))),
        (''downstreamConnectTimeoutMs'', json_int (dn_connectTimeoutMs (pc_downstream p))),
        (''downstreamResponseTimeoutMs'', json_int (dn_responseTimeoutMs (pc_downstream p))),
        (''websocketEnabled'', JBool (value_else (dn_websocket (pc_downstream p)) False)),
        (''workerConfigured'', JBool (pc_worker p \<noteq> None))]
     @ (case pc_worker p of None \<Rightarrow> [] | Some w \<Rightarrow> worker_view lc w))"

definition package_ref_view :: "protocol_package_ref \<Rightarrow> json" where
  "package_ref_view r = JObj ([(''packageId'', JStr (pp_packageId r)), (''digest'', JStr (pp_digest r))]
     @ opt_field ''assignmentId'' (map_option JStr (pp_assignmentId r))
     @ opt_field ''deploymentId'' (map_option JStr (pp_deploymentId r))
     @ opt_field ''declaredVersion'' (map_option JStr (pp_declaredVersion r)))"

definition compare_package_refs :: "(string \<Rightarrow> string \<Rightarrow> int) \<Rightarrow> protocol_package_ref \<Rightarrow> protocol_package_ref \<Rightarrow> int" where
  "compare_package_refs lc l r =
    (let c1 = lc (pp_packageId l) (pp_packageId r);
         c2 = lc (value_else (pp_deploymentId l) []) (value_else (pp_deploymentId r) []);
         c3 = lc (value_else (pp_assignmentId l) []) (value_else (pp_assignmentId r) [])
     in if c1 \<noteq> 0 then c1 else if c2 \<noteq> 0 then c2 else c3)"

definition build_runtime_summary_view ::
  "(string \<Rightarrow> string \<Rightarrow> int) \<Rightarrow> hardess_config \<Rightarrow> protocol_package_ref list \<Rightarrow> json" where
  "build_runtime_summary_view lc config packages = JObj
    [(''pipelineCount'', json_int (int (length config))),
     (''pipelines'', JArr (map (build_pipeline_view lc) (js_sort (\<lambda>l r. lc (pc_id l) (pc_id r)) config))),
     (''activeProtocolPackages'', JArr (map package_ref_view (js_sort (compare_package_refs lc) packages)))]"

section \<open>The observed state\<close>

definition assignment_status_of :: "assignment_states \<Rightarrow> assignment \<Rightarrow> assignment_status" where
  "assignment_status_of sts a = (let recorded = map_of sts (as_assignmentId a) in
     \<lparr>at_assignmentId = as_assignmentId a, at_deploymentId = as_deploymentId a, at_declaredVersion = as_declaredVersion a,
      at_generationId = Option.bind recorded rc_generationId,
      at_state = (case recorded of None \<Rightarrow> StPending | Some r \<Rightarrow> rc_state r),
      at_preparedAt = Option.bind recorded rc_preparedAt, at_activatedAt = Option.bind recorded rc_activatedAt,
      at_failedAt = Option.bind recorded rc_failedAt, at_lastError = Option.bind recorded rc_lastError\<rparr>)"

definition add_draining_status :: "assignment_status list \<Rightarrow> assignment_status \<Rightarrow> assignment_status list" where
  "add_draining_status sts dr = (if list_ex (\<lambda>st. at_assignmentId st = at_assignmentId dr) sts then sts else sts @ [dr])"

definition summarize_metrics :: "metrics_summary option \<Rightarrow> json option" where
  "summarize_metrics m = map_option (\<lambda>m. JObj
     [(''counters'', JObj (map (\<lambda>(k, v). (k, json_int v)) (mt_counters m))),
      (''timingCounts'', JObj (map (\<lambda>(k, v). (k, json_int v)) (mt_timingCounts m)))]) m"

definition report_statuses :: "(string \<Rightarrow> string \<Rightarrow> int) \<Rightarrow> 'h host_adapter \<Rightarrow> assignment_status list" where
  "report_statuses lc s =
    (let as = (case ha_lastDesired s of None \<Rightarrow> [] | Some desired \<Rightarrow> dh_assignments desired);
         draining = (case ha_manager s of None \<Rightarrow> [] | Some m \<Rightarrow> list_draining_assignments lc m)
     in foldl add_draining_status (map (assignment_status_of (ha_states s)) as) draining)"

definition collect_observed ::
  "(string \<Rightarrow> string \<Rightarrow> int) \<Rightarrow> host_options \<Rightarrow> runtime_state \<Rightarrow> metrics_summary option \<Rightarrow> int \<Rightarrow> 'h host_adapter \<Rightarrow>
   string + observed_host_state" where
  "collect_observed lc opts state metrics now s = (case get_config (ha_config s) of
     Inl e \<Rightarrow> Inl e
   | Inr config \<Rightarrow>
      (let summary = build_runtime_summary_view lc config (case ha_manager s of None \<Rightarrow> [] | Some m \<Rightarrow> list_active_packages lc m);
           statuses = report_statuses lc s;
           topology = Option.bind (ha_lastDesired s) dh_topology
       in Inr \<lparr>oh_hostId = ho_hostId opts, oh_observedAt = now, oh_ready = ru_ready state, oh_draining = ru_shuttingDown state,
           oh_staticLabels = value_else (ho_staticLabels opts) [], oh_staticCapabilities = value_else (ho_staticCapabilities opts) [],
           oh_staticCapacity = value_else (ho_staticCapacity opts) no_capacity,
           oh_dynamicState = \<lparr>ds_currentAssignmentCount = int (length statuses), ds_currentConnectionCount = None,
             ds_currentInflightRequests = Some (ru_inFlightHttpRequests state), ds_schedulable = Some (ru_ready state),
             ds_appliedTopology = Some (map_option (\<lambda>t. ms_revision (dt_membership t)) topology,
               map_option (\<lambda>t. ps_revision (dt_placement t)) topology),
             ds_resourceHints = None, ds_runtimeSummary = Some summary,
             ds_dynamicFields = Some (map_from ([(''uptimeMs'', json_int (ru_uptimeMs state)), (''disposed'', JBool (ru_disposed state))]
               @ value_else (ho_observedDynamicFields opts) [] @ opt_field ''metrics'' (summarize_metrics metrics)))\<rparr>,
           oh_assignmentStatuses = statuses\<rparr>))"

end
