(* ===== verification/Admin_Client.thy ===== *)
theory Admin_Client
  imports Planning_Views Host_Runtime
begin

text \<open>How a host talks to the control plane (sdk/admin): the operations (transport.ts), the client that
  checks every request and every answer (client.ts), the transport over HTTP (http.ts) and the control
  plane in memory (mock.ts). A request carries the values of one operation, an answer those of its
  result. Parameters: the schemas that check them (shared/admin-schema.ts, which parse a value to itself
  or throw; the setters of the last section take parsed values), the resolution of URLs, and what \<open>fetch\<close> answers.\<close>

section \<open>Operations\<close>

datatype admin_request =
    RegisterHost host_registration
  | HeartbeatHost string observed_host_state
  | GetDesiredHostState string "string option"
  | ReportObservedHostState observed_host_state
  | FetchArtifactManifest string
  | GetRuntimeSummary summary_query

datatype admin_answer =
    HostRegistered string bool "int option"
  | HeartbeatTaken bool "int option"
  | DesiredIs bool "desired_host_state option"
  | ObservedTaken bool
  | ManifestIs artifact_manifest
  | SummaryIs summary_read_model

fun operation_name :: "admin_request \<Rightarrow> string" where
  "operation_name (RegisterHost _) = ''registerHost''"
| "operation_name (HeartbeatHost _ _) = ''heartbeatHost''"
| "operation_name (GetDesiredHostState _ _) = ''getDesiredHostState''"
| "operation_name (ReportObservedHostState _) = ''reportObservedHostState''"
| "operation_name (FetchArtifactManifest _) = ''fetchArtifactManifest''"
| "operation_name (GetRuntimeSummary _) = ''getRuntimeSummaryReadModel''"

text \<open>An answer of another operation does not parse.\<close>

fun answers :: "admin_request \<Rightarrow> admin_answer \<Rightarrow> bool" where
  "answers (RegisterHost _) (HostRegistered _ _ _) = True"
| "answers (HeartbeatHost _ _) (HeartbeatTaken _ _) = True"
| "answers (GetDesiredHostState _ _) (DesiredIs _ _) = True"
| "answers (ReportObservedHostState _) (ObservedTaken _) = True"
| "answers (FetchArtifactManifest _) (ManifestIs _) = True"
| "answers (GetRuntimeSummary _) (SummaryIs _) = True"
| "answers _ _ = False"

record admin_schema =
  sc_request_error :: "admin_request \<Rightarrow> string option"
  sc_answer_error :: "admin_answer \<Rightarrow> string option"
  sc_wrong_answer :: "admin_request \<Rightarrow> admin_answer \<Rightarrow> string"

definition parse_request :: "admin_schema \<Rightarrow> admin_request \<Rightarrow> string + admin_request" where
  "parse_request sc r = (case sc_request_error sc r of Some e \<Rightarrow> Inl e | None \<Rightarrow> Inr r)"

definition parse_answer :: "admin_schema \<Rightarrow> admin_request \<Rightarrow> admin_answer \<Rightarrow> string + admin_answer" where
  "parse_answer sc r a =
    (if \<not> answers r a then Inl (sc_wrong_answer sc r a)
     else case sc_answer_error sc a of Some e \<Rightarrow> Inl e | None \<Rightarrow> Inr a)"

text \<open>A transport is a function on the state of the other side.\<close>

type_synonym 'w admin_transport = "admin_request \<Rightarrow> 'w \<Rightarrow> (string + admin_answer) \<times> 'w"

definition client_call :: "admin_schema \<Rightarrow> 'w admin_transport \<Rightarrow> admin_request \<Rightarrow> 'w \<Rightarrow> (string + admin_answer) \<times> 'w" where
  "client_call sc tr r w = (case parse_request sc r of
     Inl e \<Rightarrow> (Inl e, w)
   | Inr payload \<Rightarrow> (case tr payload w of
       (Inl e, w') \<Rightarrow> (Inl e, w')
     | (Inr response, w') \<Rightarrow> (parse_answer sc r response, w')))"

section \<open>The client\<close>

definition register_host ::
  "admin_schema \<Rightarrow> 'w admin_transport \<Rightarrow> host_registration \<Rightarrow> 'w \<Rightarrow> (string + (string \<times> bool \<times> int option)) \<times> 'w" where
  "register_host sc tr input w = map_prod (map_sum id (\<lambda>a. case a of HostRegistered i b p \<Rightarrow> (i, b, p))) id
     (client_call sc tr (RegisterHost input) w)"

definition heartbeat_host ::
  "admin_schema \<Rightarrow> 'w admin_transport \<Rightarrow> string \<Rightarrow> observed_host_state \<Rightarrow> 'w \<Rightarrow> (string + (bool \<times> int option)) \<times> 'w" where
  "heartbeat_host sc tr hostId observed w = map_prod (map_sum id (\<lambda>a. case a of HeartbeatTaken b p \<Rightarrow> (b, p))) id
     (client_call sc tr (HeartbeatHost hostId observed) w)"

definition get_desired_host_state ::
  "admin_schema \<Rightarrow> 'w admin_transport \<Rightarrow> string \<Rightarrow> string option \<Rightarrow> 'w \<Rightarrow> (string + (bool \<times> desired_host_state option)) \<times> 'w" where
  "get_desired_host_state sc tr hostId ifRevision w = map_prod (map_sum id (\<lambda>a. case a of DesiredIs b x \<Rightarrow> (b, x))) id
     (client_call sc tr (GetDesiredHostState hostId ifRevision) w)"

definition report_observed_host_state ::
  "admin_schema \<Rightarrow> 'w admin_transport \<Rightarrow> observed_host_state \<Rightarrow> 'w \<Rightarrow> (string + bool) \<times> 'w" where
  "report_observed_host_state sc tr input w = map_prod (map_sum id (\<lambda>a. case a of ObservedTaken b \<Rightarrow> b)) id
     (client_call sc tr (ReportObservedHostState input) w)"

definition fetch_artifact_manifest ::
  "admin_schema \<Rightarrow> 'w admin_transport \<Rightarrow> string \<Rightarrow> 'w \<Rightarrow> (string + artifact_manifest) \<times> 'w" where
  "fetch_artifact_manifest sc tr manifestId w = map_prod (map_sum id (\<lambda>a. case a of ManifestIs m \<Rightarrow> m)) id
     (client_call sc tr (FetchArtifactManifest manifestId) w)"

definition get_runtime_summary_read_model ::
  "admin_schema \<Rightarrow> 'w admin_transport \<Rightarrow> summary_query \<Rightarrow> 'w \<Rightarrow> (string + summary_read_model) \<times> 'w" where
  "get_runtime_summary_read_model sc tr query w = map_prod (map_sum id (\<lambda>a. case a of SummaryIs m \<Rightarrow> m)) id
     (client_call sc tr (GetRuntimeSummary query) w)"

section \<open>HTTP\<close>

definition default_http_path :: "admin_request \<Rightarrow> string" where
  "default_http_path r = (case r of
     RegisterHost _ \<Rightarrow> ''/v1/admin/hosts/register''
   | HeartbeatHost _ _ \<Rightarrow> ''/v1/admin/hosts/heartbeat''
   | GetDesiredHostState _ _ \<Rightarrow> ''/v1/admin/hosts/desired''
   | ReportObservedHostState _ \<Rightarrow> ''/v1/admin/hosts/observed''
   | FetchArtifactManifest _ \<Rightarrow> ''/v1/admin/artifacts/manifest''
   | GetRuntimeSummary _ \<Rightarrow> ''/v1/admin/read/runtime-summary'')"

text \<open>An answer of the server: its status with the status text and, when it is asked for, its body.\<close>

datatype http_answer = HttpThrows string | HttpRefused nat string | HttpOk "string + admin_answer"

record 'w http_transport =
  ht_resolve :: "string \<Rightarrow> string + string"
  ht_path :: "(admin_request \<Rightarrow> string) option"
  ht_fetch :: "string \<Rightarrow> admin_request \<Rightarrow> 'w \<Rightarrow> http_answer \<times> 'w"

definition http_request :: "'w http_transport \<Rightarrow> 'w admin_transport" where
  "http_request ht r w = (case ht_resolve ht (value_else (ht_path ht) default_http_path r) of
     Inl e \<Rightarrow> (Inl e, w)
   | Inr url \<Rightarrow> (case ht_fetch ht url r w of
       (HttpThrows e, w') \<Rightarrow> (Inl e, w')
     | (HttpRefused status statusText, w') \<Rightarrow>
         (Inl (trim_end (''Admin HTTP request failed for '' @ operation_name r @ '': '' @ nat_str status @ '' '' @ statusText)), w')
     | (HttpOk body, w') \<Rightarrow> (case body of
         Inl e \<Rightarrow> (Inl (''Admin HTTP response was not valid JSON for '' @ operation_name r @ '': '' @ e), w')
       | Inr a \<Rightarrow> (Inr a, w'))))"

section \<open>The control plane in memory\<close>

record mock_admin =
  mk_registeredHosts :: "(string, host_registration) js_map"
  mk_desiredHostStates :: "(string, desired_host_state) js_map"
  mk_observedHostStates :: "(string, observed_host_state) js_map"
  mk_artifactManifests :: "(string, artifact_manifest) js_map"
  mk_pollAfterMs :: int
  mk_nextPollAfterMs :: int
  mk_now :: int

definition new_mock_admin :: "int option \<Rightarrow> int option \<Rightarrow> int \<Rightarrow> mock_admin" where
  "new_mock_admin pollAfterMs nextPollAfterMs now = \<lparr>mk_registeredHosts = [], mk_desiredHostStates = [],
     mk_observedHostStates = [], mk_artifactManifests = [], mk_pollAfterMs = value_else pollAfterMs 5000,
     mk_nextPollAfterMs = value_else nextPollAfterMs 5000, mk_now = now\<rparr>"

definition set_desired_host_state :: "desired_host_state \<Rightarrow> mock_admin \<Rightarrow> mock_admin" where
  "set_desired_host_state desired s = s\<lparr>mk_desiredHostStates := map_set (dh_hostId desired) desired (mk_desiredHostStates s)\<rparr>"

definition put_artifact_manifest :: "artifact_manifest \<Rightarrow> mock_admin \<Rightarrow> mock_admin" where
  "put_artifact_manifest manifest s =
    s\<lparr>mk_artifactManifests := map_set (am_manifestId manifest) manifest (mk_artifactManifests s)\<rparr>"

definition ensure_desired_host_state :: "string \<Rightarrow> mock_admin \<Rightarrow> desired_host_state \<times> mock_admin" where
  "ensure_desired_host_state hostId s = (case map_of (mk_desiredHostStates s) hostId of
     Some existing \<Rightarrow> (existing, s)
   | None \<Rightarrow>
      (let initial = \<lparr>dh_hostId = hostId, dh_revision = ''initial:'' @ hostId, dh_generatedAt = mk_now s, dh_assignments = [],
           dh_topology = None, dh_runtimeAuthTrust = None, dh_routes = None\<rparr>
       in (initial, s\<lparr>mk_desiredHostStates := map_set hostId initial (mk_desiredHostStates s)\<rparr>)))"

definition get_registered_host :: "string \<Rightarrow> mock_admin \<Rightarrow> host_registration option" where
  "get_registered_host hostId s = map_of (mk_registeredHosts s) hostId"

definition get_observed_host_state :: "string \<Rightarrow> mock_admin \<Rightarrow> observed_host_state option" where
  "get_observed_host_state hostId s = map_of (mk_observedHostStates s) hostId"

definition list_registered_hosts :: "mock_admin \<Rightarrow> host_registration list" where
  "list_registered_hosts s = map snd (mk_registeredHosts s)"

definition handle_register_host :: "host_registration \<Rightarrow> mock_admin \<Rightarrow> (string + admin_answer) \<times> mock_admin" where
  "handle_register_host registration s =
    (let s1 = s\<lparr>mk_registeredHosts := map_set (hr_hostId registration) registration (mk_registeredHosts s)\<rparr>;
         (_, s2) = ensure_desired_host_state (hr_hostId registration) s1
     in (Inr (HostRegistered (hr_hostId registration) True (Some (mk_pollAfterMs s))), s2))"

definition handle_heartbeat_host :: "string \<Rightarrow> observed_host_state \<Rightarrow> mock_admin \<Rightarrow> (string + admin_answer) \<times> mock_admin" where
  "handle_heartbeat_host hostId observed s =
    (let s1 = s\<lparr>mk_observedHostStates := map_set hostId observed (mk_observedHostStates s)\<rparr>;
         (_, s2) = ensure_desired_host_state hostId s1
     in (Inr (HeartbeatTaken True (Some (mk_nextPollAfterMs s))), s2))"

definition handle_get_desired_host_state ::
  "string \<Rightarrow> string option \<Rightarrow> mock_admin \<Rightarrow> (string + admin_answer) \<times> mock_admin" where
  "handle_get_desired_host_state hostId ifRevision s =
    (let (desired, s1) = ensure_desired_host_state hostId s
     in if truthy ifRevision \<and> ifRevision = Some (dh_revision desired) then (Inr (DesiredIs False None), s1)
        else (Inr (DesiredIs True (Some desired)), s1))"

definition handle_report_observed_host_state :: "observed_host_state \<Rightarrow> mock_admin \<Rightarrow> (string + admin_answer) \<times> mock_admin" where
  "handle_report_observed_host_state observed s =
    (let s1 = s\<lparr>mk_observedHostStates := map_set (oh_hostId observed) observed (mk_observedHostStates s)\<rparr>;
         (_, s2) = ensure_desired_host_state (oh_hostId observed) s1
     in (Inr (ObservedTaken True), s2))"

definition handle_fetch_artifact_manifest :: "string \<Rightarrow> mock_admin \<Rightarrow> (string + admin_answer) \<times> mock_admin" where
  "handle_fetch_artifact_manifest manifestId s = (case map_of (mk_artifactManifests s) manifestId of
     None \<Rightarrow> (Inl (''Artifact manifest not found: '' @ manifestId), s)
   | Some manifest \<Rightarrow> (Inr (ManifestIs manifest), s))"

definition handle_get_runtime_summary_read_model ::
  "admin_schema \<Rightarrow> (string \<Rightarrow> string \<Rightarrow> int) \<Rightarrow> summary_query \<Rightarrow> mock_admin \<Rightarrow> (string + admin_answer) \<times> mock_admin" where
  "handle_get_runtime_summary_read_model sc lc query s =
    (parse_answer sc (GetRuntimeSummary query) (SummaryIs (build_runtime_summary_read_model lc
        (map snd (mk_desiredHostStates s)) (map snd (mk_observedHostStates s)) query)), s)"

definition mock_request :: "admin_schema \<Rightarrow> (string \<Rightarrow> string \<Rightarrow> int) \<Rightarrow> mock_admin admin_transport" where
  "mock_request sc lc r s = (case parse_request sc r of
     Inl e \<Rightarrow> (Inl e, s)
   | Inr payload \<Rightarrow> (case payload of
       RegisterHost registration \<Rightarrow> handle_register_host registration s
     | HeartbeatHost hostId observed \<Rightarrow> handle_heartbeat_host hostId observed s
     | GetDesiredHostState hostId ifRevision \<Rightarrow> handle_get_desired_host_state hostId ifRevision s
     | ReportObservedHostState observed \<Rightarrow> handle_report_observed_host_state observed s
     | FetchArtifactManifest manifestId \<Rightarrow> handle_fetch_artifact_manifest manifestId s
     | GetRuntimeSummary query \<Rightarrow> handle_get_runtime_summary_read_model sc lc query s))"

end
