(* ===== verification/Host_Agent.thy ===== *)
theory Host_Agent
  imports Admin_Client
begin

text \<open>The agent that keeps a host in step with the control plane (runtime/control/host-agent.ts): one cycle
  registers the host, asks for its desired state, applies it, collects the observed state, reports and
  beats, and schedules the next cycle. The runtime adapter and the client are the operations of
  \<open>agent_env\<close> on a state of the world.

  Two cycles never overlap (\<open>cycleInFlight\<close>), and of what others may change while a cycle runs it reads
  only \<open>running\<close> and the timer, in its last step; so a cycle in flight is a flag, and its end is one
  operation in which the calls of the cycle happen in their order. The manifests are all asked for, and
  the first that fails, in the order of the assignments, fails the lot.\<close>

record register_result =
  rr_hostId :: string
  rr_accepted :: bool
  rr_pollAfterMs :: "int option"

record 'w agent_env =
  ae_registration :: "'w \<Rightarrow> string + host_registration"
  ae_register :: "host_registration \<Rightarrow> 'w \<Rightarrow> (string + register_result) \<times> 'w"
  ae_desired :: "string \<Rightarrow> string option \<Rightarrow> 'w \<Rightarrow> (string + (bool \<times> desired_host_state option)) \<times> 'w"
  ae_manifest :: "string \<Rightarrow> 'w \<Rightarrow> (string + artifact_manifest) \<times> 'w"
  ae_apply :: "desired_host_state \<Rightarrow> (string, artifact_manifest) js_map \<Rightarrow> 'w \<Rightarrow> (string + unit) \<times> 'w"
  ae_collect :: "'w \<Rightarrow> string + observed_host_state"
  ae_report :: "observed_host_state \<Rightarrow> 'w \<Rightarrow> (string + bool) \<times> 'w"
  ae_heartbeat :: "string \<Rightarrow> observed_host_state \<Rightarrow> 'w \<Rightarrow> (string + (bool \<times> int option)) \<times> 'w"

record agent_options =
  ao_defaultPollAfterMs :: int
  ao_retryPollAfterMs :: int
  ao_reportObservedAfterApply :: bool

definition agent_options_from :: "int option \<Rightarrow> int option \<Rightarrow> bool option \<Rightarrow> agent_options" where
  "agent_options_from defaultPoll retryPoll reports = \<lparr>ao_defaultPollAfterMs = value_else defaultPoll 5000,
     ao_retryPollAfterMs = value_else retryPoll 1000, ao_reportObservedAfterApply = value_else reports True\<rparr>"

record host_agent =
  hg_running :: bool
  hg_registered :: bool
  hg_hostId :: "string option"
  hg_desiredRevision :: "string option"
  hg_lastPollAfterMs :: "int option"
  hg_lastError :: "string option"
  hg_pollTimer :: "nat option"
  hg_nextTimer :: nat
  hg_cycleInFlight :: bool

definition new_host_agent :: host_agent where
  "new_host_agent = \<lparr>hg_running = False, hg_registered = False, hg_hostId = None, hg_desiredRevision = None,
     hg_lastPollAfterMs = None, hg_lastError = None, hg_pollTimer = None, hg_nextTimer = 1, hg_cycleInFlight = False\<rparr>"

section \<open>The steps of a cycle\<close>

text \<open>The variables of a cycle: the registration once it is known, whether to report, the next delay, and the
  message of the last failure.\<close>

record cycle =
  cy_registration :: "host_registration option"
  cy_shouldReport :: bool
  cy_nextPollAfterMs :: int
  cy_failure :: "string option"

definition new_cycle :: "agent_options \<Rightarrow> cycle" where
  "new_cycle opts = \<lparr>cy_registration = None, cy_shouldReport = False, cy_nextPollAfterMs = ao_defaultPollAfterMs opts, cy_failure = None\<rparr>"

abbreviation fail_cycle :: "string \<Rightarrow> cycle \<Rightarrow> cycle" where
  "fail_cycle e c \<equiv> c\<lparr>cy_failure := Some e\<rparr>"

definition assert_stable_host_identity :: "host_registration \<Rightarrow> host_agent \<Rightarrow> string option" where
  "assert_stable_host_identity registration a =
    (if truthy (hg_hostId a) \<and> hg_hostId a \<noteq> Some (hr_hostId registration)
     then Some (''HostRegistration hostId changed from '' @ the (hg_hostId a) @ '' to '' @ hr_hostId registration) else None)"

definition manifest_ids :: "desired_host_state \<Rightarrow> string list" where
  "manifest_ids desired = js_unique (map (af_manifestId \<circ> as_artifact) (dh_assignments desired))"

fun resolve_manifests ::
  "'w agent_env \<Rightarrow> string list \<Rightarrow> 'w \<Rightarrow> (string + (string, artifact_manifest) js_map) \<times> 'w" where
  "resolve_manifests env [] w = (Inr [], w)"
| "resolve_manifests env (i # is) w =
    (let (r, w1) = ae_manifest env i w; (rest, w2) = resolve_manifests env is w1
     in (case r of Inl e \<Rightarrow> Inl e | Inr m \<Rightarrow> map_sum id (map_set i m) rest, w2))"

text \<open>Registration, unless the host is registered already.\<close>

definition register_step ::
  "'w agent_env \<Rightarrow> host_registration \<Rightarrow> cycle \<times> host_agent \<times> 'w \<Rightarrow> cycle \<times> host_agent \<times> 'w" where
  "register_step env registration = (\<lambda>(c, a, w).
     if hg_registered a then (c, a, w)
     else case ae_register env registration w of
       (Inl e, w') \<Rightarrow> (fail_cycle e c, a, w')
     | (Inr ack, w') \<Rightarrow> (c\<lparr>cy_nextPollAfterMs := value_else (rr_pollAfterMs ack) (cy_nextPollAfterMs c)\<rparr>,
         a\<lparr>hg_registered := rr_accepted ack, hg_hostId := Some (rr_hostId ack)\<rparr>, w'))"

definition apply_step ::
  "'w agent_env \<Rightarrow> agent_options \<Rightarrow> desired_host_state \<Rightarrow> cycle \<times> host_agent \<times> 'w \<Rightarrow> cycle \<times> host_agent \<times> 'w" where
  "apply_step env opts desired = (\<lambda>(c, a, w). case resolve_manifests env (manifest_ids desired) w of
     (Inl e, w1) \<Rightarrow> (fail_cycle e c, a, w1)
   | (Inr artifacts, w1) \<Rightarrow> (case ae_apply env desired artifacts w1 of
       (Inl e, w2) \<Rightarrow> (fail_cycle e c, a, w2)
     | (Inr _, w2) \<Rightarrow> (c\<lparr>cy_shouldReport := ao_reportObservedAfterApply opts\<rparr>,
         a\<lparr>hg_desiredRevision := Some (dh_revision desired)\<rparr>, w2)))"

definition desired_step ::
  "'w agent_env \<Rightarrow> agent_options \<Rightarrow> host_registration \<Rightarrow> cycle \<times> host_agent \<times> 'w \<Rightarrow> cycle \<times> host_agent \<times> 'w" where
  "desired_step env opts registration = (\<lambda>(c, a, w).
     case ae_desired env (hr_hostId registration) (hg_desiredRevision a) w of
       (Inl e, w') \<Rightarrow> (fail_cycle e c, a, w')
     | (Inr (True, Some desired), w') \<Rightarrow> apply_step env opts desired (c, a, w')
     | (Inr _, w') \<Rightarrow> (c, a, w'))"

definition reconcile_step ::
  "'w agent_env \<Rightarrow> agent_options \<Rightarrow> cycle \<times> host_agent \<times> 'w \<Rightarrow> cycle \<times> host_agent \<times> 'w" where
  "reconcile_step env opts = (\<lambda>(c, a, w). case ae_registration env w of
     Inl e \<Rightarrow> (fail_cycle e c, a, w)
   | Inr registration \<Rightarrow>
      (let c1 = c\<lparr>cy_registration := Some registration\<rparr> in
       case assert_stable_host_identity registration a of
         Some e \<Rightarrow> (fail_cycle e c1, a, w)
       | None \<Rightarrow> (let (c2, a2, w2) = register_step env registration (c1, a, w) in
           if cy_failure c2 \<noteq> None then (c2, a2, w2) else desired_step env opts registration (c2, a2, w2))))"

definition collect_step :: "'w agent_env \<Rightarrow> cycle \<Rightarrow> 'w \<Rightarrow> observed_host_state option \<times> cycle" where
  "collect_step env c w = (case ae_collect env w of
     Inl e \<Rightarrow> (None, fail_cycle e c)
   | Inr observed \<Rightarrow> (case cy_registration c of
       None \<Rightarrow> (Some observed, c)
     | Some registration \<Rightarrow>
         (Some observed, if oh_hostId observed \<noteq> hr_hostId registration
            then fail_cycle (''Observed hostId '' @ oh_hostId observed @ '' does not match registered hostId '' @ hr_hostId registration) c
            else c)))"

definition report_step :: "'w agent_env \<Rightarrow> observed_host_state \<Rightarrow> cycle \<times> 'w \<Rightarrow> cycle \<times> 'w" where
  "report_step env observed = (\<lambda>(c, w).
     if cy_shouldReport c then (case ae_report env observed w of (Inl e, w') \<Rightarrow> (fail_cycle e c, w') | (Inr _, w') \<Rightarrow> (c, w'))
     else (c, w))"

definition heartbeat_step :: "'w agent_env \<Rightarrow> observed_host_state \<Rightarrow> cycle \<times> 'w \<Rightarrow> cycle \<times> 'w" where
  "heartbeat_step env observed = (\<lambda>(c, w). case ae_heartbeat env (oh_hostId observed) observed w of
     (Inl e, w') \<Rightarrow> (fail_cycle e c, w')
   | (Inr (_, next), w') \<Rightarrow> (c\<lparr>cy_nextPollAfterMs := value_else next (cy_nextPollAfterMs c)\<rparr>, w'))"

definition schedule_next_poll :: "int \<Rightarrow> host_agent \<Rightarrow> host_agent" where
  "schedule_next_poll delay a =
    (let a1 = a\<lparr>hg_lastPollAfterMs := Some delay\<rparr> in
     if \<not> hg_running a1 then a1 else a1\<lparr>hg_pollTimer := Some (hg_nextTimer a1), hg_nextTimer := Suc (hg_nextTimer a1)\<rparr>)"

definition finish_cycle :: "agent_options \<Rightarrow> cycle \<Rightarrow> host_agent \<Rightarrow> host_agent" where
  "finish_cycle opts c a = schedule_next_poll
     (if cy_failure c = None then cy_nextPollAfterMs c else ao_retryPollAfterMs opts)
     (a\<lparr>hg_lastError := cy_failure c\<rparr>)"

definition perform_reconcile_cycle :: "'w agent_env \<Rightarrow> agent_options \<Rightarrow> host_agent \<times> 'w \<Rightarrow> host_agent \<times> 'w" where
  "perform_reconcile_cycle env opts = (\<lambda>(a, w).
     let (c1, a1, w1) = reconcile_step env opts (new_cycle opts, a, w);
         (observed, c2) = collect_step env c1 w1;
         (c3, w3) = (case observed of None \<Rightarrow> (c2, w1) | Some o1 \<Rightarrow> heartbeat_step env o1 (report_step env o1 (c2, w1)))
     in (finish_cycle opts c3 a1, w3))"

section \<open>Calls and events\<close>

definition reconcile_once :: "host_agent \<Rightarrow> host_agent" where
  "reconcile_once a = a\<lparr>hg_cycleInFlight := True\<rparr>"

definition start_agent :: "host_agent \<Rightarrow> host_agent" where
  "start_agent a = (if hg_running a then a else reconcile_once (a\<lparr>hg_running := True\<rparr>))"

definition stop_agent :: "host_agent \<Rightarrow> host_agent" where
  "stop_agent a = a\<lparr>hg_running := False, hg_pollTimer := None\<rparr>"

text \<open>The callback of a timer; a timer that was cleared or replaced does not fire.\<close>

definition poll_timer_fires :: "nat \<Rightarrow> host_agent \<Rightarrow> host_agent" where
  "poll_timer_fires t a = (if hg_pollTimer a = Some t then reconcile_once (a\<lparr>hg_pollTimer := None\<rparr>) else a)"

definition cycle_ends :: "'w agent_env \<Rightarrow> agent_options \<Rightarrow> host_agent \<times> 'w \<Rightarrow> host_agent \<times> 'w" where
  "cycle_ends env opts = (\<lambda>(a, w). if hg_cycleInFlight a
     then (let (a', w') = perform_reconcile_cycle env opts (a, w) in (a'\<lparr>hg_cycleInFlight := False\<rparr>, w')) else (a, w))"

record agent_snapshot =
  ag_running :: bool
  ag_registered :: bool
  ag_hostId :: "string option"
  ag_desiredRevision :: "string option"
  ag_lastPollAfterMs :: "int option"
  ag_lastError :: "string option"

definition get_snapshot :: "host_agent \<Rightarrow> agent_snapshot" where
  "get_snapshot a = \<lparr>ag_running = hg_running a, ag_registered = hg_registered a, ag_hostId = hg_hostId a,
     ag_desiredRevision = hg_desiredRevision a, ag_lastPollAfterMs = hg_lastPollAfterMs a, ag_lastError = hg_lastError a\<rparr>"

section \<open>The agent of the server\<close>

text \<open>The server runs the agent over the runtime adapter and a client of the control plane (runtime/server.ts).
  The world is the adapter, the control plane as the transport sees it, the clock and the runtime's figures.\<close>

record ('h, 'c) host_world =
  hw_adapter :: "'h host_adapter"
  hw_admin :: 'c
  hw_now :: int
  hw_state :: runtime_state
  hw_metrics :: "metrics_summary option"

definition on_admin :: "'c admin_transport \<Rightarrow> ('h, 'c) host_world admin_transport" where
  "on_admin tr r w = (let (x, c) = tr r (hw_admin w) in (x, w\<lparr>hw_admin := c\<rparr>))"

definition failure_message :: "host_failure \<Rightarrow> string" where
  "failure_message f = (case f of BuildFailed e \<Rightarrow> e | ConfigFailed e \<Rightarrow> e
     | ModulesFailed e \<Rightarrow> (case e of PrepareFailed m \<Rightarrow> m | RegisterFailed he \<Rightarrow> he_message he))"

definition host_env ::
  "'h host_deps \<Rightarrow> host_options \<Rightarrow> (string \<Rightarrow> string \<Rightarrow> int) \<Rightarrow> admin_schema \<Rightarrow> 'c admin_transport \<Rightarrow> ('h, 'c) host_world agent_env" where
  "host_env d opts lc sc tr = \<lparr>
     ae_registration = \<lambda>w. Inr (get_host_registration opts (hw_state w)),
     ae_register = \<lambda>r w. map_prod (map_sum id (\<lambda>(i, b, p). \<lparr>rr_hostId = i, rr_accepted = b, rr_pollAfterMs = p\<rparr>)) id
       (register_host sc (on_admin tr) r w),
     ae_desired = get_desired_host_state sc (on_admin tr),
     ae_manifest = fetch_artifact_manifest sc (on_admin tr),
     ae_apply = \<lambda>desired artifacts w.
       (let (r, s) = apply_desired d opts (hw_now w) desired artifacts (hw_adapter w)
        in (map_sum failure_message id r, w\<lparr>hw_adapter := s\<rparr>)),
     ae_collect = \<lambda>w. collect_observed lc opts (hw_state w) (hw_metrics w) (hw_now w) (hw_adapter w),
     ae_report = report_observed_host_state sc (on_admin tr),
     ae_heartbeat = heartbeat_host sc (on_admin tr)\<rparr>"

end
