(* ===== verification/Module_Props.thy ===== *)
theory Module_Props
  imports Service_Modules
begin

text \<open>What the service modules of a host serve: after the assignments are applied the registry answers
  for exactly the assigned modules and, for the grace period, for the ones that drain.\<close>

section \<open>Names and keys\<close>

definition plain_name :: "string \<Rightarrow> bool" where
  "plain_name s \<longleftrightarrow> CHR '':'' \<notin> set s"

lemma plain_append: "plain_name p \<Longrightarrow> plain_name q \<Longrightarrow> p @ CHR '':'' # r = q @ CHR '':'' # t \<longleftrightarrow> p = q \<and> r = t"
proof (induction p arbitrary: q)
  case Nil then show ?case by (cases q) (auto simp: plain_name_def)
next
  case (Cons c p) then show ?case by (cases q) (auto simp: plain_name_def)
qed

lemma key_prefix:
  assumes "plain_name p" "plain_name v" "plain_name q" "plain_name w"
  shows "prefix (p @ '':'' @ v @ '':'') (key_of q w a) \<longleftrightarrow> p = q \<and> v = w"
proof
  assume "prefix (p @ '':'' @ v @ '':'') (key_of q w a)"
  then obtain r where "q @ CHR '':'' # w @ CHR '':'' # a = p @ CHR '':'' # v @ CHR '':'' # r"
    by (auto simp: prefix_def key_of_def)
  then show "p = q \<and> v = w" using plain_append assms by metis
qed (auto simp: key_of_def)

definition serves :: "'h module_manager \<Rightarrow> string \<Rightarrow> string \<Rightarrow> string \<Rightarrow> 'h option" where
  "serves m p v action = map_of (mm_registry m) (key_of p v action)"

lemma serves_cong: "mm_registry m = mm_registry m' \<Longrightarrow> serves m = serves m'"
  by (simp add: serves_def fun_eq_iff)

lemma serves_unregister:
  "plain_name p \<Longrightarrow> plain_name v \<Longrightarrow> plain_name q \<Longrightarrow> plain_name w \<Longrightarrow>
   serves (unregister_pv p v m) q w a = (if p = q \<and> v = w then None else serves m q w a)"
  using key_prefix[of p v q w a]
  by (simp add: serves_def unregister_pv_def server_unregister_def map_of_filter_key[where P = "\<lambda>k. \<not> prefix _ k"])

lemma module_entries_other:
  assumes "plain_name (sv_protocol md)" "plain_name (sv_version md)" "plain_name q" "plain_name w"
  shows "map_of (module_entries md) (key_of q w a)
    = (if sv_protocol md = q \<and> sv_version md = w then map_of (sv_actions md) a else None)"
proof (cases "sv_protocol md = q \<and> sv_version md = w")
  case True
  then show ?thesis using module_entries_lookup[of md a] by auto
next
  case False
  have "key_of q w a \<noteq> key_of (sv_protocol md) (sv_version md) b" for b
    using False assms by (auto simp: key_of_def plain_append)
  then have "\<forall>e\<in>set (module_entries md). fst e \<noteq> key_of q w a" by (fastforce simp: module_entries_def)
  then have "key_of q w a \<notin> fst ` set (module_entries md)" by auto
  then have "map_of (module_entries md) (key_of q w a) = None" by (simp only: map_of_eq_None_iff not_False_eq_True)
  then show ?thesis using False by auto
qed

section \<open>The invariant of the manager\<close>

definition drained :: "'h module_manager \<Rightarrow> (string \<times> active_module) list" where
  "drained m = map (\<lambda>(i, dr). (i, dr_module dr)) (mm_draining m)"

definition managed :: "'h module_manager \<Rightarrow> (string \<times> active_module) list" where
  "managed m = mm_active m @ drained m"

definition pv_of :: "active_module \<Rightarrow> string \<times> string" where
  "pv_of a = (ac_protocol a, ac_version a)"

definition plain_pv :: "string \<times> string \<Rightarrow> bool" where
  "plain_pv x \<longleftrightarrow> plain_name (fst x) \<and> plain_name (snd x)"

text \<open>Each assignment has at most one module, active or draining; no two modules have the same protocol
  version; and the drain timers belong to the draining modules, one each.\<close>

definition modules_ok :: "(string \<times> active_module) list \<Rightarrow> bool" where
  "modules_ok ms \<longleftrightarrow> distinct (map fst ms) \<and> distinct (map (\<lambda>e. pv_of (snd e)) ms)
     \<and> (\<forall>(i, a)\<in>set ms. ac_assignmentId a = i \<and> plain_pv (pv_of a))"

definition drain_timers_ok :: "'h module_manager \<Rightarrow> bool" where
  "drain_timers_ok m \<longleftrightarrow> wf_map (mm_timers m)
     \<and> (\<forall>i dr. map_of (mm_draining m) i = Some dr \<longrightarrow> map_of (mm_timers m) (dr_timer dr) = Some i)
     \<and> (\<forall>t i. map_of (mm_timers m) t = Some i \<longrightarrow> t < mm_next m \<and> (\<exists>dr. map_of (mm_draining m) i = Some dr \<and> dr_timer dr = t))"

definition manager_ok :: "'h module_manager \<Rightarrow> bool" where
  "manager_ok m \<longleftrightarrow> modules_ok (managed m) \<and> drain_timers_ok m"

lemma managed_wf:
  assumes "modules_ok (managed m)"
  shows "wf_map (mm_active m)" "wf_map (mm_draining m)" "fst ` set (mm_active m) \<inter> fst ` set (mm_draining m) = {}"
proof -
  have d: "map fst (drained m) = map fst (mm_draining m)" by (simp add: drained_def case_prod_beta)
  have "distinct (map fst (mm_active m) @ map fst (mm_draining m))"
    using assms by (simp only: modules_ok_def managed_def map_append d)
  then show "wf_map (mm_active m)" "wf_map (mm_draining m)" "fst ` set (mm_active m) \<inter> fst ` set (mm_draining m) = {}"
    by (auto simp: wf_map_def)
qed

lemma modules_ok_subset:
  assumes "modules_ok ms" "distinct (map fst ms')" "set ms' \<subseteq> set ms"
  shows "modules_ok ms'"
proof -
  have inj: "inj_on (\<lambda>e. pv_of (snd e)) (set ms)" using assms(1) by (simp add: modules_ok_def distinct_map)
  have "distinct ms'" using assms(2) by (simp add: distinct_map)
  then have "distinct (map (\<lambda>e. pv_of (snd e)) ms')" using inj assms(3) by (simp add: distinct_map inj_on_subset)
  then show ?thesis using assms by (auto simp: modules_ok_def)
qed

text \<open>A set of protocol versions was taken out of the registry.\<close>

definition served_but :: "(string \<times> string) set \<Rightarrow> 'h module_manager \<Rightarrow> 'h module_manager \<Rightarrow> bool" where
  "served_but gone m m' \<longleftrightarrow> (\<forall>p v a. plain_name p \<and> plain_name v \<longrightarrow>
     serves m' p v a = (if (p, v) \<in> gone then None else serves m p v a))"

lemma served_but_refl: "mm_registry m' = mm_registry m \<Longrightarrow> served_but {} m m'"
  by (simp add: served_but_def serves_def)

lemma served_but_trans: "served_but A m m1 \<Longrightarrow> served_but B m1 m2 \<Longrightarrow> served_but (A \<union> B) m m2"
  by (simp add: served_but_def)

lemma served_but_unregister:
  "plain_pv (p, v) \<Longrightarrow> mm_registry m' = mm_registry (unregister_pv p v m) \<Longrightarrow> served_but {(p, v)} m m'"
  using serves_cong[of m' "unregister_pv p v m"] by (auto simp: served_but_def serves_unregister plain_pv_def)

section \<open>Draining\<close>

lemma drained_map_set: "drained (m\<lparr>mm_draining := map_set i dr (mm_draining m)\<rparr>) = map_set i (dr_module dr) (drained m)"
proof -
  have "map (\<lambda>(i, dr). (i, dr_module dr)) (map_set i dr ds) = map_set i (dr_module dr) (map (\<lambda>(i, dr). (i, dr_module dr)) ds)"
    for ds :: "(string, draining_module) js_map"
    by (induction ds) auto
  then show ?thesis by (simp add: drained_def)
qed

lemma drained_map_del: "drained (m\<lparr>mm_draining := map_del i (mm_draining m)\<rparr>) = map_del i (drained m)"
proof -
  have "map (\<lambda>(i, dr). (i, dr_module dr)) (map_del i ds) = map_del i (map (\<lambda>(i, dr). (i, dr_module dr)) ds)"
    for ds :: "(string, draining_module) js_map"
    by (induction ds) auto
  then show ?thesis by (simp add: drained_def)
qed

lemma managed_entry: "(i, a) \<in> set (managed m) \<longleftrightarrow> (i, a) \<in> set (mm_active m) \<or> (\<exists>dr. (i, dr) \<in> set (mm_draining m) \<and> a = dr_module dr)"
  by (auto simp: managed_def drained_def)

text \<open>Removing a draining module: its timer goes with it.\<close>

lemma drop_draining_ok:
  assumes ok: "manager_ok m" and dr: "map_of (mm_draining m) i = Some dr"
    and m': "mm_active m' = mm_active m" "mm_draining m' = map_del i (mm_draining m)"
      "mm_timers m' = map_del (dr_timer dr) (mm_timers m)" "mm_next m' = mm_next m"
  shows "manager_ok m'"
proof -
  have mods: "modules_ok (managed m)" and timers: "drain_timers_ok m" using ok by (simp_all add: manager_ok_def)
  have eq: "managed m' = mm_active m @ map_del i (drained m)"
    using drained_map_del[of i m] m'(1,2) by (simp add: managed_def drained_def)
  have "modules_ok (managed m')"
  proof (rule modules_ok_subset[OF mods])
    have "distinct (map fst (mm_active m) @ map fst (drained m))" using mods by (simp add: modules_ok_def managed_def)
    then show "distinct (map fst (managed m'))" by (auto simp: eq delete_keys distinct_removeAll)
    show "set (managed m') \<subseteq> set (managed m)" unfolding eq by (auto simp: managed_def AList.delete_eq)
  qed
  moreover have "drain_timers_ok m'"
    using timers dr unfolding drain_timers_ok_def m' by (auto split: if_splits) (metis option.inject)+
  ultimately show ?thesis by (simp add: manager_ok_def)
qed

text \<open>An active module starts to drain.\<close>

lemma start_draining_ok:
  assumes ok: "manager_ok m" and a: "map_of (mm_active m) i = Some a"
    and a': "ac_assignmentId a' = i" "pv_of a' = pv_of a"
    and m': "mm_active m' = map_del i (mm_active m)" "mm_draining m' = map_set i \<lparr>dr_module = a', dr_timer = mm_next m\<rparr> (mm_draining m)"
      "mm_timers m' = map_set (mm_next m) i (mm_timers m)" "mm_next m' = Suc (mm_next m)"
  shows "manager_ok m'"
proof -
  have mods: "modules_ok (managed m)" and timers: "drain_timers_ok m" using ok by (simp_all add: manager_ok_def)
  note wf = managed_wf[OF mods]
  have mem: "(i, a) \<in> set (mm_active m)" using a by (rule map_of_SomeD)
  then have nod: "map_of (mm_draining m) i = None" using wf(3) by (force simp: map_of_eq_None_iff)
  have eq: "managed m' = map_del i (mm_active m) @ drained m @ [(i, a')]"
    using nod by (simp add: managed_def drained_def m'(1,2) map_keys_set_absent)
  have perm: "\<exists>xs ys. mm_active m = xs @ (i, a) # ys \<and> map_del i (mm_active m) = xs @ ys"
    using mem wf(1)
  proof -
    obtain xs ys where s: "mm_active m = xs @ (i, a) # ys" using mem by (meson split_list)
    then have "i \<notin> fst ` set xs" "i \<notin> fst ` set ys" using wf(1) by (auto simp: wf_map_def)
    then have "filter (\<lambda>(k, _). i \<noteq> k) xs = xs" "filter (\<lambda>(k, _). i \<noteq> k) ys = ys" by (force intro: filter_True)+
    then have "map_del i (mm_active m) = xs @ ys" by (simp add: s AList.delete_eq)
    then show ?thesis using s by blast
  qed
  then obtain xs ys where s: "mm_active m = xs @ (i, a) # ys" "map_del i (mm_active m) = xs @ ys" by blast
  have "modules_ok (managed m')"
    using mods a' unfolding eq s(2) by (auto simp: modules_ok_def managed_def s(1))
  moreover have "drain_timers_ok m'"
    unfolding drain_timers_ok_def
  proof (intro conjI allI impI)
    show "wf_map (mm_timers m')" using timers by (simp add: m' drain_timers_ok_def)
    fix j dr assume j: "map_of (mm_draining m') j = Some dr"
    show "map_of (mm_timers m') (dr_timer dr) = Some j"
    proof (cases "j = i")
      case False
      then have "map_of (mm_timers m) (dr_timer dr) = Some j" using j timers by (simp add: m' drain_timers_ok_def)
      moreover from this have "dr_timer dr < mm_next m" using timers by (simp add: drain_timers_ok_def)
      ultimately show ?thesis by (simp add: m')
    qed (use j in \<open>auto simp: m'\<close>)
  next
    fix t j assume t: "map_of (mm_timers m') t = Some j"
    have "t = mm_next m \<and> j = i \<or> t < mm_next m \<and> j \<noteq> i \<and> (\<exists>dr. map_of (mm_draining m) j = Some dr \<and> dr_timer dr = t)"
    proof (cases "t = mm_next m")
      case False
      then have "map_of (mm_timers m) t = Some j" using t by (simp add: m')
      then obtain dr where "t < mm_next m" "map_of (mm_draining m) j = Some dr" "dr_timer dr = t"
        using timers unfolding drain_timers_ok_def by blast
      then show ?thesis using nod by auto
    qed (use t in \<open>auto simp: m'\<close>)
    then show "t < mm_next m'" "\<exists>dr. map_of (mm_draining m') j = Some dr \<and> dr_timer dr = t" by (auto simp: m')
  qed
  ultimately show ?thesis by (simp add: manager_ok_def)
qed

text \<open>An active module goes at once, without a grace period.\<close>

lemma drop_active_ok:
  assumes ok: "manager_ok m" and m': "mm_active m' = map_del i (mm_active m)" "mm_draining m' = mm_draining m"
      "mm_timers m' = mm_timers m" "mm_next m' = mm_next m"
  shows "manager_ok m'"
proof -
  have mods: "modules_ok (managed m)" and timers: "drain_timers_ok m" using ok by (simp_all add: manager_ok_def)
  have eq: "managed m' = map_del i (mm_active m) @ drained m" by (simp add: managed_def drained_def m')
  have "modules_ok (managed m')"
  proof (rule modules_ok_subset[OF mods])
    have "distinct (map fst (mm_active m) @ map fst (drained m))" using mods by (simp add: modules_ok_def managed_def)
    then show "distinct (map fst (managed m'))" by (auto simp: eq delete_keys distinct_removeAll)
    show "set (managed m') \<subseteq> set (managed m)" unfolding eq by (auto simp: managed_def AList.delete_eq)
  qed
  moreover have "drain_timers_ok m'" using timers by (simp add: drain_timers_ok_def m')
  ultimately show ?thesis by (simp add: manager_ok_def)
qed

text \<open>What a step of draining does: the module's protocol version is served until the grace period is over.\<close>

definition protocols :: "(string \<times> active_module) list \<Rightarrow> (string \<times> string) set" where
  "protocols ms = (\<lambda>e. pv_of (snd e)) ` set ms"

definition heads :: "(string \<times> active_module) set \<Rightarrow> (string \<times> string \<times> string) set" where
  "heads ms = (\<lambda>e. (fst e, pv_of (snd e))) ` ms"

lemma heads_simps [simp]:
  "heads {} = {}" "heads (insert e S) = insert (fst e, pv_of (snd e)) (heads S)" "heads (S \<union> T) = heads S \<union> heads T"
  by (auto simp: heads_def)

lemma managed_plain: "manager_ok m \<Longrightarrow> (i, a) \<in> set (managed m) \<Longrightarrow> plain_pv (pv_of a) \<and> ac_assignmentId a = i"
  by (auto simp: manager_ok_def modules_ok_def)

lemma active_managed: "map_of (mm_active m) i = Some a \<Longrightarrow> (i, a) \<in> set (managed m)"
  by (auto simp: managed_def dest: map_of_SomeD)

lemma drained_managed: "map_of (mm_draining m) i = Some dr \<Longrightarrow> (i, dr_module dr) \<in> set (managed m)"
  by (force simp: managed_def drained_def dest: map_of_SomeD)

lemma begin_draining_spec:
  fixes g :: int and prev :: "state_recorder option"
  assumes ok: "manager_ok m" and a: "map_of (mm_active m) i = Some a"
  defines "m' \<equiv> begin_draining g a prev m"
  shows "manager_ok m'" "mm_active m' = map_del i (mm_active m)"
    "served_but (if g \<le> 0 then {pv_of a} else {}) m m'"
    "protocols (drained m') = (if g \<le> 0 then {} else {pv_of a}) \<union> protocols (drained m)"
    "heads (set (drained m')) = (if g \<le> 0 then {} else {(i, pv_of a)}) \<union> heads (set (drained m))"
proof -
  note p = managed_plain[OF ok active_managed[OF a]]
  have nod: "map_of (mm_draining m) i = None"
    using managed_wf(3)[of m] ok map_of_SomeD[OF a] by (force simp: manager_ok_def map_of_eq_None_iff)
  show "manager_ok m'" "mm_active m' = map_del i (mm_active m)"
    using drop_active_ok[OF ok, of m' i] p
      start_draining_ok[OF ok a, of "a\<lparr>ac_generationId := gi, ac_preparedAt := pa, ac_activatedAt := aa\<rparr>" m' for gi pa aa]
    by (auto simp: m'_def begin_draining_def Let_def unregister_pv_def pv_of_def)
  show "served_but (if g \<le> 0 then {pv_of a} else {}) m m'"
  proof (cases "g \<le> 0")
    case True
    then show ?thesis using p served_but_unregister[of "ac_protocol a" "ac_version a" m' m]
      by (simp add: m'_def begin_draining_def Let_def pv_of_def unregister_pv_def)
  next
    case False
    then show ?thesis by (simp add: m'_def begin_draining_def Let_def served_but_refl)
  qed
  show "protocols (drained m') = (if g \<le> 0 then {} else {pv_of a}) \<union> protocols (drained m)"
    "heads (set (drained m')) = (if g \<le> 0 then {} else {(i, pv_of a)}) \<union> heads (set (drained m))"
    using nod p by (auto simp: m'_def begin_draining_def Let_def protocols_def drained_def unregister_pv_def
        map_keys_set_absent pv_of_def heads_def)
qed

lemma map_del_filter: "map_del i m = filter (\<lambda>e. fst e \<noteq> i) m"
  by (auto simp: AList.delete_eq case_prod_beta intro: filter_cong)

lemma drain_fold:
  fixes g :: int and previous :: assignment_states and ids :: "string list"
  assumes "manager_ok m" "distinct (map fst es)" "\<And>i a. (i, a) \<in> set es \<Longrightarrow> map_of (mm_active m) i = Some a"
  defines "m' \<equiv> foldl (\<lambda>m (i, a). if i \<in> set ids then m else begin_draining g a (map_of previous i) m) m es"
  defines "gone \<equiv> {(i, a). (i, a) \<in> set es \<and> i \<notin> set ids}"
  shows "manager_ok m'" "mm_active m' = filter (\<lambda>e. fst e \<notin> fst ` gone) (mm_active m)"
    "served_but (if g \<le> 0 then (\<lambda>e. pv_of (snd e)) ` gone else {}) m m'"
    "protocols (drained m') = (if g \<le> 0 then {} else (\<lambda>e. pv_of (snd e)) ` gone) \<union> protocols (drained m)"
    "heads (set (drained m')) = (if g \<le> 0 then {} else heads gone) \<union> heads (set (drained m))"
proof -
  have "manager_ok m' \<and> mm_active m' = filter (\<lambda>e. fst e \<notin> fst ` gone) (mm_active m)
    \<and> served_but (if g \<le> 0 then (\<lambda>e. pv_of (snd e)) ` gone else {}) m m'
    \<and> protocols (drained m') = (if g \<le> 0 then {} else (\<lambda>e. pv_of (snd e)) ` gone) \<union> protocols (drained m)
    \<and> heads (set (drained m')) = (if g \<le> 0 then {} else heads gone) \<union> heads (set (drained m))"
    using assms(1-3) unfolding m'_def gone_def
  proof (induction es arbitrary: m)
    case Nil
    then show ?case by (simp add: served_but_refl)
  next
    case (Cons e es)
    obtain i a where e: "e = (i, a)" by (cases e)
    have a: "map_of (mm_active m) i = Some a" using Cons.prems(3) e by simp
    have i: "i \<notin> fst ` set es" using Cons.prems(2) e by simp
    show ?case
    proof (cases "i \<in> set ids")
      case True
      then have "{(j, b). (j, b) \<in> set (e # es) \<and> j \<notin> set ids} = {(j, b). (j, b) \<in> set es \<and> j \<notin> set ids}" by (auto simp: e)
      moreover have "foldl (\<lambda>m (i, a). if i \<in> set ids then m else begin_draining g a (map_of previous i) m) m (e # es)
          = foldl (\<lambda>m (i, a). if i \<in> set ids then m else begin_draining g a (map_of previous i) m) m es"
        using True by (simp add: e)
      moreover have "distinct (map fst es)" "\<And>i a. (i, a) \<in> set es \<Longrightarrow> map_of (mm_active m) i = Some a"
        using Cons.prems(2,3) by simp_all
      ultimately show ?thesis using Cons.IH[OF Cons.prems(1)] by (simp only:)
    next
      case False
      let ?m = "begin_draining g a (map_of previous i) m"
      let ?G = "{(j, b). (j, b) \<in> set es \<and> j \<notin> set ids}"
      have G: "{(j, b). (j, b) \<in> set (e # es) \<and> j \<notin> set ids} = insert (i, a) ?G" using False by (auto simp: e)
      note b = begin_draining_spec[OF Cons.prems(1) a, of g "map_of previous i"]
      have "map_of (mm_active ?m) j = Some c" if "(j, c) \<in> set es" for j c
      proof -
        have "j \<noteq> i" using i that by force
        then show ?thesis using Cons.prems(3)[of j c] that by (simp add: b(2))
      qed
      with Cons.IH[OF b(1)] Cons.prems(2)
      have IH: "manager_ok (foldl (\<lambda>m (i, a). if i \<in> set ids then m else begin_draining g a (map_of previous i) m) ?m es)
          \<and> mm_active (foldl (\<lambda>m (i, a). if i \<in> set ids then m else begin_draining g a (map_of previous i) m) ?m es)
            = filter (\<lambda>e. fst e \<notin> fst ` ?G) (mm_active ?m)
          \<and> served_but (if g \<le> 0 then (\<lambda>e. pv_of (snd e)) ` ?G else {}) ?m
              (foldl (\<lambda>m (i, a). if i \<in> set ids then m else begin_draining g a (map_of previous i) m) ?m es)
          \<and> protocols (drained (foldl (\<lambda>m (i, a). if i \<in> set ids then m else begin_draining g a (map_of previous i) m) ?m es))
            = (if g \<le> 0 then {} else (\<lambda>e. pv_of (snd e)) ` ?G) \<union> protocols (drained ?m)
          \<and> heads (set (drained (foldl (\<lambda>m (i, a). if i \<in> set ids then m else begin_draining g a (map_of previous i) m) ?m es)))
            = (if g \<le> 0 then {} else heads ?G) \<union> heads (set (drained ?m))"
        by simp
      have f: "foldl (\<lambda>m (i, a). if i \<in> set ids then m else begin_draining g a (map_of previous i) m) m (e # es)
          = foldl (\<lambda>m (i, a). if i \<in> set ids then m else begin_draining g a (map_of previous i) m) ?m es"
        using False by (simp add: e)
      have act: "filter (\<lambda>e. fst e \<notin> fst ` ?G) (mm_active ?m) = filter (\<lambda>e. fst e \<notin> fst ` insert (i, a) ?G) (mm_active m)"
        unfolding b(2) map_del_filter by (auto intro: filter_cong)
      show ?thesis unfolding f G using IH act b(4,5) served_but_trans[OF b(3)] by (cases "g \<le> 0") auto
    qed
  qed
  then show "manager_ok m'" "mm_active m' = filter (\<lambda>e. fst e \<notin> fst ` gone) (mm_active m)"
    "served_but (if g \<le> 0 then (\<lambda>e. pv_of (snd e)) ` gone else {}) m m'"
    "protocols (drained m') = (if g \<le> 0 then {} else (\<lambda>e. pv_of (snd e)) ` gone) \<union> protocols (drained m)"
    "heads (set (drained m')) = (if g \<le> 0 then {} else heads gone) \<union> heads (set (drained m))"
    by simp_all
qed

section \<open>Steps that follow the managed modules\<close>

text \<open>Outside the protocol versions \<open>N\<close>: one that is no longer managed is no longer served, nothing else
  changes, and nothing becomes managed.\<close>

definition tracks :: "(string \<times> string) set \<Rightarrow> 'h module_manager \<Rightarrow> 'h module_manager \<Rightarrow> bool" where
  "tracks N m m' \<longleftrightarrow> protocols (managed m') - N \<subseteq> protocols (managed m)
     \<and> (\<forall>p v a. plain_name p \<and> plain_name v \<and> (p, v) \<notin> N \<longrightarrow> serves m' p v a
         = (if (p, v) \<in> protocols (managed m) - protocols (managed m') then None else serves m p v a))"

lemma tracks_refl: "tracks N m m"
  by (simp add: tracks_def)

lemma tracks_trans:
  assumes "tracks N m m1" "tracks N m1 m2" shows "tracks N m m2"
  unfolding tracks_def
proof (intro conjI allI impI)
  show "protocols (managed m2) - N \<subseteq> protocols (managed m)" using assms unfolding tracks_def by blast
  fix p v a assume p: "plain_name p \<and> plain_name v \<and> (p, v) \<notin> N"
  have 1: "serves m1 p v a = (if (p, v) \<in> protocols (managed m) - protocols (managed m1) then None else serves m p v a)"
    and 2: "serves m2 p v a = (if (p, v) \<in> protocols (managed m1) - protocols (managed m2) then None else serves m1 p v a)"
    and 3: "(p, v) \<in> protocols (managed m2) \<Longrightarrow> (p, v) \<in> protocols (managed m1)"
    and 4: "(p, v) \<in> protocols (managed m1) \<Longrightarrow> (p, v) \<in> protocols (managed m)"
    using assms p unfolding tracks_def by blast+
  show "serves m2 p v a = (if (p, v) \<in> protocols (managed m) - protocols (managed m2) then None else serves m p v a)"
    using 1 2 3 4 by (cases "(p, v) \<in> protocols (managed m1)"; cases "(p, v) \<in> protocols (managed m2)") auto
qed

lemma tracks_mono: "tracks N m m' \<Longrightarrow> N \<subseteq> N' \<Longrightarrow> tracks N' m m'"
  unfolding tracks_def by blast

lemma tracks_served:
  "served_but D m m' \<Longrightarrow> protocols (managed m) = protocols (managed m') \<union> D \<Longrightarrow> D \<inter> protocols (managed m') = {} \<Longrightarrow> tracks N m m'"
  unfolding tracks_def served_but_def by auto

lemma managed_inj:
  "manager_ok m \<Longrightarrow> (i, a) \<in> set (managed m) \<Longrightarrow> (j, b) \<in> set (managed m) \<Longrightarrow> pv_of a = pv_of b \<Longrightarrow> i = j \<and> a = b"
  unfolding manager_ok_def modules_ok_def distinct_map inj_on_def by fastforce

lemma managed_key:
  assumes "manager_ok m" "(i, a) \<in> set (managed m)" "(i, b) \<in> set (managed m)" shows "a = b"
proof -
  have "distinct (map fst (managed m))" using assms(1) by (simp add: manager_ok_def modules_ok_def)
  then show ?thesis using assms(2,3) by (metis eq_key_imp_eq_value)
qed

lemma protocols_managed: "protocols (managed m) = protocols (mm_active m) \<union> protocols (drained m)"
  by (auto simp: protocols_def managed_def)

lemma in_protocols: "x \<in> protocols ms \<longleftrightarrow> (\<exists>i a. (i, a) \<in> set ms \<and> x = pv_of a)"
  by (force simp: protocols_def)

lemma drain_unassigned_spec:
  fixes g :: int and ids :: "string list" and previous :: assignment_states
  assumes ok: "manager_ok m"
  defines "m' \<equiv> drain_unassigned g ids previous m"
  shows "manager_ok m'" "mm_active m' = filter (\<lambda>e. fst e \<in> set ids) (mm_active m)" "tracks N m m'"
    "protocols (drained m') \<subseteq> protocols (managed m)"
    "heads (set (drained m')) = (if g \<le> 0 then {} else heads {(i, a). (i, a) \<in> set (mm_active m) \<and> i \<notin> set ids}) \<union> heads (set (drained m))"
proof -
  let ?gone = "{(i, a). (i, a) \<in> set (mm_active m) \<and> i \<notin> set ids}"
  have wf: "wf_map (mm_active m)" using ok by (simp add: manager_ok_def managed_wf)
  have "distinct (map fst (mm_active m))" "\<And>i a. (i, a) \<in> set (mm_active m) \<Longrightarrow> map_of (mm_active m) i = Some a"
    using wf by (simp_all add: wf_map_def)
  note s = drain_fold[OF ok this, where g = g and previous = previous and ids = ids]
  have act: "filter (\<lambda>e. fst e \<notin> fst ` ?gone) (mm_active m) = filter (\<lambda>e. fst e \<in> set ids) (mm_active m)"
    by (rule filter_cong) force+
  show "manager_ok m'" using s(1) by (simp add: m'_def drain_unassigned_def)
  show a': "mm_active m' = filter (\<lambda>e. fst e \<in> set ids) (mm_active m)"
    using s(2) act by (simp add: m'_def drain_unassigned_def)
  have d': "protocols (drained m') = (if g \<le> 0 then {} else (\<lambda>e. pv_of (snd e)) ` ?gone) \<union> protocols (drained m)"
    using s(4) by (simp add: m'_def drain_unassigned_def)
  show "heads (set (drained m')) = (if g \<le> 0 then {} else heads ?gone) \<union> heads (set (drained m))"
    using s(5) by (simp add: m'_def drain_unassigned_def)
  have gone: "(\<lambda>e. pv_of (snd e)) ` ?gone \<subseteq> protocols (managed m)" by (auto simp: protocols_def managed_def)
  then show "protocols (drained m') \<subseteq> protocols (managed m)" unfolding d' by (auto simp: protocols_managed)
  have "protocols (mm_active m) = protocols (mm_active m') \<union> (\<lambda>e. pv_of (snd e)) ` ?gone"
  proof -
    have "set (mm_active m) = set (mm_active m') \<union> ?gone" unfolding a' by auto
    then show ?thesis unfolding protocols_def image_Un[symmetric] by (rule arg_cong)
  qed
  then have all: "protocols (managed m) = protocols (managed m') \<union> (if g \<le> 0 then (\<lambda>e. pv_of (snd e)) ` ?gone else {})"
    unfolding protocols_managed[of m] protocols_managed[of m'] d' by auto
  have "x \<notin> protocols (managed m')" if x: "x \<in> (\<lambda>e. pv_of (snd e)) ` ?gone" and g: "g \<le> 0" for x
  proof
    obtain i a where ia: "(i, a) \<in> set (mm_active m)" "i \<notin> set ids" "x = pv_of a" using x by auto
    assume "x \<in> protocols (managed m')"
    then consider (act) j b where "(j, b) \<in> set (mm_active m)" "j \<in> set ids" "x = pv_of b"
      | (dr) j b where "(j, b) \<in> set (drained m)" "x = pv_of b"
      using g unfolding protocols_managed d' a' by (auto simp: in_protocols)
    then show False
    proof cases
      case act
      then have "j = i" using managed_inj[OF ok, of i a j b] ia by (auto simp: managed_def)
      then show False using act ia by blast
    next
      case dr
      have "j = i" using managed_inj[OF ok, of i a j b] ia dr by (auto simp: managed_def)
      moreover have "fst ` set (mm_active m) \<inter> fst ` set (mm_draining m) = {}"
        using ok by (simp add: manager_ok_def managed_wf)
      moreover have "j \<in> fst ` set (mm_draining m)" using dr(1) by (force simp: drained_def)
      ultimately show False using ia(1) by force
    qed
  qed
  then show "tracks N m m'"
    using s(3) all by (intro tracks_served[where D = "if g \<le> 0 then (\<lambda>e. pv_of (snd e)) ` ?gone else {}"])
      (auto simp: m'_def drain_unassigned_def)
qed

definition nx_pv :: "'h next_module \<Rightarrow> string \<times> string" where
  "nx_pv nx = (nx_protocol nx, nx_version nx)"

lemma same_pv_iff: "same_pv (nx_protocol nx) (nx_version nx) a \<longleftrightarrow> pv_of a = nx_pv nx"
  by (auto simp: same_pv_def pv_of_def nx_pv_def)

lemma drop_conflict_spec:
  fixes nx :: "'h next_module" and m :: "'h module_manager"
  assumes ok: "manager_ok m"
  defines "m' \<equiv> drop_conflict nx m"
  shows "manager_ok m'" "mm_active m' = mm_active m" "tracks N m m'"
    "set (drained m') = {e \<in> set (drained m). pv_of (snd e) = nx_pv nx \<longrightarrow> fst e = nx_assignmentId nx}"
proof -
  have "manager_ok m' \<and> mm_active m' = mm_active m \<and> tracks N m m'
    \<and> set (drained m') = {e \<in> set (drained m). pv_of (snd e) = nx_pv nx \<longrightarrow> fst e = nx_assignmentId nx}"
  proof (cases "find_draining (nx_protocol nx) (nx_version nx) m")
    case None
    then have "\<forall>(i, a)\<in>set (drained m). pv_of a \<noteq> nx_pv nx"
      by (auto simp: find_draining_def find_None_iff same_pv_iff drained_def)
    then show ?thesis using ok None by (auto simp: m'_def drop_conflict_def tracks_refl)
  next
    case (Some dr)
    then obtain i where i: "(i, dr) \<in> set (mm_draining m)" and pv: "pv_of (dr_module dr) = nx_pv nx"
      by (auto simp: find_draining_def find_Some_iff same_pv_iff) (metis in_set_conv_nth snd_conv prod.collapse)
    have wf: "wf_map (mm_draining m)" using ok by (simp add: manager_ok_def managed_wf)
    then have mi: "map_of (mm_draining m) i = Some dr" using i by (simp add: wf_map_def)
    note p = managed_plain[OF ok drained_managed[OF mi]]
    have only: "j = i" if "(j, b) \<in> set (managed m)" "pv_of b = nx_pv nx" for j b
      using managed_inj[OF ok drained_managed[OF mi] that(1)] that(2) pv by auto
    show ?thesis
    proof (cases "i = nx_assignmentId nx")
      case True
      then have "m' = m" using Some p by (simp add: m'_def drop_conflict_def)
      then show ?thesis using ok only True by (fastforce simp: tracks_refl managed_def)
    next
      case False
      have m': "m' = unregister_pv (ac_protocol (dr_module dr)) (ac_version (dr_module dr))
          (m\<lparr>mm_timers := map_del (dr_timer dr) (mm_timers m), mm_draining := map_del i (mm_draining m)\<rparr>)"
        using Some p False mi by (simp add: m'_def drop_conflict_def force_unregister_draining_def cancel_draining_def)
      have dr': "drained m' = map_del i (drained m)" using drained_map_del[of i m] by (simp add: m' unregister_pv_def drained_def)
      have "manager_ok m'" by (rule drop_draining_ok[OF ok mi]) (simp_all add: m' unregister_pv_def)
      moreover have "served_but {nx_pv nx} m m'"
        using served_but_unregister[of "ac_protocol (dr_module dr)" "ac_version (dr_module dr)" m' m] p pv
        by (simp add: m' unregister_pv_def pv_of_def)
      moreover have "protocols (managed m) = protocols (managed m') \<union> {nx_pv nx}" "nx_pv nx \<notin> protocols (managed m')"
      proof -
        have s: "set (managed m') = {e \<in> set (managed m). pv_of (snd e) \<noteq> nx_pv nx}"
        proof -
          have "(j, b) \<in> set (managed m') \<longleftrightarrow> (j, b) \<in> set (managed m) \<and> pv_of b \<noteq> nx_pv nx" for j b
          proof -
            have "i \<notin> fst ` set (mm_active m)" using managed_wf(3)[of m] ok i by (force simp: manager_ok_def)
            then have a: "(j, b) \<in> set (mm_active m) \<Longrightarrow> j \<noteq> i" by force
            have "(j, b) \<in> set (managed m) \<Longrightarrow> pv_of b \<noteq> nx_pv nx \<longleftrightarrow> j \<noteq> i"
              using only managed_key[OF ok drained_managed[OF mi]] pv by metis
            then show ?thesis using a unfolding managed_def dr' by (auto simp: AList.delete_eq m' unregister_pv_def)
          qed
          then show ?thesis by auto
        qed
        show "nx_pv nx \<notin> protocols (managed m')" by (auto simp: in_protocols s)
        show "protocols (managed m) = protocols (managed m') \<union> {nx_pv nx}"
          using drained_managed[OF mi] pv by (force simp: protocols_def s)
      qed
      moreover have "set (drained m') = {e \<in> set (drained m). pv_of (snd e) = nx_pv nx \<longrightarrow> fst e = nx_assignmentId nx}"
      proof -
        have "e \<in> set (drained m) \<Longrightarrow> pv_of (snd e) = nx_pv nx \<longleftrightarrow> fst e = i" for e
          using only[of "fst e" "snd e"] managed_key[OF ok drained_managed[OF mi], of "snd e"] pv by (auto simp: managed_def)
        then show ?thesis using False unfolding dr' map_del_filter by auto
      qed
      moreover have "mm_active m' = mm_active m" by (simp add: m' unregister_pv_def)
      ultimately show ?thesis using tracks_served by blast
    qed
  qed
  then show "manager_ok m'" "mm_active m' = mm_active m" "tracks N m m'"
    "set (drained m') = {e \<in> set (drained m). pv_of (snd e) = nx_pv nx \<longrightarrow> fst e = nx_assignmentId nx}"
    by blast+
qed

section \<open>Activating a module\<close>

definition next_ok :: "'h next_module \<Rightarrow> bool" where
  "next_ok nx \<longleftrightarrow> sv_protocol (nx_module nx) = nx_protocol nx \<and> sv_version (nx_module nx) = nx_version nx
     \<and> plain_pv (nx_pv nx) \<and> distinct (map fst (sv_actions (nx_module nx)))"

definition nx_actions :: "'h next_module \<Rightarrow> string \<Rightarrow> 'h option" where
  "nx_actions nx = map_of (sv_actions (nx_module nx))"

text \<open>The module's protocol version serves its actions, the versions in \<open>gone\<close> serve nothing.\<close>

definition binds :: "'h next_module \<Rightarrow> (string \<times> string) set \<Rightarrow> 'h module_manager \<Rightarrow> 'h module_manager \<Rightarrow> bool" where
  "binds nx gone m m' \<longleftrightarrow> (\<forall>p v a. plain_name p \<and> plain_name v \<longrightarrow>
     serves m' p v a = (if (p, v) = nx_pv nx then nx_actions nx a else if (p, v) \<in> gone then None else serves m p v a))"

lemma entries_of:
  "next_ok nx \<Longrightarrow> plain_name p \<Longrightarrow> plain_name v \<Longrightarrow>
   map_of (module_entries (nx_module nx)) (key_of p v a) = (if (p, v) = nx_pv nx then nx_actions nx a else None)"
  using module_entries_other[of "nx_module nx" p v a] by (auto simp: next_ok_def nx_pv_def plain_pv_def nx_actions_def)

lemma replace_binds:
  assumes "next_ok nx" "mm_registry m' = server_replace (nx_module nx) (mm_registry m)"
  shows "binds nx {} m m'"
  unfolding binds_def
proof (intro allI impI)
  fix p v a assume p: "plain_name p \<and> plain_name v"
  have "prefix (nx_protocol nx @ '':'' @ nx_version nx @ '':'') (key_of p v a) \<longleftrightarrow> (p, v) = nx_pv nx"
    using key_prefix[of "nx_protocol nx" "nx_version nx" p v a] p assms(1) by (auto simp: next_ok_def plain_pv_def nx_pv_def)
  then show "serves m' p v a = (if (p, v) = nx_pv nx then nx_actions nx a else if (p, v) \<in> {} then None else serves m p v a)"
    using assms p server_replace_lookup[of "nx_module nx" "mm_registry m" "key_of p v a"] entries_of[OF assms(1), of p v a]
    by (auto simp: serves_def next_ok_def split: option.split)
qed

lemma register_binds:
  assumes "next_ok nx" "served_but gone m m2" "\<And>a. serves m2 (nx_protocol nx) (nx_version nx) a = None"
    "(r, registry) = server_register (nx_module nx) (mm_registry m2)" "mm_registry m' = registry"
  shows "r = Inr ()" "binds nx gone m m'"
proof -
  have "fst (server_register (nx_module nx) (mm_registry m2)) = Inr ()"
  proof (rule server_register_free)
    show "distinct (map fst (sv_actions (nx_module nx)))" using assms(1) by (simp add: next_ok_def)
    show "map_of (mm_registry m2) k = None" if "k \<in> fst ` set (module_entries (nx_module nx))" for k
      using that assms(1,3) by (auto simp: module_entries_def serves_def next_ok_def)
  qed
  then show r: "r = Inr ()" by (metis assms(4) fst_conv)
  show "binds nx gone m m'" unfolding binds_def
  proof (intro allI impI)
    fix p v a assume p: "plain_name p \<and> plain_name v"
    have d: "distinct (map fst (sv_actions (nx_module nx)))" using assms(1) by (simp add: next_ok_def)
    have "serves m' p v a = (case map_of (module_entries (nx_module nx)) (key_of p v a) of Some h \<Rightarrow> Some h | None \<Rightarrow> serves m2 p v a)"
      using server_register_lookup[OF d, of "mm_registry m2" "key_of p v a"] r assms(5)
      by (simp add: serves_def assms(4)[symmetric] split: option.split)
    then show "serves m' p v a = (if (p, v) = nx_pv nx then nx_actions nx a else if (p, v) \<in> gone then None else serves m p v a)"
      using p entries_of[OF assms(1), of p v a] assms(2,3) by (auto simp: served_but_def nx_pv_def split: option.split)
  qed
qed

definition bound_module :: "active_module option \<Rightarrow> draining_module option \<Rightarrow> active_module option" where
  "bound_module current draining = (case current of Some a \<Rightarrow> Some a | None \<Rightarrow> map_option dr_module draining)"

lemma bind_module_spec:
  fixes nx :: "'h next_module" and m :: "'h module_manager"
  assumes nx: "next_ok nx" and one: "current = None \<or> draining = None"
    and plain: "\<And>a. bound_module current draining = Some a \<Longrightarrow> plain_pv (pv_of a)"
    and free: "(\<exists>a. bound_module current draining = Some a \<and> pv_of a = nx_pv nx) \<or> (\<forall>a. serves m (nx_protocol nx) (nx_version nx) a = None)"
  shows "fst (bind_module nx current draining m) = Inr ()"
    "binds nx (pv_of ` set_option (bound_module current draining)) m (snd (bind_module nx current draining m))"
    "\<exists>registry. snd (bind_module nx current draining m) = m\<lparr>mm_registry := registry\<rparr>"
proof -
  let ?o = "bound_module current draining"
  let ?m2 = "case ?o of None \<Rightarrow> m | Some a \<Rightarrow> unregister_pv (ac_protocol a) (ac_version a) m"
  have eq: "bind_module nx current draining m =
     (if \<exists>a. ?o = Some a \<and> pv_of a = nx_pv nx then (Inr (), m\<lparr>mm_registry := server_replace (nx_module nx) (mm_registry m)\<rparr>)
      else (let (r, registry) = server_register (nx_module nx) (mm_registry ?m2) in (r, ?m2\<lparr>mm_registry := registry\<rparr>)))"
    using one by (cases current; cases draining) (auto simp: bind_module_def bound_module_def same_pv_iff Let_def)
  have "fst (bind_module nx current draining m) = Inr ()
    \<and> binds nx (pv_of ` set_option ?o) m (snd (bind_module nx current draining m))
    \<and> (\<exists>registry. snd (bind_module nx current draining m) = m\<lparr>mm_registry := registry\<rparr>)"
  proof (cases "\<exists>a. ?o = Some a \<and> pv_of a = nx_pv nx")
    case True
    have "binds nx {nx_pv nx} m (m\<lparr>mm_registry := server_replace (nx_module nx) (mm_registry m)\<rparr>)"
      using replace_binds[OF nx, of "m\<lparr>mm_registry := server_replace (nx_module nx) (mm_registry m)\<rparr>" m] by (auto simp: binds_def)
    then show ?thesis using True by (auto simp: eq)
  next
    case False
    have but: "served_but (pv_of ` set_option ?o) m ?m2"
      using plain served_but_unregister[of _ _ ?m2 m] by (cases ?o) (auto simp: served_but_refl pv_of_def)
    have none: "serves ?m2 (nx_protocol nx) (nx_version nx) a = None" for a
      using but free False nx by (auto simp: served_but_def next_ok_def plain_pv_def nx_pv_def)
    obtain r registry where r: "(r, registry) = server_register (nx_module nx) (mm_registry ?m2)" by (metis surj_pair)
    have "r = Inr ()" "binds nx (pv_of ` set_option ?o) m (?m2\<lparr>mm_registry := registry\<rparr>)"
      using register_binds[OF nx but none r, of "?m2\<lparr>mm_registry := registry\<rparr>"] by simp_all
    moreover have "\<exists>registry'. ?m2\<lparr>mm_registry := registry\<rparr> = m\<lparr>mm_registry := registry'\<rparr>"
      by (cases ?o) (auto simp: unregister_pv_def)
    ultimately show ?thesis unfolding eq r[symmetric] using False by auto
  qed
  then show "fst (bind_module nx current draining m) = Inr ()"
    "binds nx (pv_of ` set_option ?o) m (snd (bind_module nx current draining m))"
    "\<exists>registry. snd (bind_module nx current draining m) = m\<lparr>mm_registry := registry\<rparr>"
    by blast+
qed

lemma map_set_entries: "wf_map m \<Longrightarrow> set (map_set i v m) = insert (i, v) {e \<in> set m. fst e \<noteq> i}"
  by (auto simp: map_of_wf_iff[symmetric] split: if_splits)

text \<open>One module takes the place of whatever its assignment had.\<close>

lemma modules_ok_replace:
  assumes ok: "modules_ok ms" and keys: "distinct (map fst ms')" and ms': "set ms' = insert (i, a) {e \<in> set ms. fst e \<noteq> i}"
    and a: "ac_assignmentId a = i" "plain_pv (pv_of a)"
    and clean: "\<And>j b. (j, b) \<in> set ms \<Longrightarrow> pv_of b = pv_of a \<Longrightarrow> j = i"
  shows "modules_ok ms'"
proof -
  have "inj_on (\<lambda>e. pv_of (snd e)) (set ms)" using ok by (simp add: modules_ok_def distinct_map)
  then have "inj_on (\<lambda>e. pv_of (snd e)) (set ms')"
    unfolding ms' using clean by (auto simp: inj_on_def)
  moreover have "distinct ms'" using keys by (simp add: distinct_map)
  ultimately show ?thesis using ok keys a unfolding modules_ok_def ms' distinct_map[of _ ms'] by auto
qed

lemma cancel_draining_spec:
  assumes ok: "manager_ok m" and c: "cancel_draining i m = (draining, m1)"
  shows "manager_ok m1" "mm_active m1 = mm_active m" "drained m1 = filter (\<lambda>e. fst e \<noteq> i) (drained m)"
    "mm_registry m1 = mm_registry m" "draining = map_of (mm_draining m) i"
proof -
  have "manager_ok m1 \<and> mm_active m1 = mm_active m \<and> drained m1 = filter (\<lambda>e. fst e \<noteq> i) (drained m)
    \<and> mm_registry m1 = mm_registry m \<and> draining = map_of (mm_draining m) i"
  proof (cases "map_of (mm_draining m) i")
    case None
    then have "\<forall>e\<in>set (drained m). fst e \<noteq> i" by (force simp: drained_def map_of_eq_None_iff)
    then have "filter (\<lambda>e. fst e \<noteq> i) (drained m) = drained m" by (simp add: filter_id_conv)
    then show ?thesis using c ok None by (auto simp: cancel_draining_def)
  next
    case (Some dr)
    then have m1: "m1 = m\<lparr>mm_timers := map_del (dr_timer dr) (mm_timers m), mm_draining := map_del i (mm_draining m)\<rparr>"
      and "draining = Some dr" using c by (auto simp: cancel_draining_def)
    moreover have "manager_ok m1" by (rule drop_draining_ok[OF ok Some]) (simp_all add: m1)
    moreover have "drained m1 = filter (\<lambda>e. fst e \<noteq> i) (drained m)"
      using drained_map_del[of i m] by (simp add: m1 drained_def map_del_filter)
    ultimately show ?thesis using Some by simp
  qed
  then show "manager_ok m1" "mm_active m1 = mm_active m" "drained m1 = filter (\<lambda>e. fst e \<noteq> i) (drained m)"
    "mm_registry m1 = mm_registry m" "draining = map_of (mm_draining m) i" by blast+
qed

lemma cancelled_module:
  assumes ok: "manager_ok m"
  shows "bound_module (map_of (mm_active m) i) (map_of (mm_draining m) i) = Some a \<longleftrightarrow> (i, a) \<in> set (managed m)"
    "map_of (mm_active m) i = None \<or> map_of (mm_draining m) i = None"
proof -
  have wf: "wf_map (mm_active m)" "wf_map (mm_draining m)" and disj: "fst ` set (mm_active m) \<inter> fst ` set (mm_draining m) = {}"
    using ok by (simp_all add: manager_ok_def managed_wf)
  show one: "map_of (mm_active m) i = None \<or> map_of (mm_draining m) i = None" using disj by (auto simp: map_of_eq_None_iff)
  show "bound_module (map_of (mm_active m) i) (map_of (mm_draining m) i) = Some a \<longleftrightarrow> (i, a) \<in> set (managed m)"
    using wf one by (cases "map_of (mm_active m) i")
      (auto simp: bound_module_def managed_entry map_of_wf_iff[symmetric])
qed

lemma activate_one_spec:
  fixes nx :: "'h next_module" and m :: "'h module_manager" and sts :: assignment_states
  assumes ok: "manager_ok m" and nx: "next_ok nx"
    and clean: "\<forall>j b. (j, b) \<in> set (managed m) \<longrightarrow> pv_of b = nx_pv nx \<longrightarrow> j = nx_assignmentId nx"
    and owned: "nx_pv nx \<in> protocols (managed m) \<or> (\<forall>a. serves m (nx_protocol nx) (nx_version nx) a = None)"
    and run: "activate_one now gen previous nx (m, sts) = (r, m', sts')"
  shows "r = Inr ()" "manager_ok m'"
    "heads (set (mm_active m')) = insert (nx_assignmentId nx, nx_pv nx) {x \<in> heads (set (mm_active m)). fst x \<noteq> nx_assignmentId nx}"
    "drained m' = filter (\<lambda>e. fst e \<noteq> nx_assignmentId nx) (drained m)"
    "binds nx (pv_of ` {a. (nx_assignmentId nx, a) \<in> set (managed m)}) m m'"
proof -
  let ?i = "nx_assignmentId nx"
  note clean = clean[rule_format]
  obtain draining m1 where c: "cancel_draining ?i m = (draining, m1)" by (metis surj_pair)
  note c1 = cancel_draining_spec[OF ok c]
  let ?o = "bound_module (map_of (mm_active m) ?i) draining"
  have o: "?o = Some a \<longleftrightarrow> (?i, a) \<in> set (managed m)" for a using cancelled_module(1)[OF ok, of ?i a] c1(5) by simp
  have oset: "set_option ?o = {a. (?i, a) \<in> set (managed m)}" using o by (auto simp: elem_set)
  have plain: "\<And>a. ?o = Some a \<Longrightarrow> plain_pv (pv_of a)" using o managed_plain[OF ok] by blast
  have free: "(\<exists>a. ?o = Some a \<and> pv_of a = nx_pv nx) \<or> (\<forall>a. serves m1 (nx_protocol nx) (nx_version nx) a = None)"
  proof (cases "nx_pv nx \<in> protocols (managed m)")
    case True
    then obtain j b where "(j, b) \<in> set (managed m)" "nx_pv nx = pv_of b" by (auto simp: in_protocols)
    then show ?thesis using clean[of j b] o[of b] by metis
  next
    case False
    then show ?thesis using owned serves_cong[OF c1(4)] by simp
  qed
  have one: "map_of (mm_active m) ?i = None \<or> draining = None" using cancelled_module(2)[OF ok, of ?i] c1(5) by simp
  note b = bind_module_spec[OF nx one plain free]
  obtain m2 where bm: "bind_module nx (map_of (mm_active m) ?i) draining m1 = (Inr (), m2)" using b(1) by (metis prod.collapse)
  then obtain registry where m2: "m2 = m1\<lparr>mm_registry := registry\<rparr>" using b(3) by auto
  define act where "act = \<lparr>ac_assignmentId = ?i, ac_deploymentId = as_deploymentId (nx_assignment nx),
      ac_declaredVersion = as_declaredVersion (nx_assignment nx), ac_packageId = nx_packageId nx, ac_digest = nx_digest nx,
      ac_protocol = nx_protocol nx, ac_version = nx_version nx, ac_localEntry = nx_localEntry nx,
      ac_generationId = Some gen, ac_preparedAt = Some now,
      ac_activatedAt = Option.bind (map_of previous ?i) rc_activatedAt\<rparr>"
  have r: "r = Inr ()" and m': "m' = m2\<lparr>mm_active := map_set ?i act (mm_active m2)\<rparr>"
    using run by (simp_all add: activate_one_def c bm act_def Let_def split: unit.splits)
  have act: "ac_assignmentId act = ?i" "pv_of act = nx_pv nx" by (simp_all add: act_def pv_of_def nx_pv_def)
  show "r = Inr ()" by (rule r)
  have wf: "wf_map (mm_active m)" using ok by (simp add: manager_ok_def managed_wf)
  have active: "mm_active m' = map_set ?i act (mm_active m)" by (simp add: m' m2 c1)
  show "heads (set (mm_active m')) = insert (?i, nx_pv nx) {x \<in> heads (set (mm_active m)). fst x \<noteq> ?i}"
    unfolding active map_set_entries[OF wf] by (auto simp: heads_def act)
  show drained: "drained m' = filter (\<lambda>e. fst e \<noteq> ?i) (drained m)" using c1(3) by (simp add: m' m2 drained_def)
  have mng: "set (managed m') = insert (?i, act) {e \<in> set (managed m). fst e \<noteq> ?i}"
    unfolding managed_def active drained set_append map_set_entries[OF wf] by auto
  have "modules_ok (managed m')"
  proof (rule modules_ok_replace[OF _ _ mng])
    show "modules_ok (managed m)" using ok by (simp add: manager_ok_def)
    have "distinct (map fst (mm_active m) @ map fst (drained m))"
      using ok by (simp add: manager_ok_def modules_ok_def managed_def)
    then show "distinct (map fst (managed m'))"
      using wf_map_set[OF wf, of ?i act]
      by (auto simp: managed_def active drained wf_map_def distinct_map_filter map_set_entries[OF wf])
  qed (use act nx clean in \<open>auto simp: next_ok_def\<close>)
  moreover have "drain_timers_ok m'" using c1(1) by (simp add: manager_ok_def drain_timers_ok_def m' m2)
  ultimately show "manager_ok m'" by (simp add: manager_ok_def)
  have "binds nx (pv_of ` set_option ?o) m1 m2" using b(2) bm by simp
  moreover have "serves m' = serves m2" "serves m = serves m1" by (rule serves_cong; simp add: m' c1)+
  ultimately show "binds nx (pv_of ` {a. (?i, a) \<in> set (managed m)}) m m'" by (simp add: oset binds_def)
qed

section \<open>Applying a new set of modules\<close>

lemma heads_in: "(i, x) \<in> heads S \<longleftrightarrow> (\<exists>a. (i, a) \<in> S \<and> x = pv_of a)"
  by (force simp: heads_def)

lemma protocols_heads: "protocols ms = snd ` heads (set ms)"
  by (force simp: protocols_def heads_def)

lemma heads_managed: "heads (set (managed m)) = heads (set (mm_active m)) \<union> heads (set (drained m))"
  by (simp add: managed_def)

lemma drop_conflicts_spec:
  fixes nxs :: "'h next_module list" and m :: "'h module_manager"
  assumes "manager_ok m"
  defines "m' \<equiv> foldl (\<lambda>m nx. drop_conflict nx m) m nxs"
  shows "manager_ok m'" "mm_active m' = mm_active m" "tracks N m m'"
    "set (drained m') = {e \<in> set (drained m). \<forall>nx\<in>set nxs. pv_of (snd e) = nx_pv nx \<longrightarrow> fst e = nx_assignmentId nx}"
proof -
  have "manager_ok m' \<and> mm_active m' = mm_active m \<and> tracks N m m'
    \<and> set (drained m') = {e \<in> set (drained m). \<forall>nx\<in>set nxs. pv_of (snd e) = nx_pv nx \<longrightarrow> fst e = nx_assignmentId nx}"
    using assms(1) unfolding m'_def
  proof (induction nxs arbitrary: m)
    case Nil
    then show ?case by (simp add: tracks_refl)
  next
    case (Cons nx nxs)
    note d = drop_conflict_spec[OF Cons.prems, where nx = nx]
    show ?case using Cons.IH[OF d(1)] d(2,4) tracks_trans[OF d(3)[where N = N]] by auto
  qed
  then show "manager_ok m'" "mm_active m' = mm_active m" "tracks N m m'"
    "set (drained m') = {e \<in> set (drained m). \<forall>nx\<in>set nxs. pv_of (snd e) = nx_pv nx \<longrightarrow> fst e = nx_assignmentId nx}"
    by blast+
qed

text \<open>A module can be activated when its protocol version is either its own assignment's or free.\<close>

definition ready_for :: "'h next_module \<Rightarrow> 'h module_manager \<Rightarrow> bool" where
  "ready_for nx m \<longleftrightarrow> (\<forall>j. (j, nx_pv nx) \<in> heads (set (managed m)) \<longrightarrow> j = nx_assignmentId nx)
     \<and> (nx_pv nx \<in> protocols (managed m) \<or> (\<forall>a. serves m (nx_protocol nx) (nx_version nx) a = None))"

lemma replaced_owner:
  assumes uniq: "\<And>i j x. (i, x) \<in> H \<Longrightarrow> (j, x) \<in> H \<Longrightarrow> i = j" and ne: "x \<noteq> y"
  shows "(i, x) \<in> H \<longleftrightarrow> x \<in> snd ` H - snd ` insert (i, y) {h \<in> H. fst h \<noteq> i}"
proof
  assume x: "(i, x) \<in> H"
  have "x \<notin> snd ` {h \<in> H. fst h \<noteq> i}"
  proof
    assume "x \<in> snd ` {h \<in> H. fst h \<noteq> i}"
    then obtain j where "(j, x) \<in> H" "j \<noteq> i" by auto
    then show False using uniq x by blast
  qed
  moreover have "x \<in> snd ` H" using x by (metis imageI snd_conv)
  ultimately show "x \<in> snd ` H - snd ` insert (i, y) {h \<in> H. fst h \<noteq> i}" using ne by simp
next
  assume "x \<in> snd ` H - snd ` insert (i, y) {h \<in> H. fst h \<noteq> i}"
  then show "(i, x) \<in> H" by force
qed

lemma activate_one_ready:
  fixes nx :: "'h next_module" and m :: "'h module_manager" and sts :: assignment_states
  assumes ok: "manager_ok m" and nx: "next_ok nx" and ready: "ready_for nx m"
    and run: "activate_one now gen previous nx (m, sts) = (r, m', sts')"
  shows "r = Inr ()" "manager_ok m'"
    "heads (set (mm_active m')) = insert (nx_assignmentId nx, nx_pv nx) {x \<in> heads (set (mm_active m)). fst x \<noteq> nx_assignmentId nx}"
    "heads (set (drained m')) = {x \<in> heads (set (drained m)). fst x \<noteq> nx_assignmentId nx}"
    "tracks {nx_pv nx} m m'" "\<And>a. serves m' (nx_protocol nx) (nx_version nx) a = nx_actions nx a"
    "\<And>nx'. ready_for nx' m \<Longrightarrow> nx_assignmentId nx' \<noteq> nx_assignmentId nx \<Longrightarrow> nx_pv nx' \<noteq> nx_pv nx \<Longrightarrow>
       plain_pv (nx_pv nx') \<Longrightarrow> ready_for nx' m'"
proof -
  let ?i = "nx_assignmentId nx"
  have clean: "\<forall>j b. (j, b) \<in> set (managed m) \<longrightarrow> pv_of b = nx_pv nx \<longrightarrow> j = ?i"
    and owned: "nx_pv nx \<in> protocols (managed m) \<or> (\<forall>a. serves m (nx_protocol nx) (nx_version nx) a = None)"
    using ready unfolding ready_for_def heads_in by metis+
  note s = activate_one_spec[OF ok nx clean owned run]
  show "r = Inr ()" "manager_ok m'"
    and active: "heads (set (mm_active m')) = insert (?i, nx_pv nx) {x \<in> heads (set (mm_active m)). fst x \<noteq> ?i}"
    using s by blast+
  show drained: "heads (set (drained m')) = {x \<in> heads (set (drained m)). fst x \<noteq> ?i}"
    unfolding s(4) by (auto simp: heads_def)
  have plain: "plain_name (nx_protocol nx)" "plain_name (nx_version nx)" using nx by (auto simp: next_ok_def plain_pv_def nx_pv_def)
  have mng: "heads (set (managed m')) = insert (?i, nx_pv nx) {x \<in> heads (set (managed m)). fst x \<noteq> ?i}"
    unfolding heads_managed active drained by auto
  define own where "own = {x. (?i, x) \<in> heads (set (managed m))}"
  have own: "pv_of ` {a. (?i, a) \<in> set (managed m)} = own" by (auto simp: own_def heads_in)
  have b: "plain_name p \<Longrightarrow> plain_name v \<Longrightarrow>
     serves m' p v a = (if (p, v) = nx_pv nx then nx_actions nx a else if (p, v) \<in> own then None else serves m p v a)" for p v a
    using s(5) unfolding binds_def own by blast
  then show serve: "serves m' (nx_protocol nx) (nx_version nx) a = nx_actions nx a" for a using plain by (simp add: nx_pv_def)
  have uniq: "i = j" if "(i, x) \<in> heads (set (managed m))" "(j, x) \<in> heads (set (managed m))" for i j x
    using that managed_inj[OF ok] by (auto simp: heads_in)
  have gone: "x \<in> own \<longleftrightarrow> x \<in> protocols (managed m) - protocols (managed m')" if "x \<noteq> nx_pv nx" for x
    unfolding protocols_heads mng own_def mem_Collect_eq using uniq that by (rule replaced_owner)
  have sub: "protocols (managed m') - {nx_pv nx} \<subseteq> protocols (managed m)" unfolding protocols_heads mng by auto
  show "tracks {nx_pv nx} m m'"
    unfolding tracks_def using sub b gone by auto
  show "ready_for nx' m'" if r: "ready_for nx' m" and ne: "nx_assignmentId nx' \<noteq> ?i" "nx_pv nx' \<noteq> nx_pv nx" "plain_pv (nx_pv nx')" for nx'
  proof -
    have "nx_pv nx' \<notin> own" using r ne by (auto simp: ready_for_def own_def)
    moreover have "serves m' (nx_protocol nx') (nx_version nx') a
        = (if nx_pv nx' \<in> own then None else serves m (nx_protocol nx') (nx_version nx') a)" for a
      using b[of "nx_protocol nx'" "nx_version nx'" a] ne by (auto simp: plain_pv_def nx_pv_def)
    ultimately show ?thesis using r ne gone[of "nx_pv nx'"] unfolding ready_for_def mng by auto
  qed
qed

lemma activate_all_spec:
  fixes nxs :: "'h next_module list" and m :: "'h module_manager" and sts :: assignment_states
  assumes "manager_ok m" "\<forall>nx\<in>set nxs. next_ok nx \<and> ready_for nx m"
    "distinct (map nx_assignmentId nxs)" "distinct (map nx_pv nxs)"
    "activate_all now gen previous nxs (m, sts) = (r, m', sts')"
  shows "r = Inr () \<and> manager_ok m'
    \<and> heads (set (mm_active m')) = (\<lambda>nx. (nx_assignmentId nx, nx_pv nx)) ` set nxs
        \<union> {x \<in> heads (set (mm_active m)). fst x \<notin> nx_assignmentId ` set nxs}
    \<and> heads (set (drained m')) = {x \<in> heads (set (drained m)). fst x \<notin> nx_assignmentId ` set nxs}
    \<and> tracks (nx_pv ` set nxs) m m'
    \<and> (\<forall>nx\<in>set nxs. \<forall>a. serves m' (nx_protocol nx) (nx_version nx) a = nx_actions nx a)"
  using assms
proof (induction nxs arbitrary: m sts)
  case Nil
  then show ?case by (auto simp: tracks_refl)
next
  case (Cons nx nxs)
  obtain r1 m1 sts1 where one: "activate_one now gen previous nx (m, sts) = (r1, m1, sts1)" by (metis prod_cases3)
  have nx: "next_ok nx" "ready_for nx m" using Cons.prems(2) by simp_all
  note s = activate_one_ready[OF Cons.prems(1) nx one]
  have new: "nx_assignmentId nx \<notin> nx_assignmentId ` set nxs" "nx_pv nx \<notin> nx_pv ` set nxs" using Cons.prems(3,4) by auto
  have "next_ok nx' \<and> ready_for nx' m1" if "nx' \<in> set nxs" for nx'
  proof -
    have "nx_assignmentId nx' \<noteq> nx_assignmentId nx" "nx_pv nx' \<noteq> nx_pv nx" using that new by (metis imageI)+
    then show ?thesis using Cons.prems(2) that s(7)[of nx'] by (simp add: next_ok_def)
  qed
  moreover have "activate_all now gen previous nxs (m1, sts1) = (r, m', sts')"
    using Cons.prems(5) one s(1) by (simp split: unit.splits)
  ultimately have IH: "r = Inr ()" "manager_ok m'"
    "heads (set (mm_active m')) = (\<lambda>nx. (nx_assignmentId nx, nx_pv nx)) ` set nxs
        \<union> {x \<in> heads (set (mm_active m1)). fst x \<notin> nx_assignmentId ` set nxs}"
    "heads (set (drained m')) = {x \<in> heads (set (drained m1)). fst x \<notin> nx_assignmentId ` set nxs}"
    "tracks (nx_pv ` set nxs) m1 m'"
    "\<And>nx a. nx \<in> set nxs \<Longrightarrow> serves m' (nx_protocol nx) (nx_version nx) a = nx_actions nx a"
    using Cons.IH[OF s(2), of sts1] Cons.prems(3,4) by auto
  have "nx_pv nx \<in> protocols (managed m')"
    unfolding protocols_heads heads_managed IH(3) s(3) using new by force
  then have "serves m' (nx_protocol nx) (nx_version nx) a = nx_actions nx a" for a
    using IH(5) s(6) new nx(1) by (auto simp: tracks_def next_ok_def plain_pv_def nx_pv_def)
  moreover have "tracks (nx_pv ` set (nx # nxs)) m m'"
    using tracks_trans tracks_mono[OF s(5), of "nx_pv ` set (nx # nxs)"] tracks_mono[OF IH(5), of "nx_pv ` set (nx # nxs)"] by auto
  moreover have "heads (set (mm_active m')) = (\<lambda>nx. (nx_assignmentId nx, nx_pv nx)) ` set (nx # nxs)
        \<union> {x \<in> heads (set (mm_active m)). fst x \<notin> nx_assignmentId ` set (nx # nxs)}"
    unfolding IH(3) s(3) using new by auto
  moreover have "heads (set (drained m')) = {x \<in> heads (set (drained m)). fst x \<notin> nx_assignmentId ` set (nx # nxs)}"
    unfolding IH(4) s(4) by auto
  ultimately show ?case using IH by auto
qed

text \<open>An assignment that stays has the new module's protocol version only if it is the module's own.\<close>

definition no_handover :: "'h next_module list \<Rightarrow> 'h module_manager \<Rightarrow> bool" where
  "no_handover nxs m \<longleftrightarrow> (\<forall>nx\<in>set nxs. \<forall>(j, a)\<in>set (mm_active m).
     pv_of a = nx_pv nx \<and> j \<in> nx_assignmentId ` set nxs \<longrightarrow> j = nx_assignmentId nx)"

text \<open>Nobody but the manager registers the protocol versions of the new modules.\<close>

definition no_foreign :: "'h next_module list \<Rightarrow> 'h module_manager \<Rightarrow> bool" where
  "no_foreign nxs m \<longleftrightarrow> (\<forall>nx\<in>set nxs. nx_pv nx \<notin> protocols (managed m)
     \<longrightarrow> (\<forall>a. serves m (nx_protocol nx) (nx_version nx) a = None))"

lemma ready_after_drops:
  assumes ok: "manager_ok m" and nx: "next_ok nx" "nx \<in> set nxs" and h: "no_handover nxs m" and f: "no_foreign nxs m"
    and a1: "mm_active m1 = filter (\<lambda>e. fst e \<in> nx_assignmentId ` set nxs) (mm_active m)" and t: "tracks {} m m1"
    and d1: "\<And>e. e \<in> set (drained m1) \<Longrightarrow> pv_of (snd e) = nx_pv nx \<Longrightarrow> fst e = nx_assignmentId nx"
  shows "ready_for nx m1"
  unfolding ready_for_def
proof (intro conjI allI impI)
  fix j assume "(j, nx_pv nx) \<in> heads (set (managed m1))"
  then obtain a where a: "pv_of a = nx_pv nx" and j: "(j, a) \<in> set (mm_active m1) \<or> (j, a) \<in> set (drained m1)"
    by (auto simp: heads_in managed_def)
  from j show "j = nx_assignmentId nx"
  proof
    assume "(j, a) \<in> set (mm_active m1)"
    then have "(j, a) \<in> set (mm_active m)" "j \<in> nx_assignmentId ` set nxs" by (auto simp: a1)
    then show ?thesis using h nx(2) a unfolding no_handover_def by blast
  qed (use d1[of "(j, a)"] a in simp)
next
  have "plain_name (nx_protocol nx)" "plain_name (nx_version nx)" using nx(1) by (auto simp: next_ok_def plain_pv_def nx_pv_def)
  then have "serves m1 (nx_protocol nx) (nx_version nx) a
      = (if nx_pv nx \<in> protocols (managed m) - protocols (managed m1) then None else serves m (nx_protocol nx) (nx_version nx) a)" for a
    using t by (simp add: tracks_def nx_pv_def)
  then show "nx_pv nx \<in> protocols (managed m1) \<or> (\<forall>a. serves m1 (nx_protocol nx) (nx_version nx) a = None)"
    using f nx(2) by (auto simp: no_foreign_def)
qed

lemma commit_modules_spec:
  fixes nxs :: "'h next_module list" and m :: "'h module_manager" and sts :: assignment_states and g :: int
  assumes ok: "manager_ok m" and nx: "\<forall>nx\<in>set nxs. next_ok nx"
    and d: "distinct (map nx_assignmentId nxs)" "distinct (map nx_pv nxs)"
    and h: "no_handover nxs m" and f: "no_foreign nxs m"
    and run: "commit_modules now g gen previous nxs (m, sts) = (r, m', sts')"
  shows "r = Inr ()" "manager_ok m'"
    "heads (set (mm_active m')) = (\<lambda>nx. (nx_assignmentId nx, nx_pv nx)) ` set nxs"
    "heads (set (drained m')) = {x \<in> heads (set (drained m)) \<union> (if g \<le> 0 then {} else heads (set (mm_active m))).
       fst x \<notin> nx_assignmentId ` set nxs \<and> snd x \<notin> nx_pv ` set nxs}"
    "tracks (nx_pv ` set nxs) m m'"
    "\<forall>nx\<in>set nxs. \<forall>a. serves m' (nx_protocol nx) (nx_version nx) a = nx_actions nx a"
proof -
  let ?m1 = "drain_unassigned g (map nx_assignmentId nxs) previous m"
  let ?m2 = "foldl (\<lambda>m nx. drop_conflict nx m) ?m1 nxs"
  note s1 = drain_unassigned_spec[OF ok, where g = g and ids = "map nx_assignmentId nxs" and previous = previous]
  note s2 = drop_conflicts_spec[OF s1(1), where nxs = nxs]
  have a2: "mm_active ?m2 = filter (\<lambda>e. fst e \<in> nx_assignmentId ` set nxs) (mm_active m)" using s1(2) s2(2) by simp
  have t: "tracks N m ?m2" for N using tracks_trans s1(3) s2(3) by blast
  have ready: "\<forall>nx\<in>set nxs. next_ok nx \<and> ready_for nx ?m2"
    using ready_after_drops[OF ok _ _ h f a2 t] nx s2(4) by auto
  have "activate_all now gen previous nxs (?m2, sts) = (r, m', sts')" using run by (simp add: commit_modules_def)
  note s3 = activate_all_spec[OF s2(1) ready d this]
  show "r = Inr ()" "manager_ok m'" "\<forall>nx\<in>set nxs. \<forall>a. serves m' (nx_protocol nx) (nx_version nx) a = nx_actions nx a"
    using s3 by blast+
  show "tracks (nx_pv ` set nxs) m m'" using tracks_trans[OF t] s3 by blast
  show "heads (set (mm_active m')) = (\<lambda>nx. (nx_assignmentId nx, nx_pv nx)) ` set nxs"
    using s3 unfolding a2 by (auto simp: heads_def)
  have uniq: "snd x \<notin> nx_pv ` set nxs"
    if "x \<in> heads (set (drained ?m2))" "fst x \<notin> nx_assignmentId ` set nxs" for x
    using that s2(4) by (auto simp: heads_def)
  have "heads (set (drained m')) = {x \<in> heads (set (drained ?m2)). fst x \<notin> nx_assignmentId ` set nxs}" using s3 by blast
  also have "\<dots> = {x \<in> heads (set (drained ?m1)). fst x \<notin> nx_assignmentId ` set nxs \<and> snd x \<notin> nx_pv ` set nxs}"
    using uniq unfolding s2(4) by (auto simp: heads_def)
  also have "\<dots> = {x \<in> heads (set (drained m)) \<union> (if g \<le> 0 then {} else heads (set (mm_active m))).
       fst x \<notin> nx_assignmentId ` set nxs \<and> snd x \<notin> nx_pv ` set nxs}"
    unfolding s1(5) by (auto simp: heads_def)
  finally show "heads (set (drained m')) = {x \<in> heads (set (drained m)) \<union> (if g \<le> 0 then {} else heads (set (mm_active m))).
       fst x \<notin> nx_assignmentId ` set nxs \<and> snd x \<notin> nx_pv ` set nxs}" .
qed

section \<open>What preparation guarantees\<close>

lemma prepare_one_ok:
  assumes "prepare_one d now artifacts a owners sts = (Inr nx, sts')"
  shows "nx_assignmentId nx = as_assignmentId a" "nx_packageId nx = build_package_id (nx_protocol nx) (nx_version nx)"
    "sv_protocol (nx_module nx) = nx_protocol nx" "sv_version (nx_module nx) = nx_version nx"
    "\<exists>e. md_load d e = Inr (nx_module nx)"
    "\<exists>s. as_serviceModule a = Some s \<and> nx_protocol nx = pk_protocol (sm_protocolPackage s) \<and> nx_version nx = pk_version (sm_protocolPackage s)
       \<and> set (pk_actions (sm_protocolPackage s)) = fst ` set (sv_actions (nx_module nx))
       \<and> pk_packageId (sm_protocolPackage s) = nx_packageId nx"
    "map_of owners (nx_packageId nx) \<in> {None, Some [], Some (as_assignmentId a)}"
proof -
  obtain localEntry md p where l: "md_load d localEntry = Inr md" and v: "validate_bound_package d a md = Inr p"
    and own: "\<not> (truthy (map_of owners (pk_packageId p)) \<and> map_of owners (pk_packageId p) \<noteq> Some (as_assignmentId a))"
    and nx: "nx = \<lparr>nx_assignmentId = as_assignmentId a, nx_packageId = pk_packageId p, nx_digest = pk_digest p,
      nx_protocol = pk_protocol p, nx_version = pk_version p, nx_localEntry = localEntry, nx_module = md, nx_assignment = a\<rparr>"
    using assms unfolding prepare_one_def by (auto split: sum.splits if_splits)
  obtain s where s: "as_serviceModule a = Some s" "p = sm_protocolPackage s" "verify_package_digest d p = Inr ()"
    "sv_protocol md = pk_protocol p" "sv_version md = pk_version p" "sort_strings (pk_actions p) = sort_strings (map fst (sv_actions md))"
    using v unfolding validate_bound_package_def by (auto simp: Let_def split: option.splits sum.splits if_splits unit.splits)
  have "set (pk_actions p) = set (map fst (sv_actions md))" using arg_cong[OF s(6), of set] by (simp add: sort_strings_def)
  moreover have "pk_packageId p = build_package_id (pk_protocol p) (pk_version p)"
    using s(3) by (simp add: verify_package_digest_def Let_def split: if_splits)
  ultimately show "nx_assignmentId nx = as_assignmentId a" "nx_packageId nx = build_package_id (nx_protocol nx) (nx_version nx)"
    "sv_protocol (nx_module nx) = nx_protocol nx" "sv_version (nx_module nx) = nx_version nx"
    "\<exists>e. md_load d e = Inr (nx_module nx)"
    "\<exists>s. as_serviceModule a = Some s \<and> nx_protocol nx = pk_protocol (sm_protocolPackage s) \<and> nx_version nx = pk_version (sm_protocolPackage s)
       \<and> set (pk_actions (sm_protocolPackage s)) = fst ` set (sv_actions (nx_module nx))
       \<and> pk_packageId (sm_protocolPackage s) = nx_packageId nx"
    "map_of owners (nx_packageId nx) \<in> {None, Some [], Some (as_assignmentId a)}"
    using l s own by (auto simp: nx truthy_def split: option.splits)
qed

definition service_assignments :: "assignment list \<Rightarrow> assignment list" where
  "service_assignments as = filter (\<lambda>a. as_deploymentKind a = ServiceModuleKind) as"

lemma prepare_assignments_ok:
  assumes "prepare_assignments d now artifacts as owners sts = (Inr nxs, sts')"
    "distinct (map as_assignmentId (service_assignments as))" "[] \<notin> as_assignmentId ` set (service_assignments as)"
    "ran (map_of owners) \<inter> as_assignmentId ` set (service_assignments as) = {}" "[] \<notin> ran (map_of owners)"
  shows "list_all2 (\<lambda>a nx. \<exists>owners sts sts'. prepare_one d now artifacts a owners sts = (Inr nx, sts')) (service_assignments as) nxs
    \<and> distinct (map nx_packageId nxs) \<and> (\<forall>nx\<in>set nxs. map_of owners (nx_packageId nx) = None)"
  using assms
proof (induction as arbitrary: owners sts nxs)
  case Nil
  then show ?case by (simp add: service_assignments_def)
next
  case (Cons a as)
  show ?case
  proof (cases "as_deploymentKind a = ServiceModuleKind")
    case False
    then show ?thesis using Cons by (simp add: service_assignments_def)
  next
    case True
    then have sv: "service_assignments (a # as) = a # service_assignments as" by (simp add: service_assignments_def)
    obtain nm sts1 nms where sm: "as_serviceModule a \<noteq> None" and one: "prepare_one d now artifacts a owners sts = (Inr nm, sts1)"
      and rest: "prepare_assignments d now artifacts as (map_set (nx_packageId nm) (as_assignmentId a) owners) sts1 = (Inr nms, sts')"
      and nxs: "nxs = nm # nms"
      using Cons.prems(1) True by (auto split: if_splits prod.splits sum.splits)
    note o = prepare_one_ok[OF one]
    have fresh: "map_of owners (nx_packageId nm) = None"
      using o(7) Cons.prems(4,5) by (auto simp: sv ran_def)
    have ran: "ran (map_of (map_set (nx_packageId nm) (as_assignmentId a) owners)) = insert (as_assignmentId a) (ran (map_of owners))"
      using fresh by (simp add: ran_map_upd)
    have "list_all2 (\<lambda>a nx. \<exists>owners sts sts'. prepare_one d now artifacts a owners sts = (Inr nx, sts')) (service_assignments as) nms
      \<and> distinct (map nx_packageId nms)
      \<and> (\<forall>nx\<in>set nms. map_of (map_set (nx_packageId nm) (as_assignmentId a) owners) (nx_packageId nx) = None)"
      using Cons.IH[OF rest] Cons.prems(2-5) unfolding ran sv by auto
    then show ?thesis using one fresh unfolding sv nxs by (auto split: if_splits)
  qed
qed

section \<open>Reported packages and recorded states\<close>

definition packages_ok :: "'h module_manager \<Rightarrow> bool" where
  "packages_ok m \<longleftrightarrow> (\<forall>(i, a)\<in>set (mm_active m). ac_packageId a = build_package_id (ac_protocol a) (ac_version a))"

definition recorded_ready :: "int \<Rightarrow> string \<Rightarrow> string set \<Rightarrow> assignment_states \<Rightarrow> string \<Rightarrow> state_recorder option" where
  "recorded_ready now gen ids sts j = (if j \<in> ids
     then map_option (\<lambda>st. st\<lparr>rc_state := StReady, rc_generationId := Some gen, rc_preparedAt := Some now\<rparr>) (map_of sts j)
     else map_of sts j)"

lemma map_set_subset: "set (map_set k v m) \<subseteq> insert (k, v) (set m)"
  by (induction m) auto

lemma cancel_draining_active: "cancel_draining i m = (dr, m1) \<Longrightarrow> mm_active m1 = mm_active m"
  by (auto simp: cancel_draining_def split: option.splits)

lemma bind_module_active: "bind_module nx current draining m = (r, m1) \<Longrightarrow> mm_active m1 = mm_active m"
  by (auto simp: bind_module_def Let_def unregister_pv_def split: if_splits option.splits prod.splits)

lemma activate_one_records:
  assumes run: "activate_one now gen previous nx (m, sts) = (Inr (), m', sts')"
    and ok: "packages_ok m" "nx_packageId nx = build_package_id (nx_protocol nx) (nx_version nx)"
  shows "packages_ok m'" "map_of sts' j = recorded_ready now gen {nx_assignmentId nx} sts j"
proof -
  let ?i = "nx_assignmentId nx"
  obtain draining m1 where c: "cancel_draining ?i m = (draining, m1)" by (metis surj_pair)
  obtain r m2 where b: "bind_module nx (map_of (mm_active m) ?i) draining m1 = (r, m2)" by (metis surj_pair)
  have a: "mm_active m2 = mm_active m" using cancel_draining_active[OF c] bind_module_active[OF b] by simp
  have r: "r = Inr ()" using run by (cases r) (simp_all add: activate_one_def c b Let_def)
  define act where "act = \<lparr>ac_assignmentId = ?i, ac_deploymentId = as_deploymentId (nx_assignment nx),
      ac_declaredVersion = as_declaredVersion (nx_assignment nx), ac_packageId = nx_packageId nx, ac_digest = nx_digest nx,
      ac_protocol = nx_protocol nx, ac_version = nx_version nx, ac_localEntry = nx_localEntry nx,
      ac_generationId = Some gen, ac_preparedAt = Some now,
      ac_activatedAt = Option.bind (map_of previous ?i) rc_activatedAt\<rparr>"
  have m': "m' = m2\<lparr>mm_active := map_set ?i act (mm_active m2)\<rparr>"
    and s': "sts' = (case map_of sts ?i of None \<Rightarrow> sts
                | Some st \<Rightarrow> map_set ?i (st\<lparr>rc_state := StReady, rc_generationId := Some gen, rc_preparedAt := Some now\<rparr>) sts)"
    using run r by (simp_all add: activate_one_def c b act_def Let_def split: unit.splits)
  have "set (mm_active m') \<subseteq> insert (?i, act) (set (mm_active m))" using map_set_subset by (simp add: m' a)
  then show "packages_ok m'" using ok by (fastforce simp: packages_ok_def act_def)
  show "map_of sts' j = recorded_ready now gen {?i} sts j"
    by (auto simp: s' recorded_ready_def split: option.splits)
qed

lemma activate_all_records:
  assumes "activate_all now gen previous nxs (m, sts) = (Inr (), m', sts')"
    and "packages_ok m" "\<forall>nx\<in>set nxs. nx_packageId nx = build_package_id (nx_protocol nx) (nx_version nx)"
  shows "packages_ok m' \<and> (\<forall>j. map_of sts' j = recorded_ready now gen (nx_assignmentId ` set nxs) sts j)"
  using assms
proof (induction nxs arbitrary: m sts)
  case Nil
  then show ?case by (simp add: recorded_ready_def)
next
  case (Cons nx nxs)
  obtain r1 m1 sts1 where one: "activate_one now gen previous nx (m, sts) = (r1, m1, sts1)" by (metis prod_cases3)
  have "r1 = Inr () \<and> activate_all now gen previous nxs (m1, sts1) = (Inr (), m', sts')"
    using Cons.prems(1) one by (cases r1) (simp_all split: unit.splits)
  then have r1: "r1 = Inr ()" and rest: "activate_all now gen previous nxs (m1, sts1) = (Inr (), m', sts')" by simp_all
  note s = activate_one_records[OF one[unfolded r1] Cons.prems(2)]
  have "packages_ok m1" "\<And>j. map_of sts1 j = recorded_ready now gen {nx_assignmentId nx} sts j" using s Cons.prems(3) by auto
  then show ?case using Cons.IH[OF rest] Cons.prems(3) by (simp add: recorded_ready_def option.map_comp comp_def)
qed

lemma commit_records:
  assumes ok: "manager_ok m" "packages_ok m" "\<forall>nx\<in>set nxs. nx_packageId nx = build_package_id (nx_protocol nx) (nx_version nx)"
    and run: "commit_modules now g gen previous nxs (m, sts) = (Inr (), m', sts')"
  shows "packages_ok m' \<and> (\<forall>j. map_of sts' j = recorded_ready now gen (nx_assignmentId ` set nxs) sts j)"
proof -
  let ?m1 = "drain_unassigned g (map nx_assignmentId nxs) previous m"
  let ?m2 = "foldl (\<lambda>m nx. drop_conflict nx m) ?m1 nxs"
  note s1 = drain_unassigned_spec[OF ok(1), where g = g and ids = "map nx_assignmentId nxs" and previous = previous]
  note s2 = drop_conflicts_spec[OF s1(1), where nxs = nxs]
  have "packages_ok ?m2" using ok(2) unfolding packages_ok_def s2(2) s1(2) by auto
  moreover have "activate_all now gen previous nxs (?m2, sts) = (Inr (), m', sts')" using run by (simp add: commit_modules_def)
  ultimately show ?thesis using activate_all_records ok(3) by blast
qed

lemma prepare_keeps_states:
  "prepare_assignments d now artifacts as owners sts = (Inr nxs, sts') \<Longrightarrow> sts' = sts"
proof (induction as arbitrary: owners sts nxs)
  case (Cons a as)
  have one: "prepare_one d now artifacts a owners sts = (Inr nx, sts1) \<Longrightarrow> sts1 = sts" for nx sts1
    unfolding prepare_one_def by (auto split: sum.splits if_splits)
  show ?case using Cons one by (auto split: if_splits prod.splits sum.splits)
qed simp

end
