(* ===== verification/Module_Claims.thy ===== *)
theory Module_Claims
  imports Module_Props
begin

text \<open>The claims about the service modules of a host: which protocol versions are served after a change of
  assignments, when a draining one stops, and what a failed change reports.\<close>

section \<open>A change of assignments\<close>

definition package_pv :: "assignment \<Rightarrow> string \<times> string" where
  "package_pv a = (case as_serviceModule a of None \<Rightarrow> ([], [])
     | Some s \<Rightarrow> (pk_protocol (sm_protocolPackage s), pk_version (sm_protocolPackage s)))"

definition package_actions :: "assignment \<Rightarrow> string list" where
  "package_actions a = (case as_serviceModule a of None \<Rightarrow> [] | Some s \<Rightarrow> pk_actions (sm_protocolPackage s))"

definition assigned_ids :: "assignment list \<Rightarrow> string set" where
  "assigned_ids as = as_assignmentId ` set (service_assignments as)"

text \<open>What the change relies on: the assignments have identifiers of their own, protocol names without a
  colon, no assignment that stays hands its protocol version to another one, and nobody else
  registers these versions.\<close>

definition change_ok :: "assignment list \<Rightarrow> 'h module_manager \<Rightarrow> bool" where
  "change_ok as m \<longleftrightarrow> distinct (map as_assignmentId (service_assignments as)) \<and> [] \<notin> assigned_ids as
     \<and> (\<forall>a\<in>set (service_assignments as). plain_pv (package_pv a)
          \<and> (\<forall>(j, b)\<in>set (mm_active m). pv_of b = package_pv a \<and> j \<in> assigned_ids as \<longrightarrow> j = as_assignmentId a)
          \<and> (package_pv a \<notin> protocols (managed m) \<longrightarrow> (\<forall>action. serves m (fst (package_pv a)) (snd (package_pv a)) action = None)))"

lemma list_all2_right: "list_all2 P xs ys \<Longrightarrow> y \<in> set ys \<Longrightarrow> \<exists>x\<in>set xs. P x y"
  by (induction rule: list_all2_induct) auto

lemma list_all2_left: "list_all2 P xs ys \<Longrightarrow> x \<in> set xs \<Longrightarrow> \<exists>y\<in>set ys. P x y"
  by (induction rule: list_all2_induct) auto

lemma prepared_modules:
  assumes c: "change_ok as m" and loads: "\<forall>e md. md_load d e = Inr md \<longrightarrow> distinct (map fst (sv_actions md))"
    and prep: "prepare_assignments d now artifacts as [] sts = (Inr nxs, sts1)"
  shows "map (\<lambda>nx. (nx_assignmentId nx, nx_pv nx)) nxs = map (\<lambda>a. (as_assignmentId a, package_pv a)) (service_assignments as)"
    "\<forall>nx\<in>set nxs. next_ok nx" "distinct (map nx_pv nxs)"
    "list_all2 (\<lambda>a nx. set (package_actions a) = dom (nx_actions nx)) (service_assignments as) nxs"
    "\<forall>nx\<in>set nxs. nx_packageId nx = build_package_id (nx_protocol nx) (nx_version nx)"
    "\<forall>a\<in>set (service_assignments as). \<exists>s. as_serviceModule a = Some s
       \<and> pk_packageId (sm_protocolPackage s) = build_package_id (fst (package_pv a)) (snd (package_pv a))"
proof -
  note p = prepare_assignments_ok[OF prep]
  have p: "list_all2 (\<lambda>a nx. \<exists>owners sts sts'. prepare_one d now artifacts a owners sts = (Inr nx, sts')) (service_assignments as) nxs"
    "distinct (map nx_packageId nxs)"
    using p c by (simp_all add: change_ok_def assigned_ids_def)
  have each: "(as_assignmentId a, package_pv a) = (nx_assignmentId nx, nx_pv nx) \<and> set (package_actions a) = dom (nx_actions nx)
      \<and> nx_packageId nx = build_package_id (nx_protocol nx) (nx_version nx)
      \<and> sv_protocol (nx_module nx) = nx_protocol nx \<and> sv_version (nx_module nx) = nx_version nx
      \<and> distinct (map fst (sv_actions (nx_module nx)))
      \<and> (\<exists>s. as_serviceModule a = Some s \<and> pk_packageId (sm_protocolPackage s) = build_package_id (fst (package_pv a)) (snd (package_pv a)))"
    if ex: "\<exists>owners sts sts'. prepare_one d now artifacts a owners sts = (Inr nx, sts')" for a nx
  proof -
    obtain owners sts sts' where "prepare_one d now artifacts a owners sts = (Inr nx, sts')" using ex by blast
    note o = prepare_one_ok[OF this]
    obtain s where s: "as_serviceModule a = Some s" "nx_protocol nx = pk_protocol (sm_protocolPackage s)"
      "nx_version nx = pk_version (sm_protocolPackage s)" "set (pk_actions (sm_protocolPackage s)) = fst ` set (sv_actions (nx_module nx))"
      "pk_packageId (sm_protocolPackage s) = nx_packageId nx"
      using o(6) by blast
    have "dom (nx_actions nx) = fst ` set (sv_actions (nx_module nx))" by (simp add: nx_actions_def dom_map_of_conv_image_fst)
    moreover have "distinct (map fst (sv_actions (nx_module nx)))" using o(5) loads by blast
    ultimately show ?thesis using o(1-4) s by (simp add: package_pv_def package_actions_def nx_pv_def)
  qed
  have l: "list_all2 (\<lambda>a nx. (as_assignmentId a, package_pv a) = (nx_assignmentId nx, nx_pv nx)) (service_assignments as) nxs"
    by (rule list_all2_mono[OF p(1)]) (use each in blast)
  then have "map (\<lambda>a. (as_assignmentId a, package_pv a)) (service_assignments as) = map (\<lambda>nx. (nx_assignmentId nx, nx_pv nx)) nxs"
    by (simp only: list.rel_map list.rel_eq[symmetric])
  then show m: "map (\<lambda>nx. (nx_assignmentId nx, nx_pv nx)) nxs = map (\<lambda>a. (as_assignmentId a, package_pv a)) (service_assignments as)" ..
  show "list_all2 (\<lambda>a nx. set (package_actions a) = dom (nx_actions nx)) (service_assignments as) nxs"
    by (rule list_all2_mono[OF p(1)]) (use each in blast)
  have nxs: "\<exists>a\<in>set (service_assignments as). \<exists>owners sts sts'. prepare_one d now artifacts a owners sts = (Inr nx, sts')"
    if "nx \<in> set nxs" for nx
    using list_all2_right[OF p(1) that] by blast
  show "\<forall>nx\<in>set nxs. nx_packageId nx = build_package_id (nx_protocol nx) (nx_version nx)"
    using nxs each by blast
  have "\<exists>nx\<in>set nxs. \<exists>owners sts sts'. prepare_one d now artifacts a owners sts = (Inr nx, sts')"
    if "a \<in> set (service_assignments as)" for a
    using list_all2_left[OF p(1) that] by blast
  then show "\<forall>a\<in>set (service_assignments as). \<exists>s. as_serviceModule a = Some s
       \<and> pk_packageId (sm_protocolPackage s) = build_package_id (fst (package_pv a)) (snd (package_pv a))"
    using each by blast
  show "\<forall>nx\<in>set nxs. next_ok nx"
  proof
    fix nx assume "nx \<in> set nxs"
    then obtain a where a: "a \<in> set (service_assignments as)" and e: "\<exists>owners sts sts'. prepare_one d now artifacts a owners sts = (Inr nx, sts')"
      using nxs by blast
    have "plain_pv (package_pv a)" using c a unfolding change_ok_def by blast
    then show "next_ok nx" using each[OF e] by (simp add: next_ok_def)
  qed
  have "map nx_packageId nxs = map (\<lambda>x. build_package_id (fst x) (snd x)) (map nx_pv nxs)"
  proof -
    have "nx_packageId nx = build_package_id (fst (nx_pv nx)) (snd (nx_pv nx))" if nx: "nx \<in> set nxs" for nx
      using nxs[OF nx] each unfolding nx_pv_def fst_conv snd_conv by blast
    then show ?thesis by simp
  qed
  then show "distinct (map nx_pv nxs)" using p(2) by (metis distinct_map)
qed
lemma apply_assignments_ok:
  fixes m :: "'h module_manager" and d :: "'h module_deps"
  assumes "manager_ok m" "change_ok as m" "\<forall>e md. md_load d e = Inr md \<longrightarrow> distinct (map fst (sv_actions md))"
    and "prepare_assignments d now artifacts as [] sts = (Inr nxs, sts1)"
  shows "\<exists>m' sts'. apply_assignments d now g gen previous artifacts as (m, sts) = (Inr (), m', sts') \<and> manager_ok m'
    \<and> (\<forall>a\<in>set (service_assignments as). \<forall>action.
         serves m' (fst (package_pv a)) (snd (package_pv a)) action \<noteq> None \<longleftrightarrow> action \<in> set (package_actions a))
    \<and> heads (set (mm_active m')) = (\<lambda>a. (as_assignmentId a, package_pv a)) ` set (service_assignments as)
    \<and> heads (set (drained m')) = {x \<in> heads (set (drained m)) \<union> (if g \<le> 0 then {} else heads (set (mm_active m))).
         fst x \<notin> assigned_ids as \<and> snd x \<notin> package_pv ` set (service_assignments as)}
    \<and> (\<forall>p v action. plain_name p \<and> plain_name v \<and> (p, v) \<notin> package_pv ` set (service_assignments as) \<longrightarrow>
         serves m' p v action = (if (p, v) \<in> protocols (managed m) - protocols (managed m') then None else serves m p v action))"
proof -
  note n = prepared_modules[OF assms(2,3,4)]
  have heads: "(\<lambda>nx. (nx_assignmentId nx, nx_pv nx)) ` set nxs = (\<lambda>a. (as_assignmentId a, package_pv a)) ` set (service_assignments as)"
    using arg_cong[OF n(1), of set] by simp
  have ids: "map nx_assignmentId nxs = map as_assignmentId (service_assignments as)"
    and pvs: "map nx_pv nxs = map package_pv (service_assignments as)"
    using arg_cong[OF n(1), of "map fst"] arg_cong[OF n(1), of "map snd"] by (simp_all add: o_def)
  have id_set: "nx_assignmentId ` set nxs = assigned_ids as" and pv_set: "nx_pv ` set nxs = package_pv ` set (service_assignments as)"
    using arg_cong[OF ids, of set] arg_cong[OF pvs, of set] by (simp_all add: assigned_ids_def)
  have di: "distinct (map nx_assignmentId nxs)" using assms(2) by (simp add: ids change_ok_def)
  have owner: "\<exists>a\<in>set (service_assignments as). nx_assignmentId nx = as_assignmentId a \<and> nx_pv nx = package_pv a"
    if "nx \<in> set nxs" for nx using heads that by force
  have each: "(\<forall>(j, b)\<in>set (mm_active m). pv_of b = nx_pv nx \<and> j \<in> assigned_ids as \<longrightarrow> j = nx_assignmentId nx)
      \<and> (nx_pv nx \<notin> protocols (managed m) \<longrightarrow> (\<forall>action. serves m (nx_protocol nx) (nx_version nx) action = None))"
    if nx: "nx \<in> set nxs" for nx
  proof -
    obtain a where a: "a \<in> set (service_assignments as)" and e: "nx_assignmentId nx = as_assignmentId a" "nx_pv nx = package_pv a"
      using owner[OF nx] by blast
    have "(\<forall>(j, b)\<in>set (mm_active m). pv_of b = nx_pv nx \<and> j \<in> assigned_ids as \<longrightarrow> j = nx_assignmentId nx)
      \<and> (nx_pv nx \<notin> protocols (managed m) \<longrightarrow> (\<forall>action. serves m (fst (nx_pv nx)) (snd (nx_pv nx)) action = None))"
      using assms(2) a unfolding change_ok_def e by blast
    then show ?thesis by (simp add: nx_pv_def)
  qed
  then have h: "no_handover nxs m" and f: "no_foreign nxs m"
    unfolding no_handover_def no_foreign_def id_set by blast+
  obtain r m' sts' where run: "commit_modules now g gen previous nxs (m, sts1) = (r, m', sts')" by (metis prod_cases3)
  note s = commit_modules_spec[OF assms(1) n(2) di n(3) h f run]
  have "\<forall>a\<in>set (service_assignments as). \<forall>action.
      serves m' (fst (package_pv a)) (snd (package_pv a)) action \<noteq> None \<longleftrightarrow> action \<in> set (package_actions a)"
  proof (intro ballI allI)
    fix a action assume "a \<in> set (service_assignments as)"
    then obtain k where k: "k < length (service_assignments as)" "a = service_assignments as ! k" by (metis in_set_conv_nth)
    have len: "length nxs = length (service_assignments as)" using n(4) by (simp add: list_all2_lengthD)
    then have nx: "nxs ! k \<in> set nxs" using k by simp
    have "nx_pv (nxs ! k) = package_pv a" using arg_cong[OF pvs, of "\<lambda>l. l ! k"] k len by simp
    then have "nx_protocol (nxs ! k) = fst (package_pv a)" "nx_version (nxs ! k) = snd (package_pv a)"
      by (simp_all add: nx_pv_def prod_eq_iff)
    then have "serves m' (fst (package_pv a)) (snd (package_pv a)) action = nx_actions (nxs ! k) action"
      using s(6) nx by metis
    moreover have "set (package_actions a) = dom (nx_actions (nxs ! k))" using n(4) k by (simp add: list_all2_conv_all_nth)
    ultimately show "serves m' (fst (package_pv a)) (snd (package_pv a)) action \<noteq> None \<longleftrightarrow> action \<in> set (package_actions a)"
      by auto
  qed
  moreover have "apply_assignments d now g gen previous artifacts as (m, sts) = (Inr (), m', sts')"
    using run assms(4) s(1) by (simp add: apply_assignments_def split: unit.split)
  ultimately show ?thesis
    using s(2-5) unfolding heads id_set pv_set tracks_def by (intro exI[of _ m'] exI[of _ sts'] conjI) blast+
qed

lemma apply_assignments_records:
  fixes m :: "'h module_manager" and d :: "'h module_deps"
  assumes "manager_ok m" "packages_ok m" "change_ok as m" "\<forall>e md. md_load d e = Inr md \<longrightarrow> distinct (map fst (sv_actions md))"
    and run: "apply_assignments d now g gen previous artifacts as (m, sts) = (Inr (), m', sts')"
  shows "packages_ok m' \<and> (\<forall>j. map_of sts' j = recorded_ready now gen (assigned_ids as) sts j)
    \<and> (\<forall>a\<in>set (service_assignments as). \<exists>s. as_serviceModule a = Some s
        \<and> pk_packageId (sm_protocolPackage s) = build_package_id (fst (package_pv a)) (snd (package_pv a)))
    \<and> (\<exists>nxs. prepare_assignments d now artifacts as [] sts = (Inr nxs, sts))"
proof -
  obtain r0 sts1 where prep0: "prepare_assignments d now artifacts as [] sts = (r0, sts1)" by (metis surj_pair)
  then obtain nxs where "r0 = Inr nxs" using run by (cases r0) (simp_all add: apply_assignments_def)
  then have prep: "prepare_assignments d now artifacts as [] sts = (Inr nxs, sts)"
    using prep0 prepare_keeps_states by blast
  have com: "commit_modules now g gen previous nxs (m, sts) = (Inr (), m', sts')"
  proof -
    obtain r m1 s1 where c: "commit_modules now g gen previous nxs (m, sts) = (r, m1, s1)" by (metis prod_cases3)
    then show ?thesis using run by (cases r) (simp_all add: apply_assignments_def prep split: unit.splits)
  qed
  note n = prepared_modules[OF assms(3,4) prep]
  have "nx_assignmentId ` set nxs = assigned_ids as"
    using arg_cong[OF n(1), of "\<lambda>l. fst ` set l"] by (simp add: image_image assigned_ids_def)
  then show ?thesis using commit_records[OF assms(1,2) n(5) com] n(6) prep by simp
qed

text \<open>C21: Applying a change of assignments. If the modules can be prepared and the change is one of the admitted
  ones, it succeeds; every assigned module serves exactly the actions its protocol package declares
  and is the active module of its assignment; a module that is no longer assigned and whose protocol
  version nobody takes over drains (with a grace period of zero it goes at once), and what was draining
  goes on draining; a protocol version that is neither active nor draining any more is not served; all
  the rest of the registry is as it was; and the invariant of the manager holds again.\<close>

theorem applied_modules_are_served:
  fixes m :: "'h module_manager" and d :: "'h module_deps"
  assumes "manager_ok m" "change_ok as m" "\<forall>e md. md_load d e = Inr md \<longrightarrow> distinct (map fst (sv_actions md))"
    and "prepare_assignments d now artifacts as [] sts = (Inr nxs, sts1)"
  shows "\<exists>m' sts'. apply_assignments d now g gen previous artifacts as (m, sts) = (Inr (), m', sts') \<and> manager_ok m'
    \<and> (\<forall>a\<in>set (service_assignments as). \<forall>action.
         serves m' (fst (package_pv a)) (snd (package_pv a)) action \<noteq> None \<longleftrightarrow> action \<in> set (package_actions a))
    \<and> heads (set (mm_active m')) = (\<lambda>a. (as_assignmentId a, package_pv a)) ` set (service_assignments as)
    \<and> heads (set (drained m')) = {x \<in> heads (set (drained m)) \<union> (if g \<le> 0 then {} else heads (set (mm_active m))).
         fst x \<notin> assigned_ids as \<and> snd x \<notin> package_pv ` set (service_assignments as)}
    \<and> (\<forall>p v action. plain_name p \<and> plain_name v \<and> (p, v) \<notin> package_pv ` set (service_assignments as) \<longrightarrow>
         serves m' p v action = (if (p, v) \<in> protocols (managed m) - protocols (managed m') then None else serves m p v action))"
  by (rule apply_assignments_ok[OF assms])

text \<open>The end of the grace period. When the timer of a draining module fires, exactly its protocol version
  stops being served, exactly its assignment stops draining, and the invariant holds; a timer that
  was cleared changes nothing.\<close>

theorem drain_timer_ends_service:
  assumes ok: "manager_ok m" and t: "map_of (mm_timers m) t = Some i"
  shows "\<exists>dr. map_of (mm_draining m) i = Some dr \<and> manager_ok (drain_timer_fires t m)
    \<and> (\<forall>p v action. plain_name p \<and> plain_name v \<longrightarrow> serves (drain_timer_fires t m) p v action
         = (if (p, v) = pv_of (dr_module dr) then None else serves m p v action))
    \<and> mm_active (drain_timer_fires t m) = mm_active m
    \<and> mm_draining (drain_timer_fires t m) = map_del i (mm_draining m)
    \<and> map_of (mm_timers (drain_timer_fires t m)) t = None"
proof -
  obtain dr where dr: "map_of (mm_draining m) i = Some dr" "dr_timer dr = t"
    using ok t unfolding manager_ok_def drain_timers_ok_def by blast
  have p: "plain_pv (pv_of (dr_module dr))" using managed_plain[OF ok drained_managed[OF dr(1)]] by simp
  let ?m = "drain_timer_fires t m"
  have eq: "?m = (unregister_pv (ac_protocol (dr_module dr)) (ac_version (dr_module dr)) m)
      \<lparr>mm_timers := map_del (dr_timer dr) (mm_timers m), mm_draining := map_del i (mm_draining m)\<rparr>"
    using t dr by (simp add: drain_timer_fires_def unregister_pv_def Let_def)
  have "manager_ok ?m" by (rule drop_draining_ok[OF ok dr(1)]) (simp_all add: eq unregister_pv_def)
  moreover have "served_but {pv_of (dr_module dr)} m ?m"
    using served_but_unregister[of "ac_protocol (dr_module dr)" "ac_version (dr_module dr)" ?m m] p
    by (simp add: eq unregister_pv_def pv_of_def)
  ultimately show ?thesis using dr
    by (intro exI[of _ dr]) (simp add: served_but_def, simp add: eq unregister_pv_def)
qed

section \<open>What a failed change reports\<close>

definition code_of :: "assignment_states \<Rightarrow> string \<Rightarrow> string option" where
  "code_of sts i = map_option er_code (Option.bind (map_of sts i) rc_lastError)"

lemma code_of_mark_failed:
  "code_of (mark_failed now i e sts) j = (if j = i \<and> map_of sts i \<noteq> None then Some (er_code e) else code_of sts j)"
  by (auto simp: code_of_def mark_failed_def split: option.split)

lemma code_of_None: "map_of sts i = None \<Longrightarrow> code_of sts i = None"
  by (simp add: code_of_def)

lemma prepare_one_codes:
  "prepare_one d now artifacts a owners sts = (r, sts') \<Longrightarrow> j \<noteq> as_assignmentId a \<Longrightarrow> code_of sts' j = code_of sts j"
  "prepare_one d now artifacts a owners sts = (Inr nx, sts') \<Longrightarrow> sts' = sts"
  unfolding prepare_one_def by (auto simp: code_of_mark_failed split: sum.splits if_splits)

text \<open>The error code of a protocol package assigned twice never reaches the assignment's state: the code set
  where the conflict is found is overwritten by the handler around it, so every state that a failed
  preparation marks carries one of the other two codes, and a conflict is reported as retryable.\<close>

theorem conflict_code_never_reported:
  assumes "\<forall>j. code_of sts j \<noteq> Some ''SERVICE_MODULE_CONFLICT''"
    and "prepare_assignments d now artifacts as owners sts = (r, sts')"
  shows "\<forall>j. code_of sts' j \<noteq> Some ''SERVICE_MODULE_CONFLICT''"
  using assms
proof (induction as arbitrary: owners sts r)
  case Nil
  then show ?case by simp
next
  case (Cons a as)
  consider (skip) "as_deploymentKind a \<noteq> ServiceModuleKind" | (missing) "as_deploymentKind a = ServiceModuleKind" "as_serviceModule a = None"
    | (prepare) "as_deploymentKind a = ServiceModuleKind" "as_serviceModule a \<noteq> None" by blast
  then show ?case
  proof cases
    case skip
    then show ?thesis using Cons by simp
  next
    case missing
    then have "sts' = mark_failed now (as_assignmentId a) (module_error ''SERVICE_MODULE_PAYLOAD_MISSING''
        ''Assignment is missing serviceModule payload'' False) sts" using Cons.prems(2) by simp
    then show ?thesis using Cons.prems(1) by (simp add: code_of_mark_failed module_error_def)
  next
    case prepare
    obtain r1 sts1 where one: "prepare_one d now artifacts a owners sts = (r1, sts1)" by (metis surj_pair)
    show ?thesis
    proof (cases r1)
      case (Inl e)
      then have sts': "sts' = mark_failed now (as_assignmentId a) (module_error ''SERVICE_MODULE_PREPARE_FAILED'' e True) sts1"
        using Cons.prems(2) prepare one by simp
      have "code_of sts' j \<noteq> Some ''SERVICE_MODULE_CONFLICT''" for j
      proof (cases "j = as_assignmentId a")
        case True
        then show ?thesis
          by (cases "map_of sts1 j") (simp_all add: sts' code_of_mark_failed module_error_def code_of_None)
      next
        case False
        then show ?thesis using prepare_one_codes(1)[OF one False] Cons.prems(1) by (simp add: sts' code_of_mark_failed)
      qed
      then show ?thesis by blast
    next
      case (Inr nm)
      obtain r2 where rest: "prepare_assignments d now artifacts as (map_set (nx_packageId nm) (as_assignmentId a) owners) sts1 = (r2, sts')"
        using Cons.prems(2) prepare one Inr by (auto split: prod.splits sum.splits)
      have "sts1 = sts" using prepare_one_codes(2) one Inr by blast
      then show ?thesis using Cons.IH[OF _ rest] Cons.prems(1) by simp
    qed
  qed
qed

section \<open>A concrete host\<close>

definition demo_service :: "string \<Rightarrow> string \<Rightarrow> string \<Rightarrow> string list \<Rightarrow> assignment" where
  "demo_service i p v actions = \<lparr>as_assignmentId = i, as_hostId = ''h'', as_deploymentId = i, as_deploymentKind = ServiceModuleKind,
     as_groupId = None, as_declaredVersion = ''1'', as_declaredArtifactId = None,
     as_artifact = \<lparr>af_manifestId = i, af_sourceUri = [], af_digest = None\<rparr>, as_httpWorker = None,
     as_serviceModule = Some \<lparr>sm_name = p, sm_entry = p @ v, sm_protocolPackage = \<lparr>pk_packageId = p @ ''@'' @ v,
       pk_protocol = p, pk_version = v, pk_actions = actions, pk_digest = ''d''\<rparr>\<rparr>,
     as_serveApp = None, as_authPolicyRef = None, as_secretRefs = None\<rparr>"

definition demo_deps :: "nat module_deps" where
  "demo_deps = \<lparr>md_stage = \<lambda>a _. Inr (sm_entry (the (as_serviceModule a))),
     md_load = \<lambda>e. (case map_of [(''p1'', \<lparr>sv_protocol = ''p'', sv_version = ''1'', sv_actions = [(''ping'', 1)]\<rparr>),
         (''p2'', \<lparr>sv_protocol = ''p'', sv_version = ''2'', sv_actions = [(''pong'', 2), (''ping'', 3)]\<rparr>),
         (''q1'', \<lparr>sv_protocol = ''q'', sv_version = ''1'', sv_actions = [(''get'', 4)]\<rparr>)] e of
       None \<Rightarrow> Inl ''no such module'' | Some md \<Rightarrow> Inr md),
     md_digest = \<lambda>_ _ _ _. ''d''\<rparr>"

definition demo_run :: "assignment list \<Rightarrow> nat module_manager \<Rightarrow> (apply_error + unit) \<times> nat module_manager \<times> assignment_states" where
  "demo_run as m = apply_assignments demo_deps 0 3000 ''g'' [] [] as (m, [])"

definition demo_manager :: "nat module_manager" where
  "demo_manager = fst (snd (demo_run [demo_service ''a1'' ''p'' ''1'' [''ping''], demo_service ''a2'' ''q'' ''1'' [''get'']] (new_manager [])))"

lemma demo_loads: "\<forall>e md. md_load demo_deps e = Inr md \<longrightarrow> distinct (map fst (sv_actions md))"
  by (auto simp: demo_deps_def split: option.splits if_splits)

lemma demo_manager_parts:
  "mm_registry demo_manager = [(''p:1:ping'', 1), (''q:1:get'', 4)]" "mm_draining demo_manager = []" "mm_timers demo_manager = []"
  "modules_ok (managed demo_manager)"
  by code_simp+

lemma demo_manager_ok: "manager_ok demo_manager"
  by (simp add: manager_ok_def drain_timers_ok_def demo_manager_parts)

definition demo_next :: "assignment list" where
  "demo_next = [demo_service ''a1'' ''p'' ''2'' [''ping'', ''pong'']]"

lemma demo_change_ok: "change_ok demo_next demo_manager"
proof -
  have "\<forall>a\<in>set (service_assignments demo_next). plain_pv (package_pv a)
      \<and> (\<forall>(j, b)\<in>set (mm_active demo_manager). pv_of b = package_pv a \<and> j \<in> assigned_ids demo_next \<longrightarrow> j = as_assignmentId a)"
    by code_simp
  moreover have "serves demo_manager ''p'' ''2'' action = None" for action
    by (simp add: serves_def demo_manager_parts key_of_def)
  moreover have "package_pv a = (''p'', ''2'')" if "a \<in> set (service_assignments demo_next)" for a
    using that by (simp add: demo_next_def service_assignments_def demo_service_def package_pv_def)
  moreover have "distinct (map as_assignmentId (service_assignments demo_next))" "[] \<notin> assigned_ids demo_next" by code_simp+
  ultimately show ?thesis by (auto simp: change_ok_def)
qed

definition demo_prepared :: "nat next_module list" where
  "demo_prepared = (case prepare_assignments demo_deps 0 [] demo_next [] [] of (Inr nxs, _) \<Rightarrow> nxs | _ \<Rightarrow> [])"

text \<open>The first assignment is upgraded, the second one is withdrawn and drains.\<close>

theorem applied_modules_are_served_witness:
  "\<exists>m' sts'. demo_run demo_next demo_manager = (Inr (), m', sts')
    \<and> (\<forall>action. serves m' ''p'' ''2'' action \<noteq> None \<longleftrightarrow> action \<in> {''ping'', ''pong''})
    \<and> heads (set (drained m')) = {(''a2'', ''q'', ''1'')}"
proof -
  have p: "prepare_assignments demo_deps 0 [] demo_next [] [] = (Inr demo_prepared, [])" by code_simp
  have s: "service_assignments demo_next = demo_next" "package_pv (hd demo_next) = (''p'', ''2'')" "hd demo_next \<in> set demo_next"
    "set (package_actions (hd demo_next)) = {''ping'', ''pong''}" by code_simp+
  obtain m' sts' where r: "demo_run demo_next demo_manager = (Inr (), m', sts')"
    and a: "\<forall>a\<in>set (service_assignments demo_next). \<forall>action.
         serves m' (fst (package_pv a)) (snd (package_pv a)) action \<noteq> None \<longleftrightarrow> action \<in> set (package_actions a)"
    and d: "heads (set (drained m')) = {x \<in> heads (set (drained demo_manager)) \<union> (if (3000::int) \<le> 0 then {} else heads (set (mm_active demo_manager))).
         fst x \<notin> assigned_ids demo_next \<and> snd x \<notin> package_pv ` set (service_assignments demo_next)}"
    using applied_modules_are_served[OF demo_manager_ok demo_change_ok demo_loads p, of 3000 "''g''" "[]"]
    unfolding demo_run_def by blast
  have "{x \<in> heads (set (drained demo_manager)) \<union> (if (3000::int) \<le> 0 then {} else heads (set (mm_active demo_manager))).
      fst x \<notin> assigned_ids demo_next \<and> snd x \<notin> package_pv ` set (service_assignments demo_next)} = {(''a2'', ''q'', ''1'')}"
    by code_simp
  then have d': "heads (set (drained m')) = {(''a2'', ''q'', ''1'')}" using d by (rule trans[rotated])
  have "\<forall>action. serves m' ''p'' ''2'' action \<noteq> None \<longleftrightarrow> action \<in> {''ping'', ''pong''}"
    using bspec[OF a, of "hd demo_next"] unfolding s(1,2,4) fst_conv snd_conv using s(3) by blast
  then show ?thesis using r d' by (intro exI[of _ m'] exI[of _ sts'] conjI)
qed

definition demo_draining :: "nat module_manager" where
  "demo_draining = fst (snd (demo_run demo_next demo_manager))"

lemma demo_draining_parts:
  "mm_timers demo_draining = [(0, ''a2'')]" "mm_next demo_draining = 1" "map fst (mm_draining demo_draining) = [''a2'']"
  "map_option dr_timer (map_of (mm_draining demo_draining) ''a2'') = Some 0"
  "map_option (\<lambda>dr. pv_of (dr_module dr)) (map_of (mm_draining demo_draining) ''a2'') = Some (''q'', ''1'')"
  "mm_registry demo_draining = [(''q:1:get'', 4), (''p:2:pong'', 2), (''p:2:ping'', 3)]"
  "modules_ok (managed demo_draining)"
  by code_simp+

lemma demo_draining_ok: "manager_ok demo_draining"
proof -
  obtain dr where dr: "mm_draining demo_draining = [(''a2'', dr)]"
    using demo_draining_parts(3) by (cases "mm_draining demo_draining") auto
  then have "dr_timer dr = 0" using demo_draining_parts(4) by simp
  then show ?thesis using demo_draining_parts(7)
    by (simp add: manager_ok_def drain_timers_ok_def wf_map_def dr demo_draining_parts)
qed

theorem drain_timer_ends_service_witness:
  "serves demo_draining ''q'' ''1'' ''get'' = Some 4 \<and> serves (drain_timer_fires 0 demo_draining) ''q'' ''1'' ''get'' = None
    \<and> serves (drain_timer_fires 0 demo_draining) ''p'' ''2'' ''ping'' = Some 3"
proof -
  obtain dr where dr: "map_of (mm_draining demo_draining) ''a2'' = Some dr"
    and s: "\<forall>p v action. plain_name p \<and> plain_name v \<longrightarrow> serves (drain_timer_fires 0 demo_draining) p v action
         = (if (p, v) = pv_of (dr_module dr) then None else serves demo_draining p v action)"
    using drain_timer_ends_service[OF demo_draining_ok, of 0 "''a2''"] by (auto simp: demo_draining_parts)
  have "pv_of (dr_module dr) = (''q'', ''1'')" using dr demo_draining_parts(5) by simp
  moreover have "plain_name ''q''" "plain_name ''p''" "plain_name ''1''" "plain_name ''2''" by code_simp+
  moreover have "serves demo_draining ''q'' ''1'' ''get'' = Some 4" "serves demo_draining ''p'' ''2'' ''ping'' = Some 3"
    by (simp_all add: serves_def demo_draining_parts key_of_def)
  ultimately show ?thesis using s by simp
qed

definition demo_states :: assignment_states where
  "demo_states = map (\<lambda>i. (i, \<lparr>rc_deploymentId = i, rc_declaredVersion = ''1'', rc_state = StPending, rc_generationId = None,
     rc_preparedAt = None, rc_activatedAt = None, rc_failedAt = None, rc_lastError = None\<rparr>)) [''a1'', ''a2'']"

text \<open>Two assignments of one package: the second is reported as a failed preparation, not as a conflict.\<close>

theorem conflict_code_never_reported_witness:
  "\<exists>e sts'. prepare_assignments demo_deps 0 [] [demo_service ''a1'' ''p'' ''1'' [''ping''], demo_service ''a2'' ''p'' ''1'' [''ping'']] [] demo_states
      = (Inl e, sts')
    \<and> (\<forall>j. code_of sts' j \<noteq> Some ''SERVICE_MODULE_CONFLICT'') \<and> code_of sts' ''a2'' = Some ''SERVICE_MODULE_PREPARE_FAILED''"
proof -
  let ?as = "[demo_service ''a1'' ''p'' ''1'' [''ping''], demo_service ''a2'' ''p'' ''1'' [''ping'']]"
  obtain r sts' where p: "prepare_assignments demo_deps 0 [] ?as [] demo_states = (r, sts')" by (metis surj_pair)
  have "(case fst (prepare_assignments demo_deps 0 [] ?as [] demo_states) of Inl _ \<Rightarrow> True | Inr _ \<Rightarrow> False)
    \<and> code_of (snd (prepare_assignments demo_deps 0 [] ?as [] demo_states)) ''a2'' = Some ''SERVICE_MODULE_PREPARE_FAILED''"
    by code_simp
  moreover have "\<forall>j. code_of demo_states j \<noteq> Some ''SERVICE_MODULE_CONFLICT''" by (simp add: code_of_def demo_states_def)
  ultimately show ?thesis using conflict_code_never_reported[OF _ p] p by (auto split: sum.splits)
qed

text \<open>Two assignments that stay and exchange their protocol versions: the first one gives its version up before
  it finds the other one taken, and the change fails with neither the old nor the new registration.\<close>

lemma handover_loses_protocol:
  "(let (r, m', sts') = demo_run [demo_service ''a1'' ''q'' ''1'' [''get''], demo_service ''a2'' ''p'' ''1'' [''ping'']] demo_manager
    in r \<noteq> Inr () \<and> map fst (mm_registry demo_manager) = [''p:1:ping'', ''q:1:get''] \<and> map fst (mm_registry m') = [''q:1:get'']
      \<and> map_option pv_of (map_of (mm_active m') ''a1'') = Some (''p'', ''1''))"
  by code_simp

end
