(* ===== verification/Host_Props.thy ===== *)
theory Host_Props
  imports Host_Runtime Module_Claims Summary_Props
begin

text \<open>The host as the control plane sees it: a desired state that was applied is reported as running and
  matches, and what a failed application leaves behind.\<close>

section \<open>Pipelines\<close>

lemma routes_by_id_lookup:
  assumes "map_of (routes_by_id desired) ref = Some r"
  shows "fr_routeId r = ref" "r \<in> set (value_else (dh_routes desired) [])"
proof -
  have "(ref, r) \<in> set (rev (map (\<lambda>r. (fr_routeId r, r)) (value_else (dh_routes desired) [])))"
    using assms unfolding routes_by_id_def map_of_map_from by (rule map_of_SomeD)
  then show "fr_routeId r = ref" "r \<in> set (value_else (dh_routes desired) [])" by auto
qed

lemma resolve_routes_ids:
  "resolve_routes (routes_by_id desired) refs = Inr rs \<Longrightarrow>
   map fr_routeId rs = refs \<and> set refs \<subseteq> fr_routeId ` set (value_else (dh_routes desired) [])"
proof (induction refs arbitrary: rs)
  case (Cons ref refs)
  then obtain r rs' where r: "map_of (routes_by_id desired) ref = Some r" "resolve_routes (routes_by_id desired) refs = Inr rs'" "rs = r # rs'"
    by (auto split: option.splits sum.splits)
  then show ?case using Cons.IH[OF r(2)] routes_by_id_lookup[OF r(1)] by auto
qed simp

definition program_refs :: "assignment \<Rightarrow> string list" where
  "program_refs a = (case assignment_program a of None \<Rightarrow> [] | Some ex \<Rightarrow> value_else (ex_routeRefs ex) [])"

definition http_pipeline_ids :: "assignment \<Rightarrow> string list" where
  "http_pipeline_ids a = (if as_deploymentKind a = ServiceModuleKind then []
     else map (\<lambda>ref. as_assignmentId a @ '':'' @ ref) (program_refs a))"

lemma build_http_ok:
  assumes "build_http d opts now gen artifacts (routes_by_id desired) a ex sts = (Inr ps, sts')"
  shows "map pc_id ps = map (\<lambda>ref. as_assignmentId a @ '':'' @ ref) (value_else (ex_routeRefs ex) [])"
    "set (value_else (ex_routeRefs ex) []) \<subseteq> fr_routeId ` set (value_else (dh_routes desired) [])"
    "map_of sts' j = recorded_ready now gen {as_assignmentId a} sts j"
proof -
  obtain localEntry rs where rs: "resolve_routes (routes_by_id desired) (value_else (ex_routeRefs ex) []) = Inr rs"
    and ps: "ps = map (pipeline_for opts a localEntry (deployment_config a ex)) rs"
    and s: "sts' = ready_state now gen (as_assignmentId a) sts"
    using assms unfolding build_http_def by (auto simp: Let_def split: sum.splits)
  have r: "map fr_routeId rs = value_else (ex_routeRefs ex) []" "set (value_else (ex_routeRefs ex) []) \<subseteq> fr_routeId ` set (value_else (dh_routes desired) [])"
    using resolve_routes_ids[OF rs] by auto
  have "map pc_id ps = map (\<lambda>ref. as_assignmentId a @ '':'' @ ref) (map fr_routeId rs)"
    by (simp add: ps pipeline_for_def comp_def)
  then show "map pc_id ps = map (\<lambda>ref. as_assignmentId a @ '':'' @ ref) (value_else (ex_routeRefs ex) [])" using r(1) by simp
  show "set (value_else (ex_routeRefs ex) []) \<subseteq> fr_routeId ` set (value_else (dh_routes desired) [])" by (rule r(2))
  show "map_of sts' j = recorded_ready now gen {as_assignmentId a} sts j"
    by (auto simp: s ready_state_def recorded_ready_def split: option.split)
qed

definition supported :: "bool \<Rightarrow> assignment list \<Rightarrow> bool" where
  "supported hasManager as \<longleftrightarrow> (\<forall>a\<in>set as. if as_deploymentKind a = ServiceModuleKind then hasManager else assignment_program a \<noteq> None)"

definition http_ids :: "assignment list \<Rightarrow> string set" where
  "http_ids as = as_assignmentId ` {a \<in> set as. as_deploymentKind a \<noteq> ServiceModuleKind}"

lemma recorded_ready_trans:
  "(\<And>j. map_of sts1 j = recorded_ready now gen I sts j) \<Longrightarrow> recorded_ready now gen J sts1 j = recorded_ready now gen (I \<union> J) sts j"
  by (simp add: recorded_ready_def option.map_comp comp_def)

lemma build_config_ok:
  assumes "build_config d opts hasManager now gen artifacts (routes_by_id desired) as sts = (Inr config, sts')"
    and "supported hasManager as"
  shows "map pc_id config = concat (map http_pipeline_ids as)
    \<and> (\<forall>a\<in>set as. as_deploymentKind a \<noteq> ServiceModuleKind \<longrightarrow> set (program_refs a) \<subseteq> fr_routeId ` set (value_else (dh_routes desired) []))
    \<and> (\<forall>j. map_of sts' j = recorded_ready now gen (http_ids as) sts j)"
  using assms
proof (induction as arbitrary: sts config)
  case Nil
  then show ?case by (simp add: recorded_ready_def http_ids_def)
next
  case (Cons a as)
  have sup: "supported hasManager as" using Cons.prems(2) by (simp add: supported_def)
  show ?case
  proof (cases "as_deploymentKind a = ServiceModuleKind")
    case True
    then have "hasManager" using Cons.prems(2) by (simp add: supported_def)
    moreover have "http_ids (a # as) = http_ids as" using True by (auto simp: http_ids_def)
    ultimately show ?thesis using Cons.IH[of sts config] Cons.prems(1) True sup by (simp add: http_pipeline_ids_def)
  next
    case False
    then obtain ex where ex: "assignment_program a = Some ex" using Cons.prems(2) by (auto simp: supported_def)
    obtain r1 sts1 where b: "build_http d opts now gen artifacts (routes_by_id desired) a ex sts = (r1, sts1)" by (metis surj_pair)
    obtain r2 sts2 where rest: "build_config d opts hasManager now gen artifacts (routes_by_id desired) as sts1 = (r2, sts2)" by (metis surj_pair)
    obtain ps where ps: "r1 = Inr ps" using Cons.prems(1) False ex b by (cases r1) (simp_all add: assignment_program_def)
    obtain more where more: "r2 = Inr more" "config = ps @ more" "sts' = sts2"
      using Cons.prems(1) False ex b rest ps by (cases r2) (simp_all add: assignment_program_def)
    note one = build_http_ok[OF b[unfolded ps]]
    note IH = Cons.IH[OF rest[unfolded more(1) more(3)[symmetric]] sup]
    have refs: "program_refs a = value_else (ex_routeRefs ex) []" by (simp add: program_refs_def ex)
    have "http_ids (a # as) = {as_assignmentId a} \<union> http_ids as" using False by (auto simp: http_ids_def)
    moreover have "map_of sts' j = recorded_ready now gen (http_ids as) sts1 j" for j using IH more by simp
    ultimately have "map_of sts' j = recorded_ready now gen (http_ids (a # as)) sts j" for j
      using recorded_ready_trans[OF one(3), where J = "http_ids as" and j = j] by simp
    then show ?thesis using IH one(1,2) False more(2) by (simp add: http_pipeline_ids_def refs)
  qed
qed

lemma expected_pipelines:
  assumes "\<forall>a\<in>set (dh_assignments desired). as_deploymentKind a \<noteq> ServiceModuleKind \<longrightarrow>
      set (program_refs a) \<subseteq> fr_routeId ` set (value_else (dh_routes desired) [])"
  shows "set (list_expected_pipeline_ids lc (Some desired)) = set (concat (map http_pipeline_ids (dh_assignments desired)))"
proof -
  have eq: "(if as_deploymentKind a = ServiceModuleKind then [] else routed_ids desired a) = http_pipeline_ids a"
    if "a \<in> set (dh_assignments desired)" for a
  proof -
    have "opt_else (Option.bind (assignment_program a) ex_routeRefs) [] = program_refs a"
      by (auto simp: opt_else_def program_refs_def value_else_def split: option.split)
    moreover have "opt_else (dh_routes desired) [] = value_else (dh_routes desired) []"
      by (simp add: opt_else_def value_else_def split: option.split)
    moreover have "as_deploymentKind a \<noteq> ServiceModuleKind \<Longrightarrow>
        filter (\<lambda>ref. ref \<in> set (map fr_routeId (value_else (dh_routes desired) []))) (program_refs a) = program_refs a"
      using assms that by (intro filter_True) auto
    ultimately show ?thesis by (simp add: routed_ids_def http_pipeline_ids_def Let_def)
  qed
  have m: "map (\<lambda>a. if as_deploymentKind a = ServiceModuleKind then [] else routed_ids desired a) (dh_assignments desired)
      = map http_pipeline_ids (dh_assignments desired)"
    by (rule map_cong[OF refl]) (rule eq)
  show ?thesis unfolding list_expected_pipeline_ids_def option.case m by simp
qed

section \<open>What the summary lists\<close>

lemma summary_ids:
  "set (list_observed_pipeline_ids lc (Some (build_runtime_summary_view lc' config packages))) = pc_id ` set config"
  "set (list_observed_protocol_package_ids lc (Some (build_runtime_summary_view lc' config packages))) = pp_packageId ` set packages"
proof -
  have p: "string_prop ''pipelineId'' (build_pipeline_view lc' p) = [pc_id p]" for p
    by (simp add: string_prop_def build_pipeline_view_def)
  have q: "string_prop ''packageId'' (package_ref_view r) = [pp_packageId r]" for r
    by (simp add: string_prop_def package_ref_view_def)
  show "set (list_observed_pipeline_ids lc (Some (build_runtime_summary_view lc' config packages))) = pc_id ` set config"
    by (simp add: list_observed_pipeline_ids_def array_prop_def build_runtime_summary_view_def p comp_def)
  show "set (list_observed_protocol_package_ids lc (Some (build_runtime_summary_view lc' config packages))) = pp_packageId ` set packages"
    by (simp add: list_observed_protocol_package_ids_def array_prop_def build_runtime_summary_view_def q comp_def)
qed

lemma initial_states_lookup:
  "a \<in> set as \<Longrightarrow> \<exists>st. map_of (initial_states gen as) (as_assignmentId a) = Some st \<and> rc_state st = StPreparing \<and> rc_generationId st = Some gen"
proof -
  assume a: "a \<in> set as"
  let ?es = "map (\<lambda>a. (as_assignmentId a, initial_record gen a)) as"
  have "as_assignmentId a \<in> fst ` set (rev ?es)" using a by force
  then obtain st where st: "map_of (rev ?es) (as_assignmentId a) = Some st" by (metis map_of_eq_None_iff not_None_eq)
  then have "(as_assignmentId a, st) \<in> set ?es" unfolding set_rev[symmetric, of ?es] by (rule map_of_SomeD)
  then obtain b where "st = initial_record gen b" by auto
  then show ?thesis using st unfolding initial_states_def map_of_map_from by (simp add: initial_record_def)
qed

lemma activate_ready_lookup:
  "map_of (activate_ready now sts) j = map_option (\<lambda>st. if rc_state st = StReady then st\<lparr>rc_state := StActive, rc_activatedAt := Some now\<rparr> else st) (map_of sts j)"
  by (induction sts) (auto simp: activate_ready_def)
section \<open>An application that succeeds\<close>

lemma apply_config_current:
  assumes "apply_config d c s = (Inr c', s')"
  shows "cd_parses d c = Inr c' \<and> get_config s' = Inr c'"
proof -
  obtain parsed where p: "cd_parses d c = Inr parsed" using assms by (cases "cd_parses d c") (simp_all add: apply_config_def)
  obtain r s1 where pub: "publish_config d parsed s = (r, s1)" by (metis surj_pair)
  have "r = None \<and> parsed = c' \<and> s1 = s'" using assms p pub by (cases r) (simp_all add: apply_config_def)
  moreover have "cg_current s1 = Some parsed" using pub by (auto simp: publish_config_def split: prod.splits)
  ultimately show ?thesis using p by (simp add: get_config_def)
qed

lemma apply_desired_success:
  assumes "apply_desired d opts now desired artifacts s = (Inr (), s')"
  obtains config sts1 m sts2 config' store where
    "build_config d opts (ha_manager s \<noteq> None) now (''admin:'' @ dh_revision desired) artifacts (routes_by_id desired)
       (dh_assignments desired) (initial_states (''admin:'' @ dh_revision desired) (dh_assignments desired)) = (Inr config, sts1)"
    "apply_modules d now (''admin:'' @ dh_revision desired) artifacts (dh_assignments desired) s sts1 = (Inr (), m, sts2)"
    "apply_config (hd_config d) config (ha_config s) = (Inr config', store)"
    "ha_manager s' = m" "ha_config s' = store" "ha_lastDesired s' = Some desired" "ha_states s' = activate_ready now sts2"
    "ha_topology s' = map_option (set_topology (dh_topology desired)) (ha_topology s)"
    "ha_trust s' = map_option (\<lambda>_. dh_runtimeAuthTrust desired) (ha_trust s)"
proof -
  obtain r1 sts1 where b: "build_config d opts (ha_manager s \<noteq> None) now (''admin:'' @ dh_revision desired) artifacts (routes_by_id desired)
       (dh_assignments desired) (initial_states (''admin:'' @ dh_revision desired) (dh_assignments desired)) = (r1, sts1)" by (metis surj_pair)
  obtain config where r1: "r1 = Inr config" using assms b by (cases r1) (simp_all add: apply_desired_def Let_def)
  obtain r2 m sts2 where m: "apply_modules d now (''admin:'' @ dh_revision desired) artifacts (dh_assignments desired) s sts1 = (r2, m, sts2)"
    by (metis prod_cases3)
  have r2: "r2 = Inr ()" using assms b r1 m by (cases r2) (simp_all add: apply_desired_def Let_def)
  obtain r3 store where c: "apply_config (hd_config d) config (ha_config s) = (r3, store)" by (metis surj_pair)
  obtain config' where r3: "r3 = Inr config'"
    using assms b r1 m r2 c by (cases r3) (simp_all add: apply_desired_def Let_def split: unit.splits)
  have s': "ha_manager s' = m \<and> ha_config s' = store \<and> ha_lastDesired s' = Some desired \<and> ha_states s' = activate_ready now sts2
      \<and> ha_topology s' = map_option (set_topology (dh_topology desired)) (ha_topology s)
      \<and> ha_trust s' = map_option (\<lambda>_. dh_runtimeAuthTrust desired) (ha_trust s)"
    using assms b r1 m r2 c r3 by (auto simp: apply_desired_def Let_def split: unit.splits)
  show ?thesis by (rule that) (use b r1 m r2 c r3 s' in simp_all)
qed

text \<open>What the service modules of a host must satisfy for the next desired state.\<close>

definition modules_ready :: "assignment list \<Rightarrow> 'h host_adapter \<Rightarrow> bool" where
  "modules_ready as s \<longleftrightarrow> (\<forall>m. ha_manager s = Some m \<longrightarrow> manager_ok m \<and> packages_ok m \<and> change_ok as m)"

lemma apply_modules_ok:
  fixes s :: "'h host_adapter" and d :: "'h host_deps"
  assumes "modules_ready as s" "supported (ha_manager s \<noteq> None) as"
    and loads: "\<forall>e md. md_load (hd_modules d) e = Inr md \<longrightarrow> distinct (map fst (sv_actions md))"
    and run: "apply_modules d now gen artifacts as s sts = (Inr (), m', sts')"
  shows "\<forall>j. map_of sts' j = recorded_ready now gen (assigned_ids as) sts j"
    "pp_packageId ` set (case m' of None \<Rightarrow> [] | Some m \<Rightarrow> list_active_packages lc m)
       = set (list_expected_protocol_package_ids lc' (Some (desired\<lparr>dh_assignments := as\<rparr>)))"
proof -
  have expected: "set (list_expected_protocol_package_ids lc' (Some (desired\<lparr>dh_assignments := as\<rparr>)))
      = {pk_packageId (sm_protocolPackage sm) |a sm. a \<in> set (service_assignments as) \<and> as_serviceModule a = Some sm}"
    by (auto simp: list_expected_protocol_package_ids_def module_package_ids_def service_assignments_def split: if_splits option.splits) metis
  have "(\<forall>j. map_of sts' j = recorded_ready now gen (assigned_ids as) sts j)
    \<and> pp_packageId ` set (case m' of None \<Rightarrow> [] | Some m \<Rightarrow> list_active_packages lc m)
       = set (list_expected_protocol_package_ids lc' (Some (desired\<lparr>dh_assignments := as\<rparr>)))"
  proof (cases "ha_manager s")
    case None
    then have "service_assignments as = []" using assms(2) by (auto simp: supported_def service_assignments_def filter_empty_conv)
    moreover have "m' = None" "sts' = sts" using run None by (simp_all add: apply_modules_def)
    ultimately show ?thesis unfolding expected by (simp add: assigned_ids_def recorded_ready_def)
  next
    case (Some m)
    then have m: "manager_ok m" "packages_ok m" "change_ok as m" using assms(1) by (simp_all add: modules_ready_def)
    obtain m1 where run': "apply_assignments (hd_modules d) now (hd_drainGraceMs d) gen (ha_states s) artifacts as (m, sts) = (Inr (), m1, sts')"
      and m': "m' = Some m1" using run Some by (auto simp: apply_modules_def split: prod.splits)
    note rec = apply_assignments_records[OF m loads run']
    then obtain nxs where prep: "prepare_assignments (hd_modules d) now artifacts as [] sts = (Inr nxs, sts)" by blast
    have heads: "heads (set (mm_active m1)) = (\<lambda>a. (as_assignmentId a, package_pv a)) ` set (service_assignments as)"
      using apply_assignments_ok[OF m(1,3) loads prep, of "hd_drainGraceMs d" gen "ha_states s"] run' by auto
    have "pp_packageId ` set (list_active_packages lc m1) = (\<lambda>(i, a). ac_packageId a) ` set (mm_active m1)"
      by (force simp: list_active_packages_def)
    also have "\<dots> = (\<lambda>x. build_package_id (fst (snd x)) (snd (snd x))) ` heads (set (mm_active m1))"
      using rec by (force simp: packages_ok_def heads_def pv_of_def image_image)
    also have "\<dots> = (\<lambda>a. build_package_id (fst (package_pv a)) (snd (package_pv a))) ` set (service_assignments as)"
      unfolding heads by (simp add: image_image)
    also have "\<dots> = {pk_packageId (sm_protocolPackage sm) |a sm. a \<in> set (service_assignments as) \<and> as_serviceModule a = Some sm}"
      using rec by force
    finally show ?thesis using rec unfolding expected m' option.case by blast
  qed
  then show "\<forall>j. map_of sts' j = recorded_ready now gen (assigned_ids as) sts j"
    "pp_packageId ` set (case m' of None \<Rightarrow> [] | Some m \<Rightarrow> list_active_packages lc m)
       = set (list_expected_protocol_package_ids lc' (Some (desired\<lparr>dh_assignments := as\<rparr>)))"
    by simp_all
qed

lemma draining_statuses:
  "set (foldl add_draining_status sts drs) \<subseteq> set sts \<union> set drs" "set sts \<subseteq> set (foldl add_draining_status sts drs)"
proof -
  have "set (foldl add_draining_status sts drs) \<subseteq> set sts \<union> set drs \<and> set sts \<subseteq> set (foldl add_draining_status sts drs)"
    by (induction drs arbitrary: sts) (force simp: add_draining_status_def)+
  then show "set (foldl add_draining_status sts drs) \<subseteq> set sts \<union> set drs" "set sts \<subseteq> set (foldl add_draining_status sts drs)"
    by blast+
qed

lemma draining_state: "st \<in> set (list_draining_assignments lc m) \<Longrightarrow> at_state st = StDraining"
  by (auto simp: list_draining_assignments_def)

lemma applied_and_reported:
  fixes s :: "'h host_adapter" and d :: "'h host_deps"
  assumes run: "apply_desired d opts now desired artifacts s = (Inr (), s')"
    and "supported (ha_manager s \<noteq> None) (dh_assignments desired)" "modules_ready (dh_assignments desired) s"
    and "\<forall>e md. md_load (hd_modules d) e = Inr md \<longrightarrow> distinct (map fst (sv_actions md))"
    and parses: "\<forall>c c'. cd_parses (hd_config d) c = Inr c' \<longrightarrow> c' = c"
  shows "\<exists>observed. collect_observed lc opts state metrics now' s' = Inr observed
    \<and> ck_status (check_host lc None (Some desired) (Some observed) hostId) = Match
    \<and> (\<forall>a\<in>set (dh_assignments desired). \<exists>st\<in>set (oh_assignmentStatuses observed). at_assignmentId st = as_assignmentId a
         \<and> at_state st = StActive \<and> at_generationId st = Some (''admin:'' @ dh_revision desired))
    \<and> (\<forall>st\<in>set (oh_assignmentStatuses observed). at_state st = StActive \<or> at_state st = StDraining)"
proof -
  let ?as = "dh_assignments desired" and ?gen = "''admin:'' @ dh_revision desired"
  obtain config sts1 m sts2 config' store where
    b: "build_config d opts (ha_manager s \<noteq> None) now ?gen artifacts (routes_by_id desired) ?as (initial_states ?gen ?as) = (Inr config, sts1)"
    and am: "apply_modules d now ?gen artifacts ?as s sts1 = (Inr (), m, sts2)"
    and ac: "apply_config (hd_config d) config (ha_config s) = (Inr config', store)"
    and s': "ha_manager s' = m" "ha_config s' = store" "ha_lastDesired s' = Some desired" "ha_states s' = activate_ready now sts2"
    using apply_desired_success[OF run] by metis
  have cfg: "get_config (ha_config s') = Inr config" using apply_config_current[OF ac] parses s'(2) by auto
  note bc = build_config_ok[OF b assms(2)]
  note mo = apply_modules_ok[OF assms(3,2,4) am]
  obtain packages where pk: "(case m of None \<Rightarrow> [] | Some m \<Rightarrow> list_active_packages lc m) = packages"
    "pp_packageId ` set packages = set (list_expected_protocol_package_ids lc (Some desired))"
    using mo(2)[where lc' = lc and lc = lc and desired = desired] by simp
  have "map_of (ha_states s') (as_assignmentId a) \<noteq> None \<and> rc_state (the (map_of (ha_states s') (as_assignmentId a))) = StActive
      \<and> rc_generationId (the (map_of (ha_states s') (as_assignmentId a))) = Some ?gen" if a: "a \<in> set ?as" for a
  proof -
    obtain st where st: "map_of (initial_states ?gen ?as) (as_assignmentId a) = Some st" "rc_generationId st = Some ?gen"
      using initial_states_lookup[OF a, of ?gen] by blast
    have all: "map_of sts2 j = recorded_ready now ?gen (http_ids ?as \<union> assigned_ids ?as) (initial_states ?gen ?as) j" for j
      using bc mo(1) recorded_ready_trans[of sts1 now ?gen "http_ids ?as" "initial_states ?gen ?as" "assigned_ids ?as" j] by simp
    have "as_assignmentId a \<in> http_ids ?as \<union> assigned_ids ?as"
      using a by (auto simp: http_ids_def assigned_ids_def service_assignments_def)
    then show ?thesis using st by (simp add: s' activate_ready_lookup all recorded_ready_def)
  qed
  then have active: "at_state (assignment_status_of (ha_states s') a) = StActive \<and> at_generationId (assignment_status_of (ha_states s') a) = Some ?gen"
    if "a \<in> set ?as" for a
    using that by (fastforce simp: assignment_status_of_def Let_def split: option.split)
  define drs where "drs = (case m of None \<Rightarrow> [] | Some m \<Rightarrow> list_draining_assignments lc m)"
  have drs: "at_state st = StDraining" if "st \<in> set drs" for st using that draining_state by (auto simp: drs_def split: option.splits)
  have rep: "report_statuses lc s' = foldl add_draining_status (map (assignment_status_of (ha_states s')) ?as) drs"
    by (simp add: report_statuses_def s' drs_def)
  obtain observed where o: "collect_observed lc opts state metrics now' s' = Inr observed"
    and sum: "runtime_summary_of (Some observed) = Some (build_runtime_summary_view lc config packages)"
    and sts: "oh_assignmentStatuses observed = report_statuses lc s'"
    using cfg pk(1) by (simp add: collect_observed_def s'(1) Let_def runtime_summary_of_def nullish_else_def build_runtime_summary_view_def)
  have "pc_id ` set config = set (concat (map http_pipeline_ids ?as))" using arg_cong[of _ _ set, OF bc[THEN conjunct1]] by simp
  then have "set (list_expected_pipeline_ids lc (Some desired)) = set (list_observed_pipeline_ids lc (runtime_summary_of (Some observed)))"
    unfolding sum summary_ids using bc expected_pipelines[of desired lc] by blast
  moreover have "set (list_expected_protocol_package_ids lc (Some desired))
      = set (list_observed_protocol_package_ids lc (runtime_summary_of (Some observed)))"
    unfolding sum summary_ids pk(2) ..
  ultimately have "ck_status (check_host lc None (Some desired) (Some observed) hostId) = Match"
    unfolding host_matches_iff
    by (simp add: check_host_def Let_def list_observed_pipeline_ids_for_read_model_def list_observed_protocol_package_ids_for_read_model_def)
  moreover have "\<forall>a\<in>set ?as. \<exists>st\<in>set (oh_assignmentStatuses observed). at_assignmentId st = as_assignmentId a
         \<and> at_state st = StActive \<and> at_generationId st = Some ?gen"
  proof
    fix a assume a: "a \<in> set ?as"
    have "assignment_status_of (ha_states s') a \<in> set (oh_assignmentStatuses observed)"
      using a draining_statuses(2)[of "map (assignment_status_of (ha_states s')) ?as" drs] by (auto simp: sts rep)
    moreover have "at_assignmentId (assignment_status_of (ha_states s') a) = as_assignmentId a" by (simp add: assignment_status_of_def Let_def)
    ultimately show "\<exists>st\<in>set (oh_assignmentStatuses observed). at_assignmentId st = as_assignmentId a
         \<and> at_state st = StActive \<and> at_generationId st = Some ?gen" using active[OF a] by blast
  qed
  moreover have "\<forall>st\<in>set (oh_assignmentStatuses observed). at_state st = StActive \<or> at_state st = StDraining"
  proof
    fix st assume "st \<in> set (oh_assignmentStatuses observed)"
    then have "st \<in> set (map (assignment_status_of (ha_states s')) ?as) \<union> set drs"
      unfolding sts rep using draining_statuses(1) by blast
    then show "at_state st = StActive \<or> at_state st = StDraining" using active drs by auto
  qed
  ultimately show ?thesis using o by blast
qed

text \<open>A desired state that the host applies without error is what the host then reports: the runtime summary
  compared with the desired state is a match, pipelines and protocol packages alike; every assignment
  is reported active in the generation of the revision, and every other reported assignment is
  draining. The host must support the assignments (a service module manager for service modules, a
  worker or serve payload for the others), its modules must admit the change, and the parser of the
  configuration must return what it accepts.\<close>

theorem applied_state_is_reported:
  fixes s :: "'h host_adapter" and d :: "'h host_deps"
  assumes run: "apply_desired d opts now desired artifacts s = (Inr (), s')"
    and "supported (ha_manager s \<noteq> None) (dh_assignments desired)" "modules_ready (dh_assignments desired) s"
    and "\<forall>e md. md_load (hd_modules d) e = Inr md \<longrightarrow> distinct (map fst (sv_actions md))"
    and parses: "\<forall>c c'. cd_parses (hd_config d) c = Inr c' \<longrightarrow> c' = c"
  shows "\<exists>observed. collect_observed lc opts state metrics now' s' = Inr observed
    \<and> ck_status (check_host lc None (Some desired) (Some observed) hostId) = Match
    \<and> (\<forall>a\<in>set (dh_assignments desired). \<exists>st\<in>set (oh_assignmentStatuses observed). at_assignmentId st = as_assignmentId a
         \<and> at_state st = StActive \<and> at_generationId st = Some (''admin:'' @ dh_revision desired))
    \<and> (\<forall>st\<in>set (oh_assignmentStatuses observed). at_state st = StActive \<or> at_state st = StDraining)"
  by (rule applied_and_reported[OF assms])

section \<open>An application that fails\<close>

lemma failed_keeps_desired:
  assumes "apply_desired d opts now desired artifacts s = (Inl e, s')"
  shows "ha_lastDesired s' = ha_lastDesired s"
  using assms by (auto simp: apply_desired_def Let_def split: prod.splits sum.splits unit.splits)

text \<open>C26: What a failed application leaves behind. The states that are reported, the desired state they belong to
  and the topology are those of before, so the error recorded for an assignment is not reported; if a
  pipeline cannot be built nothing at all changes; if the service modules cannot be changed the
  configuration and the trusted issuers stay; if the configuration is refused the service modules and
  the trusted issuers are already the new ones.\<close>

theorem failed_application_keeps_report:
  assumes "apply_desired d opts now desired artifacts s = (Inl e, s')"
  shows "ha_states s' = ha_states s \<and> ha_lastDesired s' = ha_lastDesired s \<and> ha_topology s' = ha_topology s
    \<and> (case e of BuildFailed _ \<Rightarrow> s' = s
       | ModulesFailed _ \<Rightarrow> ha_config s' = ha_config s \<and> ha_trust s' = ha_trust s
       | ConfigFailed x \<Rightarrow> ha_trust s' = map_option (\<lambda>_. dh_runtimeAuthTrust desired) (ha_trust s)
           \<and> (\<exists>config. (cd_parses (hd_config d) config = Inl x \<and> ha_config s' = ha_config s)
               \<or> (\<exists>parsed. cd_parses (hd_config d) config = Inr parsed \<and> get_config (ha_config s') = Inr parsed)))"
proof -
  let ?gen = "''admin:'' @ dh_revision desired"
  obtain r1 sts1 where b: "build_config d opts (ha_manager s \<noteq> None) now ?gen artifacts (routes_by_id desired)
       (dh_assignments desired) (initial_states ?gen (dh_assignments desired)) = (r1, sts1)" by (metis surj_pair)
  show ?thesis
  proof (cases r1)
    case (Inl x)
    then show ?thesis using assms b by (simp add: apply_desired_def Let_def) force
  next
    case (Inr config)
    obtain r2 m sts2 where m: "apply_modules d now ?gen artifacts (dh_assignments desired) s sts1 = (r2, m, sts2)" by (metis prod_cases3)
    show ?thesis
    proof (cases r2)
      case (Inl x)
      then have "e = ModulesFailed x \<and> s' = s\<lparr>ha_manager := m\<rparr>" using assms b Inr m by (simp add: apply_desired_def Let_def)
      then show ?thesis by simp
    next
      case r2: (Inr u)
      obtain r3 store where c: "apply_config (hd_config d) config (ha_config s) = (r3, store)" by (metis surj_pair)
      obtain x where r3: "r3 = Inl x" using assms b Inr m r2 c by (cases r3) (simp_all add: apply_desired_def Let_def split: unit.splits)
      have eq: "e = ConfigFailed x \<and> s' = s\<lparr>ha_manager := m, ha_trust := map_option (\<lambda>_. dh_runtimeAuthTrust desired) (ha_trust s),
          ha_config := store\<rparr>"
        using assms b Inr m r2 c r3 by (simp add: apply_desired_def Let_def split: unit.splits)
      have "(cd_parses (hd_config d) config = Inl x \<and> store = ha_config s)
          \<or> (\<exists>parsed. cd_parses (hd_config d) config = Inr parsed \<and> get_config store = Inr parsed)"
      proof (cases "cd_parses (hd_config d) config")
        case (Inl y)
        then show ?thesis using c r3 by (simp add: apply_config_def)
      next
        case (Inr parsed)
        obtain r4 s1 where pub: "publish_config (hd_config d) parsed (ha_config s) = (r4, s1)" by (metis surj_pair)
        then have "cg_current s1 = Some parsed" by (auto simp: publish_config_def split: prod.splits)
        moreover have "s1 = store" using c r3 Inr pub by (cases r4) (simp_all add: apply_config_def)
        ultimately show ?thesis using Inr by (simp add: get_config_def)
      qed
      then show ?thesis using eq by auto
    qed
  qed
qed

lemma activate_ready_codes: "code_of (activate_ready now sts) i = code_of sts i"
  by (cases "map_of sts i") (auto simp: code_of_def activate_ready_lookup)

lemma ready_state_codes: "code_of (ready_state now gen j sts) i = code_of sts i"
  by (auto simp: code_of_def ready_state_def split: option.split)

lemma initial_codes: "code_of (initial_states gen as) i = None"
proof -
  have "map_of (rev (map (\<lambda>a. (as_assignmentId a, initial_record gen a)) as)) i = Some st \<Longrightarrow> rc_lastError st = None" for st
    using map_of_SomeD[of "rev (map (\<lambda>a. (as_assignmentId a, initial_record gen a)) as)" i st]
    by (auto simp: initial_record_def)
  then show ?thesis unfolding code_of_def initial_states_def map_of_map_from by (cases "map_of (rev (map (\<lambda>a. (as_assignmentId a, initial_record gen a)) as)) i") auto
qed

definition reported_codes :: "string option set" where
  "reported_codes = {None, Some ''SERVICE_MODULE_NOT_SUPPORTED'', Some ''HTTP_EXECUTABLE_PAYLOAD_MISSING''}"

lemma build_config_codes:
  assumes "build_config d opts hasManager now gen artifacts routes as sts = (Inr config, sts')" "\<And>i. code_of sts i \<in> reported_codes"
  shows "code_of sts' i \<in> reported_codes"
  using assms
proof (induction as arbitrary: sts config)
  case (Cons a as)
  have mark: "code_of (mark_failed now j (module_error c msg r) sts) i \<in> reported_codes"
    if "Some c \<in> reported_codes" for i j c msg r
    using that Cons.prems(2) by (simp add: code_of_mark_failed module_error_def)
  show ?case
  proof (cases "as_deploymentKind a = ServiceModuleKind \<or> assignment_program a = None")
    case True
    obtain sts1 where "build_config d opts hasManager now gen artifacts routes as sts1 = (Inr config, sts')"
      "\<And>i. code_of sts1 i \<in> reported_codes"
    proof (cases "as_deploymentKind a = ServiceModuleKind")
      case sm: True
      show ?thesis
        by (rule that[of "if hasManager then sts else mark_failed now (as_assignmentId a) (module_error ''SERVICE_MODULE_NOT_SUPPORTED''
            ''Current runtime does not yet apply service_module assignments'' False) sts"])
          (use Cons.prems sm mark in \<open>auto simp: reported_codes_def\<close>)
    next
      case False
      then have "or_else (as_httpWorker a) (as_serveApp a) = None" using True by (simp add: assignment_program_def)
      then show ?thesis
        by (intro that[of "mark_failed now (as_assignmentId a) (module_error ''HTTP_EXECUTABLE_PAYLOAD_MISSING''
              ''Assignment is missing httpWorker or serveApp payload'' False) sts"])
          (use Cons.prems(1) False mark in \<open>simp_all add: reported_codes_def\<close>)
    qed
    then show ?thesis using Cons.IH by blast
  next
    case False
    then obtain ex where ex: "or_else (as_httpWorker a) (as_serveApp a) = Some ex" by (auto simp: assignment_program_def)
    obtain r1 sts1 where b: "build_http d opts now gen artifacts routes a ex sts = (r1, sts1)" by (metis surj_pair)
    obtain r2 sts2 where rest: "build_config d opts hasManager now gen artifacts routes as sts1 = (r2, sts2)" by (metis surj_pair)
    obtain ps where ps: "r1 = Inr ps" using Cons.prems(1) False ex b by (cases r1) simp_all
    obtain more where more: "r2 = Inr more" "sts' = sts2"
      using Cons.prems(1) False ex b rest ps by (cases r2) simp_all
    have "sts1 = ready_state now gen (as_assignmentId a) sts"
      using b ps unfolding build_http_def by (auto simp: Let_def split: sum.splits)
    then show ?thesis using Cons.IH[of sts1 more] rest more Cons.prems(2) by (simp add: ready_state_codes)
  qed
qed simp

lemma activate_all_codes:
  "activate_all now gen previous nxs (m, sts) = (r, m', sts') \<Longrightarrow> code_of sts' i = code_of sts i"
proof (induction nxs arbitrary: m sts)
  case (Cons nx nxs)
  obtain r1 m1 sts1 where one: "activate_one now gen previous nx (m, sts) = (r1, m1, sts1)" by (metis prod_cases3)
  obtain dr mc where c: "cancel_draining (nx_assignmentId nx) m = (dr, mc)" by (metis surj_pair)
  obtain rb mb where b: "bind_module nx (map_of (mm_active m) (nx_assignmentId nx)) dr mc = (rb, mb)" by (metis surj_pair)
  have "code_of sts1 i = code_of sts i"
  proof (cases rb)
    case (Inl e)
    then have "sts1 = sts" using one by (simp add: activate_one_def c b Let_def)
    then show ?thesis by simp
  next
    case (Inr u)
    then have "sts1 = (case map_of sts (nx_assignmentId nx) of None \<Rightarrow> sts
                | Some st \<Rightarrow> map_set (nx_assignmentId nx) (st\<lparr>rc_state := StReady, rc_generationId := Some gen, rc_preparedAt := Some now\<rparr>) sts)"
      using one by (simp add: activate_one_def c b Let_def split: unit.splits)
    then show ?thesis by (auto simp: code_of_def split: option.split)
  qed
  then show ?case using Cons.IH[of m1 sts1] Cons.prems one by (cases r1) (simp_all split: unit.splits)
qed simp

lemma apply_modules_codes:
  assumes "apply_modules d now gen artifacts as s sts = (Inr (), m', sts')" shows "code_of sts' i = code_of sts i"
proof (cases "ha_manager s")
  case None
  then show ?thesis using assms by (simp add: apply_modules_def)
next
  case (Some m)
  obtain m1 where run: "apply_assignments (hd_modules d) now (hd_drainGraceMs d) gen (ha_states s) artifacts as (m, sts) = (Inr (), m1, sts')"
    using assms Some by (auto simp: apply_modules_def split: prod.splits)
  obtain r0 sts1 where prep: "prepare_assignments (hd_modules d) now artifacts as [] sts = (r0, sts1)" by (metis surj_pair)
  then obtain nxs where "r0 = Inr nxs" using run by (cases r0) (simp_all add: apply_assignments_def)
  with prep have prep: "prepare_assignments (hd_modules d) now artifacts as [] sts = (Inr nxs, sts)" using prepare_keeps_states by blast
  obtain rc mc sc where com: "commit_modules now (hd_drainGraceMs d) gen (ha_states s) nxs (m, sts) = (rc, mc, sc)" by (metis prod_cases3)
  then have "sc = sts'" using run by (cases rc) (simp_all add: apply_assignments_def prep split: unit.splits)
  then show ?thesis using com activate_all_codes by (auto simp: commit_modules_def Let_def)
qed

text \<open>Any sequence of desired states, each with its clock and its manifests.\<close>

definition host_run ::
  "'h host_deps \<Rightarrow> host_options \<Rightarrow> (int \<times> desired_host_state \<times> (string, artifact_manifest) js_map) list \<Rightarrow> 'h host_adapter \<Rightarrow> 'h host_adapter" where
  "host_run d opts = fold (\<lambda>(now, desired, artifacts) s. snd (apply_desired d opts now desired artifacts s))"

lemma apply_desired_codes:
  assumes "\<And>i. code_of (ha_states s) i \<in> reported_codes"
  shows "code_of (ha_states (snd (apply_desired d opts now desired artifacts s))) i \<in> reported_codes"
proof -
  obtain r s' where run: "apply_desired d opts now desired artifacts s = (r, s')" by (metis surj_pair)
  show ?thesis
  proof (cases r)
    case (Inl e)
    then have "ha_states s' = ha_states s" using run by (auto simp: apply_desired_def Let_def split: prod.splits sum.splits unit.splits)
    then show ?thesis using run assms by simp
  next
    case (Inr u)
    then have run: "apply_desired d opts now desired artifacts s = (Inr (), s')" using run by simp
    obtain config sts1 m sts2 where
      b: "build_config d opts (ha_manager s \<noteq> None) now (''admin:'' @ dh_revision desired) artifacts (routes_by_id desired)
       (dh_assignments desired) (initial_states (''admin:'' @ dh_revision desired) (dh_assignments desired)) = (Inr config, sts1)"
      and am: "apply_modules d now (''admin:'' @ dh_revision desired) artifacts (dh_assignments desired) s sts1 = (Inr (), m, sts2)"
      and s': "ha_states s' = activate_ready now sts2"
      using apply_desired_success[OF run] by metis
    have "code_of sts1 i \<in> reported_codes" for i
      by (rule build_config_codes[OF b]) (unfold initial_codes, simp add: reported_codes_def)
    then show ?thesis by (simp add: run s' activate_ready_codes apply_modules_codes[OF am])
  qed
qed

text \<open>Of the error codes the adapter records for assignments only two are ever reported. A missing route
  reference, an artifact that cannot be staged and every failure of a service module abort the
  application, and what was recorded for the assignment is thrown away with it.\<close>

theorem only_two_codes_reported:
  assumes "ha_states s0 = []" "st \<in> set (report_statuses lc (host_run d opts runs s0))" "at_lastError st = Some e"
  shows "er_code e \<in> {''SERVICE_MODULE_NOT_SUPPORTED'', ''HTTP_EXECUTABLE_PAYLOAD_MISSING''}"
proof -
  define s where "s = host_run d opts runs s0"
  have "code_of (ha_states (host_run d opts runs s)) i \<in> reported_codes"
    if "\<And>i. code_of (ha_states s) i \<in> reported_codes" for i s
    using that
  proof (induction runs arbitrary: s)
    case (Cons x xs)
    obtain now desired artifacts where x: "x = (now, desired, artifacts)" by (cases x)
    show ?case using Cons.IH[OF apply_desired_codes[OF Cons.prems]] by (simp add: host_run_def x)
  qed (simp add: host_run_def)
  then have codes: "code_of (ha_states s) i \<in> reported_codes" for i
    using assms(1) by (simp add: s_def code_of_def reported_codes_def)
  define as where "as = (case ha_lastDesired s of None \<Rightarrow> [] | Some desired \<Rightarrow> dh_assignments desired)"
  define drs where "drs = (case ha_manager s of None \<Rightarrow> [] | Some m \<Rightarrow> list_draining_assignments lc m)"
  have "st \<in> set (map (assignment_status_of (ha_states s)) as) \<union> set drs"
    using assms(2) draining_statuses(1) unfolding s_def[symmetric] report_statuses_def as_def[symmetric] drs_def[symmetric] Let_def by blast
  moreover have "at_lastError x = None" if "x \<in> set drs" for x
    using that by (auto simp: drs_def list_draining_assignments_def split: option.splits)
  ultimately obtain a where "st = assignment_status_of (ha_states s) a" using assms(3) by auto
  then have "code_of (ha_states s) (as_assignmentId a) = Some (er_code e)"
    using assms(3) by (simp add: assignment_status_of_def code_of_def Let_def)
  then show ?thesis using codes[of "as_assignmentId a"] by (auto simp: reported_codes_def)
qed

section \<open>An example\<close>

definition demo_worker :: "string \<Rightarrow> string \<Rightarrow> assignment" where
  "demo_worker i ref = (demo_service i [] [] [])\<lparr>as_deploymentKind := HttpWorkerKind, as_serviceModule := None,
     as_httpWorker := Some \<lparr>ex_name = i, ex_entry = ''index.ts'', ex_routeRefs = Some [ref], ex_deployment = None\<rparr>\<rparr>"

definition demo_desired :: "string \<Rightarrow> desired_host_state" where
  "demo_desired ref = \<lparr>dh_hostId = ''h'', dh_revision = ''7'', dh_generatedAt = 0, dh_assignments = demo_worker ''w1'' ref # demo_next,
     dh_topology = None, dh_runtimeAuthTrust = None,
     dh_routes = Some [\<lparr>fr_routeId = ''r1'', fr_pathPrefix = ''/x'', fr_baseUrl = ''http://up'', fr_websocketEnabled = None\<rparr>]\<rparr>"

definition demo_host_deps :: "nat host_deps" where
  "demo_host_deps = \<lparr>hd_stage = \<lambda>a _. Inr (''/staged/'' @ as_assignmentId a), hd_modules = demo_deps, hd_drainGraceMs = 3000,
     hd_config = \<lparr>cd_imports = \<lambda>_. Inl [], cd_parses = Inr, cd_listener_error = \<lambda>_ _. None\<rparr>\<rparr>"

definition demo_options :: host_options where
  "demo_options = \<lparr>ho_hostId = ''h'', ho_groupId = None, ho_nodeId = None, ho_runtimeVersion = ''1'', ho_publicBaseUrl = None,
     ho_internalBaseUrl = None, ho_publicListenerEnabled = None, ho_internalListenerEnabled = None, ho_staticLabels = None,
     ho_staticCapabilities = None, ho_staticCapacity = None, ho_defaultConnectTimeoutMs = None, ho_defaultResponseTimeoutMs = None,
     ho_defaultWorkerTimeoutMs = None, ho_registrationDynamicFields = None, ho_observedDynamicFields = None\<rparr>"

definition demo_adapter :: "nat host_adapter" where
  "demo_adapter = \<lparr>ha_lastDesired = None, ha_warned = False, ha_states = [], ha_manager = Some demo_manager,
     ha_config = new_config_store, ha_topology = None, ha_trust = None\<rparr>"

definition demo_running :: runtime_state where
  "demo_running = \<lparr>ru_startedAt = 0, ru_uptimeMs = 1, ru_shuttingDown = False, ru_disposed = False, ru_ready = True, ru_inFlightHttpRequests = 0\<rparr>"

text \<open>The demo host can apply the demo state.\<close>

lemma demo_able:
  "supported (ha_manager demo_adapter \<noteq> None) (dh_assignments (demo_desired ''r1''))"
  "modules_ready (dh_assignments (demo_desired ''r1'')) demo_adapter"
  "\<forall>e md. md_load (hd_modules demo_host_deps) e = Inr md \<longrightarrow> distinct (map fst (sv_actions md))"
  "\<forall>c c'. cd_parses (hd_config demo_host_deps) c = Inr c' \<longrightarrow> c' = c"
proof -
  have "supported True (dh_assignments (demo_desired ''r1''))" by code_simp
  then show "supported (ha_manager demo_adapter \<noteq> None) (dh_assignments (demo_desired ''r1''))" by (simp add: demo_adapter_def)
  have "service_assignments (dh_assignments (demo_desired ''r1'')) = service_assignments demo_next" by code_simp
  then have "change_ok (dh_assignments (demo_desired ''r1'')) demo_manager"
    using demo_change_ok by (simp add: change_ok_def assigned_ids_def)
  moreover have "packages_ok demo_manager" by code_simp
  ultimately show "modules_ready (dh_assignments (demo_desired ''r1'')) demo_adapter"
    using demo_manager_ok by (simp add: modules_ready_def demo_adapter_def)
  show "\<forall>e md. md_load (hd_modules demo_host_deps) e = Inr md \<longrightarrow> distinct (map fst (sv_actions md))"
    using demo_loads by (simp add: demo_host_deps_def)
  show "\<forall>c c'. cd_parses (hd_config demo_host_deps) c = Inr c' \<longrightarrow> c' = c" by (simp add: demo_host_deps_def)
qed

theorem applied_state_is_reported_witness:
  "\<exists>s' observed. apply_desired demo_host_deps demo_options 0 (demo_desired ''r1'') [] demo_adapter = (Inr (), s')
    \<and> collect_observed code_unit_compare demo_options demo_running None 1 s' = Inr observed
    \<and> ck_status (check_host code_unit_compare None (Some (demo_desired ''r1'')) (Some observed) ''h'') = Match"
proof -
  have "fst (apply_desired demo_host_deps demo_options 0 (demo_desired ''r1'') [] demo_adapter) = Inr ()" by code_simp
  then obtain s' where run: "apply_desired demo_host_deps demo_options 0 (demo_desired ''r1'') [] demo_adapter = (Inr (), s')"
    by (metis prod.collapse)
  show ?thesis
    using applied_state_is_reported[OF run demo_able, where lc = code_unit_compare and state = demo_running
        and metrics = None and now' = 1 and hostId = "''h''"] run
    by blast
qed

text \<open>The route does not exist: the application is aborted, and the host reports nothing of it.\<close>

theorem failed_application_keeps_report_witness:
  "\<exists>e s'. apply_desired demo_host_deps demo_options 0 (demo_desired ''r2'') [] demo_adapter = (Inl (BuildFailed e), s') \<and> s' = demo_adapter"
proof -
  have "(case fst (apply_desired demo_host_deps demo_options 0 (demo_desired ''r2'') [] demo_adapter) of Inl (BuildFailed e) \<Rightarrow> True | _ \<Rightarrow> False)"
    by code_simp
  then obtain e s' where run: "apply_desired demo_host_deps demo_options 0 (demo_desired ''r2'') [] demo_adapter = (Inl (BuildFailed e), s')"
    by (auto split: sum.splits host_failure.splits) (metis prod.collapse)
  then show ?thesis using failed_application_keeps_report[OF run] by auto
qed

definition unsupported_adapter :: "nat host_adapter" where
  "unsupported_adapter = demo_adapter\<lparr>ha_manager := None\<rparr>"

theorem only_two_codes_reported_witness:
  "\<exists>st e. st \<in> set (report_statuses code_unit_compare (host_run demo_host_deps demo_options [(0, demo_desired ''r1'', [])] unsupported_adapter))
    \<and> at_lastError st = Some e \<and> er_code e \<in> {''SERVICE_MODULE_NOT_SUPPORTED'', ''HTTP_EXECUTABLE_PAYLOAD_MISSING''}"
proof -
  let ?sts = "report_statuses code_unit_compare (host_run demo_host_deps demo_options [(0, demo_desired ''r1'', [])] unsupported_adapter)"
  have "list_ex (\<lambda>st. case at_lastError st of None \<Rightarrow> False | Some _ \<Rightarrow> True) ?sts" by code_simp
  then obtain st e where st: "st \<in> set ?sts" "at_lastError st = Some e" by (auto simp: list_ex_iff split: option.splits)
  moreover have "ha_states unsupported_adapter = []" by (simp add: unsupported_adapter_def demo_adapter_def)
  ultimately show ?thesis using only_two_codes_reported by blast
qed

end
