(* ===== verification/Agent_Props.thy ===== *)
theory Agent_Props
  imports Host_Agent Host_Props
begin

text \<open>The agent against any runtime and any control plane: it goes on polling while it runs, and the revision
  it asks with is the revision of what the runtime applied last. The second fact is proved in the locale
  of the interface to the runtime, which the runtime adapter is shown to satisfy. With the control plane
  in memory on the other side, one cycle brings a host in step.\<close>

section \<open>Runs of the agent\<close>

inductive agent_step :: "'w agent_env \<Rightarrow> agent_options \<Rightarrow> ('w \<Rightarrow> 'w \<Rightarrow> bool) \<Rightarrow> host_agent \<times> 'w \<Rightarrow> host_agent \<times> 'w \<Rightarrow> bool"
  for env opts moves where
  start_called: "agent_step env opts moves (a, w) (start_agent a, w)"
| stop_called: "agent_step env opts moves (a, w) (stop_agent a, w)"
| reconcile_called: "agent_step env opts moves (a, w) (reconcile_once a, w)"
| timer_fires: "agent_step env opts moves (a, w) (poll_timer_fires t a, w)"
| cycle_done: "agent_step env opts moves (a, w) (cycle_ends env opts (a, w))"
| world_moves: "moves w w' \<Longrightarrow> agent_step env opts moves (a, w) (a, w')"

inductive agent_reachable :: "'w agent_env \<Rightarrow> agent_options \<Rightarrow> ('w \<Rightarrow> 'w \<Rightarrow> bool) \<Rightarrow> host_agent \<times> 'w \<Rightarrow> bool"
  for env opts moves where
  agent_new: "agent_reachable env opts moves (new_host_agent, w)"
| agent_next: "agent_reachable env opts moves x \<Longrightarrow> agent_step env opts moves x y \<Longrightarrow> agent_reachable env opts moves y"

section \<open>What a cycle leaves alone\<close>

definition same_polling :: "host_agent \<Rightarrow> host_agent \<Rightarrow> bool" where
  "same_polling a b = (hg_running b = hg_running a \<and> hg_pollTimer b = hg_pollTimer a \<and> hg_nextTimer b = hg_nextTimer a
     \<and> hg_cycleInFlight b = hg_cycleInFlight a)"

lemma register_step_polling: "register_step env r (c, a, w) = (c', a', w') \<Longrightarrow> same_polling a a'"
  by (auto simp: register_step_def same_polling_def split: if_splits prod.splits sum.splits)

lemma apply_step_polling: "apply_step env opts d (c, a, w) = (c', a', w') \<Longrightarrow> same_polling a a'"
  by (auto simp: apply_step_def same_polling_def split: prod.splits sum.splits)

lemma desired_step_polling: "desired_step env opts r (c, a, w) = (c', a', w') \<Longrightarrow> same_polling a a'"
  by (auto simp: desired_step_def same_polling_def split: prod.splits sum.splits bool.splits option.splits
      dest!: apply_step_polling[unfolded same_polling_def])

lemma same_polling_trans: "same_polling a b \<Longrightarrow> same_polling b c \<Longrightarrow> same_polling a c"
  by (simp add: same_polling_def)

lemma same_polling_refl [simp]: "same_polling a a"
  by (simp add: same_polling_def)

lemma reconcile_step_polling:
  assumes "reconcile_step env opts (c, a, w) = (c', a', w')"
  shows "same_polling a a'"
proof (cases "ae_registration env w")
  case (Inr registration)
  let ?c = "c\<lparr>cy_registration := Some registration\<rparr>"
  obtain c2 a2 w2 where r: "register_step env registration (?c, a, w) = (c2, a2, w2)" by (metis prod_cases3)
  show ?thesis
    using assms Inr r register_step_polling[OF r] same_polling_trans[OF register_step_polling[OF r] desired_step_polling]
    by (auto simp: reconcile_step_def Let_def split: option.splits if_splits)
qed (use assms in \<open>simp add: reconcile_step_def\<close>)

lemma cycle_polling:
  assumes "perform_reconcile_cycle env opts (a, w) = (a', w')"
  shows "hg_running a' = hg_running a" "hg_cycleInFlight a' = hg_cycleInFlight a"
    "hg_pollTimer a' = (if hg_running a then Some (hg_nextTimer a) else hg_pollTimer a)"
    "hg_nextTimer a \<le> hg_nextTimer a'" "hg_running a \<Longrightarrow> hg_nextTimer a' = Suc (hg_nextTimer a)"
    "hg_lastPollAfterMs a' \<noteq> None"
proof -
  obtain c1 a1 w1 where r: "reconcile_step env opts (new_cycle opts, a, w) = (c1, a1, w1)" by (metis prod_cases3)
  obtain c3 where a': "a' = finish_cycle opts c3 a1"
    using assms r by (auto simp: perform_reconcile_cycle_def Let_def split: prod.splits)
  have "same_polling a a1" using reconcile_step_polling[OF r] .
  then show "hg_running a' = hg_running a" "hg_cycleInFlight a' = hg_cycleInFlight a"
    "hg_pollTimer a' = (if hg_running a then Some (hg_nextTimer a) else hg_pollTimer a)"
    "hg_nextTimer a \<le> hg_nextTimer a'" "hg_running a \<Longrightarrow> hg_nextTimer a' = Suc (hg_nextTimer a)"
    "hg_lastPollAfterMs a' \<noteq> None"
    by (simp_all add: a' finish_cycle_def schedule_next_poll_def same_polling_def Let_def)
qed

section \<open>The agent goes on\<close>

definition polling_ok :: "host_agent \<Rightarrow> bool" where
  "polling_ok a = ((hg_running a \<longrightarrow> hg_cycleInFlight a \<or> hg_pollTimer a \<noteq> None)
     \<and> (\<not> hg_running a \<longrightarrow> hg_pollTimer a = None)
     \<and> (\<forall>t. hg_pollTimer a = Some t \<longrightarrow> t < hg_nextTimer a))"

lemma cycle_ends_polling:
  assumes "polling_ok a" "cycle_ends env opts (a, w) = (a', w')"
  shows "polling_ok a' \<and> (hg_cycleInFlight a \<and> hg_running a \<longrightarrow> hg_pollTimer a' = Some (hg_nextTimer a)) \<and> \<not> hg_cycleInFlight a'"
proof (cases "hg_cycleInFlight a")
  case True
  obtain a1 w1 where p: "perform_reconcile_cycle env opts (a, w) = (a1, w1)" by (metis surj_pair)
  have "a' = a1\<lparr>hg_cycleInFlight := False\<rparr>" using assms(2) True p by (simp add: cycle_ends_def)
  then show ?thesis using cycle_polling[OF p] assms(1) unfolding polling_ok_def
    by (cases "hg_running a") auto
qed (use assms in \<open>simp add: cycle_ends_def\<close>)

lemma agent_step_polling: "agent_step env opts moves x y \<Longrightarrow> polling_ok (fst x) \<Longrightarrow> polling_ok (fst y)"
proof (induction rule: agent_step.induct)
  case (cycle_done a w)
  then show ?case using cycle_ends_polling[of a env opts w] by (cases "cycle_ends env opts (a, w)") auto
qed (auto simp: polling_ok_def start_agent_def reconcile_once_def stop_agent_def poll_timer_fires_def)

lemma reachable_polling: "agent_reachable env opts moves x \<Longrightarrow> polling_ok (fst x)"
  by (induction rule: agent_reachable.induct) (auto simp: agent_step_polling, simp add: polling_ok_def new_host_agent_def)

text \<open>An agent that runs goes on. In every reachable state, whatever the control plane, the runtime and the
  interleaving of calls, a running agent has a cycle in flight or a timer armed; the timer starts a
  cycle; and the end of a cycle, failed or not, arms a new timer. A stopped agent has no timer.\<close>

theorem agent_goes_on:
  assumes "agent_reachable env opts moves (a, w)"
  shows "(hg_running a \<longrightarrow> hg_cycleInFlight a \<or> hg_pollTimer a \<noteq> None) \<and> (\<not> hg_running a \<longrightarrow> hg_pollTimer a = None)
    \<and> (\<forall>t. hg_pollTimer a = Some t \<longrightarrow> hg_cycleInFlight (poll_timer_fires t a))
    \<and> (hg_cycleInFlight a \<and> hg_running a \<longrightarrow> hg_pollTimer (fst (cycle_ends env opts (a, w))) = Some (hg_nextTimer a))"
proof -
  have ok: "polling_ok a" using reachable_polling[OF assms] by simp
  have fires: "hg_pollTimer a = Some t \<Longrightarrow> hg_cycleInFlight (poll_timer_fires t a)" for t
    by (simp add: poll_timer_fires_def reconcile_once_def)
  have ends: "hg_cycleInFlight a \<Longrightarrow> hg_running a \<Longrightarrow> hg_pollTimer (fst (cycle_ends env opts (a, w))) = Some (hg_nextTimer a)"
    using cycle_ends_polling[OF ok, of env opts w] by (cases "cycle_ends env opts (a, w)") simp
  from ok show ?thesis by (auto simp: polling_ok_def fires ends)
qed

section \<open>The interface to the runtime\<close>

text \<open>What the agent relies on: an application that succeeds is what is applied from then on, one that fails
  changes nothing of it, and what is collected reports what is applied. The calls of the control plane
  and the other movements of the world do not touch the runtime.\<close>

locale host_runtime =
  fixes env :: "'w agent_env"
    and moves :: "'w \<Rightarrow> 'w \<Rightarrow> bool"
    and applied :: "'w \<Rightarrow> desired_host_state option"
    and reports :: "desired_host_state \<Rightarrow> observed_host_state \<Rightarrow> bool"
  assumes apply_ok: "ae_apply env desired artifacts w = (Inr u, w') \<Longrightarrow> applied w' = Some desired"
    and apply_failed: "ae_apply env desired artifacts w = (Inl e, w') \<Longrightarrow> applied w' = applied w"
    and collect_reports: "applied w = Some desired \<Longrightarrow> ae_collect env w = Inr observed \<Longrightarrow> reports desired observed"
    and calls_keep: "ae_register env r w = (x, w') \<Longrightarrow> applied w' = applied w"
      "ae_desired env i q w = (y, w') \<Longrightarrow> applied w' = applied w"
      "ae_manifest env i w = (z, w') \<Longrightarrow> applied w' = applied w"
      "ae_report env observed w = (v, w') \<Longrightarrow> applied w' = applied w"
      "ae_heartbeat env i observed w = (p, w') \<Longrightarrow> applied w' = applied w"
      "moves w w' \<Longrightarrow> applied w' = applied w"
begin

definition in_step :: "host_agent \<Rightarrow> 'w \<Rightarrow> bool" where
  "in_step a w = (\<forall>r. hg_desiredRevision a = Some r \<longrightarrow> (\<exists>desired. applied w = Some desired \<and> dh_revision desired = r))"

lemma in_step_keep: "in_step a w \<Longrightarrow> hg_desiredRevision a' = hg_desiredRevision a \<Longrightarrow> applied w' = applied w \<Longrightarrow> in_step a' w'"
  by (simp add: in_step_def)

lemma resolve_manifests_keep: "resolve_manifests env is w = (r, w') \<Longrightarrow> applied w' = applied w"
proof (induction "is" arbitrary: w r w')
  case (Cons i "is")
  obtain r1 w1 where m: "ae_manifest env i w = (r1, w1)" by (metis surj_pair)
  obtain r2 w2 where rest: "resolve_manifests env is w1 = (r2, w2)" by (metis surj_pair)
  show ?case using Cons.prems m rest calls_keep(3)[OF m] Cons.IH[OF rest] by simp
qed simp

lemma register_step_in_step:
  "register_step env registration (c, a, w) = (c', a', w') \<Longrightarrow> in_step a w \<Longrightarrow> in_step a' w'"
  by (auto simp: register_step_def in_step_def split: if_splits prod.splits sum.splits dest!: calls_keep)

lemma apply_step_in_step:
  assumes "apply_step env opts desired (c, a, w) = (c', a', w')" "in_step a w"
  shows "in_step a' w'"
proof -
  obtain q w1 where m: "resolve_manifests env (manifest_ids desired) w = (q, w1)" by (metis surj_pair)
  have w1: "applied w1 = applied w" using resolve_manifests_keep[OF m] .
  show ?thesis
  proof (cases q)
    case (Inl e)
    then show ?thesis using assms m w1 by (simp add: apply_step_def in_step_def)
  next
    case (Inr artifacts)
    obtain r w2 where ap: "ae_apply env desired artifacts w1 = (r, w2)" by (metis surj_pair)
    show ?thesis
      using assms m w1 Inr ap apply_ok[of desired artifacts w1 _ w2] apply_failed[of desired artifacts w1 _ w2]
      by (cases r) (auto simp: apply_step_def in_step_def)
  qed
qed

lemma desired_step_in_step:
  assumes "desired_step env opts registration (c, a, w) = (c', a', w')" "in_step a w"
  shows "in_step a' w'"
proof -
  obtain q w1 where d: "ae_desired env (hr_hostId registration) (hg_desiredRevision a) w = (q, w1)" by (metis surj_pair)
  have w1: "in_step a w1" using in_step_keep[OF assms(2) _ calls_keep(2)[OF d]] by simp
  then show ?thesis
    using assms(1) d apply_step_in_step
    by (auto simp: desired_step_def split: sum.splits bool.splits option.splits)
qed

lemma reconcile_step_in_step:
  assumes "reconcile_step env opts (c, a, w) = (c', a', w')" "in_step a w"
  shows "in_step a' w'"
proof (cases "ae_registration env w")
  case (Inr registration)
  let ?c = "c\<lparr>cy_registration := Some registration\<rparr>"
  obtain c2 a2 w2 where r: "register_step env registration (?c, a, w) = (c2, a2, w2)" by (metis prod_cases3)
  have "in_step a2 w2" using register_step_in_step[OF r assms(2)] .
  then show ?thesis
    using assms Inr r desired_step_in_step[of opts registration c2 a2 w2 c' a' w']
    by (auto simp: reconcile_step_def Let_def split: option.splits if_splits)
qed (use assms in \<open>simp add: reconcile_step_def\<close>)

lemma cycle_in_step:
  assumes "perform_reconcile_cycle env opts (a, w) = (a', w')" "in_step a w"
  shows "in_step a' w'"
proof -
  obtain c1 a1 w1 where r: "reconcile_step env opts (new_cycle opts, a, w) = (c1, a1, w1)" by (metis prod_cases3)
  have ok: "in_step a1 w1" using reconcile_step_in_step[OF r assms(2)] .
  obtain observed c2 where col: "collect_step env c1 w1 = (observed, c2)" by (metis surj_pair)
  have rep: "applied (snd (report_step env o1 (c2, w1))) = applied w1" for o1
    by (auto simp: report_step_def split: prod.splits sum.splits dest!: calls_keep(4))
  have beat: "applied (snd (heartbeat_step env o1 y)) = applied (snd y)" for o1 y
    by (auto simp: heartbeat_step_def split: prod.splits sum.splits dest!: calls_keep(5))
  define x where "x = (case observed of None \<Rightarrow> (c2, w1) | Some o1 \<Rightarrow> heartbeat_step env o1 (report_step env o1 (c2, w1)))"
  have "applied (snd x) = applied w1" by (cases observed) (simp_all add: x_def rep beat)
  moreover have "a' = finish_cycle opts (fst x) a1" "w' = snd x"
    using assms(1) r col unfolding x_def by (simp_all add: perform_reconcile_cycle_def Let_def split: prod.splits)
  ultimately have "applied w' = applied w1 \<and> (\<exists>c3. a' = finish_cycle opts c3 a1)" by auto
  then show ?thesis using in_step_keep[OF ok] by (auto simp: finish_cycle_def schedule_next_poll_def Let_def)
qed

lemma step_in_step: "agent_step env opts moves x y \<Longrightarrow> in_step (fst x) (snd x) \<Longrightarrow> in_step (fst y) (snd y)"
proof (induction rule: agent_step.induct)
  case (cycle_done a w)
  obtain a' w' where p: "perform_reconcile_cycle env opts (a, w) = (a', w')" by (metis surj_pair)
  show ?case using cycle_in_step[OF p] cycle_done p by (auto simp: cycle_ends_def in_step_def)
next
  case (world_moves w w' a)
  then show ?case using calls_keep(6) by (simp add: in_step_def)
qed (auto simp: in_step_def start_agent_def reconcile_once_def stop_agent_def poll_timer_fires_def)

lemma reachable_in_step: "agent_reachable env opts moves x \<Longrightarrow> in_step (fst x) (snd x)"
  by (induction rule: agent_reachable.induct) (auto simp: step_in_step, simp add: in_step_def new_host_agent_def)

lemma revision_reported:
  assumes "agent_reachable env opts moves (a, w)" "hg_desiredRevision a = Some r"
  shows "\<exists>desired. applied w = Some desired \<and> dh_revision desired = r
    \<and> (\<forall>observed. ae_collect env w = Inr observed \<longrightarrow> reports desired observed)"
  using reachable_in_step[OF assms(1)] assms(2) collect_reports by (auto simp: in_step_def)

end

section \<open>The runtime adapter as the agent's runtime\<close>

text \<open>What a report says of the desired state that is applied.\<close>

definition reports_desired :: "host_options \<Rightarrow> desired_host_state \<Rightarrow> observed_host_state \<Rightarrow> bool" where
  "reports_desired opts desired observed = (oh_hostId observed = ho_hostId opts
     \<and> (\<forall>a\<in>set (dh_assignments desired). \<exists>st\<in>set (oh_assignmentStatuses observed). at_assignmentId st = as_assignmentId a
          \<and> at_deploymentId st = as_deploymentId a \<and> at_declaredVersion st = as_declaredVersion a)
     \<and> (\<forall>st\<in>set (oh_assignmentStatuses observed). at_state st \<noteq> StDraining \<longrightarrow>
          at_assignmentId st \<in> as_assignmentId ` set (dh_assignments desired))
     \<and> ds_appliedTopology (oh_dynamicState observed)
         = Some (map_option (\<lambda>t. ms_revision (dt_membership t)) (dh_topology desired),
                 map_option (\<lambda>t. ps_revision (dt_placement t)) (dh_topology desired)))"

definition host_applied :: "('h, 'c) host_world \<Rightarrow> desired_host_state option" where
  "host_applied w = ha_lastDesired (hw_adapter w)"

text \<open>Timers of draining modules, reloads of the configuration, other clients of the control plane and time.\<close>

definition host_moves :: "('h, 'c) host_world \<Rightarrow> ('h, 'c) host_world \<Rightarrow> bool" where
  "host_moves w w' = (host_applied w' = host_applied w)"

lemma client_call_keeps: "client_call sc (on_admin tr) r w = (x, w') \<Longrightarrow> host_applied w' = host_applied w"
  by (auto simp: client_call_def on_admin_def host_applied_def Let_def split: sum.splits prod.splits)

lemma mapped_call_keeps:
  "map_prod f id (client_call sc (on_admin tr) r w) = (x, w') \<Longrightarrow> host_applied w' = host_applied w"
  "map_prod g id (map_prod f id (client_call sc (on_admin tr) r w)) = (y, w') \<Longrightarrow> host_applied w' = host_applied w"
  by (cases "client_call sc (on_admin tr) r w", simp add: client_call_keeps)+

lemma collected_reports:
  assumes "ha_lastDesired s = Some desired" "collect_observed lc opts state metrics now s = Inr observed"
  shows "reports_desired opts desired observed"
proof -
  have o: "oh_hostId observed = ho_hostId opts" "oh_assignmentStatuses observed = report_statuses lc s"
    "ds_appliedTopology (oh_dynamicState observed)
         = Some (map_option (\<lambda>t. ms_revision (dt_membership t)) (dh_topology desired),
                 map_option (\<lambda>t. ps_revision (dt_placement t)) (dh_topology desired))"
    using assms by (auto simp: collect_observed_def Let_def split: sum.splits)
  define drs where "drs = (case ha_manager s of None \<Rightarrow> [] | Some m \<Rightarrow> list_draining_assignments lc m)"
  let ?own = "map (assignment_status_of (ha_states s)) (dh_assignments desired)"
  have r: "report_statuses lc s = foldl add_draining_status ?own drs"
    by (simp add: report_statuses_def Let_def assms(1) drs_def)
  have own: "set ?own \<subseteq> set (report_statuses lc s)" and sub: "set (report_statuses lc s) \<subseteq> set ?own \<union> set drs"
    unfolding r using draining_statuses by blast+
  have fields: "at_assignmentId (assignment_status_of sts a) = as_assignmentId a"
    "at_deploymentId (assignment_status_of sts a) = as_deploymentId a"
    "at_declaredVersion (assignment_status_of sts a) = as_declaredVersion a" for sts a
    by (simp_all add: assignment_status_of_def Let_def)
  have dr: "at_state st = StDraining" if "st \<in> set drs" for st
    using that draining_state by (auto simp: drs_def split: option.splits)
  have "\<exists>st\<in>set (report_statuses lc s). at_assignmentId st = as_assignmentId a
      \<and> at_deploymentId st = as_deploymentId a \<and> at_declaredVersion st = as_declaredVersion a"
    if "a \<in> set (dh_assignments desired)" for a
    using own that fields by (intro bexI[of _ "assignment_status_of (ha_states s) a"]) auto
  moreover have "at_assignmentId st \<in> as_assignmentId ` set (dh_assignments desired)"
    if st: "st \<in> set (report_statuses lc s)" "at_state st \<noteq> StDraining" for st
  proof -
    have "st \<in> set ?own" using sub st dr by blast
    then show ?thesis using fields(1) by auto
  qed
  ultimately show ?thesis unfolding reports_desired_def o by blast
qed

interpretation agent_host: host_runtime "host_env d opts lc sc tr" host_moves host_applied "reports_desired opts"
  for d :: "'h host_deps" and opts lc sc and tr :: "'c admin_transport"
proof unfold_locales
  fix w w' :: "('h, 'c) host_world" and desired artifacts e u
  let ?env = "host_env d opts lc sc tr"
  show "host_applied w' = Some desired" if ap: "ae_apply ?env desired artifacts w = (Inr u, w')"
  proof -
    obtain r s where a: "apply_desired d opts (hw_now w) desired artifacts (hw_adapter w) = (r, s)" by (metis surj_pair)
    have "r = Inr ()" "w' = w\<lparr>hw_adapter := s\<rparr>" using ap a by (cases r; simp add: host_env_def)+
    then show ?thesis using apply_desired_success a unfolding host_applied_def by force
  qed
  show "host_applied w' = host_applied w" if ap: "ae_apply ?env desired artifacts w = (Inl e, w')"
  proof -
    obtain r s where a: "apply_desired d opts (hw_now w) desired artifacts (hw_adapter w) = (r, s)" by (metis surj_pair)
    obtain x where "r = Inl x" "w' = w\<lparr>hw_adapter := s\<rparr>" using ap a by (cases r; simp add: host_env_def)
    then show ?thesis using failed_keeps_desired a unfolding host_applied_def by simp
  qed
next
  fix w w' :: "('h, 'c) host_world" and desired observed
  show "host_applied w = Some desired \<Longrightarrow> ae_collect (host_env d opts lc sc tr) w = Inr observed \<Longrightarrow> reports_desired opts desired observed"
    using collected_reports by (auto simp: host_env_def host_applied_def)
qed (auto simp: host_env_def register_host_def get_desired_host_state_def fetch_artifact_manifest_def
    report_observed_host_state_def heartbeat_host_def host_moves_def dest: mapped_call_keeps)

text \<open>C29: The revision the agent asks with is the truth. In every reachable state of the server's agent, whatever the
  control plane answers and whatever else happens to the host, if the agent holds a revision then the
  runtime's last applied desired state has that revision, and whatever is collected names this host,
  lists every assignment of that state with its version, nothing else that is not draining, and the
  revisions of its topology. An application that failed is asked for again.\<close>

theorem agent_revision_is_applied:
  assumes "agent_reachable (host_env d opts lc sc tr) agentOpts host_moves (a, w)" "hg_desiredRevision a = Some r"
  shows "\<exists>desired. ha_lastDesired (hw_adapter w) = Some desired \<and> dh_revision desired = r
    \<and> (\<forall>observed. collect_observed lc opts (hw_state w) (hw_metrics w) (hw_now w) (hw_adapter w) = Inr observed
         \<longrightarrow> reports_desired opts desired observed)"
  using agent_host.revision_reported[OF assms] by (simp add: host_applied_def host_env_def)

section \<open>One cycle with the control plane in memory\<close>

definition passes :: "admin_schema \<Rightarrow> admin_request \<times> admin_answer \<Rightarrow> bool" where
  "passes sc = (\<lambda>(r, x). sc_request_error sc r = None \<and> sc_answer_error sc x = None)"

text \<open>What a host and the control plane say to each other in a cycle of a host that takes over the desired
  state \<open>desired\<close> and then reports \<open>observed\<close>, every request with its answer.\<close>

definition cycle_exchanges :: "host_options \<Rightarrow> host_agent \<Rightarrow> ('h, mock_admin) host_world \<Rightarrow> desired_host_state
    \<Rightarrow> observed_host_state \<Rightarrow> (admin_request \<times> admin_answer) list" where
  "cycle_exchanges opts a w desired observed =
    [(RegisterHost (get_host_registration opts (hw_state w)),
       HostRegistered (ho_hostId opts) True (Some (mk_pollAfterMs (hw_admin w)))),
     (GetDesiredHostState (ho_hostId opts) (hg_desiredRevision a), DesiredIs True (Some desired)),
     (ReportObservedHostState observed, ObservedTaken True),
     (HeartbeatHost (ho_hostId opts) observed, HeartbeatTaken True (Some (mk_nextPollAfterMs (hw_admin w))))]
    @ map (\<lambda>i. (FetchArtifactManifest i, ManifestIs (the (map_of (mk_artifactManifests (hw_admin w)) i)))) (manifest_ids desired)"

lemmas host_env_sel = host_env_def [THEN arg_cong [where f = ae_registration], simplified]
  host_env_def [THEN arg_cong [where f = ae_register], simplified]
  host_env_def [THEN arg_cong [where f = ae_desired], simplified]
  host_env_def [THEN arg_cong [where f = ae_manifest], simplified]
  host_env_def [THEN arg_cong [where f = ae_apply], simplified]
  host_env_def [THEN arg_cong [where f = ae_collect], simplified]
  host_env_def [THEN arg_cong [where f = ae_report], simplified]
  host_env_def [THEN arg_cong [where f = ae_heartbeat], simplified]

text \<open>The manifests a host is given for a list of ids.\<close>

definition manifests_for :: "(string, artifact_manifest) js_map \<Rightarrow> string list \<Rightarrow> (string, artifact_manifest) js_map" where
  "manifests_for ms is = foldr (\<lambda>i. map_set i (the (map_of ms i))) is []"

lemma mock_call:
  shows "passes sc (RegisterHost reg, HostRegistered (hr_hostId reg) True (Some (mk_pollAfterMs (hw_admin w)))) \<Longrightarrow>
      register_host sc (on_admin (mock_request sc lc)) reg w
      = (Inr (hr_hostId reg, True, Some (mk_pollAfterMs (hw_admin w))), w\<lparr>hw_admin := snd (handle_register_host reg (hw_admin w))\<rparr>)"
    and "passes sc (HeartbeatHost i observed, HeartbeatTaken True (Some (mk_nextPollAfterMs (hw_admin w)))) \<Longrightarrow>
      heartbeat_host sc (on_admin (mock_request sc lc)) i observed w
      = (Inr (True, Some (mk_nextPollAfterMs (hw_admin w))), w\<lparr>hw_admin := snd (handle_heartbeat_host i observed (hw_admin w))\<rparr>)"
    and "passes sc (ReportObservedHostState observed, ObservedTaken True) \<Longrightarrow>
      report_observed_host_state sc (on_admin (mock_request sc lc)) observed w
      = (Inr True, w\<lparr>hw_admin := snd (handle_report_observed_host_state observed (hw_admin w))\<rparr>)"
  by (simp_all add: register_host_def heartbeat_host_def report_observed_host_state_def client_call_def parse_request_def
      parse_answer_def passes_def on_admin_def mock_request_def handle_register_host_def handle_heartbeat_host_def
      handle_report_observed_host_state_def Let_def case_prod_unfold)

lemma mock_desired:
  assumes "passes sc (GetDesiredHostState i q, DesiredIs True (Some desired))"
    "map_of (mk_desiredHostStates (hw_admin w)) i = Some desired" "q \<noteq> Some (dh_revision desired)"
  shows "get_desired_host_state sc (on_admin (mock_request sc lc)) i q w = (Inr (True, Some desired), w)"
  using assms
  by (simp add: get_desired_host_state_def client_call_def parse_request_def parse_answer_def passes_def on_admin_def
      mock_request_def handle_get_desired_host_state_def ensure_desired_host_state_def)

lemma mock_manifest:
  assumes "passes sc (FetchArtifactManifest i, ManifestIs m)" "map_of (mk_artifactManifests (hw_admin w)) i = Some m"
  shows "fetch_artifact_manifest sc (on_admin (mock_request sc lc)) i w = (Inr m, w)"
  using assms
  by (simp add: fetch_artifact_manifest_def client_call_def parse_request_def parse_answer_def passes_def on_admin_def
      mock_request_def handle_fetch_artifact_manifest_def)

lemma mock_manifests:
  assumes "\<forall>i\<in>set is. \<exists>m. map_of (mk_artifactManifests (hw_admin w)) i = Some m \<and> passes sc (FetchArtifactManifest i, ManifestIs m)"
  shows "resolve_manifests (host_env d opts lc sc (mock_request sc lc)) is w = (Inr (manifests_for (mk_artifactManifests (hw_admin w)) is), w)"
  using assms
proof (induction "is")
  case (Cons i "is")
  then obtain m where "map_of (mk_artifactManifests (hw_admin w)) i = Some m" "passes sc (FetchArtifactManifest i, ManifestIs m)" by auto
  then show ?case using Cons by (simp add: mock_manifest host_env_sel manifests_for_def)
qed (simp add: manifests_for_def)

lemma handle_register_keeps:
  assumes "map_of (mk_desiredHostStates s) (hr_hostId reg) = Some desired"
  shows "mk_desiredHostStates (snd (handle_register_host reg s)) = mk_desiredHostStates s"
    "mk_artifactManifests (snd (handle_register_host reg s)) = mk_artifactManifests s"
    "mk_nextPollAfterMs (snd (handle_register_host reg s)) = mk_nextPollAfterMs s"
  using assms by (simp_all add: handle_register_host_def ensure_desired_host_state_def)

text \<open>The host is registered, the adapter has applied the state: what the cycle leaves when it began with
  this agent and this world.\<close>

lemma mock_reconcile:
  assumes sc: "\<forall>x\<in>set (cycle_exchanges opts a w desired observed). passes sc x"
    and des: "map_of (mk_desiredHostStates (hw_admin w)) (ho_hostId opts) = Some desired"
    and a: "\<not> truthy (hg_hostId a) \<or> hg_hostId a = Some (ho_hostId opts)" "hg_desiredRevision a \<noteq> Some (dh_revision desired)"
    and ms: "\<forall>i\<in>set (manifest_ids desired). map_of (mk_artifactManifests (hw_admin w)) i \<noteq> None"
    and ap: "apply_desired d opts (hw_now w) desired (manifests_for (mk_artifactManifests (hw_admin w)) (manifest_ids desired)) (hw_adapter w) = (Inr (), s)"
  shows "\<exists>c' a' adm. reconcile_step (host_env d opts lc sc (mock_request sc lc)) agentOpts (new_cycle agentOpts, a, w)
       = (c', a', w\<lparr>hw_admin := adm, hw_adapter := s\<rparr>)
    \<and> cy_failure c' = None \<and> cy_shouldReport c' = ao_reportObservedAfterApply agentOpts
    \<and> cy_registration c' = Some (get_host_registration opts (hw_state w)) \<and> hg_desiredRevision a' = Some (dh_revision desired)
    \<and> mk_desiredHostStates adm = mk_desiredHostStates (hw_admin w) \<and> mk_nextPollAfterMs adm = mk_nextPollAfterMs (hw_admin w)"
proof -
  let ?env = "host_env d opts lc sc (mock_request sc lc)"
  let ?reg = "get_host_registration opts (hw_state w)"
  have host: "hr_hostId ?reg = ho_hostId opts" by (simp add: get_host_registration_def)
  have p: "passes sc (RegisterHost ?reg, HostRegistered (hr_hostId ?reg) True (Some (mk_pollAfterMs (hw_admin w))))"
    "passes sc (GetDesiredHostState (ho_hostId opts) (hg_desiredRevision a), DesiredIs True (Some desired))"
    using sc host by (simp_all add: cycle_exchanges_def)
  have ms': "\<forall>i\<in>set (manifest_ids desired). \<exists>m. map_of (mk_artifactManifests (hw_admin w)) i = Some m
      \<and> passes sc (FetchArtifactManifest i, ManifestIs m)"
    using sc ms by (force simp: cycle_exchanges_def)
  have stable: "assert_stable_host_identity ?reg a = None" using a(1) host by (auto simp: assert_stable_host_identity_def)
  define adm where "adm = (if hg_registered a then hw_admin w else snd (handle_register_host ?reg (hw_admin w)))"
  let ?w = "w\<lparr>hw_admin := adm\<rparr>"
  have adm: "mk_desiredHostStates adm = mk_desiredHostStates (hw_admin w)" "mk_artifactManifests adm = mk_artifactManifests (hw_admin w)"
    "mk_nextPollAfterMs adm = mk_nextPollAfterMs (hw_admin w)"
    using handle_register_keeps[of "hw_admin w" ?reg desired] des host by (simp_all add: adm_def)
  let ?c = "(new_cycle agentOpts)\<lparr>cy_registration := Some ?reg\<rparr>"
  obtain c2 a2 where r: "register_step ?env ?reg (?c, a, w) = (c2, a2, ?w)" and c2: "cy_failure c2 = None" "cy_registration c2 = Some ?reg"
    and a2: "hg_desiredRevision a2 = hg_desiredRevision a"
    by (cases "hg_registered a") (auto simp: mock_call(1)[OF p(1)] register_step_def host_env_sel adm_def new_cycle_def)
  have "ae_desired ?env (hr_hostId ?reg) (hg_desiredRevision a2) ?w = (Inr (True, Some desired), ?w)"
    using mock_desired[of sc _ _ desired ?w] p(2) des a(2) a2 adm host by (simp add: host_env_sel)
  moreover have "resolve_manifests ?env (manifest_ids desired) ?w
      = (Inr (manifests_for (mk_artifactManifests (hw_admin w)) (manifest_ids desired)), ?w)"
    using mock_manifests[of "manifest_ids desired" ?w sc] ms' adm by simp
  moreover have "ae_apply ?env desired (manifests_for (mk_artifactManifests (hw_admin w)) (manifest_ids desired)) ?w
      = (Inr (), w\<lparr>hw_admin := adm, hw_adapter := s\<rparr>)"
    using ap by (simp add: host_env_sel)
  ultimately have "desired_step ?env agentOpts ?reg (c2, a2, ?w)
      = (c2\<lparr>cy_shouldReport := ao_reportObservedAfterApply agentOpts\<rparr>, a2\<lparr>hg_desiredRevision := Some (dh_revision desired)\<rparr>,
         w\<lparr>hw_admin := adm, hw_adapter := s\<rparr>)"
    by (simp add: desired_step_def apply_step_def)
  moreover have "ae_registration ?env w = Inr ?reg" by (simp add: host_env_sel)
  ultimately show ?thesis using r c2 stable adm
    by (intro exI[of _ "c2\<lparr>cy_shouldReport := ao_reportObservedAfterApply agentOpts\<rparr>"]
      exI[of _ "a2\<lparr>hg_desiredRevision := Some (dh_revision desired)\<rparr>"] exI[of _ adm]) (simp add: reconcile_step_def)
qed

lemma mock_cycle:
  assumes sc: "passes sc (ReportObservedHostState observed, ObservedTaken True)"
      "passes sc (HeartbeatHost (ho_hostId opts) observed, HeartbeatTaken True (Some (mk_nextPollAfterMs (hw_admin w))))"
    and col: "collect_observed lc opts (hw_state w) (hw_metrics w) (hw_now w) (hw_adapter w) = Inr observed"
    and c: "cy_failure c = None" "cy_registration c = Some reg" "hr_hostId reg = ho_hostId opts"
    and des: "map_of (mk_desiredHostStates (hw_admin w)) (ho_hostId opts) = Some desired"
  shows "\<exists>c' adm. (case collect_step (host_env d opts lc sc (mock_request sc lc)) c w of
        (observed, c1) \<Rightarrow> (case observed of None \<Rightarrow> (c1, w)
          | Some o1 \<Rightarrow> heartbeat_step (host_env d opts lc sc (mock_request sc lc)) o1
              (report_step (host_env d opts lc sc (mock_request sc lc)) o1 (c1, w)))) = (c', w\<lparr>hw_admin := adm\<rparr>)
    \<and> cy_failure c' = None \<and> cy_nextPollAfterMs c' = mk_nextPollAfterMs (hw_admin w)
    \<and> map_of (mk_observedHostStates adm) (ho_hostId opts) = Some observed"
proof -
  let ?env = "host_env d opts lc sc (mock_request sc lc)"
  have host: "oh_hostId observed = ho_hostId opts" using col by (auto simp: collect_observed_def Let_def split: sum.splits)
  have cs: "collect_step ?env c w = (Some observed, c)"
    using col c host by (simp add: collect_step_def host_env_sel)
  define adm1 where "adm1 = (if cy_shouldReport c then snd (handle_report_observed_host_state observed (hw_admin w)) else hw_admin w)"
  have rep: "report_step ?env observed (c, w) = (c, w\<lparr>hw_admin := adm1\<rparr>)"
    by (simp add: mock_call(3)[OF sc(1)] report_step_def host_env_sel adm1_def)
  have adm1: "mk_nextPollAfterMs adm1 = mk_nextPollAfterMs (hw_admin w)" "map_of (mk_desiredHostStates adm1) (ho_hostId opts) = Some desired"
    using des host by (simp_all add: adm1_def handle_report_observed_host_state_def ensure_desired_host_state_def)
  have "heartbeat_step ?env observed (c, w\<lparr>hw_admin := adm1\<rparr>)
      = (c\<lparr>cy_nextPollAfterMs := mk_nextPollAfterMs adm1\<rparr>, w\<lparr>hw_admin := snd (handle_heartbeat_host (oh_hostId observed) observed adm1)\<rparr>)"
    using sc(2) adm1(1) host by (simp add: mock_call(2) heartbeat_step_def host_env_sel value_else_def)
  moreover have "map_of (mk_observedHostStates (snd (handle_heartbeat_host (oh_hostId observed) observed adm1))) (ho_hostId opts) = Some observed"
    using adm1(2) host by (simp add: handle_heartbeat_host_def ensure_desired_host_state_def)
  ultimately show ?thesis using cs rep c(1) adm1(1) by auto
qed

text \<open>C28: One cycle with the control plane in memory brings a host in step. The control plane (the mock of
  the admin client, reached without a transport between) holds a desired state the agent has not applied,
  with a manifest for every artifact; the admin schema accepts the requests and answers of this cycle;
  the host is able to apply the state: its application succeeds, the host supports every assignment and
  every module assigned is registered, a module's actions are named apart and a parsed configuration is
  the configuration. Then the cycle ends without an error and with the delay the control plane asked
  for, the agent holds the new revision, and the observed state that the control plane now has for the
  host is the one collected after the application, is checked as a match of the desired state, and
  reports every assignment active in the generation of that revision.\<close>

theorem cycle_brings_host_in_step:
  fixes w :: "('h, mock_admin) host_world" and d :: "'h host_deps"
  assumes sc: "\<forall>x\<in>set (cycle_exchanges opts a w desired observed). passes sc x"
    and des: "map_of (mk_desiredHostStates (hw_admin w)) (ho_hostId opts) = Some desired"
    and a: "\<not> truthy (hg_hostId a) \<or> hg_hostId a = Some (ho_hostId opts)" "hg_desiredRevision a \<noteq> Some (dh_revision desired)"
    and ms: "\<forall>i\<in>set (manifest_ids desired). map_of (mk_artifactManifests (hw_admin w)) i \<noteq> None"
    and ap: "apply_desired d opts (hw_now w) desired (manifests_for (mk_artifactManifests (hw_admin w)) (manifest_ids desired)) (hw_adapter w) = (Inr (), s)"
    and col: "collect_observed lc opts (hw_state w) (hw_metrics w) (hw_now w) s = Inr observed"
    and able: "supported (ha_manager (hw_adapter w) \<noteq> None) (dh_assignments desired)" "modules_ready (dh_assignments desired) (hw_adapter w)"
    "\<forall>e md. md_load (hd_modules d) e = Inr md \<longrightarrow> distinct (map fst (sv_actions md))"
    "\<forall>c c'. cd_parses (hd_config d) c = Inr c' \<longrightarrow> c' = c"
  shows "\<exists>a' w'. perform_reconcile_cycle (host_env d opts lc sc (mock_request sc lc)) agentOpts (a, w) = (a', w')
    \<and> hg_lastError a' = None \<and> hg_lastPollAfterMs a' = Some (mk_nextPollAfterMs (hw_admin w))
    \<and> hg_desiredRevision a' = Some (dh_revision desired)
    \<and> get_observed_host_state (ho_hostId opts) (hw_admin w') = Some observed
    \<and> ck_status (check_host lc None (Some desired) (Some observed) (ho_hostId opts)) = Match
    \<and> (\<forall>x\<in>set (dh_assignments desired). \<exists>st\<in>set (oh_assignmentStatuses observed). at_assignmentId st = as_assignmentId x
         \<and> at_state st = StActive \<and> at_generationId st = Some (''admin:'' @ dh_revision desired))"
proof -
  let ?env = "host_env d opts lc sc (mock_request sc lc)"
  obtain c1 a1 adm where r: "reconcile_step ?env agentOpts (new_cycle agentOpts, a, w) = (c1, a1, w\<lparr>hw_admin := adm, hw_adapter := s\<rparr>)"
    and c1: "cy_failure c1 = None" "cy_registration c1 = Some (get_host_registration opts (hw_state w))"
    and a1: "hg_desiredRevision a1 = Some (dh_revision desired)"
    and adm: "mk_desiredHostStates adm = mk_desiredHostStates (hw_admin w)" "mk_nextPollAfterMs adm = mk_nextPollAfterMs (hw_admin w)"
    using mock_reconcile[OF sc des a ms ap] by blast
  let ?w1 = "w\<lparr>hw_admin := adm, hw_adapter := s\<rparr>"
  have seen: "ck_status (check_host lc None (Some desired) (Some observed) (ho_hostId opts)) = Match
      \<and> (\<forall>x\<in>set (dh_assignments desired). \<exists>st\<in>set (oh_assignmentStatuses observed). at_assignmentId st = as_assignmentId x
         \<and> at_state st = StActive \<and> at_generationId st = Some (''admin:'' @ dh_revision desired))"
    using applied_and_reported[OF ap able(1,2,3,4), where lc = lc and state = "hw_state w" and metrics = "hw_metrics w"
        and now' = "hw_now w" and hostId = "ho_hostId opts"] col by auto
  have p: "passes sc (ReportObservedHostState observed, ObservedTaken True)"
    "passes sc (HeartbeatHost (ho_hostId opts) observed, HeartbeatTaken True (Some (mk_nextPollAfterMs (hw_admin ?w1))))"
    using sc adm(2) by (simp_all add: cycle_exchanges_def)
  obtain c3 adm3 where rest: "(case collect_step ?env c1 ?w1 of
        (observed, c1) \<Rightarrow> (case observed of None \<Rightarrow> (c1, ?w1)
          | Some o1 \<Rightarrow> heartbeat_step ?env o1 (report_step ?env o1 (c1, ?w1)))) = (c3, ?w1\<lparr>hw_admin := adm3\<rparr>)"
    and c3: "cy_failure c3 = None" "cy_nextPollAfterMs c3 = mk_nextPollAfterMs adm"
    and got: "map_of (mk_observedHostStates adm3) (ho_hostId opts) = Some observed"
    using mock_cycle[OF p, of lc c1 "get_host_registration opts (hw_state w)" desired d] col c1 des adm
    by (auto simp: get_host_registration_def)
  have "perform_reconcile_cycle ?env agentOpts (a, w) = (finish_cycle agentOpts c3 a1, ?w1\<lparr>hw_admin := adm3\<rparr>)"
    using r rest by (simp add: perform_reconcile_cycle_def split: prod.splits)
  then show ?thesis
    using c3 adm(2) a1 got seen
    by (simp add: finish_cycle_def schedule_next_poll_def get_observed_host_state_def Let_def)
qed

section \<open>An example\<close>

definition demo_manifest :: "string \<Rightarrow> artifact_manifest" where
  "demo_manifest i = \<lparr>am_manifestId = i, am_artifactKind = HttpWorkerKind, am_declaredArtifactId = None, am_declaredVersion = ''1'',
     am_sourceUri = ''file:x'', am_sourceDigest = None, am_entry = ''index.ts'',
     am_packageManager = BunPackages None None None None, am_annotations = None\<rparr>"

text \<open>A schema that refuses the empty host id of a registration, and a negative delay in its answer.\<close>

definition demo_schema :: admin_schema where
  "demo_schema = \<lparr>sc_request_error = \<lambda>r. (case r of RegisterHost reg \<Rightarrow> if hr_hostId reg = [] then Some ''hostId'' else None | _ \<Rightarrow> None),
     sc_answer_error = \<lambda>x. (case x of HostRegistered _ _ (Some n) \<Rightarrow> if n < 0 then Some ''pollAfterMs'' else None | _ \<Rightarrow> None),
     sc_wrong_answer = \<lambda>_ _. []\<rparr>"

definition demo_control :: mock_admin where
  "demo_control = set_desired_host_state (demo_desired ''r1'')
     (fold (\<lambda>i. put_artifact_manifest (demo_manifest i)) (manifest_ids (demo_desired ''r1'')) (new_mock_admin None (Some 700) 0))"

definition demo_world :: "(nat, mock_admin) host_world" where
  "demo_world = \<lparr>hw_adapter = demo_adapter, hw_admin = demo_control, hw_now = 0, hw_state = demo_running, hw_metrics = None\<rparr>"

definition demo_env :: "(nat, mock_admin) host_world agent_env" where
  "demo_env = host_env demo_host_deps demo_options code_unit_compare demo_schema (mock_request demo_schema code_unit_compare)"

theorem agent_goes_on_witness:
  "hg_pollTimer (fst (cycle_ends demo_env (agent_options_from None None None) (start_agent new_host_agent, demo_world))) = Some 1"
proof -
  have "agent_reachable demo_env (agent_options_from None None None) host_moves (start_agent new_host_agent, demo_world)"
    by (rule agent_next[OF agent_new start_called])
  moreover have "hg_cycleInFlight (start_agent new_host_agent)" "hg_running (start_agent new_host_agent)"
    "hg_nextTimer (start_agent new_host_agent) = 1"
    by (simp_all add: start_agent_def new_host_agent_def reconcile_once_def)
  ultimately show ?thesis using agent_goes_on[of demo_env] by (metis (no_types))
qed

lemma demo_cycle:
  "hg_desiredRevision (fst (cycle_ends demo_env (agent_options_from None None None) (start_agent new_host_agent, demo_world))) = Some ''7''"
  by code_simp

theorem agent_revision_is_applied_witness:
  "\<exists>desired. ha_lastDesired (hw_adapter (snd (cycle_ends demo_env (agent_options_from None None None)
      (start_agent new_host_agent, demo_world)))) = Some desired \<and> dh_revision desired = ''7''"
proof -
  let ?x = "cycle_ends demo_env (agent_options_from None None None) (start_agent new_host_agent, demo_world)"
  have "agent_reachable demo_env (agent_options_from None None None) host_moves ?x"
    by (rule agent_next[OF agent_next[OF agent_new start_called] cycle_done])
  then have "agent_reachable (host_env demo_host_deps demo_options code_unit_compare demo_schema (mock_request demo_schema code_unit_compare))
      (agent_options_from None None None) host_moves (fst ?x, snd ?x)" by (simp only: demo_env_def prod.collapse)
  from agent_revision_is_applied[OF this demo_cycle] show ?thesis by blast
qed

theorem cycle_brings_host_in_step_witness:
  "\<exists>a' w' observed. perform_reconcile_cycle demo_env (agent_options_from None None None) (new_host_agent, demo_world) = (a', w')
    \<and> hg_lastPollAfterMs a' = Some 700 \<and> get_observed_host_state ''h'' (hw_admin w') = Some observed
    \<and> ck_status (check_host code_unit_compare None (Some (demo_desired ''r1'')) (Some observed) ''h'') = Match"
proof -
  let ?ms = "manifests_for (mk_artifactManifests (hw_admin demo_world)) (manifest_ids (demo_desired ''r1''))"
  have host: "ho_hostId demo_options = ''h''" by (simp add: demo_options_def)
  have "fst (apply_desired demo_host_deps demo_options (hw_now demo_world) (demo_desired ''r1'') ?ms (hw_adapter demo_world)) = Inr ()"
    by code_simp
  then obtain s where run: "apply_desired demo_host_deps demo_options (hw_now demo_world) (demo_desired ''r1'') ?ms (hw_adapter demo_world) = (Inr (), s)"
    by (metis prod.collapse)
  have ad: "hw_adapter demo_world = demo_adapter" by (simp add: demo_world_def)
  obtain observed where col: "collect_observed code_unit_compare demo_options (hw_state demo_world) (hw_metrics demo_world)
      (hw_now demo_world) s = Inr observed"
    using applied_and_reported[OF run demo_able[folded ad]] by blast
  have pa: "mk_pollAfterMs (hw_admin demo_world) = 5000" by code_simp
  have sc: "\<forall>x\<in>set (cycle_exchanges demo_options new_host_agent demo_world (demo_desired ''r1'') observed). passes demo_schema x"
    using pa by (simp add: cycle_exchanges_def passes_def demo_schema_def get_host_registration_def demo_options_def)
  have des: "map_of (mk_desiredHostStates (hw_admin demo_world)) (ho_hostId demo_options) = Some (demo_desired ''r1'')" by code_simp
  have ms: "\<forall>i\<in>set (manifest_ids (demo_desired ''r1'')). map_of (mk_artifactManifests (hw_admin demo_world)) i \<noteq> None"
  proof -
    have "list_all (\<lambda>i. case map_of (mk_artifactManifests (hw_admin demo_world)) i of None \<Rightarrow> False | Some _ \<Rightarrow> True)
        (manifest_ids (demo_desired ''r1''))" by code_simp
    then show ?thesis by (auto simp: list_all_iff split: option.splits)
  qed
  have poll: "mk_nextPollAfterMs (hw_admin demo_world) = 700" by code_simp
  have a: "\<not> truthy (hg_hostId new_host_agent) \<or> hg_hostId new_host_agent = Some (ho_hostId demo_options)"
    "hg_desiredRevision new_host_agent \<noteq> Some (dh_revision (demo_desired ''r1''))" by (simp_all add: new_host_agent_def)
  show ?thesis
    using cycle_brings_host_in_step[OF sc des a ms run col demo_able[folded ad], where agentOpts = "agent_options_from None None None"]
    unfolding host poll demo_env_def by blast
qed

end
