(* ===== verification/Auth_Service.thy ===== *)
theory Auth_Service
  imports Shared_Types Admin_Types
begin

text \<open>Who a client is (runtime/auth/service.ts, runtime/auth/jwt-provider.ts, runtime/auth/provider.ts):
  the service with its two maps of providers and its revoked tokens, the demo provider, and the provider
  that checks JSON Web Tokens against the issuers the control plane trusts.

  A token's header and payload are whatever \<open>JSON.parse\<close> returns: the declared types of the code are
  casts, so the model keeps them as \<open>json\<close> values and the context the provider builds has \<open>json\<close>
  values where the code puts an unchecked claim (\<open>tokenId\<close>, \<open>capabilities\<close>). Parameters, in
  \<open>jwt_deps\<close>: decoding of base64, parsing of JSON, the answer of the key server at an instant, the
  verification of a signature (\<open>None\<close> when it throws), the text of a value that is not a string, the
  report of the payload schema, and providers the embedding application supplies. The sums of an instant and a skew are exact.\<close>

section \<open>Values\<close>

fun split_on :: "char \<Rightarrow> string \<Rightarrow> string list" where
  "split_on c [] = [[]]"
| "split_on c (x # xs) =
    (if x = c then [] # split_on c xs
     else case split_on c xs of [] \<Rightarrow> [[x]] | w # ws \<Rightarrow> (x # w) # ws)"

text \<open>\<open>split\<close> at an expression that matches a run of white space.\<close>

fun split_runs :: "string \<Rightarrow> string list" where
  "split_runs [] = [[]]"
| "split_runs (x # xs) =
    (if js_space x then (if xs \<noteq> [] \<and> js_space (hd xs) then split_runs xs else [] # split_runs xs)
     else case split_runs xs of [] \<Rightarrow> [[x]] | w # ws \<Rightarrow> (x # w) # ws)"

definition blank :: "string \<Rightarrow> bool" where
  "blank s = list_all js_space s"

fun json_truthy :: "json option \<Rightarrow> bool" where
  "json_truthy None = False"
| "json_truthy (Some JNull) = False"
| "json_truthy (Some (JBool b)) = b"
| "json_truthy (Some (JNum (Fin q))) = (q \<noteq> 0)"
| "json_truthy (Some (JNum NaN)) = False"
| "json_truthy (Some (JNum _)) = True"
| "json_truthy (Some (JStr s)) = (s \<noteq> [])"
| "json_truthy (Some _) = True"

text \<open>Strict equality of two values of different documents: objects and arrays are never the same.\<close>

fun strict_eq :: "json option \<Rightarrow> json option \<Rightarrow> bool" where
  "strict_eq None None = True"
| "strict_eq (Some JNull) (Some JNull) = True"
| "strict_eq (Some (JBool a)) (Some (JBool b)) = (a = b)"
| "strict_eq (Some (JNum a)) (Some (JNum b)) = (a = b \<and> a \<noteq> NaN)"
| "strict_eq (Some (JStr a)) (Some (JStr b)) = (a = b)"
| "strict_eq _ _ = False"

definition nullish :: "json option \<Rightarrow> bool" where
  "nullish v = (v = None \<or> v = Some JNull)"

fun num_shift :: "js_num \<Rightarrow> int \<Rightarrow> js_num" where
  "num_shift (Fin q) n = Fin (q + of_int n)"
| "num_shift x n = x"

fun num_minus :: "js_num \<Rightarrow> js_num \<Rightarrow> js_num" where
  "num_minus (Fin a) (Fin b) = Fin (a - b)"
| "num_minus NaN _ = NaN"
| "num_minus _ NaN = NaN"
| "num_minus PosInf PosInf = NaN"
| "num_minus NegInf NegInf = NaN"
| "num_minus PosInf _ = PosInf"
| "num_minus NegInf _ = NegInf"
| "num_minus _ PosInf = NegInf"
| "num_minus _ NegInf = PosInf"

fun num_less :: "js_num \<Rightarrow> js_num \<Rightarrow> bool" where
  "num_less NaN _ = False"
| "num_less _ NaN = False"
| "num_less (Fin a) (Fin b) = (a < b)"
| "num_less NegInf y = (y \<noteq> NegInf)"
| "num_less x PosInf = (x \<noteq> PosInf)"
| "num_less _ _ = False"

definition num_le :: "js_num \<Rightarrow> js_num \<Rightarrow> bool" where
  "num_le x y = (num_less x y \<or> x = y \<and> x \<noteq> NaN)"

text \<open>Numbers are not rounded, but a product too large for a double is infinite: \<open>double_limit\<close>, which is
  \<open>2 ^ 1024 - 2 ^ 970\<close>, is the least number that is rounded to infinity.\<close>

definition double_limit :: rat where
  "double_limit = 179769313486231580793728971405303415079934132710037826936173778980444968292764750946649017977587207096330286416692887910946555547851940402630657488671505820681908902000708383676273854845817711531764475730270069855571366959622842914819860834936475292719074168444365510704342711559699508093042880177904174497792"

lemma double_limit_power: "double_limit = 2 ^ 1024 - 2 ^ 970"
  by (simp add: double_limit_def)

fun num_times1000 :: "js_num \<Rightarrow> js_num" where
  "num_times1000 (Fin q) =
    (if double_limit \<le> q * 1000 then PosInf else if q * 1000 \<le> - double_limit then NegInf else Fin (q * 1000))"
| "num_times1000 x = x"

definition seconds :: "int \<Rightarrow> js_num" where
  "seconds now = Fin (of_int (now div 1000))"

section \<open>Contexts and errors\<close>

text \<open>The context as the code builds it; \<open>revokedAt\<close> is never set.\<close>

record granted_auth =
  ga_peerId :: string
  ga_tokenId :: json
  ga_capabilities :: "json list"
  ga_expiresAt :: js_num
  ga_groupId :: "string option"

abbreviation invalid_token :: "string \<Rightarrow> thrown" where
  "invalid_token message \<equiv> ThrownHardess (plain_error AUTH_INVALID_TOKEN message)"

text \<open>What the runtime throws for a property of null or the spread of a value that is not iterable.\<close>

definition type_error :: thrown where
  "type_error = ThrownOther ''TypeError''"

datatype public_key = PemKey json | JwkKey json

datatype fetch_answer = FetchThrows string | FetchRefused nat | FetchBody json

record 'b jwt_deps =
  jd_decode :: "string \<Rightarrow> 'b"
  jd_parse :: "'b \<Rightarrow> json option"
  jd_fetch :: "int \<Rightarrow> string \<Rightarrow> fetch_answer"
  jd_verify :: "public_key \<Rightarrow> string \<Rightarrow> 'b \<Rightarrow> bool option"
  jd_text :: "json \<Rightarrow> string"
  jd_detail :: "sys_auth_payload \<Rightarrow> json"
  jd_cacheTtlMs :: "int option"

text \<open>The keys of each URL with the instant they were fetched at.\<close>

type_synonym jwks_cache = "(string, int \<times> json list) js_map"

text \<open>The clock when the key cache is read and, later, when the claims are checked.\<close>

record instants =
  is_keys :: int
  is_claims :: int

section \<open>Tokens of trusted issuers\<close>

definition bearer_text :: "string \<Rightarrow> string" where
  "bearer_text token = (if take 7 token = ''Bearer '' then drop 7 token else token)"

text \<open>The base64 alphabet of URLs is mapped back and padded to a multiple of four.\<close>

definition base64_padded :: "string \<Rightarrow> string" where
  "base64_padded value =
    (let normalized = map (\<lambda>c. if c = CHR ''-'' then CHR ''+'' else if c = CHR ''_'' then CHR ''/'' else c) value
     in normalized @ replicate ((length normalized + 3) div 4 * 4 - length normalized) (CHR ''=''))"

definition base64_url_decode :: "'b jwt_deps \<Rightarrow> string \<Rightarrow> 'b" where
  "base64_url_decode d value = jd_decode d (base64_padded value)"

definition parse_jwt_json :: "'b jwt_deps \<Rightarrow> string \<Rightarrow> string \<Rightarrow> thrown + json" where
  "parse_jwt_json d encoded message = (case jd_parse d (base64_url_decode d encoded) of
     None \<Rightarrow> Inl (invalid_token message) | Some v \<Rightarrow> Inr v)"

fun text_of :: "'b jwt_deps \<Rightarrow> json \<Rightarrow> string" where
  "text_of d (JStr s) = s"
| "text_of d v = jd_text d v"

definition text_else :: "'b jwt_deps \<Rightarrow> string \<Rightarrow> json option \<Rightarrow> string" where
  "text_else d fallback v = (if nullish v then fallback else text_of d (the v))"

fun alg_name :: "key_alg \<Rightarrow> string" where
  "alg_name RS256 = ''RS256''"
| "alg_name ES256 = ''ES256''"

definition allowed_algorithms :: "issuer_trust \<Rightarrow> string list" where
  "allowed_algorithms t = map alg_name (case it_algorithms t of None \<Rightarrow> [RS256] | Some as \<Rightarrow> as)"

definition is_string :: "json option \<Rightarrow> string \<Rightarrow> bool" where
  "is_string v s = (v = Some (JStr s))"

definition resolve_issuer_trust :: "'b jwt_deps \<Rightarrow> issuer_trust list \<Rightarrow> json \<Rightarrow> json \<Rightarrow> thrown + issuer_trust" where
  "resolve_issuer_trust d trusts payload header =
    (let issuer = js_prop payload ''iss''; alg = js_prop header ''alg'' in
     if payload = JNull then Inl type_error
     else if \<not> json_truthy issuer then Inl (invalid_token ''JWT issuer is required'')
     else case find (\<lambda>t. is_string issuer (it_issuer t)) trusts of
       None \<Rightarrow> Inl (invalid_token (''Unsupported JWT issuer: '' @ text_of d (the issuer)))
     | Some t \<Rightarrow>
         if header = JNull then Inl type_error
         else if \<not> json_truthy alg \<or> \<not> list_ex (is_string alg) (allowed_algorithms t)
         then Inl (invalid_token (''Unsupported JWT algorithm: '' @ text_else d ''missing'' alg))
         else Inr t)"

definition matches_audience :: "json option \<Rightarrow> string list \<Rightarrow> bool" where
  "matches_audience actual accepted =
    (let values = (case actual of Some (JArr vs) \<Rightarrow> vs | _ \<Rightarrow> if json_truthy actual then [the actual] else [])
     in list_ex (\<lambda>v. list_ex (\<lambda>a. v = JStr a) accepted) values)"

text \<open>The names every object answers to, whatever its own properties.\<close>

definition object_prototype_keys :: "string list" where
  "object_prototype_keys = [''constructor'', ''hasOwnProperty'', ''isPrototypeOf'', ''propertyIsEnumerable'',
     ''toLocaleString'', ''toString'', ''valueOf'', ''__defineGetter__'', ''__defineSetter__'',
     ''__lookupGetter__'', ''__lookupSetter__'', ''__proto__'']"

definition claim_present :: "json \<Rightarrow> string \<Rightarrow> bool" where
  "claim_present payload claim = (js_prop payload claim \<noteq> None \<or> claim \<in> set object_prototype_keys)"

definition clock_skew :: "issuer_trust \<Rightarrow> int" where
  "clock_skew t = (case it_clockSkewSec t of None \<Rightarrow> 30 | Some s \<Rightarrow> s)"

definition max_token_ttl :: "issuer_trust \<Rightarrow> int" where
  "max_token_ttl t = (case it_maxTokenTtlSec t of None \<Rightarrow> 15 * 60 | Some s \<Rightarrow> s)"

definition issued_at_error :: "js_num \<Rightarrow> json option \<Rightarrow> issuer_trust \<Rightarrow> int \<Rightarrow> string option" where
  "issued_at_error expiry iat t now = (case iat of
     Some (JNum i) \<Rightarrow>
       (if num_less (Fin (of_int (max_token_ttl t + clock_skew t))) (num_minus expiry i) then Some ''JWT TTL exceeds trust policy''
        else if num_less (seconds now) (num_shift i (- clock_skew t)) then Some ''JWT issued-at is in the future''
        else None)
   | _ \<Rightarrow> None)"

definition not_before_error :: "json option \<Rightarrow> issuer_trust \<Rightarrow> int \<Rightarrow> string option" where
  "not_before_error nbf t now = (case nbf of
     Some (JNum n) \<Rightarrow> if num_less (seconds now) (num_shift n (- clock_skew t)) then Some ''JWT is not valid yet'' else None
   | _ \<Rightarrow> None)"

definition missing_claim_error :: "json \<Rightarrow> issuer_trust \<Rightarrow> string option" where
  "missing_claim_error payload t =
    map_option (\<lambda>c. ''JWT missing required claim: '' @ c)
      (find (\<lambda>c. \<not> claim_present payload c) (case it_requiredClaims t of None \<Rightarrow> [] | Some cs \<Rightarrow> cs))"

text \<open>The first check that fails; \<open>None\<close> when all pass.\<close>

definition validate_claims :: "json \<Rightarrow> issuer_trust \<Rightarrow> int \<Rightarrow> thrown option" where
  "validate_claims payload t now =
    (let expired = ThrownHardess (plain_error AUTH_EXPIRED_TOKEN ''JWT has expired'') in
     if \<not> matches_audience (js_prop payload ''aud'') (it_audiences t) then Some (invalid_token ''JWT audience is not accepted'')
     else case js_prop payload ''exp'' of
       Some (JNum e) \<Rightarrow>
         if num_le (num_shift e (clock_skew t)) (seconds now) then Some expired
         else (case not_before_error (js_prop payload ''nbf'') t now of
           Some m \<Rightarrow> Some (invalid_token m)
         | None \<Rightarrow> (case issued_at_error e (js_prop payload ''iat'') t now of
             Some m \<Rightarrow> Some (invalid_token m)
           | None \<Rightarrow> map_option invalid_token (missing_claim_error payload t)))
     | _ \<Rightarrow> Some expired)"

definition resolve_peer_id :: "json \<Rightarrow> string option" where
  "resolve_peer_id payload =
    (let non_blank = (\<lambda>v. case v of Some (JStr s) \<Rightarrow> if blank s then None else Some s | _ \<Rightarrow> None) in
     case non_blank (js_prop payload ''peerId'') of
       Some p \<Rightarrow> Some p
     | None \<Rightarrow> (case (js_prop payload ''workspaceId'', js_prop payload ''principalId'') of
         (Some (JStr w), Some (JStr p)) \<Rightarrow> Some (w @ '':'' @ p)
       | _ \<Rightarrow> non_blank (js_prop payload ''sub'')))"

text \<open>The spread of \<open>capabilities\<close>: a string is spread into its characters.\<close>

fun spread :: "json option \<Rightarrow> thrown + json list" where
  "spread None = Inr []"
| "spread (Some JNull) = Inr []"
| "spread (Some (JArr vs)) = Inr vs"
| "spread (Some (JStr s)) = Inr (map (\<lambda>c. JStr [c]) s)"
| "spread (Some _) = Inl type_error"

fun scope_values :: "json option \<Rightarrow> json list" where
  "scope_values (Some (JArr vs)) = vs"
| "scope_values (Some (JStr s)) = map JStr (split_runs s)"
| "scope_values _ = []"

text \<open>A \<open>Set\<close> of values: numbers, strings and the like once each, every object by itself.\<close>

fun value_set :: "json list \<Rightarrow> json list" where
  "value_set [] = []"
| "value_set (v # vs) = v # filter (\<lambda>w. \<not> strict_eq (Some v) (Some w)) (value_set vs)"

definition resolve_capabilities :: "json \<Rightarrow> thrown + json list" where
  "resolve_capabilities payload =
    map_sum id (\<lambda>caps. value_set (filter (\<lambda>v. json_truthy (Some v)) (caps @ scope_values (js_prop payload ''scope''))))
      (spread (js_prop payload ''capabilities''))"

section \<open>Keys and signatures\<close>

datatype verification_key = StaticKey trust_public_key | PublishedKey json

definition static_key_matches :: "json \<Rightarrow> trust_public_key \<Rightarrow> bool" where
  "static_key_matches header k =
    ((\<not> json_truthy (js_prop header ''kid'') \<or> strict_eq (Some (JStr (tk_kid k))) (js_prop header ''kid''))
     \<and> (\<not> json_truthy (js_prop header ''alg'') \<or> strict_eq (Some (JStr (alg_name (tk_alg k)))) (js_prop header ''alg'')))"

text \<open>The same test of a published key, whose algorithm may be missing; a key that is null throws as
  soon as one of its properties is read.\<close>

definition published_key_matches :: "json \<Rightarrow> json \<Rightarrow> thrown + bool" where
  "published_key_matches header k =
    (let kid = js_prop header ''kid''; alg = js_prop header ''alg'' in
     if json_truthy kid \<and> k = JNull then Inl type_error
     else if json_truthy kid \<and> \<not> strict_eq (js_prop k ''kid'') kid then Inr False
     else if json_truthy alg \<and> k = JNull then Inl type_error
     else Inr (\<not> json_truthy alg \<or> \<not> json_truthy (js_prop k ''alg'') \<or> strict_eq (js_prop k ''alg'') alg))"

fun filter_published :: "json \<Rightarrow> json list \<Rightarrow> thrown + json list" where
  "filter_published header [] = Inr []"
| "filter_published header (k # ks) = (case published_key_matches header k of
     Inl e \<Rightarrow> Inl e
   | Inr b \<Rightarrow> map_sum id (\<lambda>rest. if b then k # rest else rest) (filter_published header ks))"

definition cache_ttl :: "'b jwt_deps \<Rightarrow> int" where
  "cache_ttl d = (case jd_cacheTtlMs d of None \<Rightarrow> 5 * 60 * 1000 | Some t \<Rightarrow> t)"

definition keys_of_body :: "json \<Rightarrow> json list" where
  "keys_of_body body = (case js_prop body ''keys'' of Some (JArr ks) \<Rightarrow> ks | _ \<Rightarrow> [])"

definition fetch_jwks :: "'b jwt_deps \<Rightarrow> string \<Rightarrow> int \<Rightarrow> jwks_cache \<Rightarrow> (thrown + json list) \<times> jwks_cache" where
  "fetch_jwks d url now cache =
    (let fetched = (case jd_fetch d now url of
        FetchThrows m \<Rightarrow> (Inl (ThrownOther m), cache)
      | FetchRefused status \<Rightarrow> (Inl (invalid_token (''JWKS fetch failed with '' @ nat_str status)), cache)
      | FetchBody body \<Rightarrow>
          if body = JNull then (Inl type_error, cache)
          else (Inr (keys_of_body body), map_set url (now, keys_of_body body) cache))
     in case map_of cache url of
       Some (fetchedAt, keys) \<Rightarrow> if now - fetchedAt < cache_ttl d then (Inr keys, cache) else fetched
     | None \<Rightarrow> fetched)"

definition resolve_verification_keys ::
  "'b jwt_deps \<Rightarrow> issuer_trust \<Rightarrow> json \<Rightarrow> int \<Rightarrow> jwks_cache \<Rightarrow> (thrown + verification_key list) \<times> jwks_cache" where
  "resolve_verification_keys d t header now cache =
    (let staticKeys = filter (static_key_matches header) (case it_publicKeys t of None \<Rightarrow> [] | Some ks \<Rightarrow> ks) in
     if staticKeys \<noteq> [] then (Inr (map StaticKey staticKeys), cache)
     else case it_jwksUrl t of
       None \<Rightarrow> (Inr [], cache)
     | Some url \<Rightarrow>
         if url = [] then (Inr [], cache)
         else (case fetch_jwks d url now cache of
           (Inl e, cache') \<Rightarrow> (Inl e, cache')
         | (Inr keys, cache') \<Rightarrow> (map_sum id (map PublishedKey) (filter_published header keys), cache')))"

text \<open>A key with a \<open>pem\<close> is used as that text; the \<open>in\<close> test throws on a primitive.\<close>

fun key_to_public_key :: "verification_key \<Rightarrow> public_key option" where
  "key_to_public_key (StaticKey k) = Some (PemKey (JStr (tk_pem k)))"
| "key_to_public_key (PublishedKey v) =
    (if is_record v then Some (case js_prop v ''pem'' of Some p \<Rightarrow> PemKey p | None \<Rightarrow> JwkKey v) else None)"

definition key_verifies :: "'b jwt_deps \<Rightarrow> string \<Rightarrow> 'b \<Rightarrow> verification_key \<Rightarrow> bool" where
  "key_verifies d signingInput signature k = (case key_to_public_key k of
     None \<Rightarrow> False | Some pk \<Rightarrow> jd_verify d pk signingInput signature = Some True)"

definition verify_signature ::
  "'b jwt_deps \<Rightarrow> issuer_trust \<Rightarrow> json \<Rightarrow> string \<Rightarrow> string \<Rightarrow> int \<Rightarrow> jwks_cache \<Rightarrow> (thrown + unit) \<times> jwks_cache" where
  "verify_signature d t header signingInput signature now cache =
    (if \<not> is_string (js_prop header ''alg'') ''RS256'' then
       (Inl (invalid_token (''Unsupported JWT algorithm: '' @ (case js_prop header ''alg'' of None \<Rightarrow> ''undefined'' | Some v \<Rightarrow> text_of d v))), cache)
     else case resolve_verification_keys d t header now cache of
       (Inl e, cache') \<Rightarrow> (Inl e, cache')
     | (Inr keys, cache') \<Rightarrow>
         if list_ex (key_verifies d signingInput (base64_url_decode d signature)) keys then (Inr (), cache')
         else (Inl (invalid_token ''JWT signature verification failed''), cache'))"

section \<open>The context of a token\<close>

definition context_of_payload :: "'b jwt_deps \<Rightarrow> json \<Rightarrow> thrown + granted_auth" where
  "context_of_payload d payload = (case resolve_peer_id payload of
     None \<Rightarrow> Inl (invalid_token ''JWT must include peerId, principalId, or sub'')
   | Some peerId \<Rightarrow> (case resolve_capabilities payload of
       Inl e \<Rightarrow> Inl e
     | Inr caps \<Rightarrow> Inr \<lparr>ga_peerId = peerId,
         ga_tokenId = (case js_prop payload ''jti'' of
             Some jti \<Rightarrow> if jti = JNull then JStr (text_else d ''unknown'' (js_prop payload ''iss'') @ '':'' @ peerId @ '':''
                 @ text_else d ''0'' (js_prop payload ''iat'')) else jti
           | None \<Rightarrow> JStr (text_else d ''unknown'' (js_prop payload ''iss'') @ '':'' @ peerId @ '':''
                 @ text_else d ''0'' (js_prop payload ''iat''))),
         ga_capabilities = caps,
         ga_expiresAt = (case js_prop payload ''exp'' of Some (JNum e) \<Rightarrow> num_times1000 e | _ \<Rightarrow> NaN),
         ga_groupId = opt_str_of (js_prop payload ''workspaceId'')\<rparr>))"

definition validate_jwt ::
  "'b jwt_deps \<Rightarrow> issuer_trust list \<Rightarrow> instants \<Rightarrow> string \<Rightarrow> jwks_cache \<Rightarrow> (thrown + granted_auth) \<times> jwks_cache" where
  "validate_jwt d trusts t token cache = (case split_on (CHR ''.'') token of
     [h, p, signature] \<Rightarrow>
       (case parse_jwt_json d h ''Invalid JWT header'' of
         Inl e \<Rightarrow> (Inl e, cache)
       | Inr header \<Rightarrow> (case parse_jwt_json d p ''Invalid JWT payload'' of
           Inl e \<Rightarrow> (Inl e, cache)
         | Inr payload \<Rightarrow> (case resolve_issuer_trust d trusts payload header of
             Inl e \<Rightarrow> (Inl e, cache)
           | Inr issuer \<Rightarrow> (case verify_signature d issuer header (h @ ''.'' @ p) signature (is_keys t) cache of
               (Inl e, cache') \<Rightarrow> (Inl e, cache')
             | (Inr _, cache') \<Rightarrow> (case validate_claims payload issuer (is_claims t) of
                 Some e \<Rightarrow> (Inl e, cache')
               | None \<Rightarrow> (context_of_payload d payload, cache'))))))
   | _ \<Rightarrow> (Inl (invalid_token ''Malformed JWT bearer token''), cache))"

section \<open>Providers\<close>

definition demo_context :: "int \<Rightarrow> string \<Rightarrow> thrown + granted_auth" where
  "demo_context now token =
    (let normalized = bearer_text token in
     case split_on (CHR '':'') normalized of
       scheme # peerId # _ \<Rightarrow>
         (if scheme \<noteq> ''demo'' \<or> peerId = [] then Inl (invalid_token ''Unsupported token format'')
          else Inr \<lparr>ga_peerId = peerId, ga_tokenId = JStr normalized,
             ga_capabilities = [JStr ''notify.conn'', JStr ''push.system''],
             ga_expiresAt = Fin (of_int (now + 60 * 60 * 1000)), ga_groupId = None\<rparr>)
     | _ \<Rightarrow> Inl (invalid_token ''Unsupported token format''))"

text \<open>The bearer payload schema on a parsed authentication message.\<close>

definition parse_bearer_payload :: "sys_auth_payload \<Rightarrow> string option" where
  "parse_bearer_payload a = (case sa_payload a of
     JStr token \<Rightarrow> if sa_provider a = ''bearer'' \<and> token \<noteq> [] \<and> sa_groupId a \<noteq> Some [] then Some token else None
   | _ \<Rightarrow> None)"

datatype auth_request = BearerToken string | SystemAuth sys_auth_payload

definition request_token :: "'b jwt_deps \<Rightarrow> auth_request \<Rightarrow> thrown + string" where
  "request_token d r = (case r of
     BearerToken token \<Rightarrow> Inr token
   | SystemAuth a \<Rightarrow> (case parse_bearer_payload a of
       Some token \<Rightarrow> Inr token
     | None \<Rightarrow> Inl (ThrownHardess (new_hardess_error PROTO_INVALID_PAYLOAD ''Invalid bearer auth payload''
         (no_options\<lparr>opt_detail := Some (jd_detail d a)\<rparr>)))))"

text \<open>A provider the embedding application supplies is a name and a function.\<close>

datatype auth_provider = DemoBearer | JwtIssuer "issuer_trust list" jwks_cache
  | SuppliedProvider string "auth_request \<Rightarrow> thrown + granted_auth"

fun provider_name :: "auth_provider \<Rightarrow> string" where
  "provider_name (SuppliedProvider n f) = n"
| "provider_name _ = ''bearer''"

fun run_provider ::
  "'b jwt_deps \<Rightarrow> instants \<Rightarrow> auth_request \<Rightarrow> auth_provider \<Rightarrow> (thrown + granted_auth) \<times> auth_provider" where
  "run_provider d t r (SuppliedProvider n f) = (f r, SuppliedProvider n f)"
| "run_provider d t r DemoBearer = (case request_token d r of
     Inl e \<Rightarrow> (Inl e, DemoBearer)
   | Inr token \<Rightarrow> (demo_context (is_claims t) token, DemoBearer))"
| "run_provider d t r (JwtIssuer trusts cache) = (case request_token d r of
     Inl e \<Rightarrow> (Inl e, JwtIssuer trusts cache)
   | Inr token \<Rightarrow> map_prod id (JwtIssuer trusts) (validate_jwt d trusts t (bearer_text token) cache))"

section \<open>The service\<close>

record auth_service =
  az_revoked :: "string list"
  az_providers :: "(string, auth_provider) js_map"
  az_dynamic :: "(string, auth_provider) js_map"
  az_defaultName :: string

definition new_auth_service :: "auth_provider list \<Rightarrow> string \<Rightarrow> auth_service" where
  "new_auth_service providers name = \<lparr>az_revoked = [],
     az_providers = fold (\<lambda>p. map_set (provider_name p) p) providers [], az_dynamic = [], az_defaultName = name\<rparr>"

definition resolve_providers :: "string \<Rightarrow> auth_service \<Rightarrow> auth_provider list" where
  "resolve_providers name s =
    (case map_of (az_dynamic s) name of Some p \<Rightarrow> [p] | None \<Rightarrow> [])
    @ (case map_of (az_providers s) name of Some p \<Rightarrow> [p] | None \<Rightarrow> [])"

text \<open>The first provider that accepts; otherwise the first error. The result carries the providers
  with their key caches as they are afterwards.\<close>

fun validate_with_providers ::
  "'b jwt_deps \<Rightarrow> instants \<Rightarrow> auth_request \<Rightarrow> thrown option \<Rightarrow> auth_provider list
    \<Rightarrow> (thrown + granted_auth) \<times> auth_provider list" where
  "validate_with_providers d t r firstError [] =
    (Inl (case firstError of Some e \<Rightarrow> e | None \<Rightarrow> ThrownOther ''undefined''), [])"
| "validate_with_providers d t r firstError (p # ps) = (case run_provider d t r p of
     (Inr g, p') \<Rightarrow> (Inr g, p' # ps)
   | (Inl e, p') \<Rightarrow> map_prod id (Cons p')
       (validate_with_providers d t r (case firstError of Some e0 \<Rightarrow> Some e0 | None \<Rightarrow> Some e) ps))"

definition put_providers :: "string \<Rightarrow> auth_provider list \<Rightarrow> auth_service \<Rightarrow> auth_service" where
  "put_providers name ps s =
    (case (map_of (az_dynamic s) name, map_of (az_providers s) name, ps) of
       (Some _, Some _, [p, q]) \<Rightarrow> s\<lparr>az_dynamic := map_set name p (az_dynamic s), az_providers := map_set name q (az_providers s)\<rparr>
     | (Some _, None, [p]) \<Rightarrow> s\<lparr>az_dynamic := map_set name p (az_dynamic s)\<rparr>
     | (None, Some _, [q]) \<Rightarrow> s\<lparr>az_providers := map_set name q (az_providers s)\<rparr>
     | _ \<Rightarrow> s)"

definition ensure_not_revoked :: "auth_service \<Rightarrow> granted_auth \<Rightarrow> thrown + granted_auth" where
  "ensure_not_revoked s g =
    (if list_ex (\<lambda>i. ga_tokenId g = JStr i) (az_revoked s)
     then Inl (ThrownHardess (plain_error AUTH_REVOKED_TOKEN ''Token has been revoked'')) else Inr g)"

definition validate_request ::
  "'b jwt_deps \<Rightarrow> instants \<Rightarrow> string \<Rightarrow> thrown \<Rightarrow> auth_request \<Rightarrow> auth_service \<Rightarrow> (thrown + granted_auth) \<times> auth_service" where
  "validate_request d t name unsupported r s =
    (if resolve_providers name s = [] then (Inl unsupported, s)
     else case validate_with_providers d t r None (resolve_providers name s) of
       (Inl e, ps) \<Rightarrow> (Inl e, put_providers name ps s)
     | (Inr g, ps) \<Rightarrow> (ensure_not_revoked s g, put_providers name ps s))"

definition validate_bearer_token ::
  "'b jwt_deps \<Rightarrow> instants \<Rightarrow> string option \<Rightarrow> auth_service \<Rightarrow> (thrown + granted_auth) \<times> auth_service" where
  "validate_bearer_token d t token s =
    (if \<not> truthy token then (Inl (invalid_token ''Missing bearer token''), s)
     else validate_request d t (az_defaultName s)
       (ThrownHardess (plain_error INTERNAL_ERROR ''Default auth provider is not configured'')) (BearerToken (the token)) s)"

definition validate_system_auth ::
  "'b jwt_deps \<Rightarrow> instants \<Rightarrow> sys_auth_payload \<Rightarrow> auth_service \<Rightarrow> (thrown + granted_auth) \<times> auth_service" where
  "validate_system_auth d t a s =
    validate_request d t (sa_provider a) (invalid_token ''Unsupported auth provider'') (SystemAuth a) s"

definition is_auth_context_valid :: "int \<Rightarrow> granted_auth \<Rightarrow> auth_service \<Rightarrow> bool" where
  "is_auth_context_valid now g s =
    (\<not> list_ex (\<lambda>i. ga_tokenId g = JStr i) (az_revoked s) \<and> num_less (Fin (of_int now)) (ga_expiresAt g))"

definition revoke_token :: "string \<Rightarrow> auth_service \<Rightarrow> auth_service" where
  "revoke_token i s = s\<lparr>az_revoked := (if i \<in> set (az_revoked s) then az_revoked s else az_revoked s @ [i])\<rparr>"

definition apply_runtime_auth_trust :: "issuer_trust list option \<Rightarrow> auth_service \<Rightarrow> auth_service" where
  "apply_runtime_auth_trust trust s = s\<lparr>az_dynamic := (case trust of
     Some (t # ts) \<Rightarrow> [(''bearer'', JwtIssuer (t # ts) [])] | _ \<Rightarrow> [])\<rparr>"

end
