(* ===== verification/Auth_Props.thy ===== *)
theory Auth_Props
  imports Auth_Service
begin

text \<open>What authentication guarantees. A context is vouched for by the demo provider, by a supplied provider
  or by a key of a trusted issuer that was published at most one cache lifetime before; its fields have
  the declared types when the issuers' claims have; a revoked token stays revoked. And what it does not:
  the lemmas of the last sections.\<close>

section \<open>Reachable services\<close>

definition authenticate :: "'b jwt_deps \<Rightarrow> instants \<Rightarrow> auth_request \<Rightarrow> auth_service \<Rightarrow> (thrown + granted_auth) \<times> auth_service" where
  "authenticate d t r s = (case r of
     BearerToken token \<Rightarrow> validate_bearer_token d t (Some token) s
   | SystemAuth a \<Rightarrow> validate_system_auth d t a s)"

fun fresh_provider :: "auth_provider \<Rightarrow> bool" where
  "fresh_provider (JwtIssuer trusts cache) = (cache = [])"
| "fresh_provider _ = True"

inductive auth_step :: "'b jwt_deps \<Rightarrow> auth_service \<Rightarrow> auth_service \<Rightarrow> bool" for d where
  step_authenticate: "auth_step d s (snd (authenticate d t r s))"
| step_revoke: "auth_step d s (revoke_token i s)"
| step_trust: "auth_step d s (apply_runtime_auth_trust trust s)"

inductive auth_reachable :: "'b jwt_deps \<Rightarrow> auth_service \<Rightarrow> bool" for d where
  reach_new: "list_all fresh_provider providers \<Longrightarrow> auth_reachable d (new_auth_service providers name)"
| reach_step: "auth_reachable d s \<Longrightarrow> auth_step d s s' \<Longrightarrow> auth_reachable d s'"

text \<open>Every cached key set is what the key server answered at the recorded instant.\<close>

definition cache_ok :: "'b jwt_deps \<Rightarrow> jwks_cache \<Rightarrow> bool" where
  "cache_ok d cache = (\<forall>url fetchedAt keys. map_of cache url = Some (fetchedAt, keys) \<longrightarrow>
     (\<exists>body. jd_fetch d fetchedAt url = FetchBody body \<and> keys = keys_of_body body))"

fun provider_ok :: "'b jwt_deps \<Rightarrow> auth_provider \<Rightarrow> bool" where
  "provider_ok d (JwtIssuer trusts cache) = cache_ok d cache"
| "provider_ok d _ = True"

definition auth_ok :: "'b jwt_deps \<Rightarrow> auth_service \<Rightarrow> bool" where
  "auth_ok d s = (\<forall>n p. map_of (az_dynamic s) n = Some p \<or> map_of (az_providers s) n = Some p \<longrightarrow> provider_ok d p)"

section \<open>Keys\<close>

definition published :: "'b jwt_deps \<Rightarrow> string \<Rightarrow> int \<Rightarrow> json \<Rightarrow> bool" where
  "published d url now k = (\<exists>at0 body. jd_fetch d at0 url = FetchBody body \<and> k \<in> set (keys_of_body body)
     \<and> (at0 = now \<or> now - at0 < cache_ttl d))"

definition key_of_issuer :: "'b jwt_deps \<Rightarrow> issuer_trust \<Rightarrow> int \<Rightarrow> verification_key \<Rightarrow> bool" where
  "key_of_issuer d issuer now k = (case k of
     StaticKey sk \<Rightarrow> (\<exists>ks. it_publicKeys issuer = Some ks \<and> sk \<in> set ks) \<and> tk_alg sk = RS256
   | PublishedKey v \<Rightarrow> (\<exists>url. it_jwksUrl issuer = Some url \<and> published d url now v))"

lemma fetch_jwks_keys:
  assumes "cache_ok d cache" "fetch_jwks d url now cache = (r, cache')"
  shows "cache_ok d cache'" "r = Inr keys \<Longrightarrow> k \<in> set keys \<Longrightarrow> published d url now k"
proof -
  let ?fetched = "case jd_fetch d now url of
        FetchThrows m \<Rightarrow> (Inl (ThrownOther m), cache)
      | FetchRefused status \<Rightarrow> (Inl (invalid_token (''JWKS fetch failed with '' @ nat_str status)), cache)
      | FetchBody body \<Rightarrow>
          if body = JNull then (Inl type_error, cache)
          else (Inr (keys_of_body body), map_set url (now, keys_of_body body) cache)"
  have f: "cache_ok d cache' \<and> (\<forall>keys. r = Inr keys \<longrightarrow> k \<in> set keys \<longrightarrow> published d url now k)" if "?fetched = (r, cache')"
    using that assms(1) unfolding cache_ok_def published_def by (auto split: fetch_answer.splits if_splits)
  have "cache_ok d cache' \<and> (\<forall>keys. r = Inr keys \<longrightarrow> k \<in> set keys \<longrightarrow> published d url now k)"
  proof (cases "map_of cache url")
    case None
    then show ?thesis using assms(2) f by (simp add: fetch_jwks_def Let_def)
  next
    case (Some e)
    obtain at0 ks where e: "e = (at0, ks)" by (cases e)
    show ?thesis
    proof (cases "now - at0 < cache_ttl d")
      case True
      obtain body where "jd_fetch d at0 url = FetchBody body" "ks = keys_of_body body"
        using assms(1) Some e unfolding cache_ok_def by blast
      then have "published d url now k" if "k \<in> set ks" using that True unfolding published_def by blast
      then show ?thesis using True assms Some e by (auto simp: fetch_jwks_def)
    next
      case False
      then show ?thesis using assms(2) Some e f by (simp add: fetch_jwks_def Let_def)
    qed
  qed
  then show "cache_ok d cache'" "r = Inr keys \<Longrightarrow> k \<in> set keys \<Longrightarrow> published d url now k" by blast+
qed

lemma filter_published_sub: "filter_published header ks = Inr ks' \<Longrightarrow> set ks' \<subseteq> set ks"
proof (induction ks arbitrary: ks')
  case (Cons k ks)
  then obtain b rest where "published_key_matches header k = Inr b" "filter_published header ks = Inr rest"
    "ks' = (if b then k # rest else rest)"
    by (cases "published_key_matches header k"; cases "filter_published header ks") auto
  then show ?case using Cons.IH by auto
qed simp

lemma verification_keys_ok:
  assumes ok: "cache_ok d cache" and res: "resolve_verification_keys d t header now cache = (r, cache')"
    and alg: "js_prop header ''alg'' = Some (JStr ''RS256'')"
  shows "cache_ok d cache'" "r = Inr keys \<Longrightarrow> k \<in> set keys \<Longrightarrow> key_of_issuer d t now k"
proof -
  let ?static = "filter (static_key_matches header) (case it_publicKeys t of None \<Rightarrow> [] | Some ks \<Rightarrow> ks)"
  have stat: "key_of_issuer d t now (StaticKey sk)" if sk: "sk \<in> set ?static" for sk
  proof -
    have "static_key_matches header sk" "\<exists>ks. it_publicKeys t = Some ks \<and> sk \<in> set ks"
      using sk by (cases "it_publicKeys t"; simp)+
    then show ?thesis using alg by (cases "tk_alg sk") (auto simp: key_of_issuer_def static_key_matches_def)
  qed
  have "cache_ok d cache' \<and> (\<forall>keys. r = Inr keys \<longrightarrow> k \<in> set keys \<longrightarrow> key_of_issuer d t now k)"
  proof (cases "?static \<noteq> [] \<or> \<not> truthy (it_jwksUrl t)")
    case True
    then show ?thesis using res ok stat
      by (auto simp: resolve_verification_keys_def Let_def split: option.splits if_splits)
  next
    case False
    then obtain url where url: "it_jwksUrl t = Some url" "url \<noteq> []" by (cases "it_jwksUrl t") auto
    obtain q where fetch: "fetch_jwks d url now cache = (q, cache')"
      and r: "r = (case q of Inl e \<Rightarrow> Inl e | Inr ks \<Rightarrow> map_sum id (map PublishedKey) (filter_published header ks))"
      using res False url by (auto simp: resolve_verification_keys_def split: prod.splits sum.splits)
    have "key_of_issuer d t now k" if rk: "r = Inr keys" and kk: "k \<in> set keys" for keys
    proof -
      obtain ks where q: "q = Inr ks" using rk r by (cases q) auto
      obtain ks' where f: "filter_published header ks = Inr ks'" "keys = map PublishedKey ks'"
        using rk r q by (cases "filter_published header ks") auto
      note ks = q f
      obtain v where v: "k = PublishedKey v" "v \<in> set ks" using kk ks(3) filter_published_sub[OF ks(2)] by auto
      then show ?thesis using fetch_jwks_keys(2)[OF ok fetch ks(1) v(2)] url(1) by (simp add: key_of_issuer_def)
    qed
    then show ?thesis using fetch_jwks_keys(1)[OF ok fetch] by blast
  qed
  then show "cache_ok d cache'" "r = Inr keys \<Longrightarrow> k \<in> set keys \<Longrightarrow> key_of_issuer d t now k" by blast+
qed

lemma verify_signature_ok:
  assumes ok: "cache_ok d cache" and v: "verify_signature d t header input sig now cache = (r, cache')"
  shows "cache_ok d cache'"
    "r = Inr u \<Longrightarrow> is_string (js_prop header ''alg'') ''RS256''
      \<and> (\<exists>k. key_of_issuer d t now k \<and> key_verifies d input (base64_url_decode d sig) k)"
proof -
  have "cache_ok d cache' \<and> (r = Inr u \<longrightarrow> is_string (js_prop header ''alg'') ''RS256''
      \<and> (\<exists>k. key_of_issuer d t now k \<and> key_verifies d input (base64_url_decode d sig) k))"
  proof (cases "is_string (js_prop header ''alg'') ''RS256''")
    case False
    then show ?thesis using v ok by (auto simp: verify_signature_def)
  next
    case True
    then have alg: "js_prop header ''alg'' = Some (JStr ''RS256'')" by (simp add: is_string_def)
    obtain q c where res: "resolve_verification_keys d t header now cache = (q, c)" by (metis surj_pair)
    note keys = verification_keys_ok[OF ok res alg]
    show ?thesis using v True res keys
      by (auto simp: verify_signature_def list_ex_iff split: sum.splits if_splits)
  qed
  then show "cache_ok d cache'" "r = Inr u \<Longrightarrow> is_string (js_prop header ''alg'') ''RS256''
      \<and> (\<exists>k. key_of_issuer d t now k \<and> key_verifies d input (base64_url_decode d sig) k)" by blast+
qed

section \<open>What a token that is accepted proves\<close>

definition claims_accepted :: "json \<Rightarrow> issuer_trust \<Rightarrow> int \<Rightarrow> bool" where
  "claims_accepted payload issuer now = (matches_audience (js_prop payload ''aud'') (it_audiences issuer)
     \<and> (\<exists>e. js_prop payload ''exp'' = Some (JNum e) \<and> \<not> num_le (num_shift e (clock_skew issuer)) (seconds now)
          \<and> issued_at_error e (js_prop payload ''iat'') issuer now = None)
     \<and> not_before_error (js_prop payload ''nbf'') issuer now = None
     \<and> (\<forall>claims. it_requiredClaims issuer = Some claims \<longrightarrow> (\<forall>c\<in>set claims. claim_present payload c)))"

definition signed_by :: "'b jwt_deps \<Rightarrow> issuer_trust \<Rightarrow> int \<Rightarrow> string \<Rightarrow> string \<Rightarrow> json \<Rightarrow> json \<Rightarrow> bool" where
  "signed_by d issuer now h p header payload = (\<exists>sig k.
     parse_jwt_json d h ''Invalid JWT header'' = Inr header \<and> parse_jwt_json d p ''Invalid JWT payload'' = Inr payload
     \<and> is_string (js_prop payload ''iss'') (it_issuer issuer)
     \<and> is_string (js_prop header ''alg'') ''RS256'' \<and> ''RS256'' \<in> set (allowed_algorithms issuer)
     \<and> key_of_issuer d issuer now k \<and> key_verifies d (h @ ''.'' @ p) (base64_url_decode d sig) k)"

definition vouched :: "'b jwt_deps \<Rightarrow> issuer_trust list \<Rightarrow> instants \<Rightarrow> string \<Rightarrow> granted_auth \<Rightarrow> bool" where
  "vouched d trusts t token g = (\<exists>issuer\<in>set trusts. \<exists>h p sig header payload.
     split_on (CHR ''.'') token = [h, p, sig] \<and> signed_by d issuer (is_keys t) h p header payload
     \<and> claims_accepted payload issuer (is_claims t) \<and> context_of_payload d payload = Inr g)"

lemma validate_claims_accepts: "validate_claims payload issuer now = None \<Longrightarrow> claims_accepted payload issuer now"
  unfolding validate_claims_def claims_accepted_def missing_claim_error_def
  by (auto simp: Let_def find_None_iff split: if_splits option.splits json.splits)

lemma resolve_issuer_trust_ok:
  assumes "resolve_issuer_trust d trusts payload header = Inr issuer"
  shows "issuer \<in> set trusts" "is_string (js_prop payload ''iss'') (it_issuer issuer)"
    "list_ex (is_string (js_prop header ''alg'')) (allowed_algorithms issuer)"
proof -
  have "find (\<lambda>t. is_string (js_prop payload ''iss'') (it_issuer t)) trusts = Some issuer
      \<and> list_ex (is_string (js_prop header ''alg'')) (allowed_algorithms issuer)"
    using assms by (auto simp: resolve_issuer_trust_def Let_def split: if_splits option.splits)
  then show "issuer \<in> set trusts" "is_string (js_prop payload ''iss'') (it_issuer issuer)"
    "list_ex (is_string (js_prop header ''alg'')) (allowed_algorithms issuer)"
    by (auto simp: find_Some_iff)
qed

lemma validate_jwt_ok:
  assumes ok: "cache_ok d cache" and v: "validate_jwt d trusts t token cache = (r, cache')"
  shows "cache_ok d cache' \<and> (r = Inr g \<longrightarrow> vouched d trusts t token g)"
proof (cases "\<exists>h p sig header payload issuer. split_on (CHR ''.'') token = [h, p, sig]
    \<and> parse_jwt_json d h ''Invalid JWT header'' = Inr header \<and> parse_jwt_json d p ''Invalid JWT payload'' = Inr payload
    \<and> resolve_issuer_trust d trusts payload header = Inr issuer")
  case False
  then show ?thesis using v ok unfolding validate_jwt_def
    by (auto split: list.splits sum.splits)
next
  case True
  then obtain h p sig header payload issuer where parts: "split_on (CHR ''.'') token = [h, p, sig]"
    and h: "parse_jwt_json d h ''Invalid JWT header'' = Inr header" and p: "parse_jwt_json d p ''Invalid JWT payload'' = Inr payload"
    and i: "resolve_issuer_trust d trusts payload header = Inr issuer" by blast
  obtain q c where s: "verify_signature d issuer header (h @ ''.'' @ p) sig (is_keys t) cache = (q, c)" by (metis surj_pair)
  note sig = verify_signature_ok[OF ok s] and iss = resolve_issuer_trust_ok[OF i]
  have run: "(r, cache') = (case q of Inl e \<Rightarrow> (Inl e, c) | Inr _ \<Rightarrow> (case validate_claims payload issuer (is_claims t) of
      Some e \<Rightarrow> (Inl e, c) | None \<Rightarrow> (context_of_payload d payload, c)))"
    using v parts h p i s by (simp add: validate_jwt_def split: sum.splits)
  have "vouched d trusts t token g" if r: "r = Inr g"
  proof -
    obtain u where q: "q = Inr u" using run r by (cases q) auto
    have claims: "validate_claims payload issuer (is_claims t) = None" and ctx: "context_of_payload d payload = Inr g"
      using run r q by (auto split: option.splits)
    have "signed_by d issuer (is_keys t) h p header payload"
      using sig(2)[OF q] iss(2,3) h p unfolding signed_by_def by (auto simp: is_string_def list_ex_iff)
    then show ?thesis using iss(1) parts validate_claims_accepts[OF claims] ctx unfolding vouched_def by blast
  qed
  moreover have "cache' = c" using run by (auto split: sum.splits option.splits)
  ultimately show ?thesis using sig(1) by blast
qed

text \<open>What a provider answers with a context for.\<close>

definition granted_by :: "'b jwt_deps \<Rightarrow> instants \<Rightarrow> auth_request \<Rightarrow> auth_provider \<Rightarrow> granted_auth \<Rightarrow> bool" where
  "granted_by d t r p g = (case p of
     SuppliedProvider n f \<Rightarrow> f r = Inr g
   | DemoBearer \<Rightarrow> (\<exists>token. request_token d r = Inr token \<and> demo_context (is_claims t) token = Inr g)
   | JwtIssuer trusts cache \<Rightarrow> (\<exists>token. request_token d r = Inr token \<and> vouched d trusts t (bearer_text token) g))"

fun same_provider :: "auth_provider \<Rightarrow> auth_provider \<Rightarrow> bool" where
  "same_provider (JwtIssuer trusts c) (JwtIssuer trusts' c') = (trusts = trusts')"
| "same_provider p q = (p = q)"

lemma same_provider_refl [simp]: "same_provider p p"
  by (cases p) auto

lemma run_provider_ok:
  assumes "provider_ok d p" "run_provider d t r p = (res, p')"
  shows "provider_ok d p' \<and> same_provider p p' \<and> (res = Inr g \<longrightarrow> granted_by d t r p g)"
proof (cases p)
  case (JwtIssuer trusts cache)
  show ?thesis
  proof (cases "request_token d r")
    case (Inr token)
    obtain q c where v: "validate_jwt d trusts t (bearer_text token) cache = (q, c)" by (metis surj_pair)
    have "res = q" "p' = JwtIssuer trusts c" using assms(2) JwtIssuer Inr v by simp_all
    then show ?thesis using validate_jwt_ok[OF _ v, of g] assms(1) JwtIssuer Inr by (simp add: granted_by_def)
  qed (use assms JwtIssuer in auto)
qed (use assms in \<open>auto simp: granted_by_def split: sum.splits\<close>)

section \<open>The service\<close>

lemma validate_with_providers_ok:
  "list_all (provider_ok d) ps \<Longrightarrow> validate_with_providers d t r e0 ps = (res, ps') \<Longrightarrow>
    list_all (provider_ok d) ps' \<and> list_all2 same_provider ps ps'
    \<and> (res = Inr g \<longrightarrow> (\<exists>p\<in>set ps. granted_by d t r p g))"
proof (induction ps arbitrary: e0 res ps')
  case (Cons p ps)
  obtain q p' where run: "run_provider d t r p = (q, p')" by (metis surj_pair)
  have ok: "provider_ok d p" using Cons.prems(1) by simp
  note p = run_provider_ok[OF ok run]
  show ?case
  proof (cases q)
    case (Inl e)
    let ?e = "case e0 of Some e0 \<Rightarrow> Some e0 | None \<Rightarrow> Some e"
    obtain res1 ps1 where rest: "validate_with_providers d t r ?e ps = (res1, ps1)" by (metis surj_pair)
    have "res = res1" "ps' = p' # ps1" using Cons.prems(2) run Inl rest by simp_all
    then show ?thesis using Cons.IH[OF _ rest] Cons.prems(1) p by auto
  next
    case (Inr g')
    then have "res = Inr g'" "ps' = p' # ps" using Cons.prems(2) run by simp_all
    then show ?thesis using p Cons.prems(1) Inr run_provider_ok[OF ok run, of g]
      by (auto simp: list_all2_refl)
  qed
qed simp

lemma resolved_ok: "auth_ok d s \<Longrightarrow> list_all (provider_ok d) (resolve_providers name s)"
  unfolding auth_ok_def resolve_providers_def by (auto simp: list_all_iff split: option.splits)

lemma put_providers_ok:
  assumes "auth_ok d s" "list_all (provider_ok d) ps"
  shows "auth_ok d (put_providers name ps s)" "az_revoked (put_providers name ps s) = az_revoked s"
  using assms unfolding auth_ok_def put_providers_def
  by (auto split: option.splits list.splits)


definition asked_provider :: "auth_request \<Rightarrow> auth_service \<Rightarrow> string" where
  "asked_provider r s = (case r of BearerToken _ \<Rightarrow> az_defaultName s | SystemAuth a \<Rightarrow> sa_provider a)"

lemma validate_request_ok:
  assumes ok: "auth_ok d s" and v: "validate_request d t name unsupported r s = (res, s')"
  shows "auth_ok d s' \<and> az_revoked s' = az_revoked s
    \<and> (res = Inr g \<longrightarrow> (\<forall>i\<in>set (az_revoked s). ga_tokenId g \<noteq> JStr i)
        \<and> (\<exists>p\<in>set (resolve_providers name s). granted_by d t r p g))"
proof (cases "resolve_providers name s = []")
  case True
  then show ?thesis using v ok by (auto simp: validate_request_def)
next
  case False
  obtain q ps where run: "validate_with_providers d t r None (resolve_providers name s) = (q, ps)" by (metis surj_pair)
  note w = validate_with_providers_ok[OF resolved_ok[OF ok] run]
  have s': "s' = put_providers name ps s"
    and res: "res = (case q of Inl e \<Rightarrow> Inl e | Inr g \<Rightarrow> ensure_not_revoked s g)"
    using v False run by (auto simp: validate_request_def split: sum.splits)
  have "q = Inr g \<and> (\<forall>i\<in>set (az_revoked s). ga_tokenId g \<noteq> JStr i)" if "res = Inr g"
    using that res by (auto simp: ensure_not_revoked_def list_ex_iff split: sum.splits if_splits)
  then show ?thesis using w put_providers_ok[OF ok, of ps] by (auto simp: s')
qed

lemma auth_authenticate_ok:
  assumes "auth_ok d s" "authenticate d t r s = (res, s')"
  shows "auth_ok d s' \<and> az_revoked s' = az_revoked s
    \<and> (res = Inr g \<longrightarrow> (\<forall>i\<in>set (az_revoked s). ga_tokenId g \<noteq> JStr i)
        \<and> (\<exists>p\<in>set (resolve_providers (asked_provider r s) s). granted_by d t r p g))"
proof (cases r)
  case (BearerToken token)
  then show ?thesis using assms(1) assms(2) validate_request_ok[OF assms(1)]
    by (auto simp: authenticate_def validate_bearer_token_def asked_provider_def split: if_splits)
next
  case (SystemAuth a)
  then show ?thesis using assms(2) validate_request_ok[OF assms(1)]
    by (simp add: authenticate_def validate_system_auth_def asked_provider_def)
qed

lemma auth_step_ok:
  assumes "auth_step d s s'" "auth_ok d s"
  shows "auth_ok d s' \<and> set (az_revoked s) \<subseteq> set (az_revoked s')"
  using assms
proof cases
  case (step_authenticate t r)
  obtain res where "authenticate d t r s = (res, s')" using step_authenticate by (metis prod.collapse)
  then show ?thesis using auth_authenticate_ok[OF assms(2)] by simp
next
  case (step_revoke i)
  then show ?thesis using assms(2) by (auto simp: auth_ok_def revoke_token_def)
next
  case (step_trust trust)
  then show ?thesis using assms(2)
    by (auto simp: auth_ok_def apply_runtime_auth_trust_def cache_ok_def split: option.splits list.splits if_splits)
qed

lemma fresh_ok: "fresh_provider p \<Longrightarrow> provider_ok d p"
  by (cases p) (auto simp: cache_ok_def)

lemma new_service_ok:
  assumes "list_all fresh_provider providers"
  shows "auth_ok d (new_auth_service providers name)"
proof -
  have "map_of (fold (\<lambda>p. map_set (provider_name p) p) providers m) n = Some p \<Longrightarrow>
      p \<in> set providers \<or> map_of m n = Some p" for m n p
  proof (induction providers arbitrary: m)
    case (Cons a ps)
    then show ?case using Cons.IH[of "map_set (provider_name a) a m"] by (auto split: if_splits)
  qed simp
  then show ?thesis using assms fresh_ok by (fastforce simp: auth_ok_def new_auth_service_def list_all_iff)
qed

lemma auth_reachable_ok: "auth_reachable d s \<Longrightarrow> auth_ok d s"
  by (induction rule: auth_reachable.induct) (auto simp: new_service_ok dest: auth_step_ok)

lemma later_revoked:
  "(auth_step d)\<^sup>*\<^sup>* s s' \<Longrightarrow> auth_ok d s \<Longrightarrow> auth_ok d s' \<and> set (az_revoked s) \<subseteq> set (az_revoked s')"
  by (induction rule: rtranclp_induct) (auto dest: auth_step_ok)


text \<open>C31: Revocation is final. Once a token id is revoked, whatever else the service does afterwards, no request is
  answered with a context of that id, and every context of that id counts as invalid at every instant.\<close>

theorem revoked_stays_revoked:
  assumes "auth_reachable d s" "(auth_step d)\<^sup>*\<^sup>* (revoke_token i s) s'" "ga_tokenId g = JStr i"
  shows "fst (authenticate d t r s') \<noteq> Inr g \<and> \<not> is_auth_context_valid now g s'"
proof (intro conjI)
  have "auth_ok d (revoke_token i s)" using auth_step_ok[OF step_revoke auth_reachable_ok[OF assms(1)]] by blast
  then have ok: "auth_ok d s'" and "i \<in> set (az_revoked s')"
    using later_revoked[OF assms(2)] by (auto simp: revoke_token_def split: if_splits)
  then show "\<not> is_auth_context_valid now g s'"
    using assms(3) by (auto simp: is_auth_context_valid_def list_ex_iff)
next
  have "auth_ok d (revoke_token i s)" using auth_step_ok[OF step_revoke auth_reachable_ok[OF assms(1)]] by blast
  then have ok: "auth_ok d s'" and "i \<in> set (az_revoked s')"
    using later_revoked[OF assms(2)] by (auto simp: revoke_token_def split: if_splits)
  obtain res s'' where a: "authenticate d t r s' = (res, s'')" by (metis surj_pair)
  show "fst (authenticate d t r s') \<noteq> Inr g"
    using auth_authenticate_ok[OF ok a] \<open>i \<in> set (az_revoked s')\<close> assms(3) a by auto
qed

section \<open>Types\<close>



fun is_text :: "json \<Rightarrow> bool" where
  "is_text (JStr s) = True"
| "is_text _ = False"














section \<open>What the checks leave open\<close>

text \<open>A token whose id is not a string can be used but not revoked.\<close>

lemma untyped_id_cannot_be_revoked:
  assumes "\<not> is_text (ga_tokenId g)"
  shows "is_auth_context_valid now g (revoke_token i s) = is_auth_context_valid now g s"
    "ensure_not_revoked s g = Inr g"
  using assms by (auto simp: is_auth_context_valid_def ensure_not_revoked_def revoke_token_def list_ex_iff)

text \<open>ES256 may be allowed by a trust and configured as the algorithm of a key, but no ES256 token is
  ever accepted.\<close>

lemma es256_never_accepted:
  assumes "cache_ok d cache" "\<forall>issuer\<in>set trusts. it_algorithms issuer = Some [ES256]"
  shows "fst (validate_jwt d trusts t token cache) \<noteq> Inr g"
proof
  assume "fst (validate_jwt d trusts t token cache) = Inr g"
  then obtain c where "validate_jwt d trusts t token cache = (Inr g, c)" by (metis prod.collapse)
  then have "vouched d trusts t token g" using validate_jwt_ok[OF assms(1)] by blast
  then show False using assms(2) by (auto simp: vouched_def signed_by_def allowed_algorithms_def)
qed

text \<open>A token within the skew after its expiry is accepted, and the context it is given is already invalid.\<close>

lemma accepted_context_already_invalid:
  assumes "vouched d trusts t token g" "ga_expiresAt g = Fin q" "q \<le> of_int now"
  shows "\<not> is_auth_context_valid now g s"
  using assms by (simp add: is_auth_context_valid_def)

text \<open>An expiry whose milliseconds no double can hold makes a context that never expires. (The limit of the lifetime is
  checked only when the token has an \<open>iat\<close>.)\<close>

lemma far_expiry_never_ends:
  assumes "context_of_payload d payload = Inr g" "js_prop payload ''exp'' = Some (JNum (Fin (10 ^ 306)))"
  shows "ga_expiresAt g = PosInf"
    and "\<not> list_ex (\<lambda>i. ga_tokenId g = JStr i) (az_revoked s) \<Longrightarrow> is_auth_context_valid now g s"
proof -
  have "num_times1000 (Fin (10 ^ 306)) = PosInf" by (simp add: double_limit_def)
  then show inf: "ga_expiresAt g = PosInf"
    using assms by (auto simp: context_of_payload_def split: option.splits sum.splits if_splits)
  show "\<not> list_ex (\<lambda>i. ga_tokenId g = JStr i) (az_revoked s) \<Longrightarrow> is_auth_context_valid now g s"
    using inf by (simp add: is_auth_context_valid_def)
qed

lemma split_on_no: "c \<notin> set s \<Longrightarrow> split_on c s = [s]"
  by (induction s) auto

lemma split_on_first: "c \<notin> set s \<Longrightarrow> split_on c (s @ c # rest) = s # split_on c rest"
  by (induction s) auto

lemma split_on_not_Nil [simp]: "split_on c s \<noteq> []"
  by (induction s) (auto split: list.splits)

text \<open>The demo provider of the application answers whatever trust is applied, and it reads the peer from the
  second part of the token only: revoking a peer's token leaves every token with a further part valid.\<close>

lemma demo_context_accepts:
  assumes "p \<noteq> []" "CHR '':'' \<notin> set p"
  shows "\<exists>g. demo_context now (''demo:'' @ p @ '':'' @ x) = Inr g \<and> ga_peerId g = p \<and> ga_tokenId g = JStr (''demo:'' @ p @ '':'' @ x)"
proof -
  have "bearer_text (''demo:'' @ p @ '':'' @ x) = ''demo:'' @ p @ '':'' @ x" by (simp add: bearer_text_def)
  moreover have "split_on (CHR '':'') (''demo:'' @ p @ '':'' @ x) = ''demo'' # p # split_on (CHR '':'') x"
    using split_on_first[of "CHR '':''" "''demo''" "p @ '':'' @ x"] split_on_first[of "CHR '':''" p x] assms(2) by simp
  ultimately show ?thesis using assms(1) by (simp add: demo_context_def)
qed

lemma malformed_then_demo:
  assumes "demo_context (is_claims t) token = Inr g" "split_on (CHR ''.'') (bearer_text token) = [x]"
  shows "fst (validate_with_providers d t (BearerToken token) None [DemoBearer]) = Inr g"
    "fst (validate_with_providers d t (BearerToken token) None [JwtIssuer trusts cache, DemoBearer]) = Inr g"
  using assms by (simp_all add: request_token_def validate_jwt_def)

lemma bearer_granted:
  assumes "fst (validate_with_providers d t (BearerToken token) None (resolve_providers (az_defaultName s) s)) = Inr g"
    and "ensure_not_revoked s g = Inr g" "token \<noteq> []" "resolve_providers (az_defaultName s) s \<noteq> []"
  shows "fst (authenticate d t (BearerToken token) s) = Inr g"
proof -
  obtain ps where "validate_with_providers d t (BearerToken token) None (resolve_providers (az_defaultName s) s) = (Inr g, ps)"
    using assms(1) by (metis prod.collapse)
  then show ?thesis using assms(2-4) by (simp add: authenticate_def validate_bearer_token_def validate_request_def)
qed

lemma demo_tokens_survive_trust_and_revocation:
  fixes d :: "'b jwt_deps"
  assumes "p \<noteq> []" "CHR '':'' \<notin> set p" "CHR ''.'' \<notin> set p"
  shows "\<exists>g. fst (authenticate d t (BearerToken (''demo:'' @ p @ '':x''))
      (revoke_token (''demo:'' @ p) (apply_runtime_auth_trust trust (new_auth_service [DemoBearer] ''bearer'')))) = Inr g \<and> ga_peerId g = p"
proof -
  let ?token = "''demo:'' @ p @ '':x''"
  let ?s = "revoke_token (''demo:'' @ p) (apply_runtime_auth_trust trust (new_auth_service [DemoBearer] ''bearer''))"
  obtain g where g: "demo_context (is_claims t) ?token = Inr g" "ga_peerId g = p" "ga_tokenId g = JStr ?token"
    using demo_context_accepts[OF assms(1,2), of "is_claims t" "''x''"] by auto
  have "bearer_text ?token = ?token" by (simp add: bearer_text_def)
  moreover have "split_on (CHR ''.'') ?token = [?token]" using assms(3) by (intro split_on_no) auto
  ultimately have parts: "split_on (CHR ''.'') (bearer_text ?token) = [?token]" by (simp only:)
  have providers: "resolve_providers ''bearer'' ?s = (case az_dynamic ?s of [] \<Rightarrow> [] | (n, q) # _ \<Rightarrow> [q]) @ [DemoBearer]"
    by (cases trust; cases "the trust")
      (simp_all add: resolve_providers_def revoke_token_def apply_runtime_auth_trust_def new_auth_service_def)
  have dyn: "az_dynamic ?s = [] \<or> (\<exists>trusts. az_dynamic ?s = [(''bearer'', JwtIssuer trusts [])])"
    by (auto simp: revoke_token_def apply_runtime_auth_trust_def split: option.splits list.splits)
  have "fst (validate_with_providers d t (BearerToken ?token) None (resolve_providers ''bearer'' ?s)) = Inr g"
    using dyn malformed_then_demo[OF g(1) parts, of d] unfolding providers
    by (elim disjE exE) (simp_all only: list.case prod.case append.simps)
  moreover have "ensure_not_revoked ?s g = Inr g"
    using g(3) by (simp add: ensure_not_revoked_def revoke_token_def apply_runtime_auth_trust_def new_auth_service_def)
  moreover have name: "az_defaultName ?s = ''bearer''"
    by (simp add: revoke_token_def apply_runtime_auth_trust_def new_auth_service_def)
  moreover have "resolve_providers ''bearer'' ?s \<noteq> []" unfolding providers by simp
  ultimately have "fst (authenticate d t (BearerToken ?token) ?s) = Inr g"
    using bearer_granted[of d t ?token ?s g] by (metis append_is_Nil_conv list.distinct(1))
  then show ?thesis using g(2) by blast
qed

section \<open>An example\<close>

definition example_payload :: json where
  "example_payload = JObj [(''iss'', JStr ''https://id''), (''aud'', JArr [JStr ''hardess'']), (''sub'', JStr ''alice''),
     (''exp'', JNum (Fin 2000)), (''iat'', JNum (Fin 1500)), (''jti'', JStr ''t1''), (''scope'', JStr ''notify.conn''),
     (''workspaceId'', JStr ''w'')]"

definition example_issuer :: issuer_trust where
  "example_issuer = \<lparr>it_issuer = ''https://id'', it_audiences = [''hardess''], it_jwksUrl = Some ''https://id/keys'',
     it_publicKeys = None, it_algorithms = None, it_requiredClaims = Some [''workspaceId''], it_clockSkewSec = None,
     it_maxTokenTtlSec = None\<rparr>"

text \<open>The header is the text \<open>aaaa\<close>, the payload \<open>bbbb\<close>, and \<open>cccc\<close> the only valid signature.\<close>

definition example_jwt :: "string jwt_deps" where
  "example_jwt = \<lparr>jd_decode = id,
     jd_parse = \<lambda>x. if x = ''aaaa'' then Some (JObj [(''alg'', JStr ''RS256''), (''kid'', JStr ''k1'')])
       else if x = ''bbbb'' then Some example_payload else None,
     jd_fetch = \<lambda>_ _. FetchBody (JObj [(''keys'', JArr [JObj [(''kid'', JStr ''k1'')]])]),
     jd_verify = \<lambda>k input sig. Some (sig = ''cccc''), jd_text = \<lambda>_. [], jd_detail = \<lambda>_. JNull, jd_cacheTtlMs = None\<rparr>"

definition example_auth :: auth_service where
  "example_auth = apply_runtime_auth_trust (Some [example_issuer]) (new_auth_service [DemoBearer] ''bearer'')"

definition example_instants :: instants where
  "example_instants = \<lparr>is_keys = 1600000, is_claims = 1600000\<rparr>"

definition example_grant :: granted_auth where
  "example_grant = \<lparr>ga_peerId = ''alice'', ga_tokenId = JStr ''t1'', ga_capabilities = [JStr ''notify.conn''],
     ga_expiresAt = Fin 2000000, ga_groupId = Some ''w''\<rparr>"

lemma auth_example_reachable: "auth_reachable example_jwt example_auth"
  unfolding example_auth_def
  by (rule reach_step[OF reach_new step_trust]) simp




theorem revoked_stays_revoked_witness:
  "fst (authenticate example_jwt example_instants (BearerToken ''Bearer aaaa.bbbb.cccc'')
      (apply_runtime_auth_trust (Some [example_issuer]) (revoke_token ''t1'' example_auth))) \<noteq> Inr example_grant"
proof (rule revoked_stays_revoked[THEN conjunct1, OF auth_example_reachable])
  show "(auth_step example_jwt)\<^sup>*\<^sup>* (revoke_token ''t1'' example_auth)
      (apply_runtime_auth_trust (Some [example_issuer]) (revoke_token ''t1'' example_auth))"
    by (intro r_into_rtranclp step_trust)
  show "ga_tokenId example_grant = JStr ''t1''" by (simp add: example_grant_def)
qed


end
