(* ===== verification/Http_Proxy.thy ===== *)
theory Http_Proxy
  imports Auth_Service Runtime_Config Serve_App
begin

text \<open>Requests and responses of HTTP, the proxy to an upstream (runtime/proxy/upstream.ts) and the run of a
  worker (runtime/workers/runner.ts).

  Headers are a map from lower-case names to values, with the values the platform accepts; a body is
  opaque. Parameters: the parts of a URL that is configured as an origin, the outcome of \<open>fetch\<close>, of each
  read of a body and of the race between a worker and its timer, the text of a token id that is not a
  string. Metrics and log calls are left out.\<close>

section \<open>Requests and responses\<close>

type_synonym headers = "(string, string) js_map"

record 'b http_req =
  hq_method :: string
  hq_pathname :: string
  hq_search :: string
  hq_headers :: headers
  hq_body :: "'b option"

record 'r http_res =
  hs_status :: int
  hs_statusText :: string
  hs_headers :: headers
  hs_body :: 'r

definition lower_char :: "char \<Rightarrow> char" where
  "lower_char c = (let n = (of_char c :: nat) in if 65 \<le> n \<and> n \<le> 90 then char_of (n + 32) else c)"

definition lower_case :: "string \<Rightarrow> string" where
  "lower_case s = map lower_char s"

definition set_header :: "string \<Rightarrow> string \<Rightarrow> headers \<Rightarrow> headers" where
  "set_header k v hs = map_set (lower_case k) v hs"

definition hop_by_hop_headers :: "string list" where
  "hop_by_hop_headers = [''connection'', ''keep-alive'', ''proxy-authenticate'', ''proxy-authorization'', ''te'',
     ''trailer'', ''transfer-encoding'', ''upgrade'']"

definition strip_hop_by_hop :: "headers \<Rightarrow> headers" where
  "strip_hop_by_hop hs = fold map_del hop_by_hop_headers hs"

section \<open>Errors\<close>

datatype timeout_stage = StageConnect | StageResponse

definition create_timeout_error :: "timeout_stage \<Rightarrow> hardess_error" where
  "create_timeout_error stage = new_hardess_error GATEWAY_UPSTREAM_TIMEOUT
     (case stage of StageConnect \<Rightarrow> ''Upstream connect timed out'' | StageResponse \<Rightarrow> ''Upstream request timed out'')
     (no_options\<lparr>opt_retryable := Some True,
        opt_detail := Some (JStr (''timeout_stage='' @ (case stage of StageConnect \<Rightarrow> ''connect'' | StageResponse \<Rightarrow> ''response'')))\<rparr>)"

definition create_unavailable_error :: "string \<Rightarrow> hardess_error" where
  "create_unavailable_error message = new_hardess_error GATEWAY_UPSTREAM_UNAVAILABLE ''Upstream service is unavailable''
     (no_options\<lparr>opt_retryable := Some True, opt_detail := Some (JStr message)\<rparr>)"

section \<open>Reading a body\<close>

text \<open>What a read of the upstream's body comes to: a chunk, the end, a failure, or the timer first.\<close>

datatype 'c body_read = ReadChunk 'c | ReadDone | ReadFails string | ReadTimesOut

text \<open>What the client of a stream gets: the chunks, and how they end. A body that is never read on is
  \<open>Pending\<close>.\<close>

datatype stream_end = Closed | Errored thrown | Pending

fun stream_rest :: "'c body_read list \<Rightarrow> 'c list \<times> stream_end" where
  "stream_rest [] = ([], Pending)"
| "stream_rest (r # rs) = (case r of
     ReadChunk c \<Rightarrow> map_prod (Cons c) id (stream_rest rs)
   | ReadDone \<Rightarrow> ([], Closed)
   | ReadFails e \<Rightarrow> ([], Errored (ThrownOther e))
   | ReadTimesOut \<Rightarrow> ([], Errored (ThrownHardess (create_timeout_error StageResponse))))"

text \<open>The first read happens before the response is handed on; \<open>None\<close> as the reads is a response without a
  body, and a body that ends at once is dropped.\<close>

definition create_streaming_body :: "'c body_read list option \<Rightarrow> thrown + ('c list \<times> stream_end) option" where
  "create_streaming_body reads = (case reads of
     None \<Rightarrow> Inr None
   | Some [] \<Rightarrow> Inr (Some ([], Pending))
   | Some (r # rs) \<Rightarrow> (case r of
       ReadChunk c \<Rightarrow> Inr (Some (map_prod (Cons c) id (stream_rest rs)))
     | ReadDone \<Rightarrow> Inr None
     | ReadFails e \<Rightarrow> Inl (ThrownOther e)
     | ReadTimesOut \<Rightarrow> Inl (ThrownHardess (create_timeout_error StageResponse))))"

type_synonym 'c stream_body = "('c list \<times> stream_end) option"

definition with_response_read_timeout ::
  "'c body_read list option http_res \<Rightarrow> thrown + 'c stream_body http_res" where
  "with_response_read_timeout response = map_sum id
     (\<lambda>body. \<lparr>hs_status = hs_status response, hs_statusText = hs_statusText response, hs_headers = hs_headers response, hs_body = body\<rparr>)
     (create_streaming_body (hs_body response))"

section \<open>The upstream\<close>

text \<open>The scheme and the authority of a URL.\<close>

record target_origin =
  to_scheme :: string
  to_authority :: string

text \<open>\<open>new URL(path, origin)\<close> for a path that begins with a slash, as the path of a parsed URL does: a path
  that begins with two slashes names another authority.\<close>

definition resolve_against :: "target_origin \<Rightarrow> string \<Rightarrow> string + (target_origin \<times> string)" where
  "resolve_against origin pathname = (case pathname of
     a # b # rest \<Rightarrow>
       if a = CHR ''/'' \<and> b = CHR ''/'' then
         (let rest1 = dropWhile (\<lambda>c. c = CHR ''/'') rest;
              authority = takeWhile (\<lambda>c. c \<noteq> CHR ''/'') rest1;
              path = dropWhile (\<lambda>c. c \<noteq> CHR ''/'') rest1
          in if authority = [] then Inl ''Invalid URL''
             else Inr (origin\<lparr>to_authority := authority\<rparr>, if path = [] then ''/'' else path))
       else Inr (origin, pathname)
   | _ \<Rightarrow> Inr (origin, pathname))"

record 'b outgoing =
  og_origin :: target_origin
  og_path :: string
  og_search :: string
  og_method :: string
  og_headers :: headers
  og_body :: "'b option"

definition body_to_send :: "'b http_req \<Rightarrow> 'b option" where
  "body_to_send r = (if hq_method r = ''GET'' \<or> hq_method r = ''HEAD'' then None else hq_body r)"

datatype 'c fetch_outcome = FetchAborted | FetchFails string | FetchGot "'c body_read list option http_res"

record ('b, 'c) proxy_deps =
  px_origin :: "string \<Rightarrow> string + target_origin"
  px_fetch :: "'b outgoing \<Rightarrow> 'c fetch_outcome"
  px_text :: "json \<Rightarrow> string"

fun token_text :: "('b, 'c) proxy_deps \<Rightarrow> json \<Rightarrow> string" where
  "token_text d (JStr s) = s"
| "token_text d v = px_text d v"

definition upstream_headers :: "('b, 'c) proxy_deps \<Rightarrow> headers \<Rightarrow> pipeline_downstream \<Rightarrow> granted_auth \<Rightarrow> string \<Rightarrow> headers" where
  "upstream_headers d hs downstream auth traceId =
    (let h1 = strip_hop_by_hop hs;
         h2 = set_header ''x-hardess-trace-id'' traceId h1;
         h3 = set_header ''x-hardess-peer-id'' (ga_peerId auth) h2;
         h4 = set_header ''x-hardess-token-id'' (token_text d (ga_tokenId auth)) h3;
         h5 = (if dn_forwardAuthContext downstream = Some True then h4 else map_del ''authorization'' h4)
     in fold (\<lambda>(k, v). set_header k v) (case dn_injectedHeaders downstream of None \<Rightarrow> [] | Some hs \<Rightarrow> hs) h5)"

definition ends_with_slash :: "string \<Rightarrow> bool" where
  "ends_with_slash s = (s \<noteq> [] \<and> last s = CHR ''/'')"

definition upstream_request ::
  "('b, 'c) proxy_deps \<Rightarrow> 'b http_req \<Rightarrow> pipeline_config \<Rightarrow> granted_auth \<Rightarrow> string \<Rightarrow> string + 'b outgoing" where
  "upstream_request d r pipeline auth traceId =
    (let downstream = pc_downstream pipeline;
         base = (if ends_with_slash (dn_origin downstream) then dn_origin downstream else dn_origin downstream @ ''/'')
     in case px_origin d base of
       Inl e \<Rightarrow> Inl e
     | Inr origin \<Rightarrow> map_sum id
         (\<lambda>(origin1, path). \<lparr>og_origin = origin1, og_path = path, og_search = hq_search r, og_method = hq_method r,
            og_headers = upstream_headers d (hq_headers r) downstream auth traceId, og_body = body_to_send r\<rparr>)
         (resolve_against origin (hq_pathname r)))"

text \<open>What is sent, and what comes of it.\<close>

definition proxy_upstream ::
  "('b, 'c) proxy_deps \<Rightarrow> 'b http_req \<Rightarrow> pipeline_config \<Rightarrow> granted_auth \<Rightarrow> string \<Rightarrow>
   (thrown + 'c stream_body http_res) \<times> 'b outgoing list" where
  "proxy_upstream d r pipeline auth traceId = (case upstream_request d r pipeline auth traceId of
     Inl e \<Rightarrow> (Inl (ThrownOther e), [])
   | Inr out \<Rightarrow> (case px_fetch d out of
       FetchAborted \<Rightarrow> (Inl (ThrownHardess (create_timeout_error StageConnect)), [out])
     | FetchFails e \<Rightarrow> (Inl (ThrownHardess (create_unavailable_error e)), [out])
     | FetchGot upstreamResponse \<Rightarrow> (case with_response_read_timeout upstreamResponse of
         Inr response \<Rightarrow> (Inr (response\<lparr>hs_headers := strip_hop_by_hop (hs_headers response)\<rparr>), [out])
       | Inl (ThrownHardess e) \<Rightarrow>
           (Inl (ThrownHardess (if he_code e = GATEWAY_UPSTREAM_TIMEOUT then e else create_unavailable_error (he_message e))), [out])
       | Inl (ThrownOther m) \<Rightarrow> (Inl (ThrownHardess (create_unavailable_error m)), [out]))))"

section \<open>Workers\<close>

text \<open>Who wins the race between the worker's promise and its timer.\<close>

datatype ('q, 'r) worker_race = WorkerReturns "('q, 'r) handler_value" | WorkerThrows thrown | TimerFirst

definition pipeline_env :: "pipeline_config \<Rightarrow> string \<times> string \<times> string \<times> string option" where
  "pipeline_env p = (pc_id p, pc_matchPrefix p, dn_origin (pc_downstream p), pc_groupId p)"

text \<open>Loading the worker's module may throw; what it returns for the request, its environment and the
  trace id is the outcome of the race.\<close>

record ('q, 'r) worker_deps =
  wd_load_error :: "string \<Rightarrow> string option"
  wd_race :: "pipeline_worker \<Rightarrow> 'q \<Rightarrow> granted_auth \<Rightarrow> string \<times> string \<times> string \<times> string option \<Rightarrow> string \<Rightarrow> ('q, 'r) worker_race"

definition worker_timeout_message :: "int \<Rightarrow> string" where
  "worker_timeout_message t = ''Worker timed out after '' @ (if t < 0 then ''-'' else '''') @ nat_str (nat \<bar>t\<bar>) @ ''ms''"

definition invalid_result :: "string \<Rightarrow> hardess_error" where
  "invalid_result detail = new_hardess_error INTERNAL_ERROR ''Worker returned an invalid result'' (no_options\<lparr>opt_detail := Some (JStr detail)\<rparr>)"

definition run_worker ::
  "('q, 'r) worker_deps \<Rightarrow> 'q \<Rightarrow> granted_auth \<Rightarrow> pipeline_config \<Rightarrow> string \<Rightarrow> thrown + ('q, 'r) worker_result" where
  "run_worker d request auth pipeline traceId = (case pc_worker pipeline of
     None \<Rightarrow> Inr \<lparr>wr_request = None, wr_response = None\<rparr>
   | Some w \<Rightarrow> (case wd_load_error d (wk_entry w) of
       Some e \<Rightarrow> Inl (ThrownOther e)
     | None \<Rightarrow> (case wd_race d w request auth (pipeline_env pipeline) traceId of
         TimerFirst \<Rightarrow> Inl (ThrownOther (worker_timeout_message (wk_timeoutMs w)))
       | WorkerThrows e \<Rightarrow> Inl e
       | WorkerReturns v \<Rightarrow> (case normalize_worker_result v of
           Inl (Thrown e) \<Rightarrow> Inl (ThrownOther e)
         | Inl (InvalidResult e) \<Rightarrow> Inl (ThrownHardess (invalid_result e))
         | Inr res \<Rightarrow> Inr res))))"

end
