(* ===== verification/Upstream_Websocket.thy ===== *)
theory Upstream_Websocket
  imports Http_Proxy
begin

text \<open>The proxy of WebSocket connections (runtime/proxy/upstream-websocket.ts): a bridge between the socket of a
  client and the socket of an upstream, from the dial to the end.

  The listeners of an upstream socket hold on to their bridge, also after it has left the map of bridges:
  \<open>up_bridges\<close> are all bridges ever opened, \<open>up_registered\<close> the keys of the map. What is done to the
  sockets is appended to \<open>up_log\<close>. An \<open>openBridge\<close> whose upstream has not answered is \<open>br_connecting\<close>;
  the promise it awaits is settled by an effect of the log. The client's socket of a bridge is the one the
  server upgrades with the bridge's id; ids are random and never repeat. Bytes are opaque.\<close>

section \<open>Messages, targets and headers\<close>

datatype 'b ws_message = TextMessage string | BytesMessage 'b

fun message_truthy :: "'b ws_message \<Rightarrow> bool" where
  "message_truthy (TextMessage s) = (s \<noteq> [])"
| "message_truthy (BytesMessage b) = True"

definition websocket_hop_by_hop_headers :: "string list" where
  "websocket_hop_by_hop_headers = hop_by_hop_headers @ [''host'']"

definition upstream_handshake_headers :: "string list" where
  "upstream_handshake_headers = [''sec-websocket-key'', ''sec-websocket-version'', ''sec-websocket-extensions'', ''sec-websocket-accept'']"

definition strip_handshake :: "headers \<Rightarrow> headers" where
  "strip_handshake hs = fold map_del upstream_handshake_headers (fold map_del websocket_hop_by_hop_headers hs)"

definition trim :: "string \<Rightarrow> string" where
  "trim s = trim_end (dropWhile js_space s)"

definition offered_protocols :: "headers \<Rightarrow> string list option" where
  "offered_protocols hs = (case map_of hs ''sec-websocket-protocol'' of
     None \<Rightarrow> None
   | Some offered \<Rightarrow>
      (let protocols = filter (\<lambda>p. p \<noteq> []) (map trim (split_on (CHR '','') offered))
       in if protocols = [] then None else Some protocols))"

record ws_target =
  wt_origin :: target_origin
  wt_path :: string
  wt_search :: string
  wt_headers :: headers
  wt_protocols :: "string list option"
  wt_connectTimeoutMs :: int

definition websocket_scheme :: "string \<Rightarrow> string" where
  "websocket_scheme s = (if s = ''http:'' then ''ws:'' else if s = ''https:'' then ''wss:'' else s)"

definition to_upstream_websocket_url ::
  "('b, 'c) proxy_deps \<Rightarrow> 'b http_req \<Rightarrow> pipeline_config \<Rightarrow> string + (target_origin \<times> string)" where
  "to_upstream_websocket_url d r pipeline =
    (let origin = dn_origin (pc_downstream pipeline);
         base = (if ends_with_slash origin then origin else origin @ ''/'')
     in case px_origin d base of
       Inl e \<Rightarrow> Inl e
     | Inr o1 \<Rightarrow> map_sum id (\<lambda>(o2, path). (o2\<lparr>to_scheme := websocket_scheme (to_scheme o2)\<rparr>, path)) (resolve_against o1 (hq_pathname r)))"

definition sanitize_for_upstream ::
  "('b, 'c) proxy_deps \<Rightarrow> headers \<Rightarrow> pipeline_downstream \<Rightarrow> granted_auth \<Rightarrow> string \<Rightarrow> headers \<times> string list option" where
  "sanitize_for_upstream d hs downstream auth traceId =
    (let h0 = strip_handshake hs;
         h1 = map_del ''sec-websocket-protocol'' h0;
         h2 = set_header ''x-hardess-trace-id'' traceId h1;
         h3 = set_header ''x-hardess-peer-id'' (ga_peerId auth) h2;
         h4 = set_header ''x-hardess-token-id'' (token_text d (ga_tokenId auth)) h3;
         h5 = (if dn_forwardAuthContext downstream = Some True then h4 else map_del ''authorization'' h4);
         h6 = fold (\<lambda>(k, v). set_header k v) (case dn_injectedHeaders downstream of None \<Rightarrow> [] | Some hs \<Rightarrow> hs) h5
     in (h6, offered_protocols h0))"

definition sanitize_for_forward :: "headers \<Rightarrow> headers \<Rightarrow> headers \<times> string list option" where
  "sanitize_for_forward hs extra =
    (let h0 = strip_handshake hs
     in (fold (\<lambda>(k, v). set_header k v) extra (map_del ''sec-websocket-protocol'' h0), offered_protocols h0))"

definition upgrade_target ::
  "('b, 'c) proxy_deps \<Rightarrow> 'b http_req \<Rightarrow> pipeline_config \<Rightarrow> granted_auth \<Rightarrow> string \<Rightarrow> string + ws_target" where
  "upgrade_target d r pipeline auth traceId = (case to_upstream_websocket_url d r pipeline of
     Inl e \<Rightarrow> Inl e
   | Inr (origin, path) \<Rightarrow>
      (let (hs, protocols) = sanitize_for_upstream d (hq_headers r) (pc_downstream pipeline) auth traceId
       in Inr \<lparr>wt_origin = origin, wt_path = path, wt_search = hq_search r, wt_headers = hs, wt_protocols = protocols,
            wt_connectTimeoutMs = dn_connectTimeoutMs (pc_downstream pipeline)\<rparr>))"

definition build_forward_target :: "'b http_req \<Rightarrow> target_origin \<times> string \<Rightarrow> int \<Rightarrow> headers \<Rightarrow> ws_target" where
  "build_forward_target r url connectTimeoutMs extra =
    (let (hs, protocols) = sanitize_for_forward (hq_headers r) extra
     in \<lparr>wt_origin = fst url, wt_path = snd url, wt_search = [], wt_headers = hs, wt_protocols = protocols,
          wt_connectTimeoutMs = connectTimeoutMs\<rparr>)"

definition is_websocket_upgrade_request :: "'b http_req \<Rightarrow> bool" where
  "is_websocket_upgrade_request r = (map_option lower_case (map_of (hq_headers r) ''upgrade'') = Some ''websocket'')"

definition is_valid_close_code :: "int option \<Rightarrow> bool" where
  "is_valid_close_code code = (case code of None \<Rightarrow> False
   | Some c \<Rightarrow> c \<ge> 1000 \<and> c \<le> 4999 \<and> c \<noteq> 1004 \<and> c \<noteq> 1005 \<and> c \<noteq> 1006 \<and> c \<noteq> 1015)"

definition code_or_1011 :: "int option \<Rightarrow> int option" where
  "code_or_1011 code = (if is_valid_close_code code then code else Some 1011)"

definition valid_code :: "int option \<Rightarrow> int option" where
  "valid_code code = (if is_valid_close_code code then code else None)"

section \<open>Bridges\<close>

datatype open_failure = OpenTimedOut | OpenErrored | OpenClosed "int option" "string option"

datatype 'b ws_effect =
    UpstreamDialed string ws_target
  | ClientSent string "'b ws_message"
  | ClientClosed string "int option" "string option"
  | UpstreamSent string "'b ws_message"
  | UpstreamClosed string "int option" "string option"
  | OpenSettled string "open_failure option"

record 'b bridge =
  br_clientSocket :: bool
  br_pendingClientMessages :: "'b ws_message list"
  br_pendingUpstreamMessages :: "'b ws_message list"
  br_closed :: bool
  br_upstreamClosed :: "(int option \<times> string option) option"
  br_connecting :: bool

record 'b ws_proxy =
  up_bridges :: "(string, 'b bridge) js_map"
  up_registered :: "string list"
  up_log :: "'b ws_effect list"

definition new_ws_proxy :: "'b ws_proxy" where
  "new_ws_proxy = \<lparr>up_bridges = [], up_registered = [], up_log = []\<rparr>"

definition put_bridge :: "string \<Rightarrow> 'b bridge \<Rightarrow> 'b ws_proxy \<Rightarrow> 'b ws_proxy" where
  "put_bridge i b p = p\<lparr>up_bridges := map_set i b (up_bridges p)\<rparr>"

definition log_effects :: "'b ws_effect list \<Rightarrow> 'b ws_proxy \<Rightarrow> 'b ws_proxy" where
  "log_effects es p = p\<lparr>up_log := up_log p @ es\<rparr>"

definition unregister_bridge :: "string \<Rightarrow> 'b ws_proxy \<Rightarrow> 'b ws_proxy" where
  "unregister_bridge i p = p\<lparr>up_registered := removeAll i (up_registered p)\<rparr>"

definition registered_bridge :: "string \<Rightarrow> 'b ws_proxy \<Rightarrow> 'b bridge option" where
  "registered_bridge i p = (if i \<in> set (up_registered p) then map_of (up_bridges p) i else None)"

text \<open>Closing both sides.\<close>

definition close_bridge :: "string \<Rightarrow> int option \<Rightarrow> string option \<Rightarrow> 'b ws_proxy \<Rightarrow> 'b ws_proxy" where
  "close_bridge i code reason p = (case map_of (up_bridges p) i of
     None \<Rightarrow> p
   | Some b \<Rightarrow>
      if br_closed b then p
      else unregister_bridge i (log_effects
        (UpstreamClosed i (valid_code code) reason # (if br_clientSocket b then [ClientClosed i (code_or_1011 code) reason] else []))
        (put_bridge i (b\<lparr>br_closed := True\<rparr>) p)))"

definition open_bridge :: "string \<Rightarrow> ws_target \<Rightarrow> 'b ws_proxy \<Rightarrow> 'b ws_proxy" where
  "open_bridge i target p =
    (if map_of (up_bridges p) i \<noteq> None then p
     else (log_effects [UpstreamDialed i target] (put_bridge i \<lparr>br_clientSocket = False, br_pendingClientMessages = [],
        br_pendingUpstreamMessages = [], br_closed = False, br_upstreamClosed = None, br_connecting = True\<rparr> p))
        \<lparr>up_registered := up_registered p @ [i]\<rparr>)"

text \<open>The promise of the dial settles once; a failure forgets the bridge and closes the upstream socket.\<close>

definition settle_open :: "string \<Rightarrow> open_failure option \<Rightarrow> 'b ws_proxy \<Rightarrow> 'b ws_proxy" where
  "settle_open i failure p = (case map_of (up_bridges p) i of
     None \<Rightarrow> p
   | Some b \<Rightarrow>
      if \<not> br_connecting b then p
      else (let p1 = log_effects [OpenSettled i failure] (put_bridge i (b\<lparr>br_connecting := False\<rparr>) p)
            in if failure = None then p1
               else log_effects [UpstreamClosed i (Some 1011) (Some ''upstream connect failed'')] (unregister_bridge i p1)))"

definition upstream_opens :: "string \<Rightarrow> 'b ws_proxy \<Rightarrow> 'b ws_proxy" where
  "upstream_opens i p = settle_open i None p"

definition connect_timer_fires :: "string \<Rightarrow> 'b ws_proxy \<Rightarrow> 'b ws_proxy" where
  "connect_timer_fires i p = settle_open i (Some OpenTimedOut) p"

definition upstream_message :: "string \<Rightarrow> 'b ws_message \<Rightarrow> 'b ws_proxy \<Rightarrow> 'b ws_proxy" where
  "upstream_message i m p = (case map_of (up_bridges p) i of
     None \<Rightarrow> p
   | Some b \<Rightarrow>
      if br_closed b then p
      else if br_clientSocket b then log_effects [ClientSent i m] p
      else put_bridge i (b\<lparr>br_pendingUpstreamMessages := br_pendingUpstreamMessages b @ [m]\<rparr>) p)"

definition upstream_closes :: "string \<Rightarrow> int option \<Rightarrow> string option \<Rightarrow> 'b ws_proxy \<Rightarrow> 'b ws_proxy" where
  "upstream_closes i code reason p = settle_open i (Some (OpenClosed code reason))
    (case map_of (up_bridges p) i of
       None \<Rightarrow> p
     | Some b \<Rightarrow>
        if br_closed b then p
        else unregister_bridge i (log_effects (if br_clientSocket b then [ClientClosed i (code_or_1011 code) reason] else [])
          (put_bridge i (b\<lparr>br_upstreamClosed := Some (code, reason), br_closed := True\<rparr>) p)))"

definition upstream_errors :: "string \<Rightarrow> 'b ws_proxy \<Rightarrow> 'b ws_proxy" where
  "upstream_errors i p = settle_open i (Some OpenErrored) (close_bridge i (Some 1011) (Some ''upstream websocket error'') p)"

text \<open>After the dial: the server upgrades the client's request, or does not.\<close>

definition upgrade_client :: "string \<Rightarrow> bool \<Rightarrow> 'b ws_proxy \<Rightarrow> 'b ws_proxy" where
  "upgrade_client i upgraded p =
    (if upgraded then p else close_bridge i (Some 1011) (Some ''client websocket upgrade failed'') p)"

text \<open>The messages that waited are sent to the client, up to the first that is falsy, which is dropped.\<close>

fun drain_pending :: "'b ws_message list \<Rightarrow> 'b ws_message list \<times> 'b ws_message list" where
  "drain_pending [] = ([], [])"
| "drain_pending (m # ms) = (if message_truthy m then map_prod (Cons m) id (drain_pending ms) else ([], ms))"

definition open_client_socket :: "string \<Rightarrow> 'b ws_proxy \<Rightarrow> 'b ws_proxy" where
  "open_client_socket i p = (case registered_bridge i p of
     None \<Rightarrow> log_effects [ClientClosed i (Some 1011) (Some ''upstream websocket bridge unavailable'')] p
   | Some b \<Rightarrow>
      if br_closed b then log_effects [ClientClosed i (Some 1011) (Some ''upstream websocket bridge unavailable'')] p
      else (let (sent, kept) = drain_pending (br_pendingUpstreamMessages b);
                p1 = log_effects (map (ClientSent i) sent) (put_bridge i (b\<lparr>br_clientSocket := True, br_pendingUpstreamMessages := kept\<rparr>) p)
            in case br_upstreamClosed b of
                 None \<Rightarrow> p1
               | Some (code, reason) \<Rightarrow> unregister_bridge i (log_effects [ClientClosed i (code_or_1011 code) reason] p1)))"

definition client_message :: "string \<Rightarrow> 'b ws_message \<Rightarrow> 'b ws_proxy \<Rightarrow> 'b ws_proxy" where
  "client_message i m p = (case registered_bridge i p of
     None \<Rightarrow> log_effects [ClientClosed i (Some 1011) (Some ''upstream websocket bridge unavailable'')] p
   | Some b \<Rightarrow>
      if br_closed b then log_effects [ClientClosed i (Some 1011) (Some ''upstream websocket bridge unavailable'')] p
      else log_effects [UpstreamSent i m] p)"

definition client_close :: "string \<Rightarrow> int option \<Rightarrow> string option \<Rightarrow> 'b ws_proxy \<Rightarrow> 'b ws_proxy" where
  "client_close i code reason p = (case registered_bridge i p of
     None \<Rightarrow> p
   | Some b \<Rightarrow> if br_closed b then p else close_bridge i code reason (put_bridge i (b\<lparr>br_clientSocket := False\<rparr>) p))"

definition dispose_proxy :: "'b ws_proxy \<Rightarrow> 'b ws_proxy" where
  "dispose_proxy p = (fold (\<lambda>i. close_bridge i (Some 1001) (Some ''runtime disposed'')) (up_registered p) p)\<lparr>up_registered := []\<rparr>"

end
