(* ===== verification/Bridge_Props.thy ===== *)
theory Bridge_Props
  imports Upstream_Websocket
begin

text \<open>The two directions of a bridge keep their order, whatever happens to other bridges and whenever the ends
  close; and what goes wrong with an empty message and with an upstream that closes early.\<close>

datatype 'b ws_event = Dialed string ws_target | UpOpens string | TimerFires string | UpSays string "'b ws_message"
  | UpCloses string "int option" "string option" | UpErrors string | Upgraded string bool | ClientOpens string
  | ClientSays string "'b ws_message" | ClientCloses string "int option" "string option" | Disposed

fun ws_step :: "'b ws_event \<Rightarrow> 'b ws_proxy \<Rightarrow> 'b ws_proxy" where
  "ws_step (Dialed i t) p = open_bridge i t p"
| "ws_step (UpOpens i) p = upstream_opens i p"
| "ws_step (TimerFires i) p = connect_timer_fires i p"
| "ws_step (UpSays i m) p = upstream_message i m p"
| "ws_step (UpCloses i c r) p = upstream_closes i c r p"
| "ws_step (UpErrors i) p = upstream_errors i p"
| "ws_step (Upgraded i u) p = upgrade_client i u p"
| "ws_step (ClientOpens i) p = open_client_socket i p"
| "ws_step (ClientSays i m) p = client_message i m p"
| "ws_step (ClientCloses i c r) p = client_close i c r p"
| "ws_step Disposed p = dispose_proxy p"

definition ws_run :: "'b ws_event list \<Rightarrow> 'b ws_proxy" where
  "ws_run es = foldl (\<lambda>p e. ws_step e p) new_ws_proxy es"

lemma ws_run_snoc: "ws_run (es @ [e]) = ws_step e (ws_run es)"
  by (simp add: ws_run_def)

section \<open>What is said and what is sent\<close>

fun is_dial :: "string \<Rightarrow> 'b ws_event \<Rightarrow> bool" where
  "is_dial i (Dialed j t) = (j = i)"
| "is_dial i _ = False"

fun upstream_words :: "string \<Rightarrow> 'b ws_event \<Rightarrow> 'b ws_message list" where
  "upstream_words i (UpSays j m) = (if j = i then [m] else [])"
| "upstream_words i _ = []"

fun client_words :: "string \<Rightarrow> 'b ws_event \<Rightarrow> 'b ws_message list" where
  "client_words i (ClientSays j m) = (if j = i then [m] else [])"
| "client_words i _ = []"

text \<open>What each side says on a bridge from its dial on.\<close>

definition from_dial :: "string \<Rightarrow> 'b ws_event list \<Rightarrow> 'b ws_event list" where
  "from_dial i es = dropWhile (\<lambda>e. \<not> is_dial i e) es"

definition upstream_said :: "string \<Rightarrow> 'b ws_event list \<Rightarrow> 'b ws_message list" where
  "upstream_said i es = concat (map (upstream_words i) (from_dial i es))"

definition client_said :: "string \<Rightarrow> 'b ws_event list \<Rightarrow> 'b ws_message list" where
  "client_said i es = concat (map (client_words i) (from_dial i es))"

fun client_effect :: "string \<Rightarrow> 'b ws_effect \<Rightarrow> 'b ws_message list" where
  "client_effect i (ClientSent j m) = (if j = i then [m] else [])"
| "client_effect i _ = []"

fun upstream_effect :: "string \<Rightarrow> 'b ws_effect \<Rightarrow> 'b ws_message list" where
  "upstream_effect i (UpstreamSent j m) = (if j = i then [m] else [])"
| "upstream_effect i _ = []"

definition sent_to_client :: "string \<Rightarrow> 'b ws_proxy \<Rightarrow> 'b ws_message list" where
  "sent_to_client i p = concat (map (client_effect i) (up_log p))"

definition sent_to_upstream :: "string \<Rightarrow> 'b ws_proxy \<Rightarrow> 'b ws_message list" where
  "sent_to_upstream i p = concat (map (upstream_effect i) (up_log p))"

lemma dropWhile_snoc:
  "dropWhile P (xs @ [x]) = (if \<forall>y\<in>set xs. P y then (if P x then [] else [x]) else dropWhile P xs @ [x])"
  by (induction xs) auto

lemma said_snoc:
  assumes "\<exists>e\<in>set es. is_dial i e"
  shows "upstream_said i (es @ [e]) = upstream_said i es @ upstream_words i e"
    "client_said i (es @ [e]) = client_said i es @ client_words i e"
  using assms by (auto simp: upstream_said_def client_said_def from_dial_def dropWhile_snoc)

lemma dial_words: "is_dial i e \<Longrightarrow> upstream_words i e = []" "is_dial i e \<Longrightarrow> client_words i e = []"
  by (cases e; simp)+

lemma not_dialed:
  assumes "\<forall>e\<in>set es. \<not> is_dial i e"
  shows "upstream_said i es = []" "client_said i es = []"
    "upstream_said i (es @ [e]) = []" "client_said i (es @ [e]) = []"
proof -
  have no: "from_dial i es = []" and snoc: "from_dial i (es @ [e]) = (if is_dial i e then [e] else [])"
    using assms by (simp_all add: from_dial_def dropWhile_snoc)
  show "upstream_said i es = []" "client_said i es = []" by (simp_all add: upstream_said_def client_said_def no)
  show "upstream_said i (es @ [e]) = []" "client_said i (es @ [e]) = []"
    by (simp_all add: upstream_said_def client_said_def snoc dial_words)
qed

section \<open>One bridge\<close>

lemma bridge_basics [simp]:
  "up_registered (put_bridge i b p) = up_registered p" "up_registered (log_effects es p) = up_registered p"
  "up_bridges (log_effects es p) = up_bridges p" "up_bridges (unregister_bridge i p) = up_bridges p"
  "up_bridges (put_bridge i b p) = map_set i b (up_bridges p)"
  "up_registered (unregister_bridge i p) = removeAll i (up_registered p)"
  by (simp_all add: put_bridge_def unregister_bridge_def log_effects_def)

lemma sent_basics [simp]:
  "sent_to_client j (put_bridge i b p) = sent_to_client j p" "sent_to_upstream j (put_bridge i b p) = sent_to_upstream j p"
  "sent_to_client j (unregister_bridge i p) = sent_to_client j p" "sent_to_upstream j (unregister_bridge i p) = sent_to_upstream j p"
  "sent_to_client j (log_effects es p) = sent_to_client j p @ concat (map (client_effect j) es)"
  "sent_to_upstream j (log_effects es p) = sent_to_upstream j p @ concat (map (upstream_effect j) es)"
  "sent_to_client j (p\<lparr>up_registered := x\<rparr>) = sent_to_client j p" "sent_to_upstream j (p\<lparr>up_registered := x\<rparr>) = sent_to_upstream j p"
  by (simp_all add: put_bridge_def unregister_bridge_def log_effects_def sent_to_client_def sent_to_upstream_def)

definition bridge_inv :: "string \<Rightarrow> 'b ws_message list \<Rightarrow> 'b ws_message list \<Rightarrow> 'b ws_proxy \<Rightarrow> bool" where
  "bridge_inv i up cl p = (case map_of (up_bridges p) i of
     None \<Rightarrow> i \<notin> set (up_registered p) \<and> sent_to_client i p = [] \<and> sent_to_upstream i p = [] \<and> up = [] \<and> cl = []
   | Some b \<Rightarrow>
      (list_all message_truthy up \<longrightarrow>
         (if br_closed b then prefix (sent_to_client i p) up
          else if br_clientSocket b then sent_to_client i p = up \<and> br_pendingUpstreamMessages b = []
          else sent_to_client i p = [] \<and> br_pendingUpstreamMessages b = up))
      \<and> prefix (sent_to_upstream i p) cl
      \<and> (i \<in> set (up_registered p) \<and> \<not> br_closed b \<longrightarrow> sent_to_upstream i p = cl)
      \<and> (br_upstreamClosed b \<noteq> None \<longrightarrow> br_closed b))"

lemma inv_close: "bridge_inv i up cl p \<Longrightarrow> bridge_inv i up cl (close_bridge j c r p)"
  by (cases "i = j") (auto simp: close_bridge_def bridge_inv_def split: option.splits if_splits)

lemma inv_settle: "bridge_inv i up cl p \<Longrightarrow> bridge_inv i up cl (settle_open j f p)"
  by (cases "i = j") (auto simp: settle_open_def bridge_inv_def Let_def split: option.splits if_splits)

lemma drain_pending_truthy: "list_all message_truthy ms \<Longrightarrow> drain_pending ms = (ms, [])"
  by (induction ms) auto

lemma concat_sent [simp]:
  "concat (map (client_effect i \<circ> ClientSent i) ms) = ms" "concat (map (upstream_effect i \<circ> ClientSent j) ms) = []"
  "i \<noteq> j \<Longrightarrow> concat (map (client_effect i \<circ> ClientSent j) ms) = []"
  by (induction ms) auto

lemma inv_same:
  assumes "bridge_inv i up cl p" "map_of (up_bridges q) i = map_of (up_bridges p) i"
    "i \<in> set (up_registered q) \<longleftrightarrow> i \<in> set (up_registered p)"
    "sent_to_client i q = sent_to_client i p" "sent_to_upstream i q = sent_to_upstream i p"
  shows "bridge_inv i up cl q"
  using assms(1) unfolding bridge_inv_def assms(2-5) .

lemma inv_open_client:
  assumes "bridge_inv i up cl p"
  shows "bridge_inv i up cl (open_client_socket j p)"
proof (cases "registered_bridge j p")
  case None
  then show ?thesis by (intro inv_same[OF assms]) (simp_all add: open_client_socket_def)
next
  case (Some b)
  then have b: "map_of (up_bridges p) j = Some b" "j \<in> set (up_registered p)"
    by (auto simp: registered_bridge_def split: if_splits)
  obtain sent kept where d: "drain_pending (br_pendingUpstreamMessages b) = (sent, kept)" by (metis surj_pair)
  show ?thesis
  proof (cases "br_closed b \<or> i \<noteq> j")
    case True
    then show ?thesis using Some b d
      by (intro inv_same[OF assms]) (auto simp: open_client_socket_def Let_def split: option.splits)
  next
    case False
    then have ij: "i = j" and "\<not> br_closed b" and "br_upstreamClosed b \<noteq> None \<longrightarrow> br_closed b"
      using assms b by (simp_all add: bridge_inv_def)
    then have open_b: "\<not> br_closed b" "br_upstreamClosed b = None" by blast+
    let ?q = "log_effects (map (ClientSent i) sent) (put_bridge i (b\<lparr>br_clientSocket := True, br_pendingUpstreamMessages := kept\<rparr>) p)"
    have q: "open_client_socket j p = ?q" using Some d open_b ij by (simp add: open_client_socket_def)
    have "list_all message_truthy up \<Longrightarrow> sent_to_client i p @ sent = up \<and> kept = []"
      using assms b ij open_b d drain_pending_truthy[of up] drain_pending_truthy[of "[]"]
      by (cases "br_clientSocket b") (auto simp: bridge_inv_def)
    then show ?thesis using assms b open_b ij unfolding q by (simp add: bridge_inv_def)
  qed
qed

lemma inv_upstream_message:
  assumes "bridge_inv i up cl p" "map_of (up_bridges p) i \<noteq> None"
  shows "bridge_inv i (up @ upstream_words i (UpSays j m)) cl (upstream_message j m p)"
proof (cases "i = j")
  case False
  then have "bridge_inv i up cl (upstream_message j m p)"
    by (intro inv_same[OF assms(1)]) (auto simp: upstream_message_def split: option.splits)
  then show ?thesis using False by simp
next
  case True
  from assms obtain b where b: "map_of (up_bridges p) j = Some b" using True by auto
  then show ?thesis using assms True by (auto simp: upstream_message_def bridge_inv_def)
qed

lemma inv_upstream_closes: "bridge_inv i up cl p \<Longrightarrow> bridge_inv i up cl (upstream_closes j c r p)"
  unfolding upstream_closes_def
  by (rule inv_settle, cases "i = j") (auto simp: bridge_inv_def split: option.splits if_splits)

lemma inv_upstream_errors: "bridge_inv i up cl p \<Longrightarrow> bridge_inv i up cl (upstream_errors j p)"
  by (simp add: upstream_errors_def inv_settle inv_close)

lemma inv_client_message:
  assumes "bridge_inv i up cl p" "map_of (up_bridges p) i \<noteq> None"
  shows "bridge_inv i up (cl @ client_words i (ClientSays j m)) (client_message j m p)"
proof (cases "i = j")
  case False
  then have "bridge_inv i up cl (client_message j m p)"
    by (intro inv_same[OF assms(1)]) (auto simp: client_message_def split: option.splits)
  then show ?thesis using False by simp
next
  case True
  from assms obtain b where b: "map_of (up_bridges p) j = Some b" using True by auto
  then show ?thesis using assms True by (auto simp: client_message_def registered_bridge_def bridge_inv_def)
qed

lemma inv_client_close:
  assumes "bridge_inv i up cl p"
  shows "bridge_inv i up cl (client_close j c r p)"
  using assms
  by (cases "i = j") (auto simp: client_close_def registered_bridge_def close_bridge_def bridge_inv_def split: option.splits if_splits)

lemma inv_dispose:
  assumes "bridge_inv i up cl p"
  shows "bridge_inv i up cl (dispose_proxy p)"
proof -
  have "bridge_inv i up cl (fold (\<lambda>j. close_bridge j c r) js p)" for js c r
    using assms by (induction js arbitrary: p) (simp_all add: inv_close)
  then have "bridge_inv i up cl (fold (\<lambda>j. close_bridge j (Some 1001) (Some ''runtime disposed'')) (up_registered p) p)" .
  then show ?thesis unfolding dispose_proxy_def by (auto simp: bridge_inv_def split: option.splits)
qed

lemma inv_dial:
  assumes "bridge_inv i up cl p"
  shows "bridge_inv i up cl (open_bridge j t p)"
  using assms by (cases "i = j") (auto simp: open_bridge_def bridge_inv_def split: option.splits)

theorem inv_step:
  assumes "bridge_inv i up cl p" "map_of (up_bridges p) i \<noteq> None"
  shows "bridge_inv i (up @ upstream_words i e) (cl @ client_words i e) (ws_step e p)"
  using inv_upstream_message[OF assms] inv_client_message[OF assms] assms(1)
  by (cases e) (simp_all add: inv_dial inv_settle upstream_opens_def connect_timer_fires_def inv_upstream_closes
      inv_upstream_errors upgrade_client_def inv_close inv_open_client inv_client_close inv_dispose)

lemma inv_undialed_step:
  assumes "bridge_inv i [] [] p" "map_of (up_bridges p) i = None"
  shows "bridge_inv i [] [] (ws_step e p)"
proof (cases e)
  case (UpSays j m)
  have "bridge_inv i [] [] (upstream_message j m p)"
    using assms by (intro inv_same[OF assms(1)]) (auto simp: upstream_message_def split: option.splits)
  then show ?thesis using UpSays by simp
next
  case (ClientSays j m)
  have "bridge_inv i [] [] (client_message j m p)"
    using assms by (intro inv_same[OF assms(1)]) (auto simp: client_message_def registered_bridge_def split: option.splits if_splits)
  then show ?thesis using ClientSays by simp
qed (use assms(1) in \<open>simp_all add: inv_dial inv_settle upstream_opens_def connect_timer_fires_def inv_upstream_closes
      inv_upstream_errors upgrade_client_def inv_close inv_open_client inv_client_close inv_dispose\<close>)

text \<open>Only a dial adds a bridge.\<close>

definition dialed :: "string \<Rightarrow> 'b ws_proxy \<Rightarrow> bool" where
  "dialed i p \<longleftrightarrow> map_of (up_bridges p) i \<noteq> None"

lemma dialed_basics [simp]:
  "dialed i (log_effects es p) = dialed i p" "dialed i (unregister_bridge j p) = dialed i p"
  "dialed i (put_bridge j b p) \<longleftrightarrow> i = j \<or> dialed i p" "dialed i (p\<lparr>up_registered := x\<rparr>) = dialed i p"
  by (simp_all add: dialed_def unregister_bridge_def)

lemma dialed_if: "map_of (up_bridges p) i = Some b \<Longrightarrow> dialed i p" "map_of (up_bridges p) i = None \<Longrightarrow> \<not> dialed i p"
  "registered_bridge i p = Some b \<Longrightarrow> dialed i p"
  by (auto simp: dialed_def registered_bridge_def split: if_splits)

lemma dialed_close [simp]: "dialed i (close_bridge j c r p) = dialed i p"
  by (auto simp: close_bridge_def dialed_if split: option.splits)

lemma dialed_settle [simp]: "dialed i (settle_open j f p) = dialed i p"
  by (auto simp: settle_open_def Let_def dialed_if split: option.splits)

lemma dialed_open [simp]: "dialed i (open_bridge j t p) \<longleftrightarrow> i = j \<or> dialed i p"
  by (auto simp: open_bridge_def dialed_if)

lemma dialed_handlers [simp]:
  "dialed i (upstream_message j m p) = dialed i p" "dialed i (client_message j m p) = dialed i p"
  "dialed i (client_close j c r p) = dialed i p" "dialed i (open_client_socket j p) = dialed i p"
  "dialed i (upstream_closes j c r p) = dialed i p"
  by (auto simp: upstream_message_def client_message_def client_close_def open_client_socket_def upstream_closes_def
      Let_def dialed_if split: option.splits prod.splits)

lemma dialed_dispose [simp]: "dialed i (dispose_proxy p) = dialed i p"
proof -
  have "dialed i (fold (\<lambda>j. close_bridge j c r) js p) = dialed i p" for js c r
    by (induction js arbitrary: p) simp_all
  then show ?thesis by (simp add: dispose_proxy_def)
qed

lemma dialed_step: "dialed i (ws_step e p) \<longleftrightarrow> is_dial i e \<or> dialed i p"
  by (cases e) (auto simp: upstream_opens_def connect_timer_fires_def upstream_errors_def upgrade_client_def)

lemma dialed_run: "dialed i (ws_run es) \<longleftrightarrow> (\<exists>e\<in>set es. is_dial i e)"
proof (induction es rule: rev_induct)
  case Nil
  then show ?case by (simp add: ws_run_def new_ws_proxy_def dialed_def)
next
  case (snoc e es)
  then show ?case by (auto simp: ws_run_snoc dialed_step)
qed

lemma run_inv: "bridge_inv i (upstream_said i es) (client_said i es) (ws_run es)"
proof (induction es rule: rev_induct)
  case Nil
  then show ?case
    by (simp add: ws_run_def new_ws_proxy_def bridge_inv_def upstream_said_def client_said_def from_dial_def
        sent_to_client_def sent_to_upstream_def)
next
  case (snoc e es)
  show ?case
  proof (cases "dialed i (ws_run es)")
    case True
    then show ?thesis using inv_step[OF snoc] by (simp add: dialed_def dialed_run[symmetric] said_snoc ws_run_snoc)
  next
    case False
    then have no: "\<forall>e\<in>set es. \<not> is_dial i e" by (simp add: dialed_run)
    have "map_of (up_bridges (ws_run es)) i = None" using False by (simp add: dialed_def)
    then show ?thesis using inv_undialed_step snoc not_dialed[OF no] by (simp add: ws_run_snoc)
  qed
qed

section \<open>The claim\<close>

text \<open>C18: The order of a bridge. Whatever happens on the proxy, in whatever order: what was written to the upstream
  of a bridge are the first messages its client said since the dial, in their order, and all of them while
  the bridge is open; and if the upstream says no empty text, what was written to the client are the first
  messages the upstream said, in their order: all of them while the bridge is open and the client is
  attached, and while it is not attached none is written and all wait.\<close>

theorem bridge_keeps_order:
  "prefix (sent_to_upstream i (ws_run es)) (client_said i es)
   \<and> (list_all message_truthy (upstream_said i es) \<longrightarrow> prefix (sent_to_client i (ws_run es)) (upstream_said i es))
   \<and> (\<forall>b. registered_bridge i (ws_run es) = Some b \<and> \<not> br_closed b \<longrightarrow>
        sent_to_upstream i (ws_run es) = client_said i es
        \<and> (list_all message_truthy (upstream_said i es) \<longrightarrow>
            (if br_clientSocket b then sent_to_client i (ws_run es) = upstream_said i es
             else sent_to_client i (ws_run es) = [] \<and> br_pendingUpstreamMessages b = upstream_said i es)))"
proof (cases "map_of (up_bridges (ws_run es)) i")
  case None
  then show ?thesis using run_inv[of i es] by (simp add: bridge_inv_def registered_bridge_def)
next
  case (Some b)
  then show ?thesis using run_inv[of i es] by (auto simp: bridge_inv_def registered_bridge_def split: if_splits)
qed

definition example_target :: ws_target where
  "example_target = \<lparr>wt_origin = \<lparr>to_scheme = ''ws:'', to_authority = ''app:80''\<rparr>, wt_path = ''/chat'', wt_search = [],
     wt_headers = [], wt_protocols = None, wt_connectTimeoutMs = 1000\<rparr>"

definition example_words :: "string ws_event list" where
  "example_words = [Dialed ''b1'' example_target, Dialed ''b2'' example_target, UpOpens ''b1'', Upgraded ''b1'' True,
     UpSays ''b1'' (TextMessage ''hello''), UpSays ''b2'' (TextMessage ''other''), ClientOpens ''b1'',
     UpSays ''b1'' (BytesMessage ''x''), ClientSays ''b1'' (TextMessage ''one''), ClientSays ''b1'' (TextMessage ''two'')]"

lemma bridge_keeps_order_witness:
  "sent_to_upstream ''b1'' (ws_run example_words) = [TextMessage ''one'', TextMessage ''two'']
   \<and> sent_to_client ''b1'' (ws_run example_words) = [TextMessage ''hello'', BytesMessage ''x'']"
proof -
  have open_b: "case registered_bridge ''b1'' (ws_run example_words) of None \<Rightarrow> False | Some b \<Rightarrow> \<not> br_closed b \<and> br_clientSocket b"
    by code_simp
  have said: "client_said ''b1'' example_words = [TextMessage ''one'', TextMessage ''two'']"
    "upstream_said ''b1'' example_words = [TextMessage ''hello'', BytesMessage ''x'']" by code_simp+
  obtain b where b: "registered_bridge ''b1'' (ws_run example_words) = Some b" "\<not> br_closed b" "br_clientSocket b"
    using open_b by (auto split: option.splits)
  show ?thesis using bridge_keeps_order[of "''b1''" example_words] b by (simp add: said)
qed

section \<open>Findings\<close>

text \<open>An empty text that waits for the client is lost, and so is everything that waits behind it.\<close>

lemma empty_text_swallows_the_queue:
  "let p = ws_run [Dialed ''b1'' example_target, UpOpens ''b1'', Upgraded ''b1'' True, UpSays ''b1'' (TextMessage ''''),
       UpSays ''b1'' (TextMessage ''welcome''), ClientOpens ''b1'', UpSays ''b1'' (TextMessage ''news'')] :: string ws_proxy
   in sent_to_client ''b1'' p = [TextMessage ''news'']
    \<and> map_option br_pendingUpstreamMessages (registered_bridge ''b1'' p) = Some [TextMessage ''welcome'']"
  by code_simp

text \<open>An upstream that closes before the client's socket opens: its messages and its close code are lost, although the
  bridge keeps both.\<close>

lemma early_close_loses_messages:
  "let p = ws_run [Dialed ''b1'' example_target, UpOpens ''b1'', Upgraded ''b1'' True, UpSays ''b1'' (TextMessage ''bye''),
       UpCloses ''b1'' (Some 4000) (Some ''done''), ClientOpens ''b1''] :: string ws_proxy
   in sent_to_client ''b1'' p = []
    \<and> last (up_log p) = ClientClosed ''b1'' (Some 1011) (Some ''upstream websocket bridge unavailable'')
    \<and> map_option br_upstreamClosed (map_of (up_bridges p) ''b1'') = Some (Some (Some 4000, Some ''done''))"
  by code_simp

text \<open>In no run does the client's opening meet a bridge that remembers its upstream's close.\<close>

lemma upstream_closed_unreachable:
  "registered_bridge i (ws_run es) = Some b \<Longrightarrow> \<not> br_closed b \<Longrightarrow> br_upstreamClosed b = None"
proof -
  assume "registered_bridge i (ws_run es) = Some b" and open_b: "\<not> br_closed b"
  then have "map_of (up_bridges (ws_run es)) i = Some b" by (simp add: registered_bridge_def split: if_splits)
  then have "br_upstreamClosed b \<noteq> None \<longrightarrow> br_closed b" using run_inv[of i es] unfolding bridge_inv_def by simp
  with open_b show ?thesis by blast
qed

end
