(* ===== verification/Http_Ingress.thy ===== *)
theory Http_Ingress
  imports Upstream_Websocket Topology Config_Store
begin

text \<open>HTTP requests at a gateway (runtime/ingress/http.ts): the pipeline of a path, authentication, the worker,
  the upstream, and the other gateway a request without a pipeline is forwarded to.

  \<open>handle_http_request\<close> is a function from the request and the stores of the gateway to an outcome, the
  requests it sends and the auth service after it. An upgrade ends in a dial: what follows depends on the
  sockets, and \<open>after_dial\<close> is the answer once the dial is settled. Log calls and metrics are left out.
  Numbers are exact where JavaScript rounds to 53 bits; the text of a number that is not an integer is a parameter.\<close>

section \<open>Numbers in headers\<close>

definition is_digit :: "char \<Rightarrow> bool" where
  "is_digit c = (let n = (of_char c :: nat) in 48 \<le> n \<and> n \<le> 57)"

text \<open>The value of a digit in some radix up to 16.\<close>

definition digit_value :: "char \<Rightarrow> nat" where
  "digit_value c = (let n = (of_char (lower_char c) :: nat) in
     if 48 \<le> n \<and> n \<le> 57 then n - 48 else if 97 \<le> n \<and> n \<le> 102 then n - 87 else 16)"

definition digits_value :: "nat \<Rightarrow> string \<Rightarrow> nat" where
  "digits_value radix s = foldl (\<lambda>v c. v * radix + digit_value c) 0 s"

definition radix_number :: "nat \<Rightarrow> string \<Rightarrow> js_num" where
  "radix_number radix s = (if s \<noteq> [] \<and> list_all (\<lambda>c. digit_value c < radix) s then Fin (of_nat (digits_value radix s)) else NaN)"

text \<open>Digits with a fraction and an exponent.\<close>

definition exponent_value :: "string \<Rightarrow> int option" where
  "exponent_value s = (case s of [] \<Rightarrow> None | c # r \<Rightarrow>
     (let ds = (if c = CHR ''+'' \<or> c = CHR ''-'' then r else s)
      in if ds \<noteq> [] \<and> list_all is_digit ds
         then Some (if c = CHR ''-'' then - int (digits_value 10 ds) else int (digits_value 10 ds)) else None))"

definition unsigned_decimal :: "string \<Rightarrow> rat option" where
  "unsigned_decimal s =
    (let whole = takeWhile is_digit s;
         r1 = dropWhile is_digit s;
         (fraction, r2) = (case r1 of c # r \<Rightarrow> if c = CHR ''.'' then (takeWhile is_digit r, dropWhile is_digit r) else ([], r1)
                           | [] \<Rightarrow> ([], []));
         value = of_nat (digits_value 10 (whole @ fraction)) / 10 ^ length fraction
     in if whole @ fraction = [] then None
        else (case r2 of
          [] \<Rightarrow> Some value
        | c # r \<Rightarrow> if lower_char c \<noteq> CHR ''e'' then None
            else (case exponent_value r of None \<Rightarrow> None
              | Some k \<Rightarrow> Some (if k \<ge> 0 then value * 10 ^ nat k else value / 10 ^ nat (- k)))))"

definition unsigned_number :: "string \<Rightarrow> js_num" where
  "unsigned_number s = (if s = ''Infinity'' then PosInf
     else case unsigned_decimal s of None \<Rightarrow> NaN | Some q \<Rightarrow> Fin q)"

fun num_negate :: "js_num \<Rightarrow> js_num" where
  "num_negate (Fin q) = Fin (- q)"
| "num_negate PosInf = NegInf"
| "num_negate NegInf = PosInf"
| "num_negate NaN = NaN"

definition to_number :: "string \<Rightarrow> js_num" where
  "to_number text = (let s = trim text in case s of
     [] \<Rightarrow> Fin 0
   | c # r \<Rightarrow>
       if c = CHR ''-'' then num_negate (unsigned_number r)
       else if c = CHR ''+'' then unsigned_number r
       else (case r of
          x # ds \<Rightarrow>
            if c = CHR ''0'' \<and> lower_char x = CHR ''x'' then radix_number 16 ds
            else if c = CHR ''0'' \<and> lower_char x = CHR ''o'' then radix_number 8 ds
            else if c = CHR ''0'' \<and> lower_char x = CHR ''b'' then radix_number 2 ds
            else unsigned_number s
        | [] \<Rightarrow> unsigned_number s))"

lemmas number_defs = to_number_def trim_def js_space_def unsigned_number_def unsigned_decimal_def is_digit_def
  digits_value_def digit_value_def lower_char_def exponent_value_def

text \<open>An integer below \<open>10^21\<close> is written with its digits.\<close>

definition int_text :: "int \<Rightarrow> string" where
  "int_text i = (if i < 0 then ''-'' @ nat_str (nat (- i)) else nat_str (nat i))"

definition number_text :: "(rat \<Rightarrow> string) \<Rightarrow> js_num \<Rightarrow> string" where
  "number_text fraction_text n = (case n of
     Fin q \<Rightarrow> if q = of_int (floor q) \<and> \<bar>q\<bar> < 10 ^ 21 then int_text (floor q) else fraction_text q
   | PosInf \<Rightarrow> ''Infinity'' | NegInf \<Rightarrow> ''-Infinity'' | NaN \<Rightarrow> ''NaN'')"

section \<open>Pipelines\<close>

definition longer_prefix :: "pipeline_config \<Rightarrow> pipeline_config \<Rightarrow> int" where
  "longer_prefix left right = int (length (pc_matchPrefix right)) - int (length (pc_matchPrefix left))"

definition find_pipeline :: "string \<Rightarrow> pipeline_config list \<Rightarrow> pipeline_config option" where
  "find_pipeline pathname pipelines = find (\<lambda>p. prefix (pc_matchPrefix p) pathname) (js_sort longer_prefix pipelines)"

section \<open>The parts of a gateway a request uses\<close>

record ('b, 'c, 'k) http_deps =
  hd_proxy :: "('b, 'c) proxy_deps"
  hd_worker :: "('b http_req, 'c stream_body http_res) worker_deps"
  hd_jwt :: "'k jwt_deps"
  hd_fraction_text :: "rat \<Rightarrow> string"
  hd_localeCompare :: "string \<Rightarrow> string \<Rightarrow> int"
  hd_forward_aborted :: "'b outgoing \<Rightarrow> bool"
  hd_nodeId :: "string option"
  hd_clusterSharedSecret :: "string option"
  hd_httpTimeoutMs :: "int option"
  hd_wsConnectTimeoutMs :: "int option"

datatype 'c http_outcome =
    Responds "'c stream_body http_res"
  | PlainText int string
  | ErrorResponse int platform_error_body
  | Dials ws_target

definition error_outcome :: "thrown \<Rightarrow> string \<Rightarrow> 'c http_outcome" where
  "error_outcome e traceId = (case create_http_error_response (as_hardess_error e) (Some traceId) of (status, body) \<Rightarrow> ErrorResponse status body)"

text \<open>The answer of an upgrade once its dial is settled; \<open>None\<close> is an upgraded connection.\<close>

definition dial_error :: "open_failure \<Rightarrow> hardess_error" where
  "dial_error f = (case f of
     OpenTimedOut \<Rightarrow> new_hardess_error GATEWAY_UPSTREAM_TIMEOUT ''Upstream websocket connect timed out''
       (no_options\<lparr>opt_retryable := Some True, opt_detail := Some (JStr ''timeout_stage=websocket_connect'')\<rparr>)
   | OpenErrored \<Rightarrow> new_hardess_error GATEWAY_UPSTREAM_UNAVAILABLE ''Upstream websocket service is unavailable''
       (no_options\<lparr>opt_retryable := Some True, opt_detail := Some (JStr ''upstream websocket error'')\<rparr>)
   | OpenClosed code reason \<Rightarrow> new_hardess_error GATEWAY_UPSTREAM_UNAVAILABLE ''Upstream websocket service is unavailable''
       (no_options\<lparr>opt_retryable := Some True, opt_detail := Some (JStr (trim (''upstream websocket closed during connect: ''
          @ int_text (case code of None \<Rightarrow> 1005 | Some c \<Rightarrow> c) @ '' '' @ (case reason of None \<Rightarrow> [] | Some r \<Rightarrow> r))))\<rparr>))"

definition after_dial :: "open_failure option \<Rightarrow> bool \<Rightarrow> string \<Rightarrow> 'c http_outcome option" where
  "after_dial failure upgraded traceId = (case failure of
     Some f \<Rightarrow> Some (error_outcome (ThrownHardess (dial_error f)) traceId)
   | None \<Rightarrow> if upgraded then None else Some (PlainText 426 ''WebSocket upgrade failed''))"

section \<open>Forwarding to another gateway\<close>

definition hop_header :: string where "hop_header = ''x-hardess-forward-hop''"

definition path_header :: string where "path_header = ''x-hardess-forward-path''"

definition secret_header :: string where "secret_header = ''x-hardess-cluster-secret''"

definition max_forward_hops :: js_num where "max_forward_hops = Fin 1"

record forward_input =
  fi_traceId :: string
  fi_pathname :: string
  fi_search :: string
  fi_forwardHop :: js_num

definition forward_headers :: "('b, 'c, 'k) http_deps \<Rightarrow> forward_input \<Rightarrow> headers" where
  "forward_headers d i =
    [(hop_header, number_text (hd_fraction_text d) (num_shift (fi_forwardHop i) 1)),
     (path_header, fi_pathname i @ fi_search i), (''x-trace-id'', fi_traceId i)]
    @ (if truthy (hd_clusterSharedSecret d) then [(secret_header, the (hd_clusterSharedSecret d))] else [])"

definition forward_timeout :: "('b, 'c, 'k) http_deps \<Rightarrow> int" where
  "forward_timeout d = (case hd_httpTimeoutMs d of None \<Rightarrow> 5000 | Some t \<Rightarrow> t)"

definition forward_target :: "('b, 'c, 'k) http_deps \<Rightarrow> topology_store option \<Rightarrow> forward_input \<Rightarrow> route_target option" where
  "forward_target d store i =
    Option.bind store (\<lambda>ts. resolve_http_route_target (hd_localeCompare d) ts (fi_pathname i) (hd_nodeId d)
      (Some (fi_traceId i @ '':'' @ fi_pathname i @ fi_search i)))"

definition http_forward_request :: "('b, 'c, 'k) http_deps \<Rightarrow> 'b http_req \<Rightarrow> forward_input \<Rightarrow> target_origin \<Rightarrow> 'b outgoing" where
  "http_forward_request d r i origin = \<lparr>og_origin = origin, og_path = ''/__cluster/http-forward'', og_search = [],
     og_method = hq_method r, og_headers = fold (\<lambda>(k, v). set_header k v) (forward_headers d i) (hq_headers r),
     og_body = body_to_send r\<rparr>"

definition forward_timed_out :: "('b, 'c, 'k) http_deps \<Rightarrow> route_target \<Rightarrow> hardess_error" where
  "forward_timed_out d t = new_hardess_error GATEWAY_UPSTREAM_TIMEOUT
     (''Internal forward timed out after '' @ int_text (forward_timeout d) @ ''ms'')
     (no_options\<lparr>opt_retryable := Some True, opt_detail := Some (JObj
        ((case rt_nodeId t of None \<Rightarrow> [] | Some n \<Rightarrow> [(''targetNodeId'', JStr n)])
         @ [(''targetBaseUrl'', JStr (rt_baseUrl t)), (''timeoutMs'', JNum (Fin (of_int (forward_timeout d))))]))\<rparr>)"

definition forward_unavailable :: "route_target \<Rightarrow> string \<Rightarrow> hardess_error" where
  "forward_unavailable t message = new_hardess_error GATEWAY_UPSTREAM_UNAVAILABLE ''Internal forward target is unavailable''
     (no_options\<lparr>opt_retryable := Some True, opt_detail := Some (JObj
        ((case rt_nodeId t of None \<Rightarrow> [] | Some n \<Rightarrow> [(''targetNodeId'', JStr n)])
         @ [(''targetBaseUrl'', JStr (rt_baseUrl t)), (''error'', JStr message)]))\<rparr>)"

text \<open>The abort timer runs until the response is handed on, so it may also end the first read of the body.\<close>

definition forward_http ::
  "('b, 'c, 'k) http_deps \<Rightarrow> 'b http_req \<Rightarrow> forward_input \<Rightarrow> route_target \<Rightarrow>
   (thrown + 'c http_outcome) \<times> 'b outgoing list" where
  "forward_http d r i t = (case px_origin (hd_proxy d) (rt_baseUrl t) of
     Inl e \<Rightarrow> (Inl (ThrownOther e), [])
   | Inr origin \<Rightarrow>
      (let out = http_forward_request d r i origin;
           failed = (\<lambda>message. Inl (ThrownHardess
             (if hd_forward_aborted d out then forward_timed_out d t else forward_unavailable t message)))
       in (case px_fetch (hd_proxy d) out of
             FetchAborted \<Rightarrow> Inl (ThrownHardess (forward_timed_out d t))
           | FetchFails e \<Rightarrow> failed e
           | FetchGot response \<Rightarrow> (case with_response_read_timeout response of
               Inr res \<Rightarrow> Inr (Responds res)
             | Inl (ThrownHardess e) \<Rightarrow> failed (he_message e)
             | Inl (ThrownOther m) \<Rightarrow> failed m), [out])))"

text \<open>The result is \<open>None\<close> where the request is not handled.\<close>

definition forward_websocket ::
  "('b, 'c, 'k) http_deps \<Rightarrow> 'b http_req \<Rightarrow> forward_input \<Rightarrow> route_target \<Rightarrow> thrown + 'c http_outcome" where
  "forward_websocket d r i t = (case px_origin (hd_proxy d) (rt_baseUrl t) of
     Inl e \<Rightarrow> Inl (ThrownOther e)
   | Inr origin \<Rightarrow> Inr (Dials (build_forward_target r
       (origin\<lparr>to_scheme := (if to_scheme origin = ''https:'' then ''wss:'' else ''ws:'')\<rparr>, ''/__cluster/ws-forward'')
       (case hd_wsConnectTimeoutMs d of None \<Rightarrow> 5000 | Some t \<Rightarrow> t) (forward_headers d i))))"

definition try_forward_internally ::
  "('b, 'c, 'k) http_deps \<Rightarrow> topology_store option \<Rightarrow> 'b http_req \<Rightarrow> forward_input \<Rightarrow>
   (thrown + 'c http_outcome) option \<times> 'b outgoing list" where
  "try_forward_internally d store r i =
    (if num_le max_forward_hops (fi_forwardHop i) then (None, [])
     else case forward_target d store i of
       None \<Rightarrow> (None, [])
     | Some t \<Rightarrow>
         if is_websocket_upgrade_request r then (Some (forward_websocket d r i t), [])
         else map_prod Some id (forward_http d r i t))"

section \<open>A request\<close>

definition forward_hop :: "'b http_req \<Rightarrow> js_num" where
  "forward_hop r = to_number (case map_of (hq_headers r) hop_header of None \<Rightarrow> ''0'' | Some v \<Rightarrow> v)"

definition request_input :: "'b http_req \<Rightarrow> string \<Rightarrow> forward_input" where
  "request_input r traceId = \<lparr>fi_traceId = traceId, fi_pathname = hq_pathname r, fi_search = hq_search r,
     fi_forwardHop = forward_hop r\<rparr>"

definition required_token :: "pipeline_config \<Rightarrow> 'b http_req \<Rightarrow> string option" where
  "required_token pipeline r =
    (if pc_authRequired pipeline = Some False then Some ''demo:anonymous'' else map_of (hq_headers r) ''authorization'')"

text \<open>From the granted identity on: the worker, then the upstream.\<close>

definition serve_authorized ::
  "('b, 'c, 'k) http_deps \<Rightarrow> 'b http_req \<Rightarrow> pipeline_config \<Rightarrow> granted_auth \<Rightarrow> string \<Rightarrow>
   (thrown + 'c http_outcome) \<times> 'b outgoing list" where
  "serve_authorized d r pipeline auth traceId = (case run_worker (hd_worker d) r auth pipeline traceId of
     Inl e \<Rightarrow> (Inl e, [])
   | Inr res \<Rightarrow> (case wr_response res of
       Some response \<Rightarrow> (Inr (Responds response), [])
     | None \<Rightarrow>
        (let upstreamRequest = (case wr_request res of None \<Rightarrow> r | Some q \<Rightarrow> q)
         in if is_websocket_upgrade_request upstreamRequest
            then (map_sum ThrownOther Dials (upgrade_target (hd_proxy d) upstreamRequest pipeline auth traceId), [])
            else map_prod (map_sum id Responds) id (proxy_upstream (hd_proxy d) upstreamRequest pipeline auth traceId))))"

definition serve_pipeline ::
  "('b, 'c, 'k) http_deps \<Rightarrow> instants \<Rightarrow> pipeline_config \<Rightarrow> 'b http_req \<Rightarrow> string \<Rightarrow> auth_service \<Rightarrow>
   (thrown + 'c http_outcome) \<times> 'b outgoing list \<times> auth_service" where
  "serve_pipeline d now pipeline r traceId az =
    (if is_websocket_upgrade_request r \<and> dn_websocket (pc_downstream pipeline) \<noteq> Some True
     then (Inr (PlainText 426 ''WebSocket proxy is not enabled for this pipeline''), [], az)
     else case validate_bearer_token (hd_jwt d) now (required_token pipeline r) az of
       (Inl e, az1) \<Rightarrow> (Inl e, [], az1)
     | (Inr auth, az1) \<Rightarrow> (case serve_authorized d r pipeline auth traceId of (res, sent) \<Rightarrow> (res, sent, az1)))"

definition no_pipeline :: "string \<Rightarrow> thrown" where
  "no_pipeline pathname = ThrownHardess (plain_error ROUTE_NO_RECIPIENT (''No pipeline for '' @ pathname))"

definition serve_request_for ::
  "('b, 'c, 'k) http_deps \<Rightarrow> instants \<Rightarrow> config_store \<Rightarrow> topology_store option \<Rightarrow> 'b http_req \<Rightarrow> string \<Rightarrow> auth_service \<Rightarrow>
   (thrown + 'c http_outcome) \<times> 'b outgoing list \<times> auth_service" where
  "serve_request_for d now cs store r traceId az = (case get_config cs of
     Inl e \<Rightarrow> (Inl (ThrownOther e), [], az)
   | Inr pipelines \<Rightarrow> (case find_pipeline (hq_pathname r) pipelines of
       Some pipeline \<Rightarrow> serve_pipeline d now pipeline r traceId az
     | None \<Rightarrow> (case try_forward_internally d store r (request_input r traceId) of
         (Some res, sent) \<Rightarrow> (res, sent, az)
       | (None, sent) \<Rightarrow> (Inl (no_pipeline (hq_pathname r)), sent, az))))"

definition handle_http_request ::
  "('b, 'c, 'k) http_deps \<Rightarrow> instants \<Rightarrow> string \<Rightarrow> config_store \<Rightarrow> topology_store option \<Rightarrow> 'b http_req \<Rightarrow> auth_service \<Rightarrow>
   'c http_outcome \<times> 'b outgoing list \<times> auth_service" where
  "handle_http_request d now uuid cs store r az =
    (let traceId = (case map_of (hq_headers r) ''x-trace-id'' of None \<Rightarrow> uuid | Some t \<Rightarrow> t)
     in case serve_request_for d now cs store r traceId az of
       (Inl e, sent, az1) \<Rightarrow> (error_outcome e traceId, sent, az1)
     | (Inr out, sent, az1) \<Rightarrow> (out, sent, az1))"

end
