(* ===== verification/Runtime_App.thy ===== *)
theory Runtime_App
  imports Http_Ingress Host_Runtime Ws_Ingress
begin

text \<open>The requests of a gateway and their life (runtime/app.ts): which paths a listener exposes, where a
  request goes, the requests of other gateways, the count of requests in flight and the shutdown.

  \<open>fetch_step\<close> is what \<open>fetch\<close> does until it calls the HTTP ingress or answers; \<open>run_ingress\<close> is that call and
  the tracking of its answer; a tracked request is released when its body ends, fails or is cancelled, when
  its dial is settled, or at once if its answer has no body. Parameters: the parsed body of a request of another gateway,
  the URL parser, the snapshot of the metrics and its rendering, and whether the server upgrades a socket.\<close>

section \<open>Listeners\<close>

datatype listener_name = ListenDefault | ListenBusiness | ListenControl | ListenPublic | ListenInternal

fun normalize_listener_name :: "listener_name \<Rightarrow> listener_name" where
  "normalize_listener_name ListenPublic = ListenBusiness"
| "normalize_listener_name ListenInternal = ListenControl"
| "normalize_listener_name l = l"

record app_options =
  ao_businessPrefixes :: "string list option"
  ao_publicPrefixes :: "string list option"
  ao_controlPrefixes :: "string list option"
  ao_internalPrefixes :: "string list option"
  ao_transport :: "string option"
  ao_gateway :: ws_config

definition resolve_listener_allowed_path_prefixes :: "app_options \<Rightarrow> listener_name \<Rightarrow> string list option" where
  "resolve_listener_allowed_path_prefixes o1 listener = (case normalize_listener_name listener of
     ListenBusiness \<Rightarrow> (case ao_businessPrefixes o1 of Some ps \<Rightarrow> Some ps | None \<Rightarrow> ao_publicPrefixes o1)
   | ListenControl \<Rightarrow> (case ao_controlPrefixes o1 of Some ps \<Rightarrow> Some ps | None \<Rightarrow> ao_internalPrefixes o1)
   | _ \<Rightarrow> None)"

definition internal_only_path_prefixes :: "string list" where
  "internal_only_path_prefixes = [''/__admin'', ''/__cluster'']"

definition is_path_allowed_on_listener :: "app_options \<Rightarrow> string \<Rightarrow> listener_name \<Rightarrow> bool" where
  "is_path_allowed_on_listener o1 pathname listener =
    (let normalized = normalize_listener_name listener in
     if normalized = ListenDefault then True
     else if list_ex (\<lambda>p. prefix p pathname) internal_only_path_prefixes then normalized = ListenControl
     else (case resolve_listener_allowed_path_prefixes o1 normalized of
        None \<Rightarrow> True
      | Some ps \<Rightarrow> list_ex (\<lambda>p. prefix p pathname) ps))"

section \<open>The state of an application\<close>

record ('b, 'c, 'k) app_deps =
  ap_http :: "('b, 'c, 'k) http_deps"
  ap_ws :: ws_deps
  ap_parseLocate :: "'b http_req \<Rightarrow> string + (string list \<times> string option)"
  ap_parseDeliver :: "'b http_req \<Rightarrow> string + deliver_payload"
  ap_parseHandleAck :: "'b http_req \<Rightarrow> string + (conn_ref \<times> string \<times> string option)"
  ap_parsePath :: "string \<Rightarrow> string + (string \<times> string)"
  ap_metricsSnapshot :: "json option"
  ap_prometheus :: string
  ap_packages :: "protocol_package_ref list"
  ap_peers :: json

record runtime_app =
  ra_config :: config_store
  ra_auth :: auth_service
  ra_topology :: topology_store
  ra_gateway :: gateway
  ra_startedAt :: int
  ra_shuttingDown :: bool
  ra_disposed :: bool
  ra_inFlight :: int
  ra_open :: "nat list"
  ra_nextRequest :: nat

definition app_runtime_state :: "int \<Rightarrow> runtime_app \<Rightarrow> runtime_state" where
  "app_runtime_state now a = \<lparr>ru_startedAt = ra_startedAt a, ru_uptimeMs = now - ra_startedAt a, ru_shuttingDown = ra_shuttingDown a,
     ru_disposed = ra_disposed a, ru_ready = (\<not> ra_shuttingDown a \<and> \<not> ra_disposed a), ru_inFlightHttpRequests = ra_inFlight a\<rparr>"

definition runtime_state_json :: "runtime_state \<Rightarrow> json" where
  "runtime_state_json s = JObj [(''startedAt'', json_int (ru_startedAt s)), (''uptimeMs'', json_int (ru_uptimeMs s)),
     (''shuttingDown'', JBool (ru_shuttingDown s)), (''disposed'', JBool (ru_disposed s)), (''ready'', JBool (ru_ready s)),
     (''inFlightHttpRequests'', json_int (ru_inFlightHttpRequests s))]"

text \<open>A closure counts a request once and is called once at most: its number is open until it was called.\<close>

definition begin_tracked_http_request :: "runtime_app \<Rightarrow> nat \<times> runtime_app" where
  "begin_tracked_http_request a = (ra_nextRequest a,
     a\<lparr>ra_inFlight := ra_inFlight a + 1, ra_open := ra_open a @ [ra_nextRequest a], ra_nextRequest := Suc (ra_nextRequest a)\<rparr>)"

definition release_http_request :: "nat \<Rightarrow> runtime_app \<Rightarrow> runtime_app" where
  "release_http_request i a = (if i \<in> set (ra_open a)
     then a\<lparr>ra_open := remove1 i (ra_open a), ra_inFlight := ra_inFlight a - 1\<rparr> else a)"

section \<open>Where a request goes\<close>

datatype socket_kind = ClusterSocket | ClientSocket

datatype 'c app_answer =
    JsonPage int json
  | MetricsPage string
  | Located "(string, conn_ref list) js_map"
  | Delivered "conn_ref list"
  | PlainPage int string
  | UpgradedTo socket_kind

text \<open>\<open>Handling\<close> is a call of the HTTP ingress, tracked or not.\<close>

datatype ('b, 'c) fetch_result = Answered "'c app_answer" | Handling "nat option" "'b http_req"

definition error_page :: "int \<Rightarrow> string \<Rightarrow> 'c app_answer" where
  "error_page status message = JsonPage status (JObj [(''ok'', JBool False), (''error'', JStr message)])"

definition listener_text :: "listener_name \<Rightarrow> string" where
  "listener_text l = (case l of ListenDefault \<Rightarrow> ''default'' | ListenBusiness \<Rightarrow> ''business'' | ListenControl \<Rightarrow> ''control''
     | ListenPublic \<Rightarrow> ''public'' | ListenInternal \<Rightarrow> ''internal'')"

definition not_exposed :: "listener_name \<Rightarrow> 'c app_answer" where
  "not_exposed l = JsonPage 404 (JObj [(''ok'', JBool False), (''error'', JStr ''Path is not exposed on this listener''),
     (''listener'', JStr (listener_text l))])"

definition admin_page :: "('b, 'c, 'k) app_deps \<Rightarrow> app_options \<Rightarrow> int \<Rightarrow> string \<Rightarrow> runtime_app \<Rightarrow> 'c app_answer option" where
  "admin_page d o1 now pathname a =
    (let state = runtime_state_json (app_runtime_state now a);
         ready = (\<not> ra_shuttingDown a \<and> \<not> ra_disposed a);
         no_snapshot = JsonPage 501 (JObj [(''ok'', JBool False),
           (''error'', JStr ''Metrics snapshot is not available for the configured metrics sink''), (''runtime'', state)])
     in if pathname = ''/__admin/health'' then
          Some (JsonPage 200 (JObj [(''ok'', JBool True),
            (''status'', JStr (if ra_shuttingDown a then ''shutting_down'' else ''ok'')), (''runtime'', state)]))
        else if pathname = ''/__admin/ready'' then
          Some (JsonPage (if ready then 200 else 503) (JObj [(''ok'', JBool ready),
            (''status'', JStr (if ready then ''ready'' else ''not_ready'')), (''runtime'', state)]))
        else if pathname = ''/__admin/metrics'' then
          Some (case ap_metricsSnapshot d of None \<Rightarrow> no_snapshot
            | Some m \<Rightarrow> JsonPage 200 (JObj [(''ok'', JBool True), (''runtime'', state), (''metrics'', m)]))
        else if pathname = ''/__admin/metrics/prometheus'' then
          Some (case ap_metricsSnapshot d of None \<Rightarrow> no_snapshot | Some m \<Rightarrow> MetricsPage (ap_prometheus d))
        else if pathname = ''/__admin/cluster/peers'' then
          Some (JsonPage 200 (JObj [(''ok'', JBool True), (''nodeId'', JStr (cf_nodeId (ao_gateway o1))),
            (''transport'', JStr (case ao_transport o1 of None \<Rightarrow> ''http'' | Some t \<Rightarrow> t)), (''peers'', ap_peers d)]))
        else None)"

text \<open>The summary reads the configuration and throws when there is none.\<close>

definition summary_page :: "('b, 'c, 'k) app_deps \<Rightarrow> int \<Rightarrow> runtime_app \<Rightarrow> string + 'c app_answer" where
  "summary_page d now a = map_sum id (\<lambda>config. JsonPage 200 (JObj [(''ok'', JBool True),
     (''runtime'', runtime_state_json (app_runtime_state now a)),
     (''summary'', build_runtime_summary_view (hd_localeCompare (ap_http d)) config (ap_packages d))])) (get_config (ra_config a))"

section \<open>Requests of other gateways\<close>

definition wrong_secret :: "('b, 'c, 'k) app_deps \<Rightarrow> 'b http_req \<Rightarrow> bool" where
  "wrong_secret d r = (truthy (hd_clusterSharedSecret (ap_http d))
     \<and> map_of (hq_headers r) secret_header \<noteq> hd_clusterSharedSecret (ap_http d))"

definition unauthorized :: "'c app_answer" where
  "unauthorized = error_page 401 ''Unauthorized cluster request''"

definition thrown_message :: "thrown \<Rightarrow> string" where
  "thrown_message t = (case t of ThrownHardess e \<Rightarrow> he_message e | ThrownOther m \<Rightarrow> m)"

definition serve_locate :: "('b, 'c, 'k) app_deps \<Rightarrow> 'b http_req \<Rightarrow> runtime_app \<Rightarrow> 'c app_answer" where
  "serve_locate d r a = (if wrong_secret d r then unauthorized
     else case ap_parseLocate d r of
       Inl e \<Rightarrow> error_page 400 e
     | Inr (peerIds, groupId) \<Rightarrow> Located (loc_find_many (gw_locator (ra_gateway a)) peerIds (Some groupId)))"

definition serve_deliver :: "('b, 'c, 'k) app_deps \<Rightarrow> app_options \<Rightarrow> int \<Rightarrow> 'b http_req \<Rightarrow> runtime_app \<Rightarrow> 'c app_answer \<times> runtime_app" where
  "serve_deliver d o1 now r a = (if wrong_secret d r then (unauthorized, a)
     else case ap_parseDeliver d r of
       Inl e \<Rightarrow> (error_page 400 e, a)
     | Inr payload \<Rightarrow> (case deliver_cluster (ao_gateway o1) (ap_ws d) now payload (ra_gateway a) of
         (Inl t, g) \<Rightarrow> (error_page 400 (thrown_message t), a\<lparr>ra_gateway := g\<rparr>)
       | (Inr delivered, g) \<Rightarrow> (Delivered delivered, a\<lparr>ra_gateway := g\<rparr>)))"

definition serve_handle_ack :: "('b, 'c, 'k) app_deps \<Rightarrow> app_options \<Rightarrow> int \<Rightarrow> 'b http_req \<Rightarrow> runtime_app \<Rightarrow> 'c app_answer \<times> runtime_app" where
  "serve_handle_ack d o1 now r a = (if wrong_secret d r then (unauthorized, a)
     else case ap_parseHandleAck d r of
       Inl e \<Rightarrow> (error_page 400 e, a)
     | Inr (sender, ackFor, traceId) \<Rightarrow>
         (case forward_cluster_handle_ack (ao_gateway o1) (ap_ws d) now sender ackFor traceId (ra_gateway a) of
           (Inl t, g) \<Rightarrow> (error_page 400 (thrown_message t), a\<lparr>ra_gateway := g\<rparr>)
         | (Inr forwarded, g) \<Rightarrow> (JsonPage 200 (JObj [(''ok'', JBool True), (''forwarded'', JBool forwarded)]), a\<lparr>ra_gateway := g\<rparr>)))"

text \<open>The request a forwarded one stands for.\<close>

definition forwarded_request ::
  "('b, 'c, 'k) app_deps \<Rightarrow> bool \<Rightarrow> 'b http_req \<Rightarrow> 'c app_answer + 'b http_req" where
  "forwarded_request d websocket r =
    (if wrong_secret d r then Inl unauthorized
     else case map_of (hq_headers r) path_header of
       None \<Rightarrow> Inl (error_page 400 ''Missing x-hardess-forward-path'')
     | Some path \<Rightarrow>
         if \<not> prefix ''/'' path then Inl (error_page 400 ''Missing x-hardess-forward-path'')
         else (case ap_parsePath d path of
             Inl e \<Rightarrow> Inl (error_page 400 e)
           | Inr (pathname, search) \<Rightarrow>
              (let h1 = map_del path_header (map_del secret_header (hq_headers r));
                   h2 = (if websocket then set_header ''upgrade'' ''websocket'' (set_header ''connection'' ''Upgrade'' h1) else h1)
               in Inr \<lparr>hq_method = hq_method r, hq_pathname = pathname, hq_search = search, hq_headers = h2,
                    hq_body = (if websocket then None else body_to_send r)\<rparr>)))"

section \<open>Dispatch\<close>

definition track :: "'b http_req \<Rightarrow> runtime_app \<Rightarrow> ('b, 'c) fetch_result \<times> runtime_app" where
  "track r a = (case begin_tracked_http_request a of (i, a1) \<Rightarrow> (Handling (Some i) r, a1))"

definition upgrade_answer :: "bool \<Rightarrow> socket_kind \<Rightarrow> string \<Rightarrow> 'c app_answer" where
  "upgrade_answer upgraded kind failure = (if upgraded then UpgradedTo kind else PlainPage 426 failure)"

text \<open>\<open>fetch\<close>; \<open>Inl\<close> is an exception it throws.\<close>

definition fetch_step ::
  "('b, 'c, 'k) app_deps \<Rightarrow> app_options \<Rightarrow> int \<Rightarrow> bool \<Rightarrow> listener_name \<Rightarrow> 'b http_req \<Rightarrow> runtime_app \<Rightarrow>
   (string + ('b, 'c) fetch_result) \<times> runtime_app" where
  "fetch_step d o1 now upgraded listener r a =
    (let pathname = hq_pathname r; post = (hq_method r = ''POST'') in
     if \<not> is_path_allowed_on_listener o1 pathname listener then (Inr (Answered (not_exposed listener)), a)
     else if admin_page d o1 now pathname a \<noteq> None then (Inr (Answered (the (admin_page d o1 now pathname a))), a)
     else if pathname = ''/__admin/runtime/summary'' then (map_sum id Answered (summary_page d now a), a)
     else if pathname = ''/__cluster/locate'' \<and> post then (Inr (Answered (serve_locate d r a)), a)
     else if pathname = ''/__cluster/ws'' then
       (Inr (Answered (upgrade_answer upgraded ClusterSocket ''Cluster websocket upgrade failed'')), a)
     else if pathname = ''/__cluster/ws-forward'' then (case forwarded_request d True r of
         Inl page \<Rightarrow> (Inr (Answered page), a)
       | Inr q \<Rightarrow> (Inr (Handling None q), a))
     else if pathname = ''/__cluster/http-forward'' then (case forwarded_request d False r of
         Inl page \<Rightarrow> (Inr (Answered page), a)
       | Inr q \<Rightarrow> map_prod Inr id (track q a))
     else if pathname = ''/__cluster/deliver'' \<and> post then map_prod (Inr \<circ> Answered) id (serve_deliver d o1 now r a)
     else if pathname = ''/__cluster/handle-ack'' \<and> post then map_prod (Inr \<circ> Answered) id (serve_handle_ack d o1 now r a)
     else if ra_shuttingDown a \<or> ra_disposed a then
       (Inr (Answered (JsonPage 503 (JObj [(''ok'', JBool False), (''error'', JStr ''Runtime is shutting down''),
          (''runtime'', runtime_state_json (app_runtime_state now a))]))), a)
     else if pathname = ''/ws'' then (Inr (Answered (upgrade_answer upgraded ClientSocket ''WebSocket upgrade failed'')), a)
     else map_prod Inr id (track r a))"

section \<open>The answer of the ingress\<close>

definition has_body :: "'c http_outcome \<Rightarrow> bool" where
  "has_body out = (case out of Responds res \<Rightarrow> hs_body res \<noteq> None | _ \<Rightarrow> True)"

definition track_http_response_lifecycle :: "nat option \<Rightarrow> 'c http_outcome option \<Rightarrow> runtime_app \<Rightarrow> runtime_app" where
  "track_http_response_lifecycle tracked out a = (case tracked of
     None \<Rightarrow> a
   | Some i \<Rightarrow> if (case out of None \<Rightarrow> False | Some res \<Rightarrow> has_body res) then a else release_http_request i a)"

text \<open>A dial leaves the request as it is until it is settled.\<close>

definition run_ingress ::
  "('b, 'c, 'k) app_deps \<Rightarrow> instants \<Rightarrow> string \<Rightarrow> nat option \<Rightarrow> 'b http_req \<Rightarrow> runtime_app \<Rightarrow>
   ('c http_outcome \<times> 'b outgoing list) \<times> runtime_app" where
  "run_ingress d now uuid tracked r a =
    (case handle_http_request (ap_http d) now uuid (ra_config a) (Some (ra_topology a)) r (ra_auth a) of
       (out, sent, az) \<Rightarrow> ((out, sent), (case out of
           Dials t \<Rightarrow> a\<lparr>ra_auth := az\<rparr>
         | _ \<Rightarrow> track_http_response_lifecycle tracked (Some out) (a\<lparr>ra_auth := az\<rparr>))))"

definition dial_settles :: "nat option \<Rightarrow> open_failure option \<Rightarrow> bool \<Rightarrow> string \<Rightarrow> runtime_app \<Rightarrow> 'c http_outcome option \<times> runtime_app" where
  "dial_settles tracked failure upgraded traceId a =
    (let out = after_dial failure upgraded traceId in (out, track_http_response_lifecycle tracked out a))"

text \<open>The body ends, fails or is cancelled.\<close>

definition body_ends :: "nat \<Rightarrow> runtime_app \<Rightarrow> runtime_app" where
  "body_ends i a = release_http_request i a"

section \<open>Shutdown\<close>

definition app_begin_shutdown :: "app_options \<Rightarrow> runtime_app \<Rightarrow> runtime_app" where
  "app_begin_shutdown o1 a = a\<lparr>ra_shuttingDown := True, ra_gateway := begin_shutdown (ao_gateway o1) (ra_gateway a)\<rparr>"

definition app_dispose :: "runtime_app \<Rightarrow> runtime_app" where
  "app_dispose a = a\<lparr>ra_shuttingDown := True, ra_disposed := True, ra_config := dispose_store (ra_config a),
     ra_gateway := ws_dispose (ra_gateway a)\<rparr>"

text \<open>The wait for the requests in flight: it looks at the count, and sleeps at most a poll interval and at most
  what remains. \<open>inflight\<close> is the number of requests at an instant, \<open>late\<close> how much longer than asked for a sleep
  that begins at an instant lasts; a timer takes at least a millisecond.\<close>

function drain_loop :: "(int \<Rightarrow> int) \<Rightarrow> (int \<Rightarrow> nat) \<Rightarrow> int \<Rightarrow> int \<Rightarrow> int \<Rightarrow> bool \<times> int" where
  "drain_loop inflight late poll deadline now =
    (if inflight now \<le> 0 then (True, now)
     else if deadline - now \<le> 0 then (False, now)
     else drain_loop inflight late poll deadline (now + max 1 (min poll (deadline - now)) + int (late now)))"
  by auto
termination
  by (relation "measure (\<lambda>(inflight, late, poll, deadline, now). nat (deadline - now))") auto

definition wait_for_http_drain :: "(int \<Rightarrow> int) \<Rightarrow> (int \<Rightarrow> nat) \<Rightarrow> int option \<Rightarrow> int option \<Rightarrow> int \<Rightarrow> bool \<times> int" where
  "wait_for_http_drain inflight late timeoutMs pollIntervalMs now =
    (let timeout = (case timeoutMs of None \<Rightarrow> 0 | Some t \<Rightarrow> t); poll = (case pollIntervalMs of None \<Rightarrow> 25 | Some p \<Rightarrow> p)
     in if inflight now = 0 then (True, now)
        else if timeout \<le> 0 then (False, now)
        else drain_loop inflight late poll (now + timeout) now)"

declare drain_loop.simps [simp del]

lemma drain_true: "drain_loop inflight late poll deadline now = (True, t) \<Longrightarrow> inflight t \<le> 0"
  by (induction inflight late poll deadline now rule: drain_loop.induct)
    (subst (asm) (2) drain_loop.simps, auto split: if_splits)

lemma drain_false: "drain_loop inflight late poll deadline now = (False, t) \<Longrightarrow> inflight t > 0 \<and> t \<ge> deadline"
  by (induction inflight late poll deadline now rule: drain_loop.induct)
    (subst (asm) (2) drain_loop.simps, auto split: if_splits)

end
