(* ===== verification/Http_Props.thy ===== *)
theory Http_Props
  imports Runtime_App Ws_Ingress_Props
begin

text \<open>The HTTP interface of a gateway: whom a request that leaves speaks for, how often it is forwarded, what a
  listener exposes, and the count of requests in flight. The last section shows where the code falls short.\<close>

section \<open>Headers\<close>

lemma lower_case_header [simp]:
  "lower_case ''x-hardess-trace-id'' = ''x-hardess-trace-id''" "lower_case ''x-hardess-peer-id'' = ''x-hardess-peer-id''"
  "lower_case ''x-hardess-token-id'' = ''x-hardess-token-id''" "lower_case hop_header = hop_header"
  "lower_case path_header = path_header" "lower_case secret_header = secret_header" "lower_case ''x-trace-id'' = ''x-trace-id''"
  "lower_case ''upgrade'' = ''upgrade''" "lower_case ''connection'' = ''connection''"
  by (simp_all add: lower_case_def lower_char_def hop_header_def path_header_def secret_header_def)

lemma header_names [simp]:
  "path_header \<noteq> hop_header" "secret_header \<noteq> hop_header" "hop_header \<noteq> path_header" "hop_header \<noteq> secret_header"
  "''x-trace-id'' \<noteq> hop_header" "''upgrade'' \<noteq> hop_header" "''connection'' \<noteq> hop_header"
  "hop_header \<noteq> ''x-trace-id''" "hop_header \<noteq> ''upgrade''" "hop_header \<noteq> ''connection''"
  by (simp_all add: hop_header_def path_header_def secret_header_def)

lemma map_of_set_header [simp]: "map_of (set_header k v hs) n = (if n = lower_case k then Some v else map_of hs n)"
  by (simp add: set_header_def)

lemma map_of_strip: "map_of (fold map_del names hs) n = (if n \<in> set names then None else map_of hs n)"
  by (induction names arbitrary: hs) auto

lemma map_sum_InrE: "map_sum f h x = Inr y \<Longrightarrow> (\<And>z. x = Inr z \<Longrightarrow> y = h z \<Longrightarrow> P) \<Longrightarrow> P"
  by (cases x) auto

section \<open>The pipeline of a path\<close>

interpretation longest: comparator longer_prefix
  by unfold_locales (auto simp: longer_prefix_def)

lemma find_sorted:
  assumes "find P xs = Some x" "sorted_wrt R xs" "y \<in> set xs" "P y" "\<And>z. R z z"
  shows "x \<in> set xs \<and> P x \<and> R x y"
  using assms by (induction xs) (auto split: if_splits)

lemma find_pipeline_longest:
  "(\<forall>p. find_pipeline path ps = Some p \<longrightarrow> p \<in> set ps \<and> prefix (pc_matchPrefix p) path
      \<and> (\<forall>q\<in>set ps. prefix (pc_matchPrefix q) path \<longrightarrow> length (pc_matchPrefix q) \<le> length (pc_matchPrefix p)))
   \<and> (find_pipeline path ps = None \<longleftrightarrow> (\<forall>q\<in>set ps. \<not> prefix (pc_matchPrefix q) path))"
proof -
  let ?P = "\<lambda>p. prefix (pc_matchPrefix p) path"
  have "p \<in> set ps \<and> ?P p \<and> (\<forall>q\<in>set ps. ?P q \<longrightarrow> length (pc_matchPrefix q) \<le> length (pc_matchPrefix p))"
    if found: "find_pipeline path ps = Some p" for p
  proof -
    have f: "find ?P (js_sort longer_prefix ps) = Some p" using found by (simp add: find_pipeline_def)
    then have "p \<in> set (js_sort longer_prefix ps) \<and> ?P p" by (metis find_Some_iff nth_mem)
    then have "p \<in> set ps" "?P p" by simp_all
    moreover have "length (pc_matchPrefix q) \<le> length (pc_matchPrefix p)" if "q \<in> set ps" "?P q" for q
      using find_sorted[OF f longest.sort_sorted, of q] that by (auto simp: longer_prefix_def)
    ultimately show ?thesis by simp
  qed
  moreover have "find_pipeline path ps = None \<longleftrightarrow> (\<forall>q\<in>set ps. \<not> ?P q)"
    by (auto simp: find_pipeline_def find_None_iff)
  ultimately show ?thesis by blast
qed

section \<open>Whom a request speaks for\<close>

text \<open>The headers a pipeline's configuration injects, last and over whatever is there; of two names that differ in
  case the later one counts.\<close>

definition injected_headers :: "pipeline_config \<Rightarrow> (string \<times> string) list" where
  "injected_headers p = (case dn_injectedHeaders (pc_downstream p) of None \<Rightarrow> [] | Some hs \<Rightarrow> hs)"

definition configured :: "pipeline_config \<Rightarrow> string \<Rightarrow> string option" where
  "configured p n = map_of (rev (map (\<lambda>(k, v). (lower_case k, v)) (injected_headers p))) n"

text \<open>The value of an identity header: what is configured, or else what the request is known by.\<close>

definition bears :: "pipeline_config \<Rightarrow> headers \<Rightarrow> string \<Rightarrow> string \<Rightarrow> bool" where
  "bears p hs n v \<longleftrightarrow> map_of hs n = (case configured p n of Some c \<Rightarrow> Some c | None \<Rightarrow> Some v)"

definition speaks_for :: "('b, 'c) proxy_deps \<Rightarrow> pipeline_config \<Rightarrow> granted_auth \<Rightarrow> string \<Rightarrow> headers \<Rightarrow> bool" where
  "speaks_for d p g traceId hs \<longleftrightarrow> bears p hs ''x-hardess-peer-id'' (ga_peerId g)
     \<and> bears p hs ''x-hardess-token-id'' (token_text d (ga_tokenId g))
     \<and> bears p hs ''x-hardess-trace-id'' traceId
     \<and> (dn_forwardAuthContext (pc_downstream p) \<noteq> Some True
         \<longrightarrow> map_of hs ''authorization'' = configured p ''authorization'')"

lemma map_of_set_all:
  "map_of (fold (\<lambda>(k, v). set_header k v) injected hs) n
    = (case map_of (rev (map (\<lambda>(k, v). (lower_case k, v)) injected)) n of Some v \<Rightarrow> Some v | None \<Rightarrow> map_of hs n)"
  by (induction injected arbitrary: hs) (auto simp: map_add_def split: option.splits)

lemma injected_lookup:
  "map_of (fold (\<lambda>(k, v). set_header k v) (case dn_injectedHeaders (pc_downstream p) of None \<Rightarrow> [] | Some hs \<Rightarrow> hs) hs) n
    = (case configured p n of Some v \<Rightarrow> Some v | None \<Rightarrow> map_of hs n)"
  unfolding configured_def injected_headers_def by (rule map_of_set_all)

definition stamped_headers :: "('b, 'c) proxy_deps \<Rightarrow> granted_auth \<Rightarrow> string \<Rightarrow> headers \<Rightarrow> headers" where
  "stamped_headers d g traceId hs = set_header ''x-hardess-token-id'' (token_text d (ga_tokenId g))
     (set_header ''x-hardess-peer-id'' (ga_peerId g) (set_header ''x-hardess-trace-id'' traceId hs))"

lemma stamped_lookup:
  "map_of (stamped_headers d g traceId hs) ''x-hardess-peer-id'' = Some (ga_peerId g)"
  "map_of (stamped_headers d g traceId hs) ''x-hardess-token-id'' = Some (token_text d (ga_tokenId g))"
  "map_of (stamped_headers d g traceId hs) ''x-hardess-trace-id'' = Some traceId"
  by (simp_all add: stamped_headers_def)

lemma stamped_speak:
  "speaks_for d p g traceId (fold (\<lambda>(k, v). set_header k v)
    (case dn_injectedHeaders (pc_downstream p) of None \<Rightarrow> [] | Some hs \<Rightarrow> hs)
    (if dn_forwardAuthContext (pc_downstream p) = Some True then stamped_headers d g traceId hs
     else map_del ''authorization'' (stamped_headers d g traceId hs)))"
  unfolding speaks_for_def bears_def injected_lookup by (auto simp: stamped_lookup split: option.splits)

lemma upstream_headers_speak: "speaks_for d p g traceId (upstream_headers d hs (pc_downstream p) g traceId)"
  using stamped_speak[of d p g traceId "strip_hop_by_hop hs"]
  unfolding upstream_headers_def Let_def stamped_headers_def .

lemma sanitized_headers_speak: "speaks_for d p g traceId (fst (sanitize_for_upstream d hs (pc_downstream p) g traceId))"
  using stamped_speak[of d p g traceId "map_del ''sec-websocket-protocol'' (strip_handshake hs)"]
  unfolding sanitize_for_upstream_def Let_def stamped_headers_def fst_conv .

text \<open>The headers of what leaves: of the request that is sent, or of the dial.\<close>

definition leaves :: "'c http_outcome \<Rightarrow> 'b outgoing list \<Rightarrow> headers \<Rightarrow> bool" where
  "leaves out sent hs \<longleftrightarrow> hs \<in> og_headers ` set sent \<or> (\<exists>t. out = Dials t \<and> hs = wt_headers t)"

lemma upgrade_target_speaks:
  assumes "upgrade_target d r p g traceId = Inr t"
  shows "speaks_for d p g traceId (wt_headers t)"
proof -
  have "wt_headers t = fst (sanitize_for_upstream d (hq_headers r) (pc_downstream p) g traceId)"
    using assms by (auto simp: upgrade_target_def split: sum.splits prod.splits)
  then show ?thesis by (simp add: sanitized_headers_speak)
qed

lemma upstream_request_headers:
  "upstream_request d r p g traceId = Inr out \<Longrightarrow> og_headers out = upstream_headers d (hq_headers r) (pc_downstream p) g traceId"
  unfolding upstream_request_def Let_def by (auto split: sum.splits elim!: map_sum_InrE)

lemma proxy_upstream_speaks:
  assumes "proxy_upstream d r p g traceId = (res, sent)" "o1 \<in> set sent"
  shows "speaks_for d p g traceId (og_headers o1)"
proof -
  have "\<exists>out. upstream_request d r p g traceId = Inr out \<and> o1 = out"
    using assms by (auto simp: proxy_upstream_def split: sum.splits fetch_outcome.splits thrown.splits)
  then show ?thesis using upstream_headers_speak upstream_request_headers by metis
qed

lemma serve_authorized_cases:
  assumes "serve_authorized d r p g traceId = (res, sent)"
  obtains (nothing) "sent = []" "\<forall>t. res \<noteq> Inr (Dials t)"
    | (dial) q where "sent = []" "res = map_sum ThrownOther Dials (upgrade_target (hd_proxy d) q p g traceId)"
    | (proxy) q res1 where "proxy_upstream (hd_proxy d) q p g traceId = (res1, sent)" "res = map_sum id Responds res1"
proof (cases "run_worker (hd_worker d) r g p traceId")
  case (Inl e)
  show ?thesis by (rule nothing) (use assms Inl in \<open>auto simp: serve_authorized_def\<close>)
next
  case (Inr w)
  show ?thesis
  proof (cases "wr_response w")
    case (Some response)
    show ?thesis by (rule nothing) (use assms Inr Some in \<open>auto simp: serve_authorized_def\<close>)
  next
    case None
    let ?q = "case wr_request w of None \<Rightarrow> r | Some q \<Rightarrow> q"
    show ?thesis
    proof (cases "is_websocket_upgrade_request ?q")
      case True
      then show ?thesis using assms Inr None dial[of ?q] by (simp add: serve_authorized_def Let_def)
    next
      case False
      then show ?thesis using assms Inr None proxy[of ?q "fst (proxy_upstream (hd_proxy d) ?q p g traceId)"]
        by (auto simp: serve_authorized_def Let_def map_prod_def split: prod.splits)
    qed
  qed
qed

lemma serve_authorized_speaks:
  assumes "serve_authorized d r p g traceId = (res, sent)"
  shows "\<forall>o1\<in>set sent. speaks_for (hd_proxy d) p g traceId (og_headers o1)"
    and "res = Inr (Dials t) \<Longrightarrow> speaks_for (hd_proxy d) p g traceId (wt_headers t)"
proof -
  show "\<forall>o1\<in>set sent. speaks_for (hd_proxy d) p g traceId (og_headers o1)"
    using assms by (cases rule: serve_authorized_cases) (auto dest: proxy_upstream_speaks)
  assume t: "res = Inr (Dials t)"
  show "speaks_for (hd_proxy d) p g traceId (wt_headers t)"
    using assms
  proof (cases rule: serve_authorized_cases)
    case nothing then show ?thesis using t by simp
  next
    case (dial q)
    then have "upgrade_target (hd_proxy d) q p g traceId = Inr t"
      using t by (cases "upgrade_target (hd_proxy d) q p g traceId") auto
    then show ?thesis by (rule upgrade_target_speaks)
  next
    case (proxy q res1)
    then show ?thesis using t by (cases res1) auto
  qed
qed

text \<open>C32: Nobody speaks for somebody else. Whatever headers a client sends and whatever its worker makes of the request,
  what leaves for the upstream of a pipeline, a request or the handshake of a WebSocket, bears the peer
  and the token id of a context the auth service granted for the token of this very request (for an
  anonymous pipeline, of the anonymous token), and the trace id of the request; the client's authorization
  is gone unless the pipeline forwards it. The only exception is the operator's: a header of that name
  among the pipeline's \<open>injectedHeaders\<close> is sent with its configured value instead. Without a granted
  context nothing leaves.\<close>

theorem upstream_sees_granted_identity:
  assumes "handle_http_request d now uuid cs store r az = (out, sent, az')" "get_config cs = Inr ps"
    and "find_pipeline (hq_pathname r) ps = Some p" "leaves out sent hs"
  shows "\<exists>g. fst (validate_bearer_token (hd_jwt d) now (required_token p r) az) = Inr g
    \<and> speaks_for (hd_proxy d) p g (case map_of (hq_headers r) ''x-trace-id'' of None \<Rightarrow> uuid | Some t \<Rightarrow> t) hs"
proof -
  let ?t = "case map_of (hq_headers r) ''x-trace-id'' of None \<Rightarrow> uuid | Some t \<Rightarrow> t"
  obtain res where run: "serve_pipeline d now p r ?t az = (res, sent, az')" and out: "\<forall>t. out = Dials t \<longrightarrow> res = Inr (Dials t)"
    using assms(1-3)
    by (auto simp: handle_http_request_def serve_request_for_def Let_def error_outcome_def split: prod.splits sum.splits)
  obtain v az1 where v: "validate_bearer_token (hd_jwt d) now (required_token p r) az = (v, az1)" by (metis surj_pair)
  have "leaves out sent hs \<Longrightarrow> sent \<noteq> [] \<or> (\<exists>t. res = Inr (Dials t))" using out by (auto simp: leaves_def)
  then obtain g where g: "v = Inr g" and served: "serve_authorized d r p g ?t = (res, sent)"
    using run v assms(4) by (auto simp: serve_pipeline_def split: if_splits sum.splits prod.splits)
  show ?thesis
    using serve_authorized_speaks[OF served] assms(4) out g v by (auto simp: leaves_def)
qed

section \<open>How often a request is forwarded\<close>

lemma to_number_values: "to_number ''0'' = Fin 0" "to_number ''1'' = Fin 1" "to_number ''x'' = NaN" "to_number ''NaN'' = NaN"
  "to_number ''-5'' = Fin (- 5)" "to_number ''-4'' = Fin (- 4)"
  by (simp_all add: number_defs)

lemma number_text_values: "number_text f (Fin 1) = ''1''" "number_text f NaN = ''NaN''" "number_text f (Fin (- 4)) = ''-4''"
proof -
  have "int_text 1 = ''1''" "int_text (- 4) = ''-4''" by code_simp+
  then show "number_text f (Fin 1) = ''1''" "number_text f NaN = ''NaN''" "number_text f (Fin (- 4)) = ''-4''"
    by (simp_all add: number_text_def)
qed

lemma forward_headers_hop:
  "map_of (fold (\<lambda>(k, v). set_header k v) (forward_headers d i) hs) hop_header
   = Some (number_text (hd_fraction_text d) (num_shift (fi_forwardHop i) 1))"
  by (simp add: forward_headers_def)

lemma error_outcome_not_dial: "error_outcome e t \<noteq> Dials x" "Dials x \<noteq> error_outcome e t"
  by (auto simp: error_outcome_def split: prod.splits)

text \<open>What is forwarded, and where it bears the hop count.\<close>

lemma no_pipeline_forwards:
  assumes "handle_http_request d now uuid cs store r az = (out, sent, az')" "get_config cs = Inr ps"
    and "find_pipeline (hq_pathname r) ps = None"
  obtains (refused) "sent = []" "\<forall>t. out \<noteq> Dials t"
    | (forwarded) o1 where "sent = [o1]" "\<forall>t. out \<noteq> Dials t" "og_path o1 = ''/__cluster/http-forward''"
        "\<not> num_le max_forward_hops (forward_hop r)"
        "map_of (og_headers o1) hop_header = Some (number_text (hd_fraction_text d) (num_shift (forward_hop r) 1))"
    | (dialed) t where "sent = []" "out = Dials t" "wt_path t = ''/__cluster/ws-forward''"
        "\<not> num_le max_forward_hops (forward_hop r)"
        "map_of (wt_headers t) hop_header = Some (number_text (hd_fraction_text d) (num_shift (forward_hop r) 1))"
proof -
  let ?t = "case map_of (hq_headers r) ''x-trace-id'' of None \<Rightarrow> uuid | Some t \<Rightarrow> t"
  let ?i = "request_input r ?t"
  have hop: "fi_forwardHop ?i = forward_hop r" by (simp add: request_input_def)
  obtain tried sent1 where t: "try_forward_internally d store r ?i = (tried, sent1)" by (metis surj_pair)
  have run: "(out, sent) = (case tried of None \<Rightarrow> (error_outcome (no_pipeline (hq_pathname r)) ?t, sent1)
      | Some (Inl e) \<Rightarrow> (error_outcome e ?t, sent1) | Some (Inr o1) \<Rightarrow> (o1, sent1))"
    using assms t by (auto simp: handle_http_request_def serve_request_for_def Let_def split: option.splits sum.splits)
  show ?thesis
  proof (cases "num_le max_forward_hops (forward_hop r) \<or> forward_target d store ?i = None")
    case True
    then have "tried = None \<and> sent1 = []" using t by (auto simp: try_forward_internally_def hop split: if_splits)
    then show ?thesis using run by (intro refused) (auto simp: error_outcome_not_dial)
  next
    case False
    then obtain target where target: "forward_target d store ?i = Some target" "\<not> num_le max_forward_hops (forward_hop r)" by auto
    show ?thesis
    proof (cases "is_websocket_upgrade_request r")
      case True
      then have w: "tried = Some (forward_websocket d r ?i target)" "sent1 = []"
        using t target by (simp_all add: try_forward_internally_def hop)
      show ?thesis
      proof (cases "forward_websocket d r ?i target")
        case (Inl e)
        then show ?thesis using run w by (intro refused) (auto simp: error_outcome_not_dial)
      next
        case (Inr o1)
        then obtain tg where "o1 = Dials tg" "wt_path tg = ''/__cluster/ws-forward''"
            "map_of (wt_headers tg) hop_header = Some (number_text (hd_fraction_text d) (num_shift (forward_hop r) 1))"
          by (auto simp: forward_websocket_def build_forward_target_def sanitize_for_forward_def Let_def forward_headers_hop hop
              split: sum.splits)
        then show ?thesis using run w Inr target(2) by (intro dialed[of tg]) auto
      qed
    next
      case False
      then have f: "tried = Some (fst (forward_http d r ?i target))" "sent1 = snd (forward_http d r ?i target)"
        using t target by (auto simp: try_forward_internally_def hop map_prod_def split: prod.splits)
      show ?thesis
      proof (cases "px_origin (hd_proxy d) (rt_baseUrl target)")
        case (Inl e)
        then show ?thesis using run f by (intro refused) (auto simp: forward_http_def error_outcome_not_dial)
      next
        case (Inr origin)
        then have "sent1 = [http_forward_request d r ?i origin]" by (simp add: f forward_http_def Let_def)
        moreover have "fst (forward_http d r ?i target) \<noteq> Inr (Dials tg)" for tg
          using Inr by (auto simp: forward_http_def Let_def split: fetch_outcome.splits sum.splits thrown.splits if_splits)
        ultimately show ?thesis using run f target(2)
          by (intro forwarded[of "http_forward_request d r ?i origin"])
            (auto simp: http_forward_request_def forward_headers_hop hop error_outcome_not_dial split: sum.splits)
      qed
    qed
  qed
qed

lemma hop_exhausted:
  assumes "handle_http_request d now uuid cs store r az = (out, sent, az')" "get_config cs = Inr ps"
    and "find_pipeline (hq_pathname r) ps = None" "num_le max_forward_hops (forward_hop r)"
  shows "sent = [] \<and> (\<forall>t. out \<noteq> Dials t)"
  using assms(1-3) by (cases rule: no_pipeline_forwards) (use assms(4) in auto)

text \<open>A request of another gateway keeps its hop count.\<close>

lemma forwarded_request_hop:
  assumes "forwarded_request d websocket r = Inr q"
  shows "map_of (hq_headers q) hop_header = map_of (hq_headers r) hop_header"
  using assms by (auto simp: forwarded_request_def Let_def split: if_splits option.splits sum.splits prod.splits)

lemma handling_forwarded:
  assumes "fetch_step d o1 now upgraded l r a = (Inr (Handling i q), a')"
    and "hq_pathname r = ''/__cluster/http-forward'' \<or> hq_pathname r = ''/__cluster/ws-forward''"
  shows "map_of (hq_headers q) hop_header = map_of (hq_headers r) hop_header"
proof -
  have "\<exists>websocket. forwarded_request d websocket r = Inr q"
    using assms(2)
  proof
    assume p: "hq_pathname r = ''/__cluster/http-forward''"
    show ?thesis using assms(1) unfolding fetch_step_def Let_def p
      by (auto simp: admin_page_def track_def begin_tracked_http_request_def split: if_splits sum.splits)
  next
    assume p: "hq_pathname r = ''/__cluster/ws-forward''"
    show ?thesis using assms(1) unfolding fetch_step_def Let_def p
      by (auto simp: admin_page_def split: if_splits sum.splits)
  qed
  then show ?thesis using forwarded_request_hop by blast
qed

text \<open>C33: A request is forwarded once at most. A request without a hop count that no pipeline of its gateway takes leaves
  as at most one request, or one dial, for another gateway; and the gateway that takes it, whatever its
  configuration and its topology, does not forward it again: if no pipeline takes it there, nothing leaves.\<close>

theorem forwarded_once_at_most:
  assumes first: "handle_http_request d now uuid cs store r az = (out, sent, az')" "get_config cs = Inr ps"
      "find_pipeline (hq_pathname r) ps = None" "map_of (hq_headers r) hop_header = None"
    and received: "leaves out sent (hq_headers r2)"
      "hq_pathname r2 = ''/__cluster/http-forward'' \<or> hq_pathname r2 = ''/__cluster/ws-forward''"
      "fetch_step d2 opts now2 upgraded l r2 a2 = (Inr (Handling i q), a3)"
    and second: "get_config (ra_config a4) = Inr ps2" "find_pipeline (hq_pathname q) ps2 = None"
      "run_ingress d2 now3 uuid2 i q a4 = ((out2, sent2), a5)"
  shows "length sent \<le> 1 \<and> (sent = [] \<or> (\<forall>t. out \<noteq> Dials t)) \<and> sent2 = [] \<and> (\<forall>t. out2 \<noteq> Dials t)"
proof -
  have zero: "forward_hop r = Fin 0" using first(4) by (simp add: forward_hop_def to_number_values)
  have hop: "map_of (hq_headers r2) hop_header = Some ''1'' \<and> length sent \<le> 1 \<and> (sent = [] \<or> (\<forall>t. out \<noteq> Dials t))"
    using first(1-3)
    by (cases rule: no_pipeline_forwards) (use received(1) zero in \<open>auto simp: leaves_def number_text_values\<close>)
  then have "forward_hop q = Fin 1"
    using handling_forwarded[OF received(3,2)] by (simp add: forward_hop_def to_number_values)
  then have "num_le max_forward_hops (forward_hop q)" by (simp add: max_forward_hops_def num_le_def)
  moreover obtain az2 where "handle_http_request (ap_http d2) now3 uuid2 (ra_config a4) (Some (ra_topology a4)) q (ra_auth a4) = (out2, sent2, az2)"
    using second(3) by (auto simp: run_ingress_def split: prod.splits)
  ultimately show ?thesis using hop_exhausted[OF _ second(1,2)] hop by blast
qed

section \<open>What a listener exposes\<close>

text \<open>The requests of the cluster interface: \<open>locate\<close>, \<open>deliver\<close> and \<open>handle-ack\<close> are posted, a forwarded request has
  the method of the client's request.\<close>

definition cluster_request :: "'b http_req \<Rightarrow> bool" where
  "cluster_request r \<longleftrightarrow> hq_pathname r \<in> {''/__cluster/ws-forward'', ''/__cluster/http-forward''}
     \<or> hq_pathname r \<in> {''/__cluster/locate'', ''/__cluster/deliver'', ''/__cluster/handle-ack''} \<and> hq_method r = ''POST''"

definition internal_path :: "string \<Rightarrow> bool" where
  "internal_path pathname \<longleftrightarrow> prefix ''/__admin'' pathname \<or> prefix ''/__cluster'' pathname"

lemma business_hides_internal:
  assumes "normalize_listener_name l = ListenBusiness" "internal_path (hq_pathname r)"
  shows "fetch_step d opts now upgraded l r a = (Inr (Answered (not_exposed l)), a)"
proof -
  have "\<not> is_path_allowed_on_listener opts (hq_pathname r) l"
    using assms by (simp add: is_path_allowed_on_listener_def internal_only_path_prefixes_def internal_path_def)
  then show ?thesis unfolding fetch_step_def Let_def by simp
qed

lemma secretless_refused:
  assumes "wrong_secret d r" "cluster_request r"
  shows "fetch_step d opts now upgraded l r a =
    (Inr (Answered (if is_path_allowed_on_listener opts (hq_pathname r) l then unauthorized else not_exposed l)), a)"
proof -
  have page: "serve_locate d r a = unauthorized" "serve_deliver d opts now r a = (unauthorized, a)"
    "serve_handle_ack d opts now r a = (unauthorized, a)" "forwarded_request d w r = Inl unauthorized" for w
    using assms(1) by (simp_all add: serve_locate_def serve_deliver_def serve_handle_ack_def forwarded_request_def)
  show ?thesis
    using assms(2) unfolding fetch_step_def Let_def page
    by (auto simp: cluster_request_def admin_page_def map_prod_def)
qed

text \<open>C34: The internal interface is kept. On the business listener every path below the admin or the cluster prefix is
  answered as not exposed, whatever the method; and where a cluster secret is configured, on every listener, a
  request of the cluster interface (a posted \<open>locate\<close>, \<open>deliver\<close> or \<open>handle-ack\<close>, or a forwarded HTTP request or WebSocket
  handshake with any method) whose secret header is not that secret is refused, as unauthorized or as not exposed.
  Either way nothing changes: no message is delivered, nothing is forwarded, no request is counted.\<close>

theorem internal_interface_kept:
  assumes "normalize_listener_name l = ListenBusiness \<and> internal_path (hq_pathname r)
       \<or> wrong_secret d r \<and> cluster_request r"
  shows "\<exists>page. fetch_step d opts now upgraded l r a = (Inr (Answered page), a)
    \<and> (page = not_exposed l \<or> page = unauthorized)
    \<and> (normalize_listener_name l = ListenBusiness \<and> internal_path (hq_pathname r) \<longrightarrow> page = not_exposed l)"
proof (cases "normalize_listener_name l = ListenBusiness \<and> internal_path (hq_pathname r)")
  case True
  then show ?thesis using business_hides_internal by blast
next
  case False
  then have "fetch_step d opts now upgraded l r a =
      (Inr (Answered (if is_path_allowed_on_listener opts (hq_pathname r) l then unauthorized else not_exposed l)), a)"
    using secretless_refused assms by blast
  then show ?thesis using False by auto
qed

section \<open>Requests in flight\<close>

datatype 'b app_event =
    Fetched int bool listener_name "'b http_req"
  | IngressRuns instants string "nat option" "'b http_req"
  | DialSettles "nat option" "open_failure option" bool string
  | BodyEnds nat
  | ShutdownBegins
  | AppDisposed

fun app_step :: "('b, 'c, 'k) app_deps \<Rightarrow> app_options \<Rightarrow> 'b app_event \<Rightarrow> runtime_app \<Rightarrow> runtime_app" where
  "app_step d o1 (Fetched now upgraded l r) a = snd (fetch_step d o1 now upgraded l r a)"
| "app_step d o1 (IngressRuns now uuid i r) a = snd (run_ingress d now uuid i r a)"
| "app_step d o1 (DialSettles i f upgraded t) a = snd (dial_settles i f upgraded t a :: 'c http_outcome option \<times> runtime_app)"
| "app_step d o1 (BodyEnds i) a = body_ends i a"
| "app_step d o1 ShutdownBegins a = app_begin_shutdown o1 a"
| "app_step d o1 AppDisposed a = app_dispose a"

definition counts_open :: "runtime_app \<Rightarrow> bool" where
  "counts_open a \<longleftrightarrow> ra_inFlight a = int (length (ra_open a)) \<and> distinct (ra_open a) \<and> (\<forall>i\<in>set (ra_open a). i < ra_nextRequest a)"

text \<open>The fields the count depends on.\<close>

definition same_tracking :: "runtime_app \<Rightarrow> runtime_app \<Rightarrow> bool" where
  "same_tracking a b \<longleftrightarrow> ra_inFlight b = ra_inFlight a \<and> ra_open b = ra_open a \<and> ra_nextRequest b = ra_nextRequest a"

lemma counts_same: "counts_open a \<Longrightarrow> same_tracking a b \<Longrightarrow> counts_open b"
  by (simp add: counts_open_def same_tracking_def)

lemma counts_begin: "counts_open a \<Longrightarrow> counts_open (snd (begin_tracked_http_request a))"
  by (auto simp: counts_open_def begin_tracked_http_request_def)

lemma counts_release:
  assumes "counts_open a"
  shows "counts_open (release_http_request i a)"
proof (cases "i \<in> set (ra_open a)")
  case True
  then have "length (ra_open a) \<noteq> 0" by auto
  then show ?thesis using assms True
    by (auto simp: counts_open_def release_http_request_def length_remove1 of_nat_diff Suc_le_eq dest: notin_set_remove1)
next
  case False
  then show ?thesis using assms by (simp add: release_http_request_def)
qed

lemma counts_track: "counts_open a \<Longrightarrow> counts_open (track_http_response_lifecycle i out a)"
  by (auto simp: track_http_response_lifecycle_def counts_release split: option.splits)

definition tracks :: "runtime_app \<Rightarrow> 'x \<times> runtime_app \<Rightarrow> bool" where
  "tracks a x \<longleftrightarrow> same_tracking a (snd x) \<or> snd x = snd (begin_tracked_http_request a)"

lemma tracks_intros:
  "tracks a (v, a)" "tracks a x \<Longrightarrow> tracks a (map_prod f id x)" "tracks a (map_prod Inr id (track q a))"
  "tracks a x \<Longrightarrow> tracks a y \<Longrightarrow> tracks a (if b then x else y)"
  "(\<And>v. tracks a (f1 v)) \<Longrightarrow> (\<And>w. tracks a (f2 w)) \<Longrightarrow> tracks a (case z of Inl v \<Rightarrow> f1 v | Inr w \<Rightarrow> f2 w)"
  by (auto simp: tracks_def same_tracking_def track_def split: sum.splits prod.splits)

lemma fetch_tracks: "tracks a (fetch_step d o1 now upgraded l r a)"
proof -
  have deliver: "tracks a (serve_deliver d o1 now r a)"
    by (auto simp: serve_deliver_def tracks_def same_tracking_def split: sum.splits prod.splits)
  have ack: "tracks a (serve_handle_ack d o1 now r a)"
    by (auto simp: serve_handle_ack_def tracks_def same_tracking_def split: sum.splits prod.splits)
  show ?thesis unfolding fetch_step_def Let_def by (intro tracks_intros deliver ack)
qed

lemma ingress_tracks: "counts_open a \<Longrightarrow> counts_open (snd (run_ingress d now uuid i r a))"
proof -
  assume a: "counts_open a"
  then have "counts_open (a\<lparr>ra_auth := az\<rparr>)" for az by (simp add: counts_open_def)
  then show ?thesis by (auto simp: run_ingress_def counts_track split: prod.splits http_outcome.splits)
qed

lemma counts_step:
  assumes "counts_open a"
  shows "counts_open (app_step d o1 e a)"
proof (cases e)
  case (Fetched now upgraded l r)
  then show ?thesis using fetch_tracks[of a d o1 now upgraded l r] assms
    by (auto simp: tracks_def counts_begin intro: counts_same)
next
  case (IngressRuns now uuid i r)
  then show ?thesis by (simp add: ingress_tracks assms)
next
  case (DialSettles i f upgraded t)
  then show ?thesis by (simp add: dial_settles_def Let_def counts_track assms)
next
  case (BodyEnds i)
  then show ?thesis by (simp add: body_ends_def counts_release assms)
next
  case ShutdownBegins
  then show ?thesis using assms by (simp add: app_begin_shutdown_def counts_open_def)
next
  case AppDisposed
  then show ?thesis using assms by (simp add: app_dispose_def counts_open_def)
qed

definition app_run :: "('b, 'c, 'k) app_deps \<Rightarrow> app_options \<Rightarrow> 'b app_event list \<Rightarrow> runtime_app \<Rightarrow> runtime_app" where
  "app_run d o1 es a = foldl (\<lambda>a e. app_step d o1 e a) a es"

lemma counts_run: "counts_open a \<Longrightarrow> counts_open (app_run d o1 es a)"
  unfolding app_run_def by (induction es arbitrary: a) (simp_all add: counts_step)

text \<open>C35: The drain waits for exactly the requests in flight. In every run of a gateway from its start, whatever the
  order of requests, answers, dials, and ends and cancellations of bodies, repeated ones included, the count of requests
  in flight is the number of tracked requests that were not released. So when the wait for the drain reports
  success none is open, and it reports failure only after the whole time allowed, with one still open.\<close>

theorem drain_waits_for_open_requests:
  assumes "ra_inFlight a0 = 0" "ra_open a0 = []"
    and history: "\<forall>t. inflight t = ra_inFlight (app_run d o1 (events t) a0)"
    and wait: "wait_for_http_drain inflight late timeoutMs pollIntervalMs now = (drained, t)"
  shows "(drained \<longrightarrow> ra_open (app_run d o1 (events t) a0) = [])
    \<and> (\<not> drained \<longrightarrow> ra_open (app_run d o1 (events t) a0) \<noteq> [] \<and> t \<ge> now + (case timeoutMs of None \<Rightarrow> 0 | Some m \<Rightarrow> m))"
proof -
  have "counts_open a0" using assms(1,2) by (simp add: counts_open_def)
  then have count: "inflight t = int (length (ra_open (app_run d o1 (events t) a0)))" for t
    using counts_run history unfolding counts_open_def by metis
  have "(drained \<longrightarrow> inflight t \<le> 0) \<and> (\<not> drained \<longrightarrow> inflight t > 0 \<and> t \<ge> now + (case timeoutMs of None \<Rightarrow> 0 | Some m \<Rightarrow> m))"
    using wait drain_true[of inflight late _ _ now t] drain_false[of inflight late _ _ now t] count[of now]
    by (cases drained) (auto simp: wait_for_http_drain_def Let_def split: if_splits)
  then show ?thesis by (simp add: count)
qed

section \<open>Examples\<close>

definition shop_pipeline :: pipeline_config where
  "shop_pipeline = \<lparr>pc_id = ''shop'', pc_matchPrefix = ''/shop'', pc_groupId = None, pc_authRequired = None,
     pc_downstream = \<lparr>dn_origin = ''http://shop'', dn_connectTimeoutMs = 100, dn_responseTimeoutMs = 100, dn_websocket = None,
       dn_forwardAuthContext = None, dn_injectedHeaders = None\<rparr>, pc_worker = None\<rparr>"

definition shop_proxy :: "(string, string) proxy_deps" where
  "shop_proxy = \<lparr>px_origin = (\<lambda>s. Inr \<lparr>to_scheme = ''http:'', to_authority = s\<rparr>),
     px_fetch = (\<lambda>o1. FetchGot \<lparr>hs_status = 200, hs_statusText = ''OK'', hs_headers = [], hs_body = None\<rparr>), px_text = (\<lambda>v. [])\<rparr>"

definition shop_jwt :: "unit jwt_deps" where
  "shop_jwt = \<lparr>jd_decode = (\<lambda>s. ()), jd_parse = (\<lambda>b. None), jd_fetch = (\<lambda>n url. FetchBody JNull), jd_verify = (\<lambda>k s b. None),
     jd_text = (\<lambda>v. []), jd_detail = (\<lambda>a. JNull), jd_cacheTtlMs = None\<rparr>"

definition shop_http :: "string \<Rightarrow> (string, string, unit) http_deps" where
  "shop_http node = \<lparr>hd_proxy = shop_proxy,
     hd_worker = \<lparr>wd_load_error = (\<lambda>e. None), wd_race = (\<lambda>w q g env t. TimerFirst)\<rparr>, hd_jwt = shop_jwt,
     hd_fraction_text = (\<lambda>q. []), hd_localeCompare = code_unit_compare, hd_forward_aborted = (\<lambda>o1. False),
     hd_nodeId = Some node, hd_clusterSharedSecret = Some ''key'', hd_httpTimeoutMs = None, hd_wsConnectTimeoutMs = None\<rparr>"

definition shop_config :: config_store where
  "shop_config = new_config_store\<lparr>cg_current := Some [shop_pipeline]\<rparr>"

definition shop_auth :: auth_service where
  "shop_auth = new_auth_service [DemoBearer] ''bearer''"

definition shop_instants :: instants where
  "shop_instants = \<lparr>is_keys = 5, is_claims = 5\<rparr>"

definition shop_request :: "string \<Rightarrow> (string \<times> string) list \<Rightarrow> string http_req" where
  "shop_request path hs = \<lparr>hq_method = ''GET'', hq_pathname = path, hq_search = [], hq_headers = hs, hq_body = None\<rparr>"

definition order_request :: "string http_req" where
  "order_request = shop_request ''/shop/order'' [(''authorization'', ''Bearer demo:alice''), (''x-hardess-peer-id'', ''root'')]"

lemma order_sent:
  "map og_headers (fst (snd (handle_http_request (shop_http ''a'') shop_instants ''u'' shop_config None order_request shop_auth)))
   = [[(''x-hardess-peer-id'', ''alice''), (''x-hardess-trace-id'', ''u''), (''x-hardess-token-id'', ''demo:alice'')]]"
  by code_simp

theorem upstream_sees_granted_identity_witness:
  "map_of [(''x-hardess-peer-id'', ''alice''), (''x-hardess-trace-id'', ''u''), (''x-hardess-token-id'', ''demo:alice'')]
      ''x-hardess-peer-id'' \<noteq> Some ''root''
   \<and> (\<exists>g. fst (validate_bearer_token shop_jwt shop_instants (Some ''Bearer demo:alice'') shop_auth) = Inr g \<and> ga_peerId g = ''alice'')"
proof -
  let ?hs = "[(''x-hardess-peer-id'', ''alice''), (''x-hardess-trace-id'', ''u''), (''x-hardess-token-id'', ''demo:alice'')]"
  obtain out sent az' where run: "handle_http_request (shop_http ''a'') shop_instants ''u'' shop_config None order_request shop_auth = (out, sent, az')"
    by (metis prod_cases3)
  have "?hs \<in> og_headers ` set sent" using order_sent run by (auto simp: map_eq_Cons_conv)
  then have gone: "leaves out sent ?hs" by (simp add: leaves_def)
  have config: "get_config shop_config = Inr [shop_pipeline]" by (simp add: shop_config_def get_config_def)
  have found: "find_pipeline (hq_pathname order_request) [shop_pipeline] = Some shop_pipeline"
    by (simp add: find_pipeline_def shop_pipeline_def order_request_def shop_request_def)
  have plain: "configured shop_pipeline ''x-hardess-peer-id'' = None"
    by (simp add: configured_def injected_headers_def shop_pipeline_def)
  have token: "required_token shop_pipeline order_request = Some ''Bearer demo:alice''"
    by (simp add: required_token_def shop_pipeline_def order_request_def shop_request_def)
  obtain g where "fst (validate_bearer_token (hd_jwt (shop_http ''a'')) shop_instants (required_token shop_pipeline order_request) shop_auth) = Inr g"
      and "speaks_for (hd_proxy (shop_http ''a'')) shop_pipeline g
        (case map_of (hq_headers order_request) ''x-trace-id'' of None \<Rightarrow> ''u'' | Some t \<Rightarrow> t) ?hs"
    using upstream_sees_granted_identity[OF run config found gone] by blast
  then show ?thesis using plain unfolding token by (auto simp: speaks_for_def bears_def shop_http_def)
qed

text \<open>A request for the path of another host's deployment, at the gateway of node \<open>a\<close>.\<close>

definition away_request :: "string http_req" where
  "away_request = shop_request ''/x/y'' [(''x-trace-id'', ''t'')]"

definition away_run :: "string http_outcome \<times> string outgoing list \<times> auth_service" where
  "away_run = handle_http_request (shop_http ''a'') shop_instants ''u'' shop_config (Some topology_example) away_request shop_auth"

definition received_request :: "string http_req" where
  "received_request = shop_request ''/__cluster/http-forward'' (og_headers (hd (fst (snd away_run))))"

definition shop_app_deps :: "string \<Rightarrow> ws_deps \<Rightarrow> (string, string, unit) app_deps" where
  "shop_app_deps node w = \<lparr>ap_http = shop_http node, ap_ws = w, ap_parseLocate = (\<lambda>r. Inl ''''), ap_parseDeliver = (\<lambda>r. Inl ''''),
     ap_parseHandleAck = (\<lambda>r. Inl ''''), ap_parsePath = (\<lambda>p. Inr (p, [])), ap_metricsSnapshot = None, ap_prometheus = [],
     ap_packages = [], ap_peers = JNull\<rparr>"

definition shop_options :: "ws_config \<Rightarrow> app_options" where
  "shop_options cfg = \<lparr>ao_businessPrefixes = None, ao_publicPrefixes = None, ao_controlPrefixes = None, ao_internalPrefixes = None,
     ao_transport = None, ao_gateway = cfg\<rparr>"

definition shop_app :: "gateway \<Rightarrow> runtime_app" where
  "shop_app g = \<lparr>ra_config = shop_config, ra_auth = shop_auth, ra_topology = topology_example, ra_gateway = g, ra_startedAt = 0,
     ra_shuttingDown = False, ra_disposed = False, ra_inFlight = 0, ra_open = [], ra_nextRequest = 0\<rparr>"

definition away_input :: forward_input where
  "away_input = \<lparr>fi_traceId = ''t'', fi_pathname = ''/x/y'', fi_search = [], fi_forwardHop = Fin 0\<rparr>"

lemma away_target: "map_option rt_baseUrl (forward_target (shop_http ''a'') (Some topology_example) away_input) = Some ''u''"
  by code_simp

lemma away_sent:
  "map (\<lambda>o1. (og_path o1, og_headers o1)) (fst (snd away_run)) = [(''/__cluster/http-forward'',
     [(''x-trace-id'', ''t''), (''x-hardess-forward-hop'', ''1''), (''x-hardess-forward-path'', ''/x/y''), (''x-hardess-cluster-secret'', ''key'')])]"
proof -
  obtain t where t: "forward_target (shop_http ''a'') (Some topology_example) away_input = Some t" using away_target by blast
  have config: "get_config shop_config = Inr [shop_pipeline]" by (simp add: shop_config_def get_config_def)
  have nobody: "find_pipeline ''/x/y'' [shop_pipeline] = None" by (simp add: find_pipeline_def shop_pipeline_def)
  have hop: "forward_hop away_request = Fin 0"
    by (simp add: forward_hop_def away_request_def shop_request_def hop_header_def to_number_values)
  then have i: "request_input away_request ''t'' = away_input"
    by (simp add: request_input_def away_input_def, simp add: away_request_def shop_request_def)
  have r: "hq_pathname away_request = ''/x/y''" "map_of (hq_headers away_request) ''x-trace-id'' = Some ''t''"
    "\<not> is_websocket_upgrade_request away_request" "hq_headers away_request = [(''x-trace-id'', ''t'')]"
    by (simp_all add: away_request_def shop_request_def is_websocket_upgrade_request_def)
  have small: "\<not> num_le max_forward_hops (fi_forwardHop away_input)" by (simp add: away_input_def max_forward_hops_def num_le_def)
  have sent: "fst (snd away_run) = snd (forward_http (shop_http ''a'') away_request away_input t)"
    unfolding away_run_def handle_http_request_def serve_request_for_def
    by (simp add: r config nobody i try_forward_internally_def small t map_prod_def split: prod.splits sum.splits)
  have hop_text: "number_text f (num_shift (Fin 0) 1) = ''1''" for f using number_text_values(1) by simp
  show ?thesis unfolding sent
    by (simp add: forward_http_def shop_http_def shop_proxy_def Let_def http_forward_request_def forward_headers_def
        hop_text away_input_def r set_header_def lower_case_def lower_char_def hop_header_def path_header_def secret_header_def
        del: num_shift.simps)
qed

lemma away_received:
  "fetch_step (shop_app_deps ''c'' w) (shop_options cfg) 9 False ListenControl received_request (shop_app g)
   = (Inr (Handling (Some 0) (shop_request ''/x/y'' [(''x-trace-id'', ''t''), (''x-hardess-forward-hop'', ''1'')])),
      (shop_app g)\<lparr>ra_inFlight := 1, ra_open := [0], ra_nextRequest := 1\<rparr>)"
proof -
  have hs: "og_headers (hd (fst (snd away_run))) = [(''x-trace-id'', ''t''), (''x-hardess-forward-hop'', ''1''),
      (''x-hardess-forward-path'', ''/x/y''), (''x-hardess-cluster-secret'', ''key'')]"
    using away_sent by (auto simp: map_eq_Cons_conv)
  show ?thesis
    unfolding fetch_step_def Let_def received_request_def hs
    by (simp add: shop_request_def is_path_allowed_on_listener_def internal_only_path_prefixes_def shop_options_def
        admin_page_def Let_def forwarded_request_def wrong_secret_def shop_app_deps_def shop_http_def secret_header_def path_header_def
        body_to_send_def track_def begin_tracked_http_request_def shop_app_def)
qed

theorem forwarded_once_at_most_witness:
  "\<exists>out2 a5. run_ingress (shop_app_deps ''c'' example_deps) shop_instants ''v'' (Some 0)
      (shop_request ''/x/y'' [(''x-trace-id'', ''t''), (''x-hardess-forward-hop'', ''1'')]) (shop_app (new_gateway new_locator)) = ((out2, []), a5)"
proof -
  let ?q = "shop_request ''/x/y'' [(''x-trace-id'', ''t''), (''x-hardess-forward-hop'', ''1'')]"
  obtain out sent az' where run: "handle_http_request (shop_http ''a'') shop_instants ''u'' shop_config (Some topology_example) away_request shop_auth
      = (out, sent, az')" by (metis prod_cases3)
  then have away: "away_run = (out, sent, az')" by (simp add: away_run_def)
  have gone: "leaves out sent (hq_headers received_request)"
    using away_sent unfolding away by (auto simp: leaves_def received_request_def away shop_request_def)
  have config: "get_config shop_config = Inr [shop_pipeline]" by (simp add: shop_config_def get_config_def)
  have nobody: "find_pipeline (hq_pathname away_request) [shop_pipeline] = None" "find_pipeline (hq_pathname ?q) [shop_pipeline] = None"
    by (simp_all add: find_pipeline_def shop_pipeline_def away_request_def shop_request_def)
  have first: "map_of (hq_headers away_request) hop_header = None"
    by (simp add: away_request_def shop_request_def hop_header_def)
  have path: "hq_pathname received_request = ''/__cluster/http-forward'' \<or> hq_pathname received_request = ''/__cluster/ws-forward''"
    by (simp add: received_request_def shop_request_def)
  have config2: "get_config (ra_config (shop_app (new_gateway new_locator))) = Inr [shop_pipeline]" by (simp add: shop_app_def config)
  obtain out2 sent2 a5 where second: "run_ingress (shop_app_deps ''c'' example_deps) shop_instants ''v'' (Some 0) ?q (shop_app (new_gateway new_locator)) = ((out2, sent2), a5)"
    by (metis prod.exhaust)
  have "sent2 = []"
    using forwarded_once_at_most[OF run config nobody(1) first gone path away_received config2 nobody(2) second] by blast
  then show ?thesis using second by blast
qed

definition bare_request :: "string \<Rightarrow> string \<Rightarrow> string http_req" where
  "bare_request m path = \<lparr>hq_method = m, hq_pathname = path, hq_search = [], hq_headers = [], hq_body = None\<rparr>"

theorem internal_interface_kept_witness:
  "let app = shop_app (new_gateway new_locator); fetch = fetch_step (shop_app_deps ''c'' example_deps) (shop_options example_config) 9 False
   in fetch ListenPublic (bare_request ''GET'' ''/__admin/x'') app = (Inr (Answered (not_exposed ListenPublic)), app)
     \<and> (\<exists>page. fetch ListenControl (bare_request ''GET'' ''/__cluster/ws-forward'') app = (Inr (Answered page), app))"
proof -
  let ?d = "shop_app_deps ''c'' example_deps" and ?o = "shop_options example_config" and ?a = "shop_app (new_gateway new_locator)"
  let ?page = "bare_request ''GET'' ''/__admin/x''" and ?forward = "bare_request ''GET'' ''/__cluster/ws-forward''"
  have "normalize_listener_name ListenPublic = ListenBusiness" "internal_path (hq_pathname ?page)"
    by (simp_all add: internal_path_def bare_request_def)
  then have "fetch_step ?d ?o 9 False ListenPublic ?page ?a = (Inr (Answered (not_exposed ListenPublic)), ?a)"
    using internal_interface_kept[of ListenPublic ?page ?d ?o 9 False ?a] by auto
  moreover have "wrong_secret ?d ?forward \<and> cluster_request ?forward"
    by (simp add: wrong_secret_def cluster_request_def bare_request_def shop_app_deps_def shop_http_def truthy_def)
  then have "\<exists>page. fetch_step ?d ?o 9 False ListenControl ?forward ?a = (Inr (Answered page), ?a)"
    using internal_interface_kept[of ListenControl ?forward ?d ?o 9 False ?a] by blast
  ultimately show ?thesis by (simp add: Let_def)
qed

text \<open>One request that ends while the gateway waits.\<close>

theorem drain_waits_for_open_requests_witness:
  "ra_open (app_run (shop_app_deps ''c'' example_deps) (shop_options example_config)
      [Fetched 9 False ListenPublic (shop_request ''/shop'' []), ShutdownBegins, BodyEnds 0, BodyEnds 0] (shop_app (new_gateway new_locator))) = []"
proof -
  let ?d = "shop_app_deps ''c'' example_deps" and ?o = "shop_options example_config"
  let ?events = "\<lambda>t::int. [Fetched 9 False ListenPublic (shop_request ''/shop'' []), ShutdownBegins] @ (if t \<ge> 30 then [BodyEnds 0, BodyEnds 0] else [])"
  let ?inflight = "\<lambda>t. ra_inFlight (app_run ?d ?o (?events t) (shop_app (new_gateway new_locator)))"
  have begun: "app_run ?d ?o [Fetched 9 False ListenPublic (shop_request ''/shop'' []), ShutdownBegins] (shop_app (new_gateway new_locator))
      = app_begin_shutdown ?o ((shop_app (new_gateway new_locator))\<lparr>ra_inFlight := 1, ra_open := [0], ra_nextRequest := 1\<rparr>)"
    unfolding app_run_def
    by (simp add: fetch_step_def Let_def is_path_allowed_on_listener_def internal_only_path_prefixes_def shop_options_def
        resolve_listener_allowed_path_prefixes_def admin_page_def shop_request_def shop_app_def track_def begin_tracked_http_request_def)
  have count: "?inflight t = (if t \<ge> 30 then 0 else 1)" for t
    using begun by (simp add: app_run_def app_begin_shutdown_def body_ends_def release_http_request_def)
  have wait: "wait_for_http_drain ?inflight (\<lambda>t. 0) (Some 100) None 10 = (True, 35)"
    unfolding count wait_for_http_drain_def Let_def
    by (simp add: drain_loop.simps[of _ _ _ _ 10] drain_loop.simps[of _ _ _ _ 35])
  have history: "\<forall>t. ?inflight t = ra_inFlight (app_run ?d ?o (?events t) (shop_app (new_gateway new_locator)))" by simp
  have "ra_open (app_run ?d ?o (?events 35) (shop_app (new_gateway new_locator))) = []"
    using drain_waits_for_open_requests[OF _ _ history wait] by (simp add: shop_app_def)
  then show ?thesis by simp
qed

section \<open>Findings\<close>

text \<open>The hop count comes from the client. One that is not a number never ends: every gateway forwards it, as the
  same word; a negative one lets the request be forwarded as often as the client likes.\<close>

lemma client_decides_hops:
  assumes "map_of (hq_headers r) hop_header = Some text" "text = ''x'' \<or> text = ''NaN'' \<or> text = ''-5''"
    and "hq_headers r2 = fold (\<lambda>(k, v). set_header k v) (forward_headers d (request_input r traceId)) (hq_headers r)"
  shows "\<not> num_le max_forward_hops (forward_hop r)
    \<and> map_of (hq_headers r2) hop_header = Some (if text = ''-5'' then ''-4'' else ''NaN'')
    \<and> \<not> num_le max_forward_hops (forward_hop r2)"
proof -
  have one: "forward_hop r = (if text = ''-5'' then Fin (- 5) else NaN)"
    using assms(1,2) by (auto simp: forward_hop_def to_number_values)
  have "num_shift (fi_forwardHop (request_input r traceId)) 1 = (if text = ''-5'' then Fin (- 4) else NaN)"
    by (simp add: request_input_def one)
  then have two: "map_of (hq_headers r2) hop_header = Some (if text = ''-5'' then ''-4'' else ''NaN'')"
    using assms(3) by (simp add: forward_headers_hop number_text_values)
  then have "forward_hop r2 = (if text = ''-5'' then Fin (- 4) else NaN)" by (simp add: forward_hop_def to_number_values)
  then show ?thesis using one two by (simp add: max_forward_hops_def num_le_def)
qed

text \<open>A path that begins with two slashes names the server the upstream request is sent to.\<close>

lemma path_chooses_upstream:
  assumes "hq_pathname r = ''//evil/x''" "\<And>s. px_origin d s = Inr origin"
  shows "\<exists>out. upstream_request d r p g traceId = Inr out \<and> to_authority (og_origin out) = ''evil'' \<and> og_path out = ''/x''"
  using assms by (simp add: upstream_request_def resolve_against_def Let_def)

text \<open>Any other path goes to the configured origin.\<close>

lemma other_paths_keep_origin:
  assumes "\<not> prefix ''//'' (hq_pathname r)" "\<And>s. px_origin d s = Inr origin" "upstream_request d r p g traceId = Inr out"
  shows "og_origin out = origin \<and> og_path out = hq_pathname r"
proof -
  have "resolve_against origin (hq_pathname r) = Inr (origin, hq_pathname r)"
    using assms(1) by (auto simp: resolve_against_def split: list.split)
  then show ?thesis using assms(2,3) by (auto simp: upstream_request_def Let_def)
qed

lemma prefix_ignores_segments:
  "find_pipeline ''/shoplifting'' [shop_pipeline] = Some shop_pipeline"
  by (simp add: find_pipeline_def shop_pipeline_def)

text \<open>A gateway that shuts down refuses its own clients and still takes what others forward.\<close>

lemma draining_gateway_takes_forwarded:
  assumes "ra_shuttingDown a" "is_path_allowed_on_listener opts ''/__cluster/http-forward'' l"
    and "hq_pathname r = ''/__cluster/http-forward''" "forwarded_request d False r = Inr q"
  shows "fst (fetch_step d opts now upgraded l r a) = Inr (Handling (Some (ra_nextRequest a)) q)"
  using assms unfolding fetch_step_def Let_def
  by (simp add: admin_page_def track_def begin_tracked_http_request_def)

lemma draining_gateway_refuses_clients:
  assumes "ra_shuttingDown a" "\<not> internal_path (hq_pathname r)" "is_path_allowed_on_listener opts (hq_pathname r) l"
  shows "\<exists>body. fetch_step d opts now upgraded l r a = (Inr (Answered (JsonPage 503 body)), a)"
proof -
  have "\<not> prefix ''/__cluster'' (hq_pathname r)" "\<not> prefix ''/__admin'' (hq_pathname r)" using assms(2) by (auto simp: internal_path_def)
  then have "admin_page d opts now (hq_pathname r) a = None" "hq_pathname r \<notin> {''/__admin/runtime/summary'', ''/__cluster/ws'',
      ''/__cluster/locate'', ''/__cluster/ws-forward'', ''/__cluster/http-forward'', ''/__cluster/deliver'', ''/__cluster/handle-ack''}"
    by (auto simp: admin_page_def Let_def)
  then show ?thesis using assms(1,3) unfolding fetch_step_def Let_def by simp
qed

end
