(* ===== verification/Cluster_Wiring.thy ===== *)
theory Cluster_Wiring
  imports Cluster_Network_Props Control_Routing
begin

text \<open>How an application wires the peer health store, the topology store and the cluster network together
  (runtime/app.ts, the subscriptions of createRuntimeApp): the network observes peers, the health store
  judges them and announces its judgement, and the topology store routes by it.

  The store calls its listeners while it changes: \<open>announce\<close> hands on what an operation announced. What the
  network observes waits in its log, and \<open>feed_next\<close> is the call of the observer for the next entry. The
  location cache is represented by how often it was invalidated. Metrics and log calls are left out.\<close>

section \<open>The subscriptions\<close>

record wiring =
  wi_health :: health_store
  wi_topology :: topology_store
  wi_network :: network
  wi_fed :: nat
  wi_invalidations :: nat

record wiring_deps =
  wd_cluster :: cluster_config
  wd_network :: nw_deps
  wd_localeCompare :: "string \<Rightarrow> string \<Rightarrow> int"
  wd_nodeId :: string

text \<open>The application is listener 0 of both stores.\<close>

definition new_wiring :: "(string \<times> string) list \<Rightarrow> wiring" where
  "new_wiring peers = \<lparr>wi_health = health_subscribe 0 (note_known_peers (map fst peers) new_health_store),
     wi_topology = \<lparr>ts_topology = None, ts_listeners = [0], ts_peerHealth = [], ts_notified = []\<rparr>,
     wi_network = new_network peers, wi_fed = 0, wi_invalidations = 0\<rparr>"

text \<open>The listener of the health store.\<close>

definition rumor_excluded :: "health_snapshot \<Rightarrow> string list" where
  "rumor_excluded snapshot = sn_nodeId snapshot # (if truthy (sn_reportedBy snapshot) then [the (sn_reportedBy snapshot)] else [])"

definition on_peer_health :: "wiring_deps \<Rightarrow> int \<Rightarrow> health_snapshot \<Rightarrow> wiring \<Rightarrow> wiring" where
  "on_peer_health d now snapshot w =
    (let w1 = w\<lparr>wi_topology := set_runtime_peer_health (sn_nodeId snapshot) (sn_status snapshot) (wi_topology w)\<rparr>;
         w2 = w1\<lparr>wi_network := broadcast_rumor (wd_cluster d) (wd_network d) now snapshot (rumor_excluded snapshot) (wi_network w1)\<rparr>
     in if sn_status snapshot = Dead
        then w2\<lparr>wi_network := disconnect_peer (sn_nodeId snapshot) ''cluster peer marked dead'' (wi_network w2),
                wi_invalidations := Suc (wi_invalidations w2)\<rparr>
        else w2)"

definition announce :: "wiring_deps \<Rightarrow> int \<Rightarrow> (nat \<times> health_snapshot) list \<Rightarrow> wiring \<Rightarrow> wiring" where
  "announce d now emitted w = fold (on_peer_health d now) (map snd (filter (\<lambda>e. fst e = 0) emitted)) w"

text \<open>An operation of the health store, with what it announces.\<close>

definition with_health :: "wiring_deps \<Rightarrow> int \<Rightarrow> (health_store \<Rightarrow> health_store) \<Rightarrow> wiring \<Rightarrow> wiring" where
  "with_health d now f w =
    (let h = f (wi_health w)
     in announce d now (drop (length (hs_emitted (wi_health w))) (hs_emitted h)) (w\<lparr>wi_health := h\<rparr>))"

text \<open>The listener of the topology store, and a topology that is set.\<close>

definition on_topology :: "wiring_deps \<Rightarrow> wiring \<Rightarrow> wiring" where
  "on_topology d w =
    (let dynamicPeers = list_cluster_peers (wd_localeCompare d) (wi_topology w) (Some (wd_nodeId d));
         ids = map cp_nodeId dynamicPeers
     in w\<lparr>wi_health := note_known_peers ids (wi_health w),
          wi_topology := clear_runtime_peer_health ids (wi_topology w),
          wi_network := set_peers (map (\<lambda>p. (cp_nodeId p, cp_baseUrl p)) dynamicPeers) (wi_network w)\<rparr>)"

definition topology_arrives :: "wiring_deps \<Rightarrow> desired_topology option \<Rightarrow> wiring \<Rightarrow> wiring" where
  "topology_arrives d t w = on_topology d (w\<lparr>wi_topology := set_topology t (wi_topology w)\<rparr>)"

section \<open>What the network observes\<close>

fun observe :: "int \<Rightarrow> observed \<Rightarrow> health_store \<Rightarrow> health_store" where
  "observe now (observed.MarkAlive n detail) h = mark_alive now n (Some detail) h"
| "observe now (observed.MarkSuspect n detail) h = mark_suspect now n (Some detail) h"
| "observe now (observed.ApplyRumor r from1) h = snd (apply_rumor now r from1 h)"

definition feed_next :: "wiring_deps \<Rightarrow> int \<Rightarrow> wiring \<Rightarrow> wiring" where
  "feed_next d now w =
    (if wi_fed w < length (nw_observed (wi_network w))
     then with_health d now (observe now (nw_observed (wi_network w) ! wi_fed w)) (w\<lparr>wi_fed := Suc (wi_fed w)\<rparr>)
     else w)"

definition suspect_timer_fires :: "wiring_deps \<Rightarrow> int \<Rightarrow> nat \<Rightarrow> wiring \<Rightarrow> wiring" where
  "suspect_timer_fires d now t w = with_health d now (fire_timer now t) w"

section \<open>Runs\<close>

datatype wiring_event =
    NetworkMoves network
  | FeedNext int
  | SuspectTimer int nat
  | TopologyArrives "desired_topology option"

fun wiring_step :: "wiring_deps \<Rightarrow> wiring_event \<Rightarrow> wiring \<Rightarrow> wiring" where
  "wiring_step d (NetworkMoves n) w = w\<lparr>wi_network := n\<rparr>"
| "wiring_step d (FeedNext now) w = feed_next d now w"
| "wiring_step d (SuspectTimer now t) w = suspect_timer_fires d now t w"
| "wiring_step d (TopologyArrives t) w = topology_arrives d t w"

text \<open>A rumor is never about the status unknown: its type excludes it. The network moves by any of its operations.\<close>

fun observed_ok :: "observed \<Rightarrow> bool" where
  "observed_ok (observed.ApplyRumor r from1) = (ru_status r \<noteq> Unknown)"
| "observed_ok _ = True"

fun feeds_ok :: "wiring \<Rightarrow> wiring_event \<Rightarrow> bool" where
  "feeds_ok w (FeedNext now) =
     (wi_fed w < length (nw_observed (wi_network w)) \<longrightarrow> observed_ok (nw_observed (wi_network w) ! wi_fed w))"
| "feeds_ok w _ = True"

inductive wired :: "wiring_deps \<Rightarrow> wiring \<Rightarrow> bool" for d where
  wired_new: "wired d (new_wiring peers)"
| wired_step: "wired d w \<Longrightarrow> feeds_ok w e \<Longrightarrow> wired d (wiring_step d e w)"

section \<open>The topology store knows what the health store thinks\<close>

definition topology_status :: "topology_store \<Rightarrow> string \<Rightarrow> health_status" where
  "topology_status s n = (case map_of (ts_peerHealth s) n of None \<Rightarrow> Unknown | Some st \<Rightarrow> st)"

definition in_step :: "wiring \<Rightarrow> bool" where
  "in_step w \<longleftrightarrow> health_ok (wi_health w) \<and> hs_listeners (wi_health w) = [0]
     \<and> (\<forall>n. topology_status (wi_topology w) n = get_status (wi_health w) n)"

text \<open>An operation on one peer announces its new status, or leaves every status as it was.\<close>

lemma good_step_status:
  assumes "good_step n h h'" "health_ok h'" "hs_listeners h = [0]"
  shows "hs_listeners h' = [0] \<and> (hs_emitted h' = hs_emitted h \<and> (\<forall>m. get_status h' m = get_status h m)
    \<or> (\<exists>sn. hs_emitted h' = hs_emitted h @ [(0, sn)] \<and> sn_nodeId sn = n \<and>
         (\<forall>m. get_status h' m = (if m = n then sn_status sn else get_status h m))))"
proof (cases "h' = h")
  case True
  then show ?thesis using assms(3) by simp
next
  case False
  then obtain e0 e1 snaps where t: "touched n h e0 e1 snaps h'" and a: "advances e0 e1 snaps"
    using assms(1) by (auto simp: good_step_def)
  have entries: "map_of (hs_entries h') = (map_of (hs_entries h))(n \<mapsto> e1)" "map_of (hs_entries h) n = e0"
    and l: "hs_listeners h' = [0]"
    and em: "hs_emitted h' = hs_emitted h @ concat (map (\<lambda>sn. [(0, sn)]) snaps)"
    using t assms(3) by (simp_all add: touched_def)
  have node: "hl_nodeId e1 = n"
    using timers_linkedD(1)[of h' n e1] t entries(1) by (simp add: touched_def)
  from a show ?thesis unfolding advances_def
  proof
    assume "\<exists>e. e0 = Some e \<and> entry_key e1 = entry_key e \<and> snaps = []"
    then show ?thesis using entries l em by (auto simp: get_status_def entry_key_def)
  next
    assume "(\<forall>e. e0 = Some e \<longrightarrow> entry_key e < entry_key e1) \<and> (\<exists>sn. snaps = [sn] \<and> sn_nodeId sn = hl_nodeId e1 \<and> (sn_incarnation sn, sn_status sn) = entry_key e1)"
    then obtain sn where sn: "snaps = [sn]" "sn_nodeId sn = n" "sn_status sn = hl_status e1"
      using node by (auto simp: entry_key_def)
    then show ?thesis using entries l em by (auto simp: get_status_def)
  qed
qed

lemma announced_topology:
  "wi_health (on_peer_health d now sn w) = wi_health w"
  "topology_status (wi_topology (on_peer_health d now sn w)) n =
     (if n = sn_nodeId sn then sn_status sn else topology_status (wi_topology w) n)"
  by (simp_all add: on_peer_health_def Let_def topology_status_def set_runtime_peer_health_def)

lemma in_step_health:
  assumes w: "in_step w" and good: "good_step n (wi_health w) (f (wi_health w))"
  shows "in_step (with_health d now f w)"
proof -
  let ?h = "wi_health w" and ?h' = "f (wi_health w)"
  have ok: "health_ok ?h'" using good_step_ok[OF _ good] w by (simp add: in_step_def)
  have l: "hs_listeners ?h = [0]" using w by (simp add: in_step_def)
  from good_step_status[OF good ok l] show ?thesis
  proof (elim conjE disjE exE)
    assume "hs_listeners ?h' = [0]" and em: "hs_emitted ?h' = hs_emitted ?h" and st: "\<forall>m. get_status ?h' m = get_status ?h m"
    then show ?thesis using w ok by (simp add: with_health_def Let_def announce_def in_step_def)
  next
    fix sn
    assume "hs_listeners ?h' = [0]" and em: "hs_emitted ?h' = hs_emitted ?h @ [(0, sn)]" and "sn_nodeId sn = n"
      and st: "\<forall>m. get_status ?h' m = (if m = n then sn_status sn else get_status ?h m)"
    moreover have "with_health d now f w = on_peer_health d now sn (w\<lparr>wi_health := ?h'\<rparr>)"
      by (simp add: with_health_def Let_def announce_def em)
    ultimately show ?thesis using w ok by (simp add: in_step_def announced_topology)
  qed
qed

lemma observe_good:
  assumes "health_ok h" "observed_ok ob"
  shows "\<exists>n. good_step n h (observe now ob h)"
  using assms by (cases ob) (auto intro: mark_alive_good mark_suspect_good apply_rumor_good)

lemma cleared_status:
  "topology_status (clear_runtime_peer_health ids s) n = (if n \<in> set ids then topology_status s n else Unknown)"
proof -
  have "map_of (filter (\<lambda>e. fst e \<in> set ids) m) n = (if n \<in> set ids then map_of m n else None)" for m :: "(string, health_status) js_map"
    by (induction m) auto
  then show ?thesis by (simp add: topology_status_def clear_runtime_peer_health_def)
qed

lemma in_step_topology:
  assumes "in_step w"
  shows "in_step (topology_arrives d t w)"
proof -
  have st: "get_status (note_known_peers ids h) n = (if n \<in> set ids then get_status h n else Unknown)" for ids h n
    by (simp add: get_status_def note_known_entries)
  have set1: "topology_status (set_topology t s) n = topology_status s n" for s n
    by (simp add: topology_status_def set_topology_def)
  show ?thesis using assms unfolding topology_arrives_def on_topology_def Let_def
    by (simp add: in_step_def note_known_ok note_known_frame st cleared_status set1 cong: if_cong)
qed

lemma in_step_new: "in_step (new_wiring peers)"
proof -
  have ok: "health_ok (note_known_peers (map fst peers) new_health_store)" by (rule note_known_ok[OF health_init_ok])
  have frame: "hs_listeners (note_known_peers (map fst peers) new_health_store) = []"
    by (simp add: note_known_frame new_health_store_def)
  have "get_status (note_known_peers (map fst peers) new_health_store) n = Unknown" for n
    by (simp add: get_status_def note_known_entries new_health_store_def)
  then show ?thesis using ok frame subscribe_ok[OF ok, of 0]
    by (simp add: in_step_def new_wiring_def topology_status_def health_subscribe_def get_status_def)
qed

lemma in_step_wired: "wired d w \<Longrightarrow> in_step w"
proof (induction rule: wired.induct)
  case (wired_new peers)
  show ?case by (rule in_step_new)
next
  case (wired_step w e)
  show ?case
  proof (cases e)
    case (NetworkMoves n)
    then show ?thesis using wired_step.IH by (simp add: in_step_def)
  next
    case (FeedNext now)
    show ?thesis
    proof (cases "wi_fed w < length (nw_observed (wi_network w))")
      case True
      let ?ob = "nw_observed (wi_network w) ! wi_fed w" and ?w = "w\<lparr>wi_fed := Suc (wi_fed w)\<rparr>"
      have w: "in_step ?w" using wired_step.IH by (simp add: in_step_def)
      have "health_ok (wi_health w)" "observed_ok ?ob" using wired_step FeedNext True by (simp_all add: in_step_def)
      then obtain n where "good_step n (wi_health ?w) (observe now ?ob (wi_health ?w))" using observe_good by fastforce
      then show ?thesis using in_step_health[where f = "observe now ?ob", OF w] FeedNext True by (simp add: feed_next_def)
    next
      case False
      then show ?thesis using wired_step.IH FeedNext by (simp add: feed_next_def)
    qed
  next
    case (SuspectTimer now t)
    have "health_ok (wi_health w)" using wired_step.IH by (simp add: in_step_def)
    from fire_timer_good[OF this, of now t] obtain n where "good_step n (wi_health w) (fire_timer now t (wi_health w))"
      by (auto simp: good_step_def)
    then show ?thesis using in_step_health[OF wired_step.IH] SuspectTimer by (simp add: suspect_timer_fires_def)
  next
    case (TopologyArrives t)
    then show ?thesis using in_step_topology[OF wired_step.IH] by simp
  qed
qed

text \<open>C36: A gateway routes by what its health store knows. Whatever the network observes, whichever timers fire and
  whichever topologies arrive, in any order, the topology store holds for every peer the status the health store
  has for it; so no request is forwarded to a node the health store holds dead, and no message is looked up there.\<close>

theorem routing_follows_health:
  assumes "wired d w"
  shows "topology_status (wi_topology w) n = get_status (wi_health w) n
    \<and> (\<forall>t node. resolve_http_route_target lc (wi_topology w) pathname self key = Some t \<and> rt_nodeId t = Some node \<and> node \<noteq> []
         \<longrightarrow> get_status (wi_health w) node \<noteq> Dead)
    \<and> (\<forall>ids. list_cluster_peer_node_ids lc (wi_topology w) self scope = Some ids
         \<longrightarrow> (\<forall>node\<in>set ids. node \<noteq> [] \<longrightarrow> get_status (wi_health w) node \<noteq> Dead))"
proof -
  have agree: "topology_status (wi_topology w) n = get_status (wi_health w) n" for n
    using in_step_wired[OF assms] by (simp add: in_step_def)
  have peer: "node \<noteq> [] \<Longrightarrow> peer_status (wi_topology w) (Some node) = get_status (wi_health w) node" for node
    using agree[of node] by (simp add: peer_status_def topology_status_def)
  have "get_status (wi_health w) node \<noteq> Dead"
    if r: "resolve_http_route_target lc (wi_topology w) pathname self key = Some t" and n: "rt_nodeId t = Some node" "node \<noteq> []" for t node
  proof -
    obtain route h where "(t, h) \<in> set (route_candidates (wi_topology w) route self)" using resolved_candidate[OF r] by blast
    then have "peer_status (wi_topology w) (rt_nodeId t) \<noteq> Dead" by (auto simp: route_candidates_def)
    then show ?thesis using peer[OF n(2)] n(1) by simp
  qed
  moreover have "\<forall>node\<in>set ids. node \<noteq> [] \<longrightarrow> get_status (wi_health w) node \<noteq> Dead"
    if "list_cluster_peer_node_ids lc (wi_topology w) self scope = Some ids" for ids
    using that peer by (auto simp: list_cluster_peer_node_ids_def Let_def split: if_splits option.splits)
  ultimately show ?thesis using agree by blast
qed

section \<open>Examples\<close>

text \<open>A node with one peer, which a probe found silent; with and without an open channel to it.\<close>

definition wiring_deps_example :: wiring_deps where
  "wiring_deps_example = \<lparr>wd_cluster = example_cluster, wd_network = example_nw_deps, wd_localeCompare = code_unit_compare, wd_nodeId = ''n1''\<rparr>"

definition silent_peer :: "bool \<Rightarrow> network" where
  "silent_peer linked = note_peer_suspect ''n2'' ''probe_timeout''
     ((new_network [(''n2'', ''http://n2'')])\<lparr>nw_channels := (if linked then [(''n2'', 0)] else [])\<rparr>)"

definition wiring_run :: "wiring_event list \<Rightarrow> wiring" where
  "wiring_run es = foldl (\<lambda>w e. wiring_step wiring_deps_example e w) (new_wiring [(''n2'', ''http://n2'')]) es"

lemma routing_follows_health_witness:
  "topology_status (wi_topology (wiring_run [NetworkMoves (silent_peer False), FeedNext 1, SuspectTimer 2 0])) ''n2'' = Dead"
proof -
  let ?w0 = "new_wiring [(''n2'', ''http://n2'')]"
  let ?w1 = "wiring_step wiring_deps_example (NetworkMoves (silent_peer False)) ?w0"
  let ?w2 = "wiring_step wiring_deps_example (FeedNext 1) ?w1"
  let ?w3 = "wiring_step wiring_deps_example (SuspectTimer 2 0) ?w2"
  have "wired wiring_deps_example ?w1" by (rule wired_step[OF wired_new]) simp
  moreover have "feeds_ok ?w1 (FeedNext 1)" by code_simp
  ultimately have "wired wiring_deps_example ?w2" by (rule wired_step)
  then have w: "wired wiring_deps_example ?w3" by (rule wired_step) simp
  have "get_status (wi_health ?w3) ''n2'' = Dead" by code_simp
  then show ?thesis using routing_follows_health[OF w, of "''n2''"] by (simp add: wiring_run_def)
qed

text \<open>A peer declared dead over an open channel is not dead for long: the channel is closed, closing it counts as a
  new suspicion, and the suspicion takes the peer back among those that are routed to.\<close>

lemma declared_dead_is_suspect_again:
  "get_status (wi_health (wiring_run [NetworkMoves (silent_peer True), FeedNext 1, SuspectTimer 2 0])) ''n2'' = Dead
   \<and> get_status (wi_health (wiring_run [NetworkMoves (silent_peer True), FeedNext 1, SuspectTimer 2 0, FeedNext 2])) ''n2'' = Suspect
   \<and> topology_status (wi_topology (wiring_run [NetworkMoves (silent_peer True), FeedNext 1, SuspectTimer 2 0, FeedNext 2])) ''n2'' = Suspect"
  by (intro conjI; code_simp)

end
