(* ===== verification/Metrics_Alerts.thy ===== *)
theory Metrics_Alerts
  imports Http_Ingress
begin

text \<open>The counters and timings of a gateway (runtime/observability/metrics.ts), the alerts on what a window added
  to them (alerts.ts) and their text for Prometheus (prometheus.ts).

  Numbers are exact where JavaScript rounds; for the ratios of the code the index of a percentile is the same
  for every sample count below two millions. The text of a number that is not an integer is a parameter. A warning is the
  value it is logged with, without the window it repeats from the configuration.\<close>

section \<open>Metrics\<close>

record metrics_snapshot =
  sp_counters :: "(string, rat) js_map"
  sp_timings :: "(string, rat list) js_map"
  sp_timingCounts :: "(string, int) js_map"

definition count_of :: "(string, rat) js_map \<Rightarrow> string \<Rightarrow> rat" where
  "count_of m name = (case map_of m name of None \<Rightarrow> 0 | Some v \<Rightarrow> v)"

definition values_of :: "(string, rat list) js_map \<Rightarrow> string \<Rightarrow> rat list" where
  "values_of m name = (case map_of m name of None \<Rightarrow> [] | Some vs \<Rightarrow> vs)"

record in_memory_metrics =
  im_counters :: "(string, rat) js_map"
  im_timings :: "(string, rat list) js_map"

definition new_in_memory_metrics :: in_memory_metrics where
  "new_in_memory_metrics = \<lparr>im_counters = [], im_timings = []\<rparr>"

definition im_increment :: "string \<Rightarrow> rat \<Rightarrow> in_memory_metrics \<Rightarrow> in_memory_metrics" where
  "im_increment name value m = m\<lparr>im_counters := map_set name (count_of (im_counters m) name + value) (im_counters m)\<rparr>"

definition im_timing :: "string \<Rightarrow> rat \<Rightarrow> in_memory_metrics \<Rightarrow> in_memory_metrics" where
  "im_timing name v m = m\<lparr>im_timings := map_set name (values_of (im_timings m) name @ [v]) (im_timings m)\<rparr>"

definition im_snapshot :: "in_memory_metrics \<Rightarrow> metrics_snapshot" where
  "im_snapshot m = \<lparr>sp_counters = im_counters m, sp_timings = im_timings m,
     sp_timingCounts = map (\<lambda>(name, vs). (name, int (length vs))) (im_timings m)\<rparr>"

definition im_reset :: "in_memory_metrics \<Rightarrow> in_memory_metrics" where
  "im_reset m = new_in_memory_metrics"

record windowed_metrics =
  wn_counters :: "(string, rat) js_map"
  wn_timings :: "(string, rat list) js_map"
  wn_timingCounts :: "(string, int) js_map"
  wn_max :: nat

definition new_windowed_metrics :: "nat option \<Rightarrow> windowed_metrics" where
  "new_windowed_metrics limit = \<lparr>wn_counters = [], wn_timings = [], wn_timingCounts = [],
     wn_max = (case limit of None \<Rightarrow> 1024 | Some n \<Rightarrow> n)\<rparr>"

definition wn_increment :: "string \<Rightarrow> rat \<Rightarrow> windowed_metrics \<Rightarrow> windowed_metrics" where
  "wn_increment name value m = m\<lparr>wn_counters := map_set name (count_of (wn_counters m) name + value) (wn_counters m)\<rparr>"

definition wn_timing :: "string \<Rightarrow> rat \<Rightarrow> windowed_metrics \<Rightarrow> windowed_metrics" where
  "wn_timing name v m =
    (let vs = values_of (wn_timings m) name @ [v];
         counts = map_set name ((case map_of (wn_timingCounts m) name of None \<Rightarrow> 0 | Some c \<Rightarrow> c) + 1) (wn_timingCounts m);
         kept = (if length vs > wn_max m then drop (length vs - wn_max m) vs else vs)
     in m\<lparr>wn_timings := map_set name kept (wn_timings m), wn_timingCounts := counts\<rparr>)"

definition wn_snapshot :: "windowed_metrics \<Rightarrow> metrics_snapshot" where
  "wn_snapshot m = \<lparr>sp_counters = wn_counters m, sp_timings = wn_timings m, sp_timingCounts = wn_timingCounts m\<rparr>"

text \<open>A composite hands every call to each of its sinks.\<close>

definition composite_increment :: "(string \<Rightarrow> rat \<Rightarrow> 's \<Rightarrow> 's) list \<Rightarrow> string \<Rightarrow> rat \<Rightarrow> 's \<Rightarrow> 's" where
  "composite_increment sinks name value s = fold (\<lambda>sink. sink name value) sinks s"

definition composite_timing :: "(string \<Rightarrow> rat \<Rightarrow> 's \<Rightarrow> 's) list \<Rightarrow> string \<Rightarrow> rat \<Rightarrow> 's \<Rightarrow> 's" where
  "composite_timing sinks name v s = fold (\<lambda>sink. sink name v) sinks s"

section \<open>Percentiles\<close>

definition by_size :: "rat \<Rightarrow> rat \<Rightarrow> int" where
  "by_size left right = (if left < right then - 1 else if left = right then 0 else 1)"

definition percentile :: "rat list \<Rightarrow> rat \<Rightarrow> rat" where
  "percentile vs ratio =
    (if vs = [] then 0
     else (let sorted = js_sort by_size vs;
               index = min (int (length sorted) - 1) (max 0 (\<lceil>of_nat (length sorted) * ratio\<rceil> - 1))
           in if 0 \<le> index \<and> nat index < length sorted then sorted ! nat index else 0))"

section \<open>Alerts\<close>

record alert_thresholds =
  th_httpErrors :: "rat option"
  th_upstreamTimeouts :: "rat option"
  th_upstreamUnavailable :: "rat option"
  th_workerErrors :: "rat option"
  th_wsErrors :: "rat option"
  th_wsBackpressureEvents :: "rat option"
  th_wsRateLimitExceeded :: "rat option"
  th_wsHeartbeatTimeouts :: "rat option"
  th_httpRequestP99Ms :: "rat option"
  th_upstreamP99Ms :: "rat option"
  th_workerP99Ms :: "rat option"

datatype metrics_alert =
    CounterAlert string string rat rat
  | TimingAlert string string rat rat nat

definition counter_delta :: "metrics_snapshot \<Rightarrow> metrics_snapshot \<Rightarrow> string \<Rightarrow> rat" where
  "counter_delta current previous name = count_of (sp_counters current) name - count_of (sp_counters previous) name"

definition timing_count :: "metrics_snapshot \<Rightarrow> string \<Rightarrow> int" where
  "timing_count s name = (case map_of (sp_timingCounts s) name of
     None \<Rightarrow> int (length (values_of (sp_timings s) name)) | Some c \<Rightarrow> c)"

definition appended_timings :: "metrics_snapshot \<Rightarrow> metrics_snapshot \<Rightarrow> string \<Rightarrow> rat list" where
  "appended_timings current previous name =
    (let currentValues = values_of (sp_timings current) name;
         appendedCount = timing_count current name - timing_count previous name
     in if appendedCount \<le> 0 then []
        else drop (nat (max 0 (int (length currentValues) - appendedCount))) currentValues)"

record alert_monitor =
  mo_previous :: metrics_snapshot
  mo_checkedAt :: int
  mo_warned :: "metrics_alert list"

definition new_alert_monitor :: "metrics_snapshot \<Rightarrow> int \<Rightarrow> alert_monitor" where
  "new_alert_monitor snapshot now = \<lparr>mo_previous = snapshot, mo_checkedAt = now, mo_warned = []\<rparr>"

definition warn_on_counter :: "string \<Rightarrow> string \<Rightarrow> rat option \<Rightarrow> metrics_snapshot \<Rightarrow> alert_monitor \<Rightarrow> alert_monitor" where
  "warn_on_counter alert counterName threshold current m = (case threshold of
     None \<Rightarrow> m
   | Some t \<Rightarrow>
      (let delta = counter_delta current (mo_previous m) counterName
       in if delta < t then m else m\<lparr>mo_warned := mo_warned m @ [CounterAlert alert counterName t delta]\<rparr>))"

definition warn_on_timing :: "string \<Rightarrow> string \<Rightarrow> rat option \<Rightarrow> metrics_snapshot \<Rightarrow> alert_monitor \<Rightarrow> alert_monitor" where
  "warn_on_timing alert timingName threshold current m = (case threshold of
     None \<Rightarrow> m
   | Some t \<Rightarrow>
      (let vs = appended_timings current (mo_previous m) timingName
       in if vs = [] \<or> percentile vs (99 / 100) < t then m
          else m\<lparr>mo_warned := mo_warned m @ [TimingAlert alert timingName t (percentile vs (99 / 100)) (length vs)]\<rparr>))"

definition counter_alerts :: "alert_thresholds \<Rightarrow> (string \<times> string \<times> rat option) list" where
  "counter_alerts th =
    [(''http.error_rate_high'', ''http.error'', th_httpErrors th),
     (''http.upstream_timeout_high'', ''http.upstream_timeout'', th_upstreamTimeouts th),
     (''http.upstream_unavailable_high'', ''http.upstream_unavailable'', th_upstreamUnavailable th),
     (''worker.error_rate_high'', ''worker.run_error'', th_workerErrors th),
     (''ws.error_rate_high'', ''ws.error'', th_wsErrors th),
     (''ws.backpressure_high'', ''ws.egress_backpressure'', th_wsBackpressureEvents th),
     (''ws.rate_limit_high'', ''ws.rate_limit_exceeded'', th_wsRateLimitExceeded th),
     (''ws.heartbeat_timeout_high'', ''ws.heartbeat_timeout'', th_wsHeartbeatTimeouts th)]"

definition timing_alerts :: "alert_thresholds \<Rightarrow> (string \<times> string \<times> rat option) list" where
  "timing_alerts th =
    [(''http.request_p99_high'', ''http.request_ms'', th_httpRequestP99Ms th),
     (''http.upstream_p99_high'', ''http.upstream_ms'', th_upstreamP99Ms th),
     (''worker.run_p99_high'', ''worker.run_ms'', th_workerP99Ms th)]"

definition check_alerts :: "alert_thresholds \<Rightarrow> metrics_snapshot \<Rightarrow> int \<Rightarrow> alert_monitor \<Rightarrow> alert_monitor" where
  "check_alerts th current now m =
    (let m1 = fold (\<lambda>(alert, name, t). warn_on_counter alert name t current) (counter_alerts th) m;
         m2 = fold (\<lambda>(alert, name, t). warn_on_timing alert name t current) (timing_alerts th) m1
     in m2\<lparr>mo_previous := current, mo_checkedAt := now\<rparr>)"

section \<open>Prometheus\<close>

definition word_char :: "char \<Rightarrow> bool" where
  "word_char c = (let n = (of_char c :: nat) in 48 \<le> n \<and> n \<le> 57 \<or> 65 \<le> n \<and> n \<le> 90 \<or> 97 \<le> n \<and> n \<le> 122 \<or> n = 95)"

definition sanitize_metric_name :: "string \<Rightarrow> string" where
  "sanitize_metric_name name = map (\<lambda>c. if word_char c then c else CHR ''_'') name"

record timing_summary =
  su_count :: nat
  su_sum :: rat
  su_min :: rat
  su_max :: rat
  su_avg :: rat
  su_p50 :: rat
  su_p90 :: rat
  su_p99 :: rat

definition summarize_timings :: "rat list \<Rightarrow> timing_summary" where
  "summarize_timings vs =
    (if vs = [] then \<lparr>su_count = 0, su_sum = 0, su_min = 0, su_max = 0, su_avg = 0, su_p50 = 0, su_p90 = 0, su_p99 = 0\<rparr>
     else (let total = foldl (+) 0 vs in
       \<lparr>su_count = length vs, su_sum = total, su_min = foldl min (hd vs) (tl vs), su_max = foldl max (hd vs) (tl vs),
        su_avg = total / of_nat (length vs), su_p50 = percentile vs (1 / 2), su_p90 = percentile vs (9 / 10),
        su_p99 = percentile vs (99 / 100)\<rparr>))"

definition counter_lines :: "(rat \<Rightarrow> string) \<Rightarrow> string \<Rightarrow> string \<times> rat \<Rightarrow> string list" where
  "counter_lines ft prefix1 = (\<lambda>(name, value).
    (let metricName = prefix1 @ ''_'' @ sanitize_metric_name name @ ''_total'' in
     [''# HELP '' @ metricName @ '' Hardess counter '' @ name, ''# TYPE '' @ metricName @ '' counter'',
      metricName @ '' '' @ number_text ft (Fin value)]))"

definition timing_lines :: "(rat \<Rightarrow> string) \<Rightarrow> string \<Rightarrow> string \<times> rat list \<Rightarrow> string list" where
  "timing_lines ft prefix1 = (\<lambda>(name, vs).
    (let base = prefix1 @ ''_'' @ sanitize_metric_name name @ ''_milliseconds''; s = summarize_timings vs;
         num = (\<lambda>q. number_text ft (Fin q));
         stat = (\<lambda>k q. base @ ''{stat='' @ [CHR 0x22] @ k @ [CHR 0x22] @ ''} '' @ num q)
     in [''# HELP '' @ base @ '' Hardess timing summary for '' @ name, ''# TYPE '' @ base @ '' summary'',
         base @ ''_count '' @ nat_str (su_count s), base @ ''_sum '' @ num (su_sum s),
         stat ''min'' (su_min s), stat ''max'' (su_max s), stat ''avg'' (su_avg s),
         stat ''p50'' (su_p50 s), stat ''p90'' (su_p90 s), stat ''p99'' (su_p99 s)]))"

definition js_lines :: "string list \<Rightarrow> string" where
  "js_lines ls = concat (map (\<lambda>l. l @ [CHR 0x0A]) ls)"

definition render_prometheus_metrics :: "(rat \<Rightarrow> string) \<Rightarrow> metrics_snapshot \<Rightarrow> string option \<Rightarrow> string" where
  "render_prometheus_metrics ft snapshot prefix1 =
    (let p = sanitize_metric_name (case prefix1 of None \<Rightarrow> ''hardess'' | Some x \<Rightarrow> x);
         ls = concat (map (counter_lines ft p) (sp_counters snapshot)) @ concat (map (timing_lines ft p) (sp_timings snapshot))
     in if ls = [] then [CHR 0x0A] else js_lines ls)"

end
