(* ===== verification/Metrics_Props.thy ===== *)
theory Metrics_Props
  imports Metrics_Alerts
begin

text \<open>What an alert is about: the values and the counts since the last check, however the metrics forget, and the
  percentile of them.\<close>

section \<open>The last values of a list\<close>

definition last_of :: "nat \<Rightarrow> 'a list \<Rightarrow> 'a list" where
  "last_of k xs = drop (length xs - k) xs"

lemma last_of_snoc: "last_of k (last_of k xs @ [x]) = last_of k (xs @ [x])"
  by (cases "k \<le> length xs") (auto simp: last_of_def Suc_diff_le)

lemma length_last_of: "length (last_of k xs) = min k (length xs)"
  by (simp add: last_of_def)

lemma last_of_append: "drop (length (last_of k (xs @ ys)) - length ys) (last_of k (xs @ ys)) = last_of k ys"
  by (auto simp: last_of_def min_def)

section \<open>Windowed metrics\<close>

datatype metric_event = Incremented string rat | Timed string rat

fun wn_step :: "metric_event \<Rightarrow> windowed_metrics \<Rightarrow> windowed_metrics" where
  "wn_step (Incremented name v) m = wn_increment name v m"
| "wn_step (Timed name v) m = wn_timing name v m"

definition wn_run :: "metric_event list \<Rightarrow> windowed_metrics \<Rightarrow> windowed_metrics" where
  "wn_run es m = foldl (\<lambda>m e. wn_step e m) m es"

fun timed_value :: "string \<Rightarrow> metric_event \<Rightarrow> rat list" where
  "timed_value name (Timed n v) = (if n = name then [v] else [])"
| "timed_value name _ = []"

fun counted_value :: "string \<Rightarrow> metric_event \<Rightarrow> rat" where
  "counted_value name (Incremented n v) = (if n = name then v else 0)"
| "counted_value name _ = 0"

definition timed :: "string \<Rightarrow> metric_event list \<Rightarrow> rat list" where
  "timed name es = concat (map (timed_value name) es)"

definition counted :: "string \<Rightarrow> metric_event list \<Rightarrow> rat" where
  "counted name es = sum_list (map (counted_value name) es)"

lemma wn_run_max: "wn_max (wn_run es m) = wn_max m"
proof -
  have "wn_max (wn_step e m) = wn_max m" for e m
    by (cases e) (simp_all add: wn_increment_def wn_timing_def Let_def)
  then show ?thesis unfolding wn_run_def by (induction es arbitrary: m) simp_all
qed

lemma kept_values:
  "(if length vs > k then drop (length vs - k) vs else vs) = last_of k vs"
  by (simp add: last_of_def)

lemma wn_timing_values:
  "wn_timings (wn_timing n v m) = map_set n (last_of (wn_max m) (values_of (wn_timings m) n @ [v])) (wn_timings m)"
  unfolding wn_timing_def Let_def kept_values by simp

lemma values_run:
  "values_of (wn_timings (wn_run es (new_windowed_metrics limit))) name
     = last_of (wn_max (new_windowed_metrics limit)) (timed name es)
   \<and> map_of (wn_timingCounts (wn_run es (new_windowed_metrics limit))) name
     = (if timed name es = [] then None else Some (int (length (timed name es))))
   \<and> count_of (wn_counters (wn_run es (new_windowed_metrics limit))) name = counted name es"
proof (induction es rule: rev_induct)
  case Nil
  then show ?case
    by (simp add: wn_run_def new_windowed_metrics_def values_of_def timed_def counted_def last_of_def count_of_def)
next
  case (snoc e es)
  let ?m = "wn_run es (new_windowed_metrics limit)" and ?k = "wn_max (new_windowed_metrics limit)"
  have run: "wn_run (es @ [e]) (new_windowed_metrics limit) = wn_step e ?m" by (simp add: wn_run_def)
  have k: "wn_max ?m = ?k" by (rule wn_run_max)
  show ?case
  proof (cases e)
    case (Incremented n v)
    have "timed name (es @ [e]) = timed name es" "counted name (es @ [e]) = counted name es + (if n = name then v else 0)"
      using Incremented by (simp_all add: timed_def counted_def)
    moreover have "wn_timings (wn_step e ?m) = wn_timings ?m" "wn_timingCounts (wn_step e ?m) = wn_timingCounts ?m"
      "wn_counters (wn_step e ?m) = map_set n (count_of (wn_counters ?m) n + v) (wn_counters ?m)"
      using Incremented by (simp_all add: wn_increment_def)
    ultimately show ?thesis using snoc unfolding run by (simp add: count_of_def)
  next
    case (Timed n v)
    have ts: "timed name (es @ [e]) = timed name es @ (if n = name then [v] else [])" using Timed by (simp add: timed_def)
    have step: "wn_timings (wn_step e ?m) = map_set n (last_of ?k (values_of (wn_timings ?m) n @ [v])) (wn_timings ?m)"
      using Timed by (simp add: wn_timing_values k)
    have counts: "wn_timingCounts (wn_step e ?m) = map_set n
        ((case map_of (wn_timingCounts ?m) n of None \<Rightarrow> 0 | Some c \<Rightarrow> c) + 1) (wn_timingCounts ?m)"
      using Timed by (simp add: wn_timing_def Let_def)
    have counters: "wn_counters (wn_step e ?m) = wn_counters ?m" "counted name (es @ [e]) = counted name es"
      using Timed by (simp_all add: wn_timing_def Let_def counted_def)
    show ?thesis
    proof (cases "n = name")
      case True
      have "values_of (wn_timings (wn_step e ?m)) name = last_of ?k (timed name (es @ [e]))"
        using snoc True by (simp add: step ts values_of_def last_of_snoc)
      moreover have "map_of (wn_timingCounts (wn_step e ?m)) name = Some (int (length (timed name (es @ [e]))))"
        using snoc True by (simp add: counts ts split: if_splits)
      ultimately show ?thesis using snoc ts True unfolding run by (simp add: counters)
    next
      case False
      then show ?thesis using snoc unfolding run by (simp add: step counts counters ts values_of_def)
    qed
  qed
qed

lemma timing_count_run: "timing_count (wn_snapshot (wn_run es (new_windowed_metrics limit))) name = int (length (timed name es))"
  using values_run[of es limit name] by (auto simp: timing_count_def wn_snapshot_def last_of_def split: if_splits)

lemma timed_append: "timed name (es @ fs) = timed name es @ timed name fs" "counted name (es @ fs) = counted name es + counted name fs"
  by (simp_all add: timed_def counted_def)

section \<open>Percentiles\<close>

interpretation size: comparator by_size
  by unfold_locales (auto simp: by_size_def split: if_splits)

lemma by_size_le: "by_size a b \<le> 0 \<longleftrightarrow> a \<le> b"
  by (auto simp: by_size_def)

lemma count_below:
  fixes xs :: "rat list"
  assumes "sorted_wrt (\<lambda>a b. a \<le> b) xs" "k < length xs"
  shows "Suc k \<le> length (filter (\<lambda>v. v \<le> xs ! k) xs)" "length (filter (\<lambda>v. v < xs ! k) xs) \<le> k"
proof -
  have mono: "i \<le> j \<Longrightarrow> j < length xs \<Longrightarrow> xs ! i \<le> xs ! j" for i j
    using assms(1) by (cases "i = j") (auto simp: sorted_wrt_iff_nth_less)
  have split: "xs = take (Suc k) xs @ drop (Suc k) xs" "xs = take k xs @ drop k xs" by simp_all
  have "filter (\<lambda>v. v \<le> xs ! k) (take (Suc k) xs) = take (Suc k) xs"
    using mono assms(2) by (auto simp: filter_id_conv in_set_conv_nth)
  then have "length (filter (\<lambda>v. v \<le> xs ! k) (take (Suc k) xs)) = Suc k" using assms(2) by simp
  moreover have "length (filter (\<lambda>v. v \<le> xs ! k) xs) = length (filter (\<lambda>v. v \<le> xs ! k) (take (Suc k) xs))
      + length (filter (\<lambda>v. v \<le> xs ! k) (drop (Suc k) xs))"
    by (metis append_take_drop_id filter_append length_append)
  ultimately show "Suc k \<le> length (filter (\<lambda>v. v \<le> xs ! k) xs)" by simp
  have "xs ! k \<le> v" if "v \<in> set (drop k xs)" for v
    using that mono[of k] by (auto simp: in_set_conv_nth)
  then have "filter (\<lambda>v. v < xs ! k) (drop k xs) = []" by (force simp: filter_empty_conv)
  then have "length (filter (\<lambda>v. v < xs ! k) xs) = length (filter (\<lambda>v. v < xs ! k) (take k xs))"
    by (metis append_take_drop_id append_Nil2 filter_append)
  also have "\<dots> \<le> k" using length_filter_le[of _ "take k xs"] by (simp add: le_trans)
  finally show "length (filter (\<lambda>v. v < xs ! k) xs) \<le> k" .
qed

lemma filter_sorted_length: "length (filter P (js_sort cmp xs)) = length (filter P xs)"
  by (metis mset_filter mset_js_sort size_mset)

lemma percentile_rank:
  assumes "vs \<noteq> []" "0 < ratio" "ratio \<le> 1" "p = percentile vs ratio"
  shows "p \<in> set vs \<and> of_nat (length vs) * ratio \<le> of_nat (length (filter (\<lambda>v. v \<le> p) vs))
    \<and> of_nat (length (filter (\<lambda>v. v < p) vs)) < of_nat (length vs) * ratio"
proof -
  let ?s = "js_sort by_size vs" and ?x = "of_nat (length vs) * ratio"
  define k where "k = nat (\<lceil>?x\<rceil> - 1)"
  have n: "0 < length vs" using assms(1) by simp
  have pos: "0 < ?x" using n assms(2) by simp
  have le: "?x \<le> of_nat (length vs)" using assms(3) by (simp add: mult_left_le)
  have c: "0 < \<lceil>?x\<rceil>" "\<lceil>?x\<rceil> \<le> int (length vs)" using pos le by (simp_all add: ceiling_le_iff)
  have k: "int k = \<lceil>?x\<rceil> - 1" using c by (simp add: k_def)
  have kl: "k < length vs" using k c by linarith
  have p: "p = ?s ! k"
    using assms(1,4) c k kl by (auto simp: percentile_def Let_def k_def)
  have sorted: "sorted_wrt (\<lambda>a b. a \<le> b) ?s" using size.sort_sorted[of vs] by (simp add: by_size_le)
  have ks: "k < length ?s" using kl by simp
  have "p \<in> set vs" using p nth_mem[OF ks] by simp
  moreover have "?x \<le> of_nat (Suc k)" using k by (metis ceiling_correct of_int_of_nat_eq add.commute add_diff_cancel_left' diff_add_cancel of_nat_Suc)
  moreover have "of_nat k < ?x"
  proof -
    have "of_int (\<lceil>?x\<rceil> - 1) < ?x" using ceiling_correct[of ?x] by simp
    then show ?thesis using k by (metis of_int_of_nat_eq)
  qed
  moreover have "Suc k \<le> length (filter (\<lambda>v. v \<le> p) vs)" "length (filter (\<lambda>v. v < p) vs) \<le> k"
    using count_below[OF sorted ks] by (simp_all add: p filter_sorted_length)
  ultimately show ?thesis by (meson le_less_trans of_nat_le_iff order_trans)
qed

section \<open>What is warned about\<close>

definition counter_warnings :: "(string \<Rightarrow> rat) \<Rightarrow> (string \<times> string \<times> rat option) list \<Rightarrow> metrics_alert list" where
  "counter_warnings observed ws = concat (map (\<lambda>(alert, name, t). case t of None \<Rightarrow> []
     | Some x \<Rightarrow> if x \<le> observed name then [CounterAlert alert name x (observed name)] else []) ws)"

definition timing_warnings :: "(string \<Rightarrow> rat list) \<Rightarrow> (string \<times> string \<times> rat option) list \<Rightarrow> metrics_alert list" where
  "timing_warnings observed ws = concat (map (\<lambda>(alert, name, t). case t of None \<Rightarrow> []
     | Some x \<Rightarrow> if observed name \<noteq> [] \<and> x \<le> percentile (observed name) (99 / 100)
         then [TimingAlert alert name x (percentile (observed name) (99 / 100)) (length (observed name))] else []) ws)"

lemma warnings_cons:
  "counter_warnings f (w # ws) = counter_warnings f [w] @ counter_warnings f ws"
  "timing_warnings g (w # ws) = timing_warnings g [w] @ timing_warnings g ws"
  by (simp_all add: counter_warnings_def timing_warnings_def)

lemma warn_on_counter_adds:
  "warn_on_counter alert name t current m
     = m\<lparr>mo_warned := mo_warned m @ counter_warnings (counter_delta current (mo_previous m)) [(alert, name, t)]\<rparr>"
  by (auto simp: warn_on_counter_def counter_warnings_def Let_def split: option.splits)

lemma warn_on_timing_adds:
  "warn_on_timing alert name t current m
     = m\<lparr>mo_warned := mo_warned m @ timing_warnings (appended_timings current (mo_previous m)) [(alert, name, t)]\<rparr>"
  by (auto simp: warn_on_timing_def timing_warnings_def Let_def split: option.splits)

lemma fold_counters:
  "fold (\<lambda>(alert, name, t). warn_on_counter alert name t current) ws m
     = m\<lparr>mo_warned := mo_warned m @ counter_warnings (counter_delta current (mo_previous m)) ws\<rparr>"
proof (induction ws arbitrary: m)
  case Nil
  then show ?case by (simp add: counter_warnings_def timing_warnings_def)
next
  case (Cons w ws)
  obtain a n t where w: "w = (a, n, t)" by (cases w)
  have eq: "fold (\<lambda>(alert, name, t). warn_on_counter alert name t current) (w # ws) m
      = fold (\<lambda>(alert, name, t). warn_on_counter alert name t current) ws (warn_on_counter a n t current m)"
    by (simp add: w)
  show ?case unfolding eq Cons.IH by (simp add: w warn_on_counter_adds warnings_cons(1)[of _ "(a, n, t)" ws])
qed

lemma fold_timings:
  "fold (\<lambda>(alert, name, t). warn_on_timing alert name t current) ws m
     = m\<lparr>mo_warned := mo_warned m @ timing_warnings (appended_timings current (mo_previous m)) ws\<rparr>"
proof (induction ws arbitrary: m)
  case Nil
  then show ?case by (simp add: counter_warnings_def timing_warnings_def)
next
  case (Cons w ws)
  obtain a n t where w: "w = (a, n, t)" by (cases w)
  have eq: "fold (\<lambda>(alert, name, t). warn_on_timing alert name t current) (w # ws) m
      = fold (\<lambda>(alert, name, t). warn_on_timing alert name t current) ws (warn_on_timing a n t current m)"
    by (simp add: w)
  show ?case unfolding eq Cons.IH by (simp add: w warn_on_timing_adds warnings_cons(2)[of _ "(a, n, t)" ws])
qed

lemma delta_is_counted:
  "counter_delta (wn_snapshot (wn_run (es @ fs) (new_windowed_metrics limit)))
     (wn_snapshot (wn_run es (new_windowed_metrics limit))) = (\<lambda>name. counted name fs)"
  using values_run[of "es @ fs" limit] values_run[of es limit]
  by (auto simp: counter_delta_def wn_snapshot_def timed_append)

lemma appended_is_last:
  "appended_timings (wn_snapshot (wn_run (es @ fs) (new_windowed_metrics limit)))
     (wn_snapshot (wn_run es (new_windowed_metrics limit)))
   = (\<lambda>name. last_of (wn_max (new_windowed_metrics limit)) (timed name fs))"
proof (rule ext)
  fix name
  let ?k = "wn_max (new_windowed_metrics limit)" and ?vs = "timed name (es @ fs)"
  have vals: "values_of (sp_timings (wn_snapshot (wn_run (es @ fs) (new_windowed_metrics limit)))) name = last_of ?k ?vs"
    using values_run[of "es @ fs" limit name] by (simp add: wn_snapshot_def)
  have "drop (nat (max 0 (int (length (last_of ?k ?vs)) - int (length (timed name fs))))) (last_of ?k ?vs)
      = drop (length (last_of ?k ?vs) - length (timed name fs)) (last_of ?k ?vs)"
    by (simp add: nat_diff_distrib max_def)
  also have "\<dots> = last_of ?k (timed name fs)" unfolding timed_append by (rule last_of_append)
  finally show "appended_timings (wn_snapshot (wn_run (es @ fs) (new_windowed_metrics limit)))
     (wn_snapshot (wn_run es (new_windowed_metrics limit))) name = last_of ?k (timed name fs)"
    by (auto simp: appended_timings_def Let_def timing_count_run vals timed_append last_of_def)
qed

section \<open>A run with checks\<close>

text \<open>A monitor is made over metrics that may have recorded something before; then events are recorded and checks
  happen, in any order.\<close>

datatype monitor_event = Recorded metric_event | Checked int

fun monitor_step :: "alert_thresholds \<Rightarrow> monitor_event \<Rightarrow> windowed_metrics \<times> alert_monitor \<Rightarrow> windowed_metrics \<times> alert_monitor" where
  "monitor_step th (Recorded e) (w, m) = (wn_step e w, m)"
| "monitor_step th (Checked now) (w, m) = (w, check_alerts th (wn_snapshot w) now m)"

definition monitor_run :: "alert_thresholds \<Rightarrow> monitor_event list \<Rightarrow> windowed_metrics \<times> alert_monitor \<Rightarrow> windowed_metrics \<times> alert_monitor" where
  "monitor_run th xs s = foldl (\<lambda>s x. monitor_step th x s) s xs"

definition monitor_start :: "nat option \<Rightarrow> metric_event list \<Rightarrow> int \<Rightarrow> windowed_metrics \<times> alert_monitor" where
  "monitor_start limit es now =
    (let w = wn_run es (new_windowed_metrics limit) in (w, new_alert_monitor (wn_snapshot w) now))"

text \<open>What a run should warn about: every check about the events since the one before, or since the start; of the
  values timed since, metrics that keep \<open>k\<close> values of each name still have the last \<open>k\<close>.\<close>

definition window_warnings :: "alert_thresholds \<Rightarrow> nat \<Rightarrow> metric_event list \<Rightarrow> metrics_alert list" where
  "window_warnings th k fs = counter_warnings (\<lambda>name. counted name fs) (counter_alerts th)
     @ timing_warnings (\<lambda>name. last_of k (timed name fs)) (timing_alerts th)"

fun run_warnings :: "alert_thresholds \<Rightarrow> nat \<Rightarrow> metric_event list \<Rightarrow> monitor_event list \<Rightarrow> metrics_alert list" where
  "run_warnings th k fs [] = []"
| "run_warnings th k fs (Recorded e # xs) = run_warnings th k (fs @ [e]) xs"
| "run_warnings th k fs (Checked now # xs) = window_warnings th k fs @ run_warnings th k [] xs"

lemma check_alerts_window:
  "check_alerts th (wn_snapshot (wn_run (es @ fs) (new_windowed_metrics limit))) now
       \<lparr>mo_previous = wn_snapshot (wn_run es (new_windowed_metrics limit)), mo_checkedAt = checked, mo_warned = ws\<rparr>
     = \<lparr>mo_previous = wn_snapshot (wn_run (es @ fs) (new_windowed_metrics limit)), mo_checkedAt = now,
        mo_warned = ws @ window_warnings th (wn_max (new_windowed_metrics limit)) fs\<rparr>"
  by (simp add: check_alerts_def Let_def fold_counters fold_timings delta_is_counted appended_is_last window_warnings_def)

lemma wn_run_snoc: "wn_step e (wn_run es w) = wn_run (es @ [e]) w"
  by (simp add: wn_run_def)

lemma monitor_run_warnings:
  "mo_warned (snd (monitor_run th xs (wn_run (es @ fs) (new_windowed_metrics limit),
       \<lparr>mo_previous = wn_snapshot (wn_run es (new_windowed_metrics limit)), mo_checkedAt = checked, mo_warned = ws\<rparr>)))
     = ws @ run_warnings th (wn_max (new_windowed_metrics limit)) fs xs"
proof (induction xs arbitrary: es fs checked ws)
  case Nil
  then show ?case by (simp add: monitor_run_def)
next
  case (Cons x xs)
  show ?case
  proof (cases x)
    case (Recorded e)
    then show ?thesis using Cons.IH[of es "fs @ [e]" checked ws] by (simp add: monitor_run_def wn_run_snoc)
  next
    case (Checked now)
    then show ?thesis
      using Cons.IH[of "es @ fs" "[]" now "ws @ window_warnings th (wn_max (new_windowed_metrics limit)) fs"]
      by (simp add: monitor_run_def check_alerts_window)
  qed
qed

text \<open>C19: Over any run of recordings and checks, whatever was recorded before the monitor was made, the warnings are
  those that each check owes to what happened since the check before it (or since the monitor was made): a counter is
  warned about when what was added to it since reaches its threshold, a timing when the 99th percentile of the values
  recorded since reaches it. Of these values only those count that the metrics still keep, the last ones up to their
  limit for each name.\<close>

theorem alerts_see_the_window:
  "mo_warned (snd (monitor_run th xs (monitor_start limit es now)))
     = run_warnings th (wn_max (new_windowed_metrics limit)) [] xs"
  using monitor_run_warnings[of th xs es "[]" limit now "[]"]
  by (simp add: monitor_start_def new_alert_monitor_def Let_def)

text \<open>The percentile of samples is the nearest rank: a sample such that at least the share asked for is not larger,
  and less than that share is smaller.\<close>

theorem percentile_is_nearest_rank:
  assumes "vs \<noteq> []" "0 < ratio" "ratio \<le> 1"
  shows "percentile vs ratio \<in> set vs
    \<and> of_nat (length vs) * ratio \<le> of_nat (length (filter (\<lambda>v. v \<le> percentile vs ratio) vs))
    \<and> of_nat (length (filter (\<lambda>v. v < percentile vs ratio) vs)) < of_nat (length vs) * ratio"
  using percentile_rank[OF assms refl] .

lemma percentile_is_nearest_rank_witness:
  "percentile [30, 10, 20] (1 / 2) \<in> set [30, 10, 20 :: rat]"
  using percentile_is_nearest_rank[of "[30, 10, 20]" "1 / 2"] by simp

text \<open>The text for Prometheus announces a summary, whose count only grows; what it prints is the number of values
  the window holds.\<close>

lemma printed_count_is_the_window:
  "su_count (summarize_timings (values_of (sp_timings (wn_snapshot (wn_run es (new_windowed_metrics limit)))) name))
     = min (wn_max (new_windowed_metrics limit)) (length (timed name es))"
proof -
  have count: "su_count (summarize_timings vs) = length vs" for vs by (simp add: summarize_timings_def Let_def)
  show ?thesis using values_run[of es limit name] by (simp add: count wn_snapshot_def length_last_of)
qed

end
