(* ===== verification/Bootstrap_Config.thy ===== *)
theory Bootstrap_Config
  imports Runtime_App Metrics_Alerts Cluster_Outbound
begin

text \<open>The configuration a runtime starts with, read from environment variables (runtime/bootstrap-config.ts and the two
  parsers of cluster/schema.ts it calls).

  A raised error is its message; the readers run in the order of the code, so that the first error is the one
  reported. \<open>JSON.parse\<close>, the URL constructor and the schemas of the peers are parameters. Numbers are exact where
  JavaScript rounds to 53 bits.\<close>

section \<open>Reading variables\<close>

type_synonym env_vars = "string \<Rightarrow> string option"

definition ok_then :: "string + 'a \<Rightarrow> ('a \<Rightarrow> string + 'b) \<Rightarrow> string + 'b" where
  "ok_then m f = (case m of Inl e \<Rightarrow> Inl e | Inr a \<Rightarrow> f a)"

lemma ok_then_simps [simp]: "ok_then (Inl e) f = Inl e" "ok_then (Inr a) f = f a"
  by (simp_all add: ok_then_def)

lemma ok_then_Inr: "ok_then m f = Inr b \<longleftrightarrow> (\<exists>a. m = Inr a \<and> f a = Inr b)"
  by (cases m) auto

fun first_env :: "env_vars \<Rightarrow> string list \<Rightarrow> (string \<times> string) option" where
  "first_env env [] = None"
| "first_env env (name # names) = (case env name of Some value \<Rightarrow> Some (name, value) | None \<Rightarrow> first_env env names)"

definition env_string_first :: "env_vars \<Rightarrow> string list \<Rightarrow> string option" where
  "env_string_first env names = map_option snd (first_env env names)"

text \<open>A number text is infinite as soon as rounding takes it past the largest double.\<close>

fun is_finite_number :: "js_num \<Rightarrow> bool" where
  "is_finite_number (Fin q) = (\<bar>q\<bar> < 2 ^ 1024 - 2 ^ 970)"
| "is_finite_number _ = False"

definition is_integer :: "rat \<Rightarrow> bool" where
  "is_integer q = (q = of_int \<lfloor>q\<rfloor>)"

definition invalid :: "string \<Rightarrow> string \<Rightarrow> string" where
  "invalid name expected = ''Invalid '' @ name @ '': expected '' @ expected"

definition check_lowest :: "string \<Rightarrow> int option \<Rightarrow> rat \<Rightarrow> string + unit" where
  "check_lowest name lowest q = (case lowest of
     Some l \<Rightarrow> if q < of_int l then Inl (invalid name (''>= '' @ int_text l)) else Inr ()
   | None \<Rightarrow> Inr ())"

definition check_highest :: "string \<Rightarrow> int option \<Rightarrow> rat \<Rightarrow> string + unit" where
  "check_highest name highest q = (case highest of
     Some h \<Rightarrow> if q > of_int h then Inl (invalid name (''<= '' @ int_text h)) else Inr ()
   | None \<Rightarrow> Inr ())"

definition parse_number :: "env_vars \<Rightarrow> string list \<Rightarrow> bool \<Rightarrow> int option \<Rightarrow> int option \<Rightarrow> string option \<Rightarrow> string + rat option" where
  "parse_number env names integer lowest highest description = (case first_env env names of
     None \<Rightarrow> Inr None
   | Some (name, value) \<Rightarrow>
      (let bad = Inl (invalid name (case description of None \<Rightarrow> ''a finite number'' | Some t \<Rightarrow> t)) in
       if \<not> is_finite_number (to_number value) then bad
       else (case to_number value of
         Fin q \<Rightarrow>
           if integer \<and> \<not> is_integer q then Inl (invalid name ''an integer'')
           else ok_then (check_lowest name lowest q) (\<lambda>_. ok_then (check_highest name highest q) (\<lambda>_. Inr (Some q)))
       | _ \<Rightarrow> bad)))"

definition parse_integer :: "env_vars \<Rightarrow> string list \<Rightarrow> int option \<Rightarrow> int option \<Rightarrow> string option \<Rightarrow> string + int option" where
  "parse_integer env names lowest highest description =
    map_sum id (map_option floor)
      (parse_number env names True lowest highest (Some (case description of None \<Rightarrow> ''an integer'' | Some t \<Rightarrow> t)))"

definition or_default :: "string + int option \<Rightarrow> int \<Rightarrow> string + int" where
  "or_default parsed dflt = map_sum id (\<lambda>v. case v of None \<Rightarrow> dflt | Some n \<Rightarrow> n) parsed"

definition parse_required_positive_ms :: "env_vars \<Rightarrow> string \<Rightarrow> int \<Rightarrow> string + int" where
  "parse_required_positive_ms env name dflt =
    or_default (parse_integer env [name] (Some 1) None (Some ''a positive millisecond value'')) dflt"

definition parse_non_negative_ms :: "env_vars \<Rightarrow> string \<Rightarrow> int \<Rightarrow> string + int" where
  "parse_non_negative_ms env name dflt =
    or_default (parse_integer env [name] (Some 0) None (Some ''a non-negative millisecond value'')) dflt"

text \<open>A count of at least one, described in the error.\<close>

definition parse_count :: "env_vars \<Rightarrow> string \<Rightarrow> string \<Rightarrow> string + int option" where
  "parse_count env name description = parse_integer env [name] (Some 1) None (Some description)"

definition parse_port :: "env_vars \<Rightarrow> string list \<Rightarrow> int option \<Rightarrow> string + int option" where
  "parse_port env names dflt =
    map_sum id (\<lambda>v. case v of None \<Rightarrow> dflt | Some n \<Rightarrow> Some n)
      (parse_integer env names (Some 1) (Some 65535) (Some ''a TCP port between 1 and 65535''))"

definition parse_string_list :: "env_vars \<Rightarrow> string \<Rightarrow> string list option" where
  "parse_string_list env name = map_option (\<lambda>v. filter (\<lambda>e. e \<noteq> []) (map trim (split_on (CHR '','') v))) (env name)"

fun parse_string_list_first :: "env_vars \<Rightarrow> string list \<Rightarrow> string list option" where
  "parse_string_list_first env [] = None"
| "parse_string_list_first env (name # names) =
    (case parse_string_list env name of Some ps \<Rightarrow> Some ps | None \<Rightarrow> parse_string_list_first env names)"

fun join_with :: "string \<Rightarrow> string list \<Rightarrow> string" where
  "join_with sep [] = []"
| "join_with sep [x] = x"
| "join_with sep (x # y # ys) = x @ sep @ join_with sep (y # ys)"

definition parse_path_prefixes :: "env_vars \<Rightarrow> string list \<Rightarrow> string + string list option" where
  "parse_path_prefixes env names = (case parse_string_list_first env names of
     None \<Rightarrow> Inr None
   | Some ps \<Rightarrow> (case find (\<lambda>p. \<not> prefix ''/'' p) ps of
       Some p \<Rightarrow> Inl (''Invalid '' @ join_with ''|'' names @ '': path prefix '' @ p @ '' must start with '' @ [CHR 0x27] @ ''/'' @ [CHR 0x27])
     | None \<Rightarrow> Inr (Some ps)))"

section \<open>JSON in variables\<close>

record bootstrap_deps =
  bd_parseJson :: "string \<Rightarrow> string + json"
  bd_peerList :: "json \<Rightarrow> string + cluster_peer list"
  bd_isUrl :: "string \<Rightarrow> bool"

definition parse_json_object :: "bootstrap_deps \<Rightarrow> env_vars \<Rightarrow> string \<Rightarrow> string + (string \<times> json) list option" where
  "parse_json_object d env name = (case env name of
     None \<Rightarrow> Inr None
   | Some [] \<Rightarrow> Inr None
   | Some value \<Rightarrow> (case bd_parseJson d value of
       Inl e \<Rightarrow> Inl (''Invalid '' @ name @ '': '' @ e)
     | Inr (JObj entries) \<Rightarrow> Inr (Some entries)
     | Inr _ \<Rightarrow> Inl (invalid name ''a JSON object'')))"

fun string_fields :: "string \<Rightarrow> (string \<times> json) list \<Rightarrow> string + (string \<times> string) list" where
  "string_fields name [] = Inr []"
| "string_fields name ((key, JStr v) # entries) = map_sum id (Cons (key, v)) (string_fields name entries)"
| "string_fields name ((key, _) # entries) = Inl (invalid name (''string value for key '' @ key))"

definition parse_string_record :: "bootstrap_deps \<Rightarrow> env_vars \<Rightarrow> string \<Rightarrow> string + (string \<times> string) list option" where
  "parse_string_record d env name = ok_then (parse_json_object d env name) (\<lambda>parsed. case parsed of
     None \<Rightarrow> Inr None
   | Some entries \<Rightarrow> map_sum id Some (string_fields name entries))"

definition capacity_field :: "string \<Rightarrow> (string \<times> json) list \<Rightarrow> string \<Rightarrow> string + int option" where
  "capacity_field name entries key =
    (let bad = Inl (invalid name (''non-negative number for key '' @ key)) in
     case map_of entries key of
       None \<Rightarrow> Inr None
     | Some (JNum (Fin q)) \<Rightarrow> if q < 0 then bad else Inr (Some \<lfloor>q\<rfloor>)
     | Some _ \<Rightarrow> bad)"

definition parse_static_capacity :: "bootstrap_deps \<Rightarrow> env_vars \<Rightarrow> string \<Rightarrow> string + host_capacity option" where
  "parse_static_capacity d env name = ok_then (parse_json_object d env name) (\<lambda>parsed. case parsed of
     None \<Rightarrow> Inr None
   | Some entries \<Rightarrow>
       ok_then (capacity_field name entries ''maxHttpWorkerAssignments'') (\<lambda>workers.
       ok_then (capacity_field name entries ''maxServiceModuleAssignments'') (\<lambda>modules.
       ok_then (capacity_field name entries ''maxConnections'') (\<lambda>connections.
       ok_then (capacity_field name entries ''maxInflightRequests'') (\<lambda>inflight.
         Inr (Some \<lparr>hc_maxHttpWorkerAssignments = workers, hc_maxServiceModuleAssignments = modules,
           hc_maxConnections = connections, hc_maxInflightRequests = inflight\<rparr>))))))"

definition assert_url :: "bootstrap_deps \<Rightarrow> string \<Rightarrow> string option \<Rightarrow> string + unit" where
  "assert_url d name value = (case value of
     None \<Rightarrow> Inr ()
   | Some v \<Rightarrow> if v = [] \<or> bd_isUrl d v then Inr () else Inl (invalid name ''an absolute URL''))"

definition parse_cluster_peers_env :: "bootstrap_deps \<Rightarrow> string option \<Rightarrow> string + cluster_peer list" where
  "parse_cluster_peers_env d raw = (case raw of
     None \<Rightarrow> Inr []
   | Some [] \<Rightarrow> Inr []
   | Some text1 \<Rightarrow> (case bd_parseJson d text1 of
       Inl e \<Rightarrow> Inl (''Invalid CLUSTER_PEERS_JSON: '' @ e)
     | Inr j \<Rightarrow> (case bd_peerList d j of
         Inl e \<Rightarrow> Inl (''Invalid CLUSTER_PEERS_JSON: '' @ e)
       | Inr ps \<Rightarrow> Inr ps)))"

definition parse_cluster_transport_env :: "string option \<Rightarrow> string + string" where
  "parse_cluster_transport_env raw = (case raw of
     None \<Rightarrow> Inr ''ws''
   | Some [] \<Rightarrow> Inr ''ws''
   | Some t \<Rightarrow> if t = ''http'' \<or> t = ''ws'' then Inr t else Inl (''Invalid CLUSTER_TRANSPORT: '' @ t))"

section \<open>The configuration\<close>

datatype metrics_mode = ModeInMemory | ModeWindowed

record listen_config =
  li_businessPort :: int
  li_controlPort :: "int option"
  li_businessPrefixes :: "string list option"
  li_controlPrefixes :: "string list option"
  li_singleListenerName :: listener_name
  li_serverIdleTimeoutSeconds :: "int option"

record cluster_settings =
  cs_peers :: "cluster_peer list"
  cs_secret :: "string option"
  cs_requestTimeoutMs :: int
  cs_outboundMaxQueueMessages :: int
  cs_outboundMaxQueueBytes :: int
  cs_outboundBackpressureRetryMs :: int
  cs_locatorCacheTtlMs :: int
  cs_peerProbeIntervalMs :: int
  cs_peerPingTimeoutMs :: int
  cs_peerSuspectTimeoutMs :: int
  cs_peerAntiEntropyIntervalMs :: int
  cs_transport :: string

record websocket_settings =
  sw_heartbeatIntervalMs :: int
  sw_staleAfterMs :: int
  sw_maxConnections :: "int option"
  sw_maxConnectionsPerPeer :: "int option"
  sw_rateLimitWindowMs :: int
  sw_rateLimitMaxMessages :: int
  sw_outboundMaxQueueMessages :: int
  sw_outboundMaxQueueBytes :: int
  sw_outboundMaxSocketBufferBytes :: int
  sw_outboundBackpressureRetryMs :: int
  sw_shutdownGraceMs :: int

record admin_settings =
  as_baseUrl :: "string option"
  as_bearerToken :: "string option"
  as_hostId :: string
  as_groupId :: "string option"
  as_businessBaseUrl :: "string option"
  as_controlBaseUrl :: "string option"
  as_artifactRootDir :: string
  as_staticLabels :: "(string \<times> string) list option"
  as_staticCapabilities :: "string list"
  as_staticCapacity :: "host_capacity option"
  as_defaultConnectTimeoutMs :: int
  as_defaultResponseTimeoutMs :: int
  as_defaultWorkerTimeoutMs :: int
  as_pollAfterMs :: int
  as_retryPollAfterMs :: int
  as_serviceModuleDrainGraceMs :: int
  as_registrationDynamicFields :: "(string \<times> json) list option"
  as_observedDynamicFields :: "(string \<times> json) list option"

record bootstrap_config =
  bo_configModulePath :: "string option"
  bo_nodeId :: string
  bo_hostGroupId :: "string option"
  bo_prometheusPrefix :: string
  bo_metricsMode :: metrics_mode
  bo_maxTimingsPerMetric :: int
  bo_listen :: listen_config
  bo_alertWindowMs :: int
  bo_alertThresholds :: alert_thresholds
  bo_cluster :: cluster_settings
  bo_websocket :: websocket_settings
  bo_forwardHttpTimeoutMs :: int
  bo_forwardWsConnectTimeoutMs :: int
  bo_shutdownDrainMs :: int
  bo_shutdownTimeoutMs :: int
  bo_admin :: admin_settings

section \<open>Its parts, in the order they are read\<close>

definition parse_metrics_mode :: "env_vars \<Rightarrow> string + metrics_mode" where
  "parse_metrics_mode env = (case env ''METRICS_SINK'' of
     None \<Rightarrow> Inr ModeWindowed
   | Some m \<Rightarrow> if m = ''inmemory'' then Inr ModeInMemory
       else if m = ''windowed'' then Inr ModeWindowed
       else Inl (invalid ''METRICS_SINK'' ([CHR 0x27] @ ''inmemory'' @ [CHR 0x27] @ '' or '' @ [CHR 0x27] @ ''windowed'' @ [CHR 0x27])))"

definition business_port_names :: "string list" where
  "business_port_names = [''BUSINESS_PORT'', ''PUBLIC_PORT'', ''PORT'']"

definition control_port_names :: "string list" where
  "control_port_names = [''CONTROL_PORT'', ''INTERNAL_PORT'']"

text \<open>The listeners without their idle timeout, which is read later.\<close>

definition parse_listen :: "env_vars \<Rightarrow> string + listen_config" where
  "parse_listen env =
    ok_then (parse_port env business_port_names (Some 3000)) (\<lambda>businessPort.
    ok_then (parse_port env control_port_names None) (\<lambda>controlPort.
    ok_then (parse_path_prefixes env [''BUSINESS_ALLOWED_PATH_PREFIXES'', ''PUBLIC_ALLOWED_PATH_PREFIXES'']) (\<lambda>businessPrefixes.
    ok_then (parse_path_prefixes env [''CONTROL_ALLOWED_PATH_PREFIXES'', ''INTERNAL_ALLOWED_PATH_PREFIXES'']) (\<lambda>controlPrefixes.
      let named = (first_env env business_port_names \<noteq> None \<or> first_env env control_port_names \<noteq> None
          \<or> businessPrefixes \<noteq> None \<or> controlPrefixes \<noteq> None)
      in Inr \<lparr>li_businessPort = (case businessPort of None \<Rightarrow> 3000 | Some p \<Rightarrow> p),
           li_controlPort = (if controlPort \<noteq> None \<and> controlPort \<noteq> businessPort then controlPort else None),
           li_businessPrefixes = businessPrefixes, li_controlPrefixes = controlPrefixes,
           li_singleListenerName = (if named then ListenBusiness else ListenDefault), li_serverIdleTimeoutSeconds = None\<rparr>))))"

definition parse_heartbeat :: "env_vars \<Rightarrow> string + (int \<times> int)" where
  "parse_heartbeat env =
    ok_then (parse_required_positive_ms env ''WS_HEARTBEAT_INTERVAL_MS'' 25000) (\<lambda>heartbeat.
    ok_then (parse_required_positive_ms env ''WS_STALE_AFTER_MS'' 60000) (\<lambda>stale.
      if stale \<le> heartbeat then Inl ''Invalid websocket timeout config: WS_STALE_AFTER_MS must be greater than WS_HEARTBEAT_INTERVAL_MS''
      else Inr (heartbeat, stale)))"

definition parse_shutdown :: "env_vars \<Rightarrow> string + (int \<times> int)" where
  "parse_shutdown env =
    ok_then (parse_non_negative_ms env ''SHUTDOWN_DRAIN_MS'' 250) (\<lambda>drainMs.
    ok_then (parse_required_positive_ms env ''SHUTDOWN_TIMEOUT_MS'' 10000) (\<lambda>timeoutMs.
      if drainMs > timeoutMs then Inl ''Invalid shutdown timeout config: SHUTDOWN_DRAIN_MS must be <= SHUTDOWN_TIMEOUT_MS''
      else Inr (drainMs, timeoutMs)))"

definition parse_peer_timing :: "env_vars \<Rightarrow> string + (int \<times> int)" where
  "parse_peer_timing env =
    ok_then (parse_required_positive_ms env ''CLUSTER_PEER_PING_TIMEOUT_MS'' 1000) (\<lambda>ping.
    ok_then (parse_required_positive_ms env ''CLUSTER_PEER_SUSPECT_TIMEOUT_MS'' 5000) (\<lambda>suspect.
      if suspect \<le> ping then Inl ''Invalid cluster peer timing config: CLUSTER_PEER_SUSPECT_TIMEOUT_MS must be greater than CLUSTER_PEER_PING_TIMEOUT_MS''
      else Inr (ping, suspect)))"

definition parse_threshold :: "env_vars \<Rightarrow> string \<Rightarrow> string + rat option" where
  "parse_threshold env name = parse_number env [name] False (Some 0) None None"

definition create_alert_thresholds :: "env_vars \<Rightarrow> string + alert_thresholds" where
  "create_alert_thresholds env =
    ok_then (parse_threshold env ''ALERT_HTTP_ERRORS'') (\<lambda>a.
    ok_then (parse_threshold env ''ALERT_UPSTREAM_TIMEOUTS'') (\<lambda>b.
    ok_then (parse_threshold env ''ALERT_UPSTREAM_UNAVAILABLE'') (\<lambda>c.
    ok_then (parse_threshold env ''ALERT_WORKER_ERRORS'') (\<lambda>d.
    ok_then (parse_threshold env ''ALERT_WS_ERRORS'') (\<lambda>e.
    ok_then (parse_threshold env ''ALERT_WS_BACKPRESSURE_EVENTS'') (\<lambda>f.
    ok_then (parse_threshold env ''ALERT_WS_RATE_LIMIT_EXCEEDED'') (\<lambda>g.
    ok_then (parse_threshold env ''ALERT_WS_HEARTBEAT_TIMEOUTS'') (\<lambda>h.
    ok_then (parse_threshold env ''ALERT_HTTP_REQUEST_P99_MS'') (\<lambda>i.
    ok_then (parse_threshold env ''ALERT_UPSTREAM_P99_MS'') (\<lambda>j.
    ok_then (parse_threshold env ''ALERT_WORKER_P99_MS'') (\<lambda>k.
      Inr \<lparr>th_httpErrors = a, th_upstreamTimeouts = b, th_upstreamUnavailable = c, th_workerErrors = d, th_wsErrors = e,
        th_wsBackpressureEvents = f, th_wsRateLimitExceeded = g, th_wsHeartbeatTimeouts = h, th_httpRequestP99Ms = i,
        th_upstreamP99Ms = j, th_workerP99Ms = k\<rparr>)))))))))))"

definition parse_cluster :: "bootstrap_deps \<Rightarrow> env_vars \<Rightarrow> int \<times> int \<Rightarrow> string + cluster_settings" where
  "parse_cluster d env = (\<lambda>(ping, suspect).
    ok_then (parse_cluster_peers_env d (env ''CLUSTER_PEERS_JSON'')) (\<lambda>peers.
    ok_then (parse_required_positive_ms env ''CLUSTER_REQUEST_TIMEOUT_MS'' 10000) (\<lambda>request.
    ok_then (or_default (parse_count env ''CLUSTER_OUTBOUND_MAX_QUEUE_MESSAGES'' ''a positive queue length'') 16384) (\<lambda>messages.
    ok_then (or_default (parse_count env ''CLUSTER_OUTBOUND_MAX_QUEUE_BYTES'' ''a positive byte count'') (8 * 1024 * 1024)) (\<lambda>bytes.
    ok_then (parse_required_positive_ms env ''CLUSTER_OUTBOUND_BACKPRESSURE_RETRY_MS'' 10) (\<lambda>retry.
    ok_then (parse_non_negative_ms env ''CLUSTER_LOCATOR_CACHE_TTL_MS'' 250) (\<lambda>ttl.
    ok_then (parse_required_positive_ms env ''CLUSTER_PEER_PROBE_INTERVAL_MS'' 2000) (\<lambda>probe.
    ok_then (parse_non_negative_ms env ''CLUSTER_PEER_ANTI_ENTROPY_INTERVAL_MS'' 15000) (\<lambda>antiEntropy.
    ok_then (parse_cluster_transport_env (env ''CLUSTER_TRANSPORT'')) (\<lambda>transport.
      Inr \<lparr>cs_peers = peers, cs_secret = env ''CLUSTER_SHARED_SECRET'', cs_requestTimeoutMs = request,
        cs_outboundMaxQueueMessages = messages, cs_outboundMaxQueueBytes = bytes, cs_outboundBackpressureRetryMs = retry,
        cs_locatorCacheTtlMs = ttl, cs_peerProbeIntervalMs = probe, cs_peerPingTimeoutMs = ping,
        cs_peerSuspectTimeoutMs = suspect, cs_peerAntiEntropyIntervalMs = antiEntropy, cs_transport = transport\<rparr>))))))))))"

definition parse_websocket :: "env_vars \<Rightarrow> int \<times> int \<Rightarrow> string + websocket_settings" where
  "parse_websocket env = (\<lambda>(heartbeat, stale).
    ok_then (parse_count env ''WS_MAX_CONNECTIONS'' ''a positive connection count'') (\<lambda>total.
    ok_then (parse_count env ''WS_MAX_CONNECTIONS_PER_PEER'' ''a positive per-peer connection count'') (\<lambda>perPeer.
    ok_then (parse_required_positive_ms env ''WS_RATE_LIMIT_WINDOW_MS'' 1000) (\<lambda>window.
    ok_then (or_default (parse_count env ''WS_RATE_LIMIT_MAX_MESSAGES'' ''a positive message count'') 100) (\<lambda>quota.
    ok_then (or_default (parse_count env ''WS_OUTBOUND_MAX_QUEUE_MESSAGES'' ''a positive queue length'') 256) (\<lambda>messages.
    ok_then (or_default (parse_count env ''WS_OUTBOUND_MAX_QUEUE_BYTES'' ''a positive byte count'') (512 * 1024)) (\<lambda>bytes.
    ok_then (or_default (parse_count env ''WS_OUTBOUND_MAX_SOCKET_BUFFER_BYTES'' ''a positive byte count'') (512 * 1024)) (\<lambda>buffer.
    ok_then (parse_required_positive_ms env ''WS_OUTBOUND_BACKPRESSURE_RETRY_MS'' 10) (\<lambda>retry.
    ok_then (parse_non_negative_ms env ''WS_SHUTDOWN_GRACE_MS'' 3000) (\<lambda>grace.
      Inr \<lparr>sw_heartbeatIntervalMs = heartbeat, sw_staleAfterMs = stale, sw_maxConnections = total, sw_maxConnectionsPerPeer = perPeer,
        sw_rateLimitWindowMs = window, sw_rateLimitMaxMessages = quota, sw_outboundMaxQueueMessages = messages,
        sw_outboundMaxQueueBytes = bytes, sw_outboundMaxSocketBufferBytes = buffer, sw_outboundBackpressureRetryMs = retry,
        sw_shutdownGraceMs = grace\<rparr>))))))))))"

definition parse_admin_urls :: "bootstrap_deps \<Rightarrow> env_vars \<Rightarrow> string + (string option \<times> string option \<times> string option)" where
  "parse_admin_urls d env =
    (let baseUrl = env ''ADMIN_BASE_URL'';
         businessUrl = env_string_first env [''ADMIN_BUSINESS_BASE_URL'', ''ADMIN_PUBLIC_BASE_URL''];
         controlUrl = env_string_first env [''ADMIN_CONTROL_BASE_URL'', ''ADMIN_INTERNAL_BASE_URL'']
     in ok_then (assert_url d ''ADMIN_BASE_URL'' baseUrl) (\<lambda>_.
        ok_then (assert_url d ''ADMIN_BUSINESS_BASE_URL|ADMIN_PUBLIC_BASE_URL'' businessUrl) (\<lambda>_.
        ok_then (assert_url d ''ADMIN_CONTROL_BASE_URL|ADMIN_INTERNAL_BASE_URL'' controlUrl) (\<lambda>_.
          Inr (baseUrl, businessUrl, controlUrl)))))"

definition parse_admin :: "bootstrap_deps \<Rightarrow> env_vars \<Rightarrow> string option \<times> string option \<times> string option \<Rightarrow> string + admin_settings" where
  "parse_admin d env = (\<lambda>(baseUrl, businessUrl, controlUrl).
    ok_then (parse_string_record d env ''ADMIN_STATIC_LABELS_JSON'') (\<lambda>labels.
    ok_then (parse_static_capacity d env ''ADMIN_STATIC_CAPACITY_JSON'') (\<lambda>capacity.
    ok_then (parse_required_positive_ms env ''ADMIN_DEFAULT_CONNECT_TIMEOUT_MS'' 1000) (\<lambda>connect.
    ok_then (parse_required_positive_ms env ''ADMIN_DEFAULT_RESPONSE_TIMEOUT_MS'' 5000) (\<lambda>response.
    ok_then (parse_required_positive_ms env ''ADMIN_DEFAULT_WORKER_TIMEOUT_MS'' 1000) (\<lambda>worker.
    ok_then (parse_required_positive_ms env ''ADMIN_POLL_AFTER_MS'' 5000) (\<lambda>poll.
    ok_then (parse_required_positive_ms env ''ADMIN_RETRY_POLL_AFTER_MS'' 1000) (\<lambda>retry.
    ok_then (parse_non_negative_ms env ''SERVICE_MODULE_DRAIN_GRACE_MS'' 3000) (\<lambda>grace.
    ok_then (parse_json_object d env ''ADMIN_REGISTRATION_DYNAMIC_FIELDS_JSON'') (\<lambda>registration.
    ok_then (parse_json_object d env ''ADMIN_OBSERVED_DYNAMIC_FIELDS_JSON'') (\<lambda>observed.
      Inr \<lparr>as_baseUrl = baseUrl, as_bearerToken = env ''ADMIN_BEARER_TOKEN'',
        as_hostId = (case env ''ADMIN_HOST_ID'' of Some h \<Rightarrow> h
          | None \<Rightarrow> (case env ''NODE_ID'' of Some n \<Rightarrow> n | None \<Rightarrow> ''local'')),
        as_groupId = env ''HOST_GROUP_ID'', as_businessBaseUrl = businessUrl, as_controlBaseUrl = controlUrl,
        as_artifactRootDir = (case env ''ADMIN_ARTIFACT_ROOT_DIR'' of Some p \<Rightarrow> p | None \<Rightarrow> ''.hardess-admin-artifacts''),
        as_staticLabels = labels,
        as_staticCapabilities = (case parse_string_list env ''ADMIN_STATIC_CAPABILITIES'' of Some cs \<Rightarrow> cs
          | None \<Rightarrow> [''http_worker'', ''service_module'']),
        as_staticCapacity = capacity, as_defaultConnectTimeoutMs = connect, as_defaultResponseTimeoutMs = response,
        as_defaultWorkerTimeoutMs = worker, as_pollAfterMs = poll, as_retryPollAfterMs = retry,
        as_serviceModuleDrainGraceMs = grace, as_registrationDynamicFields = registration,
        as_observedDynamicFields = observed\<rparr>)))))))))))"

definition parse_runtime_bootstrap_config :: "bootstrap_deps \<Rightarrow> env_vars \<Rightarrow> string + bootstrap_config" where
  "parse_runtime_bootstrap_config d env =
    ok_then (parse_metrics_mode env) (\<lambda>mode.
    ok_then (parse_listen env) (\<lambda>listen.
    ok_then (parse_heartbeat env) (\<lambda>heartbeat.
    ok_then (parse_shutdown env) (\<lambda>shutdown.
    ok_then (parse_peer_timing env) (\<lambda>peerTiming.
    ok_then (parse_admin_urls d env) (\<lambda>urls.
    ok_then (or_default (parse_count env ''METRICS_MAX_TIMINGS_PER_METRIC'' ''a positive retained timing sample count'') 2048) (\<lambda>maxTimings.
    ok_then (parse_integer env [''SERVER_IDLE_TIMEOUT_SECS''] (Some 0) None (Some ''a non-negative second value'')) (\<lambda>idle.
    ok_then (parse_required_positive_ms env ''ALERT_WINDOW_MS'' 30000) (\<lambda>window.
    ok_then (create_alert_thresholds env) (\<lambda>thresholds.
    ok_then (parse_cluster d env peerTiming) (\<lambda>cluster.
    ok_then (parse_websocket env heartbeat) (\<lambda>websocket.
    ok_then (parse_required_positive_ms env ''INTERNAL_FORWARD_HTTP_TIMEOUT_MS'' 5000) (\<lambda>forwardHttp.
    ok_then (parse_required_positive_ms env ''INTERNAL_FORWARD_WS_CONNECT_TIMEOUT_MS'' 5000) (\<lambda>forwardWs.
    ok_then (parse_admin d env urls) (\<lambda>admin.
      Inr \<lparr>bo_configModulePath = env ''CONFIG_MODULE_PATH'',
        bo_nodeId = (case env ''NODE_ID'' of Some n \<Rightarrow> n | None \<Rightarrow> ''local''), bo_hostGroupId = env ''HOST_GROUP_ID'',
        bo_prometheusPrefix = (case env ''PROMETHEUS_METRIC_PREFIX'' of Some p \<Rightarrow> p | None \<Rightarrow> ''hardess''),
        bo_metricsMode = mode, bo_maxTimingsPerMetric = maxTimings, bo_listen = listen\<lparr>li_serverIdleTimeoutSeconds := idle\<rparr>,
        bo_alertWindowMs = window, bo_alertThresholds = thresholds, bo_cluster = cluster, bo_websocket = websocket,
        bo_forwardHttpTimeoutMs = forwardHttp, bo_forwardWsConnectTimeoutMs = forwardWs,
        bo_shutdownDrainMs = fst shutdown, bo_shutdownTimeoutMs = snd shutdown, bo_admin = admin\<rparr>)))))))))))))))"

section \<open>The timeouts as they are logged\<close>

record timeout_profile =
  tp_serverIdleTimeoutSeconds :: "int option"
  tp_shutdown :: "int \<times> int"
  tp_websocket :: "(string \<times> int) list"
  tp_cluster :: "(string \<times> int) list"
  tp_internalForward :: "int \<times> int"
  tp_admin :: "(string \<times> int) list"
  tp_pipelineConfig :: "(string \<times> string) list"
  tp_sdkClient :: "(string \<times> string) list"

definition create_timeout_profile :: "bootstrap_config \<Rightarrow> timeout_profile" where
  "create_timeout_profile c =
    (let w = bo_websocket c; k = bo_cluster c; a = bo_admin c in
     \<lparr>tp_serverIdleTimeoutSeconds = li_serverIdleTimeoutSeconds (bo_listen c),
      tp_shutdown = (bo_shutdownDrainMs c, bo_shutdownTimeoutMs c),
      tp_websocket = [(''heartbeatIntervalMs'', sw_heartbeatIntervalMs w), (''staleAfterMs'', sw_staleAfterMs w),
        (''shutdownGraceMs'', sw_shutdownGraceMs w), (''outboundBackpressureRetryMs'', sw_outboundBackpressureRetryMs w)],
      tp_cluster = [(''requestTimeoutMs'', cs_requestTimeoutMs k), (''locatorCacheTtlMs'', cs_locatorCacheTtlMs k),
        (''outboundBackpressureRetryMs'', cs_outboundBackpressureRetryMs k), (''peerProbeIntervalMs'', cs_peerProbeIntervalMs k),
        (''peerPingTimeoutMs'', cs_peerPingTimeoutMs k), (''peerSuspectTimeoutMs'', cs_peerSuspectTimeoutMs k),
        (''peerAntiEntropyIntervalMs'', cs_peerAntiEntropyIntervalMs k)],
      tp_internalForward = (bo_forwardHttpTimeoutMs c, bo_forwardWsConnectTimeoutMs c),
      tp_admin = [(''pollAfterMs'', as_pollAfterMs a), (''retryPollAfterMs'', as_retryPollAfterMs a),
        (''defaultConnectTimeoutMs'', as_defaultConnectTimeoutMs a), (''defaultResponseTimeoutMs'', as_defaultResponseTimeoutMs a),
        (''defaultWorkerTimeoutMs'', as_defaultWorkerTimeoutMs a), (''serviceModuleDrainGraceMs'', as_serviceModuleDrainGraceMs a)],
      tp_pipelineConfig = [(''downstreamConnectTimeoutMs'', ''per-pipeline required''),
        (''downstreamResponseTimeoutMs'', ''per-pipeline required''), (''workerTimeoutMs'', ''per-pipeline optional'')],
      tp_sdkClient = [(''recvAckMs'', ''client option default 5000''), (''handleAckMs'', ''client option default 15000''),
        (''waitUntilReadyTimeoutMs'', ''client call option'')]\<rparr>)"

end
