(* ===== verification/Server_Process.thy ===== *)
theory Server_Process
  imports Bootstrap_Config
begin

text \<open>The server process (runtime/server.ts): what it passes from the configuration to the application, its
  listeners, its metrics and alerts, and its shutdown. The host agent it starts is \<open>Host_Agent\<close>; \<open>Bun.serve\<close>, process
  signals and timers are the platform's: the shutdown is a function of the times its waits end.\<close>

section \<open>From the configuration to the parts\<close>

definition server_ws_options :: "bootstrap_config \<Rightarrow> ws_options" where
  "server_ws_options c =
    (let w = bo_websocket c in
     \<lparr>wo_heartbeatIntervalMs = Some (sw_heartbeatIntervalMs w), wo_staleAfterMs = Some (sw_staleAfterMs w),
      wo_maxConnections = sw_maxConnections w, wo_maxConnectionsPerPeer = sw_maxConnectionsPerPeer w,
      wo_rateLimit = Some (sw_rateLimitWindowMs w, sw_rateLimitMaxMessages w),
      wo_outbound = Some (sw_outboundMaxQueueMessages w, sw_outboundMaxQueueBytes w, Some (sw_outboundMaxSocketBufferBytes w)),
      wo_shutdownGraceMs = Some (sw_shutdownGraceMs w), wo_pendingHandleAckTtlMs = None, wo_pendingHandleAckMaxEntries = None\<rparr>)"

definition server_cluster_options :: "bootstrap_config \<Rightarrow> cluster_options" where
  "server_cluster_options c =
    (let k = bo_cluster c in
     \<lparr>co_nodeId = bo_nodeId c, co_sharedSecret = cs_secret k, co_requestTimeoutMs = Some (cs_requestTimeoutMs k),
      co_outboundMaxQueueMessages = Some (cs_outboundMaxQueueMessages k), co_outboundMaxQueueBytes = Some (cs_outboundMaxQueueBytes k),
      co_outboundBackpressureRetryMs = Some (cs_outboundBackpressureRetryMs k), co_peerProbeIntervalMs = Some (cs_peerProbeIntervalMs k),
      co_peerPingTimeoutMs = Some (cs_peerPingTimeoutMs k), co_peerAntiEntropyIntervalMs = Some (cs_peerAntiEntropyIntervalMs k),
      co_ws = Some (cs_transport k = ''ws'')\<rparr>)"

text \<open>What \<open>createRuntimeApp\<close> makes of them: the configuration of its gateway and of its network.\<close>

definition server_gateway :: "(out_msg \<Rightarrow> nat) \<Rightarrow> bootstrap_config \<Rightarrow> ws_config" where
  "server_gateway bytes c = ws_config_of (bo_nodeId c) (bo_hostGroupId c) bytes (server_ws_options c)"

definition server_cluster :: "(cluster_msg \<Rightarrow> nat) \<Rightarrow> bootstrap_config \<Rightarrow> cluster_config" where
  "server_cluster bytes c = cluster_config_of bytes (server_cluster_options c)"

definition server_app_options :: "(out_msg \<Rightarrow> nat) \<Rightarrow> bootstrap_config \<Rightarrow> app_options" where
  "server_app_options bytes c = \<lparr>ao_businessPrefixes = li_businessPrefixes (bo_listen c), ao_publicPrefixes = None,
     ao_controlPrefixes = li_controlPrefixes (bo_listen c), ao_internalPrefixes = None,
     ao_transport = Some (cs_transport (bo_cluster c)), ao_gateway = server_gateway bytes c\<rparr>"

section \<open>Listeners\<close>

text \<open>A listener is its port and the name under which the application serves it.\<close>

definition server_listeners :: "bootstrap_config \<Rightarrow> (int \<times> listener_name) list" where
  "server_listeners c =
    (li_businessPort (bo_listen c), li_singleListenerName (bo_listen c)) #
    (case li_controlPort (bo_listen c) of None \<Rightarrow> [] | Some p \<Rightarrow> [(p, ListenControl)])"

definition served_on :: "(out_msg \<Rightarrow> nat) \<Rightarrow> bootstrap_config \<Rightarrow> string \<Rightarrow> int list" where
  "served_on bytes c pathname =
    map fst (filter (\<lambda>(port, name). is_path_allowed_on_listener (server_app_options bytes c) pathname name) (server_listeners c))"

section \<open>Metrics and alerts\<close>

datatype metrics_sink = InMemorySink in_memory_metrics | WindowedSink windowed_metrics

definition create_metrics_sink :: "metrics_mode \<Rightarrow> int \<Rightarrow> metrics_sink" where
  "create_metrics_sink mode maxTimings = (case mode of
     ModeInMemory \<Rightarrow> InMemorySink new_in_memory_metrics
   | ModeWindowed \<Rightarrow> WindowedSink (new_windowed_metrics (Some (nat maxTimings))))"

definition has_alert_thresholds :: "alert_thresholds \<Rightarrow> bool" where
  "has_alert_thresholds th = list_ex (\<lambda>v. v \<noteq> None)
    [th_httpErrors th, th_upstreamTimeouts th, th_upstreamUnavailable th, th_workerErrors th, th_wsErrors th,
     th_wsBackpressureEvents th, th_wsRateLimitExceeded th, th_wsHeartbeatTimeouts th, th_httpRequestP99Ms th,
     th_upstreamP99Ms th, th_workerP99Ms th]"

definition sink_snapshot :: "metrics_sink \<Rightarrow> metrics_snapshot" where
  "sink_snapshot s = (case s of InMemorySink m \<Rightarrow> im_snapshot m | WindowedSink m \<Rightarrow> wn_snapshot m)"

definition start_alerts :: "bootstrap_config \<Rightarrow> metrics_sink \<Rightarrow> int \<Rightarrow> alert_monitor option" where
  "start_alerts c s now =
    (if has_alert_thresholds (bo_alertThresholds c) then Some (new_alert_monitor (sink_snapshot s) now) else None)"

definition alert_timer_fires :: "bootstrap_config \<Rightarrow> metrics_sink \<Rightarrow> int \<Rightarrow> alert_monitor option \<Rightarrow> alert_monitor option" where
  "alert_timer_fires c s now = map_option (check_alerts (bo_alertThresholds c) (sink_snapshot s) now)"

section \<open>Shutdown\<close>

text \<open>\<open>setTimeout\<close> keeps its delay as a signed 32-bit number: a longer one, and one below a millisecond, is one millisecond.\<close>

definition max_timer_delay :: int where
  "max_timer_delay = 2147483647"

definition timer_delay :: "int \<Rightarrow> int" where
  "timer_delay ms = (if ms < 1 \<or> max_timer_delay < ms then 1 else ms)"

text \<open>The waits of the shutdown: the sleep before the drain may end late by \<open>sleepLate\<close>, the sleeps of the drain
  as \<open>late\<close> says, and the listeners take \<open>stopping\<close> to stop. The result is whether the requests were drained, when
  the listeners are asked to stop, when the process ends, and when the timer that stops them by force is due. The
  deadline of the drain is a number and no timer, its sleeps are 25 ms at most.\<close>

record shutdown_result =
  sd_drained :: bool
  sd_stopsAt :: int
  sd_endsAt :: int
  sd_forceStopAt :: int

definition shutdown :: "bootstrap_config \<Rightarrow> (int \<Rightarrow> int) \<Rightarrow> nat \<Rightarrow> (int \<Rightarrow> nat) \<Rightarrow> nat \<Rightarrow> int \<Rightarrow> shutdown_result" where
  "shutdown c inflight sleepLate late stopping now =
    (let drainMs = bo_shutdownDrainMs c; timeoutMs = bo_shutdownTimeoutMs c;
         slept = (if drainMs > 0 then now + timer_delay drainMs + int sleepLate else now);
         (drained, t) = wait_for_http_drain inflight late (Some (max 0 (timeoutMs - drainMs))) (Some 25) slept
     in \<lparr>sd_drained = drained, sd_stopsAt = t, sd_endsAt = t + int stopping, sd_forceStopAt = now + timer_delay timeoutMs\<rparr>)"

end
