(* ===== verification/Server_Props.thy ===== *)
theory Server_Props
  imports Server_Process Metrics_Props
begin

text \<open>What an accepted configuration guarantees to the parts that run on it: their timings and limits, what each
  port exposes, and how long the shutdown takes.\<close>

section \<open>Numbers\<close>

lemma parse_number_bounds:
  assumes "parse_number env names integer lowest highest description = Inr (Some q)"
  shows "(case lowest of None \<Rightarrow> True | Some l \<Rightarrow> of_int l \<le> q) \<and> (case highest of None \<Rightarrow> True | Some h \<Rightarrow> q \<le> of_int h)
    \<and> (integer \<longrightarrow> is_integer q)"
  using assms
  by (auto simp: parse_number_def Let_def ok_then_Inr check_lowest_def check_highest_def
      split: option.splits js_num.splits if_splits)

lemma parse_integer_bounds:
  assumes "parse_integer env names lowest highest description = Inr (Some n)"
  shows "(case lowest of None \<Rightarrow> True | Some l \<Rightarrow> l \<le> n) \<and> (case highest of None \<Rightarrow> True | Some h \<Rightarrow> n \<le> h)"
proof -
  obtain q where q: "parse_number env names True lowest highest
      (Some (case description of None \<Rightarrow> ''an integer'' | Some t \<Rightarrow> t)) = Inr (Some q)" "n = \<lfloor>q\<rfloor>"
    using assms by (auto simp: parse_integer_def map_sum_def split: sum.splits)
  have "q = of_int n" using parse_number_bounds[OF q(1)] q(2) by (simp add: is_integer_def)
  then show ?thesis using parse_number_bounds[OF q(1)] by (auto split: option.splits)
qed

lemma or_default_cases:
  assumes "or_default parsed d = Inr n"
  obtains "parsed = Inr None" "n = d" | "parsed = Inr (Some n)"
  using assms by (cases parsed) (auto simp: or_default_def split: option.splits)

lemma positive_ms: "parse_required_positive_ms env name d = Inr n \<Longrightarrow> 1 \<le> d \<Longrightarrow> 1 \<le> n"
  by (auto simp: parse_required_positive_ms_def elim!: or_default_cases dest!: parse_integer_bounds)

lemma non_negative_ms: "parse_non_negative_ms env name d = Inr n \<Longrightarrow> 0 \<le> d \<Longrightarrow> 0 \<le> n"
  by (auto simp: parse_non_negative_ms_def elim!: or_default_cases dest!: parse_integer_bounds)

lemma count_default: "or_default (parse_count env name description) d = Inr n \<Longrightarrow> 1 \<le> d \<Longrightarrow> 1 \<le> n"
  by (auto simp: parse_count_def elim!: or_default_cases dest!: parse_integer_bounds)

definition at_least_one :: "int option \<Rightarrow> bool" where
  "at_least_one v = (case v of None \<Rightarrow> True | Some n \<Rightarrow> 1 \<le> n)"

lemma parse_count_positive: "parse_count env name description = Inr v \<Longrightarrow> at_least_one v"
  by (cases v) (auto simp: parse_count_def at_least_one_def dest!: parse_integer_bounds)

definition port_ok :: "int \<Rightarrow> bool" where
  "port_ok p = (1 \<le> p \<and> p \<le> 65535)"

lemma parse_port_ok: "parse_port env names d = Inr (Some p) \<Longrightarrow> (\<And>x. d = Some x \<Longrightarrow> port_ok x) \<Longrightarrow> port_ok p"
  by (cases "parse_integer env names (Some 1) (Some 65535) (Some ''a TCP port between 1 and 65535'')")
    (auto simp: parse_port_def port_ok_def dest!: parse_integer_bounds split: option.splits)

lemma parse_port_default: "parse_port env names (Some x) = Inr v \<Longrightarrow> v \<noteq> None"
  by (cases "parse_integer env names (Some 1) (Some 65535) (Some ''a TCP port between 1 and 65535'')")
    (auto simp: parse_port_def split: option.splits)

text \<open>One step of a reader.\<close>

lemma ok_then_step: "ok_then m f = Inr b \<Longrightarrow> (\<And>a. m = Inr a \<Longrightarrow> f a = Inr b \<Longrightarrow> P) \<Longrightarrow> P"
  by (auto simp: ok_then_Inr)

lemma reader_done: "(Inr x :: string + 'a) = Inr c \<Longrightarrow> (c = x \<Longrightarrow> P) \<Longrightarrow> P"
  by simp

lemma reader_steps:
  "ok_then (parse_required_positive_ms env name d) f = Inr b \<Longrightarrow> 1 \<le> d \<Longrightarrow> (\<And>n. 1 \<le> n \<Longrightarrow> f n = Inr b \<Longrightarrow> P) \<Longrightarrow> P"
  "ok_then (parse_non_negative_ms env name d) f = Inr b \<Longrightarrow> 0 \<le> d \<Longrightarrow> (\<And>n. 0 \<le> n \<Longrightarrow> f n = Inr b \<Longrightarrow> P) \<Longrightarrow> P"
  "ok_then (or_default (parse_count env name t) d) f = Inr b \<Longrightarrow> 1 \<le> d \<Longrightarrow> (\<And>n. 1 \<le> n \<Longrightarrow> f n = Inr b \<Longrightarrow> P) \<Longrightarrow> P"
  "ok_then (parse_count env name t) g = Inr b \<Longrightarrow> (\<And>v. at_least_one v \<Longrightarrow> g v = Inr b \<Longrightarrow> P) \<Longrightarrow> P"
  by (auto simp: ok_then_Inr dest: positive_ms non_negative_ms count_default parse_count_positive)

definition not_negative :: "int option \<Rightarrow> bool" where
  "not_negative v = (case v of None \<Rightarrow> True | Some n \<Rightarrow> 0 \<le> n)"

lemma seconds_step:
  "ok_then (parse_integer env names (Some 0) None t) g = Inr b \<Longrightarrow> (\<And>v. not_negative v \<Longrightarrow> g v = Inr b \<Longrightarrow> P) \<Longrightarrow> P"
  by (erule ok_then_step) (metis (no_types, lifting) not_negative_def option.case_eq_if option.collapse parse_integer_bounds option.simps(5))

section \<open>The parts\<close>

definition gateway_sane :: "ws_config \<Rightarrow> bool" where
  "gateway_sane c \<longleftrightarrow> 1 \<le> cf_heartbeatIntervalMs c \<and> cf_heartbeatIntervalMs c < cf_staleAfterMs c
    \<and> at_least_one (cf_maxConnections c) \<and> at_least_one (cf_maxConnectionsPerPeer c)
    \<and> 1 \<le> cf_rateLimitWindowMs c \<and> 1 \<le> cf_rateLimitMaxMessages c
    \<and> 1 \<le> cf_outboundMaxQueueMessages c \<and> 1 \<le> cf_outboundMaxQueueBytes c \<and> 1 \<le> cf_outboundMaxSocketBufferBytes c
    \<and> 0 \<le> cf_shutdownGraceMs c"

definition cluster_sane :: "cluster_config \<Rightarrow> bool" where
  "cluster_sane c \<longleftrightarrow> 1 \<le> cc_requestTimeoutMs c \<and> 1 \<le> cc_outboundMaxQueueMessages c \<and> 1 \<le> cc_outboundMaxQueueBytes c
    \<and> 1 \<le> cc_outboundBackpressureRetryMs c \<and> 1 \<le> cc_peerProbeIntervalMs c \<and> 1 \<le> cc_peerPingTimeoutMs c
    \<and> 0 \<le> cc_peerAntiEntropyIntervalMs c"

definition listen_sane :: "listen_config \<Rightarrow> bool" where
  "listen_sane l \<longleftrightarrow> port_ok (li_businessPort l) \<and> li_controlPort l \<noteq> Some (li_businessPort l)
    \<and> (case li_controlPort l of None \<Rightarrow> True | Some p \<Rightarrow> port_ok p)
    \<and> (case li_businessPrefixes l of None \<Rightarrow> True | Some ps \<Rightarrow> list_all (prefix ''/'') ps)
    \<and> (case li_controlPrefixes l of None \<Rightarrow> True | Some ps \<Rightarrow> list_all (prefix ''/'') ps)"

lemma parse_path_prefixes_ok:
  "parse_path_prefixes env names = Inr v \<Longrightarrow> case v of None \<Rightarrow> True | Some ps \<Rightarrow> list_all (prefix ''/'') ps"
  by (auto simp: parse_path_prefixes_def find_None_iff list_all_iff split: option.splits)

lemma parse_listen_ok:
  assumes "parse_listen env = Inr l"
  shows "listen_sane l"
proof -
  obtain b c bp cp where r: "parse_port env business_port_names (Some 3000) = Inr b" "parse_port env control_port_names None = Inr c"
    "parse_path_prefixes env [''BUSINESS_ALLOWED_PATH_PREFIXES'', ''PUBLIC_ALLOWED_PATH_PREFIXES''] = Inr bp"
    "parse_path_prefixes env [''CONTROL_ALLOWED_PATH_PREFIXES'', ''INTERNAL_ALLOWED_PATH_PREFIXES''] = Inr cp"
    and l: "li_businessPort l = (case b of None \<Rightarrow> 3000 | Some p \<Rightarrow> p)"
      "li_controlPort l = (if c \<noteq> None \<and> c \<noteq> b then c else None)" "li_businessPrefixes l = bp" "li_controlPrefixes l = cp"
    using assms by (auto simp: parse_listen_def ok_then_Inr Let_def)
  obtain p where b: "b = Some p" using parse_port_default[OF r(1)] by auto
  have "port_ok p" by (rule parse_port_ok[OF r(1)[unfolded b]]) (simp add: port_ok_def)
  moreover have "port_ok x" if "c = Some x" for x using r(2) that by (auto intro: parse_port_ok)
  ultimately show ?thesis
    using parse_path_prefixes_ok[OF r(3)] parse_path_prefixes_ok[OF r(4)] b l
    by (auto simp: listen_sane_def split: option.splits)
qed

lemma parse_heartbeat_ok: "parse_heartbeat env = Inr (h, s) \<Longrightarrow> 1 \<le> h \<and> h < s"
  by (auto simp: parse_heartbeat_def ok_then_Inr dest!: positive_ms split: if_splits)

lemma parse_shutdown_ok: "parse_shutdown env = Inr (d, t) \<Longrightarrow> 0 \<le> d \<and> d \<le> t \<and> 1 \<le> t"
  by (auto simp: parse_shutdown_def ok_then_Inr dest!: positive_ms non_negative_ms split: if_splits)

lemma parse_peer_timing_ok: "parse_peer_timing env = Inr (p, s) \<Longrightarrow> 1 \<le> p \<and> p < s"
  by (auto simp: parse_peer_timing_def ok_then_Inr dest!: positive_ms split: if_splits)

lemma parse_websocket_ok:
  assumes "parse_websocket env (h, s) = Inr w" "1 \<le> h" "h < s"
  shows "gateway_sane (ws_config_of nodeId g bytes
    \<lparr>wo_heartbeatIntervalMs = Some (sw_heartbeatIntervalMs w), wo_staleAfterMs = Some (sw_staleAfterMs w),
      wo_maxConnections = sw_maxConnections w, wo_maxConnectionsPerPeer = sw_maxConnectionsPerPeer w,
      wo_rateLimit = Some (sw_rateLimitWindowMs w, sw_rateLimitMaxMessages w),
      wo_outbound = Some (sw_outboundMaxQueueMessages w, sw_outboundMaxQueueBytes w, Some (sw_outboundMaxSocketBufferBytes w)),
      wo_shutdownGraceMs = Some (sw_shutdownGraceMs w), wo_pendingHandleAckTtlMs = None, wo_pendingHandleAckMaxEntries = None\<rparr>)"
  using assms(1) unfolding parse_websocket_def prod.case
  by (elim reader_steps) (use assms(2,3) in \<open>auto simp: gateway_sane_def ws_config_of_def Let_def opt_default_def\<close>)

lemma parse_cluster_ok:
  assumes "parse_cluster d env (p, s) = Inr k" "1 \<le> p"
  shows "1 \<le> cs_requestTimeoutMs k \<and> 1 \<le> cs_outboundMaxQueueMessages k \<and> 1 \<le> cs_outboundMaxQueueBytes k
    \<and> 1 \<le> cs_outboundBackpressureRetryMs k \<and> 1 \<le> cs_peerProbeIntervalMs k \<and> 0 \<le> cs_peerAntiEntropyIntervalMs k
    \<and> 0 \<le> cs_locatorCacheTtlMs k \<and> cs_peerPingTimeoutMs k = p \<and> cs_peerSuspectTimeoutMs k = s"
  using assms(1) unfolding parse_cluster_def prod.case
  by (elim reader_steps ok_then_step) (use assms(2) in auto)

definition thresholds_sane :: "alert_thresholds \<Rightarrow> bool" where
  "thresholds_sane th \<longleftrightarrow> list_all (\<lambda>(alert, name, t). case t of None \<Rightarrow> True | Some x \<Rightarrow> 0 \<le> x) (counter_alerts th @ timing_alerts th)"

lemma threshold_ok: "parse_threshold env name = Inr t \<Longrightarrow> case t of None \<Rightarrow> True | Some x \<Rightarrow> 0 \<le> x"
  by (cases t) (auto simp: parse_threshold_def dest!: parse_number_bounds)

lemma create_alert_thresholds_ok:
  assumes "create_alert_thresholds env = Inr th"
  shows "thresholds_sane th"
  using assms unfolding create_alert_thresholds_def
  by (elim ok_then_step) (auto simp: thresholds_sane_def counter_alerts_def timing_alerts_def dest!: threshold_ok)

definition admin_sane :: "bootstrap_deps \<Rightarrow> admin_settings \<Rightarrow> bool" where
  "admin_sane d a \<longleftrightarrow> 1 \<le> as_pollAfterMs a \<and> 1 \<le> as_retryPollAfterMs a
    \<and> 1 \<le> as_defaultConnectTimeoutMs a \<and> 1 \<le> as_defaultResponseTimeoutMs a \<and> 1 \<le> as_defaultWorkerTimeoutMs a
    \<and> 0 \<le> as_serviceModuleDrainGraceMs a \<and> [] \<notin> set (as_staticCapabilities a)
    \<and> (\<forall>u \<in> {as_baseUrl a, as_businessBaseUrl a, as_controlBaseUrl a}. case u of None \<Rightarrow> True | Some v \<Rightarrow> v = [] \<or> bd_isUrl d v)"

lemma parse_admin_urls_ok:
  assumes "parse_admin_urls d env = Inr (a, b, c)" "u \<in> {a, b, c}"
  shows "case u of None \<Rightarrow> True | Some v \<Rightarrow> v = [] \<or> bd_isUrl d v"
proof -
  have ok: "assert_url d name u = Inr () \<Longrightarrow> case u of None \<Rightarrow> True | Some v \<Rightarrow> v = [] \<or> bd_isUrl d v" for name u
    by (auto simp: assert_url_def split: option.splits if_splits)
  show ?thesis using assms unfolding parse_admin_urls_def Let_def by (elim ok_then_step) (auto dest: ok)
qed

lemma parse_admin_ok:
  assumes "parse_admin d env (a, b, c) = Inr s" "\<And>u. u \<in> {a, b, c} \<Longrightarrow> case u of None \<Rightarrow> True | Some v \<Rightarrow> v = [] \<or> bd_isUrl d v"
  shows "admin_sane d s"
proof -
  have caps: "[] \<notin> set (case parse_string_list env n of Some cs \<Rightarrow> cs | None \<Rightarrow> [''http_worker'', ''service_module''])" for n
    by (auto simp: parse_string_list_def split: option.splits)
  show ?thesis using assms(1) unfolding parse_admin_def prod.case
    by (elim reader_steps ok_then_step) (use assms(2) caps in \<open>auto simp: admin_sane_def\<close>)
qed

section \<open>The whole configuration\<close>

definition config_sane :: "bootstrap_deps \<Rightarrow> bootstrap_config \<Rightarrow> bool" where
  "config_sane d c \<longleftrightarrow> listen_sane (bo_listen c) \<and> 1 \<le> bo_maxTimingsPerMetric c \<and> 1 \<le> bo_alertWindowMs c
    \<and> thresholds_sane (bo_alertThresholds c) \<and> 1 \<le> bo_forwardHttpTimeoutMs c \<and> 1 \<le> bo_forwardWsConnectTimeoutMs c
    \<and> 0 \<le> bo_shutdownDrainMs c \<and> bo_shutdownDrainMs c \<le> bo_shutdownTimeoutMs c \<and> 1 \<le> bo_shutdownTimeoutMs c
    \<and> 0 \<le> cs_locatorCacheTtlMs (bo_cluster c) \<and> cs_peerPingTimeoutMs (bo_cluster c) < cs_peerSuspectTimeoutMs (bo_cluster c)
    \<and> admin_sane d (bo_admin c) \<and> not_negative (li_serverIdleTimeoutSeconds (bo_listen c))"

lemma listen_sane_idle: "listen_sane (l\<lparr>li_serverIdleTimeoutSeconds := i\<rparr>) = listen_sane l"
  by (simp add: listen_sane_def)

lemma config_read:
  assumes "parse_runtime_bootstrap_config d env = Inr c"
  shows "\<exists>hs sd pt urls listen idle. parse_listen env = Inr listen \<and> parse_heartbeat env = Inr hs \<and> parse_shutdown env = Inr sd
    \<and> parse_peer_timing env = Inr pt \<and> parse_admin_urls d env = Inr urls
    \<and> create_alert_thresholds env = Inr (bo_alertThresholds c) \<and> parse_cluster d env pt = Inr (bo_cluster c)
    \<and> parse_websocket env hs = Inr (bo_websocket c) \<and> parse_admin d env urls = Inr (bo_admin c)
    \<and> bo_listen c = listen\<lparr>li_serverIdleTimeoutSeconds := idle\<rparr> \<and> not_negative idle \<and> sd = (bo_shutdownDrainMs c, bo_shutdownTimeoutMs c)
    \<and> 1 \<le> bo_maxTimingsPerMetric c \<and> 1 \<le> bo_alertWindowMs c \<and> 1 \<le> bo_forwardHttpTimeoutMs c \<and> 1 \<le> bo_forwardWsConnectTimeoutMs c"
  using assms unfolding parse_runtime_bootstrap_config_def
  apply (elim reader_steps seconds_step ok_then_step reader_done)
      apply (rule one_le_numeral)+
  apply (intro exI conjI)
                apply assumption+
           apply simp_all
  done

lemma config_parts:
  assumes "parse_runtime_bootstrap_config d env = Inr c"
  shows "config_sane d c \<and> gateway_sane (server_gateway wsBytes c) \<and> cluster_sane (server_cluster clusterBytes c)"
proof -
  obtain hs sd pt urls listen idle where r:
      "parse_listen env = Inr listen" "parse_heartbeat env = Inr hs" "parse_shutdown env = Inr sd"
      "parse_peer_timing env = Inr pt" "parse_admin_urls d env = Inr urls"
      "create_alert_thresholds env = Inr (bo_alertThresholds c)" "parse_cluster d env pt = Inr (bo_cluster c)"
      "parse_websocket env hs = Inr (bo_websocket c)" "parse_admin d env urls = Inr (bo_admin c)"
    and c: "bo_listen c = listen\<lparr>li_serverIdleTimeoutSeconds := idle\<rparr>" "not_negative idle" and sd: "sd = (bo_shutdownDrainMs c, bo_shutdownTimeoutMs c)"
    and n: "1 \<le> bo_maxTimingsPerMetric c" "1 \<le> bo_alertWindowMs c" "1 \<le> bo_forwardHttpTimeoutMs c" "1 \<le> bo_forwardWsConnectTimeoutMs c"
    using config_read[OF assms] by blast
  obtain h s where hs: "hs = (h, s)" by (cases hs)
  obtain p sus where pt: "pt = (p, sus)" by (cases pt)
  obtain u1 u2 u3 where urls: "urls = (u1, u2, u3)" by (cases urls)
  note heartbeat = parse_heartbeat_ok[OF r(2)[unfolded hs]] and timing = parse_peer_timing_ok[OF r(4)[unfolded pt]]
  note kl = parse_cluster_ok[OF r(7)[unfolded pt] conjunct1[OF timing]]
  have "gateway_sane (server_gateway wsBytes c)"
    using parse_websocket_ok[OF r(8)[unfolded hs]] heartbeat
    by (simp add: server_gateway_def server_ws_options_def Let_def)
  moreover have "cluster_sane (server_cluster clusterBytes c)"
    using kl timing by (simp add: cluster_sane_def server_cluster_def server_cluster_options_def cluster_config_of_def opt_default_def Let_def c)
  moreover have "admin_sane d (bo_admin c)"
    by (rule parse_admin_ok[OF r(9)[unfolded urls]]) (rule parse_admin_urls_ok[OF r(5)[unfolded urls]])
  ultimately show ?thesis
    using parse_listen_ok[OF r(1)] parse_shutdown_ok[OF r(3)[unfolded sd]] create_alert_thresholds_ok[OF r(6)] kl timing n
    by (simp add: config_sane_def c listen_sane_idle)
qed

text \<open>A configuration that names its control port and one timing.\<close>

definition small_env :: env_vars where
  "small_env = map_of [(''CONTROL_PORT'', ''3100''), (''WS_STALE_AFTER_MS'', ''9e4'')]"

definition plain_deps :: bootstrap_deps where
  "plain_deps = \<lparr>bd_parseJson = (\<lambda>s. Inl ''Unexpected token''), bd_peerList = (\<lambda>j. Inl ''Required''), bd_isUrl = prefix ''http://''\<rparr>"

lemma unset_numbers:
  "env name = None \<Longrightarrow> parse_required_positive_ms env name d = Inr d"
  "env name = None \<Longrightarrow> parse_non_negative_ms env name d = Inr d"
  "env name = None \<Longrightarrow> parse_count env name t = Inr None"
  "env name = None \<Longrightarrow> parse_threshold env name = Inr None"
  "env name = None \<Longrightarrow> parse_integer env [name] l h desc = Inr None"
  by (simp_all add: parse_required_positive_ms_def parse_non_negative_ms_def parse_count_def parse_threshold_def
      parse_integer_def parse_number_def or_default_def)

lemma unset_objects:
  "env name = None \<Longrightarrow> parse_json_object dd env name = Inr None"
  "env name = None \<Longrightarrow> parse_string_record dd env name = Inr None"
  "env name = None \<Longrightarrow> parse_static_capacity dd env name = Inr None"
  "env name = None \<Longrightarrow> parse_string_list env name = None"
  by (simp_all add: parse_json_object_def parse_string_record_def parse_static_capacity_def parse_string_list_def)

lemma small_numbers: "to_number ''3100'' = Fin 3100" "to_number ''9e4'' = Fin 90000"
  by (simp_all add: number_defs)

lemma small_values:
  "parse_port small_env business_port_names (Some 3000) = Inr (Some 3000)"
  "parse_port small_env control_port_names None = Inr (Some 3100)"
  "parse_required_positive_ms small_env ''WS_STALE_AFTER_MS'' d = Inr 90000"
  by (simp_all add: small_env_def parse_port_def parse_integer_def parse_number_def business_port_names_def control_port_names_def
      small_numbers is_integer_def check_lowest_def check_highest_def or_default_def parse_required_positive_ms_def)

lemma small_config:
  "\<exists>c. parse_runtime_bootstrap_config plain_deps small_env = Inr c
    \<and> server_listeners c = [(3000, ListenBusiness), (3100, ListenControl)] \<and> sw_staleAfterMs (bo_websocket c) = 90000
    \<and> bo_shutdownDrainMs c = 250 \<and> bo_shutdownTimeoutMs c = 10000"
proof -
  have unset: "small_env name = None" if "name \<noteq> ''CONTROL_PORT''" "name \<noteq> ''WS_STALE_AFTER_MS''" for name
    using that by (simp add: small_env_def)
  have named: "first_env small_env business_port_names = None" "first_env small_env control_port_names \<noteq> None"
    by (simp_all add: small_env_def business_port_names_def control_port_names_def)
  have "parse_listen small_env = Inr \<lparr>li_businessPort = 3000, li_controlPort = Some 3100, li_businessPrefixes = None,
      li_controlPrefixes = None, li_singleListenerName = ListenBusiness, li_serverIdleTimeoutSeconds = None\<rparr>"
    using named by (simp add: parse_listen_def small_values parse_path_prefixes_def unset unset_objects Let_def)
  moreover have "parse_heartbeat small_env = Inr (25000, 90000)"
    by (simp add: parse_heartbeat_def small_values unset_numbers unset)
  moreover have "parse_shutdown small_env = Inr (250, 10000)" by (simp add: parse_shutdown_def unset_numbers unset)
  moreover have "parse_peer_timing small_env = Inr (1000, 5000)" by (simp add: parse_peer_timing_def unset_numbers unset)
  moreover have "parse_admin_urls plain_deps small_env = Inr (None, None, None)"
    by (simp add: parse_admin_urls_def env_string_first_def assert_url_def unset Let_def)
  moreover have "parse_metrics_mode small_env = Inr ModeWindowed" by (simp add: parse_metrics_mode_def unset)
  moreover obtain th where "create_alert_thresholds small_env = Inr th"
    by (simp add: create_alert_thresholds_def unset_numbers unset)
  moreover obtain k where "parse_cluster plain_deps small_env (1000, 5000) = Inr k"
    by (simp add: parse_cluster_def parse_cluster_peers_env_def parse_cluster_transport_env_def unset_numbers unset or_default_def)
  moreover obtain w where "parse_websocket small_env (25000, 90000) = Inr w" "sw_staleAfterMs w = 90000"
    by (simp add: parse_websocket_def unset_numbers unset or_default_def)
  moreover obtain a where "parse_admin plain_deps small_env (None, None, None) = Inr a"
    by (simp add: parse_admin_def unset_numbers unset_objects unset)
  ultimately show ?thesis
    by (simp add: parse_runtime_bootstrap_config_def parse_metrics_mode_def unset_numbers unset or_default_def server_listeners_def)
qed



section \<open>What a port exposes\<close>

lemma control_port_named:
  assumes "parse_listen env = Inr l" "li_controlPort l \<noteq> None"
  shows "li_singleListenerName l = ListenBusiness"
proof -
  have "parse_port env control_port_names None = Inr None" if "first_env env control_port_names = None"
    using that by (simp add: parse_port_def parse_integer_def parse_number_def)
  then have "\<exists>name v. first_env env control_port_names = Some (name, v)" if "parse_port env control_port_names None = Inr (Some y)" for y
    using that by (cases "first_env env control_port_names") auto
  then show ?thesis using assms
    by (auto simp: parse_listen_def ok_then_Inr Let_def split: if_splits)
qed

lemma internal_pages_on_control_port:
  assumes "parse_runtime_bootstrap_config d env = Inr c"
    and "prefix ''/__admin'' p \<or> prefix ''/__cluster'' p"
  shows "served_on bytes c p = (case li_controlPort (bo_listen c) of
      Some q \<Rightarrow> [q]
    | None \<Rightarrow> if li_singleListenerName (bo_listen c) = ListenDefault then [li_businessPort (bo_listen c)] else [])"
proof -
  obtain listen idle where r: "parse_listen env = Inr listen" "bo_listen c = listen\<lparr>li_serverIdleTimeoutSeconds := idle\<rparr>"
    using config_read[OF assms(1)] by blast
  have name: "li_singleListenerName listen = ListenBusiness \<or> li_singleListenerName listen = ListenDefault"
    using r(1) by (auto simp: parse_listen_def ok_then_Inr Let_def split: if_splits)
  have "is_path_allowed_on_listener o1 p ListenControl" "\<not> is_path_allowed_on_listener o1 p ListenBusiness"
    "is_path_allowed_on_listener o1 p ListenDefault" for o1
    using assms(2) by (auto simp: is_path_allowed_on_listener_def internal_only_path_prefixes_def Let_def)
  then show ?thesis using name control_port_named[OF r(1)] r(2)
    by (auto simp: served_on_def server_listeners_def split: option.splits)
qed

text \<open>The default port, once it is written out, hides the internal pages, and a control port equal to the business
  port is dropped without a word: the gateway then serves its control interface nowhere.\<close>

lemma naming_the_port_hides_control:
  assumes "parse_runtime_bootstrap_config d env = Inr c" "env ''PORT'' = Some ''3000''" "env ''BUSINESS_PORT'' = None"
    "env ''PUBLIC_PORT'' = None" "env ''INTERNAL_PORT'' = None" "env ''CONTROL_PORT'' \<in> {None, Some ''3000''}"
    and "prefix ''/__admin'' p \<or> prefix ''/__cluster'' p"
  shows "served_on bytes c p = []"
proof -
  obtain listen idle where r: "parse_listen env = Inr listen" "bo_listen c = listen\<lparr>li_serverIdleTimeoutSeconds := idle\<rparr>"
    using config_read[OF assms(1)] by blast
  have n: "to_number ''3000'' = Fin 3000" by (simp add: number_defs)
  have "first_env env business_port_names = Some (''PORT'', ''3000'')" using assms(2-4) by (simp add: business_port_names_def)
  moreover have "parse_port env business_port_names (Some 3000) = Inr (Some 3000)"
    using calculation by (simp add: parse_port_def parse_integer_def parse_number_def n is_integer_def check_lowest_def check_highest_def)
  moreover have "parse_port env control_port_names None \<in> {Inr None, Inr (Some 3000)}"
    using assms(5,6) by (auto simp: parse_port_def parse_integer_def parse_number_def n is_integer_def check_lowest_def
        check_highest_def control_port_names_def)
  ultimately have "li_controlPort listen = None" "li_singleListenerName listen = ListenBusiness"
    using r(1) by (auto simp: parse_listen_def ok_then_Inr Let_def split: if_splits)
  then show ?thesis using internal_pages_on_control_port[OF assms(1,7)] r(2) by simp
qed

section \<open>Alerts of an empty variable\<close>

text \<open>A variable that is set to nothing is read as the number zero, not as unset: the alert is on, and warns at every check, also
  when nothing happened.\<close>

lemma empty_threshold_always_warns:
  assumes "parse_runtime_bootstrap_config d env = Inr c" "env ''ALERT_HTTP_ERRORS'' = Some []"
  shows "start_alerts c sink now \<noteq> None
    \<and> CounterAlert ''http.error_rate_high'' ''http.error'' 0 0
      \<in> set (mo_warned (check_alerts (bo_alertThresholds c) s now \<lparr>mo_previous = s, mo_checkedAt = t, mo_warned = []\<rparr>))"
proof -
  have r: "create_alert_thresholds env = Inr (bo_alertThresholds c)" using config_read[OF assms(1)] by blast
  have n: "to_number [] = Fin 0" by code_simp
  have "parse_threshold env ''ALERT_HTTP_ERRORS'' = Inr (Some 0)"
    using assms(2) by (simp add: parse_threshold_def parse_number_def n is_integer_def check_lowest_def check_highest_def)
  then have zero: "th_httpErrors (bo_alertThresholds c) = Some 0"
    using r unfolding create_alert_thresholds_def by (elim ok_then_step reader_done) simp
  then have "CounterAlert ''http.error_rate_high'' ''http.error'' 0 0
      \<in> set (counter_warnings (counter_delta s s) (counter_alerts (bo_alertThresholds c)))"
    by (simp add: counter_warnings_def counter_alerts_def counter_delta_def)
  then show ?thesis using zero
    by (simp add: start_alerts_def has_alert_thresholds_def check_alerts_def Let_def fold_counters fold_timings)
qed

section \<open>The shutdown\<close>

lemma drain_loop_ends:
  assumes "drain_loop inflight late poll deadline now = (b, t)" "\<And>x. late x \<le> l"
  shows "now \<le> t \<and> t \<le> max now (deadline + int l)"
  using assms
proof (induction inflight late poll deadline now rule: drain_loop.induct)
  case (1 inflight late poll deadline now)
  show ?case
  proof (cases "inflight now \<le> 0 \<or> deadline - now \<le> 0")
    case True
    then have "t = now" using "1.prems"(1) by (auto simp: drain_loop.simps[of _ _ _ _ now] split: if_splits)
    then show ?thesis by simp
  next
    case False
    let ?next = "now + max 1 (min poll (deadline - now)) + int (late now)"
    have "drain_loop inflight late poll deadline ?next = (b, t)"
      using "1.prems"(1) False by (simp add: drain_loop.simps[of _ _ _ _ now])
    then have "?next \<le> t \<and> t \<le> max ?next (deadline + int l)" using "1.IH" "1.prems"(2) False by auto
    moreover have "?next \<le> deadline + int l" using False "1.prems"(2)[of now] by auto
    ultimately show ?thesis using False by auto
  qed
qed

text \<open>C38: With an accepted configuration whose shutdown limit a timer can hold (at most 2147483647 ms), the listeners
  are asked to stop after the signal and no later than the limit, plus what the timers of the process are late: the
  sleep before the drain and the last sleep of the drain. They are asked either with no request in flight, or when the
  whole limit has passed, and then the timer that stops them by force, set for exactly that limit, is due as well.\<close>

theorem shutdown_in_time:
  assumes "parse_runtime_bootstrap_config d env = Inr c" "\<And>t. late t \<le> l" "bo_shutdownTimeoutMs c \<le> max_timer_delay"
    and "r = shutdown c inflight sleepLate late stopping now"
  shows "now \<le> sd_stopsAt r \<and> sd_stopsAt r \<le> now + bo_shutdownTimeoutMs c + int sleepLate + int l
    \<and> sd_forceStopAt r = now + bo_shutdownTimeoutMs c
    \<and> (sd_drained r \<longrightarrow> inflight (sd_stopsAt r) \<le> 0)
    \<and> (\<not> sd_drained r \<longrightarrow> inflight (sd_stopsAt r) \<noteq> 0 \<and> sd_forceStopAt r \<le> sd_stopsAt r)"
proof -
  let ?d = "bo_shutdownDrainMs c" and ?t = "bo_shutdownTimeoutMs c"
  have sane: "0 \<le> ?d" "?d \<le> ?t" "1 \<le> ?t" using config_parts[OF assms(1)] by (auto simp: config_sane_def)
  have timers: "0 < ?d \<Longrightarrow> timer_delay ?d = ?d" "timer_delay ?t = ?t" using sane assms(3) by (auto simp: timer_delay_def)
  define slept where "slept = (if ?d > 0 then now + ?d + int sleepLate else now)"
  have slept: "now + ?d \<le> slept" "slept \<le> now + ?d + int sleepLate" using sane by (auto simp: slept_def)
  have eq: "(if ?d > 0 then now + timer_delay ?d + int sleepLate else now) = slept" using timers(1) by (simp add: slept_def)
  obtain drained t where w: "wait_for_http_drain inflight late (Some (max 0 (?t - ?d))) (Some 25) slept = (drained, t)"
    by (cases "wait_for_http_drain inflight late (Some (max 0 (?t - ?d))) (Some 25) slept")
  have r: "sd_drained r = drained" "sd_stopsAt r = t" "sd_forceStopAt r = now + ?t"
    using w eq by (simp_all add: assms(4) shutdown_def Let_def timers(2))
  consider (idle) "inflight slept = 0" "drained" "t = slept"
    | (noTime) "inflight slept \<noteq> 0" "\<not> drained" "t = slept" "?d = ?t"
    | (loop) "drain_loop inflight late 25 (slept + (?t - ?d)) slept = (drained, t)"
  proof (cases "inflight slept = 0 \<or> ?d = ?t")
    case True
    then have "(drained, t) = (inflight slept = 0, slept)" using w by (auto simp: wait_for_http_drain_def split: if_splits)
    then show thesis using True idle noTime by auto
  next
    case False
    then have "wait_for_http_drain inflight late (Some (max 0 (?t - ?d))) (Some 25) slept
        = drain_loop inflight late 25 (slept + (?t - ?d)) slept"
      using sane by (simp add: wait_for_http_drain_def)
    then show thesis using w loop by simp
  qed
  then show ?thesis
  proof cases
    case idle
    then show ?thesis using slept sane by (simp add: r)
  next
    case noTime
    then show ?thesis using slept sane by (simp add: r)
  next
    case loop
    have "slept \<le> t" "t \<le> slept + (?t - ?d) + int l"
      using drain_loop_ends[OF loop assms(2)] sane by auto
    moreover have "drained \<longrightarrow> inflight t \<le> 0"
      using loop drain_true[of inflight late 25 "slept + (?t - ?d)" slept t] by auto
    moreover have "\<not> drained \<longrightarrow> inflight t > 0 \<and> t \<ge> slept + (?t - ?d)"
      using loop drain_false[of inflight late 25 "slept + (?t - ?d)" slept t] by auto
    ultimately show ?thesis using slept sane(1) by (auto simp: r)
  qed
qed

text \<open>A request that stays until half a second after the signal.\<close>

lemma shutdown_in_time_witness:
  "\<exists>c. parse_runtime_bootstrap_config plain_deps small_env = Inr c
    \<and> sd_stopsAt (shutdown c (\<lambda>t. if t < 500 then 1 else 0) 3 (\<lambda>_. 2) 0 0) \<le> 10005"
proof -
  obtain c where c: "parse_runtime_bootstrap_config plain_deps small_env = Inr c" "bo_shutdownTimeoutMs c = 10000"
    using small_config by blast
  have "bo_shutdownTimeoutMs c \<le> max_timer_delay" using c(2) by (simp add: max_timer_delay_def)
  then have "sd_stopsAt (shutdown c (\<lambda>t. if t < 500 then 1 else 0) 3 (\<lambda>_. 2) 0 0) \<le> 0 + bo_shutdownTimeoutMs c + int 3 + int 2"
    using shutdown_in_time[OF c(1), of "\<lambda>_. 2" 2] by blast
  then show ?thesis using c by auto
qed

text \<open>A longer limit is accepted, and its timer is due at once: the listeners are stopped by force a millisecond after
  the signal, with whatever is in flight, while the drain goes on waiting for the configured time.\<close>

lemma long_limit_accepted:
  "parse_shutdown (map_of [(''SHUTDOWN_TIMEOUT_MS'', ''3e9'')]) = Inr (250, 3000000000)"
proof -
  have n: "to_number ''3e9'' = Fin 3000000000" by (simp add: number_defs)
  have "parse_required_positive_ms (map_of [(''SHUTDOWN_TIMEOUT_MS'', ''3e9'')]) ''SHUTDOWN_TIMEOUT_MS'' d = Inr 3000000000" for d
    by (simp add: parse_required_positive_ms_def parse_integer_def parse_number_def n is_integer_def check_lowest_def
        check_highest_def or_default_def)
  then show ?thesis by (simp add: parse_shutdown_def unset_numbers)
qed

lemma long_limit_forces_at_once:
  "max_timer_delay < bo_shutdownTimeoutMs c \<Longrightarrow>
   sd_forceStopAt (shutdown c inflight sleepLate late stopping now) = now + 1"
  by (simp add: shutdown_def timer_delay_def Let_def split: prod.split)

end
