(* ===== verification/Artifact_Store.thy ===== *)
theory Artifact_Store
  imports Admin_Types Upstream_Websocket
begin

text \<open>Staging of artifacts on the disk of a host (runtime/control/artifact-store.ts).

  The disk is a map from absolute paths to contents, with the directories that were made; a JSON file the
  store writes is the value it holds. Every operation on the disk may fail: \<open>ad_fault\<close> says which of the numbered operations
  do. Remote sources answer as \<open>aw_remote\<close> says. Parameters are hashes, the stamp of a path (its size and
  time of change), URLs, JSON files the store did not write, and the commands it runs. A file holds bytes; a text in memory is modelled by
  its UTF-8 encoding, and reading bytes as a text decodes them, which is not the identity on bytes that are not UTF-8.
  Log calls and the time a preparation takes are left out.\<close>

section \<open>Texts and bytes\<close>

text \<open>Decoding UTF-8 as the platform does (the WHATWG decoder), the result encoded again: what is not well formed becomes
  the replacement character, one for every longest piece that could begin a character. \<open>lead_byte\<close> is the number of
  bytes that follow a first byte, and the bounds of the second one.\<close>

definition replacement :: string where
  "replacement = [CHR 0xEF, CHR 0xBF, CHR 0xBD]"

definition lead_byte :: "nat \<Rightarrow> (nat \<times> nat \<times> nat) option" where
  "lead_byte n =
    (if n < 0x80 then Some (0, 0, 0)
     else if 0xC2 \<le> n \<and> n \<le> 0xDF then Some (1, 0x80, 0xBF)
     else if n = 0xE0 then Some (2, 0xA0, 0xBF)
     else if n = 0xED then Some (2, 0x80, 0x9F)
     else if 0xE1 \<le> n \<and> n \<le> 0xEF then Some (2, 0x80, 0xBF)
     else if n = 0xF0 then Some (3, 0x90, 0xBF)
     else if n = 0xF4 then Some (3, 0x80, 0x8F)
     else if 0xF1 \<le> n \<and> n \<le> 0xF3 then Some (3, 0x80, 0xBF)
     else None)"

text \<open>The bytes of the character that is being read, how many it still needs, and the bounds of the next one.\<close>

fun utf8_decode :: "string \<Rightarrow> nat \<Rightarrow> nat \<Rightarrow> nat \<Rightarrow> string \<Rightarrow> string" where
  "utf8_decode begun needed lo hi [] = (if begun = [] then [] else replacement)"
| "utf8_decode begun needed lo hi (b # bs) =
    (if begun \<noteq> [] \<and> lo \<le> of_char b \<and> of_char b \<le> hi then
       (if needed = 1 then begun @ b # utf8_decode [] 0 0 0 bs
        else utf8_decode (begun @ [b]) (needed - 1) 0x80 0xBF bs)
     else (if begun = [] then [] else replacement) @
       (case lead_byte (of_char b) of
          None \<Rightarrow> replacement @ utf8_decode [] 0 0 0 bs
        | Some (k, l, h) \<Rightarrow> if k = 0 then b # utf8_decode [] 0 0 0 bs else utf8_decode [b] k l h bs))"

definition utf8_text :: "string \<Rightarrow> string" where
  "utf8_text bytes = utf8_decode [] 0 0 0 bytes"

text \<open>The text of a response; it drops a byte order mark.\<close>

definition response_text :: "string \<Rightarrow> string" where
  "response_text bytes = utf8_text (if prefix [CHR 0xEF, CHR 0xBB, CHR 0xBF] bytes then drop 3 bytes else bytes)"

section \<open>POSIX paths\<close>

text \<open>The segments of a path without empty ones, dots, and the parents that can be resolved; the result is reversed.\<close>

fun norm_segments :: "bool \<Rightarrow> string list \<Rightarrow> string list \<Rightarrow> string list" where
  "norm_segments absolute done1 [] = done1"
| "norm_segments absolute done1 (s # ss) =
    (if s = [] \<or> s = ''.'' then norm_segments absolute done1 ss
     else if s = ''..'' then
       (case done1 of
          [] \<Rightarrow> norm_segments absolute (if absolute then [] else [s]) ss
        | t # ts \<Rightarrow> if t = ''..'' then norm_segments absolute (s # done1) ss else norm_segments absolute ts ss)
     else norm_segments absolute (s # done1) ss)"

fun join_segments :: "string list \<Rightarrow> string" where
  "join_segments [] = []"
| "join_segments [s] = s"
| "join_segments (s # t # ss) = s @ ''/'' @ join_segments (t # ss)"

definition is_absolute :: "string \<Rightarrow> bool" where
  "is_absolute p = prefix ''/'' p"

definition normalize_path :: "string \<Rightarrow> string" where
  "normalize_path p =
    (if p = [] then ''.''
     else (let s = join_segments (rev (norm_segments (is_absolute p) [] (split_on (CHR ''/'') p)));
               slash = suffix ''/'' p
           in if s = [] then (if is_absolute p then ''/'' else if slash then ''./'' else ''.'')
              else (if is_absolute p then ''/'' else []) @ s @ (if slash then ''/'' else [])))"

definition join_path :: "string \<Rightarrow> string \<Rightarrow> string" where
  "join_path a b = normalize_path (if a = [] then b else if b = [] then a else a @ ''/'' @ b)"

definition resolve_path :: "string \<Rightarrow> string \<Rightarrow> string" where
  "resolve_path cwd p =
    (let q = (if is_absolute p then p else cwd @ ''/'' @ p)
     in ''/'' @ join_segments (rev (norm_segments True [] (split_on (CHR ''/'') q))))"

definition dirname :: "string \<Rightarrow> string" where
  "dirname p = (case p of
     [] \<Rightarrow> ''.''
   | c # cs \<Rightarrow>
      (let r = dropWhile (\<lambda>x. x \<noteq> CHR ''/'') (dropWhile (\<lambda>x. x = CHR ''/'') (rev cs)) in
       if r = [] then (if c = CHR ''/'' then ''/'' else ''.'')
       else if c = CHR ''/'' \<and> tl r = [] then ''//''
       else c # rev (tl r)))"

section \<open>The disk\<close>

datatype input_kind = WorkerInput | DirectoryInput | ArchiveInput | ProjectInput

record prepared_input =
  pi_kind :: input_kind
  pi_logicalName :: "string option"
  pi_sourceRef :: string
  pi_targetPath :: string
  pi_fingerprint :: "string option"

record prepared_metadata =
  pm_sourceUri :: string
  pm_digest :: "string option"
  pm_entry :: string
  pm_packageManager :: package_manager
  pm_inputs :: "prepared_input list"

type_synonym prepare_key = "package_manager \<times> prepared_input list"

datatype file_content =
    Bytes string
  | MetadataFile prepared_metadata
  | PrepareFile prepare_key int

datatype remote_answer =
    RemoteFails string
  | RemoteStatus nat string
  | RemoteBody string

record artifact_world =
  aw_files :: "(string, file_content) js_map"
  aw_dirs :: "string list"
  aw_remote :: "string \<Rightarrow> remote_answer"
  aw_ops :: nat
  aw_now :: int
  aw_metrics :: "string list"

datatype file_op =
    ReadOp string | WriteOp string | MkdirOp string | RmOp string | CpOp string string | StatOp string | AccessOp string

record artifact_deps =
  ad_cwd :: string
  ad_rootDir :: string
  ad_fault :: "nat \<Rightarrow> file_op \<Rightarrow> string option"
  ad_stamp :: "artifact_world \<Rightarrow> string \<Rightarrow> string"
  ad_hash :: "string \<Rightarrow> string \<Rightarrow> string"
  ad_urlPathname :: "string \<Rightarrow> string + string"
  ad_urlResolve :: "string \<Rightarrow> string \<Rightarrow> string + string"
  ad_fileUrlToPath :: "string \<Rightarrow> string + string"
  ad_jsonText :: "file_content \<Rightarrow> string"
  ad_parseMetadata :: "string \<Rightarrow> prepared_metadata option"
  ad_parsePrepared :: "string \<Rightarrow> prepare_key option"
  ad_run :: "string \<Rightarrow> string list \<Rightarrow> artifact_world \<Rightarrow> (string + unit) \<times> artifact_world"

text \<open>A path below another one.\<close>

definition below_path :: "string \<Rightarrow> string \<Rightarrow> bool" where
  "below_path p q = prefix (if suffix ''/'' p then p else p @ ''/'') q"

definition is_file :: "artifact_world \<Rightarrow> string \<Rightarrow> bool" where
  "is_file w p = (map_of (aw_files w) p \<noteq> None)"

definition is_dir :: "artifact_world \<Rightarrow> string \<Rightarrow> bool" where
  "is_dir w p = (p = ''/'' \<or> p \<in> set (aw_dirs w) \<or> list_ex (below_path p) (aw_dirs w @ map fst (aw_files w)))"

definition attempt :: "artifact_deps \<Rightarrow> file_op \<Rightarrow> artifact_world \<Rightarrow> (string + unit) \<times> artifact_world" where
  "attempt d op w =
    ((case ad_fault d (aw_ops w) op of Some e \<Rightarrow> Inl e | None \<Rightarrow> Inr ()), w\<lparr>aw_ops := aw_ops w + 1\<rparr>)"

definition read_file :: "artifact_deps \<Rightarrow> string \<Rightarrow> artifact_world \<Rightarrow> (string + file_content) \<times> artifact_world" where
  "read_file d p w = and_then (attempt d (ReadOp p) w) (\<lambda>_ w. case map_of (aw_files w) p of
     None \<Rightarrow> (Inl (''no such file: '' @ p), w)
   | Some c \<Rightarrow> (Inr c, w))"

definition write_file :: "artifact_deps \<Rightarrow> string \<Rightarrow> file_content \<Rightarrow> artifact_world \<Rightarrow> (string + unit) \<times> artifact_world" where
  "write_file d p c w = and_then (attempt d (WriteOp p) w) (\<lambda>_ w.
     if \<not> is_dir w (dirname p) \<or> is_dir w p then (Inl (''cannot write: '' @ p), w)
     else (Inr (), w\<lparr>aw_files := map_set p c (aw_files w)\<rparr>))"

definition make_dir :: "artifact_deps \<Rightarrow> string \<Rightarrow> artifact_world \<Rightarrow> (string + unit) \<times> artifact_world" where
  "make_dir d p w = and_then (attempt d (MkdirOp p) w) (\<lambda>_ w.
     if is_file w p \<or> list_ex (\<lambda>q. below_path q p) (map fst (aw_files w)) then (Inl (''not a directory: '' @ p), w)
     else (Inr (), w\<lparr>aw_dirs := p # aw_dirs w\<rparr>))"

definition remove_tree :: "artifact_deps \<Rightarrow> string \<Rightarrow> artifact_world \<Rightarrow> (string + unit) \<times> artifact_world" where
  "remove_tree d p w = and_then (attempt d (RmOp p) w) (\<lambda>_ w.
     (Inr (), w\<lparr>aw_files := filter (\<lambda>(q, _). q \<noteq> p \<and> \<not> below_path p q) (aw_files w),
       aw_dirs := filter (\<lambda>q. q \<noteq> p \<and> \<not> below_path p q) (aw_dirs w)\<rparr>))"

definition copy_tree :: "artifact_deps \<Rightarrow> string \<Rightarrow> string \<Rightarrow> artifact_world \<Rightarrow> (string + unit) \<times> artifact_world" where
  "copy_tree d source target w = and_then (attempt d (CpOp source target) w) (\<lambda>_ w.
     if \<not> is_dir w source then (Inl (''no such directory: '' @ source), w)
     else if source = target \<or> below_path source target then (Inl (''cannot copy into itself: '' @ source), w)
     else (Inr (), w\<lparr>aw_files := fold (\<lambda>(q, c). map_set (target @ drop (length source) q) c)
              (filter (\<lambda>(q, _). below_path source q) (aw_files w)) (aw_files w),
            aw_dirs := target # map (\<lambda>q. target @ drop (length source) q) (filter (below_path source) (aw_dirs w)) @ aw_dirs w\<rparr>))"

definition content_text :: "artifact_deps \<Rightarrow> file_content \<Rightarrow> string" where
  "content_text d c = (case c of Bytes s \<Rightarrow> s | _ \<Rightarrow> ad_jsonText d c)"

section \<open>References to sources\<close>

definition is_remote_source_ref :: "string \<Rightarrow> bool" where
  "is_remote_source_ref s = (prefix ''http://'' s \<or> prefix ''https://'' s)"

definition is_file_url :: "string \<Rightarrow> bool" where
  "is_file_url s = prefix ''file://'' s"

definition is_archive_source_ref :: "artifact_deps \<Rightarrow> string \<Rightarrow> string + bool" where
  "is_archive_source_ref d s =
    map_sum id (\<lambda>pathname. suffix ''.tgz'' pathname \<or> suffix ''.tar.gz'' pathname)
      (if is_remote_source_ref s \<or> is_file_url s then ad_urlPathname d s else Inr s)"

definition resolve_local_source_path :: "artifact_deps \<Rightarrow> string \<Rightarrow> string + string" where
  "resolve_local_source_path d s = (if is_file_url s then ad_fileUrlToPath d s else Inr (resolve_path (ad_cwd d) s))"

text \<open>\<open>stat\<close>: whether the path is a directory.\<close>

definition stat_path :: "artifact_deps \<Rightarrow> string \<Rightarrow> artifact_world \<Rightarrow> (string + bool) \<times> artifact_world" where
  "stat_path d p w = and_then (attempt d (StatOp p) w) (\<lambda>_ w.
     if is_file w p then (Inr False, w) else if is_dir w p then (Inr True, w) else (Inl (''no such file: '' @ p), w))"

definition is_directory_source_ref :: "artifact_deps \<Rightarrow> string \<Rightarrow> artifact_world \<Rightarrow> bool \<times> artifact_world" where
  "is_directory_source_ref d s w =
    (if is_remote_source_ref s then (False, w)
     else (case resolve_local_source_path d s of
       Inl e \<Rightarrow> (False, w)
     | Inr p \<Rightarrow> (case stat_path d p w of (Inl e, w) \<Rightarrow> (False, w) | (Inr b, w) \<Rightarrow> (b, w))))"

definition compute_source_fingerprint :: "artifact_deps \<Rightarrow> string \<Rightarrow> artifact_world \<Rightarrow> (string + string option) \<times> artifact_world" where
  "compute_source_fingerprint d s w =
    (if is_remote_source_ref s then (Inr None, w)
     else and_then (is_archive_source_ref d s, w) (\<lambda>archive w.
       and_then (resolve_local_source_path d s, w) (\<lambda>p w.
         if archive then and_then (read_file d p w) (\<lambda>c w. (Inr (Some (ad_hash d ''sha256'' (content_text d c))), w))
         else and_then (stat_path d p w) (\<lambda>_ w. (Inr (Some (ad_stamp d w p)), w)))))"

definition fetch_source :: "(string \<Rightarrow> string) \<Rightarrow> string \<Rightarrow> artifact_world \<Rightarrow> (string + string) \<times> artifact_world" where
  "fetch_source body_of s w = (case aw_remote w s of
      RemoteFails e \<Rightarrow> (Inl e, w)
    | RemoteStatus status statusText \<Rightarrow> (Inl (trim (''Artifact fetch failed: '' @ nat_str status @ '' '' @ statusText)), w)
    | RemoteBody body \<Rightarrow> (Inr (body_of body), w))"

definition read_local_source :: "artifact_deps \<Rightarrow> (string \<Rightarrow> string) \<Rightarrow> string \<Rightarrow> artifact_world \<Rightarrow> (string + string) \<times> artifact_world" where
  "read_local_source d body_of s w =
    and_then (resolve_local_source_path d s, w) (\<lambda>p w.
    and_then (read_file d p w) (\<lambda>c w. (Inr (body_of (content_text d c)), w)))"

definition read_source :: "artifact_deps \<Rightarrow> string \<Rightarrow> artifact_world \<Rightarrow> (string + string) \<times> artifact_world" where
  "read_source d s w =
    (if is_remote_source_ref s then fetch_source response_text s w else read_local_source d utf8_text s w)"

definition read_source_bytes :: "artifact_deps \<Rightarrow> string \<Rightarrow> artifact_world \<Rightarrow> (string + string) \<times> artifact_world" where
  "read_source_bytes d s w =
    (if is_remote_source_ref s then fetch_source (\<lambda>b. b) s w else read_local_source d (\<lambda>b. b) s w)"

text \<open>A digest names its algorithm or is one of SHA-256.\<close>

definition digest_parts :: "string \<Rightarrow> string \<times> string" where
  "digest_parts digest = (if CHR '':'' \<in> set digest
     then (case split_on (CHR '':'') digest of a # e # _ \<Rightarrow> (a, e) | _ \<Rightarrow> ([], []))
     else (''sha256'', digest))"

definition verify_digest :: "artifact_deps \<Rightarrow> string \<Rightarrow> string option \<Rightarrow> string + unit" where
  "verify_digest d source digest = (case digest of
     None \<Rightarrow> Inr ()
   | Some [] \<Rightarrow> Inr ()
   | Some t \<Rightarrow>
      (let (algorithm, expected) = digest_parts t in
       if expected = [] then Inl (''Invalid artifact digest format: '' @ t)
       else if algorithm \<noteq> ''sha256'' \<and> algorithm \<noteq> ''sha512'' then Inl (''Unsupported artifact digest algorithm: '' @ algorithm)
       else if ad_hash d algorithm source \<noteq> expected then Inl (''Artifact digest mismatch for '' @ algorithm)
       else Inr ()))"

section \<open>Names\<close>

definition name_char :: "char \<Rightarrow> bool" where
  "name_char c = (let n = (of_char c :: nat) in
     48 \<le> n \<and> n \<le> 57 \<or> 65 \<le> n \<and> n \<le> 90 \<or> 97 \<le> n \<and> n \<le> 122 \<or> c = CHR ''.'' \<or> c = CHR ''_'' \<or> c = CHR ''-'')"

text \<open>Every run of other characters becomes one underscore.\<close>

fun sanitize_run :: "bool \<Rightarrow> string \<Rightarrow> string" where
  "sanitize_run inRun [] = []"
| "sanitize_run inRun (c # cs) =
    (if name_char c then c # sanitize_run False cs
     else if inRun then sanitize_run True cs
     else CHR ''_'' # sanitize_run True cs)"

definition sanitize_path_segment :: "string \<Rightarrow> string" where
  "sanitize_path_segment v = sanitize_run False v"

definition is_absolute_file_system_path :: "string \<Rightarrow> bool" where
  "is_absolute_file_system_path p = (prefix ''/'' p \<or> (case p of
     a # b # c # _ \<Rightarrow>
       (let n = (of_char a :: nat) in 65 \<le> n \<and> n \<le> 90 \<or> 97 \<le> n \<and> n \<le> 122) \<and> b = CHR '':'' \<and> (c = CHR 0x5C \<or> c = CHR ''/'')
   | _ \<Rightarrow> False))"

definition resolve_companion_source_ref :: "artifact_deps \<Rightarrow> string \<Rightarrow> string \<Rightarrow> string + string" where
  "resolve_companion_source_ref d worker ref =
    (if is_remote_source_ref ref \<or> is_file_url ref then Inr ref
     else if is_remote_source_ref worker \<or> is_file_url worker then ad_urlResolve d ref worker
     else Inr (if is_absolute ref then resolve_path (ad_cwd d) ref
               else resolve_path (ad_cwd d) (dirname worker @ ''/'' @ ref)))"

definition resolve_local_package_file_path :: "string \<Rightarrow> string \<Rightarrow> string \<Rightarrow> string" where
  "resolve_local_package_file_path artifactDir ref fallbackName =
    (if is_remote_source_ref ref \<or> is_file_url ref then join_path artifactDir fallbackName
     else if is_absolute_file_system_path ref then join_path artifactDir fallbackName
     else join_path artifactDir ref)"

text \<open>A project file is its logical name, its source and its place.\<close>

definition build_project_file ::
  "artifact_deps \<Rightarrow> string \<Rightarrow> string option \<Rightarrow> string \<Rightarrow> string \<Rightarrow> string \<Rightarrow> string + (string \<times> string \<times> string) option" where
  "build_project_file d logicalName fileRef artifactDir worker fallbackName = (case fileRef of
     None \<Rightarrow> Inr None
   | Some [] \<Rightarrow> Inr None
   | Some ref \<Rightarrow> map_sum id (\<lambda>source. Some (logicalName, source, resolve_local_package_file_path artifactDir ref fallbackName))
       (resolve_companion_source_ref d worker ref))"

fun all_present :: "(string + 'a option) list \<Rightarrow> string + 'a list" where
  "all_present [] = Inr []"
| "all_present (Inl e # xs) = Inl e"
| "all_present (Inr None # xs) = all_present xs"
| "all_present (Inr (Some x) # xs) = map_sum id (Cons x) (all_present xs)"

definition list_project_files :: "artifact_deps \<Rightarrow> package_manager \<Rightarrow> string \<Rightarrow> string \<Rightarrow> string + (string \<times> string \<times> string) list" where
  "list_project_files d manager artifactDir worker = all_present (case manager of
     DenoPackages denoJson denoLock _ \<Rightarrow>
       [build_project_file d ''denoJson'' denoJson artifactDir worker ''deno.json'',
        build_project_file d ''denoLock'' denoLock artifactDir worker ''deno.lock'']
   | BunPackages packageJson bunfigToml bunLock _ \<Rightarrow>
       [build_project_file d ''packageJson'' packageJson artifactDir worker ''package.json'',
        build_project_file d ''bunfigToml'' bunfigToml artifactDir worker ''bunfig.toml'',
        build_project_file d ''bunLock'' bunLock artifactDir worker ''bun.lock''])"

section \<open>What a staging is about to do\<close>

record stage_plan =
  sg_sourceUri :: string
  sg_digest :: "string option"
  sg_entry :: string
  sg_localEntry :: string
  sg_artifactDir :: string
  sg_packageManager :: package_manager
  sg_inputs :: "prepared_input list"

fun project_inputs :: "artifact_deps \<Rightarrow> (string \<times> string \<times> string) list \<Rightarrow> artifact_world \<Rightarrow> (string + prepared_input list) \<times> artifact_world" where
  "project_inputs d [] w = (Inr [], w)"
| "project_inputs d ((logicalName, source, target) # rest) w =
    and_then (compute_source_fingerprint d source w) (\<lambda>fingerprint w.
    and_then (project_inputs d rest w) (\<lambda>inputs w.
      (Inr (\<lparr>pi_kind = ProjectInput, pi_logicalName = Some logicalName, pi_sourceRef = source, pi_targetPath = target,
         pi_fingerprint = fingerprint\<rparr> # inputs), w)))"

definition build_stage_plan ::
  "artifact_deps \<Rightarrow> string \<Rightarrow> string option \<Rightarrow> string \<Rightarrow> string \<Rightarrow> package_manager \<Rightarrow> string \<Rightarrow> artifact_world
    \<Rightarrow> (string + stage_plan) \<times> artifact_world" where
  "build_stage_plan d sourceUri digest entry localEntry manager artifactDir w =
    (let (isDirectory, w) = is_directory_source_ref d sourceUri w in
     and_then (is_archive_source_ref d sourceUri, w) (\<lambda>isArchive w.
     and_then (compute_source_fingerprint d sourceUri w) (\<lambda>fingerprint w.
       (let kind = (if isArchive then ArchiveInput else if isDirectory then DirectoryInput else WorkerInput);
            first = \<lparr>pi_kind = kind, pi_logicalName = None, pi_sourceRef = sourceUri,
              pi_targetPath = (if kind = WorkerInput then localEntry else artifactDir), pi_fingerprint = fingerprint\<rparr>;
            plan = (\<lambda>rest. \<lparr>sg_sourceUri = sourceUri, sg_digest = digest, sg_entry = entry, sg_localEntry = localEntry,
              sg_artifactDir = artifactDir, sg_packageManager = manager, sg_inputs = first # rest\<rparr>)
        in if kind = WorkerInput
           then and_then (list_project_files d manager artifactDir sourceUri, w) (\<lambda>files w.
             and_then (project_inputs d files w) (\<lambda>rest w. (Inr (plan rest), w)))
           else (Inr (plan []), w)))))"

section \<open>What is there already\<close>

definition read_prepared_metadata :: "artifact_deps \<Rightarrow> string \<Rightarrow> artifact_world \<Rightarrow> prepared_metadata option \<times> artifact_world" where
  "read_prepared_metadata d p w = (case read_file d p w of
     (Inl e, w) \<Rightarrow> (None, w)
   | (Inr (MetadataFile m), w) \<Rightarrow> (Some m, w)
   | (Inr c, w) \<Rightarrow> (ad_parseMetadata d (content_text d c), w))"

definition read_prepared_project_state :: "artifact_deps \<Rightarrow> string \<Rightarrow> artifact_world \<Rightarrow> prepare_key option \<times> artifact_world" where
  "read_prepared_project_state d p w = (case read_file d p w of
     (Inl e, w) \<Rightarrow> (None, w)
   | (Inr (PrepareFile key t), w) \<Rightarrow> (Some key, w)
   | (Inr c, w) \<Rightarrow> (ad_parsePrepared d (content_text d c), w))"

definition path_exists :: "artifact_deps \<Rightarrow> string \<Rightarrow> artifact_world \<Rightarrow> bool \<times> artifact_world" where
  "path_exists d p w = (case attempt d (AccessOp p) w of
     (Inl e, w) \<Rightarrow> (False, w)
   | (Inr _, w) \<Rightarrow> (is_file w p \<or> is_dir w p, w))"

fun same_package_manager :: "package_manager \<Rightarrow> package_manager \<Rightarrow> bool" where
  "same_package_manager (BunPackages p1 t1 l1 f1) (BunPackages p2 t2 l2 f2) = (f1 = f2 \<and> p1 = p2 \<and> t1 = t2 \<and> l1 = l2)"
| "same_package_manager (DenoPackages j1 l1 f1) (DenoPackages j2 l2 f2) = (f1 = f2 \<and> j1 = j2 \<and> l1 = l2)"
| "same_package_manager _ _ = False"

definition can_reuse_prepared_input :: "prepared_input \<Rightarrow> prepared_input \<Rightarrow> string option \<Rightarrow> bool" where
  "can_reuse_prepared_input staged cached workerDigest =
    (if is_remote_source_ref (pi_sourceRef staged)
     then pi_kind staged = WorkerInput \<and> (case workerDigest of None \<Rightarrow> False | Some t \<Rightarrow> t \<noteq> []) \<or> pi_kind staged = ArchiveInput
     else pi_fingerprint staged \<noteq> None \<and> pi_fingerprint staged = pi_fingerprint cached)"

fun inputs_reusable :: "artifact_deps \<Rightarrow> string option \<Rightarrow> prepared_input list \<Rightarrow> prepared_input list \<Rightarrow> artifact_world \<Rightarrow> bool \<times> artifact_world" where
  "inputs_reusable d digest (staged # ss) (cached # cs) w =
    (if pi_kind cached \<noteq> pi_kind staged \<or> pi_logicalName cached \<noteq> pi_logicalName staged
        \<or> pi_sourceRef cached \<noteq> pi_sourceRef staged \<or> pi_targetPath cached \<noteq> pi_targetPath staged then (False, w)
     else (case path_exists d (pi_targetPath staged) w of
       (there, w) \<Rightarrow> if \<not> there \<or> \<not> can_reuse_prepared_input staged cached digest then (False, w)
                     else inputs_reusable d digest ss cs w))"
| "inputs_reusable d digest [] cs w = (True, w)"
| "inputs_reusable d digest (staged # ss) [] w = (False, w)"

definition can_reuse_prepared_artifact :: "artifact_deps \<Rightarrow> prepared_metadata option \<Rightarrow> stage_plan \<Rightarrow> artifact_world \<Rightarrow> bool \<times> artifact_world" where
  "can_reuse_prepared_artifact d current plan w = (case current of
     None \<Rightarrow> (False, w)
   | Some m \<Rightarrow>
      (if pm_sourceUri m \<noteq> sg_sourceUri plan \<or> pm_digest m \<noteq> sg_digest plan \<or> pm_entry m \<noteq> sg_entry plan then (False, w)
       else if \<not> same_package_manager (pm_packageManager m) (sg_packageManager plan)
            \<or> length (pm_inputs m) \<noteq> length (sg_inputs plan) then (False, w)
       else inputs_reusable d (sg_digest plan) (sg_inputs plan) (pm_inputs m) w))"

section \<open>The project of an artifact\<close>

definition create_project_prepare_key :: "package_manager \<Rightarrow> prepared_input list \<Rightarrow> prepare_key" where
  "create_project_prepare_key manager inputs = (manager, filter (\<lambda>i. pi_kind i = ProjectInput) inputs)"

definition metric :: "string \<Rightarrow> artifact_world \<Rightarrow> artifact_world" where
  "metric name w = w\<lparr>aw_metrics := aw_metrics w @ [name]\<rparr>"

definition install_args :: "string \<Rightarrow> bool \<Rightarrow> string list" where
  "install_args artifactDir frozen =
    [''install'', ''--cwd'', artifactDir, ''--silent'', ''--no-progress'', ''--no-summary'', ''--ignore-scripts'']
      @ (if frozen then [''--frozen-lockfile''] else [])"

definition ensure_project_prepared :: "artifact_deps \<Rightarrow> stage_plan \<Rightarrow> artifact_world \<Rightarrow> (string + unit) \<times> artifact_world" where
  "ensure_project_prepared d plan w = (case sg_packageManager plan of
     DenoPackages _ _ _ \<Rightarrow> (Inr (), w)
   | BunPackages packageJson _ _ frozenLock \<Rightarrow>
      (if packageJson = None \<or> packageJson = Some [] then (Inr (), w)
       else (let key = create_project_prepare_key (sg_packageManager plan) (sg_inputs plan);
                 statePath = join_path (sg_artifactDir plan) ''.artifact-prepare-meta.json'';
                 (current, w) = read_prepared_project_state d statePath w
             in if current = Some key then (Inr (), metric ''artifact.prepare_cache_hit'' w)
                else (case and_then (ad_run d ''bun'' (install_args (sg_artifactDir plan) (frozenLock = Some True))
                        (metric ''artifact.prepare_cache_miss'' w))
                      (\<lambda>_ w. write_file d statePath (PrepareFile key (aw_now w)) w) of
                    (Inr _, w) \<Rightarrow> (Inr (), metric ''artifact.prepare_ok'' w)
                  | (Inl e, w) \<Rightarrow> (Inl e, metric ''artifact.prepare_error'' w)))))"

section \<open>Staging\<close>

definition extract_archive_source :: "artifact_deps \<Rightarrow> string \<Rightarrow> string \<Rightarrow> string option \<Rightarrow> artifact_world \<Rightarrow> (string + unit) \<times> artifact_world" where
  "extract_archive_source d source artifactDir digest w =
    (let archivePath = join_path artifactDir ''.artifact-source.tgz'' in
     and_then (read_source_bytes d source w) (\<lambda>archive w.
     and_then (verify_digest d archive digest, w) (\<lambda>_ w.
     and_then (remove_tree d artifactDir w) (\<lambda>_ w.
     and_then (make_dir d artifactDir w) (\<lambda>_ w.
     and_then (write_file d archivePath (Bytes archive) w) (\<lambda>_ w.
     and_then (ad_run d ''tar'' [''-xzf'', archivePath, ''-C'', artifactDir] w) (\<lambda>_ w.
       remove_tree d archivePath w)))))))"

definition stage_input :: "artifact_deps \<Rightarrow> string option \<Rightarrow> prepared_input \<Rightarrow> artifact_world \<Rightarrow> (string + unit) \<times> artifact_world" where
  "stage_input d digest i w = (case pi_kind i of
     DirectoryInput \<Rightarrow>
       and_then (remove_tree d (pi_targetPath i) w) (\<lambda>_ w.
       and_then (resolve_local_source_path d (pi_sourceRef i), w) (\<lambda>source w. copy_tree d source (pi_targetPath i) w))
   | ArchiveInput \<Rightarrow> extract_archive_source d (pi_sourceRef i) (pi_targetPath i) digest w
   | kind \<Rightarrow>
       and_then (read_source d (pi_sourceRef i) w) (\<lambda>source w.
       and_then (if kind = WorkerInput then verify_digest d source digest else Inr (), w) (\<lambda>_ w.
       and_then (make_dir d (dirname (pi_targetPath i)) w) (\<lambda>_ w.
         write_file d (pi_targetPath i) (Bytes source) w))))"

fun stage_inputs :: "artifact_deps \<Rightarrow> string option \<Rightarrow> prepared_input list \<Rightarrow> artifact_world \<Rightarrow> (string + unit) \<times> artifact_world" where
  "stage_inputs d digest [] w = (Inr (), w)"
| "stage_inputs d digest (i # is1) w = and_then (stage_input d digest i w) (\<lambda>_ w. stage_inputs d digest is1 w)"

definition plan_metadata :: "stage_plan \<Rightarrow> prepared_metadata" where
  "plan_metadata plan = \<lparr>pm_sourceUri = sg_sourceUri plan, pm_digest = sg_digest plan, pm_entry = sg_entry plan,
     pm_packageManager = sg_packageManager plan, pm_inputs = sg_inputs plan\<rparr>"

definition stage_artifact ::
  "artifact_deps \<Rightarrow> string \<Rightarrow> string \<Rightarrow> string \<Rightarrow> string option \<Rightarrow> package_manager \<Rightarrow> artifact_world
    \<Rightarrow> (string + string) \<times> artifact_world" where
  "stage_artifact d entry manifestId sourceUri digest manager w =
    (let artifactDir = join_path (resolve_path (ad_cwd d) (ad_rootDir d)) (sanitize_path_segment manifestId);
         localEntry = join_path artifactDir entry;
         metadataPath = join_path artifactDir ''.artifact-meta.json''
     in and_then (build_stage_plan d sourceUri digest entry localEntry manager artifactDir w) (\<lambda>plan w.
       (case read_prepared_metadata d metadataPath w of
         (current, w) \<Rightarrow> (case can_reuse_prepared_artifact d current plan w of
           (reusable, w) \<Rightarrow>
             if reusable then and_then (ensure_project_prepared d plan w) (\<lambda>_ w. (Inr localEntry, w))
             else and_then (stage_inputs d digest (sg_inputs plan) w) (\<lambda>_ w.
                  and_then (write_file d metadataPath (MetadataFile (plan_metadata plan)) w) (\<lambda>_ w.
                  and_then (ensure_project_prepared d plan w) (\<lambda>_ w. (Inr localEntry, w))))))))"

definition stage_of :: "artifact_deps \<Rightarrow> string \<Rightarrow> string option \<Rightarrow> assignment \<Rightarrow> artifact_manifest option \<Rightarrow> artifact_world
    \<Rightarrow> (string + string) \<times> artifact_world" where
  "stage_of d missing fallbackEntry a manifest w =
    (case (case manifest of Some m \<Rightarrow> Some (am_entry m) | None \<Rightarrow> fallbackEntry) of
       None \<Rightarrow> (Inl (missing @ as_assignmentId a), w)
     | Some [] \<Rightarrow> (Inl (missing @ as_assignmentId a), w)
     | Some entry \<Rightarrow>
        (case manifest of
           Some m \<Rightarrow> stage_artifact d entry (am_manifestId m) (am_sourceUri m)
             (or_else (am_sourceDigest m) (af_digest (as_artifact a))) (am_packageManager m) w
         | None \<Rightarrow> stage_artifact d entry (af_manifestId (as_artifact a)) (af_sourceUri (as_artifact a))
             (af_digest (as_artifact a)) (BunPackages None None None None) w))"

definition stage_http_worker :: "artifact_deps \<Rightarrow> assignment \<Rightarrow> artifact_manifest option \<Rightarrow> artifact_world \<Rightarrow> (string + string) \<times> artifact_world" where
  "stage_http_worker d a = stage_of d ''Missing http worker entry for assignment '' (map_option ex_entry (as_httpWorker a)) a"

definition stage_service_module :: "artifact_deps \<Rightarrow> assignment \<Rightarrow> artifact_manifest option \<Rightarrow> artifact_world \<Rightarrow> (string + string) \<times> artifact_world" where
  "stage_service_module d a = stage_of d ''Missing service module entry for assignment '' (map_option sm_entry (as_serviceModule a)) a"

end
