(* ===== verification/Artifact_Props.thy ===== *)
theory Artifact_Props
  imports Artifact_Store
begin

text \<open>What staging promises while no staging of the artifact fails half-way: after a staging that succeeds, the entry of
  a worker has the digest that was asked for, also when nothing was fetched because an earlier staging is reused. The
  last section shows where the store falls short.\<close>

section \<open>What an operation leaves alone\<close>

definition file_at :: "artifact_world \<Rightarrow> string \<Rightarrow> file_content option" where
  "file_at w p = map_of (aw_files w) p"

definition same_files :: "artifact_world \<Rightarrow> artifact_world \<Rightarrow> bool" where
  "same_files w w' = (aw_files w' = aw_files w)"

lemma same_files_refl [simp]: "same_files w w"
  by (simp add: same_files_def)

lemma same_files_trans: "same_files w w1 \<Longrightarrow> same_files w1 w2 \<Longrightarrow> same_files w w2"
  by (simp add: same_files_def)

lemma and_then_same:
  "same_files w (snd m) \<Longrightarrow> (\<And>a s. m = (Inr a, s) \<Longrightarrow> same_files s (snd (f a s))) \<Longrightarrow> same_files w (snd (and_then m f))"
  by (auto simp: and_then_def same_files_def split: sum.split prod.split)

lemma same_attempt: "same_files w (snd (attempt d op w))"
  by (simp add: attempt_def same_files_def)

lemma same_read_file: "same_files w (snd (read_file d p w))"
  unfolding read_file_def by (rule and_then_same[OF same_attempt]) (simp split: option.split)

lemma same_stat_path: "same_files w (snd (stat_path d p w))"
  unfolding stat_path_def by (rule and_then_same[OF same_attempt]) simp

lemma same_is_directory: "same_files w (snd (is_directory_source_ref d s w))"
  using same_stat_path[of w d]
  by (auto simp: is_directory_source_ref_def split: sum.split prod.split) (metis snd_conv)+

lemma same_fingerprint: "same_files w (snd (compute_source_fingerprint d s w))"
  unfolding compute_source_fingerprint_def
  by (auto intro!: and_then_same intro: same_read_file same_stat_path)

lemma same_project_inputs: "same_files w (snd (project_inputs d fs w))"
  by (induction d fs w rule: project_inputs.induct) (auto intro!: and_then_same intro: same_fingerprint)

lemma same_build_stage_plan: "same_files w (snd (build_stage_plan d uri digest entry local1 manager dir w))"
proof -
  obtain b w1 where b: "is_directory_source_ref d uri w = (b, w1)" by (cases "is_directory_source_ref d uri w")
  have "same_files w1 (snd (build_stage_plan d uri digest entry local1 manager dir w))"
    unfolding build_stage_plan_def b Let_def prod.case
    by (auto intro!: and_then_same intro: same_fingerprint same_project_inputs)
  moreover have "same_files w w1" using same_is_directory[of w d uri] b by simp
  ultimately show ?thesis by (rule same_files_trans[rotated])
qed

lemma same_read_prepared: "same_files w (snd (read_prepared_metadata d p w))" "same_files w (snd (read_prepared_project_state d p w))"
  using same_read_file[of w d p]
  by (auto simp: read_prepared_metadata_def read_prepared_project_state_def split: sum.split prod.split file_content.split)

lemma same_path_exists: "same_files w (snd (path_exists d p w))"
  using same_attempt[of w d "AccessOp p"] by (auto simp: path_exists_def split: sum.split prod.split)

lemma same_inputs_reusable: "same_files w (snd (inputs_reusable d digest ss cs w))"
proof (induction d digest ss cs w rule: inputs_reusable.induct)
  case (1 d digest staged ss cached cs w)
  obtain b w1 where b: "path_exists d (pi_targetPath staged) w = (b, w1)" by (cases "path_exists d (pi_targetPath staged) w")
  have "same_files w w1" using same_path_exists[of w d "pi_targetPath staged"] b by simp
  then show ?case using 1 b by (auto intro: same_files_trans)
qed simp_all

lemma same_can_reuse: "same_files w (snd (can_reuse_prepared_artifact d current plan w))"
  by (auto simp: can_reuse_prepared_artifact_def same_inputs_reusable split: option.split)

text \<open>Writing.\<close>

lemma write_file_ok:
  assumes "write_file d p c w = (Inr u, w')"
  shows "file_at w' q = (if q = p then Some c else file_at w q)"
  using assms same_attempt[of w d "WriteOp p"]
  by (auto simp: write_file_def and_then_def file_at_def map_of_set same_files_def split: sum.splits prod.splits if_splits)

lemma write_file_keeps: "q \<noteq> p \<Longrightarrow> file_at (snd (write_file d p c w)) q = file_at w q"
  using same_attempt[of w d "WriteOp p"]
  by (auto simp: write_file_def and_then_def file_at_def map_of_set same_files_def split: sum.splits prod.splits)

lemma same_make_dir: "same_files w (snd (make_dir d p w))"
  unfolding make_dir_def by (rule and_then_same[OF same_attempt]) (simp add: same_files_def)

lemma same_read_source: "same_files w (snd (read_source d s w))"
  by (auto simp: read_source_def fetch_source_def read_local_source_def intro!: and_then_same intro: same_read_file
      split: remote_answer.split)

lemma stage_file_keeps:
  assumes "pi_kind i \<in> {WorkerInput, ProjectInput}" "q \<noteq> pi_targetPath i"
  shows "file_at (snd (stage_input d digest i w)) q = file_at w q"
proof -
  obtain r w1 where r: "read_source d (pi_sourceRef i) w = (r, w1)" by (cases "read_source d (pi_sourceRef i) w")
  obtain m w2 where m: "make_dir d (dirname (pi_targetPath i)) w1 = (m, w2)" by (cases "make_dir d (dirname (pi_targetPath i)) w1")
  have "aw_files w1 = aw_files w" "aw_files w2 = aw_files w1"
    using same_read_source[of w d "pi_sourceRef i"] same_make_dir[of w1 d "dirname (pi_targetPath i)"] r m
    by (simp_all add: same_files_def)
  then have "file_at w1 q = file_at w q" "file_at w2 q = file_at w q" by (simp_all add: file_at_def)
  then show ?thesis using assms r m write_file_keeps[OF assms(2), of d _ w2]
    by (auto simp: stage_input_def and_then_def split: sum.splits prod.splits)
qed

lemma stage_worker_verified:
  assumes "stage_input d digest i w = (Inr u, w')" "pi_kind i = WorkerInput"
  shows "\<exists>s. file_at w' (pi_targetPath i) = Some (Bytes s) \<and> verify_digest d s digest = Inr ()"
  using assms write_file_ok[of d "pi_targetPath i" _ _ _ w' "pi_targetPath i"]
  by (auto simp: stage_input_def and_then_def split: sum.splits prod.splits)

lemma stage_projects_keep:
  assumes "\<And>i. i \<in> set is1 \<Longrightarrow> pi_kind i = ProjectInput \<and> pi_targetPath i \<noteq> q"
  shows "file_at (snd (stage_inputs d digest is1 w)) q = file_at w q"
  using assms
proof (induction is1 arbitrary: w)
  case Nil
  then show ?case by simp
next
  case (Cons i is1)
  have keep: "file_at (snd (stage_input d digest i w)) q = file_at w q"
    by (rule stage_file_keeps) (use Cons.prems[of i] in auto)
  show ?case
  proof (cases "stage_input d digest i w")
    case (Pair r w1)
    then have "file_at w1 q = file_at w q" using keep by simp
    then show ?thesis using Pair Cons by (cases r) auto
  qed
qed

lemma project_inputs_shape:
  "project_inputs d fs w = (Inr rest, w') \<Longrightarrow> map (\<lambda>i. (pi_kind i, pi_targetPath i)) rest = map (\<lambda>(n, s, t). (ProjectInput, t)) fs"
  by (induction d fs w arbitrary: rest w' rule: project_inputs.induct)
    (auto simp: and_then_def split: sum.splits prod.splits)

lemma build_stage_plan_shape:
  assumes "build_stage_plan d uri digest entry local1 manager dir w = (Inr plan, w')"
  shows "sg_sourceUri plan = uri \<and> sg_digest plan = digest \<and> sg_entry plan = entry \<and> sg_localEntry plan = local1
    \<and> sg_artifactDir plan = dir \<and> sg_packageManager plan = manager
    \<and> (\<exists>i rest. sg_inputs plan = i # rest
        \<and> (pi_kind i = WorkerInput \<longrightarrow> pi_targetPath i = local1
            \<and> (\<exists>fs. list_project_files d manager dir uri = Inr fs
                \<and> map (\<lambda>i. (pi_kind i, pi_targetPath i)) rest = map (\<lambda>(n, s, t). (ProjectInput, t)) fs)))"
  using assms
  by (auto simp: build_stage_plan_def and_then_def Let_def split: sum.splits prod.splits if_splits dest: project_inputs_shape)

lemma inputs_reusable_same:
  "inputs_reusable d digest ss cs w = (True, w') \<Longrightarrow> length cs = length ss \<Longrightarrow>
    map (\<lambda>i. (pi_kind i, pi_targetPath i)) cs = map (\<lambda>i. (pi_kind i, pi_targetPath i)) ss"
  by (induction d digest ss cs w arbitrary: w' rule: inputs_reusable.induct)
    (auto split: if_splits prod.splits)

section \<open>A verified entry\<close>

definition metadata_at :: "artifact_deps \<Rightarrow> string \<Rightarrow> artifact_world \<Rightarrow> prepared_metadata option" where
  "metadata_at d p w = (case file_at w p of
     None \<Rightarrow> None
   | Some (MetadataFile m) \<Rightarrow> Some m
   | Some c \<Rightarrow> ad_parseMetadata d (content_text d c))"

definition worker_verified :: "artifact_deps \<Rightarrow> prepared_metadata \<Rightarrow> artifact_world \<Rightarrow> bool" where
  "worker_verified d m w = (case pm_inputs m of
     [] \<Rightarrow> True
   | i # _ \<Rightarrow> pi_kind i = WorkerInput \<longrightarrow>
       (\<exists>s. file_at w (pi_targetPath i) = Some (Bytes s) \<and> verify_digest d s (pm_digest m) = Inr ()))"

definition artifact_ok :: "artifact_deps \<Rightarrow> string \<Rightarrow> artifact_world \<Rightarrow> bool" where
  "artifact_ok d p w = (case metadata_at d p w of None \<Rightarrow> True | Some m \<Rightarrow> worker_verified d m w)"

lemma read_metadata: "read_prepared_metadata d p w = (Some m, w') \<Longrightarrow> metadata_at d p w = Some m"
  by (auto simp: read_prepared_metadata_def metadata_at_def read_file_def and_then_def attempt_def file_at_def
      split: sum.splits prod.splits option.splits file_content.splits)

definition runner_keeps :: "artifact_deps \<Rightarrow> string set \<Rightarrow> bool" where
  "runner_keeps d ps \<longleftrightarrow> (\<forall>args w. \<forall>p \<in> ps. file_at (snd (ad_run d ''bun'' args w)) p = file_at w p)"

lemma prepare_keeps:
  assumes "runner_keeps d ps" "p \<in> ps" "p \<noteq> join_path (sg_artifactDir plan) ''.artifact-prepare-meta.json''"
  shows "file_at (snd (ensure_project_prepared d plan w)) p = file_at w p"
proof -
  let ?state = "join_path (sg_artifactDir plan) ''.artifact-prepare-meta.json''"
  have metric: "file_at (metric n v) p = file_at v p" for n v by (simp add: metric_def file_at_def)
  obtain c w1 where c: "read_prepared_project_state d ?state w = (c, w1)" by (cases "read_prepared_project_state d ?state w")
  have w1: "file_at w1 p = file_at w p" using same_read_prepared(2)[of w d ?state] c by (simp add: same_files_def file_at_def)
  have run: "file_at (snd (ad_run d ''bun'' args (metric n w1))) p = file_at w1 p" for args n
    using assms(1,2) by (simp add: runner_keeps_def metric)
  have kept: "file_at (snd (and_then (ad_run d ''bun'' args (metric n w1)) (\<lambda>_ v. write_file d ?state (PrepareFile key (aw_now v)) v))) p = file_at w p"
    for args n key
    using run[of args n] w1 by (auto simp: and_then_def write_file_keeps[OF assms(3)] split: sum.split prod.split)
  show ?thesis
  proof (cases "sg_packageManager plan")
    case (BunPackages packageJson t l frozen)
    show ?thesis
    proof (cases "packageJson = None \<or> packageJson = Some []")
      case True
      then show ?thesis by (simp add: ensure_project_prepared_def BunPackages)
    next
      case False
      define key where "key = create_project_prepare_key (sg_packageManager plan) (sg_inputs plan)"
      let ?X = "and_then (ad_run d ''bun'' (install_args (sg_artifactDir plan) (frozen = Some True)) (metric ''artifact.prepare_cache_miss'' w1))
        (\<lambda>_ v. write_file d ?state (PrepareFile key (aw_now v)) v)"
      obtain r w2 where X: "?X = (r, w2)" by (cases ?X)
      have "file_at w2 p = file_at w p"
        using kept[of "install_args (sg_artifactDir plan) (frozen = Some True)" "''artifact.prepare_cache_miss''" key] unfolding X by simp
      moreover have "ensure_project_prepared d plan w = (if c = Some key then (Inr (), metric ''artifact.prepare_cache_hit'' w1)
          else (case r of Inr _ \<Rightarrow> (Inr (), metric ''artifact.prepare_ok'' w2) | Inl e \<Rightarrow> (Inl e, metric ''artifact.prepare_error'' w2)))"
        unfolding ensure_project_prepared_def BunPackages package_manager.case if_not_P[OF False] Let_def c prod.case
          key_def[unfolded BunPackages, symmetric] X by (cases r) simp_all
      ultimately show ?thesis by (cases r) (simp_all add: metric w1)
    qed
  qed (simp add: ensure_project_prepared_def)
qed

lemma metadata_by_file: "file_at w' p = file_at w p \<Longrightarrow> metadata_at d p w' = metadata_at d p w"
  by (simp add: metadata_at_def)

lemma verified_by_file:
  assumes "\<And>i rest. pm_inputs m = i # rest \<Longrightarrow> pi_kind i = WorkerInput \<Longrightarrow>
      file_at w' (pi_targetPath i) = file_at w (pi_targetPath i)"
  shows "worker_verified d m w' = worker_verified d m w"
  using assms by (cases "pm_inputs m") (auto simp: worker_verified_def)

text \<open>The places of one artifact.\<close>

definition artifact_dir :: "artifact_deps \<Rightarrow> string \<Rightarrow> string" where
  "artifact_dir d manifestId = join_path (resolve_path (ad_cwd d) (ad_rootDir d)) (sanitize_path_segment manifestId)"

definition metadata_path :: "artifact_deps \<Rightarrow> string \<Rightarrow> string" where
  "metadata_path d manifestId = join_path (artifact_dir d manifestId) ''.artifact-meta.json''"

definition entry_path :: "artifact_deps \<Rightarrow> string \<Rightarrow> string \<Rightarrow> string" where
  "entry_path d manifestId entry = join_path (artifact_dir d manifestId) entry"

text \<open>The files of the artifact are apart: its entry, its metadata, the state of its project and its project files.\<close>

definition apart :: "artifact_deps \<Rightarrow> string \<Rightarrow> string \<Rightarrow> string \<Rightarrow> package_manager \<Rightarrow> bool" where
  "apart d entry manifestId uri manager \<longleftrightarrow>
    distinct [entry_path d manifestId entry, metadata_path d manifestId, join_path (artifact_dir d manifestId) ''.artifact-prepare-meta.json'']
    \<and> (case list_project_files d manager (artifact_dir d manifestId) uri of
        Inl e \<Rightarrow> True
      | Inr fs \<Rightarrow> list_all (\<lambda>(n, s, t). t \<noteq> entry_path d manifestId entry \<and> t \<noteq> metadata_path d manifestId) fs)"

definition plan_verified :: "artifact_deps \<Rightarrow> string \<Rightarrow> string option \<Rightarrow> string \<Rightarrow> prepared_metadata \<Rightarrow> artifact_world \<Rightarrow> bool" where
  "plan_verified d uri digest local1 m w \<longleftrightarrow> pm_sourceUri m = uri \<and> pm_digest m = digest \<and> worker_verified d m w
    \<and> (\<exists>i rest. pm_inputs m = i # rest \<and> (pi_kind i = WorkerInput \<longrightarrow> pi_targetPath i = local1))"

lemma stage_reused:
  assumes shape: "sg_sourceUri plan = uri" "sg_digest plan = digest" "sg_artifactDir plan = artifact_dir d manifestId"
      "sg_inputs plan = i # rest" "pi_kind i = WorkerInput \<longrightarrow> pi_targetPath i = entry_path d manifestId entry"
    and "runner_keeps d {entry_path d manifestId entry, metadata_path d manifestId}"
    and "distinct [entry_path d manifestId entry, metadata_path d manifestId, join_path (artifact_dir d manifestId) ''.artifact-prepare-meta.json'']"
    and m: "metadata_at d (metadata_path d manifestId) w = Some m" "worker_verified d m w"
    and reuse: "can_reuse_prepared_artifact d (Some m) plan w = (True, w1)"
    and prepared: "ensure_project_prepared d plan w1 = (Inr (), w')"
  shows "\<exists>m. metadata_at d (metadata_path d manifestId) w' = Some m \<and> plan_verified d uri digest (entry_path d manifestId entry) m w'"
proof -
  have same: "pm_sourceUri m = uri" "pm_digest m = digest" and r: "inputs_reusable d (sg_digest plan) (sg_inputs plan) (pm_inputs m) w = (True, w1)"
    and l: "length (pm_inputs m) = length (sg_inputs plan)"
    using reuse shape by (auto simp: can_reuse_prepared_artifact_def split: if_splits)
  have "map (\<lambda>i. (pi_kind i, pi_targetPath i)) (pm_inputs m) = map (\<lambda>i. (pi_kind i, pi_targetPath i)) (i # rest)"
    using inputs_reusable_same[OF r l] shape(4) by simp
  then obtain j js where j: "pm_inputs m = j # js" "pi_kind j = pi_kind i" "pi_targetPath j = pi_targetPath i"
    by (cases "pm_inputs m") auto
  have keep: "file_at w' p = file_at w p" if "p \<in> {entry_path d manifestId entry, metadata_path d manifestId}" for p
  proof -
    have "p \<noteq> join_path (sg_artifactDir plan) ''.artifact-prepare-meta.json''" using that assms(7) shape(3) by auto
    then have "file_at w' p = file_at w1 p" using prepare_keeps[OF assms(6) that, of plan w1] prepared by simp
    also have "\<dots> = file_at w p"
      using same_can_reuse[of w d "Some m" plan] reuse by (simp add: same_files_def file_at_def)
    finally show ?thesis .
  qed
  have entry: "file_at w' (pi_targetPath a) = file_at w (pi_targetPath a)"
    if "pm_inputs m = a # b" "pi_kind a = WorkerInput" for a b
    using that j shape(5) keep by auto
  have "metadata_at d (metadata_path d manifestId) w' = metadata_at d (metadata_path d manifestId) w"
    by (rule metadata_by_file) (simp add: keep)
  moreover have "worker_verified d m w' = worker_verified d m w" by (rule verified_by_file) (rule entry)
  ultimately have "metadata_at d (metadata_path d manifestId) w' = Some m" "worker_verified d m w'" using m by simp_all
  then show ?thesis using m same j shape(5) by (auto simp: plan_verified_def)
qed

lemma stage_fresh:
  assumes shape: "sg_sourceUri plan = uri" "sg_digest plan = digest" "sg_artifactDir plan = artifact_dir d manifestId"
      "sg_inputs plan = i # rest" "pi_kind i = WorkerInput \<longrightarrow> pi_targetPath i = entry_path d manifestId entry"
      "\<And>j. pi_kind i = WorkerInput \<Longrightarrow> j \<in> set rest \<Longrightarrow> pi_kind j = ProjectInput \<and> pi_targetPath j \<noteq> entry_path d manifestId entry"
    and "runner_keeps d {entry_path d manifestId entry, metadata_path d manifestId}"
    and "distinct [entry_path d manifestId entry, metadata_path d manifestId, join_path (artifact_dir d manifestId) ''.artifact-prepare-meta.json'']"
    and staged: "stage_inputs d digest (i # rest) w = (Inr (), w1)"
    and written: "write_file d (metadata_path d manifestId) (MetadataFile (plan_metadata plan)) w1 = (Inr (), w2)"
    and prepared: "ensure_project_prepared d plan w2 = (Inr (), w')"
  shows "\<exists>m. metadata_at d (metadata_path d manifestId) w' = Some m \<and> plan_verified d uri digest (entry_path d manifestId entry) m w'"
proof -
  let ?e = "entry_path d manifestId entry" and ?m = "metadata_path d manifestId"
  obtain w0 where w0: "stage_input d digest i w = (Inr (), w0)" "stage_inputs d digest rest w0 = (Inr (), w1)"
    using staged by (auto simp: and_then_def split: sum.splits prod.splits)
  have keep: "file_at w' p = file_at w2 p" if "p \<in> {?e, ?m}" for p
    using prepare_keeps[OF assms(7) that, of plan w2] that assms(8) shape(3) prepared by auto
  have meta: "file_at w' ?m = Some (MetadataFile (plan_metadata plan))"
    using keep write_file_ok[OF written, of ?m] by simp
  have "\<exists>s. file_at w' ?e = Some (Bytes s) \<and> verify_digest d s digest = Inr ()" if worker: "pi_kind i = WorkerInput"
  proof -
    obtain s where s: "file_at w0 ?e = Some (Bytes s)" "verify_digest d s digest = Inr ()"
      using stage_worker_verified[OF w0(1) worker] shape(5) worker by auto
    have "file_at w1 ?e = file_at w0 ?e"
      using stage_projects_keep[of rest ?e d digest w0] shape(6)[OF worker] w0(2) by simp
    moreover have "file_at w2 ?e = file_at w1 ?e" using write_file_ok[OF written, of ?e] assms(8) by simp
    ultimately show ?thesis using s keep by simp
  qed
  then have "worker_verified d (plan_metadata plan) w'"
    using shape(2,4,5) by (auto simp: worker_verified_def plan_metadata_def)
  moreover have "metadata_at d ?m w' = Some (plan_metadata plan)" using meta by (simp add: metadata_at_def)
  ultimately show ?thesis using shape by (auto simp: plan_verified_def plan_metadata_def)
qed

text \<open>One staging, on a disk whose metadata, if there are any, tell the truth.\<close>

lemma stage_keeps_verified:
  assumes "runner_keeps d {entry_path d manifestId entry, metadata_path d manifestId}"
    and "apart d entry manifestId uri manager" "artifact_ok d (metadata_path d manifestId) w"
    and ok: "stage_artifact d entry manifestId uri digest manager w = (Inr localEntry, w')"
  shows "artifact_ok d (metadata_path d manifestId) w' \<and> localEntry = entry_path d manifestId entry
    \<and> (\<exists>m. metadata_at d (metadata_path d manifestId) w' = Some m \<and> plan_verified d uri digest localEntry m w')"
proof -
  let ?e = "entry_path d manifestId entry" and ?m = "metadata_path d manifestId" and ?dir = "artifact_dir d manifestId"
  have places: "join_path ?dir entry = ?e" "join_path ?dir ''.artifact-meta.json'' = ?m"
    by (simp_all add: entry_path_def metadata_path_def)
  obtain plan w1 where plan: "build_stage_plan d uri digest entry ?e manager ?dir w = (Inr plan, w1)"
    and rest: "(case read_prepared_metadata d ?m w1 of
         (current, w) \<Rightarrow> (case can_reuse_prepared_artifact d current plan w of
           (reusable, w) \<Rightarrow>
             if reusable then and_then (ensure_project_prepared d plan w) (\<lambda>_ w. (Inr ?e, w))
             else and_then (stage_inputs d digest (sg_inputs plan) w) (\<lambda>_ w.
                  and_then (write_file d ?m (MetadataFile (plan_metadata plan)) w) (\<lambda>_ w.
                  and_then (ensure_project_prepared d plan w) (\<lambda>_ w. (Inr ?e, w)))))) = (Inr localEntry, w')"
    using ok unfolding stage_artifact_def Let_def artifact_dir_def[symmetric] places
    by (auto simp: and_then_def split: sum.splits prod.splits)
  obtain current w2 where current: "read_prepared_metadata d ?m w1 = (current, w2)" by (cases "read_prepared_metadata d ?m w1")
  obtain reusable w3 where reusable: "can_reuse_prepared_artifact d current plan w2 = (reusable, w3)"
    by (cases "can_reuse_prepared_artifact d current plan w2")
  have files: "same_files w w2"
    using same_build_stage_plan[of w d uri digest entry ?e manager ?dir] same_read_prepared(1)[of w1 d ?m] plan current
    by (auto intro: same_files_trans)
  obtain i js where shape: "sg_sourceUri plan = uri" "sg_digest plan = digest" "sg_artifactDir plan = ?dir" "sg_inputs plan = i # js"
      "pi_kind i = WorkerInput \<longrightarrow> pi_targetPath i = ?e"
      "pi_kind i = WorkerInput \<Longrightarrow> \<exists>fs. list_project_files d manager ?dir uri = Inr fs
        \<and> map (\<lambda>i. (pi_kind i, pi_targetPath i)) js = map (\<lambda>(n, s, t). (ProjectInput, t)) fs"
    using build_stage_plan_shape[OF plan] by auto
  have distinct: "distinct [?e, ?m, join_path ?dir ''.artifact-prepare-meta.json'']" using assms(2) by (simp add: apart_def)
  have projects: "pi_kind j = ProjectInput \<and> pi_targetPath j \<noteq> ?e" if worker: "pi_kind i = WorkerInput" and j: "j \<in> set js" for j
  proof -
    obtain fs where fs: "list_project_files d manager ?dir uri = Inr fs"
      "map (\<lambda>i. (pi_kind i, pi_targetPath i)) js = map (\<lambda>(n, s, t). (ProjectInput, t)) fs" using shape(6)[OF worker] by auto
    have "(pi_kind j, pi_targetPath j) \<in> set (map (\<lambda>(n, s, t). (ProjectInput, t)) fs)"
      using j fs(2) by (metis (no_types, lifting) imageI list.set_map)
    then show ?thesis using assms(2) fs(1) by (auto simp: apart_def list_all_iff)
  qed
  have result: "localEntry = ?e \<and> (\<exists>m. metadata_at d ?m w' = Some m \<and> plan_verified d uri digest ?e m w')"
  proof (cases reusable)
    case True
    then obtain m where m: "current = Some m" using reusable by (auto simp: can_reuse_prepared_artifact_def split: option.splits)
    have prepared: "ensure_project_prepared d plan w3 = (Inr (), w')" "localEntry = ?e"
      using rest True unfolding current prod.case reusable by (auto simp: and_then_def split: sum.splits prod.splits)
    have "metadata_at d ?m w1 = Some m" using read_metadata current m by blast
    moreover have "file_at w2 = file_at w1" "file_at w = file_at w1"
      using files same_read_prepared(1)[of w1 d ?m] current by (auto simp: same_files_def file_at_def)
    moreover from this have "worker_verified d m w2 = worker_verified d m w" by (intro verified_by_file) simp
    ultimately have "metadata_at d ?m w2 = Some m" "worker_verified d m w2"
      using assms(3) by (simp_all add: metadata_at_def artifact_ok_def)
    moreover have "can_reuse_prepared_artifact d (Some m) plan w2 = (True, w3)" using reusable True m by simp
    ultimately show ?thesis using stage_reused[OF shape(1-5) assms(1) distinct _ _ _ prepared(1)] prepared(2) by blast
  next
    case False
    obtain w4 w5 where "stage_inputs d digest (i # js) w3 = (Inr (), w4)"
      "write_file d ?m (MetadataFile (plan_metadata plan)) w4 = (Inr (), w5)" "ensure_project_prepared d plan w5 = (Inr (), w')" "localEntry = ?e"
      using rest False unfolding current prod.case reusable shape(4) by (auto simp: and_then_def split: sum.splits prod.splits)
    then show ?thesis using stage_fresh[OF shape(1-5) projects assms(1) distinct] by blast
  qed
  then show ?thesis by (auto simp: artifact_ok_def plan_verified_def)
qed

text \<open>The disks on which the stagings of an artifact went well: there were no metadata at first; every staging whose
  files are apart and left alone by the package manager may have succeeded, with any arguments; and anything else may
  have happened (stagings of other artifacts or failed fetches, other processes, another answer of a remote source) that
  did not change the metadata and the files they name. What is missing is a staging that failed half-way.\<close>

inductive staged_well :: "artifact_deps \<Rightarrow> string \<Rightarrow> artifact_world \<Rightarrow> bool" for d manifestId where
  nothing_staged: "metadata_at d (metadata_path d manifestId) w = None \<Longrightarrow> staged_well d manifestId w"
| staging_succeeded: "staged_well d manifestId w
    \<Longrightarrow> runner_keeps d {entry_path d manifestId entry, metadata_path d manifestId} \<Longrightarrow> apart d entry manifestId uri manager
    \<Longrightarrow> stage_artifact d entry manifestId uri digest manager w = (Inr localEntry, w') \<Longrightarrow> staged_well d manifestId w'"
| something_else: "staged_well d manifestId w \<Longrightarrow> file_at w' (metadata_path d manifestId) = file_at w (metadata_path d manifestId)
    \<Longrightarrow> (\<And>m i. metadata_at d (metadata_path d manifestId) w = Some m \<Longrightarrow> i \<in> set (pm_inputs m)
          \<Longrightarrow> file_at w' (pi_targetPath i) = file_at w (pi_targetPath i))
    \<Longrightarrow> staged_well d manifestId w'"

lemma staged_well_ok: "staged_well d manifestId w \<Longrightarrow> artifact_ok d (metadata_path d manifestId) w"
proof (induction rule: staged_well.induct)
  case (nothing_staged w)
  then show ?case by (simp add: artifact_ok_def)
next
  case (staging_succeeded w entry uri manager digest localEntry w')
  then show ?case using stage_keeps_verified by blast
next
  case (something_else w w')
  have meta: "metadata_at d (metadata_path d manifestId) w' = metadata_at d (metadata_path d manifestId) w"
    by (rule metadata_by_file[OF something_else.hyps(2)])
  have "worker_verified d m w' = worker_verified d m w" if "metadata_at d (metadata_path d manifestId) w = Some m" for m
    by (rule verified_by_file) (use something_else.hyps(3)[OF that] in auto)
  then show ?case using something_else.IH by (auto simp: artifact_ok_def meta split: option.splits)
qed

text \<open>C39: For an artifact whose earlier stagings, if any, succeeded or left its files alone, a staging that succeeds
  returns the path of the entry, leaves metadata that describe what was asked for, and, if the source is a single file,
  an entry whose content has the digest that was asked for, whether it was fetched now or an earlier staging is reused.
  The files of the artifact (the entry, the metadata, the state of its project, its project files) are assumed to be
  apart, and the package manager to leave the entry and the metadata alone. After a staging that failed half-way it is
  not so: lemma \<open>failed_update_poisons_rollback\<close>.\<close>

theorem staged_entry_verified:
  assumes "staged_well d manifestId w" "runner_keeps d {entry_path d manifestId entry, metadata_path d manifestId}"
    and "apart d entry manifestId uri manager"
    and "stage_artifact d entry manifestId uri digest manager w = (Inr localEntry, w')"
  shows "localEntry = entry_path d manifestId entry
    \<and> (\<exists>m. metadata_at d (metadata_path d manifestId) w' = Some m \<and> plan_verified d uri digest localEntry m w')"
  using stage_keeps_verified[OF assms(2,3) staged_well_ok[OF assms(1)] assms(4)] by blast

section \<open>Examples and findings\<close>

text \<open>A host with an empty disk; in the examples a text is its own hash.\<close>

definition shop_store :: artifact_deps where
  "shop_store = \<lparr>ad_cwd = ''/'', ad_rootDir = ''/a'', ad_fault = (\<lambda>n op. None), ad_stamp = (\<lambda>w p. ''s''), ad_hash = (\<lambda>algorithm s. s),
     ad_urlPathname = (\<lambda>u. Inr u), ad_urlResolve = (\<lambda>ref base. Inr (base @ ''/'' @ ref)), ad_fileUrlToPath = (\<lambda>u. Inr (drop 7 u)),
     ad_jsonText = (\<lambda>c. ''{}''), ad_parseMetadata = (\<lambda>s. None), ad_parsePrepared = (\<lambda>s. None), ad_run = (\<lambda>c args w. (Inr (), w))\<rparr>"

definition shop_remote :: "string \<Rightarrow> remote_answer" where
  "shop_remote u = (if u = ''http://h/1'' then RemoteBody ''v1'' else if u = ''http://h/2'' then RemoteBody ''v2''
     else RemoteStatus 404 ''Not Found'')"

definition empty_disk :: artifact_world where
  "empty_disk = \<lparr>aw_files = [], aw_dirs = [''/a''], aw_remote = shop_remote, aw_ops = 0, aw_now = 0, aw_metrics = []\<rparr>"

definition first_stage :: "(string + string) \<times> artifact_world" where
  "first_stage = stage_artifact shop_store ''e.js'' ''m'' ''http://h/1'' (Some ''v1'') (BunPackages None None None None) empty_disk"

lemma first_staged: "fst first_stage = Inr ''/a/m/e.js''"
  by code_simp

theorem staged_entry_verified_witness:
  "\<exists>m w'. stage_artifact shop_store ''e.js'' ''m'' ''http://h/1'' (Some ''v1'') (BunPackages None None None None) empty_disk
      = (Inr ''/a/m/e.js'', w')
    \<and> metadata_at shop_store ''/a/m/.artifact-meta.json'' w' = Some m
    \<and> plan_verified shop_store ''http://h/1'' (Some ''v1'') ''/a/m/e.js'' m w'"
proof -
  have places: "entry_path shop_store ''m'' ''e.js'' = ''/a/m/e.js''" "metadata_path shop_store ''m'' = ''/a/m/.artifact-meta.json''" by code_simp+
  have keeps: "runner_keeps shop_store ps" for ps by (simp add: runner_keeps_def shop_store_def)
  have apart: "apart shop_store ''e.js'' ''m'' ''http://h/1'' (BunPackages None None None None)" by code_simp
  have fresh: "staged_well shop_store ''m'' empty_disk"
    by (rule nothing_staged) (simp add: metadata_at_def file_at_def empty_disk_def)
  obtain e w' where run: "stage_artifact shop_store ''e.js'' ''m'' ''http://h/1'' (Some ''v1'') (BunPackages None None None None) empty_disk = (Inr e, w')"
    using first_staged unfolding first_stage_def by (metis prod.collapse)
  show ?thesis
    using staged_entry_verified[OF fresh keeps apart run] run unfolding places by blast
qed

text \<open>An update that fails after it wrote its entry: the metadata still name the first version, so asking for it again
  reuses what is on the disk, the second version, although the digest of the first was given.\<close>

definition second_stage :: "(string + string) \<times> artifact_world" where
  "second_stage = stage_artifact shop_store ''e.js'' ''m'' ''http://h/2'' (Some ''v2'') (BunPackages (Some ''package.json'') None None None)
     (snd first_stage)"

definition rollback_stage :: "(string + string) \<times> artifact_world" where
  "rollback_stage = stage_artifact shop_store ''e.js'' ''m'' ''http://h/1'' (Some ''v1'') (BunPackages None None None None) (snd second_stage)"

lemma failed_update_poisons_rollback:
  "fst second_stage = Inl ''Artifact fetch failed: 404 Not Found'' \<and> fst rollback_stage = Inr ''/a/m/e.js''
   \<and> file_at (snd rollback_stage) ''/a/m/e.js'' = Some (Bytes ''v2'') \<and> verify_digest shop_store ''v2'' (Some ''v1'') \<noteq> Inr ()"
  by code_simp

text \<open>A source that is not UTF-8 is staged as its decoded text: the bytes of the file are replaced, and its own digest is
  refused. A fetched source loses its byte order mark, so the digest of what was published is refused as well.\<close>

definition byte_sources :: artifact_world where
  "byte_sources = empty_disk\<lparr>aw_files := [(''/s/e.js'', Bytes [CHR 0xFF, CHR ''x''])],
     aw_remote := \<lambda>u. RemoteBody ([CHR 0xEF, CHR 0xBB, CHR 0xBF] @ ''x'')\<rparr>"

definition stage_bytes :: "string \<Rightarrow> string option \<Rightarrow> (string + string) \<times> artifact_world" where
  "stage_bytes uri digest = stage_artifact shop_store ''e.js'' ''b'' uri digest (BunPackages None None None None) byte_sources"

lemma digest_of_other_bytes_refused:
  "fst (stage_bytes ''/s/e.js'' (Some [CHR 0xFF, CHR ''x''])) = Inl ''Artifact digest mismatch for sha256''
   \<and> fst (stage_bytes ''http://h/e.js'' (Some ([CHR 0xEF, CHR 0xBB, CHR 0xBF] @ ''x''))) = Inl ''Artifact digest mismatch for sha256''
   \<and> file_at (snd (stage_bytes ''/s/e.js'' None)) ''/a/b/e.js'' = Some (Bytes (replacement @ ''x''))"
  by code_simp

text \<open>A manifest id of two dots passes the sanitizer: the artifact is the directory above the root, which is removed
  with all its files before the source is copied.\<close>

definition neighbours :: artifact_world where
  "neighbours = empty_disk\<lparr>aw_files := [(''/v/a/m/e.js'', Bytes ''v1''), (''/v/conf'', Bytes ''c''), (''/s/e.js'', Bytes ''v2'')]\<rparr>"

definition deep_store :: artifact_deps where
  "deep_store = shop_store\<lparr>ad_rootDir := ''/v/a''\<rparr>"

lemma two_dots_leave_the_root:
  "artifact_dir deep_store ''..'' = ''/v''
   \<and> artifact_dir shop_store ''a/b'' = artifact_dir shop_store ''a_b''
   \<and> entry_path shop_store ''m'' ''../../conf'' = ''/conf''"
  by code_simp

lemma two_dots_remove_the_neighbours:
  "map fst (filter (\<lambda>(p, c). c \<in> {Bytes ''v1'', Bytes ''c''})
     (aw_files (snd (stage_artifact deep_store ''e.js'' ''..'' ''/s'' None (BunPackages None None None None) neighbours)))) = []"
  by code_simp

text \<open>The fingerprint of a directory is its own size and time, which an edit of a file in it does not change: the
  edit is never staged.\<close>

definition edited :: "artifact_world \<Rightarrow> artifact_world" where
  "edited w = w\<lparr>aw_files := map_set ''/s/e.js'' (Bytes ''v3'') (aw_files w)\<rparr>"

definition stage_directory :: "artifact_world \<Rightarrow> (string + string) \<times> artifact_world" where
  "stage_directory = stage_artifact shop_store ''e.js'' ''d'' ''/s'' None (BunPackages None None None None)"

lemma edited_directory_not_staged:
  "(let w = snd (stage_directory neighbours); r = stage_directory (edited w) in
     file_at w ''/a/d/e.js'' = Some (Bytes ''v2'') \<and> fst r = Inr ''/a/d/e.js'' \<and> file_at (snd r) ''/a/d/e.js'' = Some (Bytes ''v2''))"
  by code_simp

end
