(* ===== verification/Module_Loader.thy ===== *)
theory Module_Loader
  imports Prelude
begin

text \<open>Loading of user modules from files (runtime/workers/loader.ts and, with its own parser,
  runtime/service-modules/loader.ts).

  A load copies the file to a shadow copy, whose new name makes \<open>import\<close> read it again, and keeps the promise of
  the module until the file has another time of change. It is split at its awaits, so that loads, edits of the file and
  invalidations interleave; the outcome of an await is an argument of the step after it. An entry of the cache is an
  object: it is named by the load that made it, whose promise it holds. The text of the name of a shadow copy is left
  out: a copy is its file, the time of change and the counter. What \<open>import\<close> makes of a copy is a function of its text:
  the files that the text imports itself are left out (their changes are not seen by the loader either).\<close>

section \<open>Files\<close>

text \<open>The versions of a file, the oldest first: its time of change and its text, or nothing while it is absent.\<close>

type_synonym version = "(int \<times> string) option"

type_synonym shadow = "string \<times> int \<times> nat"

definition versions :: "(string, version list) js_map \<Rightarrow> string \<Rightarrow> version list" where
  "versions files path = (case map_of files path of None \<Rightarrow> [] | Some vs \<Rightarrow> vs)"

definition current_version :: "(string, version list) js_map \<Rightarrow> string \<Rightarrow> version" where
  "current_version files path = (let vs = versions files path in if vs = [] then None else last vs)"

section \<open>The state of a loader\<close>

text \<open>What a load waits for, and what became of its promise.\<close>

datatype 'm phase =
    Reading
  | Writing string
  | Importing string
  | RemovingOld string 'm shadow
  | Loaded string 'm
  | Cleaning string
  | Rejected string

record cached_module =
  ca_mtime :: int
  ca_shadow :: "shadow option"

record 'm load =
  ld_path :: string
  ld_mtime :: int
  ld_cached :: "nat option"
  ld_shadow :: "shadow option"
  ld_phase :: "'m phase"

text \<open>A call is its path, the version its \<open>stat\<close> saw, and the load whose promise it returns.\<close>

record load_call =
  lc_path :: string
  lc_version :: nat
  lc_mtime :: int
  lc_load :: "nat option"

record 'm loader =
  lo_files :: "(string, version list) js_map"
  lo_cache :: "(string, nat) js_map"
  lo_entries :: "(nat, cached_module) js_map"
  lo_loads :: "(nat, 'm load) js_map"
  lo_calls :: "(nat, load_call) js_map"
  lo_shadows :: "shadow list"
  lo_counter :: nat
  lo_next :: nat

definition new_loader :: "'m loader" where
  "new_loader = \<lparr>lo_files = [], lo_cache = [], lo_entries = [], lo_loads = [], lo_calls = [], lo_shadows = [], lo_counter = 0, lo_next = 0\<rparr>"

definition set_phase :: "nat \<Rightarrow> 'm phase \<Rightarrow> 'm loader \<Rightarrow> 'm loader" where
  "set_phase j p s = (case map_of (lo_loads s) j of
     None \<Rightarrow> s | Some l \<Rightarrow> s\<lparr>lo_loads := map_set j (l\<lparr>ld_phase := p\<rparr>) (lo_loads s)\<rparr>)"

definition remove_shadow :: "shadow option \<Rightarrow> 'm loader \<Rightarrow> 'm loader" where
  "remove_shadow c s = (case c of None \<Rightarrow> s | Some x \<Rightarrow> s\<lparr>lo_shadows := filter (\<lambda>y. y \<noteq> x) (lo_shadows s)\<rparr>)"

definition entry_shadow :: "nat option \<Rightarrow> 'm loader \<Rightarrow> shadow option" where
  "entry_shadow i s = (case i of None \<Rightarrow> None
     | Some k \<Rightarrow> (case map_of (lo_entries s) k of None \<Rightarrow> None | Some e \<Rightarrow> ca_shadow e))"

section \<open>A call\<close>

text \<open>The \<open>stat\<close> of a call; a call for an absent file is rejected and leaves nothing.\<close>

definition load_stat :: "string \<Rightarrow> 'm loader \<Rightarrow> 'm loader" where
  "load_stat path s = (case current_version (lo_files s) path of
     None \<Rightarrow> s
   | Some (mtime, source) \<Rightarrow> s\<lparr>lo_calls := map_set (lo_next s)
       \<lparr>lc_path = path, lc_version = length (versions (lo_files s) path) - 1, lc_mtime = mtime, lc_load = None\<rparr> (lo_calls s),
       lo_next := lo_next s + 1\<rparr>)"

text \<open>After the \<open>stat\<close>: the promise of the cache, or a new load.\<close>

definition load_continues :: "nat \<Rightarrow> 'm loader \<Rightarrow> 'm loader" where
  "load_continues c s = (case map_of (lo_calls s) c of
     None \<Rightarrow> s
   | Some call \<Rightarrow> if lc_load call \<noteq> None then s else
      (let path = lc_path call; cached = map_of (lo_cache s) path;
           hit = (case cached of None \<Rightarrow> False
             | Some i \<Rightarrow> (case map_of (lo_entries s) i of None \<Rightarrow> False | Some e \<Rightarrow> ca_mtime e = lc_mtime call));
           j = (if hit then the cached else lo_next s);
           s1 = s\<lparr>lo_calls := map_set c (call\<lparr>lc_load := Some j\<rparr>) (lo_calls s)\<rparr>
       in if hit then s1
          else s1\<lparr>lo_loads := map_set j \<lparr>ld_path = path, ld_mtime = lc_mtime call, ld_cached = cached, ld_shadow = None, ld_phase = Reading\<rparr> (lo_loads s1),
             lo_entries := map_set j \<lparr>ca_mtime = lc_mtime call, ca_shadow = None\<rparr> (lo_entries s1),
             lo_cache := map_set path j (lo_cache s1), lo_next := lo_next s1 + 1\<rparr>))"

section \<open>The steps of a load\<close>

text \<open>After a failed load removed its copy, the cache takes the entry from before, unless it moved on.\<close>

definition restore_cache :: "nat \<Rightarrow> 'm load \<Rightarrow> 'm loader \<Rightarrow> 'm loader" where
  "restore_cache j l s =
    (if map_of (lo_cache s) (ld_path l) = Some j
     then (case ld_cached l of
        Some i \<Rightarrow> s\<lparr>lo_cache := map_set (ld_path l) i (lo_cache s)\<rparr>
      | None \<Rightarrow> s\<lparr>lo_cache := map_del (ld_path l) (lo_cache s)\<rparr>)
     else s)"

definition fail_load :: "nat \<Rightarrow> string \<Rightarrow> 'm loader \<Rightarrow> 'm loader" where
  "fail_load j e s = (case map_of (lo_loads s) j of
     None \<Rightarrow> s
   | Some l \<Rightarrow> (if ld_shadow l = None then restore_cache j l (set_phase j (Rejected e) s) else set_phase j (Cleaning e) s))"

definition finish_load :: "nat \<Rightarrow> string \<Rightarrow> 'm \<Rightarrow> 'm loader \<Rightarrow> 'm loader" where
  "finish_load j source m s = (case map_of (lo_loads s) j of
     None \<Rightarrow> s
   | Some l \<Rightarrow>
      (let s1 = set_phase j (Loaded source m) s in
       case map_of (lo_cache s1) (ld_path l) of
         None \<Rightarrow> s1
       | Some i \<Rightarrow> (case map_of (lo_entries s1) i of
           None \<Rightarrow> s1
         | Some e \<Rightarrow> if ld_shadow l = None then s1
             else s1\<lparr>lo_entries := map_set i (e\<lparr>ca_shadow := ld_shadow l\<rparr>) (lo_entries s1)\<rparr>)))"

text \<open>The file was read, at this moment, or could not be.\<close>

definition source_read :: "nat \<Rightarrow> string option \<Rightarrow> 'm loader \<Rightarrow> 'm loader" where
  "source_read j failure s = (case map_of (lo_loads s) j of
     Some l \<Rightarrow> (case ld_phase l of
       Reading \<Rightarrow> (case (failure, current_version (lo_files s) (ld_path l)) of
         (None, Some (mtime, source)) \<Rightarrow>
           s\<lparr>lo_loads := map_set j (l\<lparr>ld_phase := Writing source, ld_shadow := Some (ld_path l, ld_mtime l, lo_counter s + 1)\<rparr>) (lo_loads s),
             lo_counter := lo_counter s + 1\<rparr>
       | (Some e, _) \<Rightarrow> fail_load j e s
       | (None, None) \<Rightarrow> fail_load j ''no such file'' s)
     | _ \<Rightarrow> s)
   | None \<Rightarrow> s)"

definition shadow_written :: "nat \<Rightarrow> string option \<Rightarrow> 'm loader \<Rightarrow> 'm loader" where
  "shadow_written j failure s = (case map_of (lo_loads s) j of
     Some l \<Rightarrow> (case ld_phase l of
       Writing source \<Rightarrow> (case (failure, ld_shadow l) of
         (None, Some c) \<Rightarrow> set_phase j (Importing source) (s\<lparr>lo_shadows := c # lo_shadows s\<rparr>)
       | (None, None) \<Rightarrow> s
       | (Some e, _) \<Rightarrow> fail_load j e s)
     | _ \<Rightarrow> s)
   | None \<Rightarrow> s)"

text \<open>The copy was imported: \<open>load_text\<close> is what the import and the parser make of a text.\<close>

definition shadow_imported :: "(string \<Rightarrow> string + 'm) \<Rightarrow> nat \<Rightarrow> 'm loader \<Rightarrow> 'm loader" where
  "shadow_imported load_text j s = (case map_of (lo_loads s) j of
     Some l \<Rightarrow> (case ld_phase l of
       Importing source \<Rightarrow> (case load_text source of
         Inl e \<Rightarrow> fail_load j e s
       | Inr m \<Rightarrow> (case entry_shadow (ld_cached l) s of
           None \<Rightarrow> finish_load j source m s
         | Some c \<Rightarrow> set_phase j (RemovingOld source m c) s))
     | _ \<Rightarrow> s)
   | None \<Rightarrow> s)"

text \<open>The copy of the entry before was removed.\<close>

definition old_shadow_removed :: "nat \<Rightarrow> string option \<Rightarrow> 'm loader \<Rightarrow> 'm loader" where
  "old_shadow_removed j failure s = (case map_of (lo_loads s) j of
     Some l \<Rightarrow> (case ld_phase l of
       RemovingOld source m c \<Rightarrow> (case failure of
         Some e \<Rightarrow> fail_load j e s
       | None \<Rightarrow> finish_load j source m (remove_shadow (Some c) s))
     | _ \<Rightarrow> s)
   | None \<Rightarrow> s)"

definition failed_shadow_removed :: "nat \<Rightarrow> 'm loader \<Rightarrow> 'm loader" where
  "failed_shadow_removed j s = (case map_of (lo_loads s) j of
     Some l \<Rightarrow> (case ld_phase l of
       Cleaning e \<Rightarrow> restore_cache j l (set_phase j (Rejected e) (remove_shadow (ld_shadow l) s))
     | _ \<Rightarrow> s)
   | None \<Rightarrow> s)"

section \<open>Invalidation\<close>

definition invalidate_worker :: "string \<Rightarrow> 'm loader \<Rightarrow> 'm loader" where
  "invalidate_worker path s =
    (let s1 = remove_shadow (entry_shadow (map_of (lo_cache s) path) s) s in s1\<lparr>lo_cache := map_del path (lo_cache s1)\<rparr>)"

definition invalidate_workers :: "string list option \<Rightarrow> 'm loader \<Rightarrow> 'm loader" where
  "invalidate_workers paths s = (case paths of
     None \<Rightarrow> (fold (\<lambda>(path, i) s. remove_shadow (entry_shadow (Some i) s) s) (lo_cache s) s)\<lparr>lo_cache := []\<rparr>
   | Some ps \<Rightarrow> fold invalidate_worker ps s)"

section \<open>What is loaded\<close>

text \<open>A worker file exports a worker or, failing that, a serve module; the error is that of the worker. A service
  module file exports a service module.\<close>

definition parse_worker_file ::
  "('v \<Rightarrow> string \<Rightarrow> string + 'm) \<Rightarrow> ('v \<Rightarrow> string \<Rightarrow> string + 'a) \<Rightarrow> ('a \<Rightarrow> string + 'm) \<Rightarrow> 'v \<Rightarrow> string \<Rightarrow> string + 'm" where
  "parse_worker_file parseWorker parseServe createWorker value1 entry = (case parseWorker value1 entry of
     Inr m \<Rightarrow> Inr m
   | Inl e \<Rightarrow> (case parseServe value1 entry of
       Inl _ \<Rightarrow> Inl e
     | Inr a \<Rightarrow> (case createWorker a of Inl _ \<Rightarrow> Inl e | Inr m \<Rightarrow> Inr m)))"

end
