(* ===== verification/Loader_Props.thy ===== *)
theory Loader_Props
  imports Module_Loader
begin

text \<open>Whatever the interleaving of loads, edits and invalidations, a load that succeeds gives the module of a text
  the file had since a version with the time of change that was found, which need not be the last such version.\<close>

section \<open>Runs\<close>

datatype loader_event =
    Edited string int string
  | Deleted string
  | StatTaken string
  | CallContinues nat
  | SourceRead nat "string option"
  | ShadowWritten nat "string option"
  | ShadowImported nat
  | OldShadowRemoved nat "string option"
  | FailedShadowRemoved nat
  | Invalidated "string list option"

definition add_version :: "string \<Rightarrow> version \<Rightarrow> 'm loader \<Rightarrow> 'm loader" where
  "add_version path v s = s\<lparr>lo_files := map_set path (versions (lo_files s) path @ [v]) (lo_files s)\<rparr>"

fun loader_step :: "(string \<Rightarrow> string + 'm) \<Rightarrow> loader_event \<Rightarrow> 'm loader \<Rightarrow> 'm loader" where
  "loader_step f (Edited path mtime source) s = add_version path (Some (mtime, source)) s"
| "loader_step f (Deleted path) s = add_version path None s"
| "loader_step f (StatTaken path) s = load_stat path s"
| "loader_step f (CallContinues c) s = load_continues c s"
| "loader_step f (SourceRead j failure) s = source_read j failure s"
| "loader_step f (ShadowWritten j failure) s = shadow_written j failure s"
| "loader_step f (ShadowImported j) s = shadow_imported f j s"
| "loader_step f (OldShadowRemoved j failure) s = old_shadow_removed j failure s"
| "loader_step f (FailedShadowRemoved j) s = failed_shadow_removed j s"
| "loader_step f (Invalidated paths) s = invalidate_workers paths s"

inductive loader_reachable :: "(string \<Rightarrow> string + 'm) \<Rightarrow> 'm loader \<Rightarrow> bool" for f where
  initial: "loader_reachable f new_loader"
| step: "loader_reachable f s \<Longrightarrow> loader_reachable f (loader_step f e s)"

section \<open>The invariant\<close>

text \<open>Version \<open>k\<close> of a file has a time of change; from version \<open>k\<close> on the file had a text.\<close>

definition mtime_at :: "'m loader \<Rightarrow> string \<Rightarrow> nat \<Rightarrow> int \<Rightarrow> bool" where
  "mtime_at s path k m \<longleftrightarrow> k < length (versions (lo_files s) path) \<and> (\<exists>t. versions (lo_files s) path ! k = Some (m, t))"

definition had_text :: "'m loader \<Rightarrow> string \<Rightarrow> nat \<Rightarrow> string \<Rightarrow> bool" where
  "had_text s path k t \<longleftrightarrow> (\<exists>m. Some (m, t) \<in> set (drop k (versions (lo_files s) path)))"

fun source_of :: "'m phase \<Rightarrow> string option" where
  "source_of (Writing t) = Some t"
| "source_of (Importing t) = Some t"
| "source_of (RemovingOld t m c) = Some t"
| "source_of (Loaded t m) = Some t"
| "source_of _ = None"

fun module_of :: "'m phase \<Rightarrow> 'm option" where
  "module_of (RemovingOld t m c) = Some m"
| "module_of (Loaded t m) = Some m"
| "module_of _ = None"

definition load_ok :: "(string \<Rightarrow> string + 'm) \<Rightarrow> 'm loader \<Rightarrow> 'm load \<Rightarrow> bool" where
  "load_ok f s l \<longleftrightarrow> (\<exists>k. mtime_at s (ld_path l) k (ld_mtime l)
      \<and> (\<forall>t. source_of (ld_phase l) = Some t \<longrightarrow> had_text s (ld_path l) k t))
    \<and> (\<forall>t m. source_of (ld_phase l) = Some t \<longrightarrow> module_of (ld_phase l) = Some m \<longrightarrow> f t = Inr m)"

definition call_ok :: "'m loader \<Rightarrow> load_call \<Rightarrow> bool" where
  "call_ok s c \<longleftrightarrow> mtime_at s (lc_path c) (lc_version c) (lc_mtime c)
    \<and> (\<forall>j. lc_load c = Some j \<longrightarrow> (\<exists>l. map_of (lo_loads s) j = Some l \<and> ld_path l = lc_path c \<and> ld_mtime l = lc_mtime c))"

definition cache_ok :: "'m loader \<Rightarrow> string \<Rightarrow> nat \<Rightarrow> bool" where
  "cache_ok s path j \<longleftrightarrow> (\<exists>l e. map_of (lo_loads s) j = Some l \<and> ld_path l = path \<and> map_of (lo_entries s) j = Some e \<and> ca_mtime e = ld_mtime l)"

definition loader_ok :: "(string \<Rightarrow> string + 'm) \<Rightarrow> 'm loader \<Rightarrow> bool" where
  "loader_ok f s \<longleftrightarrow> (\<forall>j l. map_of (lo_loads s) j = Some l \<longrightarrow> j < lo_next s \<and> load_ok f s l
        \<and> (\<forall>i. ld_cached l = Some i \<longrightarrow> cache_ok s (ld_path l) i))
    \<and> (\<forall>c call. map_of (lo_calls s) c = Some call \<longrightarrow> call_ok s call)
    \<and> (\<forall>path j. map_of (lo_cache s) path = Some j \<longrightarrow> cache_ok s path j)"

text \<open>What the parts of the invariant look at.\<close>

lemma mtime_at_files: "lo_files s' = lo_files s \<Longrightarrow> mtime_at s' = mtime_at s"
  by (simp add: fun_eq_iff mtime_at_def)

lemma load_ok_files: "lo_files s' = lo_files s \<Longrightarrow> load_ok f s' l = load_ok f s l"
  using mtime_at_files[of s' s] by (simp add: load_ok_def had_text_def)

definition same_core :: "'m load \<Rightarrow> 'm load \<Rightarrow> bool" where
  "same_core l l' \<longleftrightarrow> ld_path l' = ld_path l \<and> ld_mtime l' = ld_mtime l \<and> ld_cached l' = ld_cached l"

definition entries_like :: "'m loader \<Rightarrow> 'm loader \<Rightarrow> bool" where
  "entries_like s s' \<longleftrightarrow> (\<forall>i. map_option ca_mtime (map_of (lo_entries s') i) = map_option ca_mtime (map_of (lo_entries s) i))"

lemma progress_ok:
  assumes "loader_ok f s" "lo_files s' = lo_files s" "lo_calls s' = lo_calls s" "lo_next s' = lo_next s" "entries_like s s'"
    and loads: "\<And>j. rel_option same_core (map_of (lo_loads s) j) (map_of (lo_loads s') j)"
    and changed: "\<And>j l. map_of (lo_loads s') j = Some l \<Longrightarrow> map_of (lo_loads s) j \<noteq> Some l \<Longrightarrow> load_ok f s l"
    and cache: "\<And>path j. map_of (lo_cache s') path = Some j \<Longrightarrow> cache_ok s path j"
  shows "loader_ok f s'"
proof -
  have forth: "\<exists>l'. map_of (lo_loads s') j = Some l' \<and> same_core l l'" if "map_of (lo_loads s) j = Some l" for j l
    using loads[of j] that by (cases "map_of (lo_loads s') j") auto
  have backward: "\<exists>l. map_of (lo_loads s) j = Some l \<and> same_core l l'" if "map_of (lo_loads s') j = Some l'" for j l'
    using loads[of j] that by (cases "map_of (lo_loads s) j") auto
  have cached: "cache_ok s' path j" if ok: "cache_ok s path j" for path j
  proof -
    obtain l e where l: "map_of (lo_loads s) j = Some l" "ld_path l = path" "map_of (lo_entries s) j = Some e" "ca_mtime e = ld_mtime l"
      using ok by (auto simp: cache_ok_def)
    obtain l' where l': "map_of (lo_loads s') j = Some l'" "same_core l l'" using forth[OF l(1)] by blast
    obtain e' where "map_of (lo_entries s') j = Some e'" "ca_mtime e' = ca_mtime e"
      using assms(5)[unfolded entries_like_def, rule_format, of j] l(3) by auto
    then show ?thesis using l l' by (auto simp: cache_ok_def same_core_def)
  qed
  have "call_ok s' call" if "map_of (lo_calls s') c = Some call" for c call
  proof -
    have ok: "call_ok s call" using assms(1,3) that by (auto simp: loader_ok_def)
    then show ?thesis using mtime_at_files[OF assms(2)] forth by (fastforce simp: call_ok_def same_core_def)
  qed
  moreover have "j < lo_next s' \<and> load_ok f s' l' \<and> (\<forall>i. ld_cached l' = Some i \<longrightarrow> cache_ok s' (ld_path l') i)"
    if l': "map_of (lo_loads s') j = Some l'" for j l'
  proof -
    obtain l where l: "map_of (lo_loads s) j = Some l" "same_core l l'" using backward[OF l'] by blast
    have "load_ok f s l'" using changed[OF l'] l assms(1) by (cases "l = l'") (auto simp: loader_ok_def)
    then show ?thesis using l assms(1,4) load_ok_files[OF assms(2), of f] cached by (auto simp: loader_ok_def same_core_def)
  qed
  ultimately show ?thesis using cache cached by (auto simp: loader_ok_def)
qed

lemma same_core_refl [simp]: "same_core l l"
  by (simp add: same_core_def)

lemma rel_option_core_refl [simp]: "rel_option same_core x x"
  by (cases x) simp_all

lemma entries_like_refl [simp]: "entries_like s s"
  by (simp add: entries_like_def)

lemma ok_parts:
  assumes "loader_ok f s"
  shows "map_of (lo_loads s) j = Some l \<Longrightarrow> load_ok f s l" "map_of (lo_cache s) path = Some j \<Longrightarrow> cache_ok s path j"
    "map_of (lo_loads s) j = Some l \<Longrightarrow> ld_cached l = Some i \<Longrightarrow> cache_ok s (ld_path l) i"
    "map_of (lo_loads s) j = Some l \<Longrightarrow> j < lo_next s"
  using assms by (auto simp: loader_ok_def)

lemma ok_set_load:
  assumes "loader_ok f s" "map_of (lo_loads s) j = Some l" "same_core l l'" "load_ok f s l'"
  shows "loader_ok f (s\<lparr>lo_loads := map_set j l' (lo_loads s)\<rparr>)"
  by (rule progress_ok[OF assms(1)]) (use assms ok_parts(2)[OF assms(1)] in \<open>auto simp: entries_like_def split: if_splits\<close>)

lemma ok_set_entry:
  assumes "loader_ok f s" "map_of (lo_entries s) i = Some e"
  shows "loader_ok f (s\<lparr>lo_entries := map_set i (e\<lparr>ca_shadow := c\<rparr>) (lo_entries s)\<rparr>)"
  by (rule progress_ok[OF assms(1)]) (use assms ok_parts(2)[OF assms(1)] in \<open>auto simp: entries_like_def\<close>)

lemma ok_set_cache:
  assumes "loader_ok f s" "\<And>path j. map_of cache path = Some j \<Longrightarrow> cache_ok s path j"
  shows "loader_ok f (s\<lparr>lo_cache := cache\<rparr>)"
  by (rule progress_ok[OF assms(1)]) (use assms in \<open>auto simp: entries_like_def\<close>)

lemma ok_set_shadows:
  assumes "loader_ok f s"
  shows "loader_ok f (s\<lparr>lo_shadows := c\<rparr>)" "loader_ok f (s\<lparr>lo_counter := n\<rparr>)"
  by (rule progress_ok[OF assms]; use assms ok_parts(2)[OF assms] in \<open>auto simp: entries_like_def\<close>)+

lemma remove_shadow_same: "lo_cache (remove_shadow c s) = lo_cache s" "lo_loads (remove_shadow c s) = lo_loads s"
  by (simp_all add: remove_shadow_def split: option.split)

lemma ok_remove_shadow: "loader_ok f s \<Longrightarrow> loader_ok f (remove_shadow c s)"
  by (auto simp: remove_shadow_def ok_set_shadows split: option.split)

section \<open>The steps keep it\<close>

lemma load_ok_phase:
  assumes "load_ok f s l" "source_of p = None \<or> source_of p = source_of (ld_phase l)"
    "\<And>t m. source_of p = Some t \<Longrightarrow> module_of p = Some m \<Longrightarrow> f t = Inr m"
  shows "load_ok f s (l\<lparr>ld_phase := p\<rparr>)"
  using assms by (auto simp: load_ok_def)

lemma ok_set_phase:
  assumes "loader_ok f s" "\<And>l. map_of (lo_loads s) j = Some l \<Longrightarrow> load_ok f s (l\<lparr>ld_phase := p\<rparr>)"
  shows "loader_ok f (set_phase j p s)"
  using assms by (auto simp: set_phase_def same_core_def intro!: ok_set_load split: option.split)

lemma ok_set_ended:
  assumes "loader_ok f s" "source_of p = None"
  shows "loader_ok f (set_phase j p s)"
  using assms ok_parts(1)[OF assms(1)] by (intro ok_set_phase load_ok_phase) auto

lemma ok_restore:
  assumes "loader_ok f s" "map_of (lo_loads s) j = Some l0" "same_core l0 l"
  shows "loader_ok f (restore_cache j l s)"
proof -
  have "cache_ok s (ld_path l) i" if "ld_cached l = Some i" for i
    using ok_parts(3)[OF assms(1,2)] assms(3) that by (simp add: same_core_def)
  then show ?thesis using assms(1) ok_parts(2)[OF assms(1)]
    by (auto simp: restore_cache_def intro!: ok_set_cache split: option.split if_splits)
qed

lemma set_phase_load: "map_of (lo_loads s) j = Some l \<Longrightarrow> map_of (lo_loads (set_phase j p s)) j = Some (l\<lparr>ld_phase := p\<rparr>)"
  by (simp add: set_phase_def)

lemma ok_fail: "loader_ok f s \<Longrightarrow> loader_ok f (fail_load j e s)"
  by (auto simp: fail_load_def same_core_def set_phase_load intro!: ok_restore ok_set_ended split: option.split)

lemma ok_finish:
  assumes "loader_ok f s" "\<And>l. map_of (lo_loads s) j = Some l \<Longrightarrow> source_of (ld_phase l) = Some t" "f t = Inr m"
  shows "loader_ok f (finish_load j t m s)"
proof (cases "map_of (lo_loads s) j")
  case (Some l)
  have "loader_ok f (set_phase j (Loaded t m) s)"
    using assms ok_parts(1)[OF assms(1)] by (intro ok_set_phase load_ok_phase) auto
  then show ?thesis using Some by (auto simp: finish_load_def Let_def intro!: ok_set_entry split: option.split)
qed (use assms(1) in \<open>simp add: finish_load_def\<close>)

lemma current_in_drop:
  assumes "current_version files path = Some (m, t)" "k < length (versions files path)"
  shows "Some (m, t) \<in> set (drop k (versions files path))"
  using assms last_in_set[of "drop k (versions files path)"] by (auto simp: current_version_def Let_def split: if_splits)

lemma ok_source_read:
  assumes "loader_ok f s"
  shows "loader_ok f (source_read j failure s)"
proof -
  have new: "loader_ok f (s\<lparr>lo_loads := map_set j (l\<lparr>ld_phase := Writing t, ld_shadow := Some c\<rparr>) (lo_loads s), lo_counter := n\<rparr>)"
    if l: "map_of (lo_loads s) j = Some l" and cur: "current_version (lo_files s) (ld_path l) = Some (mt, t)" for l mt t c n
  proof -
    obtain k where k: "mtime_at s (ld_path l) k (ld_mtime l)" using ok_parts(1)[OF assms l] by (auto simp: load_ok_def)
    then have "had_text s (ld_path l) k t" using current_in_drop[OF cur] by (auto simp: had_text_def mtime_at_def)
    then have "load_ok f s (l\<lparr>ld_phase := Writing t, ld_shadow := Some c\<rparr>)" using k by (auto simp: load_ok_def)
    then show ?thesis by (intro ok_set_shadows(2) ok_set_load[OF assms l]) (simp_all add: same_core_def)
  qed
  show ?thesis using assms new
    by (auto simp: source_read_def ok_fail split: option.split phase.split prod.split)
qed

lemma ok_shadow_written:
  assumes "loader_ok f s"
  shows "loader_ok f (shadow_written j failure s)"
proof -
  have "loader_ok f (set_phase j (Importing t) (s\<lparr>lo_shadows := x\<rparr>))"
    if "map_of (lo_loads s) j = Some l" "ld_phase l = Writing t" for l t x
    using that ok_set_shadows(1)[OF assms, of x] ok_parts(1)[OF ok_set_shadows(1)[OF assms, of x]]
    by (intro ok_set_phase load_ok_phase) auto
  then show ?thesis using assms by (auto simp: shadow_written_def ok_fail split: option.split phase.split)
qed

lemma ok_shadow_imported:
  assumes "loader_ok f s"
  shows "loader_ok f (shadow_imported f j s)"
proof -
  have "loader_ok f (set_phase j (RemovingOld t m c) s) \<and> loader_ok f (finish_load j t m s)"
    if l: "map_of (lo_loads s) j = Some l" "ld_phase l = Importing t" "f t = Inr m" for l t m c
    using l assms ok_parts(1)[OF assms] by (auto intro!: ok_finish ok_set_phase load_ok_phase)
  then show ?thesis using assms by (auto simp: shadow_imported_def ok_fail split: option.split phase.split sum.split)
qed

lemma ok_old_shadow_removed:
  assumes "loader_ok f s"
  shows "loader_ok f (old_shadow_removed j failure s)"
proof -
  have "loader_ok f (finish_load j t m (remove_shadow (Some c) s))"
    if l: "map_of (lo_loads s) j = Some l" "ld_phase l = RemovingOld t m c" for l t m c
    using l ok_parts(1)[OF assms l(1)] ok_remove_shadow[OF assms]
    by (intro ok_finish) (auto simp: remove_shadow_same load_ok_def)
  then show ?thesis using assms by (auto simp: old_shadow_removed_def ok_fail split: option.split phase.split)
qed

lemma ok_failed_shadow_removed:
  assumes "loader_ok f s"
  shows "loader_ok f (failed_shadow_removed j s)"
proof -
  have "loader_ok f (restore_cache j l (set_phase j (Rejected e) (remove_shadow c s)))"
    if l: "map_of (lo_loads s) j = Some l" for l c e
  proof (rule ok_restore)
    show "loader_ok f (set_phase j (Rejected e) (remove_shadow c s))" by (simp add: ok_set_ended ok_remove_shadow assms)
    show "map_of (lo_loads (set_phase j (Rejected e) (remove_shadow c s))) j = Some (l\<lparr>ld_phase := Rejected e\<rparr>)"
      by (rule set_phase_load) (simp add: remove_shadow_same l)
  qed (simp add: same_core_def)
  then show ?thesis using assms by (auto simp: failed_shadow_removed_def split: option.split phase.split)
qed

lemma ok_invalidate: "loader_ok f s \<Longrightarrow> loader_ok f (invalidate_worker path s)"
  by (auto simp: invalidate_worker_def Let_def remove_shadow_same intro!: ok_set_cache ok_remove_shadow
      dest: ok_parts(2)[OF ok_remove_shadow] split: if_splits)

lemma ok_invalidate_all:
  assumes "loader_ok f s"
  shows "loader_ok f (invalidate_workers paths s)"
proof (cases paths)
  case None
  have "loader_ok f (fold (\<lambda>(path, i) s. remove_shadow (entry_shadow (Some i) s) s) xs s)" for xs
    using assms by (induction xs arbitrary: s) (auto simp: ok_remove_shadow)
  then show ?thesis using None by (auto simp: invalidate_workers_def intro!: ok_set_cache)
next
  case (Some ps)
  have "loader_ok f (fold invalidate_worker ps s)" using assms by (induction ps arbitrary: s) (auto simp: ok_invalidate)
  then show ?thesis using Some by (simp add: invalidate_workers_def)
qed

section \<open>Files change, calls begin\<close>

lemma versions_add:
  "versions (lo_files (add_version path v s)) p = (if p = path then versions (lo_files s) path @ [v] else versions (lo_files s) p)"
  by (simp add: add_version_def versions_def)

lemma mtime_at_add: "mtime_at s p k m \<Longrightarrow> mtime_at (add_version path v s) p k m"
  by (auto simp: mtime_at_def versions_add nth_append)

lemma had_text_add: "had_text s p k t \<Longrightarrow> had_text (add_version path v s) p k t"
  by (auto simp: had_text_def versions_add drop_append)

lemma load_ok_add: "load_ok f s l \<Longrightarrow> load_ok f (add_version path v s) l"
  unfolding load_ok_def by (meson mtime_at_add had_text_add)

lemma ok_add_version:
  assumes "loader_ok f s"
  shows "loader_ok f (add_version path v s)"
proof -
  have fields: "lo_loads (add_version path v s) = lo_loads s" "lo_calls (add_version path v s) = lo_calls s"
    "lo_cache (add_version path v s) = lo_cache s" "lo_entries (add_version path v s) = lo_entries s" "lo_next (add_version path v s) = lo_next s"
    by (simp_all add: add_version_def)
  have "call_ok (add_version path v s) c" if "call_ok s c" for c
    using that by (auto simp: call_ok_def fields intro: mtime_at_add)
  moreover have "cache_ok (add_version path v s) p j" if "cache_ok s p j" for p j
    using that by (auto simp: cache_ok_def fields)
  ultimately show ?thesis using assms(1) by (auto simp: loader_ok_def fields load_ok_add)
qed

lemma ok_load_stat:
  assumes "loader_ok f s"
  shows "loader_ok f (load_stat path s)"
proof (cases "current_version (lo_files s) path")
  case None
  then show ?thesis using assms by (simp add: load_stat_def)
next
  case (Some v)
  obtain m t where v: "v = (m, t)" by (cases v)
  let ?call = "\<lparr>lc_path = path, lc_version = length (versions (lo_files s) path) - Suc 0, lc_mtime = m, lc_load = None\<rparr>"
  let ?s = "s\<lparr>lo_calls := map_set (lo_next s) ?call (lo_calls s), lo_next := Suc (lo_next s)\<rparr>"
  have files: "mtime_at ?s = mtime_at s" "load_ok f ?s = load_ok f s" by (auto simp: fun_eq_iff mtime_at_def load_ok_def had_text_def)
  have "mtime_at s path (length (versions (lo_files s) path) - Suc 0) m"
    using Some v by (auto simp: current_version_def Let_def mtime_at_def last_conv_nth split: if_splits)
  then have "call_ok ?s ?call" unfolding call_ok_def files by simp
  moreover have "call_ok ?s c" if "call_ok s c" for c using that by (simp add: call_ok_def files)
  moreover have "cache_ok ?s = cache_ok s" by (simp add: fun_eq_iff cache_ok_def)
  ultimately have "loader_ok f ?s"
    using assms unfolding loader_ok_def files by (auto simp: less_Suc_eq)
  then show ?thesis using Some v by (simp add: load_stat_def)
qed

lemma ok_load_continues:
  assumes "loader_ok f s"
  shows "loader_ok f (load_continues c s)"
proof (cases "map_of (lo_calls s) c")
  case None
  then show ?thesis using assms by (simp add: load_continues_def)
next
  case (Some call)
  let ?p = "lc_path call" and ?m = "lc_mtime call" and ?j = "lo_next s"
  have callok: "call_ok s call" using assms Some by (auto simp: loader_ok_def)
  let ?join = "\<lambda>i. s\<lparr>lo_calls := map_set c (call\<lparr>lc_load := Some i\<rparr>) (lo_calls s)\<rparr>"
  let ?load = "\<lparr>ld_path = ?p, ld_mtime = ?m, ld_cached = map_of (lo_cache s) ?p, ld_shadow = None, ld_phase = Reading\<rparr> :: 'a load"
  let ?new = "(?join ?j)\<lparr>lo_loads := map_set ?j ?load (lo_loads s), lo_entries := map_set ?j \<lparr>ca_mtime = ?m, ca_shadow = None\<rparr> (lo_entries s),
      lo_cache := map_set ?p ?j (lo_cache s), lo_next := Suc ?j\<rparr>"
  have joined: "loader_ok f (?join i)"
    if "map_of (lo_cache s) ?p = Some i" "map_of (lo_entries s) i = Some e" "ca_mtime e = ?m" for i e
  proof -
    have "cache_ok s ?p i" using ok_parts(2)[OF assms that(1)] .
    then have "\<exists>l. map_of (lo_loads s) i = Some l \<and> ld_path l = ?p \<and> ld_mtime l = ?m" using that by (auto simp: cache_ok_def)
    moreover have "mtime_at (?join i) = mtime_at s" "load_ok f (?join i) = load_ok f s" "cache_ok (?join i) = cache_ok s"
      by (simp_all add: fun_eq_iff mtime_at_def load_ok_def had_text_def cache_ok_def)
    ultimately show ?thesis using assms callok by (auto simp: loader_ok_def call_ok_def)
  qed
  have started: "loader_ok f ?new"
  proof -
    have fresh: "map_of (lo_loads s) ?j = None"
      using ok_parts(4)[OF assms, of ?j] by (cases "map_of (lo_loads s) ?j") auto
    have files: "mtime_at ?new = mtime_at s" "load_ok f ?new = load_ok f s"
      by (simp_all add: fun_eq_iff mtime_at_def load_ok_def had_text_def)
    have cached: "cache_ok ?new p i" if ok: "cache_ok s p i" for p i
      using ok fresh by (auto simp: cache_ok_def)
    have here: "cache_ok ?new ?p ?j" by (simp add: cache_ok_def)
    have "load_ok f s ?load" using callok by (auto simp: load_ok_def call_ok_def)
    moreover have "call_ok ?new (call\<lparr>lc_load := Some ?j\<rparr>)" using callok by (simp add: call_ok_def files)
    moreover have "call_ok ?new c'" if ok: "call_ok s c'" for c' using ok fresh by (auto simp: call_ok_def files)
    moreover have "cache_ok ?new (ld_path ?load) i" if "ld_cached ?load = Some i" for i
      using that ok_parts(2)[OF assms, of ?p i] cached by simp
    ultimately show ?thesis
      using assms cached here unfolding loader_ok_def files by (auto simp: less_Suc_eq)
  qed
  show ?thesis using assms joined started Some
    by (auto simp: load_continues_def Let_def split: option.splits)
qed

lemma loader_reachable_ok: "loader_reachable f s \<Longrightarrow> loader_ok f s"
proof (induction rule: loader_reachable.induct)
  case initial
  then show ?case by (auto simp: loader_ok_def new_loader_def)
next
  case (step s e)
  then show ?case
    by (cases e)
      (auto simp: ok_add_version ok_load_stat ok_load_continues ok_source_read ok_shadow_written ok_shadow_imported
        ok_old_shadow_removed ok_failed_shadow_removed ok_invalidate_all)
qed

text \<open>C40: Whatever the interleaving of loads, edits, failures and invalidations, when the load a call waits for succeeds, its
  module (a cached one too) is made from a text the file had, at or after a version with the time of change that the
  \<open>stat\<close> of the call found. So when no other version of the file has that time of change, the text is one the file had
  between that \<open>stat\<close> and now. (A file that is replaced by one with the same time of change is not loaded again:
  lemma \<open>same_mtime_serves_old_text\<close>.)\<close>

theorem loaded_module_is_fresh:
  assumes "loader_reachable f s" "map_of (lo_calls s) c = Some call" "lc_load call = Some j"
    and "map_of (lo_loads s) j = Some l" "ld_phase l = Loaded source m"
  shows "f source = Inr m
    \<and> (\<exists>k. mtime_at s (lc_path call) k (lc_mtime call) \<and> had_text s (lc_path call) k source)
    \<and> ((\<forall>k. mtime_at s (lc_path call) k (lc_mtime call) \<longrightarrow> k = lc_version call)
        \<longrightarrow> had_text s (lc_path call) (lc_version call) source)"
proof -
  have ok: "loader_ok f s" by (rule loader_reachable_ok[OF assms(1)])
  have l: "load_ok f s l" by (rule ok_parts(1)[OF ok assms(4)])
  have call: "ld_path l = lc_path call" "ld_mtime l = lc_mtime call"
    using ok assms(2-4) unfolding loader_ok_def call_ok_def by (metis option.inject)+
  obtain k where k: "mtime_at s (lc_path call) k (lc_mtime call)" "had_text s (lc_path call) k source"
    using l assms(5) by (auto simp: load_ok_def call)
  then show ?thesis using l assms(5) by (auto simp: load_ok_def)
qed

section \<open>Examples\<close>

text \<open>In the examples a module is its text. The second call begins after an edit, while the first load is under way.\<close>

definition overlapping_loads :: "loader_event list" where
  "overlapping_loads = [Edited ''w'' 1 ''a'', StatTaken ''w'', CallContinues 0, SourceRead 1 None, ShadowWritten 1 None,
     Edited ''w'' 2 ''b'', StatTaken ''w'', CallContinues 2, SourceRead 3 None, ShadowWritten 3 None, ShadowImported 1, ShadowImported 3]"

definition loader_run :: "loader_event list \<Rightarrow> string loader" where
  "loader_run es = foldl (\<lambda>s e. loader_step Inr e s) new_loader es"

lemma loader_run_reachable: "loader_reachable Inr (loader_run es)"
  by (induction es rule: rev_induct) (auto simp: loader_run_def intro: loader_reachable.intros)

definition second_load :: "string load" where
  "second_load = \<lparr>ld_path = ''w'', ld_mtime = 2, ld_cached = Some 1, ld_shadow = Some (''w'', 2, 2), ld_phase = Loaded ''b'' ''b''\<rparr>"

theorem loaded_module_is_fresh_witness:
  "had_text (loader_run overlapping_loads) ''w'' 1 ''b''"
proof -
  let ?s = "loader_run overlapping_loads"
  let ?call = "\<lparr>lc_path = ''w'', lc_version = 1, lc_mtime = 2, lc_load = Some 3\<rparr>"
  have "map_of (lo_calls ?s) 2 = Some ?call" "map_of (lo_loads ?s) 3 = Some second_load" by code_simp+
  note fresh = loaded_module_is_fresh[OF loader_run_reachable this(1) _ this(2), of "''b''" "''b''"]
  have "versions (lo_files ?s) ''w'' = [Some (1, ''a''), Some (2, ''b'')]" by code_simp
  then have "\<forall>k. mtime_at ?s ''w'' k 2 \<longrightarrow> k = 1" by (auto simp: mtime_at_def less_Suc_eq)
  with fresh show ?thesis by (simp add: second_load_def)
qed

text \<open>A file that is replaced by one with the same time of change (an archive with fixed times, a copy that keeps them,
  two writes within one tick) is not loaded again: the call gets the module of a text the file no longer has.\<close>

definition same_mtime_replaced :: "loader_event list" where
  "same_mtime_replaced = [Edited ''w'' 1 ''a'', StatTaken ''w'', CallContinues 0, SourceRead 1 None, ShadowWritten 1 None,
     ShadowImported 1, Edited ''w'' 1 ''b'', StatTaken ''w'', CallContinues 2]"

lemma same_mtime_serves_old_text:
  "(\<exists>call l. map_of (lo_calls (loader_run same_mtime_replaced)) 2 = Some call \<and> lc_version call = 1 \<and> lc_load call = Some 1
     \<and> map_of (lo_loads (loader_run same_mtime_replaced)) 1 = Some l \<and> ld_phase l = Loaded ''a'' ''a'')
   \<and> current_version (lo_files (loader_run same_mtime_replaced)) ''w'' = Some (1, ''b'')"
proof -
  have "map_option (\<lambda>call. (lc_version call, lc_load call)) (map_of (lo_calls (loader_run same_mtime_replaced)) 2) = Some (1, Some 1)"
    "map_option ld_phase (map_of (lo_loads (loader_run same_mtime_replaced)) 1) = Some (Loaded ''a'' ''a'')"
    "current_version (lo_files (loader_run same_mtime_replaced)) ''w'' = Some (1, ''b'')"
    by code_simp+
  then show ?thesis by auto
qed

text \<open>A load that ends after a newer one began hands its copy to the entry of the newer one, which overwrites it: nothing
  removes that copy any more.\<close>

lemma overlapping_loads_leave_a_copy:
  "lo_shadows (invalidate_workers None (loader_run overlapping_loads)) = [(''w'', 1, 1)]
   \<and> lo_cache (invalidate_workers None (loader_run overlapping_loads)) = []"
  by code_simp

end
