(* ===== verification/Spec2Isabelle.thy ===== *)
theory Spec2Isabelle
  imports Ws_Ingress_Requests Cluster_Channels Distributed_Locator Summary_Props Sdk_Client_Props
    Serve_Props Agent_Props Auth_Props Bridge_Props Http_Props Cluster_Wiring
    Metrics_Props Server_Props Artifact_Props Loader_Props
begin

text \<open>
  A verification development of Hardess, a gateway for WebSocket and HTTP clients that runs on several
  nodes: clients hold WebSocket connections to a gateway and send each other messages, gateways find
  and reach each other's clients over a cluster network, HTTP requests are routed to the hosts that
  run a deployment, a control plane plans which host runs what, and a client library speaks the
  protocol. All file names are relative to \<open>src/src/\<close>.

  Program parts and theories.

  Foundations. \<open>Prelude\<close>: JavaScript Maps as association lists with distinct keys (\<open>wf_map\<close>), sorting
  by a comparator (\<open>js_sort\<close>, the locale \<open>comparator\<close>), truthiness of optional strings. \<open>Shared_Types\<close>:
  JSON values, envelopes, errors, system envelopes (shared/types.ts, envelope.ts, errors.ts, codes.ts,
  runtime/protocol/system-handlers.ts and acl.ts). \<open>Admin_Types\<close>: the data of the control plane
  (shared/admin-types.ts).

  The WebSocket ingress (runtime/ingress/websocket.ts). \<open>Outbound_Queue\<close> is the interface of an
  outbound queue; \<open>Ws_Outbound\<close> the queue of one connection with its limits, drain and retry;
  \<open>Ws_Ingress\<close> the gateway's state and every handler (open, message, close, drain, heartbeat,
  shutdown, cluster delivery). \<open>Ws_Ingress_Frame\<close> says operation by operation what a handler leaves
  alone, \<open>Ws_Ingress_Props\<close> and \<open>Ws_Ingress_Requests\<close> prove the invariants of all reachable gateways
  and what single requests do.

  Finding peers. \<open>Peer_Locator\<close>: the local connection index and the delivery plan
  (runtime/routing/peer-locator.ts, dispatcher.ts), refined to a finite map of connections.
  \<open>Distributed_Locator\<close>: the clustered lookup with its cache (runtime/cluster/peer-locator.ts), split
  at its suspension.

  The cluster (runtime/cluster/health.ts, network.ts). \<open>Cluster_Health\<close>: the status of the peers,
  suspicion timers and rumors. \<open>Cluster_Outbound\<close>: the queue of one channel. \<open>Cluster_Network\<close>: the
  channels of a node, connection attempts, requests, probes, gossip, the HTTP fallback and every
  message. \<open>Cluster_Network_Props\<close> accounts for every request; \<open>Cluster_Channels\<close> is about the
  handshake and the end of channels.

  Routing and placement. \<open>Topology\<close>: the topology store that routes an HTTP path to a host
  (runtime/control/topology-store.ts). \<open>Planning\<close> and \<open>Planning_Views\<close>: the planner and the read models
  (sdk/admin/planning.ts). \<open>Planning_Props\<close>: which hosts own a deployment and how ownership moves;
  \<open>Placement_Props\<close>: the placement snapshot; \<open>Control_Routing\<close>: planner, snapshots and the store of a
  gateway together; \<open>Summary_Props\<close>: what the read models count and compare.

  The client library. \<open>Sdk_Transport\<close>: the reconnecting socket (sdk/transport/ws.ts).
  \<open>Protocol_Registry\<close>: the registries of the gateway and of the library (runtime/protocol/registry.ts,
  sdk/protocol/registry.ts) with the locale \<open>module_registry\<close> that both instantiate. \<open>Sdk_Pending\<close> and
  \<open>Sdk_Client\<close>: one delivery in flight and the client (sdk/runtime/client.ts). \<open>Sdk_Client_Props\<close>: its
  promises, its readiness and the end of its deliveries.

  Serve applications. \<open>Runtime_Config\<close>: the data of the runtime's configuration
  (shared/types.ts). \<open>Serve_App\<close>: the routes, middleware and modules of a serve app
  (sdk/serve/index.ts, runtime/serve/worker.ts); \<open>Serve_Props\<close>: which route answers and in which order the middleware runs.

  Hosts. \<open>Service_Modules\<close>: the loaded service modules and the change of the active set
  (runtime/control/service-module-manager.ts), with \<open>Module_Props\<close> and \<open>Module_Claims\<close>; \<open>Config_Store\<close>: the
  configuration of a node and its reloads (runtime/config/store.ts); \<open>Host_Runtime\<close>: the adapter that
  applies a desired state (runtime/control/runtime-host-adapter.ts), with \<open>Host_Props\<close>; \<open>Admin_Client\<close>: the client of
  the admin interface, its transports and its mock (sdk/admin/client.ts, http.ts, mock.ts, transport.ts);
  \<open>Host_Agent\<close>: the polling agent (runtime/control/host-agent.ts), proved in \<open>Agent_Props\<close> over the locale
  \<open>host_runtime\<close>, which is interpreted on the adapter.

  \<open>Artifact_Store\<close>: the staging of artifacts on the disk of a host (runtime/control/artifact-store.ts), with
  \<open>Artifact_Props\<close>: what the digest of a staged entry is worth.

  \<open>Module_Loader\<close>: the loading of worker and service module files (runtime/workers/loader.ts,
  runtime/service-modules/loader.ts), with \<open>Loader_Props\<close>: which text a loaded module comes from.

  Authentication. \<open>Auth_Service\<close>: bearer tokens, providers, the cache and revocation (runtime/auth);
  \<open>Auth_Props\<close>: who is granted an identity and what a revocation takes away.

  Upstream proxies. \<open>Http_Proxy\<close>: the request sent to an upstream and the pipeline's worker
  (runtime/proxy/upstream.ts, workers/runner.ts); \<open>Upstream_Websocket\<close>: the bridge between the socket of
  a client and that of an upstream (runtime/proxy/upstream-websocket.ts), with the order of its messages
  in \<open>Bridge_Props\<close>.

  The HTTP ingress and the application. \<open>Http_Ingress\<close>: a request from its pipeline to the worker, the
  upstream or another gateway (runtime/ingress/http.ts); \<open>Runtime_App\<close>: listeners, dispatch, the
  requests of other gateways, requests in flight, shutdown (runtime/app.ts); \<open>Http_Props\<close>: whom a
  request speaks for, how often it is forwarded, what is exposed. \<open>Cluster_Wiring\<close>: the subscriptions
  between health store, topology store and network (runtime/app.ts).

  Observability. \<open>Metrics_Alerts\<close>: counters, timings and their window, the alert monitor and the text for
  Prometheus (runtime/observability/metrics.ts, alerts.ts, prometheus.ts); \<open>Metrics_Props\<close>: what an alert
  check sees of the window and what a percentile is.

  The server process. \<open>Bootstrap_Config\<close>: the configuration read from the environment
  (runtime/bootstrap-config.ts, parsers of cluster/schema.ts); \<open>Server_Process\<close>: what runtime/server.ts makes of
  it for the application, its listeners, its alerts and its shutdown; \<open>Server_Props\<close>: what an accepted
  configuration guarantees, which port exposes what, how long a shutdown takes.

  How the model corresponds to the code. A class or a closure with mutable variables is a record of
  its state; a method is a function of the same name (in snake case) from its arguments and the state
  to the result and the new state; errors are values of a sum or an option type. Time is an argument.
  Timers are flags or sets of armed timers, and their callbacks are operations. An \<open>await\<close> whose
  interleaving matters splits a method in two. Sockets, \<open>fetch\<close>, random ids, the zod parsers, user
  modules and \<open>localeCompare\<close> are parameters.

  Bounds and fuel. Loops that call out are folds over the list they run through. The drain loops of
  the outbound queues recurse on the queue. Nothing in the development is bounded by fuel. Integers
  of the code that only count or time are \<open>int\<close> or \<open>nat\<close>: they stay far below the exact range of
  JavaScript numbers; the routing hash is exact 32-bit arithmetic. Numbers of JSON and of the environment
  are rationals, infinities or NaN: they are not rounded, but infinite ones are written as null, the
  expiry of a context overflows, and a timer of the shutdown that is too long is due at once. Strings
  are lists of code units below 256; the sources of artifacts are bytes, decoded where the code reads text.

  Not modelled. The dispatch of socket events in runtime/app.ts, \<open>Bun.serve\<close> and process signals in server.ts,
  the processes the artifact store spawns, logging, the declarative zod schemas, demos and load
  generators. They are mostly calls of the platform.
\<close>

end
